(* ===== verification/Prelude.thy ===== *)
theory Prelude
  imports Main "HOL-Library.Word" "HOL-Library.AList" "HOL-Library.Multiset"
begin

text \<open>
  Shared ground of the development: the machine integers and byte strings of the Go code, results
  that carry an error value, the loops that stop at the first error, and Go maps with their laws.

  A Go map is an association list. Its order is the order in which the runtime happens to range
  over the map, so a statement about every association list is a statement about every iteration
  order. Reads go through \<^const>\<open>map_of\<close>, writes through \<open>AList.update\<close>, and the invariant
  \<open>gm_wf\<close> (no key twice) is what the runtime guarantees.
\<close>

section \<open>Machine integers and fixed-size byte arrays\<close>

type_synonym u8 = "8 word"
type_synonym u32 = "32 word"
type_synonym u64 = "64 word"

type_synonym byte = "8 word"

text \<open>\<open>common.Hash\<close> is a \<open>[32]byte\<close> and \<open>common.Address\<close> a \<open>[20]byte\<close>, read big-endian.\<close>

type_synonym hash = "256 word"
type_synonym address = "160 word"

named_theorems res_simps \<open>rewriting of results, error loops and their branches\<close>
named_theorems gm_simps \<open>reads of a Go map after writes\<close>

section \<open>Results\<close>

text \<open>A Go call \<open>v, err := f()\<close> is a sum: \<open>Inl err\<close> or \<open>Inr v\<close>.\<close>

definition bindE :: "'e + 'a \<Rightarrow> ('a \<Rightarrow> 'e + 'b) \<Rightarrow> 'e + 'b" where
  "bindE r f = (case r of Inl e \<Rightarrow> Inl e | Inr x \<Rightarrow> f x)"

lemma bindE_simps [simp, res_simps]:
  "bindE (Inl e) f = Inl e"
  "bindE (Inr x) f = f x"
  by (simp_all add: bindE_def)

lemma bindE_Inr_iff [res_simps]: "bindE r f = Inr y \<longleftrightarrow> (\<exists>x. r = Inr x \<and> f x = Inr y)"
  by (cases r) auto

lemma bindE_InrE: "bindE r f = Inr y \<Longrightarrow> (\<And>x. r = Inr x \<Longrightarrow> f x = Inr y \<Longrightarrow> P) \<Longrightarrow> P"
  by (cases r) auto

lemma bindE_Inl_iff: "bindE r f = Inl e \<longleftrightarrow> r = Inl e \<or> (\<exists>x. r = Inr x \<and> f x = Inl e)"
  by (cases r) auto

lemma bindE_cong [fundef_cong]:
  "r = r' \<Longrightarrow> (\<And>x. r' = Inr x \<Longrightarrow> f x = g x) \<Longrightarrow> bindE r f = bindE r' g"
  by (cases r') auto

text \<open>\<open>if cond { return err }\<close> before the rest of a function body.\<close>

definition guardE :: "bool \<Rightarrow> 'e \<Rightarrow> 'e + unit" where
  "guardE ok e = (if ok then Inr () else Inl e)"

lemma guardE_simps [simp, res_simps]:
  "guardE True e = Inr ()"
  "guardE False e = Inl e"
  "guardE b e = Inr u \<longleftrightarrow> b"
  "guardE b e = Inl e' \<longleftrightarrow> \<not> b \<and> e' = e"
  by (auto simp: guardE_def)

text \<open>Go's wrapping \<open>fmt.Errorf("...: %w", err)\<close>.\<close>

definition wrapE :: "('e \<Rightarrow> 'e) \<Rightarrow> 'e + 'a \<Rightarrow> 'e + 'a" where
  "wrapE w r = (case r of Inl e \<Rightarrow> Inl (w e) | Inr x \<Rightarrow> Inr x)"

lemma wrapE_simps [simp, res_simps]:
  "wrapE w (Inl e) = Inl (w e)"
  "wrapE w (Inr x) = Inr x"
  by (simp_all add: wrapE_def)

lemma wrapE_Inr_iff [simp, res_simps]: "wrapE w r = Inr x \<longleftrightarrow> r = Inr x"
  by (cases r) auto

lemma wrapE_Inl_iff: "wrapE w r = Inl e \<longleftrightarrow> (\<exists>e'. r = Inl e' \<and> e = w e')"
  by (cases r) auto

text \<open>
  A call that also acts on the world, such as a chain: it takes the world and returns a result and
  the next world. An error stops the caller, but what was done to the world stays done.
\<close>

definition bindW :: "('w \<Rightarrow> ('e + 'a) \<times> 'w) \<Rightarrow> ('a \<Rightarrow> 'w \<Rightarrow> ('e + 'b) \<times> 'w) \<Rightarrow> 'w \<Rightarrow> ('e + 'b) \<times> 'w" where
  "bindW m f w = (case m w of (Inl e, w') \<Rightarrow> (Inl e, w') | (Inr x, w') \<Rightarrow> f x w')"

definition wrapW :: "('e \<Rightarrow> 'e) \<Rightarrow> ('w \<Rightarrow> ('e + 'a) \<times> 'w) \<Rightarrow> 'w \<Rightarrow> ('e + 'a) \<times> 'w" where
  "wrapW g m w = (case m w of (r, w') \<Rightarrow> (wrapE g r, w'))"

lemma bindW_Inr_iff [res_simps]:
  "bindW m f w = (Inr y, w') \<longleftrightarrow> (\<exists>x v. m w = (Inr x, v) \<and> f x v = (Inr y, w'))"
  by (auto simp: bindW_def split: prod.splits sum.splits)

lemma bindW_Inr [simp]: "m w = (Inr x, w') \<Longrightarrow> bindW m f w = f x w'"
  by (simp add: bindW_def)

lemma bindW_Inl [simp]: "m w = (Inl e, w') \<Longrightarrow> bindW m f w = (Inl e, w')"
  by (simp add: bindW_def)

lemma wrapW_Inr_iff [simp, res_simps]: "wrapW g m w = (Inr x, w') \<longleftrightarrow> m w = (Inr x, w')"
  by (auto simp: wrapW_def split: prod.splits)

text \<open>A loop of calls that act on the world.\<close>

fun forW :: "('a \<Rightarrow> 'w \<Rightarrow> ('e + 'b) \<times> 'w) \<Rightarrow> 'a list \<Rightarrow> 'w \<Rightarrow> ('e + unit) \<times> 'w" where
  "forW f [] w = (Inr (), w)"
| "forW f (x # xs) w = bindW (f x) (\<lambda>_. forW f xs) w"

text \<open>A loop that builds a slice and returns at the first error.\<close>

fun mapE :: "('a \<Rightarrow> 'e + 'b) \<Rightarrow> 'a list \<Rightarrow> 'e + 'b list" where
  "mapE f [] = Inr []"
| "mapE f (x # xs) = bindE (f x) (\<lambda>y. bindE (mapE f xs) (\<lambda>ys. Inr (y # ys)))"

lemma mapE_Inr_iff: "mapE f xs = Inr ys \<longleftrightarrow> list_all2 (\<lambda>x y. f x = Inr y) xs ys"
proof (induction xs arbitrary: ys)
  case (Cons x xs)
  then show ?case by (cases ys) (auto simp: bindE_Inr_iff)
qed auto

lemma mapE_length: "mapE f xs = Inr ys \<Longrightarrow> length ys = length xs"
  by (auto simp: mapE_Inr_iff dest: list_all2_lengthD)

lemma mapE_nth: "mapE f xs = Inr ys \<Longrightarrow> i < length xs \<Longrightarrow> f (xs ! i) = Inr (ys ! i)"
  by (auto simp: mapE_Inr_iff dest: list_all2_nthD)

lemma mapE_mem:
  assumes "mapE f xs = Inr ys" and "x \<in> set xs"
  obtains y where "f x = Inr y" and "y \<in> set ys"
proof -
  from assms(2) obtain i where "i < length xs" and "xs ! i = x"
    by (auto simp: in_set_conv_nth)
  with assms(1) that show ?thesis
    by (metis mapE_length mapE_nth nth_mem)
qed

lemma mapE_mem_result: "mapE f xs = Inr ys \<Longrightarrow> y \<in> set ys \<Longrightarrow> \<exists>x \<in> set xs. f x = Inr y"
  by (induction xs arbitrary: ys) (auto simp: bindE_Inr_iff)

lemma mapE_map_Inr: "(\<And>x. x \<in> set xs \<Longrightarrow> f x = Inr (g x)) \<Longrightarrow> mapE f xs = Inr (map g xs)"
  by (induction xs) simp_all

lemma mapE_total: "(\<And>x. x \<in> set xs \<Longrightarrow> \<exists>y. f x = Inr y) \<Longrightarrow> \<exists>ys. mapE f xs = Inr ys"
proof (induction xs)
  case (Cons x xs)
  from Cons.prems [of x] obtain y where y: "f x = Inr y" by auto
  from Cons have "\<exists>ys. mapE f xs = Inr ys" by simp
  then obtain ys where "mapE f xs = Inr ys" by blast
  with y show ?case by simp
qed simp

lemma mapE_cong [fundef_cong]:
  "xs = ys \<Longrightarrow> (\<And>x. x \<in> set ys \<Longrightarrow> f x = g x) \<Longrightarrow> mapE f xs = mapE g ys"
  by (induction ys arbitrary: xs) auto

text \<open>A loop that updates a state and returns at the first error.\<close>

fun foldE :: "('s \<Rightarrow> 'a \<Rightarrow> 'e + 's) \<Rightarrow> 's \<Rightarrow> 'a list \<Rightarrow> 'e + 's" where
  "foldE f s [] = Inr s"
| "foldE f s (x # xs) = bindE (f s x) (\<lambda>s'. foldE f s' xs)"

lemma foldE_append: "foldE f s (xs @ ys) = bindE (foldE f s xs) (\<lambda>s'. foldE f s' ys)"
proof (induction xs arbitrary: s)
  case (Cons x xs)
  then show ?case by (cases "f s x") auto
qed auto

lemma foldE_cong [fundef_cong]:
  "s = t \<Longrightarrow> xs = ys \<Longrightarrow> (\<And>u x. x \<in> set ys \<Longrightarrow> f u x = g u x) \<Longrightarrow> foldE f s xs = foldE g t ys"
proof (induction ys arbitrary: s t xs)
  case (Cons y ys)
  then show ?case by (cases "g t y") auto
qed auto

lemma foldE_invariant:
  assumes "foldE f s xs = Inr t" and "P s"
    and "\<And>u x u'. P u \<Longrightarrow> x \<in> set xs \<Longrightarrow> f u x = Inr u' \<Longrightarrow> P u'"
  shows "P t"
  using assms
proof (induction xs arbitrary: s)
  case (Cons x xs)
  from Cons.prems(1) obtain u where u: "f s x = Inr u" and rest: "foldE f u xs = Inr t"
    by (auto simp: bindE_Inr_iff)
  from Cons.prems(3) [OF Cons.prems(2) _ u] have "P u" by simp
  show ?case
  proof (rule Cons.IH [OF rest \<open>P u\<close>])
    fix v y v'
    assume "P v" and "y \<in> set xs" and "f v y = Inr v'"
    then show "P v'" by (intro Cons.prems(3) [of v y v']) auto
  qed
qed simp

lemma foldE_Inl_witness: "foldE f s xs = Inl e \<Longrightarrow> \<exists>x \<in> set xs. \<exists>u. f u x = Inl e"
proof (induction xs arbitrary: s)
  case (Cons x xs)
  then show ?case by (cases "f s x") auto
qed simp

text \<open>A loop that only checks: the first element that fails decides.\<close>

definition allE :: "('a \<Rightarrow> 'e + unit) \<Rightarrow> 'a list \<Rightarrow> 'e + unit" where
  "allE f xs = foldE (\<lambda>_. f) () xs"

lemma allE_simps [simp]:
  "allE f [] = Inr ()"
  "allE f (x # xs) = bindE (f x) (\<lambda>_. allE f xs)"
  by (simp_all add: allE_def)

lemma allE_Inr_iff: "allE f xs = Inr u \<longleftrightarrow> (\<forall>x \<in> set xs. f x = Inr ())"
  by (induction xs) (auto simp: bindE_Inr_iff)

lemma allE_Inl_witness: "allE f xs = Inl e \<Longrightarrow> \<exists>x \<in> set xs. f x = Inl e"
proof (induction xs)
  case (Cons x xs)
  then show ?case by (cases "f x") auto
qed simp

lemma allE_cong [fundef_cong]:
  "xs = ys \<Longrightarrow> (\<And>x. x \<in> set ys \<Longrightarrow> f x = g x) \<Longrightarrow> allE f xs = allE g ys"
  unfolding allE_def by (rule foldE_cong) auto

section \<open>Go maps\<close>

type_synonym ('k, 'v) gomap = "('k \<times> 'v) list"

abbreviation gm_get :: "('k, 'v) gomap \<Rightarrow> 'k \<Rightarrow> 'v option" where
  "gm_get \<equiv> map_of"

abbreviation gm_put :: "'k \<Rightarrow> 'v \<Rightarrow> ('k, 'v) gomap \<Rightarrow> ('k, 'v) gomap" where
  "gm_put \<equiv> AList.update"

abbreviation gm_keys :: "('k, 'v) gomap \<Rightarrow> 'k list" where
  "gm_keys m \<equiv> map fst m"

definition gm_wf :: "('k, 'v) gomap \<Rightarrow> bool" where
  "gm_wf m \<longleftrightarrow> distinct (gm_keys m)"

text \<open>\<open>m[k]\<close> in an expression: the zero value when the key is absent.\<close>

definition gm_get0 :: "('k, 'v) gomap \<Rightarrow> 'k \<Rightarrow> 'v \<Rightarrow> 'v" where
  "gm_get0 m k z = (case gm_get m k of None \<Rightarrow> z | Some v \<Rightarrow> v)"

lemma gm_get_put [gm_simps]: "gm_get (gm_put k v m) = (gm_get m)(k \<mapsto> v)"
  by (simp add: update_conv')

lemma gm_wf_empty [simp]: "gm_wf []"
  by (simp add: gm_wf_def)

lemma gm_wf_put [simp]: "gm_wf m \<Longrightarrow> gm_wf (gm_put k v m)"
  by (simp add: gm_wf_def distinct_update)

lemma gm_keys_dom: "set (gm_keys m) = dom (gm_get m)"
  by (simp add: dom_map_of_conv_image_fst)

lemma gm_get_mem: "gm_wf m \<Longrightarrow> (k, v) \<in> set m \<longleftrightarrow> gm_get m k = Some v"
  by (simp add: gm_wf_def)

lemma gm_put_keys: "gm_keys (gm_put k v m) = (if k \<in> set (gm_keys m) then gm_keys m else gm_keys m @ [k])"
  by (induction m) auto

subsection \<open>The map contract, and the counting loop proved from it\<close>

locale go_map =
  fixes empty :: "'m"
    and get :: "'m \<Rightarrow> 'k \<Rightarrow> 'v :: comm_monoid_add option"
    and put :: "'k \<Rightarrow> 'v \<Rightarrow> 'm \<Rightarrow> 'm"
  assumes get_empty: "get empty k = None"
    and get_put: "get (put k v m) = (get m)(k \<mapsto> v)"
begin

text \<open>
  The loop \<open>for x in xs { m[key x] += amount x }\<close>, started on any map: every key that occurs gets
  the sum of the amounts on top of what it had, all other keys are untouched.
\<close>

lemma key_absent: "k \<notin> key ` set xs \<Longrightarrow> filter (\<lambda>x. key x = k) xs = []"
  by (auto simp: filter_empty_conv)

lemma accumulate:
  "get (foldl (\<lambda>m x. put (key x) (case_option 0 id (get m (key x)) + amount x) m) m0 xs) k =
     (if k \<in> key ` set xs
      then Some (case_option 0 id (get m0 k) + sum_list (map amount (filter (\<lambda>x. key x = k) xs)))
      else get m0 k)"
proof (induction xs rule: rev_induct)
  case (snoc x xs)
  then show ?case
    by (cases "key x = k"; cases "key x \<in> key ` set xs")
      (auto simp: get_put snoc.IH add.assoc key_absent)
qed simp

lemma accumulate_empty:
  "get (foldl (\<lambda>m x. put (key x) (case_option 0 id (get m (key x)) + amount x) m) empty xs) k =
     (if k \<in> key ` set xs then Some (sum_list (map amount (filter (\<lambda>x. key x = k) xs))) else None)"
  by (simp add: accumulate get_empty)

end

interpretation gm: go_map "[]" gm_get gm_put
  by unfold_locales (simp_all add: gm_get_put)

section \<open>Big-endian bytes\<close>

unbundle bit_operations_syntax

text \<open>The \<open>n\<close> bytes of a word, most significant first, and the word of a byte string.\<close>

definition be_bytes :: "nat \<Rightarrow> 'a::len word \<Rightarrow> byte list" where
  "be_bytes n w = map (\<lambda>i. ucast (drop_bit (8 * (n - Suc i)) w)) [0..<n]"

definition from_be :: "byte list \<Rightarrow> 'a::len word" where
  "from_be bs = foldl (\<lambda>acc b. push_bit 8 acc OR ucast b) 0 bs"

lemma length_be_bytes [simp]: "length (be_bytes n w) = n"
  by (simp add: be_bytes_def)

lemma be_bytes_Suc: "be_bytes (Suc n) w = ucast (drop_bit (8 * n) w) # be_bytes n w"
proof -
  have "[0..<Suc n] = 0 # map Suc [0..<n]" by (simp add: upt_conv_Cons map_Suc_upt del: upt_Suc)
  then show ?thesis by (simp add: be_bytes_def comp_def del: upt_Suc)
qed

lemma from_be_acc:
  "foldl (\<lambda>acc b. push_bit 8 acc OR ucast b) acc (be_bytes n w) =
     push_bit (8 * n) acc OR take_bit (8 * n) (w :: 'a::len word)"
proof (induction n arbitrary: acc)
  case 0
  then show ?case by (simp add: be_bytes_def)
next
  case (Suc n)
  have "push_bit (8 * n) (push_bit 8 acc OR ucast (ucast (drop_bit (8 * n) w) :: byte)) OR take_bit (8 * n) w =
      push_bit (8 * Suc n) acc OR take_bit (8 * Suc n) w"
    by (rule bit_word_eqI) (auto simp: bit_simps add.commute [of 8])
  then show ?case by (simp add: be_bytes_Suc Suc)
qed

lemma from_be_bytes: "LENGTH('a) \<le> 8 * n \<Longrightarrow> from_be (be_bytes n w) = (w :: 'a::len word)"
  by (simp add: from_be_def from_be_acc take_bit_word_eq_self)

lemma be_bytes_inject:
  "LENGTH('a) \<le> 8 * n \<Longrightarrow> be_bytes n v = be_bytes n w \<longleftrightarrow> v = (w :: 'a::len word)"
  by (metis from_be_bytes)

lemma from_be_snoc: "from_be (bs @ [b]) = push_bit 8 (from_be bs) OR ucast b"
  by (simp add: from_be_def)

lemma be_bytes_snoc: "be_bytes (Suc n) w = be_bytes n (drop_bit 8 w) @ [ucast (w :: 'a::len word)]"
proof -
  have "drop_bit (8 * (n - i)) w = drop_bit (8 * (n - Suc i)) (drop_bit 8 w)" if "i < n" for i
    using that by (simp add: Suc_diff_Suc [symmetric] add.commute)
  then show ?thesis by (auto simp: be_bytes_def)
qed

lemma from_be_bits: "bit (from_be bs :: 'a::len word) k \<Longrightarrow> k < 8 * length bs"
proof (induction bs arbitrary: k rule: rev_induct)
  case (snoc b bs)
  then have "8 \<le> k \<and> bit (from_be bs :: 'a word) (k - 8) \<or> bit b k"
    by (auto simp: from_be_snoc bit_simps)
  then show ?case using snoc.IH [of "k - 8"] by (auto dest: bit_imp_le_length)
qed (simp add: from_be_def)

lemma be_bytes_from_be:
  "8 * length bs \<le> LENGTH('a) \<Longrightarrow> be_bytes (length bs) (from_be bs :: 'a::len word) = bs"
proof (induction bs rule: rev_induct)
  case (snoc b bs)
  let ?w = "from_be bs :: 'a word"
  have "drop_bit 8 (push_bit 8 ?w OR ucast b) = ?w"
  proof (rule bit_word_eqI)
    fix k
    assume "k < LENGTH('a)"
    moreover have "\<not> bit b (8 + k)" by (auto dest: bit_imp_le_length)
    ultimately show "bit (drop_bit 8 (push_bit 8 ?w OR ucast b)) k = bit ?w k"
      using snoc.prems by (auto simp: bit_simps dest: from_be_bits)
  qed
  moreover have "ucast (push_bit 8 ?w OR ucast b) = b"
    by (rule bit_word_eqI) (use snoc.prems in \<open>auto simp: bit_simps\<close>)
  ultimately show ?case using snoc by (simp add: from_be_snoc be_bytes_snoc)
qed (simp add: be_bytes_def)

section \<open>Lists\<close>

text \<open>Removing duplicates but keeping the first occurrence of each element, as a \<open>seen\<close> set does.\<close>

fun dedup_seen :: "'a set \<Rightarrow> 'a list \<Rightarrow> 'a list" where
  "dedup_seen S [] = []"
| "dedup_seen S (x # xs) = (if x \<in> S then dedup_seen S xs else x # dedup_seen (insert x S) xs)"

lemma set_dedup_seen: "set (dedup_seen S xs) = set xs - S"
  by (induction S xs rule: dedup_seen.induct) auto

lemma distinct_dedup_seen: "distinct (dedup_seen S xs)"
  by (induction S xs rule: dedup_seen.induct) (auto simp: set_dedup_seen)

lemma dedup_seen_append:
  "dedup_seen S (xs @ ys) = dedup_seen S xs @ dedup_seen (S \<union> set xs) ys"
  by (induction S xs rule: dedup_seen.induct) (auto simp: insert_absorb)

end
