(* ===== verification/Errors.thy ===== *)
theory Errors
  imports Prelude
begin

text \<open>
  The error values of the library: the error structs of \<open>errors.go\<close> and \<open>sdk/errors/errors.go\<close>,
  the sentinel errors of the packages, errors made by \<open>errors.New\<close> and \<open>fmt.Errorf\<close> (kept as their
  format string) and wrapped errors. A run-time panic of Go is an error value too, so that a
  statement "this call does not panic" can be made and proved.
\<close>

text \<open>\<open>types.Signature\<close>: the two 32-byte words and the recovery byte.\<close>

record signature =
  sig_R :: hash
  sig_S :: hash
  sig_V :: u8

type_synonym chain_selector = u64

text \<open>
  The chain families are string constants of \<open>chain-selectors\<close>. The \<open>switch\<close> statements of the
  repository list them as separate cases, which Go accepts for distinct constants only, so they are
  distinct constructors here; any other string is \<open>OtherFamily\<close>.
\<close>

datatype family =
    FamilyEVM | FamilySolana | FamilyAptos | FamilySui | FamilyTon | FamilyStellar | FamilyCanton
  | OtherFamily string

datatype mcms_error =
    OperationNotReadyError nat
  | OperationNotPendingError nat
  | OperationNotDoneError nat
  | InvalidProposalKindError string string
  | EncoderNotFoundError chain_selector
  | ChainMetadataNotFoundError chain_selector
  | InconsistentConfigsError chain_selector chain_selector
  | QuorumNotReachedError chain_selector
  | InvalidValidUntilError u32
  | InvalidSignatureError address
  | InvalidSignatureAtIndexError nat signature address "mcms_error option"
  | DuplicateSignersError string
  | ErrInvalidConfig string
  | TreeNodeNotFoundError hash
  | ErrNoLayers
  | ErrInspectorsNotProvided
  | ErrSimulatorsNotProvided
  | ErrChainFamilyNotFound chain_selector
  | ErrUnsupportedChainFamily family
  | TooManySignersError u64
  | InvalidTimelockOperationError string
  | RangeExceeded string int
  | Errorf string
  | Wrapf string mcms_error
  | External string
  | Panic string

type_synonym 'a res = "mcms_error + 'a"

text \<open>Whether an error is, or wraps, a run-time panic.\<close>

fun is_panic :: "mcms_error \<Rightarrow> bool" where
  "is_panic (Panic _) = True"
| "is_panic (Wrapf _ e) = is_panic e"
| "is_panic _ = False"

definition panics :: "'a res \<Rightarrow> bool" where
  "panics r = (case r of Inl e \<Rightarrow> is_panic e | Inr _ \<Rightarrow> False)"

lemma panics_simps [simp]:
  "panics (Inl e) = is_panic e"
  "\<not> panics (Inr x)"
  by (simp_all add: panics_def)

text \<open>\<open>*p\<close> panics on a nil pointer.\<close>

definition deref :: "'a option \<Rightarrow> 'a res" where
  "deref p = (case p of None \<Rightarrow> Inl (Panic ''nil pointer dereference'') | Some x \<Rightarrow> Inr x)"

lemma deref_simps [simp]: "deref None = Inl (Panic ''nil pointer dereference'')" "deref (Some x) = Inr x"
  by (simp_all add: deref_def)

lemma mapE_deref_Some [simp]: "mapE deref (map Some xs) = Inr xs"
  by (induction xs) simp_all

lemma mapE_deref: "None \<notin> set ps \<Longrightarrow> mapE deref ps = Inr (map the ps)"
proof (induction ps)
  case (Cons p ps)
  then show ?case by (cases p) auto
qed simp

text \<open>\<open>errors.Is(err, target)\<close>, through the errors wrapped with \<open>%w\<close>.\<close>

fun errors_Is :: "mcms_error \<Rightarrow> mcms_error \<Rightarrow> bool" where
  "errors_Is (Wrapf f err) target \<longleftrightarrow> Wrapf f err = target \<or> errors_Is err target"
| "errors_Is err target \<longleftrightarrow> err = target"

end
