(* ===== verification/Config.thy ===== *)
theory Config
  imports Errors
begin

text \<open>
  \<open>types/config.go\<close>: the signer tree of an MCMS contract, its validation, its comparison, the two
  flattenings of its signers and the quorum computation.
\<close>

section \<open>The configuration tree\<close>

datatype config = Config (Quorum: u8) (Signers: "address list") (GroupSigners: "config list")

subsection \<open>Signer rosters\<close>

text \<open>The closure \<open>collect\<close> of \<open>AllSigners\<close>, with its two captured variables as the state.\<close>

definition collect_signer :: "address set \<times> address list \<Rightarrow> address \<Rightarrow> address set \<times> address list" where
  "collect_signer st s = (case st of (seen, signers) \<Rightarrow>
     if s \<notin> seen then (insert s seen, signers @ [s]) else (seen, signers))"

fun collect :: "config \<Rightarrow> address set \<times> address list \<Rightarrow> address set \<times> address list" where
  "collect (Config q ss gs) st = foldl (\<lambda>st' g. collect g st') (foldl collect_signer st ss) gs"

definition AllSigners :: "config \<Rightarrow> address list" where
  "AllSigners c = snd (collect c ({}, []))"

fun GetAllSigners :: "config \<Rightarrow> address list" where
  "GetAllSigners (Config q ss gs) = ss @ concat (map GetAllSigners gs)"

subsection \<open>Validation\<close>

fun config_Validate :: "config \<Rightarrow> unit res" where
  "config_Validate (Config q ss gs) =
     (if q = 0 then Inl (ErrInvalidConfig ''Quorum must be greater than 0'')
      else if length ss = 0 \<and> length gs = 0
        then Inl (ErrInvalidConfig ''Config must have at least one signer or group'')
      else if length ss + length gs < unat q
        then Inl (ErrInvalidConfig
                   ''Quorum must be less than or equal to the number of signers and groups'')
      else allE config_Validate gs)"

definition NewConfig :: "u8 \<Rightarrow> address list \<Rightarrow> config list \<Rightarrow> config res" where
  "NewConfig q ss gs =
     (let config = Config q ss gs in bindE (config_Validate config) (\<lambda>_. Inr config))"

subsection \<open>Comparison\<close>

text \<open>\<open>countMap\<close> is a Go map from elements to \<open>int\<close>; an absent key reads as 0.\<close>

fun consume_counts :: "('a \<Rightarrow> int) \<Rightarrow> 'a list \<Rightarrow> bool" where
  "consume_counts countMap [] = True"
| "consume_counts countMap (elem # b) =
     (if countMap elem = 0 then False
      else consume_counts (countMap(elem := countMap elem - 1)) b)"

definition unorderedArrayEquals :: "'a list \<Rightarrow> 'a list \<Rightarrow> bool" where
  "unorderedArrayEquals a b =
     (if length a \<noteq> length b then False
      else consume_counts (foldl (\<lambda>countMap elem. countMap(elem := countMap elem + 1)) (\<lambda>_. 0) a) b)"

fun config_Equals :: "config \<Rightarrow> config \<Rightarrow> bool" where
  "config_Equals (Config q ss gs) (Config q' ss' gs') =
     (if q \<noteq> q' then False
      else if \<not> unorderedArrayEquals ss ss' then False
      else if length gs \<noteq> length gs' then False
      else list_all (\<lambda>g. list_ex (\<lambda>g'. config_Equals g g') gs') gs)"

subsection \<open>Quorum\<close>

fun isGroupAtConsensus :: "config \<Rightarrow> address list \<Rightarrow> bool" where
  "isGroupAtConsensus (Config q ss gs) recoveredSigners =
     (let signerApprovalsInGroup = length (filter (\<lambda>signer. signer \<in> set recoveredSigners) ss);
          groupApprovals = length (filter (\<lambda>g. isGroupAtConsensus g recoveredSigners) gs)
      in signerApprovalsInGroup + groupApprovals \<ge> unat q)"

definition QuorumMet :: "config \<Rightarrow> address list \<Rightarrow> bool" where
  "QuorumMet c recoveredSigners = isGroupAtConsensus c recoveredSigners"

definition CanSetRoot :: "config \<Rightarrow> address list \<Rightarrow> bool res" where
  "CanSetRoot c recoveredSigners =
     (let allSigners = GetAllSigners c in
      bindE (allE (\<lambda>s. if s \<notin> set allSigners
                        then Inl (Errorf ''recovered signer %s is not a valid signer in the MCMS proposal'')
                        else Inr ())
               recoveredSigners)
        (\<lambda>_. Inr (isGroupAtConsensus c recoveredSigners)))"

section \<open>Signer rosters: lemmas\<close>

lemma collect_signers_foldl:
  "foldl collect_signer (seen, out) ss = (seen \<union> set ss, out @ dedup_seen seen ss)"
  by (induction ss arbitrary: seen out) (auto simp: collect_signer_def insert_absorb)

lemma collect_spec:
  "collect c (seen, out) = (seen \<union> set (GetAllSigners c), out @ dedup_seen seen (GetAllSigners c))"
proof (induction c arbitrary: seen out)
  case (Config q ss gs)
  have "foldl (\<lambda>st g. collect g st) (seen', out') hs =
      (seen' \<union> set (concat (map GetAllSigners hs)),
       out' @ dedup_seen seen' (concat (map GetAllSigners hs)))"
    if "set hs \<subseteq> set gs" for seen' out' hs
    using that
    by (induction hs arbitrary: seen' out') (auto simp: Config dedup_seen_append Un_assoc)
  then show ?case
    by (simp add: collect_signers_foldl dedup_seen_append Un_assoc)
qed

lemma AllSigners_dedup: "AllSigners c = dedup_seen {} (GetAllSigners c)"
  by (simp add: AllSigners_def collect_spec)

section \<open>Comparison: lemmas\<close>

lemma foldl_counts:
  "foldl (\<lambda>m x. m(x := m x + 1)) m a = (\<lambda>x. m x + int (count (mset a) x))"
  by (induction a arbitrary: m) (auto simp: fun_eq_iff)

lemma consume_counts_subset:
  "consume_counts (\<lambda>x. int (count M x)) b \<longleftrightarrow> mset b \<subseteq># M"
proof (induction b arbitrary: M)
  case (Cons x b)
  show ?case
  proof (cases "x \<in># M")
    case True
    then have "(\<lambda>y. int (count M y))(x := int (count M x) - 1) = (\<lambda>y. int (count (M - {#x#}) y))"
      by (auto simp: fun_eq_iff of_nat_diff)
    moreover from True have "int (count M x) \<noteq> 0"
      by (simp add: not_in_iff [symmetric])
    ultimately show ?thesis
      using True Cons.IH [of "M - {#x#}"] by (simp only: consume_counts.simps if_False)
        (simp add: insert_subset_eq_iff)
  next
    case False
    then show ?thesis
      by (simp add: not_in_iff) (metis mset_subset_eq_insertD not_in_iff)
  qed
qed simp

lemma unorderedArrayEquals_mset: "unorderedArrayEquals a b \<longleftrightarrow> mset a = mset b"
proof -
  have "mset b \<subseteq># mset a \<and> length a = length b \<longleftrightarrow> mset a = mset b"
    by (metis mset_subset_size size_mset subset_mset.le_less mset_eq_length less_irrefl subset_mset.order_refl)
  then show ?thesis
    using consume_counts_subset [of "mset a" b]
    by (auto simp: unorderedArrayEquals_def foldl_counts)
qed

subsection \<open>What Equals compares: trees up to the order of signers and groups\<close>

datatype config_tree = CTree u8 "address multiset" "config_tree multiset"

fun config_abs :: "config \<Rightarrow> config_tree" where
  "config_abs (Config q ss gs) = CTree q (mset ss) (mset (map config_abs gs))"

text \<open>No group of the tree has two sub-groups that are the same up to order.\<close>

fun siblings_distinct :: "config \<Rightarrow> bool" where
  "siblings_distinct (Config q ss gs) \<longleftrightarrow>
     distinct (map config_abs gs) \<and> list_all siblings_distinct gs"

lemma config_Equals_abs:
  "config_abs c = config_abs d \<Longrightarrow> config_Equals c d"
proof (induction c d rule: config_Equals.induct)
  case (1 q ss gs q' ss' gs')
  from 1(2) have base: "q = q'" "mset ss = mset ss'"
    and groups: "mset (map config_abs gs) = mset (map config_abs gs')"
    by simp_all
  from groups have len: "length gs = length gs'"
    by (metis length_map mset_eq_length)
  have "\<exists>g' \<in> set gs'. config_Equals g g'" if g: "g \<in> set gs" for g
  proof -
    from groups have "set (map config_abs gs) = set (map config_abs gs')"
      by (rule mset_eq_setD)
    with g obtain g' where "g' \<in> set gs'" and "config_abs g = config_abs g'"
      by (auto simp: set_eq_iff image_iff)
    with 1(1) [OF _ _ _ g] base len show ?thesis
      by (auto simp: unorderedArrayEquals_mset)
  qed
  with base len show ?case
    by (simp add: unorderedArrayEquals_mset list_all_iff list_ex_iff)
qed

lemma distinct_sub_mset:
  assumes "distinct xs" and "set xs \<subseteq> set ys" and "length xs = length ys"
  shows "mset xs = mset ys"
proof -
  from assms have "card (set ys) \<le> card (set xs)"
    by (simp add: distinct_card card_length)
  with assms(2) have "set xs = set ys" by (simp add: card_seteq)
  moreover from this assms have "distinct ys"
    by (metis card_distinct distinct_card)
  ultimately show ?thesis using assms(1) by (simp add: set_eq_iff_mset_eq_distinct)
qed

lemma config_Equals_exact:
  "config_Equals c d \<Longrightarrow> siblings_distinct c \<Longrightarrow> config_abs c = config_abs d"
proof (induction c d rule: config_Equals.induct)
  case (1 q ss gs q' ss' gs')
  from 1(2) have base: "q = q'" "mset ss = mset ss'" "length gs = length gs'"
    and ex: "\<forall>g \<in> set gs. \<exists>g' \<in> set gs'. config_Equals g g'"
    by (auto simp: unorderedArrayEquals_mset list_all_iff list_ex_iff split: if_splits)
  have "config_abs g \<in> set (map config_abs gs')" if g: "g \<in> set gs" for g
  proof -
    from ex g obtain g' where g': "g' \<in> set gs'" "config_Equals g g'" by blast
    from 1(3) g have "siblings_distinct g" by (simp add: list_all_iff)
    with 1(1) [OF _ _ _ g g'(1,2)] base g'(1) show ?thesis
      by (simp add: unorderedArrayEquals_mset)
  qed
  then have "set (map config_abs gs) \<subseteq> set (map config_abs gs')" by auto
  moreover from 1(3) have "distinct (map config_abs gs)" by simp
  ultimately have "mset (map config_abs gs) = mset (map config_abs gs')"
    using base(3) by (intro distinct_sub_mset) simp_all
  with base show ?case by simp
qed

section \<open>Quorum: lemmas\<close>

lemma filter_length_mono:
  "(\<And>x. x \<in> set xs \<Longrightarrow> P x \<Longrightarrow> Q x) \<Longrightarrow> length (filter P xs) \<le> length (filter Q xs)"
  by (induction xs) (auto simp: le_SucI)

lemma isGroupAtConsensus_mono:
  "isGroupAtConsensus c xs \<Longrightarrow> set xs \<inter> set (GetAllSigners c) \<subseteq> set ys \<Longrightarrow> isGroupAtConsensus c ys"
proof (induction c)
  case (Config q ss gs)
  have "length (filter (\<lambda>s. s \<in> set xs) ss) \<le> length (filter (\<lambda>s. s \<in> set ys) ss)"
    using Config.prems(2) by (intro filter_length_mono) auto
  moreover have "length (filter (\<lambda>g. isGroupAtConsensus g xs) gs)
      \<le> length (filter (\<lambda>g. isGroupAtConsensus g ys) gs)"
  proof (rule filter_length_mono)
    fix g
    assume "g \<in> set gs" and "isGroupAtConsensus g xs"
    then show "isGroupAtConsensus g ys"
      using Config.IH [of g] Config.prems(2) by auto
  qed
  ultimately show ?case using Config.prems(1) by (auto simp: Let_def)
qed

lemma valid_consensus:
  "config_Validate c = Inr () \<Longrightarrow> set (GetAllSigners c) \<subseteq> set xs \<Longrightarrow> isGroupAtConsensus c xs"
proof (induction c)
  case (Config q ss gs)
  from Config.prems(1) have enough: "unat q \<le> length ss + length gs"
    and sub: "\<forall>g \<in> set gs. config_Validate g = Inr ()"
    by (auto simp: allE_Inr_iff split: if_splits)
  have "filter (\<lambda>s. s \<in> set xs) ss = ss"
    using Config.prems(2) by (auto simp: filter_id_conv)
  moreover have "filter (\<lambda>g. isGroupAtConsensus g xs) gs = gs"
    using Config.IH Config.prems(2) sub by (force simp: filter_id_conv)
  ultimately show ?case using enough by (simp add: Let_def)
qed

lemma valid_no_consensus:
  "config_Validate c = Inr () \<Longrightarrow> set xs \<inter> set (GetAllSigners c) = {} \<Longrightarrow> \<not> isGroupAtConsensus c xs"
proof (induction c)
  case (Config q ss gs)
  from Config.prems(1) have "0 < unat q" and sub: "\<forall>g \<in> set gs. config_Validate g = Inr ()"
    by (auto simp: allE_Inr_iff unat_gt_0 split: if_splits)
  moreover have "filter (\<lambda>s. s \<in> set xs) ss = []"
    using Config.prems(2) by (auto simp: filter_empty_conv)
  moreover have "filter (\<lambda>g. isGroupAtConsensus g xs) gs = []"
    using Config.IH Config.prems(2) sub by (force simp: filter_empty_conv)
  ultimately show ?case by (simp add: Let_def)
qed

lemma CanSetRoot_Inr:
  "CanSetRoot c xs = Inr b \<longleftrightarrow> set xs \<subseteq> set (GetAllSigners c) \<and> b = isGroupAtConsensus c xs"
  by (auto simp: CanSetRoot_def Let_def bindE_Inr_iff allE_Inr_iff split: if_splits)

section \<open>The abstract specification of rosters and quorums\<close>

text \<open>On the tree up to order: the signers with multiplicity, and the threshold of each group.\<close>

primrec tree_signers :: "config_tree \<Rightarrow> address multiset" where
  "tree_signers (CTree q ss gs) = ss + sum_mset (image_mset tree_signers gs)"

primrec tree_consensus :: "address set \<Rightarrow> config_tree \<Rightarrow> bool" where
  "tree_consensus A (CTree q ss gs) \<longleftrightarrow>
     unat q \<le> size (filter_mset (\<lambda>s. s \<in> A) ss) + size (filter_mset id (image_mset (tree_consensus A) gs))"

lemma GetAllSigners_tree: "mset (GetAllSigners c) = tree_signers (config_abs c)"
proof (induction c)
  case (Config q ss gs)
  have "mset (concat (map GetAllSigners hs)) = sum_mset (image_mset tree_signers (mset (map config_abs hs)))"
    if "set hs \<subseteq> set gs" for hs
    using that by (induction hs) (auto simp: Config.IH)
  from this [OF order_refl] show ?case by simp
qed

lemma size_filter_id: "length (filter id (map P xs)) = length (filter P xs)"
  by (induction xs) auto

lemma isGroupAtConsensus_tree: "isGroupAtConsensus c xs \<longleftrightarrow> tree_consensus (set xs) (config_abs c)"
proof (induction c)
  case (Config q ss gs)
  have "image_mset (tree_consensus (set xs)) (mset (map config_abs gs)) =
      mset (map (\<lambda>g. isGroupAtConsensus g xs) gs)"
    by (simp add: Config.IH cong: map_cong flip: mset_map)
  then show ?case
    by (simp only: config_abs.simps tree_consensus.simps size_filter_id isGroupAtConsensus.simps
        Let_def size_mset flip: mset_filter)
qed

lemma config_abs_consensus:
  "config_abs c = config_abs d \<Longrightarrow> isGroupAtConsensus c xs \<longleftrightarrow> isGroupAtConsensus d xs"
  by (simp add: isGroupAtConsensus_tree)

lemma config_abs_signers:
  "config_abs c = config_abs d \<Longrightarrow> mset (GetAllSigners c) = mset (GetAllSigners d)"
  by (simp add: GetAllSigners_tree)

section \<open>Properties\<close>

text \<open>
  C1: For a configuration in which no group has two sub-groups that are the same up to order,
  Equals answers exactly whether the two trees agree up to the order of signers and of groups.
\<close>

theorem config_Equals_decides:
  assumes "siblings_distinct c"
  shows "config_Equals c d \<longleftrightarrow> config_abs c = config_abs d"
  using assms config_Equals_abs config_Equals_exact by blast

theorem config_Equals_decides_witness:
  "config_Equals (Config 1 [1, 2] [Config 1 [3] [], Config 2 [4, 5] []])
                 (Config 1 [2, 1] [Config 2 [5, 4] [], Config 1 [3] []])"
proof -
  have "siblings_distinct (Config 1 [1, 2] [Config 1 [3] [], Config 2 [4, 5] []])" by simp
  from config_Equals_decides [OF this] show ?thesis
    by (simp add: add_mset_commute del: config_Equals.simps)
qed

text \<open>
  Equals is not symmetric: there are two valid configurations with c equal to d and d not
  equal to c. The search runs in one direction only, and equal lengths do not make up for it when
  a group is repeated.
\<close>

theorem config_Equals_not_symmetric:
  "\<exists>c d. config_Validate c = Inr () \<and> config_Validate d = Inr () \<and>
         config_Equals c d \<and> \<not> config_Equals d c"
proof (intro exI conjI)
  let ?a = "Config 1 [1] []" and ?b = "Config 1 [2] []"
  show "config_Validate (Config 1 [] [?a, ?a]) = Inr ()" by simp
  show "config_Validate (Config 1 [] [?a, ?b]) = Inr ()" by simp
  show "config_Equals (Config 1 [] [?a, ?a]) (Config 1 [] [?a, ?b])"
    by (simp add: unorderedArrayEquals_mset)
  show "\<not> config_Equals (Config 1 [] [?a, ?b]) (Config 1 [] [?a, ?a])"
    by (simp add: unorderedArrayEquals_mset)
qed

text \<open>
  C2: A valid configuration can be satisfied and is never satisfied for free: its own roster can
  set the root, no set of strangers reaches the quorum, and adding recovered signers never loses
  a quorum that was reached.
\<close>

theorem quorum_live_and_safe:
  assumes "config_Validate c = Inr ()"
  shows "CanSetRoot c (AllSigners c) = Inr True
    \<and> (set xs \<inter> set (GetAllSigners c) = {} \<longrightarrow> \<not> QuorumMet c xs)
    \<and> (QuorumMet c xs \<and> set xs \<subseteq> set ys \<longrightarrow> QuorumMet c ys)"
  using assms valid_consensus [of c "AllSigners c"] valid_no_consensus [of c xs]
    isGroupAtConsensus_mono [of c xs ys]
  by (auto simp: CanSetRoot_Inr AllSigners_dedup set_dedup_seen QuorumMet_def)

theorem quorum_live_and_safe_witness:
  "CanSetRoot (Config 2 [7] [Config 1 [8, 9] []]) [7, 8, 9] = Inr True \<and>
   \<not> QuorumMet (Config 2 [7] [Config 1 [8, 9] []]) [10]"
proof -
  let ?c = "Config 2 [7] [Config 1 [8, 9] []]"
  have valid: "config_Validate ?c = Inr ()" by simp
  have roster: "AllSigners ?c = [7, 8, 9]" by (simp add: AllSigners_dedup)
  show ?thesis
    using quorum_live_and_safe [OF valid, of "[10]" "[]"]
    by (simp add: roster del: isGroupAtConsensus.simps)
qed

text \<open>
  CanSetRoot succeeds exactly when every recovered address is in the tree, and then reports
  the quorum; the roster AllSigners lists each address of GetAllSigners once, in tree order.
\<close>

theorem CanSetRoot_exact:
  "(CanSetRoot c xs = Inr b \<longleftrightarrow> set xs \<subseteq> set (AllSigners c) \<and> b = QuorumMet c xs) \<and>
   distinct (AllSigners c) \<and> AllSigners c = dedup_seen {} (GetAllSigners c)"
  by (auto simp: CanSetRoot_Inr AllSigners_dedup set_dedup_seen distinct_dedup_seen QuorumMet_def)

end
