(* ===== verification/SafeCast.thy ===== *)
theory SafeCast
  imports Errors
begin

text \<open>
  \<open>internal/utils/safecast/safecast.go\<close>. The conversions after the range checks are calls of
  \<open>github.com/spf13/cast\<close>, which is not part of the repository: they are the fields of the record
  \<open>cast_pkg\<close>, and \<open>casts_documented\<close> states their documented result on values that fit and their
  documented refusal of negative values.
\<close>

record cast_pkg =
  ToUint8E :: "int \<Rightarrow> u8 res"
  ToUint32E :: "int \<Rightarrow> u32 res"
  ToUint64E :: "int \<Rightarrow> u64 res"
  ToInt64E :: "int \<Rightarrow> int res"

definition casts_documented :: "('a cast_pkg_scheme) \<Rightarrow> bool" where
  "casts_documented X \<longleftrightarrow>
     (\<forall>v. 0 \<le> v \<and> v < 2 ^ 8 \<longrightarrow> ToUint8E X v = Inr (word_of_int v)) \<and>
     (\<forall>v. 0 \<le> v \<and> v < 2 ^ 32 \<longrightarrow> ToUint32E X v = Inr (word_of_int v)) \<and>
     (\<forall>v. 0 \<le> v \<and> v < 2 ^ 64 \<longrightarrow> ToUint64E X v = Inr (word_of_int v)) \<and>
     (\<forall>v. - (2 ^ 63) \<le> v \<and> v < 2 ^ 63 \<longrightarrow> ToInt64E X v = Inr v) \<and>
     (\<forall>v < 0. isl (ToUint8E X v) \<and> isl (ToUint32E X v) \<and> isl (ToUint64E X v))"

text \<open>A Go \<open>int\<close> and \<open>int64\<close> value is an integer between \<open>-2^63\<close> and \<open>2^63 - 1\<close>.\<close>

definition is_int64 :: "int \<Rightarrow> bool" where
  "is_int64 v \<longleftrightarrow> - (2 ^ 63) \<le> v \<and> v < 2 ^ 63"

definition IntToUint8 :: "'a cast_pkg_scheme \<Rightarrow> int \<Rightarrow> u8 res" where
  "IntToUint8 X value =
     (if value < 0 \<or> value > 255 then Inl (RangeExceeded ''uint8'' value) else ToUint8E X value)"

definition IntToUint32 :: "'a cast_pkg_scheme \<Rightarrow> int \<Rightarrow> u32 res" where
  "IntToUint32 X value =
     (if value < 0 \<or> value > 4294967295 then Inl (RangeExceeded ''uint32'' value)
      else ToUint32E X value)"

definition Uint64ToUint8 :: "'a cast_pkg_scheme \<Rightarrow> u64 \<Rightarrow> u8 res" where
  "Uint64ToUint8 X value =
     (if value > 255 then Inl (RangeExceeded ''uint8'' (uint value)) else ToUint8E X (uint value))"

definition Uint64ToUint32 :: "'a cast_pkg_scheme \<Rightarrow> u64 \<Rightarrow> u32 res" where
  "Uint64ToUint32 X value =
     (if value > 4294967295 then Inl (RangeExceeded ''uint32'' (uint value))
      else ToUint32E X (uint value))"

definition Int64ToUint32 :: "'a cast_pkg_scheme \<Rightarrow> int \<Rightarrow> u32 res" where
  "Int64ToUint32 X value =
     (if value > 4294967295 then Inl (RangeExceeded ''uint32'' value) else ToUint32E X value)"

definition Uint64ToInt64 :: "'a cast_pkg_scheme \<Rightarrow> u64 \<Rightarrow> int res" where
  "Uint64ToInt64 X value =
     (if uint value > 9223372036854775807 then Inl (RangeExceeded ''int64'' (uint value))
      else ToInt64E X (uint value))"

definition Int64ToUint64 :: "'a cast_pkg_scheme \<Rightarrow> int \<Rightarrow> u64 res" where
  "Int64ToUint64 X value =
     (if value < 0 then Inl (RangeExceeded ''negative, cannot convert to uint64'' value)
      else ToUint64E X value)"

lemma uint_u32: "0 \<le> v \<Longrightarrow> v < 2 ^ 32 \<Longrightarrow> uint (word_of_int v :: u32) = v"
  unfolding uint_word_of_int by (simp add: mod_pos_pos_trivial)

lemma IntToUint8_Inr:
  "casts_documented X \<Longrightarrow> IntToUint8 X v = Inr w \<longleftrightarrow> 0 \<le> v \<and> v < 256 \<and> w = word_of_int v"
  by (auto simp: IntToUint8_def casts_documented_def)

lemma IntToUint32_Inr:
  "casts_documented X \<Longrightarrow> IntToUint32 X v = Inr w \<longleftrightarrow> 0 \<le> v \<and> v < 2 ^ 32 \<and> w = word_of_int v"
  by (auto simp: IntToUint32_def casts_documented_def)

lemma Uint64ToUint32_Inr:
  "casts_documented X \<Longrightarrow> Uint64ToUint32 X v = Inr w \<longleftrightarrow> uint v < 2 ^ 32 \<and> w = word_of_int (uint v)"
  by (auto simp: Uint64ToUint32_def casts_documented_def word_less_def)

lemma Uint64ToUint8_Inr:
  "casts_documented X \<Longrightarrow> Uint64ToUint8 X v = Inr w \<longleftrightarrow> uint v < 2 ^ 8 \<and> w = word_of_int (uint v)"
  by (auto simp: Uint64ToUint8_def casts_documented_def word_less_def)

lemma Int64ToUint32_Inr:
  assumes "casts_documented X"
  shows "Int64ToUint32 X v = Inr w \<longleftrightarrow> 0 \<le> v \<and> v < 2 ^ 32 \<and> w = word_of_int v"
proof (cases "v < 0")
  case True
  then have "isl (ToUint32E X v)" using assms by (simp add: casts_documented_def)
  with True show ?thesis by (auto simp: Int64ToUint32_def isl_def)
next
  case False
  with assms show ?thesis by (auto simp: Int64ToUint32_def casts_documented_def)
qed

lemma Uint64ToInt64_Inr:
  assumes "casts_documented X"
  shows "Uint64ToInt64 X v = Inr i \<longleftrightarrow> uint v < 2 ^ 63 \<and> i = uint v"
proof (cases "uint v < 2 ^ 63")
  case True
  moreover have "- (2 ^ 63) \<le> uint v" by (rule order_trans [of _ 0]) simp_all
  ultimately have "ToInt64E X (uint v) = Inr (uint v)"
    using assms unfolding casts_documented_def by blast
  with True show ?thesis by (auto simp: Uint64ToInt64_def)
next
  case False
  then show ?thesis by (auto simp: Uint64ToInt64_def)
qed

lemma Int64ToUint64_Inr:
  "casts_documented X \<Longrightarrow> is_int64 v \<Longrightarrow> Int64ToUint64 X v = Inr w \<longleftrightarrow> 0 \<le> v \<and> w = word_of_int v"
  by (auto simp: Int64ToUint64_def casts_documented_def is_int64_def)

text \<open>A concrete instance with the documented behaviour, for the witnesses.\<close>

definition plain_casts :: cast_pkg where
  "plain_casts =
     \<lparr>ToUint8E = (\<lambda>v. if 0 \<le> v \<and> v < 2 ^ 8 then Inr (word_of_int v) else Inl (External ''cast'')),
      ToUint32E = (\<lambda>v. if 0 \<le> v \<and> v < 2 ^ 32 then Inr (word_of_int v) else Inl (External ''cast'')),
      ToUint64E = (\<lambda>v. if 0 \<le> v \<and> v < 2 ^ 64 then Inr (word_of_int v) else Inl (External ''cast'')),
      ToInt64E = (\<lambda>v. if is_int64 v then Inr v else Inl (External ''cast''))\<rparr>"

lemma plain_casts_documented: "casts_documented plain_casts"
  by (simp add: casts_documented_def plain_casts_def is_int64_def)

end
