(* ===== verification/ConfigHelpers.thy ===== *)
theory ConfigHelpers
  imports SafeCast Config
begin

text \<open>
  \<open>sdk/confighelpers.go\<close>: a configuration tree flattened into the arrays of the on-chain contract,
  and the pre-order listing of a tree that the flattening is proved to follow.
\<close>

section \<open>ExtractSetConfigInputs\<close>

text \<open>The four slices the recursion appends to.\<close>

record extract_state =
  groupQuorums :: "u8 list"
  groupParents :: "u8 list"
  signerAddrs :: "address list"
  signerGroups :: "u8 list"

fun extractGroupsAndSigners ::
  "'x cast_pkg_scheme \<Rightarrow> config \<Rightarrow> u8 \<Rightarrow> extract_state \<Rightarrow> extract_state res" where
  "extractGroupsAndSigners X (Config q ss gs) parentIdx st =
     (let st1 = st\<lparr>groupQuorums := groupQuorums st @ [q], groupParents := groupParents st @ [parentIdx]\<rparr>;
          currentGroupIdx = int (length (groupQuorums st1)) - 1
      in case IntToUint8 X currentGroupIdx of
           Inl _ \<Rightarrow> Inl (RangeExceeded ''group index %d exceeds uint8 range'' currentGroupIdx)
         | Inr currentGroupIdxUint8 \<Rightarrow>
             let st2 = foldl (\<lambda>s signerAddr. s\<lparr>signerAddrs := signerAddrs s @ [signerAddr],
                                               signerGroups := signerGroups s @ [currentGroupIdxUint8]\<rparr>)
                         st1 ss
             in foldE (\<lambda>s groupSigner. extractGroupsAndSigners X groupSigner currentGroupIdxUint8 s) st2 gs)"

text \<open>
  The conversion \<open>[32]uint8(slice)\<close> of Go: it panics on a slice that is too short and takes the
  first 32 elements of a longer one.
\<close>

definition to_array32 :: "'a list \<Rightarrow> 'a list res" where
  "to_array32 xs =
     (if length xs < 32 then Inl (Panic ''cannot convert slice to array'') else Inr (take 32 xs))"

text \<open>
  \<open>slices.SortFunc\<close> by the addresses read as big-endian numbers. Go leaves the order of equal
  addresses open; the model takes the stable one.
\<close>

definition ExtractSetConfigInputs ::
  "'x cast_pkg_scheme \<Rightarrow> config \<Rightarrow> (u8 list \<times> u8 list \<times> address list \<times> u8 list) res" where
  "ExtractSetConfigInputs X grp =
     bindE (extractGroupsAndSigners X grp 0
              \<lparr>groupQuorums = [], groupParents = [], signerAddrs = [], signerGroups = []\<rparr>)
       (\<lambda>st. let fill = replicate (32 - length (groupQuorums st)) 0;
                 quorums = groupQuorums st @ fill;
                 parents = groupParents st @ fill;
                 signers = sort_key (\<lambda>s. uint (fst s)) (zip (signerAddrs st) (signerGroups st))
             in bindE (to_array32 quorums) (\<lambda>q32.
                bindE (to_array32 parents) (\<lambda>p32.
                Inr (q32, p32, map fst signers, map snd signers))))"

section \<open>The pre-order listing\<close>

text \<open>Number of groups of a tree, the root included.\<close>

fun group_count :: "config \<Rightarrow> nat" where
  "group_count (Config q ss gs) = Suc (sum_list (map group_count gs))"

text \<open>
  The groups in pre-order, each as quorum, index of the parent, and own signers; \<open>p\<close> is the index
  of the parent and \<open>i\<close> the index of the first group listed.
\<close>

fun preorder :: "config \<Rightarrow> nat \<Rightarrow> nat \<Rightarrow> (u8 \<times> nat \<times> address list) list"
  and preorders :: "config list \<Rightarrow> nat \<Rightarrow> nat \<Rightarrow> (u8 \<times> nat \<times> address list) list" where
  "preorder (Config q ss gs) p i = (q, p, ss) # preorders gs i (Suc i)"
| "preorders [] p i = []"
| "preorders (g # gs) p i = preorder g p i @ preorders gs p (i + group_count g)"

abbreviation group_counts :: "config list \<Rightarrow> nat" where
  "group_counts gs \<equiv> sum_list (map group_count gs)"

lemma length_preorder:
  "length (preorder c p i) = group_count c"
  "length (preorders gs p i) = group_counts gs"
  by (induction c p i and gs p i rule: preorder_preorders.induct) auto

lemma group_count_pos [simp]: "0 < group_count c"
  by (cases c) simp

text \<open>What one listing adds to the four slices, when the first listed group has index \<open>i\<close>.\<close>

definition listed_signers :: "nat \<Rightarrow> (u8 \<times> nat \<times> address list) list \<Rightarrow> (address \<times> u8) list" where
  "listed_signers i l = concat (map (\<lambda>(j, q, p, ss). map (\<lambda>a. (a, word_of_nat j)) ss) (enumerate i l))"

lemma listed_signers_append:
  "listed_signers i (k @ l) = listed_signers i k @ listed_signers (i + length k) l"
  by (simp add: listed_signers_def enumerate_append_eq)

lemma listed_signers_Cons:
  "listed_signers i ((q, p, ss) # l) = map (\<lambda>a. (a, word_of_nat i)) ss @ listed_signers (Suc i) l"
  by (simp add: listed_signers_def)

definition extends :: "extract_state \<Rightarrow> (u8 \<times> nat \<times> address list) list \<Rightarrow> extract_state" where
  "extends st l =
     (let i = length (groupQuorums st) in
      \<lparr>groupQuorums = groupQuorums st @ map fst l,
       groupParents = groupParents st @ map (\<lambda>(q, p, ss). word_of_nat p) l,
       signerAddrs = signerAddrs st @ map fst (listed_signers i l),
       signerGroups = signerGroups st @ map snd (listed_signers i l)\<rparr>)"

lemma extends_append: "extends st (k @ l) = extends (extends st k) l"
  by (simp add: extends_def Let_def listed_signers_append)

lemma extends_Nil [simp]: "extends st [] = st"
  by (simp add: extends_def listed_signers_def)

lemma extend_signers:
  "foldl (\<lambda>s a. s\<lparr>signerAddrs := signerAddrs s @ [a], signerGroups := signerGroups s @ [w]\<rparr>) st ss =
     st\<lparr>signerAddrs := signerAddrs st @ ss, signerGroups := signerGroups st @ map (\<lambda>_. w) ss\<rparr>"
  by (induction ss arbitrary: st) simp_all

lemma extract_extends:
  assumes X: "casts_documented X"
  shows "length (groupQuorums st) + group_count c \<le> 256 \<Longrightarrow>
      extractGroupsAndSigners X c (word_of_nat p) st = Inr (extends st (preorder c p (length (groupQuorums st))))"
    and "length (groupQuorums st) + group_counts gs \<le> 256 \<Longrightarrow>
      foldE (\<lambda>s g. extractGroupsAndSigners X g (word_of_nat p) s) st gs =
        Inr (extends st (preorders gs p (length (groupQuorums st))))"
proof (induction c p "length (groupQuorums st)" and gs p "length (groupQuorums st)"
    arbitrary: st and st rule: preorder_preorders.induct)
  case (1 q ss gs p st)
  let ?i = "length (groupQuorums st)"
  let ?st' = "st\<lparr>groupQuorums := groupQuorums st @ [q],
       groupParents := groupParents st @ [word_of_nat p],
       signerAddrs := signerAddrs st @ ss,
       signerGroups := signerGroups st @ map (\<lambda>_. word_of_nat ?i) ss\<rparr>"
  from 1(2) have "IntToUint8 X (int ?i) = Inr (word_of_nat ?i)"
    by (simp add: IntToUint8_Inr [OF X])
  moreover have "foldE (\<lambda>s g. extractGroupsAndSigners X g (word_of_nat ?i) s) ?st' gs =
      Inr (extends ?st' (preorders gs ?i (Suc ?i)))"
    using 1(1) [of ?st'] 1(2) by simp
  moreover have "extends ?st' (preorders gs ?i (Suc ?i)) = extends st (preorder (Config q ss gs) p ?i)"
    by (simp add: extends_def Let_def listed_signers_Cons comp_def)
  ultimately show ?case
    by (simp add: Let_def extend_signers)
next
  case (2 p)
  then show ?case by simp
next
  case (3 g gs p st)
  let ?i = "length (groupQuorums st)"
  let ?st' = "extends st (preorder g p ?i)"
  have "length (groupQuorums ?st') = ?i + group_count g"
    by (simp add: extends_def Let_def length_preorder)
  with 3 show ?case by (simp add: extends_append)
qed

lemma extract_bound:
  assumes X: "casts_documented X"
  shows "extractGroupsAndSigners X c w st = Inr st' \<Longrightarrow>
      length (groupQuorums st') = length (groupQuorums st) + group_count c \<and> length (groupQuorums st') \<le> 256"
proof (induction c arbitrary: w st st')
  case (Config q ss gs)
  have sub: "foldE (\<lambda>s g. extractGroupsAndSigners X g v s) s hs = Inr st' \<Longrightarrow> set hs \<subseteq> set gs \<Longrightarrow>
      length (groupQuorums s) \<le> 256 \<Longrightarrow>
      length (groupQuorums st') = length (groupQuorums s) + group_counts hs \<and> length (groupQuorums st') \<le> 256"
    for v s hs
  proof (induction hs arbitrary: s)
    case (Cons h hs)
    from Cons.prems(1) obtain u where u: "extractGroupsAndSigners X h v s = Inr u"
      and rest: "foldE (\<lambda>s g. extractGroupsAndSigners X g v s) u hs = Inr st'"
      by (auto simp: bindE_Inr_iff)
    from Config.IH [OF _ u] Cons.prems(2) have "length (groupQuorums u) = length (groupQuorums s) + group_count h"
      and "length (groupQuorums u) \<le> 256" by auto
    with Cons.IH [OF rest] Cons.prems(2) show ?case by simp
  qed simp
  from Config.prems show ?case
    by (auto simp: Let_def extend_signers IntToUint8_Inr [OF X] split: sum.splits dest!: sub)
qed

lemma ExtractSetConfigInputs_Inr:
  assumes X: "casts_documented X" and "group_count c \<le> 256"
  shows "ExtractSetConfigInputs X c =
      (let l = preorder c 0 0; fill = replicate (32 - length l) 0;
           signers = sort_key (\<lambda>s. uint (fst s)) (listed_signers 0 l)
       in Inr (take 32 (map fst l @ fill), take 32 (map (\<lambda>(q, p, ss). word_of_nat p) l @ fill),
               map fst signers, map snd signers))"
proof -
  let ?e = "\<lparr>groupQuorums = [], groupParents = [], signerAddrs = [], signerGroups = []\<rparr>"
  have "extractGroupsAndSigners X c 0 ?e = Inr (extends ?e (preorder c 0 0))"
    using extract_extends(1) [OF X, of ?e c 0] assms(2) by simp
  moreover have "zip (map fst l) (map snd l) = l" for l :: "(address \<times> u8) list"
    by (simp add: zip_map_fst_snd)
  ultimately show ?thesis
    by (simp add: ExtractSetConfigInputs_def extends_def Let_def to_array32_def)
qed

lemma extract_Inl:
  "extractGroupsAndSigners X c w st = Inl e \<Longrightarrow>
     \<exists>n. e = RangeExceeded ''group index %d exceeds uint8 range'' n"
proof (induction c arbitrary: w st)
  case (Config q ss gs)
  from Config.prems show ?case
    by (auto simp: Let_def split: sum.splits dest!: foldE_Inl_witness Config.IH)
qed

lemma ExtractSetConfigInputs_Inl:
  assumes X: "casts_documented X" and "256 < group_count c"
  shows "\<exists>n. ExtractSetConfigInputs X c = Inl (RangeExceeded ''group index %d exceeds uint8 range'' n)"
proof -
  let ?e = "\<lparr>groupQuorums = [], groupParents = [], signerAddrs = [], signerGroups = []\<rparr>"
  show ?thesis
  proof (cases "extractGroupsAndSigners X c 0 ?e")
    case (Inr st)
    from extract_bound [OF X this] assms(2) show ?thesis by simp
  next
    case (Inl e)
    with extract_Inl [OF Inl] show ?thesis by (auto simp: ExtractSetConfigInputs_def)
  qed
qed

end
