(* ===== verification/EvmConfig.thy ===== *)
theory EvmConfig
  imports ConfigHelpers
begin

text \<open>
  \<open>sdk/evm/config_transformer.go\<close>: a configuration tree written to the arrays of the
  ManyChainMultiSig contract and read back, and the contract of the interface
  \<open>sdk.ConfigTransformer\<close> that the pair fulfils.
\<close>

section \<open>The on-chain configuration\<close>

record mcms_signer =
  sg_Addr :: address
  sg_Index :: u8
  sg_Group :: u8

record mcms_config =
  mc_Signers :: "mcms_signer list"
  mc_GroupQuorums :: "u8 list"
  mc_GroupParents :: "u8 list"

text \<open>The two group arrays are \<open>[32]uint8\<close>.\<close>

definition mcms_config_wf :: "mcms_config \<Rightarrow> bool" where
  "mcms_config_wf b \<longleftrightarrow> length (mc_GroupQuorums b) = 32 \<and> length (mc_GroupParents b) = 32"

section \<open>ToChainConfig\<close>

text \<open>The loop over the sorted signers, with \<open>idx\<close> a wrapping \<open>uint8\<close>.\<close>

fun bind_signers :: "u8 \<Rightarrow> address list \<Rightarrow> u8 list \<Rightarrow> mcms_signer list" where
  "bind_signers idx (a # as) (g # gs) =
     \<lparr>sg_Addr = a, sg_Index = idx, sg_Group = g\<rparr> # bind_signers (idx + 1) as gs"
| "bind_signers idx _ _ = []"

definition evm_ToChainConfig :: "'x cast_pkg_scheme \<Rightarrow> config \<Rightarrow> mcms_config res" where
  "evm_ToChainConfig X cfg =
     bindE (ExtractSetConfigInputs X cfg) (\<lambda>(quorums, parents, addrs, groups).
       if length addrs > 255 then Inl (TooManySignersError (word_of_nat (length addrs)))
       else Inr \<lparr>mc_Signers = bind_signers 0 addrs groups,
                 mc_GroupQuorums = quorums, mc_GroupParents = parents\<rparr>)"

section \<open>ToConfig\<close>

definition add_to_group :: "address list list \<Rightarrow> mcms_signer \<Rightarrow> address list list res" where
  "add_to_group groupToSigners signer =
     (let g = unat (sg_Group signer) in
      if g < length groupToSigners then Inr (groupToSigners[g := groupToSigners ! g @ [sg_Addr signer]])
      else Inl (Panic ''index out of range''))"

definition link_group :: "u8 list \<Rightarrow> config list \<Rightarrow> nat \<Rightarrow> config list res" where
  "link_group parents groups i =
     (let parent = unat (parents ! i) in
      if i > 0 \<and> Quorum (groups ! i) > 0 then
        if parent < length groups then
          Inr (groups[parent := Config (Quorum (groups ! parent)) (Signers (groups ! parent))
                                  (groups ! i # GroupSigners (groups ! parent))])
        else Inl (Panic ''index out of range'')
      else Inr groups)"

definition evm_ToConfig :: "mcms_config \<Rightarrow> config res" where
  "evm_ToConfig b =
     bindE (foldE add_to_group (replicate (length (mc_GroupQuorums b)) []) (mc_Signers b)) (\<lambda>groupToSigners.
     bindE (foldE (link_group (mc_GroupParents b))
              (map2 (\<lambda>quorum signers. Config quorum signers []) (mc_GroupQuorums b) groupToSigners)
              (rev [0..<32])) (\<lambda>groups.
     bindE (config_Validate (groups ! 0)) (\<lambda>_.
     Inr (groups ! 0))))"

section \<open>Grouping the signers\<close>

lemma bind_signers_addr_group:
  "length as = length gs \<Longrightarrow>
     map (\<lambda>s. (sg_Addr s, sg_Group s)) (bind_signers idx as gs) = zip as gs"
  by (induction idx as gs rule: bind_signers.induct) auto

lemma length_bind_signers: "length as = length gs \<Longrightarrow> length (bind_signers idx as gs) = length as"
  by (induction idx as gs rule: bind_signers.induct) auto

lemma add_to_group_fold:
  "\<forall>s \<in> set sgs. unat (sg_Group s) < length acc \<Longrightarrow>
     foldE add_to_group acc sgs =
       Inr (map (\<lambda>j. acc ! j @ map sg_Addr (filter (\<lambda>s. unat (sg_Group s) = j) sgs)) [0..<length acc])"
proof (induction sgs arbitrary: acc)
  case Nil
  then show ?case by (simp add: map_nth)
next
  case (Cons s sgs)
  then show ?case
    by (auto simp: add_to_group_def Let_def nth_list_update intro!: nth_equalityI)
qed

section \<open>Linking the groups\<close>

text \<open>What the round trip returns: the same tree with the signers of each group in address order.\<close>

fun sort_config :: "config \<Rightarrow> config" where
  "sort_config (Config q ss gs) = Config q (sort ss) (map sort_config gs)"

text \<open>The array entries from index \<open>i\<close> on hold the listed groups, not yet linked.\<close>

definition holds :: "u8 list \<Rightarrow> config list \<Rightarrow> nat \<Rightarrow> (u8 \<times> nat \<times> address list) list \<Rightarrow> bool" where
  "holds P arr i l \<longleftrightarrow>
     (\<forall>k < length l. case l ! k of (q, p, ss) \<Rightarrow>
        arr ! (i + k) = Config q (sort ss) [] \<and> unat (P ! (i + k)) = p)"

lemma holds_Cons:
  "holds P arr i ((q, p, ss) # l) \<longleftrightarrow>
     arr ! i = Config q (sort ss) [] \<and> unat (P ! i) = p \<and> holds P arr (Suc i) l"
  by (auto simp: holds_def nth_Cons less_Suc_eq_0_disj split: nat.splits prod.splits)

lemma holds_append: "holds P arr i (k @ l) \<longleftrightarrow> holds P arr i k \<and> holds P arr (i + length k) l"
  by (induction k arbitrary: i) (auto simp: holds_Cons, auto simp: holds_def)

lemma holds_frame:
  "holds P arr i l \<Longrightarrow> (\<And>j. i \<le> j \<Longrightarrow> j < i + length l \<Longrightarrow> arr' ! j = arr ! j) \<Longrightarrow> holds P arr' i l"
  by (auto simp: holds_def)

lemma link_tree:
  shows "holds P arr i (preorder c p i) \<Longrightarrow> i + group_count c \<le> length arr \<Longrightarrow>
      config_Validate c = Inr () \<Longrightarrow>
      \<exists>arr'. foldE (link_group P) arr (rev [Suc i..<i + group_count c]) = Inr arr' \<and>
        arr' ! i = sort_config c \<and> length arr' = length arr \<and>
        (\<forall>j. j < i \<or> i + group_count c \<le> j \<longrightarrow> arr' ! j = arr ! j)"
    and "holds P arr i (preorders gs p i) \<Longrightarrow> p < i \<Longrightarrow> i + group_counts gs \<le> length arr \<Longrightarrow>
      \<forall>g \<in> set gs. config_Validate g = Inr () \<Longrightarrow> arr ! p = Config q ss acc \<Longrightarrow>
      \<exists>arr'. foldE (link_group P) arr (rev [i..<i + group_counts gs]) = Inr arr' \<and>
        arr' ! p = Config q ss (map sort_config gs @ acc) \<and> length arr' = length arr \<and>
        (\<forall>j. j \<noteq> p \<and> (j < i \<or> i + group_counts gs \<le> j) \<longrightarrow> arr' ! j = arr ! j)"
proof (induction c p i and gs p i arbitrary: arr and arr q ss acc rule: preorder_preorders.induct)
  case (1 q ss gs p i)
  from 1(2,4) have "holds P arr (Suc i) (preorders gs i (Suc i))" and "arr ! i = Config q (sort ss) []"
    and "\<forall>g \<in> set gs. config_Validate g = Inr ()"
    by (auto simp: holds_Cons allE_Inr_iff split: if_splits)
  with 1(1) [of arr q "sort ss" "[]"] 1(3) show ?case by fastforce
next
  case (2 p i)
  then show ?case by simp
next
  case (3 g gs p i)
  let ?m = "i + group_count g"
  have h1: "holds P arr i (preorder g p i)" and h2: "holds P arr ?m (preorders gs p ?m)"
    using 3(3) by (simp_all add: holds_append length_preorder)
  from 3(4,5,6,7) obtain arr1 where
    arr1: "foldE (link_group P) arr (rev [?m..<?m + group_counts gs]) = Inr arr1"
      "arr1 ! p = Config q ss (map sort_config gs @ acc)" "length arr1 = length arr"
      "\<forall>j. j \<noteq> p \<and> (j < ?m \<or> ?m + group_counts gs \<le> j) \<longrightarrow> arr1 ! j = arr ! j"
    using 3(2) [OF h2, of q ss acc] by (auto simp: add.assoc)
  have "holds P arr1 i (preorder g p i)"
    using h1 by (rule holds_frame) (use arr1(4) 3(4) in \<open>auto simp: length_preorder\<close>)
  then obtain arr2 where
    arr2: "foldE (link_group P) arr1 (rev [Suc i..<?m]) = Inr arr2"
      "arr2 ! i = sort_config g" "length arr2 = length arr"
      "\<forall>j. j < i \<or> ?m \<le> j \<longrightarrow> arr2 ! j = arr1 ! j"
    using 3(1) [of arr1] 3(5,6) arr1(3) by auto
  have "unat (P ! i) = p" using h1 by (cases g) (simp add: holds_Cons)
  moreover have "Quorum (sort_config g) > 0"
    using 3(6) by (cases g) (auto simp: word_gt_0 split: if_splits)
  ultimately have "link_group P arr2 i = Inr (arr2[p := Config q ss (sort_config g # map sort_config gs @ acc)])"
    using 3(4,5) arr1(2) arr2(2-4) by (simp add: link_group_def)
  moreover have "rev [i..<i + group_counts (g # gs)] = rev [?m..<?m + group_counts gs] @ rev [Suc i..<?m] @ [i]"
  proof -
    have "[i..<i + group_counts (g # gs)] = [i..<?m] @ [?m..<?m + group_counts gs]"
      using upt_add_eq_append [of i ?m "group_counts gs"] by (simp add: add.assoc)
    moreover have "[i..<?m] = i # [Suc i..<?m]" by (simp add: upt_conv_Cons)
    ultimately show ?thesis by simp
  qed
  ultimately show ?case
    using arr1 arr2 3(4,5) by (auto simp: foldE_append nth_list_update)
qed

section \<open>The round trip\<close>

lemma preorder_parents:
  shows "(q, r, ss) \<in> set (preorder c p i) \<Longrightarrow> r = p \<or> r < i + group_count c"
    and "(q, r, ss) \<in> set (preorders gs p i) \<Longrightarrow> r = p \<or> r < i + group_counts gs"
  by (induction c p i and gs p i rule: preorder_preorders.induct) fastforce+

lemma listed_signers_group:
  "i + length l \<le> 256 \<Longrightarrow>
     filter (\<lambda>s. unat (snd s) = j) (listed_signers i l) =
       (if i \<le> j \<and> j < i + length l then map (\<lambda>a. (a, word_of_nat j)) (snd (snd (l ! (j - i)))) else [])"
proof (induction l arbitrary: i)
  case Nil
  then show ?case by (auto simp: listed_signers_def)
next
  case (Cons e l)
  obtain q p ss where e: "e = (q, p, ss)" by (cases e)
  have "unat (word_of_nat i :: u8) = i" using Cons.prems by (simp add: unat_of_nat)
  with Cons show ?case
    by (cases "i = j") (auto simp: e listed_signers_Cons nth_Cons' filter_map comp_def)
qed

lemma listed_signers_bound:
  assumes "i + length l \<le> 32" and "s \<in> set (listed_signers i l)"
  shows "unat (snd s) < 32"
proof -
  from assms(2) have "s \<in> set (filter (\<lambda>t. unat (snd t) = unat (snd s)) (listed_signers i l))" by simp
  also have "\<dots> = set (if i \<le> unat (snd s) \<and> unat (snd s) < i + length l
      then map (\<lambda>a. (a, word_of_nat (unat (snd s)))) (snd (snd (l ! (unat (snd s) - i)))) else [])"
    using assms(1) by (subst listed_signers_group) simp_all
  finally show ?thesis using assms(1) by (auto split: if_splits)
qed

lemma sort_tagged: "map fst (sort_key (\<lambda>s. uint (fst s)) (map (\<lambda>a :: address. (a, w)) ss)) = sort ss"
proof -
  let ?xs = "sort_key (\<lambda>s. uint (fst s)) (map (\<lambda>a. (a, w)) ss)"
  have "mset (map fst ?xs) = mset ss" by (simp add: comp_def image_mset.compositionality)
  moreover have "sorted (map (\<lambda>s. uint (fst s)) ?xs)" by (rule sorted_sort_key)
  then have "sorted_wrt (\<lambda>s t. uint (fst s) \<le> uint (fst t)) ?xs" by (simp only: sorted_wrt_map)
  then have "sorted_wrt (\<lambda>s t. fst s \<le> fst t) ?xs"
    by (rule sorted_wrt_mono_rel [rotated]) (simp only: word_le_def)
  then have "sorted (map fst ?xs)" by (simp only: sorted_wrt_map)
  ultimately have "sort ss = map fst ?xs" by (rule properties_for_sort)
  then show ?thesis by (rule sym)
qed

text \<open>Reading the signers back into their groups.\<close>

lemma regroup:
  assumes "length l \<le> 32"
    and "\<And>s. s \<in> set sgs \<Longrightarrow> unat (sg_Group s) < 32"
    and "map (\<lambda>s. (sg_Addr s, sg_Group s)) sgs = sort_key (\<lambda>s. uint (fst s)) (listed_signers 0 l)"
  shows "foldE add_to_group (replicate 32 []) sgs =
     Inr (map (\<lambda>j. if j < length l then sort (snd (snd (l ! j))) else []) [0..<32])"
proof -
  have "map sg_Addr (filter (\<lambda>s. unat (sg_Group s) = j) sgs) =
      (if j < length l then sort (snd (snd (l ! j))) else [])" for j
  proof -
    have "map sg_Addr (filter (\<lambda>s. unat (sg_Group s) = j) sgs) =
        map fst (filter (\<lambda>s. unat (snd s) = j) (map (\<lambda>s. (sg_Addr s, sg_Group s)) sgs))"
      by (simp add: filter_map comp_def)
    also have "\<dots> = map fst (sort_key (\<lambda>s. uint (fst s)) (filter (\<lambda>s. unat (snd s) = j) (listed_signers 0 l)))"
      by (simp add: assms(3) filter_sort)
    finally show ?thesis
      using assms(1) by (simp add: listed_signers_group sort_tagged)
  qed
  with assms(2) show ?thesis by (subst add_to_group_fold) auto
qed

text \<open>Linking all 32 entries, the unused ones and the root included.\<close>

lemma link_all:
  assumes "holds P arr 0 (preorder c 0 0)" and "length arr = 32" and "group_count c \<le> 32"
    and "config_Validate c = Inr ()"
    and unused: "\<And>j. group_count c \<le> j \<Longrightarrow> j < 32 \<Longrightarrow> Quorum (arr ! j) = 0"
  shows "\<exists>arr'. foldE (link_group P) arr (rev [0..<32]) = Inr arr' \<and> arr' ! 0 = sort_config c"
proof -
  let ?n = "group_count c"
  have skip: "foldE (link_group P) arr (rev js) = Inr arr"
    if "\<forall>j \<in> set js. Quorum (arr ! j) = 0" for js
    using that by (induction js rule: rev_induct) (auto simp: link_group_def)
  from link_tree(1) [of P arr 0 c 0] assms obtain arr' where
    "foldE (link_group P) arr (rev [Suc 0..<?n]) = Inr arr'" and "arr' ! 0 = sort_config c" by auto
  moreover have "rev [0..<32] = rev [?n..<32] @ rev [Suc 0..<?n] @ [0]"
  proof -
    have "[0..<32] = [0..<?n] @ [?n..<32]" using upt_add_eq_append [of 0 ?n "32 - ?n"] assms(3) by simp
    moreover have "[0..<?n] = 0 # [Suc 0..<?n]" by (simp add: upt_conv_Cons)
    ultimately show ?thesis by simp
  qed
  moreover have "foldE (link_group P) arr (rev [?n..<32]) = Inr arr"
    by (rule skip) (auto intro: unused)
  ultimately show ?thesis by (simp add: foldE_append link_group_def)
qed

lemma sort_config_Validate: "config_Validate (sort_config c) = config_Validate c"
proof (induction c)
  case (Config q ss gs)
  have "allE config_Validate (map sort_config gs) = allE config_Validate gs"
    using Config.IH by (induction gs) auto
  then show ?case by simp
qed

lemma sort_config_abs: "config_abs (sort_config c) = config_abs c"
  by (induction c) (auto intro!: image_mset_cong)

lemma length_listed_signers:
  "length (listed_signers k (preorder c p i)) = length (GetAllSigners c)"
  "length (listed_signers k (preorders gs p i)) = length (concat (map GetAllSigners gs))"
  by (induction c p i and gs p i arbitrary: k and k rule: preorder_preorders.induct)
    (auto simp: listed_signers_Cons listed_signers_append, simp add: listed_signers_def)

lemma evm_ToChainConfig_Inr:
  assumes X: "casts_documented X" and "group_count c \<le> 32" and "length (GetAllSigners c) \<le> 255"
  shows "evm_ToChainConfig X c =
     (let l = preorder c 0 0; fill = replicate (32 - length l) 0;
          signers = sort_key (\<lambda>s. uint (fst s)) (listed_signers 0 l)
      in Inr \<lparr>mc_Signers = bind_signers 0 (map fst signers) (map snd signers),
              mc_GroupQuorums = map fst l @ fill,
              mc_GroupParents = map (\<lambda>(q, p, ss). word_of_nat p) l @ fill\<rparr>)"
  using assms
  by (simp add: evm_ToChainConfig_def ExtractSetConfigInputs_Inr [OF X] Let_def length_preorder
      length_listed_signers)

lemma evm_roundtrip_sorted:
  assumes X: "casts_documented X" and valid: "config_Validate c = Inr ()"
    and n: "group_count c \<le> 32" and m: "length (GetAllSigners c) \<le> 255"
    and b: "evm_ToChainConfig X c = Inr b"
  shows "evm_ToConfig b = Inr (sort_config c)"
proof -
  let ?l = "preorder c 0 0"
  let ?S = "sort_key (\<lambda>s. uint (fst s)) (listed_signers 0 ?l)"
  let ?groups = "map (\<lambda>j. if j < length ?l then sort (snd (snd (?l ! j))) else []) [0..<32]"
  let ?arr = "map2 (\<lambda>quorum signers. Config quorum signers []) (mc_GroupQuorums b) ?groups"
  from b have b': "mc_Signers b = bind_signers 0 (map fst ?S) (map snd ?S)"
    "mc_GroupQuorums b = map fst ?l @ replicate (32 - length ?l) 0"
    "mc_GroupParents b = map (\<lambda>(q, p, ss). word_of_nat p) ?l @ replicate (32 - length ?l) 0"
    by (auto simp: evm_ToChainConfig_Inr [OF X n m] Let_def)
  have n32: "length ?l \<le> 32" using n by (simp add: length_preorder)
  have pairs: "map (\<lambda>s. (sg_Addr s, sg_Group s)) (mc_Signers b) = ?S"
    by (simp add: b'(1) bind_signers_addr_group zip_map_fst_snd)
  have "unat (sg_Group s) < 32" if "s \<in> set (mc_Signers b)" for s
  proof -
    have "(sg_Addr s, sg_Group s) \<in> set (map (\<lambda>s. (sg_Addr s, sg_Group s)) (mc_Signers b))" using that by auto
    then show ?thesis unfolding pairs using listed_signers_bound [of 0 ?l] n32 by auto
  qed
  with pairs n32 have "foldE add_to_group (replicate 32 []) (mc_Signers b) = Inr ?groups"
    by (intro regroup) auto
  moreover have "holds (mc_GroupParents b) ?arr 0 ?l"
    unfolding holds_def
  proof (intro allI impI)
    fix k
    assume k: "k < length ?l"
    obtain q p ss where e: "?l ! k = (q, p, ss)" by (cases "?l ! k")
    with k have "(q, p, ss) \<in> set ?l" by (metis nth_mem)
    from preorder_parents(1) [OF this] n have "p < 32" using group_count_pos [of c] by linarith
    then have "unat (word_of_nat p :: u8) = p" by (simp add: unat_of_nat)
    with k e n32 show "case ?l ! k of (q, p, ss) \<Rightarrow>
        ?arr ! (0 + k) = Config q (sort ss) [] \<and> unat (mc_GroupParents b ! (0 + k)) = p"
      by (simp add: b' nth_append)
  qed
  then have "\<exists>arr'. foldE (link_group (mc_GroupParents b)) ?arr (rev [0..<32]) = Inr arr' \<and> arr' ! 0 = sort_config c"
    using n valid by (intro link_all) (auto simp: b' nth_append length_preorder)
  ultimately show ?thesis
    using n32 valid by (auto simp: evm_ToConfig_def b'(2) sort_config_Validate)
qed

lemma evm_ToConfig_valid: "evm_ToConfig b = Inr c \<Longrightarrow> config_Validate c = Inr ()"
  by (auto simp: evm_ToConfig_def bindE_Inr_iff)

section \<open>Trees that do not fit\<close>

lemma preorder_nonempty [simp]: "preorder c p i \<noteq> []"
  by (cases c) simp

text \<open>The last group in pre-order has no sub-groups, so in a valid tree it has signers.\<close>

lemma last_preorder:
  shows "config_Validate c = Inr () \<Longrightarrow> snd (snd (last (preorder c p i))) \<noteq> []"
    and "\<forall>g \<in> set gs. config_Validate g = Inr () \<Longrightarrow> gs \<noteq> [] \<Longrightarrow> snd (snd (last (preorders gs p i))) \<noteq> []"
proof (induction c p i and gs p i rule: preorder_preorders.induct)
  case (1 q ss gs p i)
  from 1(2) have sub: "\<forall>g \<in> set gs. config_Validate g = Inr ()" and some: "ss \<noteq> [] \<or> gs \<noteq> []"
    by (auto simp: allE_Inr_iff split: if_splits)
  show ?case
  proof (cases "gs = []")
    case False
    then have "preorders gs i (Suc i) \<noteq> []" by (cases gs) auto
    with 1(1) [OF sub False] show ?thesis by simp
  qed (use some in simp)
next
  case (3 g gs p i)
  then show ?case by (cases gs) auto
qed simp

lemma add_to_group_panic:
  "\<exists>s \<in> set sgs. length acc \<le> unat (sg_Group s) \<Longrightarrow>
     foldE add_to_group acc sgs = Inl (Panic ''index out of range'')"
proof (induction sgs arbitrary: acc)
  case (Cons s sgs)
  show ?case
  proof (cases "length acc \<le> unat (sg_Group s)")
    case False
    with Cons.prems have "\<exists>t \<in> set sgs. length acc \<le> unat (sg_Group t)" by auto
    moreover from False have "add_to_group acc s =
        Inr (acc[unat (sg_Group s) := acc ! unat (sg_Group s) @ [sg_Addr s]])"
      by (simp add: add_to_group_def Let_def)
    ultimately show ?thesis by (simp add: Cons.IH)
  qed (simp add: add_to_group_def)
qed simp

lemma last_group_signer:
  assumes "config_Validate c = Inr ()" and "group_count c \<le> 256"
  shows "\<exists>a. (a, word_of_nat (group_count c - 1)) \<in> set (listed_signers 0 (preorder c 0 0))"
proof -
  let ?l = "preorder c 0 0" and ?j = "group_count c - 1"
  have "last ?l = ?l ! ?j" by (simp add: last_conv_nth length_preorder)
  with last_preorder(1) [OF assms(1), of 0 0] obtain a where "a \<in> set (snd (snd (?l ! ?j)))"
    by (cases "snd (snd (?l ! ?j))") auto
  moreover have "filter (\<lambda>s. unat (snd s) = ?j) (listed_signers 0 ?l) =
      map (\<lambda>a. (a, word_of_nat ?j)) (snd (snd (?l ! ?j)))"
    using assms(2) group_count_pos [of c] by (subst listed_signers_group) (simp_all add: length_preorder)
  ultimately have "(a, word_of_nat ?j) \<in> set (filter (\<lambda>s. unat (snd s) = ?j) (listed_signers 0 ?l))" by simp
  then show ?thesis by auto
qed

lemma high_group_signer:
  assumes "config_Validate c = Inr ()" and "32 < group_count c" and "group_count c \<le> 256"
  shows "\<exists>s \<in> set (listed_signers 0 (preorder c 0 0)). 32 \<le> unat (snd s)"
proof -
  from last_group_signer [OF assms(1,3)] obtain a where
    "(a, word_of_nat (group_count c - 1)) \<in> set (listed_signers 0 (preorder c 0 0))" ..
  moreover have "unat (word_of_nat (group_count c - 1) :: u8) = group_count c - 1"
    using assms(3) group_count_pos [of c] by (subst unat_of_nat) simp
  then have "32 \<le> unat (snd (a, word_of_nat (group_count c - 1) :: u8))" using assms(2) by simp
  ultimately show ?thesis ..
qed

lemma evm_wide_config:
  assumes X: "casts_documented X" and valid: "config_Validate c = Inr ()"
    and n: "32 < group_count c" "group_count c \<le> 256" and m: "length (GetAllSigners c) \<le> 255"
  shows "\<exists>b. evm_ToChainConfig X c = Inr b \<and> mcms_config_wf b \<and>
      evm_ToConfig b = Inl (Panic ''index out of range'')"
proof -
  let ?l = "preorder c 0 0"
  let ?S = "sort_key (\<lambda>s. uint (fst s)) (listed_signers 0 ?l)"
  let ?b = "\<lparr>mc_Signers = bind_signers 0 (map fst ?S) (map snd ?S),
     mc_GroupQuorums = take 32 (map fst ?l),
     mc_GroupParents = take 32 (map (\<lambda>(q, p, ss). word_of_nat p) ?l)\<rparr>"
  have "evm_ToChainConfig X c = Inr ?b"
    using n m by (simp add: evm_ToChainConfig_def ExtractSetConfigInputs_Inr [OF X] Let_def
        length_preorder length_listed_signers)
  moreover from n have wf: "mcms_config_wf ?b" by (simp add: mcms_config_wf_def length_preorder)
  moreover have "evm_ToConfig ?b = Inl (Panic ''index out of range'')"
  proof -
    have pairs: "map (\<lambda>s. (sg_Addr s, sg_Group s)) (mc_Signers ?b) = ?S"
      by (simp add: bind_signers_addr_group zip_map_fst_snd)
    from high_group_signer [OF valid n] obtain s where "s \<in> set ?S" and "32 \<le> unat (snd s)" by auto
    then have "\<exists>s \<in> set (mc_Signers ?b). 32 \<le> unat (sg_Group s)"
      by (subst (asm) pairs [symmetric]) auto
    with wf show ?thesis
      unfolding evm_ToConfig_def mcms_config_wf_def by (subst add_to_group_panic) auto
  qed
  ultimately show ?thesis by blast
qed

section \<open>The transformer interface\<close>

text \<open>
  \<open>sdk/config_transformer.go\<close>: what callers rely on. \<open>documented\<close> is the assumption on the
  libraries the provider uses, \<open>fits\<close> the configurations the chain can hold.
\<close>

locale config_transformer =
  fixes documented :: "'x \<Rightarrow> bool"
    and toChain :: "'x \<Rightarrow> config \<Rightarrow> 'r res"
    and toConfig :: "'r \<Rightarrow> config res"
    and fits :: "config \<Rightarrow> bool"
  assumes writes: "documented X \<Longrightarrow> config_Validate c = Inr () \<Longrightarrow> fits c \<Longrightarrow> \<exists>r. toChain X c = Inr r"
    and reads_back: "documented X \<Longrightarrow> config_Validate c = Inr () \<Longrightarrow> fits c \<Longrightarrow> toChain X c = Inr r \<Longrightarrow>
      \<exists>c'. toConfig r = Inr c' \<and> config_abs c' = config_abs c"
    and reads_valid: "toConfig r = Inr c' \<Longrightarrow> config_Validate c' = Inr ()"
begin

lemma stored:
  assumes "documented X" and "config_Validate c = Inr ()" and "fits c"
  obtains r c' where "toChain X c = Inr r" and "toConfig r = Inr c'" and "config_abs c' = config_abs c"
  using assms writes reads_back by blast

text \<open>The configuration read back decides every quorum as the one that was written.\<close>

lemma stored_quorum:
  assumes "documented X" and "config_Validate c = Inr ()" and "fits c"
    and "toChain X c = Inr r" and "toConfig r = Inr c'"
  shows "CanSetRoot c' xs = CanSetRoot c xs \<or> isl (CanSetRoot c' xs) \<and> isl (CanSetRoot c xs)"
    and "QuorumMet c' xs = QuorumMet c xs" and "config_Equals c c'" and "config_Equals c' c"
proof -
  from reads_back [OF assms(1-4)] assms(5) have abs: "config_abs c' = config_abs c" by simp
  then have "set (GetAllSigners c') = set (GetAllSigners c)"
    by (metis config_abs_signers mset_eq_setD)
  with config_abs_consensus [OF abs] show "QuorumMet c' xs = QuorumMet c xs"
    and "CanSetRoot c' xs = CanSetRoot c xs \<or> isl (CanSetRoot c' xs) \<and> isl (CanSetRoot c xs)"
    by (auto simp: QuorumMet_def CanSetRoot_def)
  show "config_Equals c c'" and "config_Equals c' c"
    using abs by (simp_all add: config_Equals_abs)
qed

end

definition evm_fits :: "config \<Rightarrow> bool" where
  "evm_fits c \<longleftrightarrow> group_count c \<le> 32 \<and> length (GetAllSigners c) \<le> 255"

interpretation evm: config_transformer casts_documented evm_ToChainConfig evm_ToConfig evm_fits
proof
  fix X :: "'a cast_pkg_scheme" and c r c'
  show "casts_documented X \<Longrightarrow> config_Validate c = Inr () \<Longrightarrow> evm_fits c \<Longrightarrow> \<exists>r. evm_ToChainConfig X c = Inr r"
    by (simp add: evm_fits_def evm_ToChainConfig_Inr Let_def)
  show "\<exists>c'. evm_ToConfig r = Inr c' \<and> config_abs c' = config_abs c"
    if "casts_documented X" "config_Validate c = Inr ()" "evm_fits c" "evm_ToChainConfig X c = Inr r"
    using evm_roundtrip_sorted [of X c r] that by (auto simp: evm_fits_def sort_config_abs)
  show "evm_ToConfig r = Inr c' \<Longrightarrow> config_Validate c' = Inr ()"
    by (rule evm_ToConfig_valid)
qed

section \<open>Properties\<close>

text \<open>
  C3: Round trip of a configuration through the contract's arrays: a valid tree of at most 32
  groups and 255 signers is written without error and read back as the same tree with the signers
  of each group in address order.
\<close>

theorem evm_config_roundtrip:
  assumes "casts_documented X" and "config_Validate c = Inr ()"
    and "group_count c \<le> 32" and "length (GetAllSigners c) \<le> 255"
  shows "\<exists>b. evm_ToChainConfig X c = Inr b \<and> mcms_config_wf b \<and> evm_ToConfig b = Inr (sort_config c)"
proof -
  from assms obtain b where b: "evm_ToChainConfig X c = Inr b"
    by (auto simp: evm_ToChainConfig_Inr Let_def)
  moreover from this assms have "mcms_config_wf b"
    by (auto simp: evm_ToChainConfig_Inr mcms_config_wf_def Let_def length_preorder)
  ultimately show ?thesis using evm_roundtrip_sorted assms by blast
qed

text \<open>
  A configuration stored on chain and read back is Equal to the original in both directions
  and reaches its quorum for exactly the same sets of recovered signers.
\<close>

theorem evm_stored_config_same_quorum:
  assumes "casts_documented X" and "config_Validate c = Inr ()" and "evm_fits c"
  shows "\<exists>b c'. evm_ToChainConfig X c = Inr b \<and> evm_ToConfig b = Inr c' \<and>
    config_Equals c c' \<and> config_Equals c' c \<and> (\<forall>xs. QuorumMet c' xs = QuorumMet c xs)"
proof -
  obtain b c' where "evm_ToChainConfig X c = Inr b" and "evm_ToConfig b = Inr c'"
    using evm.stored [OF assms] by blast
  with evm.stored_quorum(2-4) [OF assms this] show ?thesis by blast
qed

theorem evm_config_roundtrip_witness:
  "\<exists>b. evm_ToChainConfig plain_casts (Config 2 [9, 4] [Config 1 [7, 3] []]) = Inr b \<and>
       mcms_config_wf b \<and> evm_ToConfig b = Inr (Config 2 [4, 9] [Config 1 [3, 7] []])"
  using evm_config_roundtrip [OF plain_casts_documented, of "Config 2 [9, 4] [Config 1 [7, 3] []]"]
  by simp

theorem evm_stored_config_same_quorum_witness:
  "\<exists>b c'. evm_ToChainConfig plain_casts (Config 2 [9, 4] [Config 1 [7, 3] []]) = Inr b \<and>
     evm_ToConfig b = Inr c' \<and> QuorumMet c' [9, 7]"
proof -
  let ?c = "Config 2 [9, 4] [Config 1 [7, 3] []]"
  have "config_Validate ?c = Inr ()" and "evm_fits ?c" by (simp_all add: evm_fits_def)
  moreover have "QuorumMet ?c [9, 7]" by (simp add: QuorumMet_def)
  ultimately show ?thesis
    using evm_stored_config_same_quorum [OF plain_casts_documented, of ?c] by metis
qed

text \<open>
  What happens to a valid tree that is too wide for the contract. With 33 to 256 groups
  ToChainConfig reports no error: it cuts the group arrays to 32 entries, and reading the result
  back panics on a signer of a dropped group. Only above 256 groups is the error reported.
\<close>

theorem evm_too_many_groups:
  assumes "casts_documented X" and "config_Validate c = Inr ()" and "length (GetAllSigners c) \<le> 255"
  shows "(32 < group_count c \<and> group_count c \<le> 256 \<longrightarrow>
      (\<exists>b. evm_ToChainConfig X c = Inr b \<and> mcms_config_wf b \<and>
           evm_ToConfig b = Inl (Panic ''index out of range''))) \<and>
    (256 < group_count c \<longrightarrow> (\<exists>e. evm_ToChainConfig X c = Inl e \<and> \<not> is_panic e))"
  using evm_wide_config [OF assms(1,2) _ _ assms(3)] ExtractSetConfigInputs_Inl [OF assms(1), of c]
  by (auto simp: evm_ToChainConfig_def)

theorem evm_too_many_groups_witness:
  "\<exists>b. evm_ToChainConfig plain_casts (Config 1 [] (replicate 32 (Config 1 [5] []))) = Inr b \<and>
       evm_ToConfig b = Inl (Panic ''index out of range'')"
proof -
  let ?c = "Config 1 [] (replicate 32 (Config 1 [5] []))"
  have "config_Validate ?c = Inr ()" by (simp add: allE_Inr_iff)
  moreover have "length (GetAllSigners ?c) = 32" and "group_count ?c = 33"
    by (simp_all add: length_concat comp_def sum_list_replicate)
  ultimately show ?thesis
    using evm_too_many_groups [OF plain_casts_documented, of ?c] by auto
qed

end
