(* ===== verification/Merkle.thy ===== *)
theory Merkle
  imports Errors
begin

text \<open>
  \<open>internal/core/merkle/tree.go\<close>: building the tree layer by layer, proofs as lists of siblings,
  and what a proof is worth. Keccak-256 is \<open>go-ethereum\<close>'s and enters as the parameter \<open>kec\<close>;
  the tree relies on one property of the pair hash only, that it ignores the order of the pair,
  which is the locale \<open>pair_hash\<close>.
\<close>

section \<open>Hashing pairs\<close>

definition efficientHash :: "(byte list \<Rightarrow> hash) \<Rightarrow> hash \<Rightarrow> hash \<Rightarrow> hash" where
  "efficientHash kec a b = kec (be_bytes 32 a @ be_bytes 32 b)"

definition hashPair :: "(byte list \<Rightarrow> hash) \<Rightarrow> hash \<Rightarrow> hash \<Rightarrow> hash" where
  "hashPair kec a b = (if a < b then efficientHash kec a b else efficientHash kec b a)"

section \<open>Building the tree\<close>

record merkle_tree =
  mt_Root :: hash
  mt_Layers :: "hash list list"

definition pad_odd :: "hash list \<Rightarrow> hash list" where
  "pad_odd currHashes =
     (if length currHashes mod 2 \<noteq> 0 then currHashes @ [currHashes ! (length currHashes - 1)] else currHashes)"

text \<open>The inner loop, \<open>i\<close> stepping by two.\<close>

fun hash_pairs :: "(hash \<Rightarrow> hash \<Rightarrow> hash) \<Rightarrow> hash list \<Rightarrow> hash list" where
  "hash_pairs hp (a # b # rest) = hp a b # hash_pairs hp rest"
| "hash_pairs hp _ = []"

lemma length_hash_pairs [simp]: "length (hash_pairs hp xs) = length xs div 2"
  by (induction hp xs rule: hash_pairs.induct) auto

lemma length_pad_odd: "length (pad_odd xs) = 2 * ((length xs + 1) div 2)"
  by (simp add: pad_odd_def) presburger

function build_layers :: "(hash \<Rightarrow> hash \<Rightarrow> hash) \<Rightarrow> hash list \<Rightarrow> hash list list \<Rightarrow> hash list \<times> hash list list" where
  "build_layers hp currHashes layers =
     (if length currHashes > 1
      then build_layers hp (hash_pairs hp (pad_odd currHashes)) (layers @ [pad_odd currHashes])
      else (currHashes, layers))"
  by pat_completeness auto
termination
  by (relation "measure (\<lambda>(hp, currHashes, layers). length currHashes)") (auto simp: length_pad_odd)

declare build_layers.simps [simp del]

definition NewTree :: "(byte list \<Rightarrow> hash) \<Rightarrow> hash list \<Rightarrow> merkle_tree" where
  "NewTree kec leaves =
     (if length leaves = 0 then \<lparr>mt_Root = 0, mt_Layers = []\<rparr>
      else case build_layers (hashPair kec) leaves [] of
        (currHashes, layers) \<Rightarrow> \<lparr>mt_Root = currHashes ! 0, mt_Layers = layers\<rparr>)"

section \<open>Proofs\<close>

text \<open>The first index of a hash in a layer.\<close>

fun find_hash :: "hash \<Rightarrow> hash list \<Rightarrow> nat \<Rightarrow> nat option" where
  "find_hash target [] j = None"
| "find_hash target (h # hs) j = (if h \<noteq> target then find_hash target hs (Suc j) else Some j)"

fun proof_loop :: "(hash \<Rightarrow> hash \<Rightarrow> hash) \<Rightarrow> hash \<Rightarrow> hash list list \<Rightarrow> hash list \<Rightarrow> hash list res" where
  "proof_loop hp targetHash [] proof = Inr proof"
| "proof_loop hp targetHash (layer # layers) proof =
     (case find_hash targetHash layer 0 of
        None \<Rightarrow> Inl (TreeNodeNotFoundError targetHash)
      | Some j \<Rightarrow>
          let siblingIdx = j XOR 1 in
          if siblingIdx < length layer then
            let siblingHash = layer ! siblingIdx in
            proof_loop hp (hp targetHash siblingHash) layers (proof @ [siblingHash])
          else Inl (Panic ''index out of range''))"

definition GetProof :: "(byte list \<Rightarrow> hash) \<Rightarrow> merkle_tree \<Rightarrow> hash \<Rightarrow> hash list res" where
  "GetProof kec t h = proof_loop (hashPair kec) h (mt_Layers t) []"

definition GetProofs :: "(byte list \<Rightarrow> hash) \<Rightarrow> merkle_tree \<Rightarrow> (hash, hash list) gomap res" where
  "GetProofs kec t =
     (case mt_Layers t of
        [] \<Rightarrow> Inl ErrNoLayers
      | leaves # _ \<Rightarrow>
          foldE (\<lambda>proofs leaf. bindE (GetProof kec t leaf) (\<lambda>proof. Inr (gm_put leaf proof proofs)))
            [] leaves)"

section \<open>Indices\<close>

lemma find_hash_Some:
  "find_hash t hs k = Some j \<Longrightarrow> k \<le> j \<and> j < k + length hs \<and> hs ! (j - k) = t"
proof (induction t hs k rule: find_hash.induct)
  case (2 t h hs k)
  show ?case
  proof (cases "h = t")
    case False
    with 2 have "Suc k \<le> j \<and> j < Suc k + length hs \<and> hs ! (j - Suc k) = t" by simp
    moreover from this have "j - k = Suc (j - Suc k)" by linarith
    ultimately show ?thesis by simp
  qed (use 2 in simp)
qed simp

lemma find_hash_None: "find_hash t hs k = None \<longleftrightarrow> t \<notin> set hs"
  by (induction t hs k rule: find_hash.induct) auto

lemma xor_one_nat: "(j :: nat) XOR 1 = (if even j then Suc j else j - 1)"
proof -
  have "int (j XOR 1) = int j XOR 1" by (simp add: of_nat_xor_eq)
  also have "\<dots> = int j + of_bool (even j) - of_bool (odd j)" by (simp add: xor_one_eq)
  finally show ?thesis by (cases "even j") (auto simp: of_nat_diff odd_pos)
qed

lemmas xor_one = xor_one_nat xor_one_nat [unfolded One_nat_def]

lemma set_pad_odd: "set (pad_odd xs) = set xs"
  by (cases xs rule: rev_cases) (auto simp: pad_odd_def)

lemma even_pad_odd: "even (length (pad_odd xs))"
  by (simp add: length_pad_odd)

lemma hash_pairs_nth:
  "j < length xs div 2 \<Longrightarrow> hash_pairs hp xs ! j = hp (xs ! (2 * j)) (xs ! Suc (2 * j))"
proof (induction hp xs arbitrary: j rule: hash_pairs.induct)
  case (1 hp a b rest)
  then show ?case by (cases j) auto
qed auto

section \<open>The layers of a tree\<close>

text \<open>Each layer is the previous one's pair hashes, padded; the last pair hash is the root.\<close>

fun layered :: "(hash \<Rightarrow> hash \<Rightarrow> hash) \<Rightarrow> hash list \<Rightarrow> hash list list \<Rightarrow> hash \<Rightarrow> bool" where
  "layered hp cs [] root \<longleftrightarrow> cs = [root]"
| "layered hp cs (layer # layers) root \<longleftrightarrow>
     1 < length cs \<and> layer = pad_odd cs \<and> layered hp (hash_pairs hp layer) layers root"

lemma build_layers_layered:
  "cs \<noteq> [] \<Longrightarrow> \<exists>ls root. build_layers hp cs layers = ([root], layers @ ls) \<and> layered hp cs ls root"
proof (induction hp cs layers rule: build_layers.induct)
  case (1 hp cs layers)
  show ?case
  proof (cases "length cs > 1")
    case True
    then have "hash_pairs hp (pad_odd cs) \<noteq> []"
      by (simp flip: length_0_conv add: length_pad_odd)
    with 1 True obtain ls root where
      "build_layers hp (hash_pairs hp (pad_odd cs)) (layers @ [pad_odd cs]) =
         ([root], (layers @ [pad_odd cs]) @ ls)"
      and "layered hp (hash_pairs hp (pad_odd cs)) ls root" by blast
    with True show ?thesis
      by (intro exI [of _ "pad_odd cs # ls"] exI [of _ root]) (simp add: build_layers.simps [of hp cs])
  next
    case False
    with 1 have "cs = [cs ! 0]" by (cases cs) auto
    with False show ?thesis
      by (intro exI [of _ "[]"] exI [of _ "cs ! 0"]) (simp add: build_layers.simps [of hp cs])
  qed
qed

lemma NewTree_layered:
  "leaves \<noteq> [] \<Longrightarrow> layered (hashPair kec) leaves (mt_Layers (NewTree kec leaves)) (mt_Root (NewTree kec leaves))"
  using build_layers_layered [of leaves "hashPair kec" "[]"] by (auto simp: NewTree_def)

text \<open>The height: as many layers as it takes to halve the leaves, rounding up, down to one.\<close>

lemma layered_height:
  "layered hp cs layers root \<Longrightarrow> length cs \<le> 2 ^ length layers \<and> 2 ^ length layers < 2 * length cs"
proof (induction hp cs layers root rule: layered.induct)
  case (2 hp cs layer layers root)
  then have "length (hash_pairs hp layer) = (length cs + 1) div 2"
    by (simp add: length_pad_odd)
  with 2 have le: "(length cs + 1) div 2 \<le> 2 ^ length layers"
    and less: "2 ^ length layers < 2 * ((length cs + 1) div 2)" and "1 < length cs" by auto
  have "2 ^ length layers < length cs"
  proof (cases "length layers")
    case 0
    with \<open>1 < length cs\<close> show ?thesis by simp
  next
    case (Suc k)
    with less have "2 * 2 ^ k < 2 * ((length cs + 1) div 2)" by simp
    then have "2 * 2 ^ k < length cs" using \<open>1 < length cs\<close> by presburger
    with Suc show ?thesis by simp
  qed
  with le show ?case by auto
qed simp

section \<open>Verification from the pair hash alone\<close>

text \<open>The pairs hashed on the way from a hash along a proof, and the pairs hashed in a tree.\<close>

fun path_pairs :: "(hash \<Rightarrow> hash \<Rightarrow> hash) \<Rightarrow> hash \<Rightarrow> hash list \<Rightarrow> (hash \<times> hash) list" where
  "path_pairs hp h [] = []"
| "path_pairs hp h (s # p) = (h, s) # path_pairs hp (hp h s) p"

fun layer_pairs :: "hash list \<Rightarrow> (hash \<times> hash) list" where
  "layer_pairs (a # b # rest) = (a, b) # layer_pairs rest"
| "layer_pairs _ = []"

definition tree_pairs :: "hash list list \<Rightarrow> (hash \<times> hash) list" where
  "tree_pairs layers = concat (map layer_pairs layers)"

lemma hash_pairs_layer_pairs: "hash_pairs hp xs = map (\<lambda>(a, b). hp a b) (layer_pairs xs)"
  by (induction hp xs rule: hash_pairs.induct) auto

lemma layer_pairs_set: "(a, b) \<in> set (layer_pairs xs) \<Longrightarrow> a \<in> set xs \<and> b \<in> set xs"
  by (induction xs rule: layer_pairs.induct) auto

text \<open>Two pairs that differ, even up to order, and hash to the same value.\<close>

definition collides :: "(hash \<Rightarrow> hash \<Rightarrow> hash) \<Rightarrow> (hash \<times> hash) list \<Rightarrow> (hash \<times> hash) list \<Rightarrow> bool" where
  "collides hp ps qs \<longleftrightarrow>
     (\<exists>(a, b) \<in> set ps. \<exists>(c, d) \<in> set qs. {a, b} \<noteq> {c, d} \<and> hp a b = hp c d)"

lemma collidesI:
  "(a, b) \<in> set ps \<Longrightarrow> (c, d) \<in> set qs \<Longrightarrow> hp a b = hp c d \<Longrightarrow> {a, b} \<noteq> {c, d} \<Longrightarrow> collides hp ps qs"
  unfolding collides_def by blast

lemma collides_mono:
  "collides hp ps qs \<Longrightarrow> set ps \<subseteq> set ps' \<Longrightarrow> set qs \<subseteq> set qs' \<Longrightarrow> collides hp ps' qs'"
  unfolding collides_def by blast

locale pair_hash =
  fixes hp :: "hash \<Rightarrow> hash \<Rightarrow> hash"
  assumes symmetric: "hp a b = hp b a"
begin

lemma parent_in_next:
  assumes "even (length layer)" and "j < length layer"
  shows "j XOR 1 < length layer"
    and "hp (layer ! j) (layer ! (j XOR 1)) = hash_pairs hp layer ! (j div 2)"
    and "j div 2 < length (hash_pairs hp layer)"
proof -
  show less: "j XOR 1 < length layer" using assms by (auto simp: xor_one elim!: evenE)
  show "j div 2 < length (hash_pairs hp layer)" using assms by auto
  show "hp (layer ! j) (layer ! (j XOR 1)) = hash_pairs hp layer ! (j div 2)"
    using assms symmetric
    by (cases "even j") (auto simp: xor_one hash_pairs_nth elim!: evenE oddE)
qed

text \<open>A hash of the bottom layer gets a proof, one sibling per layer, that folds to the root.\<close>

lemma proof_found:
  "layered hp cs layers root \<Longrightarrow> target \<in> set cs \<Longrightarrow>
     \<exists>p. proof_loop hp target layers acc = Inr (acc @ p) \<and> foldl hp target p = root \<and> length p = length layers"
proof (induction layers arbitrary: cs target acc)
  case (Cons layer layers)
  then have layer: "layer = pad_odd cs" and rest: "layered hp (hash_pairs hp layer) layers root"
    and mem: "target \<in> set layer"
    by (auto simp: set_pad_odd)
  from mem obtain j where j: "find_hash target layer 0 = Some j"
    by (cases "find_hash target layer 0") (auto simp: find_hash_None)
  then have "j < length layer" and "layer ! j = target" using find_hash_Some [OF j] by auto
  moreover from this have "hp target (layer ! (j XOR 1)) \<in> set (hash_pairs hp layer)"
    using parent_in_next [of layer j] by (metis even_pad_odd layer nth_mem)
  from Cons.IH [OF rest this, of "acc @ [layer ! (j XOR 1)]"] obtain p where
    "proof_loop hp (hp target (layer ! (j XOR 1))) layers (acc @ [layer ! (j XOR 1)]) =
       Inr ((acc @ [layer ! (j XOR 1)]) @ p)"
    and "foldl hp (hp target (layer ! (j XOR 1))) p = root" and "length p = length layers" by blast
  ultimately show ?case
    using j parent_in_next(1) [of layer j] layer
    by (intro exI [of _ "layer ! (j XOR 1) # p"]) (simp add: even_pad_odd)
qed simp

text \<open>
  A proof of the right length that leads from some hash to the root either starts at a leaf or
  exhibits two different pairs with the same hash, one of the tree and one on the path.
\<close>

lemma proof_binds:
  assumes "layered hp cs layers root" and "foldl hp h p = root" and "length p = length layers"
  shows "h \<in> set cs \<or> collides hp (path_pairs hp h p) (tree_pairs layers)"
  using assms
proof (induction layers arbitrary: cs h p)
  case (Cons layer layers)
  then obtain s p' where p: "p = s # p'" by (cases p) auto
  from Cons.prems have cs: "set layer = set cs" and rest: "layered hp (hash_pairs hp layer) layers root"
    by (auto simp: set_pad_odd)
  have "hp h s \<in> set (hash_pairs hp layer) \<or> collides hp (path_pairs hp (hp h s) p') (tree_pairs layers)"
    using Cons.IH [OF rest, of "hp h s" p'] Cons.prems(2,3) by (simp add: p)
  then show ?case
  proof
    assume "hp h s \<in> set (hash_pairs hp layer)"
    then obtain c d where cd: "(c, d) \<in> set (layer_pairs layer)" "hp h s = hp c d"
      by (auto simp: hash_pairs_layer_pairs)
    show ?thesis
    proof (cases "{h, s} = {c, d}")
      case True
      with layer_pairs_set [OF cd(1)] cs show ?thesis by auto
    next
      case False
      with cd have "collides hp (path_pairs hp h p) (tree_pairs (layer # layers))"
        unfolding p by (intro collidesI [of h s _ c d]) (simp_all add: tree_pairs_def)
      then show ?thesis ..
    qed
  next
    assume "collides hp (path_pairs hp (hp h s) p') (tree_pairs layers)"
    then have "collides hp (path_pairs hp h p) (tree_pairs (layer # layers))"
      by (rule collides_mono) (auto simp: p tree_pairs_def)
    then show ?thesis ..
  qed
qed simp

end

text \<open>The code's pair hash sorts the pair first, whatever the underlying hash function.\<close>

lemma hashPair_sym: "hashPair kec a b = hashPair kec b a"
  by (auto simp: hashPair_def not_less)





interpretation ph: pair_hash "hashPair kec" for kec
  by unfold_locales (rule hashPair_sym)


lemma GetProof_found:
  assumes "leaf \<in> set leaves"
  shows "\<exists>p. GetProof kec (NewTree kec leaves) leaf = Inr p \<and>
      foldl (hashPair kec) leaf p = mt_Root (NewTree kec leaves) \<and>
      length leaves \<le> 2 ^ length p \<and> 2 ^ length p < 2 * length leaves"
proof -
  from assms have "leaves \<noteq> []" by auto
  note L = NewTree_layered [OF this, of kec]
  from ph.proof_found [OF L assms, of "[]"] layered_height [OF L] show ?thesis
    by (auto simp: GetProof_def)
qed

section \<open>Properties\<close>

text \<open>
  C4: Completeness of the tree: every leaf has a proof, found without error, whose siblings hashed
  onto the leaf one after the other give the root; the proof has one hash per layer and there are
  as many layers as it takes to halve the number of leaves down to one, rounding up.
\<close>

theorem GetProof_complete:
  assumes "leaf \<in> set leaves"
  shows "\<exists>p. GetProof kec (NewTree kec leaves) leaf = Inr p \<and>
      foldl (hashPair kec) leaf p = mt_Root (NewTree kec leaves) \<and>
      length leaves \<le> 2 ^ length p \<and> 2 ^ length p < 2 * length leaves"
  using assms by (rule GetProof_found)

theorem GetProof_complete_witness:
  "\<exists>p. GetProof from_be (NewTree from_be [1, 2, 3]) 2 = Inr p \<and>
       foldl (hashPair from_be) 2 p = mt_Root (NewTree from_be [1, 2, 3]) \<and> length p = 2"
proof -
  have "length p = 2" if "3 \<le> (2 :: nat) ^ length p" and "2 ^ length p < (6 :: nat)" for p :: "hash list"
  proof -
    have "length p < 3" using that(2) power_increasing [of 3 "length p" "2 :: nat"] by (cases "length p < 3") auto
    moreover have "length p \<noteq> 0" and "length p \<noteq> 1" using that(1) by auto
    ultimately show ?thesis by linarith
  qed
  with GetProof_complete [of 2 "[1, 2, 3]" from_be] show ?thesis by fastforce
qed




text \<open>The proofs of all leaves at once.\<close>

lemma GetProofs_fold:
  assumes "\<And>x. x \<in> set xs \<Longrightarrow> \<exists>p. GetProof kec t x = Inr p"
  shows "\<exists>m. foldE (\<lambda>m x. bindE (GetProof kec t x) (\<lambda>p. Inr (gm_put x p m))) m0 xs = Inr m \<and>
     (\<forall>x. gm_get m x = (if x \<in> set xs then Some (projr (GetProof kec t x)) else gm_get m0 x))"
  using assms
proof (induction xs arbitrary: m0)
  case (Cons x xs)
  from Cons.prems [of x] obtain p where p: "GetProof kec t x = Inr p" by auto
  from Cons.IH [of "gm_put x p m0"] Cons.prems obtain m where
    "foldE (\<lambda>m x. bindE (GetProof kec t x) (\<lambda>p. Inr (gm_put x p m))) (gm_put x p m0) xs = Inr m"
    and "\<forall>y. gm_get m y = (if y \<in> set xs then Some (projr (GetProof kec t y)) else gm_get (gm_put x p m0) y)"
    by auto
  with p show ?case by (auto simp: gm_get_put)
qed simp

text \<open>
  GetProofs gives every leaf of a tree with two leaves or more, and nothing else, the proof
  GetProof gives it, and every one of these proofs folds to the root. A tree of a single leaf has
  no layers: GetProofs fails on it, and GetProof returns the empty proof for any hash at all.
\<close>

theorem GetProofs_exact:
  assumes "1 < length leaves"
  shows "(\<exists>m. GetProofs kec (NewTree kec leaves) = Inr m \<and> dom (gm_get m) = set leaves \<and>
      (\<forall>leaf p. gm_get m leaf = Some p \<longrightarrow> foldl (hashPair kec) leaf p = mt_Root (NewTree kec leaves))) \<and>
    GetProofs kec (NewTree kec [x]) = Inl ErrNoLayers \<and> GetProof kec (NewTree kec [x]) h = Inr []"
proof -
  let ?t = "NewTree kec leaves"
  from assms have "leaves \<noteq> []" by auto
  note L = NewTree_layered [OF this, of kec]
  from layered_height [OF L] assms obtain ls where layers: "mt_Layers ?t = pad_odd leaves # ls"
    using L by (cases "mt_Layers ?t") auto
  have found: "\<exists>p. GetProof kec ?t leaf = Inr p \<and> foldl (hashPair kec) leaf p = mt_Root ?t"
    if "leaf \<in> set leaves" for leaf
    using GetProof_found [OF that, of kec] by blast
  have "\<exists>p. GetProof kec ?t leaf = Inr p" if "leaf \<in> set (pad_odd leaves)" for leaf
    using found that by (auto simp: set_pad_odd)
  from GetProofs_fold [OF this, of "pad_odd leaves" "[]"] obtain m where
    "foldE (\<lambda>m x. bindE (GetProof kec ?t x) (\<lambda>p. Inr (gm_put x p m))) [] (pad_odd leaves) = Inr m"
    and m': "\<forall>x. gm_get m x =
      (if x \<in> set (pad_odd leaves) then Some (projr (GetProof kec ?t x)) else gm_get [] x)" by blast
  then have "GetProofs kec ?t = Inr m" by (simp add: GetProofs_def layers)
  moreover from m' have m: "gm_get m x = (if x \<in> set leaves then Some (projr (GetProof kec ?t x)) else None)"
    for x by (simp add: set_pad_odd)
  moreover have "foldl (hashPair kec) leaf p = mt_Root ?t" if "gm_get m leaf = Some p" for leaf p
    using found [of leaf] that by (auto simp: m split: if_splits)
  moreover have "dom (gm_get m) = set leaves" by (auto simp: m dom_def split: if_splits)
  moreover have "NewTree kec [x] = \<lparr>mt_Root = x, mt_Layers = []\<rparr>"
    by (simp add: NewTree_def build_layers.simps)
  ultimately show ?thesis by (auto simp: GetProofs_def GetProof_def)
qed

theorem GetProofs_exact_witness:
  "\<exists>m. GetProofs from_be (NewTree from_be [1, 2, 3]) = Inr m \<and> dom (gm_get m) = {1, 2, 3}"
  using GetProofs_exact [of "[1, 2, 3]" from_be 1 1] by auto

end
