(* ===== verification/Signature.thy ===== *)
theory Signature
  imports SafeCast
begin

text \<open>
  \<open>types/signature.go\<close>, and the code that uses signatures without looking at a proposal:
  recovering the signers of a list (\<open>RecoverSigningAddresses\<close> of \<open>proposal.go\<close>), the duplicate
  check of \<open>Proposal.Validate\<close>, and the normalisation of the recovery byte for the contracts
  (\<open>sdk/evm/utils.go\<close>, \<open>sdk/solana/executor.go\<close>). Recovering a public key and hashing it to an
  address are \<open>go-ethereum\<close>'s: the record \<open>crypto_pkg\<close>.
\<close>

record crypto_pkg = cast_pkg +
  Keccak256Hash :: "byte list \<Rightarrow> hash"
  SigToPub :: "byte list \<Rightarrow> byte list \<Rightarrow> byte list res"
  PubkeyToAddress :: "byte list \<Rightarrow> address"

section \<open>Bytes\<close>

definition NewSignatureFromBytes :: "byte list \<Rightarrow> signature res" where
  "NewSignatureFromBytes sig =
     (if length sig \<noteq> 65 then Inl (Errorf ''invalid signature length: %d'')
      else Inr \<lparr>sig_R = from_be (take 32 sig), sig_S = from_be (drop 32 (take 64 sig)), sig_V = sig ! 64\<rparr>)"

definition ToBytes :: "signature \<Rightarrow> byte list" where
  "ToBytes s = be_bytes 32 (sig_R s) @ be_bytes 32 (sig_S s) @ [sig_V s]"

lemma length_ToBytes [simp]: "length (ToBytes s) = 65"
  by (simp add: ToBytes_def)

lemma NewSignature_ToBytes: "NewSignatureFromBytes (ToBytes s) = Inr s"
  by (simp add: NewSignatureFromBytes_def ToBytes_def from_be_bytes nth_append)

lemma ToBytes_NewSignature:
  assumes "NewSignatureFromBytes bs = Inr s"
  shows "ToBytes s = bs"
proof -
  from assms have len: "length bs = 65"
    and s: "s = \<lparr>sig_R = from_be (take 32 bs), sig_S = from_be (drop 32 (take 64 bs)), sig_V = bs ! 64\<rparr>"
    by (auto simp: NewSignatureFromBytes_def split: if_splits)
  have "be_bytes 32 (from_be (take 32 bs) :: hash) = take 32 bs"
    using be_bytes_from_be [of "take 32 bs", where 'a = 256] len by simp
  moreover have "be_bytes 32 (from_be (drop 32 (take 64 bs)) :: hash) = drop 32 (take 64 bs)"
    using be_bytes_from_be [of "drop 32 (take 64 bs)", where 'a = 256] len by simp
  moreover have "bs = take 32 bs @ drop 32 (take 64 bs) @ [bs ! 64]"
  proof -
    have "drop 64 bs = [bs ! 64]" using len by (simp add: Cons_nth_drop_Suc [symmetric])
    then have "bs = take 64 bs @ [bs ! 64]" by (metis append_take_drop_id)
    moreover have "take 64 bs = take 32 bs @ drop 32 (take 64 bs)"
      using append_take_drop_id [of 32 "take 64 bs"] by simp
    ultimately show ?thesis by (metis append_assoc)
  qed
  ultimately show ?thesis by (simp add: ToBytes_def s)
qed

section \<open>Recovery\<close>

definition RecoverPublicKey :: "'c crypto_pkg_scheme \<Rightarrow> signature \<Rightarrow> hash \<Rightarrow> byte list res" where
  "RecoverPublicKey C s h =
     (let sig = ToBytes s in
      if length sig \<noteq> 65 then Inl (Errorf ''invalid signature length'')
      else
        let sig' = (if sig ! 64 > 1 then sig[64 := sig ! 64 - 27] else sig) in
        SigToPub C (be_bytes 32 h) sig')"

definition Recover :: "'c crypto_pkg_scheme \<Rightarrow> signature \<Rightarrow> hash \<Rightarrow> address res" where
  "Recover C s h =
     (case RecoverPublicKey C s h of
        Inl err \<Rightarrow> Inl (Wrapf ''failed to recover public key: %w'' err)
      | Inr pubKey \<Rightarrow> Inr (PubkeyToAddress C pubKey))"

record recovery_failure =
  rf_Index :: nat
  rf_Sig :: signature
  rf_Err :: mcms_error

text \<open>The loop over the signatures, \<open>i\<close> the index of the first one left.\<close>

fun recover_loop ::
  "'c crypto_pkg_scheme \<Rightarrow> hash \<Rightarrow> nat \<Rightarrow> signature list \<Rightarrow>
     address list \<times> recovery_failure list \<Rightarrow> address list \<times> recovery_failure list" where
  "recover_loop C h i [] st = st"
| "recover_loop C h i (sig # sigs) (recovered, failures) =
     recover_loop C h (Suc i) sigs
       (case Recover C sig h of
          Inl rerr \<Rightarrow> (recovered, failures @ [\<lparr>rf_Index = i, rf_Sig = sig, rf_Err = rerr\<rparr>])
        | Inr addr \<Rightarrow> (recovered @ [addr], failures))"

definition RecoverSigningAddresses ::
  "'c crypto_pkg_scheme \<Rightarrow> hash \<Rightarrow> signature list \<Rightarrow> address list \<times> recovery_failure list" where
  "RecoverSigningAddresses C signingHash signatures = recover_loop C signingHash 0 signatures ([], [])"

text \<open>\<open>RecoverSigningAddressesStrict\<close> after the signing hash has been computed.\<close>

definition RecoverStrict :: "'c crypto_pkg_scheme \<Rightarrow> hash \<Rightarrow> signature list \<Rightarrow> address list res" where
  "RecoverStrict C h sigs =
     (case RecoverSigningAddresses C h sigs of
        (recovered, []) \<Rightarrow> Inr recovered
      | (recovered, f # _) \<Rightarrow>
          Inl (InvalidSignatureAtIndexError (rf_Index f) (rf_Sig f) 0 (Some (rf_Err f))))"

section \<open>Duplicates\<close>

definition hex_digit :: "nat \<Rightarrow> char" where
  "hex_digit n = ''0123456789abcdef'' ! n"

definition hex_byte :: "byte \<Rightarrow> string" where
  "hex_byte b = [hex_digit (unat b div 16), hex_digit (unat b mod 16)]"

definition hex_encode :: "byte list \<Rightarrow> string" where
  "hex_encode bs = concat (map hex_byte bs)"

fun duplicates_loop :: "string set \<Rightarrow> signature list \<Rightarrow> unit res" where
  "duplicates_loop seen [] = Inr ()"
| "duplicates_loop seen (s # sigs) =
     (let key = hex_encode (ToBytes s) in
      if key \<in> seen then Inl (DuplicateSignersError key)
      else duplicates_loop (insert key seen) sigs)"

definition validateNoDuplicateSigners :: "signature list \<Rightarrow> unit res" where
  "validateNoDuplicateSigners sigs = duplicates_loop {} sigs"

section \<open>Signatures for the contracts\<close>

text \<open>\<open>toGethSignature\<close> and \<open>solanaSignatures\<close>: 0 and 1 become 27 and 28.\<close>

definition toGethSignature :: "signature \<Rightarrow> signature" where
  "toGethSignature s = (if sig_V s < 2 then s\<lparr>sig_V := sig_V s + 27\<rparr> else s)"

definition transformSignatures :: "signature list \<Rightarrow> signature list" where
  "transformSignatures sigs = map toGethSignature sigs"

definition solanaSignatures :: "signature list \<Rightarrow> signature list" where
  "solanaSignatures sigs =
     map (\<lambda>s. let v = sig_V s; v' = (if v < 2 then v + 27 else v) in \<lparr>sig_R = sig_R s, sig_S = sig_S s, sig_V = v'\<rparr>) sigs"

section \<open>Lemmas\<close>

lemma ToBytes_inject: "ToBytes s = ToBytes t \<longleftrightarrow> s = t"
  by (metis NewSignature_ToBytes sum.inject(2))

lemma hex_digit_inject: "m < 16 \<Longrightarrow> n < 16 \<Longrightarrow> hex_digit m = hex_digit n \<longleftrightarrow> m = n"
proof -
  have "distinct ''0123456789abcdef''" by simp
  then show "m < 16 \<Longrightarrow> n < 16 \<Longrightarrow> hex_digit m = hex_digit n \<longleftrightarrow> m = n"
    unfolding hex_digit_def by (subst nth_eq_iff_index_eq) simp_all
qed

lemma hex_byte_inject: "hex_byte a = hex_byte b \<longleftrightarrow> a = b"
proof
  assume "hex_byte a = hex_byte b"
  moreover have "unat x div 16 < 16" for x :: byte
  proof -
    have "unat x < 16 * 16" using unsigned_less [of x, where 'a = nat] by simp
    then show ?thesis by (rule less_mult_imp_div_less)
  qed
  ultimately have "unat a div 16 = unat b div 16" and "unat a mod 16 = unat b mod 16"
    by (simp_all add: hex_byte_def hex_digit_inject)
  then have "unat a = unat b" by (metis div_mult_mod_eq)
  then show "a = b" by (simp add: word_unat_eq_iff)
qed simp

lemma hex_encode_inject: "hex_encode xs = hex_encode ys \<longleftrightarrow> xs = ys"
proof (induction xs arbitrary: ys)
  case Nil
  then show ?case by (cases ys) (auto simp: hex_encode_def hex_byte_def)
next
  case (Cons x xs)
  show ?case
  proof (cases ys)
    case (Cons y ys')
    then show ?thesis
      using Cons.IH [of ys'] hex_byte_inject [of x y] by (auto simp: hex_encode_def hex_byte_def)
  qed (auto simp: hex_encode_def hex_byte_def)
qed

lemma duplicates_loop_ok:
  "duplicates_loop seen sigs = Inr () \<longleftrightarrow>
     distinct sigs \<and> (\<lambda>s. hex_encode (ToBytes s)) ` set sigs \<inter> seen = {}"
proof (induction seen sigs rule: duplicates_loop.induct)
  case (2 seen s sigs)
  then show ?case by (auto simp: Let_def hex_encode_inject ToBytes_inject)
qed simp

lemma recover_loop_acc:
  "recover_loop C h i sigs (as, fs) =
     (as @ map projr (filter (\<lambda>r. \<not> isl r) (map (\<lambda>s. Recover C s h) sigs)),
      fs @ map (\<lambda>(j, s). \<lparr>rf_Index = j, rf_Sig = s, rf_Err = projl (Recover C s h)\<rparr>)
             (filter (\<lambda>(j, s). isl (Recover C s h)) (enumerate i sigs)))"
  by (induction sigs arbitrary: i as fs) (auto split: sum.splits)

lemma filter_enumerate_empty:
  "filter (\<lambda>(j, x). P x) (enumerate i xs) = [] \<longleftrightarrow> (\<forall>x \<in> set xs. \<not> P x)"
  by (induction xs arbitrary: i) auto

lemma map_all_Inr:
  "map f xs = map Inr ys \<longleftrightarrow> (\<forall>x \<in> set xs. \<not> isl (f x)) \<and>
     ys = map projr (filter (\<lambda>r. \<not> isl r) (map f xs))"
proof (induction xs arbitrary: ys)
  case (Cons x xs)
  then show ?case by (cases ys; cases "f x") auto
qed auto

text \<open>The strict recovery returns exactly when every signature recovers, in signature order.\<close>

lemma RecoverStrict_Inr:
  "RecoverStrict C h sigs = Inr as \<longleftrightarrow> map (\<lambda>s. Recover C s h) sigs = map Inr as"
proof -
  let ?F = "\<lambda>i. map (\<lambda>(j, s). \<lparr>rf_Index = j, rf_Sig = s, rf_Err = projl (Recover C s h)\<rparr>)
             (filter (\<lambda>(j, s). isl (Recover C s h)) (enumerate i sigs))"
  have "?F 0 = [] \<longleftrightarrow> (\<forall>s \<in> set sigs. \<not> isl (Recover C s h))"
    using filter_enumerate_empty [of "\<lambda>s. isl (Recover C s h)"] by simp
  then show ?thesis
    by (cases "?F 0")
      (auto simp: RecoverStrict_def RecoverSigningAddresses_def recover_loop_acc map_all_Inr)
qed

lemma RecoverStrict_length: "RecoverStrict C h sigs = Inr as \<Longrightarrow> length as = length sigs"
  by (auto simp: RecoverStrict_Inr dest: map_eq_imp_length_eq)

lemma RecoverStrict_nth:
  "RecoverStrict C h sigs = Inr as \<Longrightarrow> i < length sigs \<Longrightarrow> Recover C (sigs ! i) h = Inr (as ! i)"
  by (auto simp: RecoverStrict_Inr list_eq_iff_nth_eq)

lemma small_V: "sig_V s < 2 \<Longrightarrow> sig_V s = 0 \<or> sig_V s = 1"
  by unat_arith

lemma Recover_toGeth: "Recover C (toGethSignature s) h = Recover C s h"
proof -
  have "RecoverPublicKey C (toGethSignature s) h = RecoverPublicKey C s h"
  proof (cases "sig_V s < 2")
    case True
    then have "sig_V s = 0 \<or> sig_V s = 1" by (rule small_V)
    with True show ?thesis
      by (auto simp: RecoverPublicKey_def toGethSignature_def ToBytes_def Let_def nth_append list_update_append)
  qed (simp add: toGethSignature_def)
  then show ?thesis by (simp add: Recover_def)
qed

section \<open>Properties\<close>

text \<open>
  Signatures and 65-byte strings are the same thing: reading back the bytes of a signature
  gives the signature, whatever is read from bytes gives the bytes back, and exactly the strings
  of another length are refused.
\<close>

theorem signature_bytes_roundtrip:
  "NewSignatureFromBytes (ToBytes s) = Inr s \<and>
   (NewSignatureFromBytes bs = Inr t \<longrightarrow> ToBytes t = bs) \<and>
   (isl (NewSignatureFromBytes bs) \<longleftrightarrow> length bs \<noteq> 65)"
  using NewSignature_ToBytes ToBytes_NewSignature by (auto simp: NewSignatureFromBytes_def)

theorem signature_bytes_roundtrip_witness:
  "NewSignatureFromBytes (replicate 64 0 @ [28]) = Inr \<lparr>sig_R = 0, sig_S = 0, sig_V = 28\<rparr> \<and>
   ToBytes \<lparr>sig_R = 0, sig_S = 0, sig_V = 28\<rparr> = replicate 64 0 @ [28]"
proof -
  have "from_be (replicate 32 0) = (0 :: hash)" by code_simp
  then have "NewSignatureFromBytes (replicate 64 0 @ [28]) = Inr \<lparr>sig_R = 0, sig_S = 0, sig_V = 28\<rparr>"
    by (simp add: NewSignatureFromBytes_def nth_append)
  with signature_bytes_roundtrip [of undefined "replicate 64 0 @ [28]"] show ?thesis by blast
qed

text \<open>
  The form in which a signature is sent to a contract recovers to the same signer as the
  stored form, so the order computed from stored signatures is the order the contract sees; and
  once normalised a signature is left alone. The Solana conversion agrees with the EVM one.
\<close>

theorem contract_signature_same_signer:
  "Recover C (toGethSignature s) h = Recover C s h \<and>
   toGethSignature (toGethSignature s) = toGethSignature s \<and>
   solanaSignatures sigs = transformSignatures sigs"
proof -
  have "toGethSignature (toGethSignature s) = toGethSignature s"
    using small_V [of s] by (cases "sig_V s < 2") (auto simp: toGethSignature_def)
  with Recover_toGeth [of C s h] show ?thesis
    by (auto simp: solanaSignatures_def transformSignatures_def toGethSignature_def Let_def)
qed

text \<open>
  The check for duplicate signers accepts a list exactly when no two signatures are the same
  bytes. That is weaker than its name: a signature with recovery byte 0 and the same signature with
  recovery byte 27 pass together, and recover to one signer.
\<close>

theorem no_duplicates_is_distinct_bytes:
  "(validateNoDuplicateSigners sigs = Inr () \<longleftrightarrow> distinct sigs) \<and>
   validateNoDuplicateSigners [s\<lparr>sig_V := 0\<rparr>, s\<lparr>sig_V := 27\<rparr>] = Inr () \<and>
   Recover C (s\<lparr>sig_V := 0\<rparr>) h = Recover C (s\<lparr>sig_V := 27\<rparr>) h"
proof -
  have "s\<lparr>sig_V := 0\<rparr> \<noteq> s\<lparr>sig_V := 27\<rparr>"
  proof
    assume "s\<lparr>sig_V := 0\<rparr> = s\<lparr>sig_V := 27\<rparr>"
    from arg_cong [OF this, of sig_V] show False by simp
  qed
  moreover have "Recover C (s\<lparr>sig_V := 0\<rparr>) h = Recover C (s\<lparr>sig_V := 27\<rparr>) h"
    using Recover_toGeth [of C "s\<lparr>sig_V := 0\<rparr>" h] by (simp add: toGethSignature_def)
  ultimately show ?thesis
    by (simp add: validateNoDuplicateSigners_def duplicates_loop_ok del: duplicates_loop.simps)
qed

end
