(* ===== verification/ChainTypes.thy ===== *)
theory ChainTypes
  imports Signature "HOL-Library.List_Lexorder" "HOL-Library.Char_ord"
begin

text \<open>
  The data the proposals are made of: chain selectors and families (\<open>types/chain_selector.go\<close>),
  transactions and operations (\<open>types/operation.go\<close>), timelock actions (\<open>types/timelock.go\<close>),
  raw JSON fields, and the metadata of a chain with its Merge (\<open>types/chain.go\<close>).
\<close>

section \<open>Chain families\<close>

definition supportedFamilies :: "family list" where
  "supportedFamilies =
     [FamilyEVM, FamilySolana, FamilyAptos, FamilySui, FamilyTon, FamilyStellar, FamilyCanton]"

text \<open>The lookup \<open>GetChainDetailsBySelector\<close> of \<open>chain-selectors\<close> is the parameter \<open>details\<close>.\<close>

definition GetChainSelectorFamily :: "(chain_selector \<Rightarrow> family res) \<Rightarrow> chain_selector \<Rightarrow> family res" where
  "GetChainSelectorFamily details sel =
     (case details sel of
        Inl err \<Rightarrow> Inl (ErrChainFamilyNotFound sel)
      | Inr fam \<Rightarrow> if fam \<notin> set supportedFamilies then Inl (ErrUnsupportedChainFamily fam) else Inr fam)"

lemma GetChainSelectorFamily_Inr:
  "GetChainSelectorFamily details sel = Inr fam \<longleftrightarrow> details sel = Inr fam \<and> fam \<in> set supportedFamilies"
  by (auto simp: GetChainSelectorFamily_def split: sum.splits)

section \<open>JSON\<close>

text \<open>
  A Go \<open>any\<close> decoded from JSON. A number is the bit pattern of its \<open>float64\<close>, or, from a decoder with
  \<open>UseNumber\<close>, its text. An object is a Go map. A \<open>json.RawMessage\<close> is empty, or not JSON, or the
  text of a value: two texts of the same value are not told apart.
\<close>

datatype json =
    JNull
  | JBool bool
  | JNum u64
  | JNumber string
  | JStr string
  | JArr "json list"
  | JObj "(string \<times> json) list"

datatype raw = RawEmpty | RawInvalid | RawJson json

definition raw_nonempty :: "raw \<Rightarrow> bool" where
  "raw_nonempty r \<longleftrightarrow> r \<noteq> RawEmpty"

text \<open>\<open>json.Unmarshal\<close> into a nil \<open>map[string]any\<close>: \<open>None\<close> is the nil map; a repeated key keeps its last value.\<close>

definition unmarshal_map :: "raw \<Rightarrow> (string, json) gomap option res" where
  "unmarshal_map r =
     (case r of
        RawJson (JObj kvs) \<Rightarrow> Inr (Some (foldl (\<lambda>m kv. gm_put (fst kv) (snd kv) m) [] kvs))
      | RawJson JNull \<Rightarrow> Inr None
      | RawJson _ \<Rightarrow> Inl (External ''json: cannot unmarshal into map'')
      | RawInvalid \<Rightarrow> Inl (External ''json: invalid'')
      | RawEmpty \<Rightarrow> Inl (External ''json: unexpected end of input''))"

text \<open>\<open>json.Marshal\<close> of a map writes its keys in ascending order.\<close>

definition marshal_map :: "(string, json) gomap \<Rightarrow> raw" where
  "marshal_map m = RawJson (JObj (sort_key fst m))"

text \<open>
  \<open>a != b\<close> on two interface values: different dynamic types differ; slices and maps of the same
  type cannot be compared and panic; floats compare as numbers, so the two zeros are equal.
\<close>

definition float_zero :: "u64 \<Rightarrow> bool" where
  "float_zero x \<longleftrightarrow> x = 0 \<or> x = 9223372036854775808"

fun iface_eq :: "json \<Rightarrow> json \<Rightarrow> bool res" where
  "iface_eq (JArr _) (JArr _) = Inl (Panic ''comparing uncomparable type []interface {}'')"
| "iface_eq (JObj _) (JObj _) = Inl (Panic ''comparing uncomparable type map[string]interface {}'')"
| "iface_eq (JNum x) (JNum y) = Inr (x = y \<or> float_zero x \<and> float_zero y)"
| "iface_eq a b = Inr (a = b)"

section \<open>Operations\<close>

record transaction =
  tx_ContractType :: string
  tx_ContractVersion :: "string option"
  tx_Tags :: "string list"
  tx_To :: string
  tx_Data :: "byte list"
  tx_AdditionalFields :: raw

record operation =
  op_ChainSelector :: chain_selector
  op_Transaction :: transaction

record batch_operation =
  bop_ChainSelector :: chain_selector
  bop_Transactions :: "transaction list"

text \<open>\<open>TimelockAction\<close> is a string with three named values.\<close>

datatype timelock_action =
    TimelockActionSchedule | TimelockActionCancel | TimelockActionBypass | OtherAction string

section \<open>Chain metadata\<close>

record chain_metadata =
  cm_StartingOpCount :: u64
  cm_MCMAddress :: string
  cm_AdditionalFields :: raw

text \<open>One iteration of the merge loop; writing to the nil map panics, reading it does not.\<close>

definition merge_field :: "(string, json) gomap option \<Rightarrow> string \<times> json \<Rightarrow> (string, json) gomap option res" where
  "merge_field this kv = (case kv of (key, otherValue) \<Rightarrow>
     (case this of
        None \<Rightarrow> Inl (Panic ''assignment to entry in nil map'')
      | Some m \<Rightarrow>
          (case gm_get m key of
             None \<Rightarrow> Inr (Some (gm_put key otherValue m))
           | Some thisValue \<Rightarrow>
               bindE (iface_eq thisValue otherValue) (\<lambda>eq.
                 if \<not> eq then Inl (Errorf ''cannot merge ChainMetadata with different value for key %q in AdditionalFields: %v vs %v'')
                 else Inr (Some m)))))"

definition unmarshal_if :: "raw \<Rightarrow> (string, json) gomap option res" where
  "unmarshal_if r =
     (if raw_nonempty r
      then wrapE (Wrapf ''failed to unmarshal AdditionalFields of ChainMetadata (%v): %w'') (unmarshal_map r)
      else Inr None)"

definition cm_Merge :: "chain_metadata \<Rightarrow> chain_metadata \<Rightarrow> chain_metadata res" where
  "cm_Merge m other =
     (if cm_MCMAddress m \<noteq> cm_MCMAddress other
      then Inl (Errorf ''cannot merge ChainMetadata with different MCMAddress: %s vs %s'')
      else
        bindE (unmarshal_if (cm_AdditionalFields m)) (\<lambda>this.
        bindE (unmarshal_if (cm_AdditionalFields other)) (\<lambda>oth.
        bindE (foldE merge_field this (case oth of None \<Rightarrow> [] | Some kvs \<Rightarrow> kvs)) (\<lambda>merged.
        Inr \<lparr>cm_StartingOpCount = min (cm_StartingOpCount m) (cm_StartingOpCount other),
             cm_MCMAddress = cm_MCMAddress m,
             cm_AdditionalFields =
               (case merged of
                  None \<Rightarrow> RawEmpty
                | Some kvs \<Rightarrow> if length kvs > 0 then marshal_map kvs else RawEmpty)\<rparr>))))"

section \<open>Merging metadata: lemmas\<close>

text \<open>The fields of a raw message as a partial function.\<close>

definition raw_fields :: "raw \<Rightarrow> string \<Rightarrow> json option" where
  "raw_fields r = (case unmarshal_if r of Inr (Some m) \<Rightarrow> gm_get m | _ \<Rightarrow> Map.empty)"

lemma foldl_put_wf: "gm_wf m \<Longrightarrow> gm_wf (foldl (\<lambda>m kv. gm_put (fst kv) (snd kv) m) m kvs)"
  by (induction kvs arbitrary: m) auto

lemma foldl_put_get:
  "gm_get (foldl (\<lambda>m kv. gm_put (fst kv) (snd kv) m) m kvs) = gm_get m ++ gm_get (rev kvs)"
  by (induction kvs arbitrary: m) (simp_all add: gm_get_put)

lemma unmarshal_if_wf: "unmarshal_if r = Inr (Some m) \<Longrightarrow> gm_wf m"
  by (auto simp: unmarshal_if_def unmarshal_map_def foldl_put_wf split: if_splits raw.splits json.splits)

lemma gm_get_sort: "gm_wf m \<Longrightarrow> gm_get (sort_key f m) = gm_get m"
proof -
  assume "gm_wf m"
  then have m: "distinct (map fst m)" by (simp add: gm_wf_def)
  then have "distinct (map fst (sort_key f m))" by (simp add: distinct_map)
  with m show ?thesis by (subst map_of_inject_set) simp_all
qed

lemma raw_fields_marshal: "gm_wf m \<Longrightarrow> raw_fields (marshal_map m) = gm_get m"
proof -
  assume m: "gm_wf m"
  then have "gm_wf (rev (sort_key fst m))"
    by (simp add: gm_wf_def distinct_map)
  then have "gm_get (rev (sort_key fst m)) = gm_get (sort_key fst m)"
    by (subst map_of_inject_set) (simp_all add: gm_wf_def rev_map [symmetric])
  with m show ?thesis
    by (simp add: raw_fields_def marshal_map_def unmarshal_if_def raw_nonempty_def unmarshal_map_def
        foldl_put_get gm_get_sort)
qed

lemma merge_field_Inr:
  "merge_field (Some m) (k, w) = Inr r \<longleftrightarrow>
     (case gm_get m k of
        None \<Rightarrow> r = Some (gm_put k w m)
      | Some v \<Rightarrow> iface_eq v w = Inr True \<and> r = Some m)"
  by (auto simp: merge_field_def bindE_Inr_iff split: option.splits if_splits)

text \<open>Fields of the two sides that share a name are equal in Go's sense.\<close>

definition agree_at :: "(string \<Rightarrow> json option) \<Rightarrow> (string \<Rightarrow> json option) \<Rightarrow> string \<Rightarrow> bool" where
  "agree_at f g k =
     (case f k of None \<Rightarrow> True | Some v \<Rightarrow> (case g k of None \<Rightarrow> True | Some w \<Rightarrow> iface_eq v w = Inr True))"

definition fields_agree :: "(string \<Rightarrow> json option) \<Rightarrow> (string \<Rightarrow> json option) \<Rightarrow> bool" where
  "fields_agree f g \<longleftrightarrow> (\<forall>k. agree_at f g k)"

lemma fields_agree_empty [simp]: "fields_agree f Map.empty" "fields_agree Map.empty g"
  by (simp_all add: fields_agree_def agree_at_def split: option.splits)

lemma agree_at_upd:
  "agree_at f (g(k \<mapsto> w)) x \<longleftrightarrow>
     (if x = k then (case f k of None \<Rightarrow> True | Some v \<Rightarrow> iface_eq v w = Inr True) else agree_at f g x)"
  "agree_at (f(k \<mapsto> w)) g x \<longleftrightarrow>
     (if x = k then (case g k of None \<Rightarrow> True | Some v \<Rightarrow> iface_eq w v = Inr True) else agree_at f g x)"
  by (simp_all add: agree_at_def split: option.splits)

lemma agree_at_absent: "g k = None \<Longrightarrow> agree_at f g k"
  by (simp add: agree_at_def split: option.splits)

lemma fields_agree_Cons:
  assumes "k \<notin> dom g"
  shows "fields_agree f (g(k \<mapsto> w)) \<longleftrightarrow>
    (case f k of None \<Rightarrow> True | Some v \<Rightarrow> iface_eq v w = Inr True) \<and> fields_agree f g"
proof -
  have "agree_at f g k" using assms by (simp add: domIff agree_at_absent)
  then show ?thesis unfolding fields_agree_def agree_at_upd by metis
qed

lemma fields_agree_put:
  assumes "k \<notin> dom g"
  shows "fields_agree (f(k \<mapsto> w)) g \<longleftrightarrow> fields_agree f g"
proof -
  have "agree_at f g k" "g k = None" using assms by (simp_all add: domIff agree_at_absent)
  then show ?thesis unfolding fields_agree_def agree_at_upd by auto
qed

lemma merge_fold:
  assumes "gm_wf kvs" and "gm_wf m"
  shows "foldE merge_field (Some m) kvs = Inr r \<Longrightarrow>
    \<exists>m'. r = Some m' \<and> gm_wf m' \<and> gm_get m' = gm_get kvs ++ gm_get m \<and> fields_agree (gm_get m) (gm_get kvs)"
  using assms
proof (induction kvs arbitrary: m)
  case (Cons kv kvs)
  obtain k w where kv: "kv = (k, w)" by fastforce
  from Cons.prems(2) kv have k: "k \<notin> dom (gm_get kvs)" and wf: "gm_wf kvs"
    by (auto simp: gm_wf_def dom_map_of_conv_image_fst)
  from Cons.prems(1) kv obtain m1
    where m1: "merge_field (Some m) (k, w) = Inr m1" and rest: "foldE merge_field m1 kvs = Inr r"
    by (auto simp: bindE_Inr_iff)
  show ?case
  proof (cases "gm_get m k")
    case None
    then have m1': "m1 = Some (gm_put k w m)" using m1 by (simp add: merge_field_Inr)
    from Cons.IH [OF rest [unfolded m1'] wf gm_wf_put [OF Cons.prems(3)]]
    have "\<exists>m'. r = Some m' \<and> gm_wf m' \<and> gm_get m' = gm_get kvs ++ (gm_get m)(k \<mapsto> w) \<and>
        fields_agree ((gm_get m)(k \<mapsto> w)) (gm_get kvs)"
      by (simp add: gm_get_put del: fun_upd_apply)
    moreover have "gm_get kvs ++ (gm_get m)(k \<mapsto> w) = gm_get (kv # kvs) ++ gm_get m"
      using None k by (auto simp: kv map_add_def fun_eq_iff split: option.splits)
    moreover have "fields_agree ((gm_get m)(k \<mapsto> w)) (gm_get kvs) \<Longrightarrow>
        fields_agree (gm_get m) (gm_get (kv # kvs))"
      using None k by (simp add: kv fields_agree_Cons fields_agree_put del: fun_upd_apply)
    ultimately show ?thesis by metis
  next
    case (Some v)
    then have m1': "m1 = Some m" and eq: "iface_eq v w = Inr True" using m1 by (simp_all add: merge_field_Inr)
    from Cons.IH [OF rest [unfolded m1'] wf Cons.prems(3)]
    have "\<exists>m'. r = Some m' \<and> gm_wf m' \<and> gm_get m' = gm_get kvs ++ gm_get m \<and> fields_agree (gm_get m) (gm_get kvs)" .
    moreover have "gm_get kvs ++ gm_get m = gm_get (kv # kvs) ++ gm_get m"
      using Some by (auto simp: kv map_add_def fun_eq_iff split: option.splits)
    ultimately show ?thesis
      using Some k eq by (simp add: kv fields_agree_Cons del: fun_upd_apply)
  qed
qed auto

text \<open>The parsed fields of a metadata, or \<open>None\<close> for a message that does not parse.\<close>

lemma raw_fields_unmarshal:
  "unmarshal_if r = Inr None \<Longrightarrow> raw_fields r = Map.empty"
  "unmarshal_if r = Inr (Some m) \<Longrightarrow> raw_fields r = gm_get m"
  by (auto simp: raw_fields_def)

lemma raw_fields_empty [simp]: "raw_fields RawEmpty = Map.empty"
  by (simp add: raw_fields_def unmarshal_if_def raw_nonempty_def)

lemma cm_Merge_InrE:
  assumes "cm_Merge m other = Inr r"
  obtains this oth merged where
    "cm_MCMAddress other = cm_MCMAddress m"
    "unmarshal_if (cm_AdditionalFields m) = Inr this"
    "unmarshal_if (cm_AdditionalFields other) = Inr oth"
    "foldE merge_field this (case oth of None \<Rightarrow> [] | Some kvs \<Rightarrow> kvs) = Inr merged"
    "r = \<lparr>cm_StartingOpCount = min (cm_StartingOpCount m) (cm_StartingOpCount other),
          cm_MCMAddress = cm_MCMAddress m,
          cm_AdditionalFields = (case merged of
            None \<Rightarrow> RawEmpty | Some kvs \<Rightarrow> if length kvs > 0 then marshal_map kvs else RawEmpty)\<rparr>"
  using assms unfolding cm_Merge_def by (simp add: bindE_Inr_iff split: if_splits) blast

lemma cm_Merge_fields:
  assumes "cm_Merge m other = Inr r"
  shows "raw_fields (cm_AdditionalFields r) =
      raw_fields (cm_AdditionalFields other) ++ raw_fields (cm_AdditionalFields m)"
    and "fields_agree (raw_fields (cm_AdditionalFields m)) (raw_fields (cm_AdditionalFields other))"
proof -
  from assms obtain this oth merged where
    t: "unmarshal_if (cm_AdditionalFields m) = Inr this" and
    o: "unmarshal_if (cm_AdditionalFields other) = Inr oth" and
    f: "foldE merge_field this (case oth of None \<Rightarrow> [] | Some kvs \<Rightarrow> kvs) = Inr merged" and
    r: "cm_AdditionalFields r = (case merged of
        None \<Rightarrow> RawEmpty | Some kvs \<Rightarrow> if length kvs > 0 then marshal_map kvs else RawEmpty)"
    by (elim cm_Merge_InrE) (rule that, simp_all)
  let ?kvs = "case oth of None \<Rightarrow> [] | Some kvs \<Rightarrow> kvs"
  have kvs: "gm_wf ?kvs" "raw_fields (cm_AdditionalFields other) = gm_get ?kvs"
    using o by (auto split: option.splits simp: raw_fields_unmarshal dest: unmarshal_if_wf)
  show "raw_fields (cm_AdditionalFields r) =
      raw_fields (cm_AdditionalFields other) ++ raw_fields (cm_AdditionalFields m)" (is ?fields)
    and "fields_agree (raw_fields (cm_AdditionalFields m)) (raw_fields (cm_AdditionalFields other))" (is ?agree)
  proof -
    show ?fields
    proof (cases this)
      case None
      with f have "?kvs = [] \<and> merged = None"
        by (cases ?kvs) (auto simp: merge_field_def)
      with None t kvs r show ?thesis by (simp add: raw_fields_unmarshal)
    next
      case (Some m0)
      from merge_fold [OF kvs(1) unmarshal_if_wf [OF t [unfolded Some]] f [unfolded Some]]
      obtain m' where "merged = Some m'" "gm_wf m'" "gm_get m' = gm_get ?kvs ++ gm_get m0" by blast
      then show ?thesis
        using r t kvs Some by (cases m') (simp_all add: raw_fields_unmarshal raw_fields_marshal)
    qed
    show ?agree
    proof (cases this)
      case None
      then show ?thesis using t by (simp add: raw_fields_unmarshal)
    next
      case (Some m0)
      from merge_fold [OF kvs(1) unmarshal_if_wf [OF t [unfolded Some]] f [unfolded Some]] t kvs(2)
      show ?thesis by (auto simp: raw_fields_unmarshal Some)
    qed
  qed
qed

lemma cm_Merge_fixed:
  "cm_Merge m other = Inr r \<Longrightarrow>
     cm_MCMAddress other = cm_MCMAddress m \<and> cm_MCMAddress r = cm_MCMAddress m \<and>
     cm_StartingOpCount r = min (cm_StartingOpCount m) (cm_StartingOpCount other)"
  by (elim cm_Merge_InrE) simp


section \<open>Properties\<close>

text \<open>
  A successful ChainMetadata.Merge keeps the MCM address both sides share, takes the smaller
  starting op count, and its additional fields, read back from the JSON it marshals, are those of
  the two sides together: every field of the receiver, and the fields only the other side has.
  Fields with the same name agreed under Go's interface equality.
\<close>

theorem cm_Merge_correct:
  assumes "cm_Merge m other = Inr r"
  shows "cm_MCMAddress r = cm_MCMAddress m \<and> cm_MCMAddress other = cm_MCMAddress m \<and>
    cm_StartingOpCount r = min (cm_StartingOpCount m) (cm_StartingOpCount other) \<and>
    raw_fields (cm_AdditionalFields r) =
      raw_fields (cm_AdditionalFields other) ++ raw_fields (cm_AdditionalFields m) \<and>
    fields_agree (raw_fields (cm_AdditionalFields m)) (raw_fields (cm_AdditionalFields other))"
  using cm_Merge_fixed [OF assms] cm_Merge_fields [OF assms] by simp

definition cm_example :: "u64 \<Rightarrow> (string \<times> json) list \<Rightarrow> chain_metadata" where
  "cm_example n kvs = \<lparr>cm_StartingOpCount = n, cm_MCMAddress = ''0x1'', cm_AdditionalFields = RawJson (JObj kvs)\<rparr>"

lemma cm_example_merge:
  "cm_Merge (cm_example 9 [(''role'', JStr ''a'')]) (cm_example 4 [(''chainId'', JNum 1), (''role'', JStr ''a'')]) =
     Inr (cm_example 4 [(''chainId'', JNum 1), (''role'', JStr ''a'')])"
  by code_simp

theorem cm_Merge_correct_witness:
  "raw_fields (RawJson (JObj [(''chainId'', JNum 1), (''role'', JStr ''a'')])) =
     raw_fields (RawJson (JObj [(''chainId'', JNum 1), (''role'', JStr ''a'')])) ++
     raw_fields (RawJson (JObj [(''role'', JStr ''a'')]))"
  using cm_Merge_correct [OF cm_example_merge] by (simp add: cm_example_def)

text \<open>
  ChainMetadata.Merge writes into the map of the receiver's additional fields. When the receiver
  has none (an empty message or JSON null), that map is nil, and any field of the other side makes
  Merge panic instead of being merged.
\<close>

theorem cm_Merge_nil_map_panics:
  assumes "cm_MCMAddress m = cm_MCMAddress other"
    and "cm_AdditionalFields m = RawEmpty \<or> cm_AdditionalFields m = RawJson JNull"
    and "cm_AdditionalFields other = RawJson (JObj (kv # kvs))"
  shows "cm_Merge m other = Inl (Panic ''assignment to entry in nil map'')"
proof -
  let ?m = "foldl (\<lambda>m kv. gm_put (fst kv) (snd kv) m) [] (kv # kvs)"
  have "gm_get ?m = gm_get (rev (kv # kvs))" by (simp only: foldl_put_get) simp
  then have "?m \<noteq> []" by (metis Nil_is_rev_conv list.distinct(1) map_of_eq_empty_iff)
  then obtain kv' kvs' where "?m = kv' # kvs'" by (cases ?m) blast+
  then have oth: "unmarshal_if (cm_AdditionalFields other) = Inr (Some (kv' # kvs'))"
    using assms(3) by (simp add: unmarshal_if_def unmarshal_map_def raw_nonempty_def)
  have "unmarshal_if (cm_AdditionalFields m) = Inr None"
    using assms(2) by (auto simp: unmarshal_if_def unmarshal_map_def raw_nonempty_def)
  with oth assms(1) show ?thesis
    by (cases kv') (simp add: cm_Merge_def merge_field_def)
qed

theorem cm_Merge_nil_map_panics_witness:
  "cm_Merge ((cm_example 1 [])\<lparr>cm_AdditionalFields := RawEmpty\<rparr>) (cm_example 1 [(''role'', JStr ''a'')]) =
     Inl (Panic ''assignment to entry in nil map'')"
  by (rule cm_Merge_nil_map_panics) (simp_all add: cm_example_def)

end
