(* ===== verification/Abi.thy ===== *)
theory Abi
  imports ChainTypes
begin

text \<open>
  \<open>internal/utils/abi/encoding.go\<close>, and the values the repository hands to the ABI encoder. The
  encoder itself, addresses as hex strings and the chain registry are not part of the repository:
  they are the fields of the record \<open>geth_pkg\<close>. \<open>AbiPackMethod abi values\<close> is
  \<open>abi.JSON\<close> of the dummy method with the inputs \<open>abi\<close>, followed by \<open>Pack("method", values...)\<close>.
\<close>

text \<open>A Go value for the encoder; an unsigned integer may be a nil \<open>*big.Int\<close>.\<close>

datatype abi_value =
    AbiBytes32 hash
  | AbiUint "int option"
  | AbiAddress address
  | AbiBool bool
  | AbiBytes "byte list"
  | AbiTuple "abi_value list"
  | AbiSlice "abi_value list"

record geth_pkg = crypto_pkg +
  AbiPackMethod :: "string \<Rightarrow> abi_value list \<Rightarrow> byte list res"
  RBACTimelockPack :: "string \<Rightarrow> abi_value list \<Rightarrow> byte list res"
  HexToAddress :: "string \<Rightarrow> address"
  AddressHex :: "address \<Rightarrow> string"
  EvmChainBySelector :: "chain_selector \<Rightarrow> (u64 \<times> bool) res"
  EvmFieldsUnmarshal :: "raw \<Rightarrow> int option \<Rightarrow> int option res"
  EvmFieldsMarshal :: "int option \<Rightarrow> raw"
  ChainDetails :: "chain_selector \<Rightarrow> family res"

text \<open>\<open>res[4:]\<close> panics on fewer than four bytes.\<close>

definition Encode :: "'g geth_pkg_scheme \<Rightarrow> string \<Rightarrow> abi_value list \<Rightarrow> byte list res" where
  "Encode G abiStr values =
     (case AbiPackMethod G abiStr values of
        Inl err \<Rightarrow> Inl err
      | Inr res \<Rightarrow> if length res < 4 then Inl (Panic ''slice bounds out of range'') else Inr (drop 4 res))"

definition SignMsgABI :: string where
  "SignMsgABI = ''[{\"type\":\"bytes32\"},{\"type\":\"uint32\"}]''"

text \<open>
  The documented encoding of the two static values that are signed: a selector of four bytes, then
  a 32-byte word for each.
\<close>

definition sign_msg_documented :: "'g geth_pkg_scheme \<Rightarrow> bool" where
  "sign_msg_documented G \<longleftrightarrow>
     (\<forall>root v. \<exists>sel. length sel = 4 \<and>
        AbiPackMethod G SignMsgABI [AbiBytes32 root, AbiUint (Some (uint (v :: u32)))] =
          Inr (sel @ be_bytes 32 root @ be_bytes 32 (ucast v :: 256 word)))"

lemma Encode_sign_msg:
  "sign_msg_documented G \<Longrightarrow>
     Encode G SignMsgABI [AbiBytes32 root, AbiUint (Some (uint (v :: u32)))] =
       Inr (be_bytes 32 root @ be_bytes 32 (ucast v :: 256 word))"
proof -
  assume "sign_msg_documented G"
  then obtain sel where "length sel = 4" and
    "AbiPackMethod G SignMsgABI [AbiBytes32 root, AbiUint (Some (uint v))] =
      Inr (sel @ be_bytes 32 root @ be_bytes 32 (ucast v :: 256 word))"
    unfolding sign_msg_documented_def by blast
  then show ?thesis by (simp add: Encode_def)
qed

end
