(* ===== verification/GoText.thy ===== *)
theory GoText
  imports Signature "HOL-Library.Sublist"
begin

text \<open>
  The functions of Go's \<open>strings\<close>, \<open>strconv\<close> and \<open>regexp\<close> packages as the repository uses them, on
  ASCII text: searching, trimming, splitting at blanks, parsing a byte, and the three patterns of
  \<open>sdk/evm/execution_error.go\<close> with the leftmost, greedy matches of \<open>regexp\<close>.
\<close>

section \<open>Searching\<close>

text \<open>\<open>strings.Index\<close> and \<open>strings.LastIndex\<close>, \<open>None\<close> for -1.\<close>

fun index_of :: "string \<Rightarrow> string \<Rightarrow> nat option" where
  "index_of sub [] = (if sub = [] then Some 0 else None)"
| "index_of sub (c # s) = (if prefix sub (c # s) then Some 0 else map_option Suc (index_of sub s))"

fun last_index_of :: "string \<Rightarrow> string \<Rightarrow> nat option" where
  "last_index_of sub [] = (if sub = [] then Some 0 else None)"
| "last_index_of sub (c # s) =
     (case last_index_of sub s of
        Some i \<Rightarrow> Some (Suc i)
      | None \<Rightarrow> if prefix sub (c # s) then Some 0 else None)"

definition contains :: "string \<Rightarrow> string \<Rightarrow> bool" where
  "contains s sub \<longleftrightarrow> index_of sub s \<noteq> None"

lemma index_of_bound: "index_of sub s = Some i \<Longrightarrow> i + length sub \<le> length s \<and> prefix sub (drop i s)"
proof (induction s arbitrary: i)
  case (Cons c s)
  show ?case
  proof (cases "prefix sub (c # s)")
    case True
    with Cons.prems have "i = 0" by simp
    with True show ?thesis using prefix_length_le by fastforce
  next
    case False
    with Cons.prems obtain j where "index_of sub s = Some j" "i = Suc j" by (auto split: if_splits)
    with Cons.IH [of j] show ?thesis by simp
  qed
qed (auto split: if_splits)

lemma index_of_sublist: "index_of sub s \<noteq> None \<longleftrightarrow> sublist sub s"
proof (induction s)
  case (Cons c s)
  then show ?case by (auto simp: sublist_Cons_right)
qed auto

lemma contains_iff [simp]: "contains s sub \<longleftrightarrow> sublist sub s"
  unfolding contains_def by (rule index_of_sublist)

lemma last_index_of_append:
  "\<not> sublist sub (drop 1 sub @ t) \<Longrightarrow> sub \<noteq> [] \<Longrightarrow> last_index_of sub (s @ sub @ t) = Some (length s)"
proof -
  assume no: "\<not> sublist sub (drop 1 sub @ t)" and "sub \<noteq> []"
  have none: "last_index_of sub u = None" if "\<not> sublist sub u" for u
    using that
  proof (induction u)
    case Nil
    then show ?case by auto
  next
    case (Cons c u)
    then show ?case by (auto simp: sublist_Cons_right)
  qed
  show ?thesis
  proof (induction s)
    case Nil
    from \<open>sub \<noteq> []\<close> obtain c sub' where "sub = c # sub'" by (cases sub) auto
    then show ?case using none [OF no] by simp
  qed simp
qed

section \<open>Blanks\<close>

definition is_space :: "char \<Rightarrow> bool" where
  "is_space c \<longleftrightarrow> of_char c \<in> {9, 10, 11, 12, 13, 32 :: nat}"

text \<open>The class \<open>\s\<close> of a regular expression leaves out the vertical tab.\<close>

definition re_space :: "char \<Rightarrow> bool" where
  "re_space c \<longleftrightarrow> of_char c \<in> {9, 10, 12, 13, 32 :: nat}"

definition trim_space :: "string \<Rightarrow> string" where
  "trim_space s = rev (dropWhile is_space (rev (dropWhile is_space s)))"

function split_fields :: "string \<Rightarrow> string list" where
  "split_fields s =
     (case dropWhile is_space s of
        [] \<Rightarrow> []
      | c # cs \<Rightarrow> takeWhile (\<lambda>d. \<not> is_space d) (c # cs) # split_fields (dropWhile (\<lambda>d. \<not> is_space d) (c # cs)))"
  by pat_completeness auto

termination
proof (relation "measure length", simp)
  fix s :: string and c cs
  assume eq: "dropWhile is_space s = c # cs"
  then have "\<not> is_space c" by (metis hd_dropWhile list.sel(1) list.distinct(1))
  then have "length (dropWhile (\<lambda>d. \<not> is_space d) (c # cs)) \<le> length cs"
    by (simp add: length_dropWhile_le)
  moreover have "length (c # cs) \<le> length s" using length_dropWhile_le [of is_space s] eq by simp
  ultimately show "(dropWhile (\<lambda>d. \<not> is_space d) (c # cs), s) \<in> measure length" by simp
qed

declare split_fields.simps [simp del]

text \<open>\<open>strconv.ParseUint(s, 10, 8)\<close>, \<open>None\<close> for an error.\<close>

definition is_digit :: "char \<Rightarrow> bool" where
  "is_digit c \<longleftrightarrow> 48 \<le> (of_char c :: nat) \<and> (of_char c :: nat) \<le> 57"

definition parse_uint8 :: "string \<Rightarrow> byte option" where
  "parse_uint8 s =
     (if s = [] \<or> \<not> list_all is_digit s then None
      else
        let v = foldl (\<lambda>n c. 10 * n + (of_char c - 48)) 0 s in
        if (v :: nat) > 255 then None else Some (word_of_nat v))"

text \<open>\<open>strconv.Atoi\<close> on a 64-bit machine: an optional sign and at least one digit, within the range of \<open>int\<close>.\<close>

definition digits_value :: "string \<Rightarrow> int" where
  "digits_value s = foldl (\<lambda>n c. 10 * n + (of_char c - 48)) 0 s"

definition atoi :: "string \<Rightarrow> int option" where
  "atoi s =
     (let neg = prefix ''-'' s; ds = (if prefix ''-'' s \<or> prefix ''+'' s then drop 1 s else s);
          v = (if neg then - digits_value ds else digits_value ds) in
      if ds = [] \<or> \<not> list_all is_digit ds \<or> v < - (2 ^ 63) \<or> v > 2 ^ 63 - 1 then None else Some v)"

text \<open>\<open>strconv.ParseBool\<close>.\<close>

definition parse_bool :: "string \<Rightarrow> bool option" where
  "parse_bool s =
     (if s \<in> {''1'', ''t'', ''T'', ''true'', ''TRUE'', ''True''} then Some True
      else if s \<in> {''0'', ''f'', ''F'', ''false'', ''FALSE'', ''False''} then Some False
      else None)"

text \<open>\<open>%d\<close> of a number that is not negative.\<close>

fun nat_text :: "nat \<Rightarrow> string" where
  "nat_text n = (if n < 10 then [char_of (48 + n)] else nat_text (n div 10) @ [char_of (48 + n mod 10)])"

declare nat_text.simps [simp del]

text \<open>A match of \<open>a.*b\<close>: the dot does not match a line feed.\<close>

fun match_in_line :: "string \<Rightarrow> string \<Rightarrow> string \<Rightarrow> bool" where
  "match_in_line a b [] \<longleftrightarrow> a = [] \<and> b = []"
| "match_in_line a b (c # s) \<longleftrightarrow>
     prefix a (c # s) \<and>
       (contains (takeWhile (\<lambda>d. d \<noteq> CHR 0x0A) (drop (length a) (c # s))) b \<or> b = []) \<or>
     match_in_line a b s"

section \<open>Splitting at a character, and bytes as text\<close>

text \<open>\<open>strings.Split\<close> with a separator of one character.\<close>

fun split_on :: "char \<Rightarrow> string \<Rightarrow> string list" where
  "split_on d [] = [[]]"
| "split_on d (c # s) =
     (if c = d then [] # split_on d s
      else case split_on d s of [] \<Rightarrow> [[c]] | p # ps \<Rightarrow> (c # p) # ps)"

lemma split_on_absent: "d \<notin> set s \<Longrightarrow> split_on d s = [s]"
  by (induction s) auto

lemma split_on_append: "d \<notin> set s \<Longrightarrow> split_on d (s @ d # t) = s # split_on d t"
  by (induction s) auto

lemma length_split_on: "length (split_on d s) = Suc (length (filter (\<lambda>c. c = d) s))"
proof (induction s)
  case (Cons c s)
  then show ?case by (cases "split_on d s") simp_all
qed simp

text \<open>A Go string is a sequence of bytes; so is a string here, of characters of eight bits.\<close>

definition bytes_text :: "byte list \<Rightarrow> string" where
  "bytes_text bs = map (\<lambda>b. char_of (unat b)) bs"

definition string_bytes :: "string \<Rightarrow> byte list" where
  "string_bytes s = map (\<lambda>c. word_of_nat (of_char c)) s"

lemma string_bytes_text [simp]: "string_bytes (bytes_text bs) = bs"
proof -
  have "word_of_nat (of_char (char_of (unat b))) = b" for b :: byte
  proof -
    have "unat b < 256" using unsigned_less [of b, where ?'a = nat] by simp
    then show ?thesis by simp
  qed
  then show ?thesis by (simp add: string_bytes_def bytes_text_def comp_def)
qed

lemma length_string_bytes [simp]: "length (string_bytes s) = length s" "length (bytes_text bs) = length bs"
  by (simp_all add: string_bytes_def bytes_text_def)

text \<open>\<open>bytes.Trim(bs, "\\x00")\<close>.\<close>

definition trim_zeros :: "byte list \<Rightarrow> byte list" where
  "trim_zeros bs = rev (dropWhile (\<lambda>b. b = 0) (rev (dropWhile (\<lambda>b. b = 0) bs)))"

section \<open>Hexadecimal text and the patterns\<close>

definition is_hex :: "char \<Rightarrow> bool" where
  "is_hex c \<longleftrightarrow> is_digit c \<or> 65 \<le> (of_char c :: nat) \<and> (of_char c :: nat) \<le> 70 \<or>
     97 \<le> (of_char c :: nat) \<and> (of_char c :: nat) \<le> 102"

text \<open>\<open>hexPattern.FindString\<close>, for \<open>0x[0-9a-fA-F]+\<close>; empty without a match.\<close>

fun find_hex :: "string \<Rightarrow> string" where
  "find_hex [] = []"
| "find_hex (c # s) =
     (if prefix ''0x'' (c # s) \<and> takeWhile is_hex (drop 1 s) \<noteq> []
      then ''0x'' @ takeWhile is_hex (drop 1 s)
      else find_hex s)"

text \<open>
  The group of \<open>bytesArrayPattern\<close>, \<open>(?s)\[\[(.*)\]\]\<close>: from the first two opening brackets to the last
  two closing ones.
\<close>

definition find_bytes_array :: "string \<Rightarrow> string option" where
  "find_bytes_array s =
     (case index_of ''[['' s of
        None \<Rightarrow> None
      | Some i \<Rightarrow>
          let inner = drop (i + 2) s in
          map_option (\<lambda>j. take j inner) (last_index_of '']]'' inner))"

text \<open>
  The two groups of \<open>customErrorPattern\<close>, \<open>custom error 0x([0-9a-fA-F]{8}):\s*([0-9a-fA-F\s]+)\<close>. The
  blanks after the colon are matched greedily; when nothing but blanks follows, the second group is
  left the last of them.
\<close>

fun find_custom_error :: "string \<Rightarrow> (string \<times> string) option" where
  "find_custom_error [] = None"
| "find_custom_error (c # s) =
     (let s1 = drop 15 (c # s); selector = take 8 s1; s2 = drop 9 s1;
          blanks = takeWhile re_space s2; body = takeWhile (\<lambda>d. is_hex d \<or> re_space d) (dropWhile re_space s2) in
      if prefix ''custom error 0x'' (c # s) \<and> length selector = 8 \<and> list_all is_hex selector \<and>
         take 1 (drop 8 s1) = '':'' \<and> (body \<noteq> [] \<or> blanks \<noteq> [])
      then Some (selector, if body \<noteq> [] then body else [last blanks])
      else find_custom_error s)"

end
