(* ===== verification/Evm.thy ===== *)
theory Evm
  imports Abi GoText Complex_Main "HOL-Library.Log_Nat"
begin

text \<open>
  The EVM side of a proposal: \<open>sdk/evm/encoder.go\<close> (the hashes of operations and of root metadata),
  \<open>sdk/evm/transaction.go\<close>, the chain id lookup of \<open>sdk/evm/utils.go\<close>, and
  \<open>sdk/evm/timelock_converter.go\<close> (batches as calls of the RBACTimelock). The interfaces
  \<open>sdk.Encoder\<close> and \<open>sdk.TimelockConverter\<close> that these implement are records of functions.
\<close>

section \<open>The interfaces\<close>

record encoder =
  enc_HashOperation :: "u32 \<Rightarrow> chain_metadata \<Rightarrow> operation \<Rightarrow> hash res"
  enc_HashMetadata :: "chain_metadata \<Rightarrow> hash res"

text \<open>
  \<open>ConvertBatchToChainOperations\<close>: metadata, batch, timelock address, MCM address, delay in
  nanoseconds, action, predecessor and salt.
\<close>

type_synonym converter =
  "chain_metadata \<Rightarrow> batch_operation \<Rightarrow> string \<Rightarrow> string \<Rightarrow> int \<Rightarrow> timelock_action \<Rightarrow> hash \<Rightarrow> hash \<Rightarrow>
     (operation list \<times> hash) res"

type_synonym operation_id = "batch_operation \<Rightarrow> timelock_action \<Rightarrow> hash \<Rightarrow> hash \<Rightarrow> hash res"

section \<open>Chain ids\<close>

definition SimulatedEVMChainID :: u64 where
  "SimulatedEVMChainID = 1337"

definition getEVMChainID :: "'g geth_pkg_scheme \<Rightarrow> chain_selector \<Rightarrow> bool \<Rightarrow> u64 res" where
  "getEVMChainID G sel isSim =
     (if isSim then Inr SimulatedEVMChainID
      else case EvmChainBySelector G sel of
        Inl err \<Rightarrow> Inl (Errorf ''invalid chain ID: %v'')
      | Inr (evmChainID, exists) \<Rightarrow>
          if \<not> exists then Inl (Errorf ''invalid chain ID: %v'') else Inr evmChainID)"

section \<open>Encoder\<close>

record evm_encoder =
  ee_ChainSelector :: chain_selector
  ee_TxCount :: u64
  ee_OverridePreviousRoot :: bool
  ee_IsSim :: bool

record geth_op =
  gop_ChainId :: u64
  gop_MultiSig :: address
  gop_Nonce :: u32
  gop_To :: address
  gop_Value :: "int option"
  gop_Data :: "byte list"

record geth_root_metadata =
  grm_ChainId :: u64
  grm_MultiSig :: address
  grm_PreOpCount :: u64
  grm_PostOpCount :: u64
  grm_OverridePreviousRoot :: bool

definition mcmDomainSeparatorOp :: "'c crypto_pkg_scheme \<Rightarrow> hash" where
  "mcmDomainSeparatorOp C = Keccak256Hash C (string_bytes ''MANY_CHAIN_MULTI_SIG_DOMAIN_SEPARATOR_OP'')"

definition mcmDomainSeparatorMetadata :: "'c crypto_pkg_scheme \<Rightarrow> hash" where
  "mcmDomainSeparatorMetadata C =
     Keccak256Hash C (string_bytes ''MANY_CHAIN_MULTI_SIG_DOMAIN_SEPARATOR_METADATA'')"

definition ToGethOperation ::
  "'g geth_pkg_scheme \<Rightarrow> evm_encoder \<Rightarrow> u32 \<Rightarrow> chain_metadata \<Rightarrow> operation \<Rightarrow> geth_op res" where
  "ToGethOperation G e opCount metadata op =
     bindE (getEVMChainID G (ee_ChainSelector e) (ee_IsSim e)) (\<lambda>evmChainID.
     bindE (EvmFieldsUnmarshal G (tx_AdditionalFields (op_Transaction op)) None) (\<lambda>value.
       Inr \<lparr>gop_ChainId = evmChainID,
            gop_MultiSig = HexToAddress G (cm_MCMAddress metadata),
            gop_Nonce = opCount,
            gop_To = HexToAddress G (tx_To (op_Transaction op)),
            gop_Value = value,
            gop_Data = tx_Data (op_Transaction op)\<rparr>))"

definition ToGethRootMetadata ::
  "'g geth_pkg_scheme \<Rightarrow> evm_encoder \<Rightarrow> chain_metadata \<Rightarrow> geth_root_metadata res" where
  "ToGethRootMetadata G e metadata =
     bindE (getEVMChainID G (ee_ChainSelector e) (ee_IsSim e)) (\<lambda>evmChainID.
       Inr \<lparr>grm_ChainId = evmChainID,
            grm_MultiSig = HexToAddress G (cm_MCMAddress metadata),
            grm_PreOpCount = cm_StartingOpCount metadata,
            grm_PostOpCount = cm_StartingOpCount metadata + ee_TxCount e,
            grm_OverridePreviousRoot = ee_OverridePreviousRoot e\<rparr>)"

definition op_abi :: string where
  "op_abi = ''[{\"type\":\"bytes32\"},{\"type\":\"tuple\",\"components\":[{\"name\":\"chainId\",\"type\":\"uint256\"},{\"name\":\"multiSig\",\"type\":\"address\"},{\"name\":\"nonce\",\"type\":\"uint40\"},{\"name\":\"to\",\"type\":\"address\"},{\"name\":\"value\",\"type\":\"uint256\"},{\"name\":\"data\",\"type\":\"bytes\"}]}]''"

definition metadata_abi :: string where
  "metadata_abi = ''[{\"type\":\"bytes32\"},{\"type\":\"tuple\",\"components\":[{\"name\":\"chainId\",\"type\":\"uint256\"},{\"name\":\"multiSig\",\"type\":\"address\"},{\"name\":\"preOpCount\",\"type\":\"uint40\"},{\"name\":\"postOpCount\",\"type\":\"uint40\"},{\"name\":\"overridePreviousRoot\",\"type\":\"bool\"}]}]''"

text \<open>The tuples in the order of the ABI's components; \<open>new(big.Int).SetUint64\<close> is never nil.\<close>

definition geth_op_value :: "geth_op \<Rightarrow> abi_value" where
  "geth_op_value o' = AbiTuple
     [AbiUint (Some (uint (gop_ChainId o'))), AbiAddress (gop_MultiSig o'),
      AbiUint (Some (uint (gop_Nonce o'))), AbiAddress (gop_To o'), AbiUint (gop_Value o'),
      AbiBytes (gop_Data o')]"

definition geth_root_metadata_value :: "geth_root_metadata \<Rightarrow> abi_value" where
  "geth_root_metadata_value m = AbiTuple
     [AbiUint (Some (uint (grm_ChainId m))), AbiAddress (grm_MultiSig m),
      AbiUint (Some (uint (grm_PreOpCount m))), AbiUint (Some (uint (grm_PostOpCount m))),
      AbiBool (grm_OverridePreviousRoot m)]"

definition evm_HashOperation ::
  "'g geth_pkg_scheme \<Rightarrow> evm_encoder \<Rightarrow> u32 \<Rightarrow> chain_metadata \<Rightarrow> operation \<Rightarrow> hash res" where
  "evm_HashOperation G e opCount metadata op =
     bindE (ToGethOperation G e opCount metadata op) (\<lambda>bindOp.
     bindE (Encode G op_abi [AbiBytes32 (mcmDomainSeparatorOp G), geth_op_value bindOp]) (\<lambda>encoded.
       Inr (Keccak256Hash G encoded)))"

definition evm_HashMetadata :: "'g geth_pkg_scheme \<Rightarrow> evm_encoder \<Rightarrow> chain_metadata \<Rightarrow> hash res" where
  "evm_HashMetadata G e metadata =
     bindE (ToGethRootMetadata G e metadata) (\<lambda>bindMeta.
     bindE (Encode G metadata_abi [AbiBytes32 (mcmDomainSeparatorMetadata G), geth_root_metadata_value bindMeta])
       (\<lambda>encoded. Inr (Keccak256Hash G encoded)))"

text \<open>\<open>NewEncoder\<close>, as a value of the interface.\<close>

definition evm_NewEncoder :: "'g geth_pkg_scheme \<Rightarrow> chain_selector \<Rightarrow> u64 \<Rightarrow> bool \<Rightarrow> bool \<Rightarrow> encoder" where
  "evm_NewEncoder G csel txCount overridePreviousRoot isSim =
     (let e = \<lparr>ee_ChainSelector = csel, ee_TxCount = txCount,
               ee_OverridePreviousRoot = overridePreviousRoot, ee_IsSim = isSim\<rparr> in
      \<lparr>enc_HashOperation = evm_HashOperation G e, enc_HashMetadata = evm_HashMetadata G e\<rparr>)"

section \<open>Transactions\<close>

definition evm_fields_Validate :: "int option \<Rightarrow> unit res" where
  "evm_fields_Validate value =
     (case value of
        None \<Rightarrow> Inl (Errorf ''invalid EVM value: %v'')
      | Some v \<Rightarrow> if v < 0 then Inl (Errorf ''invalid EVM value: %v'') else Inr ())"

text \<open>The fields default to a value of zero; an empty message leaves the default.\<close>

definition evm_fields :: "'g geth_pkg_scheme \<Rightarrow> raw \<Rightarrow> int option res" where
  "evm_fields G additionalFields =
     (if raw_nonempty additionalFields
      then wrapE (Wrapf ''failed to unmarshal EVM additional fields: %w'')
             (EvmFieldsUnmarshal G additionalFields (Some 0))
      else Inr (Some 0))"

definition evm_ValidateAdditionalFields :: "'g geth_pkg_scheme \<Rightarrow> raw \<Rightarrow> unit res" where
  "evm_ValidateAdditionalFields G additionalFields =
     bindE (evm_fields G additionalFields) evm_fields_Validate"

definition evm_NewTransaction ::
  "'g geth_pkg_scheme \<Rightarrow> address \<Rightarrow> byte list \<Rightarrow> int option \<Rightarrow> string \<Rightarrow> string list \<Rightarrow> transaction" where
  "evm_NewTransaction G to data value contractType tags =
     \<lparr>tx_ContractType = contractType, tx_ContractVersion = None, tx_Tags = tags,
      tx_To = AddressHex G to, tx_Data = data, tx_AdditionalFields = EvmFieldsMarshal G value\<rparr>"

section \<open>Timelock converter\<close>

record timelock_call =
  tc_Target :: address
  tc_Value :: "int option"
  tc_Data :: "byte list"

definition timelock_call_value :: "timelock_call \<Rightarrow> abi_value" where
  "timelock_call_value c = AbiTuple [AbiAddress (tc_Target c), AbiUint (tc_Value c), AbiBytes (tc_Data c)]"

definition batch_abi :: string where
  "batch_abi = ''[{\"components\":[{\"internalType\":\"address\",\"name\":\"target\",\"type\":\"address\"},{\"internalType\":\"uint256\",\"name\":\"value\",\"type\":\"uint256\"},{\"internalType\":\"bytes\",\"name\":\"data\",\"type\":\"bytes\"}],\"internalType\":\"struct Call[]\",\"name\":\"calls\",\"type\":\"tuple[]\"},{\"internalType\":\"bytes32\",\"name\":\"predecessor\",\"type\":\"bytes32\"},{\"internalType\":\"bytes32\",\"name\":\"salt\",\"type\":\"bytes32\"}]''"

definition HashOperationBatch :: "'g geth_pkg_scheme \<Rightarrow> timelock_call list \<Rightarrow> hash \<Rightarrow> hash \<Rightarrow> hash res" where
  "HashOperationBatch G calls predecessor salt =
     bindE (Encode G batch_abi [AbiSlice (map timelock_call_value calls), AbiBytes32 predecessor, AbiBytes32 salt])
       (\<lambda>encoded. Inr (Keccak256Hash G encoded))"

definition evm_call :: "'g geth_pkg_scheme \<Rightarrow> transaction \<Rightarrow> timelock_call res" where
  "evm_call G tx =
     bindE (evm_fields G (tx_AdditionalFields tx)) (\<lambda>value.
       Inr \<lparr>tc_Target = HexToAddress G (tx_To tx), tc_Value = value, tc_Data = tx_Data tx\<rparr>)"

definition evm_OperationID :: "'g geth_pkg_scheme \<Rightarrow> operation_id" where
  "evm_OperationID G batchOp action predecessor salt =
     bindE (mapE (evm_call G) (bop_Transactions batchOp)) (\<lambda>calls. HashOperationBatch G calls predecessor salt)"

text \<open>The loop of the converter collects the calls and, transaction by transaction, the tags.\<close>

fun evm_calls_and_tags ::
  "'g geth_pkg_scheme \<Rightarrow> timelock_call list \<Rightarrow> string list \<Rightarrow> transaction list \<Rightarrow>
     (timelock_call list \<times> string list) res" where
  "evm_calls_and_tags G calls tags [] = Inr (calls, tags)"
| "evm_calls_and_tags G calls tags (tx # txs) =
     bindE (evm_call G tx) (\<lambda>c. evm_calls_and_tags G (calls @ [c]) (tags @ tx_Tags tx) txs)"

text \<open>
  \<open>int64(delay.Seconds())\<close>: the duration is an integer of nanoseconds, \<open>Seconds\<close> adds the whole seconds
  and the rest in \<open>float64\<close> arithmetic (53 bits, round half to even), the conversion truncates.
\<close>

definition round_even :: "rat \<Rightarrow> int" where
  "round_even x =
     (let f = \<lfloor>x\<rfloor>; r = x - of_int f in
      if r < 1 / 2 then f else if r > 1 / 2 then f + 1 else if even f then f else f + 1)"

definition ilog2 :: "rat \<Rightarrow> int" where
  "ilog2 a =
     (let (n, d) = quotient_of a; e = bitlen n - bitlen d in
      if 2 powi e \<le> a then e else e - 1)"

definition to_float64 :: "rat \<Rightarrow> rat" where
  "to_float64 x =
     (if x = 0 then 0 else let u = 2 powi (ilog2 \<bar>x\<bar> - 52) in u * of_int (round_even (x / u)))"

definition duration_Seconds :: "int \<Rightarrow> rat" where
  "duration_Seconds d =
     (let sec = sgn d * (\<bar>d\<bar> div 1000000000); nsec = sgn d * (\<bar>d\<bar> mod 1000000000) in
      to_float64 (to_float64 (of_int sec) + to_float64 (to_float64 (of_int nsec) / 1000000000)))"

definition delay_seconds :: "int \<Rightarrow> int" where
  "delay_seconds d = (let s = duration_Seconds d in if s \<ge> 0 then \<lfloor>s\<rfloor> else \<lceil>s\<rceil>)"

definition evm_action_data ::
  "'g geth_pkg_scheme \<Rightarrow> timelock_action \<Rightarrow> timelock_call list \<Rightarrow> hash \<Rightarrow> hash \<Rightarrow> hash \<Rightarrow> int \<Rightarrow> byte list res" where
  "evm_action_data G action calls operationID predecessor salt delay =
     (let callsV = AbiSlice (map timelock_call_value calls) in
      case action of
        TimelockActionSchedule \<Rightarrow>
          RBACTimelockPack G ''scheduleBatch''
            [callsV, AbiBytes32 predecessor, AbiBytes32 salt, AbiUint (Some (delay_seconds delay))]
      | TimelockActionCancel \<Rightarrow> RBACTimelockPack G ''cancel'' [AbiBytes32 operationID]
      | TimelockActionBypass \<Rightarrow> RBACTimelockPack G ''bypasserExecuteBatch'' [callsV]
      | OtherAction a \<Rightarrow> Inl (InvalidTimelockOperationError a))"

text \<open>The error of an unknown action is returned as it is, an error of the packing is wrapped.\<close>

definition evm_ConvertBatchToChainOperations :: "'g geth_pkg_scheme \<Rightarrow> converter" where
  "evm_ConvertBatchToChainOperations G metadata bop timelockAddress mcmAddress delay action predecessor salt =
     bindE (evm_calls_and_tags G [] [] (bop_Transactions bop)) (\<lambda>(calls, tags).
     bindE (HashOperationBatch G calls predecessor salt) (\<lambda>operationID.
     bindE (case action of
              OtherAction a \<Rightarrow> evm_action_data G action calls operationID predecessor salt delay
            | _ \<Rightarrow> wrapE (Wrapf ''failed to encode timelock action data: %w'')
                     (evm_action_data G action calls operationID predecessor salt delay)) (\<lambda>data.
       Inr ([\<lparr>op_ChainSelector = bop_ChainSelector bop,
              op_Transaction =
                evm_NewTransaction G (HexToAddress G timelockAddress) data (Some 0) ''RBACTimelock'' tags\<rparr>],
            operationID))))"

section \<open>Lemmas\<close>

lemma evm_calls_and_tags_eq:
  "evm_calls_and_tags G calls tags txs =
     bindE (mapE (evm_call G) txs) (\<lambda>cs. Inr (calls @ cs, tags @ concat (map tx_Tags txs)))"
proof (induction txs arbitrary: calls tags)
  case (Cons tx txs)
  show ?case
    by (cases "evm_call G tx"; cases "mapE (evm_call G) txs") (simp_all add: Cons.IH)
qed simp

text \<open>The converter and \<open>OperationID\<close> build the same calls, so they hash the same batch.\<close>

lemma evm_convert_operation_id:
  "evm_ConvertBatchToChainOperations G metadata bop tlAddr mcm delay action predecessor salt = Inr (ops, opid) \<Longrightarrow>
     evm_OperationID G bop action predecessor salt = Inr opid"
  unfolding evm_ConvertBatchToChainOperations_def evm_OperationID_def
  by (auto simp: bindE_Inr_iff evm_calls_and_tags_eq)

lemma evm_convert_one_op:
  "evm_ConvertBatchToChainOperations G metadata bop tlAddr mcm delay action predecessor salt = Inr (ops, opid) \<Longrightarrow>
     \<exists>op. ops = [op] \<and> op_ChainSelector op = bop_ChainSelector bop"
  unfolding evm_ConvertBatchToChainOperations_def
  by (auto simp: bindE_Inr_iff)

lemma evm_NewEncoder_methods:
  "enc_HashMetadata (evm_NewEncoder G csel n ov sim) = evm_HashMetadata G
     \<lparr>ee_ChainSelector = csel, ee_TxCount = n, ee_OverridePreviousRoot = ov, ee_IsSim = sim\<rparr>"
  "enc_HashOperation (evm_NewEncoder G csel n ov sim) = evm_HashOperation G
     \<lparr>ee_ChainSelector = csel, ee_TxCount = n, ee_OverridePreviousRoot = ov, ee_IsSim = sim\<rparr>"
  by (simp_all add: evm_NewEncoder_def Let_def)

lemma evm_HashMetadata_Inr:
  "evm_HashMetadata G e metadata = Inr h \<longleftrightarrow>
     (\<exists>cid bs. getEVMChainID G (ee_ChainSelector e) (ee_IsSim e) = Inr cid \<and>
        Encode G metadata_abi
          [AbiBytes32 (mcmDomainSeparatorMetadata G),
           AbiTuple [AbiUint (Some (uint cid)), AbiAddress (HexToAddress G (cm_MCMAddress metadata)),
             AbiUint (Some (uint (cm_StartingOpCount metadata))),
             AbiUint (Some (uint (cm_StartingOpCount metadata + ee_TxCount e))),
             AbiBool (ee_OverridePreviousRoot e)]] = Inr bs \<and>
        h = Keccak256Hash G bs)"
  by (auto simp: evm_HashMetadata_def ToGethRootMetadata_def geth_root_metadata_value_def bindE_Inr_iff)

end
