(* ===== verification/Factory.thy ===== *)
theory Factory
  imports Evm
begin

text \<open>
  The dispatch on the family of a chain: \<open>factory.go\<close>, \<open>validation.go\<close> and
  \<open>chainwrappers/converters.go\<close>. The EVM branches call the model of \<open>sdk/evm\<close>; the code of the other
  families enters as the fields of the record \<open>mcms_env\<close>, next to the clock. The theories of the families
  fill them in, with \<open>with_solana\<close>, \<open>with_aptos\<close>, \<open>with_sui\<close>, \<open>with_canton\<close> and \<open>with_ton\<close>.
\<close>

record mcms_env = geth_pkg +
  Now :: int
  solana_NewEncoder :: "chain_selector \<Rightarrow> u64 \<Rightarrow> bool \<Rightarrow> encoder"
  aptos_NewEncoder :: "chain_selector \<Rightarrow> u64 \<Rightarrow> bool \<Rightarrow> encoder"
  sui_NewEncoder :: "chain_selector \<Rightarrow> u64 \<Rightarrow> bool \<Rightarrow> encoder"
  ton_NewEncoder :: "chain_selector \<Rightarrow> u64 \<Rightarrow> bool \<Rightarrow> encoder"
  canton_NewEncoder :: "chain_selector \<Rightarrow> u64 \<Rightarrow> bool \<Rightarrow> encoder"
  solana_OperationID :: operation_id
  aptos_OperationID :: operation_id
  sui_OperationID :: operation_id
  ton_OperationID :: operation_id
  canton_OperationID :: operation_id
  solana_Convert :: converter
  aptos_Convert :: converter
  aptos_CurseConvert :: converter
  sui_Convert :: converter
  ton_Convert :: converter
  canton_Convert :: converter
  aptos_MCMSType :: "raw \<Rightarrow> string res"
  solana_ValidateAdditionalFields :: "raw \<Rightarrow> unit res"
  aptos_ValidateAdditionalFields :: "raw \<Rightarrow> unit res"
  sui_ValidateAdditionalFields :: "raw \<Rightarrow> unit res"
  ton_ValidateAdditionalFields :: "raw \<Rightarrow> unit res"
  canton_ValidateAdditionalFields :: "raw \<Rightarrow> unit res"
  solana_ValidateChainMetadata :: "chain_metadata \<Rightarrow> unit res"
  sui_ValidateChainMetadata :: "chain_metadata \<Rightarrow> unit res"
  canton_ValidateChainMetadata :: "chain_metadata \<Rightarrow> unit res"

section \<open>factory.go\<close>

text \<open>The result is an interface value, \<open>None\<close> the nil interface left by a \<open>switch\<close> without a matching case.\<close>

definition newEncoder ::
  "'e mcms_env_scheme \<Rightarrow> chain_selector \<Rightarrow> u64 \<Rightarrow> bool \<Rightarrow> bool \<Rightarrow> encoder option res" where
  "newEncoder E csel txCount overridePreviousRoot isSim =
     bindE (GetChainSelectorFamily (ChainDetails E) csel) (\<lambda>family.
       Inr (case family of
          FamilyEVM \<Rightarrow> Some (evm_NewEncoder E csel txCount overridePreviousRoot isSim)
        | FamilySolana \<Rightarrow> Some (solana_NewEncoder E csel txCount overridePreviousRoot)
        | FamilyAptos \<Rightarrow> Some (aptos_NewEncoder E csel txCount overridePreviousRoot)
        | FamilySui \<Rightarrow> Some (sui_NewEncoder E csel txCount overridePreviousRoot)
        | FamilyTon \<Rightarrow> Some (ton_NewEncoder E csel txCount overridePreviousRoot)
        | FamilyCanton \<Rightarrow> Some (canton_NewEncoder E csel txCount overridePreviousRoot)
        | _ \<Rightarrow> None))"

definition operationIDFn :: "'e mcms_env_scheme \<Rightarrow> chain_selector \<Rightarrow> operation_id res" where
  "operationIDFn E csel =
     bindE (GetChainSelectorFamily (ChainDetails E) csel) (\<lambda>family.
       case family of
          FamilyEVM \<Rightarrow> Inr (evm_OperationID E)
        | FamilySolana \<Rightarrow> Inr (solana_OperationID E)
        | FamilyAptos \<Rightarrow> Inr (aptos_OperationID E)
        | FamilySui \<Rightarrow> Inr (sui_OperationID E)
        | FamilyTon \<Rightarrow> Inr (ton_OperationID E)
        | FamilyCanton \<Rightarrow> Inr (canton_OperationID E)
        | _ \<Rightarrow> Inl (Errorf ''unsupported chain family %s''))"

section \<open>chainwrappers/converters.go\<close>

definition buildAptosTimelockConverter :: "'e mcms_env_scheme \<Rightarrow> chain_metadata \<Rightarrow> converter res" where
  "buildAptosTimelockConverter E metadata =
     (if \<not> raw_nonempty (cm_AdditionalFields metadata) then Inr (aptos_Convert E)
      else bindE (wrapE (Wrapf ''failed to unmarshal Aptos additional fields: %w'')
                   (aptos_MCMSType E (cm_AdditionalFields metadata))) (\<lambda>mcmsType.
        if mcmsType = ''curse'' then Inr (aptos_CurseConvert E) else Inr (aptos_Convert E)))"

definition BuildConverter :: "'e mcms_env_scheme \<Rightarrow> chain_selector \<Rightarrow> chain_metadata \<Rightarrow> converter res" where
  "BuildConverter E selector metadata =
     bindE (wrapE (Wrapf ''error getting chain family: %w'') (GetChainSelectorFamily (ChainDetails E) selector)) (\<lambda>fam.
       case fam of
          FamilyEVM \<Rightarrow> Inr (evm_ConvertBatchToChainOperations E)
        | FamilySolana \<Rightarrow> Inr (solana_Convert E)
        | FamilyAptos \<Rightarrow>
            wrapE (Wrapf ''error creating Aptos converter for selector %d: %w'') (buildAptosTimelockConverter E metadata)
        | FamilySui \<Rightarrow> Inr (sui_Convert E)
        | FamilyTon \<Rightarrow> Inr (ton_Convert E)
        | FamilyCanton \<Rightarrow> Inr (canton_Convert E)
        | _ \<Rightarrow> Inl (Errorf ''unsupported chain family %s''))"

definition BuildConverters ::
  "'e mcms_env_scheme \<Rightarrow> (chain_selector, chain_metadata) gomap \<Rightarrow> (chain_selector, converter) gomap res" where
  "BuildConverters E chainMetadata =
     foldE (\<lambda>converters (selector, metadata).
         bindE (wrapE (Wrapf ''failed to build converter for selector %d: %w'') (BuildConverter E selector metadata))
           (\<lambda>converter. Inr (gm_put selector converter converters)))
       [] chainMetadata"

definition newTimelockConverter :: "'e mcms_env_scheme \<Rightarrow> chain_selector \<Rightarrow> chain_metadata \<Rightarrow> converter res" where
  "newTimelockConverter E csel metadata = BuildConverter E csel metadata"

section \<open>validation.go\<close>

definition validateAdditionalFields :: "'e mcms_env_scheme \<Rightarrow> raw \<Rightarrow> chain_selector \<Rightarrow> unit res" where
  "validateAdditionalFields E additionalFields csel =
     bindE (GetChainSelectorFamily (ChainDetails E) csel) (\<lambda>chainFamily.
       case chainFamily of
          FamilyEVM \<Rightarrow> evm_ValidateAdditionalFields E additionalFields
        | FamilySolana \<Rightarrow> solana_ValidateAdditionalFields E additionalFields
        | FamilyAptos \<Rightarrow> aptos_ValidateAdditionalFields E additionalFields
        | FamilySui \<Rightarrow> sui_ValidateAdditionalFields E additionalFields
        | FamilyTon \<Rightarrow> ton_ValidateAdditionalFields E additionalFields
        | FamilyCanton \<Rightarrow> canton_ValidateAdditionalFields E additionalFields
        | _ \<Rightarrow> Inr ())"

definition validateChainMetadata :: "'e mcms_env_scheme \<Rightarrow> chain_metadata \<Rightarrow> chain_selector \<Rightarrow> unit res" where
  "validateChainMetadata E metadata csel =
     bindE (wrapE (Wrapf ''unable to get chain selector family: %w'')
              (GetChainSelectorFamily (ChainDetails E) csel)) (\<lambda>chainFamily.
       case chainFamily of
          FamilySolana \<Rightarrow> solana_ValidateChainMetadata E metadata
        | FamilyEVM \<Rightarrow> Inr ()
        | FamilyAptos \<Rightarrow> Inr ()
        | FamilySui \<Rightarrow> sui_ValidateChainMetadata E metadata
        | FamilyCanton \<Rightarrow> canton_ValidateChainMetadata E metadata
        | FamilyTon \<Rightarrow> Inr ()
        | _ \<Rightarrow> Inl (Errorf ''unsupported chain family: %s''))"

section \<open>Lemmas\<close>

text \<open>The loop that fills a map with one built value per key.\<close>

lemma build_map:
  assumes "foldE (\<lambda>acc (k, v). bindE (f k v) (\<lambda>c. Inr (gm_put k c acc))) acc0 kvs = Inr acc"
    and "gm_wf kvs"
  shows "gm_get acc k = (case gm_get kvs k of Some v \<Rightarrow> Some (projr (f k v)) | None \<Rightarrow> gm_get acc0 k)"
    and "\<And>v. gm_get kvs k = Some v \<Longrightarrow> \<exists>c. f k v = Inr c"
proof -
  have "gm_get acc k = (case gm_get kvs k of Some v \<Rightarrow> Some (projr (f k v)) | None \<Rightarrow> gm_get acc0 k) \<and>
      (\<forall>v. gm_get kvs k = Some v \<longrightarrow> (\<exists>c. f k v = Inr c))"
    using assms
  proof (induction kvs arbitrary: acc0)
    case (Cons kv kvs)
    obtain k' v' where kv: "kv = (k', v')" by fastforce
    from Cons.prems(1) kv obtain c where c: "f k' v' = Inr c"
      and rest: "foldE (\<lambda>acc (k, v). bindE (f k v) (\<lambda>c. Inr (gm_put k c acc))) (gm_put k' c acc0) kvs = Inr acc"
      by (auto simp: bindE_Inr_iff)
    from Cons.prems(2) kv have wf: "gm_wf kvs" and k': "gm_get kvs k' = None"
      by (auto simp: gm_wf_def map_of_eq_None_iff)
    from Cons.IH [OF rest wf] c k' kv show ?case
      by (cases "k = k'") (auto simp: gm_get_put split: option.splits)
  qed simp
  then show "gm_get acc k = (case gm_get kvs k of Some v \<Rightarrow> Some (projr (f k v)) | None \<Rightarrow> gm_get acc0 k)"
    and "\<And>v. gm_get kvs k = Some v \<Longrightarrow> \<exists>c. f k v = Inr c" by blast+
qed

lemma BuildConverters_get:
  assumes "BuildConverters E md = Inr cs" and "gm_wf md"
  shows "gm_get cs sel = (case gm_get md sel of None \<Rightarrow> None | Some m \<Rightarrow> Some (projr (BuildConverter E sel m)))"
    and "gm_get md sel = Some m \<Longrightarrow> \<exists>c. BuildConverter E sel m = Inr c"
proof -
  note b = build_map [where f = "\<lambda>s m. wrapE (Wrapf ''failed to build converter for selector %d: %w'') (BuildConverter E s m)"
      and k = sel, OF assms(1) [unfolded BuildConverters_def] assms(2)]
  show "gm_get md sel = Some m \<Longrightarrow> \<exists>c. BuildConverter E sel m = Inr c"
    using b(2) [of m] by simp
  show "gm_get cs sel = (case gm_get md sel of None \<Rightarrow> None | Some m \<Rightarrow> Some (projr (BuildConverter E sel m)))"
    using b(1) b(2) by (auto split: option.splits)
qed

section \<open>A concrete environment\<close>

text \<open>
  An instance of all the parameters, for the witnesses: every chain is an EVM chain whose id is its
  selector, values are packed one after the other, and the hash of a byte string is its last 32 bytes.
\<close>

fun sample_pack :: "abi_value \<Rightarrow> byte list" where
  "sample_pack (AbiBytes32 h) = be_bytes 32 h"
| "sample_pack (AbiUint v) = (case v of None \<Rightarrow> [] | Some n \<Rightarrow> be_bytes 32 (word_of_int n :: 256 word))"
| "sample_pack (AbiAddress a) = be_bytes 20 a"
| "sample_pack (AbiBool b) = [of_bool b]"
| "sample_pack (AbiBytes bs) = bs"
| "sample_pack (AbiTuple vs) = concat (map sample_pack vs)"
| "sample_pack (AbiSlice vs) = concat (map sample_pack vs)"

definition sample_encoder :: encoder where
  "sample_encoder = \<lparr>enc_HashOperation = (\<lambda>_ _ _. Inr 1), enc_HashMetadata = (\<lambda>_. Inr 2)\<rparr>"

definition sample_env :: mcms_env where
  "sample_env =
     \<lparr>ToUint8E = ToUint8E plain_casts, ToUint32E = ToUint32E plain_casts,
      ToUint64E = ToUint64E plain_casts, ToInt64E = ToInt64E plain_casts,
      Keccak256Hash = from_be,
      SigToPub = (\<lambda>h sig. Inr sig),
      PubkeyToAddress = from_be,
      AbiPackMethod = (\<lambda>_ vs. Inr ([0, 0, 0, 0] @ concat (map sample_pack vs))),
      RBACTimelockPack = (\<lambda>_ vs. Inr (concat (map sample_pack vs))),
      HexToAddress = (\<lambda>s. from_be (string_bytes s)),
      AddressHex = (\<lambda>a. hex_encode (be_bytes 20 a)),
      EvmChainBySelector = (\<lambda>sel. Inr (sel, True)),
      EvmFieldsUnmarshal = (\<lambda>r d. Inr (Some 0)),
      EvmFieldsMarshal = (\<lambda>v. RawJson (JObj [])),
      ChainDetails = (\<lambda>sel. Inr FamilyEVM),
      Now = 0,
      solana_NewEncoder = (\<lambda>_ _ _. sample_encoder), aptos_NewEncoder = (\<lambda>_ _ _. sample_encoder),
      sui_NewEncoder = (\<lambda>_ _ _. sample_encoder), ton_NewEncoder = (\<lambda>_ _ _. sample_encoder),
      canton_NewEncoder = (\<lambda>_ _ _. sample_encoder),
      solana_OperationID = (\<lambda>_ _ _ _. Inr 3), aptos_OperationID = (\<lambda>_ _ _ _. Inr 3),
      sui_OperationID = (\<lambda>_ _ _ _. Inr 3), ton_OperationID = (\<lambda>_ _ _ _. Inr 3),
      canton_OperationID = (\<lambda>_ _ _ _. Inr 3),
      solana_Convert = (\<lambda>_ _ _ _ _ _ _ _. Inr ([], 3)), aptos_Convert = (\<lambda>_ _ _ _ _ _ _ _. Inr ([], 3)),
      aptos_CurseConvert = (\<lambda>_ _ _ _ _ _ _ _. Inr ([], 3)), sui_Convert = (\<lambda>_ _ _ _ _ _ _ _. Inr ([], 3)),
      ton_Convert = (\<lambda>_ _ _ _ _ _ _ _. Inr ([], 3)), canton_Convert = (\<lambda>_ _ _ _ _ _ _ _. Inr ([], 3)),
      aptos_MCMSType = (\<lambda>_. Inr []),
      solana_ValidateAdditionalFields = (\<lambda>_. Inr ()), aptos_ValidateAdditionalFields = (\<lambda>_. Inr ()),
      sui_ValidateAdditionalFields = (\<lambda>_. Inr ()), ton_ValidateAdditionalFields = (\<lambda>_. Inr ()),
      canton_ValidateAdditionalFields = (\<lambda>_. Inr ()),
      solana_ValidateChainMetadata = (\<lambda>_. Inr ()), sui_ValidateChainMetadata = (\<lambda>_. Inr ()),
      canton_ValidateChainMetadata = (\<lambda>_. Inr ())\<rparr>"

lemma sample_env_fields [simp]:
  "ToUint8E sample_env = ToUint8E plain_casts"
  "ToUint32E sample_env = ToUint32E plain_casts"
  "ToUint64E sample_env = ToUint64E plain_casts"
  "ToInt64E sample_env = ToInt64E plain_casts"
  "Keccak256Hash sample_env = from_be"
  "SigToPub sample_env h sig = Inr sig"
  "PubkeyToAddress sample_env = from_be"
  "AbiPackMethod sample_env abi vs = Inr ([0, 0, 0, 0] @ concat (map sample_pack vs))"
  "RBACTimelockPack sample_env m vs = Inr (concat (map sample_pack vs))"
  "HexToAddress sample_env str = from_be (string_bytes str)"
  "EvmChainBySelector sample_env sel = Inr (sel, True)"
  "EvmFieldsUnmarshal sample_env r d = Inr (Some 0)"
  "ChainDetails sample_env sel = Inr FamilyEVM"
  "Now sample_env = 0"
  by (simp_all add: sample_env_def)

lemma sample_env_family [simp]: "GetChainSelectorFamily (ChainDetails sample_env) sel = Inr FamilyEVM"
  by (simp add: GetChainSelectorFamily_def supportedFamilies_def)

lemma sample_env_newEncoder [simp]:
  "newEncoder sample_env sel n ov sim = Inr (Some (evm_NewEncoder sample_env sel n ov sim))"
  by (simp add: newEncoder_def)

lemma sample_env_Encode [simp]: "Encode sample_env abi vs = Inr (concat (map sample_pack vs))"
  by (simp add: Encode_def)

lemma sample_env_chain_id: "getEVMChainID sample_env sel sim = Inr (if sim then SimulatedEVMChainID else sel)"
  by (simp add: getEVMChainID_def)

lemma sample_env_HashMetadata: "\<exists>h. evm_HashMetadata sample_env e md = Inr h"
  unfolding evm_HashMetadata_def ToGethRootMetadata_def sample_env_chain_id bindE_simps sample_env_Encode by blast

lemma sample_env_HashOperation: "\<exists>h. evm_HashOperation sample_env e nonce md op = Inr h"
  unfolding evm_HashOperation_def ToGethOperation_def sample_env_chain_id sample_env_fields bindE_simps
    sample_env_Encode by blast

lemma sample_env_hashes:
  "\<exists>h. enc_HashMetadata (evm_NewEncoder sample_env sel n ov sim) md = Inr h"
  "\<exists>h. enc_HashOperation (evm_NewEncoder sample_env sel n ov sim) nonce md op = Inr h"
  unfolding evm_NewEncoder_methods by (rule sample_env_HashMetadata, rule sample_env_HashOperation)

lemma sample_env_casts: "casts_documented sample_env"
  using plain_casts_documented by (simp add: casts_documented_def)

lemma sample_env_sign_msg: "sign_msg_documented sample_env"
proof -
  have "\<exists>sel. length sel = 4 \<and> AbiPackMethod sample_env SignMsgABI [AbiBytes32 root, AbiUint (Some (uint (v :: u32)))] =
      Inr (sel @ be_bytes 32 root @ be_bytes 32 (ucast v :: 256 word))" for root v
    by (rule exI [of _ "[0, 0, 0, 0]"]) simp
  then show ?thesis unfolding sign_msg_documented_def by blast
qed

section \<open>Properties\<close>

text \<open>
  A chain has an encoder exactly when it has an operation id function. newEncoder succeeds for one
  more chain family: for Stellar, which is a supported family without a case in the switch, it
  reports success and hands out the nil encoder, while operationIDFn refuses the chain.
\<close>

theorem dispatch_agrees:
  "((\<exists>e. newEncoder E csel n ov sim = Inr (Some e)) \<longleftrightarrow> (\<exists>f. operationIDFn E csel = Inr f)) \<and>
   (newEncoder E csel n ov sim = Inr None \<longleftrightarrow> ChainDetails E csel = Inr FamilyStellar)"
proof (cases "GetChainSelectorFamily (ChainDetails E) csel")
  case (Inl err)
  then have "ChainDetails E csel \<noteq> Inr FamilyStellar"
    using GetChainSelectorFamily_Inr [of "ChainDetails E" csel FamilyStellar] by (auto simp: supportedFamilies_def)
  with Inl show ?thesis by (simp add: newEncoder_def operationIDFn_def)
next
  case (Inr fam)
  then have fam: "ChainDetails E csel = Inr fam" "fam \<in> set supportedFamilies"
    by (simp_all add: GetChainSelectorFamily_Inr)
  with Inr show ?thesis
    by (cases fam) (simp_all add: newEncoder_def operationIDFn_def BuildConverter_def validateChainMetadata_def
        supportedFamilies_def)
qed

end
