(* ===== verification/Proposal.thy ===== *)
theory Proposal
  imports Factory Merkle
begin

text \<open>
  \<open>proposal.go\<close> and \<open>utils.go\<close>: the proposal, its counts and nonces, the encoders of its chains, the
  Merkle tree over its metadata and operations, what is signed, validation, and the chaining of
  queued proposals.

  A Go struct that embeds \<open>BaseProposal\<close> is a record that extends \<open>base_proposal\<close>. The maps of a
  proposal are values here; the places where the code shares a map between two proposals say so.
\<close>

section \<open>Proposals\<close>

definition KindProposal :: string where "KindProposal = ''Proposal''"
definition KindTimelockProposal :: string where "KindTimelockProposal = ''TimelockProposal''"

record base_proposal =
  bp_Version :: string
  bp_Kind :: string
  bp_ValidUntil :: u32
  bp_Signatures :: "signature list"
  bp_OverridePreviousRoot :: bool
  bp_ChainMetadata :: "(chain_selector, chain_metadata) gomap"
  bp_Description :: string
  bp_Metadata :: "(string, json) gomap option"
  bp_useSimulatedBackend :: bool

record proposal = base_proposal +
  pr_Operations :: "operation list"

definition AppendSignature :: "signature \<Rightarrow> 'p base_proposal_scheme \<Rightarrow> 'p base_proposal_scheme" where
  "AppendSignature sig p = p\<lparr>bp_Signatures := bp_Signatures p @ [sig]\<rparr>"

text \<open>A fresh copy of the map.\<close>

definition ChainMetadatas :: "'p base_proposal_scheme \<Rightarrow> (chain_selector, chain_metadata) gomap" where
  "ChainMetadatas p = bp_ChainMetadata p"

definition setChainMetadata ::
  "chain_selector \<Rightarrow> chain_metadata \<Rightarrow> 'p base_proposal_scheme \<Rightarrow> 'p base_proposal_scheme" where
  "setChainMetadata sel metadata p = p\<lparr>bp_ChainMetadata := gm_put sel metadata (bp_ChainMetadata p)\<rparr>"

definition UseSimulatedBackend :: "bool \<Rightarrow> 'p base_proposal_scheme \<Rightarrow> 'p base_proposal_scheme" where
  "UseSimulatedBackend b p = p\<lparr>bp_useSimulatedBackend := b\<rparr>"

text \<open>The metadata read from a map with \<open>m[k]\<close>, zero when absent.\<close>

definition zero_metadata :: chain_metadata where
  "zero_metadata = \<lparr>cm_StartingOpCount = 0, cm_MCMAddress = '''', cm_AdditionalFields = RawEmpty\<rparr>"

definition metadata_of :: "'p base_proposal_scheme \<Rightarrow> chain_selector \<Rightarrow> chain_metadata" where
  "metadata_of p sel = gm_get0 (bp_ChainMetadata p) sel zero_metadata"

section \<open>Counts and nonces\<close>

definition ChainSelectors :: "'p base_proposal_scheme \<Rightarrow> chain_selector list" where
  "ChainSelectors p = sort (gm_keys (bp_ChainMetadata p))"

definition TransactionCounts :: "proposal \<Rightarrow> (chain_selector, u64) gomap" where
  "TransactionCounts p =
     foldl (\<lambda>m op. gm_put (op_ChainSelector op) (case_option 0 id (gm_get m (op_ChainSelector op)) + 1) m) []
       (pr_Operations p)"

fun nonces_loop ::
  "(chain_selector, chain_metadata) gomap \<Rightarrow> (chain_selector, u64) gomap \<Rightarrow> operation list \<Rightarrow> u64 list res" where
  "nonces_loop md chainIndexMap [] = Inr []"
| "nonces_loop md chainIndexMap (op # ops) =
     (let sel = op_ChainSelector op; localIndex = gm_get0 chainIndexMap sel 0 in
      case gm_get md sel of
        None \<Rightarrow> Inl (ChainMetadataNotFoundError sel)
      | Some m \<Rightarrow>
          bindE (nonces_loop md (gm_put sel (localIndex + 1) chainIndexMap) ops) (\<lambda>txNonces.
            Inr ((localIndex + cm_StartingOpCount m) # txNonces)))"

definition TransactionNonces :: "proposal \<Rightarrow> u64 list res" where
  "TransactionNonces p = nonces_loop (bp_ChainMetadata p) [] (pr_Operations p)"

section \<open>Encoders and the tree\<close>

definition GetEncoders :: "'e mcms_env_scheme \<Rightarrow> proposal \<Rightarrow> (chain_selector, encoder option) gomap res" where
  "GetEncoders E p =
     (let txCounts = TransactionCounts p in
      foldE (\<lambda>encoders (chainSelector, _).
          bindE (wrapE (Wrapf ''unable to create encoder: %w'')
                   (newEncoder E chainSelector (gm_get0 txCounts chainSelector 0) (bp_OverridePreviousRoot p)
                      (bp_useSimulatedBackend p)))
            (\<lambda>encoder. Inr (gm_put chainSelector encoder encoders)))
        [] (bp_ChainMetadata p))"

text \<open>A method call on an interface value; on the nil interface it panics.\<close>

definition call_HashMetadata :: "encoder option \<Rightarrow> chain_metadata \<Rightarrow> hash res" where
  "call_HashMetadata enc metadata =
     (case enc of None \<Rightarrow> Inl (Panic ''nil pointer dereference'') | Some e \<Rightarrow> enc_HashMetadata e metadata)"

definition call_HashOperation :: "encoder option \<Rightarrow> u32 \<Rightarrow> chain_metadata \<Rightarrow> operation \<Rightarrow> hash res" where
  "call_HashOperation enc nonce metadata op =
     (case enc of None \<Rightarrow> Inl (Panic ''nil pointer dereference'') | Some e \<Rightarrow> enc_HashOperation e nonce metadata op)"

definition wrapTreeGenErr :: "mcms_error \<Rightarrow> mcms_error" where
  "wrapTreeGenErr err = Wrapf ''merkle tree generation error: %w'' err"

text \<open>\<open>common.Hash.String\<close>: 0x and 64 hex digits. The leaves are sorted by these strings.\<close>

definition hash_String :: "hash \<Rightarrow> string" where
  "hash_String h = ''0x'' @ hex_encode (be_bytes 32 h)"

definition metadata_leaf ::
  "proposal \<Rightarrow> (chain_selector, encoder option) gomap \<Rightarrow> chain_selector \<Rightarrow> hash res" where
  "metadata_leaf p encoders sel = call_HashMetadata (gm_get0 encoders sel None) (metadata_of p sel)"

text \<open>The nonces are computed again for every operation.\<close>

definition operation_leaf ::
  "'e mcms_env_scheme \<Rightarrow> proposal \<Rightarrow> (chain_selector, encoder option) gomap \<Rightarrow> nat \<times> operation \<Rightarrow> hash res" where
  "operation_leaf E p encoders i_op = (case i_op of (i, op) \<Rightarrow>
     bindE (TransactionNonces p) (\<lambda>txNonces.
     bindE (Uint64ToUint32 E (txNonces ! i)) (\<lambda>txNonce.
       call_HashOperation (gm_get0 encoders (op_ChainSelector op) None) txNonce
         (metadata_of p (op_ChainSelector op)) op)))"

definition MerkleTree :: "'e mcms_env_scheme \<Rightarrow> proposal \<Rightarrow> merkle_tree res" where
  "MerkleTree E p =
     wrapE wrapTreeGenErr
       (bindE (GetEncoders E p) (\<lambda>encoders.
        bindE (mapE (metadata_leaf p encoders) (ChainSelectors p)) (\<lambda>metadataLeaves.
        bindE (mapE (operation_leaf E p encoders) (enumerate 0 (pr_Operations p))) (\<lambda>operationLeaves.
          Inr (NewTree (Keccak256Hash E) (sort_key hash_String (metadataLeaves @ operationLeaves)))))))"

section \<open>What is signed\<close>

definition toEthSignedMessageHash :: "'c crypto_pkg_scheme \<Rightarrow> byte list \<Rightarrow> hash" where
  "toEthSignedMessageHash C payload =
     Keccak256Hash C (0x19 # string_bytes ''Ethereum Signed Message:'' @ [10] @ string_bytes ''32'' @ payload)"

definition SigningMessage :: "'e mcms_env_scheme \<Rightarrow> proposal \<Rightarrow> hash res" where
  "SigningMessage E p =
     bindE (MerkleTree E p) (\<lambda>tree.
     bindE (Encode E SignMsgABI [AbiBytes32 (mt_Root tree), AbiUint (Some (uint (bp_ValidUntil p)))]) (\<lambda>msg.
       Inr (Keccak256Hash E msg)))"

definition SigningHash :: "'e mcms_env_scheme \<Rightarrow> proposal \<Rightarrow> hash res" where
  "SigningHash E p =
     bindE (SigningMessage E p) (\<lambda>msg. Inr (toEthSignedMessageHash E (be_bytes 32 msg)))"

definition proposal_RecoverSigningAddresses ::
  "'e mcms_env_scheme \<Rightarrow> proposal \<Rightarrow> (address list \<times> recovery_failure list) res" where
  "proposal_RecoverSigningAddresses E p =
     bindE (SigningHash E p) (\<lambda>signingHash. Inr (RecoverSigningAddresses E signingHash (bp_Signatures p)))"

definition RecoverSigningAddressesStrict :: "'e mcms_env_scheme \<Rightarrow> proposal \<Rightarrow> address list res" where
  "RecoverSigningAddressesStrict E p =
     bindE (proposal_RecoverSigningAddresses E p) (\<lambda>(recovered, failures).
       case failures of
         [] \<Rightarrow> Inr recovered
       | f # _ \<Rightarrow> Inl (InvalidSignatureAtIndexError (rf_Index f) (rf_Sig f) 0 (Some (rf_Err f))))"

section \<open>Validation\<close>

text \<open>The clock counts nanoseconds; \<open>validUntil\<close> is in seconds.\<close>

definition proposalValidateBasic :: "'e mcms_env_scheme \<Rightarrow> 'p base_proposal_scheme \<Rightarrow> unit res" where
  "proposalValidateBasic E p =
     guardE (\<not> Now E > uint (bp_ValidUntil p) * 1000000000) (InvalidValidUntilError (bp_ValidUntil p))"

text \<open>
  \<open>validate.Struct\<close> of \<open>go-playground/validator\<close> is the parameter \<open>struct\<close>. Ranging over the metadata
  is in the order of the map, so the error reported first is not determined; whether there is one is.
\<close>

definition proposal_Validate :: "'e mcms_env_scheme \<Rightarrow> (proposal \<Rightarrow> unit res) \<Rightarrow> proposal \<Rightarrow> unit res" where
  "proposal_Validate E struct p =
     bindE (struct p) (\<lambda>_.
     bindE (validateNoDuplicateSigners (bp_Signatures p)) (\<lambda>_.
     bindE (allE (\<lambda>(chainSelector, metadata).
              wrapE (Wrapf ''error validating proposal: %w'') (validateChainMetadata E metadata chainSelector))
            (bp_ChainMetadata p)) (\<lambda>_.
     bindE (allE (\<lambda>op. guardE (gm_get (bp_ChainMetadata p) (op_ChainSelector op) \<noteq> None)
                           (ChainMetadataNotFoundError (op_ChainSelector op)))
            (pr_Operations p)) (\<lambda>_.
     bindE (allE (\<lambda>op. validateAdditionalFields E (tx_AdditionalFields (op_Transaction op)) (op_ChainSelector op))
            (pr_Operations p)) (\<lambda>_.
       proposalValidateBasic E p)))))"

section \<open>Decoding and kinds\<close>

text \<open>A decoder is a function of the transaction and the contract interface.\<close>

definition Decode ::
  "(chain_selector, transaction \<Rightarrow> string \<Rightarrow> 'd res) gomap \<Rightarrow> (string, string) gomap \<Rightarrow> proposal \<Rightarrow> 'd list res" where
  "Decode decoders contractInterfaces p =
     mapE (\<lambda>op.
       case gm_get decoders (op_ChainSelector op) of
         None \<Rightarrow> Inl (Errorf ''no decoder found for chain selector %d'')
       | Some decoder \<Rightarrow>
           (case gm_get contractInterfaces (tx_ContractType (op_Transaction op)) of
              None \<Rightarrow> Inl (Errorf ''no contract interfaces found for contract type %s'')
            | Some contractInterface \<Rightarrow>
                wrapE (Wrapf ''unable to decode operation: %w'') (decoder (op_Transaction op) contractInterface)))
       (pr_Operations p)"

text \<open>\<open>decoded\<close> is the field \<open>kind\<close> that the JSON decoder reads, or its error.\<close>

definition ProposalKindFromJSON :: "string res \<Rightarrow> string res" where
  "ProposalKindFromJSON decoded =
     bindE (wrapE (Wrapf ''failed to parse proposal JSON: %w'') decoded) (\<lambda>kind.
       if kind = [] then Inl (Errorf ''proposal JSON missing required 'kind' field'')
       else if kind \<notin> {KindProposal, KindTimelockProposal} then Inl (Errorf ''unknown proposal kind: %q'')
       else Inr kind)"

section \<open>Queued proposals\<close>

text \<open>The methods of \<open>ProposalInterface\<close> that \<open>utils.go\<close> calls, for any type of proposal.\<close>

record 'p proposal_interface =
  pi_TransactionCounts :: "'p \<Rightarrow> (chain_selector, u64) gomap"
  pi_ChainMetadatas :: "'p \<Rightarrow> (chain_selector, chain_metadata) gomap"
  pi_setChainMetadata :: "chain_selector \<Rightarrow> chain_metadata \<Rightarrow> 'p \<Rightarrow> 'p"
  pi_Validate :: "'p \<Rightarrow> unit res"

definition queue_chain ::
  "(chain_selector, chain_metadata) gomap \<Rightarrow> (chain_selector, u64) gomap \<Rightarrow> chain_selector \<times> u64 \<Rightarrow>
     (chain_selector, u64) gomap" where
  "queue_chain chainMetadata startingOpCounts sel_count = (case sel_count of (chainSelector, txCount) \<Rightarrow>
     let counts = (if gm_get startingOpCounts chainSelector = None
                   then gm_put chainSelector (cm_StartingOpCount (gm_get0 chainMetadata chainSelector zero_metadata))
                          startingOpCounts
                   else startingOpCounts) in
     gm_put chainSelector (gm_get0 counts chainSelector 0 + txCount) counts)"

definition generateQueuedProposalStartingOpCounts ::
  "('p, 'x) proposal_interface_scheme \<Rightarrow> 'p list \<Rightarrow> (chain_selector, u64) gomap" where
  "generateQueuedProposalStartingOpCounts I predecessorProposals =
     foldl (\<lambda>startingOpCounts pred.
         foldl (queue_chain (pi_ChainMetadatas I pred)) startingOpCounts (pi_TransactionCounts I pred))
       [] predecessorProposals"

definition decodeAndValidateProposal ::
  "('p, 'x) proposal_interface_scheme \<Rightarrow> ('r \<Rightarrow> 'p res) \<Rightarrow> 'r \<Rightarrow> 'p res" where
  "decodeAndValidateProposal I decode reader =
     bindE (wrapE (Wrapf ''failed to decode proposal: %w'') (decode reader)) (\<lambda>proposal.
     bindE (wrapE (Wrapf ''failed to validate proposal: %w'') (pi_Validate I proposal)) (\<lambda>_.
       Inr proposal))"

definition newProposal ::
  "('p, 'x) proposal_interface_scheme \<Rightarrow> ('r \<Rightarrow> 'p res) \<Rightarrow> 'r \<Rightarrow> 'r list \<Rightarrow> 'p res" where
  "newProposal I decode r predecessors =
     bindE (wrapE (Wrapf ''failed to decode and validate target proposal: %w'') (decodeAndValidateProposal I decode r)) (\<lambda>p.
     bindE (mapE (\<lambda>pred. wrapE (Wrapf ''failed to decode and validate predecessor proposal %d: %w'')
                            (decodeAndValidateProposal I decode pred)) predecessors) (\<lambda>predecessorProposals.
       let startingOpCounts = generateQueuedProposalStartingOpCounts I predecessorProposals in
       Inr (foldl (\<lambda>p (chainSelector, chainMetadata).
              let chainMetadata' =
                    (case gm_get startingOpCounts chainSelector of
                       Some opCount \<Rightarrow> chainMetadata\<lparr>cm_StartingOpCount := opCount\<rparr>
                     | None \<Rightarrow> chainMetadata) in
              pi_setChainMetadata I chainSelector chainMetadata' p)
            p (pi_ChainMetadatas I p))))"

definition mcms_proposal_interface ::
  "'e mcms_env_scheme \<Rightarrow> (proposal \<Rightarrow> unit res) \<Rightarrow> proposal proposal_interface" where
  "mcms_proposal_interface E struct =
     \<lparr>pi_TransactionCounts = TransactionCounts, pi_ChainMetadatas = ChainMetadatas,
      pi_setChainMetadata = setChainMetadata, pi_Validate = proposal_Validate E struct\<rparr>"

definition NewProposal ::
  "'e mcms_env_scheme \<Rightarrow> (proposal \<Rightarrow> unit res) \<Rightarrow> ('r \<Rightarrow> proposal res) \<Rightarrow> 'r \<Rightarrow> 'r list \<Rightarrow> proposal res" where
  "NewProposal E struct decode reader predecessors =
     newProposal (mcms_proposal_interface E struct) decode reader predecessors"

section \<open>Counts and nonces: lemmas\<close>

text \<open>How many operations of a list are on a chain.\<close>

definition ops_on :: "chain_selector \<Rightarrow> operation list \<Rightarrow> nat" where
  "ops_on sel ops = length (filter (\<lambda>op. op_ChainSelector op = sel) ops)"

lemma ops_on_simps [simp]:
  "ops_on sel [] = 0"
  "ops_on sel (op # ops) = (if op_ChainSelector op = sel then Suc (ops_on sel ops) else ops_on sel ops)"
  "ops_on sel (xs @ ys) = ops_on sel xs + ops_on sel ys"
  by (simp_all add: ops_on_def)

lemma ops_on_zero: "ops_on sel ops = 0 \<longleftrightarrow> sel \<notin> op_ChainSelector ` set ops"
  by (auto simp: ops_on_def filter_empty_conv)

lemma TransactionCounts_get:
  "gm_get (TransactionCounts p) sel =
     (if ops_on sel (pr_Operations p) = 0 then None else Some (of_nat (ops_on sel (pr_Operations p))))"
  using gm.accumulate_empty [where key = op_ChainSelector and amount = "\<lambda>_. 1 :: u64" and xs = "pr_Operations p" and k = sel]
  unfolding TransactionCounts_def ops_on_zero by (simp add: ops_on_def sum_list_triv)

lemma nonces_loop_Inr:
  "nonces_loop md idx ops = Inr ns \<Longrightarrow>
     length ns = length ops \<and>
     (\<forall>i < length ops. \<exists>m. gm_get md (op_ChainSelector (ops ! i)) = Some m \<and>
        ns ! i = gm_get0 idx (op_ChainSelector (ops ! i)) 0 +
          of_nat (ops_on (op_ChainSelector (ops ! i)) (take i ops)) + cm_StartingOpCount m)"
proof (induction md idx ops arbitrary: ns rule: nonces_loop.induct)
  case (2 md idx op ops)
  let ?sel = "op_ChainSelector op"
  from "2.prems" obtain m ns' where m: "gm_get md ?sel = Some m"
    and rest: "nonces_loop md (gm_put ?sel (gm_get0 idx ?sel 0 + 1) idx) ops = Inr ns'"
    and ns: "ns = (gm_get0 idx ?sel 0 + cm_StartingOpCount m) # ns'"
    by (auto simp: Let_def bindE_Inr_iff split: option.splits)
  note IH = "2.IH" [OF refl refl m rest]
  have "\<exists>m. gm_get md (op_ChainSelector ((op # ops) ! i)) = Some m \<and>
        ns ! i = gm_get0 idx (op_ChainSelector ((op # ops) ! i)) 0 +
          of_nat (ops_on (op_ChainSelector ((op # ops) ! i)) (take i (op # ops))) + cm_StartingOpCount m"
    if "i < length (op # ops)" for i
  proof (cases i)
    case 0
    then show ?thesis by (simp add: m ns)
  next
    case (Suc j)
    with that IH obtain m' where "gm_get md (op_ChainSelector (ops ! j)) = Some m'" and
      "ns' ! j = gm_get0 (gm_put ?sel (gm_get0 idx ?sel 0 + 1) idx) (op_ChainSelector (ops ! j)) 0 +
        of_nat (ops_on (op_ChainSelector (ops ! j)) (take j ops)) + cm_StartingOpCount m'" by auto
    with Suc show ?thesis by (auto simp: ns gm_get0_def gm_get_put)
  qed
  with IH show ?case by (simp add: ns)
qed simp

lemma nonces_loop_total:
  "(\<exists>ns. nonces_loop md idx ops = Inr ns) \<longleftrightarrow> (\<forall>op \<in> set ops. gm_get md (op_ChainSelector op) \<noteq> None)"
  by (induction md idx ops rule: nonces_loop.induct) (auto simp: Let_def bindE_Inr_iff split: option.splits)

lemma TransactionNonces_nth:
  assumes "TransactionNonces p = Inr ns" and "i < length (pr_Operations p)"
  shows "ns ! i = of_nat (ops_on (op_ChainSelector (pr_Operations p ! i)) (take i (pr_Operations p))) +
      cm_StartingOpCount (metadata_of p (op_ChainSelector (pr_Operations p ! i)))"
    and "gm_get (bp_ChainMetadata p) (op_ChainSelector (pr_Operations p ! i)) \<noteq> None"
  using nonces_loop_Inr [OF assms(1) [unfolded TransactionNonces_def]] assms(2)
  by (auto simp: metadata_of_def gm_get0_def)

lemma TransactionNonces_length: "TransactionNonces p = Inr ns \<Longrightarrow> length ns = length (pr_Operations p)"
  using nonces_loop_Inr by (simp add: TransactionNonces_def)

section \<open>The order of the leaves\<close>

text \<open>Comparing 64 hex digits as strings is comparing the 256-bit numbers.\<close>

lemma hex_digit_less: "i < 16 \<Longrightarrow> j < 16 \<Longrightarrow> hex_digit i < hex_digit j \<longleftrightarrow> i < j"
proof -
  have "list_all (\<lambda>i. list_all (\<lambda>j. (hex_digit i < hex_digit j) = (i < j)) [0..<16]) [0..<16]"
    by code_simp
  then show "i < 16 \<Longrightarrow> j < 16 \<Longrightarrow> hex_digit i < hex_digit j \<longleftrightarrow> i < j"
    by (simp add: list_all_iff)
qed

lemma byte_nibbles: "unat (b :: byte) div 16 < 16"
proof -
  have "unat b < 16 * 16" using unsigned_less [of b, where 'a = nat] by simp
  then show ?thesis by (rule less_mult_imp_div_less)
qed

lemma digits_less:
  fixes A B r s M :: nat
  assumes "r < M" and "s < M"
  shows "A * M + r < B * M + s \<longleftrightarrow> A < B \<or> A = B \<and> r < s"
proof -
  have *: "A * M + r < B * M + s" if "A < B" and "r < M" for A B r s
  proof -
    have "A * M + M \<le> B * M" using \<open>A < B\<close> mult_le_mono1 [of "Suc A" B M] by simp
    with \<open>r < M\<close> show ?thesis by linarith
  qed
  show ?thesis using *[of A B r s] *[of B A s r] assms by (cases A B rule: linorder_cases) auto
qed

lemma hex_byte_less:
  "hex_byte b @ xs < hex_byte c @ ys \<longleftrightarrow> b < c \<or> b = c \<and> xs < ys"
proof -
  have "hex_byte b @ xs < hex_byte c @ ys \<longleftrightarrow>
      unat b div 16 < unat c div 16 \<or> unat b div 16 = unat c div 16 \<and>
        (unat b mod 16 < unat c mod 16 \<or> unat b mod 16 = unat c mod 16 \<and> xs < ys)"
    by (simp add: hex_byte_def hex_digit_less hex_digit_inject byte_nibbles)
  also have "\<dots> \<longleftrightarrow> unat b < unat c \<or> unat b = unat c \<and> xs < ys"
  proof -
    have "unat b < unat c \<longleftrightarrow> unat b div 16 < unat c div 16 \<or>
        unat b div 16 = unat c div 16 \<and> unat b mod 16 < unat c mod 16"
      using digits_less [of "unat b mod 16" 16 "unat c mod 16" "unat b div 16" "unat c div 16"] by simp
    moreover have "unat b = unat c \<longleftrightarrow> unat b div 16 = unat c div 16 \<and> unat b mod 16 = unat c mod 16"
      by (metis div_mult_mod_eq)
    ultimately show ?thesis by blast
  qed
  finally show ?thesis by (simp add: word_less_nat_alt word_unat_eq_iff)
qed

lemma hex_encode_less:
  "length bs = length cs \<Longrightarrow> hex_encode bs < hex_encode cs \<longleftrightarrow> bs < cs"
proof (induction bs cs rule: list_induct2)
  case (Cons b bs c cs)
  then show ?case by (simp add: hex_encode_def hex_byte_less)
qed (simp add: hex_encode_def)

lemma be_bytes_less:
  fixes v w :: "'a::len word"
  shows "be_bytes n v < be_bytes n w \<longleftrightarrow> unat v mod 2 ^ (8 * n) < unat w mod 2 ^ (8 * n)"
proof (induction n)
  case (Suc n)
  let ?M = "2 ^ (8 * n) :: nat"
  have top: "unat (ucast (drop_bit (8 * n) x) :: byte) = unat x div ?M mod 256" for x :: "'a word"
    unfolding unsigned_ucast_eq unsigned_drop_bit_eq
    by (simp add: take_bit_eq_mod drop_bit_eq_div unsigned_take_bit_eq)
  have split: "unat x mod 2 ^ (8 * Suc n) = unat x div ?M mod 256 * ?M + unat x mod ?M" for x :: "'a word"
    using mod_mult2_eq [of "unat x" ?M 256] by (simp add: power_add mult.commute)
  show ?case
    unfolding be_bytes_Suc Cons_less_Cons Suc.IH split word_less_nat_alt word_unat_eq_iff top
    by (subst digits_less) simp_all
qed (simp add: be_bytes_def)

lemma hash_String_less: "hash_String a < hash_String b \<longleftrightarrow> a < b"
proof -
  have "unat x mod 2 ^ (8 * 32) = unat x" for x :: hash
    using unsigned_less [of x, where 'a = nat] by simp
  then show ?thesis
    by (simp add: hash_String_def hex_encode_less be_bytes_less word_less_nat_alt)
qed

lemma sort_hash_String: "sort_key hash_String xs = sort xs"
proof (rule properties_for_sort_key)
  have "inj hash_String" by (rule injI) (metis hash_String_less less_irrefl not_less_iff_gr_or_eq)
  then have eq: "hash_String x = hash_String y \<longleftrightarrow> x = y" for x y by (rule inj_eq)
  show "filter (\<lambda>y. hash_String k = hash_String y) (sort xs) = filter (\<lambda>y. hash_String k = hash_String y) xs"
    if "k \<in> set (sort xs)" for k
  proof -
    have "mset (filter ((=) k) (sort xs)) = mset (filter ((=) k) xs)" by simp
    then have "length (filter ((=) k) (sort xs)) = length (filter ((=) k) xs)" by (rule mset_eq_length)
    then show ?thesis unfolding eq by (metis replicate_length_filter)
  qed
  have "mono hash_String" by (rule monoI) (metis hash_String_less le_less not_le)
  then show "sorted (map hash_String (sort xs))" 
    by (intro sorted_map_mono) (auto elim: monotone_on_subset)
qed simp

section \<open>Encoders and the tree: lemmas\<close>

lemma GetEncoders_get:
  assumes "GetEncoders E p = Inr encs" and "gm_wf (bp_ChainMetadata p)"
  shows "gm_get encs sel = (case gm_get (bp_ChainMetadata p) sel of
      None \<Rightarrow> None
    | Some _ \<Rightarrow> Some (projr (newEncoder E sel (gm_get0 (TransactionCounts p) sel 0) (bp_OverridePreviousRoot p)
        (bp_useSimulatedBackend p))))"
    and "gm_get (bp_ChainMetadata p) sel = Some m \<Longrightarrow>
      \<exists>c. newEncoder E sel (gm_get0 (TransactionCounts p) sel 0) (bp_OverridePreviousRoot p)
        (bp_useSimulatedBackend p) = Inr c"
proof -
  note b = build_map [where f = "\<lambda>s m. wrapE (Wrapf ''unable to create encoder: %w'')
      (newEncoder E s (gm_get0 (TransactionCounts p) s 0) (bp_OverridePreviousRoot p) (bp_useSimulatedBackend p))"
      and k = sel, OF assms(1) [unfolded GetEncoders_def Let_def] assms(2)]
  show "gm_get (bp_ChainMetadata p) sel = Some m \<Longrightarrow>
      \<exists>c. newEncoder E sel (gm_get0 (TransactionCounts p) sel 0) (bp_OverridePreviousRoot p)
        (bp_useSimulatedBackend p) = Inr c"
    using b(2) [of m] by simp
  show "gm_get encs sel = (case gm_get (bp_ChainMetadata p) sel of
      None \<Rightarrow> None
    | Some _ \<Rightarrow> Some (projr (newEncoder E sel (gm_get0 (TransactionCounts p) sel 0) (bp_OverridePreviousRoot p)
        (bp_useSimulatedBackend p))))"
    using b(1) b(2) by (auto split: option.splits)
qed

lemma MerkleTree_InrE:
  assumes "MerkleTree E p = Inr t"
  obtains encs mls ols where
    "GetEncoders E p = Inr encs"
    "mapE (metadata_leaf p encs) (ChainSelectors p) = Inr mls"
    "mapE (operation_leaf E p encs) (enumerate 0 (pr_Operations p)) = Inr ols"
    "t = NewTree (Keccak256Hash E) (sort (mls @ ols))"
  using assms unfolding MerkleTree_def by (auto simp: bindE_Inr_iff sort_hash_String)

text \<open>The leaf of a chain and the leaf of an operation, as the signed tree has them.\<close>

lemma tree_metadata_leaf:
  assumes "MerkleTree E p = Inr t" and "GetEncoders E p = Inr encs"
    and "gm_get (bp_ChainMetadata p) sel \<noteq> None"
  shows "\<exists>h proof. call_HashMetadata (gm_get0 encs sel None) (metadata_of p sel) = Inr h \<and>
    GetProof (Keccak256Hash E) t h = Inr proof \<and> foldl (hashPair (Keccak256Hash E)) h proof = mt_Root t"
proof -
  from assms(1) obtain encs' mls ols where
    e: "GetEncoders E p = Inr encs'" and
    m: "mapE (metadata_leaf p encs') (ChainSelectors p) = Inr mls" and
    t: "t = NewTree (Keccak256Hash E) (sort (mls @ ols))" by (rule MerkleTree_InrE)
  from e assms(2) have "encs' = encs" by simp
  moreover have "sel \<in> set (ChainSelectors p)"
    using assms(3) unfolding ChainSelectors_def set_sort gm_keys_dom by (simp add: domIff)
  ultimately obtain h where "metadata_leaf p encs sel = Inr h" and "h \<in> set mls"
    using m by (blast elim: mapE_mem)
  then show ?thesis
    using GetProof_found [of h "sort (mls @ ols)" "Keccak256Hash E"] by (auto simp: t metadata_leaf_def)
qed

lemma tree_operation_leaf:
  assumes "MerkleTree E p = Inr t" and "GetEncoders E p = Inr encs" and "TransactionNonces p = Inr ns"
    and "i < length (pr_Operations p)"
  defines "op \<equiv> pr_Operations p ! i"
  shows "\<exists>n h proof. Uint64ToUint32 E (ns ! i) = Inr n \<and>
    call_HashOperation (gm_get0 encs (op_ChainSelector op) None) n (metadata_of p (op_ChainSelector op)) op = Inr h \<and>
    GetProof (Keccak256Hash E) t h = Inr proof \<and> foldl (hashPair (Keccak256Hash E)) h proof = mt_Root t"
proof -
  from assms(1) obtain encs' mls ols where
    e: "GetEncoders E p = Inr encs'" and
    m: "mapE (operation_leaf E p encs') (enumerate 0 (pr_Operations p)) = Inr ols" and
    t: "t = NewTree (Keccak256Hash E) (sort (mls @ ols))" by (rule MerkleTree_InrE)
  from e assms(2) have "encs' = encs" by simp
  with mapE_nth [OF m, of i] mapE_length [OF m] assms(3,4)
  have "operation_leaf E p encs (i, op) = Inr (ols ! i)" and "ols ! i \<in> set ols"
    by (simp_all add: nth_enumerate_eq op_def)
  then show ?thesis
    using GetProof_found [of "ols ! i" "sort (mls @ ols)" "Keccak256Hash E"] assms(3)
    by (auto simp: t operation_leaf_def bindE_Inr_iff)
qed

text \<open>The iteration order of the metadata map does not matter.\<close>

lemma gm_get_perm:
  assumes "gm_wf m" and "mset m' = mset m"
  shows "gm_wf m'" and "gm_get m' = gm_get m"
proof -
  have "mset (gm_keys m') = mset (gm_keys m)" using assms(2) by simp
  with assms(1) show wf: "gm_wf m'" unfolding gm_wf_def using mset_eq_imp_distinct_iff by blast
  have "set m' = set m" using assms(2) by (rule mset_eq_setD)
  with wf assms(1) show "gm_get m' = gm_get m"
    unfolding gm_wf_def by (subst map_of_inject_set) simp_all
qed

lemma nonces_loop_map_cong: "gm_get md' = gm_get md \<Longrightarrow> nonces_loop md' idx ops = nonces_loop md idx ops"
  by (induction ops arbitrary: idx) (simp_all add: Let_def split: option.splits)

lemma build_map_total:
  "(\<And>k v. (k, v) \<in> set kvs \<Longrightarrow> \<exists>c. f k v = Inr c) \<Longrightarrow>
     \<exists>acc. foldE (\<lambda>acc (k, v). bindE (f k v) (\<lambda>c. Inr (gm_put k c acc))) acc0 kvs = Inr acc"
proof (induction kvs arbitrary: acc0)
  case (Cons kv kvs)
  obtain k v where kv: "kv = (k, v)" by fastforce
  from Cons.prems [of k v] kv obtain c where "f k v = Inr c" by auto
  moreover have "\<exists>acc. foldE (\<lambda>acc (k, v). bindE (f k v) (\<lambda>c. Inr (gm_put k c acc))) (gm_put k c acc0) kvs = Inr acc"
    by (rule Cons.IH) (rule Cons.prems, simp)
  ultimately show ?case by (simp add: kv)
qed simp

lemma GetEncoders_perm:
  fixes p :: proposal
  assumes "gm_wf (bp_ChainMetadata p)" and "mset md' = mset (bp_ChainMetadata p)" and "GetEncoders E p = Inr encs"
  shows "\<exists>encs'. GetEncoders E (p\<lparr>bp_ChainMetadata := md'\<rparr>) = Inr encs' \<and> gm_get encs' = gm_get encs"
proof -
  let ?p = "p\<lparr>bp_ChainMetadata := md'\<rparr>"
  let ?f = "\<lambda>s (m :: chain_metadata). wrapE (Wrapf ''unable to create encoder: %w'')
      (newEncoder E s (gm_get0 (TransactionCounts p) s 0) (bp_OverridePreviousRoot p) (bp_useSimulatedBackend p))"
  have counts: "TransactionCounts ?p = TransactionCounts p" by (simp add: TransactionCounts_def)
  have ok: "\<exists>c. ?f k v = Inr c" if "(k, v) \<in> set md'" for k v
  proof -
    from that assms(2) have "(k, v) \<in> set (bp_ChainMetadata p)" by (metis mset_eq_setD)
    then have "gm_get (bp_ChainMetadata p) k = Some v" using assms(1) by (simp add: gm_get_mem)
    from GetEncoders_get(2) [OF assms(3,1) this] show ?thesis by auto
  qed
  have "\<exists>encs'. foldE (\<lambda>acc (k, v). bindE (?f k v) (\<lambda>c. Inr (gm_put k c acc))) [] md' = Inr encs'"
    by (rule build_map_total [where f = ?f]) (rule ok)
  then obtain encs' where
    e': "foldE (\<lambda>acc (k, v). bindE (?f k v) (\<lambda>c. Inr (gm_put k c acc))) [] md' = Inr encs'" by blast
  then have encs': "GetEncoders E ?p = Inr encs'" by (simp add: GetEncoders_def Let_def counts)
  moreover have "gm_get encs' s = gm_get encs s" for s
    using GetEncoders_get(1) [OF encs', of s] GetEncoders_get(1) [OF assms(3,1), of s]
      gm_get_perm [OF assms(1,2)] by (simp add: counts split: option.splits)
  ultimately show ?thesis by auto
qed

lemma MerkleTree_perm:
  assumes "gm_wf (bp_ChainMetadata p)" and "mset md' = mset (bp_ChainMetadata p)" and "MerkleTree E p = Inr t"
  shows "MerkleTree E (p\<lparr>bp_ChainMetadata := md'\<rparr>) = Inr t"
proof -
  let ?p = "p\<lparr>bp_ChainMetadata := md'\<rparr>"
  from assms(3) obtain encs mls ols where
    e: "GetEncoders E p = Inr encs" and
    m: "mapE (metadata_leaf p encs) (ChainSelectors p) = Inr mls" and
    o: "mapE (operation_leaf E p encs) (enumerate 0 (pr_Operations p)) = Inr ols" and
    t: "t = NewTree (Keccak256Hash E) (sort (mls @ ols))" by (rule MerkleTree_InrE)
  from GetEncoders_perm [OF assms(1,2) e] obtain encs' where
    e': "GetEncoders E ?p = Inr encs'" and eq: "gm_get encs' = gm_get encs" by blast
  note perm = gm_get_perm [OF assms(1,2)]
  have md: "metadata_of ?p = metadata_of p" by (simp add: metadata_of_def gm_get0_def perm fun_eq_iff)
  have "ChainSelectors ?p = ChainSelectors p"
  proof -
    have "mset (gm_keys md') = mset (gm_keys (bp_ChainMetadata p))" using assms(2) by simp
    then show ?thesis by (simp add: ChainSelectors_def properties_for_sort)
  qed
  moreover have "metadata_leaf ?p encs' = metadata_leaf p encs"
    by (simp add: metadata_leaf_def md gm_get0_def eq fun_eq_iff)
  moreover have "TransactionNonces ?p = TransactionNonces p"
    by (simp add: TransactionNonces_def nonces_loop_map_cong [OF perm(2)])
  then have "operation_leaf E ?p encs' = operation_leaf E p encs"
    by (simp add: operation_leaf_def md gm_get0_def eq fun_eq_iff)
  ultimately show ?thesis
    using e' m o t by (simp add: MerkleTree_def sort_hash_String)
qed

text \<open>
  Neither does the way operations of different chains interleave: an operation's leaf depends on
  the operation and on how many operations of its chain come before it.
\<close>

definition ranked_ops :: "operation list \<Rightarrow> (operation \<times> nat) list" where
  "ranked_ops ops = map (\<lambda>i. (ops ! i, ops_on (op_ChainSelector (ops ! i)) (take i ops))) [0..<length ops]"

lemma ranked_ops_snoc:
  "ranked_ops (ops @ [op]) = ranked_ops ops @ [(op, ops_on (op_ChainSelector op) ops)]"
  by (simp add: ranked_ops_def nth_append)

lemma ranked_ops_filter:
  "filter (\<lambda>(op, _). op_ChainSelector op = sel) (ranked_ops ops) =
     zip (filter (\<lambda>op. op_ChainSelector op = sel) ops)
       [0..<length (filter (\<lambda>op. op_ChainSelector op = sel) ops)]"
proof (induction ops rule: rev_induct)
  case (snoc op ops)
  then show ?case by (auto simp: ranked_ops_snoc ops_on_def)
qed (simp add: ranked_ops_def)

lemma ranked_ops_interleave:
  assumes "\<And>sel. filter (\<lambda>op. op_ChainSelector op = sel) ops' = filter (\<lambda>op. op_ChainSelector op = sel) ops"
  shows "mset (ranked_ops ops') = mset (ranked_ops ops)"
proof (rule multiset_eqI)
  fix z :: "operation \<times> nat"
  let ?P = "\<lambda>(op, _ :: nat). op_ChainSelector op = op_ChainSelector (fst z)"
  have same: "count (mset (filter ?P xs)) z = count (mset xs) z" for xs
    by (simp add: mset_filter split_def)
  show "count (mset (ranked_ops ops')) z = count (mset (ranked_ops ops)) z"
    using same [of "ranked_ops ops'"] same [of "ranked_ops ops"]
    by (simp only: ranked_ops_filter assms)
qed

lemma mapE_mset:
  assumes "mapE f xs = Inr ys" and "mset xs' = mset xs"
  shows "\<exists>ys'. mapE f xs' = Inr ys' \<and> mset ys' = mset ys"
proof -
  from assms(1) have f: "f x = Inr (projr (f x))" if "x \<in> set xs" for x
    using that by (metis mapE_mem sum.sel(2))
  from assms(2) have "set xs' = set xs" by (rule mset_eq_setD)
  with f have "mapE f xs' = Inr (map (projr \<circ> f) xs')" by (intro mapE_map_Inr) simp
  moreover from f have "mapE f xs = Inr (map (projr \<circ> f) xs)" by (intro mapE_map_Inr) simp
  ultimately show ?thesis using assms by simp
qed

definition ranked_leaf ::
  "'e mcms_env_scheme \<Rightarrow> proposal \<Rightarrow> (chain_selector, encoder option) gomap \<Rightarrow> operation \<times> nat \<Rightarrow> hash res" where
  "ranked_leaf E p encoders = (\<lambda>(op, k).
     bindE (Uint64ToUint32 E (of_nat k + cm_StartingOpCount (metadata_of p (op_ChainSelector op)))) (\<lambda>txNonce.
       call_HashOperation (gm_get0 encoders (op_ChainSelector op) None) txNonce
         (metadata_of p (op_ChainSelector op)) op))"

lemma operation_leaf_ranked:
  assumes "TransactionNonces p = Inr ns"
  shows "mapE (operation_leaf E p encs) (enumerate 0 (pr_Operations p)) =
     mapE (ranked_leaf E p encs) (ranked_ops (pr_Operations p))"
proof -
  have *: "mapE f (map g is) = mapE (\<lambda>i. f (g i)) is" for f :: "'u \<Rightarrow> hash res" and g :: "nat \<Rightarrow> 'u" and "is"
    by (induction "is") simp_all
  have "enumerate 0 (pr_Operations p) = map (\<lambda>i. (i, pr_Operations p ! i)) [0..<length (pr_Operations p)]"
    by (intro nth_equalityI) (simp_all add: nth_enumerate_eq)
  then show ?thesis
    unfolding ranked_ops_def
    by (simp add: *) (rule mapE_cong, simp_all add: operation_leaf_def ranked_leaf_def assms TransactionNonces_nth [OF assms])
qed

lemma MerkleTree_interleave:
  assumes same: "\<And>sel. filter (\<lambda>op. op_ChainSelector op = sel) ops' =
      filter (\<lambda>op. op_ChainSelector op = sel) (pr_Operations p)"
    and tree: "MerkleTree E p = Inr t"
  shows "MerkleTree E (p\<lparr>pr_Operations := ops'\<rparr>) = Inr t"
proof -
  let ?p = "p\<lparr>pr_Operations := ops'\<rparr>"
  from tree obtain encs mls ols where
    e: "GetEncoders E p = Inr encs" and
    m: "mapE (metadata_leaf p encs) (ChainSelectors p) = Inr mls" and
    o: "mapE (operation_leaf E p encs) (enumerate 0 (pr_Operations p)) = Inr ols" and
    t: "t = NewTree (Keccak256Hash E) (sort (mls @ ols))" by (rule MerkleTree_InrE)
  have "ops_on sel ops' = ops_on sel (pr_Operations p)" for sel by (simp add: ops_on_def same)
  then have "gm_get0 (TransactionCounts ?p) sel 0 = gm_get0 (TransactionCounts p) sel 0" for sel
    by (simp add: gm_get0_def TransactionCounts_get)
  with e have e': "GetEncoders E ?p = Inr encs" by (simp add: GetEncoders_def Let_def)
  have md: "metadata_of ?p = metadata_of p" by (simp add: metadata_of_def fun_eq_iff)
  have mem: "op \<in> set ops' \<longleftrightarrow> op \<in> set (pr_Operations p)" for op
  proof -
    have "op \<in> set (filter (\<lambda>x. op_ChainSelector x = op_ChainSelector op) xs) \<longleftrightarrow> op \<in> set xs" for xs by auto
    then show ?thesis by (metis same)
  qed
  obtain ns where ns: "TransactionNonces p = Inr ns"
  proof (cases "pr_Operations p")
    case Nil
    then show ?thesis using that by (simp add: TransactionNonces_def)
  next
    case (Cons op ops)
    with o that show ?thesis by (auto simp: operation_leaf_def bindE_Inr_iff)
  qed
  then have "\<forall>op \<in> set (pr_Operations p). gm_get (bp_ChainMetadata p) (op_ChainSelector op) \<noteq> None"
    unfolding TransactionNonces_def using nonces_loop_total by blast
  with mem have "\<forall>op \<in> set ops'. gm_get (bp_ChainMetadata p) (op_ChainSelector op) \<noteq> None" by simp
  then obtain ns' where ns': "TransactionNonces ?p = Inr ns'"
    unfolding TransactionNonces_def using nonces_loop_total by fastforce
  from o have "mapE (ranked_leaf E p encs) (ranked_ops (pr_Operations p)) = Inr ols"
    by (simp add: operation_leaf_ranked [OF ns])
  from mapE_mset [OF this ranked_ops_interleave [of ops', OF same]] obtain ols' where
    o': "mapE (ranked_leaf E p encs) (ranked_ops ops') = Inr ols'" and ols': "mset ols' = mset ols" by blast
  have "ranked_leaf E ?p encs = ranked_leaf E p encs" by (simp add: ranked_leaf_def md)
  with o' operation_leaf_ranked [OF ns', of E encs]
  have "mapE (operation_leaf E ?p encs) (enumerate 0 ops') = Inr ols'" by simp
  moreover have "metadata_leaf ?p encs = metadata_leaf p encs" and "ChainSelectors ?p = ChainSelectors p"
    by (simp_all add: metadata_leaf_def md fun_eq_iff ChainSelectors_def)
  moreover have "sort (mls @ ols') = sort (mls @ ols)"
    using ols' by (simp add: properties_for_sort)
  ultimately show ?thesis using e' m t by (simp add: MerkleTree_def sort_hash_String)
qed

section \<open>Queued proposals: the interface and what follows from it\<close>

text \<open>The number of operations a proposal runs on a chain.\<close>

definition runs_on :: "('p, 'x) proposal_interface_scheme \<Rightarrow> chain_selector \<Rightarrow> 'p \<Rightarrow> u64" where
  "runs_on I sel p = gm_get0 (pi_TransactionCounts I p) sel 0"

text \<open>
  Where a queue leaves the op count of a chain: the starting count of the first proposal that has
  transactions there, plus the transactions of all of them.
\<close>

definition queue_position :: "('p, 'x) proposal_interface_scheme \<Rightarrow> 'p list \<Rightarrow> chain_selector \<Rightarrow> u64 option" where
  "queue_position I preds sel =
     (case filter (\<lambda>p. gm_get (pi_TransactionCounts I p) sel \<noteq> None) preds of
        [] \<Rightarrow> None
      | p # ps \<Rightarrow> Some (cm_StartingOpCount (gm_get0 (pi_ChainMetadatas I p) sel zero_metadata) +
          sum_list (map (runs_on I sel) (p # ps))))"

lemma queue_chain_get:
  "gm_get (queue_chain md s (c, n)) sel =
     (if sel = c
      then Some ((case gm_get s sel of None \<Rightarrow> cm_StartingOpCount (gm_get0 md sel zero_metadata) | Some v \<Rightarrow> v) + n)
      else gm_get s sel)"
  by (auto simp: queue_chain_def Let_def gm_get_put gm_get0_def)

lemma queue_counts_get:
  "gm_wf counts \<Longrightarrow>
   gm_get (foldl (queue_chain md) s counts) sel =
     (case gm_get counts sel of
        None \<Rightarrow> gm_get s sel
      | Some n \<Rightarrow>
          Some ((case gm_get s sel of None \<Rightarrow> cm_StartingOpCount (gm_get0 md sel zero_metadata) | Some v \<Rightarrow> v) + n))"
proof (induction counts arbitrary: s)
  case (Cons cn counts)
  obtain c n where cn: "cn = (c, n)" by fastforce
  from Cons.prems cn have wf: "gm_wf counts" and "gm_get counts c = None"
    by (auto simp: gm_wf_def map_of_eq_None_iff)
  then show ?case
    using Cons.IH [OF wf, of "queue_chain md s (c, n)"] by (auto simp: cn queue_chain_get split: option.splits)
qed simp

locale queueable =
  fixes I :: "('p, 'x) proposal_interface_scheme" and ok :: "'p \<Rightarrow> bool"
  assumes counts_wf: "gm_wf (pi_TransactionCounts I p)"
    and metadata_wf: "ok p \<Longrightarrow> gm_wf (pi_ChainMetadatas I p)"
    and set_get: "gm_get (pi_ChainMetadatas I (pi_setChainMetadata I c m p)) =
      (gm_get (pi_ChainMetadatas I p))(c \<mapsto> m)"
begin

lemma queue_fold:
  "gm_get (foldl (\<lambda>s pred. foldl (queue_chain (pi_ChainMetadatas I pred)) s (pi_TransactionCounts I pred)) s0 preds) sel =
     (case gm_get s0 sel of
        None \<Rightarrow> queue_position I preds sel
      | Some v \<Rightarrow> Some (v + sum_list (map (runs_on I sel) preds)))"
proof (induction preds arbitrary: s0)
  case (Cons p preds)
  note step = queue_counts_get [OF counts_wf, where md = "pi_ChainMetadatas I p" and s = s0 and sel = sel and p1 = p]
  have "sum_list (map (runs_on I sel) (filter (\<lambda>p. gm_get (pi_TransactionCounts I p) sel \<noteq> None) preds)) =
      sum_list (map (runs_on I sel) preds)"
    by (induction preds) (auto simp: runs_on_def gm_get0_def)
  moreover have "runs_on I sel p = (case gm_get (pi_TransactionCounts I p) sel of None \<Rightarrow> 0 | Some n \<Rightarrow> n)"
    by (simp add: runs_on_def gm_get0_def)
  ultimately show ?case
    by (auto simp: Cons.IH step queue_position_def add.assoc split: option.splits)
qed (simp add: queue_position_def split: option.splits)

lemma queue_counts: "gm_get (generateQueuedProposalStartingOpCounts I preds) sel = queue_position I preds sel"
  by (simp add: generateQueuedProposalStartingOpCounts_def queue_fold)

lemma set_all_get:
  assumes "gm_wf kvs"
  shows "gm_get (pi_ChainMetadatas I (foldl (\<lambda>p (c, m). pi_setChainMetadata I c (f c m) p) p0 kvs)) sel =
     (case gm_get kvs sel of None \<Rightarrow> gm_get (pi_ChainMetadatas I p0) sel | Some m \<Rightarrow> Some (f sel m))"
  using assms
proof (induction kvs arbitrary: p0)
  case (Cons cm kvs)
  obtain c m where cm: "cm = (c, m)" by fastforce
  from Cons.prems cm have wf: "gm_wf kvs" and "gm_get kvs c = None"
    by (auto simp: gm_wf_def map_of_eq_None_iff)
  then show ?case using Cons.IH [OF wf] by (auto simp: cm set_get split: option.splits)
qed simp

lemma new_proposal:
  assumes "newProposal I decode r preds = Inr q" and "\<And>p. decode r = Inr p \<Longrightarrow> ok p"
  shows "\<exists>p ps. decode r = Inr p \<and> mapE decode preds = Inr ps \<and>
    (\<forall>x \<in> set (p # ps). pi_Validate I x = Inr ()) \<and>
    gm_get (pi_ChainMetadatas I q) sel =
      map_option (\<lambda>m. case queue_position I ps sel of None \<Rightarrow> m | Some n \<Rightarrow> m\<lparr>cm_StartingOpCount := n\<rparr>)
        (gm_get (pi_ChainMetadatas I p) sel)"
proof -
  let ?f = "\<lambda>ps c m. case gm_get (generateQueuedProposalStartingOpCounts I ps) c of
      Some n \<Rightarrow> m\<lparr>cm_StartingOpCount := n\<rparr> | None \<Rightarrow> m"
  from assms(1) obtain p ps where
    p: "decode r = Inr p" "pi_Validate I p = Inr ()" and
    ps: "mapE (\<lambda>pred. wrapE (Wrapf ''failed to decode and validate predecessor proposal %d: %w'')
          (decodeAndValidateProposal I decode pred)) preds = Inr ps" and
    q: "q = foldl (\<lambda>p (c, m). pi_setChainMetadata I c (?f ps c m) p) p (pi_ChainMetadatas I p)"
    by (auto simp: newProposal_def decodeAndValidateProposal_def bindE_Inr_iff Let_def)
  from ps have both: "list_all2 (\<lambda>r x. decode r = Inr x \<and> pi_Validate I x = Inr ()) preds ps"
    by (auto simp: mapE_Inr_iff decodeAndValidateProposal_def bindE_Inr_iff elim!: list_all2_mono)
  then have "mapE decode preds = Inr ps" by (auto simp: mapE_Inr_iff elim: list_all2_mono)
  moreover have "\<forall>x \<in> set ps. pi_Validate I x = Inr ()"
    using both by (auto simp: list_all2_conv_all_nth in_set_conv_nth)
  moreover have "gm_get (pi_ChainMetadatas I q) sel =
      map_option (\<lambda>m. case queue_position I ps sel of None \<Rightarrow> m | Some n \<Rightarrow> m\<lparr>cm_StartingOpCount := n\<rparr>)
        (gm_get (pi_ChainMetadatas I p) sel)"
    using set_all_get [OF metadata_wf [OF assms(2) [OF p(1)]], of "?f ps" p sel]
    by (simp add: q queue_counts split: option.splits)
  ultimately show ?thesis using p by auto
qed

end

lemma accumulate_wf: "gm_wf m0 \<Longrightarrow> gm_wf (foldl (\<lambda>m x. gm_put (key x) (val m x) m) m0 xs)"
  by (induction xs arbitrary: m0) auto

lemma TransactionCounts_wf: "gm_wf (TransactionCounts p)"
  unfolding TransactionCounts_def
  using accumulate_wf [of "[]" op_ChainSelector "\<lambda>m op. case_option 0 id (gm_get m (op_ChainSelector op)) + 1"]
  by simp

interpretation mcms_queue: queueable "mcms_proposal_interface E struct" "\<lambda>p. gm_wf (bp_ChainMetadata p)" for E struct
  by unfold_locales
    (simp_all add: mcms_proposal_interface_def TransactionCounts_wf ChainMetadatas_def setChainMetadata_def gm_get_put)

section \<open>A sample proposal\<close>

definition sample_op :: "chain_selector \<Rightarrow> operation" where
  "sample_op sel =
     \<lparr>op_ChainSelector = sel,
      op_Transaction = \<lparr>tx_ContractType = ''Router'', tx_ContractVersion = None, tx_Tags = [], tx_To = ''0x1'',
        tx_Data = [1], tx_AdditionalFields = RawJson (JObj [])\<rparr>\<rparr>"

definition sample_metadata :: "u64 \<Rightarrow> chain_metadata" where
  "sample_metadata n = \<lparr>cm_StartingOpCount = n, cm_MCMAddress = ''0x2'', cm_AdditionalFields = RawEmpty\<rparr>"

definition sample_proposal :: proposal where
  "sample_proposal =
     \<lparr>bp_Version = ''v1'', bp_Kind = KindProposal, bp_ValidUntil = 99, bp_Signatures = [],
      bp_OverridePreviousRoot = False,
      bp_ChainMetadata = [(5, sample_metadata 10), (7, sample_metadata 3)],
      bp_Description = [], bp_Metadata = None, bp_useSimulatedBackend = False,
      pr_Operations = [sample_op 5, sample_op 7, sample_op 5]\<rparr>"

lemma sample_proposal_fields [simp]:
  "bp_ChainMetadata sample_proposal = [(5, sample_metadata 10), (7, sample_metadata 3)]"
  "pr_Operations sample_proposal = [sample_op 5, sample_op 7, sample_op 5]"
  "bp_ValidUntil sample_proposal = 99"
  "bp_Signatures sample_proposal = []"
  "op_ChainSelector (sample_op sel) = sel"
  "cm_StartingOpCount (sample_metadata n) = n"
  by (simp_all add: sample_proposal_def sample_op_def sample_metadata_def)

lemma sample_nonces: "TransactionNonces sample_proposal = Inr [10, 3, 11]"
  by (simp add: TransactionNonces_def Let_def gm_get0_def)

lemma sample_tree: "\<exists>t. MerkleTree sample_env sample_proposal = Inr t"
proof -
  obtain encs where encs: "GetEncoders sample_env sample_proposal = Inr encs"
    and e5: "gm_get0 encs 5 None = Some (evm_NewEncoder sample_env 5 2 (bp_OverridePreviousRoot sample_proposal)
      (bp_useSimulatedBackend sample_proposal))"
    and e7: "gm_get0 encs 7 None = Some (evm_NewEncoder sample_env 7 1 (bp_OverridePreviousRoot sample_proposal)
      (bp_useSimulatedBackend sample_proposal))"
    by (simp add: GetEncoders_def Let_def gm_get0_def TransactionCounts_get)
  have sels: "ChainSelectors sample_proposal = [5, 7]" by (simp add: ChainSelectors_def)
  have casts: "Uint64ToUint32 sample_env 10 = Inr 10" "Uint64ToUint32 sample_env 3 = Inr 3"
      "Uint64ToUint32 sample_env 11 = Inr 11"
    by (simp_all add: Uint64ToUint32_Inr [OF sample_env_casts])
  have "\<exists>mls. mapE (metadata_leaf sample_proposal encs) (ChainSelectors sample_proposal) = Inr mls"
    by (rule mapE_total)
      (auto simp: sels metadata_leaf_def call_HashMetadata_def e5 e7 sample_env_hashes)
  moreover have "\<exists>ols. mapE (operation_leaf sample_env sample_proposal encs)
      (enumerate 0 (pr_Operations sample_proposal)) = Inr ols"
    by (rule mapE_total)
      (auto simp: operation_leaf_def sample_nonces casts call_HashOperation_def e5 e7 sample_env_hashes)
  ultimately show ?thesis using encs by (auto simp: MerkleTree_def)
qed

section \<open>Properties\<close>

text \<open>
  C6: TransactionNonces succeeds exactly when every operation's chain has metadata, and then the nonce
  of an operation is the starting op count of its chain plus the number of operations before it on
  the same chain, in 64-bit arithmetic.
\<close>

theorem TransactionNonces_exact:
  "TransactionNonces p = Inr ns \<longleftrightarrow>
     length ns = length (pr_Operations p) \<and>
     (\<forall>i < length (pr_Operations p).
        gm_get (bp_ChainMetadata p) (op_ChainSelector (pr_Operations p ! i)) \<noteq> None \<and>
        ns ! i = cm_StartingOpCount (metadata_of p (op_ChainSelector (pr_Operations p ! i))) +
          of_nat (ops_on (op_ChainSelector (pr_Operations p ! i)) (take i (pr_Operations p))))"
  (is "?nonces \<longleftrightarrow> ?spec ns")
proof
  assume ?nonces
  then show "?spec ns" using TransactionNonces_nth TransactionNonces_length by (simp add: add.commute)
next
  assume spec: "?spec ns"
  then have "\<forall>op \<in> set (pr_Operations p). gm_get (bp_ChainMetadata p) (op_ChainSelector op) \<noteq> None"
    by (metis in_set_conv_nth)
  then obtain ns' where ns': "TransactionNonces p = Inr ns'"
    unfolding TransactionNonces_def using nonces_loop_total by blast
  have "ns' = ns"
    using spec TransactionNonces_nth [OF ns'] TransactionNonces_length [OF ns']
    by (intro nth_equalityI) (simp_all add: add.commute)
  with ns' show ?nonces by simp
qed

theorem TransactionNonces_exact_witness:
  "TransactionNonces sample_proposal = Inr [10, 3, 11] \<and>
   [10, 3, 11] ! 2 = (10 :: u64) + of_nat (ops_on 5 [sample_op 5, sample_op 7])"
  using sample_nonces
  unfolding TransactionNonces_exact by (simp add: All_less_Suc metadata_of_def gm_get0_def numeral_eq_Suc)

text \<open>
  C7: The tree of a proposal, and so the root its signers sign, depends neither on the order in which
  the runtime ranges over the metadata map nor on how operations of different chains interleave: any
  reordering of the map, with any reordering of the operations that keeps the operations of each
  chain in their order, gives the same tree.
\<close>

theorem MerkleTree_order_independent:
  assumes "gm_wf (bp_ChainMetadata p)" and "mset md' = mset (bp_ChainMetadata p)"
    and "\<And>sel. filter (\<lambda>op. op_ChainSelector op = sel) ops' =
      filter (\<lambda>op. op_ChainSelector op = sel) (pr_Operations p)"
    and "MerkleTree E p = Inr t"
  shows "MerkleTree E (p\<lparr>bp_ChainMetadata := md', pr_Operations := ops'\<rparr>) = Inr t"
  using MerkleTree_interleave [of ops' "p\<lparr>bp_ChainMetadata := md'\<rparr>", OF _ MerkleTree_perm [OF assms(1,2,4)]]
    assms(3) by simp

theorem MerkleTree_order_independent_witness:
  "\<exists>t. MerkleTree sample_env sample_proposal = Inr t \<and>
     MerkleTree sample_env
       (sample_proposal\<lparr>bp_ChainMetadata := [(7, sample_metadata 3), (5, sample_metadata 10)],
          pr_Operations := [sample_op 5, sample_op 5, sample_op 7]\<rparr>) = Inr t"
proof -
  obtain t where t: "MerkleTree sample_env sample_proposal = Inr t" using sample_tree by blast
  with MerkleTree_order_independent [OF _ _ _ t, of "[(7, sample_metadata 3), (5, sample_metadata 10)]"
      "[sample_op 5, sample_op 5, sample_op 7]"]
  show ?thesis by (auto simp: gm_wf_def add_mset_commute)
qed

text \<open>
  What is signed depends on the root and on ValidUntil alone, in the layout the contract checks:
  the Keccak-256 hash of the 32 bytes of the root and ValidUntil as a 32-byte word, prefixed as a
  signed Ethereum message of 32 bytes and hashed again.
\<close>

theorem SigningHash_layout:
  assumes "sign_msg_documented E" and "MerkleTree E p = Inr t"
  shows "SigningHash E p = Inr (Keccak256Hash E
    ([0x19] @ string_bytes ''Ethereum Signed Message:'' @ [10] @ string_bytes ''32'' @
     be_bytes 32 (Keccak256Hash E (be_bytes 32 (mt_Root t) @ be_bytes 32 (ucast (bp_ValidUntil p) :: 256 word)))))"
  using assms by (simp add: SigningHash_def SigningMessage_def Encode_sign_msg toEthSignedMessageHash_def)

theorem SigningHash_layout_witness:
  "\<exists>t. MerkleTree sample_env sample_proposal = Inr t \<and> SigningHash sample_env sample_proposal = Inr (from_be
    ([0x19] @ string_bytes ''Ethereum Signed Message:'' @ [10] @ string_bytes ''32'' @
     be_bytes 32 (from_be (be_bytes 32 (mt_Root t) @ be_bytes 32 (99 :: 256 word)) :: hash)))"
proof -
  obtain t where t: "MerkleTree sample_env sample_proposal = Inr t" using sample_tree by blast
  have "ucast (99 :: u32) = (99 :: 256 word)" by simp
  with SigningHash_layout [OF sample_env_sign_msg t] t show ?thesis by auto
qed

text \<open>
  A proposal read with predecessors is queued behind them. It keeps its chains and everything in
  their metadata except the starting op count, which on each chain becomes the starting count of the
  first predecessor with transactions there plus the transactions of all predecessors there; a
  chain no predecessor uses keeps its own. The target and all predecessors have been validated.
\<close>

theorem NewProposal_queued:
  assumes "NewProposal E struct decode reader preds = Inr q"
    and "\<And>p. decode reader = Inr p \<Longrightarrow> gm_wf (bp_ChainMetadata p)"
  shows "\<exists>p ps. decode reader = Inr p \<and> mapE decode preds = Inr ps \<and>
    (\<forall>x \<in> set (p # ps). proposal_Validate E struct x = Inr ()) \<and>
    gm_get (bp_ChainMetadata q) sel =
      map_option (\<lambda>m. case queue_position (mcms_proposal_interface E struct) ps sel of
          None \<Rightarrow> m | Some n \<Rightarrow> m\<lparr>cm_StartingOpCount := n\<rparr>)
        (gm_get (bp_ChainMetadata p) sel)"
  using mcms_queue.new_proposal [OF assms(1) [unfolded NewProposal_def] assms(2), of sel]
  by (simp add: mcms_proposal_interface_def ChainMetadatas_def)

lemma sample_valid: "proposal_Validate sample_env (\<lambda>_. Inr ()) sample_proposal = Inr ()"
  by (simp add: proposal_Validate_def validateNoDuplicateSigners_def validateChainMetadata_def
      validateAdditionalFields_def evm_ValidateAdditionalFields_def evm_fields_def evm_fields_Validate_def
      proposalValidateBasic_def)

theorem NewProposal_queued_witness:
  "\<exists>q. NewProposal sample_env (\<lambda>_. Inr ()) Inr sample_proposal [sample_proposal] = Inr q \<and>
     gm_get (bp_ChainMetadata q) 5 = Some (sample_metadata 12)"
proof -
  have "\<exists>q. NewProposal sample_env (\<lambda>_. Inr ()) Inr sample_proposal [sample_proposal] = Inr q"
    by (simp add: NewProposal_def newProposal_def decodeAndValidateProposal_def mcms_proposal_interface_def
        sample_valid Let_def)
  then obtain q where q: "NewProposal sample_env (\<lambda>_. Inr ()) Inr sample_proposal [sample_proposal] = Inr q" ..
  have "queue_position (mcms_proposal_interface sample_env (\<lambda>_. Inr ())) [sample_proposal] 5 = Some 12"
    by (simp add: queue_position_def mcms_proposal_interface_def TransactionCounts_get runs_on_def gm_get0_def
        ChainMetadatas_def)
  with NewProposal_queued [OF q, of 5] q show ?thesis
    by (auto simp: gm_wf_def sample_metadata_def)
qed

text \<open>
  Validate accepts a proposal exactly when the struct tags hold, no signature occurs twice, the
  metadata of every chain and the additional fields of every operation pass the checks of the chain's
  family, every operation has a nonce (its chain has metadata), and ValidUntil has not passed.
\<close>

theorem proposal_Validate_exact:
  "proposal_Validate E struct p = Inr () \<longleftrightarrow>
     struct p = Inr () \<and> distinct (bp_Signatures p) \<and>
     list_all (\<lambda>(sel, md). validateChainMetadata E md sel = Inr ()) (bp_ChainMetadata p) \<and>
     (\<exists>ns. TransactionNonces p = Inr ns) \<and>
     list_all (\<lambda>op. validateAdditionalFields E (tx_AdditionalFields (op_Transaction op)) (op_ChainSelector op) = Inr ())
       (pr_Operations p) \<and>
     Now E \<le> uint (bp_ValidUntil p) * 1000000000"
  unfolding proposal_Validate_def TransactionNonces_def nonces_loop_total validateNoDuplicateSigners_def
    proposalValidateBasic_def
  by (auto simp: bindE_Inr_iff allE_Inr_iff duplicates_loop_ok list_all_iff not_less split_def)

end
