(* ===== verification/Executable.thy ===== *)
theory Executable
  imports Proposal
begin

text \<open>
  \<open>executable.go\<close>: setting the root and executing operations through the executors of the chains.
  An executor acts on the world: its methods take a world and return a result and the next world,
  so the type of worlds is a parameter. The structs hold pointers to the proposal; an executable
  here holds the proposal as it was when it was made.
\<close>

record ('r, 'w) executor =
  ex_SetRoot :: "chain_metadata \<Rightarrow> hash list \<Rightarrow> hash \<Rightarrow> u32 \<Rightarrow> signature list \<Rightarrow> 'w \<Rightarrow> 'r res \<times> 'w"
  ex_ExecuteOperation :: "chain_metadata \<Rightarrow> u32 \<Rightarrow> hash list \<Rightarrow> operation \<Rightarrow> 'w \<Rightarrow> 'r res \<times> 'w"

record ('r, 'w) executable =
  exe_proposal :: proposal
  exe_executors :: "(chain_selector, ('r, 'w) executor) gomap"
  exe_encoders :: "(chain_selector, encoder option) gomap"
  exe_tree :: merkle_tree
  exe_txNonces :: "u64 list"

definition NewExecutable ::
  "'e mcms_env_scheme \<Rightarrow> proposal \<Rightarrow> (chain_selector, ('r, 'w) executor) gomap \<Rightarrow> ('r, 'w) executable res" where
  "NewExecutable E p executors =
     bindE (GetEncoders E p) (\<lambda>encoders.
     bindE (TransactionNonces p) (\<lambda>txNonces.
     bindE (MerkleTree E p) (\<lambda>tree.
       Inr \<lparr>exe_proposal = p, exe_executors = executors, exe_encoders = encoders, exe_tree = tree,
            exe_txNonces = txNonces\<rparr>)))"

text \<open>
  The signer a signature is sorted by; a signature that does not recover sorts as the zero address.
  \<open>slices.SortFunc\<close> leaves the order of equal signers open, this sort keeps it.
\<close>

definition sort_signer :: "'c crypto_pkg_scheme \<Rightarrow> hash \<Rightarrow> signature \<Rightarrow> address" where
  "sort_signer C h s = (case Recover C s h of Inl _ \<Rightarrow> 0 | Inr a \<Rightarrow> a)"

definition sort_signatures :: "'c crypto_pkg_scheme \<Rightarrow> hash \<Rightarrow> signature list \<Rightarrow> signature list" where
  "sort_signatures C h sigs = sort_key (sort_signer C h) sigs"

text \<open>A call through the map of executors; the nil interface of an absent chain panics.\<close>

definition on_executor ::
  "(chain_selector, 'x) gomap \<Rightarrow> chain_selector \<Rightarrow> ('x \<Rightarrow> 'w \<Rightarrow> 'r res \<times> 'w) \<Rightarrow> 'w \<Rightarrow> 'r res \<times> 'w" where
  "on_executor executors sel call w =
     (case gm_get executors sel of
        None \<Rightarrow> (Inl (Panic ''nil pointer dereference''), w)
      | Some x \<Rightarrow> call x w)"

text \<open>Local computations first, the world is touched only when they succeed.\<close>

definition run_after :: "'a res \<Rightarrow> ('a \<Rightarrow> 'w \<Rightarrow> 'r res \<times> 'w) \<Rightarrow> 'w \<Rightarrow> 'r res \<times> 'w" where
  "run_after r f w = (case r of Inl err \<Rightarrow> (Inl err, w) | Inr x \<Rightarrow> f x w)"

lemma run_after_simps [simp]:
  "run_after (Inl err) f w = (Inl err, w)"
  "run_after (Inr x) f w = f x w"
  by (simp_all add: run_after_def)

lemma run_after_Inr_iff: "run_after r f w = (Inr y, w') \<longleftrightarrow> (\<exists>x. r = Inr x \<and> f x w = (Inr y, w'))"
  by (simp add: run_after_def split: sum.splits)

definition SetRoot ::
  "'e mcms_env_scheme \<Rightarrow> ('r, 'w) executable \<Rightarrow> chain_selector \<Rightarrow> 'w \<Rightarrow> 'r res \<times> 'w" where
  "SetRoot E e chainSelector =
     (let metadata = metadata_of (exe_proposal e) chainSelector in
      run_after
        (bindE (call_HashMetadata (gm_get0 (exe_encoders e) chainSelector None) metadata) (\<lambda>metadataHash.
         bindE (GetProof (Keccak256Hash E) (exe_tree e) metadataHash) (\<lambda>proof.
         bindE (SigningHash E (exe_proposal e)) (\<lambda>hash. Inr (proof, hash)))))
        (\<lambda>(proof, hash).
           on_executor (exe_executors e) chainSelector (\<lambda>x.
             ex_SetRoot x metadata proof (mt_Root (exe_tree e)) (bp_ValidUntil (exe_proposal e))
               (sort_signatures E hash (bp_Signatures (exe_proposal e))))))"

text \<open>An index is a Go \<open>int\<close>; slices panic outside their bounds.\<close>

definition Execute ::
  "'e mcms_env_scheme \<Rightarrow> ('r, 'w) executable \<Rightarrow> int \<Rightarrow> 'w \<Rightarrow> 'r res \<times> 'w" where
  "Execute E e index w =
     (if index < 0 \<or> index \<ge> int (length (pr_Operations (exe_proposal e)))
      then (Inl (Panic ''index out of range''), w)
      else
        let op = pr_Operations (exe_proposal e) ! nat index;
            chainSelector = op_ChainSelector op;
            metadata = metadata_of (exe_proposal e) chainSelector in
        run_after
          (bindE (if index \<ge> int (length (exe_txNonces e)) then Inl (Panic ''index out of range'')
                  else Uint64ToUint32 E (exe_txNonces e ! nat index)) (\<lambda>txNonce.
           bindE (call_HashOperation (gm_get0 (exe_encoders e) chainSelector None) txNonce metadata op) (\<lambda>operationHash.
           bindE (GetProof (Keccak256Hash E) (exe_tree e) operationHash) (\<lambda>proof. Inr (txNonce, proof)))))
          (\<lambda>(txNonce, proof).
             on_executor (exe_executors e) chainSelector (\<lambda>x. ex_ExecuteOperation x metadata txNonce proof op)) w)"

text \<open>Too large an index is an error, a negative one a panic.\<close>

definition TxNonce :: "('r, 'w) executable \<Rightarrow> int \<Rightarrow> u64 res" where
  "TxNonce e index =
     (if index \<ge> int (length (exe_txNonces e)) then Inl (Errorf ''index out of range: %d >= %d'')
      else if index < 0 then Inl (Panic ''index out of range'')
      else Inr (exe_txNonces e ! nat index))"

section \<open>Lemmas\<close>

lemma NewExecutable_InrE:
  assumes "NewExecutable E p executors = Inr e"
  obtains "exe_proposal e = p" "exe_executors e = executors" "GetEncoders E p = Inr (exe_encoders e)"
    "TransactionNonces p = Inr (exe_txNonces e)" "MerkleTree E p = Inr (exe_tree e)"
  using assms unfolding NewExecutable_def by (auto simp: bindE_Inr_iff)

lemma sort_signatures_sorted:
  "mset (sort_signatures C h sigs) = mset sigs"
  "sorted (map (sort_signer C h) (sort_signatures C h sigs))"
  by (simp_all add: sort_signatures_def)

lemma sort_signatures_strict:
  assumes "distinct (map (sort_signer C h) sigs)"
  shows "sorted_wrt (<) (map (sort_signer C h) (sort_signatures C h sigs))"
proof -
  have "mset (map (sort_signer C h) (sort_signatures C h sigs)) = mset (map (sort_signer C h) sigs)"
    by (simp add: sort_signatures_sorted)
  then have "distinct (map (sort_signer C h) (sort_signatures C h sigs))"
    using assms mset_eq_imp_distinct_iff by blast
  with sort_signatures_sorted(2) show ?thesis by (simp add: strict_sorted_iff)
qed

lemma Execute_delivers:
  assumes e: "NewExecutable E p executors = Inr e"
    and i: "i < length (pr_Operations p)"
    and x: "gm_get executors (op_ChainSelector (pr_Operations p ! i)) = Some x"
  defines "op \<equiv> pr_Operations p ! i"
  defines "md \<equiv> metadata_of p (op_ChainSelector op)"
  shows "\<exists>n h proof. Uint64ToUint32 E (exe_txNonces e ! i) = Inr n \<and>
    call_HashOperation (gm_get0 (exe_encoders e) (op_ChainSelector op) None) n md op = Inr h \<and>
    foldl (hashPair (Keccak256Hash E)) h proof = mt_Root (exe_tree e) \<and>
    Execute E e (int i) w = ex_ExecuteOperation x md n proof op w"
proof -
  from e have p: "exe_proposal e = p" and ex: "exe_executors e = executors"
    and encs: "GetEncoders E p = Inr (exe_encoders e)" and ns: "TransactionNonces p = Inr (exe_txNonces e)"
    and t: "MerkleTree E p = Inr (exe_tree e)" by (auto elim: NewExecutable_InrE)
  from tree_operation_leaf [OF t encs ns i] obtain n h pf where
    n: "Uint64ToUint32 E (exe_txNonces e ! i) = Inr n" and
    h: "call_HashOperation (gm_get0 (exe_encoders e) (op_ChainSelector op) None) n md op = Inr h" and
    pr: "GetProof (Keccak256Hash E) (exe_tree e) h = Inr pf" and
    root: "foldl (hashPair (Keccak256Hash E)) h pf = mt_Root (exe_tree e)"
    unfolding op_def md_def by blast
  have "Execute E e (int i) w = ex_ExecuteOperation x md n pf op w"
    using i n h pr x TransactionNonces_length [OF ns]
    by (simp add: Execute_def p ex Let_def op_def md_def on_executor_def)
  with n h root show ?thesis by blast
qed

lemma SetRoot_delivers:
  assumes e: "NewExecutable E p executors = Inr e" and lib: "sign_msg_documented E"
    and md: "gm_get (bp_ChainMetadata p) sel = Some md" and x: "gm_get executors sel = Some x"
  shows "\<exists>h proof hash. call_HashMetadata (gm_get0 (exe_encoders e) sel None) md = Inr h \<and>
    foldl (hashPair (Keccak256Hash E)) h proof = mt_Root (exe_tree e) \<and>
    SigningHash E p = Inr hash \<and>
    SetRoot E e sel w =
      ex_SetRoot x md proof (mt_Root (exe_tree e)) (bp_ValidUntil p) (sort_signatures E hash (bp_Signatures p)) w"
proof -
  from e have p: "exe_proposal e = p" and ex: "exe_executors e = executors"
    and encs: "GetEncoders E p = Inr (exe_encoders e)"
    and t: "MerkleTree E p = Inr (exe_tree e)" by (auto elim: NewExecutable_InrE)
  from md have mdo: "metadata_of p sel = md" by (simp add: metadata_of_def gm_get0_def)
  from tree_metadata_leaf [OF t encs, of sel] md mdo obtain h pf where
    h: "call_HashMetadata (gm_get0 (exe_encoders e) sel None) md = Inr h" and
    pr: "GetProof (Keccak256Hash E) (exe_tree e) h = Inr pf" and
    root: "foldl (hashPair (Keccak256Hash E)) h pf = mt_Root (exe_tree e)" by auto
  obtain hash where hash: "SigningHash E p = Inr hash"
    using t by (simp add: SigningHash_def SigningMessage_def Encode_sign_msg [OF lib])
  have "SetRoot E e sel w =
      ex_SetRoot x md pf (mt_Root (exe_tree e)) (bp_ValidUntil p) (sort_signatures E hash (bp_Signatures p)) w"
    using h pr hash x by (simp add: SetRoot_def p ex mdo Let_def on_executor_def)
  with h root hash show ?thesis by blast
qed

text \<open>The same with the encoder that the chain's family builds for the proposal.\<close>

lemma executed_leaf:
  assumes "gm_wf (bp_ChainMetadata p)" and "NewExecutable E p executors = Inr e" and "i < length (pr_Operations p)"
    and "op_ChainSelector (pr_Operations p ! i) = sel"
    and "newEncoder E sel (gm_get0 (TransactionCounts p) sel 0) (bp_OverridePreviousRoot p) (bp_useSimulatedBackend p) =
      Inr (Some enc)"
    and "gm_get executors sel = Some x"
  shows "\<exists>n h proof. Uint64ToUint32 E (exe_txNonces e ! i) = Inr n \<and>
    enc_HashOperation enc n (metadata_of p sel) (pr_Operations p ! i) = Inr h \<and>
    foldl (hashPair (Keccak256Hash E)) h proof = mt_Root (exe_tree e) \<and> MerkleTree E p = Inr (exe_tree e) \<and>
    Execute E e (int i) w = ex_ExecuteOperation x (metadata_of p sel) n proof (pr_Operations p ! i) w"
proof -
  from assms(2) have t: "MerkleTree E p = Inr (exe_tree e)" and encs: "GetEncoders E p = Inr (exe_encoders e)"
    and ns: "TransactionNonces p = Inr (exe_txNonces e)" by (auto elim: NewExecutable_InrE)
  from TransactionNonces_nth(2) [OF ns assms(3)] assms(4) obtain md where "gm_get (bp_ChainMetadata p) sel = Some md" by auto
  with GetEncoders_get(1) [OF encs assms(1), of sel] assms(5)
  have "call_HashOperation (gm_get0 (exe_encoders e) sel None) n md op = enc_HashOperation enc n md op" for n md op
    by (simp add: gm_get0_def [of "exe_encoders e"] call_HashOperation_def)
  with Execute_delivers [OF assms(2,3), of x w] assms(4,6) t show ?thesis by metis
qed

lemma set_root_leaf:
  assumes "gm_wf (bp_ChainMetadata p)" and "NewExecutable E p executors = Inr e" and "sign_msg_documented E"
    and "gm_get (bp_ChainMetadata p) sel = Some md"
    and "newEncoder E sel (gm_get0 (TransactionCounts p) sel 0) (bp_OverridePreviousRoot p) (bp_useSimulatedBackend p) =
      Inr (Some enc)"
    and "gm_get executors sel = Some x"
  shows "\<exists>h proof hash. enc_HashMetadata enc md = Inr h \<and>
    foldl (hashPair (Keccak256Hash E)) h proof = mt_Root (exe_tree e) \<and> MerkleTree E p = Inr (exe_tree e) \<and>
    SigningHash E p = Inr hash \<and>
    SetRoot E e sel w =
      ex_SetRoot x md proof (mt_Root (exe_tree e)) (bp_ValidUntil p) (sort_signatures E hash (bp_Signatures p)) w"
proof -
  from assms(2) have t: "MerkleTree E p = Inr (exe_tree e)" and encs: "GetEncoders E p = Inr (exe_encoders e)"
    by (auto elim: NewExecutable_InrE)
  from GetEncoders_get(1) [OF encs assms(1), of sel] assms(4,5)
  have "call_HashMetadata (gm_get0 (exe_encoders e) sel None) md = enc_HashMetadata enc md"
    by (simp add: gm_get0_def [of "exe_encoders e"] call_HashMetadata_def)
  with SetRoot_delivers [OF assms(2,3,4,6), of w] t show ?thesis by metis
qed

text \<open>The positions of a chain's operations count up from zero.\<close>

lemma positions_count_up:
  "map (\<lambda>i. ops_on sel (take i ops)) (filter (\<lambda>i. op_ChainSelector (ops ! i) = sel) [0..<length ops]) =
     [0..<ops_on sel ops]"
proof (induction ops rule: rev_induct)
  case (snoc op ops)
  have "filter (\<lambda>i. op_ChainSelector ((ops @ [op]) ! i) = sel) [0..<length ops] =
      filter (\<lambda>i. op_ChainSelector (ops ! i) = sel) [0..<length ops]"
    by (rule filter_cong) (simp_all add: nth_append)
  moreover have "map (\<lambda>i. ops_on sel (take i (ops @ [op])))
        (filter (\<lambda>i. op_ChainSelector (ops ! i) = sel) [0..<length ops]) =
      map (\<lambda>i. ops_on sel (take i ops)) (filter (\<lambda>i. op_ChainSelector (ops ! i) = sel) [0..<length ops])"
    by (rule map_cong) auto
  ultimately show ?case by (simp add: snoc.IH)
qed simp

section \<open>A sample executable\<close>

text \<open>An executor that records the chain's address or target and the nonce of what it is given.\<close>

definition sample_executor :: "(unit, (string \<times> u32) list) executor" where
  "sample_executor =
     \<lparr>ex_SetRoot = (\<lambda>md pf root validUntil sigs w. (Inr (), w @ [(cm_MCMAddress md, validUntil)])),
      ex_ExecuteOperation = (\<lambda>md n pf op w. (Inr (), w @ [(tx_To (op_Transaction op), n)]))\<rparr>"

text \<open>A proposal of one operation on one chain, for witnesses on the chains of other families.\<close>

definition single_proposal :: "chain_selector \<Rightarrow> chain_metadata \<Rightarrow> transaction \<Rightarrow> proposal" where
  "single_proposal sel md tx = sample_proposal\<lparr>bp_ChainMetadata := [(sel, md)],
     pr_Operations := [\<lparr>op_ChainSelector = sel, op_Transaction = tx\<rparr>]\<rparr>"

lemma single_proposal_fields [simp]:
  "bp_ChainMetadata (single_proposal sel md tx) = [(sel, md)]"
  "pr_Operations (single_proposal sel md tx) = [\<lparr>op_ChainSelector = sel, op_Transaction = tx\<rparr>]"
  "bp_OverridePreviousRoot (single_proposal sel md tx) = False" "bp_ValidUntil (single_proposal sel md tx) = 99"
  "bp_Signatures (single_proposal sel md tx) = []" "bp_useSimulatedBackend (single_proposal sel md tx) = False"
  "metadata_of (single_proposal sel md tx) sel = md"
  "gm_get0 (TransactionCounts (single_proposal sel md tx)) sel 0 = 1"
  by (simp_all add: single_proposal_def sample_proposal_def metadata_of_def gm_get0_def TransactionCounts_get)

lemma single_executable:
  assumes "newEncoder E sel 1 False False = Inr (Some enc)" and "\<exists>h. enc_HashMetadata enc md = Inr h"
    and "\<exists>h. enc_HashOperation enc 0 md \<lparr>op_ChainSelector = sel, op_Transaction = tx\<rparr> = Inr h"
    and "Uint64ToUint32 E 0 = Inr 0" and "cm_StartingOpCount md = 0"
  shows "\<exists>e. NewExecutable E (single_proposal sel md tx) executors = Inr e \<and> exe_txNonces e = [0]"
proof -
  let ?p = "single_proposal sel md tx"
  obtain encs where encs: "GetEncoders E ?p = Inr encs" and enc: "gm_get0 encs sel None = Some enc"
    using assms(1) by (simp add: GetEncoders_def Let_def gm_get0_def TransactionCounts_get)
  have sels: "ChainSelectors ?p = [sel]" by (simp add: ChainSelectors_def)
  have ns: "TransactionNonces ?p = Inr [0]" using assms(5) by (simp add: TransactionNonces_def Let_def gm_get0_def)
  have "\<exists>mls. mapE (metadata_leaf ?p encs) (ChainSelectors ?p) = Inr mls"
    using assms(2) by (intro mapE_total) (auto simp: sels metadata_leaf_def call_HashMetadata_def enc)
  moreover have "\<exists>ols. mapE (operation_leaf E ?p encs) (enumerate 0 (pr_Operations ?p)) = Inr ols"
    using assms(3,4) by (intro mapE_total) (auto simp: operation_leaf_def ns call_HashOperation_def enc)
  ultimately show ?thesis using encs ns by (auto simp: MerkleTree_def NewExecutable_def)
qed

text \<open>Signatures play no part in the construction.\<close>

lemma signed_executable:
  assumes "NewExecutable E p executors = Inr e"
  shows "\<exists>e'. NewExecutable E (p\<lparr>bp_Signatures := sigs\<rparr>) executors = Inr e'"
proof -
  let ?p = "p\<lparr>bp_Signatures := sigs\<rparr>"
  have ns: "TransactionNonces ?p = TransactionNonces p" by (simp add: TransactionNonces_def)
  have "GetEncoders E ?p = GetEncoders E p" by (simp add: GetEncoders_def TransactionCounts_def Let_def)
  moreover have "metadata_leaf ?p = metadata_leaf p" by (simp add: fun_eq_iff metadata_leaf_def metadata_of_def)
  moreover have "operation_leaf E ?p = operation_leaf E p" by (simp add: fun_eq_iff operation_leaf_def ns metadata_of_def)
  moreover have "ChainSelectors ?p = ChainSelectors p" by (simp add: ChainSelectors_def)
  ultimately have "GetEncoders E ?p = GetEncoders E p" "MerkleTree E ?p = MerkleTree E p" by (simp_all add: MerkleTree_def)
  with assms ns show ?thesis by (auto simp: NewExecutable_def bindE_Inr_iff)
qed

lemma sample_executable:
  "\<exists>e. NewExecutable sample_env sample_proposal [(5, sample_executor), (7, sample_executor)] = Inr e"
proof -
  obtain t where t: "MerkleTree sample_env sample_proposal = Inr t" using sample_tree by blast
  then obtain encs where "GetEncoders sample_env sample_proposal = Inr encs" by (auto elim: MerkleTree_InrE)
  with t show ?thesis by (simp add: NewExecutable_def sample_nonces)
qed

section \<open>Properties\<close>

text \<open>
  C8: an executable never gets stuck on its own tree. For every operation of the proposal, Execute
  hashes the operation under its nonce, finds a proof that folds from this hash to the root of the
  proposal's tree, and hands nonce, proof and operation to the executor of the operation's chain,
  whose answer it returns. The 32-bit nonce it sends is the 64-bit nonce, unwrapped.
\<close>

theorem Execute_operation:
  assumes "casts_documented E" and "NewExecutable E p executors = Inr e" and "i < length (pr_Operations p)"
    and "gm_get executors (op_ChainSelector (pr_Operations p ! i)) = Some x"
  shows "\<exists>n h proof t. MerkleTree E p = Inr t \<and>
    uint n = uint (exe_txNonces e ! i) \<and>
    call_HashOperation (gm_get0 (exe_encoders e) (op_ChainSelector (pr_Operations p ! i)) None) n
      (metadata_of p (op_ChainSelector (pr_Operations p ! i))) (pr_Operations p ! i) = Inr h \<and>
    foldl (hashPair (Keccak256Hash E)) h proof = mt_Root t \<and>
    Execute E e (int i) w =
      ex_ExecuteOperation x (metadata_of p (op_ChainSelector (pr_Operations p ! i))) n proof (pr_Operations p ! i) w"
proof -
  from assms(2) have t: "MerkleTree E p = Inr (exe_tree e)" by (rule NewExecutable_InrE)
  from Execute_delivers [OF assms(2-4), of w] obtain n h pf where
    n: "Uint64ToUint32 E (exe_txNonces e ! i) = Inr n" and
    rest: "call_HashOperation (gm_get0 (exe_encoders e) (op_ChainSelector (pr_Operations p ! i)) None) n
      (metadata_of p (op_ChainSelector (pr_Operations p ! i))) (pr_Operations p ! i) = Inr h"
      "foldl (hashPair (Keccak256Hash E)) h pf = mt_Root (exe_tree e)"
      "Execute E e (int i) w =
        ex_ExecuteOperation x (metadata_of p (op_ChainSelector (pr_Operations p ! i))) n pf (pr_Operations p ! i) w"
    by blast
  have "uint n = uint (exe_txNonces e ! i)"
  proof -
    from n have b: "uint (exe_txNonces e ! i) < 2 ^ 32" "n = word_of_int (uint (exe_txNonces e ! i))"
      using Uint64ToUint32_Inr [OF assms(1)] by blast+
    show ?thesis unfolding b(2) by (rule uint_u32) (use b(1) in simp_all)
  qed
  with t rest show ?thesis by blast
qed

theorem Execute_operation_witness:
  "\<exists>e. NewExecutable sample_env sample_proposal [(5, sample_executor), (7, sample_executor)] = Inr e \<and>
     Execute sample_env e 2 [] = (Inr (), [(''0x1'', 11)])"
proof -
  obtain e where e: "NewExecutable sample_env sample_proposal [(5, sample_executor), (7, sample_executor)] = Inr e"
    using sample_executable by blast
  then have "exe_txNonces e = [10, 3, 11]" using sample_nonces by (auto elim: NewExecutable_InrE)
  with Execute_operation [OF sample_env_casts e, of 2 sample_executor "[]"]
  obtain n :: u32 where "uint n = uint (11 :: u64)" and
    *: "Execute sample_env e 2 [] = (Inr (), [(tx_To (op_Transaction (sample_op 5)), n)])"
    by (auto simp: sample_executor_def)
  then have "n = 11" by (simp add: word_uint_eq_iff)
  with * e show ?thesis by (simp add: sample_op_def)
qed

text \<open>
  SetRoot on a chain of the proposal reaches the chain's executor with a proof that folds from the
  hash of the chain's metadata to the root, and with the proposal's signatures, none added or lost, in
  ascending order of the address they recover to under the signing hash; strictly ascending, as the
  contract requires, whenever no two recover to the same address.
\<close>

theorem SetRoot_chain:
  assumes "NewExecutable E p executors = Inr e" and "sign_msg_documented E"
    and "gm_get (bp_ChainMetadata p) sel = Some md" and "gm_get executors sel = Some x"
  shows "\<exists>h proof hash t sigs. MerkleTree E p = Inr t \<and> SigningHash E p = Inr hash \<and>
    call_HashMetadata (gm_get0 (exe_encoders e) sel None) md = Inr h \<and>
    foldl (hashPair (Keccak256Hash E)) h proof = mt_Root t \<and>
    mset sigs = mset (bp_Signatures p) \<and> sorted (map (sort_signer E hash) sigs) \<and>
    (distinct (map (sort_signer E hash) (bp_Signatures p)) \<longrightarrow> sorted_wrt (<) (map (sort_signer E hash) sigs)) \<and>
    SetRoot E e sel w = ex_SetRoot x md proof (mt_Root t) (bp_ValidUntil p) sigs w"
proof -
  from assms(1) have t: "MerkleTree E p = Inr (exe_tree e)" by (rule NewExecutable_InrE)
  show ?thesis
    using SetRoot_delivers [OF assms, of w] sort_signatures_sorted sort_signatures_strict t by metis
qed

theorem SetRoot_chain_witness:
  "\<exists>e. NewExecutable sample_env sample_proposal [(5, sample_executor), (7, sample_executor)] = Inr e \<and>
     SetRoot sample_env e 7 [] = (Inr (), [(''0x2'', 99)])"
proof -
  obtain e where e: "NewExecutable sample_env sample_proposal [(5, sample_executor), (7, sample_executor)] = Inr e"
    using sample_executable by blast
  from SetRoot_chain [OF e sample_env_sign_msg, of 7 "sample_metadata 3" sample_executor "[]"]
  have "SetRoot sample_env e 7 [] = (Inr (), [(cm_MCMAddress (sample_metadata 3), 99)])"
    by (auto simp: sample_executor_def)
  with e show ?thesis by (simp add: sample_metadata_def)
qed

text \<open>
  Per chain the nonces have no gap and meet the metadata: the operations of a chain, in proposal
  order, have the nonces start, start + 1, ... and the EVM encoder of the chain, which puts the op
  counts before and after the proposal into the root metadata, was given exactly their number.
\<close>

theorem nonces_fill_metadata:
  assumes "TransactionNonces p = Inr ns" and "GetEncoders E p = Inr encs" and "gm_wf (bp_ChainMetadata p)"
    and "gm_get (bp_ChainMetadata p) sel = Some md" and "ChainDetails E sel = Inr FamilyEVM"
  shows "map ((!) ns) (filter (\<lambda>i. op_ChainSelector (pr_Operations p ! i) = sel) [0..<length (pr_Operations p)]) =
      map (\<lambda>k. cm_StartingOpCount md + of_nat k) [0..<ops_on sel (pr_Operations p)] \<and>
    gm_get0 encs sel None = Some (evm_NewEncoder E sel (of_nat (ops_on sel (pr_Operations p)))
      (bp_OverridePreviousRoot p) (bp_useSimulatedBackend p))"
proof
  from assms(4) have md: "metadata_of p sel = md" by (simp add: metadata_of_def gm_get0_def)
  let ?is = "filter (\<lambda>i. op_ChainSelector (pr_Operations p ! i) = sel) [0..<length (pr_Operations p)]"
  have "map ((!) ns) ?is =
      map (\<lambda>k. cm_StartingOpCount md + of_nat k) (map (\<lambda>i. ops_on sel (take i (pr_Operations p))) ?is)"
    using TransactionNonces_nth(1) [OF assms(1)] by (auto simp: md add.commute)
  also have "\<dots> = map (\<lambda>k. cm_StartingOpCount md + of_nat k) [0..<ops_on sel (pr_Operations p)]"
    by (simp only: positions_count_up)
  finally show "map ((!) ns) ?is =
      map (\<lambda>k. cm_StartingOpCount md + of_nat k) [0..<ops_on sel (pr_Operations p)]" .
  have "gm_get0 (TransactionCounts p) sel 0 = of_nat (ops_on sel (pr_Operations p))"
    by (simp add: gm_get0_def TransactionCounts_get)
  then show "gm_get0 encs sel None = Some (evm_NewEncoder E sel (of_nat (ops_on sel (pr_Operations p)))
      (bp_OverridePreviousRoot p) (bp_useSimulatedBackend p))"
    using GetEncoders_get(1) [OF assms(2,3), of sel] assms(4,5)
    by (simp add: gm_get0_def newEncoder_def GetChainSelectorFamily_def supportedFamilies_def)
qed

theorem nonces_fill_metadata_witness:
  "map ((!) [10, 3, 11]) (filter (\<lambda>i. op_ChainSelector ([sample_op 5, sample_op 7, sample_op 5] ! i) = 5) [0..<3]) =
     map (\<lambda>k. 10 + of_nat k :: u64) [0..<2]"
proof -
  obtain t where "MerkleTree sample_env sample_proposal = Inr t" using sample_tree by blast
  then obtain encs where encs: "GetEncoders sample_env sample_proposal = Inr encs" by (auto elim: MerkleTree_InrE)
  from nonces_fill_metadata [OF sample_nonces encs, of 5 "sample_metadata 10"] show ?thesis
    by (simp add: gm_wf_def numeral_eq_Suc del: upt_Suc)
qed

end
