(* ===== verification/Signable.thy ===== *)
theory Signable
  imports Proposal Config
begin

text \<open>
  \<open>signable.go\<close> and the private key signer of \<open>signer.go\<close>: signing a proposal, checking that its
  signatures reach the quorum of the contract on a chain, and checking that the configurations of
  all chains agree. Inspectors and simulators answer for the state of a chain: an inspector is a
  record of functions, so one answer is assumed to stand for the length of a call.
\<close>

record inspector =
  insp_GetConfig :: "string \<Rightarrow> config res"
  insp_GetOpCount :: "string \<Rightarrow> u64 res"

type_synonym simulator = "chain_metadata \<Rightarrow> operation \<Rightarrow> unit res"

text \<open>A nil map of inspectors or simulators is told apart from an empty one.\<close>

record signable =
  sg_proposal :: proposal
  sg_tree :: merkle_tree
  sg_encoders :: "(chain_selector, encoder option) gomap"
  sg_inspectors :: "(chain_selector, inspector) gomap option"
  sg_simulators :: "(chain_selector, simulator) gomap option"

definition NewSignable ::
  "'e mcms_env_scheme \<Rightarrow> proposal \<Rightarrow> (chain_selector, inspector) gomap option \<Rightarrow> signable res" where
  "NewSignable E p inspectors =
     bindE (GetEncoders E p) (\<lambda>encoders.
     bindE (MerkleTree E p) (\<lambda>tree.
       Inr \<lparr>sg_proposal = p, sg_tree = tree, sg_encoders = encoders, sg_inspectors = inspectors,
            sg_simulators = None\<rparr>))"

definition SetSimulators :: "(chain_selector, simulator) gomap option \<Rightarrow> signable \<Rightarrow> signable" where
  "SetSimulators simulators s = s\<lparr>sg_simulators := simulators\<rparr>"

section \<open>Signing\<close>

text \<open>
  A signer turns a payload into bytes. \<open>crypto.Sign\<close> with the signer's key is the parameter
  \<open>cryptoSign\<close>; \<open>key_documented\<close> is its documented law for the public key \<open>pub\<close>.
\<close>

type_synonym signer = "byte list \<Rightarrow> byte list res"

definition PrivateKeySigner_Sign :: "'c crypto_pkg_scheme \<Rightarrow> (byte list \<Rightarrow> byte list res) \<Rightarrow> signer" where
  "PrivateKeySigner_Sign C cryptoSign payload = cryptoSign (be_bytes 32 (toEthSignedMessageHash C payload))"

definition PrivateKeySigner_GetAddress :: "'c crypto_pkg_scheme \<Rightarrow> byte list \<Rightarrow> address res" where
  "PrivateKeySigner_GetAddress C pub = Inr (PubkeyToAddress C pub)"

definition key_documented ::
  "'c crypto_pkg_scheme \<Rightarrow> (byte list \<Rightarrow> byte list res) \<Rightarrow> byte list \<Rightarrow> bool" where
  "key_documented C cryptoSign pub \<longleftrightarrow>
     (\<forall>digest. length digest = 32 \<longrightarrow>
        (\<exists>sig. cryptoSign digest = Inr sig \<and> length sig = 65 \<and> sig ! 64 \<le> 1 \<and> SigToPub C digest sig = Inr pub))"

definition Sign :: "'e mcms_env_scheme \<Rightarrow> (proposal \<Rightarrow> unit res) \<Rightarrow> signable \<Rightarrow> signer \<Rightarrow> signature res" where
  "Sign E struct s signer =
     bindE (proposal_Validate E struct (sg_proposal s)) (\<lambda>_.
     bindE (SigningMessage E (sg_proposal s)) (\<lambda>payload.
     bindE (signer (be_bytes 32 payload)) (\<lambda>sigB.
       NewSignatureFromBytes sigB)))"

text \<open>The proposal is changed in place: the signable after the call is returned too.\<close>

definition SignAndAppend ::
  "'e mcms_env_scheme \<Rightarrow> (proposal \<Rightarrow> unit res) \<Rightarrow> signable \<Rightarrow> signer \<Rightarrow> signature res \<times> signable" where
  "SignAndAppend E struct s signer =
     (case Sign E struct s signer of
        Inl err \<Rightarrow> (Inl err, s)
      | Inr sig \<Rightarrow> (Inr sig, s\<lparr>sg_proposal := AppendSignature sig (sg_proposal s)\<rparr>))"

definition Simulate :: "signable \<Rightarrow> unit res" where
  "Simulate s =
     (case sg_simulators s of
        None \<Rightarrow> Inl ErrSimulatorsNotProvided
      | Some simulators \<Rightarrow>
          allE (\<lambda>op.
            case gm_get simulators (op_ChainSelector op) of
              None \<Rightarrow> Inl (Errorf ''simulator not found for chain %d'')
            | Some simulate \<Rightarrow> simulate (metadata_of (sg_proposal s) (op_ChainSelector op)) op)
            (pr_Operations (sg_proposal s)))"

section \<open>Reading the chains\<close>

definition GetConfigs :: "signable \<Rightarrow> (chain_selector, config) gomap res" where
  "GetConfigs s =
     (case sg_inspectors s of
        None \<Rightarrow> Inl ErrInspectorsNotProvided
      | Some inspectors \<Rightarrow>
          foldE (\<lambda>configs (chain, metadata).
              bindE (case gm_get inspectors chain of
                       None \<Rightarrow> Inl (Errorf ''inspector not found for chain %d'')
                     | Some inspector \<Rightarrow> insp_GetConfig inspector (cm_MCMAddress metadata))
                (\<lambda>configuration. Inr (gm_put chain configuration configs)))
            [] (bp_ChainMetadata (sg_proposal s)))"

definition getCurrentOpCounts :: "signable \<Rightarrow> (chain_selector, u64) gomap res" where
  "getCurrentOpCounts s =
     (case sg_inspectors s of
        None \<Rightarrow> Inl ErrInspectorsNotProvided
      | Some inspectors \<Rightarrow>
          foldE (\<lambda>opCounts (sel, metadata).
              bindE (case gm_get inspectors sel of
                       None \<Rightarrow> Inl (Errorf ''inspector not found for chain %d'')
                     | Some inspector \<Rightarrow> insp_GetOpCount inspector (cm_MCMAddress metadata))
                (\<lambda>opCount. Inr (gm_put sel opCount opCounts)))
            [] (bp_ChainMetadata (sg_proposal s)))"

definition CheckQuorum :: "'e mcms_env_scheme \<Rightarrow> signable \<Rightarrow> chain_selector \<Rightarrow> bool res" where
  "CheckQuorum E s chain =
     (case sg_inspectors s of
        None \<Rightarrow> Inl ErrInspectorsNotProvided
      | Some inspectors \<Rightarrow>
          (case gm_get inspectors chain of
             None \<Rightarrow> Inl (Errorf ''inspector not found for chain '')
           | Some inspector \<Rightarrow>
               bindE (RecoverSigningAddressesStrict E (sg_proposal s)) (\<lambda>recoveredSigners.
               bindE (insp_GetConfig inspector (cm_MCMAddress (metadata_of (sg_proposal s) chain))) (\<lambda>configuration.
               let allSigners = GetAllSigners configuration in
               bindE (allE (\<lambda>(i, recoveredAddr).
                        if recoveredAddr \<notin> set allSigners
                        then Inl (InvalidSignatureAtIndexError i (bp_Signatures (sg_proposal s) ! i) recoveredAddr None)
                        else Inr ())
                      (enumerate 0 recoveredSigners)) (\<lambda>_.
               bindE (CanSetRoot configuration recoveredSigners) (\<lambda>canSetRoot.
                 if \<not> canSetRoot then Inl (QuorumNotReachedError chain) else Inr True))))))"

definition ValidateSignatures :: "'e mcms_env_scheme \<Rightarrow> signable \<Rightarrow> bool res" where
  "ValidateSignatures E s =
     bindE (allE (\<lambda>(chain, _).
              bindE (CheckQuorum E s chain) (\<lambda>checkQuorum.
                if \<not> checkQuorum then Inl (QuorumNotReachedError chain) else Inr ()))
            (bp_ChainMetadata (sg_proposal s))) (\<lambda>_. Inr True)"

text \<open>Each chain is compared with the one before it; \<open>configs[sel]\<close> is a pointer, nil when absent.\<close>

definition compare_configs ::
  "(chain_selector, config) gomap \<Rightarrow> chain_selector list \<Rightarrow> nat \<times> chain_selector \<Rightarrow> unit res" where
  "compare_configs configs sels i_sel = (case i_sel of (i, sel) \<Rightarrow>
     if i = 0 then Inr ()
     else case (gm_get configs sel, gm_get configs (sels ! (i - 1))) of
       (Some a, Some b) \<Rightarrow>
         if \<not> config_Equals a b then Inl (InconsistentConfigsError sel (sels ! (i - 1))) else Inr ()
     | _ \<Rightarrow> Inl (Panic ''nil pointer dereference''))"

definition ValidateConfigs :: "signable \<Rightarrow> unit res" where
  "ValidateConfigs s =
     bindE (GetConfigs s) (\<lambda>configs.
       let sels = ChainSelectors (sg_proposal s) in
       allE (compare_configs configs sels) (enumerate 0 sels))"

section \<open>Lemmas\<close>

text \<open>Neither the tree nor what is signed depends on the signatures.\<close>

lemma MerkleTree_signatures: "MerkleTree E (p\<lparr>bp_Signatures := sigs\<rparr>) = MerkleTree E p"
proof -
  let ?p = "p\<lparr>bp_Signatures := sigs\<rparr>"
  have "TransactionCounts ?p = TransactionCounts p" and n: "TransactionNonces ?p = TransactionNonces p"
    by (simp_all add: TransactionCounts_def TransactionNonces_def)
  then have "GetEncoders E ?p = GetEncoders E p" by (simp add: GetEncoders_def)
  moreover have md: "metadata_of ?p = metadata_of p" by (simp add: metadata_of_def fun_eq_iff)
  moreover have "metadata_leaf ?p = metadata_leaf p" by (simp add: metadata_leaf_def fun_eq_iff md)
  moreover have "operation_leaf E ?p = operation_leaf E p" by (simp add: operation_leaf_def fun_eq_iff md n)
  moreover have "ChainSelectors ?p = ChainSelectors p" by (simp add: ChainSelectors_def)
  ultimately show ?thesis by (simp add: MerkleTree_def)
qed

lemma SigningHash_signatures: "SigningHash E (p\<lparr>bp_Signatures := sigs\<rparr>) = SigningHash E p"
  by (simp add: SigningHash_def SigningMessage_def MerkleTree_signatures)

lemma SigningHash_AppendSignature: "SigningHash E (AppendSignature sig p) = SigningHash E p"
  by (simp add: AppendSignature_def SigningHash_signatures)

lemma Strict_Inr:
  "RecoverSigningAddressesStrict E p = Inr as \<longleftrightarrow>
     (\<exists>h. SigningHash E p = Inr h \<and> map (\<lambda>s. Recover E s h) (bp_Signatures p) = map Inr as)"
proof -
  have "RecoverSigningAddressesStrict E p = bindE (SigningHash E p) (\<lambda>h. RecoverStrict E h (bp_Signatures p))"
    by (cases "SigningHash E p")
      (simp_all add: RecoverSigningAddressesStrict_def proposal_RecoverSigningAddresses_def RecoverStrict_def)
  then show ?thesis by (simp add: bindE_Inr_iff RecoverStrict_Inr)
qed

lemma all_known: "allE (\<lambda>(i, a). if a \<notin> S then Inl (f i a) else Inr ()) (enumerate n as) = Inr () \<longleftrightarrow> set as \<subseteq> S"
  by (induction as arbitrary: n) (auto simp: bindE_Inr_iff split: if_splits)

lemma CheckQuorum_Inr:
  "CheckQuorum E s chain = Inr b \<longleftrightarrow>
     b \<and> (\<exists>inspectors inspector c as.
       sg_inspectors s = Some inspectors \<and> gm_get inspectors chain = Some inspector \<and>
       RecoverSigningAddressesStrict E (sg_proposal s) = Inr as \<and>
       insp_GetConfig inspector (cm_MCMAddress (metadata_of (sg_proposal s) chain)) = Inr c \<and>
       set as \<subseteq> set (GetAllSigners c) \<and> QuorumMet c as)"
  unfolding CheckQuorum_def Let_def
  by (auto simp: bindE_Inr_iff all_known CanSetRoot_Inr QuorumMet_def split: option.splits if_splits)

lemma Recover_small_V:
  assumes "length bs = 65" and "bs ! 64 \<le> 1" and "NewSignatureFromBytes bs = Inr sig"
  shows "RecoverPublicKey C sig h = SigToPub C (be_bytes 32 h) bs"
proof -
  from assms(3) have "ToBytes sig = bs" by (rule ToBytes_NewSignature)
  moreover have "\<not> bs ! 64 > 1" using assms(2) by simp
  ultimately show ?thesis by (simp add: RecoverPublicKey_def Let_def assms(1))
qed

lemma GetConfigs_get:
  assumes "GetConfigs s = Inr configs" and "gm_wf (bp_ChainMetadata (sg_proposal s))"
    and "gm_get (bp_ChainMetadata (sg_proposal s)) sel = Some md"
  shows "\<exists>inspectors inspector c. sg_inspectors s = Some inspectors \<and> gm_get inspectors sel = Some inspector \<and>
    insp_GetConfig inspector (cm_MCMAddress md) = Inr c \<and> gm_get configs sel = Some c"
proof -
  from assms(1) obtain inspectors where i: "sg_inspectors s = Some inspectors"
    and f: "foldE (\<lambda>configs (chain, metadata).
              bindE (case gm_get inspectors chain of
                       None \<Rightarrow> Inl (Errorf ''inspector not found for chain %d'')
                     | Some inspector \<Rightarrow> insp_GetConfig inspector (cm_MCMAddress metadata))
                (\<lambda>configuration. Inr (gm_put chain configuration configs)))
            [] (bp_ChainMetadata (sg_proposal s)) = Inr configs"
    by (auto simp: GetConfigs_def split: option.splits)
  note b = build_map [OF f assms(2), of sel]
  from b(2) [OF assms(3)] obtain c where c: "(case gm_get inspectors sel of
        None \<Rightarrow> Inl (Errorf ''inspector not found for chain %d'')
      | Some inspector \<Rightarrow> insp_GetConfig inspector (cm_MCMAddress md)) = Inr c" by blast
  with b(1) assms(3) i show ?thesis by (auto split: option.splits)
qed

text \<open>The configuration the inspector of a chain of the proposal reports.\<close>

definition chain_config :: "signable \<Rightarrow> chain_selector \<Rightarrow> config \<Rightarrow> bool" where
  "chain_config s sel c \<longleftrightarrow>
     (case (gm_get (bp_ChainMetadata (sg_proposal s)) sel, sg_inspectors s) of
        (Some md, Some inspectors) \<Rightarrow>
          (case gm_get inspectors sel of
             None \<Rightarrow> False
           | Some inspector \<Rightarrow> insp_GetConfig inspector (cm_MCMAddress md) = Inr c)
      | _ \<Rightarrow> False)"

lemma chain_config_get:
  assumes "GetConfigs s = Inr configs" and "gm_wf (bp_ChainMetadata (sg_proposal s))"
  shows "chain_config s sel c \<longleftrightarrow> gm_get (bp_ChainMetadata (sg_proposal s)) sel \<noteq> None \<and> gm_get configs sel = Some c"
proof (cases "gm_get (bp_ChainMetadata (sg_proposal s)) sel")
  case (Some md)
  from GetConfigs_get [OF assms Some] show ?thesis by (auto simp: chain_config_def Some)
qed (simp add: chain_config_def)

lemma ValidateConfigs_abs:
  assumes v: "ValidateConfigs s = Inr ()" and wf: "gm_wf (bp_ChainMetadata (sg_proposal s))"
    and sd: "\<And>sel c. chain_config s sel c \<Longrightarrow> siblings_distinct c"
    and c: "chain_config s sel c" and d: "chain_config s sel' d"
  shows "config_abs c = config_abs d"
proof -
  let ?sels = "ChainSelectors (sg_proposal s)"
  from v obtain configs where g: "GetConfigs s = Inr configs"
    and cmp: "allE (compare_configs configs ?sels) (enumerate 0 ?sels) = Inr ()"
    by (auto simp: ValidateConfigs_def Let_def bindE_Inr_iff)
  have sels: "set ?sels = {sel. gm_get (bp_ChainMetadata (sg_proposal s)) sel \<noteq> None}"
    unfolding ChainSelectors_def set_sort gm_keys_dom by auto
  note cc = chain_config_get [OF g wf]
  have first: "\<exists>e0. gm_get configs (?sels ! 0) = Some e0 \<and> config_abs e = config_abs e0"
    if "i < length ?sels" and "gm_get configs (?sels ! i) = Some e" for i e
    using that
  proof (induction i arbitrary: e)
    case (Suc i)
    have "(Suc i, ?sels ! Suc i) \<in> set (enumerate 0 ?sels)"
      using Suc.prems(1) by (simp add: in_set_enumerate_eq)
    with cmp have "compare_configs configs ?sels (Suc i, ?sels ! Suc i) = Inr ()" by (simp add: allE_Inr_iff)
    with Suc.prems(2) obtain e' where e': "gm_get configs (?sels ! i) = Some e'" and eq: "config_Equals e e'"
      by (auto simp: compare_configs_def split: option.splits if_splits)
    have "chain_config s (?sels ! Suc i) e"
      unfolding cc using Suc.prems sels nth_mem [OF Suc.prems(1)] by auto
    from config_Equals_exact [OF eq sd [OF this]] Suc.IH [OF _ e'] Suc.prems(1) show ?case by simp
  qed simp
  have at: "\<exists>i < length ?sels. gm_get configs (?sels ! i) = Some e" if "chain_config s sl e" for sl e
  proof -
    from that have "sl \<in> set ?sels" and "gm_get configs sl = Some e" unfolding cc sels by auto
    then show ?thesis by (auto simp: in_set_conv_nth)
  qed
  from at [OF c] obtain i where i: "i < length ?sels" "gm_get configs (?sels ! i) = Some c" by blast
  from at [OF d] obtain j where j: "j < length ?sels" "gm_get configs (?sels ! j) = Some d" by blast
  from first [OF i] first [OF j] show ?thesis by auto
qed

section \<open>A sample\<close>

text \<open>A key whose signature over any digest is the same 65 bytes, which recover to themselves.\<close>

definition sample_key :: "byte list \<Rightarrow> byte list res" where
  "sample_key digest = Inr (replicate 65 0)"

lemma sample_key_documented: "key_documented sample_env sample_key (replicate 65 0)"
  by (simp add: key_documented_def sample_key_def)

definition sample_signable :: signable where
  "sample_signable =
     \<lparr>sg_proposal = sample_proposal, sg_tree = \<lparr>mt_Root = 0, mt_Layers = []\<rparr>, sg_encoders = [],
      sg_inspectors = Some
        [(5, \<lparr>insp_GetConfig = \<lambda>_. Inr (Config 1 [7, 8] []), insp_GetOpCount = \<lambda>_. Inr 0\<rparr>),
         (7, \<lparr>insp_GetConfig = \<lambda>_. Inr (Config 1 [8, 7] []), insp_GetOpCount = \<lambda>_. Inr 0\<rparr>)],
      sg_simulators = None\<rparr>"

lemma sample_signing_message: "\<exists>h. SigningMessage sample_env sample_proposal = Inr h"
  using sample_tree by (auto simp: SigningMessage_def)

section \<open>Properties\<close>

text \<open>
  C13: CheckQuorum returns true exactly when every signature recovers under the signing hash, every
  recovered address is in the configuration its inspector reports for the chain, and these
  addresses reach the quorum; it never returns false without an error.
\<close>

theorem CheckQuorum_exact:
  "CheckQuorum E s chain = Inr b \<longleftrightarrow>
     b \<and> (\<exists>inspectors inspector c h as.
       sg_inspectors s = Some inspectors \<and> gm_get inspectors chain = Some inspector \<and>
       insp_GetConfig inspector (cm_MCMAddress (metadata_of (sg_proposal s) chain)) = Inr c \<and>
       SigningHash E (sg_proposal s) = Inr h \<and>
       map (\<lambda>sig. Recover E sig h) (bp_Signatures (sg_proposal s)) = map Inr as \<and>
       set as \<subseteq> set (GetAllSigners c) \<and> QuorumMet c as)"
  unfolding CheckQuorum_Inr Strict_Inr by blast

text \<open>
  ValidateConfigs means what it is for: when it accepts, and no configuration repeats a group
  among siblings, the configurations of any two chains of the proposal are the same tree up to
  order, with the same signers, and any set of signers reaches the quorum on one exactly when it
  does on the other. (C2 shows why the proviso is needed.)
\<close>

theorem ValidateConfigs_same_quorum:
  assumes "ValidateConfigs s = Inr ()" and "gm_wf (bp_ChainMetadata (sg_proposal s))"
    and "\<And>sel c. chain_config s sel c \<Longrightarrow> siblings_distinct c"
    and "chain_config s sel c" and "chain_config s sel' d"
  shows "config_abs c = config_abs d \<and> set (GetAllSigners c) = set (GetAllSigners d) \<and>
    (QuorumMet c xs \<longleftrightarrow> QuorumMet d xs)"
proof -
  have abs: "config_abs c = config_abs d" by (rule ValidateConfigs_abs [OF assms])
  from config_abs_consensus [OF abs, of xs] mset_eq_setD [OF config_abs_signers [OF abs]] abs
  show ?thesis unfolding QuorumMet_def by blast
qed

theorem ValidateConfigs_same_quorum_witness:
  "ValidateConfigs sample_signable = Inr () \<and> (QuorumMet (Config 1 [7, 8] []) [8] \<longleftrightarrow> QuorumMet (Config 1 [8, 7] []) [8])"
proof -
  have v: "ValidateConfigs sample_signable = Inr ()"
    by (simp add: ValidateConfigs_def GetConfigs_def sample_signable_def ChainSelectors_def compare_configs_def
        unorderedArrayEquals_mset add_mset_commute)
  have cc: "chain_config sample_signable sel c \<longleftrightarrow>
      sel = 5 \<and> c = Config 1 [7, 8] [] \<or> sel = 7 \<and> c = Config 1 [8, 7] []" for sel c
    by (auto simp: chain_config_def sample_signable_def)
  have wf: "gm_wf (bp_ChainMetadata (sg_proposal sample_signable))"
    by (simp add: gm_wf_def sample_signable_def)
  have sd: "siblings_distinct c" if "chain_config sample_signable sel c" for sel c
    using that unfolding cc by auto
  have c5: "chain_config sample_signable 5 (Config 1 [7, 8] [])" unfolding cc by blast
  have c7: "chain_config sample_signable 7 (Config 1 [8, 7] [])" unfolding cc by blast
  have "QuorumMet (Config 1 [7, 8] []) [8] \<longleftrightarrow> QuorumMet (Config 1 [8, 7] []) [8]"
    using ValidateConfigs_same_quorum [OF v wf _ c5 c7, where xs = "[8]"] sd by blast
  with v show ?thesis by blast
qed

text \<open>
  Signing works: when SignAndAppend succeeds with a private key, the appended signature recovers,
  under the signing hash of the proposal, to the address of that key, and it is still the signing
  hash after the signature has been appended, so earlier and later signatures are over one hash.
\<close>

theorem SignAndAppend_recovers:
  assumes "SignAndAppend E struct s (PrivateKeySigner_Sign E cryptoSign) = (Inr sig, s')"
    and "key_documented E cryptoSign pub"
  shows "\<exists>h. SigningHash E (sg_proposal s) = Inr h \<and> SigningHash E (sg_proposal s') = Inr h \<and>
    Recover E sig h = Inr (PubkeyToAddress E pub) \<and>
    bp_Signatures (sg_proposal s') = bp_Signatures (sg_proposal s) @ [sig]"
proof -
  from assms(1) obtain msg bs where
    msg: "SigningMessage E (sg_proposal s) = Inr msg" and
    bs: "PrivateKeySigner_Sign E cryptoSign (be_bytes 32 msg) = Inr bs" and
    sig: "NewSignatureFromBytes bs = Inr sig" and
    s': "s' = s\<lparr>sg_proposal := AppendSignature sig (sg_proposal s)\<rparr>"
    by (auto simp: SignAndAppend_def Sign_def bindE_Inr_iff split: sum.splits)
  let ?h = "toEthSignedMessageHash E (be_bytes 32 msg)"
  have h: "SigningHash E (sg_proposal s) = Inr ?h" by (simp add: SigningHash_def msg)
  have "length (be_bytes 32 ?h) = 32" by simp
  with assms(2) obtain b' where "cryptoSign (be_bytes 32 ?h) = Inr b'" "length b' = 65" "b' ! 64 \<le> 1"
    "SigToPub E (be_bytes 32 ?h) b' = Inr pub" unfolding key_documented_def by blast
  with bs Recover_small_V [OF _ _ sig, of E ?h] have "RecoverPublicKey E sig ?h = Inr pub"
    by (simp add: PrivateKeySigner_Sign_def)
  then have "Recover E sig ?h = Inr (PubkeyToAddress E pub)" by (simp add: Recover_def)
  with h s' show ?thesis
    by (simp add: SigningHash_AppendSignature) (simp add: AppendSignature_def)
qed

theorem SignAndAppend_recovers_witness:
  "\<exists>sig s' h. SignAndAppend sample_env (\<lambda>_. Inr ()) sample_signable (PrivateKeySigner_Sign sample_env sample_key) = (Inr sig, s') \<and>
     SigningHash sample_env (sg_proposal s') = Inr h \<and>
     Recover sample_env sig h = Inr (PubkeyToAddress sample_env (replicate 65 0))"
proof -
  have p: "sg_proposal sample_signable = sample_proposal" by (simp add: sample_signable_def)
  obtain msg where "SigningMessage sample_env sample_proposal = Inr msg" using sample_signing_message by blast
  then have "\<exists>sig. Sign sample_env (\<lambda>_. Inr ()) sample_signable (PrivateKeySigner_Sign sample_env sample_key) = Inr sig"
    by (simp add: Sign_def p sample_valid PrivateKeySigner_Sign_def sample_key_def NewSignatureFromBytes_def)
  then obtain sig s' where
    s: "SignAndAppend sample_env (\<lambda>_. Inr ()) sample_signable (PrivateKeySigner_Sign sample_env sample_key) = (Inr sig, s')"
    by (auto simp: SignAndAppend_def)
  from SignAndAppend_recovers [OF s sample_key_documented] s show ?thesis by blast
qed

end
