(* ===== verification/TimelockProposal.thy ===== *)
theory TimelockProposal
  imports Proposal
begin

text \<open>
  \<open>timelock_proposal.go\<close>: proposals whose operations are batches sent through a timelock, the salt,
  the derived cancellation and bypass proposals, the conversion to an MCMS proposal, and the ids of
  the timelock operations with their predecessors.
\<close>

section \<open>Timelock proposals\<close>

record timelock_proposal = base_proposal +
  tp_Action :: timelock_action
  tp_Delay :: int
  tp_TimelockAddresses :: "(chain_selector, string) gomap"
  tp_Operations :: "batch_operation list"
  tp_SaltOverride :: "hash option"

definition batch_TransactionCounts :: "timelock_proposal \<Rightarrow> (chain_selector, u64) gomap" where
  "batch_TransactionCounts m =
     foldl (\<lambda>counts op. gm_put (bop_ChainSelector op)
         (case_option 0 id (gm_get counts (bop_ChainSelector op)) + of_nat (length (bop_Transactions op))) counts)
       [] (tp_Operations m)"

text \<open>Without an override, the four bytes of ValidUntil and 28 zero bytes.\<close>

definition Salt :: "timelock_proposal \<Rightarrow> hash" where
  "Salt m = (case tp_SaltOverride m of Some s \<Rightarrow> s | None \<Rightarrow> from_be (be_bytes 4 (bp_ValidUntil m) @ replicate 28 0))"

text \<open>\<open>time.Time.Unix\<close>: whole seconds, rounded down.\<close>

definition unix :: "int \<Rightarrow> int" where
  "unix t = t div 1000000000"

definition timeLockProposalValidateBasic :: "'e mcms_env_scheme \<Rightarrow> 'p base_proposal_scheme \<Rightarrow> unit res" where
  "timeLockProposalValidateBasic E m =
     bindE (Int64ToUint32 E (unix (Now E))) (\<lambda>currentTimeCasted.
       if bp_ValidUntil m \<le> currentTimeCasted then Inl (InvalidValidUntilError (bp_ValidUntil m)) else Inr ())"

definition timelock_Validate ::
  "'e mcms_env_scheme \<Rightarrow> (timelock_proposal \<Rightarrow> unit res) \<Rightarrow> timelock_proposal \<Rightarrow> unit res" where
  "timelock_Validate E struct m =
     bindE (struct m) (\<lambda>_.
     bindE (guardE (bp_Kind m = KindTimelockProposal) (InvalidProposalKindError (bp_Kind m) KindTimelockProposal)) (\<lambda>_.
     bindE (allE (\<lambda>op.
              bindE (guardE (gm_get (bp_ChainMetadata m) (bop_ChainSelector op) \<noteq> None)
                       (ChainMetadataNotFoundError (bop_ChainSelector op))) (\<lambda>_.
              allE (\<lambda>tx. validateAdditionalFields E (tx_AdditionalFields tx) (bop_ChainSelector op))
                (bop_Transactions op)))
            (tp_Operations m)) (\<lambda>_.
       timeLockProposalValidateBasic E m)))"

section \<open>Derived proposals\<close>

text \<open>
  The loop writes into the map of its argument. \<open>newProposal := *m\<close> copies the struct but not the map,
  so the receiver's metadata is written too, up to the chain the loop stops at: the map is returned
  along with the verdict, and \<open>deriveNewProposal\<close> returns the receiver as the call leaves it.
\<close>

fun replace_loop ::
  "(chain_selector, chain_metadata) gomap \<Rightarrow> chain_selector list \<Rightarrow> (chain_selector, chain_metadata) gomap \<Rightarrow>
     unit res \<times> (chain_selector, chain_metadata) gomap" where
  "replace_loop addresses [] md = (Inr (), md)"
| "replace_loop addresses (chain # rest) md =
     (case gm_get addresses chain of
        None \<Rightarrow> (Inl (Errorf ''cannot replace addresses in chain metadata, missing address for chain %d''), md)
      | Some newMeta \<Rightarrow> replace_loop addresses rest (gm_put chain newMeta md))"

definition replaceChainMetadataWithAddresses ::
  "(chain_selector, chain_metadata) gomap \<Rightarrow> (chain_selector, chain_metadata) gomap \<Rightarrow>
     unit res \<times> (chain_selector, chain_metadata) gomap" where
  "replaceChainMetadataWithAddresses md addresses = replace_loop addresses (gm_keys md) md"

definition DefaultValidUntil :: int where
  "DefaultValidUntil = 72 * 3600 * 1000000000"

definition deriveNewProposal ::
  "'e mcms_env_scheme \<Rightarrow> timelock_proposal \<Rightarrow> timelock_action \<Rightarrow> (chain_selector, chain_metadata) gomap \<Rightarrow>
     timelock_proposal res \<times> timelock_proposal" where
  "deriveNewProposal E m action metadata =
     (case Int64ToUint32 E (unix (Now E + DefaultValidUntil)) of
        Inl err \<Rightarrow> (Inl err, m)
      | Inr ts32 \<Rightarrow>
          let newProposal = m\<lparr>bp_Signatures := [], bp_ValidUntil := ts32, tp_SaltOverride := Some (Salt m),
                              tp_Action := action\<rparr> in
          (case replaceChainMetadataWithAddresses (bp_ChainMetadata newProposal) metadata of
             (Inl err, md) \<Rightarrow> (Inl err, m\<lparr>bp_ChainMetadata := md\<rparr>)
           | (Inr _, md) \<Rightarrow> (Inr (newProposal\<lparr>bp_ChainMetadata := md\<rparr>), m\<lparr>bp_ChainMetadata := md\<rparr>)))"

definition DeriveCancellationProposal ::
  "'e mcms_env_scheme \<Rightarrow> timelock_proposal \<Rightarrow> (chain_selector, chain_metadata) gomap \<Rightarrow>
     timelock_proposal res \<times> timelock_proposal" where
  "DeriveCancellationProposal E m cancellerMetadata =
     (if tp_Action m \<noteq> TimelockActionSchedule
      then (Inl (Errorf ''cannot derive a cancellation proposal from a non-schedule proposal''), m)
      else deriveNewProposal E m TimelockActionCancel cancellerMetadata)"

definition DeriveBypassProposal ::
  "'e mcms_env_scheme \<Rightarrow> timelock_proposal \<Rightarrow> (chain_selector, chain_metadata) gomap \<Rightarrow>
     timelock_proposal res \<times> timelock_proposal" where
  "DeriveBypassProposal E m bypasserAddresses =
     (if tp_Action m \<noteq> TimelockActionSchedule
      then (Inl (Errorf ''cannot derive a bypass proposal from a non-schedule proposal''), m)
      else deriveNewProposal E m TimelockActionBypass bypasserAddresses)"

section \<open>Conversion\<close>

text \<open>The last operation id per chain starts at the zero hash for every chain of the metadata.\<close>

definition init_lastOpID :: "timelock_proposal \<Rightarrow> (chain_selector, hash) gomap" where
  "init_lastOpID m = foldl (\<lambda>lastOpID sel. gm_put sel 0 lastOpID) [] (gm_keys (bp_ChainMetadata m))"

fun convert_loop ::
  "timelock_proposal \<Rightarrow> (chain_selector, converter) gomap \<Rightarrow> (chain_selector, hash) gomap \<Rightarrow> batch_operation list \<Rightarrow>
     (operation list \<times> hash list) res" where
  "convert_loop m converters lastOpID [] = Inr ([], [])"
| "convert_loop m converters lastOpID (bop # bops) =
     (let chainSelector = bop_ChainSelector bop in
      case gm_get converters chainSelector of
        None \<Rightarrow> Inl (Errorf ''unable to find converter for chain selector %d'')
      | Some converter \<Rightarrow>
          (case gm_get (bp_ChainMetadata m) chainSelector of
             None \<Rightarrow> Inl (Errorf ''missing chain metadata for chainSelector %d'')
           | Some chainMetadata \<Rightarrow>
               let predecessor = gm_get0 lastOpID chainSelector 0;
                   timelockAddr = gm_get0 (tp_TimelockAddresses m) chainSelector [] in
               bindE (converter chainMetadata bop timelockAddr (cm_MCMAddress chainMetadata) (tp_Delay m) (tp_Action m)
                        predecessor (Salt m)) (\<lambda>(convertedOps, operationID).
               bindE (convert_loop m converters (gm_put chainSelector operationID lastOpID) bops) (\<lambda>(ops, predecessors).
                 Inr (convertedOps @ ops, predecessor # predecessors)))))"

definition Convert ::
  "timelock_proposal \<Rightarrow> (chain_selector, converter) gomap \<Rightarrow> (proposal \<times> hash list) res" where
  "Convert m converters =
     bindE (convert_loop m converters (init_lastOpID m) (tp_Operations m)) (\<lambda>(ops, predecessors).
       Inr (\<lparr>bp_Version = bp_Version m, bp_Kind = KindProposal, bp_ValidUntil = bp_ValidUntil m,
             bp_Signatures = bp_Signatures m, bp_OverridePreviousRoot = bp_OverridePreviousRoot m,
             bp_ChainMetadata = bp_ChainMetadata m, bp_Description = bp_Description m,
             bp_Metadata = bp_Metadata m, bp_useSimulatedBackend = bp_useSimulatedBackend m,
             pr_Operations = ops\<rparr>, predecessors))"

section \<open>Operation ids\<close>

fun calc_loop ::
  "'e mcms_env_scheme \<Rightarrow> timelock_proposal \<Rightarrow> (chain_selector, hash) gomap \<Rightarrow> batch_operation list \<Rightarrow>
     (hash list \<times> hash list) res" where
  "calc_loop E m lastOpID [] = Inr ([], [])"
| "calc_loop E m lastOpID (batchOp # bops) =
     (let sel = bop_ChainSelector batchOp; predecessor = gm_get0 lastOpID sel 0 in
      bindE (wrapE (Wrapf ''no operation ID function found for chain selector %d: %w'') (operationIDFn E sel)) (\<lambda>calculateOperationID.
      bindE (wrapE (Wrapf ''failed to calculate operation ID for chain selector %d: %w'')
               (calculateOperationID batchOp (tp_Action m) predecessor (Salt m))) (\<lambda>newOperationID.
      bindE (calc_loop E m (gm_put sel newOperationID lastOpID) bops) (\<lambda>(operationIDs, predecessors).
        Inr (newOperationID # operationIDs, predecessor # predecessors)))))"

definition calcOperationIDs :: "'e mcms_env_scheme \<Rightarrow> timelock_proposal \<Rightarrow> (hash list \<times> hash list) res" where
  "calcOperationIDs E m = calc_loop E m (init_lastOpID m) (tp_Operations m)"

definition OperationIDs :: "'e mcms_env_scheme \<Rightarrow> timelock_proposal \<Rightarrow> (hash list \<times> hash list) res" where
  "OperationIDs E m = bindE (calcOperationIDs E m) (\<lambda>(operationIDs, predecessors). Inr (operationIDs, predecessors))"

definition OperationID :: "'e mcms_env_scheme \<Rightarrow> timelock_proposal \<Rightarrow> int \<Rightarrow> hash res" where
  "OperationID E m index =
     (if index < 0 \<or> index \<ge> int (length (tp_Operations m))
      then Inl (Errorf ''index %d is out of range (%d operations in proposal)'')
      else bindE (wrapE (Wrapf ''failed to calculate operation IDs: %w'') (calcOperationIDs E m))
             (\<lambda>(operationIDs, _). Inr (operationIDs ! nat index)))"

definition OperationCounts :: "'e mcms_env_scheme \<Rightarrow> timelock_proposal \<Rightarrow> (chain_selector, u64) gomap res" where
  "OperationCounts E m =
     (let out = batch_TransactionCounts m in
      bindE (wrapE (Wrapf ''failed to build timelock converters: %w'') (BuildConverters E (bp_ChainMetadata m))) (\<lambda>converters.
      bindE (wrapE (Wrapf ''failed to convert proposal: %w'') (Convert m converters)) (\<lambda>(prop, _).
        let convCounts = TransactionCounts prop in
        Inr (foldl (\<lambda>out sel. case gm_get convCounts sel of None \<Rightarrow> out | Some n \<Rightarrow> gm_put sel n out)
               out (gm_keys converters)))))"

text \<open>
  \<open>GetOpCount\<close>: the inspector is the one given as an option or the one the chain wrappers build; an
  inspector is the function that asks the chain for the op count at an address.
\<close>

definition GetOpCount ::
  "timelock_proposal option \<Rightarrow> chain_selector \<Rightarrow> (string \<Rightarrow> u64 res) option \<Rightarrow>
     (chain_selector \<Rightarrow> timelock_action \<Rightarrow> chain_metadata \<Rightarrow> (string \<Rightarrow> u64 res) res) \<Rightarrow> u64 res" where
  "GetOpCount m chainSelector inspectorOpt BuildInspector =
     (case m of
        None \<Rightarrow> Inl (Errorf ''nil proposal'')
      | Some m \<Rightarrow>
          (case gm_get (bp_ChainMetadata m) chainSelector of
             None \<Rightarrow> Inl (Errorf ''missing chain metadata for selector %d'')
           | Some metadata \<Rightarrow>
               bindE (case inspectorOpt of
                        Some inspector \<Rightarrow> Inr inspector
                      | None \<Rightarrow> BuildInspector chainSelector (tp_Action m) metadata) (\<lambda>inspector.
                 inspector (cm_MCMAddress metadata))))"

text \<open>Decoding, batch by batch.\<close>

definition batch_Decode ::
  "(chain_selector, transaction \<Rightarrow> string \<Rightarrow> 'd res) gomap \<Rightarrow> (string, string) gomap \<Rightarrow> timelock_proposal \<Rightarrow>
     'd list list res" where
  "batch_Decode decoders contractInterfaces m =
     mapE (\<lambda>op.
       case gm_get decoders (bop_ChainSelector op) of
         None \<Rightarrow> Inl (Errorf ''no decoder found for chain selector %d'')
       | Some decoder \<Rightarrow>
           mapE (\<lambda>tx.
             case gm_get contractInterfaces (tx_ContractType tx) of
               None \<Rightarrow> Inl (Errorf ''no contract interfaces found for contract type %s'')
             | Some contractInterface \<Rightarrow>
                 wrapE (Wrapf ''unable to decode operation: %w'') (decoder tx contractInterface))
             (bop_Transactions op))
       (tp_Operations m)"

section \<open>Reading proposals\<close>

definition timelock_proposal_interface ::
  "'e mcms_env_scheme \<Rightarrow> (timelock_proposal \<Rightarrow> unit res) \<Rightarrow> timelock_proposal proposal_interface" where
  "timelock_proposal_interface E struct =
     \<lparr>pi_TransactionCounts = batch_TransactionCounts, pi_ChainMetadatas = ChainMetadatas,
      pi_setChainMetadata = setChainMetadata, pi_Validate = timelock_Validate E struct\<rparr>"

definition NewTimelockProposal ::
  "'e mcms_env_scheme \<Rightarrow> (timelock_proposal \<Rightarrow> unit res) \<Rightarrow> ('r \<Rightarrow> timelock_proposal res) \<Rightarrow> 'r \<Rightarrow> 'r list \<Rightarrow>
     timelock_proposal res" where
  "NewTimelockProposal E struct decode reader predecessors =
     newProposal (timelock_proposal_interface E struct) decode reader predecessors"

section \<open>Lemmas\<close>

lemma batch_TransactionCounts_get:
  "gm_get (batch_TransactionCounts m) sel =
     (if sel \<in> bop_ChainSelector ` set (tp_Operations m)
      then Some (sum_list (map (\<lambda>op. of_nat (length (bop_Transactions op)))
             (filter (\<lambda>op. bop_ChainSelector op = sel) (tp_Operations m))))
      else None)"
  unfolding batch_TransactionCounts_def by (rule gm.accumulate_empty)

lemma batch_TransactionCounts_wf: "gm_wf (batch_TransactionCounts m)"
  unfolding batch_TransactionCounts_def
  using accumulate_wf [of "[]" bop_ChainSelector
      "\<lambda>m op. case_option 0 id (gm_get m (bop_ChainSelector op)) + of_nat (length (bop_Transactions op))"]
  by simp

interpretation timelock_queue: queueable "timelock_proposal_interface E struct" "\<lambda>p. gm_wf (bp_ChainMetadata p)"
  for E struct
  by unfold_locales
    (simp_all add: timelock_proposal_interface_def batch_TransactionCounts_wf ChainMetadatas_def setChainMetadata_def
      gm_get_put)

subsection \<open>Derived proposals\<close>

lemma replace_loop_Inr:
  "replace_loop addresses cs md = (Inr u, md') \<Longrightarrow>
     (\<forall>c \<in> set cs. gm_get addresses c \<noteq> None) \<and>
     gm_get md' = (\<lambda>c. if c \<in> set cs then gm_get addresses c else gm_get md c)"
proof (induction addresses cs md rule: replace_loop.induct)
  case (2 addresses chain rest md)
  then obtain newMeta where n: "gm_get addresses chain = Some newMeta"
    and l: "replace_loop addresses rest (gm_put chain newMeta md) = (Inr u, md')"
    by (auto split: option.splits)
  from "2.IH" [OF n l] n show ?case by (auto simp: gm_get_put fun_eq_iff)
qed auto

lemma replace_all:
  assumes "replaceChainMetadataWithAddresses md addresses = (Inr u, md')"
  shows "gm_get md' = (\<lambda>c. if gm_get md c = None then None else gm_get addresses c)"
    and "gm_get md c \<noteq> None \<Longrightarrow> gm_get addresses c \<noteq> None"
  using replace_loop_Inr [OF assms [unfolded replaceChainMetadataWithAddresses_def]]
  by (auto simp: fun_eq_iff gm_keys_dom domIff map_of_eq_None_iff dom_map_of_conv_image_fst)

text \<open>The fields of a derived proposal.\<close>

lemma deriveNewProposal_Inr:
  assumes "deriveNewProposal E m action metadata = (Inr d, m')"
  obtains ts32 md where
    "Int64ToUint32 E (unix (Now E + DefaultValidUntil)) = Inr ts32"
    "replaceChainMetadataWithAddresses (bp_ChainMetadata m) metadata = (Inr (), md)"
    "d = m\<lparr>bp_Signatures := [], bp_ValidUntil := ts32, tp_SaltOverride := Some (Salt m), tp_Action := action,
           bp_ChainMetadata := md\<rparr>"
    "m' = m\<lparr>bp_ChainMetadata := md\<rparr>"
proof -
  from assms obtain ts32 where ts: "Int64ToUint32 E (unix (Now E + DefaultValidUntil)) = Inr ts32"
    by (auto simp: deriveNewProposal_def split: sum.splits)
  obtain r md where r: "replaceChainMetadataWithAddresses (bp_ChainMetadata m) metadata = (r, md)" by fastforce
  with assms ts have "r = Inr ()" by (cases r) (auto simp: deriveNewProposal_def Let_def)
  with r ts assms show ?thesis by (intro that [of ts32 md]) (auto simp: deriveNewProposal_def Let_def)
qed

subsection \<open>Operation ids\<close>

text \<open>The id of the last batch on a chain, or \<open>z\<close> when there is none.\<close>

definition last_id :: "chain_selector \<Rightarrow> hash \<Rightarrow> batch_operation list \<Rightarrow> hash list \<Rightarrow> hash" where
  "last_id sel z bops ids = foldl (\<lambda>acc (b, i). if bop_ChainSelector b = sel then i else acc) z (zip bops ids)"

lemma last_id_simps [simp]:
  "last_id sel z [] ids = z"
  "last_id sel z (b # bops) (i # ids) = last_id sel (if bop_ChainSelector b = sel then i else z) bops ids"
  by (simp_all add: last_id_def)

lemma calc_loop_spec:
  "calc_loop E m lastOpID bops = Inr (ids, preds) \<Longrightarrow>
     length ids = length bops \<and> length preds = length bops \<and>
     (\<forall>i < length bops.
        preds ! i = last_id (bop_ChainSelector (bops ! i)) (gm_get0 lastOpID (bop_ChainSelector (bops ! i)) 0)
          (take i bops) (take i ids) \<and>
        (\<exists>f. operationIDFn E (bop_ChainSelector (bops ! i)) = Inr f \<and>
           f (bops ! i) (tp_Action m) (preds ! i) (Salt m) = Inr (ids ! i)))"
proof (induction E m lastOpID bops arbitrary: ids preds rule: calc_loop.induct)
  case (2 E m lastOpID b bops)
  let ?sel = "bop_ChainSelector b"
  let ?pred = "gm_get0 lastOpID ?sel 0"
  from "2.prems" obtain f opid ids' preds' where
    f: "operationIDFn E ?sel = Inr f" and opid: "f b (tp_Action m) ?pred (Salt m) = Inr opid" and
    rest: "calc_loop E m (gm_put ?sel opid lastOpID) bops = Inr (ids', preds')" and
    eq: "ids = opid # ids'" "preds = ?pred # preds'"
    by (auto simp: Let_def bindE_Inr_iff)
  have f': "wrapE (Wrapf ''no operation ID function found for chain selector %d: %w'') (operationIDFn E ?sel) = Inr f"
    and opid': "wrapE (Wrapf ''failed to calculate operation ID for chain selector %d: %w'')
      (f b (tp_Action m) ?pred (Salt m)) = Inr opid"
    using f opid by simp_all
  note IH = "2.IH" [OF refl refl f' opid' rest]
  have "preds ! i = last_id (bop_ChainSelector ((b # bops) ! i))
          (gm_get0 lastOpID (bop_ChainSelector ((b # bops) ! i)) 0) (take i (b # bops)) (take i ids) \<and>
        (\<exists>f. operationIDFn E (bop_ChainSelector ((b # bops) ! i)) = Inr f \<and>
           f ((b # bops) ! i) (tp_Action m) (preds ! i) (Salt m) = Inr (ids ! i))"
    if "i < length (b # bops)" for i
  proof (cases i)
    case 0
    then show ?thesis using f opid by (simp add: eq)
  next
    case (Suc j)
    with that have "j < length bops" by simp
    with IH have "preds' ! j = last_id (bop_ChainSelector (bops ! j))
          (gm_get0 (gm_put ?sel opid lastOpID) (bop_ChainSelector (bops ! j)) 0) (take j bops) (take j ids') \<and>
        (\<exists>f. operationIDFn E (bop_ChainSelector (bops ! j)) = Inr f \<and>
           f (bops ! j) (tp_Action m) (preds' ! j) (Salt m) = Inr (ids' ! j))" by blast
    moreover have "gm_get0 (gm_put ?sel opid lastOpID) (bop_ChainSelector (bops ! j)) 0 =
        (if ?sel = bop_ChainSelector (bops ! j) then opid else gm_get0 lastOpID (bop_ChainSelector (bops ! j)) 0)"
      by (simp add: gm_get0_def gm_get_put)
    ultimately show ?thesis by (auto simp: Suc eq)
  qed
  moreover have "length ids = length (b # bops)" "length preds = length (b # bops)"
    using IH by (simp_all add: eq)
  ultimately show ?case by blast
qed simp

lemma init_lastOpID_zero: "gm_get0 (init_lastOpID m) sel 0 = 0"
proof -
  have "gm_get0 (foldl (\<lambda>l s. gm_put s 0 l) l0 ks) sel 0 = gm_get0 l0 sel 0 \<or>
      gm_get0 (foldl (\<lambda>l s. gm_put s 0 l) l0 ks) sel 0 = 0" for ks :: "chain_selector list" and l0 :: "(chain_selector, hash) gomap"
  proof (induction ks arbitrary: l0)
    case (Cons k ks)
    then show ?case using Cons.IH [of "gm_put k 0 l0"] by (auto simp: gm_get0_def gm_get_put)
  qed simp
  from this [of "[]"] show ?thesis by (simp add: init_lastOpID_def gm_get0_def)
qed

text \<open>Only the batches, the action and the salt matter, and the action only if the ids depend on it.\<close>

lemma calc_loop_cong:
  assumes "Salt m' = Salt m"
    and "\<And>b f pred. b \<in> set bops \<Longrightarrow> operationIDFn E (bop_ChainSelector b) = Inr f \<Longrightarrow>
      f b (tp_Action m') pred (Salt m) = f b (tp_Action m) pred (Salt m)"
  shows "calc_loop E m' lastOpID bops = calc_loop E m lastOpID bops"
  using assms(2)
proof (induction bops arbitrary: lastOpID)
  case (Cons b bops)
  then have IH: "calc_loop E m' l bops = calc_loop E m l bops" for l by simp
  show ?case
  proof (cases "operationIDFn E (bop_ChainSelector b)")
    case (Inr f)
    with Cons.prems [of b f] show ?thesis by (simp add: Let_def assms(1) IH)
  qed (simp add: Let_def)
qed simp

lemma calc_loop_init: "calc_loop E m (init_lastOpID m') bops = calc_loop E m [] bops"
proof -
  have "calc_loop E m l bops = calc_loop E m l' bops"
    if "\<And>sel. gm_get0 l sel 0 = gm_get0 l' sel 0" for l l'
    using that
  proof (induction bops arbitrary: l l')
    case (Cons b bops)
    have "calc_loop E m (gm_put s i l) bops = calc_loop E m (gm_put s i l') bops" for s i
      by (rule Cons.IH) (use Cons.prems in \<open>auto simp: gm_get0_def gm_get_put\<close>)
    with Cons.prems [of "bop_ChainSelector b"] show ?case by (simp add: Let_def)
  qed simp
  then show ?thesis by (simp add: init_lastOpID_zero gm_get0_def [of "[]"])
qed

subsection \<open>Converters that agree with the operation ids\<close>

text \<open>
  What a chain family owes its callers: the id its converter reports for a batch is the id its
  \<open>OperationID\<close> function computes, and the operations it makes stay on the chain of the batch.
\<close>

locale family_converter =
  fixes conv :: converter and opid :: operation_id
  assumes conv_id: "conv md b tlAddr mcm delay action pred salt = Inr (ops, h) \<Longrightarrow> opid b action pred salt = Inr h"
    and conv_chain: "conv md b tlAddr mcm delay action pred salt = Inr (ops, h) \<Longrightarrow> op \<in> set ops \<Longrightarrow>
      op_ChainSelector op = bop_ChainSelector b"
begin

lemma step:
  assumes "gm_get converters (bop_ChainSelector b) = Some conv" and "operationIDFn E (bop_ChainSelector b) = Inr opid"
    and "convert_loop m converters l (b # bops) = Inr (ops, preds)"
  obtains ops1 h ops2 preds2 where
    "convert_loop m converters (gm_put (bop_ChainSelector b) h l) bops = Inr (ops2, preds2)"
    "opid b (tp_Action m) (gm_get0 l (bop_ChainSelector b) 0) (Salt m) = Inr h"
    "ops = ops1 @ ops2" "preds = gm_get0 l (bop_ChainSelector b) 0 # preds2"
    "\<forall>op \<in> set ops1. op_ChainSelector op = bop_ChainSelector b"
  using assms conv_id conv_chain by (auto simp: Let_def bindE_Inr_iff split: option.splits)

end

interpretation evm_family: family_converter "evm_ConvertBatchToChainOperations G" "evm_OperationID G" for G
proof
  show "evm_ConvertBatchToChainOperations G md b tlAddr mcm delay action pred salt = Inr (ops, h) \<Longrightarrow>
      evm_OperationID G b action pred salt = Inr h" for md b tlAddr mcm delay action pred salt ops h
    by (rule evm_convert_operation_id)
  show "evm_ConvertBatchToChainOperations G md b tlAddr mcm delay action pred salt = Inr (ops, h) \<Longrightarrow>
      op \<in> set ops \<Longrightarrow> op_ChainSelector op = bop_ChainSelector b" for md b tlAddr mcm delay action pred salt ops h op
    by (auto dest: evm_convert_one_op)
qed

text \<open>Two runs over the same batches with the same starting ids: the predecessors are the same.\<close>

lemma convert_ids:
  assumes "\<And>b. b \<in> set bops \<Longrightarrow> \<exists>conv opid. gm_get converters (bop_ChainSelector b) = Some conv \<and>
      operationIDFn E (bop_ChainSelector b) = Inr opid \<and> family_converter conv opid"
    and "convert_loop m converters l bops = Inr (ops, preds)"
  shows "\<exists>ids. calc_loop E m l bops = Inr (ids, preds) \<and>
    op_ChainSelector ` set ops \<subseteq> bop_ChainSelector ` set bops"
  using assms
proof (induction bops arbitrary: l ops preds)
  case (Cons b bops)
  from Cons.prems(1) [of b] obtain conv opid where
    c: "gm_get converters (bop_ChainSelector b) = Some conv" "operationIDFn E (bop_ChainSelector b) = Inr opid" and
    fam: "family_converter conv opid" by auto
  obtain ops1 h ops2 preds2 where
    rest: "convert_loop m converters (gm_put (bop_ChainSelector b) h l) bops = Inr (ops2, preds2)" and
    h: "opid b (tp_Action m) (gm_get0 l (bop_ChainSelector b) 0) (Salt m) = Inr h" and
    eq: "ops = ops1 @ ops2" "preds = gm_get0 l (bop_ChainSelector b) 0 # preds2" and
    on: "\<forall>op \<in> set ops1. op_ChainSelector op = bop_ChainSelector b"
    by (rule family_converter.step [OF fam c Cons.prems(2)])
  have "\<exists>ids. calc_loop E m (gm_put (bop_ChainSelector b) h l) bops = Inr (ids, preds2) \<and>
      op_ChainSelector ` set ops2 \<subseteq> bop_ChainSelector ` set bops"
    by (rule Cons.IH [OF _ rest]) (rule Cons.prems(1), simp)
  then show ?case using c h on by (auto simp: Let_def eq)
qed simp

text \<open>For EVM chains every batch becomes one operation, on its chain.\<close>

lemma evm_convert_chains:
  assumes "\<And>b. b \<in> set bops \<Longrightarrow> gm_get converters (bop_ChainSelector b) = Some (evm_ConvertBatchToChainOperations G)"
    and "convert_loop m converters l bops = Inr (ops, preds)"
  shows "map op_ChainSelector ops = map bop_ChainSelector bops"
  using assms
proof (induction bops arbitrary: l ops preds)
  case (Cons b bops)
  from Cons.prems(1) [of b]
  have c: "gm_get converters (bop_ChainSelector b) = Some (evm_ConvertBatchToChainOperations G)" by simp
  with Cons.prems(2) obtain md where md: "gm_get (bp_ChainMetadata m) (bop_ChainSelector b) = Some md"
    by (cases "gm_get (bp_ChainMetadata m) (bop_ChainSelector b)") (simp_all add: Let_def)
  from Cons.prems(2) c md obtain ops1 h ops2 preds2 where
    one: "evm_ConvertBatchToChainOperations G md b (gm_get0 (tp_TimelockAddresses m) (bop_ChainSelector b) [])
      (cm_MCMAddress md) (tp_Delay m) (tp_Action m) (gm_get0 l (bop_ChainSelector b) 0) (Salt m) = Inr (ops1, h)" and
    rest: "convert_loop m converters (gm_put (bop_ChainSelector b) h l) bops = Inr (ops2, preds2)" and
    eq: "ops = ops1 @ ops2"
    by (auto simp: Let_def bindE_Inr_iff)
  have IH: "map op_ChainSelector ops2 = map bop_ChainSelector bops"
    by (rule Cons.IH [OF _ rest]) (rule Cons.prems(1), simp)
  from evm_convert_one_op [OF one] IH show ?case by (auto simp: eq)
qed simp

lemma overlay_get:
  "gm_get (foldl (\<lambda>out sel. case gm_get c sel of None \<Rightarrow> out | Some n \<Rightarrow> gm_put sel n out) out ks) sel =
     (if sel \<in> set ks \<and> gm_get c sel \<noteq> None then gm_get c sel else gm_get out sel)"
  by (induction ks arbitrary: out) (auto simp: gm_get_put split: option.splits)

lemma Convert_InrE:
  assumes "Convert m converters = Inr (p, preds)"
  obtains "convert_loop m converters (init_lastOpID m) (tp_Operations m) = Inr (pr_Operations p, preds)"
    and "bp_ChainMetadata p = bp_ChainMetadata m" and "bp_Kind p = KindProposal"
  using assms unfolding Convert_def by (auto simp: bindE_Inr_iff)

lemma BuildConverters_evm:
  assumes "BuildConverters E md = Inr cs" and "gm_wf md" and "ChainDetails E sel = Inr FamilyEVM"
    and "gm_get md sel \<noteq> None"
  shows "gm_get cs sel = Some (evm_ConvertBatchToChainOperations E)"
  using BuildConverters_get(1) [OF assms(1,2), of sel] assms(3,4)
  by (auto simp: BuildConverter_def GetChainSelectorFamily_def supportedFamilies_def)

lemma convert_loop_metadata:
  "convert_loop m converters l bops = Inr r \<Longrightarrow> b \<in> set bops \<Longrightarrow>
     gm_get (bp_ChainMetadata m) (bop_ChainSelector b) \<noteq> None \<and> gm_get converters (bop_ChainSelector b) \<noteq> None"
  by (induction m converters l bops arbitrary: r rule: convert_loop.induct)
    (auto simp: Let_def bindE_Inr_iff split: option.splits)

section \<open>A sample timelock proposal\<close>

definition sample_batch :: "chain_selector \<Rightarrow> nat \<Rightarrow> batch_operation" where
  "sample_batch sel n = \<lparr>bop_ChainSelector = sel, bop_Transactions = replicate n (op_Transaction (sample_op sel))\<rparr>"

definition sample_timelock :: timelock_proposal where
  "sample_timelock =
     \<lparr>bp_Version = ''v1'', bp_Kind = KindTimelockProposal, bp_ValidUntil = 99, bp_Signatures = [],
      bp_OverridePreviousRoot = False,
      bp_ChainMetadata = [(5, sample_metadata 10), (7, sample_metadata 3)],
      bp_Description = [], bp_Metadata = None, bp_useSimulatedBackend = False,
      tp_Action = TimelockActionSchedule, tp_Delay = 3600000000000,
      tp_TimelockAddresses = [(5, ''0x3''), (7, ''0x4'')],
      tp_Operations = [sample_batch 5 2, sample_batch 7 1, sample_batch 5 3], tp_SaltOverride = None\<rparr>"

lemma sample_timelock_fields [simp]:
  "bp_ChainMetadata sample_timelock = [(5, sample_metadata 10), (7, sample_metadata 3)]"
  "tp_Operations sample_timelock = [sample_batch 5 2, sample_batch 7 1, sample_batch 5 3]"
  "tp_Action sample_timelock = TimelockActionSchedule"
  "bop_ChainSelector (sample_batch sel n) = sel"
  by (simp_all add: sample_timelock_def sample_batch_def)

lemma sample_BuildConverter [simp]:
  "BuildConverter sample_env sel md = Inr (evm_ConvertBatchToChainOperations sample_env)"
  by (simp add: BuildConverter_def)

lemma sample_operationIDFn [simp]: "operationIDFn sample_env sel = Inr (evm_OperationID sample_env)"
  by (simp add: operationIDFn_def)

lemma sample_evm_call: "\<exists>c. evm_call sample_env tx = Inr c"
  by (simp add: evm_call_def evm_fields_def)

lemma sample_HashOperationBatch: "\<exists>h. HashOperationBatch sample_env calls pred salt = Inr h"
  unfolding HashOperationBatch_def sample_env_Encode bindE_simps by blast

lemma sample_convert:
  "\<exists>r. evm_ConvertBatchToChainOperations sample_env md b tlAddr mcm delay TimelockActionSchedule pred salt = Inr r"
proof -
  obtain calls where calls: "mapE (evm_call sample_env) (bop_Transactions b) = Inr calls"
    using mapE_total [of "bop_Transactions b" "evm_call sample_env"] sample_evm_call by blast
  obtain h where "HashOperationBatch sample_env calls pred salt = Inr h" using sample_HashOperationBatch by blast
  with calls show ?thesis
    by (simp add: evm_ConvertBatchToChainOperations_def evm_calls_and_tags_eq evm_action_data_def Let_def
        del: sample_pack.simps)
qed

lemma sample_Convert:
  "\<exists>cs p preds. BuildConverters sample_env (bp_ChainMetadata sample_timelock) = Inr cs \<and>
     Convert sample_timelock cs = Inr (p, preds)"
proof -
  obtain cs where cs: "BuildConverters sample_env (bp_ChainMetadata sample_timelock) = Inr cs"
    "gm_get cs 5 = Some (evm_ConvertBatchToChainOperations sample_env)"
    "gm_get cs 7 = Some (evm_ConvertBatchToChainOperations sample_env)"
    by (simp add: BuildConverters_def)
  have loop: "\<exists>r. convert_loop sample_timelock cs l bops = Inr r"
    if "\<And>b. b \<in> set bops \<Longrightarrow> bop_ChainSelector b \<in> {5, 7}" for l bops
    using that
  proof (induction bops arbitrary: l)
    case (Cons b bops)
    from Cons.prems [of b] obtain md where
      c: "gm_get cs (bop_ChainSelector b) = Some (evm_ConvertBatchToChainOperations sample_env)"
      "gm_get (bp_ChainMetadata sample_timelock) (bop_ChainSelector b) = Some md" using cs by auto
    obtain ops1 h where "evm_ConvertBatchToChainOperations sample_env md b
        (gm_get0 (tp_TimelockAddresses sample_timelock) (bop_ChainSelector b) []) (cm_MCMAddress md)
        (tp_Delay sample_timelock) TimelockActionSchedule (gm_get0 l (bop_ChainSelector b) 0)
        (Salt sample_timelock) = Inr (ops1, h)" using sample_convert by (metis surj_pair)
    moreover have "\<exists>r. convert_loop sample_timelock cs (gm_put (bop_ChainSelector b) h l) bops = Inr r"
      by (rule Cons.IH) (rule Cons.prems, simp)
    ultimately show ?case using c by (auto simp: Let_def simp del: sample_timelock_fields(1))
  qed simp
  have "\<exists>r. convert_loop sample_timelock cs l (tp_Operations sample_timelock) = Inr r" for l
    by (rule loop) auto
  then obtain ops preds where
    "convert_loop sample_timelock cs (init_lastOpID sample_timelock) (tp_Operations sample_timelock) = Inr (ops, preds)"
    by (metis surj_pair)
  then have "\<exists>p. Convert sample_timelock cs = Inr (p, preds)" unfolding Convert_def by simp
  with cs(1) show ?thesis by blast
qed

lemma BuildConverter_operationIDFn: "BuildConverter E sel md = Inr c \<Longrightarrow> \<exists>f. operationIDFn E sel = Inr f"
  by (auto simp: BuildConverter_def operationIDFn_def bindE_Inr_iff split: family.splits)

lemma Convert_calc:
  assumes "BuildConverters E (bp_ChainMetadata m) = Inr cs" and "gm_wf (bp_ChainMetadata m)"
    and "Convert m cs = Inr (p, preds)"
    and "\<And>b md c f. b \<in> set (tp_Operations m) \<Longrightarrow> BuildConverter E (bop_ChainSelector b) md = Inr c \<Longrightarrow>
      operationIDFn E (bop_ChainSelector b) = Inr f \<Longrightarrow> family_converter c f"
  shows "\<exists>ids. calc_loop E m (init_lastOpID m) (tp_Operations m) = Inr (ids, preds) \<and>
    op_ChainSelector ` set (pr_Operations p) \<subseteq> bop_ChainSelector ` set (tp_Operations m)"
proof -
  from assms(3) have conv: "convert_loop m cs (init_lastOpID m) (tp_Operations m) = Inr (pr_Operations p, preds)"
    by (rule Convert_InrE)
  have "\<exists>conv opid. gm_get cs (bop_ChainSelector b) = Some conv \<and>
      operationIDFn E (bop_ChainSelector b) = Inr opid \<and> family_converter conv opid"
    if b: "b \<in> set (tp_Operations m)" for b
  proof -
    from convert_loop_metadata [OF conv b] obtain md where
      md: "gm_get (bp_ChainMetadata m) (bop_ChainSelector b) = Some md" by auto
    from BuildConverters_get(2) [OF assms(1,2) md] obtain c where
      c: "BuildConverter E (bop_ChainSelector b) md = Inr c" by blast
    from BuildConverter_operationIDFn [OF c] obtain f where
      f: "operationIDFn E (bop_ChainSelector b) = Inr f" by blast
    have "gm_get cs (bop_ChainSelector b) = Some c"
      using BuildConverters_get(1) [OF assms(1,2)] md c by simp
    with f assms(4) [OF b c f] show ?thesis by blast
  qed
  from convert_ids [OF this conv] show ?thesis .
qed

lemma ops_on_chains: "ops_on sel ops = length (filter (\<lambda>c. c = sel) (map op_ChainSelector ops))"
  by (simp add: ops_on_def filter_map comp_def)

lemma ValidateBasic_Inr:
  assumes "casts_documented E" and "0 \<le> Now E"
  shows "timeLockProposalValidateBasic E m = Inr () \<longleftrightarrow> unix (Now E) < uint (bp_ValidUntil m)"
proof (cases "unix (Now E) < 2 ^ 32")
  case True
  with assms have "Int64ToUint32 E (unix (Now E)) = Inr (word_of_int (unix (Now E)))"
    by (simp add: Int64ToUint32_Inr unix_def)
  moreover have "bp_ValidUntil m \<le> word_of_int (unix (Now E)) \<longleftrightarrow> uint (bp_ValidUntil m) \<le> unix (Now E)"
    using uint_u32 [OF _ True] assms(2) by (simp add: word_le_def unix_def)
  ultimately show ?thesis by (simp add: timeLockProposalValidateBasic_def not_less [symmetric])
next
  case False
  have "uint (bp_ValidUntil m) < 2 ^ 32" using uint_lt2p [of "bp_ValidUntil m"] by simp
  moreover from False have "Int64ToUint32 E (unix (Now E)) \<noteq> Inr w" for w
    by (simp add: Int64ToUint32_Inr [OF assms(1)])
  ultimately show ?thesis using False
    by (auto simp: timeLockProposalValidateBasic_def bindE_Inr_iff)
qed

section \<open>Properties\<close>

text \<open>
  C10: the batches of a chain form a chain: the predecessor of a batch is the id of the last batch
  before it on the same chain, and the zero hash for the first; batches on other chains do not come
  into it. The id of a batch is the family's id of the batch, the predecessor and the proposal's
  salt, and OperationID finds it by the index.
\<close>

theorem OperationIDs_chained:
  assumes "OperationIDs E m = Inr (ids, preds)" and "i < length (tp_Operations m)"
  shows "preds ! i = last_id (bop_ChainSelector (tp_Operations m ! i)) 0 (take i (tp_Operations m)) (take i ids) \<and>
    (\<exists>f. operationIDFn E (bop_ChainSelector (tp_Operations m ! i)) = Inr f \<and>
       f (tp_Operations m ! i) (tp_Action m) (preds ! i) (Salt m) = Inr (ids ! i)) \<and>
    OperationID E m (int i) = Inr (ids ! i)"
proof -
  from assms(1) have c: "calcOperationIDs E m = Inr (ids, preds)"
    by (auto simp: OperationIDs_def bindE_Inr_iff)
  from calc_loop_spec [OF this [unfolded calcOperationIDs_def]] assms(2)
  have "preds ! i = last_id (bop_ChainSelector (tp_Operations m ! i)) 0 (take i (tp_Operations m)) (take i ids) \<and>
      (\<exists>f. operationIDFn E (bop_ChainSelector (tp_Operations m ! i)) = Inr f \<and>
         f (tp_Operations m ! i) (tp_Action m) (preds ! i) (Salt m) = Inr (ids ! i))"
    unfolding init_lastOpID_zero by blast
  moreover have "OperationID E m (int i) = Inr (ids ! i)" using c assms(2) by (simp add: OperationID_def)
  ultimately show ?thesis by blast
qed

theorem OperationIDs_chained_witness:
  "\<exists>ids preds. OperationIDs sample_env sample_timelock = Inr (ids, preds) \<and> preds ! 1 = 0 \<and> preds ! 2 = ids ! 0"
proof -
  have "calc_loop sample_env m l bops \<noteq> Inl e" for m l bops e
  proof (induction bops arbitrary: l e)
    case (Cons b bops)
    obtain calls where "mapE (evm_call sample_env) (bop_Transactions b) = Inr calls"
      using mapE_total [of "bop_Transactions b" "evm_call sample_env"] sample_evm_call by blast
    then obtain h where "evm_OperationID sample_env b (tp_Action m) (gm_get0 l (bop_ChainSelector b) 0) (Salt m) = Inr h"
      unfolding evm_OperationID_def using sample_HashOperationBatch by simp blast
    moreover obtain r where "calc_loop sample_env m (gm_put (bop_ChainSelector b) h l) bops = Inr r"
      using Cons.IH by (metis sum.exhaust)
    ultimately show ?case by (simp add: Let_def split_def)
  qed simp
  then obtain ids preds where
    c: "calc_loop sample_env sample_timelock (init_lastOpID sample_timelock) (tp_Operations sample_timelock) = Inr (ids, preds)"
    by (metis sum.exhaust surj_pair)
  then have ids: "OperationIDs sample_env sample_timelock = Inr (ids, preds)"
    unfolding OperationIDs_def calcOperationIDs_def by (simp only: bindE_simps prod.case)
  from calc_loop_spec [OF c] have "length ids = 3" by simp
  then obtain a b c where "ids = [a, b, c]" by (auto simp: numeral_eq_Suc length_Suc_conv)
  with OperationIDs_chained [OF ids, of 1] OperationIDs_chained [OF ids, of 2] ids show ?thesis
    by (auto simp: numeral_eq_Suc)
qed

text \<open>
  A derived cancellation proposal is the scheduled proposal with another action and other MCM
  contracts: only a schedule proposal has one, it keeps the batches, the delay, the timelock addresses
  and the salt, has no signatures, exactly the receiver's chains with the given metadata, expires
  72 hours from now and so is not expired. The derivation also replaces the metadata of the
  proposal it is derived from, which shares its map.
\<close>

theorem DeriveCancellation_effect:
  assumes "DeriveCancellationProposal E m metadata = (Inr d, m')" and "casts_documented E" and "0 \<le> Now E"
  shows "tp_Action m = TimelockActionSchedule \<and> tp_Action d = TimelockActionCancel \<and>
    tp_Operations d = tp_Operations m \<and> tp_Delay d = tp_Delay m \<and>
    tp_TimelockAddresses d = tp_TimelockAddresses m \<and> Salt d = Salt m \<and> bp_Signatures d = [] \<and>
    gm_get (bp_ChainMetadata d) = (\<lambda>sel. if gm_get (bp_ChainMetadata m) sel = None then None else gm_get metadata sel) \<and>
    uint (bp_ValidUntil d) = unix (Now E + DefaultValidUntil) \<and> timeLockProposalValidateBasic E d = Inr () \<and>
    m' = m\<lparr>bp_ChainMetadata := bp_ChainMetadata d\<rparr>"
proof -
  from assms(1) have act: "tp_Action m = TimelockActionSchedule"
    and der: "deriveNewProposal E m TimelockActionCancel metadata = (Inr d, m')"
    by (auto simp: DeriveCancellationProposal_def split: if_splits)
  from der obtain ts32 md where
    ts: "Int64ToUint32 E (unix (Now E + DefaultValidUntil)) = Inr ts32" and
    rep: "replaceChainMetadataWithAddresses (bp_ChainMetadata m) metadata = (Inr (), md)" and
    d: "d = m\<lparr>bp_Signatures := [], bp_ValidUntil := ts32, tp_SaltOverride := Some (Salt m),
             tp_Action := TimelockActionCancel, bp_ChainMetadata := md\<rparr>" and
    m': "m' = m\<lparr>bp_ChainMetadata := md\<rparr>" by (rule deriveNewProposal_Inr)
  from ts have "unix (Now E + DefaultValidUntil) < 2 ^ 32" "ts32 = word_of_int (unix (Now E + DefaultValidUntil))"
    using Int64ToUint32_Inr [OF assms(2)] by blast+
  moreover have "0 \<le> unix (Now E + DefaultValidUntil)" using assms(3) by (simp add: unix_def DefaultValidUntil_def)
  ultimately have vu: "uint ts32 = unix (Now E + DefaultValidUntil)"
    using uint_u32 by blast
  have "unix (Now E) < unix (Now E + DefaultValidUntil)"
    using div_mult_self1 [of 1000000000 "Now E" 259200] by (simp add: unix_def DefaultValidUntil_def)
  with vu have "timeLockProposalValidateBasic E d = Inr ()"
    unfolding ValidateBasic_Inr [OF assms(2,3)] by (simp add: d)
  with act vu m' replace_all(1) [OF rep] show ?thesis by (simp add: d Salt_def)
qed

lemma sample_derive:
  "\<exists>d m'. DeriveCancellationProposal sample_env sample_timelock [(7, sample_metadata 1), (5, sample_metadata 2)] = (Inr d, m')"
proof -
  have "unix (Now sample_env + DefaultValidUntil) = 259200" by (simp add: unix_def DefaultValidUntil_def)
  then have "Int64ToUint32 sample_env (unix (Now sample_env + DefaultValidUntil)) = Inr 259200"
    by (simp add: Int64ToUint32_Inr [OF sample_env_casts])
  then show ?thesis
    by (simp add: DeriveCancellationProposal_def deriveNewProposal_def replaceChainMetadataWithAddresses_def Let_def)
qed

theorem DeriveCancellation_effect_witness:
  "\<exists>d m'. DeriveCancellationProposal sample_env sample_timelock [(7, sample_metadata 1), (5, sample_metadata 2)] = (Inr d, m') \<and>
     tp_Action d = TimelockActionCancel \<and> gm_get (bp_ChainMetadata m') 5 = Some (sample_metadata 2)"
proof -
  obtain d m' where
    d: "DeriveCancellationProposal sample_env sample_timelock [(7, sample_metadata 1), (5, sample_metadata 2)] = (Inr d, m')"
    using sample_derive by blast
  from DeriveCancellation_effect [OF d sample_env_casts] d show ?thesis by simp
qed

text \<open>
  OperationCounts counts what will be executed: when every batch is on an EVM chain, the count of
  a chain is the number of its batches, not of its transactions, and only chains with batches occur.
\<close>

theorem OperationCounts_evm:
  assumes "OperationCounts E m = Inr out" and "gm_wf (bp_ChainMetadata m)"
    and "\<And>b. b \<in> set (tp_Operations m) \<Longrightarrow> ChainDetails E (bop_ChainSelector b) = Inr FamilyEVM"
  shows "gm_get out sel =
    (if sel \<in> bop_ChainSelector ` set (tp_Operations m)
     then Some (of_nat (length (filter (\<lambda>b. bop_ChainSelector b = sel) (tp_Operations m)))) else None)"
proof -
  from assms(1) obtain cs p preds where
    cs: "BuildConverters E (bp_ChainMetadata m) = Inr cs" and p: "Convert m cs = Inr (p, preds)" and
    out: "out = foldl (\<lambda>out sel. case gm_get (TransactionCounts p) sel of None \<Rightarrow> out | Some n \<Rightarrow> gm_put sel n out)
      (batch_TransactionCounts m) (gm_keys cs)"
    by (auto simp: OperationCounts_def Let_def bindE_Inr_iff)
  from p have conv: "convert_loop m cs (init_lastOpID m) (tp_Operations m) = Inr (pr_Operations p, preds)"
    by (rule Convert_InrE)
  have cs_evm: "gm_get cs (bop_ChainSelector b) = Some (evm_ConvertBatchToChainOperations E)"
    if "b \<in> set (tp_Operations m)" for b
    using BuildConverters_evm [OF cs assms(2) assms(3) [OF that]] convert_loop_metadata [OF conv that] by blast
  from evm_convert_chains [OF cs_evm conv]
  have "ops_on sel (pr_Operations p) = length (filter (\<lambda>b. bop_ChainSelector b = sel) (tp_Operations m))"
    by (simp add: ops_on_chains filter_map comp_def)
  moreover have "sel \<in> set (gm_keys cs)" if "sel \<in> bop_ChainSelector ` set (tp_Operations m)"
    using cs_evm that unfolding gm_keys_dom by auto
  moreover have "gm_get out sel =
      (if sel \<in> set (gm_keys cs) \<and> gm_get (TransactionCounts p) sel \<noteq> None
       then gm_get (TransactionCounts p) sel else gm_get (batch_TransactionCounts m) sel)"
    unfolding out by (rule overlay_get)
  ultimately show ?thesis
    unfolding TransactionCounts_get batch_TransactionCounts_get by (auto simp: filter_empty_conv)
qed

theorem OperationCounts_evm_witness:
  "\<exists>out. OperationCounts sample_env sample_timelock = Inr out \<and> gm_get out 5 = Some 2"
proof -
  obtain cs p preds where c: "BuildConverters sample_env (bp_ChainMetadata sample_timelock) = Inr cs"
    "Convert sample_timelock cs = Inr (p, preds)" using sample_Convert by blast
  then have "\<exists>out. OperationCounts sample_env sample_timelock = Inr out"
    unfolding OperationCounts_def by (simp add: Let_def del: sample_timelock_fields)
  then obtain out where out: "OperationCounts sample_env sample_timelock = Inr out" ..
  have wf: "gm_wf (bp_ChainMetadata sample_timelock)" by (simp add: gm_wf_def)
  have "gm_get out 5 = (if 5 \<in> bop_ChainSelector ` set (tp_Operations sample_timelock)
     then Some (of_nat (length (filter (\<lambda>b. bop_ChainSelector b = 5) (tp_Operations sample_timelock)))) else None)"
    by (rule OperationCounts_evm [OF out wf]) simp
  with out show ?thesis by simp
qed

text \<open>
  The two kinds of proposals disagree about the last second. A timelock proposal is accepted while
  the clock, in whole seconds, is before ValidUntil; whatever it accepts the MCMS proposal's check
  accepts as well, but at the instant ValidUntil itself an MCMS proposal is valid and a timelock
  proposal is not.
\<close>

theorem ValidUntil_boundary:
  assumes "casts_documented E" and "0 \<le> Now E"
  shows "(timeLockProposalValidateBasic E m = Inr () \<longleftrightarrow> unix (Now E) < uint (bp_ValidUntil m)) \<and>
    (timeLockProposalValidateBasic E m = Inr () \<longrightarrow> proposalValidateBasic E m = Inr ()) \<and>
    (Now E = uint (bp_ValidUntil m) * 1000000000 \<longrightarrow>
       proposalValidateBasic E m = Inr () \<and> timeLockProposalValidateBasic E m \<noteq> Inr ())"
proof -
  have "Now E \<le> uint (bp_ValidUntil m) * 1000000000" if "unix (Now E) < uint (bp_ValidUntil m)"
    using that unfolding unix_def by linarith
  then show ?thesis
    unfolding ValidateBasic_Inr [OF assms] by (auto simp: proposalValidateBasic_def unix_def not_less)
qed

theorem ValidUntil_boundary_witness:
  "timeLockProposalValidateBasic (sample_env\<lparr>Now := 99000000000\<rparr>) sample_timelock \<noteq> Inr () \<and>
   proposalValidateBasic (sample_env\<lparr>Now := 99000000000\<rparr>) sample_timelock = Inr ()"
proof -
  let ?E = "sample_env\<lparr>Now := 99000000000\<rparr>"
  have "casts_documented ?E" using sample_env_casts by (simp add: casts_documented_def)
  moreover have "0 \<le> Now ?E" by simp
  moreover have "Now ?E = uint (bp_ValidUntil sample_timelock) * 1000000000" by (simp add: sample_timelock_def)
  ultimately show ?thesis using ValidUntil_boundary [of ?E sample_timelock] by blast
qed

end
