(* ===== verification/Merge.thy ===== *)
theory Merge
  imports TimelockProposal
begin

text \<open>
  \<open>merge.go\<close>: merging another timelock proposal into the receiver. The receiver is changed as the
  method goes along and an error may leave it half merged, so the model returns the verdict and the
  receiver as the call leaves it. On success the Go method returns the receiver itself.
\<close>

section \<open>Free-form metadata\<close>

text \<open>What an entry becomes: lists are appended, objects are merged, anything else is overwritten.\<close>

function merge_maps :: "(string, json) gomap \<Rightarrow> (string \<times> json) list \<Rightarrow> (string, json) gomap" where
  "merge_maps out [] = out"
| "merge_maps out ((k, bv) # rest) =
     merge_maps
       (gm_put k
         (case gm_get out k of
            None \<Rightarrow> bv
          | Some av \<Rightarrow>
              (case (av, bv) of
                 (JArr sliceAV, JArr sliceBV) \<Rightarrow> JArr (sliceAV @ sliceBV)
               | (JObj mapAV, JObj mapBV) \<Rightarrow> JObj (merge_maps mapAV mapBV)
               | _ \<Rightarrow> bv))
         out)
       rest"
  by pat_completeness auto
termination
  by (relation "measure (\<lambda>(out, b). size_list (size_prod (\<lambda>_. 0) size) b)") auto

definition mergeMetadataMaps :: "(string, json) gomap \<Rightarrow> (string, json) gomap \<Rightarrow> (string, json) gomap" where
  "mergeMetadataMaps a b = merge_maps a b"

definition mergeMetadata ::
  "(string, json) gomap option \<Rightarrow> (string, json) gomap option \<Rightarrow> (string, json) gomap option" where
  "mergeMetadata m1 m2 =
     (case m2 of
        None \<Rightarrow> m1
      | Some b \<Rightarrow> if length b = 0 then m1 else Some (mergeMetadataMaps (case m1 of None \<Rightarrow> [] | Some a \<Rightarrow> a) b))"

section \<open>Merge\<close>

fun merge_chains ::
  "(chain_selector, chain_metadata) gomap \<Rightarrow> (chain_selector \<times> chain_metadata) list \<Rightarrow>
     unit res \<times> (chain_selector, chain_metadata) gomap" where
  "merge_chains md [] = (Inr (), md)"
| "merge_chains md ((chainSelector, otherMetadata) # rest) =
     (case gm_get md chainSelector of
        None \<Rightarrow> merge_chains (gm_put chainSelector otherMetadata md) rest
      | Some thisMetadata \<Rightarrow>
          (case cm_Merge thisMetadata otherMetadata of
             Inl err \<Rightarrow> (Inl (Wrapf ''failed to merge metadata for chain %v: %w'' err), md)
           | Inr mergedMetadata \<Rightarrow> merge_chains (gm_put chainSelector mergedMetadata md) rest))"

fun merge_addresses ::
  "(chain_selector, string) gomap \<Rightarrow> (chain_selector \<times> string) list \<Rightarrow> unit res \<times> (chain_selector, string) gomap" where
  "merge_addresses addrs [] = (Inr (), addrs)"
| "merge_addresses addrs ((chainSelector, otherTimelockAddress) # rest) =
     (case gm_get addrs chainSelector of
        Some currentAddress \<Rightarrow>
          if currentAddress \<noteq> otherTimelockAddress
          then (Inl (Errorf ''cannot merge proposals with different timelock addresses (chain %v): %q vs %q''), addrs)
          else merge_addresses addrs rest
      | None \<Rightarrow> merge_addresses (gm_put chainSelector otherTimelockAddress addrs) rest)"

definition merge_salt :: "hash option \<Rightarrow> hash option \<Rightarrow> hash option" where
  "merge_salt this other =
     (case other of
        None \<Rightarrow> this
      | Some s \<Rightarrow> (case this of None \<Rightarrow> Some s | Some t \<Rightarrow> Some (t XOR s)))"

definition merge_description :: "string \<Rightarrow> string \<Rightarrow> string" where
  "merge_description this other =
     (if other \<noteq> [] then (if this \<noteq> [] then this @ [CHR 0x0A] else this) @ other else this)"

text \<open>The fields written before the first loop, the loop, and the rest.\<close>

definition merge_start :: "timelock_proposal \<Rightarrow> timelock_proposal \<Rightarrow> timelock_proposal" where
  "merge_start m other =
     m\<lparr>bp_OverridePreviousRoot := bp_OverridePreviousRoot m \<or> bp_OverridePreviousRoot other,
       bp_Description := merge_description (bp_Description m) (bp_Description other),
       bp_Signatures := [],
       bp_Metadata := mergeMetadata (bp_Metadata m) (bp_Metadata other)\<rparr>"

definition timelock_Merge ::
  "timelock_proposal \<Rightarrow> timelock_proposal \<Rightarrow> unit res \<times> timelock_proposal" where
  "timelock_Merge m other =
     (if bp_Version m \<noteq> bp_Version other then (Inl (Errorf ''cannot merge proposals with different versions''), m)
      else if bp_Kind m \<noteq> bp_Kind other then (Inl (Errorf ''cannot merge proposals with different kinds''), m)
      else if tp_Action m \<noteq> tp_Action other then (Inl (Errorf ''cannot merge proposals with different actions''), m)
      else
        let m1 = merge_start m other in
        (case merge_chains (bp_ChainMetadata m1) (bp_ChainMetadata other) of
           (Inl err, md) \<Rightarrow> (Inl err, m1\<lparr>bp_ChainMetadata := md\<rparr>)
         | (Inr _, md) \<Rightarrow>
             let m2 = m1\<lparr>bp_ChainMetadata := md,
                         bp_ValidUntil := min (bp_ValidUntil m1) (bp_ValidUntil other),
                         tp_Delay := max (tp_Delay m1) (tp_Delay other)\<rparr> in
             (case merge_addresses (tp_TimelockAddresses m2) (tp_TimelockAddresses other) of
                (Inl err, addrs) \<Rightarrow> (Inl err, m2\<lparr>tp_TimelockAddresses := addrs\<rparr>)
              | (Inr _, addrs) \<Rightarrow>
                  (Inr (),
                   m2\<lparr>tp_TimelockAddresses := addrs,
                      tp_SaltOverride := merge_salt (tp_SaltOverride m2) (tp_SaltOverride other),
                      tp_Operations := tp_Operations m2 @ tp_Operations other\<rparr>))))"

section \<open>Lemmas\<close>

definition merge_value :: "json option \<Rightarrow> json \<Rightarrow> json" where
  "merge_value this bv =
     (case this of
        None \<Rightarrow> bv
      | Some av \<Rightarrow>
          (case (av, bv) of
             (JArr xs, JArr ys) \<Rightarrow> JArr (xs @ ys)
           | (JObj a, JObj b) \<Rightarrow> JObj (mergeMetadataMaps a b)
           | _ \<Rightarrow> bv))"

lemma merge_maps_get:
  "gm_wf b \<Longrightarrow> gm_get (merge_maps a b) k =
     (case gm_get b k of None \<Rightarrow> gm_get a k | Some bv \<Rightarrow> Some (merge_value (gm_get a k) bv))"
proof (induction b arbitrary: a)
  case (Cons kb b)
  obtain k' bv where kb: "kb = (k', bv)" by fastforce
  from Cons.prems kb have wf: "gm_wf b" and k': "gm_get b k' = None"
    by (auto simp: gm_wf_def map_of_eq_None_iff)
  have step: "merge_maps a (kb # b) = merge_maps (gm_put k' (merge_value (gm_get a k') bv) a) b"
    unfolding kb merge_maps.simps merge_value_def mergeMetadataMaps_def ..
  show ?case unfolding step Cons.IH [OF wf] using k' by (auto simp: kb gm_get_put split: option.splits)
qed simp

lemma merge_chains_Inr:
  "merge_chains md kvs = (Inr u, md') \<Longrightarrow> gm_wf kvs \<Longrightarrow>
     (case gm_get kvs sel of
        None \<Rightarrow> gm_get md' sel = gm_get md sel
      | Some other \<Rightarrow>
          (case gm_get md sel of
             None \<Rightarrow> gm_get md' sel = Some other
           | Some this \<Rightarrow> \<exists>r. cm_Merge this other = Inr r \<and> gm_get md' sel = Some r))"
proof (induction md kvs rule: merge_chains.induct)
  case (2 md c other rest)
  from "2.prems"(2) have wf: "gm_wf rest" and c: "gm_get rest c = None"
    by (auto simp: gm_wf_def map_of_eq_None_iff)
  show ?case
  proof (cases "gm_get md c")
    case None
    with "2.prems"(1) have "merge_chains (gm_put c other md) rest = (Inr u, md')" by simp
    from "2.IH"(1) [OF None this wf] None c show ?thesis by (auto simp: gm_get_put split: option.splits)
  next
    case (Some this)
    with "2.prems"(1) obtain r where r: "cm_Merge this other = Inr r"
      and l: "merge_chains (gm_put c r md) rest = (Inr u, md')" by (auto split: sum.splits)
    from "2.IH"(2) [OF Some r l wf] Some r c show ?thesis by (auto simp: gm_get_put split: option.splits)
  qed
qed simp

lemma merge_addresses_Inr:
  "merge_addresses addrs kvs = (Inr u, addrs') \<Longrightarrow> gm_wf kvs \<Longrightarrow>
     gm_get addrs' sel = (case gm_get kvs sel of None \<Rightarrow> gm_get addrs sel | Some a \<Rightarrow> Some a) \<and>
     (gm_get addrs sel = None \<or> gm_get kvs sel = None \<or> gm_get addrs sel = gm_get kvs sel)"
proof (induction addrs kvs rule: merge_addresses.induct)
  case (2 addrs c a rest)
  from "2.prems"(2) have wf: "gm_wf rest" and c: "gm_get rest c = None"
    by (auto simp: gm_wf_def map_of_eq_None_iff)
  show ?case
  proof (cases "gm_get addrs c")
    case None
    with "2.prems"(1) have "merge_addresses (gm_put c a addrs) rest = (Inr u, addrs')" by simp
    from "2.IH"(1) [OF None this wf] None c show ?thesis by (auto simp: gm_get_put split: option.splits)
  next
    case (Some b)
    with "2.prems"(1) have ab: "b = a" and l: "merge_addresses addrs rest = (Inr u, addrs')"
      by (auto split: if_splits)
    have "\<not> b \<noteq> a" using ab by simp
    from "2.IH"(2) [OF Some this l wf] Some ab c show ?thesis by (auto split: option.splits)
  qed
qed simp

lemma timelock_Merge_InrE:
  assumes "timelock_Merge m other = (Inr u, r)"
  obtains md addrs where
    "bp_Version m = bp_Version other" "bp_Kind m = bp_Kind other" "tp_Action m = tp_Action other"
    "merge_chains (bp_ChainMetadata m) (bp_ChainMetadata other) = (Inr (), md)"
    "merge_addresses (tp_TimelockAddresses m) (tp_TimelockAddresses other) = (Inr (), addrs)"
    "r = (merge_start m other)\<lparr>bp_ChainMetadata := md,
           bp_ValidUntil := min (bp_ValidUntil m) (bp_ValidUntil other),
           tp_Delay := max (tp_Delay m) (tp_Delay other), tp_TimelockAddresses := addrs,
           tp_SaltOverride := merge_salt (tp_SaltOverride m) (tp_SaltOverride other),
           tp_Operations := tp_Operations m @ tp_Operations other\<rparr>"
  using assms
  by (auto simp: timelock_Merge_def Let_def merge_start_def split: if_splits sum.splits prod.splits)

lemma batch_counts_append:
  "tp_Operations r = tp_Operations a @ tp_Operations b \<Longrightarrow>
     gm_get0 (batch_TransactionCounts r) sel 0 =
       gm_get0 (batch_TransactionCounts a) sel 0 + gm_get0 (batch_TransactionCounts b) sel 0"
  by (auto simp: gm_get0_def batch_TransactionCounts_get gm.key_absent filter_empty_conv)

text \<open>
  Merging free-form metadata keeps every key of either side; a key of both has the two lists
  appended, the two objects merged by the same rule, and otherwise the value of the other side.
\<close>

lemma mergeMetadataMaps_entries:
  assumes "gm_wf b"
  shows "gm_get (mergeMetadataMaps a b) k =
    (case (gm_get a k, gm_get b k) of
       (this, None) \<Rightarrow> this
     | (Some (JArr xs), Some (JArr ys)) \<Rightarrow> Some (JArr (xs @ ys))
     | (Some (JObj ma), Some (JObj mb)) \<Rightarrow> Some (JObj (mergeMetadataMaps ma mb))
     | (_, Some bv) \<Rightarrow> Some bv)"
proof (cases "gm_get b k")
  case None
  then show ?thesis using merge_maps_get [OF assms, of a k]
    by (simp add: mergeMetadataMaps_def split: option.splits json.splits)
next
  case (Some bv)
  have "gm_get (mergeMetadataMaps a b) k = Some (merge_value (gm_get a k) bv)"
    using merge_maps_get [OF assms, of a k] Some by (simp add: mergeMetadataMaps_def)
  with Some show ?thesis
    by (cases "gm_get a k"; cases bv) (auto simp: merge_value_def split: json.splits)
qed

text \<open>The merged metadata is nil only if nothing was there to merge.\<close>

lemma mergeMetadata_None: "mergeMetadata m1 m2 = None \<longleftrightarrow> m1 = None \<and> (m2 = None \<or> m2 = Some [])"
  by (auto simp: mergeMetadata_def split: option.splits)

abbreviation metadata_map :: "(string, json) gomap option \<Rightarrow> (string, json) gomap" where
  "metadata_map m \<equiv> (case m of None \<Rightarrow> [] | Some kvs \<Rightarrow> kvs)"

lemma mergeMetadata_map:
  "metadata_map (mergeMetadata m1 m2) = mergeMetadataMaps (metadata_map m1) (metadata_map m2)"
  by (auto simp: mergeMetadata_def mergeMetadataMaps_def split: option.splits)

section \<open>A sample\<close>

definition sample_other :: timelock_proposal where
  "sample_other = sample_timelock
     \<lparr>bp_ValidUntil := 50, bp_ChainMetadata := [(7, sample_metadata 1), (9, sample_metadata 4)],
      tp_TimelockAddresses := [(7, ''0x4''), (9, ''0x5'')], tp_Operations := [sample_batch 9 1]\<rparr>"

lemma sample_cm_Merge: "cm_Merge (sample_metadata a) (sample_metadata b) = Inr (sample_metadata (min a b))"
  by (simp add: cm_Merge_def sample_metadata_def unmarshal_if_def raw_nonempty_def)

lemma sample_Merge: "\<exists>r. timelock_Merge sample_timelock sample_other = (Inr (), r)"
  by (simp add: timelock_Merge_def merge_start_def sample_other_def sample_timelock_def sample_cm_Merge Let_def)

section \<open>Properties\<close>

text \<open>
  C12: A merge that succeeds was between proposals of one version, kind and action, and decides every
  field of the receiver: version, kind, action and the choice of simulated backend are kept, the
  operations are those of both in order, there are no signatures, the expiry is the earlier one, the
  delay the longer one, and the override is set if either had it. The salt is the exclusive or of two
  given salts, or the only one; the description is both with a line break between, or the only one.
  Of the free-form metadata every key of either side is kept: a key of both has its two lists
  appended or its two objects merged by the same rule, and otherwise the value of the other side.
  A chain of one proposal keeps its metadata and its timelock address, a chain of both has the merged
  metadata and the address they agree on. Per chain, the transactions add up.
\<close>

theorem Merge_combines:
  assumes "timelock_Merge m other = (Inr (), r)" and "gm_wf (bp_ChainMetadata other)"
    and "gm_wf (tp_TimelockAddresses other)" and "gm_wf (metadata_map (bp_Metadata other))"
  shows "bp_Version m = bp_Version other \<and> bp_Kind m = bp_Kind other \<and> tp_Action m = tp_Action other \<and>
    bp_Version r = bp_Version m \<and> bp_Kind r = bp_Kind m \<and> tp_Action r = tp_Action m \<and>
    bp_useSimulatedBackend r = bp_useSimulatedBackend m \<and>
    tp_Operations r = tp_Operations m @ tp_Operations other \<and> bp_Signatures r = [] \<and>
    bp_ValidUntil r = min (bp_ValidUntil m) (bp_ValidUntil other) \<and> tp_Delay r = max (tp_Delay m) (tp_Delay other) \<and>
    (bp_OverridePreviousRoot r \<longleftrightarrow> bp_OverridePreviousRoot m \<or> bp_OverridePreviousRoot other) \<and>
    tp_SaltOverride r =
      (case (tp_SaltOverride m, tp_SaltOverride other) of
         (Some a, Some b) \<Rightarrow> Some (a XOR b) | (this, None) \<Rightarrow> this | (None, that) \<Rightarrow> that) \<and>
    bp_Description r =
      (if bp_Description other = [] then bp_Description m
       else if bp_Description m = [] then bp_Description other
       else bp_Description m @ [CHR 0x0A] @ bp_Description other) \<and>
    (bp_Metadata r = None \<longleftrightarrow>
      bp_Metadata m = None \<and> (bp_Metadata other = None \<or> bp_Metadata other = Some [])) \<and>
    gm_get (metadata_map (bp_Metadata r)) k =
      (case (gm_get (metadata_map (bp_Metadata m)) k, gm_get (metadata_map (bp_Metadata other)) k) of
         (this, None) \<Rightarrow> this
       | (Some (JArr xs), Some (JArr ys)) \<Rightarrow> Some (JArr (xs @ ys))
       | (Some (JObj ma), Some (JObj mb)) \<Rightarrow> Some (JObj (mergeMetadataMaps ma mb))
       | (_, Some bv) \<Rightarrow> Some bv) \<and>
    (case (gm_get (bp_ChainMetadata m) sel, gm_get (bp_ChainMetadata other) sel) of
       (Some a, Some b) \<Rightarrow> \<exists>c. cm_Merge a b = Inr c \<and> gm_get (bp_ChainMetadata r) sel = Some c
     | (this, None) \<Rightarrow> gm_get (bp_ChainMetadata r) sel = this
     | (None, b) \<Rightarrow> gm_get (bp_ChainMetadata r) sel = b) \<and>
    gm_get (tp_TimelockAddresses r) sel =
      (case gm_get (tp_TimelockAddresses other) sel of None \<Rightarrow> gm_get (tp_TimelockAddresses m) sel | Some a \<Rightarrow> Some a) \<and>
    (gm_get (tp_TimelockAddresses m) sel = None \<or> gm_get (tp_TimelockAddresses other) sel = None \<or>
     gm_get (tp_TimelockAddresses m) sel = gm_get (tp_TimelockAddresses other) sel) \<and>
    gm_get0 (batch_TransactionCounts r) sel 0 =
      gm_get0 (batch_TransactionCounts m) sel 0 + gm_get0 (batch_TransactionCounts other) sel 0"
proof -
  from assms(1) obtain md addrs where
    same: "bp_Version m = bp_Version other" "bp_Kind m = bp_Kind other" "tp_Action m = tp_Action other" and
    c: "merge_chains (bp_ChainMetadata m) (bp_ChainMetadata other) = (Inr (), md)" and
    a: "merge_addresses (tp_TimelockAddresses m) (tp_TimelockAddresses other) = (Inr (), addrs)" and
    r: "r = (merge_start m other)\<lparr>bp_ChainMetadata := md,
           bp_ValidUntil := min (bp_ValidUntil m) (bp_ValidUntil other),
           tp_Delay := max (tp_Delay m) (tp_Delay other), tp_TimelockAddresses := addrs,
           tp_SaltOverride := merge_salt (tp_SaltOverride m) (tp_SaltOverride other),
           tp_Operations := tp_Operations m @ tp_Operations other\<rparr>" by (rule timelock_Merge_InrE)
  have ops: "tp_Operations r = tp_Operations m @ tp_Operations other" by (simp add: r)
  have md: "bp_ChainMetadata r = md" and addrs: "tp_TimelockAddresses r = addrs"
    and free: "bp_Metadata r = mergeMetadata (bp_Metadata m) (bp_Metadata other)"
    by (simp_all add: r merge_start_def)
  note batch_counts_append [OF ops, of sel] merge_addresses_Inr [OF a assms(3), of sel]
    mergeMetadataMaps_entries [OF assms(4), of "metadata_map (bp_Metadata m)" k]
  moreover have "case (gm_get (bp_ChainMetadata m) sel, gm_get (bp_ChainMetadata other) sel) of
       (Some a, Some b) \<Rightarrow> \<exists>c. cm_Merge a b = Inr c \<and> gm_get md sel = Some c
     | (this, None) \<Rightarrow> gm_get md sel = this
     | (None, b) \<Rightarrow> gm_get md sel = b"
    using merge_chains_Inr [OF c assms(2), of sel] by (auto split: option.splits)
  moreover have "tp_SaltOverride r =
      (case (tp_SaltOverride m, tp_SaltOverride other) of
         (Some a, Some b) \<Rightarrow> Some (a XOR b) | (this, None) \<Rightarrow> this | (None, that) \<Rightarrow> that)"
    by (simp add: r merge_salt_def split: option.splits)
  moreover have "bp_Description r =
      (if bp_Description other = [] then bp_Description m
       else if bp_Description m = [] then bp_Description other
       else bp_Description m @ [CHR 0x0A] @ bp_Description other)"
    by (simp add: r merge_start_def merge_description_def)
  moreover have "bp_Version r = bp_Version m \<and> bp_Kind r = bp_Kind m \<and> tp_Action r = tp_Action m \<and>
      bp_useSimulatedBackend r = bp_useSimulatedBackend m \<and> bp_Signatures r = [] \<and>
      bp_ValidUntil r = min (bp_ValidUntil m) (bp_ValidUntil other) \<and>
      tp_Delay r = max (tp_Delay m) (tp_Delay other) \<and>
      (bp_OverridePreviousRoot r \<longleftrightarrow> bp_OverridePreviousRoot m \<or> bp_OverridePreviousRoot other)"
    by (simp add: r merge_start_def)
  ultimately show ?thesis
    unfolding md addrs free mergeMetadata_map mergeMetadata_None using same ops by simp
qed

theorem Merge_combines_witness:
  "\<exists>r. timelock_Merge sample_timelock sample_other = (Inr (), r) \<and> bp_ValidUntil r = 50 \<and>
     bp_Description r = bp_Description sample_timelock \<and>
     gm_get (bp_ChainMetadata r) 7 = Some (sample_metadata 1)"
proof -
  obtain r where r: "timelock_Merge sample_timelock sample_other = (Inr (), r)" using sample_Merge by blast
  have "gm_wf (bp_ChainMetadata sample_other)" "gm_wf (tp_TimelockAddresses sample_other)"
    "gm_wf (metadata_map (bp_Metadata sample_other))"
    by (simp_all add: gm_wf_def sample_other_def sample_timelock_def)
  with Merge_combines [OF r, of _ 7] r show ?thesis
    by (auto simp: sample_other_def sample_timelock_def sample_cm_Merge)
qed

text \<open>
  Merge is not atomic. When it fails after the first three checks, the receiver keeps its
  operations and its salt, but has already lost its signatures and taken in the other proposal's
  description and metadata.
\<close>

theorem Merge_failure_leaves_changes:
  assumes "timelock_Merge m other = (Inl err, r)"
    and "bp_Version m = bp_Version other" and "bp_Kind m = bp_Kind other" and "tp_Action m = tp_Action other"
  shows "bp_Signatures r = [] \<and> bp_Description r = merge_description (bp_Description m) (bp_Description other) \<and>
    bp_Metadata r = mergeMetadata (bp_Metadata m) (bp_Metadata other) \<and>
    tp_Operations r = tp_Operations m \<and> tp_SaltOverride r = tp_SaltOverride m"
proof -
  obtain v md where c: "merge_chains (bp_ChainMetadata m) (bp_ChainMetadata other) = (v, md)" by fastforce
  obtain v' addrs where a: "merge_addresses (tp_TimelockAddresses m) (tp_TimelockAddresses other) = (v', addrs)"
    by fastforce
  from assms c a show ?thesis
    by (cases v; cases v') (auto simp: timelock_Merge_def merge_start_def Let_def)
qed

theorem Merge_failure_leaves_changes_witness:
  "\<exists>err r. timelock_Merge (sample_timelock\<lparr>bp_Signatures := [\<lparr>sig_R = 1, sig_S = 2, sig_V = 27\<rparr>]\<rparr>)
       (sample_other\<lparr>tp_TimelockAddresses := [(7, ''0x6'')]\<rparr>) = (Inl err, r) \<and> bp_Signatures r = []"
proof -
  let ?m = "sample_timelock\<lparr>bp_Signatures := [\<lparr>sig_R = 1, sig_S = 2, sig_V = 27\<rparr>]\<rparr>"
  let ?o = "sample_other\<lparr>tp_TimelockAddresses := [(7, ''0x6'')]\<rparr>"
  have "\<exists>err r. timelock_Merge ?m ?o = (Inl err, r)"
    by (simp add: timelock_Merge_def merge_start_def sample_other_def sample_timelock_def sample_cm_Merge Let_def)
  then obtain err r where r: "timelock_Merge ?m ?o = (Inl err, r)" by blast
  have "bp_Version ?m = bp_Version ?o" "bp_Kind ?m = bp_Kind ?o" "tp_Action ?m = tp_Action ?o"
    by (simp_all add: sample_other_def)
  from Merge_failure_leaves_changes [OF r this] r show ?thesis by blast
qed

end
