(* ===== verification/TimelockExecutable.thy ===== *)
theory TimelockExecutable
  imports TimelockProposal
begin

text \<open>
  \<open>timelock_executable.go\<close>: executing the batches of a scheduled proposal, and asking the timelocks
  whether operations are pending, ready or done. The timelock executors of the chains answer for
  the current state of their chain and act on the world.
\<close>

record ('r, 'w) timelock_executor =
  te_IsOperationPending :: "string \<Rightarrow> hash \<Rightarrow> bool res"
  te_IsOperationReady :: "string \<Rightarrow> hash \<Rightarrow> bool res"
  te_IsOperationDone :: "string \<Rightarrow> hash \<Rightarrow> bool res"
  te_Execute :: "batch_operation \<Rightarrow> string \<Rightarrow> hash \<Rightarrow> hash \<Rightarrow> 'w \<Rightarrow> 'r res \<times> 'w"

record ('r, 'w) timelock_executable =
  tle_proposal :: timelock_proposal
  tle_predecessors :: "hash list"
  tle_executors :: "(chain_selector, ('r, 'w) timelock_executor) gomap"

section \<open>Construction\<close>

definition executable_converters :: "'e mcms_env_scheme \<Rightarrow> timelock_proposal \<Rightarrow> (chain_selector, converter) gomap res" where
  "executable_converters E m =
     foldE (\<lambda>converters (chainSelector, metadata).
         bindE (wrapE (Wrapf ''unable to create converter from executor: %w'') (newTimelockConverter E chainSelector metadata))
           (\<lambda>converter. Inr (gm_put chainSelector converter converters)))
       [] (bp_ChainMetadata m)"

text \<open>Returns the executable with the predecessors set.\<close>

definition setPredecessors ::
  "'e mcms_env_scheme \<Rightarrow> ('r, 'w) timelock_executable \<Rightarrow> ('r, 'w) timelock_executable res" where
  "setPredecessors E t =
     (if length (tle_predecessors t) = 0 \<and> length (tle_executors t) > 0
      then bindE (executable_converters E (tle_proposal t)) (\<lambda>converters.
           bindE (Convert (tle_proposal t) converters) (\<lambda>(_, predecessors).
             Inr (t\<lparr>tle_predecessors := predecessors\<rparr>)))
      else Inr t)"

definition NewTimelockExecutable ::
  "'e mcms_env_scheme \<Rightarrow> timelock_proposal \<Rightarrow> (chain_selector, ('r, 'w) timelock_executor) gomap \<Rightarrow>
     ('r, 'w) timelock_executable res" where
  "NewTimelockExecutable E m executors =
     (if tp_Action m \<noteq> TimelockActionSchedule
      then Inl (Errorf ''TimelockExecutable can only be created from a TimelockProposal with action schedule'')
      else wrapE (Wrapf ''unable to set predecessors: %w'')
             (setPredecessors E \<lparr>tle_proposal = m, tle_predecessors = [], tle_executors = executors\<rparr>))"

section \<open>Status\<close>

definition GetOpID :: "'e mcms_env_scheme \<Rightarrow> ('r, 'w) timelock_executable \<Rightarrow> int \<Rightarrow> hash res" where
  "GetOpID E t opIdx = OperationID E (tle_proposal t) opIdx"

text \<open>The three status methods are the same code with another query and another error.\<close>

definition operation_status ::
  "'e mcms_env_scheme \<Rightarrow> ('r, 'w) timelock_executable \<Rightarrow>
     (('r, 'w) timelock_executor \<Rightarrow> string \<Rightarrow> hash \<Rightarrow> bool res) \<Rightarrow> (nat \<Rightarrow> mcms_error) \<Rightarrow> int \<Rightarrow> unit res" where
  "operation_status E t query err idx =
     (if idx < 0 \<or> idx \<ge> int (length (tp_Operations (tle_proposal t))) then Inl (Panic ''index out of range'')
      else
        let cs = bop_ChainSelector (tp_Operations (tle_proposal t) ! nat idx);
            timelock = gm_get0 (tp_TimelockAddresses (tle_proposal t)) cs [] in
        bindE (wrapE (Wrapf ''unable to get operation ID: %w'') (GetOpID E t idx)) (\<lambda>operationID.
        bindE (case gm_get (tle_executors t) cs of
                 None \<Rightarrow> Inl (Panic ''nil pointer dereference'')
               | Some x \<Rightarrow> query x timelock operationID) (\<lambda>answer.
          if \<not> answer then Inl (err (nat idx)) else Inr ())))"

definition IsOperationReady :: "'e mcms_env_scheme \<Rightarrow> ('r, 'w) timelock_executable \<Rightarrow> int \<Rightarrow> unit res" where
  "IsOperationReady E t idx = operation_status E t te_IsOperationReady OperationNotReadyError idx"

definition IsOperationPending :: "'e mcms_env_scheme \<Rightarrow> ('r, 'w) timelock_executable \<Rightarrow> int \<Rightarrow> unit res" where
  "IsOperationPending E t idx = operation_status E t te_IsOperationPending OperationNotPendingError idx"

definition IsOperationDone :: "'e mcms_env_scheme \<Rightarrow> ('r, 'w) timelock_executable \<Rightarrow> int \<Rightarrow> unit res" where
  "IsOperationDone E t idx = operation_status E t te_IsOperationDone OperationNotDoneError idx"

definition IsReady :: "'e mcms_env_scheme \<Rightarrow> ('r, 'w) timelock_executable \<Rightarrow> unit res" where
  "IsReady E t =
     allE (\<lambda>globalIndex. IsOperationReady E t (int globalIndex)) [0..<length (tp_Operations (tle_proposal t))]"

text \<open>The loop over all operations that skips those of other chains.\<close>

definition chain_status ::
  "('r, 'w) timelock_executable \<Rightarrow> (int \<Rightarrow> unit res) \<Rightarrow> chain_selector \<Rightarrow> unit res" where
  "chain_status t check chainSelector =
     allE (\<lambda>(globalIndex, op).
         if bop_ChainSelector op = chainSelector then check (int globalIndex) else Inr ())
       (enumerate 0 (tp_Operations (tle_proposal t)))"

definition IsChainReady :: "'e mcms_env_scheme \<Rightarrow> ('r, 'w) timelock_executable \<Rightarrow> chain_selector \<Rightarrow> unit res" where
  "IsChainReady E t chainSelector = chain_status t (IsOperationReady E t) chainSelector"

definition IsChainPending :: "'e mcms_env_scheme \<Rightarrow> ('r, 'w) timelock_executable \<Rightarrow> chain_selector \<Rightarrow> unit res" where
  "IsChainPending E t chainSelector = chain_status t (IsOperationPending E t) chainSelector"

definition IsChainDone :: "'e mcms_env_scheme \<Rightarrow> ('r, 'w) timelock_executable \<Rightarrow> chain_selector \<Rightarrow> unit res" where
  "IsChainDone E t chainSelector = chain_status t (IsOperationDone E t) chainSelector"

section \<open>Execution\<close>

text \<open>\<open>None\<close> is the panic of an index outside the operations.\<close>

definition GetChainSpecificIndex :: "('r, 'w) timelock_executable \<Rightarrow> int \<Rightarrow> int option" where
  "GetChainSpecificIndex t index =
     (if index < 0 \<or> index \<ge> int (length (tp_Operations (tle_proposal t))) then None
      else
        let chainSelector = bop_ChainSelector (tp_Operations (tle_proposal t) ! nat index) in
        Some (foldl (\<lambda>chainSpecificIndex (i, op).
                if bop_ChainSelector op = chainSelector \<and> int i \<le> index then chainSpecificIndex + 1 else chainSpecificIndex)
              0 (enumerate 0 (tp_Operations (tle_proposal t)))))"

text \<open>\<open>callProxy\<close> is the address of the option \<open>WithCallProxy\<close>, empty without it.\<close>

definition timelock_Execute ::
  "('r, 'w) timelock_executable \<Rightarrow> int \<Rightarrow> string \<Rightarrow> 'w \<Rightarrow> 'r res \<times> 'w" where
  "timelock_Execute t index callProxy w =
     (if index < 0 \<or> index \<ge> int (length (tp_Operations (tle_proposal t)))
      then (Inl (Panic ''index out of range''), w)
      else
        let op = tp_Operations (tle_proposal t) ! nat index;
            execAddress = (if length callProxy = 0
              then gm_get0 (tp_TimelockAddresses (tle_proposal t)) (bop_ChainSelector op) [] else callProxy) in
        if index \<ge> int (length (tle_predecessors t)) then (Inl (Panic ''index out of range''), w)
        else (case gm_get (tle_executors t) (bop_ChainSelector op) of
          None \<Rightarrow> (Inl (Panic ''nil pointer dereference''), w)
        | Some x \<Rightarrow>
            te_Execute x op execAddress (tle_predecessors t ! nat index) (Salt (tle_proposal t)) w))"

section \<open>Lemmas\<close>

lemma executable_converters_Build:
  assumes "executable_converters E m = Inr cs"
  shows "BuildConverters E (bp_ChainMetadata m) = Inr cs"
proof -
  have "foldE (\<lambda>converters (sel, md). bindE (wrapE w (f sel md)) (\<lambda>c. Inr (gm_put sel c converters))) acc kvs = Inr cs \<Longrightarrow>
      foldE (\<lambda>converters (sel, md). bindE (wrapE w' (f sel md)) (\<lambda>c. Inr (gm_put sel c converters))) acc kvs = Inr cs"
    for w w' :: "mcms_error \<Rightarrow> mcms_error" and f :: "chain_selector \<Rightarrow> chain_metadata \<Rightarrow> converter res" and acc kvs
    by (induction kvs arbitrary: acc) (auto simp: bindE_Inr_iff)
  from this [OF assms [unfolded executable_converters_def newTimelockConverter_def]] show ?thesis
    unfolding BuildConverters_def .
qed

lemma NewTimelockExecutable_Inr:
  assumes "NewTimelockExecutable E m executors = Inr t" and "executors \<noteq> []"
  obtains cs p preds where
    "tp_Action m = TimelockActionSchedule" "BuildConverters E (bp_ChainMetadata m) = Inr cs"
    "Convert m cs = Inr (p, preds)"
    "t = \<lparr>tle_proposal = m, tle_predecessors = preds, tle_executors = executors\<rparr>"
proof -
  from assms obtain cs p preds where "tp_Action m = TimelockActionSchedule"
    "executable_converters E m = Inr cs" "Convert m cs = Inr (p, preds)"
    "t = \<lparr>tle_proposal = m, tle_predecessors = preds, tle_executors = executors\<rparr>"
    by (auto simp: NewTimelockExecutable_def setPredecessors_def bindE_Inr_iff split: if_splits)
  with that show ?thesis by (blast dest: executable_converters_Build)
qed

lemma chain_status_Inr:
  "chain_status t check sel = Inr () \<longleftrightarrow>
     (\<forall>i < length (tp_Operations (tle_proposal t)).
        bop_ChainSelector (tp_Operations (tle_proposal t) ! i) = sel \<longrightarrow> check (int i) = Inr ())"
  unfolding chain_status_def allE_Inr_iff all_set_conv_all_nth by (auto simp: nth_enumerate_eq)

lemma count_upto:
  "foldl (\<lambda>n (i, b). if P b \<and> i \<le> k then n + 1 else n) n0 (enumerate j bs) =
     n0 + int (length (filter P (take (Suc k - j) bs)))"
proof (induction bs arbitrary: n0 j)
  case (Cons b bs)
  show ?case
  proof (cases "j \<le> k")
    case True
    then have "Suc k - j = Suc (Suc k - Suc j)" by simp
    then show ?thesis using True Cons.IH [of "n0 + 1" "Suc j"] Cons.IH [of n0 "Suc j"] by simp
  next
    case False
    then show ?thesis using Cons.IH [of n0 "Suc j"] by simp
  qed
qed simp

text \<open>What a status method makes of the executor's answer.\<close>

definition answered :: "mcms_error \<Rightarrow> bool res \<Rightarrow> unit res" where
  "answered err a = bindE a (\<lambda>yes. if yes then Inr () else Inl err)"

lemma answered_Inr: "answered err a = Inr () \<longleftrightarrow> a = Inr True"
  by (auto simp: answered_def bindE_Inr_iff)

lemma operation_status_asks:
  assumes "i < length (tp_Operations (tle_proposal t))" and "GetOpID E t (int i) = Inr opid"
    and "gm_get (tle_executors t) (bop_ChainSelector (tp_Operations (tle_proposal t) ! i)) = Some x"
  shows "operation_status E t query err (int i) =
    answered (err i)
      (query x (gm_get0 (tp_TimelockAddresses (tle_proposal t))
         (bop_ChainSelector (tp_Operations (tle_proposal t) ! i)) []) opid)"
proof -
  from assms(1,3) have "operation_status E t query err (int i) =
    bindE (query x (gm_get0 (tp_TimelockAddresses (tle_proposal t))
      (bop_ChainSelector (tp_Operations (tle_proposal t) ! i)) []) opid)
      (\<lambda>answer. if \<not> answer then Inl (err (nat (int i))) else Inr ())"
    by (simp add: operation_status_def Let_def assms(2))
  also have "\<dots> = answered (err i) (query x (gm_get0 (tp_TimelockAddresses (tle_proposal t))
      (bop_ChainSelector (tp_Operations (tle_proposal t) ! i)) []) opid)"
    unfolding answered_def nat_int by (rule arg_cong [where f = "bindE _"]) auto
  finally show ?thesis .
qed

section \<open>A sample\<close>

definition sample_timelock_executor :: "(unit, (string \<times> hash) list) timelock_executor" where
  "sample_timelock_executor =
     \<lparr>te_IsOperationPending = (\<lambda>_ _. Inr True), te_IsOperationReady = (\<lambda>_ _. Inr True),
      te_IsOperationDone = (\<lambda>_ _. Inr False),
      te_Execute = (\<lambda>b addr pred salt w. (Inr (), w @ [(addr, pred)]))\<rparr>"

lemma sample_timelock_executable:
  "\<exists>t. NewTimelockExecutable sample_env sample_timelock [(5, sample_timelock_executor)] = Inr t"
proof -
  obtain cs p preds where c: "BuildConverters sample_env (bp_ChainMetadata sample_timelock) = Inr cs"
    "Convert sample_timelock cs = Inr (p, preds)" using sample_Convert by blast
  then have "executable_converters sample_env sample_timelock = Inr cs"
    by (simp add: BuildConverters_def executable_converters_def newTimelockConverter_def)
  with c(2) show ?thesis
    by (simp add: NewTimelockExecutable_def setPredecessors_def del: sample_timelock_fields(1,2))
qed

section \<open>Properties\<close>

text \<open>
  C14: Execute runs what IsReady asked about. With executors given and families that keep their
  contract, executing the batch at an index hands the executor of its chain the batch, the call proxy
  or else the timelock's address, the proposal's salt and a predecessor. The operation id which the
  family computes for exactly these is the id under which all three status methods ask the same
  executor about the batch, at the timelock's address: the answer, its errors included, is what
  IsOperationReady, IsOperationPending and IsOperationDone return, and if IsReady has found the whole
  proposal ready then the executor has answered that this id is.
\<close>

theorem timelock_Execute_operation:
  assumes "NewTimelockExecutable E m executors = Inr t" and "gm_wf (bp_ChainMetadata m)"
    and "\<And>b md c f. b \<in> set (tp_Operations m) \<Longrightarrow> BuildConverter E (bop_ChainSelector b) md = Inr c \<Longrightarrow>
      operationIDFn E (bop_ChainSelector b) = Inr f \<Longrightarrow> family_converter c f"
    and "i < length (tp_Operations m)"
    and "gm_get executors (bop_ChainSelector (tp_Operations m ! i)) = Some x"
  shows "\<exists>pred f opid. operationIDFn E (bop_ChainSelector (tp_Operations m ! i)) = Inr f \<and>
    f (tp_Operations m ! i) TimelockActionSchedule pred (Salt m) = Inr opid \<and> GetOpID E t (int i) = Inr opid \<and>
    timelock_Execute t (int i) callProxy w =
      te_Execute x (tp_Operations m ! i)
        (if callProxy = [] then gm_get0 (tp_TimelockAddresses m) (bop_ChainSelector (tp_Operations m ! i)) [] else callProxy)
        pred (Salt m) w \<and>
    IsOperationReady E t (int i) =
      answered (OperationNotReadyError i)
        (te_IsOperationReady x (gm_get0 (tp_TimelockAddresses m) (bop_ChainSelector (tp_Operations m ! i)) []) opid) \<and>
    IsOperationPending E t (int i) =
      answered (OperationNotPendingError i)
        (te_IsOperationPending x (gm_get0 (tp_TimelockAddresses m) (bop_ChainSelector (tp_Operations m ! i)) []) opid) \<and>
    IsOperationDone E t (int i) =
      answered (OperationNotDoneError i)
        (te_IsOperationDone x (gm_get0 (tp_TimelockAddresses m) (bop_ChainSelector (tp_Operations m ! i)) []) opid) \<and>
    (IsReady E t = Inr () \<longrightarrow>
      te_IsOperationReady x (gm_get0 (tp_TimelockAddresses m) (bop_ChainSelector (tp_Operations m ! i)) []) opid =
        Inr True)"
proof -
  from assms(5) have "executors \<noteq> []" by auto
  from NewTimelockExecutable_Inr [OF assms(1) this] obtain cs p preds where
    act: "tp_Action m = TimelockActionSchedule" and cs: "BuildConverters E (bp_ChainMetadata m) = Inr cs" and
    conv: "Convert m cs = Inr (p, preds)" and
    t: "t = \<lparr>tle_proposal = m, tle_predecessors = preds, tle_executors = executors\<rparr>" .
  have "\<exists>ids. calc_loop E m (init_lastOpID m) (tp_Operations m) = Inr (ids, preds)"
    using Convert_calc [OF cs assms(2) conv] assms(3) by blast
  then obtain ids where c: "calc_loop E m (init_lastOpID m) (tp_Operations m) = Inr (ids, preds)" ..
  from calc_loop_spec [OF c] assms(4) obtain f where
    f: "operationIDFn E (bop_ChainSelector (tp_Operations m ! i)) = Inr f"
      "f (tp_Operations m ! i) (tp_Action m) (preds ! i) (Salt m) = Inr (ids ! i)" by blast
  from calc_loop_spec [OF c] have len: "length preds = length (tp_Operations m)" by blast
  have opid: "GetOpID E t (int i) = Inr (ids ! i)"
    using assms(4) by (simp add: GetOpID_def OperationID_def calcOperationIDs_def t c)
  have status: "operation_status E t query err (int i) =
      answered (err i)
        (query x (gm_get0 (tp_TimelockAddresses m) (bop_ChainSelector (tp_Operations m ! i)) []) (ids ! i))"
    for query err
    using operation_status_asks [of i t E "ids ! i" x query err] assms(4,5) opid by (simp add: t)
  have "te_IsOperationReady x (gm_get0 (tp_TimelockAddresses m) (bop_ChainSelector (tp_Operations m ! i)) []) (ids ! i) =
      Inr True" if "IsReady E t = Inr ()"
  proof -
    from that assms(4) have "IsOperationReady E t (int i) = Inr ()" by (simp add: IsReady_def allE_Inr_iff t)
    then show ?thesis by (simp add: IsOperationReady_def status answered_Inr)
  qed
  moreover have "timelock_Execute t (int i) callProxy w =
      te_Execute x (tp_Operations m ! i)
        (if callProxy = [] then gm_get0 (tp_TimelockAddresses m) (bop_ChainSelector (tp_Operations m ! i)) [] else callProxy)
        (preds ! i) (Salt m) w"
    using assms(4,5) len by (simp add: timelock_Execute_def t Let_def)
  ultimately show ?thesis
    using f act opid unfolding IsOperationReady_def IsOperationPending_def IsOperationDone_def status by auto
qed

theorem timelock_Execute_operation_witness:
  "\<exists>t pred opid. NewTimelockExecutable sample_env sample_timelock [(5, sample_timelock_executor)] = Inr t \<and>
     GetOpID sample_env t 2 = Inr opid \<and> timelock_Execute t 2 [] [] = (Inr (), [(''0x3'', pred)]) \<and>
     IsOperationReady sample_env t 2 = Inr () \<and> IsOperationDone sample_env t 2 = Inl (OperationNotDoneError 2)"
proof -
  obtain t where t: "NewTimelockExecutable sample_env sample_timelock [(5, sample_timelock_executor)] = Inr t"
    using sample_timelock_executable by blast
  have wf: "gm_wf (bp_ChainMetadata sample_timelock)" by (simp add: gm_wf_def)
  have fam: "family_converter c f"
    if "BuildConverter sample_env (bop_ChainSelector b) md = Inr c" "operationIDFn sample_env (bop_ChainSelector b) = Inr f"
    for b md c f
    using that by (auto simp: evm_family.family_converter_axioms)
  have x: "gm_get [(5, sample_timelock_executor)] (bop_ChainSelector (tp_Operations sample_timelock ! 2)) =
      Some sample_timelock_executor" by simp
  have "2 < length (tp_Operations sample_timelock)" by simp
  from timelock_Execute_operation [OF t wf fam this x, where callProxy = "[]" and w = "[]"] obtain pred opid where
    "GetOpID sample_env t (int 2) = Inr opid" and
    "timelock_Execute t (int 2) [] [] = te_Execute sample_timelock_executor (tp_Operations sample_timelock ! 2)
      (gm_get0 (tp_TimelockAddresses sample_timelock) (bop_ChainSelector (tp_Operations sample_timelock ! 2)) [])
      pred (Salt sample_timelock) []" and
    "IsOperationReady sample_env t (int 2) = answered (OperationNotReadyError 2)
      (te_IsOperationReady sample_timelock_executor
        (gm_get0 (tp_TimelockAddresses sample_timelock) (bop_ChainSelector (tp_Operations sample_timelock ! 2)) []) opid)" and
    "IsOperationDone sample_env t (int 2) = answered (OperationNotDoneError 2)
      (te_IsOperationDone sample_timelock_executor
        (gm_get0 (tp_TimelockAddresses sample_timelock) (bop_ChainSelector (tp_Operations sample_timelock ! 2)) []) opid)"
    by auto
  then show ?thesis using t
    by (auto simp: answered_def sample_timelock_executor_def gm_get0_def sample_timelock_def sample_batch_def)
qed

text \<open>
  The whole proposal is ready exactly when each of its chains is, and a chain without
  operations is ready, pending and done at once.
\<close>

theorem IsReady_chainwise:
  "(IsReady E t = Inr () \<longleftrightarrow>
      list_all (\<lambda>op. IsChainReady E t (bop_ChainSelector op) = Inr ()) (tp_Operations (tle_proposal t))) \<and>
   (sel \<in> bop_ChainSelector ` set (tp_Operations (tle_proposal t)) \<or>
    IsChainReady E t sel = Inr () \<and> IsChainPending E t sel = Inr () \<and> IsChainDone E t sel = Inr ())"
proof
  show "IsReady E t = Inr () \<longleftrightarrow>
      list_all (\<lambda>op. IsChainReady E t (bop_ChainSelector op) = Inr ()) (tp_Operations (tle_proposal t))"
    unfolding IsReady_def IsChainReady_def chain_status_Inr allE_Inr_iff list_all_length by auto
  show "sel \<in> bop_ChainSelector ` set (tp_Operations (tle_proposal t)) \<or>
      IsChainReady E t sel = Inr () \<and> IsChainPending E t sel = Inr () \<and> IsChainDone E t sel = Inr ()"
    unfolding IsChainReady_def IsChainPending_def IsChainDone_def chain_status_Inr by (auto dest: nth_mem)
qed

text \<open>
  GetChainSpecificIndex is one-based: at an index of the proposal it counts the operations of
  the same chain up to and including that one, so the first operation of a chain has index 1.
\<close>

theorem GetChainSpecificIndex_one_based:
  assumes "i < length (tp_Operations (tle_proposal t))"
  shows "GetChainSpecificIndex t (int i) = Some (1 + int (length
    (filter (\<lambda>op. bop_ChainSelector op = bop_ChainSelector (tp_Operations (tle_proposal t) ! i))
      (take i (tp_Operations (tle_proposal t))))))"
  using assms count_upto [of "\<lambda>op. bop_ChainSelector op = bop_ChainSelector (tp_Operations (tle_proposal t) ! i)" i 0 0
      "tp_Operations (tle_proposal t)"]
  by (simp add: GetChainSpecificIndex_def Let_def take_Suc_conv_app_nth)

theorem GetChainSpecificIndex_one_based_witness:
  "\<exists>t. NewTimelockExecutable sample_env sample_timelock [(5, sample_timelock_executor)] = Inr t \<and>
     GetChainSpecificIndex t 0 = Some 1 \<and> GetChainSpecificIndex t 1 = Some 1 \<and> GetChainSpecificIndex t 2 = Some 2"
proof -
  obtain t where t: "NewTimelockExecutable sample_env sample_timelock [(5, sample_timelock_executor)] = Inr t"
    using sample_timelock_executable by blast
  have ne: "[(5, sample_timelock_executor)] \<noteq> []" by simp
  have p: "tle_proposal t = sample_timelock"
    by (rule NewTimelockExecutable_Inr [OF t ne]) simp
  have "GetChainSpecificIndex t (int 0) = Some 1"
    using GetChainSpecificIndex_one_based [of 0 t] by (simp add: p)
  moreover have "GetChainSpecificIndex t (int 1) = Some 1"
    using GetChainSpecificIndex_one_based [of 1 t] by (simp add: p)
  moreover have "GetChainSpecificIndex t (int 2) = Some 2"
    using GetChainSpecificIndex_one_based [of 2 t] by (simp add: p numeral_2_eq_2)
  ultimately show ?thesis using t by auto
qed

end
