(* ===== verification/Builder.thy ===== *)
theory Builder
  imports TimelockProposal
begin

text \<open>
  \<open>builder.go\<close> and \<open>builder_timelock.go\<close>: the builders. A builder is the proposal under construction;
  every setter returns the builder, so a chain of calls is a composition of functions. The setters of
  \<open>BaseProposalBuilder\<close>, generic over the builder in Go, act on every record that extends
  \<open>base_proposal\<close>.
\<close>

section \<open>The generic setters\<close>

definition SetVersion :: "string \<Rightarrow> 'p base_proposal_scheme \<Rightarrow> 'p base_proposal_scheme" where
  "SetVersion version b = b\<lparr>bp_Version := version\<rparr>"

definition SetValidUntil :: "u32 \<Rightarrow> 'p base_proposal_scheme \<Rightarrow> 'p base_proposal_scheme" where
  "SetValidUntil validUntil b = b\<lparr>bp_ValidUntil := validUntil\<rparr>"

definition AddSignature :: "signature \<Rightarrow> 'p base_proposal_scheme \<Rightarrow> 'p base_proposal_scheme" where
  "AddSignature sig b = b\<lparr>bp_Signatures := bp_Signatures b @ [sig]\<rparr>"

definition SetSignatures :: "signature list \<Rightarrow> 'p base_proposal_scheme \<Rightarrow> 'p base_proposal_scheme" where
  "SetSignatures sigs b = b\<lparr>bp_Signatures := sigs\<rparr>"

definition SetOverridePreviousRoot :: "bool \<Rightarrow> 'p base_proposal_scheme \<Rightarrow> 'p base_proposal_scheme" where
  "SetOverridePreviousRoot ov b = b\<lparr>bp_OverridePreviousRoot := ov\<rparr>"

definition AddChainMetadata ::
  "chain_selector \<Rightarrow> chain_metadata \<Rightarrow> 'p base_proposal_scheme \<Rightarrow> 'p base_proposal_scheme" where
  "AddChainMetadata selector metadata b = b\<lparr>bp_ChainMetadata := gm_put selector metadata (bp_ChainMetadata b)\<rparr>"

definition SetChainMetadata ::
  "(chain_selector, chain_metadata) gomap \<Rightarrow> 'p base_proposal_scheme \<Rightarrow> 'p base_proposal_scheme" where
  "SetChainMetadata metadata b = b\<lparr>bp_ChainMetadata := metadata\<rparr>"

definition SetDescription :: "string \<Rightarrow> 'p base_proposal_scheme \<Rightarrow> 'p base_proposal_scheme" where
  "SetDescription description b = b\<lparr>bp_Description := description\<rparr>"

definition SetUseSimulatedBackend :: "bool \<Rightarrow> 'p base_proposal_scheme \<Rightarrow> 'p base_proposal_scheme" where
  "SetUseSimulatedBackend useSim b = b\<lparr>bp_useSimulatedBackend := useSim\<rparr>"

section \<open>MCMS proposals\<close>

definition NewProposalBuilder :: proposal where
  "NewProposalBuilder =
     \<lparr>bp_Version = [], bp_Kind = KindProposal, bp_ValidUntil = 0, bp_Signatures = [], bp_OverridePreviousRoot = False,
      bp_ChainMetadata = [], bp_Description = [], bp_Metadata = None, bp_useSimulatedBackend = False,
      pr_Operations = []\<rparr>"

definition AddOperation :: "operation \<Rightarrow> proposal \<Rightarrow> proposal" where
  "AddOperation op b = b\<lparr>pr_Operations := pr_Operations b @ [op]\<rparr>"

definition SetOperations :: "operation list \<Rightarrow> proposal \<Rightarrow> proposal" where
  "SetOperations ops b = b\<lparr>pr_Operations := ops\<rparr>"

definition Build :: "'e mcms_env_scheme \<Rightarrow> (proposal \<Rightarrow> unit res) \<Rightarrow> proposal \<Rightarrow> proposal res" where
  "Build E struct b = bindE (proposal_Validate E struct b) (\<lambda>_. Inr b)"

section \<open>Timelock proposals\<close>

definition NewTimelockProposalBuilder :: timelock_proposal where
  "NewTimelockProposalBuilder =
     \<lparr>bp_Version = [], bp_Kind = KindTimelockProposal, bp_ValidUntil = 0, bp_Signatures = [],
      bp_OverridePreviousRoot = False, bp_ChainMetadata = [], bp_Description = [], bp_Metadata = None,
      bp_useSimulatedBackend = False,
      tp_Action = OtherAction [], tp_Delay = 0, tp_TimelockAddresses = [], tp_Operations = [], tp_SaltOverride = None\<rparr>"

definition SetAction :: "timelock_action \<Rightarrow> timelock_proposal \<Rightarrow> timelock_proposal" where
  "SetAction action b = b\<lparr>tp_Action := action\<rparr>"

definition SetDelay :: "int \<Rightarrow> timelock_proposal \<Rightarrow> timelock_proposal" where
  "SetDelay delay b = b\<lparr>tp_Delay := delay\<rparr>"

definition SetTimelockAddresses :: "(chain_selector, string) gomap \<Rightarrow> timelock_proposal \<Rightarrow> timelock_proposal" where
  "SetTimelockAddresses addrs b = b\<lparr>tp_TimelockAddresses := addrs\<rparr>"

definition AddTimelockAddress :: "chain_selector \<Rightarrow> string \<Rightarrow> timelock_proposal \<Rightarrow> timelock_proposal" where
  "AddTimelockAddress selector address b =
     b\<lparr>tp_TimelockAddresses := gm_put selector address (tp_TimelockAddresses b)\<rparr>"

definition AddBatchOperation :: "batch_operation \<Rightarrow> timelock_proposal \<Rightarrow> timelock_proposal" where
  "AddBatchOperation bop b = b\<lparr>tp_Operations := tp_Operations b @ [bop]\<rparr>"

definition SetBatchOperations :: "batch_operation list \<Rightarrow> timelock_proposal \<Rightarrow> timelock_proposal" where
  "SetBatchOperations bops b = b\<lparr>tp_Operations := bops\<rparr>"

definition SetSalt :: "hash option \<Rightarrow> timelock_proposal \<Rightarrow> timelock_proposal" where
  "SetSalt salt b = b\<lparr>tp_SaltOverride := salt\<rparr>"

definition BuildTimelock ::
  "'e mcms_env_scheme \<Rightarrow> (timelock_proposal \<Rightarrow> unit res) \<Rightarrow> timelock_proposal \<Rightarrow> timelock_proposal res" where
  "BuildTimelock E struct b = bindE (timelock_Validate E struct b) (\<lambda>_. Inr b)"

section \<open>Lemmas\<close>

text \<open>Adding one by one is setting all at once.\<close>

lemma add_signatures: "fold AddSignature sigs b = b\<lparr>bp_Signatures := bp_Signatures b @ sigs\<rparr>"
  by (induction sigs arbitrary: b) (simp_all add: AddSignature_def)

lemma add_operations: "fold AddOperation ops b = b\<lparr>pr_Operations := pr_Operations b @ ops\<rparr>"
  by (induction ops arbitrary: b) (simp_all add: AddOperation_def)

text \<open>The calls that rebuild a proposal from its parts, adding its operations and signatures singly.\<close>

definition rebuild :: "proposal \<Rightarrow> proposal" where
  "rebuild p = fold AddOperation (pr_Operations p) (fold AddSignature (bp_Signatures p)
     (SetUseSimulatedBackend (bp_useSimulatedBackend p) (SetDescription (bp_Description p)
     (SetChainMetadata (bp_ChainMetadata p) (SetOverridePreviousRoot (bp_OverridePreviousRoot p)
     (SetValidUntil (bp_ValidUntil p) (SetVersion (bp_Version p) NewProposalBuilder)))))))"

definition rebuild_timelock :: "timelock_proposal \<Rightarrow> timelock_proposal" where
  "rebuild_timelock m = SetSalt (tp_SaltOverride m) (SetBatchOperations (tp_Operations m)
     (SetTimelockAddresses (tp_TimelockAddresses m) (SetDelay (tp_Delay m) (SetAction (tp_Action m)
     (SetUseSimulatedBackend (bp_useSimulatedBackend m) (SetDescription (bp_Description m)
     (SetChainMetadata (bp_ChainMetadata m) (SetOverridePreviousRoot (bp_OverridePreviousRoot m)
     (SetSignatures (bp_Signatures m) (SetValidUntil (bp_ValidUntil m) (SetVersion (bp_Version m)
     NewTimelockProposalBuilder)))))))))))"

section \<open>Properties\<close>

text \<open>
  The builders reach every proposal of their kind that has no free-form metadata, which no
  setter can set: rebuilding such a proposal from its parts and building it gives the proposal back
  when it is valid, and the error of its validation when it is not.
\<close>

theorem builders_reach_all:
  assumes "bp_Kind p = KindProposal" and "bp_Metadata p = None"
    and "bp_Kind m = KindTimelockProposal" and "bp_Metadata m = None"
  shows "Build E struct (rebuild p) = bindE (proposal_Validate E struct p) (\<lambda>_. Inr p) \<and>
    BuildTimelock E struct' (rebuild_timelock m) = bindE (timelock_Validate E struct' m) (\<lambda>_. Inr m)"
proof -
  have "rebuild p = p"
    using assms(1,2)
    by (simp add: rebuild_def add_operations add_signatures SetUseSimulatedBackend_def SetDescription_def
        SetChainMetadata_def SetOverridePreviousRoot_def SetValidUntil_def SetVersion_def NewProposalBuilder_def)
  moreover have "rebuild_timelock m = m"
    using assms(3,4)
    by (simp add: rebuild_timelock_def SetSalt_def SetBatchOperations_def SetTimelockAddresses_def SetDelay_def
        SetAction_def SetUseSimulatedBackend_def SetDescription_def SetChainMetadata_def SetOverridePreviousRoot_def
        SetSignatures_def SetValidUntil_def SetVersion_def NewTimelockProposalBuilder_def)
  ultimately show ?thesis by (simp add: Build_def BuildTimelock_def)
qed

theorem builders_reach_all_witness:
  "Build sample_env (\<lambda>_. Inr ()) (rebuild sample_proposal) = Inr sample_proposal"
proof -
  have "bp_Kind sample_proposal = KindProposal" "bp_Metadata sample_proposal = None"
    "bp_Kind sample_timelock = KindTimelockProposal" "bp_Metadata sample_timelock = None"
    by (simp_all add: sample_proposal_def sample_timelock_def)
  from builders_reach_all [OF this, of sample_env "\<lambda>_. Inr ()"] show ?thesis by (simp add: sample_valid)
qed

end
