(* ===== verification/ExecutionError.thy ===== *)
theory ExecutionError
  imports GoText Evm
begin

text \<open>
  \<open>sdk/evm/execution_error.go\<close>: what is reported when a transaction fails. The text of the node's error
  is searched for revert data, the data is decoded with the ABIs of the contracts, and when the
  timelock reverted because of a call of a batch, that call is simulated to learn its own reason.
\<close>

section \<open>What is not in the repository\<close>

text \<open>
  A Go \<open>any\<close> as the ABI unpacker returns it. \<open>AnyList\<close> is a \<open>[]any\<close>, \<open>AnySlice\<close> a slice of another
  element type, a struct lists its exported fields.
\<close>

datatype go_any =
    AnyNil
  | AnyAddress address
  | AnyBigInt "int option"
  | AnyUint8 byte
  | AnyBytes "byte list"
  | AnyCall timelock_call
  | AnyStruct "(string \<times> go_any) list"
  | AnyMap "(string, go_any) gomap"
  | AnyList "go_any list"
  | AnySlice "go_any list"
  | AnyOther string

text \<open>An error and a method of a contract's ABI; an unpacker fails with the text of its error.\<close>

record abi_error =
  ae_Name :: string
  ae_ID :: "byte list"
  ae_Unpack :: "byte list \<Rightarrow> string + go_any"

record abi_method =
  am_ID :: "byte list"
  am_UnpackInputs :: "byte list \<Rightarrow> string + go_any list"

text \<open>\<open>None\<close> stands for an ABI that does not parse, or a method that it does not have.\<close>

record revert_pkg =
  FromHex :: "string \<Rightarrow> byte list"
  Bytes2Hex :: "byte list \<Rightarrow> string"
  hexutil_Decode :: "string \<Rightarrow> byte list res"
  UnpackRevert :: "byte list \<Rightarrow> string res"
  Sprint_v :: "go_any \<Rightarrow> string"
  ManyChainMultiSigErrors :: "abi_error list option"
  RBACTimelockErrors :: "abi_error list option"
  RBACTimelockMethods :: "(string, abi_method) gomap option"

text \<open>Documented: bytes as lower-case hexadecimal digits and back.\<close>

definition hex_documented :: "'r revert_pkg_scheme \<Rightarrow> bool" where
  "hex_documented R \<longleftrightarrow>
     (\<forall>bs. Bytes2Hex R bs = hex_encode bs) \<and>
     (\<forall>bs. FromHex R (''0x'' @ hex_encode bs) = bs) \<and>
     (\<forall>bs. hexutil_Decode R (''0x'' @ hex_encode bs) = Inr bs)"

section \<open>Custom errors\<close>

record custom_error =
  ce_Selector :: "byte list"
  ce_Data :: "byte list"

text \<open>The selector is a \<open>[4]byte\<close>.\<close>

definition custom_error_wf :: "custom_error \<Rightarrow> bool" where
  "custom_error_wf c \<longleftrightarrow> length (ce_Selector c) = 4"

definition selectorSize :: nat where
  "selectorSize = 4"

definition CallRevertedSelector :: "byte list" where
  "CallRevertedSelector = [0x70, 0xde, 0x1b, 0x4b]"

definition revertPrefix :: string where
  "revertPrefix = ''revert:''"

definition errCallRevertedTruncated :: string where
  "errCallRevertedTruncated = ''CallReverted(truncated)''"

text \<open>The methods with a pointer receiver; \<open>None\<close> is the nil pointer.\<close>

definition Combined :: "custom_error option \<Rightarrow> byte list" where
  "Combined c = (case c of None \<Rightarrow> [] | Some c \<Rightarrow> ce_Selector c @ ce_Data c)"

definition HexSelector :: "'r revert_pkg_scheme \<Rightarrow> custom_error option \<Rightarrow> string" where
  "HexSelector R c = (case c of None \<Rightarrow> [] | Some c \<Rightarrow> Bytes2Hex R (ce_Selector c))"

definition CustomErrorData_MarshalJSON :: "'r revert_pkg_scheme \<Rightarrow> custom_error option \<Rightarrow> json" where
  "CustomErrorData_MarshalJSON R c =
     (case c of
        None \<Rightarrow> JNull
      | Some c \<Rightarrow>
          JObj ((''selector'', JStr (''0x'' @ Bytes2Hex R (ce_Selector c))) #
            (if length (ce_Data c) > 0 then [(''data'', JStr (''0x'' @ Bytes2Hex R (ce_Data c)))] else [])))"

text \<open>
  A string field of a struct: \<open>null\<close> and absence leave it empty, another type is an error. A field
  that occurs twice keeps its last value; field names are matched exactly here.
\<close>

definition string_field :: "string \<Rightarrow> json \<Rightarrow> string res" where
  "string_field k v =
     (case v of
        JObj kvs \<Rightarrow>
          (case map_of (rev kvs) k of
             None \<Rightarrow> Inr []
           | Some JNull \<Rightarrow> Inr []
           | Some (JStr s) \<Rightarrow> Inr s
           | Some _ \<Rightarrow> Inl (External ''json: cannot unmarshal into string''))
      | JNull \<Rightarrow> Inr []
      | _ \<Rightarrow> Inl (External ''json: cannot unmarshal into struct''))"

text \<open>Returns the receiver as it is left behind, changed or not.\<close>

definition CustomErrorData_UnmarshalJSON ::
  "'r revert_pkg_scheme \<Rightarrow> custom_error \<Rightarrow> json \<Rightarrow> unit res \<times> custom_error" where
  "CustomErrorData_UnmarshalJSON R c v =
     (case bindE (string_field ''selector'' v) (\<lambda>s. bindE (string_field ''data'' v) (\<lambda>d. Inr (s, d))) of
        Inl err \<Rightarrow> (Inl (Wrapf ''failed to unmarshal CustomErrorData: %w'' err), c)
      | Inr (s, d) \<Rightarrow>
          let c1 = (if s = [] then c
                    else (case hexutil_Decode R s of
                            Inl _ \<Rightarrow> c
                          | Inr selectorBytes \<Rightarrow>
                              if length selectorBytes \<ge> 4 then c\<lparr>ce_Selector := take 4 selectorBytes\<rparr> else c)) in
          if d = [] then (Inr (), c1)
          else (case hexutil_Decode R d of
                  Inl err \<Rightarrow> (Inl (Wrapf ''failed to unmarshal CustomErrorData: %w'' err), c1)
                | Inr dataBytes \<Rightarrow> (Inr (), c1\<lparr>ce_Data := dataBytes\<rparr>)))"

section \<open>Revert data in the text of an error\<close>

definition extractHexEncodedRevertData :: "'r revert_pkg_scheme \<Rightarrow> string \<Rightarrow> byte list" where
  "extractHexEncodedRevertData R errStr =
     (let hexStr = find_hex errStr in if hexStr = [] then [] else FromHex R hexStr)"

definition parseBytesFromString :: "string \<Rightarrow> byte list" where
  "parseBytesFromString s = List.map_filter parse_uint8 (split_fields s)"

definition extractBytesArrayRevertData :: "string \<Rightarrow> byte list" where
  "extractBytesArrayRevertData errStr =
     (case find_bytes_array errStr of None \<Rightarrow> [] | Some bytesStr \<Rightarrow> parseBytesFromString bytesStr)"

definition extractCustomErrorRevertData :: "'r revert_pkg_scheme \<Rightarrow> string \<Rightarrow> custom_error option" where
  "extractCustomErrorRevertData R errStr =
     (case find_custom_error errStr of
        None \<Rightarrow> None
      | Some (sel, dat) \<Rightarrow>
          let selectorBytes = extractHexEncodedRevertData R (''0x'' @ sel) in
          if length selectorBytes \<noteq> selectorSize then None
          else
            let data = extractHexEncodedRevertData R (''0x'' @ filter (\<lambda>c. c \<noteq> CHR '' '') dat) in
            if data = [] then None else Some \<lparr>ce_Selector = selectorBytes, ce_Data = data\<rparr>)"


section \<open>Decoding revert data\<close>

fun join_comma :: "string list \<Rightarrow> string" where
  "join_comma [] = []"
| "join_comma [s] = s"
| "join_comma (s # ss) = s @ '', '' @ join_comma ss"

definition formatDecodedError :: "'r revert_pkg_scheme \<Rightarrow> string \<Rightarrow> go_any list \<Rightarrow> string" where
  "formatDecodedError R errorName decodedValues =
     (if errorName = [] then []
      else if decodedValues = [] then errorName
      else
        let parts = map (Sprint_v R) (filter (\<lambda>v. v \<noteq> AnyNil) decodedValues) in
        if length parts > 0 then errorName @ ''('' @ join_comma parts @ '')'' else errorName)"

text \<open>
  The loop over the map of errors, in the order of the list; the errors of a contract have
  different selectors, so at most one is unpacked.
\<close>

fun errors_loop :: "'r revert_pkg_scheme \<Rightarrow> byte list \<Rightarrow> byte list \<Rightarrow> abi_error list \<Rightarrow> string" where
  "errors_loop R selector data [] = []"
| "errors_loop R selector data (errDef # errs) =
     (if length (ae_ID errDef) < selectorSize then errors_loop R selector data errs
      else if take selectorSize (ae_ID errDef) \<noteq> selector then errors_loop R selector data errs
      else
        (case ae_Unpack errDef (selector @ data) of
           Inl err \<Rightarrow>
             if ae_Name errDef = ''CallReverted'' \<and> contains err ''length insufficient''
             then errCallRevertedTruncated
             else errors_loop R selector data errs
         | Inr decoded \<Rightarrow>
             let values = (case decoded of AnyList vs \<Rightarrow> vs | v \<Rightarrow> [v]);
                 formatted = formatDecodedError R (ae_Name errDef) values in
             if formatted \<noteq> [] then formatted else errors_loop R selector data errs))"

definition decodeErrorBySelector ::
  "'r revert_pkg_scheme \<Rightarrow> byte list \<Rightarrow> byte list \<Rightarrow> abi_error list option \<Rightarrow> string" where
  "decodeErrorBySelector R selector data contractABI =
     (if length selector \<noteq> 4 then []
      else case contractABI of None \<Rightarrow> [] | Some errs \<Rightarrow> errors_loop R selector data errs)"

definition tryDecodeWithContractABIs :: "'r revert_pkg_scheme \<Rightarrow> byte list \<Rightarrow> byte list \<Rightarrow> string" where
  "tryDecodeWithContractABIs R selector data =
     (if length selector \<noteq> selectorSize then []
      else
        let decoded = decodeErrorBySelector R selector data (ManyChainMultiSigErrors R) in
        if decoded \<noteq> [] then decoded else decodeErrorBySelector R selector data (RBACTimelockErrors R))"

definition unpack_revert :: "'r revert_pkg_scheme \<Rightarrow> byte list \<Rightarrow> string" where
  "unpack_revert R data = (case UnpackRevert R data of Inl _ \<Rightarrow> [] | Inr reason \<Rightarrow> reason)"

definition decodeRevertReasonFromCustomError :: "'r revert_pkg_scheme \<Rightarrow> custom_error option \<Rightarrow> string" where
  "decodeRevertReasonFromCustomError R customErr =
     (case customErr of
        None \<Rightarrow> []
      | Some c \<Rightarrow>
          let decoded = tryDecodeWithContractABIs R (ce_Selector c) (ce_Data c) in
          if decoded \<noteq> [] then decoded else unpack_revert R (Combined (Some c)))"

definition decodeRevertReason :: "'r revert_pkg_scheme \<Rightarrow> byte list \<Rightarrow> string" where
  "decodeRevertReason R data =
     (if length data < selectorSize then []
      else
        let decoded = tryDecodeWithContractABIs R (take selectorSize data) (drop 4 data) in
        if decoded \<noteq> [] then decoded else unpack_revert R data)"

record revert_reason =
  rr_RawData :: "byte list"
  rr_Decoded :: string
  rr_CustomError :: "custom_error option"

definition no_reason :: revert_reason where
  "no_reason = \<lparr>rr_RawData = [], rr_Decoded = [], rr_CustomError = None\<rparr>"

definition raw_reason :: "'r revert_pkg_scheme \<Rightarrow> byte list \<Rightarrow> revert_reason" where
  "raw_reason R rawData =
     \<lparr>rr_RawData = rawData, rr_Decoded = decodeRevertReason R rawData, rr_CustomError = None\<rparr>"

text \<open>The text after the first \<open>revert:\<close>, trimmed.\<close>

definition plain_reason :: "string \<Rightarrow> string" where
  "plain_reason errStr =
     (case index_of revertPrefix errStr of
        None \<Rightarrow> []
      | Some i \<Rightarrow> trim_space (drop (i + length revertPrefix) errStr))"

text \<open>An error is given by its text, \<open>None\<close> is the nil error.\<close>

definition extractRevertReasonFromError :: "'r revert_pkg_scheme \<Rightarrow> string option \<Rightarrow> revert_reason" where
  "extractRevertReasonFromError R err =
     (case err of
        None \<Rightarrow> no_reason
      | Some errStr \<Rightarrow>
          if plain_reason errStr \<noteq> [] then no_reason\<lparr>rr_Decoded := plain_reason errStr\<rparr>
          else
            let customErr = (if contains errStr ''custom error'' then extractCustomErrorRevertData R errStr else None) in
            if customErr \<noteq> None
            then \<lparr>rr_RawData = Combined customErr, rr_Decoded = decodeRevertReasonFromCustomError R customErr,
                  rr_CustomError = customErr\<rparr>
            else if contains errStr ''CallReverted'' \<and> extractBytesArrayRevertData errStr \<noteq> []
            then raw_reason R (extractBytesArrayRevertData errStr)
            else if extractHexEncodedRevertData R errStr \<noteq> []
            then raw_reason R (extractHexEncodedRevertData R errStr)
            else if extractBytesArrayRevertData errStr \<noteq> []
            then raw_reason R (extractBytesArrayRevertData errStr)
            else no_reason)"

definition extractRevertDataFromCallError :: "'r revert_pkg_scheme \<Rightarrow> string option \<Rightarrow> byte list" where
  "extractRevertDataFromCallError R err =
     (case err of
        None \<Rightarrow> []
      | Some errStr \<Rightarrow>
          if extractHexEncodedRevertData R errStr \<noteq> [] then extractHexEncodedRevertData R errStr
          else extractBytesArrayRevertData errStr)"

section \<open>The call of a batch that reverted\<close>

definition newTimelockCall :: "address \<Rightarrow> int option \<Rightarrow> byte list \<Rightarrow> timelock_call option" where
  "newTimelockCall target value data =
     (if target = 0 then None else Some \<lparr>tc_Target = target, tc_Value = value, tc_Data = data\<rparr>)"

text \<open>Type assertions: the zero value of the type when the dynamic type is another one.\<close>

definition as_address :: "go_any option \<Rightarrow> address option" where
  "as_address v = (case v of Some (AnyAddress a) \<Rightarrow> Some a | _ \<Rightarrow> None)"

definition as_big_int :: "go_any option \<Rightarrow> int option option" where
  "as_big_int v = (case v of Some (AnyBigInt i) \<Rightarrow> Some i | _ \<Rightarrow> None)"

definition bytesFromValue :: "go_any option \<Rightarrow> byte list" where
  "bytesFromValue v = (case v of Some (AnyBytes bs) \<Rightarrow> bs | _ \<Rightarrow> [])"

definition zero_or :: "'a \<Rightarrow> 'a option \<Rightarrow> 'a" where
  "zero_or z v = (case v of None \<Rightarrow> z | Some x \<Rightarrow> x)"

text \<open>A struct seen through \<open>reflect\<close>: its exported fields.\<close>

definition struct_fields :: "go_any \<Rightarrow> (string \<times> go_any) list option" where
  "struct_fields v =
     (case v of
        AnyStruct fs \<Rightarrow> Some fs
      | AnyCall c \<Rightarrow> Some [(''Target'', AnyAddress (tc_Target c)), (''Value'', AnyBigInt (tc_Value c)),
                           (''Data'', AnyBytes (tc_Data c))]
      | _ \<Rightarrow> None)"

definition addressFromField :: "(string \<times> go_any) list \<Rightarrow> string \<Rightarrow> address" where
  "addressFromField fs name = zero_or 0 (as_address (map_of fs name))"

definition bigIntFromField :: "(string \<times> go_any) list \<Rightarrow> string \<Rightarrow> int option" where
  "bigIntFromField fs name = zero_or None (as_big_int (map_of fs name))"

definition bytesFromField :: "(string \<times> go_any) list \<Rightarrow> string \<Rightarrow> byte list" where
  "bytesFromField fs name = bytesFromValue (map_of fs name)"

definition extractCallFromStruct :: "go_any \<Rightarrow> timelock_call option" where
  "extractCallFromStruct call =
     (case struct_fields call of
        None \<Rightarrow> None
      | Some fs \<Rightarrow>
          let target = addressFromField fs ''Target'' in
          if target = 0 then None
          else newTimelockCall target (bigIntFromField fs ''Value'') (bytesFromField fs ''Data''))"

fun addressFromMap :: "(string, go_any) gomap \<Rightarrow> string list \<Rightarrow> address" where
  "addressFromMap m [] = 0"
| "addressFromMap m (key # keys) =
     (case as_address (gm_get m key) of Some addr \<Rightarrow> addr | None \<Rightarrow> addressFromMap m keys)"

fun bigIntFromMap :: "(string, go_any) gomap \<Rightarrow> string list \<Rightarrow> int option" where
  "bigIntFromMap m [] = None"
| "bigIntFromMap m (key # keys) =
     (case as_big_int (gm_get m key) of Some val \<Rightarrow> val | None \<Rightarrow> bigIntFromMap m keys)"

fun bytesFromMap :: "(string, go_any) gomap \<Rightarrow> string list \<Rightarrow> byte list" where
  "bytesFromMap m [] = []"
| "bytesFromMap m (key # keys) =
     (let data = bytesFromValue (gm_get m key) in if length data > 0 then data else bytesFromMap m keys)"

definition extractCallFromMap :: "go_any \<Rightarrow> timelock_call option" where
  "extractCallFromMap call =
     (case call of
        AnyMap callMap \<Rightarrow>
          let target = addressFromMap callMap [''target'', ''Target''] in
          if target = 0 then None
          else newTimelockCall target (bigIntFromMap callMap [''value'', ''Value''])
                 (bytesFromMap callMap [''data'', ''Data''])
      | _ \<Rightarrow> None)"

definition extractCallFromTuple :: "go_any \<Rightarrow> timelock_call option" where
  "extractCallFromTuple call =
     (case call of
        AnyList callSlice \<Rightarrow>
          if length callSlice < 3 then None
          else
            let target = zero_or 0 (as_address (Some (callSlice ! 0))) in
            if target = 0 then None
            else newTimelockCall target (zero_or None (as_big_int (Some (callSlice ! 1))))
                   (bytesFromValue (Some (callSlice ! 2)))
      | _ \<Rightarrow> None)"

definition extractCallFields :: "go_any \<Rightarrow> timelock_call option" where
  "extractCallFields call =
     (case call of
        AnyCall c \<Rightarrow> Some c
      | _ \<Rightarrow>
          (case extractCallFromStruct call of
             Some c \<Rightarrow> Some c
           | None \<Rightarrow>
               (case extractCallFromMap call of
                  Some c \<Rightarrow> Some c
                | None \<Rightarrow> extractCallFromTuple call)))"

text \<open>The elements of a value of kind \<open>reflect.Slice\<close>.\<close>

definition slice_elements :: "go_any \<Rightarrow> go_any list option" where
  "slice_elements v =
     (case v of
        AnyList xs \<Rightarrow> Some xs
      | AnySlice xs \<Rightarrow> Some xs
      | AnyBytes bs \<Rightarrow> Some (map AnyUint8 bs)
      | _ \<Rightarrow> None)"

definition firstTimelockCallArgument :: "byte list \<Rightarrow> abi_method \<Rightarrow> go_any option" where
  "firstTimelockCallArgument callData method =
     (if length callData < selectorSize then None
      else case am_UnpackInputs method (drop selectorSize callData) of
        Inl _ \<Rightarrow> None
      | Inr args \<Rightarrow>
          (case args of
             [] \<Rightarrow> None
           | arg # _ \<Rightarrow>
               (case slice_elements arg of
                  Some (x # _) \<Rightarrow> if x = AnyNil then None else Some x
                | _ \<Rightarrow> None)))"

definition extractCallFromMethod :: "byte list \<Rightarrow> abi_method \<Rightarrow> timelock_call option" where
  "extractCallFromMethod callData method =
     (case firstTimelockCallArgument callData method of
        None \<Rightarrow> None
      | Some (AnyCall c) \<Rightarrow> Some c
      | Some firstCall \<Rightarrow> extractCallFields firstCall)"

text \<open>Whether the call data starts with the selector of the method.\<close>

definition calls_method :: "byte list \<Rightarrow> abi_method \<Rightarrow> bool" where
  "calls_method callData method \<longleftrightarrow> length (am_ID method) \<ge> 4 \<and> take 4 callData = take 4 (am_ID method)"

definition extractUnderlyingCall :: "'r revert_pkg_scheme \<Rightarrow> byte list \<Rightarrow> timelock_call option" where
  "extractUnderlyingCall R timelockCallData =
     (if length timelockCallData < selectorSize then None
      else case RBACTimelockMethods R of
        None \<Rightarrow> None
      | Some methods \<Rightarrow>
          let tryMethod = (\<lambda>name. case gm_get methods name of
                None \<Rightarrow> None
              | Some method \<Rightarrow>
                  if calls_method timelockCallData method then extractCallFromMethod timelockCallData method else None) in
          (case tryMethod ''bypasserExecuteBatch'' of
             Some result \<Rightarrow> Some result
           | None \<Rightarrow> tryMethod ''executeBatch''))"


section \<open>The client\<close>

record call_msg =
  cmsg_From :: address
  cmsg_To :: address
  cmsg_Value :: "int option"
  cmsg_Data :: "byte list"
  cmsg_Gas :: u64

text \<open>
  \<open>ContractDeployBackend\<close>: reads of the chain in the world \<open>'w\<close>, failing with the text of an error. A
  nil client is \<open>None\<close>.
\<close>

record 'w eth_client =
  CodeAt :: "address \<Rightarrow> 'w \<Rightarrow> string + byte list"
  CallContract :: "call_msg \<Rightarrow> 'w \<Rightarrow> string + byte list"

text \<open>\<open>bind.TransactOpts\<close>; the fields the repository does not read are the extension.\<close>

record transact_opts =
  opts_Nonce :: "int option"
  opts_GasPrice :: "int option"
  opts_GasFeeCap :: "int option"
  opts_GasTipCap :: "int option"
  opts_GasLimit :: u64

text \<open>The two kinds of \<open>gethtypes.Transaction\<close> that are built, unsigned.\<close>

datatype geth_tx =
    DynamicFeeTx (gtx_Nonce: u64) (gtx_GasTipCap: int) (gtx_GasFeeCap: int) (gtx_Gas: u64) (gtx_To: address)
      (gtx_Data: "byte list")
  | LegacyTx (gtx_Nonce: u64) (gtx_To: address) (gtx_Gas: u64) (gtx_GasPrice: int) (gtx_Data: "byte list")

section \<open>The execution error\<close>

record execution_error =
  ee_Transaction :: "geth_tx option"
  ee_RevertReasonRaw :: "custom_error option"
  ee_RevertReasonDecoded :: string
  ee_UnderlyingReasonRaw :: string
  ee_UnderlyingReasonDecoded :: string
  ee_OriginalError :: "string option"

text \<open>\<open>%v\<close> of a nil error is \<open><nil>\<close>.\<close>

definition ExecutionError_Error :: "'r revert_pkg_scheme \<Rightarrow> execution_error \<Rightarrow> string" where
  "ExecutionError_Error R e =
     (let original = (case ee_OriginalError e of None \<Rightarrow> ''<nil>'' | Some s \<Rightarrow> s);
          failed = ''execution failed: '' @ original in
      if ee_UnderlyingReasonDecoded e \<noteq> []
      then failed @ '' (underlying reason: '' @ ee_UnderlyingReasonDecoded e @ '')''
      else if ee_UnderlyingReasonRaw e \<noteq> []
      then failed @ '' (underlying reason: '' @ ee_UnderlyingReasonRaw e @ '')''
      else if ee_RevertReasonDecoded e \<noteq> []
      then failed @ '' (revert reason: '' @ ee_RevertReasonDecoded e @ '')''
      else if ee_RevertReasonRaw e \<noteq> None \<and> length (Combined (ee_RevertReasonRaw e)) > 0
      then failed @ '' (raw revert data: '' @ Bytes2Hex R (Combined (ee_RevertReasonRaw e)) @ '')''
      else failed)"

definition ExecutionError_Unwrap :: "execution_error \<Rightarrow> string option" where
  "ExecutionError_Unwrap e = ee_OriginalError e"

subsection \<open>JSON\<close>

text \<open>
  \<open>txJSON\<close> and \<open>txFromJSON\<close> are \<open>go-ethereum\<close>'s encoding of a transaction. The fields of the embedded
  alias come first, \<open>OriginalError\<close> only when it is not empty.
\<close>

definition ExecutionError_MarshalJSON ::
  "'r revert_pkg_scheme \<Rightarrow> (geth_tx \<Rightarrow> json) \<Rightarrow> execution_error option \<Rightarrow> json" where
  "ExecutionError_MarshalJSON R txJSON e =
     (case e of
        None \<Rightarrow> JNull
      | Some e \<Rightarrow>
          JObj ([(''Transaction'', case ee_Transaction e of None \<Rightarrow> JNull | Some tx \<Rightarrow> txJSON tx),
                 (''RevertReasonRaw'', CustomErrorData_MarshalJSON R (ee_RevertReasonRaw e)),
                 (''RevertReasonDecoded'', JStr (ee_RevertReasonDecoded e)),
                 (''UnderlyingReasonRaw'', JStr (ee_UnderlyingReasonRaw e)),
                 (''UnderlyingReasonDecoded'', JStr (ee_UnderlyingReasonDecoded e))] @
                (case ee_OriginalError e of
                   None \<Rightarrow> []
                 | Some s \<Rightarrow> if s = [] then [] else [(''OriginalError'', JStr s)])))"

text \<open>A pointer field: \<open>null\<close> and absence leave it nil.\<close>

definition pointer_field :: "string \<Rightarrow> (json \<Rightarrow> 'a res) \<Rightarrow> (string, json) gomap \<Rightarrow> 'a option res" where
  "pointer_field k decode m =
     (case gm_get m k of
        None \<Rightarrow> Inr None
      | Some JNull \<Rightarrow> Inr None
      | Some v \<Rightarrow> bindE (decode v) (\<lambda>x. Inr (Some x)))"

text \<open>
  The receiver is changed only when everything decodes. The map is written back to text and read
  again without \<open>OriginalError\<close>; the values of that text are those of the map. An absent original
  error leaves the receiver's.
\<close>

definition ExecutionError_UnmarshalJSON ::
  "'r revert_pkg_scheme \<Rightarrow> (json \<Rightarrow> geth_tx res) \<Rightarrow> execution_error \<Rightarrow> raw \<Rightarrow> unit res \<times> execution_error" where
  "ExecutionError_UnmarshalJSON R txFromJSON e data =
     (case wrapE (Wrapf ''error unmarshaling ExecutionError: %w'') (unmarshal_map data) of
        Inl err \<Rightarrow> (Inl err, e)
      | Inr jsonMap0 \<Rightarrow>
          let jsonMap = (case jsonMap0 of None \<Rightarrow> [] | Some m \<Rightarrow> m);
              originalErr = (case gm_get jsonMap ''OriginalError'' of
                               Some (JStr s) \<Rightarrow> if s = [] then None else Some s
                             | _ \<Rightarrow> None);
              clean = filter (\<lambda>(k, _). k \<noteq> ''OriginalError'') jsonMap;
              newRaw = (\<lambda>v. case CustomErrorData_UnmarshalJSON R \<lparr>ce_Selector = replicate 4 0, ce_Data = []\<rparr> v of
                              (Inl err, _) \<Rightarrow> Inl err
                            | (Inr _, c) \<Rightarrow> Inr c) in
          (case wrapE (Wrapf ''error unmarshaling ExecutionError fields: %w'')
                  (bindE (pointer_field ''Transaction'' txFromJSON clean) (\<lambda>tx.
                   bindE (pointer_field ''RevertReasonRaw'' newRaw clean) (\<lambda>rawReason.
                   bindE (string_field ''RevertReasonDecoded'' (JObj clean)) (\<lambda>decoded.
                   bindE (string_field ''UnderlyingReasonRaw'' (JObj clean)) (\<lambda>underRaw.
                   bindE (string_field ''UnderlyingReasonDecoded'' (JObj clean)) (\<lambda>underDecoded.
                     Inr \<lparr>ee_Transaction = tx, ee_RevertReasonRaw = rawReason, ee_RevertReasonDecoded = decoded,
                          ee_UnderlyingReasonRaw = underRaw, ee_UnderlyingReasonDecoded = underDecoded,
                          ee_OriginalError = (if originalErr \<noteq> None then originalErr else ee_OriginalError e)\<rparr>)))))) of
             Inl err \<Rightarrow> (Inl err, e)
           | Inr e' \<Rightarrow> (Inr (), e')))"

section \<open>Building the error\<close>

definition callProxyRuntimePrefix :: "byte list" where
  "callProxyRuntimePrefix = [0x60, 0x80, 0x60, 0x40, 0x52, 0x7f]"

definition callProxyRuntimeSuffix :: "byte list" where
  "callProxyRuntimeSuffix =
     [0x36, 0x60, 0x00, 0x80, 0x37, 0x60, 0x00, 0x80, 0x36, 0x60, 0x00, 0x34, 0x85, 0x5a, 0xf1, 0x3d,
      0x60, 0x00, 0x80, 0x3e, 0x80, 0x15, 0x60, 0x43, 0x57, 0x3d, 0x60, 0x00, 0xf3, 0x5b, 0x50, 0x3d,
      0x60, 0x00, 0xfd]"

text \<open>\<open>BytesToAddress\<close> keeps the last 20 bytes.\<close>

definition callProxyTargetFromRuntime :: "byte list \<Rightarrow> address option" where
  "callProxyTargetFromRuntime code =
     (let targetOffset = length callProxyRuntimePrefix; suffixOffset = targetOffset + 32 in
      if length code < suffixOffset + length callProxyRuntimeSuffix then None
      else if take targetOffset code \<noteq> callProxyRuntimePrefix then None
      else if take (length callProxyRuntimeSuffix) (drop suffixOffset code) \<noteq> callProxyRuntimeSuffix then None
      else Some (from_be (take 32 (drop targetOffset code))))"

definition resolveUnderlyingCallSender :: "address \<Rightarrow> ('w, 'm) eth_client_scheme option \<Rightarrow> 'w \<Rightarrow> address" where
  "resolveUnderlyingCallSender executionAddr client w =
     (case client of
        None \<Rightarrow> executionAddr
      | Some cl \<Rightarrow>
          if executionAddr = 0 then executionAddr
          else (case CodeAt cl executionAddr w of
                  Inl _ \<Rightarrow> executionAddr
                | Inr code \<Rightarrow>
                    (case callProxyTargetFromRuntime code of
                       Some targetAddress \<Rightarrow> targetAddress
                     | None \<Rightarrow> executionAddr)))"

text \<open>The raw and the decoded reason out of the text of the simulation's error.\<close>

definition underlying_reasons :: "'r revert_pkg_scheme \<Rightarrow> string \<Rightarrow> string \<times> string" where
  "underlying_reasons R errStr =
     (if \<not> contains errStr ''execution reverted'' \<and> \<not> contains errStr ''revert'' then ([], [])
      else
        let revertDataBytes = extractRevertDataFromCallError R (Some errStr);
            raw1 = (if length revertDataBytes > 0 then ''0x'' @ Bytes2Hex R revertDataBytes else []);
            decoded1 = (if length revertDataBytes > 0 then decodeRevertReason R revertDataBytes else []);
            revertData = extractRevertReasonFromError R (Some errStr);
            raw2 = (if length (rr_RawData revertData) > 0 \<and> raw1 = []
                    then ''0x'' @ Bytes2Hex R (rr_RawData revertData) else raw1);
            decoded2 = (if decoded1 = [] \<and> rr_Decoded revertData \<noteq> [] then rr_Decoded revertData else decoded1);
            raw3 = (if raw2 = [] \<and> rr_Decoded revertData \<noteq> [] then rr_Decoded revertData else raw2);
            raw4 = (if raw3 = [] then plain_reason errStr else raw3);
            raw5 = (if raw4 = [] then errStr else raw4) in
        (raw5, decoded2))"

definition getUnderlyingRevertReason ::
  "'r revert_pkg_scheme \<Rightarrow> address \<Rightarrow> byte list \<Rightarrow> 'o transact_opts_scheme option \<Rightarrow> ('w, 'm) eth_client_scheme option \<Rightarrow> 'w \<Rightarrow>
     string \<times> string" where
  "getUnderlyingRevertReason R timelockAddr timelockCallData opts client w =
     (case (client, opts) of
        (Some cl, Some o') \<Rightarrow>
          if timelockAddr = 0 \<or> length timelockCallData = 0 then ([], [])
          else (case extractUnderlyingCall R timelockCallData of
            None \<Rightarrow> ([], [])
          | Some underlyingCall \<Rightarrow>
              (case CallContract cl
                      \<lparr>cmsg_From = timelockAddr, cmsg_To = tc_Target underlyingCall, cmsg_Value = tc_Value underlyingCall,
                       cmsg_Data = tc_Data underlyingCall, cmsg_Gas = opts_GasLimit o'\<rparr> w of
                 Inr _ \<Rightarrow> ([], [])
               | Inl errStr \<Rightarrow> underlying_reasons R errStr))
      | _ \<Rightarrow> ([], []))"

definition raw_custom_error :: "revert_reason \<Rightarrow> custom_error option" where
  "raw_custom_error revertData =
     (if rr_CustomError revertData \<noteq> None then rr_CustomError revertData
      else if length (rr_RawData revertData) > 0 then
        if length (rr_RawData revertData) \<ge> selectorSize
        then Some \<lparr>ce_Selector = take selectorSize (rr_RawData revertData),
                   ce_Data = drop selectorSize (rr_RawData revertData)\<rparr>
        else Some \<lparr>ce_Selector = replicate selectorSize 0, ce_Data = rr_RawData revertData\<rparr>
      else None)"

definition underlyingReverted :: string where
  "underlyingReverted = ''RBACTimelock: underlying transaction reverted''"

definition BuildExecutionError ::
  "'r revert_pkg_scheme \<Rightarrow> string option \<Rightarrow> geth_tx \<Rightarrow> 'o transact_opts_scheme option \<Rightarrow> address \<Rightarrow> ('w, 'm) eth_client_scheme option \<Rightarrow>
     address \<Rightarrow> byte list \<Rightarrow> 'w \<Rightarrow> execution_error option" where
  "BuildExecutionError R err txPreview opts contractAddr client timelockAddr timelockCallData w =
     (case err of
        None \<Rightarrow> None
      | Some errStr \<Rightarrow>
          let revertData = extractRevertReasonFromError R err;
              rawReason = raw_custom_error revertData;
              decoded = rr_Decoded revertData;
              isCallReverted =
                contains errStr ''CallReverted'' \<or> contains decoded ''CallReverted'' \<or>
                (case rawReason of None \<Rightarrow> False | Some c \<Rightarrow> ce_Selector c = CallRevertedSelector) \<or>
                length (rr_RawData revertData) \<ge> selectorSize \<and> take 4 (rr_RawData revertData) = CallRevertedSelector;
              (underRaw, underDecoded) =
                (if contains errStr underlyingReverted \<or> contains decoded underlyingReverted \<or>
                    isCallReverted \<and> timelockAddr \<noteq> 0 \<and> length timelockCallData > 0
                 then getUnderlyingRevertReason R (resolveUnderlyingCallSender timelockAddr client w) timelockCallData
                        opts client w
                 else ([], [])) in
          Some \<lparr>ee_Transaction = Some txPreview, ee_RevertReasonRaw = rawReason, ee_RevertReasonDecoded = decoded,
                ee_UnderlyingReasonRaw = underRaw, ee_UnderlyingReasonDecoded = underDecoded,
                ee_OriginalError = Some errStr\<rparr>)"


section \<open>Lemmas\<close>

lemma hex_digit_char: "n < 16 \<Longrightarrow> hex_digit n \<in> set ''0123456789abcdef''"
  unfolding hex_digit_def by (rule nth_mem) simp

lemma hex_encode_subset: "(\<And>b. set (hex_byte b) \<subseteq> S) \<Longrightarrow> set (hex_encode bs) \<subseteq> S"
  by (induction bs) (auto simp: hex_encode_def)

lemma set_hex_encode: "set (hex_encode bs) \<subseteq> set ''0123456789abcdef''"
proof -
  have "set (hex_byte b) \<subseteq> set ''0123456789abcdef''" for b
  proof -
    have "unat b div 16 < 16" using unsigned_less [of b, where 'a = nat] by simp
    then show ?thesis
      unfolding hex_byte_def using hex_digit_char [of "unat b div 16"] hex_digit_char [of "unat b mod 16"]
      by (simp only: list.set insert_subset empty_subsetI mod_less_divisor simp_thms zero_less_numeral)
  qed
  then show ?thesis by (rule hex_encode_subset)
qed

lemma hex_encode_is_hex: "list_all is_hex (hex_encode bs)"
proof -
  have "\<forall>c \<in> set ''0123456789abcdef''. is_hex c" by (simp add: is_hex_def is_digit_def)
  with set_hex_encode [of bs] show ?thesis unfolding list_all_iff by blast
qed

lemma hex_encode_not_space: "c \<in> set (hex_encode bs) \<Longrightarrow> \<not> re_space c \<and> c \<noteq> CHR '' '' \<and> c \<noteq> CHR ''r''"
proof -
  have "\<forall>c \<in> set ''0123456789abcdef''. \<not> re_space c \<and> c \<noteq> CHR '' '' \<and> c \<noteq> CHR ''r''"
    by (simp add: re_space_def)
  with set_hex_encode [of bs] show "c \<in> set (hex_encode bs) \<Longrightarrow> ?thesis" by blast
qed

lemma length_hex_encode [simp]: "length (hex_encode bs) = 2 * length bs"
  by (induction bs) (simp_all add: hex_encode_def hex_byte_def)

lemma hex_encode_Nil_iff [simp]: "hex_encode bs = [] \<longleftrightarrow> bs = []"
  by (cases bs) (simp_all add: hex_encode_def hex_byte_def)

lemma takeWhile_hex_encode: "takeWhile is_hex (hex_encode bs) = hex_encode bs"
  using hex_encode_is_hex by (simp add: takeWhile_eq_all_conv list_all_iff)

lemma find_hex_encode: "bs \<noteq> [] \<Longrightarrow> find_hex (''0x'' @ hex_encode bs) = ''0x'' @ hex_encode bs"
  by (simp add: takeWhile_hex_encode)

lemma extract_hex_encode:
  "hex_documented R \<Longrightarrow> extractHexEncodedRevertData R (''0x'' @ hex_encode bs) = bs"
proof (cases "bs = []")
  case True
  then show ?thesis by (simp add: extractHexEncodedRevertData_def hex_encode_def)
next
  case False
  assume "hex_documented R"
  with False show ?thesis
    unfolding extractHexEncodedRevertData_def Let_def find_hex_encode [OF False] by (simp add: hex_documented_def)
qed

lemma index_of_absent: "c \<in> set sub \<Longrightarrow> c \<notin> set s \<Longrightarrow> index_of sub s = None"
  using index_of_sublist [of sub s] set_mono_sublist [of sub s] by blast

lemma find_custom_error_skip:
  "\<not> prefix ''custom error 0x'' (c # s) \<Longrightarrow> find_custom_error (c # s) = find_custom_error s"
  by (subst find_custom_error.simps(2)) (simp only: Let_def simp_thms if_False)

text \<open>A custom error printed by the node is found again.\<close>

lemma find_custom_error_here:
  assumes "length selector = 4" and "data \<noteq> []"
  shows "find_custom_error (''custom error 0x'' @ hex_encode selector @ '': '' @ hex_encode data) =
    Some (hex_encode selector, hex_encode data)"
proof -
  have hd: "\<not> re_space (hd (hex_encode data))" "hex_encode data \<noteq> []"
    using assms(2) hex_encode_not_space [of "hd (hex_encode data)" data] by simp_all
  then have blanks: "takeWhile re_space (CHR '' '' # hex_encode data) = '' ''"
    "dropWhile re_space (CHR '' '' # hex_encode data) = hex_encode data"
    by (cases "hex_encode data"; simp add: re_space_def)+
  have body: "takeWhile (\<lambda>d. is_hex d \<or> re_space d) (hex_encode data) = hex_encode data"
    using hex_encode_is_hex [of data] by (simp add: takeWhile_eq_all_conv list_all_iff)
  have "find_custom_error (CHR ''c'' # ''ustom error 0x'' @ hex_encode selector @ '': '' @ hex_encode data) =
      Some (hex_encode selector, hex_encode data)"
    using assms hd hex_encode_is_hex [of selector] by (simp add: Let_def blanks body del: takeWhile.simps dropWhile.simps)
  then show ?thesis by simp
qed

lemma extract_custom_error:
  assumes "hex_documented R" and "length selector = 4" and "data \<noteq> []"
    and "find_custom_error s = Some (hex_encode selector, hex_encode data)"
  shows "extractCustomErrorRevertData R s = Some \<lparr>ce_Selector = selector, ce_Data = data\<rparr>"
proof -
  have "filter (\<lambda>c. c \<noteq> CHR '' '') (hex_encode data) = hex_encode data"
    using hex_encode_not_space by (simp add: filter_id_conv)
  with assms show ?thesis
    by (simp add: extractCustomErrorRevertData_def Let_def selectorSize_def
        extract_hex_encode [OF assms(1), of selector, simplified] extract_hex_encode [OF assms(1), of data, simplified])
qed


text \<open>The text of a node for a custom error, and the text of an error that merely names an address.\<close>

definition custom_error_text :: "byte list \<Rightarrow> byte list \<Rightarrow> string" where
  "custom_error_text selector data =
     ''execution reverted: custom error 0x'' @ hex_encode selector @ '': '' @ hex_encode data"

definition funds_error_text :: "byte list \<Rightarrow> string" where
  "funds_error_text addr = ''insufficient funds for gas: address 0x'' @ hex_encode addr @ '' have 0''"

lemma hex_encode_absent: "c \<notin> set ''0123456789abcdef'' \<Longrightarrow> c \<notin> set (hex_encode bs)"
  using set_hex_encode by blast

lemma custom_error_text_no_plain: "plain_reason (custom_error_text selector data) = []"
proof -
  have "index_of ''revert:'' (hex_encode selector @ CHR '':'' # CHR '' '' # hex_encode data) = None"
    by (rule index_of_absent [of "CHR ''r''"]) (simp_all add: hex_encode_absent)
  then have "index_of revertPrefix (custom_error_text selector data) = None"
    by (simp add: revertPrefix_def custom_error_text_def)
  then show ?thesis by (simp add: plain_reason_def)
qed

lemma find_custom_error_text:
  "length selector = 4 \<Longrightarrow> data \<noteq> [] \<Longrightarrow>
     find_custom_error (custom_error_text selector data) = Some (hex_encode selector, hex_encode data)"
  using find_custom_error_here [of selector data]
  by (simp add: custom_error_text_def find_custom_error_skip del: find_custom_error.simps)

lemma contains_custom_error: "contains (custom_error_text selector data) ''custom error''"
proof -
  have "custom_error_text selector data =
      ''execution reverted: '' @ ''custom error'' @ '' 0x'' @ hex_encode selector @ '': '' @ hex_encode data"
    by (simp add: custom_error_text_def)
  then show ?thesis unfolding contains_iff by (metis sublist_appendI)
qed

lemma extract_custom_error_text:
  assumes "hex_documented R" and "length selector = 4" and "data \<noteq> []"
  shows "extractRevertReasonFromError R (Some (custom_error_text selector data)) =
    \<lparr>rr_RawData = selector @ data, rr_Decoded = decodeRevertReason R (selector @ data),
     rr_CustomError = Some \<lparr>ce_Selector = selector, ce_Data = data\<rparr>\<rparr>"
proof -
  have "extractCustomErrorRevertData R (custom_error_text selector data) = Some \<lparr>ce_Selector = selector, ce_Data = data\<rparr>"
    using assms find_custom_error_text by (intro extract_custom_error) simp_all
  moreover have "decodeRevertReasonFromCustomError R (Some \<lparr>ce_Selector = selector, ce_Data = data\<rparr>) =
      decodeRevertReason R (selector @ data)"
    using assms(2) by (simp add: decodeRevertReasonFromCustomError_def decodeRevertReason_def selectorSize_def Combined_def
        Let_def)
  ultimately show ?thesis
    using contains_custom_error [of selector data]
    by (simp add: extractRevertReasonFromError_def custom_error_text_no_plain Combined_def del: contains_iff)
qed

lemma funds_error_text_raw:
  assumes "hex_documented R" and "addr \<noteq> []"
  shows "extractRevertReasonFromError R (Some (funds_error_text addr)) = raw_reason R addr"
proof -
  let ?t = "hex_encode addr @ '' have 0''"
  have "index_of ''revert:'' ?t = None" "index_of ''custom error'' ?t = None" "index_of ''CallReverted'' ?t = None"
    by (rule index_of_absent [of "CHR ''r''"], simp_all add: hex_encode_absent)+
  then have none: "index_of revertPrefix (funds_error_text addr) = None"
    "\<not> contains (funds_error_text addr) ''custom error''" "\<not> contains (funds_error_text addr) ''CallReverted''"
    by (simp_all add: revertPrefix_def funds_error_text_def contains_def del: contains_iff)
  have "takeWhile is_hex ?t = hex_encode addr"
    using hex_encode_is_hex [of addr] by (simp add: list_all_iff takeWhile_append2 is_hex_def is_digit_def)
  then have "find_hex (funds_error_text addr) = ''0x'' @ hex_encode addr"
    using assms(2) by (simp add: funds_error_text_def)
  then have "extractHexEncodedRevertData R (funds_error_text addr) = addr"
    using assms(1) unfolding extractHexEncodedRevertData_def by (simp add: hex_documented_def)
  with none assms(2) show ?thesis
    by (simp add: extractRevertReasonFromError_def plain_reason_def del: contains_iff)
qed

lemma BuildExecutionError_Some:
  "\<exists>e. BuildExecutionError R (Some s) tx opts a client timelock calldata w = Some e \<and> ee_Transaction e = Some tx \<and>
     ee_RevertReasonRaw e = raw_custom_error (extractRevertReasonFromError R (Some s)) \<and>
     ee_RevertReasonDecoded e = rr_Decoded (extractRevertReasonFromError R (Some s)) \<and> ee_OriginalError e = Some s"
  by (simp add: BuildExecutionError_def Let_def split: prod.splits)

lemma pointer_field_cases:
  "gm_get m k = Some JNull \<Longrightarrow> pointer_field k d m = Inr None"
  "gm_get m k = Some v \<Longrightarrow> v \<noteq> JNull \<Longrightarrow> pointer_field k d m = bindE (d v) (\<lambda>x. Inr (Some x))"
  by (simp add: pointer_field_def) (cases v; simp add: pointer_field_def)

text \<open>A custom error is read back from its JSON, whatever the receiver held in its selector.\<close>

lemma CustomErrorData_json:
  assumes "hex_documented R" and "custom_error_wf c" and "ce_Data c0 = []"
  shows "CustomErrorData_UnmarshalJSON R c0 (CustomErrorData_MarshalJSON R (Some c)) = (Inr (), c)"
proof -
  from assms(1) have dec: "hexutil_Decode R (CHR ''0'' # CHR ''x'' # Bytes2Hex R bs) = Inr bs" for bs
    by (simp add: hex_documented_def)
  from assms(2) have "take 4 (ce_Selector c) = ce_Selector c" by (simp add: custom_error_wf_def)
  with assms(2,3) dec show ?thesis
    by (cases "ce_Data c = []")
      (simp_all add: CustomErrorData_UnmarshalJSON_def CustomErrorData_MarshalJSON_def string_field_def Let_def
        custom_error_wf_def)
qed

section \<open>Concrete parameters\<close>

definition hex_val :: "char \<Rightarrow> nat" where
  "hex_val c = (if is_digit c then of_char c - 48 else of_char c - 87)"

fun hex_decode :: "string \<Rightarrow> byte list" where
  "hex_decode (a # b # s) = word_of_nat (16 * hex_val a + hex_val b) # hex_decode s"
| "hex_decode _ = []"

definition sample_revert :: revert_pkg where
  "sample_revert =
     \<lparr>FromHex = (\<lambda>s. hex_decode (drop 2 s)), Bytes2Hex = hex_encode, hexutil_Decode = (\<lambda>s. Inr (hex_decode (drop 2 s))),
      UnpackRevert = (\<lambda>_. Inl (External ''no reason'')), Sprint_v = (\<lambda>_. ''v''),
      ManyChainMultiSigErrors = None, RBACTimelockErrors = None, RBACTimelockMethods = None\<rparr>"

lemma hex_val_digit: "n < 16 \<Longrightarrow> hex_val (hex_digit n) = n"
proof -
  have "list_all (\<lambda>n. hex_val (hex_digit n) = n) [0..<16]"
    by (simp add: hex_val_def hex_digit_def is_digit_def upt_rec)
  then show "n < 16 \<Longrightarrow> ?thesis" by (simp add: list_all_iff)
qed

lemma hex_decode_encode: "hex_decode (hex_encode bs) = bs"
proof (induction bs)
  case (Cons b bs)
  have "unat b div 16 < 16" using unsigned_less [of b, where 'a = nat] by simp
  with Cons show ?case by (simp add: hex_encode_def hex_byte_def hex_val_digit)
qed (simp add: hex_encode_def)

lemma sample_revert_documented: "hex_documented sample_revert"
  by (simp add: hex_documented_def sample_revert_def hex_decode_encode)

section \<open>Properties\<close>

text \<open>
  C18: the contract's custom error survives the trip through the node's error text. When the node
  reports a selector and arguments, the execution error carries exactly these, its decoded reason is
  that of the whole revert data, and it keeps the transaction and the original text for a retry.
  When the selector is CallReverted and the failed call went to a timelock, the call of the batch is
  simulated from the timelock, or from the timelock behind a call proxy, for its own reason.
\<close>

theorem BuildExecutionError_custom_error:
  assumes "hex_documented R" and "length selector = 4" and "data \<noteq> []"
  shows "\<exists>e. BuildExecutionError R (Some (custom_error_text selector data)) tx opts a client timelock calldata w = Some e \<and>
    ee_RevertReasonRaw e = Some \<lparr>ce_Selector = selector, ce_Data = data\<rparr> \<and>
    Combined (ee_RevertReasonRaw e) = selector @ data \<and>
    ee_RevertReasonDecoded e = decodeRevertReason R (selector @ data) \<and>
    ee_Transaction e = Some tx \<and> ExecutionError_Unwrap e = Some (custom_error_text selector data) \<and>
    (selector = CallRevertedSelector \<and> timelock \<noteq> 0 \<and> calldata \<noteq> [] \<longrightarrow>
       (ee_UnderlyingReasonRaw e, ee_UnderlyingReasonDecoded e) =
         getUnderlyingRevertReason R (resolveUnderlyingCallSender timelock client w) calldata opts client w)"
  using assms
  by (auto simp: BuildExecutionError_def Let_def extract_custom_error_text raw_custom_error_def Combined_def
      ExecutionError_Unwrap_def split: prod.splits)


theorem BuildExecutionError_custom_error_witness:
  "\<exists>e. BuildExecutionError sample_revert (Some (custom_error_text [1, 2, 3, 4] [5])) (LegacyTx 0 0 0 0 []) None 0 None 0 []
       () = Some e \<and> ee_RevertReasonRaw e = Some \<lparr>ce_Selector = [1, 2, 3, 4], ce_Data = [5]\<rparr>"
  using BuildExecutionError_custom_error [OF sample_revert_documented, of "[1, 2, 3, 4]" "[5]" "LegacyTx 0 0 0 0 []"
      None 0 None 0 "[]" "()"]
  by auto

text \<open>
  Any hexadecimal number in an error's text is taken for revert data. An error that only names an
  account is reported with the account's bytes as its revert data; when they are fewer than four,
  they are even given a selector of zeros, so the revert data of the error is not what was found.
\<close>

theorem address_taken_for_revert_data:
  assumes "hex_documented R" and "addr \<noteq> []"
  shows "\<exists>e. BuildExecutionError R (Some (funds_error_text addr)) tx opts a client timelock calldata w = Some e \<and>
    Combined (ee_RevertReasonRaw e) = (if length addr < 4 then replicate 4 0 @ addr else addr)"
proof -
  have "Combined (raw_custom_error (raw_reason R addr)) = (if length addr < 4 then replicate 4 0 @ addr else addr)"
    using assms(2) by (simp add: raw_reason_def raw_custom_error_def Combined_def selectorSize_def)
  with BuildExecutionError_Some [of R "funds_error_text addr" tx opts a client timelock calldata w]
  show ?thesis unfolding funds_error_text_raw [OF assms] by auto
qed

theorem address_taken_for_revert_data_witness:
  "\<exists>e. BuildExecutionError sample_revert (Some (funds_error_text [0xab])) (LegacyTx 0 0 0 0 []) None 0 None 0 [] () = Some e \<and>
       Combined (ee_RevertReasonRaw e) = [0, 0, 0, 0, 0xab]"
  using address_taken_for_revert_data [OF sample_revert_documented, of "[0xab]" "LegacyTx 0 0 0 0 []" None 0 None 0 "[]" "()"]
  by (auto simp: numeral_eq_Suc)

text \<open>
  An execution error survives JSON. Read into a fresh error, the text that MarshalJSON writes gives
  back the transaction, the revert data, all reasons and the text of the original error.
\<close>

theorem ExecutionError_json_roundtrip:
  assumes "hex_documented R" and "\<forall>c. ee_RevertReasonRaw e = Some c \<longrightarrow> custom_error_wf c"
    and "\<forall>tx. ee_Transaction e = Some tx \<longrightarrow> txJSON tx \<noteq> JNull \<and> txFromJSON (txJSON tx) = Inr tx"
    and "ee_OriginalError e \<noteq> Some []" and "ee_OriginalError e0 = None"
  shows "ExecutionError_UnmarshalJSON R txFromJSON e0 (RawJson (ExecutionError_MarshalJSON R txJSON (Some e))) = (Inr (), e)"
proof -
  have tx: "pointer_field ''Transaction'' txFromJSON
      [(''Transaction'', case ee_Transaction e of None \<Rightarrow> JNull | Some tx \<Rightarrow> txJSON tx), x1, x2, x3, x4] = Inr (ee_Transaction e)"
    for x1 x2 x3 x4
    using assms(3) by (cases "ee_Transaction e") (simp_all add: pointer_field_cases)
  show ?thesis
  proof (cases "ee_RevertReasonRaw e")
    case None
    with tx assms(4,5) show ?thesis
      by (cases "ee_OriginalError e")
        (simp_all add: ExecutionError_UnmarshalJSON_def ExecutionError_MarshalJSON_def unmarshal_map_def Let_def
          CustomErrorData_MarshalJSON_def pointer_field_def string_field_def)
  next
    case (Some c)
    then have "custom_error_wf c" using assms(2) by simp
    then have "CustomErrorData_UnmarshalJSON R \<lparr>ce_Selector = replicate 4 0, ce_Data = []\<rparr>
        (CustomErrorData_MarshalJSON R (Some c)) = (Inr (), c)"
      using assms(1) by (intro CustomErrorData_json) simp_all
    moreover have "CustomErrorData_MarshalJSON R (Some c) \<noteq> JNull" by (simp add: CustomErrorData_MarshalJSON_def)
    ultimately have "pointer_field ''RevertReasonRaw''
        (\<lambda>v. case CustomErrorData_UnmarshalJSON R \<lparr>ce_Selector = replicate 4 0, ce_Data = []\<rparr> v of
           (Inl err, _) \<Rightarrow> Inl err | (Inr _, c) \<Rightarrow> Inr c)
        [y, (''RevertReasonRaw'', CustomErrorData_MarshalJSON R (Some c)), x2, x3, x4] = Inr (Some c)"
      if "fst y = ''Transaction''" for y x2 x3 x4
      using that by (cases y) (simp add: pointer_field_cases)
    with tx Some assms(4,5) show ?thesis
      by (cases "ee_OriginalError e")
        (simp_all add: ExecutionError_UnmarshalJSON_def ExecutionError_MarshalJSON_def unmarshal_map_def Let_def
          string_field_def)
  qed
qed

theorem ExecutionError_json_roundtrip_witness:
  "let e = \<lparr>ee_Transaction = Some (LegacyTx 1 2 3 4 []),
            ee_RevertReasonRaw = Some \<lparr>ce_Selector = CallRevertedSelector, ce_Data = [1, 2]\<rparr>,
            ee_RevertReasonDecoded = ''CallReverted'', ee_UnderlyingReasonRaw = [], ee_UnderlyingReasonDecoded = [],
            ee_OriginalError = Some ''execution reverted''\<rparr>;
       e0 = e\<lparr>ee_Transaction := None, ee_RevertReasonRaw := None, ee_OriginalError := None\<rparr> in
   ExecutionError_UnmarshalJSON sample_revert (\<lambda>_. Inr (LegacyTx 1 2 3 4 [])) e0
     (RawJson (ExecutionError_MarshalJSON sample_revert (\<lambda>_. JStr ''tx'') (Some e))) = (Inr (), e)"
  unfolding Let_def
  by (rule ExecutionError_json_roundtrip [OF sample_revert_documented])
    (simp_all add: custom_error_wf_def CallRevertedSelector_def)

text \<open>
  The sender of a simulated call is looked up exactly: the bytes of a contract are taken for a call
  proxy when they are its code with some 32-byte word in the place of the target, followed by
  anything, and the target is the address in that word.
\<close>

theorem callProxyTarget_exact:
  "callProxyTargetFromRuntime code = Some target \<longleftrightarrow>
     (\<exists>word rest. length word = 32 \<and> code = callProxyRuntimePrefix @ word @ callProxyRuntimeSuffix @ rest \<and>
        target = from_be word)"
proof
  let ?p = callProxyRuntimePrefix and ?s = callProxyRuntimeSuffix
  assume "callProxyTargetFromRuntime code = Some target"
  then have len: "length ?p + 32 + length ?s \<le> length code" and pre: "take (length ?p) code = ?p"
    and suf: "take (length ?s) (drop (length ?p + 32) code) = ?s"
    and target: "target = from_be (take 32 (drop (length ?p) code))"
    by (auto simp: callProxyTargetFromRuntime_def Let_def split: if_splits)
  have "code = ?p @ take 32 (drop (length ?p) code) @ ?s @ drop (length ?s) (drop (length ?p + 32) code)"
    by (metis append_take_drop_id drop_drop pre suf add.commute)
  moreover have "length (take 32 (drop (length ?p) code)) = 32" using len by simp
  ultimately show "\<exists>word rest. length word = 32 \<and> code = ?p @ word @ ?s @ rest \<and> target = from_be word"
    using target by blast
next
  assume "\<exists>word rest. length word = 32 \<and> code = callProxyRuntimePrefix @ word @ callProxyRuntimeSuffix @ rest \<and>
      target = from_be word"
  then show "callProxyTargetFromRuntime code = Some target"
    by (auto simp: callProxyTargetFromRuntime_def Let_def)
qed

end
