(* ===== verification/EvmClient.thy ===== *)
theory EvmClient
  imports ExecutionError EvmConfig Executable TimelockExecutable Signable
begin

text \<open>
  The EVM implementations of the interfaces that talk to a chain: \<open>sdk/evm/inspector.go\<close>,
  \<open>timelock_inspector.go\<close>, \<open>executor.go\<close>, \<open>timelock_executor.go\<close>, \<open>configurer.go\<close>,
  \<open>timelock_configurer.go\<close>, \<open>simulator.go\<close>, \<open>timelock_role.go\<close> and \<open>sdk/timelock_role.go\<close>. The generated
  bindings and the client are a record of functions on the world: reads look at it, transactions
  return the next one, errors are texts.
\<close>

section \<open>Timelock roles\<close>

type_synonym timelock_role = u8

definition TimelockRoleAdmin :: timelock_role where "TimelockRoleAdmin = 0"
definition TimelockRoleBypasser :: timelock_role where "TimelockRoleBypasser = 1"
definition TimelockRoleCanceller :: timelock_role where "TimelockRoleCanceller = 2"
definition TimelockRoleExecutor :: timelock_role where "TimelockRoleExecutor = 3"
definition TimelockRoleProposer :: timelock_role where "TimelockRoleProposer = 4"

definition timelockRoleNames :: "(timelock_role, string) gomap" where
  "timelockRoleNames =
     [(TimelockRoleAdmin, ''Admin''), (TimelockRoleBypasser, ''Bypasser''), (TimelockRoleCanceller, ''Canceller''),
      (TimelockRoleExecutor, ''Executor''), (TimelockRoleProposer, ''Proposer'')]"

definition TimelockRole_Valid :: "timelock_role \<Rightarrow> bool" where
  "TimelockRole_Valid r \<longleftrightarrow> gm_get timelockRoleNames r \<noteq> None"

definition TimelockRole_String :: "timelock_role \<Rightarrow> string" where
  "TimelockRole_String r = (case gm_get timelockRoleNames r of Some name \<Rightarrow> name | None \<Rightarrow> ''Unknown'')"

definition timelockRoleHashNames :: "(timelock_role, string) gomap" where
  "timelockRoleHashNames =
     [(TimelockRoleAdmin, ''ADMIN_ROLE''), (TimelockRoleBypasser, ''BYPASSER_ROLE''),
      (TimelockRoleCanceller, ''CANCELLER_ROLE''), (TimelockRoleExecutor, ''EXECUTOR_ROLE''),
      (TimelockRoleProposer, ''PROPOSER_ROLE'')]"

definition TimelockRoleHash :: "'c crypto_pkg_scheme \<Rightarrow> timelock_role \<Rightarrow> hash res" where
  "TimelockRoleHash C role =
     (case gm_get timelockRoleHashNames role of
        None \<Rightarrow> Inl (Errorf ''invalid timelock role: %d'')
      | Some hashName \<Rightarrow> Inr (Keccak256Hash C (string_bytes hashName)))"

section \<open>The bindings and the client\<close>

text \<open>
  \<open>'x\<close> is the type of sent transactions, \<open>'w\<close> that of worlds. Contract methods take the address the
  binding was made for.
\<close>

record ('w, 'x) evm_backend = "'w eth_client" +
  NewManyChainMultiSig :: "address \<Rightarrow> string + unit"
  NewRBACTimelock :: "address \<Rightarrow> string + unit"
  ManyChainMultiSigPack :: "string \<Rightarrow> abi_value list \<Rightarrow> byte list res"
  TxHashHex :: "'x \<Rightarrow> string"
  IsHexAddress :: "string \<Rightarrow> bool"
  GasFieldsUnmarshal :: "raw \<Rightarrow> (int option \<times> u64) res"
  mcms_GetConfig :: "address \<Rightarrow> 'w \<Rightarrow> string + mcms_config"
  mcms_GetOpCount :: "address \<Rightarrow> 'w \<Rightarrow> string + int"
  mcms_GetRoot :: "address \<Rightarrow> 'w \<Rightarrow> string + (hash \<times> u32)"
  mcms_GetRootMetadata_PreOpCount :: "address \<Rightarrow> 'w \<Rightarrow> string + int"
  mcms_SetConfig :: "transact_opts \<Rightarrow> address \<Rightarrow> address list \<Rightarrow> u8 list \<Rightarrow> u8 list \<Rightarrow> u8 list \<Rightarrow> bool \<Rightarrow> 'w \<Rightarrow>
    (string + 'x) \<times> 'w"
  mcms_Execute :: "transact_opts \<Rightarrow> address \<Rightarrow> geth_op \<Rightarrow> hash list \<Rightarrow> 'w \<Rightarrow> (string + 'x) \<times> 'w"
  mcms_SetRoot :: "transact_opts \<Rightarrow> address \<Rightarrow> hash \<Rightarrow> u32 \<Rightarrow> geth_root_metadata \<Rightarrow> hash list \<Rightarrow> signature list \<Rightarrow> 'w \<Rightarrow>
    (string + 'x) \<times> 'w"
  timelock_PROPOSERROLE :: "address \<Rightarrow> 'w \<Rightarrow> string + hash"
  timelock_EXECUTORROLE :: "address \<Rightarrow> 'w \<Rightarrow> string + hash"
  timelock_BYPASSERROLE :: "address \<Rightarrow> 'w \<Rightarrow> string + hash"
  timelock_CANCELLERROLE :: "address \<Rightarrow> 'w \<Rightarrow> string + hash"
  timelock_GetRoleMemberCount :: "address \<Rightarrow> hash \<Rightarrow> 'w \<Rightarrow> string + int"
  timelock_GetRoleMember :: "address \<Rightarrow> hash \<Rightarrow> int \<Rightarrow> 'w \<Rightarrow> string + address"
  timelock_IsOperation :: "address \<Rightarrow> hash \<Rightarrow> 'w \<Rightarrow> string + bool"
  timelock_IsOperationPending :: "address \<Rightarrow> hash \<Rightarrow> 'w \<Rightarrow> string + bool"
  timelock_IsOperationReady :: "address \<Rightarrow> hash \<Rightarrow> 'w \<Rightarrow> string + bool"
  timelock_IsOperationDone :: "address \<Rightarrow> hash \<Rightarrow> 'w \<Rightarrow> string + bool"
  timelock_GetMinDelay :: "address \<Rightarrow> 'w \<Rightarrow> string + int"
  timelock_ExecuteBatch :: "transact_opts \<Rightarrow> address \<Rightarrow> timelock_call list \<Rightarrow> hash \<Rightarrow> hash \<Rightarrow> 'w \<Rightarrow> (string + 'x) \<times> 'w"
  timelock_UpdateDelay :: "transact_opts \<Rightarrow> address \<Rightarrow> int \<Rightarrow> 'w \<Rightarrow> (string + 'x) \<times> 'w"
  timelock_GrantRole :: "transact_opts \<Rightarrow> address \<Rightarrow> hash \<Rightarrow> address \<Rightarrow> 'w \<Rightarrow> (string + 'x) \<times> 'w"

text \<open>An error of the client, kept as its text.\<close>

definition ext :: "string + 'a \<Rightarrow> 'a res" where
  "ext r = (case r of Inl s \<Rightarrow> Inl (External s) | Inr x \<Rightarrow> Inr x)"

lemma ext_simps [simp, res_simps]:
  "ext (Inl s) = Inl (External s)"
  "ext (Inr x) = Inr x"
  "ext r = Inr x \<longleftrightarrow> r = Inr x"
  by (cases r; simp add: ext_def)+

text \<open>\<open>(*big.Int).Uint64\<close> of a number that is not negative: its low 64 bits.\<close>

definition big_Uint64 :: "int \<Rightarrow> u64" where
  "big_Uint64 i = word_of_int i"

section \<open>Inspector\<close>

definition evm_GetConfig ::
  "'g geth_pkg_scheme \<Rightarrow> ('w, 'x, 'm) evm_backend_scheme \<Rightarrow> 'w \<Rightarrow> string \<Rightarrow> config res" where
  "evm_GetConfig G B w addr =
     bindE (ext (NewManyChainMultiSig B (HexToAddress G addr))) (\<lambda>_.
     bindE (ext (mcms_GetConfig B (HexToAddress G addr) w)) (\<lambda>onchainConfig.
       evm_ToConfig onchainConfig))"

definition evm_GetOpCount ::
  "'g geth_pkg_scheme \<Rightarrow> ('w, 'x, 'm) evm_backend_scheme \<Rightarrow> 'w \<Rightarrow> string \<Rightarrow> u64 res" where
  "evm_GetOpCount G B w addr =
     bindE (ext (NewManyChainMultiSig B (HexToAddress G addr))) (\<lambda>_.
     bindE (ext (mcms_GetOpCount B (HexToAddress G addr) w)) (\<lambda>opCount. Inr (big_Uint64 opCount)))"

definition evm_GetRoot ::
  "'g geth_pkg_scheme \<Rightarrow> ('w, 'x, 'm) evm_backend_scheme \<Rightarrow> 'w \<Rightarrow> string \<Rightarrow> (hash \<times> u32) res" where
  "evm_GetRoot G B w addr =
     bindE (ext (NewManyChainMultiSig B (HexToAddress G addr))) (\<lambda>_.
       ext (mcms_GetRoot B (HexToAddress G addr) w))"

definition evm_GetRootMetadata ::
  "'g geth_pkg_scheme \<Rightarrow> ('w, 'x, 'm) evm_backend_scheme \<Rightarrow> 'w \<Rightarrow> string \<Rightarrow> chain_metadata res" where
  "evm_GetRootMetadata G B w addr =
     bindE (ext (NewManyChainMultiSig B (HexToAddress G addr))) (\<lambda>_.
     bindE (ext (mcms_GetRootMetadata_PreOpCount B (HexToAddress G addr) w)) (\<lambda>preOpCount.
       Inr \<lparr>cm_StartingOpCount = big_Uint64 preOpCount, cm_MCMAddress = addr, cm_AdditionalFields = RawEmpty\<rparr>))"

text \<open>As a value of the interface, in one state of the chain.\<close>

definition evm_inspector ::
  "'g geth_pkg_scheme \<Rightarrow> ('w, 'x, 'm) evm_backend_scheme \<Rightarrow> 'w \<Rightarrow> inspector" where
  "evm_inspector G B w = \<lparr>insp_GetConfig = evm_GetConfig G B w, insp_GetOpCount = evm_GetOpCount G B w\<rparr>"

text \<open>\<open>ParseChainMetadata\<close> of \<open>sdk/evm/utils.go\<close>: gas price and gas limit.\<close>

definition ParseChainMetadata :: "('w, 'x, 'm) evm_backend_scheme \<Rightarrow> chain_metadata \<Rightarrow> (int option \<times> u64) res" where
  "ParseChainMetadata B chainMetadata =
     (if \<not> raw_nonempty (cm_AdditionalFields chainMetadata) then Inr (None, 0)
      else bindE (wrapE (Wrapf ''failed to unmarshal chain metadata additional fields: %w'')
                    (GasFieldsUnmarshal B (cm_AdditionalFields chainMetadata))) (\<lambda>(gasPrice, gasLimit).
        (case gasPrice of
           Some p \<Rightarrow> if p < 0 then Inl (Errorf ''invalid gas price: %v'') else Inr (gasPrice, gasLimit)
         | None \<Rightarrow> Inr (gasPrice, gasLimit))))"

section \<open>Timelock inspector\<close>

text \<open>The members of a role by their index; \<open>Address.String\<close> is the checksummed hex form.\<close>

definition getAddressesWithRole ::
  "'g geth_pkg_scheme \<Rightarrow> ('w, 'x, 'm) evm_backend_scheme \<Rightarrow> 'w \<Rightarrow> address \<Rightarrow> hash \<Rightarrow> string list res" where
  "getAddressesWithRole G B w timelock role =
     bindE (ext (timelock_GetRoleMemberCount B timelock role w)) (\<lambda>numAddresses.
       mapE (\<lambda>i.
           bindE (Uint64ToInt64 G (word_of_nat i)) (\<lambda>idx.
           bindE (ext (timelock_GetRoleMember B timelock role idx w)) (\<lambda>addr. Inr (AddressHex G addr))))
         [0..<unat (big_Uint64 numAddresses)])"

definition addresses_of_role ::
  "'g geth_pkg_scheme \<Rightarrow> ('w, 'x, 'm) evm_backend_scheme \<Rightarrow> (address \<Rightarrow> 'w \<Rightarrow> string + hash) \<Rightarrow> 'w \<Rightarrow> string \<Rightarrow>
     string list res" where
  "addresses_of_role G B roleOf w addr =
     bindE (ext (NewRBACTimelock B (HexToAddress G addr))) (\<lambda>_.
     bindE (ext (roleOf (HexToAddress G addr) w)) (\<lambda>role.
       getAddressesWithRole G B w (HexToAddress G addr) role))"

definition GetProposers ::
  "'g geth_pkg_scheme \<Rightarrow> ('w, 'x, 'm) evm_backend_scheme \<Rightarrow> 'w \<Rightarrow> string \<Rightarrow> string list res" where
  "GetProposers G B w addr = addresses_of_role G B (timelock_PROPOSERROLE B) w addr"

definition GetExecutors ::
  "'g geth_pkg_scheme \<Rightarrow> ('w, 'x, 'm) evm_backend_scheme \<Rightarrow> 'w \<Rightarrow> string \<Rightarrow> string list res" where
  "GetExecutors G B w addr = addresses_of_role G B (timelock_EXECUTORROLE B) w addr"

definition GetBypassers ::
  "'g geth_pkg_scheme \<Rightarrow> ('w, 'x, 'm) evm_backend_scheme \<Rightarrow> 'w \<Rightarrow> string \<Rightarrow> string list res" where
  "GetBypassers G B w addr = addresses_of_role G B (timelock_BYPASSERROLE B) w addr"

definition GetCancellers ::
  "'g geth_pkg_scheme \<Rightarrow> ('w, 'x, 'm) evm_backend_scheme \<Rightarrow> 'w \<Rightarrow> string \<Rightarrow> string list res" where
  "GetCancellers G B w addr = addresses_of_role G B (timelock_CANCELLERROLE B) w addr"

text \<open>A query about an operation.\<close>

definition timelock_query ::
  "'g geth_pkg_scheme \<Rightarrow> ('w, 'x, 'm) evm_backend_scheme \<Rightarrow> (address \<Rightarrow> hash \<Rightarrow> 'w \<Rightarrow> string + bool) \<Rightarrow> 'w \<Rightarrow> string \<Rightarrow>
     hash \<Rightarrow> bool res" where
  "timelock_query G B ask w addr opID =
     bindE (ext (NewRBACTimelock B (HexToAddress G addr))) (\<lambda>_. ext (ask (HexToAddress G addr) opID w))"

definition evm_IsOperation ::
  "'g geth_pkg_scheme \<Rightarrow> ('w, 'x, 'm) evm_backend_scheme \<Rightarrow> 'w \<Rightarrow> string \<Rightarrow> hash \<Rightarrow> bool res" where
  "evm_IsOperation G B w addr opID = timelock_query G B (timelock_IsOperation B) w addr opID"

definition evm_IsOperationPending ::
  "'g geth_pkg_scheme \<Rightarrow> ('w, 'x, 'm) evm_backend_scheme \<Rightarrow> 'w \<Rightarrow> string \<Rightarrow> hash \<Rightarrow> bool res" where
  "evm_IsOperationPending G B w addr opID = timelock_query G B (timelock_IsOperationPending B) w addr opID"

definition evm_IsOperationReady ::
  "'g geth_pkg_scheme \<Rightarrow> ('w, 'x, 'm) evm_backend_scheme \<Rightarrow> 'w \<Rightarrow> string \<Rightarrow> hash \<Rightarrow> bool res" where
  "evm_IsOperationReady G B w addr opID = timelock_query G B (timelock_IsOperationReady B) w addr opID"

definition evm_IsOperationDone ::
  "'g geth_pkg_scheme \<Rightarrow> ('w, 'x, 'm) evm_backend_scheme \<Rightarrow> 'w \<Rightarrow> string \<Rightarrow> hash \<Rightarrow> bool res" where
  "evm_IsOperationDone G B w addr opID = timelock_query G B (timelock_IsOperationDone B) w addr opID"

definition evm_GetMinDelay ::
  "'g geth_pkg_scheme \<Rightarrow> ('w, 'x, 'm) evm_backend_scheme \<Rightarrow> 'w \<Rightarrow> string \<Rightarrow> u64 res" where
  "evm_GetMinDelay G B w addr =
     bindE (ext (NewRBACTimelock B (HexToAddress G addr))) (\<lambda>_.
     bindE (ext (timelock_GetMinDelay B (HexToAddress G addr) w)) (\<lambda>d. Inr (big_Uint64 d)))"


section \<open>Sending transactions\<close>

record 'x transaction_result =
  tr_Hash :: string
  tr_ChainFamily :: "family option"
  tr_RawData :: "'x option"

definition NewTransactionResult :: "string \<Rightarrow> 'x option \<Rightarrow> family option \<Rightarrow> 'x transaction_result" where
  "NewTransactionResult hash rawData cf = \<lparr>tr_Hash = hash, tr_ChainFamily = cf, tr_RawData = rawData\<rparr>"

definition no_result :: "'x transaction_result" where
  "no_result = \<lparr>tr_Hash = [], tr_ChainFamily = None, tr_RawData = None\<rparr>"

text \<open>
  A Go pair of a result and an error, both of which may be set. The error of a failed transaction
  is an execution error, or the plain error of the binding.
\<close>

datatype send_error = PlainError mcms_error | ExecError execution_error

type_synonym 'x sent = "'x transaction_result \<times> send_error option"

definition fail_with :: "mcms_error \<Rightarrow> 'x sent" where
  "fail_with err = (no_result, Some (PlainError err))"

definition sent_tx :: "('w, 'x, 'm) evm_backend_scheme \<Rightarrow> 'x \<Rightarrow> 'x sent" where
  "sent_tx B tx = (\<lparr>tr_Hash = TxHashHex B tx, tr_ChainFamily = Some FamilyEVM, tr_RawData = Some tx\<rparr>, None)"

text \<open>The interfaces of the library only look at the result when the error is nil.\<close>

definition sent_res :: "'r revert_pkg_scheme \<Rightarrow> 'x sent \<Rightarrow> 'x transaction_result res" where
  "sent_res R s =
     (case snd s of
        None \<Rightarrow> Inr (fst s)
      | Some (PlainError err) \<Rightarrow> Inl err
      | Some (ExecError e) \<Rightarrow> Inl (External (ExecutionError_Error R e)))"

text \<open>Local steps first; the world is as it was when one of them fails.\<close>

definition prepare :: "'a res \<Rightarrow> ('a \<Rightarrow> 'w \<Rightarrow> 'x sent \<times> 'w) \<Rightarrow> 'w \<Rightarrow> 'x sent \<times> 'w" where
  "prepare r f w = (case r of Inl err \<Rightarrow> (fail_with err, w) | Inr a \<Rightarrow> f a w)"

lemma prepare_simps [simp]:
  "prepare (Inl err) f w = (fail_with err, w)"
  "prepare (Inr a) f w = f a w"
  by (simp_all add: prepare_def)

definition buildUnsignedTxFromOpts :: "'o transact_opts_scheme option \<Rightarrow> address \<Rightarrow> byte list \<Rightarrow> geth_tx" where
  "buildUnsignedTxFromOpts opts to data =
     (let nonce = (case opts of None \<Rightarrow> 0 | Some o' \<Rightarrow> case opts_Nonce o' of None \<Rightarrow> 0 | Some n \<Rightarrow> big_Uint64 n);
          gas = (case opts of None \<Rightarrow> 0 | Some o' \<Rightarrow> opts_GasLimit o');
          gasPrice = (case opts of None \<Rightarrow> None | Some o' \<Rightarrow> opts_GasPrice o');
          gasTipCap = (case opts of None \<Rightarrow> None | Some o' \<Rightarrow> opts_GasTipCap o');
          gasFeeCap = (case opts of None \<Rightarrow> None | Some o' \<Rightarrow> opts_GasFeeCap o') in
      if gasFeeCap \<noteq> None \<or> gasTipCap \<noteq> None
      then DynamicFeeTx nonce (zero_or 0 gasTipCap) (zero_or 0 gasFeeCap) gas to data
      else LegacyTx nonce to gas (zero_or 0 gasPrice) data)"

definition transformHashes :: "hash list \<Rightarrow> hash list" where
  "transformHashes hashes = hashes"

definition signature_value :: "signature \<Rightarrow> abi_value" where
  "signature_value s = AbiTuple [AbiUint (Some (uint (sig_V s))), AbiBytes32 (sig_R s), AbiBytes32 (sig_S s)]"

definition buildExecuteTxData ::
  "('w, 'x, 'm) evm_backend_scheme \<Rightarrow> 'o transact_opts_scheme option \<Rightarrow> address \<Rightarrow> geth_op \<Rightarrow> hash list \<Rightarrow> geth_tx res" where
  "buildExecuteTxData B opts mcmsAddr op proof =
     bindE (ManyChainMultiSigPack B ''execute'' [geth_op_value op, AbiSlice (map AbiBytes32 proof)]) (\<lambda>data.
       Inr (buildUnsignedTxFromOpts opts mcmsAddr data))"

definition set_root_values ::
  "hash \<Rightarrow> u32 \<Rightarrow> geth_root_metadata \<Rightarrow> hash list \<Rightarrow> signature list \<Rightarrow> abi_value list" where
  "set_root_values merkleRoot validUntil meta metaProof sigs =
     [AbiBytes32 merkleRoot, AbiUint (Some (uint validUntil)), geth_root_metadata_value meta,
      AbiSlice (map AbiBytes32 metaProof), AbiSlice (map signature_value sigs)]"

definition buildSetRootCallData ::
  "('w, 'x, 'm) evm_backend_scheme \<Rightarrow> 'o transact_opts_scheme option \<Rightarrow> address \<Rightarrow> hash \<Rightarrow> u32 \<Rightarrow> geth_root_metadata \<Rightarrow>
     hash list \<Rightarrow> signature list \<Rightarrow> geth_tx res" where
  "buildSetRootCallData B opts mcmsAddr merkleRoot validUntil meta metaProof sigs =
     bindE (ManyChainMultiSigPack B ''setRoot'' (set_root_values merkleRoot validUntil meta metaProof sigs)) (\<lambda>data.
       Inr (buildUnsignedTxFromOpts opts mcmsAddr data))"

definition buildTimelockExecuteTxData ::
  "'g geth_pkg_scheme \<Rightarrow> 'o transact_opts_scheme option \<Rightarrow> address \<Rightarrow> timelock_call list \<Rightarrow> hash \<Rightarrow> hash \<Rightarrow> geth_tx res" where
  "buildTimelockExecuteTxData G opts timelockAddr calls predecessor salt =
     bindE (RBACTimelockPack G ''executeBatch''
              [AbiSlice (map timelock_call_value calls), AbiBytes32 predecessor, AbiBytes32 salt]) (\<lambda>data.
       Inr (buildUnsignedTxFromOpts opts timelockAddr data))"

text \<open>The end of a transaction that reports an execution error when the binding fails.\<close>

definition report_sent ::
  "'r revert_pkg_scheme \<Rightarrow> ('w, 'x, 'm) evm_backend_scheme \<Rightarrow> geth_tx \<Rightarrow> transact_opts \<Rightarrow> address \<Rightarrow> address \<Rightarrow> byte list \<Rightarrow>
     (string + 'x) \<times> 'w \<Rightarrow> 'x sent \<times> 'w" where
  "report_sent R B txPreview opts contractAddr timelockAddr timelockCallData outcome =
     (case outcome of
        (Inr tx, w') \<Rightarrow> (sent_tx B tx, w')
      | (Inl err, w') \<Rightarrow>
          ((no_result\<lparr>tr_ChainFamily := Some FamilyEVM\<rparr>,
            map_option ExecError (BuildExecutionError R (Some err) txPreview (Some opts) contractAddr (Some B)
              timelockAddr timelockCallData w')), w'))"

section \<open>Executor\<close>

record ('w, 'x) evm_executor =
  xe_Encoder :: "evm_encoder option"
  xe_client :: "('w, 'x) evm_backend"
  xe_auth :: "transact_opts option"

definition evm_NewExecutor ::
  "evm_encoder option \<Rightarrow> ('w, 'x) evm_backend \<Rightarrow> transact_opts option \<Rightarrow> ('w, 'x) evm_executor" where
  "evm_NewExecutor enc client auth = \<lparr>xe_Encoder = enc, xe_client = client, xe_auth = auth\<rparr>"

definition the_encoder :: "('w, 'x) evm_executor \<Rightarrow> evm_encoder res" where
  "the_encoder e =
     (case xe_Encoder e of
        None \<Rightarrow> Inl (Errorf ''failed to create sdk.Executor - encoder (sdk.Encoder) is nil'')
      | Some enc \<Rightarrow> Inr enc)"

definition evm_ExecuteOperation ::
  "'g geth_pkg_scheme \<Rightarrow> 'r revert_pkg_scheme \<Rightarrow> ('w, 'x) evm_executor \<Rightarrow> chain_metadata \<Rightarrow> u32 \<Rightarrow> hash list \<Rightarrow>
     operation \<Rightarrow> 'w \<Rightarrow> 'x sent \<times> 'w" where
  "evm_ExecuteOperation G R e metadata nonce proof op =
     (let B = xe_client e; mcmsAddr = HexToAddress G (cm_MCMAddress metadata) in
      prepare
        (bindE (the_encoder e) (\<lambda>enc.
         bindE (ToGethOperation G enc nonce metadata op) (\<lambda>bindOp.
         bindE (deref (xe_auth e)) (\<lambda>opts.
         bindE (wrapE (Wrapf ''failed to build execute call data: %w'')
                  (buildExecuteTxData B (Some opts) mcmsAddr bindOp (transformHashes proof))) (\<lambda>txPreview.
         bindE (ext (NewManyChainMultiSig B mcmsAddr)) (\<lambda>_. Inr (bindOp, opts, txPreview)))))))
        (\<lambda>(bindOp, opts, txPreview) w.
           report_sent R B txPreview opts mcmsAddr (HexToAddress G (tx_To (op_Transaction op)))
             (tx_Data (op_Transaction op)) (mcms_Execute B opts mcmsAddr bindOp (transformHashes proof) w)))"

definition evm_SetRoot ::
  "'g geth_pkg_scheme \<Rightarrow> 'r revert_pkg_scheme \<Rightarrow> ('w, 'x) evm_executor \<Rightarrow> chain_metadata \<Rightarrow> hash list \<Rightarrow> hash \<Rightarrow> u32 \<Rightarrow>
     signature list \<Rightarrow> 'w \<Rightarrow> 'x sent \<times> 'w" where
  "evm_SetRoot G R e metadata proof merkleRoot validUntil sortedSignatures =
     (let B = xe_client e; mcmsAddr = HexToAddress G (cm_MCMAddress metadata) in
      prepare
        (bindE (the_encoder e) (\<lambda>enc.
         bindE (ToGethRootMetadata G enc metadata) (\<lambda>bindMeta.
         bindE (deref (xe_auth e)) (\<lambda>opts.
         bindE (buildSetRootCallData B (Some opts) mcmsAddr merkleRoot validUntil bindMeta (transformHashes proof)
                  (transformSignatures sortedSignatures)) (\<lambda>txPreview.
         bindE (ext (NewManyChainMultiSig B mcmsAddr)) (\<lambda>_. Inr (bindMeta, opts, txPreview)))))))
        (\<lambda>(bindMeta, opts, txPreview) w.
           report_sent R B txPreview opts mcmsAddr 0 []
             (mcms_SetRoot B opts mcmsAddr merkleRoot validUntil bindMeta (transformHashes proof)
                (transformSignatures sortedSignatures) w)))"

definition evm_executor_iface ::
  "'g geth_pkg_scheme \<Rightarrow> 'r revert_pkg_scheme \<Rightarrow> ('w, 'x) evm_executor \<Rightarrow> ('x transaction_result, 'w) executor" where
  "evm_executor_iface G R e =
     \<lparr>ex_SetRoot = (\<lambda>md pf merkleRoot validUntil sigs w. apfst (sent_res R) (evm_SetRoot G R e md pf merkleRoot validUntil sigs w)),
      ex_ExecuteOperation = (\<lambda>md n pf op w. apfst (sent_res R) (evm_ExecuteOperation G R e md n pf op w))\<rparr>"

section \<open>Timelock executor\<close>

record ('w, 'x) evm_timelock_executor =
  xt_client :: "('w, 'x) evm_backend"
  xt_auth :: "transact_opts option"

definition evm_NewTimelockExecutor ::
  "('w, 'x) evm_backend \<Rightarrow> transact_opts option \<Rightarrow> ('w, 'x) evm_timelock_executor" where
  "evm_NewTimelockExecutor client auth = \<lparr>xt_client = client, xt_auth = auth\<rparr>"

text \<open>The fields must be JSON here, and a value that is not in them stays nil.\<close>

definition execute_call :: "'g geth_pkg_scheme \<Rightarrow> transaction \<Rightarrow> timelock_call res" where
  "execute_call G tx =
     bindE (EvmFieldsUnmarshal G (tx_AdditionalFields tx) None) (\<lambda>value.
       Inr \<lparr>tc_Target = HexToAddress G (tx_To tx), tc_Value = value, tc_Data = tx_Data tx\<rparr>)"

definition evm_timelock_Execute ::
  "'g geth_pkg_scheme \<Rightarrow> 'r revert_pkg_scheme \<Rightarrow> ('w, 'x) evm_timelock_executor \<Rightarrow> batch_operation \<Rightarrow> string \<Rightarrow> hash \<Rightarrow>
     hash \<Rightarrow> 'w \<Rightarrow> 'x sent \<times> 'w" where
  "evm_timelock_Execute G R t bop timelockAddress predecessor salt =
     (let B = xt_client t; timelockAddr = HexToAddress G timelockAddress in
      prepare
        (bindE (deref (xt_auth t)) (\<lambda>opts.
         bindE (ext (NewRBACTimelock B timelockAddr)) (\<lambda>_.
         bindE (mapE (execute_call G) (bop_Transactions bop)) (\<lambda>calls.
         bindE (wrapE (Wrapf ''failed to build execute call data: %w'')
                  (buildTimelockExecuteTxData G (Some opts) timelockAddr calls predecessor salt)) (\<lambda>txPreview.
           Inr (calls, opts, txPreview))))))
        (\<lambda>(calls, opts, txPreview) w.
           report_sent R B txPreview opts timelockAddr timelockAddr (gtx_Data txPreview)
             (timelock_ExecuteBatch B opts timelockAddr calls predecessor salt w)))"

definition evm_timelock_executor_iface ::
  "'g geth_pkg_scheme \<Rightarrow> 'r revert_pkg_scheme \<Rightarrow> 'w \<Rightarrow> ('w, 'x) evm_timelock_executor \<Rightarrow>
     ('x transaction_result, 'w) timelock_executor" where
  "evm_timelock_executor_iface G R w0 t =
     \<lparr>te_IsOperationPending = evm_IsOperationPending G (xt_client t) w0,
      te_IsOperationReady = evm_IsOperationReady G (xt_client t) w0,
      te_IsOperationDone = evm_IsOperationDone G (xt_client t) w0,
      te_Execute = (\<lambda>bop addr predecessor salt w.
        apfst (sent_res R) (evm_timelock_Execute G R t bop addr predecessor salt w))\<rparr>"


section \<open>Configurers\<close>

record ('w, 'x) evm_configurer =
  xc_client :: "('w, 'x) evm_backend"
  xc_auth :: "transact_opts option"

definition evm_NewConfigurer ::
  "('w, 'x) evm_backend \<Rightarrow> transact_opts option \<Rightarrow> ('w, 'x) evm_configurer" where
  "evm_NewConfigurer client auth = \<lparr>xc_client = client, xc_auth = auth\<rparr>"

text \<open>The outcome of a binding whose error is returned as it is, or wrapped.\<close>

definition plain_sent ::
  "('w, 'x, 'm) evm_backend_scheme \<Rightarrow> (mcms_error \<Rightarrow> mcms_error) \<Rightarrow> (string + 'x) \<times> 'w \<Rightarrow> 'x sent \<times> 'w" where
  "plain_sent B wrap outcome =
     (case outcome of
        (Inr tx, w') \<Rightarrow> (sent_tx B tx, w')
      | (Inl err, w') \<Rightarrow> (fail_with (wrap (External err)), w'))"

definition evm_SetConfig ::
  "'g geth_pkg_scheme \<Rightarrow> ('w, 'x) evm_configurer \<Rightarrow> string \<Rightarrow> config \<Rightarrow> bool \<Rightarrow> 'w \<Rightarrow> 'x sent \<times> 'w" where
  "evm_SetConfig G c mcmAddr cfg clearRoot =
     (let B = xc_client c; addr = HexToAddress G mcmAddr in
      prepare
        (bindE (ext (NewManyChainMultiSig B addr)) (\<lambda>_.
         bindE (ExtractSetConfigInputs G cfg) (\<lambda>(groupQuorums, groupParents, signerAddrs, signerGroups).
         bindE (deref (xc_auth c)) (\<lambda>opts. Inr (groupQuorums, groupParents, signerAddrs, signerGroups, opts)))))
        (\<lambda>(groupQuorums, groupParents, signerAddrs, signerGroups, opts) w.
           plain_sent B (\<lambda>err. err)
             (mcms_SetConfig B opts addr signerAddrs signerGroups groupQuorums groupParents clearRoot w)))"

definition evm_NewTimelockConfigurer ::
  "('w, 'x) evm_backend \<Rightarrow> transact_opts option \<Rightarrow> ('w, 'x) evm_configurer" where
  "evm_NewTimelockConfigurer client auth = \<lparr>xc_client = client, xc_auth = auth\<rparr>"

definition UpdateDelay ::
  "'g geth_pkg_scheme \<Rightarrow> ('w, 'x) evm_configurer \<Rightarrow> string \<Rightarrow> u64 \<Rightarrow> 'w \<Rightarrow> 'x sent \<times> 'w" where
  "UpdateDelay G c timelockAddress newDelay =
     (let B = xc_client c; addr = HexToAddress G timelockAddress in
      prepare
        (bindE (deref (xc_auth c)) (\<lambda>opts.
         bindE (wrapE (Wrapf ''failed to bind RBACTimelock at %s: %w'') (ext (NewRBACTimelock B addr))) (\<lambda>_. Inr opts)))
        (\<lambda>opts w.
           plain_sent B (Wrapf ''failed to update delay on %s: %w'')
             (timelock_UpdateDelay B opts addr (uint newDelay) w)))"

definition GrantRole ::
  "'g geth_pkg_scheme \<Rightarrow> ('w, 'x) evm_configurer \<Rightarrow> string \<Rightarrow> timelock_role \<Rightarrow> string \<Rightarrow> 'w \<Rightarrow> 'x sent \<times> 'w" where
  "GrantRole G c timelockAddress role targetAddress =
     (let B = xc_client c; timelock = HexToAddress G timelockAddress; account = HexToAddress G targetAddress in
      prepare
        (bindE (guardE (IsHexAddress B timelockAddress) (Errorf ''invalid timelock address: %s'')) (\<lambda>_.
         bindE (TimelockRoleHash G role) (\<lambda>roleHash.
         bindE (guardE (IsHexAddress B targetAddress) (Errorf ''invalid target address: %s'')) (\<lambda>_.
         bindE (guardE (timelock \<noteq> 0) (Errorf ''invalid timelock address: %s'')) (\<lambda>_.
         bindE (guardE (account \<noteq> 0) (Errorf ''invalid target address: %s'')) (\<lambda>_.
         bindE (deref (xc_auth c)) (\<lambda>opts.
         bindE (wrapE (Wrapf ''failed to bind RBACTimelock at %s: %w'') (ext (NewRBACTimelock B timelock))) (\<lambda>_.
           Inr (roleHash, opts)))))))))
        (\<lambda>(roleHash, opts) w.
           plain_sent B (Wrapf ''failed to grant role %s to %s on %s: %w'')
             (timelock_GrantRole B opts timelock roleHash account w)))"

section \<open>Simulator\<close>

record ('w, 'x) evm_simulator =
  xs_Encoder :: "evm_encoder option"
  xs_Inspector :: "('w, 'x) evm_backend option"

definition evm_NewSimulator ::
  "evm_encoder option \<Rightarrow> ('w, 'x) evm_backend option \<Rightarrow> ('w, 'x) evm_simulator res" where
  "evm_NewSimulator enc client =
     (if enc = None then Inl (Errorf ''Simulator was created without an encoder'')
      else case client of
        None \<Rightarrow> Inl (Errorf ''Simulator was created without an inspector'')
      | Some cl \<Rightarrow> Inr \<lparr>xs_Encoder = enc, xs_Inspector = Some cl\<rparr>)"

text \<open>A method of a nil encoder dereferences it, as does the client of a nil inspector.\<close>

definition SimulateSetRoot ::
  "'g geth_pkg_scheme \<Rightarrow> ('w, 'x) evm_simulator \<Rightarrow> string \<Rightarrow> chain_metadata \<Rightarrow> hash list \<Rightarrow> hash \<Rightarrow> u32 \<Rightarrow>
     signature list \<Rightarrow> 'w \<Rightarrow> unit res" where
  "SimulateSetRoot G s originCaller metadata proof merkleRoot validUntil sortedSignatures w =
     bindE (deref (xs_Encoder s)) (\<lambda>enc.
     bindE (ToGethRootMetadata G enc metadata) (\<lambda>bindMeta.
     bindE (deref (xs_Inspector s)) (\<lambda>cl.
     bindE (ManyChainMultiSigPack cl ''setRoot''
              (set_root_values merkleRoot validUntil bindMeta (transformHashes proof)
                 (transformSignatures sortedSignatures))) (\<lambda>data.
     bindE (ext (CallContract cl
              \<lparr>cmsg_From = HexToAddress G originCaller, cmsg_To = HexToAddress G (cm_MCMAddress metadata),
               cmsg_Value = Some 0, cmsg_Data = data, cmsg_Gas = 0\<rparr> w)) (\<lambda>_. Inr ())))))"

definition SimulateOperation ::
  "'g geth_pkg_scheme \<Rightarrow> ('w, 'x) evm_simulator \<Rightarrow> 'w \<Rightarrow> chain_metadata \<Rightarrow> operation \<Rightarrow> unit res" where
  "SimulateOperation G s w metadata op =
     (if xs_Encoder s = None then Inl (Errorf ''Simulator was created without an encoder'')
      else case xs_Inspector s of
        None \<Rightarrow> Inl (Errorf ''Simulator was created without an inspector'')
      | Some cl \<Rightarrow>
          bindE (EvmFieldsUnmarshal G (tx_AdditionalFields (op_Transaction op)) None) (\<lambda>value.
          bindE (ext (CallContract cl
                   \<lparr>cmsg_From = HexToAddress G (cm_MCMAddress metadata),
                    cmsg_To = HexToAddress G (tx_To (op_Transaction op)), cmsg_Value = value,
                    cmsg_Data = tx_Data (op_Transaction op), cmsg_Gas = 0\<rparr> w)) (\<lambda>_. Inr ())))"

text \<open>As a value of the interface of \<open>Signable\<close>, in one state of the chain.\<close>

definition evm_simulator_iface :: "'g geth_pkg_scheme \<Rightarrow> ('w, 'x) evm_simulator \<Rightarrow> 'w \<Rightarrow> simulator" where
  "evm_simulator_iface G s w = SimulateOperation G s w"

section \<open>Lemmas\<close>

text \<open>The proposal's encoder of an EVM chain.\<close>

lemma proposal_encoder_evm:
  assumes encs: "GetEncoders E p = Inr encoders" and fam: "ChainDetails E sel = Inr FamilyEVM"
    and md: "gm_get (bp_ChainMetadata p) sel \<noteq> None" and wf: "gm_wf (bp_ChainMetadata p)"
  shows "gm_get0 encoders sel None = Some (evm_NewEncoder E sel (gm_get0 (TransactionCounts p) sel 0)
    (bp_OverridePreviousRoot p) (bp_useSimulatedBackend p))"
proof -
  have "newEncoder E sel n ov sim = Inr (Some (evm_NewEncoder E sel n ov sim))" for n ov sim
    using fam by (simp add: newEncoder_def GetChainSelectorFamily_def supportedFamilies_def)
  moreover obtain m where "gm_get (bp_ChainMetadata p) sel = Some m" using md by blast
  ultimately show ?thesis
    unfolding gm_get0_def [of encoders] GetEncoders_get(1) [OF encs wf] by simp
qed


definition metadata_proof_checks :: "'g geth_pkg_scheme \<Rightarrow> hash \<Rightarrow> geth_root_metadata \<Rightarrow> hash list \<Rightarrow> bool" where
  "metadata_proof_checks G rt bindMeta proof \<longleftrightarrow>
     (case Encode G metadata_abi [AbiBytes32 (mcmDomainSeparatorMetadata G), geth_root_metadata_value bindMeta] of
        Inl _ \<Rightarrow> False
      | Inr bs \<Rightarrow> foldl (hashPair (Keccak256Hash G)) (Keccak256Hash G bs) proof = rt)"


lemma evm_HashMetadata_checks:
  assumes "evm_HashMetadata G enc md = Inr h" and "foldl (hashPair (Keccak256Hash G)) h proof = rt"
  obtains b where "ToGethRootMetadata G enc md = Inr b" and "metadata_proof_checks G rt b proof"
  using assms by (auto simp: evm_HashMetadata_def bindE_Inr_iff metadata_proof_checks_def)

text \<open>
  The generated bindings as documented. Making a binding only parses the contract's ABI, which is a
  constant. Packing the arguments of a method fails for an unknown method and for arguments of the
  wrong number or types, and panics on a nil \<open>*big.Int\<close>; it succeeds on what the executors pack: an
  operation with a value and a list of hashes for \<open>execute\<close>, the five arguments of \<open>setRoot\<close>.
\<close>

definition bindings_documented :: "('w, 'x, 'm) evm_backend_scheme \<Rightarrow> bool" where
  "bindings_documented B \<longleftrightarrow>
     (\<forall>a. NewManyChainMultiSig B a = Inr ()) \<and> (\<forall>a. NewRBACTimelock B a = Inr ()) \<and>
     (\<forall>op proof. gop_Value op \<noteq> None \<longrightarrow>
        (\<exists>d. ManyChainMultiSigPack B ''execute'' [geth_op_value op, AbiSlice (map AbiBytes32 proof)] = Inr d)) \<and>
     (\<forall>rt validUntil meta proof sigs.
        \<exists>d. ManyChainMultiSigPack B ''setRoot'' (set_root_values rt validUntil meta proof sigs) = Inr d)"


lemma evm_SetRoot_sends:
  assumes "xe_Encoder x = Some enc" and "xe_auth x = Some opts" and "bindings_documented (xe_client x)"
    and "ToGethRootMetadata G enc md = Inr bindMeta"
  shows "\<exists>preview. evm_SetRoot G R x md proof rt validUntil sigs w =
    report_sent R (xe_client x) preview opts (HexToAddress G (cm_MCMAddress md)) 0 []
      (mcms_SetRoot (xe_client x) opts (HexToAddress G (cm_MCMAddress md)) rt validUntil bindMeta proof
         (transformSignatures sigs) w)"
proof -
  obtain d where "ManyChainMultiSigPack (xe_client x) ''setRoot''
      (set_root_values rt validUntil bindMeta proof (transformSignatures sigs)) = Inr d"
    using assms(3) unfolding bindings_documented_def by blast
  with assms show ?thesis
    by (simp add: evm_SetRoot_def the_encoder_def buildSetRootCallData_def transformHashes_def
        bindings_documented_def Let_def) blast
qed

lemma sort_signer_toGeth: "sort_signer C h (toGethSignature s) = sort_signer C h s"
  by (simp add: sort_signer_def Recover_toGeth)

text \<open>The contract keeps the configuration that it is given, numbering the signers.\<close>

definition mcms_config_documented :: "('w, 'x, 'm) evm_backend_scheme \<Rightarrow> bool" where
  "mcms_config_documented B \<longleftrightarrow>
     (\<forall>opts a signers groups quorums parents clearRoot w tx w'.
        mcms_SetConfig B opts a signers groups quorums parents clearRoot w = (Inr tx, w') \<longrightarrow>
        mcms_GetConfig B a w' =
          Inr \<lparr>mc_Signers = bind_signers 0 signers groups, mc_GroupQuorums = quorums, mc_GroupParents = parents\<rparr>)"

lemma SetConfig_stores:
  assumes "casts_documented G" and "config_Validate cfg = Inr ()" and "evm_fits cfg"
    and "mcms_config_documented (xc_client c)"
    and "evm_SetConfig G c addr cfg clearRoot w = ((r, None), w')"
  shows "\<exists>b. evm_ToChainConfig G cfg = Inr b \<and> mcms_GetConfig (xc_client c) (HexToAddress G addr) w' = Inr b \<and>
    NewManyChainMultiSig (xc_client c) (HexToAddress G addr) = Inr ()"
proof -
  let ?B = "xc_client c" and ?a = "HexToAddress G addr"
  obtain b where b: "evm_ToChainConfig G cfg = Inr b"
    using evm.stored [OF assms(1-3)] by blast
  then obtain q p as gs where ex: "ExtractSetConfigInputs G cfg = Inr (q, p, as, gs)"
    and bdef: "b = \<lparr>mc_Signers = bind_signers 0 as gs, mc_GroupQuorums = q, mc_GroupParents = p\<rparr>"
    by (auto simp: evm_ToChainConfig_def bindE_Inr_iff split: if_splits)
  from assms(5) ex obtain opts tx where "NewManyChainMultiSig ?B ?a = Inr ()"
    and "mcms_SetConfig ?B opts ?a as gs q p clearRoot w = (Inr tx, w')"
    by (cases "NewManyChainMultiSig ?B ?a"; cases "xc_auth c")
      (auto simp: evm_SetConfig_def Let_def fail_with_def plain_sent_def sent_tx_def split: prod.splits sum.splits)
  with assms(4) b bdef show ?thesis unfolding mcms_config_documented_def by blast
qed


section \<open>A sample backend\<close>

text \<open>It remembers the configuration set last, the operations and the batches executed.\<close>

type_synonym sample_world = "mcms_config \<times> (geth_op \<times> hash list) list \<times> timelock_call list list"

definition empty_config :: mcms_config where
  "empty_config = \<lparr>mc_Signers = [], mc_GroupQuorums = [], mc_GroupParents = []\<rparr>"

text \<open>Packing as the ABI of the contract has it: two methods, each with its arguments, no nil numbers.\<close>

fun sample_parts :: "abi_value \<Rightarrow> abi_value list" where
  "sample_parts (AbiTuple vs) = vs"
| "sample_parts v = []"

definition sample_pack_method :: "string \<Rightarrow> abi_value list \<Rightarrow> byte list res" where
  "sample_pack_method m vs =
     (if m = ''execute'' \<and> length vs = 2 \<and> AbiUint None \<notin> set (sample_parts (vs ! 0)) \<or>
         m = ''setRoot'' \<and> length vs = 5
      then Inr (concat (map sample_pack vs)) else Inl (External ''abi''))"

definition sample_backend :: "(sample_world, unit) evm_backend" where
  "sample_backend =
     \<lparr>CodeAt = (\<lambda>_ _. Inr []), CallContract = (\<lambda>_ _. Inr []),
      NewManyChainMultiSig = (\<lambda>_. Inr ()), NewRBACTimelock = (\<lambda>_. Inr ()),
      ManyChainMultiSigPack = sample_pack_method, TxHashHex = (\<lambda>_. ''0x0''),
      IsHexAddress = (\<lambda>_. True), GasFieldsUnmarshal = (\<lambda>_. Inr (None, 0)),
      mcms_GetConfig = (\<lambda>_ w. Inr (fst w)), mcms_GetOpCount = (\<lambda>_ w. Inr (int (length (fst (snd w))))),
      mcms_GetRoot = (\<lambda>_ _. Inr (0, 0)), mcms_GetRootMetadata_PreOpCount = (\<lambda>_ _. Inr 0),
      mcms_SetConfig = (\<lambda>_ _ as gs q p _ w. (Inr (), (\<lparr>mc_Signers = bind_signers 0 as gs, mc_GroupQuorums = q,
        mc_GroupParents = p\<rparr>, snd w))),
      mcms_Execute = (\<lambda>_ _ op pf w. (Inr (), (fst w, fst (snd w) @ [(op, pf)], snd (snd w)))),
      mcms_SetRoot = (\<lambda>_ _ _ _ _ _ _ w. (Inr (), w)),
      timelock_PROPOSERROLE = (\<lambda>_ _. Inr 1), timelock_EXECUTORROLE = (\<lambda>_ _. Inr 2),
      timelock_BYPASSERROLE = (\<lambda>_ _. Inr 3), timelock_CANCELLERROLE = (\<lambda>_ _. Inr 4),
      timelock_GetRoleMemberCount = (\<lambda>_ _ _. Inr 2), timelock_GetRoleMember = (\<lambda>_ _ i _. Inr (word_of_int i)),
      timelock_IsOperation = (\<lambda>_ _ _. Inr True), timelock_IsOperationPending = (\<lambda>_ _ _. Inr True),
      timelock_IsOperationReady = (\<lambda>_ _ _. Inr True), timelock_IsOperationDone = (\<lambda>_ _ _. Inr False),
      timelock_GetMinDelay = (\<lambda>_ _. Inr 0),
      timelock_ExecuteBatch = (\<lambda>_ _ calls _ _ w. (Inr (), (fst w, fst (snd w), snd (snd w) @ [calls]))),
      timelock_UpdateDelay = (\<lambda>_ _ _ w. (Inr (), w)), timelock_GrantRole = (\<lambda>_ _ _ _ w. (Inr (), w))\<rparr>"

definition sample_opts :: transact_opts where
  "sample_opts = \<lparr>opts_Nonce = None, opts_GasPrice = None, opts_GasFeeCap = None, opts_GasTipCap = None, opts_GasLimit = 0\<rparr>"

definition sample_evm_executor :: "chain_selector \<Rightarrow> u64 \<Rightarrow> (sample_world, unit) evm_executor" where
  "sample_evm_executor sel n =
     \<lparr>xe_Encoder = Some \<lparr>ee_ChainSelector = sel, ee_TxCount = n, ee_OverridePreviousRoot = False, ee_IsSim = False\<rparr>,
      xe_client = sample_backend, xe_auth = Some sample_opts\<rparr>"

lemma sample_backend_binds: "bindings_documented sample_backend"
  by (auto simp: bindings_documented_def sample_backend_def sample_pack_method_def geth_op_value_def
      set_root_values_def)

lemma sample_backend_config: "mcms_config_documented sample_backend"
  by (simp add: mcms_config_documented_def sample_backend_def)

section \<open>Properties\<close>




text \<open>
  C16: SetRoot on an EVM chain sends the root that was signed, its expiry, and metadata that claims
  exactly the chain's share of the proposal: it starts at the metadata's op count and ends after as
  many operations as the proposal has on the chain. The metadata proof passes the contract's check,
  and the signatures are in ascending order of the signers the contract will recover from them.
\<close>

theorem evm_set_root_passes_contract_check:
  assumes "gm_wf (bp_ChainMetadata p)" and "NewExecutable E p executors = Inr e" and "sign_msg_documented E"
    and "gm_get (bp_ChainMetadata p) sel = Some md" and "ChainDetails E sel = Inr FamilyEVM"
    and "gm_get executors sel = Some (evm_executor_iface E R x)"
    and "xe_Encoder x = Some \<lparr>ee_ChainSelector = sel, ee_TxCount = gm_get0 (TransactionCounts p) sel 0,
           ee_OverridePreviousRoot = bp_OverridePreviousRoot p, ee_IsSim = bp_useSimulatedBackend p\<rparr>"
    and "xe_auth x = Some opts" and "bindings_documented (xe_client x)"
  shows "\<exists>t hash bindMeta proof sigs preview. MerkleTree E p = Inr t \<and> SigningHash E p = Inr hash \<and>
    metadata_proof_checks E (mt_Root t) bindMeta proof \<and>
    grm_MultiSig bindMeta = HexToAddress E (cm_MCMAddress md) \<and>
    grm_PreOpCount bindMeta = cm_StartingOpCount md \<and>
    grm_PostOpCount bindMeta = cm_StartingOpCount md + of_nat (ops_on sel (pr_Operations p)) \<and>
    mset sigs = mset (map toGethSignature (bp_Signatures p)) \<and> sorted (map (sort_signer E hash) sigs) \<and>
    SetRoot E e sel w =
      apfst (sent_res R)
        (report_sent R (xe_client x) preview opts (grm_MultiSig bindMeta) 0 []
           (mcms_SetRoot (xe_client x) opts (grm_MultiSig bindMeta) (mt_Root t) (bp_ValidUntil p) bindMeta proof sigs w))"
proof -
  let ?enc = "\<lparr>ee_ChainSelector = sel, ee_TxCount = gm_get0 (TransactionCounts p) sel 0,
           ee_OverridePreviousRoot = bp_OverridePreviousRoot p, ee_IsSim = bp_useSimulatedBackend p\<rparr>"
  from assms(2) have t: "MerkleTree E p = Inr (exe_tree e)" and encs: "GetEncoders E p = Inr (exe_encoders e)"
    by (auto elim: NewExecutable_InrE)
  from proposal_encoder_evm [OF encs assms(5) _ assms(1)] assms(4)
  have enc: "call_HashMetadata (gm_get0 (exe_encoders e) sel None) md = evm_HashMetadata E ?enc md"
    by (simp add: call_HashMetadata_def evm_NewEncoder_methods)
  from SetRoot_delivers [OF assms(2-4,6), of w] enc obtain h pf hash where
    h: "evm_HashMetadata E ?enc md = Inr h" "foldl (hashPair (Keccak256Hash E)) h pf = mt_Root (exe_tree e)" and
    hash: "SigningHash E p = Inr hash" and
    x: "SetRoot E e sel w = ex_SetRoot (evm_executor_iface E R x) md pf (mt_Root (exe_tree e)) (bp_ValidUntil p)
      (sort_signatures E hash (bp_Signatures p)) w" by metis
  from h obtain b where b: "ToGethRootMetadata E ?enc md = Inr b"
    and chk: "metadata_proof_checks E (mt_Root (exe_tree e)) b pf" by (rule evm_HashMetadata_checks)
  from b have bf: "grm_MultiSig b = HexToAddress E (cm_MCMAddress md)" "grm_PreOpCount b = cm_StartingOpCount md"
    "grm_PostOpCount b = cm_StartingOpCount md + gm_get0 (TransactionCounts p) sel 0"
    by (auto simp: ToGethRootMetadata_def bindE_Inr_iff)
  have cnt: "gm_get0 (TransactionCounts p) sel 0 = of_nat (ops_on sel (pr_Operations p))"
    by (auto simp: gm_get0_def TransactionCounts_get ops_on_def)
  let ?sigs = "map toGethSignature (sort_signatures E hash (bp_Signatures p))"
  have sigs: "mset ?sigs = mset (map toGethSignature (bp_Signatures p))" "sorted (map (sort_signer E hash) ?sigs)"
    using sort_signatures_sorted(1) [of E hash "bp_Signatures p"] sort_signatures_sorted(2) [of E hash "bp_Signatures p"]
    by (simp_all add: comp_def sort_signer_toGeth)
  from evm_SetRoot_sends [OF assms(7-9) b] obtain preview where
    "evm_SetRoot E R x md pf (mt_Root (exe_tree e)) (bp_ValidUntil p) (sort_signatures E hash (bp_Signatures p)) w =
      report_sent R (xe_client x) preview opts (grm_MultiSig b) 0 []
        (mcms_SetRoot (xe_client x) opts (grm_MultiSig b) (mt_Root (exe_tree e)) (bp_ValidUntil p) b pf ?sigs w)"
    unfolding bf transformSignatures_def by blast
  with x have "SetRoot E e sel w = apfst (sent_res R)
      (report_sent R (xe_client x) preview opts (grm_MultiSig b) 0 []
        (mcms_SetRoot (xe_client x) opts (grm_MultiSig b) (mt_Root (exe_tree e)) (bp_ValidUntil p) b pf ?sigs w))"
    by (simp add: evm_executor_iface_def)
  with t hash chk bf cnt sigs show ?thesis by metis
qed

theorem evm_set_root_passes_contract_check_witness:
  "\<exists>e t b pf. NewExecutable sample_env sample_proposal
       [(5, evm_executor_iface sample_env sample_revert (sample_evm_executor 5 2)),
        (7, evm_executor_iface sample_env sample_revert (sample_evm_executor 7 1))] = Inr e \<and>
     MerkleTree sample_env sample_proposal = Inr t \<and> grm_PreOpCount b = 3 \<and> grm_PostOpCount b = 4 \<and>
     metadata_proof_checks sample_env (mt_Root t) b pf"
proof -
  let ?x = "sample_evm_executor 7 1"
  let ?ex = "[(5, evm_executor_iface sample_env sample_revert (sample_evm_executor 5 2)),
        (7, evm_executor_iface sample_env sample_revert ?x)]"
  obtain t0 where "MerkleTree sample_env sample_proposal = Inr t0" using sample_tree by blast
  then obtain e where e: "NewExecutable sample_env sample_proposal ?ex = Inr e"
    by (auto elim!: MerkleTree_InrE simp: NewExecutable_def sample_nonces)
  have "gm_get0 (TransactionCounts sample_proposal) 7 0 = 1" by (simp add: gm_get0_def TransactionCounts_get)
  moreover have "gm_wf (bp_ChainMetadata sample_proposal)" by (simp add: gm_wf_def)
  moreover have "gm_get (bp_ChainMetadata sample_proposal) 7 = Some (sample_metadata 3)" by simp
  ultimately show ?thesis
    using evm_set_root_passes_contract_check [OF _ e sample_env_sign_msg, of 7 "sample_metadata 3" sample_revert ?x
        sample_opts "(empty_config, [], [])"] sample_backend_binds e
    by (auto simp: sample_evm_executor_def sample_proposal_def sample_metadata_def sample_op_def)
qed

text \<open>
  C17: a configuration survives the EVM chain. After SetConfig has sent a valid configuration of at most
  32 groups and 255 signers, GetConfig in the new state of the chain answers with one that is Equal
  to it in both directions and decides every quorum as it does.
\<close>

theorem evm_SetConfig_GetConfig:
  assumes "casts_documented G" and "config_Validate cfg = Inr ()" and "evm_fits cfg"
    and "mcms_config_documented (xc_client c)"
    and "evm_SetConfig G c addr cfg clearRoot w = ((r, None), w')"
  shows "\<exists>cfg'. evm_GetConfig G (xc_client c) w' addr = Inr cfg' \<and> config_Equals cfg cfg' \<and> config_Equals cfg' cfg \<and>
    (\<forall>xs. QuorumMet cfg' xs = QuorumMet cfg xs)"
proof -
  from SetConfig_stores [OF assms] obtain b where b: "evm_ToChainConfig G cfg = Inr b"
    and g: "evm_GetConfig G (xc_client c) w' addr = evm_ToConfig b"
    by (auto simp: evm_GetConfig_def)
  from evm.stored [OF assms(1-3)] b obtain cfg' where c': "evm_ToConfig b = Inr cfg'" by auto
  from evm.stored_quorum(2-4) [OF assms(1-3) b c'] c' g show ?thesis by auto
qed

theorem evm_SetConfig_GetConfig_witness:
  "\<exists>r w' cfg'. evm_SetConfig sample_env \<lparr>xc_client = sample_backend, xc_auth = Some sample_opts\<rparr> ''0x2''
       (Config 2 [9, 4] [Config 1 [7, 3] []]) False (empty_config, [], []) = ((r, None), w') \<and>
     evm_GetConfig sample_env sample_backend w' ''0x2'' = Inr cfg' \<and> QuorumMet cfg' [9, 7]"
proof -
  let ?cfg = "Config 2 [9, 4] [Config 1 [7, 3] []]" and ?c = "\<lparr>xc_client = sample_backend, xc_auth = Some sample_opts\<rparr>"
  have v: "config_Validate ?cfg = Inr ()" and f: "evm_fits ?cfg" by (simp_all add: evm_fits_def)
  obtain b where "evm_ToChainConfig sample_env ?cfg = Inr b"
    by (rule evm.stored [OF sample_env_casts v f])
  then obtain q p as gs where "ExtractSetConfigInputs sample_env ?cfg = Inr (q, p, as, gs)"
    unfolding evm_ToChainConfig_def bindE_Inr_iff by auto
  then obtain r w' where s: "evm_SetConfig sample_env ?c ''0x2'' ?cfg False (empty_config, [], []) = ((r, None), w')"
    by (simp add: evm_SetConfig_def Let_def plain_sent_def sent_tx_def sample_backend_def)
  have "QuorumMet ?cfg [9, 7]" by (simp add: QuorumMet_def)
  with evm_SetConfig_GetConfig [OF sample_env_casts v f _ s] sample_backend_config s show ?thesis by auto
qed


text \<open>
  The timelock executes the batch whose id was scheduled. When the values of a batch are written
  in its fields, so that the default of the converter is never used, the executor sends exactly the
  calls that OperationID hashed: the same targets, values and data, with the same predecessor and salt.
\<close>

theorem evm_timelock_executes_scheduled:
  assumes "evm_OperationID G bop action predecessor salt = Inr opid"
    and "\<forall>tx \<in> set (bop_Transactions bop). raw_nonempty (tx_AdditionalFields tx) \<and>
      (\<exists>v. EvmFieldsUnmarshal G (tx_AdditionalFields tx) None = Inr (Some v) \<and>
         EvmFieldsUnmarshal G (tx_AdditionalFields tx) (Some 0) = Inr (Some v))"
    and "xt_auth t = Some opts" and "bindings_documented (xt_client t)"
    and "\<And>calls. \<forall>c \<in> set calls. tc_Value c \<noteq> None \<Longrightarrow>
      \<exists>d. RBACTimelockPack G ''executeBatch''
        [AbiSlice (map timelock_call_value calls), AbiBytes32 predecessor, AbiBytes32 salt] = Inr d"
  shows "\<exists>calls preview. HashOperationBatch G calls predecessor salt = Inr opid \<and>
    map tc_Data calls = map tx_Data (bop_Transactions bop) \<and>
    map tc_Target calls = map (\<lambda>tx. HexToAddress G (tx_To tx)) (bop_Transactions bop) \<and>
    evm_timelock_Execute G R t bop addr predecessor salt w =
      report_sent R (xt_client t) preview opts (HexToAddress G addr) (HexToAddress G addr) (gtx_Data preview)
        (timelock_ExecuteBatch (xt_client t) opts (HexToAddress G addr) calls predecessor salt w)"
proof -
  have same: "execute_call G tx = evm_call G tx" if ok: "\<exists>c. evm_call G tx = Inr c" and tx: "tx \<in> set (bop_Transactions bop)" for tx
  proof -
    from assms(2) tx have "raw_nonempty (tx_AdditionalFields tx)" and
      "EvmFieldsUnmarshal G (tx_AdditionalFields tx) None = EvmFieldsUnmarshal G (tx_AdditionalFields tx) (Some 0)"
      by auto
    with ok show ?thesis
      by (cases "EvmFieldsUnmarshal G (tx_AdditionalFields tx) (Some 0)")
        (auto simp: execute_call_def evm_call_def evm_fields_def)
  qed
  from assms(1) obtain calls where calls: "mapE (evm_call G) (bop_Transactions bop) = Inr calls"
    and hash: "HashOperationBatch G calls predecessor salt = Inr opid"
    by (auto simp: evm_OperationID_def bindE_Inr_iff)
  from calls have each: "\<exists>c. evm_call G tx = Inr c" if "tx \<in> set (bop_Transactions bop)" for tx
    using mapE_mem [OF calls that] by blast
  with same have exec: "mapE (execute_call G) (bop_Transactions bop) = Inr calls"
    using calls mapE_cong [OF refl, of "bop_Transactions bop" "execute_call G" "evm_call G"] by simp
  have "list_all2 (\<lambda>tx c. tc_Data c = tx_Data tx \<and> tc_Target c = HexToAddress G (tx_To tx)) (bop_Transactions bop) calls"
    using calls unfolding mapE_Inr_iff by (rule list_all2_mono) (auto simp: evm_call_def bindE_Inr_iff)
  then have "map tc_Data calls = map tx_Data (bop_Transactions bop)"
    "map tc_Target calls = map (\<lambda>tx. HexToAddress G (tx_To tx)) (bop_Transactions bop)"
    by (induction rule: list_all2_induct) auto
  moreover have "\<forall>c \<in> set calls. tc_Value c \<noteq> None"
  proof
    fix c
    assume "c \<in> set calls"
    from mapE_mem_result [OF calls this] obtain tx where "tx \<in> set (bop_Transactions bop)" "evm_call G tx = Inr c" by blast
    moreover from this(1) assms(2) obtain v where "EvmFieldsUnmarshal G (tx_AdditionalFields tx) (Some 0) = Inr (Some v)"
      by blast
    ultimately show "tc_Value c \<noteq> None" using assms(2) by (auto simp: evm_call_def evm_fields_def bindE_Inr_iff)
  qed
  from assms(5) [OF this] obtain d where "RBACTimelockPack G ''executeBatch''
      [AbiSlice (map timelock_call_value calls), AbiBytes32 predecessor, AbiBytes32 salt] = Inr d" by blast
  then have "\<exists>preview. evm_timelock_Execute G R t bop addr predecessor salt w =
      report_sent R (xt_client t) preview opts (HexToAddress G addr) (HexToAddress G addr) (gtx_Data preview)
        (timelock_ExecuteBatch (xt_client t) opts (HexToAddress G addr) calls predecessor salt w)"
    using assms(3,4) exec
    by (simp add: evm_timelock_Execute_def buildTimelockExecuteTxData_def bindings_documented_def Let_def) blast
  ultimately show ?thesis using hash by blast
qed

theorem evm_timelock_executes_scheduled_witness:
  "\<exists>opid calls. evm_OperationID sample_env (sample_batch 5 1) TimelockActionSchedule 0 0 = Inr opid \<and>
     HashOperationBatch sample_env calls 0 0 = Inr opid \<and>
     snd (evm_timelock_Execute sample_env sample_revert \<lparr>xt_client = sample_backend, xt_auth = Some sample_opts\<rparr>
            (sample_batch 5 1) ''0x3'' 0 0 (empty_config, [], [])) = (empty_config, [], [calls])"
proof -
  let ?t = "\<lparr>xt_client = sample_backend, xt_auth = Some sample_opts\<rparr>"
  have "\<forall>tx \<in> set (bop_Transactions (sample_batch 5 1)). raw_nonempty (tx_AdditionalFields tx)"
    by (simp add: sample_batch_def raw_nonempty_def sample_op_def)
  moreover obtain opid where "evm_OperationID sample_env (sample_batch 5 1) TimelockActionSchedule 0 0 = Inr opid"
    by (simp add: evm_OperationID_def sample_batch_def evm_call_def evm_fields_def HashOperationBatch_def)
  ultimately show ?thesis
    using evm_timelock_executes_scheduled [of sample_env "sample_batch 5 1" TimelockActionSchedule 0 0 opid ?t sample_opts
        sample_revert "''0x3''" "(empty_config, [], [])"] sample_backend_binds
    by (auto simp: sample_backend_def report_sent_def)
qed

text \<open>
  The library disagrees with itself about a value that is left out. The empty JSON object passes the
  validation of a proposal, and a batch is scheduled and identified with the value zero; but encoding
  the operation for the MCM contract and executing the batch through the timelock take a nil value.
\<close>

theorem omitted_value_disagrees:
  assumes "\<forall>d. EvmFieldsUnmarshal G (RawJson (JObj [])) d = Inr d"
    and "tx_AdditionalFields tx = RawJson (JObj [])"
  shows "evm_ValidateAdditionalFields G (tx_AdditionalFields tx) = Inr () \<and>
    (\<exists>c. evm_call G tx = Inr c \<and> tc_Value c = Some 0) \<and>
    (\<exists>c. execute_call G tx = Inr c \<and> tc_Value c = None) \<and>
    (\<forall>enc n md bindOp. ToGethOperation G enc n md \<lparr>op_ChainSelector = sel, op_Transaction = tx\<rparr> = Inr bindOp \<longrightarrow>
       gop_Value bindOp = None)"
  using assms
  by (auto simp: evm_ValidateAdditionalFields_def evm_fields_def raw_nonempty_def evm_fields_Validate_def evm_call_def
      execute_call_def ToGethOperation_def bindE_Inr_iff)

theorem omitted_value_disagrees_witness:
  "evm_ValidateAdditionalFields (sample_env\<lparr>EvmFieldsUnmarshal := \<lambda>_ d. Inr d\<rparr>) (RawJson (JObj [])) = Inr () \<and>
   (\<exists>c. execute_call (sample_env\<lparr>EvmFieldsUnmarshal := \<lambda>_ d. Inr d\<rparr>) (op_Transaction (sample_op 5)) = Inr c \<and> tc_Value c = None)"
  using omitted_value_disagrees [of "sample_env\<lparr>EvmFieldsUnmarshal := \<lambda>_ d. Inr d\<rparr>" "op_Transaction (sample_op 5)"]
  by (simp add: sample_op_def)

text \<open>
  GrantRole reaches the contract exactly for a known role and two addresses that are hexadecimal and
  not zero, on a timelock that can be bound with a signer to send; then it grants the Keccak hash of
  the role's name, and otherwise it sends nothing and says why.
\<close>

theorem GrantRole_exact:
  assumes "xc_auth c = Some opts"
  shows "let B = xc_client c; timelock = HexToAddress G timelockAddress; account = HexToAddress G targetAddress in
    if IsHexAddress B timelockAddress \<and> TimelockRole_Valid role \<and> IsHexAddress B targetAddress \<and>
       timelock \<noteq> 0 \<and> account \<noteq> 0 \<and> NewRBACTimelock B timelock = Inr ()
    then \<exists>name. gm_get timelockRoleHashNames role = Some name \<and>
       GrantRole G c timelockAddress role targetAddress w =
         plain_sent B (Wrapf ''failed to grant role %s to %s on %s: %w'')
           (timelock_GrantRole B opts timelock (Keccak256Hash G (string_bytes name)) account w)
    else \<exists>err. GrantRole G c timelockAddress role targetAddress w = (fail_with err, w)"
proof -
  have valid: "TimelockRole_Valid role \<longleftrightarrow> (\<exists>name. gm_get timelockRoleHashNames role = Some name)"
    by (auto simp: TimelockRole_Valid_def timelockRoleNames_def timelockRoleHashNames_def)
  show ?thesis
  proof (cases "gm_get timelockRoleHashNames role")
    case None
    then have "\<not> TimelockRole_Valid role" using valid by simp
    with None show ?thesis
      by (auto simp: GrantRole_def TimelockRoleHash_def Let_def guardE_def)
  next
    case (Some name)
    then have "TimelockRole_Valid role" using valid by simp
    with Some assms(1) show ?thesis
      by (cases "NewRBACTimelock (xc_client c) (HexToAddress G timelockAddress)")
        (auto simp: GrantRole_def TimelockRoleHash_def Let_def guardE_def)
  qed
qed

theorem GrantRole_exact_witness:
  "\<exists>s. GrantRole sample_env \<lparr>xc_client = sample_backend, xc_auth = Some sample_opts\<rparr> ''0x3'' TimelockRoleProposer ''0x4''
     (empty_config, [], []) = plain_sent sample_backend (Wrapf s) (Inr (), (empty_config, [], []))"
proof -
  have "TimelockRole_Valid TimelockRoleProposer"
    by (simp add: TimelockRole_Valid_def timelockRoleNames_def)
  then show ?thesis
    using GrantRole_exact [where c = "\<lparr>xc_client = sample_backend, xc_auth = Some sample_opts\<rparr>" and opts = sample_opts
        and G = sample_env and timelockAddress = "''0x3''" and role = TimelockRoleProposer and targetAddress = "''0x4''"
        and w = "(empty_config, [], [])"]
    by (auto simp: sample_backend_def string_bytes_def from_be_def Let_def)
qed

end
