(* ===== verification/ByteCode.thy ===== *)
theory ByteCode
  imports Prelude
begin

text \<open>
  Byte strings that are hashed: little-endian numbers, and codes that can be read back from the
  front of a longer string. Where the encoding of a value is such a code, two values with the same
  encoding are equal, so a hash of the encoding commits to the value.
\<close>

section \<open>Little-endian bytes\<close>

definition le_bytes :: "nat \<Rightarrow> 'a::len word \<Rightarrow> byte list" where
  "le_bytes n w = rev (be_bytes n w)"

lemma length_le_bytes [simp]: "length (le_bytes n w) = n"
  by (simp add: le_bytes_def)

lemma le_bytes_inject:
  "LENGTH('a) \<le> 8 * n \<Longrightarrow> le_bytes n v = le_bytes n w \<longleftrightarrow> v = (w :: 'a::len word)"
  by (simp add: le_bytes_def be_bytes_inject)

section \<open>Codes\<close>

text \<open>\<open>ok\<close> holds of the values the code is meant for, such as the lists whose length fits its field.\<close>

locale byte_code =
  fixes ok :: "'a \<Rightarrow> bool" and enc :: "'a \<Rightarrow> byte list"
  assumes splits: "ok x \<Longrightarrow> ok y \<Longrightarrow> enc x @ r = enc y @ s \<Longrightarrow> x = y \<and> r = s"
begin

lemma inject: "ok x \<Longrightarrow> ok y \<Longrightarrow> enc x = enc y \<Longrightarrow> x = y"
  using splits [of x y "[]" "[]"] by simp

lemma concat_splits:
  "length xs = length ys \<Longrightarrow> list_all ok xs \<Longrightarrow> list_all ok ys \<Longrightarrow>
     concat (map enc xs) @ r = concat (map enc ys) @ s \<Longrightarrow> xs = ys \<and> r = s"
proof (induction xs ys rule: list_induct2)
  case (Cons x xs y ys)
  then have "x = y \<and> concat (map enc xs) @ r = concat (map enc ys) @ s"
    using splits [of x y "concat (map enc xs) @ r" "concat (map enc ys) @ s"] by simp
  with Cons show ?case by simp
qed simp

text \<open>A list preceded by its length in a field of fixed width.\<close>

lemma counted_splits:
  assumes "\<And>m n :: nat. m < bound \<Longrightarrow> n < bound \<Longrightarrow> cnt m = cnt n \<Longrightarrow> m = n" and "\<And>n. length (cnt n) = k"
    and "length xs < bound" "length ys < bound" "list_all ok xs" "list_all ok ys"
    and eq: "cnt (length xs) @ concat (map enc xs) @ r = cnt (length ys) @ concat (map enc ys) @ s"
  shows "xs = ys \<and> r = s"
proof -
  from eq assms(2) have "cnt (length xs) = cnt (length ys)"
    and rest: "concat (map enc xs) @ r = concat (map enc ys) @ s"
    by (simp_all add: append_eq_append_conv)
  with assms(1,3,4) have "length xs = length ys" by blast
  from concat_splits [OF this assms(5,6) rest] show ?thesis .
qed

end

text \<open>An injective encoding of fixed width is a code.\<close>

lemma fixed_width_code:
  assumes "\<And>x. length (enc x) = n" and "inj enc"
  shows "byte_code (\<lambda>_. True) enc"
proof
  fix x y r s
  assume "enc x @ r = enc y @ s"
  with assms(1) have "enc x = enc y \<and> r = s" by (simp add: append_eq_append_conv)
  with assms(2) show "x = y \<and> r = s" by (simp add: inj_eq)
qed

text \<open>The 32 bytes of a public key, an address word or a hash, and single bytes.\<close>

interpretation key_code: byte_code "\<lambda>_. True" "be_bytes 32 :: hash \<Rightarrow> byte list"
  by (rule fixed_width_code [where n = 32]) (simp_all add: inj_def be_bytes_inject)

interpretation single_byte: byte_code "\<lambda>_. True" "\<lambda>b :: byte. [b]"
  by (rule fixed_width_code [where n = 1]) (simp_all add: inj_def)

lemma concat_single [simp]: "concat (map (\<lambda>b. [b]) bs) = bs"
  by (induction bs) simp_all

lemma word_of_nat_inject_bound:
  "m < 2 ^ LENGTH('a) \<Longrightarrow> n < 2 ^ LENGTH('a) \<Longrightarrow> (word_of_nat m :: 'a::len word) = word_of_nat n \<Longrightarrow> m = n"
  by (drule arg_cong [where f = unat]) (simp add: unsigned_of_nat take_bit_nat_eq_self)

end
