(* ===== verification/Solana.thy ===== *)
theory Solana
  imports Factory GoText ByteCode EvmConfig
begin

text \<open>
  The Solana side of a proposal: \<open>sdk/solana/contract_address.go\<close>, the account addresses and
  environment variables of \<open>common.go\<close>, \<open>transaction.go\<close>, \<open>chain_metadata.go\<close>, \<open>encoder.go\<close> and
  \<open>config_transformer.go\<close>. The packages the code calls (\<open>solana-go\<close>, the JSON text of its types, the
  struct-tag validator) and the process environment are fields of \<open>solana_env\<close>.
\<close>

section \<open>Data\<close>

text \<open>A \<open>solana.PublicKey\<close> is a \<open>[32]byte\<close>, read big-endian; a \<open>PDASeed\<close> is kept as its 32 bytes.\<close>

type_synonym pubkey = hash
type_synonym pda_seed = "byte list"

definition seed_wf :: "pda_seed \<Rightarrow> bool" where
  "seed_wf seed \<longleftrightarrow> length seed = 32"

record account_meta =
  am_PublicKey :: pubkey
  am_IsWritable :: bool
  am_IsSigner :: bool

text \<open>\<open>AdditionalFields\<close> of a transaction: a slice of pointers, some of which may be nil.\<close>

record solana_fields =
  sf_Accounts :: "account_meta option list"
  sf_Value :: "int option"

record solana_metadata =
  sm_Proposer :: pubkey
  sm_Canceller :: pubkey
  sm_Bypasser :: pubkey
  sm_ExecutePayer :: "pubkey option"

text \<open>An instruction is an interface value; its \<open>Data\<close> method may fail.\<close>

record solana_instruction =
  ix_ProgramID :: pubkey
  ix_Accounts :: "account_meta list"
  ix_Data :: "byte list res"

record solana_env = mcms_env +
  PublicKeyFromBase58 :: "string \<Rightarrow> pubkey res"
  PublicKeyString :: "pubkey \<Rightarrow> string"
  FindProgramAddress :: "byte list list \<Rightarrow> pubkey \<Rightarrow> pubkey res"
  SystemProgramID :: pubkey
  SolFieldsUnmarshal :: "raw \<Rightarrow> solana_fields res"
  SolFieldsMarshal :: "solana_fields \<Rightarrow> raw res"
  SolFieldsStruct :: "solana_fields \<Rightarrow> unit res"
  SolMetadataUnmarshal :: "raw \<Rightarrow> solana_metadata res"
  SolMetadataMarshal :: "solana_metadata \<Rightarrow> raw res"
  SolMetadataStruct :: "solana_metadata \<Rightarrow> unit res"
  LookupEnv :: "string \<Rightarrow> string option"

section \<open>Contract addresses\<close>

definition ErrInvalidContractAddressFormat :: mcms_error where
  "ErrInvalidContractAddressFormat = Errorf ''invalid solana contract address format''"

definition ContractAddress :: "'s solana_env_scheme \<Rightarrow> pubkey \<Rightarrow> pda_seed \<Rightarrow> string" where
  "ContractAddress S programID pdaSeed =
     PublicKeyString S programID @ ''.'' @ bytes_text (trim_zeros pdaSeed)"

text \<open>\<open>copy\<close> into a zeroed array of 32 bytes.\<close>

definition ParseContractAddress :: "'s solana_env_scheme \<Rightarrow> string \<Rightarrow> (pubkey \<times> pda_seed) res" where
  "ParseContractAddress S address =
     (let parts = split_on (CHR ''.'') address in
      if length parts \<noteq> 2 then Inl (Wrapf ''%w: %q'' ErrInvalidContractAddressFormat)
      else
        bindE (wrapE (Wrapf ''unable to parse base58 solana program id: %w'') (PublicKeyFromBase58 S (parts ! 0)))
          (\<lambda>programID.
           let allSeedBytes = string_bytes (parts ! 1) in
           if length allSeedBytes > 32 then Inl (Errorf ''pda seed is too long (max %d bytes)'')
           else Inr (programID, allSeedBytes @ replicate (32 - length allSeedBytes) 0)))"

definition ParseProgramID :: "'s solana_env_scheme \<Rightarrow> string \<Rightarrow> pubkey res" where
  "ParseProgramID S addressOrProgramID =
     (case ParseContractAddress S addressOrProgramID of
        Inr (toProgramID, _) \<Rightarrow> Inr toProgramID
      | Inl err \<Rightarrow>
          if errors_Is err ErrInvalidContractAddressFormat
          then wrapE (Wrapf ''unable to parse base58 solana program id: %w'') (PublicKeyFromBase58 S addressOrProgramID)
          else Inl err)"

section \<open>Program derived addresses\<close>

definition findPDA :: "'s solana_env_scheme \<Rightarrow> pubkey \<Rightarrow> byte list list \<Rightarrow> pubkey res" where
  "findPDA S programID seeds = wrapE (Wrapf ''unable to find %s pda: %w'') (FindProgramAddress S seeds programID)"

definition validUntilBytes :: "u32 \<Rightarrow> byte list" where
  "validUntilBytes validUntil = le_bytes 4 validUntil"

definition FindSignerPDA :: "'s solana_env_scheme \<Rightarrow> pubkey \<Rightarrow> pda_seed \<Rightarrow> pubkey res" where
  "FindSignerPDA S programID msigID = findPDA S programID [string_bytes ''multisig_signer'', msigID]"

definition FindConfigPDA :: "'s solana_env_scheme \<Rightarrow> pubkey \<Rightarrow> pda_seed \<Rightarrow> pubkey res" where
  "FindConfigPDA S programID msigID = findPDA S programID [string_bytes ''multisig_config'', msigID]"

definition FindConfigSignersPDA :: "'s solana_env_scheme \<Rightarrow> pubkey \<Rightarrow> pda_seed \<Rightarrow> pubkey res" where
  "FindConfigSignersPDA S programID msigID = findPDA S programID [string_bytes ''multisig_config_signers'', msigID]"

definition FindRootMetadataPDA :: "'s solana_env_scheme \<Rightarrow> pubkey \<Rightarrow> pda_seed \<Rightarrow> pubkey res" where
  "FindRootMetadataPDA S programID msigID = findPDA S programID [string_bytes ''root_metadata'', msigID]"

definition FindExpiringRootAndOpCountPDA :: "'s solana_env_scheme \<Rightarrow> pubkey \<Rightarrow> pda_seed \<Rightarrow> pubkey res" where
  "FindExpiringRootAndOpCountPDA S programID pdaSeed =
     findPDA S programID [string_bytes ''expiring_root_and_op_count'', pdaSeed]"

definition FindRootSignaturesPDA ::
  "'s solana_env_scheme \<Rightarrow> pubkey \<Rightarrow> pda_seed \<Rightarrow> hash \<Rightarrow> u32 \<Rightarrow> pubkey \<Rightarrow> pubkey res" where
  "FindRootSignaturesPDA S programID msigID merkleRoot validUntil authority =
     findPDA S programID
       [string_bytes ''root_signatures'', msigID, be_bytes 32 merkleRoot, validUntilBytes validUntil, be_bytes 32 authority]"

definition FindSeenSignedHashesPDA ::
  "'s solana_env_scheme \<Rightarrow> pubkey \<Rightarrow> pda_seed \<Rightarrow> hash \<Rightarrow> u32 \<Rightarrow> pubkey res" where
  "FindSeenSignedHashesPDA S programID msigID merkleRoot validUntil =
     findPDA S programID [string_bytes ''seen_signed_hashes'', msigID, be_bytes 32 merkleRoot, validUntilBytes validUntil]"

definition FindTimelockConfigPDA :: "'s solana_env_scheme \<Rightarrow> pubkey \<Rightarrow> pda_seed \<Rightarrow> pubkey res" where
  "FindTimelockConfigPDA S programID timelockID = findPDA S programID [string_bytes ''timelock_config'', timelockID]"

definition FindTimelockOperationPDA :: "'s solana_env_scheme \<Rightarrow> pubkey \<Rightarrow> pda_seed \<Rightarrow> hash \<Rightarrow> pubkey res" where
  "FindTimelockOperationPDA S programID timelockID opID =
     findPDA S programID [string_bytes ''timelock_operation'', timelockID, be_bytes 32 opID]"

definition FindTimelockBypasserOperationPDA ::
  "'s solana_env_scheme \<Rightarrow> pubkey \<Rightarrow> pda_seed \<Rightarrow> hash \<Rightarrow> pubkey res" where
  "FindTimelockBypasserOperationPDA S programID timelockID opID =
     findPDA S programID [string_bytes ''timelock_bypasser_operation'', timelockID, be_bytes 32 opID]"

definition FindTimelockSignerPDA :: "'s solana_env_scheme \<Rightarrow> pubkey \<Rightarrow> pda_seed \<Rightarrow> pubkey res" where
  "FindTimelockSignerPDA S programID timelockID = findPDA S programID [string_bytes ''timelock_signer'', timelockID]"

section \<open>Environment variables\<close>

definition getenv :: "'s solana_env_scheme \<Rightarrow> string \<Rightarrow> 'a \<Rightarrow> (string \<Rightarrow> 'a option) \<Rightarrow> 'a" where
  "getenv S key defaultValue converter =
     (case LookupEnv S key of
        None \<Rightarrow> defaultValue
      | Some value \<Rightarrow>
          if value = [] then defaultValue
          else case converter value of None \<Rightarrow> defaultValue | Some v \<Rightarrow> v)"

section \<open>Chunks\<close>

text \<open>
  \<open>chunkIndexes\<close>: the loop \<open>for i := 0; i < numItems; i += chunkSize\<close>. It does not end for a chunk
  size of zero or less and a positive number of items, which is the result \<open>None\<close>.
\<close>

partial_function (option) chunk_loop :: "int \<Rightarrow> int \<Rightarrow> int \<Rightarrow> (int \<times> int) list option" where
  "chunk_loop numItems chunkSize i =
     (if i < numItems
      then Option.bind (chunk_loop numItems chunkSize (i + chunkSize)) (\<lambda>indexes.
             Some ((i, if i + chunkSize > numItems then numItems else i + chunkSize) # indexes))
      else Some [])"

definition chunkIndexes :: "int \<Rightarrow> int \<Rightarrow> (int \<times> int) list option" where
  "chunkIndexes numItems chunkSize = chunk_loop numItems chunkSize 0"

text \<open>The Go slice \<open>xs[a:b]\<close> for indexes within the slice.\<close>

definition slice :: "'a list \<Rightarrow> int \<times> int \<Rightarrow> 'a list" where
  "slice xs ab = take (nat (snd ab) - nat (fst ab)) (drop (nat (fst ab)) xs)"

lemma chunk_loop_slices:
  assumes "0 < c" and "0 \<le> i"
  shows "\<exists>idx. chunk_loop (int (length xs)) c i = Some idx \<and> concat (map (slice xs) idx) = drop (nat i) xs \<and>
    (\<forall>ab \<in> set idx. slice xs ab \<noteq> [] \<and> int (length (slice xs ab)) \<le> c)"
  using assms(2)
proof (induction "nat (int (length xs) - i)" arbitrary: i rule: less_induct)
  case less
  show ?case
  proof (cases "i < int (length xs)")
    case True
    let ?stop = "if i + c > int (length xs) then int (length xs) else i + c"
    from less.hyps [of "i + c"] less.prems True assms(1) obtain idx where
      idx: "chunk_loop (int (length xs)) c (i + c) = Some idx" "concat (map (slice xs) idx) = drop (nat (i + c)) xs"
        "\<forall>ab \<in> set idx. slice xs ab \<noteq> [] \<and> int (length (slice xs ab)) \<le> c"
      by auto
    have "slice xs (i, ?stop) @ drop (nat (i + c)) xs = drop (nat i) xs"
    proof -
      have "take (nat (i + c) - nat i) (drop (nat i) xs) @ drop (nat (i + c)) xs = drop (nat i) xs"
        using append_take_drop_id [of "nat (i + c) - nat i" "drop (nat i) xs"] less.prems assms(1)
        by (simp add: nat_mono)
      then show ?thesis using less.prems assms(1) by (auto simp: slice_def)
    qed
    moreover have "slice xs (i, ?stop) \<noteq> []" "int (length (slice xs (i, ?stop))) \<le> c"
      using less.prems True assms(1) by (auto simp: slice_def)
    ultimately show ?thesis using True idx by (subst chunk_loop.simps) simp
  next
    case False
    then show ?thesis by (subst chunk_loop.simps) simp
  qed
qed

lemma chunkIndexes_slices:
  assumes "0 < c"
  obtains idx where "chunkIndexes (int (length xs)) c = Some idx" "concat (map (slice xs) idx) = xs"
    "\<forall>ab \<in> set idx. slice xs ab \<noteq> [] \<and> int (length (slice xs ab)) \<le> c"
  using chunk_loop_slices [OF assms, of 0 xs] by (auto simp: chunkIndexes_def)

section \<open>Transactions\<close>

definition errNilAccountInAdditionalFields :: mcms_error where
  "errNilAccountInAdditionalFields = Errorf ''nil account in batch operation additional fields''"

definition ParseAdditionalFields :: "'s solana_env_scheme \<Rightarrow> raw \<Rightarrow> solana_fields res" where
  "ParseAdditionalFields S raw =
     bindE (if raw_nonempty raw
            then wrapE (Wrapf ''unable to unmarshal additional fields: %w'') (SolFieldsUnmarshal S raw)
            else Inr \<lparr>sf_Accounts = [], sf_Value = None\<rparr>) (\<lambda>flds.
       if None \<in> set (sf_Accounts flds) then Inl errNilAccountInAdditionalFields else Inr flds)"

definition sol_ValidateAdditionalFields :: "'s solana_env_scheme \<Rightarrow> raw \<Rightarrow> unit res" where
  "sol_ValidateAdditionalFields S additionalFields =
     bindE (ParseAdditionalFields S additionalFields) (SolFieldsStruct S)"

definition sol_NewTransaction ::
  "'s solana_env_scheme \<Rightarrow> string \<Rightarrow> byte list \<Rightarrow> int option \<Rightarrow> account_meta option list \<Rightarrow> string \<Rightarrow> string list \<Rightarrow>
     transaction res" where
  "sol_NewTransaction S contractID data value accounts contractType tags =
     bindE (PublicKeyFromBase58 S contractID) (\<lambda>key.
     bindE (wrapE (Wrapf ''unable to marshal additional fields: %w'')
              (SolFieldsMarshal S \<lparr>sf_Accounts = accounts, sf_Value = value\<rparr>)) (\<lambda>marshalled.
       Inr \<lparr>tx_ContractType = contractType, tx_ContractVersion = None, tx_Tags = tags,
            tx_To = PublicKeyString S key, tx_Data = data, tx_AdditionalFields = marshalled\<rparr>))"

definition NewTransactionFromInstruction ::
  "'s solana_env_scheme \<Rightarrow> solana_instruction \<Rightarrow> string \<Rightarrow> string list \<Rightarrow> transaction res" where
  "NewTransactionFromInstruction S instruction contractType tags =
     bindE (wrapE (Wrapf ''unable to get instruction data: %w'') (ix_Data instruction)) (\<lambda>data.
       sol_NewTransaction S (PublicKeyString S (ix_ProgramID instruction)) data None
         (map Some (ix_Accounts instruction)) contractType tags)"

section \<open>Chain metadata\<close>

definition WithExecutePayer :: "solana_metadata \<Rightarrow> pubkey \<Rightarrow> solana_metadata" where
  "WithExecutePayer f pk = f\<lparr>sm_ExecutePayer := Some pk\<rparr>"

definition HasExecutePayer :: "solana_metadata \<Rightarrow> bool" where
  "HasExecutePayer f \<longleftrightarrow> (case sm_ExecutePayer f of None \<Rightarrow> False | Some pk \<Rightarrow> pk \<noteq> 0)"

definition sol_metadata_Validate :: "'s solana_env_scheme \<Rightarrow> solana_metadata \<Rightarrow> unit res" where
  "sol_metadata_Validate S f =
     bindE (SolMetadataStruct S f) (\<lambda>_.
     bindE (guardE (sm_Proposer f \<noteq> 0) (Errorf ''ProposerRoleAccessController cannot be the zero address'')) (\<lambda>_.
     bindE (guardE (sm_Canceller f \<noteq> 0) (Errorf ''CancellerRoleAccessController cannot be the zero address'')) (\<lambda>_.
       guardE (sm_Bypasser f \<noteq> 0) (Errorf ''BypasserRoleAccessController cannot be the zero address''))))"

definition sol_ValidateChainMetadata :: "'s solana_env_scheme \<Rightarrow> chain_metadata \<Rightarrow> unit res" where
  "sol_ValidateChainMetadata S metadata =
     bindE (wrapE (Wrapf ''unable to unmarshal additional fields: %w'')
              (SolMetadataUnmarshal S (cm_AdditionalFields metadata))) (\<lambda>additionalFields.
       wrapE (Wrapf ''additional fields are invalid: %w'') (sol_metadata_Validate S additionalFields))"

definition sol_NewChainMetadata ::
  "'s solana_env_scheme \<Rightarrow> u64 \<Rightarrow> pubkey \<Rightarrow> pda_seed \<Rightarrow> pubkey \<Rightarrow> pubkey \<Rightarrow> pubkey \<Rightarrow> chain_metadata res" where
  "sol_NewChainMetadata S startingOpCount mcmProgramID mcmInstanceSeed proposer canceller bypasser =
     (let contractID = ContractAddress S mcmProgramID mcmInstanceSeed in
      bindE (SolMetadataMarshal S
               \<lparr>sm_Proposer = proposer, sm_Canceller = canceller, sm_Bypasser = bypasser, sm_ExecutePayer = None\<rparr>)
        (\<lambda>additionalFieldsJSON.
          Inr \<lparr>cm_StartingOpCount = startingOpCount, cm_MCMAddress = contractID,
               cm_AdditionalFields = additionalFieldsJSON\<rparr>))"

section \<open>Encoder\<close>

record solana_encoder =
  se_ChainSelector :: chain_selector
  se_TxCount :: u64
  se_OverridePreviousRoot :: bool

definition calculateHash :: "'c crypto_pkg_scheme \<Rightarrow> byte list list \<Rightarrow> hash" where
  "calculateHash C buffers = Keccak256Hash C (concat buffers)"

definition numToU64LePaddedEncoding :: "u64 \<Rightarrow> byte list" where
  "numToU64LePaddedEncoding n = replicate 24 0 @ le_bytes 8 n"

definition boolToPaddedEncoding :: "bool \<Rightarrow> byte list" where
  "boolToPaddedEncoding b = (let result = replicate 32 0 in if b then result[31 := 1] else result)"

definition serializeAccountMeta :: "account_meta \<Rightarrow> byte list" where
  "serializeAccountMeta a =
     (let flags = 0; flags = (if am_IsSigner a then flags OR 2 else flags);
          flags = (if am_IsWritable a then flags OR 1 else flags) in
      be_bytes 32 (am_PublicKey a) @ [flags])"

definition sol_op_buffers ::
  "'c crypto_pkg_scheme \<Rightarrow> chain_selector \<Rightarrow> pubkey \<Rightarrow> u32 \<Rightarrow> pubkey \<Rightarrow> byte list \<Rightarrow> account_meta list \<Rightarrow> byte list list" where
  "sol_op_buffers C csel configPDA opCount toProgramID data accounts =
     [be_bytes 32 (Keccak256Hash C (string_bytes ''MANY_CHAIN_MULTI_SIG_DOMAIN_SEPARATOR_OP_SOLANA'')),
      numToU64LePaddedEncoding csel, be_bytes 32 configPDA, numToU64LePaddedEncoding (ucast opCount),
      be_bytes 32 toProgramID, numToU64LePaddedEncoding (word_of_nat (length data)), data,
      numToU64LePaddedEncoding (word_of_nat (length accounts))] @ map serializeAccountMeta accounts"

definition sol_HashOperation ::
  "'s solana_env_scheme \<Rightarrow> solana_encoder \<Rightarrow> u32 \<Rightarrow> chain_metadata \<Rightarrow> operation \<Rightarrow> hash res" where
  "sol_HashOperation S e opCount metadata op =
     bindE (wrapE (Wrapf ''unable to parse solana contract address: %w'')
              (ParseContractAddress S (cm_MCMAddress metadata))) (\<lambda>(programID, pdaSeed).
     bindE (FindConfigPDA S programID pdaSeed) (\<lambda>configPDA.
     bindE (wrapE (Wrapf ''unable to prase program id from To field: %w'')
              (ParseProgramID S (tx_To (op_Transaction op)))) (\<lambda>toProgramID.
     bindE (ParseAdditionalFields S (tx_AdditionalFields (op_Transaction op))) (\<lambda>additionalFields.
     bindE (mapE deref (sf_Accounts additionalFields)) (\<lambda>accounts.
       Inr (calculateHash S (sol_op_buffers S (se_ChainSelector e) configPDA opCount toProgramID
              (tx_Data (op_Transaction op)) accounts)))))))"

definition sol_metadata_buffers ::
  "'c crypto_pkg_scheme \<Rightarrow> chain_selector \<Rightarrow> pubkey \<Rightarrow> u64 \<Rightarrow> u64 \<Rightarrow> bool \<Rightarrow> byte list list" where
  "sol_metadata_buffers C csel configPDA preOpCount postOpCount overridePreviousRoot =
     [be_bytes 32 (Keccak256Hash C (string_bytes ''MANY_CHAIN_MULTI_SIG_DOMAIN_SEPARATOR_METADATA_SOLANA'')),
      numToU64LePaddedEncoding csel, be_bytes 32 configPDA, numToU64LePaddedEncoding preOpCount,
      numToU64LePaddedEncoding postOpCount, boolToPaddedEncoding overridePreviousRoot]"

definition sol_HashMetadata :: "'s solana_env_scheme \<Rightarrow> solana_encoder \<Rightarrow> chain_metadata \<Rightarrow> hash res" where
  "sol_HashMetadata S e metadata =
     bindE (wrapE (Wrapf ''unable to parse solana contract address: %w'')
              (ParseContractAddress S (cm_MCMAddress metadata))) (\<lambda>(programID, pdaSeed).
     bindE (FindConfigPDA S programID pdaSeed) (\<lambda>configPDA.
       Inr (calculateHash S (sol_metadata_buffers S (se_ChainSelector e) configPDA (cm_StartingOpCount metadata)
              (cm_StartingOpCount metadata + se_TxCount e) (se_OverridePreviousRoot e)))))"

definition sol_NewEncoder :: "'s solana_env_scheme \<Rightarrow> chain_selector \<Rightarrow> u64 \<Rightarrow> bool \<Rightarrow> encoder" where
  "sol_NewEncoder S csel txCount overridePreviousRoot =
     (let e = \<lparr>se_ChainSelector = csel, se_TxCount = txCount, se_OverridePreviousRoot = overridePreviousRoot\<rparr> in
      \<lparr>enc_HashOperation = sol_HashOperation S e, enc_HashMetadata = sol_HashMetadata S e\<rparr>)"

section \<open>Configurations\<close>

text \<open>The struct of the program's bindings: the arrays of the EVM contract and a few fields of its own.\<close>

record multisig_config =
  ms_ChainId :: u64
  ms_MultisigId :: pda_seed
  ms_Owner :: pubkey
  ms_ProposedOwner :: pubkey
  ms_GroupQuorums :: "u8 list"
  ms_GroupParents :: "u8 list"
  ms_Signers :: "mcms_signer list"

record additional_config =
  ac_ChainID :: u64
  ac_MultisigID :: pda_seed
  ac_Owner :: pubkey
  ac_ProposedOwner :: pubkey

definition sol_ToConfig :: "multisig_config \<Rightarrow> config res" where
  "sol_ToConfig b =
     bindE (foldE add_to_group (replicate (length (ms_GroupQuorums b)) []) (ms_Signers b)) (\<lambda>groupToSigners.
     bindE (foldE (link_group (ms_GroupParents b))
              (map2 (\<lambda>quorum signers. Config quorum signers []) (ms_GroupQuorums b) groupToSigners)
              (rev [0..<32])) (\<lambda>groups.
     bindE (config_Validate (groups ! 0)) (\<lambda>_.
     Inr (groups ! 0))))"

definition sol_ToChainConfig :: "'x cast_pkg_scheme \<Rightarrow> config \<Rightarrow> additional_config \<Rightarrow> multisig_config res" where
  "sol_ToChainConfig X cfg ac =
     bindE (ExtractSetConfigInputs X cfg) (\<lambda>(quorums, parents, addrs, groups).
       if length addrs > 255 then Inl (TooManySignersError (word_of_nat (length addrs)))
       else Inr \<lparr>ms_ChainId = ac_ChainID ac, ms_MultisigId = ac_MultisigID ac, ms_Owner = ac_Owner ac,
                 ms_ProposedOwner = ac_ProposedOwner ac, ms_GroupQuorums = quorums, ms_GroupParents = parents,
                 ms_Signers = bind_signers 0 addrs groups\<rparr>)"

text \<open>The arrays are the ones of the EVM contract, so the EVM round trip carries over.\<close>

definition evm_part :: "multisig_config \<Rightarrow> mcms_config" where
  "evm_part b = \<lparr>mc_Signers = ms_Signers b, mc_GroupQuorums = ms_GroupQuorums b, mc_GroupParents = ms_GroupParents b\<rparr>"

lemma sol_ToConfig_evm: "sol_ToConfig b = evm_ToConfig (evm_part b)"
  by (simp add: sol_ToConfig_def evm_ToConfig_def evm_part_def)

lemma sol_ToChainConfig_evm:
  "evm_ToChainConfig X c = bindE (sol_ToChainConfig X c ac) (\<lambda>b. Inr (evm_part b))"
  by (cases "ExtractSetConfigInputs X c") (auto simp: sol_ToChainConfig_def evm_ToChainConfig_def evm_part_def)

lemma sol_ToChainConfig_Inr:
  "sol_ToChainConfig X c ac = Inr r \<Longrightarrow> evm_ToChainConfig X c = Inr (evm_part r)"
  by (simp add: sol_ToChainConfig_evm [where ac = ac])

interpretation sol: config_transformer casts_documented "\<lambda>X c. sol_ToChainConfig X c ac" sol_ToConfig evm_fits for ac
proof
  fix X :: "'a cast_pkg_scheme" and c r c'
  show "\<exists>r. sol_ToChainConfig X c ac = Inr r"
    if "casts_documented X" "config_Validate c = Inr ()" "evm_fits c"
    using evm.writes [OF that] by (auto simp: sol_ToChainConfig_evm [where ac = ac] bindE_Inr_iff)
  show "\<exists>c'. sol_ToConfig r = Inr c' \<and> config_abs c' = config_abs c"
    if "casts_documented X" "config_Validate c = Inr ()" "evm_fits c" "sol_ToChainConfig X c ac = Inr r"
    using evm.reads_back [OF that(1-3) sol_ToChainConfig_Inr [OF that(4)]] by (simp add: sol_ToConfig_evm)
  show "sol_ToConfig r = Inr c' \<Longrightarrow> config_Validate c' = Inr ()"
    unfolding sol_ToConfig_evm by (rule evm.reads_valid)
qed

section \<open>Addresses: lemmas\<close>

text \<open>What \<open>solana-go\<close> documents of base58: a key is read back from its text, whose alphabet has no dot.\<close>

definition base58_documented :: "'s solana_env_scheme \<Rightarrow> bool" where
  "base58_documented S \<longleftrightarrow>
     (\<forall>pk. PublicKeyFromBase58 S (PublicKeyString S pk) = Inr pk \<and> CHR ''.'' \<notin> set (PublicKeyString S pk))"

lemma dropWhile_zeros: "\<exists>k. bs = replicate k 0 @ dropWhile (\<lambda>b. b = 0) bs"
proof (induction bs)
  case (Cons b bs)
  then obtain k where "bs = replicate k 0 @ dropWhile (\<lambda>b. b = 0) bs" by blast
  then show ?case by (cases "b = 0") (auto intro: exI [of _ "Suc k"] exI [of _ 0])
qed simp

lemma trim_zeros_eq: "\<exists>i j. bs = replicate i 0 @ trim_zeros bs @ replicate j 0"
proof -
  let ?d = "dropWhile (\<lambda>b. b = 0) bs"
  obtain i where i: "bs = replicate i 0 @ ?d" using dropWhile_zeros by blast
  obtain j where "rev ?d = replicate j 0 @ dropWhile (\<lambda>b. b = 0) (rev ?d)" using dropWhile_zeros by blast
  then have "?d = trim_zeros bs @ replicate j 0"
    unfolding trim_zeros_def by (metis rev_append rev_replicate rev_rev_ident)
  with i show ?thesis by metis
qed

lemma trim_zeros_hd: "trim_zeros bs \<noteq> [] \<Longrightarrow> hd (trim_zeros bs) \<noteq> 0"
proof -
  assume nonempty: "trim_zeros bs \<noteq> []"
  let ?d = "dropWhile (\<lambda>b. b = 0) bs"
  obtain j where "rev ?d = replicate j 0 @ dropWhile (\<lambda>b. b = 0) (rev ?d)" using dropWhile_zeros by blast
  then have d: "?d = trim_zeros bs @ replicate j 0"
    unfolding trim_zeros_def by (metis rev_append rev_replicate rev_rev_ident)
  with nonempty have "?d \<noteq> []" and "hd ?d = hd (trim_zeros bs)" by auto
  with hd_dropWhile [of "\<lambda>b. b = 0" bs] show ?thesis by simp
qed

lemma trim_zeros_length: "length (trim_zeros bs) \<le> length bs"
  using trim_zeros_eq [of bs] by (metis le_add1 le_add2 le_trans length_append)

lemma trim_zeros_set: "x \<noteq> 0 \<Longrightarrow> x \<in> set (trim_zeros bs) \<longleftrightarrow> x \<in> set bs"
proof -
  assume "x \<noteq> 0"
  obtain i j where "bs = replicate i 0 @ trim_zeros bs @ replicate j 0" using trim_zeros_eq by blast
  then have "set bs = set (replicate i 0) \<union> set (trim_zeros bs) \<union> set (replicate j 0)"
    by (metis Un_assoc set_append)
  with \<open>x \<noteq> 0\<close> show ?thesis by auto
qed

text \<open>Padding the trimmed bytes at the end restores them unless zeros in front were cut off.\<close>

lemma trim_zeros_pad:
  "trim_zeros bs @ replicate (length bs - length (trim_zeros bs)) 0 = bs \<longleftrightarrow>
     bs = [] \<or> hd bs \<noteq> 0 \<or> bs = replicate (length bs) 0"
proof -
  let ?t = "trim_zeros bs"
  obtain i j where ij: "bs = replicate i 0 @ ?t @ replicate j 0" using trim_zeros_eq by blast
  show ?thesis
  proof (cases "?t = []")
    case True
    then have "bs = replicate (length bs) 0"
      using ij by (metis append_Nil length_replicate replicate_add)
    with True show ?thesis by simp
  next
    case False
    have nz: "bs \<noteq> replicate (length bs) 0" and "bs \<noteq> []"
      using trim_zeros_hd [OF False] ij False
      by (metis (no_types, lifting) Un_iff hd_in_set in_set_replicate set_append)+
    show ?thesis
    proof (cases i)
      case 0
      then have bs: "bs = ?t @ replicate j 0" using ij by simp
      then have "length bs = length ?t + j" by (metis length_append length_replicate)
      moreover from bs False have "hd bs = hd ?t" by (metis hd_append2)
      ultimately show ?thesis using bs trim_zeros_hd [OF False] by simp
    next
      case (Suc k)
      then have "hd bs = 0" using ij by (metis append_Cons list.sel(1) replicate_Suc)
      moreover have "hd (?t @ replicate n 0) \<noteq> 0" for n using False trim_zeros_hd by simp
      ultimately show ?thesis using nz \<open>bs \<noteq> []\<close> by metis
    qed
  qed
qed

lemma bytes_text_dot: "CHR ''.'' \<in> set (bytes_text bs) \<longleftrightarrow> 46 \<in> set bs"
proof -
  have "char_of (unat b) = CHR ''.'' \<longleftrightarrow> b = 46" for b :: byte
  proof -
    have "unat b < 256" using unsigned_less [of b, where ?'a = nat] by simp
    then have "char_of (unat b) = CHR ''.'' \<longleftrightarrow> unat b = 46"
      by (simp add: char_of_eq_iff take_bit_nat_eq_self)
    moreover have "unat b = 46 \<longleftrightarrow> b = 46"
      using word_unat_eq_iff [of b 46] by simp
    ultimately show ?thesis by simp
  qed
  then show ?thesis unfolding bytes_text_def set_map image_iff by metis
qed

lemma ParseContractAddress_ContractAddress:
  assumes "base58_documented S" and "seed_wf seed"
  shows "ParseContractAddress S (ContractAddress S programID seed) =
    (if 46 \<in> set seed then Inl (Wrapf ''%w: %q'' ErrInvalidContractAddressFormat)
     else Inr (programID, trim_zeros seed @ replicate (32 - length (trim_zeros seed)) 0))"
proof -
  let ?id = "PublicKeyString S programID" and ?t = "trim_zeros seed"
  have id: "CHR ''.'' \<notin> set ?id" "PublicKeyFromBase58 S ?id = Inr programID"
    using assms(1) by (simp_all add: base58_documented_def)
  then have parts: "split_on (CHR ''.'') (ContractAddress S programID seed) =
      ?id # split_on (CHR ''.'') (bytes_text ?t)"
    by (simp add: ContractAddress_def split_on_append)
  have dot: "CHR ''.'' \<in> set (bytes_text ?t) \<longleftrightarrow> 46 \<in> set seed"
    using trim_zeros_set [of 46 seed] by (simp add: bytes_text_dot)
  show ?thesis
  proof (cases "46 \<in> set seed")
    case True
    then have "filter (\<lambda>c. c = CHR ''.'') (bytes_text ?t) \<noteq> []"
      using dot by (auto simp: filter_empty_conv)
    then show ?thesis
      using True by (simp add: ParseContractAddress_def parts length_split_on)
  next
    case False
    then have "split_on (CHR ''.'') (bytes_text ?t) = [bytes_text ?t]" using dot by (simp add: split_on_absent)
    with False id assms(2) trim_zeros_length [of seed] show ?thesis
      by (simp add: ParseContractAddress_def parts seed_wf_def Let_def)
  qed
qed

lemma ParseContractAddress_seed: "ParseContractAddress S address = Inr (programID, seed) \<Longrightarrow> seed_wf seed"
  by (auto simp: ParseContractAddress_def Let_def bindE_Inr_iff seed_wf_def split: if_splits)

section \<open>The hashed bytes of an operation determine it\<close>

interpretation num_code: byte_code "\<lambda>_. True" numToU64LePaddedEncoding
  by (rule fixed_width_code [where n = 32])
    (simp_all add: numToU64LePaddedEncoding_def inj_def le_bytes_inject)

interpretation account_code: byte_code "\<lambda>_. True" serializeAccountMeta
proof (rule fixed_width_code [where n = 33])
  show "length (serializeAccountMeta a) = 33" for a
    by (simp add: serializeAccountMeta_def Let_def)
  have "a = b" if "serializeAccountMeta a = serializeAccountMeta b" for a b
  proof -
    from that have "be_bytes 32 (am_PublicKey a) = be_bytes 32 (am_PublicKey b)"
      and flags: "last (serializeAccountMeta a) = last (serializeAccountMeta b)"
      by (simp_all add: serializeAccountMeta_def Let_def)
    then have "am_PublicKey a = am_PublicKey b" by (simp add: be_bytes_inject)
    moreover from flags have "am_IsSigner a = am_IsSigner b \<and> am_IsWritable a = am_IsWritable b"
      by (simp add: serializeAccountMeta_def Let_def split: if_splits)
    ultimately show ?thesis by simp
  qed
  then show "inj serializeAccountMeta" by (auto simp: inj_def)
qed

lemma sol_op_buffers_inject:
  assumes eq: "concat (sol_op_buffers C csel pda n to data accs) = concat (sol_op_buffers C csel' pda' n' to' data' accs')"
    and "length data < 2 ^ 64" "length data' < 2 ^ 64" "length accs < 2 ^ 64" "length accs' < 2 ^ 64"
  shows "csel = csel' \<and> pda = pda' \<and> n = n' \<and> to = to' \<and> data = data' \<and> accs = accs'"
proof -
  let ?num = numToU64LePaddedEncoding
  let ?data = "\<lambda>d. concat (map (\<lambda>b. [b]) d)" and ?accs = "\<lambda>a. concat (map serializeAccountMeta a)"
  have cnt: "m = n" if "m < 2 ^ 64" "n < 2 ^ 64" "?num (word_of_nat m) = ?num (word_of_nat n)" for m n
  proof -
    have "(word_of_nat m :: u64) = word_of_nat n" using num_code.inject [OF _ _ that(3)] by simp
    with that show ?thesis by (intro word_of_nat_inject_bound [where 'a = 64]) simp_all
  qed
  from eq have "?num csel @ be_bytes 32 pda @ ?num (ucast n) @ be_bytes 32 to @ ?num (word_of_nat (length data)) @
        ?data data @ ?num (word_of_nat (length accs)) @ ?accs accs @ [] =
      ?num csel' @ be_bytes 32 pda' @ ?num (ucast n') @ be_bytes 32 to' @ ?num (word_of_nat (length data')) @
        ?data data' @ ?num (word_of_nat (length accs')) @ ?accs accs' @ []"
    by (simp add: sol_op_buffers_def)
  from num_code.splits [OF _ _ this] have "csel = csel'" and
    "be_bytes 32 pda @ ?num (ucast n) @ be_bytes 32 to @ ?num (word_of_nat (length data)) @
        ?data data @ ?num (word_of_nat (length accs)) @ ?accs accs @ [] =
      be_bytes 32 pda' @ ?num (ucast n') @ be_bytes 32 to' @ ?num (word_of_nat (length data')) @
        ?data data' @ ?num (word_of_nat (length accs')) @ ?accs accs' @ []" by simp_all
  note 1 = this(1) and rest = key_code.splits [OF _ _ this(2), simplified simp_thms]
  from num_code.splits [OF _ _ rest [THEN conjunct2]] have un: "(ucast n :: u64) = ucast n'" and
    rest2: "be_bytes 32 to @ ?num (word_of_nat (length data)) @
        ?data data @ ?num (word_of_nat (length accs)) @ ?accs accs @ [] =
      be_bytes 32 to' @ ?num (word_of_nat (length data')) @
        ?data data' @ ?num (word_of_nat (length accs')) @ ?accs accs' @ []" by simp_all
  have "(ucast (ucast m :: u64) :: u32) = m" for m by (rule bit_word_eqI) (simp add: bit_simps)
  with un have 2: "n = n'" by metis
  from key_code.splits [OF _ _ rest2] have 3: "to = to'" and
    rest3: "?num (word_of_nat (length data)) @ ?data data @ ?num (word_of_nat (length accs)) @ ?accs accs @ [] =
      ?num (word_of_nat (length data')) @ ?data data' @ ?num (word_of_nat (length accs')) @ ?accs accs' @ []"
    by simp_all
  from single_byte.counted_splits [OF cnt _ assms(2,3) _ _ rest3] have 4: "data = data'" and
    rest4: "?num (word_of_nat (length accs)) @ ?accs accs @ [] = ?num (word_of_nat (length accs')) @ ?accs accs' @ []"
    by (simp_all add: numToU64LePaddedEncoding_def list_all_iff)
  from account_code.counted_splits [OF cnt _ assms(4,5) _ _ rest4] have "accs = accs'"
    by (simp_all add: numToU64LePaddedEncoding_def list_all_iff)
  with 1 2 3 4 rest show ?thesis by simp
qed

text \<open>What \<open>HashOperation\<close> hashes, and the parts of an operation it covers.\<close>

definition sol_op_preimage ::
  "'s solana_env_scheme \<Rightarrow> solana_encoder \<Rightarrow> u32 \<Rightarrow> chain_metadata \<Rightarrow> operation \<Rightarrow> byte list res" where
  "sol_op_preimage S e opCount metadata op =
     bindE (ParseContractAddress S (cm_MCMAddress metadata)) (\<lambda>(programID, pdaSeed).
     bindE (FindConfigPDA S programID pdaSeed) (\<lambda>configPDA.
     bindE (ParseProgramID S (tx_To (op_Transaction op))) (\<lambda>toProgramID.
     bindE (ParseAdditionalFields S (tx_AdditionalFields (op_Transaction op))) (\<lambda>flds.
       Inr (concat (sol_op_buffers S (se_ChainSelector e) configPDA opCount toProgramID
              (tx_Data (op_Transaction op)) (map the (sf_Accounts flds))))))))"

definition sol_config_account :: "'s solana_env_scheme \<Rightarrow> chain_metadata \<Rightarrow> pubkey res" where
  "sol_config_account S metadata =
     bindE (ParseContractAddress S (cm_MCMAddress metadata)) (\<lambda>(programID, pdaSeed). FindConfigPDA S programID pdaSeed)"

definition sol_tx_accounts :: "'s solana_env_scheme \<Rightarrow> operation \<Rightarrow> account_meta list res" where
  "sol_tx_accounts S op =
     bindE (ParseAdditionalFields S (tx_AdditionalFields (op_Transaction op))) (\<lambda>flds. mapE deref (sf_Accounts flds))"

lemma ParseAdditionalFields_accounts:
  "ParseAdditionalFields S raw = Inr flds \<Longrightarrow> mapE deref (sf_Accounts flds) = Inr (map the (sf_Accounts flds))"
  by (rule mapE_deref) (auto simp: ParseAdditionalFields_def bindE_Inr_iff split: if_splits)

lemma sol_tx_accounts_Inr:
  "sol_tx_accounts S op = Inr accs \<longleftrightarrow>
     (\<exists>flds. ParseAdditionalFields S (tx_AdditionalFields (op_Transaction op)) = Inr flds \<and>
        sf_Accounts flds = map Some accs)"
proof -
  have "map the ps = accs \<longleftrightarrow> ps = map Some accs" if "None \<notin> set ps" for ps
  proof -
    have "map Some (map the ps) = ps" using that by (simp add: comp_def, intro map_idI) (metis option.collapse)
    moreover have "map the (map Some accs) = accs" by (simp add: comp_def)
    ultimately show ?thesis by metis
  qed
  then show ?thesis
    by (fastforce simp: sol_tx_accounts_def bindE_Inr_iff ParseAdditionalFields_accounts
        ParseAdditionalFields_def mapE_deref split: if_splits)
qed

lemma sol_HashOperation_Inr:
  "sol_HashOperation S e n md op = Inr h \<longleftrightarrow>
     (\<exists>pda to accs. sol_config_account S md = Inr pda \<and> ParseProgramID S (tx_To (op_Transaction op)) = Inr to \<and>
        sol_tx_accounts S op = Inr accs \<and>
        sol_op_preimage S e n md op =
          Inr (concat (sol_op_buffers S (se_ChainSelector e) pda n to (tx_Data (op_Transaction op)) accs)) \<and>
        h = Keccak256Hash S (projr (sol_op_preimage S e n md op)))"
proof -
  have "None \<notin> set (sf_Accounts flds)" if "ParseAdditionalFields S raw = Inr flds" for raw flds
    using that by (auto simp: ParseAdditionalFields_def bindE_Inr_iff split: if_splits)
  then show ?thesis
    unfolding sol_HashOperation_def sol_config_account_def sol_tx_accounts_def sol_op_preimage_def calculateHash_def
    by (fastforce simp: bindE_Inr_iff mapE_deref split: prod.splits)
qed

section \<open>A concrete environment\<close>

text \<open>
  For the witnesses: a key is written as its 256 bits, a derived address is the exclusive or of the
  program id with the sum of its seeds, the JSON forms are trees.
\<close>

definition bits_text :: "pubkey \<Rightarrow> string" where
  "bits_text w = map (\<lambda>i. if bit w i then CHR ''1'' else CHR ''0'') [0..<256]"

definition text_bits :: "string \<Rightarrow> pubkey" where
  "text_bits s = horner_sum of_bool 2 (map (\<lambda>c. c = CHR ''1'') s)"

lemma text_bits_text [simp]: "text_bits (bits_text w) = w"
proof -
  have "map (\<lambda>c. c = CHR ''1'') (bits_text w) = map (bit w) [0..<256]" by (simp add: bits_text_def comp_def)
  then show ?thesis by (simp only: text_bits_def horner_sum_bit_eq_take_bit) (simp add: take_bit_word_eq_self)
qed

fun sample_account_json :: "account_meta option \<Rightarrow> json" where
  "sample_account_json None = JNull"
| "sample_account_json (Some a) =
     JArr [JStr (bits_text (am_PublicKey a)), JBool (am_IsWritable a), JBool (am_IsSigner a)]"

fun sample_json_account :: "json \<Rightarrow> account_meta option" where
  "sample_json_account (JArr [JStr k, JBool w, JBool s]) =
     Some \<lparr>am_PublicKey = text_bits k, am_IsWritable = w, am_IsSigner = s\<rparr>"
| "sample_json_account _ = None"

lemma sample_json_account_inv [simp]: "sample_json_account (sample_account_json a) = a"
  by (cases a) simp_all

definition sample_fields_json :: "solana_fields \<Rightarrow> json" where
  "sample_fields_json f =
     JArr [JArr (map sample_account_json (sf_Accounts f)),
       case sf_Value f of None \<Rightarrow> JNull | Some v \<Rightarrow> JArr [JBool (v < 0), JArr (replicate (nat \<bar>v\<bar>) JNull)]]"

fun sample_json_fields :: "json \<Rightarrow> solana_fields res" where
  "sample_json_fields (JArr [JArr accs, JNull]) =
     Inr \<lparr>sf_Accounts = map sample_json_account accs, sf_Value = None\<rparr>"
| "sample_json_fields (JArr [JArr accs, JArr [JBool neg, JArr ns]]) =
     Inr \<lparr>sf_Accounts = map sample_json_account accs,
          sf_Value = Some (if neg then - int (length ns) else int (length ns))\<rparr>"
| "sample_json_fields _ = Inl (External ''json'')"

lemma sample_json_fields_inv [simp]: "sample_json_fields (sample_fields_json f) = Inr f"
  by (cases "sf_Value f") (auto simp: sample_fields_json_def comp_def)

definition sample_role_keys :: solana_metadata where
  "sample_role_keys = \<lparr>sm_Proposer = 1, sm_Canceller = 2, sm_Bypasser = 3, sm_ExecutePayer = None\<rparr>"

definition sample_solana :: solana_env where
  "sample_solana = mcms_env.extend sample_env (solana_env.fields
     (\<lambda>s. Inr (text_bits s)) bits_text
     (\<lambda>seeds pid. Inr (pid XOR from_be (concat seeds))) 0
     (\<lambda>r. case r of RawJson j \<Rightarrow> sample_json_fields j | _ \<Rightarrow> Inl (External ''json''))
     (\<lambda>f. Inr (RawJson (sample_fields_json f))) (\<lambda>_. Inr ())
     (\<lambda>_. Inr sample_role_keys) (\<lambda>_. Inr (RawJson JNull)) (\<lambda>_. Inr ()) (\<lambda>_. None))"

lemma sample_solana_sel [simp]:
  "PublicKeyFromBase58 sample_solana s = Inr (text_bits s)"
  "PublicKeyString sample_solana = bits_text"
  "FindProgramAddress sample_solana seeds pid = Inr (pid XOR from_be (concat seeds))"
  "SystemProgramID sample_solana = 0"
  "SolFieldsUnmarshal sample_solana (RawJson j) = sample_json_fields j"
  "SolFieldsMarshal sample_solana f = Inr (RawJson (sample_fields_json f))"
  "SolFieldsStruct sample_solana f = Inr ()"
  "SolMetadataUnmarshal sample_solana r = Inr sample_role_keys"
  "SolMetadataMarshal sample_solana m = Inr (RawJson JNull)"
  "LookupEnv sample_solana k = None"
  "Keccak256Hash sample_solana = from_be"
  by (simp_all add: sample_solana_def mcms_env.defs solana_env.defs)

lemma bits_text_dot: "CHR ''.'' \<notin> set (bits_text w)"
  by (auto simp: bits_text_def)

lemma sample_base58: "base58_documented sample_solana"
  by (simp add: base58_documented_def bits_text_dot)

definition sample_seed :: pda_seed where
  "sample_seed = string_bytes ''mcm'' @ replicate 29 0"

lemma sample_seed_wf: "seed_wf sample_seed"
  by (simp add: seed_wf_def sample_seed_def)

section \<open>Properties\<close>

text \<open>
  The address of a Solana contract instance, <PROGRAM_ID>.<SEED>, leads back to the instance
  exactly when its seed has no dot and does not start with a zero byte (unless it is all zeros). A
  seed with a dot has an address that cannot be parsed; a seed that starts with zeros has the
  address of another instance, the one with the zeros moved to the end.
\<close>

theorem ContractAddress_exact:
  assumes "base58_documented S" and "seed_wf seed"
  shows "(ParseContractAddress S (ContractAddress S programID seed) = Inr (programID, seed) \<longleftrightarrow>
      46 \<notin> set seed \<and> (hd seed \<noteq> 0 \<or> seed = replicate 32 0)) \<and>
    (46 \<notin> set seed \<longrightarrow> ParseContractAddress S (ContractAddress S programID seed) =
      Inr (programID, trim_zeros seed @ replicate (32 - length (trim_zeros seed)) 0))"
proof -
  have "seed \<noteq> []" and "length seed = 32" using assms(2) by (auto simp: seed_wf_def)
  then have "trim_zeros seed @ replicate (32 - length (trim_zeros seed)) 0 = seed \<longleftrightarrow>
      hd seed \<noteq> 0 \<or> seed = replicate 32 0"
    using trim_zeros_pad [of seed] by simp
  then show ?thesis by (auto simp: ParseContractAddress_ContractAddress [OF assms])
qed

theorem ContractAddress_exact_witness:
  "ParseContractAddress sample_solana (ContractAddress sample_solana 7 sample_seed) = Inr (7, sample_seed)"
proof -
  have "46 \<notin> set sample_seed" and "hd sample_seed \<noteq> 0"
    by (simp_all add: sample_seed_def string_bytes_def)
  then show ?thesis
    using ContractAddress_exact [OF sample_base58 sample_seed_wf, of 7] by blast
qed

text \<open>
  C19: the hash of a Solana operation commits to all of it: two operations with the same hash are for
  the same chain and contract, have the same nonce, program, data and accounts with the same flags,
  or the very bytes that were hashed are a collision of keccak. (The lengths are those of Go slices,
  which fit 64 bits.)
\<close>

theorem sol_HashOperation_binding:
  assumes "sol_HashOperation S e n md op = Inr h" and "sol_HashOperation S e' n' md' op' = Inr h"
    and "length (tx_Data (op_Transaction op)) < 2 ^ 64" and "length (tx_Data (op_Transaction op')) < 2 ^ 64"
    and "\<forall>accs. sol_tx_accounts S op = Inr accs \<longrightarrow> length accs < 2 ^ 64"
    and "\<forall>accs. sol_tx_accounts S op' = Inr accs \<longrightarrow> length accs < 2 ^ 64"
  shows "se_ChainSelector e = se_ChainSelector e' \<and> sol_config_account S md = sol_config_account S md' \<and> n = n' \<and>
      ParseProgramID S (tx_To (op_Transaction op)) = ParseProgramID S (tx_To (op_Transaction op')) \<and>
      tx_Data (op_Transaction op) = tx_Data (op_Transaction op') \<and> sol_tx_accounts S op = sol_tx_accounts S op' \<or>
    (let p = projr (sol_op_preimage S e n md op); p' = projr (sol_op_preimage S e' n' md' op') in
      p \<noteq> p' \<and> Keccak256Hash S p = h \<and> Keccak256Hash S p' = h)"
proof -
  from assms(1) obtain pda to accs where 1: "sol_config_account S md = Inr pda"
      "ParseProgramID S (tx_To (op_Transaction op)) = Inr to" "sol_tx_accounts S op = Inr accs"
      "sol_op_preimage S e n md op =
        Inr (concat (sol_op_buffers S (se_ChainSelector e) pda n to (tx_Data (op_Transaction op)) accs))"
      "h = Keccak256Hash S (projr (sol_op_preimage S e n md op))"
    unfolding sol_HashOperation_Inr by blast
  from assms(2) obtain pda' to' accs' where 2: "sol_config_account S md' = Inr pda'"
      "ParseProgramID S (tx_To (op_Transaction op')) = Inr to'" "sol_tx_accounts S op' = Inr accs'"
      "sol_op_preimage S e' n' md' op' =
        Inr (concat (sol_op_buffers S (se_ChainSelector e') pda' n' to' (tx_Data (op_Transaction op')) accs'))"
      "h = Keccak256Hash S (projr (sol_op_preimage S e' n' md' op'))"
    unfolding sol_HashOperation_Inr by blast
  show ?thesis
  proof (cases "projr (sol_op_preimage S e n md op) = projr (sol_op_preimage S e' n' md' op')")
    case True
    with 1(4) 2(4) sol_op_buffers_inject [OF _ assms(3,4)] 1(3) 2(3) assms(5,6) show ?thesis
      by (simp add: 1(1-3) 2(1-3))
  next
    case False
    then show ?thesis using 1(5) 2(5) by (simp add: Let_def)
  qed
qed

lemma sample_solana_contract:
  "ParseContractAddress sample_solana (ContractAddress sample_solana p sample_seed) = Inr (p, sample_seed)"
  "ParseProgramID sample_solana (bits_text p) = Inr p"
proof -
  have "46 \<notin> set sample_seed" "hd sample_seed \<noteq> 0" "sample_seed \<noteq> []"
    by (simp_all add: sample_seed_def string_bytes_def)
  then show "ParseContractAddress sample_solana (ContractAddress sample_solana p sample_seed) = Inr (p, sample_seed)"
    using trim_zeros_pad [of sample_seed] sample_seed_wf
    by (simp add: ParseContractAddress_ContractAddress [OF sample_base58] seed_wf_def)
  have "split_on (CHR ''.'') (bits_text p) = [bits_text p]"
    by (rule split_on_absent) (rule bits_text_dot)
  then show "ParseProgramID sample_solana (bits_text p) = Inr p"
    by (simp add: ParseProgramID_def ParseContractAddress_def ErrInvalidContractAddressFormat_def)
qed

definition sample_account :: account_meta where
  "sample_account = \<lparr>am_PublicKey = 9, am_IsWritable = True, am_IsSigner = False\<rparr>"

definition sample_sol_tx :: transaction where
  "sample_sol_tx = \<lparr>tx_ContractType = ''Token'', tx_ContractVersion = None, tx_Tags = [''tag''], tx_To = bits_text 5,
     tx_Data = [1, 2, 3],
     tx_AdditionalFields = RawJson (sample_fields_json \<lparr>sf_Accounts = [Some sample_account], sf_Value = None\<rparr>)\<rparr>"

definition sample_sol_metadata :: chain_metadata where
  "sample_sol_metadata = \<lparr>cm_StartingOpCount = 0, cm_MCMAddress = ContractAddress sample_solana 7 sample_seed,
     cm_AdditionalFields = RawJson JNull\<rparr>"

lemma sample_sol_fields:
  "ParseAdditionalFields sample_solana (tx_AdditionalFields sample_sol_tx) =
     Inr \<lparr>sf_Accounts = [Some sample_account], sf_Value = None\<rparr>"
  by (simp add: ParseAdditionalFields_def sample_sol_tx_def raw_nonempty_def)

theorem sol_HashOperation_binding_witness:
  "let e = \<lparr>se_ChainSelector = 4, se_TxCount = 1, se_OverridePreviousRoot = False\<rparr>;
       op = \<lparr>op_ChainSelector = 4, op_Transaction = sample_sol_tx\<rparr> in
   \<exists>h. sol_HashOperation sample_solana e 0 sample_sol_metadata op = Inr h \<and>
     sol_tx_accounts sample_solana op = Inr [sample_account] \<and>
     (ParseProgramID sample_solana (tx_To sample_sol_tx) = ParseProgramID sample_solana (tx_To sample_sol_tx) \<or>
      (let p = projr (sol_op_preimage sample_solana e 0 sample_sol_metadata op) in p \<noteq> p))"
proof -
  let ?e = "\<lparr>se_ChainSelector = 4, se_TxCount = 1, se_OverridePreviousRoot = False\<rparr>"
  let ?op = "\<lparr>op_ChainSelector = 4, op_Transaction = sample_sol_tx\<rparr>"
  have accs: "sol_tx_accounts sample_solana ?op = Inr [sample_account]"
    by (simp add: sol_tx_accounts_def sample_sol_fields)
  have "tx_To sample_sol_tx = bits_text 5" and len: "length (tx_Data sample_sol_tx) < 2 ^ 64"
    by (simp_all add: sample_sol_tx_def)
  then obtain h where h: "sol_HashOperation sample_solana ?e 0 sample_sol_metadata ?op = Inr h"
    by (simp add: sol_HashOperation_def sample_sol_metadata_def sample_solana_contract sample_sol_fields
        FindConfigPDA_def findPDA_def)
  from sol_HashOperation_binding [OF h h] len accs h show ?thesis by (simp add: Let_def)
qed

end
