(* ===== verification/SolanaConverter.thy ===== *)
theory SolanaConverter
  imports Solana TimelockProposal
begin

text \<open>
  \<open>sdk/solana/timelock_converter.go\<close>: batches as instructions of the timelock program, which become
  MCM operations, and the ids of batches. The program's bindings are generated code: an instruction
  is the call of its constructor, kept as a \<open>timelock_ix\<close>; the accounts the constructor lists and
  what \<open>ValidateAndBuild\<close> makes of them are fields of \<open>solana_tl_env\<close>. The program id the bindings
  keep in a global variable is passed along.
\<close>

section \<open>Data\<close>

record instruction_account =
  ia_Pubkey :: pubkey
  ia_IsSigner :: bool
  ia_IsWritable :: bool

record instruction_data =
  id_ProgramId :: pubkey
  id_Data :: "byte list"
  id_Accounts :: "instruction_account list"

text \<open>
  The role enum of the timelock's bindings, distinct cases of a \<open>switch\<close>; any other number is
  \<open>OtherRole\<close>.
\<close>

datatype binding_role = Admin_Role | Proposer_Role | Executor_Role | Canceller_Role | Bypasser_Role | OtherRole u8

text \<open>The constructors, with their arguments in order and the accounts as a list at the end.\<close>

datatype timelock_ix =
    InitializeOperation pda_seed hash hash hash u32 "pubkey list"
  | InitializeInstruction pda_seed hash pubkey "instruction_account list" "pubkey list"
  | AppendInstructionData pda_seed hash u32 "byte list" "pubkey list"
  | FinalizeOperation pda_seed hash "pubkey list"
  | ScheduleBatch pda_seed hash u64 "pubkey list"
  | CancelOperation pda_seed hash "pubkey list"
  | InitializeBypasserOperation pda_seed hash hash u32 "pubkey list"
  | InitializeBypasserInstruction pda_seed hash pubkey "instruction_account list" "pubkey list"
  | AppendBypasserInstructionData pda_seed hash u32 "byte list" "pubkey list"
  | FinalizeBypasserOperation pda_seed hash "pubkey list"
  | BypasserExecuteBatch pda_seed hash "pubkey list"
  | ExecuteBatch pda_seed hash "pubkey list"
  | UpdateDelayIx pda_seed u64 "pubkey list"
  | BatchAddAccess pda_seed binding_role "pubkey list"

text \<open>The conversion of a negative float to \<open>uint64\<close> is left to the implementation by the Go language.\<close>

record solana_tl_env = solana_env +
  TimelockAccounts :: "timelock_ix \<Rightarrow> account_meta list"
  TimelockBuild :: "pubkey \<Rightarrow> timelock_ix \<Rightarrow> account_meta list \<Rightarrow> solana_instruction res"
  NegativeFloatToUint64 :: "int \<Rightarrow> u64"

definition build_ix :: "'t solana_tl_env_scheme \<Rightarrow> pubkey \<Rightarrow> timelock_ix \<Rightarrow> solana_instruction res" where
  "build_ix T programID ix = TimelockBuild T programID ix (TimelockAccounts T ix)"

section \<open>The size of a chunk\<close>

definition AppendIxDataChunkSize :: "'s solana_env_scheme \<Rightarrow> int" where
  "AppendIxDataChunkSize S =
     (let numProofs = getenv S ''MCMS_SOLANA_NUM_PROOFS'' 8 atoi;
          executeBatchDataSizeBytes = 64 + word_of_int numProofs * 32 :: u64 in
      sint (1232 - 80 - executeBatchDataSizeBytes - 1 - 1 - 1 - 1 - 12 * 32 - 32 - 1 - 1 * 2 - 1 * 2 - 1 * 12 - 1 - 64 - 7))"

lemma AppendIxDataChunkSize_word:
  "AppendIxDataChunkSize S = sint (579 - word_of_int (getenv S ''MCMS_SOLANA_NUM_PROOFS'' 8 atoi) * 32 :: u64)"
  by (simp add: AppendIxDataChunkSize_def Let_def algebra_simps)

text \<open>The size is odd, hence never zero.\<close>

lemma AppendIxDataChunkSize_nonzero: "AppendIxDataChunkSize S \<noteq> 0"
proof -
  let ?n = "word_of_int (getenv S ''MCMS_SOLANA_NUM_PROOFS'' 8 atoi) :: u64"
  have "\<not> (579 - ?n * 32 = 0)"
  proof
    assume "579 - ?n * 32 = 0"
    then have "(579 :: u64) = push_bit 5 ?n" by (simp add: push_bit_eq_mult)
    then have "bit (579 :: u64) 0 = bit (push_bit 5 ?n) 0" by simp
    then show False by (simp add: bit_simps)
  qed
  then show ?thesis unfolding AppendIxDataChunkSize_word by (simp add: signed_eq_0_iff)
qed

lemma sint_small: "- (2 ^ 63) \<le> i \<Longrightarrow> i < 2 ^ 63 \<Longrightarrow> sint (word_of_int i :: u64) = i"
  by (simp add: signed_of_int signed_take_bit_int_eq_self)

lemma AppendIxDataChunkSize_value:
  assumes "getenv S ''MCMS_SOLANA_NUM_PROOFS'' 8 atoi = n" and "0 \<le> n" and "n < 2 ^ 57"
  shows "AppendIxDataChunkSize S = 579 - 32 * n"
proof -
  have "579 - word_of_int n * 32 = (word_of_int (579 - 32 * n) :: u64)" by (simp add: algebra_simps)
  moreover have "- (2 ^ 63) \<le> 579 - 32 * n" "579 - 32 * n < 2 ^ 63" using assms(2,3) by simp_all
  ultimately show ?thesis by (simp only: AppendIxDataChunkSize_word assms(1) sint_small)
qed

section \<open>Building the instructions\<close>

text \<open>
  The loop \<open>for offset < len(rawData)\<close> that cuts the data of one instruction: \<open>rawData[offset:end]\<close>
  panics when \<open>end\<close> is negative. It would not end for a chunk size of zero, which the size never is.
\<close>

function append_chunks ::
  "int \<Rightarrow> (byte list \<Rightarrow> solana_instruction res) \<Rightarrow> byte list \<Rightarrow> solana_instruction list res" where
  "append_chunks c app rawData =
     (if rawData = [] then Inr []
      else if c < 0 then Inl (Panic ''slice bounds out of range'')
      else if c = 0 then Inl (Panic ''endless loop'')
      else
        bindE (app (take (nat c) rawData)) (\<lambda>ix.
        bindE (append_chunks c app (drop (nat c) rawData)) (\<lambda>ixs. Inr (ix # ixs))))"
  by pat_completeness auto

termination
  by (relation "measure (\<lambda>(c, app, rawData). length rawData)") (auto simp: length_greater_0_conv [symmetric] simp del: length_greater_0_conv)

declare append_chunks.simps [simp del]

text \<open>The loop over the instructions of a batch: an initialisation, then the data in chunks.\<close>

fun instruction_loop ::
  "int \<Rightarrow> (instruction_data \<Rightarrow> solana_instruction res) \<Rightarrow> (u32 \<Rightarrow> byte list \<Rightarrow> solana_instruction res) \<Rightarrow> nat \<Rightarrow>
     instruction_data list \<Rightarrow> solana_instruction list res" where
  "instruction_loop c init app i [] = Inr []"
| "instruction_loop c init app i (d # ds) =
     bindE (init d) (\<lambda>initIx.
     bindE (append_chunks c (app (word_of_nat i)) (id_Data d)) (\<lambda>appendIxs.
     bindE (instruction_loop c init app (Suc i) ds) (\<lambda>ixs. Inr (initIx # appendIxs @ ixs))))"

definition uint64_seconds :: "'t solana_tl_env_scheme \<Rightarrow> int \<Rightarrow> u64" where
  "uint64_seconds T delay =
     (if delay_seconds delay < 0 then NegativeFloatToUint64 T delay else word_of_int (delay_seconds delay))"

definition scheduleBatchInstructions ::
  "'t solana_tl_env_scheme \<Rightarrow> pubkey \<Rightarrow> pda_seed \<Rightarrow> hash \<Rightarrow> hash \<Rightarrow> hash \<Rightarrow> int \<Rightarrow> u32 \<Rightarrow> instruction_data list \<Rightarrow>
     pubkey \<Rightarrow> pubkey \<Rightarrow> pubkey \<Rightarrow> pubkey \<Rightarrow> solana_instruction list res" where
  "scheduleBatchInstructions T pid pdaSeed operationID predecessor salt delay numInstructions instructionsData
       proposerAC operationPDA configPDA mcmSignerPDA =
     (let accounts = [operationPDA, configPDA, proposerAC, mcmSignerPDA] in
      bindE (wrapE (Wrapf ''unable to build InitializeOperation instruction: %w'')
        (build_ix T pid (InitializeOperation pdaSeed operationID predecessor salt numInstructions
           (accounts @ [SystemProgramID T])))) (\<lambda>initialize.
      bindE (instruction_loop (AppendIxDataChunkSize T)
        (\<lambda>ixData. wrapE (Wrapf ''unable to build InitializeInstruction instruction (ixIndex=%d): %w'')
           (build_ix T pid (InitializeInstruction pdaSeed operationID (id_ProgramId ixData) (id_Accounts ixData)
              (accounts @ [SystemProgramID T]))))
        (\<lambda>i chunk. wrapE (Wrapf ''unable to build AppendInstructionData instruction (ixIndex=%d): %w'')
           (build_ix T pid (AppendInstructionData pdaSeed operationID i chunk (accounts @ [SystemProgramID T]))))
        0 instructionsData) (\<lambda>instructions.
      bindE (wrapE (Wrapf ''unable to build FinializeOperation instruction: %w'')
        (build_ix T pid (FinalizeOperation pdaSeed operationID accounts))) (\<lambda>finalize.
      bindE (wrapE (Wrapf ''unable to build ScheduleBatch instruction: %w'')
        (build_ix T pid (ScheduleBatch pdaSeed operationID (uint64_seconds T delay) accounts))) (\<lambda>schedule.
      Inr (initialize # instructions @ [finalize, schedule]))))))"

definition cancelInstructions ::
  "'t solana_tl_env_scheme \<Rightarrow> pubkey \<Rightarrow> pda_seed \<Rightarrow> hash \<Rightarrow> pubkey \<Rightarrow> pubkey \<Rightarrow> pubkey \<Rightarrow> pubkey \<Rightarrow>
     solana_instruction list res" where
  "cancelInstructions T pid pdaSeed operationID cancelAC operationPDA configPDA mcmSignerPDA =
     bindE (wrapE (Wrapf ''unable to build Cancel instruction: %w'')
       (build_ix T pid (CancelOperation pdaSeed operationID [operationPDA, configPDA, cancelAC, mcmSignerPDA])))
       (\<lambda>instruction. Inr [instruction])"

text \<open>\<open>syncWritableAttribute\<close>: every mention of a key is writable when one of them is.\<close>

definition writable_attr :: "account_meta list \<Rightarrow> (pubkey, bool) gomap" where
  "writable_attr accounts =
     foldl (\<lambda>m a. gm_put (am_PublicKey a) (gm_get0 m (am_PublicKey a) False \<or> am_IsWritable a) m) [] accounts"

definition syncWritableAttribute :: "account_meta list \<Rightarrow> account_meta list" where
  "syncWritableAttribute accounts =
     (let writableAttrMap = writable_attr accounts in
      map (\<lambda>a. a\<lparr>am_IsWritable := gm_get0 writableAttrMap (am_PublicKey a) False\<rparr>) accounts)"

definition bypassInstructions ::
  "'t solana_tl_env_scheme \<Rightarrow> pubkey \<Rightarrow> pda_seed \<Rightarrow> hash \<Rightarrow> pubkey \<Rightarrow> pubkey \<Rightarrow> pubkey \<Rightarrow> pubkey \<Rightarrow> pubkey \<Rightarrow> hash \<Rightarrow>
     u32 \<Rightarrow> instruction_data list \<Rightarrow> account_meta list \<Rightarrow> solana_instruction list res" where
  "bypassInstructions T pid pdaSeed operationID bypassAC operationPDA configPDA signerPDA mcmSignerPDA salt
       numInstructions instructionsData remainingAccounts =
     (let accounts = [operationPDA, configPDA, bypassAC, mcmSignerPDA];
          executeIx = BypasserExecuteBatch pdaSeed operationID [operationPDA, configPDA, signerPDA, bypassAC, mcmSignerPDA]
      in
      bindE (wrapE (Wrapf ''unable to build InitializeBypasserOperation instruction: %w'')
        (build_ix T pid (InitializeBypasserOperation pdaSeed operationID salt numInstructions
           (accounts @ [SystemProgramID T])))) (\<lambda>initialize.
      bindE (instruction_loop (AppendIxDataChunkSize T)
        (\<lambda>ixData. wrapE (Wrapf ''unable to build InitializeBypasserInstruction instruction (ixIndex=%d): %w'')
           (build_ix T pid (InitializeBypasserInstruction pdaSeed operationID (id_ProgramId ixData) (id_Accounts ixData)
              (accounts @ [SystemProgramID T]))))
        (\<lambda>i chunk. wrapE (Wrapf ''unable to build AppendBypasserInstruction instruction (ixIndex=%d): %w'')
           (build_ix T pid (AppendBypasserInstructionData pdaSeed operationID i chunk (accounts @ [SystemProgramID T]))))
        0 instructionsData) (\<lambda>instructions.
      bindE (wrapE (Wrapf ''failed to build finalize bypasser operation instruction: %w'')
        (build_ix T pid (FinalizeBypasserOperation pdaSeed operationID accounts))) (\<lambda>finalize.
      bindE (wrapE (Wrapf ''unable to build BypasserExecuteBatch instruction: %w'')
        (TimelockBuild T pid executeIx
           (syncWritableAttribute (TimelockAccounts T executeIx @ remainingAccounts)))) (\<lambda>execute.
      Inr (initialize # instructions @ [finalize, execute]))))))"

section \<open>Reading a batch\<close>

definition accountMetaToInstructionAccount :: "account_meta list \<Rightarrow> instruction_account list" where
  "accountMetaToInstructionAccount accounts =
     map (\<lambda>a. \<lparr>ia_Pubkey = am_PublicKey a, ia_IsSigner = am_IsSigner a, ia_IsWritable = am_IsWritable a\<rparr>) accounts"

definition instruction_data_of :: "'s solana_env_scheme \<Rightarrow> transaction \<Rightarrow> instruction_data res" where
  "instruction_data_of S tx =
     bindE (wrapE (Wrapf ''unable to parse program id from To field: %w'') (ParseProgramID S (tx_To tx))) (\<lambda>toProgramID.
     bindE (ParseAdditionalFields S (tx_AdditionalFields tx)) (\<lambda>additionalFields.
     bindE (mapE deref (sf_Accounts additionalFields)) (\<lambda>accounts.
       Inr \<lparr>id_ProgramId = toProgramID, id_Data = tx_Data tx,
            id_Accounts = accountMetaToInstructionAccount accounts\<rparr>)))"

definition getInstructionDataFromBatchOperation ::
  "'s solana_env_scheme \<Rightarrow> batch_operation \<Rightarrow> instruction_data list res" where
  "getInstructionDataFromBatchOperation S batchOp = mapE (instruction_data_of S) (bop_Transactions batchOp)"

definition accounts_of_tx :: "'s solana_env_scheme \<Rightarrow> transaction \<Rightarrow> account_meta list res" where
  "accounts_of_tx S tx =
     bindE (wrapE (Wrapf ''unable to parse program id from To field: %w'') (ParseProgramID S (tx_To tx))) (\<lambda>toProgramID.
     bindE (ParseAdditionalFields S (tx_AdditionalFields tx)) (\<lambda>additionalFields.
     bindE (mapE deref (sf_Accounts additionalFields)) (\<lambda>accounts.
       Inr (\<lparr>am_PublicKey = toProgramID, am_IsWritable = False, am_IsSigner = False\<rparr> # accounts))))"

text \<open>
  One step of the second loop: an account seen before, which the map and the slice share, may become
  writable; a new one is copied, without its signer flag.
\<close>

definition merge_account :: "account_meta list \<Rightarrow> account_meta \<Rightarrow> account_meta list" where
  "merge_account uniqueAccounts a =
     (if am_PublicKey a \<in> am_PublicKey ` set uniqueAccounts
      then map (\<lambda>e. if am_PublicKey e = am_PublicKey a
                    then e\<lparr>am_IsWritable := am_IsWritable e \<or> am_IsWritable a\<rparr> else e) uniqueAccounts
      else uniqueAccounts @ [a\<lparr>am_IsSigner := False\<rparr>])"

definition getAccountsFromBatchOperation ::
  "'s solana_env_scheme \<Rightarrow> batch_operation \<Rightarrow> account_meta list res" where
  "getAccountsFromBatchOperation S batchOp =
     bindE (mapE (accounts_of_tx S) (bop_Transactions batchOp)) (\<lambda>accounts.
       Inr (foldl merge_account [] (concat accounts)))"

fun applyExecutePayerSignerOverride :: "account_meta list \<Rightarrow> pubkey \<Rightarrow> account_meta list" where
  "applyExecutePayerSignerOverride [] payer = []"
| "applyExecutePayerSignerOverride (acc # accounts) payer =
     (if am_PublicKey acc = payer then acc\<lparr>am_IsSigner := True\<rparr> # accounts
      else acc # applyExecutePayerSignerOverride accounts payer)"

definition bypassRemainingAccounts ::
  "'s solana_env_scheme \<Rightarrow> batch_operation \<Rightarrow> solana_metadata \<Rightarrow> account_meta list res" where
  "bypassRemainingAccounts S batchOp additionalFields =
     bindE (getAccountsFromBatchOperation S batchOp) (\<lambda>accounts.
       Inr (if HasExecutePayer additionalFields
            then case sm_ExecutePayer additionalFields of
                   Some payer \<Rightarrow> applyExecutePayerSignerOverride accounts payer
                 | None \<Rightarrow> accounts
            else accounts))"

definition getTagsFromBatchOperation :: "batch_operation \<Rightarrow> string list" where
  "getTagsFromBatchOperation batchOp = concat (map tx_Tags (bop_Transactions batchOp))"

section \<open>Ids\<close>

definition boolToByte :: "bool \<Rightarrow> byte" where
  "boolToByte b = (if b then 1 else 0)"

definition uint32_le :: "nat \<Rightarrow> byte list" where
  "uint32_le n = le_bytes 4 (word_of_nat n :: u32)"

definition encode_account :: "instruction_account \<Rightarrow> byte list" where
  "encode_account acc =
     be_bytes 32 (ia_Pubkey acc) @ [boolToByte (ia_IsSigner acc)] @ [boolToByte (ia_IsWritable acc)]"

definition encode_instruction :: "instruction_data \<Rightarrow> byte list" where
  "encode_instruction ix =
     be_bytes 32 (id_ProgramId ix) @ uint32_le (length (id_Accounts ix)) @
     concat (map encode_account (id_Accounts ix)) @ uint32_le (length (id_Data ix)) @ id_Data ix"

definition encode_batch :: "instruction_data list \<Rightarrow> hash \<Rightarrow> hash \<Rightarrow> byte list" where
  "encode_batch instructions predecessor salt =
     uint32_le (length instructions) @ concat (map encode_instruction instructions) @
     be_bytes 32 predecessor @ be_bytes 32 salt"

definition sol_HashTimelockOperation :: "'c crypto_pkg_scheme \<Rightarrow> instruction_data list \<Rightarrow> hash \<Rightarrow> hash \<Rightarrow> hash res" where
  "sol_HashTimelockOperation C instructions predecessor salt =
     Inr (Keccak256Hash C (encode_batch instructions predecessor salt))"

definition sol_OperationID :: "'s solana_env_scheme \<Rightarrow> operation_id" where
  "sol_OperationID S batchOp action predecessor salt =
     bindE (wrapE (Wrapf ''unable to convert batch operation to solana instructions: %w'')
              (getInstructionDataFromBatchOperation S batchOp)) (\<lambda>instructionsData.
       let predecessor = (if action = TimelockActionBypass then 0 else predecessor) in
       sol_HashTimelockOperation S instructionsData predecessor salt)"

section \<open>The converter\<close>

definition mcms_operation ::
  "'s solana_env_scheme \<Rightarrow> chain_selector \<Rightarrow> string list \<Rightarrow> pubkey \<Rightarrow> solana_instruction \<Rightarrow> operation res" where
  "mcms_operation S csel tags signerPDA instruction =
     bindE (wrapE (Wrapf ''unable to get instruction data: %w'') (ix_Data instruction)) (\<lambda>data.
     let accounts = map (\<lambda>a. a\<lparr>am_IsSigner := am_IsSigner a \<and> am_PublicKey a \<noteq> signerPDA\<rparr>) (ix_Accounts instruction) in
     bindE (wrapE (Wrapf ''unable to create new transaction: %w'')
              (sol_NewTransaction S (PublicKeyString S (ix_ProgramID instruction)) data None (map Some accounts)
                 ''RBACTimelock'' tags)) (\<lambda>tx.
       Inr \<lparr>op_ChainSelector = csel, op_Transaction = tx\<rparr>))"

definition solanaInstructionToMcmsOperation ::
  "'s solana_env_scheme \<Rightarrow> solana_instruction list \<Rightarrow> chain_selector \<Rightarrow> string list \<Rightarrow> pubkey \<Rightarrow> operation list res" where
  "solanaInstructionToMcmsOperation S instructions csel tags signerPDA =
     mapE (mcms_operation S csel tags signerPDA) instructions"

text \<open>The \<open>switch\<close> on the action.\<close>

definition sol_action_instructions ::
  "'t solana_tl_env_scheme \<Rightarrow> pubkey \<Rightarrow> pda_seed \<Rightarrow> batch_operation \<Rightarrow> solana_metadata \<Rightarrow> instruction_data list \<Rightarrow> int \<Rightarrow>
     timelock_action \<Rightarrow> hash \<Rightarrow> hash \<Rightarrow> hash \<Rightarrow> pubkey \<Rightarrow> pubkey \<Rightarrow> pubkey \<Rightarrow> pubkey \<Rightarrow> pubkey \<Rightarrow> solana_instruction list res"
where
  "sol_action_instructions T pid seed batchOp additionalFields instructionsData delay action operationID predecessor salt
       operationPDA operationBypasserPDA configPDA signerPDA mcmSignerPDA =
     (let numInstructions = word_of_nat (length (bop_Transactions batchOp));
          building = wrapE (Wrapf ''unable to build %v instruction: %w'') in
      case action of
        TimelockActionSchedule \<Rightarrow>
          building (scheduleBatchInstructions T pid seed operationID predecessor salt delay numInstructions
            instructionsData (sm_Proposer additionalFields) operationPDA configPDA mcmSignerPDA)
      | TimelockActionCancel \<Rightarrow>
          building (cancelInstructions T pid seed operationID (sm_Canceller additionalFields) operationPDA configPDA
            mcmSignerPDA)
      | TimelockActionBypass \<Rightarrow>
          bindE (wrapE (Wrapf ''unable to get accounts from batch operation: %w'')
                   (bypassRemainingAccounts T batchOp additionalFields)) (\<lambda>bypassAccounts.
            building (bypassInstructions T pid seed operationID (sm_Bypasser additionalFields) operationBypasserPDA
              configPDA signerPDA mcmSignerPDA salt numInstructions instructionsData bypassAccounts))
      | OtherAction a \<Rightarrow> building (Inl (Errorf ''invalid timelock operation: %s'')))"

definition sol_ConvertBatchToChainOperations :: "'t solana_tl_env_scheme \<Rightarrow> converter" where
  "sol_ConvertBatchToChainOperations T metadata batchOp timelockAddress mcmAddress delay action predecessor salt =
     bindE (wrapE (Wrapf ''unable to parse timelock address: %w'') (ParseContractAddress T timelockAddress))
       (\<lambda>(timelockProgramID, timelockPDASeed).
     bindE (wrapE (Wrapf ''unable to parse mcm address: %w'') (ParseContractAddress T mcmAddress))
       (\<lambda>(mcmProgramID, mcmPDASeed).
     let tags = getTagsFromBatchOperation batchOp in
     bindE (wrapE (Wrapf ''unable to unmarshal solana-specific additional fields from chain metadata: %w'')
              (SolMetadataUnmarshal T (cm_AdditionalFields metadata))) (\<lambda>additionalFields.
     bindE (wrapE (Wrapf ''unable to convert batch operation to solana instructions: %w'')
              (getInstructionDataFromBatchOperation T batchOp)) (\<lambda>instructionsData.
     let predecessor = (if action = TimelockActionBypass then 0 else predecessor) in
     bindE (wrapE (Wrapf ''unable to compute operation id: %w'')
              (sol_HashTimelockOperation T instructionsData predecessor salt)) (\<lambda>operationID.
     bindE (wrapE (Wrapf ''unable to find timelock operation pda: %w'')
              (FindTimelockOperationPDA T timelockProgramID timelockPDASeed operationID)) (\<lambda>operationPDA.
     bindE (wrapE (Wrapf ''unable to find timelock bypasser operation pda: %w'')
              (FindTimelockBypasserOperationPDA T timelockProgramID timelockPDASeed operationID)) (\<lambda>operationBypasserPDA.
     bindE (wrapE (Wrapf ''unable to find timelock config pda: %w'')
              (FindTimelockConfigPDA T timelockProgramID timelockPDASeed)) (\<lambda>configPDA.
     bindE (wrapE (Wrapf ''unable to find timelock signer pda: %w'')
              (FindTimelockSignerPDA T timelockProgramID timelockPDASeed)) (\<lambda>signerPDA.
     bindE (wrapE (Wrapf ''unable to find mcm signer address: %w'')
              (FindSignerPDA T mcmProgramID mcmPDASeed)) (\<lambda>mcmSignerPDA.
     bindE (sol_action_instructions T timelockProgramID timelockPDASeed batchOp additionalFields instructionsData delay action
              operationID predecessor salt operationPDA operationBypasserPDA configPDA signerPDA mcmSignerPDA) (\<lambda>instructions.
     bindE (wrapE (Wrapf ''unable to convert instructions to mcms operations: %w'')
              (solanaInstructionToMcmsOperation T instructions (bop_ChainSelector batchOp) tags mcmSignerPDA)) (\<lambda>operations.
       Inr (operations, operationID)))))))))))))"

section \<open>The converter and the ids\<close>

lemma sol_convert_InrE:
  assumes "sol_ConvertBatchToChainOperations T md b tlAddr mcm delay action pred salt = Inr (ops, h)"
  obtains tl mcmc flds data opPDA byPDA cfgPDA signerPDA mcmSigner ixs where
    "ParseContractAddress T tlAddr = Inr tl" "ParseContractAddress T mcm = Inr mcmc"
    "SolMetadataUnmarshal T (cm_AdditionalFields md) = Inr flds"
    "getInstructionDataFromBatchOperation T b = Inr data"
    "sol_HashTimelockOperation T data (if action = TimelockActionBypass then 0 else pred) salt = Inr h"
    "FindTimelockOperationPDA T (fst tl) (snd tl) h = Inr opPDA" "FindTimelockBypasserOperationPDA T (fst tl) (snd tl) h = Inr byPDA"
    "FindTimelockConfigPDA T (fst tl) (snd tl) = Inr cfgPDA" "FindTimelockSignerPDA T (fst tl) (snd tl) = Inr signerPDA"
    "FindSignerPDA T (fst mcmc) (snd mcmc) = Inr mcmSigner"
    "sol_action_instructions T (fst tl) (snd tl) b flds data delay action h
       (if action = TimelockActionBypass then 0 else pred) salt opPDA byPDA cfgPDA signerPDA mcmSigner = Inr ixs"
    "solanaInstructionToMcmsOperation T ixs (bop_ChainSelector b) (getTagsFromBatchOperation b) mcmSigner = Inr ops"
  using assms unfolding sol_ConvertBatchToChainOperations_def Let_def split_beta
  by (elim bindE_InrE) (simp only: wrapE_Inr_iff sum.inject prod.inject)

lemma sol_convert_id:
  "sol_ConvertBatchToChainOperations T md b tlAddr mcm delay action pred salt = Inr (ops, h) \<Longrightarrow>
     sol_OperationID T b action pred salt = Inr h"
  by (elim sol_convert_InrE) (simp add: sol_OperationID_def)

lemma solanaInstructionToMcmsOperation_mem:
  "solanaInstructionToMcmsOperation S ixs csel tags pda = Inr ops \<Longrightarrow> op \<in> set ops \<Longrightarrow>
     \<exists>ix \<in> set ixs. mcms_operation S csel tags pda ix = Inr op"
  unfolding solanaInstructionToMcmsOperation_def by (rule mapE_mem_result)

lemma mcms_operation_chain: "mcms_operation S csel tags pda ix = Inr op \<Longrightarrow> op_ChainSelector op = csel"
  by (auto simp: mcms_operation_def bindE_Inr_iff Let_def)

interpretation sol_family: family_converter "sol_ConvertBatchToChainOperations T" "sol_OperationID T" for T
proof
  show "sol_ConvertBatchToChainOperations T md b tlAddr mcm delay action pred salt = Inr (ops, h) \<Longrightarrow>
      sol_OperationID T b action pred salt = Inr h" for md b tlAddr mcm delay action pred salt ops h
    by (rule sol_convert_id)
  show "sol_ConvertBatchToChainOperations T md b tlAddr mcm delay action pred salt = Inr (ops, h) \<Longrightarrow>
      op \<in> set ops \<Longrightarrow> op_ChainSelector op = bop_ChainSelector b" for md b tlAddr mcm delay action pred salt ops h op
    by (elim sol_convert_InrE, drule (1) solanaInstructionToMcmsOperation_mem) (auto dest: mcms_operation_chain)
qed

section \<open>The bytes of a batch determine it\<close>

lemma uint32_le_inject: "m < 2 ^ 32 \<Longrightarrow> n < 2 ^ 32 \<Longrightarrow> uint32_le m = uint32_le n \<Longrightarrow> m = n"
  unfolding uint32_le_def by (rule word_of_nat_inject_bound [where 'a = 32]) (simp_all add: le_bytes_inject)

lemma length_uint32_le [simp]: "length (uint32_le n) = 4"
  by (simp add: uint32_le_def)

interpretation ia_code: byte_code "\<lambda>_. True" encode_account
proof (rule fixed_width_code [where n = 34])
  show "length (encode_account a) = 34" for a by (simp add: encode_account_def)
  have "a = b" if "encode_account a = encode_account b" for a b
    using that by (simp add: encode_account_def be_bytes_inject boolToByte_def split: if_splits)
  then show "inj encode_account" by (auto simp: inj_def)
qed

definition instruction_fits :: "instruction_data \<Rightarrow> bool" where
  "instruction_fits ix \<longleftrightarrow> length (id_Accounts ix) < 2 ^ 32 \<and> length (id_Data ix) < 2 ^ 32"

interpretation id_code: byte_code instruction_fits encode_instruction
proof
  fix x y r s
  assume ok: "instruction_fits x" "instruction_fits y" and eq: "encode_instruction x @ r = encode_instruction y @ s"
  from key_code.splits [OF _ _ eq [unfolded encode_instruction_def append_assoc]] have p: "id_ProgramId x = id_ProgramId y"
    and 1: "uint32_le (length (id_Accounts x)) @ concat (map encode_account (id_Accounts x)) @
        uint32_le (length (id_Data x)) @ id_Data x @ r =
      uint32_le (length (id_Accounts y)) @ concat (map encode_account (id_Accounts y)) @
        uint32_le (length (id_Data y)) @ id_Data y @ s" by simp_all
  from ia_code.counted_splits [OF uint32_le_inject length_uint32_le _ _ _ _ 1] ok
  have a: "id_Accounts x = id_Accounts y"
    and "uint32_le (length (id_Data x)) @ id_Data x @ r = uint32_le (length (id_Data y)) @ id_Data y @ s"
    by (simp_all add: instruction_fits_def list_all_iff)
  then have 2: "uint32_le (length (id_Data x)) @ concat (map (\<lambda>b. [b]) (id_Data x)) @ r =
      uint32_le (length (id_Data y)) @ concat (map (\<lambda>b. [b]) (id_Data y)) @ s" by simp
  from single_byte.counted_splits [OF uint32_le_inject length_uint32_le _ _ _ _ 2] ok
  have "id_Data x = id_Data y \<and> r = s" by (simp add: instruction_fits_def list_all_iff)
  with p a show "x = y \<and> r = s" by simp
qed

definition batch_fits :: "instruction_data list \<Rightarrow> bool" where
  "batch_fits ixs \<longleftrightarrow> length ixs < 2 ^ 32 \<and> list_all instruction_fits ixs"

lemma encode_batch_inject:
  assumes "batch_fits xs" and "batch_fits ys" and "encode_batch xs p s = encode_batch ys p' s'"
  shows "xs = ys \<and> p = p' \<and> s = s'"
proof -
  from id_code.counted_splits [OF uint32_le_inject length_uint32_le _ _ _ _ assms(3) [unfolded encode_batch_def]]
    assms(1,2)
  have "xs = ys" and "be_bytes 32 p @ be_bytes 32 s = be_bytes 32 p' @ be_bytes 32 s'"
    by (simp_all add: batch_fits_def)
  then show ?thesis by (simp add: append_eq_append_conv be_bytes_inject)
qed

section \<open>The accounts of a batch\<close>

abbreviation keys_of :: "account_meta list \<Rightarrow> pubkey list" where
  "keys_of accounts \<equiv> map am_PublicKey accounts"

definition writable_in :: "account_meta list \<Rightarrow> pubkey \<Rightarrow> bool" where
  "writable_in accounts k \<longleftrightarrow> (\<exists>a \<in> set accounts. am_PublicKey a = k \<and> am_IsWritable a)"

lemma merge_account_keys:
  "keys_of (merge_account us a) = (if am_PublicKey a \<in> set (keys_of us) then keys_of us else keys_of us @ [am_PublicKey a])"
  by (auto simp: merge_account_def comp_def intro!: map_cong)

lemma merge_account_writable:
  "writable_in (merge_account us a) k \<longleftrightarrow> writable_in us k \<or> am_PublicKey a = k \<and> am_IsWritable a"
proof (cases "am_PublicKey a \<in> am_PublicKey ` set us")
  case True
  then obtain v where v: "v \<in> set us" "am_PublicKey v = am_PublicKey a" by auto
  have "writable_in (merge_account us a) k \<longleftrightarrow> (\<exists>u \<in> set us. am_PublicKey u = k \<and>
      (am_IsWritable u \<or> am_PublicKey u = am_PublicKey a \<and> am_IsWritable a))"
  proof -
    let ?f = "\<lambda>e. if am_PublicKey e = am_PublicKey a then e\<lparr>am_IsWritable := am_IsWritable e \<or> am_IsWritable a\<rparr> else e"
    have f: "am_PublicKey (?f u) = am_PublicKey u"
      "am_IsWritable (?f u) \<longleftrightarrow> am_IsWritable u \<or> am_PublicKey u = am_PublicKey a \<and> am_IsWritable a" for u
      by auto
    have "merge_account us a = map ?f us" using True by (simp add: merge_account_def)
    then show ?thesis by (simp only: writable_in_def set_map bex_simps f)
  qed
  with v show ?thesis by (auto simp: writable_in_def)
qed (auto simp: merge_account_def writable_in_def)

lemma merge_account_signer:
  "\<forall>u \<in> set us. \<not> am_IsSigner u \<Longrightarrow> \<forall>u \<in> set (merge_account us a). \<not> am_IsSigner u"
  by (auto simp: merge_account_def)

lemma merge_accounts:
  "keys_of (foldl merge_account us as) = keys_of us @ dedup_seen (set (keys_of us)) (keys_of as)"
  "writable_in (foldl merge_account us as) k \<longleftrightarrow> writable_in us k \<or> writable_in as k"
  "\<forall>u \<in> set us. \<not> am_IsSigner u \<Longrightarrow> \<forall>u \<in> set (foldl merge_account us as). \<not> am_IsSigner u"
proof (induction as arbitrary: us)
  case (Cons a as)
  { case 1
    then show ?case by (simp add: Cons.IH(1) merge_account_keys insert_absorb)
  next
    case 2
    then show ?case by (auto simp: Cons.IH(2) merge_account_writable) (auto simp: writable_in_def)
  next
    case 3
    from Cons.IH(3) [OF merge_account_signer [OF 3]] show ?case by simp
  }
qed (simp_all add: writable_in_def)

lemma distinct_key_unique: "distinct (keys_of us) \<Longrightarrow> u \<in> set us \<Longrightarrow> writable_in us (am_PublicKey u) \<longleftrightarrow> am_IsWritable u"
  by (auto simp: writable_in_def distinct_map inj_on_def)

text \<open>The accounts of all transactions of a batch, in order, the called program first in each.\<close>

definition batch_accounts :: "'s solana_env_scheme \<Rightarrow> batch_operation \<Rightarrow> account_meta list res" where
  "batch_accounts S b = bindE (mapE (accounts_of_tx S) (bop_Transactions b)) (\<lambda>accs. Inr (concat accs))"

lemma getAccounts_of_batch:
  "getAccountsFromBatchOperation S b = bindE (batch_accounts S b) (\<lambda>accs. Inr (foldl merge_account [] accs))"
  by (cases "mapE (accounts_of_tx S) (bop_Transactions b)")
    (simp_all add: getAccountsFromBatchOperation_def batch_accounts_def)

lemma merged_accounts:
  "keys_of (foldl merge_account [] accs) = dedup_seen {} (keys_of accs)"
  "distinct (keys_of (foldl merge_account [] accs))"
  "u \<in> set (foldl merge_account [] accs) \<Longrightarrow>
     am_IsWritable u = writable_in accs (am_PublicKey u) \<and> \<not> am_IsSigner u"
proof -
  show keys: "keys_of (foldl merge_account [] accs) = dedup_seen {} (keys_of accs)" by (simp add: merge_accounts)
  then show dist: "distinct (keys_of (foldl merge_account [] accs))" by (simp add: distinct_dedup_seen)
  show "am_IsWritable u = writable_in accs (am_PublicKey u) \<and> \<not> am_IsSigner u"
    if "u \<in> set (foldl merge_account [] accs)"
    using distinct_key_unique [OF dist that] merge_accounts(2) [of "[]" accs "am_PublicKey u"]
      merge_accounts(3) [of "[]" accs] that by (simp add: writable_in_def [of "[]"])
qed

lemma override_signer:
  assumes "distinct (keys_of us)"
  shows "applyExecutePayerSignerOverride us payer =
    map (\<lambda>u. if am_PublicKey u = payer then u\<lparr>am_IsSigner := True\<rparr> else u) us"
  using assms
proof (induction us)
  case (Cons u us)
  show ?case
  proof (cases "am_PublicKey u = payer")
    case True
    with Cons.prems have "\<forall>v \<in> set us. am_PublicKey v \<noteq> payer" by (simp add: image_iff) metis
    then have "map (\<lambda>u. if am_PublicKey u = payer then u\<lparr>am_IsSigner := True\<rparr> else u) us = us"
      by (simp add: map_idI)
    with True show ?thesis by simp
  qed (use Cons in simp)
qed simp

lemma writable_attr_get:
  "gm_get0 (foldl (\<lambda>m a. gm_put (am_PublicKey a) (gm_get0 m (am_PublicKey a) False \<or> am_IsWritable a) m) m as) k False
     \<longleftrightarrow> gm_get0 m k False \<or> writable_in as k"
  by (induction as arbitrary: m) (auto simp: gm_get0_def gm_get_put writable_in_def)

lemma sync_writable:
  "syncWritableAttribute accs = map (\<lambda>a. a\<lparr>am_IsWritable := writable_in accs (am_PublicKey a)\<rparr>) accs"
  by (simp add: syncWritableAttribute_def writable_attr_def writable_attr_get) (simp add: gm_get0_def)

section \<open>What a list of instructions says\<close>

text \<open>
  The life of an operation account under the instructions a converter may emit, as an abstract
  specification: an operation is initialised once for a number of instructions, the instructions
  are added in order, data is appended to an instruction that is there, the operation is finalised
  when it is complete, and only then scheduled, or executed by the bypasser. A scheduled operation can be
  cancelled.
\<close>

datatype op_account =
    Absent
  | Building bool hash u32 "instruction_data list"
  | Final bool hash "instruction_data list"
  | Submitted bool hash "instruction_data list"
  | Cancelled hash

definition append_data :: "instruction_data \<Rightarrow> byte list \<Rightarrow> instruction_data" where
  "append_data d chunk = d\<lparr>id_Data := id_Data d @ chunk\<rparr>"

inductive op_step :: "op_account \<Rightarrow> timelock_ix \<Rightarrow> op_account \<Rightarrow> bool" where
  init: "op_step Absent (InitializeOperation seed h pred salt n accs) (Building False h n [])"
| init_bypass: "op_step Absent (InitializeBypasserOperation seed h salt n accs) (Building True h n [])"
| instruction: "op_step (Building False h n ds) (InitializeInstruction seed h p ias accs)
    (Building False h n (ds @ [\<lparr>id_ProgramId = p, id_Data = [], id_Accounts = ias\<rparr>]))"
| instruction_bypass: "op_step (Building True h n ds) (InitializeBypasserInstruction seed h p ias accs)
    (Building True h n (ds @ [\<lparr>id_ProgramId = p, id_Data = [], id_Accounts = ias\<rparr>]))"
| data: "unat i < length ds \<Longrightarrow> op_step (Building False h n ds) (AppendInstructionData seed h i chunk accs)
    (Building False h n (ds[unat i := append_data (ds ! unat i) chunk]))"
| data_bypass: "unat i < length ds \<Longrightarrow> op_step (Building True h n ds) (AppendBypasserInstructionData seed h i chunk accs)
    (Building True h n (ds[unat i := append_data (ds ! unat i) chunk]))"
| final: "length ds = unat n \<Longrightarrow> op_step (Building False h n ds) (FinalizeOperation seed h accs) (Final False h ds)"
| final_bypass: "length ds = unat n \<Longrightarrow>
    op_step (Building True h n ds) (FinalizeBypasserOperation seed h accs) (Final True h ds)"
| schedule: "op_step (Final False h ds) (ScheduleBatch seed h delay accs) (Submitted False h ds)"
| execute_bypass: "op_step (Final True h ds) (BypasserExecuteBatch seed h accs) (Submitted True h ds)"
| cancel: "op_step (Submitted False h ds) (CancelOperation seed h accs) (Cancelled h)"

inductive op_run :: "op_account \<Rightarrow> timelock_ix list \<Rightarrow> op_account \<Rightarrow> bool" where
  stop: "op_run s [] s"
| more: "op_step s c t \<Longrightarrow> op_run t cs u \<Longrightarrow> op_run s (c # cs) u"

inductive_cases op_stepE: "op_step s c t"
inductive_cases op_run_NilE: "op_run s [] u"
inductive_cases op_run_ConsE: "op_run s (c # cs) u"
inductive_simps op_run_simps [simp]: "op_run s [] u" "op_run s (c # cs) u"

text \<open>An account has one future under a list of instructions, so what the list says is unambiguous.\<close>

lemma op_step_det: "op_step s c t \<Longrightarrow> op_step s c t' \<Longrightarrow> t = t'"
  by (erule op_step.cases; erule op_stepE; simp)

lemma op_run_det: "op_run s cs u \<Longrightarrow> op_run s cs u' \<Longrightarrow> u = u'"
proof (induction arbitrary: u' rule: op_run.induct)
  case (more s c t cs u)
  then show ?case by (metis op_run_ConsE op_step_det)
qed simp

lemma op_run_append: "op_run s cs t \<Longrightarrow> op_run t ds u \<Longrightarrow> op_run s (cs @ ds) u"
  by (induction rule: op_run.induct) auto

text \<open>Nothing is submitted under another id or without the number of instructions announced.\<close>

definition op_complete :: "hash \<Rightarrow> u32 \<Rightarrow> op_account \<Rightarrow> bool" where
  "op_complete h n s \<longleftrightarrow>
     (case s of
        Absent \<Rightarrow> True
      | Building _ h' n' _ \<Rightarrow> h' = h \<and> n' = n
      | Final _ h' ds \<Rightarrow> h' = h \<and> length ds = unat n
      | Submitted _ h' ds \<Rightarrow> h' = h \<and> length ds = unat n
      | Cancelled h' \<Rightarrow> h' = h)"

lemma op_complete_step: "op_step s c t \<Longrightarrow> s \<noteq> Absent \<Longrightarrow> op_complete h n s \<Longrightarrow> t \<noteq> Absent \<and> op_complete h n t"
  by (erule op_step.cases) (simp_all add: op_complete_def)

lemma op_complete_run: "op_run s cs t \<Longrightarrow> s \<noteq> Absent \<Longrightarrow> op_complete h n s \<Longrightarrow> op_complete h n t"
  by (induction rule: op_run.induct) (auto dest: op_complete_step)

section \<open>The emitted instructions\<close>

definition ix_init :: "bool \<Rightarrow> pda_seed \<Rightarrow> hash \<Rightarrow> pubkey \<Rightarrow> instruction_account list \<Rightarrow> pubkey list \<Rightarrow> timelock_ix" where
  "ix_init b = (if b then InitializeBypasserInstruction else InitializeInstruction)"

definition ix_data :: "bool \<Rightarrow> pda_seed \<Rightarrow> hash \<Rightarrow> u32 \<Rightarrow> byte list \<Rightarrow> pubkey list \<Rightarrow> timelock_ix" where
  "ix_data b = (if b then AppendBypasserInstructionData else AppendInstructionData)"

lemma op_step_ix:
  "op_step (Building b h n ds) (ix_init b seed h p ias accs)
     (Building b h n (ds @ [\<lparr>id_ProgramId = p, id_Data = [], id_Accounts = ias\<rparr>]))"
  "unat i < length ds \<Longrightarrow> op_step (Building b h n ds) (ix_data b seed h i chunk accs)
     (Building b h n (ds[unat i := append_data (ds ! unat i) chunk]))"
  by (cases b; simp add: ix_init_def ix_data_def op_step.intros)+

text \<open>
  What an instruction was built from. Only the last one of a bypass gets accounts of its own: those of
  the batch after those of the bindings, with one writable flag per key.
\<close>

definition built_accounts :: "'t solana_tl_env_scheme \<Rightarrow> account_meta list \<Rightarrow> timelock_ix \<Rightarrow> account_meta list" where
  "built_accounts T remaining call =
     (case call of
        BypasserExecuteBatch _ _ _ \<Rightarrow> syncWritableAttribute (TimelockAccounts T call @ remaining)
      | _ \<Rightarrow> TimelockAccounts T call)"

definition builds ::
  "'t solana_tl_env_scheme \<Rightarrow> pubkey \<Rightarrow> account_meta list \<Rightarrow> timelock_ix \<Rightarrow> solana_instruction \<Rightarrow> bool" where
  "builds T pid remaining call ix \<longleftrightarrow> TimelockBuild T pid call (built_accounts T remaining call) = Inr ix"

lemma build_ix_builds:
  "build_ix T pid call = Inr ix \<Longrightarrow> (\<And>s h ks. call \<noteq> BypasserExecuteBatch s h ks) \<Longrightarrow> builds T pid remaining call ix"
  by (cases call) (auto simp: builds_def build_ix_def built_accounts_def)

text \<open>
  The surroundings of an operation on its timelock: the accounts derived for it, the access controllers
  of the chain's metadata, and what it is scheduled with.
\<close>

record tl_context =
  tlx_Seed :: pda_seed
  tlx_Operation :: pubkey
  tlx_BypasserOperation :: pubkey
  tlx_Config :: pubkey
  tlx_Signer :: pubkey
  tlx_McmSigner :: pubkey
  tlx_System :: pubkey
  tlx_Roles :: solana_metadata
  tlx_Predecessor :: hash
  tlx_Salt :: hash
  tlx_Delay :: u64

text \<open>
  The accounts an instruction has to name, in the order of the program's accounts: the operation's own
  account, which for the bypasser is another one, the timelock's configuration, the access controller
  of the role, the MCM's signer, and the system program where an account is made or grows.
\<close>

definition role_accounts :: "tl_context \<Rightarrow> bool \<Rightarrow> bool \<Rightarrow> pubkey list" where
  "role_accounts X bypass grows =
     (if bypass then [tlx_BypasserOperation X, tlx_Config X, sm_Bypasser (tlx_Roles X), tlx_McmSigner X]
      else [tlx_Operation X, tlx_Config X, sm_Proposer (tlx_Roles X), tlx_McmSigner X]) @
     (if grows then [tlx_System X] else [])"

fun call_names :: "tl_context \<Rightarrow> timelock_ix \<Rightarrow> bool" where
  "call_names X (InitializeOperation seed h pred salt n accs) \<longleftrightarrow>
     seed = tlx_Seed X \<and> pred = tlx_Predecessor X \<and> salt = tlx_Salt X \<and> accs = role_accounts X False True"
| "call_names X (InitializeInstruction seed h p ias accs) \<longleftrightarrow> seed = tlx_Seed X \<and> accs = role_accounts X False True"
| "call_names X (AppendInstructionData seed h i chunk accs) \<longleftrightarrow> seed = tlx_Seed X \<and> accs = role_accounts X False True"
| "call_names X (FinalizeOperation seed h accs) \<longleftrightarrow> seed = tlx_Seed X \<and> accs = role_accounts X False False"
| "call_names X (ScheduleBatch seed h delay accs) \<longleftrightarrow>
     seed = tlx_Seed X \<and> delay = tlx_Delay X \<and> accs = role_accounts X False False"
| "call_names X (CancelOperation seed h accs) \<longleftrightarrow> seed = tlx_Seed X \<and>
     accs = [tlx_Operation X, tlx_Config X, sm_Canceller (tlx_Roles X), tlx_McmSigner X]"
| "call_names X (InitializeBypasserOperation seed h salt n accs) \<longleftrightarrow>
     seed = tlx_Seed X \<and> salt = tlx_Salt X \<and> accs = role_accounts X True True"
| "call_names X (InitializeBypasserInstruction seed h p ias accs) \<longleftrightarrow>
     seed = tlx_Seed X \<and> accs = role_accounts X True True"
| "call_names X (AppendBypasserInstructionData seed h i chunk accs) \<longleftrightarrow>
     seed = tlx_Seed X \<and> accs = role_accounts X True True"
| "call_names X (FinalizeBypasserOperation seed h accs) \<longleftrightarrow> seed = tlx_Seed X \<and> accs = role_accounts X True False"
| "call_names X (BypasserExecuteBatch seed h accs) \<longleftrightarrow> seed = tlx_Seed X \<and>
     accs = [tlx_BypasserOperation X, tlx_Config X, tlx_Signer X, sm_Bypasser (tlx_Roles X), tlx_McmSigner X]"
| "call_names X (ExecuteBatch seed h accs) \<longleftrightarrow> False"
| "call_names X (UpdateDelayIx seed d accs) \<longleftrightarrow> False"
| "call_names X (BatchAddAccess seed r accs) \<longleftrightarrow> False"

text \<open>The data travels in chunks that are not empty and no longer than they may be.\<close>

definition chunk_ok :: "int \<Rightarrow> timelock_ix \<Rightarrow> bool" where
  "chunk_ok c call =
     (case call of
        AppendInstructionData _ _ _ chunk _ \<Rightarrow> chunk \<noteq> [] \<and> int (length chunk) \<le> c
      | AppendBypasserInstructionData _ _ _ chunk _ \<Rightarrow> chunk \<noteq> [] \<and> int (length chunk) \<le> c
      | _ \<Rightarrow> True)"

definition call_ok :: "tl_context \<Rightarrow> int \<Rightarrow> timelock_ix \<Rightarrow> bool" where
  "call_ok X c call \<longleftrightarrow> call_names X call \<and> chunk_ok c call"

lemma call_ok_ix:
  "seed = tlx_Seed X \<Longrightarrow> accs = role_accounts X b True \<Longrightarrow> call_ok X c (ix_init b seed h p ias accs)"
  "seed = tlx_Seed X \<Longrightarrow> accs = role_accounts X b True \<Longrightarrow> ch \<noteq> [] \<Longrightarrow> int (length ch) \<le> c \<Longrightarrow>
     call_ok X c (ix_data b seed h i ch accs)"
  by (cases b; simp add: call_ok_def chunk_ok_def ix_init_def ix_data_def)+

lemma append_chunks_Inr:
  "append_chunks c app bs = Inr ixs \<Longrightarrow>
     \<exists>chunks. list_all2 (\<lambda>ch ix. app ch = Inr ix) chunks ixs \<and> concat chunks = bs \<and>
       (\<forall>ch \<in> set chunks. ch \<noteq> [] \<and> int (length ch) \<le> c)"
proof (induction c app bs arbitrary: ixs rule: append_chunks.induct)
  case (1 c app bs)
  show ?case
  proof (cases "bs = []")
    case True
    with "1.prems" show ?thesis by (intro exI [of _ "[]"]) (simp add: append_chunks.simps)
  next
    case False
    with "1.prems" obtain ix ixs' where c: "0 < c" and ix: "app (take (nat c) bs) = Inr ix"
      and rest: "append_chunks c app (drop (nat c) bs) = Inr ixs'" and ixs: "ixs = ix # ixs'"
      by (subst (asm) append_chunks.simps) (auto simp: bindE_Inr_iff split: if_splits)
    from "1.IH" [OF False _ _ ix rest] c obtain chunks where
      "list_all2 (\<lambda>ch ix. app ch = Inr ix) chunks ixs'" "concat chunks = drop (nat c) bs"
      "\<forall>ch \<in> set chunks. ch \<noteq> [] \<and> int (length ch) \<le> c" by auto
    with ix ixs c False show ?thesis by (intro exI [of _ "take (nat c) bs # chunks"]) auto
  qed
qed

lemma op_run_chunks:
  assumes "unat i < length ds"
  shows "op_run (Building b h n ds) (map (\<lambda>ch. ix_data b seed h i ch accs) chunks)
    (Building b h n (ds[unat i := append_data (ds ! unat i) (concat chunks)]))"
  using assms
proof (induction chunks arbitrary: ds)
  case Nil
  then show ?case by (simp add: append_data_def list_update_id)
next
  case (Cons ch chunks)
  let ?ds = "ds[unat i := append_data (ds ! unat i) ch]"
  from Cons.IH [of ?ds] Cons.prems
  have "op_run (Building b h n ?ds) (map (\<lambda>ch. ix_data b seed h i ch accs) chunks)
      (Building b h n (?ds[unat i := append_data (?ds ! unat i) (concat chunks)]))" by simp
  then have "op_run (Building b h n ?ds) (map (\<lambda>ch. ix_data b seed h i ch accs) chunks)
      (Building b h n (ds[unat i := append_data (ds ! unat i) (concat (ch # chunks))]))"
    using Cons.prems by (simp add: append_data_def)
  with op_step_ix(2) [OF Cons.prems, of b h n seed ch accs] show ?case
    by (simp only: list.map) (rule op_run.more)
qed

lemma instruction_loop_run:
  assumes "instruction_loop c ini app (length front) ds = Inr ixs" and "length front + length ds < 2 ^ 32"
    and ini: "\<And>d ix. ini d = Inr ix \<Longrightarrow> builds T pid rem (ix_init b seed h (id_ProgramId d) (id_Accounts d) accs) ix"
    and app: "\<And>i ch ix. app i ch = Inr ix \<Longrightarrow> builds T pid rem (ix_data b seed h i ch accs) ix"
    and X: "seed = tlx_Seed X" "accs = role_accounts X b True"
  shows "\<exists>calls. list_all2 (builds T pid rem) calls ixs \<and> list_all (call_ok X c) calls \<and>
    op_run (Building b h n front) calls (Building b h n (front @ ds))"
  using assms(1,2)
proof (induction ds arbitrary: front ixs)
  case Nil
  then show ?case by (intro exI [of _ "[]"]) simp
next
  case (Cons d ds)
  let ?i = "word_of_nat (length front) :: u32"
  let ?d = "\<lparr>id_ProgramId = id_ProgramId d, id_Data = [], id_Accounts = id_Accounts d\<rparr>"
  have d: "\<lparr>id_ProgramId = id_ProgramId d, id_Data = id_Data d, id_Accounts = id_Accounts d\<rparr> = d" by simp
  have i: "unat ?i = length front" using Cons.prems(2) by (simp add: unsigned_of_nat take_bit_nat_eq_self)
  from Cons.prems(1) obtain ix apps rest where ix: "ini d = Inr ix"
    and apps: "append_chunks c (app ?i) (id_Data d) = Inr apps"
    and rest: "instruction_loop c ini app (length (front @ [d])) ds = Inr rest" and ixs: "ixs = ix # apps @ rest"
    by (auto simp: bindE_Inr_iff)
  from append_chunks_Inr [OF apps] obtain chunks where
    ch: "list_all2 (\<lambda>ch ix. app ?i ch = Inr ix) chunks apps" "concat chunks = id_Data d"
      "\<forall>ch \<in> set chunks. ch \<noteq> [] \<and> int (length ch) \<le> c" by blast
  from Cons.IH [OF rest] Cons.prems(2) obtain calls where
    calls: "list_all2 (builds T pid rem) calls rest" "list_all (call_ok X c) calls"
      "op_run (Building b h n (front @ [d])) calls (Building b h n (front @ d # ds))" by auto
  let ?chunk = "\<lambda>ch. ix_data b seed h ?i ch accs"
  let ?calls = "ix_init b seed h (id_ProgramId d) (id_Accounts d) accs # map ?chunk chunks @ calls"
  have "op_run (Building b h n (front @ [?d])) (map ?chunk chunks) (Building b h n (front @ [d]))"
    using op_run_chunks [of ?i "front @ [?d]" b h n seed accs chunks]
    by (simp add: i append_data_def) (simp add: ch(2) d)
  from op_run_append [OF this calls(3)] op_step_ix(1) [of b h n front seed "id_ProgramId d" "id_Accounts d" accs]
  have "op_run (Building b h n front) ?calls (Building b h n (front @ d # ds))" by auto
  moreover have "list_all2 (builds T pid rem) (map ?chunk chunks) apps"
    using ch(1) unfolding list_all2_map1 by (rule list_all2_mono) (rule app)
  then have "list_all2 (builds T pid rem) ?calls ixs"
    using ini [OF ix] calls(1) ixs by (auto intro: list_all2_appendI)
  moreover have "list_all (call_ok X c) ?calls"
    using ch(3) calls(2) call_ok_ix [OF X] by (auto simp: list_all_iff)
  ultimately show ?case by blast
qed

lemma batch_run:
  assumes loop: "instruction_loop c ini app 0 ds = Inr ixs" and len: "length ds < 2 ^ 32"
    and ini: "\<And>d ix. ini d = Inr ix \<Longrightarrow> builds T pid rem (ix_init b seed h (id_ProgramId d) (id_Accounts d) accs) ix"
    and app: "\<And>i ch ix. app i ch = Inr ix \<Longrightarrow> builds T pid rem (ix_data b seed h i ch accs) ix"
    and X: "seed = tlx_Seed X" "accs = role_accounts X b True"
    and first: "builds T pid rem fcall fix" "op_step Absent fcall (Building b h (word_of_nat (length ds)) [])" "call_ok X c fcall"
    and fin: "builds T pid rem ccall cix" "op_step (Building b h (word_of_nat (length ds)) ds) ccall (Final b h ds)" "call_ok X c ccall"
    and last: "builds T pid rem lcall lix" "op_step (Final b h ds) lcall (Submitted b h ds)" "call_ok X c lcall"
  shows "\<exists>calls. list_all2 (builds T pid rem) calls (fix # ixs @ [cix, lix]) \<and> list_all (call_ok X c) calls \<and>
    op_run Absent calls (Submitted b h ds)"
proof -
  have "instruction_loop c ini app (length []) ds = Inr ixs" and "length [] + length ds < 2 ^ 32"
    using loop len by simp_all
  from instruction_loop_run [where b = b and n = "word_of_nat (length ds)", OF this ini app X]
  obtain calls where calls: "list_all2 (builds T pid rem) calls ixs" "list_all (call_ok X c) calls"
    "op_run (Building b h (word_of_nat (length ds)) []) calls (Building b h (word_of_nat (length ds)) ds)" by auto
  from fin(2) last(2) have "op_run (Building b h (word_of_nat (length ds)) ds) [ccall, lcall] (Submitted b h ds)" by auto
  from op_run_append [OF calls(3) this] first(2) have "op_run Absent (fcall # calls @ [ccall, lcall]) (Submitted b h ds)"
    by auto
  moreover have "list_all2 (builds T pid rem) (fcall # calls @ [ccall, lcall]) (fix # ixs @ [cix, lix])"
    using calls(1) first(1) fin(1) last(1) by (auto intro: list_all2_appendI)
  moreover have "list_all (call_ok X c) (fcall # calls @ [ccall, lcall])"
    using calls(2) first(3) fin(3) last(3) by simp
  ultimately show ?thesis by blast
qed

lemma unat_u32: "n < 2 ^ 32 \<Longrightarrow> unat (word_of_nat n :: u32) = n"
  by (simp add: unsigned_of_nat take_bit_nat_eq_self)

lemma schedule_run:
  assumes "scheduleBatchInstructions T pid seed h pred salt delay (word_of_nat (length ds)) ds ac opPDA cfg mcmS = Inr ixs"
    and len: "length ds < 2 ^ 32"
    and X: "seed = tlx_Seed X" "pred = tlx_Predecessor X" "salt = tlx_Salt X" "uint64_seconds T delay = tlx_Delay X"
      "ac = sm_Proposer (tlx_Roles X)" "opPDA = tlx_Operation X" "cfg = tlx_Config X" "mcmS = tlx_McmSigner X"
      "SystemProgramID T = tlx_System X"
  shows "\<exists>calls. list_all2 (builds T pid rem) calls ixs \<and> list_all (call_ok X (AppendIxDataChunkSize T)) calls \<and>
    op_run Absent calls (Submitted False h ds)"
proof -
  let ?accs = "[opPDA, cfg, ac, mcmS]"
  from assms(1) obtain i0 mid i1 i2 where
    b: "build_ix T pid (InitializeOperation seed h pred salt (word_of_nat (length ds)) (?accs @ [SystemProgramID T])) = Inr i0"
      "build_ix T pid (FinalizeOperation seed h ?accs) = Inr i1"
      "build_ix T pid (ScheduleBatch seed h (uint64_seconds T delay) ?accs) = Inr i2"
    and loop: "instruction_loop (AppendIxDataChunkSize T)
        (\<lambda>d. wrapE (Wrapf ''unable to build InitializeInstruction instruction (ixIndex=%d): %w'')
           (build_ix T pid (InitializeInstruction seed h (id_ProgramId d) (id_Accounts d) (?accs @ [SystemProgramID T]))))
        (\<lambda>i ch. wrapE (Wrapf ''unable to build AppendInstructionData instruction (ixIndex=%d): %w'')
           (build_ix T pid (AppendInstructionData seed h i ch (?accs @ [SystemProgramID T])))) 0 ds = Inr mid"
    and ixs: "ixs = i0 # mid @ [i1, i2]"
    unfolding scheduleBatchInstructions_def Let_def by (elim bindE_InrE) auto
  have accs: "?accs @ [SystemProgramID T] = role_accounts X False True" "?accs = role_accounts X False False"
    by (simp_all add: role_accounts_def X)
  show ?thesis unfolding ixs
    by (rule batch_run [where b = False, OF loop len _ _ X(1) accs(1)])
      (auto simp: ix_init_def ix_data_def call_ok_def chunk_ok_def unat_u32 [OF len] role_accounts_def X
        intro: op_step.intros b [unfolded X append.simps, THEN build_ix_builds] build_ix_builds)
qed

lemma bypass_run:
  assumes "bypassInstructions T pid seed h ac opPDA cfg signer mcmS salt (word_of_nat (length ds)) ds remaining = Inr ixs"
    and len: "length ds < 2 ^ 32"
    and X: "seed = tlx_Seed X" "salt = tlx_Salt X" "ac = sm_Bypasser (tlx_Roles X)" "opPDA = tlx_BypasserOperation X"
      "cfg = tlx_Config X" "signer = tlx_Signer X" "mcmS = tlx_McmSigner X" "SystemProgramID T = tlx_System X"
  shows "\<exists>calls. list_all2 (builds T pid remaining) calls ixs \<and> list_all (call_ok X (AppendIxDataChunkSize T)) calls \<and>
    op_run Absent calls (Submitted True h ds)"
proof -
  let ?accs = "[opPDA, cfg, ac, mcmS]" and ?exec = "BypasserExecuteBatch seed h [opPDA, cfg, signer, ac, mcmS]"
  from assms(1) obtain i0 mid i1 i2 where
    b: "build_ix T pid (InitializeBypasserOperation seed h salt (word_of_nat (length ds)) (?accs @ [SystemProgramID T])) = Inr i0"
      "build_ix T pid (FinalizeBypasserOperation seed h ?accs) = Inr i1"
    and exec: "TimelockBuild T pid ?exec (syncWritableAttribute (TimelockAccounts T ?exec @ remaining)) = Inr i2"
    and loop: "instruction_loop (AppendIxDataChunkSize T)
        (\<lambda>d. wrapE (Wrapf ''unable to build InitializeBypasserInstruction instruction (ixIndex=%d): %w'')
           (build_ix T pid (InitializeBypasserInstruction seed h (id_ProgramId d) (id_Accounts d) (?accs @ [SystemProgramID T]))))
        (\<lambda>i ch. wrapE (Wrapf ''unable to build AppendBypasserInstruction instruction (ixIndex=%d): %w'')
           (build_ix T pid (AppendBypasserInstructionData seed h i ch (?accs @ [SystemProgramID T])))) 0 ds = Inr mid"
    and ixs: "ixs = i0 # mid @ [i1, i2]"
    unfolding bypassInstructions_def Let_def by (elim bindE_InrE) auto
  have accs: "?accs @ [SystemProgramID T] = role_accounts X True True" "?accs = role_accounts X True False"
    by (simp_all add: role_accounts_def X)
  have e: "builds T pid remaining ?exec i2" using exec by (simp add: builds_def built_accounts_def)
  show ?thesis unfolding ixs
    by (rule batch_run [where b = True and lcall = ?exec, OF loop len _ _ X(1) accs(1) _ _ _ _ _ _ e])
      (auto simp: ix_init_def ix_data_def call_ok_def chunk_ok_def unat_u32 [OF len] role_accounts_def X
        intro: op_step.intros b [unfolded X append.simps, THEN build_ix_builds] build_ix_builds)
qed

lemma cancel_run:
  assumes "cancelInstructions T pid seed h ac opPDA cfg mcmS = Inr ixs"
    and X: "seed = tlx_Seed X" "ac = sm_Canceller (tlx_Roles X)" "opPDA = tlx_Operation X"
      "cfg = tlx_Config X" "mcmS = tlx_McmSigner X"
  shows "\<exists>calls. list_all2 (builds T pid rem) calls ixs \<and> list_all (call_ok X c) calls \<and>
    op_run (Submitted False h ds) calls (Cancelled h)"
proof -
  let ?call = "CancelOperation seed h [opPDA, cfg, ac, mcmS]"
  from assms(1) obtain ix where ix: "build_ix T pid ?call = Inr ix" "ixs = [ix]"
    by (auto simp: cancelInstructions_def bindE_Inr_iff)
  have "list_all2 (builds T pid rem) [?call] ixs" using ix by (auto intro: build_ix_builds)
  moreover have "list_all (call_ok X c) [?call]" by (simp add: call_ok_def chunk_ok_def X)
  moreover have "op_run (Submitted False h ds) [?call] (Cancelled h)" by (auto intro: op_step.cancel)
  ultimately show ?thesis by blast
qed

lemma instruction_data_length: "getInstructionDataFromBatchOperation S b = Inr ds \<Longrightarrow> length ds = length (bop_Transactions b)"
  unfolding getInstructionDataFromBatchOperation_def by (rule mapE_length)

section \<open>When the builders succeed\<close>

text \<open>What the calls for an action do, and that the converter's instructions are these calls.\<close>

definition drives :: "timelock_action \<Rightarrow> hash \<Rightarrow> instruction_data list \<Rightarrow> timelock_ix list \<Rightarrow> bool" where
  "drives action h ds calls \<longleftrightarrow>
     (case action of
        TimelockActionSchedule \<Rightarrow> op_run Absent calls (Submitted False h ds)
      | TimelockActionCancel \<Rightarrow> op_run (Submitted False h ds) calls (Cancelled h)
      | TimelockActionBypass \<Rightarrow> op_run Absent calls (Submitted True h ds)
      | OtherAction a \<Rightarrow> False)"

lemma action_run:
  assumes act: "sol_action_instructions T pid seed b flds ds delay action h pred salt opPDA byPDA cfg signer mcmS = Inr ixs"
    and len: "length ds < 2 ^ 32" "length (bop_Transactions b) = length ds"
    and X: "seed = tlx_Seed X" "pred = tlx_Predecessor X" "salt = tlx_Salt X" "uint64_seconds T delay = tlx_Delay X"
      "flds = tlx_Roles X" "opPDA = tlx_Operation X" "byPDA = tlx_BypasserOperation X" "cfg = tlx_Config X"
      "signer = tlx_Signer X" "mcmS = tlx_McmSigner X" "SystemProgramID T = tlx_System X"
  shows "\<exists>rem calls. (action = TimelockActionBypass \<longrightarrow> bypassRemainingAccounts T b flds = Inr rem) \<and>
    list_all2 (builds T pid rem) calls ixs \<and> list_all (call_ok X (AppendIxDataChunkSize T)) calls \<and> drives action h ds calls"
proof (cases action)
  case TimelockActionSchedule
  with act have "scheduleBatchInstructions T pid seed h pred salt delay (word_of_nat (length ds)) ds (sm_Proposer flds)
      opPDA cfg mcmS = Inr ixs" by (simp add: sol_action_instructions_def len)
  from schedule_run [OF this len(1), of X "[]"] X TimelockActionSchedule show ?thesis by (auto simp: drives_def)
next
  case TimelockActionCancel
  with act have "cancelInstructions T pid seed h (sm_Canceller flds) opPDA cfg mcmS = Inr ixs"
    by (simp add: sol_action_instructions_def)
  from cancel_run [OF this, of X "[]" "AppendIxDataChunkSize T" ds] X TimelockActionCancel show ?thesis
    by (auto simp: drives_def)
next
  case TimelockActionBypass
  with act obtain rem where rem: "bypassRemainingAccounts T b flds = Inr rem"
    "bypassInstructions T pid seed h (sm_Bypasser flds) byPDA cfg signer mcmS salt (word_of_nat (length ds)) ds rem = Inr ixs"
    by (auto simp: sol_action_instructions_def len bindE_Inr_iff)
  from bypass_run [OF rem(2) len(1), of X] rem(1) X TimelockActionBypass show ?thesis by (auto simp: drives_def)
next
  case (OtherAction a)
  with act show ?thesis by (simp add: sol_action_instructions_def)
qed

lemma append_chunks_total:
  assumes "0 < c" and "\<And>ch. \<exists>ix. app ch = Inr ix \<and> P ix"
  shows "\<exists>ixs. append_chunks c app bs = Inr ixs \<and> list_all P ixs"
proof (induction "length bs" arbitrary: bs rule: less_induct)
  case less
  show ?case
  proof (cases "bs = []")
    case False
    with assms(1) less [of "drop (nat c) bs"] obtain ixs
      where "append_chunks c app (drop (nat c) bs) = Inr ixs" "list_all P ixs" by auto
    moreover obtain ix where "app (take (nat c) bs) = Inr ix" "P ix" using assms(2) by blast
    ultimately show ?thesis using False assms(1) by (subst append_chunks.simps) simp
  qed (simp add: append_chunks.simps)
qed

lemma instruction_loop_total:
  assumes "0 < c" and "\<And>d. \<exists>ix. ini d = Inr ix \<and> P ix" and "\<And>i ch. \<exists>ix. app i ch = Inr ix \<and> P ix"
  shows "\<exists>ixs. instruction_loop c ini app i ds = Inr ixs \<and> list_all P ixs"
proof (induction ds arbitrary: i)
  case (Cons d ds)
  obtain ix where "ini d = Inr ix" "P ix" using assms(2) by blast
  moreover obtain ixs where "append_chunks c (app (word_of_nat i)) (id_Data d) = Inr ixs" "list_all P ixs"
    using append_chunks_total [where app = "app (word_of_nat i)" and bs = "id_Data d", OF assms(1,3)] by blast
  moreover obtain rest where "instruction_loop c ini app (Suc i) ds = Inr rest" "list_all P rest" using Cons by blast
  ultimately show ?case by simp
qed simp

definition builds_all :: "'t solana_tl_env_scheme \<Rightarrow> pubkey \<Rightarrow> (solana_instruction \<Rightarrow> bool) \<Rightarrow> bool" where
  "builds_all T pid P \<longleftrightarrow> (\<forall>call accs. \<exists>ix. TimelockBuild T pid call accs = Inr ix \<and> P ix)"

lemma builds_allD: "builds_all T pid P \<Longrightarrow> \<exists>ix. wrapE w (build_ix T pid call) = Inr ix \<and> P ix"
  by (simp add: builds_all_def build_ix_def)

lemma schedule_total:
  assumes "builds_all T pid P" and "0 < AppendIxDataChunkSize T"
  shows "\<exists>ixs. scheduleBatchInstructions T pid seed h pred salt delay n ds ac opPDA cfg mcmS = Inr ixs \<and> list_all P ixs"
proof -
  note t = builds_allD [OF assms(1)]
  have "\<exists>mid. instruction_loop (AppendIxDataChunkSize T)
        (\<lambda>d. wrapE (Wrapf ''unable to build InitializeInstruction instruction (ixIndex=%d): %w'')
           (build_ix T pid (InitializeInstruction seed h (id_ProgramId d) (id_Accounts d)
              ([opPDA, cfg, ac, mcmS] @ [SystemProgramID T]))))
        (\<lambda>i ch. wrapE (Wrapf ''unable to build AppendInstructionData instruction (ixIndex=%d): %w'')
           (build_ix T pid (AppendInstructionData seed h i ch ([opPDA, cfg, ac, mcmS] @ [SystemProgramID T])))) 0 ds = Inr mid
      \<and> list_all P mid"
    by (rule instruction_loop_total [OF assms(2)]) (rule t)+
  moreover obtain i0 where "wrapE (Wrapf ''unable to build InitializeOperation instruction: %w'')
      (build_ix T pid (InitializeOperation seed h pred salt n ([opPDA, cfg, ac, mcmS] @ [SystemProgramID T]))) = Inr i0" "P i0"
    using t by blast
  moreover obtain i1 where "wrapE (Wrapf ''unable to build FinializeOperation instruction: %w'')
      (build_ix T pid (FinalizeOperation seed h [opPDA, cfg, ac, mcmS])) = Inr i1" "P i1" using t by blast
  moreover obtain i2 where "wrapE (Wrapf ''unable to build ScheduleBatch instruction: %w'')
      (build_ix T pid (ScheduleBatch seed h (uint64_seconds T delay) [opPDA, cfg, ac, mcmS])) = Inr i2" "P i2" using t by blast
  ultimately show ?thesis unfolding scheduleBatchInstructions_def Let_def by fastforce
qed

text \<open>A negative chunk size makes the first cut of any data panic.\<close>

lemma instruction_loop_negative:
  "c < 0 \<Longrightarrow> \<exists>d \<in> set ds. id_Data d \<noteq> [] \<Longrightarrow> instruction_loop c ini app i ds \<noteq> Inr ixs"
proof (induction ds arbitrary: i ixs)
  case (Cons d ds)
  then show ?case by (cases "id_Data d = []") (auto simp: bindE_Inr_iff append_chunks.simps)
qed simp

section \<open>In the environment of the library\<close>

text \<open>The dispatch of \<open>Factory\<close> with the Solana code in its place.\<close>

definition with_solana :: "'t solana_tl_env_scheme \<Rightarrow> 't solana_tl_env_scheme" where
  "with_solana T = T\<lparr>solana_NewEncoder := sol_NewEncoder T, solana_OperationID := sol_OperationID T,
     solana_Convert := sol_ConvertBatchToChainOperations T,
     solana_ValidateAdditionalFields := sol_ValidateAdditionalFields T,
     solana_ValidateChainMetadata := sol_ValidateChainMetadata T\<rparr>"

lemma with_solana_sel [simp]:
  "solana_NewEncoder (with_solana T) = sol_NewEncoder T"
  "solana_OperationID (with_solana T) = sol_OperationID T"
  "solana_Convert (with_solana T) = sol_ConvertBatchToChainOperations T"
  "ChainDetails (with_solana T) = ChainDetails T"
  by (simp_all add: with_solana_def)

lemma with_solana_family:
  assumes "ChainDetails T sel = Inr FamilyEVM \<or> ChainDetails T sel = Inr FamilySolana"
    and "BuildConverter (with_solana T) sel md = Inr c" and "operationIDFn (with_solana T) sel = Inr f"
  shows "family_converter c f"
  using assms
  by (auto simp: BuildConverter_def operationIDFn_def GetChainSelectorFamily_def supportedFamilies_def
      evm_family.family_converter_axioms sol_family.family_converter_axioms)

section \<open>A concrete environment\<close>

definition sample_tl :: solana_tl_env where
  "sample_tl = solana_env.extend sample_solana (solana_tl_env.fields
     (\<lambda>_. [\<lparr>am_PublicKey = 1, am_IsWritable = True, am_IsSigner = True\<rparr>])
     (\<lambda>pid _ accs. Inr \<lparr>ix_ProgramID = pid, ix_Accounts = accs, ix_Data = Inr [7]\<rparr>) (\<lambda>_. 0))"

lemma sample_tl_sel [simp]:
  "PublicKeyFromBase58 sample_tl s = Inr (text_bits s)"
  "PublicKeyString sample_tl = bits_text"
  "FindProgramAddress sample_tl seeds pid = Inr (pid XOR from_be (concat seeds))"
  "SystemProgramID sample_tl = 0"
  "SolFieldsUnmarshal sample_tl (RawJson j) = sample_json_fields j"
  "SolFieldsMarshal sample_tl f = Inr (RawJson (sample_fields_json f))"
  "SolMetadataUnmarshal sample_tl r = Inr sample_role_keys"
  "LookupEnv sample_tl k = None"
  "Keccak256Hash sample_tl = from_be"
  "ChainDetails sample_tl = ChainDetails sample_env"
  "TimelockAccounts sample_tl call = [\<lparr>am_PublicKey = 1, am_IsWritable = True, am_IsSigner = True\<rparr>]"
  "TimelockBuild sample_tl pid call accs = Inr \<lparr>ix_ProgramID = pid, ix_Accounts = accs, ix_Data = Inr [7]\<rparr>"
  by (simp_all add: sample_tl_def sample_solana_def mcms_env.defs solana_env.defs solana_tl_env.defs)

lemma sample_tl_parse [simp]:
  "ParseContractAddress sample_tl a = ParseContractAddress sample_solana a"
  "ParseProgramID sample_tl a = ParseProgramID sample_solana a"
  "ParseAdditionalFields sample_tl r = ParseAdditionalFields sample_solana r"
proof -
  have pk: "PublicKeyFromBase58 sample_tl = PublicKeyFromBase58 sample_solana" by (simp add: fun_eq_iff)
  then show p: "ParseContractAddress sample_tl a = ParseContractAddress sample_solana a" for a
    by (simp only: ParseContractAddress_def)
  show "ParseProgramID sample_tl a = ParseProgramID sample_solana a"
    by (simp only: ParseProgramID_def p pk)
  have "SolFieldsUnmarshal sample_tl = SolFieldsUnmarshal sample_solana"
    by (simp add: sample_tl_def solana_env.defs)
  then show "ParseAdditionalFields sample_tl r = ParseAdditionalFields sample_solana r"
    by (simp add: ParseAdditionalFields_def)
qed

definition sample_batch :: batch_operation where
  "sample_batch = \<lparr>bop_ChainSelector = 4, bop_Transactions = [sample_sol_tx]\<rparr>"

definition sample_data :: instruction_data where
  "sample_data = \<lparr>id_ProgramId = 5, id_Data = [1, 2, 3],
     id_Accounts = [\<lparr>ia_Pubkey = 9, ia_IsSigner = False, ia_IsWritable = True\<rparr>]\<rparr>"

lemma sample_batch_data:
  "getInstructionDataFromBatchOperation sample_solana sample_batch = Inr [sample_data]"
  "getInstructionDataFromBatchOperation sample_tl sample_batch = Inr [sample_data]"
proof -
  have "tx_To sample_sol_tx = bits_text 5" "tx_Data sample_sol_tx = [1, 2, 3]" by (simp_all add: sample_sol_tx_def)
  then show "getInstructionDataFromBatchOperation sample_solana sample_batch = Inr [sample_data]"
    and "getInstructionDataFromBatchOperation sample_tl sample_batch = Inr [sample_data]"
    by (simp_all add: getInstructionDataFromBatchOperation_def sample_batch_def instruction_data_of_def
        sample_sol_fields sample_solana_contract accountMetaToInstructionAccount_def sample_account_def sample_data_def)
qed

lemma sample_tl_chunk: "AppendIxDataChunkSize sample_tl = 323"
  by (subst AppendIxDataChunkSize_value [where n = 8]) (simp_all add: getenv_def)

lemma sample_tl_builds: "builds_all sample_tl pid (\<lambda>ix. ix_Data ix = Inr [7])"
  by (simp add: builds_all_def)

lemma sample_tl_convert:
  "\<exists>ops h. sol_ConvertBatchToChainOperations sample_tl sample_sol_metadata sample_batch
    (ContractAddress sample_solana 8 sample_seed) (ContractAddress sample_solana 7 sample_seed) 0
    TimelockActionSchedule 0 1 = Inr (ops, h)"
proof -
  have conv: "\<exists>ops. solanaInstructionToMcmsOperation sample_tl ixs sel tags pda = Inr ops"
    if "list_all (\<lambda>ix. ix_Data ix = Inr [7]) ixs" for ixs sel tags pda
    unfolding solanaInstructionToMcmsOperation_def
    by (rule mapE_total) (use that in \<open>simp add: mcms_operation_def sol_NewTransaction_def Let_def list_all_iff\<close>)
  have act: "\<exists>ixs. sol_action_instructions sample_tl pid seed b flds ds delay TimelockActionSchedule h pred salt p1 p2 p3 p4 p5 = Inr ixs
      \<and> list_all (\<lambda>ix. ix_Data ix = Inr [7]) ixs" for pid seed b flds ds delay h pred salt p1 p2 p3 p4 p5
    using schedule_total [OF sample_tl_builds] by (simp add: sol_action_instructions_def sample_tl_chunk Let_def)
  have ex: "\<exists>ops ixs. sol_action_instructions sample_tl pid seed b flds ds delay TimelockActionSchedule h pred salt p1 p2 p3 p4 p5 = Inr ixs
      \<and> solanaInstructionToMcmsOperation sample_tl ixs sel tags pda = Inr ops"
    for pid seed b flds ds delay h pred salt p1 p2 p3 p4 p5 sel tags pda
  proof -
    obtain ixs where "sol_action_instructions sample_tl pid seed b flds ds delay TimelockActionSchedule h pred salt
        p1 p2 p3 p4 p5 = Inr ixs" "list_all (\<lambda>ix. ix_Data ix = Inr [7]) ixs"
      using act [of pid seed b flds ds delay h pred salt p1 p2 p3 p4 p5] by blast
    then show ?thesis using conv [of ixs sel tags pda] by blast
  qed
  show ?thesis
    unfolding sol_ConvertBatchToChainOperations_def
    by (simp add: sample_solana_contract sample_batch_data sol_HashTimelockOperation_def
        FindTimelockOperationPDA_def FindTimelockBypasserOperationPDA_def FindTimelockConfigPDA_def
        FindTimelockSignerPDA_def FindSignerPDA_def findPDA_def Let_def bindE_Inr_iff) (rule ex)
qed

section \<open>Properties\<close>

text \<open>
  C20: What a converted batch says on Solana is the batch. Whatever the action, the converter's
  instructions take the operation's account, step by step and never out of order, where the action is
  to take it: from absent to scheduled, from absent to executed by the bypasser, or from scheduled to
  cancelled, under the very id OperationID reports. On the way to the first two the account collects
  exactly the instructions of the batch with all their data, cut into non-empty chunks of at most
  AppendIxDataChunkSize bytes. Every instruction names the accounts it has to: the account derived
  from the id for its kind of operation, the timelock's configuration and signer, the access
  controller of its role, the MCM's signer; it carries the predecessor, the salt and the delay of the
  proposal; and the last one of a bypass brings along the accounts of the batch. The MCM operations
  are these instructions, one each. (The account's future under a list of instructions is unique, by
  op_run_det.)
\<close>

theorem sol_batch_protocol:
  assumes "sol_ConvertBatchToChainOperations T md b tlAddr mcm delay action pred salt = Inr (ops, h)"
    and "length (bop_Transactions b) < 2 ^ 32"
  shows "\<exists>pid mcmc X ds rem calls ixs. ParseContractAddress T tlAddr = Inr (pid, tlx_Seed X) \<and>
    ParseContractAddress T mcm = Inr mcmc \<and> SolMetadataUnmarshal T (cm_AdditionalFields md) = Inr (tlx_Roles X) \<and>
    FindTimelockOperationPDA T pid (tlx_Seed X) h = Inr (tlx_Operation X) \<and>
    FindTimelockBypasserOperationPDA T pid (tlx_Seed X) h = Inr (tlx_BypasserOperation X) \<and>
    FindTimelockConfigPDA T pid (tlx_Seed X) = Inr (tlx_Config X) \<and>
    FindTimelockSignerPDA T pid (tlx_Seed X) = Inr (tlx_Signer X) \<and>
    FindSignerPDA T (fst mcmc) (snd mcmc) = Inr (tlx_McmSigner X) \<and> tlx_System X = SystemProgramID T \<and>
    tlx_Salt X = salt \<and> tlx_Delay X = uint64_seconds T delay \<and>
    tlx_Predecessor X = (if action = TimelockActionBypass then 0 else pred) \<and>
    getInstructionDataFromBatchOperation T b = Inr ds \<and> sol_OperationID T b action pred salt = Inr h \<and>
    (action = TimelockActionBypass \<longrightarrow> bypassRemainingAccounts T b (tlx_Roles X) = Inr rem) \<and>
    (case action of
       TimelockActionSchedule \<Rightarrow> op_run Absent calls (Submitted False h ds)
     | TimelockActionCancel \<Rightarrow> op_run (Submitted False h ds) calls (Cancelled h)
     | TimelockActionBypass \<Rightarrow> op_run Absent calls (Submitted True h ds)
     | OtherAction a \<Rightarrow> False) \<and>
    list_all (call_ok X (AppendIxDataChunkSize T)) calls \<and> list_all2 (builds T pid rem) calls ixs \<and>
    list_all2 (\<lambda>ix op. mcms_operation T (bop_ChainSelector b) (getTagsFromBatchOperation b) (tlx_McmSigner X) ix = Inr op)
      ixs ops"
proof -
  from assms(1) have id: "sol_OperationID T b action pred salt = Inr h" by (rule sol_convert_id)
  from assms(1) obtain tl mcmc flds ds opPDA byPDA cfg signer mcmS ixs where
    addr: "ParseContractAddress T tlAddr = Inr tl" "ParseContractAddress T mcm = Inr mcmc"
      "SolMetadataUnmarshal T (cm_AdditionalFields md) = Inr flds" and
    ds: "getInstructionDataFromBatchOperation T b = Inr ds" and
    pdas: "FindTimelockOperationPDA T (fst tl) (snd tl) h = Inr opPDA"
      "FindTimelockBypasserOperationPDA T (fst tl) (snd tl) h = Inr byPDA"
      "FindTimelockConfigPDA T (fst tl) (snd tl) = Inr cfg" "FindTimelockSignerPDA T (fst tl) (snd tl) = Inr signer"
      "FindSignerPDA T (fst mcmc) (snd mcmc) = Inr mcmS" and
    act: "sol_action_instructions T (fst tl) (snd tl) b flds ds delay action h
       (if action = TimelockActionBypass then 0 else pred) salt opPDA byPDA cfg signer mcmS = Inr ixs" and
    ops: "solanaInstructionToMcmsOperation T ixs (bop_ChainSelector b) (getTagsFromBatchOperation b) mcmS = Inr ops"
    by (elim sol_convert_InrE) (rule that)
  define X where "X = \<lparr>tlx_Seed = snd tl, tlx_Operation = opPDA, tlx_BypasserOperation = byPDA, tlx_Config = cfg,
    tlx_Signer = signer, tlx_McmSigner = mcmS, tlx_System = SystemProgramID T, tlx_Roles = flds,
    tlx_Predecessor = (if action = TimelockActionBypass then 0 else pred), tlx_Salt = salt,
    tlx_Delay = uint64_seconds T delay\<rparr>"
  have sel: "tlx_Seed X = snd tl" "tlx_Operation X = opPDA" "tlx_BypasserOperation X = byPDA" "tlx_Config X = cfg"
    "tlx_Signer X = signer" "tlx_McmSigner X = mcmS" "tlx_System X = SystemProgramID T" "tlx_Roles X = flds"
    "tlx_Predecessor X = (if action = TimelockActionBypass then 0 else pred)" "tlx_Salt X = salt"
    "tlx_Delay X = uint64_seconds T delay"
    by (simp_all only: X_def tl_context.simps)
  have "length ds < 2 ^ 32" "length (bop_Transactions b) = length ds" using assms(2) instruction_data_length [OF ds] by simp_all
  from action_run [OF act this, of X, unfolded sel, OF refl refl refl refl refl refl refl refl refl refl refl] obtain rem calls where
    run: "action = TimelockActionBypass \<longrightarrow> bypassRemainingAccounts T b flds = Inr rem"
      "list_all2 (builds T (fst tl) rem) calls ixs" "list_all (call_ok X (AppendIxDataChunkSize T)) calls" "drives action h ds calls"
    by blast
  have mcms: "list_all2 (\<lambda>ix op. mcms_operation T (bop_ChainSelector b) (getTagsFromBatchOperation b) mcmS ix
      = Inr op) ixs ops" using ops by (simp add: solanaInstructionToMcmsOperation_def mapE_Inr_iff)
  have tl: "ParseContractAddress T tlAddr = Inr (fst tl, snd tl)" using addr(1) by simp
  show ?thesis
    by (rule exI [of _ "fst tl"], rule exI [of _ mcmc], rule exI [of _ X], rule exI [of _ ds], rule exI [of _ rem],
        rule exI [of _ calls], rule exI [of _ ixs], unfold sel, intro conjI)
      (fact tl addr ds pdas id run(1-3) run(4) [unfolded drives_def] mcms refl)+
qed

theorem sol_batch_protocol_witness:
  "\<exists>calls ops h. sol_ConvertBatchToChainOperations sample_tl sample_sol_metadata sample_batch
      (ContractAddress sample_solana 8 sample_seed) (ContractAddress sample_solana 7 sample_seed) 0
      TimelockActionSchedule 0 1 = Inr (ops, h) \<and>
    op_run Absent calls (Submitted False h [sample_data])"
proof -
  obtain ops h where c: "sol_ConvertBatchToChainOperations sample_tl sample_sol_metadata sample_batch
      (ContractAddress sample_solana 8 sample_seed) (ContractAddress sample_solana 7 sample_seed) 0
      TimelockActionSchedule 0 1 = Inr (ops, h)"
    using sample_tl_convert by blast
  have "length (bop_Transactions sample_batch) < 2 ^ 32" by (simp add: sample_batch_def)
  from sol_batch_protocol [OF c this] c show ?thesis by (auto simp: sample_batch_data)
qed

text \<open>
  An operation id of the Solana timelock commits to the batch: two batches with the same id have
  the same instructions (programs, accounts with their flags, data) in the same order, the same
  salt and the same predecessor (which a bypass does not have), or the bytes that were hashed for
  them are a collision of keccak. Every count in the encoding has four bytes.
\<close>

theorem sol_OperationID_binding:
  assumes "sol_OperationID S b action pred salt = Inr h" and "sol_OperationID S b' action' pred' salt' = Inr h"
    and "getInstructionDataFromBatchOperation S b = Inr ds" and "getInstructionDataFromBatchOperation S b' = Inr ds'"
    and "batch_fits ds" and "batch_fits ds'"
  shows "let p = (if action = TimelockActionBypass then 0 else pred);
             p' = (if action' = TimelockActionBypass then 0 else pred') in
    ds = ds' \<and> p = p' \<and> salt = salt' \<or>
    encode_batch ds p salt \<noteq> encode_batch ds' p' salt' \<and>
      Keccak256Hash S (encode_batch ds p salt) = h \<and> Keccak256Hash S (encode_batch ds' p' salt') = h"
proof -
  let ?p = "if action = TimelockActionBypass then 0 else pred"
  let ?p' = "if action' = TimelockActionBypass then 0 else pred'"
  have h: "Keccak256Hash S (encode_batch ds ?p salt) = h" "Keccak256Hash S (encode_batch ds' ?p' salt') = h"
    using assms(1-4) by (simp_all add: sol_OperationID_def sol_HashTimelockOperation_def)
  show ?thesis
  proof (cases "encode_batch ds ?p salt = encode_batch ds' ?p' salt'")
    case True
    from encode_batch_inject [OF assms(5,6) this] show ?thesis by (simp add: Let_def)
  next
    case False
    with h show ?thesis by (simp add: Let_def)
  qed
qed

theorem sol_OperationID_binding_witness:
  "sol_OperationID sample_solana sample_batch TimelockActionBypass 3 1 =
     sol_OperationID sample_solana sample_batch TimelockActionSchedule 0 1 \<and>
   (let e = encode_batch [sample_data] 0 1 in [sample_data] = [sample_data] \<or> e \<noteq> e)"
proof -
  have "batch_fits [sample_data]" by (simp add: batch_fits_def instruction_fits_def sample_data_def)
  moreover have id: "sol_OperationID sample_solana sample_batch TimelockActionBypass 3 1 =
      Inr (from_be (encode_batch [sample_data] 0 1))"
    "sol_OperationID sample_solana sample_batch TimelockActionSchedule 0 1 =
      Inr (from_be (encode_batch [sample_data] 0 1))"
    by (simp_all add: sol_OperationID_def sample_batch_data sol_HashTimelockOperation_def)
  ultimately show ?thesis
    using sol_OperationID_binding [OF id sample_batch_data(1) sample_batch_data(1)] by (simp add: Let_def)
qed

text \<open>
  The accounts a bypass passes to the timelock: each account and called program of the batch once,
  in the order of first mention, writable exactly when one of its mentions is, and none of them a
  signer but the execute payer of the chain metadata, if there is one and the batch mentions it.
\<close>

theorem sol_bypass_accounts:
  assumes "bypassRemainingAccounts S b flds = Inr us"
  shows "\<exists>accs. batch_accounts S b = Inr accs \<and> keys_of us = dedup_seen {} (keys_of accs) \<and> distinct (keys_of us) \<and>
    set (keys_of us) = set (keys_of accs) \<and>
    (\<forall>u \<in> set us. am_IsWritable u = writable_in accs (am_PublicKey u)) \<and>
    (\<forall>u \<in> set us. am_IsSigner u \<longleftrightarrow> HasExecutePayer flds \<and> sm_ExecutePayer flds = Some (am_PublicKey u))"
proof -
  from assms obtain accs where accs: "batch_accounts S b = Inr accs"
    and us: "us = (if HasExecutePayer flds then case sm_ExecutePayer flds of
        Some payer \<Rightarrow> applyExecutePayerSignerOverride (foldl merge_account [] accs) payer
      | None \<Rightarrow> foldl merge_account [] accs else foldl merge_account [] accs)"
    by (auto simp: bypassRemainingAccounts_def getAccounts_of_batch bindE_Inr_iff)
  let ?r = "foldl merge_account [] accs"
  have keys: "keys_of ?r = dedup_seen {} (keys_of accs)" and dist: "distinct (keys_of ?r)"
    by (rule merged_accounts(1), rule merged_accounts(2))
  let ?f = "\<lambda>u. if HasExecutePayer flds \<and> sm_ExecutePayer flds = Some (am_PublicKey u) then u\<lparr>am_IsSigner := True\<rparr> else u"
  have us: "us = map ?f ?r"
    unfolding us using map_idI [of ?r ?f]
    by (cases "sm_ExecutePayer flds") (auto simp: override_signer [OF dist] HasExecutePayer_def intro!: map_cong)
  then have "keys_of us = keys_of ?r" by simp
  moreover have "am_IsWritable u = writable_in accs (am_PublicKey u) \<and>
      (am_IsSigner u \<longleftrightarrow> HasExecutePayer flds \<and> sm_ExecutePayer flds = Some (am_PublicKey u))" if "u \<in> set us" for u
  proof -
    from that obtain v where "v \<in> set ?r" and "u = ?f v" unfolding us by auto
    then show ?thesis using merged_accounts(3) [of v accs] by (simp split: if_splits)
  qed
  ultimately show ?thesis using accs keys dist by (auto simp: set_dedup_seen distinct_dedup_seen)
qed

theorem sol_bypass_accounts_witness:
  "\<exists>us. bypassRemainingAccounts sample_solana sample_batch (WithExecutePayer sample_role_keys 9) = Inr us \<and>
     keys_of us = [5, 9] \<and> (\<forall>u \<in> set us. am_IsSigner u \<longleftrightarrow> am_PublicKey u = 9)"
proof -
  have to: "tx_To sample_sol_tx = bits_text 5" by (simp add: sample_sol_tx_def)
  have accs: "batch_accounts sample_solana sample_batch =
      Inr [\<lparr>am_PublicKey = 5, am_IsWritable = False, am_IsSigner = False\<rparr>, sample_account]"
    by (simp add: batch_accounts_def sample_batch_def accounts_of_tx_def to sample_sol_fields sample_solana_contract)
  then obtain us where us: "bypassRemainingAccounts sample_solana sample_batch (WithExecutePayer sample_role_keys 9) = Inr us"
    by (simp add: bypassRemainingAccounts_def getAccounts_of_batch)
  have "keys_of [\<lparr>am_PublicKey = 5, am_IsWritable = False, am_IsSigner = False\<rparr>, sample_account] = [5, 9]"
    by (simp add: sample_account_def)
  with sol_bypass_accounts [OF us] accs us show ?thesis
    by (auto simp: WithExecutePayer_def HasExecutePayer_def)
qed

text \<open>
  MCMS_SOLANA_NUM_PROOFS decides whether anything can be scheduled on Solana. Up to 18 proofs a
  chunk has 579 - 32 n bytes (323 by default) and scheduling succeeds whenever the builders do; from
  19 proofs on the computed size is negative and no batch with any instruction data can be
  scheduled: unless a builder fails first, the slice expression panics.
\<close>

theorem sol_num_proofs:
  assumes "getenv S ''MCMS_SOLANA_NUM_PROOFS'' 8 atoi = n" and "0 \<le> n" and "n < 2 ^ 57"
    and "builds_all S pid (\<lambda>_. True)"
  shows "(n \<le> 18 \<longrightarrow> AppendIxDataChunkSize S = 579 - 32 * n \<and>
      (\<exists>ixs. scheduleBatchInstructions S pid seed h pred salt delay k ds ac opPDA cfg mcmS = Inr ixs)) \<and>
    (19 \<le> n \<and> (\<exists>d \<in> set ds. id_Data d \<noteq> []) \<longrightarrow>
      \<not> (\<exists>ixs. scheduleBatchInstructions S pid seed h pred salt delay k ds ac opPDA cfg mcmS = Inr ixs))"
proof (intro conjI impI)
  assume "n \<le> 18"
  with AppendIxDataChunkSize_value [OF assms(1-3)] show "AppendIxDataChunkSize S = 579 - 32 * n" by simp
  with \<open>n \<le> 18\<close> have "0 < AppendIxDataChunkSize S" by simp
  from schedule_total [OF assms(4) this, of seed h pred salt delay k ds ac opPDA cfg mcmS]
  show "\<exists>ixs. scheduleBatchInstructions S pid seed h pred salt delay k ds ac opPDA cfg mcmS = Inr ixs" by blast
next
  assume big: "19 \<le> n \<and> (\<exists>d \<in> set ds. id_Data d \<noteq> [])"
  with AppendIxDataChunkSize_value [OF assms(1-3)] have neg: "AppendIxDataChunkSize S < 0" by simp
  have "scheduleBatchInstructions S pid seed h pred salt delay k ds ac opPDA cfg mcmS \<noteq> Inr ixs" for ixs
    unfolding scheduleBatchInstructions_def Let_def
    using instruction_loop_negative [OF neg conjunct2 [OF big]] by (auto simp: bindE_Inr_iff)
  then show "\<not> (\<exists>ixs. scheduleBatchInstructions S pid seed h pred salt delay k ds ac opPDA cfg mcmS = Inr ixs)" by blast
qed

theorem sol_num_proofs_witness:
  "\<not> (\<exists>ixs. scheduleBatchInstructions (sample_tl\<lparr>LookupEnv := \<lambda>_. Some ''20''\<rparr>) 8 sample_seed 5 0 1 0 1
     [sample_data] 1 2 3 4 = Inr ixs)"
proof -
  let ?S = "sample_tl\<lparr>LookupEnv := \<lambda>_. Some ''20''\<rparr>"
  have "atoi ''20'' = Some 20" by code_simp
  then have "getenv ?S ''MCMS_SOLANA_NUM_PROOFS'' 8 atoi = 20" by (simp add: getenv_def)
  moreover have "builds_all ?S 8 (\<lambda>_. True)"
    by (simp add: builds_all_def sample_tl_def sample_solana_def solana_env.defs solana_tl_env.defs)
  ultimately show ?thesis
    using sol_num_proofs [where S = ?S and n = 20 and pid = 8 and ds = "[sample_data]"]
    by (simp add: sample_data_def)
qed

end
