(* ===== verification/SolanaRpc.thy ===== *)
theory SolanaRpc
  imports SolanaConverter EvmClient
begin

text \<open>
  Sending transactions to a Solana node (\<open>sdk/solana/common.go\<close>). The node, the SDK that builds and
  signs transactions and the clock are the record \<open>sol_rpc\<close> over a world \<open>'w\<close>; \<open>'t\<close> is the SDK's type of
  transactions. The bindings of the MCM program are kept as calls of their constructors, like those
  of the timelock.
\<close>

section \<open>Instruction builders\<close>

record root_metadata_input =
  rmi_ChainId :: u64
  rmi_Multisig :: pubkey
  rmi_PreOpCount :: u64
  rmi_PostOpCount :: u64
  rmi_OverridePreviousRoot :: bool

datatype mcm_ix =
    ExecuteIx pda_seed u64 u64 "byte list" "hash list" "pubkey list"
  | InitSignatures pda_seed hash u32 u8 "pubkey list"
  | AppendSignatures pda_seed hash u32 "signature list" "pubkey list"
  | FinalizeSignatures pda_seed hash u32 "pubkey list"
  | ClearSignatures pda_seed hash u32 "pubkey list"
  | SetRootIx pda_seed hash u32 root_metadata_input "hash list" "pubkey list"
  | InitSigners pda_seed u8 "pubkey list"
  | AppendSigners pda_seed "address list" "pubkey list"
  | FinalizeSigners pda_seed "pubkey list"
  | SetConfigIx pda_seed "u8 list" "u8 list" "u8 list" bool "pubkey list"

record solana_mcm_env = solana_tl_env +
  McmAccounts :: "mcm_ix \<Rightarrow> account_meta list"
  McmBuild :: "pubkey \<Rightarrow> mcm_ix \<Rightarrow> account_meta list \<Rightarrow> solana_instruction res"
  AuthPublicKey :: "byte list \<Rightarrow> pubkey"
  ErrorText :: "mcms_error \<Rightarrow> string"
  MaxAppendSignatureBatchSize :: int
  MaxNumSigners :: int
  MaxComputeUnitLimit :: int

text \<open>A builder with its \<open>AccountMetaSlice\<close>, next to the program id the bindings will use.\<close>

datatype ix_builder =
    McmBuilder pubkey mcm_ix "account_meta list"
  | TimelockBuilder pubkey timelock_ix "account_meta list"
  | OtherBuilder string

definition mcm_builder :: "'m solana_mcm_env_scheme \<Rightarrow> pubkey \<Rightarrow> mcm_ix \<Rightarrow> ix_builder" where
  "mcm_builder S pid call = McmBuilder pid call (McmAccounts S call)"

definition timelock_builder :: "'m solana_tl_env_scheme \<Rightarrow> pubkey \<Rightarrow> timelock_ix \<Rightarrow> ix_builder" where
  "timelock_builder S pid call = TimelockBuilder pid call (TimelockAccounts S call)"

definition validateAndBuildSolanaInstruction ::
  "'m solana_mcm_env_scheme \<Rightarrow> ix_builder \<Rightarrow> solana_instruction res" where
  "validateAndBuildSolanaInstruction S instructionBuilder =
     (case instructionBuilder of
        McmBuilder pid call accs \<Rightarrow>
          wrapE (Wrapf ''unable to validate and build instruction: %w'') (McmBuild S pid call accs)
      | TimelockBuilder pid call accs \<Rightarrow>
          wrapE (Wrapf ''unable to validate and build instruction: %w'') (TimelockBuild S pid call accs)
      | OtherBuilder name \<Rightarrow> Inl (Errorf ''unsupported instruction builder: %T''))"

section \<open>The node\<close>

datatype confirmation_status = Processed | Confirmed | Finalized

text \<open>\<open>rpc.GetTransactionResult\<close>: the envelope gives the signatures, the meta may hold an error.\<close>

record sol_tx_result =
  res_Transaction :: "(string + string list) option"
  res_Meta :: "string option option"

text \<open>The two states the code asks for, and any other.\<close>

datatype operation_state = Scheduled_OperationState | Done_OperationState | OtherOperationState u8

record timelock_account =
  ta_State :: operation_state
  ta_Timestamp :: u64

record timelock_config =
  tl_ProposerAC :: pubkey
  tl_ExecutorAC :: pubkey
  tl_CancellerAC :: pubkey
  tl_BypasserAC :: pubkey
  tl_MinDelay :: u64

record ('w, 't) sol_rpc =
  GetLatestBlockhash :: "'w \<Rightarrow> (string + hash) \<times> 'w"
  BuildTransaction :: "solana_instruction list \<Rightarrow> hash \<Rightarrow> pubkey \<Rightarrow> string + 't"
  SetComputeUnitPrice :: "u64 \<Rightarrow> 't \<Rightarrow> string + 't"
  SetComputeUnitLimit :: "u32 \<Rightarrow> 't \<Rightarrow> string + 't"
  SignTransaction :: "(pubkey \<Rightarrow> byte list) \<Rightarrow> 't \<Rightarrow> string + 't"
  SendTransactionWithOpts :: "'t \<Rightarrow> bool \<Rightarrow> 'w \<Rightarrow> (string + string) \<times> 'w"
  GetSignatureStatuses :: "string \<Rightarrow> 'w \<Rightarrow> (string + confirmation_status option) \<times> 'w"
  GetTransaction :: "string \<Rightarrow> 'w \<Rightarrow> (string + sol_tx_result) \<times> 'w"
  SleepFor :: "int \<Rightarrow> 'w \<Rightarrow> 'w"
  SimulateTransaction :: "solana_instruction list \<Rightarrow> byte list \<Rightarrow> 'w \<Rightarrow> string + string option"
  ReadMultisigConfig :: "pubkey \<Rightarrow> 'w \<Rightarrow> string + multisig_config"
  ReadRootAndOpCount :: "pubkey \<Rightarrow> 'w \<Rightarrow> string + (hash \<times> u32 \<times> u64)"
  ReadRootMetadata :: "pubkey \<Rightarrow> 'w \<Rightarrow> string + u64"
  ReadTimelockOperation :: "pubkey \<Rightarrow> 'w \<Rightarrow> (bool \<times> string) + timelock_account"
  ReadTimelockConfig :: "pubkey \<Rightarrow> 'w \<Rightarrow> string + timelock_config"
  ReadAccessList :: "pubkey \<Rightarrow> 'w \<Rightarrow> string + (u64 \<times> pubkey list)"
  ReadAccountOwner :: "pubkey \<Rightarrow> 'w \<Rightarrow> string + pubkey option"
  ReadSlot :: "'w \<Rightarrow> string + u64"
  ReadBlockTime :: "u64 \<Rightarrow> 'w \<Rightarrow> string + int option"

section \<open>Options\<close>

record send_options =
  so_retries :: int
  so_delay :: int
  so_skipPreflight :: bool
  so_computeUnitLimit :: u32
  so_computeUnitPrice :: u64

definition defaultSendTransactionOptions :: "'m solana_mcm_env_scheme \<Rightarrow> send_options" where
  "defaultSendTransactionOptions S =
     \<lparr>so_retries = getenv S ''MCMS_SOLANA_MAX_RETRIES'' 500 atoi,
      so_delay = sint (1000000 * word_of_int (getenv S ''MCMS_SOLANA_RETRY_DELAY'' 50 atoi) :: u64),
      so_skipPreflight = getenv S ''MCMS_SOLANA_SKIP_PREFLIGHT'' False parse_bool,
      so_computeUnitLimit = word_of_int (getenv S ''MCMS_SOLANA_COMPUTE_UNIT_LIMIT'' (MaxComputeUnitLimit S) atoi),
      so_computeUnitPrice = word_of_int (getenv S ''MCMS_SOLANA_COMPUTE_UNIT_PRICE'' 0 atoi)\<rparr>"

type_synonym send_option = "send_options \<Rightarrow> send_options"

definition WithRetries :: "int \<Rightarrow> send_option" where "WithRetries retries opts = opts\<lparr>so_retries := retries\<rparr>"
definition WithDelay :: "int \<Rightarrow> send_option" where "WithDelay delay opts = opts\<lparr>so_delay := delay\<rparr>"
definition WithSkipPreflight :: "bool \<Rightarrow> send_option" where "WithSkipPreflight skip opts = opts\<lparr>so_skipPreflight := skip\<rparr>"
definition WithComputeUnitPrice :: "u64 \<Rightarrow> send_option" where
  "WithComputeUnitPrice price opts = opts\<lparr>so_computeUnitPrice := price\<rparr>"
definition WithComputeUnitLimit :: "u32 \<Rightarrow> send_option" where
  "WithComputeUnitLimit limit opts = opts\<lparr>so_computeUnitLimit := limit\<rparr>"

section \<open>sendTransaction\<close>

text \<open>
  \<open>for range retries\<close> around a call: the result of the last attempt, \<open>None\<close> when there was none.
\<close>

fun retry :: "nat \<Rightarrow> ('w \<Rightarrow> (string + 'a) \<times> 'w) \<Rightarrow> ('w \<Rightarrow> 'w) \<Rightarrow> (string + 'a) option \<Rightarrow> 'w \<Rightarrow> (string + 'a) option \<times> 'w" where
  "retry 0 call sleep result w = (result, w)"
| "retry (Suc n) call sleep result w =
     (case call w of
        (Inr x, w') \<Rightarrow> (Some (Inr x), w')
      | (Inl err, w') \<Rightarrow> retry n call sleep (Some (Inl err)) (sleep w'))"

text \<open>The poll for the status: it ends when \<open>count > retries\<close>, so after \<open>retries + 1\<close> queries.\<close>

fun poll_status :: "nat \<Rightarrow> ('w \<Rightarrow> (string + confirmation_status option) \<times> 'w) \<Rightarrow> ('w \<Rightarrow> 'w) \<Rightarrow> 'w \<Rightarrow> bool \<times> 'w" where
  "poll_status 0 query sleep w = (False, w)"
| "poll_status (Suc n) query sleep w =
     (case query w of
        (Inl err, w') \<Rightarrow> poll_status n query sleep (sleep w')
      | (Inr txStatus, w') \<Rightarrow>
          if txStatus = Some Confirmed \<or> txStatus = Some Finalized then (True, sleep w')
          else poll_status n query sleep (sleep w'))"

definition prepare_tx ::
  "'m solana_mcm_env_scheme \<Rightarrow> ('w, 't) sol_rpc \<Rightarrow> send_options \<Rightarrow> solana_instruction list \<Rightarrow> byte list \<Rightarrow> hash \<Rightarrow> 't res" where
  "prepare_tx S C opts instructions auth blockhash =
     bindE (ext (BuildTransaction C instructions blockhash (AuthPublicKey S auth))) (\<lambda>tx.
     bindE (if so_computeUnitPrice opts > 0
            then wrapE (Wrapf ''failed to set compute unit price: %w'')
                   (ext (SetComputeUnitPrice C (so_computeUnitPrice opts) tx))
            else Inr tx) (\<lambda>tx.
     bindE (if so_computeUnitLimit opts > 0
            then wrapE (Wrapf ''failed to set compute unit limit: %w'')
                   (ext (SetComputeUnitLimit C (so_computeUnitLimit opts) tx))
            else Inr tx) (\<lambda>tx.
       ext (SignTransaction C (\<lambda>pub. if pub = AuthPublicKey S auth then auth else []) tx))))"

definition check_result :: "sol_tx_result \<Rightarrow> sol_tx_result res" where
  "check_result r =
     (case res_Meta r of
        None \<Rightarrow> Inl (Errorf ''transaction meta is nil for transaction %s'')
      | Some (Some metaErr) \<Rightarrow> Inl (Errorf ''transaction failed: %+v'')
      | Some None \<Rightarrow> Inr r)"

definition confirm_tx ::
  "('w, 't) sol_rpc \<Rightarrow> send_options \<Rightarrow> string \<Rightarrow> 'w \<Rightarrow> sol_tx_result res \<times> 'w" where
  "confirm_tx C opts txsig w =
     (let sleep = SleepFor C (so_delay opts) in
      case poll_status (nat (so_retries opts + 1)) (GetSignatureStatuses C txsig) sleep w of
        (False, w1) \<Rightarrow> (Inl (Errorf ''unable to find transaction within timeout (sig: %v)''), w1)
      | (True, w1) \<Rightarrow>
          (case retry (nat (so_retries opts)) (GetTransaction C txsig) sleep None w1 of
             (None, w2) \<Rightarrow> (Inl (Panic ''nil pointer dereference''), w2)
           | (Some (Inl err), w2) \<Rightarrow> (Inl (Wrapf ''failed to get transaction: %w'' (External err)), w2)
           | (Some (Inr r), w2) \<Rightarrow> (check_result r, w2)))"

text \<open>Without any attempt to send, \<open>err\<close> is still nil and the signature is the zero one.\<close>

definition sol_sendTransaction ::
  "'m solana_mcm_env_scheme \<Rightarrow> ('w, 't) sol_rpc \<Rightarrow> solana_instruction list \<Rightarrow> byte list \<Rightarrow> send_option list \<Rightarrow> 'w \<Rightarrow>
     sol_tx_result res \<times> 'w" where
  "sol_sendTransaction S C instructions signerAndPayer options w =
     (let opts = foldl (\<lambda>o' opt. opt o') (defaultSendTransactionOptions S) options;
          sleep = SleepFor C (so_delay opts); n = nat (so_retries opts) in
      case retry n (GetLatestBlockhash C) sleep None w of
        (Some (Inl err), w1) \<Rightarrow> (Inl (External err), w1)
      | (None, w1) \<Rightarrow> (Inl (Panic ''nil pointer dereference''), w1)
      | (Some (Inr blockhash), w1) \<Rightarrow>
          (case prepare_tx S C opts instructions signerAndPayer blockhash of
             Inl err \<Rightarrow> (Inl err, w1)
           | Inr tx \<Rightarrow>
               (case retry n (SendTransactionWithOpts C tx (so_skipPreflight opts)) sleep None w1 of
                  (Some (Inl err), w2) \<Rightarrow> (Inl (External err), w2)
                | (None, w2) \<Rightarrow> confirm_tx C opts [] w2
                | (Some (Inr txsig), w2) \<Rightarrow> confirm_tx C opts txsig w2)))"

definition sendAndConfirmInstructions ::
  "'m solana_mcm_env_scheme \<Rightarrow> ('w, 't) sol_rpc \<Rightarrow> byte list \<Rightarrow> solana_instruction list \<Rightarrow> send_option list \<Rightarrow> 'w \<Rightarrow>
     (string \<times> sol_tx_result) res \<times> 'w" where
  "sendAndConfirmInstructions S C auth instructions options =
     bindW (wrapW (Wrapf ''unable to send instruction: %w'') (sol_sendTransaction S C instructions auth options))
       (\<lambda>result w.
         (case res_Transaction result of
            None \<Rightarrow> Inl (Errorf ''nil transaction in instruction result'')
          | Some (Inl err) \<Rightarrow> Inl (Wrapf ''unable to get transaction from instruction result: %w'' (External err))
          | Some (Inr []) \<Rightarrow> Inl (Panic ''index out of range'')
          | Some (Inr (signature # _)) \<Rightarrow> Inr (signature, result), w))"

definition sendAndConfirm ::
  "'m solana_mcm_env_scheme \<Rightarrow> ('w, 't) sol_rpc \<Rightarrow> byte list \<Rightarrow> ix_builder \<Rightarrow> 'w \<Rightarrow>
     (string \<times> sol_tx_result) res \<times> 'w" where
  "sendAndConfirm S C auth instructionBuilder =
     run_after (wrapE (Wrapf ''unable to validate and build instruction: %w'')
                  (validateAndBuildSolanaInstruction S instructionBuilder))
       (\<lambda>instruction. sendAndConfirmInstructions S C auth [instruction] [])"

section \<open>What the retries guarantee\<close>

lemma retry_Inr:
  assumes "retry n call sleep r w = (Some (Inr x), w')" and "r = None \<or> (\<exists>err. r = Some (Inl err))"
  shows "\<exists>v. call v = (Inr x, w')"
  using assms
proof (induction n arbitrary: w r)
  case (Suc n)
  obtain q v where c: "call w = (q, v)" by fastforce
  show ?case
  proof (cases q)
    case (Inl err)
    with Suc.prems c have "retry n call sleep (Some (Inl err)) (sleep v) = (Some (Inr x), w')" by simp
    then show ?thesis using Suc.IH by blast
  qed (use Suc.prems c in auto)
qed auto

lemma retry_None: "fst (retry n call sleep None w) = None \<longleftrightarrow> n = 0"
proof -
  have "fst (retry m call sleep (Some y) v) \<noteq> None" for m y v
    by (induction m arbitrary: y v) (auto split: sum.splits prod.splits)
  then show ?thesis by (cases n) (auto split: sum.splits prod.splits)
qed

lemma poll_status_True:
  assumes "poll_status n query sleep w = (True, w')"
  obtains v st u where "query v = (Inr (Some st), u)" and "st = Confirmed \<or> st = Finalized"
  using assms
proof (induction n arbitrary: w)
  case (Suc n)
  then show ?case by (auto split: sum.splits prod.splits if_splits)
qed simp

lemma confirm_tx_Inr:
  assumes "confirm_tx C opts txsig w = (Inr r, w')"
  obtains v st u v' where "GetSignatureStatuses C txsig v = (Inr (Some st), u)" and "st = Confirmed \<or> st = Finalized"
    and "GetTransaction C txsig v' = (Inr r, w')" and "res_Meta r = Some None"
proof -
  let ?sleep = "SleepFor C (so_delay opts)"
  obtain b w1 where p: "poll_status (nat (so_retries opts + 1)) (GetSignatureStatuses C txsig) ?sleep w = (b, w1)" by fastforce
  obtain g w2 where g: "retry (nat (so_retries opts)) (GetTransaction C txsig) ?sleep None w1 = (g, w2)" by fastforce
  from assms p have b by (cases b) (simp_all add: confirm_tx_def Let_def)
  with assms p g obtain r' where "g = Some (Inr r')" and chk: "check_result r' = Inr r" and w2: "w2 = w'"
    by (auto simp: confirm_tx_def Let_def split: option.splits sum.splits)
  with g obtain v' where "GetTransaction C txsig v' = (Inr r', w2)" by (auto dest!: retry_Inr)
  moreover from p \<open>b\<close> obtain v st u where "GetSignatureStatuses C txsig v = (Inr (Some st), u)" "st = Confirmed \<or> st = Finalized"
    by (auto elim: poll_status_True)
  moreover from chk have "r' = r" "res_Meta r = Some None" by (auto simp: check_result_def split: option.splits)
  ultimately show ?thesis using that w2 by blast
qed

end
