(* ===== verification/SolanaClient.thy ===== *)
theory SolanaClient
  imports SolanaRpc
begin

text \<open>
  The Solana clients: \<open>sdk/solana/inspector.go\<close>, \<open>timelock_inspector.go\<close>, \<open>executor.go\<close>,
  \<open>timelock_executor.go\<close>, \<open>configurer.go\<close>, \<open>timelock_configurer.go\<close>, \<open>timelock_role.go\<close>,
  \<open>simulator.go\<close> and \<open>NewChainMetadataFromTimelock\<close>, over the node of \<open>SolanaRpc\<close>.
\<close>

section \<open>Inspector\<close>

definition sol_GetConfig ::
  "'s solana_env_scheme \<Rightarrow> ('w, 't, 'm) sol_rpc_scheme \<Rightarrow> 'w \<Rightarrow> string \<Rightarrow> config res" where
  "sol_GetConfig S C w addr =
     bindE (ParseContractAddress S addr) (\<lambda>(programID, instanceID).
     bindE (FindConfigPDA S programID instanceID) (\<lambda>configPDA.
     bindE (wrapE (Wrapf ''unable to get config: %w'') (ext (ReadMultisigConfig C configPDA w))) (\<lambda>chainConfig.
       wrapE (Wrapf ''unable to convert chain config: %w'') (sol_ToConfig chainConfig))))"

definition getExpiringRootAndOpCountData ::
  "('w, 't, 'm) sol_rpc_scheme \<Rightarrow> 'w \<Rightarrow> pubkey \<Rightarrow> (hash \<times> u32 \<times> u64) res" where
  "getExpiringRootAndOpCountData C w pda = ext (ReadRootAndOpCount C pda w)"

definition sol_GetOpCount ::
  "'s solana_env_scheme \<Rightarrow> ('w, 't, 'm) sol_rpc_scheme \<Rightarrow> 'w \<Rightarrow> string \<Rightarrow> u64 res" where
  "sol_GetOpCount S C w mcmAddress =
     bindE (ParseContractAddress S mcmAddress) (\<lambda>(programID, seed).
     bindE (FindExpiringRootAndOpCountPDA S programID seed) (\<lambda>pda.
     bindE (getExpiringRootAndOpCountData C w pda) (\<lambda>(_, _, opCount). Inr opCount)))"

definition sol_GetRoot ::
  "'s solana_env_scheme \<Rightarrow> ('w, 't, 'm) sol_rpc_scheme \<Rightarrow> 'w \<Rightarrow> string \<Rightarrow> (hash \<times> u32) res" where
  "sol_GetRoot S C w mcmAddress =
     bindE (ParseContractAddress S mcmAddress) (\<lambda>(programID, seed).
     bindE (FindExpiringRootAndOpCountPDA S programID seed) (\<lambda>pda.
     bindE (getExpiringRootAndOpCountData C w pda) (\<lambda>(merkleRoot, validUntil, _). Inr (merkleRoot, validUntil))))"

definition sol_GetRootMetadata ::
  "'s solana_env_scheme \<Rightarrow> ('w, 't, 'm) sol_rpc_scheme \<Rightarrow> 'w \<Rightarrow> string \<Rightarrow> chain_metadata res" where
  "sol_GetRootMetadata S C w mcmAddress =
     bindE (ParseContractAddress S mcmAddress) (\<lambda>(programID, seed).
     bindE (FindRootMetadataPDA S programID seed) (\<lambda>pda.
     bindE (ext (ReadRootMetadata C pda w)) (\<lambda>preOpCount.
       Inr \<lparr>cm_StartingOpCount = preOpCount, cm_MCMAddress = mcmAddress, cm_AdditionalFields = RawEmpty\<rparr>)))"

definition sol_inspector ::
  "'s solana_env_scheme \<Rightarrow> ('w, 't, 'm) sol_rpc_scheme \<Rightarrow> 'w \<Rightarrow> inspector" where
  "sol_inspector S C w = \<lparr>insp_GetConfig = sol_GetConfig S C w, insp_GetOpCount = sol_GetOpCount S C w\<rparr>"

section \<open>Roles\<close>

definition timelockRoleBindings :: "(timelock_role, binding_role) gomap" where
  "timelockRoleBindings =
     [(TimelockRoleProposer, Proposer_Role), (TimelockRoleExecutor, Executor_Role),
      (TimelockRoleCanceller, Canceller_Role), (TimelockRoleBypasser, Bypasser_Role)]"

definition TimelockRoleToBinding :: "timelock_role \<Rightarrow> binding_role res" where
  "TimelockRoleToBinding role =
     (if role = TimelockRoleAdmin
      then Inl (Errorf ''admin role is not grantable via access controller on solana'')
      else case gm_get timelockRoleBindings role of
             None \<Rightarrow> Inl (Errorf ''invalid timelock role: %d'')
           | Some bindingRole \<Rightarrow> Inr bindingRole)"

section \<open>Timelock inspector\<close>

definition GetTimelockConfig :: "('w, 't, 'm) sol_rpc_scheme \<Rightarrow> 'w \<Rightarrow> pubkey \<Rightarrow> timelock_config res" where
  "GetTimelockConfig C w configPDA = ext (ReadTimelockConfig C configPDA w)"

definition getRoleAccessController :: "timelock_config \<Rightarrow> binding_role \<Rightarrow> pubkey res" where
  "getRoleAccessController config role =
     (case role of
        Proposer_Role \<Rightarrow> Inr (tl_ProposerAC config)
      | Canceller_Role \<Rightarrow> Inr (tl_CancellerAC config)
      | Executor_Role \<Rightarrow> Inr (tl_ExecutorAC config)
      | Bypasser_Role \<Rightarrow> Inr (tl_BypasserAC config)
      | Admin_Role \<Rightarrow> Inl (Errorf ''not supported role: %v'')
      | OtherRole _ \<Rightarrow> Inl (Errorf ''unknown role''))"

text \<open>The access list is an array with a length: \<open>Xs[:Len]\<close> panics when the length is beyond the array.\<close>

definition getRoleAccessList ::
  "'s solana_env_scheme \<Rightarrow> ('w, 't, 'm) sol_rpc_scheme \<Rightarrow> 'w \<Rightarrow> string \<Rightarrow> binding_role \<Rightarrow> string list res" where
  "getRoleAccessList S C w addr role =
     bindE (ParseContractAddress S addr) (\<lambda>(programID, seed).
     bindE (FindTimelockConfigPDA S programID seed) (\<lambda>pda.
     bindE (GetTimelockConfig C w pda) (\<lambda>configAccount.
     bindE (getRoleAccessController configAccount role) (\<lambda>controller.
     bindE (ext (ReadAccessList C controller w)) (\<lambda>(len, xs).
       if unat len > length xs then Inl (Panic ''slice bounds out of range'')
       else Inr (map (PublicKeyString S) (take (unat len) xs)))))))"

definition sol_GetProposers where "sol_GetProposers S C w addr = getRoleAccessList S C w addr Proposer_Role"
definition sol_GetExecutors where "sol_GetExecutors S C w addr = getRoleAccessList S C w addr Executor_Role"
definition sol_GetBypassers where "sol_GetBypassers S C w addr = getRoleAccessList S C w addr Bypasser_Role"
definition sol_GetCancellers where "sol_GetCancellers S C w addr = getRoleAccessList S C w addr Canceller_Role"

text \<open>The error carries whether it is \<open>rpc.ErrNotFound\<close>.\<close>

definition getOpData ::
  "'s solana_env_scheme \<Rightarrow> ('w, 't, 'm) sol_rpc_scheme \<Rightarrow> 'w \<Rightarrow> string \<Rightarrow> hash \<Rightarrow> (bool \<times> mcms_error) + timelock_account" where
  "getOpData S C w addr opID =
     (case bindE (ParseContractAddress S addr) (\<lambda>(programID, seed). FindTimelockOperationPDA S programID seed opID) of
        Inl err \<Rightarrow> Inl (False, err)
      | Inr pda \<Rightarrow>
          (case ReadTimelockOperation C pda w of
             Inl (notFound, err) \<Rightarrow> Inl (notFound, External err)
           | Inr opAccount \<Rightarrow> Inr opAccount))"

definition sol_IsOperation ::
  "'s solana_env_scheme \<Rightarrow> ('w, 't, 'm) sol_rpc_scheme \<Rightarrow> 'w \<Rightarrow> string \<Rightarrow> hash \<Rightarrow> bool res" where
  "sol_IsOperation S C w addr opID =
     (case getOpData S C w addr opID of
        Inl (notFound, err) \<Rightarrow> if notFound then Inr False else Inl err
      | Inr _ \<Rightarrow> Inr True)"

definition op_query ::
  "'s solana_env_scheme \<Rightarrow> ('w, 't, 'm) sol_rpc_scheme \<Rightarrow> 'w \<Rightarrow> string \<Rightarrow> hash \<Rightarrow> timelock_account res" where
  "op_query S C w addr opID =
     (case getOpData S C w addr opID of Inl (_, err) \<Rightarrow> Inl err | Inr op \<Rightarrow> Inr op)"

definition sol_IsOperationPending ::
  "'s solana_env_scheme \<Rightarrow> ('w, 't, 'm) sol_rpc_scheme \<Rightarrow> 'w \<Rightarrow> string \<Rightarrow> hash \<Rightarrow> bool res" where
  "sol_IsOperationPending S C w addr opID =
     bindE (op_query S C w addr opID) (\<lambda>op. Inr (ta_State op = Scheduled_OperationState))"

text \<open>The slot and its block time are one read; the time may be missing.\<close>

definition sol_IsOperationReady ::
  "'s solana_env_scheme \<Rightarrow> ('w, 't, 'm) sol_rpc_scheme \<Rightarrow> 'w \<Rightarrow> string \<Rightarrow> hash \<Rightarrow> bool res" where
  "sol_IsOperationReady S C w addr opID =
     bindE (op_query S C w addr opID) (\<lambda>op.
     bindE (wrapE (Wrapf ''failed to get slot: %w'') (ext (ReadSlot C w))) (\<lambda>slot.
     bindE (wrapE (Wrapf ''failed to get block time: %w'') (ext (ReadBlockTime C slot w))) (\<lambda>blockTime.
     bindE (Uint64ToInt64 S (ta_Timestamp op)) (\<lambda>ts.
       case blockTime of
         None \<Rightarrow> Inl (Errorf ''failed to get block time: nil value'')
       | Some t \<Rightarrow> Inr (ta_State op = Scheduled_OperationState \<and> ts \<le> t)))))"

definition sol_IsOperationDone ::
  "'s solana_env_scheme \<Rightarrow> ('w, 't, 'm) sol_rpc_scheme \<Rightarrow> 'w \<Rightarrow> string \<Rightarrow> hash \<Rightarrow> bool res" where
  "sol_IsOperationDone S C w addr opID =
     bindE (op_query S C w addr opID) (\<lambda>op. Inr (ta_State op = Done_OperationState))"

definition sol_GetMinDelay ::
  "'s solana_env_scheme \<Rightarrow> ('w, 't, 'm) sol_rpc_scheme \<Rightarrow> 'w \<Rightarrow> string \<Rightarrow> u64 res" where
  "sol_GetMinDelay S C w addr =
     bindE (ParseContractAddress S addr) (\<lambda>(programID, seed).
     bindE (FindTimelockConfigPDA S programID seed) (\<lambda>pda.
     bindE (GetTimelockConfig C w pda) (\<lambda>configAccount. Inr (tl_MinDelay configAccount))))"

definition NewChainMetadataFromTimelock ::
  "'s solana_env_scheme \<Rightarrow> ('w, 't, 'm) sol_rpc_scheme \<Rightarrow> 'w \<Rightarrow> u64 \<Rightarrow> pubkey \<Rightarrow> pda_seed \<Rightarrow> pubkey \<Rightarrow> pda_seed \<Rightarrow>
     chain_metadata res" where
  "NewChainMetadataFromTimelock S C w startingOpCount mcmProgramID mcmSeed timelockProgramID timelockSeed =
     bindE (wrapE (Wrapf ''unable to find timelock config pda: %w'')
              (FindTimelockConfigPDA S timelockProgramID timelockSeed)) (\<lambda>configPDA.
     bindE (wrapE (Wrapf ''unable to read timelock config pda: %w'') (GetTimelockConfig C w configPDA)) (\<lambda>config.
       sol_NewChainMetadata S startingOpCount mcmProgramID mcmSeed (tl_ProposerAC config) (tl_CancellerAC config)
         (tl_BypasserAC config)))"

section \<open>Executor\<close>

text \<open>
  The raw data of a result: a node's answer, the instructions of a configurer, or the transaction
  built for a proposal.
\<close>

datatype sol_raw = RawResult sol_tx_result | RawInstructions "solana_instruction list" | RawTransaction transaction

type_synonym 'w send_fn = "ix_builder \<Rightarrow> 'w \<Rightarrow> (string \<times> sol_tx_result) res \<times> 'w"

record 'w sol_executor =
  sx_Encoder :: "solana_encoder option"
  sx_auth :: "byte list"
  sx_sendAndConfirm :: "'w send_fn"

definition sol_NewExecutor ::
  "'m solana_mcm_env_scheme \<Rightarrow> ('w, 't) sol_rpc \<Rightarrow> solana_encoder option \<Rightarrow> byte list \<Rightarrow> 'w sol_executor" where
  "sol_NewExecutor S C enc auth =
     \<lparr>sx_Encoder = enc, sx_auth = auth, sx_sendAndConfirm = sendAndConfirm S C auth\<rparr>"

definition withSendAndConfirmFn :: "'w sol_executor \<Rightarrow> 'v send_fn \<Rightarrow> 'v sol_executor" where
  "withSendAndConfirmFn e f = \<lparr>sx_Encoder = sx_Encoder e, sx_auth = sx_auth e, sx_sendAndConfirm = f\<rparr>"

definition sol_sent :: "string \<times> sol_tx_result \<Rightarrow> sol_raw transaction_result" where
  "sol_sent r = \<lparr>tr_Hash = fst r, tr_ChainFamily = Some FamilySolana, tr_RawData = Some (RawResult (snd r))\<rparr>"

text \<open>The instruction \<open>ExecuteOperation\<close> sends.\<close>

definition execute_builder ::
  "'m solana_mcm_env_scheme \<Rightarrow> 'w sol_executor \<Rightarrow> chain_metadata \<Rightarrow> u32 \<Rightarrow> hash list \<Rightarrow> operation \<Rightarrow> ix_builder res" where
  "execute_builder S e metadata nonce proof op =
     bindE (ParseContractAddress S (cm_MCMAddress metadata)) (\<lambda>(programID, msigID).
     bindE (deref (sx_Encoder e)) (\<lambda>enc.
     bindE (FindConfigPDA S programID msigID) (\<lambda>configPDA.
     bindE (FindRootMetadataPDA S programID msigID) (\<lambda>rootMetadataPDA.
     bindE (FindExpiringRootAndOpCountPDA S programID msigID) (\<lambda>expiringRootAndOpCountPDA.
     bindE (FindSignerPDA S programID msigID) (\<lambda>signedPDA.
     bindE (ParseAdditionalFields S (tx_AdditionalFields (op_Transaction op))) (\<lambda>additionalFields.
     bindE (mapE deref (sf_Accounts additionalFields)) (\<lambda>accounts.
     bindE (wrapE (Wrapf ''unable to prase program id from To field: %w'')
              (ParseProgramID S (tx_To (op_Transaction op)))) (\<lambda>toProgramID.
     let ix = ExecuteIx msigID (se_ChainSelector enc) (ucast nonce) (tx_Data (op_Transaction op)) proof
                [configPDA, rootMetadataPDA, expiringRootAndOpCountPDA, toProgramID, signedPDA, AuthPublicKey S (sx_auth e)] in
       Inr (McmBuilder programID ix (McmAccounts S ix @ accounts)))))))))))"

definition sol_ExecuteOperation ::
  "'m solana_mcm_env_scheme \<Rightarrow> 'w sol_executor \<Rightarrow> chain_metadata \<Rightarrow> u32 \<Rightarrow> hash list \<Rightarrow> operation \<Rightarrow> 'w \<Rightarrow>
     sol_raw transaction_result res \<times> 'w" where
  "sol_ExecuteOperation S e metadata nonce proof op =
     run_after (execute_builder S e metadata nonce proof op) (\<lambda>ix.
       bindW (wrapW (Wrapf ''unable to call execute operation instruction: %w'') (sx_sendAndConfirm e ix)) (\<lambda>r w.
         (Inr (sol_sent r), w)))"

definition isAccountAlreadyInUseError :: "'m solana_mcm_env_scheme \<Rightarrow> mcms_error \<Rightarrow> bool" where
  "isAccountAlreadyInUseError S err =
     match_in_line ''Allocate: account Address'' ''already in use'' (ErrorText S err)"

text \<open>
  The calls of \<open>preloadSignatures\<close> after the initialisation: the signatures in chunks, and the end.
  A chunk size that is not positive would never get to the end of the signatures.
\<close>

definition send_mcm ::
  "'m solana_mcm_env_scheme \<Rightarrow> 'w sol_executor \<Rightarrow> pubkey \<Rightarrow> mcm_ix \<Rightarrow> 'w \<Rightarrow> (string \<times> sol_tx_result) res \<times> 'w" where
  "send_mcm S e pid call = sx_sendAndConfirm e (mcm_builder S pid call)"

definition append_and_finalize ::
  "'m solana_mcm_env_scheme \<Rightarrow> 'w sol_executor \<Rightarrow> pubkey \<Rightarrow> pda_seed \<Rightarrow> hash \<Rightarrow> u32 \<Rightarrow> signature list \<Rightarrow> pubkey \<Rightarrow>
     'w \<Rightarrow> unit res \<times> 'w" where
  "append_and_finalize S e pid mcmName merkleRoot validUntil sortedSignatures signaturesPDA =
     (let sigs = solanaSignatures sortedSignatures; auth = AuthPublicKey S (sx_auth e) in
      run_after
        (case chunkIndexes (int (length sigs)) (MaxAppendSignatureBatchSize S) of
           None \<Rightarrow> Inl (Panic ''endless loop'')
         | Some indexes \<Rightarrow> Inr indexes)
        (\<lambda>indexes.
          bindW (forW (\<lambda>chunkIndex. wrapW (Wrapf ''unable to append signatures (%d): %w'')
                    (send_mcm S e pid
                       (AppendSignatures mcmName merkleRoot validUntil (slice sigs chunkIndex) [signaturesPDA, auth])))
                  indexes) (\<lambda>_.
          bindW (wrapW (Wrapf ''unable to finalize signatures: %w'')
                   (send_mcm S e pid (FinalizeSignatures mcmName merkleRoot validUntil [signaturesPDA, auth])))
            (\<lambda>_ w. (Inr (), w)))))"

function preloadSignatures and retryPreloadSignatures where
  "preloadSignatures S e pid mcmName merkleRoot validUntil sortedSignatures signaturesPDA attempt w =
     (let auth = AuthPublicKey S (sx_auth e) in
      case send_mcm S e pid
             (InitSignatures mcmName merkleRoot validUntil (word_of_nat (length sortedSignatures))
                [signaturesPDA, auth, SystemProgramID S]) w of
        (Inl err, w') \<Rightarrow>
          if isAccountAlreadyInUseError S err
          then retryPreloadSignatures S e pid mcmName merkleRoot validUntil sortedSignatures signaturesPDA attempt w'
          else (Inl (Wrapf ''unable to initialize signatures: %w'' err), w')
      | (Inr _, w') \<Rightarrow>
          append_and_finalize S e pid mcmName merkleRoot validUntil sortedSignatures signaturesPDA w')"
| "retryPreloadSignatures S e pid mcmName merkleRoot validUntil sortedSignatures signaturesPDA attempt w =
     (if attempt \<ge> (3 :: nat)
      then (Inl (Errorf ''maximum attempts to retry preload signatures reached (%d); aborting''), w)
      else
        case send_mcm S e pid
               (ClearSignatures mcmName merkleRoot validUntil [signaturesPDA, AuthPublicKey S (sx_auth e)]) w of
          (Inl err, w') \<Rightarrow> (Inl (Wrapf ''unable to clear signatures: %w'' err), w')
        | (Inr _, w') \<Rightarrow>
            preloadSignatures S e pid mcmName merkleRoot validUntil sortedSignatures signaturesPDA (attempt + 1) w')"
  by pat_completeness auto

termination
  by (relation "measure (\<lambda>x. case x of
        Inl (S, e, pid, mcmName, merkleRoot, validUntil, sigs, pda, attempt, w) \<Rightarrow> 2 * (4 - attempt) + 1
      | Inr (S, e, pid, mcmName, merkleRoot, validUntil, sigs, pda, attempt, w) \<Rightarrow> 2 * (4 - attempt))") auto

declare preloadSignatures.simps [simp del] retryPreloadSignatures.simps [simp del]

definition solanaMetadata :: "solana_encoder \<Rightarrow> chain_metadata \<Rightarrow> pubkey \<Rightarrow> root_metadata_input" where
  "solanaMetadata enc metadata configPDA =
     \<lparr>rmi_ChainId = se_ChainSelector enc, rmi_Multisig = configPDA, rmi_PreOpCount = cm_StartingOpCount metadata,
      rmi_PostOpCount = cm_StartingOpCount metadata + se_TxCount enc,
      rmi_OverridePreviousRoot = se_OverridePreviousRoot enc\<rparr>"

definition solanaProof :: "hash list \<Rightarrow> hash list" where
  "solanaProof proof = proof"

definition equalCurrentRoot ::
  "'s solana_env_scheme \<Rightarrow> ('w, 't, 'm) sol_rpc_scheme \<Rightarrow> 'w \<Rightarrow> string \<Rightarrow> hash \<Rightarrow> bool res" where
  "equalCurrentRoot S C w mcmAddress newRoot =
     bindE (wrapE (Wrapf ''failed to get root: %w'') (sol_GetRoot S C w mcmAddress)) (\<lambda>(currentRoot, _).
       Inr (currentRoot = newRoot))"

definition ErrSignedHashAlreadySeen :: mcms_error where
  "ErrSignedHashAlreadySeen = Errorf ''SignedHashAlreadySeen: 0x%x''"

text \<open>What \<open>SetRoot\<close> checks and looks up before it sends anything.\<close>

definition set_root_addresses ::
  "'m solana_mcm_env_scheme \<Rightarrow> ('w, 't, 'x) sol_rpc_scheme \<Rightarrow> 'w \<Rightarrow> 'v sol_executor \<Rightarrow> chain_metadata \<Rightarrow> hash \<Rightarrow> u32 \<Rightarrow>
     signature list \<Rightarrow> (pubkey \<times> pda_seed \<times> pubkey \<times> pubkey \<times> pubkey \<times> pubkey \<times> pubkey) res" where
  "set_root_addresses S C w e metadata merkleRoot validUntil sortedSignatures =
     bindE (equalCurrentRoot S C w (cm_MCMAddress metadata) merkleRoot) (\<lambda>sameRoot.
     bindE (guardE (\<not> sameRoot) ErrSignedHashAlreadySeen) (\<lambda>_.
     bindE (ParseContractAddress S (cm_MCMAddress metadata)) (\<lambda>(programID, pdaSeed).
     bindE (guardE (length sortedSignatures \<le> 255) (Errorf ''too many signatures (max %d)'')) (\<lambda>_.
     bindE (FindConfigPDA S programID pdaSeed) (\<lambda>configPDA.
     bindE (FindRootMetadataPDA S programID pdaSeed) (\<lambda>rootMetadataPDA.
     bindE (FindExpiringRootAndOpCountPDA S programID pdaSeed) (\<lambda>expiringRootAndOpCountPDA.
     bindE (FindRootSignaturesPDA S programID pdaSeed merkleRoot validUntil (AuthPublicKey S (sx_auth e))) (\<lambda>rootSignaturesPDA.
     bindE (FindSeenSignedHashesPDA S programID pdaSeed merkleRoot validUntil) (\<lambda>seenSignedHashesPDA.
       Inr (programID, pdaSeed, configPDA, rootMetadataPDA, expiringRootAndOpCountPDA, rootSignaturesPDA,
            seenSignedHashesPDA))))))))))"

definition sol_SetRoot ::
  "'m solana_mcm_env_scheme \<Rightarrow> ('w, 't, 'x) sol_rpc_scheme \<Rightarrow> ('v \<Rightarrow> 'w) \<Rightarrow> 'v sol_executor \<Rightarrow> chain_metadata \<Rightarrow> hash list \<Rightarrow> hash \<Rightarrow>
     u32 \<Rightarrow> signature list \<Rightarrow> 'v \<Rightarrow> sol_raw transaction_result res \<times> 'v" where
  "sol_SetRoot S C chain e metadata proof merkleRoot validUntil sortedSignatures v =
     run_after (set_root_addresses S C (chain v) e metadata merkleRoot validUntil sortedSignatures)
       (\<lambda>(programID, pdaSeed, configPDA, rootMetadataPDA, expiringRootAndOpCountPDA, rootSignaturesPDA, seenSignedHashesPDA).
         bindW (preloadSignatures S e programID pdaSeed merkleRoot validUntil sortedSignatures rootSignaturesPDA 0) (\<lambda>_.
         run_after (deref (sx_Encoder e)) (\<lambda>enc.
         bindW (wrapW (Wrapf ''unable to set root: %w'')
                  (send_mcm S e programID
                     (SetRootIx pdaSeed merkleRoot validUntil (solanaMetadata enc metadata configPDA) (solanaProof proof)
                        [rootSignaturesPDA, rootMetadataPDA, seenSignedHashesPDA, expiringRootAndOpCountPDA, configPDA,
                         AuthPublicKey S (sx_auth e), SystemProgramID S]))) (\<lambda>r w.
           (Inr (sol_sent r), w))))) v"

text \<open>As a value of the interface; the executor of a chain reads the world it writes.\<close>

definition sol_executor_iface ::
  "'m solana_mcm_env_scheme \<Rightarrow> ('w, 't, 'x) sol_rpc_scheme \<Rightarrow> 'w sol_executor \<Rightarrow> (sol_raw transaction_result, 'w) executor" where
  "sol_executor_iface S C e =
     \<lparr>ex_SetRoot = sol_SetRoot S C (\<lambda>w. w) e, ex_ExecuteOperation = sol_ExecuteOperation S e\<rparr>"

end
