(* ===== verification/SolanaConfigurer.thy ===== *)
theory SolanaConfigurer
  imports SolanaClient
begin

text \<open>
  The Solana clients that write to the programs other than through a root:
  \<open>sdk/solana/timelock_executor.go\<close>, \<open>configurer.go\<close>, \<open>timelock_configurer.go\<close> and \<open>simulator.go\<close>.
\<close>

section \<open>Timelock executor\<close>

definition execute_batch_builder ::
  "'m solana_mcm_env_scheme \<Rightarrow> ('w, 't, 'x) sol_rpc_scheme \<Rightarrow> 'w \<Rightarrow> byte list \<Rightarrow> batch_operation \<Rightarrow> string \<Rightarrow> hash \<Rightarrow> hash \<Rightarrow>
     ix_builder res" where
  "execute_batch_builder S C w auth bop timelockAddress predecessor salt =
     bindE (ParseContractAddress S timelockAddress) (\<lambda>(programID, timelockID).
     bindE (wrapE (Wrapf ''unable to get InstructionData from batch operation: %w'')
              (getInstructionDataFromBatchOperation S bop)) (\<lambda>instructionsData.
     bindE (wrapE (Wrapf ''unable to get accounts from batch operation: %w'')
              (getAccountsFromBatchOperation S bop)) (\<lambda>accounts.
     bindE (wrapE (Wrapf ''unable to compute operation id: %w'')
              (sol_HashTimelockOperation S instructionsData predecessor salt)) (\<lambda>operationID.
     bindE (wrapE (Wrapf ''unable to find timelock operation pda: %w'')
              (FindTimelockOperationPDA S programID timelockID operationID)) (\<lambda>operationPDA.
     bindE (wrapE (Wrapf ''unable to find timelock config pda: %w'')
              (FindTimelockConfigPDA S programID timelockID)) (\<lambda>configPDA.
     bindE (wrapE (Wrapf ''unable to find timelock signer pda: %w'')
              (FindTimelockSignerPDA S programID timelockID)) (\<lambda>signerPDA.
     bindE (wrapE (Wrapf ''unable to read config pda: %w'') (GetTimelockConfig C w configPDA)) (\<lambda>config.
     bindE (if predecessor \<noteq> 0
            then wrapE (Wrapf ''unable to find timelock predecessor operation pda: %w'')
                   (FindTimelockOperationPDA S programID timelockID predecessor)
            else Inr 0) (\<lambda>predecessorOperationPDA.
     let ix = ExecuteBatch timelockID operationID
                [operationPDA, predecessorOperationPDA, configPDA, signerPDA, tl_ExecutorAC config, AuthPublicKey S auth] in
       Inr (TimelockBuilder programID ix (TimelockAccounts S ix @ accounts)))))))))))"

definition sol_timelock_Execute ::
  "'m solana_mcm_env_scheme \<Rightarrow> ('w, 't) sol_rpc \<Rightarrow> byte list \<Rightarrow> batch_operation \<Rightarrow> string \<Rightarrow> hash \<Rightarrow> hash \<Rightarrow> 'w \<Rightarrow>
     sol_raw transaction_result res \<times> 'w" where
  "sol_timelock_Execute S C auth bop timelockAddress predecessor salt w =
     run_after (execute_batch_builder S C w auth bop timelockAddress predecessor salt) (\<lambda>instruction.
       bindW (wrapW (Wrapf ''unable to call execute operation instruction: %w'') (sendAndConfirm S C auth instruction))
         (\<lambda>r w. (Inr (sol_sent r), w))) w"

definition sol_timelock_executor_iface ::
  "'m solana_mcm_env_scheme \<Rightarrow> ('w, 't) sol_rpc \<Rightarrow> 'w \<Rightarrow> byte list \<Rightarrow> (sol_raw transaction_result, 'w) timelock_executor" where
  "sol_timelock_executor_iface S C w0 auth =
     \<lparr>te_IsOperationPending = sol_IsOperationPending S C w0, te_IsOperationReady = sol_IsOperationReady S C w0,
      te_IsOperationDone = sol_IsOperationDone S C w0, te_Execute = sol_timelock_Execute S C auth\<rparr>"

section \<open>Instructions with labels\<close>

record labeled_instruction =
  li_Instruction :: solana_instruction
  li_label :: string

definition solanaInstructions :: "labeled_instruction list \<Rightarrow> solana_instruction list" where
  "solanaInstructions c = map li_Instruction c"

definition addInstruction ::
  "'m solana_mcm_env_scheme \<Rightarrow> string \<Rightarrow> ix_builder \<Rightarrow> labeled_instruction list \<Rightarrow> labeled_instruction list res" where
  "addInstruction S label instructionBuilder c =
     bindE (wrapE (Wrapf ''unable to validate and build %s instruction: %w'')
              (validateAndBuildSolanaInstruction S instructionBuilder)) (\<lambda>instruction.
       Inr (c @ [\<lparr>li_Instruction = instruction, li_label = label\<rparr>]))"

text \<open>One transaction per instruction; the signature of the last one is kept.\<close>

fun send_loop ::
  "'m solana_mcm_env_scheme \<Rightarrow> ('w, 't) sol_rpc \<Rightarrow> byte list \<Rightarrow> string \<Rightarrow> labeled_instruction list \<Rightarrow> 'w \<Rightarrow>
     string res \<times> 'w" where
  "send_loop S C auth signature [] w = (Inr signature, w)"
| "send_loop S C auth signature (instruction # rest) w =
     bindW (wrapW (Wrapf ''unable to send instruction %d - %s: %w'')
              (sendAndConfirmInstructions S C auth [li_Instruction instruction] []))
       (\<lambda>(newSignature, _). send_loop S C auth newSignature rest) w"

definition sendInstructions ::
  "'m solana_mcm_env_scheme \<Rightarrow> ('w, 't) sol_rpc \<Rightarrow> byte list \<Rightarrow> labeled_instruction list \<Rightarrow> 'w \<Rightarrow> string res \<times> 'w" where
  "sendInstructions S C auth c w = (if auth = [] then (Inr [], w) else send_loop S C auth [] c w)"

section \<open>Configurer\<close>

record sol_configurer =
  cf_instructions :: "labeled_instruction list"
  cf_chainSelector :: chain_selector
  cf_auth :: "byte list"
  cf_skipSend :: bool
  cf_authorityAccount :: pubkey

type_synonym sol_configurer_option = "sol_configurer \<Rightarrow> sol_configurer"

definition WithDoNotSendInstructionsOnChain :: sol_configurer_option where
  "WithDoNotSendInstructionsOnChain c = c\<lparr>cf_skipSend := True\<rparr>"

definition WithAuthorityAccount :: "pubkey \<Rightarrow> sol_configurer_option" where
  "WithAuthorityAccount authorityAccount c = c\<lparr>cf_authorityAccount := authorityAccount\<rparr>"

definition sol_NewConfigurer ::
  "'m solana_mcm_env_scheme \<Rightarrow> byte list \<Rightarrow> chain_selector \<Rightarrow> sol_configurer_option list \<Rightarrow> sol_configurer" where
  "sol_NewConfigurer S auth chainSelector options =
     foldl (\<lambda>c opt. opt c)
       \<lparr>cf_instructions = [], cf_chainSelector = chainSelector, cf_auth = auth, cf_skipSend = False,
        cf_authorityAccount = AuthPublicKey S auth\<rparr> options"

definition solanaSignerAddresses :: "address list \<Rightarrow> address list" where
  "solanaSignerAddresses evmAddresses = evmAddresses"

definition maxAppendSignerBatchSize :: int where
  "maxAppendSignerBatchSize = 20"

definition preloadSigners ::
  "'m solana_mcm_env_scheme \<Rightarrow> pubkey \<Rightarrow> sol_configurer \<Rightarrow> pda_seed \<Rightarrow> address list \<Rightarrow> pubkey \<Rightarrow> pubkey \<Rightarrow>
     labeled_instruction list \<Rightarrow> labeled_instruction list res" where
  "preloadSigners S pid c mcmName signerAddresses configPDA configSignersPDA is =
     (let authority = cf_authorityAccount c in
      bindE (addInstruction S ''initSigners''
               (mcm_builder S pid (InitSigners mcmName (word_of_nat (length signerAddresses))
                  [configPDA, configSignersPDA, authority, SystemProgramID S])) is) (\<lambda>is.
      bindE (case chunkIndexes (int (length signerAddresses)) maxAppendSignerBatchSize of
               None \<Rightarrow> Inl (Panic ''endless loop'')
             | Some indexes \<Rightarrow> Inr indexes) (\<lambda>indexes.
      bindE (foldE (\<lambda>is (i, chunkIndex).
               addInstruction S (''appendSigners'' @ nat_text i)
                 (mcm_builder S pid (AppendSigners mcmName (slice signerAddresses chunkIndex)
                    [configPDA, configSignersPDA, authority])) is) is (enumerate 0 indexes)) (\<lambda>is.
        addInstruction S ''finalizeSigners''
          (mcm_builder S pid (FinalizeSigners mcmName [configPDA, configSignersPDA, authority])) is))))"

text \<open>What \<open>SetConfig\<close> does before the deferred reset of the instructions is registered.\<close>

definition set_config_addresses ::
  "'m solana_mcm_env_scheme \<Rightarrow> string \<Rightarrow> config \<Rightarrow>
     (pubkey \<times> pda_seed \<times> (u8 list \<times> u8 list \<times> address list \<times> u8 list) \<times> pubkey \<times> pubkey \<times> pubkey \<times> pubkey) res" where
  "set_config_addresses S mcmAddress cfg =
     bindE (ParseContractAddress S mcmAddress) (\<lambda>(programID, pdaSeed).
     bindE (wrapE (Wrapf ''unable to extract set config inputs: %w'') (ExtractSetConfigInputs S cfg))
       (\<lambda>(groupQuorums, groupParents, signerAddresses, signerGroups).
     bindE (guardE (int (length signerAddresses) \<le> MaxNumSigners S) (Errorf ''too many signers (max %d)'')) (\<lambda>_.
     bindE (FindConfigPDA S programID pdaSeed) (\<lambda>configPDA.
     bindE (FindRootMetadataPDA S programID pdaSeed) (\<lambda>rootMetadataPDA.
     bindE (FindExpiringRootAndOpCountPDA S programID pdaSeed) (\<lambda>expiringRootAndOpCountPDA.
     bindE (FindConfigSignersPDA S programID pdaSeed) (\<lambda>configSignersPDA.
       Inr (programID, pdaSeed, (groupQuorums, groupParents, signerAddresses, signerGroups), configPDA, rootMetadataPDA,
            expiringRootAndOpCountPDA, configSignersPDA))))))))"

definition set_config_instructions ::
  "'m solana_mcm_env_scheme \<Rightarrow> sol_configurer \<Rightarrow> bool \<Rightarrow>
     (pubkey \<times> pda_seed \<times> (u8 list \<times> u8 list \<times> address list \<times> u8 list) \<times> pubkey \<times> pubkey \<times> pubkey \<times> pubkey) \<Rightarrow>
     labeled_instruction list res" where
  "set_config_instructions S c clearRoot =
     (\<lambda>(programID, pdaSeed, (groupQuorums, groupParents, signerAddresses, signerGroups), configPDA, rootMetadataPDA,
        expiringRootAndOpCountPDA, configSignersPDA).
      bindE (wrapE (Wrapf ''unable to preload signatures: %w'')
               (preloadSigners S programID c pdaSeed (solanaSignerAddresses signerAddresses) configPDA configSignersPDA
                  (cf_instructions c))) (\<lambda>is.
        addInstruction S ''setConfig''
          (mcm_builder S programID (SetConfigIx pdaSeed signerGroups groupQuorums groupParents clearRoot
             [configPDA, configSignersPDA, rootMetadataPDA, expiringRootAndOpCountPDA, cf_authorityAccount c,
              SystemProgramID S])) is))"

definition sol_built :: "string \<Rightarrow> sol_raw \<Rightarrow> sol_raw transaction_result" where
  "sol_built signature rawData =
     \<lparr>tr_Hash = signature, tr_ChainFamily = Some FamilySolana, tr_RawData = Some rawData\<rparr>"

text \<open>The configurer after the call is part of the result: the deferred function empties its instructions.\<close>

definition sol_SetConfig ::
  "'m solana_mcm_env_scheme \<Rightarrow> ('w, 't) sol_rpc \<Rightarrow> sol_configurer \<Rightarrow> string \<Rightarrow> config \<Rightarrow> bool \<Rightarrow> 'w \<Rightarrow>
     sol_raw transaction_result res \<times> sol_configurer \<times> 'w" where
  "sol_SetConfig S C c mcmAddress cfg clearRoot w =
     (case set_config_addresses S mcmAddress cfg of
        Inl err \<Rightarrow> (Inl err, c, w)
      | Inr addresses \<Rightarrow>
          let (result, w') =
            run_after (set_config_instructions S c clearRoot addresses) (\<lambda>is.
              bindW (if cf_skipSend c then (\<lambda>w. (Inr [], w))
                     else wrapW (Wrapf ''unable to set config: %w'') (sendInstructions S C (cf_auth c) is))
                (\<lambda>signature w. (Inr (sol_built signature (RawInstructions (solanaInstructions is))), w))) w
          in (result, c\<lparr>cf_instructions := []\<rparr>, w'))"

section \<open>Timelock configurer\<close>

record sol_timelock_configurer =
  tcf_instructions :: "labeled_instruction list"
  tcf_auth :: "byte list"
  tcf_skipSend :: bool
  tcf_authorityAccount :: pubkey

type_synonym sol_timelock_configurer_option = "sol_timelock_configurer \<Rightarrow> sol_timelock_configurer"

definition WithDoNotSendTimelockInstructionsOnChain :: sol_timelock_configurer_option where
  "WithDoNotSendTimelockInstructionsOnChain c = c\<lparr>tcf_skipSend := True\<rparr>"

definition WithTimelockAuthorityAccount :: "pubkey \<Rightarrow> sol_timelock_configurer_option" where
  "WithTimelockAuthorityAccount authorityAccount c = c\<lparr>tcf_authorityAccount := authorityAccount\<rparr>"

definition sol_NewTimelockConfigurer ::
  "'m solana_mcm_env_scheme \<Rightarrow> byte list \<Rightarrow> sol_timelock_configurer_option list \<Rightarrow> sol_timelock_configurer" where
  "sol_NewTimelockConfigurer S auth options =
     foldl (\<lambda>c opt. opt c)
       \<lparr>tcf_instructions = [], tcf_auth = auth, tcf_skipSend = False, tcf_authorityAccount = AuthPublicKey S auth\<rparr> options"

definition update_delay_builder ::
  "'m solana_mcm_env_scheme \<Rightarrow> sol_timelock_configurer \<Rightarrow> string \<Rightarrow> u64 \<Rightarrow> ix_builder res" where
  "update_delay_builder S c timelockAddress newDelay =
     bindE (wrapE (Wrapf ''unable to parse contract address: %w'') (ParseContractAddress S timelockAddress))
       (\<lambda>(programID, timelockID).
     bindE (wrapE (Wrapf ''unable to find timelock config pda: %w'') (FindTimelockConfigPDA S programID timelockID))
       (\<lambda>configPDA.
       Inr (timelock_builder S programID (UpdateDelayIx timelockID newDelay [configPDA, AuthPublicKey S (tcf_auth c)]))))"

definition sol_UpdateDelay ::
  "'m solana_mcm_env_scheme \<Rightarrow> ('w, 't) sol_rpc \<Rightarrow> sol_timelock_configurer \<Rightarrow> string \<Rightarrow> u64 \<Rightarrow> 'w \<Rightarrow>
     sol_raw transaction_result res \<times> 'w" where
  "sol_UpdateDelay S C c timelockAddress newDelay =
     run_after (update_delay_builder S c timelockAddress newDelay) (\<lambda>instruction.
       bindW (wrapW (Wrapf ''unable to update delay: %w'') (sendAndConfirm S C (tcf_auth c) instruction))
         (\<lambda>r w. (Inr (sol_sent r), w)))"

definition getAccountOwner :: "('w, 't, 'x) sol_rpc_scheme \<Rightarrow> 'w \<Rightarrow> pubkey \<Rightarrow> pubkey res" where
  "getAccountOwner C w account =
     bindE (wrapE (Wrapf ''unable to get account info for %s: %w'') (ext (ReadAccountOwner C account w))) (\<lambda>owner.
       case owner of None \<Rightarrow> Inl (Errorf ''account not found: %s'') | Some o' \<Rightarrow> Inr o')"

text \<open>\<open>solana.Meta\<close> of the target: neither writable nor a signer.\<close>

definition newGrantRoleInstructionBuilder ::
  "'m solana_mcm_env_scheme \<Rightarrow> ('w, 't, 'x) sol_rpc_scheme \<Rightarrow> 'w \<Rightarrow> string \<Rightarrow> timelock_role \<Rightarrow> pubkey \<Rightarrow> pubkey \<Rightarrow>
     ix_builder res" where
  "newGrantRoleInstructionBuilder S C w timelockAddress role target authority =
     bindE (wrapE (Wrapf ''unable to parse contract address: %w'') (ParseContractAddress S timelockAddress))
       (\<lambda>(programID, timelockID).
     bindE (TimelockRoleToBinding role) (\<lambda>bindingRole.
     bindE (wrapE (Wrapf ''unable to find timelock config pda: %w'') (FindTimelockConfigPDA S programID timelockID))
       (\<lambda>configPDA.
     bindE (wrapE (Wrapf ''unable to read timelock config: %w'') (GetTimelockConfig C w configPDA)) (\<lambda>config.
     bindE (wrapE (Wrapf ''unable to resolve role access controller: %w'') (getRoleAccessController config bindingRole))
       (\<lambda>roleAccessController.
     bindE (wrapE (Wrapf ''unable to resolve access controller program id: %w'')
              (getAccountOwner C w roleAccessController)) (\<lambda>accessControllerProgramID.
     let ix = BatchAddAccess timelockID bindingRole
                [configPDA, accessControllerProgramID, roleAccessController, authority] in
       Inr (TimelockBuilder programID ix
              (TimelockAccounts S ix @ [\<lparr>am_PublicKey = target, am_IsWritable = False, am_IsSigner = False\<rparr>]))))))))"

definition grant_role_target :: "'m solana_env_scheme \<Rightarrow> string \<Rightarrow> pubkey res" where
  "grant_role_target S targetAddress =
     (case PublicKeyFromBase58 S targetAddress of
        Inl err \<Rightarrow> Inl (Errorf ''invalid target address: %s'')
      | Inr target \<Rightarrow> if target = 0 then Inl (Errorf ''invalid target address: %s'') else Inr target)"

definition grant_role_raw ::
  "'m solana_env_scheme \<Rightarrow> sol_timelock_configurer \<Rightarrow> labeled_instruction list \<Rightarrow> sol_raw res" where
  "grant_role_raw S c is =
     (if tcf_skipSend c
      then case is of
             [] \<Rightarrow> Inl (Panic ''index out of range'')
           | first # _ \<Rightarrow>
               wrapE (Wrapf ''unable to build grant role transaction: %w'')
                 (bindE (NewTransactionFromInstruction S (li_Instruction first) ''RBACTimelock''
                           [''RBACTimelock'', ''GrantRole'']) (\<lambda>tx. Inr (RawTransaction tx)))
      else Inr (RawInstructions (solanaInstructions is)))"

definition sol_GrantRole ::
  "'m solana_mcm_env_scheme \<Rightarrow> ('w, 't) sol_rpc \<Rightarrow> sol_timelock_configurer \<Rightarrow> string \<Rightarrow> timelock_role \<Rightarrow> string \<Rightarrow> 'w \<Rightarrow>
     sol_raw transaction_result res \<times> sol_timelock_configurer \<times> 'w" where
  "sol_GrantRole S C c timelockAddress role targetAddress w =
     (case bindE (grant_role_target S targetAddress) (\<lambda>target.
             newGrantRoleInstructionBuilder S C w timelockAddress role target (tcf_authorityAccount c)) of
        Inl err \<Rightarrow> (Inl err, c, w)
      | Inr instructionBuilder \<Rightarrow>
          let (result, w') =
            run_after (wrapE (Wrapf ''unable to build grant role instruction: %w'')
                         (addInstruction S ''GrantRole'' instructionBuilder (tcf_instructions c))) (\<lambda>is.
              bindW (if tcf_skipSend c then (\<lambda>w. (Inr [], w))
                     else wrapW (Wrapf ''unable to grant role: %w'') (sendInstructions S C (tcf_auth c) is))
                (\<lambda>signature w.
                   (bindE (grant_role_raw S c is) (\<lambda>rawData. Inr (sol_built signature rawData)), w))) w
          in (result, c\<lparr>tcf_instructions := []\<rparr>, w'))"

section \<open>Simulator\<close>

text \<open>
  The executor of a simulator collects the instructions it would send, so its world is the list of
  collected instructions next to the chain, which it only reads.
\<close>

definition simulated_result :: sol_tx_result where
  "simulated_result = \<lparr>res_Transaction = Some (Inr []), res_Meta = Some None\<rparr>"

definition collectInstructions ::
  "'m solana_mcm_env_scheme \<Rightarrow> (solana_instruction list \<times> 'w) send_fn" where
  "collectInstructions S instructionBuilder = (\<lambda>(instructions, w).
     case wrapE (Wrapf ''unable to validate and build instruction: %w'')
            (validateAndBuildSolanaInstruction S instructionBuilder) of
       Inl err \<Rightarrow> (Inl err, instructions, w)
     | Inr instruction \<Rightarrow> (Inr (''<simulated-transaction>'', simulated_result), instructions @ [instruction], w))"

record 'w sol_simulator =
  sim_executor :: "(solana_instruction list \<times> 'w) sol_executor"
  sim_instructions :: "solana_instruction list"

definition sol_NewSimulator :: "'m solana_mcm_env_scheme \<Rightarrow> 'w sol_executor \<Rightarrow> 'w sol_simulator" where
  "sol_NewSimulator S e =
     \<lparr>sim_executor = withSendAndConfirmFn e (collectInstructions S), sim_instructions = []\<rparr>"

text \<open>\<open>SimulateError\<close> is the error with the node's answer.\<close>

definition simulate ::
  "('w, 't, 'x) sol_rpc_scheme \<Rightarrow> byte list \<Rightarrow> solana_instruction list \<Rightarrow> 'w \<Rightarrow> unit res" where
  "simulate C auth instructions w =
     bindE (wrapE (Wrapf ''unable to simulate instruction: %w'') (ext (SimulateTransaction C instructions auth w)))
       (\<lambda>resultErr. case resultErr of None \<Rightarrow> Inr () | Some err \<Rightarrow> Inl (External err))"

definition sol_SimulateSetRoot ::
  "'m solana_mcm_env_scheme \<Rightarrow> ('w, 't, 'x) sol_rpc_scheme \<Rightarrow> 'w \<Rightarrow> 'w sol_simulator \<Rightarrow> chain_metadata \<Rightarrow> hash list \<Rightarrow> hash \<Rightarrow>
     u32 \<Rightarrow> signature list \<Rightarrow> unit res \<times> 'w sol_simulator" where
  "sol_SimulateSetRoot S C w s metadata proof merkleRoot validUntil sortedSignatures =
     (case sol_SetRoot S C snd (sim_executor s) metadata proof merkleRoot validUntil sortedSignatures ([], w) of
        (Inl err, instructions, _) \<Rightarrow> (Inl err, s\<lparr>sim_instructions := instructions\<rparr>)
      | (Inr _, instructions, _) \<Rightarrow>
          (simulate C (sx_auth (sim_executor s)) instructions w, s\<lparr>sim_instructions := instructions\<rparr>))"

text \<open>The instruction is added to those of earlier calls. Accounts that are nil are not built.\<close>

definition sol_SimulateOperation ::
  "'m solana_env_scheme \<Rightarrow> ('w, 't, 'x) sol_rpc_scheme \<Rightarrow> 'w \<Rightarrow> 'w sol_simulator \<Rightarrow> operation \<Rightarrow>
     unit res \<times> 'w sol_simulator" where
  "sol_SimulateOperation S C w s op =
     (case bindE (ParseAdditionalFields S (tx_AdditionalFields (op_Transaction op))) (\<lambda>additionalFields.
           bindE (wrapE (Wrapf ''unable to prase program id from To field: %w'')
                    (ParseProgramID S (tx_To (op_Transaction op)))) (\<lambda>toProgramID.
           bindE (mapE deref (sf_Accounts additionalFields)) (\<lambda>accounts.
             Inr \<lparr>ix_ProgramID = toProgramID, ix_Accounts = accounts, ix_Data = Inr (tx_Data (op_Transaction op))\<rparr>))) of
        Inl err \<Rightarrow> (Inl err, s)
      | Inr instruction \<Rightarrow>
          let instructions = sim_instructions s @ [instruction] in
          (simulate C (sx_auth (sim_executor s)) instructions w, s\<lparr>sim_instructions := instructions\<rparr>))"

end
