(* ===== verification/SolanaExecution.thy ===== *)
theory SolanaExecution
  imports SolanaConfigurer
begin

text \<open>
  What the Solana executor sends, from the proposal down to the arguments of the MCM program's
  instructions: operations and roots that the program's own check accepts, signatures uploaded whole
  and within a bounded number of calls.
\<close>

section \<open>The encoder of a Solana chain\<close>

lemma proposal_encoder_sol:
  assumes encs: "GetEncoders (with_solana T) p = Inr encoders" and fam: "ChainDetails T sel = Inr FamilySolana"
    and md: "gm_get (bp_ChainMetadata p) sel \<noteq> None" and wf: "gm_wf (bp_ChainMetadata p)"
  shows "gm_get0 encoders sel None = Some (sol_NewEncoder T sel (gm_get0 (TransactionCounts p) sel 0)
    (bp_OverridePreviousRoot p))"
proof -
  have "newEncoder (with_solana T) sel n ov sim = Inr (Some (sol_NewEncoder T sel n ov))" for n ov sim
    using fam by (simp add: newEncoder_def GetChainSelectorFamily_def supportedFamilies_def)
  moreover obtain m where "gm_get (bp_ChainMetadata p) sel = Some m" using md by blast
  ultimately show ?thesis
    unfolding gm_get0_def [of encoders] GetEncoders_get(1) [OF encs wf] by simp
qed

lemma sol_NewEncoder_methods:
  "enc_HashOperation (sol_NewEncoder S sel n ov) =
     sol_HashOperation S \<lparr>se_ChainSelector = sel, se_TxCount = n, se_OverridePreviousRoot = ov\<rparr>"
  "enc_HashMetadata (sol_NewEncoder S sel n ov) =
     sol_HashMetadata S \<lparr>se_ChainSelector = sel, se_TxCount = n, se_OverridePreviousRoot = ov\<rparr>"
  by (simp_all add: sol_NewEncoder_def Let_def)

section \<open>The checks of the MCM program\<close>

text \<open>
  The program hashes the arguments of \<open>execute\<close> and \<open>set_root\<close> with the accounts it is given: the
  multisig's configuration is the first account of \<open>execute\<close>, the target the fourth, and the accounts
  of the call follow the six of its own.
\<close>

definition execute_checks :: "'s solana_env_scheme \<Rightarrow> hash \<Rightarrow> mcm_ix \<Rightarrow> account_meta list \<Rightarrow> bool" where
  "execute_checks S rt ix remaining =
     (case ix of
        ExecuteIx seed chainId nonce data proof keys \<Rightarrow>
          foldl (hashPair (Keccak256Hash S))
            (Keccak256Hash S
               (be_bytes 32 (Keccak256Hash S (string_bytes ''MANY_CHAIN_MULTI_SIG_DOMAIN_SEPARATOR_OP_SOLANA'')) @
                numToU64LePaddedEncoding chainId @ be_bytes 32 (keys ! 0) @ numToU64LePaddedEncoding nonce @
                be_bytes 32 (keys ! 3) @ numToU64LePaddedEncoding (word_of_nat (length data)) @ data @
                numToU64LePaddedEncoding (word_of_nat (length remaining)) @
                concat (map serializeAccountMeta remaining))) proof = rt
      | _ \<Rightarrow> False)"

definition root_metadata_checks :: "'s solana_env_scheme \<Rightarrow> hash \<Rightarrow> root_metadata_input \<Rightarrow> hash list \<Rightarrow> bool" where
  "root_metadata_checks S rt m proof \<longleftrightarrow>
     foldl (hashPair (Keccak256Hash S))
       (Keccak256Hash S
          (be_bytes 32 (Keccak256Hash S (string_bytes ''MANY_CHAIN_MULTI_SIG_DOMAIN_SEPARATOR_METADATA_SOLANA'')) @
           numToU64LePaddedEncoding (rmi_ChainId m) @ be_bytes 32 (rmi_Multisig m) @
           numToU64LePaddedEncoding (rmi_PreOpCount m) @ numToU64LePaddedEncoding (rmi_PostOpCount m) @
           boolToPaddedEncoding (rmi_OverridePreviousRoot m))) proof = rt"

text \<open>
  The SDK finds an address off the curve by trying bumps. It refuses more than 15 seeds, the bump being
  the sixteenth, and seeds of more than 32 bytes; the seeds of the accounts here are a name and the 32
  bytes of the multisig's id.
\<close>

definition seeds_allowed :: "byte list list \<Rightarrow> bool" where
  "seeds_allowed seeds \<longleftrightarrow> length seeds \<le> 15 \<and> list_all (\<lambda>s. length s \<le> 32) seeds"

definition derives :: "'s solana_env_scheme \<Rightarrow> bool" where
  "derives S \<longleftrightarrow> (\<forall>seeds pid. seeds_allowed seeds \<longrightarrow> (\<exists>pda. FindProgramAddress S seeds pid = Inr pda))"

lemmas pda_defs = FindSignerPDA_def FindConfigPDA_def FindConfigSignersPDA_def FindRootMetadataPDA_def
  FindExpiringRootAndOpCountPDA_def FindRootSignaturesPDA_def FindSeenSignedHashesPDA_def FindTimelockConfigPDA_def
  FindTimelockOperationPDA_def FindTimelockBypasserOperationPDA_def FindTimelockSignerPDA_def findPDA_def

lemma derives_pda:
  assumes "derives S" and "length name \<le> 32" and "ParseContractAddress S a = Inr (pid, seed)"
  shows "\<exists>pda. findPDA S pid [string_bytes name, seed] = Inr pda"
proof -
  have "seeds_allowed [string_bytes name, seed]"
    using ParseContractAddress_seed [OF assms(3)] assms(2) by (simp add: seeds_allowed_def seed_wf_def)
  with assms(1) show ?thesis by (auto simp: derives_def findPDA_def)
qed

lemma derivesE:
  assumes "derives S" and "ParseContractAddress S a = Inr (pid, seed)"
  obtains c m x s where "FindConfigPDA S pid seed = Inr c" and "FindRootMetadataPDA S pid seed = Inr m"
    and "FindExpiringRootAndOpCountPDA S pid seed = Inr x" and "FindSignerPDA S pid seed = Inr s"
  using that derives_pda [OF assms(1) _ assms(2), of "''multisig_config''"]
    derives_pda [OF assms(1) _ assms(2), of "''root_metadata''"]
    derives_pda [OF assms(1) _ assms(2), of "''expiring_root_and_op_count''"]
    derives_pda [OF assms(1) _ assms(2), of "''multisig_signer''"]
  unfolding FindConfigPDA_def FindRootMetadataPDA_def FindExpiringRootAndOpCountPDA_def FindSignerPDA_def by auto

text \<open>The six accounts of \<open>execute\<close>: the program's own for the multisig, the target, the signer, the payer.\<close>

definition execute_accounts ::
  "'s solana_env_scheme \<Rightarrow> pubkey \<Rightarrow> pubkey \<Rightarrow> pda_seed \<Rightarrow> operation \<Rightarrow> pubkey list \<Rightarrow> bool" where
  "execute_accounts S payer pid seed op keys \<longleftrightarrow>
     (\<exists>config meta expiring to signer. keys = [config, meta, expiring, to, signer, payer] \<and>
        FindConfigPDA S pid seed = Inr config \<and> FindRootMetadataPDA S pid seed = Inr meta \<and>
        FindExpiringRootAndOpCountPDA S pid seed = Inr expiring \<and>
        ParseProgramID S (tx_To (op_Transaction op)) = Inr to \<and> FindSignerPDA S pid seed = Inr signer)"

text \<open>An operation that could be hashed is built, and with the parts that were hashed.\<close>

lemma execute_builder_hashed:
  assumes "derives S" and "sx_Encoder x = Some enc" and "sol_HashOperation S enc n md op = Inr h"
    and "foldl (hashPair (Keccak256Hash S)) h proof = rt"
  shows "\<exists>pid ix accs. execute_builder S x md n proof op = Inr (McmBuilder pid ix (McmAccounts S ix @ accs)) \<and>
    (\<exists>seed keys. ParseContractAddress S (cm_MCMAddress md) = Inr (pid, seed) \<and>
       execute_accounts S (AuthPublicKey S (sx_auth x)) pid seed op keys \<and>
       ix = ExecuteIx seed (se_ChainSelector enc) (ucast n) (tx_Data (op_Transaction op)) proof keys) \<and>
    execute_checks S rt ix accs"
proof -
  from assms(3) obtain pid seed pda to flds accs where
    1: "ParseContractAddress S (cm_MCMAddress md) = Inr (pid, seed)" "FindConfigPDA S pid seed = Inr pda"
      "ParseProgramID S (tx_To (op_Transaction op)) = Inr to"
      "ParseAdditionalFields S (tx_AdditionalFields (op_Transaction op)) = Inr flds"
      "mapE deref (sf_Accounts flds) = Inr accs" and
    h: "h = calculateHash S (sol_op_buffers S (se_ChainSelector enc) pda n to (tx_Data (op_Transaction op)) accs)"
    unfolding sol_HashOperation_def
    by (elim bindE_InrE) (simp only: wrapE_Inr_iff split_paired_all prod.case bindE_Inr_iff, blast)
  obtain m r s where 2: "FindRootMetadataPDA S pid seed = Inr m" "FindExpiringRootAndOpCountPDA S pid seed = Inr r"
    "FindSignerPDA S pid seed = Inr s" using derivesE [OF assms(1) 1(1)] by metis
  let ?keys = "[pda, m, r, to, s, AuthPublicKey S (sx_auth x)]"
  let ?ix = "ExecuteIx seed (se_ChainSelector enc) (ucast n) (tx_Data (op_Transaction op)) proof ?keys"
  have "execute_builder S x md n proof op = Inr (McmBuilder pid ?ix (McmAccounts S ?ix @ accs))"
    using 1 2 assms(2) by (simp add: execute_builder_def deref_simps Let_def)
  moreover have "execute_checks S rt ?ix accs"
    using assms(4) by (simp add: execute_checks_def h calculateHash_def sol_op_buffers_def)
  moreover have "execute_accounts S (AuthPublicKey S (sx_auth x)) pid seed op ?keys"
    using 1 2 unfolding execute_accounts_def by blast
  ultimately show ?thesis using 1(1) by blast
qed

text \<open>The metadata of a Solana root: what was hashed is what \<open>solanaMetadata\<close> sends.\<close>

lemma solanaMetadata_hashed:
  assumes "sol_HashMetadata S enc md = Inr h" and "foldl (hashPair (Keccak256Hash S)) h proof = rt"
    and "ParseContractAddress S (cm_MCMAddress md) = Inr (pid, seed)" and "FindConfigPDA S pid seed = Inr pda"
  shows "root_metadata_checks S rt (solanaMetadata enc md pda) (solanaProof proof)"
  using assms
  by (simp add: sol_HashMetadata_def root_metadata_checks_def solanaMetadata_def solanaProof_def calculateHash_def
      sol_metadata_buffers_def)

section \<open>Calls sent one after the other\<close>

text \<open>A run of calls of an executor: what was sent, in order, and whether it succeeded.\<close>

inductive sends :: "'m solana_mcm_env_scheme \<Rightarrow> 'w sol_executor \<Rightarrow> pubkey \<Rightarrow> 'w \<Rightarrow> (mcm_ix \<times> bool) list \<Rightarrow> 'w \<Rightarrow> bool"
  for S e pid where
  sends_Nil: "sends S e pid w [] w"
| sends_Ok: "send_mcm S e pid call w = (Inr r, v) \<Longrightarrow> sends S e pid v tr u \<Longrightarrow> sends S e pid w ((call, True) # tr) u"
| sends_Fail: "send_mcm S e pid call w = (Inl err, v) \<Longrightarrow> sends S e pid v tr u \<Longrightarrow> sends S e pid w ((call, False) # tr) u"

lemma sends_append: "sends S e pid w tr v \<Longrightarrow> sends S e pid v tr' u \<Longrightarrow> sends S e pid w (tr @ tr') u"
  by (induction rule: sends.induct) (auto intro: sends.intros)

lemmas sends_one = sends_Ok [OF _ sends_Nil] sends_Fail [OF _ sends_Nil]

lemma sends_call: "send_mcm S e pid call w = (q, v) \<Longrightarrow> sends S e pid w [(call, \<not> isl q)] v"
  by (cases q) (auto intro: sends_one)

text \<open>A loop over such calls ends after as many calls as it has items, or earlier with a failed one.\<close>

lemma forW_sends:
  assumes "forW (\<lambda>x. wrapW g (send_mcm S e pid (f x))) xs w = (r, u)"
  shows "\<exists>tr. sends S e pid w tr u \<and> length tr \<le> length xs \<and>
    (r = Inr () \<longrightarrow> tr = map (\<lambda>x. (f x, True)) xs) \<and> map fst tr = map f (take (length tr) xs)"
  using assms
proof (induction xs arbitrary: w)
  case Nil
  then show ?case by (auto intro: sends_Nil)
next
  case (Cons x xs)
  obtain q v where c: "send_mcm S e pid (f x) w = (q, v)" by fastforce
  show ?case
  proof (cases q)
    case (Inl err)
    with Cons.prems c have "r = Inl (g err)" "u = v" by (simp_all add: bindW_def wrapW_def)
    with c Inl show ?thesis by (intro exI [of _ "[(f x, False)]"]) (auto intro: sends_one)
  next
    case (Inr y)
    with c have "wrapW g (send_mcm S e pid (f x)) w = (Inr y, v)" by simp
    with Cons.prems have "forW (\<lambda>x. wrapW g (send_mcm S e pid (f x))) xs v = (r, u)" by simp
    from Cons.IH [OF this] obtain tr where "sends S e pid v tr u" "length tr \<le> length xs"
      "r = Inr () \<longrightarrow> tr = map (\<lambda>x. (f x, True)) xs" "map fst tr = map f (take (length tr) xs)" by blast
    with c Inr show ?thesis by (intro exI [of _ "(f x, True) # tr"]) (auto intro: sends_Ok)
  qed
qed

section \<open>The upload of signatures\<close>

definition init_call :: "'m solana_mcm_env_scheme \<Rightarrow> 'w sol_executor \<Rightarrow> pda_seed \<Rightarrow> hash \<Rightarrow> u32 \<Rightarrow> signature list \<Rightarrow> pubkey \<Rightarrow> mcm_ix"
where
  "init_call S e name rt validUntil sigs pda =
     InitSignatures name rt validUntil (word_of_nat (length sigs)) [pda, AuthPublicKey S (sx_auth e), SystemProgramID S]"

definition append_call :: "'m solana_mcm_env_scheme \<Rightarrow> 'w sol_executor \<Rightarrow> pda_seed \<Rightarrow> hash \<Rightarrow> u32 \<Rightarrow> pubkey \<Rightarrow> signature list \<Rightarrow> mcm_ix"
where
  "append_call S e name rt validUntil pda chunk =
     AppendSignatures name rt validUntil chunk [pda, AuthPublicKey S (sx_auth e)]"

definition finalize_call :: "'m solana_mcm_env_scheme \<Rightarrow> 'w sol_executor \<Rightarrow> pda_seed \<Rightarrow> hash \<Rightarrow> u32 \<Rightarrow> pubkey \<Rightarrow> mcm_ix" where
  "finalize_call S e name rt validUntil pda =
     FinalizeSignatures name rt validUntil [pda, AuthPublicKey S (sx_auth e)]"

definition clear_call :: "'m solana_mcm_env_scheme \<Rightarrow> 'w sol_executor \<Rightarrow> pda_seed \<Rightarrow> hash \<Rightarrow> u32 \<Rightarrow> pubkey \<Rightarrow> mcm_ix" where
  "clear_call S e name rt validUntil pda =
     ClearSignatures name rt validUntil [pda, AuthPublicKey S (sx_auth e)]"

lemmas upload_call_defs = init_call_def append_call_def finalize_call_def clear_call_def

text \<open>A chunk of signatures is not empty and not longer than the program allows.\<close>

definition sig_chunks :: "'m solana_mcm_env_scheme \<Rightarrow> signature list \<Rightarrow> signature list list \<Rightarrow> bool" where
  "sig_chunks S sigs chunks \<longleftrightarrow> concat chunks = solanaSignatures sigs \<and>
     (\<forall>c \<in> set chunks. c \<noteq> [] \<and> int (length c) \<le> MaxAppendSignatureBatchSize S)"

lemma length_concat_nonempty: "(\<And>c. c \<in> set cs \<Longrightarrow> c \<noteq> []) \<Longrightarrow> length cs \<le> length (concat cs)"
proof (induction cs)
  case (Cons c cs)
  then have "c \<noteq> []" "length cs \<le> length (concat cs)" by simp_all
  then show ?case by (cases c) simp_all
qed simp

lemma length_solanaSignatures: "length (solanaSignatures sigs) = length sigs"
  by (simp add: solanaSignatures_def)

lemma append_and_finalize_sends:
  assumes pos: "0 < MaxAppendSignatureBatchSize S"
    and run: "append_and_finalize S e pid name rt validUntil sigs pda w = (r, u)"
  shows "\<exists>tr chunks. sends S e pid w tr u \<and> sig_chunks S sigs chunks \<and> length tr \<le> length sigs + 1 \<and>
    (\<forall>c \<in> set tr. (\<exists>x. fst c = append_call S e name rt validUntil pda x) \<or> fst c = finalize_call S e name rt validUntil pda) \<and>
    (r = Inr () \<longrightarrow> tr = map (\<lambda>c. (append_call S e name rt validUntil pda c, True)) chunks @
                          [(finalize_call S e name rt validUntil pda, True)])"
proof -
  let ?sigs = "solanaSignatures sigs"
  let ?app = "\<lambda>ab. append_call S e name rt validUntil pda (slice ?sigs ab)" and ?fin = "finalize_call S e name rt validUntil pda"
  obtain idx where idx: "chunkIndexes (int (length ?sigs)) (MaxAppendSignatureBatchSize S) = Some idx"
    "concat (map (slice ?sigs) idx) = ?sigs"
    "\<forall>ab \<in> set idx. slice ?sigs ab \<noteq> [] \<and> int (length (slice ?sigs ab)) \<le> MaxAppendSignatureBatchSize S"
    by (rule chunkIndexes_slices [OF pos])
  have chunks: "sig_chunks S sigs (map (slice ?sigs) idx)" using idx(2,3) by (simp add: sig_chunks_def)
  have len: "length idx \<le> length sigs"
  proof -
    have "length (map (slice ?sigs) idx) \<le> length (concat (map (slice ?sigs) idx))"
      by (rule length_concat_nonempty) (use idx(3) in auto)
    then show ?thesis by (simp add: idx(2) length_solanaSignatures)
  qed
  obtain q v where loop: "forW (\<lambda>ab. wrapW (Wrapf ''unable to append signatures (%d): %w'') (send_mcm S e pid (?app ab))) idx w = (q, v)"
    by fastforce
  from forW_sends [OF this] obtain tr where
    tr: "sends S e pid w tr v" "length tr \<le> length idx" "q = Inr () \<longrightarrow> tr = map (\<lambda>ab. (?app ab, True)) idx"
      "map fst tr = map ?app (take (length tr) idx)" by blast
  have apps: "\<exists>x. fst c = append_call S e name rt validUntil pda x" if "c \<in> set tr" for c
  proof -
    from that have "fst c \<in> set (map ?app (take (length tr) idx))" using tr(4) by (metis image_eqI list.set_map)
    then show ?thesis by auto
  qed
  obtain z x where z: "send_mcm S e pid ?fin v = (z, x)" by fastforce
  show ?thesis
  proof (cases q)
    case (Inl err)
    with run idx(1) loop have "r = Inl err" "u = v"
      by (simp_all add: append_and_finalize_def append_call_def Let_def)
    with tr(1,2) len chunks apps show ?thesis by (intro exI [of _ tr] exI [of _ "map (slice ?sigs) idx"]) auto
  next
    case (Inr y)
    then have ok: "forW (\<lambda>ab. wrapW (Wrapf ''unable to append signatures (%d): %w'') (send_mcm S e pid (?app ab))) idx w = (Inr (), v)"
      using loop by simp
    have fin: "(r, u) = (case z of Inl err \<Rightarrow> (Inl (Wrapf ''unable to finalize signatures: %w'' err), x) | Inr _ \<Rightarrow> (Inr (), x))"
      using run idx(1) ok z
      by (auto simp: append_and_finalize_def append_call_def finalize_call_def Let_def bindW_def wrapW_def split: sum.splits)
    then have u: "u = x" and r: "r = Inr () \<Longrightarrow> isl z = False" by (auto split: sum.splits)
    from sends_append [OF tr(1) sends_call [OF z [folded u]]] r tr(2,3) len chunks Inr apps show ?thesis
      by (intro exI [of _ "tr @ [(?fin, \<not> isl z)]"] exI [of _ "map (slice ?sigs) idx"]) (auto simp: comp_def)
  qed
qed

text \<open>The calls of a successful upload, and of an attempt that finds an account in the way.\<close>

definition upload_calls ::
  "'m solana_mcm_env_scheme \<Rightarrow> 'w sol_executor \<Rightarrow> pda_seed \<Rightarrow> hash \<Rightarrow> u32 \<Rightarrow> signature list \<Rightarrow> pubkey \<Rightarrow>
     signature list list \<Rightarrow> mcm_ix list"
where
  "upload_calls S e name rt validUntil sigs pda chunks =
     init_call S e name rt validUntil sigs pda # map (append_call S e name rt validUntil pda) chunks @
     [finalize_call S e name rt validUntil pda]"

definition retry_calls ::
  "'m solana_mcm_env_scheme \<Rightarrow> 'w sol_executor \<Rightarrow> pda_seed \<Rightarrow> hash \<Rightarrow> u32 \<Rightarrow> signature list \<Rightarrow> pubkey \<Rightarrow> (mcm_ix \<times> bool) list"
where
  "retry_calls S e name rt validUntil sigs pda =
     [(init_call S e name rt validUntil sigs pda, False), (clear_call S e name rt validUntil pda, True)]"

text \<open>One attempt: it uploads, it fails after at most two calls, or it clears and tries again.\<close>

lemma preload_attempt:
  assumes run: "preloadSignatures S e pid name rt validUntil sigs pda attempt w = (r, u)"
  defines "ini \<equiv> init_call S e name rt validUntil sigs pda" and "clr \<equiv> clear_call S e name rt validUntil pda"
  obtains (sent) v where "sends S e pid w [(ini, True)] v"
      and "append_and_finalize S e pid name rt validUntil sigs pda v = (r, u)"
    | (failed) tr where "sends S e pid w tr u" and "r \<noteq> Inr ()" and "tr = [(ini, False)] \<or> tr = [(ini, False), (clr, False)]"
    | (again) v where "attempt < 3" and "sends S e pid w (retry_calls S e name rt validUntil sigs pda) v"
      and "preloadSignatures S e pid name rt validUntil sigs pda (attempt + 1) v = (r, u)"
proof -
  obtain q v where i: "send_mcm S e pid ini w = (q, v)" by fastforce
  obtain q' v' where c: "send_mcm S e pid clr v = (q', v')" by fastforce
  note unfold = preloadSignatures.simps [of S e pid name rt validUntil sigs pda attempt w]
    retryPreloadSignatures.simps Let_def
  note calls = i [unfolded ini_def init_call_def] c [unfolded clr_def clear_call_def]
  note one = sends_call [OF i] and two = sends_append [OF sends_call [OF i] sends_call [OF c]]
  show ?thesis
  proof (cases q)
    case (Inr y)
    with run calls show ?thesis by (intro sent [of v]) (use one in \<open>simp_all add: unfold\<close>)
  next
    case (Inl err)
    show ?thesis
    proof (cases "isAccountAlreadyInUseError S err \<and> attempt < 3")
      case False
      with run calls Inl have "r \<noteq> Inr ()" "u = v" by (auto simp: unfold split: if_splits)
      with one Inl show ?thesis by (intro failed [of "[(ini, False)]"]) simp_all
    next
      case True
      show ?thesis
      proof (cases q')
        case Inl': (Inl err')
        with run calls Inl True have "r \<noteq> Inr ()" "u = v'" by (auto simp: unfold)
        with two Inl Inl' show ?thesis by (intro failed [of "[(ini, False), (clr, False)]"]) simp_all
      next
        case (Inr y)
        with run calls Inl True show ?thesis
          by (intro again [of v']) (use two in \<open>auto simp: unfold retry_calls_def ini_def clr_def\<close>)
      qed
    qed
  qed
qed

text \<open>What a call of \<open>preloadSignatures\<close> sends.\<close>

definition preload_trace ::
  "'m solana_mcm_env_scheme \<Rightarrow> 'w sol_executor \<Rightarrow> pda_seed \<Rightarrow> hash \<Rightarrow> u32 \<Rightarrow> signature list \<Rightarrow> pubkey \<Rightarrow> nat \<Rightarrow>
     unit res \<Rightarrow> (mcm_ix \<times> bool) list \<Rightarrow> bool"
where
  "preload_trace S e name rt validUntil sigs pda n r tr \<longleftrightarrow>
     length tr \<le> 2 * n + 2 + length sigs \<and>
     length (filter (\<lambda>c. fst c = init_call S e name rt validUntil sigs pda) tr) \<le> n + 1 \<and>
     (r = Inr () \<longrightarrow> (\<exists>k chunks. k \<le> n \<and> sig_chunks S sigs chunks \<and>
        tr = concat (replicate k (retry_calls S e name rt validUntil sigs pda)) @
          map (\<lambda>c. (c, True)) (upload_calls S e name rt validUntil sigs pda chunks)))"

lemma upload_calls_distinct [simp]:
  "clear_call S e name rt validUntil pda \<noteq> init_call S e name rt validUntil sigs pda"
  "append_call S e name rt validUntil pda x \<noteq> init_call S e name rt validUntil sigs pda"
  "finalize_call S e name rt validUntil pda \<noteq> init_call S e name rt validUntil sigs pda"
  by (simp_all add: upload_call_defs)

lemma preload_trace_upload:
  assumes "length tr \<le> length sigs + 1" and "sig_chunks S sigs chunks"
    and "\<forall>c \<in> set tr. (\<exists>x. fst c = append_call S e name rt validUntil pda x) \<or> fst c = finalize_call S e name rt validUntil pda"
    and "r = Inr () \<longrightarrow> tr = map (\<lambda>c. (append_call S e name rt validUntil pda c, True)) chunks @
                          [(finalize_call S e name rt validUntil pda, True)]"
  shows "preload_trace S e name rt validUntil sigs pda n r ((init_call S e name rt validUntil sigs pda, True) # tr)"
proof -
  have "fst c \<noteq> init_call S e name rt validUntil sigs pda" if "c \<in> set tr" for c using assms(3) that by auto
  then have "filter (\<lambda>c. fst c = init_call S e name rt validUntil sigs pda) tr = []" by (simp add: filter_empty_conv)
  with assms(1,2,4) show ?thesis
    by (auto simp: preload_trace_def upload_calls_def comp_def intro!: exI [of _ 0] exI [of _ chunks])
qed

lemma preload_trace_retry:
  assumes "preload_trace S e name rt validUntil sigs pda n r tr"
  shows "preload_trace S e name rt validUntil sigs pda (Suc n) r (retry_calls S e name rt validUntil sigs pda @ tr)"
proof -
  let ?r = "retry_calls S e name rt validUntil sigs pda"
  have "r = Inr () \<Longrightarrow> \<exists>k chunks. k \<le> Suc n \<and> sig_chunks S sigs chunks \<and>
      ?r @ tr = concat (replicate k ?r) @ map (\<lambda>c. (c, True)) (upload_calls S e name rt validUntil sigs pda chunks)"
  proof -
    assume "r = Inr ()"
    with assms obtain k chunks where "k \<le> n" "sig_chunks S sigs chunks"
      "tr = concat (replicate k ?r) @ map (\<lambda>c. (c, True)) (upload_calls S e name rt validUntil sigs pda chunks)"
      unfolding preload_trace_def by blast
    then show ?thesis by (intro exI [of _ "Suc k"] exI [of _ chunks]) simp
  qed
  with assms show ?thesis by (simp add: preload_trace_def retry_calls_def)
qed

lemma preload_sends:
  assumes pos: "0 < MaxAppendSignatureBatchSize S" and "attempt \<le> 3"
    and "preloadSignatures S e pid name rt validUntil sigs pda attempt w = (r, u)"
  shows "\<exists>tr. sends S e pid w tr u \<and> preload_trace S e name rt validUntil sigs pda (3 - attempt) r tr"
  using assms(2,3)
proof (induction "3 - attempt" arbitrary: attempt w rule: less_induct)
  case less
  from less.prems(2) show ?case
  proof (cases rule: preload_attempt)
    case (sent v)
    from append_and_finalize_sends [OF pos sent(2)] obtain tr chunks where tr: "sends S e pid v tr u"
      "sig_chunks S sigs chunks" "length tr \<le> length sigs + 1"
      "\<forall>c \<in> set tr. (\<exists>x. fst c = append_call S e name rt validUntil pda x) \<or> fst c = finalize_call S e name rt validUntil pda"
      "r = Inr () \<longrightarrow> tr = map (\<lambda>c. (append_call S e name rt validUntil pda c, True)) chunks @
                          [(finalize_call S e name rt validUntil pda, True)]" by blast
    from sends_append [OF sent(1) tr(1)] preload_trace_upload [OF tr(3,2,4,5)] show ?thesis by auto
  next
    case (failed tr)
    then have "preload_trace S e name rt validUntil sigs pda (3 - attempt) r tr"
      using less.prems(1) by (auto simp: preload_trace_def)
    with failed(1) show ?thesis by blast
  next
    case (again v)
    from again(1) have n: "3 - attempt = Suc (3 - (attempt + 1))" by simp
    have "3 - (attempt + 1) < 3 - attempt" "attempt + 1 \<le> 3" using again(1) by linarith+
    from less.hyps [OF this again(3)] obtain tr where
      "sends S e pid v tr u" "preload_trace S e name rt validUntil sigs pda (3 - (attempt + 1)) r tr" by blast
    with preload_trace_retry sends_append [OF again(2)] show ?thesis unfolding n by blast
  qed
qed

text \<open>
  The account of a root's signatures as the program keeps it: announced with their number, filled in
  order, and final when complete. A call the program refuses has no next state.
\<close>

datatype sig_account = NoAccount | Loading u8 "signature list" | Final "signature list"

fun sig_step :: "sig_account \<Rightarrow> mcm_ix \<Rightarrow> sig_account option" where
  "sig_step NoAccount (InitSignatures name rt validUntil n keys) = Some (Loading n [])"
| "sig_step (Loading n xs) (AppendSignatures name rt validUntil chunk keys) =
     (if length (xs @ chunk) \<le> unat n then Some (Loading n (xs @ chunk)) else None)"
| "sig_step (Loading n xs) (FinalizeSignatures name rt validUntil keys) = (if length xs = unat n then Some (Final xs) else None)"
| "sig_step (Loading n xs) (ClearSignatures name rt validUntil keys) = Some NoAccount"
| "sig_step _ _ = None"

fun sig_steps :: "sig_account \<Rightarrow> mcm_ix list \<Rightarrow> sig_account option" where
  "sig_steps a [] = Some a"
| "sig_steps a (c # cs) = Option.bind (sig_step a c) (\<lambda>a'. sig_steps a' cs)"

lemma sig_steps_chunks:
  "length (xs @ concat chunks) = unat n \<Longrightarrow>
     sig_steps (Loading n xs) (map (append_call S e name rt validUntil pda) chunks @
       [finalize_call S e name rt validUntil pda]) = Some (Final (xs @ concat chunks))"
proof (induction chunks arbitrary: xs)
  case Nil
  then show ?case by (simp add: finalize_call_def)
next
  case (Cons c cs)
  from Cons.prems have "length (xs @ c) \<le> unat n" by simp
  with Cons.IH [of "xs @ c"] Cons.prems show ?case by (simp add: append_call_def)
qed

lemma sig_steps_upload:
  assumes "sig_chunks S sigs chunks" and "length sigs \<le> 255"
  shows "sig_steps NoAccount (upload_calls S e name rt validUntil sigs pda chunks) = Some (Final (solanaSignatures sigs))"
proof -
  have "unat (word_of_nat (length sigs) :: u8) = length sigs" using assms(2) by (simp add: unat_of_nat)
  with sig_steps_chunks [of "[]" chunks "word_of_nat (length sigs)"] assms(1) show ?thesis
    by (simp add: upload_calls_def init_call_def sig_chunks_def length_solanaSignatures)
qed

section \<open>A concrete environment\<close>

text \<open>Selector 4 is a Solana chain. The node of the sample accepts every instruction and keeps them.\<close>

definition sample_mcm :: solana_mcm_env where
  "sample_mcm = solana_tl_env.extend (sample_tl\<lparr>ChainDetails := (\<lambda>sel. Inr (if sel = 4 then FamilySolana else FamilyEVM))\<rparr>)
     (solana_mcm_env.fields (\<lambda>_. [\<lparr>am_PublicKey = 1, am_IsWritable = True, am_IsSigner = True\<rparr>])
        (\<lambda>pid _ accs. Inr \<lparr>ix_ProgramID = pid, ix_Accounts = accs, ix_Data = Inr [7]\<rparr>)
        (\<lambda>key. from_be key) (\<lambda>_. ''Allocate: account Address is already in use'') 2 200 1400000)"

lemma sample_mcm_sel [simp]:
  "ChainDetails sample_mcm = (\<lambda>sel. Inr (if sel = 4 then FamilySolana else FamilyEVM))"
  "PublicKeyFromBase58 sample_mcm = PublicKeyFromBase58 sample_solana"
  "PublicKeyString sample_mcm = PublicKeyString sample_solana"
  "FindProgramAddress sample_mcm seeds pid = Inr (pid XOR from_be (concat seeds))"
  "SolFieldsUnmarshal sample_mcm = SolFieldsUnmarshal sample_solana"
  "SystemProgramID sample_mcm = 0"
  "Keccak256Hash sample_mcm = from_be"
  "SigToPub sample_mcm = SigToPub sample_env"
  "PubkeyToAddress sample_mcm = PubkeyToAddress sample_env"
  "AbiPackMethod sample_mcm = AbiPackMethod sample_env"
  "ToUint8E sample_mcm = ToUint8E sample_env" "ToUint32E sample_mcm = ToUint32E sample_env"
  "ToUint64E sample_mcm = ToUint64E sample_env" "ToInt64E sample_mcm = ToInt64E sample_env"
  "McmAccounts sample_mcm ix = [\<lparr>am_PublicKey = 1, am_IsWritable = True, am_IsSigner = True\<rparr>]"
  "McmBuild sample_mcm pid ix accs = Inr \<lparr>ix_ProgramID = pid, ix_Accounts = accs, ix_Data = Inr [7]\<rparr>"
  "TimelockBuild sample_mcm pid tix accs = Inr \<lparr>ix_ProgramID = pid, ix_Accounts = accs, ix_Data = Inr [7]\<rparr>"
  "AuthPublicKey sample_mcm = from_be"
  "ErrorText sample_mcm err = ''Allocate: account Address is already in use''"
  "MaxAppendSignatureBatchSize sample_mcm = 2" "MaxNumSigners sample_mcm = 200"
  by (simp_all add: sample_mcm_def sample_tl_def sample_solana_def mcms_env.defs solana_env.defs solana_tl_env.defs
      solana_mcm_env.defs fun_eq_iff)

lemma sample_mcm_parse [simp]:
  "ParseContractAddress sample_mcm = ParseContractAddress sample_solana"
  "ParseProgramID sample_mcm = ParseProgramID sample_solana"
  "ParseAdditionalFields sample_mcm = ParseAdditionalFields sample_solana"
proof -
  show p: "ParseContractAddress sample_mcm = ParseContractAddress sample_solana"
    by (simp only: fun_eq_iff ParseContractAddress_def sample_mcm_sel simp_thms)
  show "ParseProgramID sample_mcm = ParseProgramID sample_solana"
    by (simp only: fun_eq_iff ParseProgramID_def p sample_mcm_sel simp_thms)
  show "ParseAdditionalFields sample_mcm = ParseAdditionalFields sample_solana"
    by (simp only: fun_eq_iff ParseAdditionalFields_def sample_mcm_sel simp_thms)
qed

lemma with_solana_more [simp]:
  "Keccak256Hash (with_solana T) = Keccak256Hash T" "SigToPub (with_solana T) = SigToPub T"
  "PubkeyToAddress (with_solana T) = PubkeyToAddress T" "AbiPackMethod (with_solana T) = AbiPackMethod T"
  "ToUint8E (with_solana T) = ToUint8E T" "ToUint32E (with_solana T) = ToUint32E T"
  "ToUint64E (with_solana T) = ToUint64E T" "ToInt64E (with_solana T) = ToInt64E T"
  by (simp_all add: with_solana_def)

lemma sample_mcm_casts: "casts_documented (with_solana sample_mcm)"
  using sample_env_casts by (simp add: casts_documented_def)

lemma sample_mcm_sign_msg: "sign_msg_documented (with_solana sample_mcm)"
  using sample_env_sign_msg by (simp add: sign_msg_documented_def)

lemma sample_mcm_derives: "derives sample_mcm"
  by (simp add: derives_def)

definition sample_rpc :: "hash \<Rightarrow> ('w, unit) sol_rpc" where
  "sample_rpc rt =
     \<lparr>GetLatestBlockhash = (\<lambda>w. (Inr 0, w)), BuildTransaction = (\<lambda>_ _ _. Inr ()), SetComputeUnitPrice = (\<lambda>_ _. Inr ()),
      SetComputeUnitLimit = (\<lambda>_ _. Inr ()), SignTransaction = (\<lambda>_ _. Inr ()),
      SendTransactionWithOpts = (\<lambda>_ _ w. (Inr ''sig'', w)), GetSignatureStatuses = (\<lambda>_ w. (Inr (Some Confirmed), w)),
      GetTransaction = (\<lambda>_ w. (Inr \<lparr>res_Transaction = Some (Inr [''sig'']), res_Meta = Some None\<rparr>, w)), SleepFor = (\<lambda>_ w. w),
      SimulateTransaction = (\<lambda>_ _ _. Inr None), ReadMultisigConfig = (\<lambda>_ _. Inl ''none''),
      ReadRootAndOpCount = (\<lambda>_ _. Inr (rt, 0, 0)), ReadRootMetadata = (\<lambda>_ _. Inr 0),
      ReadTimelockOperation = (\<lambda>_ _. Inl (True, ''not found'')),
      ReadTimelockConfig = (\<lambda>_ _. Inr \<lparr>tl_ProposerAC = 1, tl_ExecutorAC = 2, tl_CancellerAC = 3, tl_BypasserAC = 4,
        tl_MinDelay = 0\<rparr>), ReadAccessList = (\<lambda>_ _. Inr (0, [])), ReadAccountOwner = (\<lambda>_ _. Inr (Some 8)),
      ReadSlot = (\<lambda>_. Inr 0), ReadBlockTime = (\<lambda>_ _. Inr (Some 0))\<rparr>"

definition sample_node :: "bool \<Rightarrow> ix_builder list sol_executor" where
  "sample_node busy =
     \<lparr>sx_Encoder = Some \<lparr>se_ChainSelector = 4, se_TxCount = 1, se_OverridePreviousRoot = False\<rparr>, sx_auth = [6],
      sx_sendAndConfirm = (\<lambda>b w. (case b of
          McmBuilder _ (InitSignatures _ _ _ _ _) _ \<Rightarrow> if busy then Inl (External ''in use'') else Inr (''sig'', simulated_result)
        | _ \<Rightarrow> Inr (''sig'', simulated_result), w @ [b]))\<rparr>"

definition sample_sol_proposal :: proposal where
  "sample_sol_proposal = sample_proposal\<lparr>bp_ChainMetadata := [(4, sample_sol_metadata)],
     pr_Operations := [\<lparr>op_ChainSelector = 4, op_Transaction = sample_sol_tx\<rparr>]\<rparr>"

lemma sample_sol_proposal_fields [simp]:
  "bp_ChainMetadata sample_sol_proposal = [(4, sample_sol_metadata)]"
  "pr_Operations sample_sol_proposal = [\<lparr>op_ChainSelector = 4, op_Transaction = sample_sol_tx\<rparr>]"
  "bp_OverridePreviousRoot sample_sol_proposal = False" "bp_ValidUntil sample_sol_proposal = 99"
  "bp_Signatures sample_sol_proposal = []"
  by (simp_all add: sample_sol_proposal_def sample_proposal_def)

lemma sample_sol_nonces: "TransactionNonces sample_sol_proposal = Inr [0]"
  by (simp add: TransactionNonces_def Let_def gm_get0_def sample_sol_metadata_def)

lemma sample_sol_tx_To: "tx_To sample_sol_tx = bits_text 5"
  by (simp add: sample_sol_tx_def)

lemma sample_sol_executable: "\<exists>e. NewExecutable (with_solana sample_mcm) sample_sol_proposal executors = Inr e"
proof -
  let ?T = "with_solana sample_mcm"
  obtain encs where encs: "GetEncoders ?T sample_sol_proposal = Inr encs"
    and e4: "gm_get0 encs 4 None = Some (sol_NewEncoder sample_mcm 4 1 False)"
    by (simp add: GetEncoders_def newEncoder_def GetChainSelectorFamily_def supportedFamilies_def Let_def gm_get0_def
        TransactionCounts_get)
  have sels: "ChainSelectors sample_sol_proposal = [4]" by (simp add: ChainSelectors_def)
  have casts: "Uint64ToUint32 ?T 0 = Inr 0" by (simp add: Uint64ToUint32_Inr [OF sample_mcm_casts])
  have md: "metadata_of sample_sol_proposal 4 = sample_sol_metadata" by (simp add: metadata_of_def gm_get0_def)
  note parts = sample_solana_contract sample_sol_fields sample_sol_tx_To pda_defs
  have addr: "cm_MCMAddress sample_sol_metadata = ContractAddress sample_solana 7 sample_seed"
    by (simp add: sample_sol_metadata_def)
  have "\<exists>mls. mapE (metadata_leaf sample_sol_proposal encs) (ChainSelectors sample_sol_proposal) = Inr mls"
    by (rule mapE_total)
      (auto simp: sels metadata_leaf_def call_HashMetadata_def e4 md sol_NewEncoder_methods sol_HashMetadata_def addr parts)
  moreover have "\<exists>ols. mapE (operation_leaf ?T sample_sol_proposal encs) (enumerate 0 (pr_Operations sample_sol_proposal)) = Inr ols"
    by (rule mapE_total)
      (auto simp: operation_leaf_def sample_sol_nonces casts call_HashOperation_def e4 md sol_NewEncoder_methods
        sol_HashOperation_def addr parts)
  ultimately show ?thesis using encs by (auto simp: MerkleTree_def NewExecutable_def sample_sol_nonces)
qed

section \<open>Properties\<close>

text \<open>
  C21: From the proposal to the Solana program. When an executable runs an operation through the
  executor of its Solana chain, one execute instruction is sent to the program of the chain's MCM
  address, with the operation's nonce and data, the six accounts of the program (those derived for the
  multisig, the target, the payer), the accounts of the operation behind them, and a proof: the
  program, hashing these arguments, arrives at the root of the signed tree. The answer of the node is
  the result. Of the SDK it is used that it finds an address for a name and the multisig's 32 bytes.
\<close>

theorem sol_operation_passes_program_check:
  assumes "gm_wf (bp_ChainMetadata p)" and "NewExecutable (with_solana T) p executors = Inr e"
    and "i < length (pr_Operations p)" and "op_ChainSelector (pr_Operations p ! i) = sel"
    and "ChainDetails T sel = Inr FamilySolana" and "gm_get executors sel = Some (sol_executor_iface T C x)"
    and "sx_Encoder x = Some \<lparr>se_ChainSelector = sel, se_TxCount = gm_get0 (TransactionCounts p) sel 0,
           se_OverridePreviousRoot = bp_OverridePreviousRoot p\<rparr>"
    and "derives T"
  shows "\<exists>t n pid seed proof keys accs. MerkleTree (with_solana T) p = Inr t \<and>
    Uint64ToUint32 (with_solana T) (exe_txNonces e ! i) = Inr n \<and>
    ParseContractAddress T (cm_MCMAddress (metadata_of p sel)) = Inr (pid, seed) \<and>
    execute_accounts T (AuthPublicKey T (sx_auth x)) pid seed (pr_Operations p ! i) keys \<and>
    (let ix = ExecuteIx seed sel (ucast n) (tx_Data (op_Transaction (pr_Operations p ! i))) proof keys in
     execute_checks T (mt_Root t) ix accs \<and>
     Execute (with_solana T) e (int i) w =
       bindW (wrapW (Wrapf ''unable to call execute operation instruction: %w'')
                (sx_sendAndConfirm x (McmBuilder pid ix (McmAccounts T ix @ accs))))
         (\<lambda>r w. (Inr (sol_sent r), w)) w)"
proof -
  let ?T = "with_solana T" and ?op = "pr_Operations p ! i" and ?md = "metadata_of p sel"
  let ?enc = "\<lparr>se_ChainSelector = sel, se_TxCount = gm_get0 (TransactionCounts p) sel 0,
           se_OverridePreviousRoot = bp_OverridePreviousRoot p\<rparr>"
  from assms(2) have t: "MerkleTree ?T p = Inr (exe_tree e)" and encs: "GetEncoders ?T p = Inr (exe_encoders e)"
    and ns: "TransactionNonces p = Inr (exe_txNonces e)" by (auto elim: NewExecutable_InrE)
  from TransactionNonces_nth(2) [OF ns assms(3)] assms(4) have "gm_get (bp_ChainMetadata p) sel \<noteq> None" by simp
  from proposal_encoder_sol [OF encs assms(5) this assms(1)]
  have enc: "call_HashOperation (gm_get0 (exe_encoders e) sel None) n ?md ?op = sol_HashOperation T ?enc n ?md ?op" for n
    by (simp add: call_HashOperation_def sol_NewEncoder_methods)
  from Execute_delivers [OF assms(2,3), of _ w] assms(4,6) enc obtain n h pf where
    n: "Uint64ToUint32 ?T (exe_txNonces e ! i) = Inr n" and
    h: "sol_HashOperation T ?enc n ?md ?op = Inr h" "foldl (hashPair (Keccak256Hash T)) h pf = mt_Root (exe_tree e)" and
    x: "Execute ?T e (int i) w = ex_ExecuteOperation (sol_executor_iface T C x) ?md n pf ?op w"
    by (metis with_solana_more(1))
  from execute_builder_hashed [OF assms(8,7) h] obtain pid seed keys accs where
    b: "ParseContractAddress T (cm_MCMAddress ?md) = Inr (pid, seed)"
      "execute_accounts T (AuthPublicKey T (sx_auth x)) pid seed ?op keys" "execute_checks T (mt_Root (exe_tree e)) (ExecuteIx seed sel (ucast n) (tx_Data (op_Transaction ?op)) pf keys) accs"
      "execute_builder T x ?md n pf ?op = Inr (McmBuilder pid (ExecuteIx seed sel (ucast n) (tx_Data (op_Transaction ?op)) pf keys)
        (McmAccounts T (ExecuteIx seed sel (ucast n) (tx_Data (op_Transaction ?op)) pf keys) @ accs))"
    by auto
  have "Execute ?T e (int i) w =
      bindW (wrapW (Wrapf ''unable to call execute operation instruction: %w'')
        (sx_sendAndConfirm x (McmBuilder pid (ExecuteIx seed sel (ucast n) (tx_Data (op_Transaction ?op)) pf keys)
          (McmAccounts T (ExecuteIx seed sel (ucast n) (tx_Data (op_Transaction ?op)) pf keys) @ accs))))
        (\<lambda>r w. (Inr (sol_sent r), w)) w"
    using x b(4) by (simp add: sol_executor_iface_def sol_ExecuteOperation_def)
  with t n b(1-3) show ?thesis unfolding Let_def by blast
qed

theorem sol_operation_passes_program_check_witness:
  "\<exists>e t proof keys accs. NewExecutable (with_solana sample_mcm) sample_sol_proposal
       [(4, sol_executor_iface sample_mcm (sample_rpc 0) (sample_node False))] = Inr e \<and>
     MerkleTree (with_solana sample_mcm) sample_sol_proposal = Inr t \<and>
     (let ix = ExecuteIx sample_seed 4 0 [1, 2, 3] proof keys in
      execute_checks sample_mcm (mt_Root t) ix accs \<and>
      Execute (with_solana sample_mcm) e 0 [] =
        (Inr (sol_sent (''sig'', simulated_result)), [McmBuilder 7 ix (McmAccounts sample_mcm ix @ accs)]))"
proof -
  let ?ex = "[(4, sol_executor_iface sample_mcm (sample_rpc 0) (sample_node False))]"
  obtain e where e: "NewExecutable (with_solana sample_mcm) sample_sol_proposal ?ex = Inr e"
    using sample_sol_executable by blast
  then have ns: "exe_txNonces e = [0]" using sample_sol_nonces by (auto elim: NewExecutable_InrE)
  have "gm_get0 (TransactionCounts sample_sol_proposal) 4 0 = 1" by (simp add: gm_get0_def TransactionCounts_get)
  moreover have wf: "gm_wf (bp_ChainMetadata sample_sol_proposal)" by (simp add: gm_wf_def)
  moreover have md: "cm_MCMAddress (metadata_of sample_sol_proposal 4) = ContractAddress sample_solana 7 sample_seed"
    by (simp add: metadata_of_def gm_get0_def sample_sol_metadata_def)
  moreover have "Uint64ToUint32 (with_solana sample_mcm) 0 = Inr 0" by (simp add: Uint64ToUint32_Inr [OF sample_mcm_casts])
  ultimately obtain t pf keys accs where "MerkleTree (with_solana sample_mcm) sample_sol_proposal = Inr t"
    "execute_checks sample_mcm (mt_Root t) (ExecuteIx sample_seed 4 0 [1, 2, 3] pf keys) accs"
    "Execute (with_solana sample_mcm) e 0 [] =
       bindW (wrapW (Wrapf ''unable to call execute operation instruction: %w'')
                (sx_sendAndConfirm (sample_node False) (McmBuilder 7 (ExecuteIx sample_seed 4 0 [1, 2, 3] pf keys)
                   (McmAccounts sample_mcm (ExecuteIx sample_seed 4 0 [1, 2, 3] pf keys) @ accs))))
         (\<lambda>r w. (Inr (sol_sent r), w)) []"
    using sol_operation_passes_program_check [OF wf e, of 0 4 "sample_rpc 0" "sample_node False" "[]"] ns sample_mcm_derives
    by (auto simp: sample_node_def sample_solana_contract sample_sol_tx_def Let_def)
  then show ?thesis using e by (auto simp: sample_node_def bindW_def wrapW_def Let_def)
qed

text \<open>
  C23: the signatures of a root reach the program whole. When the upload succeeds, at most three earlier
  attempts found an account in the way and removed it, and the calls accepted after that announce the
  number of signatures, append all of them in order, in chunks that are neither empty nor longer than
  the program allows, and finalise: run on the program's account they end in the final state with
  exactly the signatures of the proposal in contract form.
\<close>

theorem preload_signatures_uploads:
  assumes "0 < MaxAppendSignatureBatchSize S" and "length sigs \<le> 255"
    and "preloadSignatures S e pid name rt validUntil sigs pda 0 w = (Inr (), u)"
  shows "\<exists>k chunks. k \<le> 3 \<and> concat chunks = solanaSignatures sigs \<and>
    (\<forall>c \<in> set chunks. c \<noteq> [] \<and> int (length c) \<le> MaxAppendSignatureBatchSize S) \<and>
    sends S e pid w
      (concat (replicate k (retry_calls S e name rt validUntil sigs pda)) @
       map (\<lambda>c. (c, True)) (upload_calls S e name rt validUntil sigs pda chunks)) u \<and>
    sig_steps NoAccount (upload_calls S e name rt validUntil sigs pda chunks) = Some (Final (solanaSignatures sigs))"
proof -
  from preload_sends [OF assms(1) _ assms(3)] obtain tr where tr: "sends S e pid w tr u"
    "preload_trace S e name rt validUntil sigs pda 3 (Inr ()) tr" by auto
  from tr(2) obtain k chunks where k: "k \<le> 3" and c: "sig_chunks S sigs chunks" and
    "tr = concat (replicate k (retry_calls S e name rt validUntil sigs pda)) @
       map (\<lambda>c. (c, True)) (upload_calls S e name rt validUntil sigs pda chunks)"
    unfolding preload_trace_def by blast
  with tr(1) sig_steps_upload [OF c assms(2)] show ?thesis
    by (intro exI [of _ k] exI [of _ chunks]) (use c in \<open>simp add: sig_chunks_def\<close>)
qed

lemma sample_chunk_indexes: "chunkIndexes 3 2 = Some [(0, 2), (2, 3)]"
  unfolding chunkIndexes_def by (subst chunk_loop.simps, simp)+

lemma sample_busy: "isAccountAlreadyInUseError sample_mcm err"
  by (simp add: isAccountAlreadyInUseError_def) code_simp

lemma sample_preload:
  "fst (preloadSignatures sample_mcm (sample_node False) 7 sample_seed 1 9 [a, b, c] 3 0 []) = Inr ()"
  by (simp add: preloadSignatures.simps append_and_finalize_def send_mcm_def mcm_builder_def sample_node_def Let_def
      length_solanaSignatures sample_chunk_indexes bindW_def wrapW_def)

theorem preload_signatures_uploads_witness:
  "let sigs = [\<lparr>sig_R = 1, sig_S = 2, sig_V = 0\<rparr>, \<lparr>sig_R = 3, sig_S = 4, sig_V = 1\<rparr>, \<lparr>sig_R = 5, sig_S = 6, sig_V = 27\<rparr>] in
   \<exists>chunks. concat chunks = solanaSignatures sigs \<and> (\<forall>c \<in> set chunks. c \<noteq> [] \<and> length c \<le> 2) \<and>
     sig_steps NoAccount (upload_calls sample_mcm (sample_node False) sample_seed 1 9 sigs 3 chunks) =
       Some (Final [\<lparr>sig_R = 1, sig_S = 2, sig_V = 27\<rparr>, \<lparr>sig_R = 3, sig_S = 4, sig_V = 28\<rparr>, \<lparr>sig_R = 5, sig_S = 6, sig_V = 27\<rparr>])"
proof -
  let ?sigs = "[\<lparr>sig_R = 1, sig_S = 2, sig_V = 0\<rparr>, \<lparr>sig_R = 3, sig_S = 4, sig_V = 1\<rparr>, \<lparr>sig_R = 5, sig_S = 6, sig_V = 27\<rparr>]"
  obtain u where "preloadSignatures sample_mcm (sample_node False) 7 sample_seed 1 9 ?sigs 3 0 [] = (Inr (), u)"
    using sample_preload by (metis eq_fst_iff)
  from preload_signatures_uploads [OF _ _ this] obtain chunks where
    "concat chunks = solanaSignatures ?sigs" "\<forall>c \<in> set chunks. c \<noteq> [] \<and> int (length c) \<le> 2"
    "sig_steps NoAccount (upload_calls sample_mcm (sample_node False) sample_seed 1 9 ?sigs 3 chunks) =
       Some (Final (solanaSignatures ?sigs))" by auto
  then show ?thesis unfolding Let_def
    by (intro exI [of _ chunks]) (simp add: solanaSignatures_def)
qed

text \<open>
  C24: the upload of signatures ends, whatever the node answers and even if every attempt finds the
  account in use: it sends at most four initialisations and eight calls more than there are
  signatures.
\<close>

theorem preload_signatures_bounded:
  assumes "0 < MaxAppendSignatureBatchSize S"
  shows "\<exists>tr. sends S e pid w tr (snd (preloadSignatures S e pid name rt validUntil sigs pda 0 w)) \<and>
    length tr \<le> length sigs + 8 \<and>
    length (filter (\<lambda>c. fst c = init_call S e name rt validUntil sigs pda) tr) \<le> 4"
proof -
  from preload_sends [OF assms _ surjective_pairing, where attempt = 0 and e = e and pid = pid and name = name and rt = rt
      and validUntil = validUntil and sigs = sigs and pda = pda and w = w] obtain tr where
    "sends S e pid w tr (snd (preloadSignatures S e pid name rt validUntil sigs pda 0 w))"
    "preload_trace S e name rt validUntil sigs pda 3 (fst (preloadSignatures S e pid name rt validUntil sigs pda 0 w)) tr"
    by auto
  then show ?thesis by (intro exI [of _ tr]) (simp add: preload_trace_def)
qed

theorem preload_signatures_bounded_witness:
  "let sigs = [\<lparr>sig_R = 1, sig_S = 2, sig_V = 0\<rparr>];
       run = preloadSignatures sample_mcm (sample_node True) 7 sample_seed 1 9 sigs 3 0 [] in
   isl (fst run) \<and> length (snd run) = 7 \<and>
   (\<exists>tr. sends sample_mcm (sample_node True) 7 [] tr (snd run) \<and> length tr \<le> 9)"
proof -
  let ?run = "preloadSignatures sample_mcm (sample_node True) 7 sample_seed 1 9 [\<lparr>sig_R = 1, sig_S = 2, sig_V = 0\<rparr>] 3 0 []"
  have "isl (fst ?run) \<and> length (snd ?run) = 7"
    by (simp add: preloadSignatures.simps retryPreloadSignatures.simps send_mcm_def mcm_builder_def sample_node_def
        sample_busy Let_def)
  moreover have "\<exists>tr. sends sample_mcm (sample_node True) 7 [] tr (snd ?run) \<and> length tr \<le> 9"
    using preload_signatures_bounded [where S = sample_mcm and e = "sample_node True" and pid = 7 and name = sample_seed
        and rt = 1 and validUntil = 9 and sigs = "[\<lparr>sig_R = 1, sig_S = 2, sig_V = 0\<rparr>]" and pda = 3 and w = "[]"] by auto
  ultimately show ?thesis by (simp add: Let_def)
qed

lemma solanaSignatures_toGeth: "solanaSignatures sigs = map toGethSignature sigs"
  by (simp add: solanaSignatures_def toGethSignature_def Let_def)

lemma sort_signer_with_solana: "sort_signer (with_solana T) = sort_signer T"
  by (simp add: fun_eq_iff sort_signer_def Recover_def RecoverPublicKey_def Let_def cong: sum.case_cong)

text \<open>A root that was set: what was checked, uploaded and sent.\<close>

lemma sol_SetRoot_InrE:
  assumes "sol_SetRoot S C chain x md proof rt validUntil sigs v = (Inr r, u)" and "sx_Encoder x = Some enc"
  obtains pid seed pda keys a z where "ParseContractAddress S (cm_MCMAddress md) = Inr (pid, seed)"
    and "FindConfigPDA S pid seed = Inr pda" and "equalCurrentRoot S C (chain v) (cm_MCMAddress md) rt = Inr False"
    and "length sigs \<le> 255" and "preloadSignatures S x pid seed rt validUntil sigs (keys ! 0) 0 v = (Inr (), z)"
    and "send_mcm S x pid (SetRootIx seed rt validUntil (solanaMetadata enc md pda) (solanaProof proof) keys) z = (Inr a, u)"
    and "keys ! 4 = pda" and "r = sol_sent a"
proof -
  from assms(1) obtain pid seed c m er sg seen where
    addr: "set_root_addresses S C (chain v) x md rt validUntil sigs = Inr (pid, seed, c, m, er, sg, seen)"
    unfolding sol_SetRoot_def by (cases "set_root_addresses S C (chain v) x md rt validUntil sigs") auto
  then have 1: "equalCurrentRoot S C (chain v) (cm_MCMAddress md) rt = Inr False"
    "ParseContractAddress S (cm_MCMAddress md) = Inr (pid, seed)" "length sigs \<le> 255" "FindConfigPDA S pid seed = Inr c"
    unfolding set_root_addresses_def by (auto elim!: bindE_InrE split: prod.splits)
  let ?keys = "[sg, m, seen, er, c, AuthPublicKey S (sx_auth x), SystemProgramID S]"
  from assms addr obtain z a where
    2: "preloadSignatures S x pid seed rt validUntil sigs sg 0 v = (Inr (), z)"
      "send_mcm S x pid (SetRootIx seed rt validUntil (solanaMetadata enc md c) (solanaProof proof) ?keys) z = (Inr a, u)"
      "r = sol_sent a"
    by (auto simp: sol_SetRoot_def bindW_Inr_iff deref_simps)
  show ?thesis by (rule that [of pid seed c ?keys z a]) (use 1 2 in simp_all)
qed

text \<open>
  C22: a root that was set on a Solana chain. When SetRoot succeeds, the root on the chain was another
  one, there were at most 255 signatures, and they were uploaded first, in ascending order of the
  signers the contract recovers. The set_root instruction carries the root of the signed tree and
  metadata for exactly the chain's share of the proposal, which the program, hashing it, finds under
  this root with the proof sent along.
\<close>

theorem sol_set_root_passes_program_check:
  assumes "gm_wf (bp_ChainMetadata p)" and "NewExecutable (with_solana T) p executors = Inr e"
    and "sign_msg_documented (with_solana T)" and "gm_get (bp_ChainMetadata p) sel = Some md"
    and "ChainDetails T sel = Inr FamilySolana" and "gm_get executors sel = Some (sol_executor_iface T C x)"
    and "sx_Encoder x = Some \<lparr>se_ChainSelector = sel, se_TxCount = gm_get0 (TransactionCounts p) sel 0,
           se_OverridePreviousRoot = bp_OverridePreviousRoot p\<rparr>"
    and "SetRoot (with_solana T) e sel w = (Inr r, u)"
  shows "\<exists>t hash pid seed rm proof sigs keys v a. MerkleTree (with_solana T) p = Inr t \<and>
    SigningHash (with_solana T) p = Inr hash \<and> ParseContractAddress T (cm_MCMAddress md) = Inr (pid, seed) \<and>
    equalCurrentRoot T C w (cm_MCMAddress md) (mt_Root t) = Inr False \<and>
    mset sigs = mset (bp_Signatures p) \<and> length sigs \<le> 255 \<and> sorted (map (sort_signer T hash) (solanaSignatures sigs)) \<and>
    preloadSignatures T x pid seed (mt_Root t) (bp_ValidUntil p) sigs (keys ! 0) 0 w = (Inr (), v) \<and>
    send_mcm T x pid (SetRootIx seed (mt_Root t) (bp_ValidUntil p) rm proof keys) v = (Inr a, u) \<and> r = sol_sent a \<and>
    FindConfigPDA T pid seed = Inr (rmi_Multisig rm) \<and> rmi_ChainId rm = sel \<and> rmi_PreOpCount rm = cm_StartingOpCount md \<and>
    rmi_PostOpCount rm = cm_StartingOpCount md + of_nat (ops_on sel (pr_Operations p)) \<and>
    root_metadata_checks T (mt_Root t) rm proof"
proof -
  let ?T = "with_solana T"
  let ?enc = "\<lparr>se_ChainSelector = sel, se_TxCount = gm_get0 (TransactionCounts p) sel 0,
           se_OverridePreviousRoot = bp_OverridePreviousRoot p\<rparr>"
  from assms(2) have t: "MerkleTree ?T p = Inr (exe_tree e)" and encs: "GetEncoders ?T p = Inr (exe_encoders e)"
    by (auto elim: NewExecutable_InrE)
  from proposal_encoder_sol [OF encs assms(5) _ assms(1)] assms(4)
  have enc: "call_HashMetadata (gm_get0 (exe_encoders e) sel None) md = sol_HashMetadata T ?enc md"
    by (simp add: call_HashMetadata_def sol_NewEncoder_methods)
  from SetRoot_delivers [OF assms(2-4,6), of w] enc obtain h pf hash where
    h: "sol_HashMetadata T ?enc md = Inr h" "foldl (hashPair (Keccak256Hash T)) h pf = mt_Root (exe_tree e)" and
    hash: "SigningHash ?T p = Inr hash" and
    x: "SetRoot ?T e sel w = ex_SetRoot (sol_executor_iface T C x) md pf (mt_Root (exe_tree e)) (bp_ValidUntil p)
      (sort_signatures ?T hash (bp_Signatures p)) w" by (metis with_solana_more(1))
  let ?sigs = "sort_signatures ?T hash (bp_Signatures p)"
  have sigs: "mset ?sigs = mset (bp_Signatures p)" "sorted (map (sort_signer T hash) (solanaSignatures ?sigs))"
    using sort_signatures_sorted [of ?T hash "bp_Signatures p"]
    by (simp_all add: solanaSignatures_toGeth comp_def sort_signer_toGeth sort_signer_with_solana)
  have cnt: "gm_get0 (TransactionCounts p) sel 0 = of_nat (ops_on sel (pr_Operations p))"
    by (auto simp: gm_get0_def TransactionCounts_get ops_on_def)
  from assms(8) x have "sol_SetRoot T C (\<lambda>w. w) x md pf (mt_Root (exe_tree e)) (bp_ValidUntil p) ?sigs w = (Inr r, u)"
    by (simp add: sol_executor_iface_def)
  from this assms(7) obtain pid seed pda keys a z where
    s: "ParseContractAddress T (cm_MCMAddress md) = Inr (pid, seed)" "FindConfigPDA T pid seed = Inr pda"
      "equalCurrentRoot T C w (cm_MCMAddress md) (mt_Root (exe_tree e)) = Inr False" "length ?sigs \<le> 255"
      "preloadSignatures T x pid seed (mt_Root (exe_tree e)) (bp_ValidUntil p) ?sigs (keys ! 0) 0 w = (Inr (), z)"
      "send_mcm T x pid (SetRootIx seed (mt_Root (exe_tree e)) (bp_ValidUntil p) (solanaMetadata ?enc md pda)
         (solanaProof pf) keys) z = (Inr a, u)" "r = sol_sent a"
    by (rule sol_SetRoot_InrE) blast
  from solanaMetadata_hashed [OF h s(1,2)]
  have "root_metadata_checks T (mt_Root (exe_tree e)) (solanaMetadata ?enc md pda) (solanaProof pf)" .
  moreover have "rmi_Multisig (solanaMetadata ?enc md pda) = pda" "rmi_ChainId (solanaMetadata ?enc md pda) = sel"
    "rmi_PreOpCount (solanaMetadata ?enc md pda) = cm_StartingOpCount md"
    "rmi_PostOpCount (solanaMetadata ?enc md pda) = cm_StartingOpCount md + of_nat (ops_on sel (pr_Operations p))"
    by (simp_all add: solanaMetadata_def cnt)
  ultimately show ?thesis using t hash s sigs by metis
qed

theorem sol_set_root_passes_program_check_witness:
  "\<exists>e t r b rm proof keys. NewExecutable (with_solana sample_mcm) sample_sol_proposal
       [(4, sol_executor_iface sample_mcm (sample_rpc (mt_Root t + 1)) (sample_node False))] = Inr e \<and>
     MerkleTree (with_solana sample_mcm) sample_sol_proposal = Inr t \<and>
     SetRoot (with_solana sample_mcm) e 4 [] = (Inr r, b @ [mcm_builder sample_mcm 7 (SetRootIx sample_seed (mt_Root t) 99 rm proof keys)]) \<and>
     length b = 2 \<and> rmi_PreOpCount rm = 0 \<and> rmi_PostOpCount rm = 1 \<and> root_metadata_checks sample_mcm (mt_Root t) rm proof"
proof -
  let ?T = "with_solana sample_mcm" and ?p = sample_sol_proposal
  obtain e0 where "NewExecutable ?T ?p ([] :: (chain_selector, (unit, unit) executor) gomap) = Inr e0"
    using sample_sol_executable by blast
  then have "MerkleTree ?T ?p = Inr (exe_tree e0)" by (rule NewExecutable_InrE)
  then obtain t where t: "MerkleTree ?T ?p = Inr t" by blast
  let ?C = "sample_rpc (mt_Root t + 1) :: (ix_builder list, unit) sol_rpc"
  let ?ex = "[(4, sol_executor_iface sample_mcm ?C (sample_node False))]"
  obtain e where e: "NewExecutable ?T ?p ?ex = Inr e" using sample_sol_executable by blast
  have cnt: "gm_get0 (TransactionCounts ?p) 4 0 = 1" by (simp add: gm_get0_def TransactionCounts_get)
  have wf: "gm_wf (bp_ChainMetadata ?p)" by (simp add: gm_wf_def)
  have md: "gm_get (bp_ChainMetadata ?p) 4 = Some sample_sol_metadata" by simp
  have addr: "cm_MCMAddress sample_sol_metadata = ContractAddress sample_solana 7 sample_seed"
    by (simp add: sample_sol_metadata_def)
  have chunks: "chunkIndexes 0 2 = Some []" unfolding chunkIndexes_def by (subst chunk_loop.simps) simp
  have sig0: "solanaSignatures [] = []" by (simp add: solanaSignatures_def)
  from SetRoot_delivers [OF e sample_mcm_sign_msg md, of "sol_executor_iface sample_mcm ?C (sample_node False)" "[]"]
  obtain pf hash where "SetRoot ?T e 4 [] = sol_SetRoot sample_mcm ?C (\<lambda>w. w) (sample_node False) sample_sol_metadata pf
      (mt_Root (exe_tree e)) 99 (sort_signatures ?T hash []) []"
    by (auto simp: sol_executor_iface_def)
  moreover have "mt_Root (exe_tree e) = mt_Root t" using e t by (auto elim: NewExecutable_InrE)
  moreover have "sort_signatures ?T hash [] = []" by (simp add: sort_signatures_def)
  ultimately obtain r b c where run: "SetRoot ?T e 4 [] = (Inr r, b @ [c])" "length b = 2"
    by (auto simp: sol_SetRoot_def set_root_addresses_def equalCurrentRoot_def sol_GetRoot_def getExpiringRootAndOpCountData_def
        addr sample_solana_contract sample_rpc_def pda_defs preloadSignatures.simps append_and_finalize_def send_mcm_def
        sample_node_def bindW_def wrapW_def deref_simps chunks sig0 ext_simps mcm_builder_def Let_def)
  have "sx_Encoder (sample_node False) = Some \<lparr>se_ChainSelector = 4, se_TxCount = 1, se_OverridePreviousRoot = False\<rparr>"
    by (simp add: sample_node_def)
  with sol_set_root_passes_program_check [OF wf e sample_mcm_sign_msg md _ _ _ run(1), where C = ?C and x = "sample_node False"]
    cnt t obtain rm pf keys v a where "send_mcm sample_mcm (sample_node False) 7 (SetRootIx sample_seed (mt_Root t) 99 rm pf keys) v =
      (Inr a, b @ [c])" "rmi_PreOpCount rm = 0" "rmi_PostOpCount rm = 1" "root_metadata_checks sample_mcm (mt_Root t) rm pf"
    by (auto simp: addr sample_solana_contract ops_on_def) (auto simp: sample_sol_metadata_def)
  then show ?thesis using e t run
    by (auto simp: send_mcm_def sample_node_def mcm_builder_def)
qed

end
