(* ===== verification/SolanaAdmin.thy ===== *)
theory SolanaAdmin
  imports SolanaExecution
begin

text \<open>
  What the Solana configurer and the timelock executor send, against abstract specifications of the
  programs: a configuration uploaded with its signers, and the batch that was scheduled.
\<close>

section \<open>Instructions with labels\<close>

text \<open>A collection of instructions is what the builders made of a list of calls.\<close>

definition built :: "'m solana_mcm_env_scheme \<Rightarrow> pubkey \<Rightarrow> mcm_ix list \<Rightarrow> labeled_instruction list \<Rightarrow> bool" where
  "built S pid calls is \<longleftrightarrow>
     list_all2 (\<lambda>call i. validateAndBuildSolanaInstruction S (mcm_builder S pid call) = Inr (li_Instruction i)) calls is"

lemma built_Nil [simp]: "built S pid [] []"
  by (simp add: built_def)

lemma built_append: "built S pid calls is \<Longrightarrow> built S pid calls' is' \<Longrightarrow> built S pid (calls @ calls') (is @ is')"
  by (simp add: built_def list_all2_appendI)

lemma addInstruction_Inr:
  assumes "addInstruction S label (mcm_builder S pid call) is = Inr is'"
  obtains i where "is' = is @ [i]" and "built S pid [call] [i]"
proof -
  from assms obtain x where "validateAndBuildSolanaInstruction S (mcm_builder S pid call) = Inr x"
    and "is' = is @ [\<lparr>li_Instruction = x, li_label = label\<rparr>]" by (auto simp: addInstruction_def bindE_Inr_iff)
  then show ?thesis by (intro that [of "\<lparr>li_Instruction = x, li_label = label\<rparr>"]) (simp_all add: built_def)
qed

lemma addInstructions_Inr:
  assumes "foldE (\<lambda>is (i, x). addInstruction S (label i) (mcm_builder S pid (f x)) is) is (enumerate n xs) = Inr is'"
  shows "\<exists>new. is' = is @ new \<and> built S pid (map f xs) new"
  using assms
proof (induction xs arbitrary: n "is")
  case (Cons x xs)
  from Cons.prems obtain is1 where
    1: "addInstruction S (label n) (mcm_builder S pid (f x)) is = Inr is1" and
    2: "foldE (\<lambda>is (i, x). addInstruction S (label i) (mcm_builder S pid (f x)) is) is1 (enumerate (Suc n) xs) = Inr is'"
    by (auto simp: bindE_Inr_iff)
  from 1 obtain i where i: "is1 = is @ [i]" "built S pid [f x] [i]" by (rule addInstruction_Inr)
  from Cons.IH [OF 2] obtain new where "is' = is1 @ new" "built S pid (map f xs) new" by blast
  with i show ?case by (intro exI [of _ "i # new"]) (simp add: built_def)
qed simp

section \<open>The configuration account\<close>

text \<open>
  The program keeps the signers that are uploaded for a configuration in an account of their own, and
  \<open>set_config\<close> takes them from there when they are final, numbering them.
\<close>

datatype signers_account = NoSigners | LoadingSigners u8 "address list" | FinalSigners "address list"

type_synonym config_state = "signers_account \<times> mcms_config option"

fun config_step :: "config_state \<Rightarrow> mcm_ix \<Rightarrow> config_state option" where
  "config_step (NoSigners, c) (InitSigners name n keys) = Some (LoadingSigners n [], c)"
| "config_step (LoadingSigners n xs, c) (AppendSigners name chunk keys) =
     (if length (xs @ chunk) \<le> unat n then Some (LoadingSigners n (xs @ chunk), c) else None)"
| "config_step (LoadingSigners n xs, c) (FinalizeSigners name keys) =
     (if length xs = unat n then Some (FinalSigners xs, c) else None)"
| "config_step (FinalSigners xs, c) (SetConfigIx name groups quorums parents clearRoot keys) =
     (if length groups = length xs
      then Some (NoSigners, Some \<lparr>mc_Signers = bind_signers 0 xs groups, mc_GroupQuorums = quorums, mc_GroupParents = parents\<rparr>)
      else None)"
| "config_step _ _ = None"

fun config_steps :: "config_state \<Rightarrow> mcm_ix list \<Rightarrow> config_state option" where
  "config_steps s [] = Some s"
| "config_steps s (c # cs) = Option.bind (config_step s c) (\<lambda>s'. config_steps s' cs)"

lemma config_steps_chunks:
  "length (xs @ concat chunks) = unat n \<Longrightarrow>
     config_steps (LoadingSigners n xs, c) (map (\<lambda>ch. AppendSigners name ch keys) chunks @ rest) =
     config_steps (LoadingSigners n (xs @ concat chunks), c) rest"
proof (induction chunks arbitrary: xs)
  case (Cons ch chunks)
  from Cons.prems have "length (xs @ ch) \<le> unat n" by simp
  with Cons.IH [of "xs @ ch"] Cons.prems show ?case by simp
qed simp

text \<open>The calls behind \<open>SetConfig\<close>.\<close>

definition set_config_calls ::
  "'m solana_mcm_env_scheme \<Rightarrow> pubkey \<Rightarrow> pda_seed \<Rightarrow> u8 list \<times> u8 list \<times> address list \<times> u8 list \<Rightarrow> pubkey \<Rightarrow> pubkey \<Rightarrow>
     pubkey list \<Rightarrow> address list list \<Rightarrow> bool \<Rightarrow> mcm_ix list" where
  "set_config_calls S authority seed = (\<lambda>(quorums, parents, addrs, groups) configPDA signersPDA keys chunks clearRoot.
     InitSigners seed (word_of_nat (length addrs)) [configPDA, signersPDA, authority, SystemProgramID S] #
     map (\<lambda>ch. AppendSigners seed ch [configPDA, signersPDA, authority]) chunks @
     [FinalizeSigners seed [configPDA, signersPDA, authority], SetConfigIx seed groups quorums parents clearRoot keys])"

lemma set_config_calls_run:
  assumes "concat chunks = addrs" and "length addrs \<le> 255" and "length groups = length addrs"
  shows "config_steps (NoSigners, c) (set_config_calls S authority seed (quorums, parents, addrs, groups) configPDA signersPDA
      keys chunks clearRoot) =
    Some (NoSigners, Some \<lparr>mc_Signers = bind_signers 0 addrs groups, mc_GroupQuorums = quorums, mc_GroupParents = parents\<rparr>)"
proof -
  have "unat (word_of_nat (length addrs) :: u8) = length addrs" using assms(2) by (simp add: unat_of_nat)
  with config_steps_chunks [of "[]" chunks "word_of_nat (length addrs)"] assms(1,3) show ?thesis
    by (simp add: set_config_calls_def)
qed

lemma set_config_instructions_Inr:
  assumes "set_config_instructions S c clearRoot (pid, seed, (q, p, as, gs), cfgPDA, rm, er, signersPDA) = Inr is"
  shows "\<exists>new keys chunks. is = cf_instructions c @ new \<and> concat chunks = as \<and>
    (\<forall>ch \<in> set chunks. ch \<noteq> [] \<and> length ch \<le> 20) \<and>
    built S pid (set_config_calls S (cf_authorityAccount c) seed (q, p, as, gs) cfgPDA signersPDA keys chunks clearRoot) new"
proof -
  let ?au = "cf_authorityAccount c"
  let ?f = "\<lambda>ab. AppendSigners seed (slice as ab) [cfgPDA, signersPDA, ?au]"
  obtain idx where idx: "chunkIndexes (int (length as)) 20 = Some idx" "concat (map (slice as) idx) = as"
    "\<forall>ab \<in> set idx. slice as ab \<noteq> [] \<and> int (length (slice as ab)) \<le> 20"
    using chunkIndexes_slices [of 20 as] by (metis zero_less_numeral)
  from assms idx(1) obtain is1 is2 is3 where
    1: "addInstruction S ''initSigners'' (mcm_builder S pid (InitSigners seed (word_of_nat (length as))
          [cfgPDA, signersPDA, ?au, SystemProgramID S])) (cf_instructions c) = Inr is1" and
    2: "foldE (\<lambda>is (i, x). addInstruction S (''appendSigners'' @ nat_text i) (mcm_builder S pid (?f x)) is) is1
          (enumerate 0 idx) = Inr is2" and
    3: "addInstruction S ''finalizeSigners'' (mcm_builder S pid (FinalizeSigners seed [cfgPDA, signersPDA, ?au])) is2 = Inr is3" and
    4: "addInstruction S ''setConfig'' (mcm_builder S pid (SetConfigIx seed gs q p clearRoot
          [cfgPDA, signersPDA, rm, er, ?au, SystemProgramID S])) is3 = Inr is"
    unfolding set_config_instructions_def preloadSigners_def maxAppendSignerBatchSize_def solanaSignerAddresses_def Let_def
    by (simp add: bindE_Inr_iff) blast
  obtain i1 where i1: "is1 = cf_instructions c @ [i1]" and
    b1: "built S pid [InitSigners seed (word_of_nat (length as)) [cfgPDA, signersPDA, ?au, SystemProgramID S]] [i1]"
    using 1 by (rule addInstruction_Inr)
  obtain new where new: "is2 = is1 @ new" and b2: "built S pid (map ?f idx) new" using addInstructions_Inr [OF 2] by blast
  obtain i3 where i3: "is3 = is2 @ [i3]" and b3: "built S pid [FinalizeSigners seed [cfgPDA, signersPDA, ?au]] [i3]"
    using 3 by (rule addInstruction_Inr)
  obtain i4 where i4: "is = is3 @ [i4]" and
    b4: "built S pid [SetConfigIx seed gs q p clearRoot [cfgPDA, signersPDA, rm, er, ?au, SystemProgramID S]] [i4]"
    using 4 by (rule addInstruction_Inr)
  note b = b1 b2 b3 b4
  have "is = cf_instructions c @ [i1] @ new @ [i3] @ [i4]" using i1 new i3 i4 by simp
  moreover have "built S pid (set_config_calls S ?au seed (q, p, as, gs) cfgPDA signersPDA
      [cfgPDA, signersPDA, rm, er, ?au, SystemProgramID S] (map (slice as) idx) clearRoot) ([i1] @ new @ [i3] @ [i4])"
    using built_append [OF b(1) built_append [OF b(2) built_append [OF b(3,4)]]]
    by (simp add: set_config_calls_def comp_def)
  ultimately show ?thesis using idx(2,3)
    by (intro exI [of _ "[i1] @ new @ [i3] @ [i4]"] exI [of _ "[cfgPDA, signersPDA, rm, er, ?au, SystemProgramID S]"]
        exI [of _ "map (slice as) idx"]) auto
qed

lemma sol_SetConfig_InrE:
  assumes "sol_SetConfig S C c addr cfg clearRoot w = (Inr r, c', w')"
  obtains pid seed q p as gs cfgPDA rm er signersPDA "is" where
    "ParseContractAddress S addr = Inr (pid, seed)" "ExtractSetConfigInputs S cfg = Inr (q, p, as, gs)"
    "int (length as) \<le> MaxNumSigners S" "FindConfigPDA S pid seed = Inr cfgPDA"
    "set_config_instructions S c clearRoot (pid, seed, (q, p, as, gs), cfgPDA, rm, er, signersPDA) = Inr is"
    "tr_RawData r = Some (RawInstructions (solanaInstructions is))" "c' = c\<lparr>cf_instructions := []\<rparr>"
    "cf_skipSend c \<Longrightarrow> w' = w \<and> tr_Hash r = []"
    "\<not> cf_skipSend c \<Longrightarrow> sendInstructions S C (cf_auth c) is w = (Inr (tr_Hash r), w')"
proof -
  obtain pid seed q p as gs cfgPDA rm er signersPDA where
    a: "set_config_addresses S addr cfg = Inr (pid, seed, (q, p, as, gs), cfgPDA, rm, er, signersPDA)"
    using assms by (cases "set_config_addresses S addr cfg") (auto simp: sol_SetConfig_def)
  then have 1: "ParseContractAddress S addr = Inr (pid, seed)" "ExtractSetConfigInputs S cfg = Inr (q, p, as, gs)"
    "int (length as) \<le> MaxNumSigners S" "FindConfigPDA S pid seed = Inr cfgPDA"
    unfolding set_config_addresses_def by (auto elim!: bindE_InrE)
  obtain "is" where i: "set_config_instructions S c clearRoot (pid, seed, (q, p, as, gs), cfgPDA, rm, er, signersPDA) = Inr is"
    using assms a by (cases "set_config_instructions S c clearRoot (pid, seed, (q, p, as, gs), cfgPDA, rm, er, signersPDA)")
      (auto simp: sol_SetConfig_def)
  show ?thesis
    by (rule that [OF 1 i])
      (use assms a i in \<open>auto simp: sol_SetConfig_def bindW_def wrapW_def sol_built_def split: if_splits prod.splits sum.splits\<close>)
qed

section \<open>Properties\<close>

text \<open>
  What SetConfig puts on a Solana chain. The instructions it returns, and sends unless told not to,
  are what the program's builders made of calls that upload the signers in chunks of at most twenty
  and then set the configuration; run on the program's accounts they leave a configuration that reads
  back as one Equal to the given one in both directions, with the same quorums. Afterwards the
  configurer holds no instructions, so none is repeated by a later call.
\<close>

theorem sol_SetConfig_stores:
  assumes "casts_documented S" and "config_Validate cfg = Inr ()" and "evm_fits cfg" and "cf_instructions c = []"
    and "sol_SetConfig S C c addr cfg clearRoot w = (Inr r, c', w')"
  shows "\<exists>pid seed calls is acc cfg'. ParseContractAddress S addr = Inr (pid, seed) \<and> built S pid calls is \<and>
    tr_RawData r = Some (RawInstructions (solanaInstructions is)) \<and>
    (if cf_skipSend c then w' = w else sendInstructions S C (cf_auth c) is w = (Inr (tr_Hash r), w')) \<and>
    config_steps (NoSigners, old) calls = Some (NoSigners, Some (evm_part acc)) \<and>
    sol_ToConfig acc = Inr cfg' \<and> config_Equals cfg cfg' \<and> config_Equals cfg' cfg \<and>
    (\<forall>xs. QuorumMet cfg' xs = QuorumMet cfg xs) \<and> cf_instructions c' = []"
proof -
  from assms(5) obtain pid seed q p as gs cfgPDA rm er signersPDA "is" where
    1: "ParseContractAddress S addr = Inr (pid, seed)" "ExtractSetConfigInputs S cfg = Inr (q, p, as, gs)"
      "set_config_instructions S c clearRoot (pid, seed, (q, p, as, gs), cfgPDA, rm, er, signersPDA) = Inr is"
      "tr_RawData r = Some (RawInstructions (solanaInstructions is))" "c' = c\<lparr>cf_instructions := []\<rparr>"
      "cf_skipSend c \<Longrightarrow> w' = w" "\<not> cf_skipSend c \<Longrightarrow> sendInstructions S C (cf_auth c) is w = (Inr (tr_Hash r), w')"
    by (rule sol_SetConfig_InrE) blast
  from set_config_instructions_Inr [OF 1(3)] assms(4) obtain keys chunks where
    2: "concat chunks = as" "built S pid (set_config_calls S (cf_authorityAccount c) seed (q, p, as, gs) cfgPDA signersPDA
        keys chunks clearRoot) is" by auto
  let ?ac = "\<lparr>ac_ChainID = 0, ac_MultisigID = seed, ac_Owner = 0, ac_ProposedOwner = 0\<rparr>"
  obtain acc cfg' where acc: "sol_ToChainConfig S cfg ?ac = Inr acc" and cfg': "sol_ToConfig acc = Inr cfg'"
    using sol.stored [OF assms(1-3), where ac = ?ac] by metis
  from acc 1(2) have part: "evm_part acc = \<lparr>mc_Signers = bind_signers 0 as gs, mc_GroupQuorums = q, mc_GroupParents = p\<rparr>"
    and len: "length as \<le> 255" by (auto simp: sol_ToChainConfig_def evm_part_def split: if_splits)
  have gs: "length gs = length as" using 1(2) by (auto simp: ExtractSetConfigInputs_def bindE_Inr_iff Let_def)
  from set_config_calls_run [OF 2(1) len gs] part have "config_steps (NoSigners, old)
      (set_config_calls S (cf_authorityAccount c) seed (q, p, as, gs) cfgPDA signersPDA keys chunks clearRoot) =
    Some (NoSigners, Some (evm_part acc))" by simp
  moreover note sol.stored_quorum(2-4) [OF assms(1-3) acc cfg']
  ultimately show ?thesis using 1 2(2) cfg' by (auto split: if_splits)
qed

lemma sample_add_instruction [simp]:
  "addInstruction sample_mcm label (mcm_builder sample_mcm pid call) is = Inr (is @
     [\<lparr>li_Instruction = \<lparr>ix_ProgramID = pid, ix_Accounts = McmAccounts sample_mcm call, ix_Data = Inr [7]\<rparr>, li_label = label\<rparr>])"
  by (simp add: addInstruction_def mcm_builder_def validateAndBuildSolanaInstruction_def)

lemma foldE_pure: "foldE (\<lambda>s x. Inr (g s x)) s xs = Inr (foldl g s xs)"
  by (induction xs arbitrary: s) simp_all

definition sample_configurer :: sol_configurer where
  "sample_configurer = sol_NewConfigurer sample_mcm [6] 4 [WithDoNotSendInstructionsOnChain, WithAuthorityAccount 5]"

lemma sample_configurer_fields [simp]:
  "cf_instructions sample_configurer = []" "cf_skipSend sample_configurer" "cf_authorityAccount sample_configurer = 5"
  by (simp_all add: sample_configurer_def sol_NewConfigurer_def WithDoNotSendInstructionsOnChain_def WithAuthorityAccount_def)

lemma sample_mcm_casts_plain: "casts_documented sample_mcm"
  using sample_env_casts by (simp add: casts_documented_def)

lemma sample_SetConfig:
  assumes "ExtractSetConfigInputs sample_mcm cfg = Inr (q, p, as, gs)" and "length as \<le> 200"
  shows "\<exists>r c'. sol_SetConfig sample_mcm (sample_rpc 0) sample_configurer (ContractAddress sample_solana 7 sample_seed) cfg
    False w = (Inr r, c', w)"
proof -
  obtain idx where idx: "chunkIndexes (int (length as)) 20 = Some idx"
    using chunkIndexes_slices [of 20 as] by (metis zero_less_numeral)
  obtain cfgPDA rm er sg where addr: "set_config_addresses sample_mcm (ContractAddress sample_solana 7 sample_seed) cfg =
      Inr (7, sample_seed, (q, p, as, gs), cfgPDA, rm, er, sg)"
    using assms by (simp add: set_config_addresses_def sample_solana_contract pda_defs)
  obtain "is" where "set_config_instructions sample_mcm sample_configurer False
      (7, sample_seed, (q, p, as, gs), cfgPDA, rm, er, sg) = Inr is"
    using idx by (simp add: set_config_instructions_def preloadSigners_def maxAppendSignerBatchSize_def
        solanaSignerAddresses_def Let_def split_def foldE_pure)
  with addr show ?thesis by (simp add: sol_SetConfig_def bindW_def)
qed

theorem sol_SetConfig_stores_witness:
  "\<exists>r c' acc cfg' calls. sol_SetConfig sample_mcm (sample_rpc 0) sample_configurer (ContractAddress sample_solana 7 sample_seed)
       (Config 2 [9, 4] [Config 1 [7, 3] []]) False () = (Inr r, c', ()) \<and>
     config_steps (NoSigners, None) calls = Some (NoSigners, Some (evm_part acc)) \<and>
     sol_ToConfig acc = Inr cfg' \<and> QuorumMet cfg' [9, 7]"
proof -
  let ?cfg = "Config 2 [9, 4] [Config 1 [7, 3] []]"
  have v: "config_Validate ?cfg = Inr ()" and f: "evm_fits ?cfg" by (simp_all add: evm_fits_def)
  obtain b where "evm_ToChainConfig sample_mcm ?cfg = Inr b" by (rule evm.stored [OF sample_mcm_casts_plain v f])
  then obtain q p as gs where ex: "ExtractSetConfigInputs sample_mcm ?cfg = Inr (q, p, as, gs)"
    unfolding evm_ToChainConfig_def bindE_Inr_iff by auto
  then have "length as \<le> 200"
    using ExtractSetConfigInputs_Inr [OF sample_mcm_casts_plain, of ?cfg] v by (auto simp: listed_signers_def Let_def)
  from sample_SetConfig [OF ex this, of "()"] obtain r c' where
    run: "sol_SetConfig sample_mcm (sample_rpc 0) sample_configurer (ContractAddress sample_solana 7 sample_seed) ?cfg
      False () = (Inr r, c', ())" by auto
  have "QuorumMet ?cfg [9, 7]" by (simp add: QuorumMet_def)
  with sol_SetConfig_stores [OF sample_mcm_casts_plain v f _ run, where old = None] run show ?thesis by auto
qed

text \<open>
  The Solana timelock executes the batch that was scheduled. The executor's execute_batch names
  the operation whose id OperationID computes for scheduling the batch, in the account derived from
  this id, and after the account of the predecessor, or the zero key when there is none. Behind the
  program's own accounts come the programs and accounts of the batch, each once, writable when one of
  its mentions is, and none of them a signer. One transaction is sent and nothing else.
\<close>

theorem sol_timelock_executes_scheduled:
  assumes "sol_OperationID S bop TimelockActionSchedule predecessor salt = Inr opid"
    and "execute_batch_builder S C w auth bop addr predecessor salt = Inr b"
  shows "\<exists>pid seed keys accs us. ParseContractAddress S addr = Inr (pid, seed) \<and>
    FindTimelockOperationPDA S pid seed opid = Inr (keys ! 0) \<and>
    (if predecessor = 0 then keys ! 1 = 0 else FindTimelockOperationPDA S pid seed predecessor = Inr (keys ! 1)) \<and>
    b = TimelockBuilder pid (ExecuteBatch seed opid keys) (TimelockAccounts S (ExecuteBatch seed opid keys) @ us) \<and>
    batch_accounts S bop = Inr accs \<and> keys_of us = dedup_seen {} (keys_of accs) \<and>
    (\<forall>u \<in> set us. am_IsWritable u = writable_in accs (am_PublicKey u) \<and> \<not> am_IsSigner u) \<and>
    sol_timelock_Execute S C auth bop addr predecessor salt w =
      bindW (wrapW (Wrapf ''unable to call execute operation instruction: %w'') (sendAndConfirm S C auth b))
        (\<lambda>r w. (Inr (sol_sent r), w)) w"
proof -
  from assms(1) obtain ds where ds: "getInstructionDataFromBatchOperation S bop = Inr ds"
    and h: "sol_HashTimelockOperation S ds predecessor salt = Inr opid"
    by (auto simp: sol_OperationID_def bindE_Inr_iff)
  note build = assms(2) [unfolded execute_batch_builder_def ds]
  from build obtain pid seed where p: "ParseContractAddress S addr = Inr (pid, seed)"
    by (cases "ParseContractAddress S addr") auto
  from build p obtain us where a: "getAccountsFromBatchOperation S bop = Inr us"
    by (cases "getAccountsFromBatchOperation S bop") auto
  from build p a h obtain oppda where o: "FindTimelockOperationPDA S pid seed opid = Inr oppda"
    by (cases "FindTimelockOperationPDA S pid seed opid") auto
  from build p a h o obtain cfg where c: "FindTimelockConfigPDA S pid seed = Inr cfg"
    by (cases "FindTimelockConfigPDA S pid seed") auto
  from build p a h o c obtain sg where g: "FindTimelockSignerPDA S pid seed = Inr sg"
    by (cases "FindTimelockSignerPDA S pid seed") auto
  from build p a h o c g obtain tc where t: "GetTimelockConfig C w cfg = Inr tc"
    by (cases "GetTimelockConfig C w cfg") auto
  from build p a h o c g t obtain pre where
    pre: "if predecessor = 0 then pre = 0 else FindTimelockOperationPDA S pid seed predecessor = Inr pre" and
    b: "b = TimelockBuilder pid (ExecuteBatch seed opid [oppda, pre, cfg, sg, tl_ExecutorAC tc, AuthPublicKey S auth])
          (TimelockAccounts S (ExecuteBatch seed opid [oppda, pre, cfg, sg, tl_ExecutorAC tc, AuthPublicKey S auth]) @ us)"
    by (cases "predecessor = 0") (auto simp: Let_def bindE_Inr_iff)
  let ?keys = "[oppda, pre, cfg, sg, tl_ExecutorAC tc, AuthPublicKey S auth]"
  from a obtain accs where accs: "batch_accounts S bop = Inr accs" and us: "us = foldl merge_account [] accs"
    by (auto simp: getAccounts_of_batch bindE_Inr_iff)
  have "if predecessor = 0 then ?keys ! 1 = 0 else FindTimelockOperationPDA S pid seed predecessor = Inr (?keys ! 1)"
    using pre by simp
  moreover have "sol_timelock_Execute S C auth bop addr predecessor salt w =
      bindW (wrapW (Wrapf ''unable to call execute operation instruction: %w'') (sendAndConfirm S C auth b))
        (\<lambda>r w. (Inr (sol_sent r), w)) w"
    by (simp add: sol_timelock_Execute_def assms(2))
  moreover have "FindTimelockOperationPDA S pid seed opid = Inr (?keys ! 0)" using o by simp
  ultimately show ?thesis using p b accs merged_accounts(1,3) us by blast
qed

theorem sol_timelock_executes_scheduled_witness:
  "\<exists>opid b keys us. sol_OperationID sample_mcm sample_batch TimelockActionSchedule 0 3 = Inr opid \<and>
     execute_batch_builder sample_mcm (sample_rpc 0) () [6] sample_batch (ContractAddress sample_solana 8 sample_seed) 0 3 =
       Inr (TimelockBuilder 8 (ExecuteBatch sample_seed opid keys)
         (TimelockAccounts sample_mcm (ExecuteBatch sample_seed opid keys) @ us)) \<and>
     keys_of us = [5, 9] \<and> keys ! 1 = 0"
proof -
  have to: "tx_To sample_sol_tx = bits_text 5" by (simp add: sample_sol_tx_def)
  have ds: "\<exists>ds. getInstructionDataFromBatchOperation sample_mcm sample_batch = Inr ds"
    by (simp add: getInstructionDataFromBatchOperation_def sample_batch_def instruction_data_of_def to sample_sol_fields
        sample_solana_contract)
  then obtain opid where id: "sol_OperationID sample_mcm sample_batch TimelockActionSchedule 0 3 = Inr opid"
    by (auto simp: sol_OperationID_def sol_HashTimelockOperation_def)
  have accs: "batch_accounts sample_mcm sample_batch =
      Inr [\<lparr>am_PublicKey = 5, am_IsWritable = False, am_IsSigner = False\<rparr>, sample_account]"
    by (simp add: batch_accounts_def sample_batch_def accounts_of_tx_def to sample_sol_fields sample_solana_contract)
  with ds obtain b where b: "execute_batch_builder sample_mcm (sample_rpc 0) () [6] sample_batch
      (ContractAddress sample_solana 8 sample_seed) 0 3 = Inr b"
    by (auto simp: execute_batch_builder_def getAccounts_of_batch sample_solana_contract sol_HashTimelockOperation_def
        pda_defs GetTimelockConfig_def sample_rpc_def ext_simps Let_def)
  have "dedup_seen {} (keys_of [\<lparr>am_PublicKey = 5, am_IsWritable = False, am_IsSigner = False\<rparr>, sample_account]) = [5, 9]"
    by (simp add: sample_account_def)
  with sol_timelock_executes_scheduled [OF id b] accs id b show ?thesis by (auto simp: sample_solana_contract)
qed

text \<open>
  C25: what a result of sendTransaction means. With at least one try, a result without an error is
  the node's record of a transaction made of the instructions, signed, accepted under a signature
  whose status was later confirmed or final, and which did not fail. With no try at all, as with
  MCMS_SOLANA_MAX_RETRIES set to 0 or less, nothing is sent and the blockhash that was never fetched
  is dereferenced.
\<close>

theorem sol_sendTransaction_result:
  assumes "opts = foldl (\<lambda>o' opt. opt o') (defaultSendTransactionOptions S) options"
  shows "(so_retries opts \<le> 0 \<longrightarrow>
      sol_sendTransaction S C instructions auth options w = (Inl (Panic ''nil pointer dereference''), w)) \<and>
    (sol_sendTransaction S C instructions auth options w = (Inr r, w') \<longrightarrow>
      res_Meta r = Some None \<and>
      (\<exists>blockhash tx txsig st v1 v1' v2 v2' v3 v3' v4. GetLatestBlockhash C v1 = (Inr blockhash, v1') \<and>
         prepare_tx S C opts instructions auth blockhash = Inr tx \<and>
         SendTransactionWithOpts C tx (so_skipPreflight opts) v2 = (Inr txsig, v2') \<and>
         GetSignatureStatuses C txsig v3 = (Inr (Some st), v3') \<and> (st = Confirmed \<or> st = Finalized) \<and>
         GetTransaction C txsig v4 = (Inr r, w')))"
proof (intro conjI impI)
  assume "so_retries opts \<le> 0"
  then show "sol_sendTransaction S C instructions auth options w = (Inl (Panic ''nil pointer dereference''), w)"
    by (simp add: sol_sendTransaction_def Let_def assms [symmetric])
next
  assume run: "sol_sendTransaction S C instructions auth options w = (Inr r, w')"
  let ?n = "nat (so_retries opts)" and ?sleep = "SleepFor C (so_delay opts)"
  obtain q w1 where b: "retry ?n (GetLatestBlockhash C) ?sleep None w = (q, w1)" by fastforce
  note run = run [unfolded sol_sendTransaction_def Let_def assms [symmetric] b]
  then obtain blockhash where q: "q = Some (Inr blockhash)" by (auto split: option.splits sum.splits)
  then have n: "?n \<noteq> 0" using b by (auto simp: fst_conv dest: arg_cong [of _ _ fst])
  from run q obtain tx where tx: "prepare_tx S C opts instructions auth blockhash = Inr tx"
    by (cases "prepare_tx S C opts instructions auth blockhash") auto
  obtain s w2 where s: "retry ?n (SendTransactionWithOpts C tx (so_skipPreflight opts)) ?sleep None w1 = (s, w2)" by fastforce
  have "s \<noteq> None" using retry_None [of ?n "SendTransactionWithOpts C tx (so_skipPreflight opts)" ?sleep w1] s n by simp
  with run q tx s obtain txsig where t: "s = Some (Inr txsig)" and c: "confirm_tx C opts txsig w2 = (Inr r, w')"
    by (auto split: option.splits sum.splits)
  from b q obtain v1 where "GetLatestBlockhash C v1 = (Inr blockhash, w1)" by (auto dest!: retry_Inr)
  moreover from s t obtain v2 where "SendTransactionWithOpts C tx (so_skipPreflight opts) v2 = (Inr txsig, w2)"
    by (auto dest!: retry_Inr)
  ultimately have "\<exists>blockhash tx txsig st v1 v1' v2 v2' v3 v3' v4. GetLatestBlockhash C v1 = (Inr blockhash, v1') \<and>
         prepare_tx S C opts instructions auth blockhash = Inr tx \<and>
         SendTransactionWithOpts C tx (so_skipPreflight opts) v2 = (Inr txsig, v2') \<and>
         GetSignatureStatuses C txsig v3 = (Inr (Some st), v3') \<and> (st = Confirmed \<or> st = Finalized) \<and>
         GetTransaction C txsig v4 = (Inr r, w')"
    using tx confirm_tx_Inr [OF c] by metis
  then show "\<exists>blockhash tx txsig st v1 v1' v2 v2' v3 v3' v4. GetLatestBlockhash C v1 = (Inr blockhash, v1') \<and>
         prepare_tx S C opts instructions auth blockhash = Inr tx \<and>
         SendTransactionWithOpts C tx (so_skipPreflight opts) v2 = (Inr txsig, v2') \<and>
         GetSignatureStatuses C txsig v3 = (Inr (Some st), v3') \<and> (st = Confirmed \<or> st = Finalized) \<and>
         GetTransaction C txsig v4 = (Inr r, w')" .
  show "res_Meta r = Some None" using confirm_tx_Inr [OF c] by blast
qed

theorem sol_sendTransaction_result_witness:
  "fst (sol_sendTransaction sample_mcm (sample_rpc 0) [] [6] [WithRetries 0] ()) = Inl (Panic ''nil pointer dereference'') \<and>
   (\<exists>r. sol_sendTransaction sample_mcm (sample_rpc 0) [] [6] [WithRetries 1] () = (Inr r, ()) \<and> res_Meta r = Some None)"
proof -
  have "fst (sol_sendTransaction sample_mcm (sample_rpc 0) [] [6] [WithRetries 0] ()) = Inl (Panic ''nil pointer dereference'')"
    using sol_sendTransaction_result [OF refl, of sample_mcm "[WithRetries 0]" "sample_rpc 0" "[]" "[6]" "()" undefined "()"]
    by (simp add: WithRetries_def)
  moreover have prep: "prepare_tx sample_mcm (sample_rpc 0) opts [] [6] h = Inr ()" for opts h
    by (simp add: prepare_tx_def sample_rpc_def ext_simps)
  have calls: "GetLatestBlockhash (sample_rpc 0) v = (Inr 0, v)" "SendTransactionWithOpts (sample_rpc 0) t b v = (Inr ''sig'', v)"
    "GetSignatureStatuses (sample_rpc 0) s v = (Inr (Some Confirmed), v)"
    "GetTransaction (sample_rpc 0) s v = (Inr \<lparr>res_Transaction = Some (Inr [''sig'']), res_Meta = Some None\<rparr>, v)"
    for v :: unit and t b s by (simp_all add: sample_rpc_def)
  obtain r where r: "sol_sendTransaction sample_mcm (sample_rpc 0) [] [6] [WithRetries 1] () = (Inr r, ())"
    by (simp add: sol_sendTransaction_def prep confirm_tx_def check_result_def WithRetries_def calls eval_nat_numeral Let_def)
  moreover have "res_Meta r = Some None"
    using sol_sendTransaction_result [OF refl, of sample_mcm "[WithRetries 1]" "sample_rpc 0" "[]" "[6]" "()" r "()"] r by simp
  ultimately show ?thesis by blast
qed

end
