(* ===== verification/Bcs.thy ===== *)
theory Bcs
  imports ByteCode Errors GoText
begin

text \<open>
  The serialiser of \<open>aptos-go-sdk/bcs\<close>, which \<open>sdk/aptos\<close> and \<open>sdk/sui\<close> hash with. The package is not
  part of the repository: a serialiser is the list of the calls made on it, its error and its bytes
  are the fields of \<open>bcs_pkg\<close>, and \<open>bcs_documented\<close> states the Binary Canonical Serialization
  format. Where the format is a code, the calls can be read back from the bytes.
\<close>

section \<open>Calls and the format\<close>

text \<open>The only struct that is serialised is an account address, 32 bytes.\<close>

datatype bcs_call =
    SerU8 u8
  | SerU64 u64
  | SerU256 int
  | SerBool bool
  | SerFixedBytes "byte list"
  | SerUleb128 u32
  | SerWriteBytes "byte list"
  | SerWriteString string
  | SerStruct hash

record bcs_pkg =
  SerError :: "bcs_call list \<Rightarrow> mcms_error option"
  SerToBytes :: "bcs_call list \<Rightarrow> byte list"

text \<open>\<open>bcs.SerializeSingle\<close> returns the bytes, or the error the serialiser ended in.\<close>

definition SerializeSingle :: "'b bcs_pkg_scheme \<Rightarrow> bcs_call list \<Rightarrow> byte list res" where
  "SerializeSingle B calls = (case SerError B calls of Some err \<Rightarrow> Inl err | None \<Rightarrow> Inr (SerToBytes B calls))"

text \<open>A length in base 128, least significant digit first, the high bit set on all but the last.\<close>

fun uleb128 :: "nat \<Rightarrow> byte list" where
  "uleb128 n = (if n < 128 then [word_of_nat n] else word_of_nat (n mod 128 + 128) # uleb128 (n div 128))"

declare uleb128.simps [simp del]

fun bcs_bytes :: "bcs_call \<Rightarrow> byte list" where
  "bcs_bytes (SerU8 b) = [b]"
| "bcs_bytes (SerU64 w) = le_bytes 8 w"
| "bcs_bytes (SerU256 i) = le_bytes 32 (word_of_int i :: hash)"
| "bcs_bytes (SerBool b) = [of_bool b]"
| "bcs_bytes (SerFixedBytes bs) = bs"
| "bcs_bytes (SerUleb128 n) = uleb128 (unat n)"
| "bcs_bytes (SerWriteBytes bs) = uleb128 (length bs) @ bs"
| "bcs_bytes (SerWriteString s) = uleb128 (length s) @ string_bytes s"
| "bcs_bytes (SerStruct a) = be_bytes 32 a"

text \<open>The calls the format has bytes for: integers in their range, lengths below \<open>2^32\<close>.\<close>

fun bcs_fits :: "bcs_call \<Rightarrow> bool" where
  "bcs_fits (SerU256 i) \<longleftrightarrow> 0 \<le> i \<and> i < 2 ^ 256"
| "bcs_fits (SerWriteBytes bs) \<longleftrightarrow> length bs < 2 ^ 32"
| "bcs_fits (SerWriteString s) \<longleftrightarrow> length s < 2 ^ 32"
| "bcs_fits _ \<longleftrightarrow> True"

definition bcs_documented :: "'b bcs_pkg_scheme \<Rightarrow> bool" where
  "bcs_documented B \<longleftrightarrow>
     (\<forall>calls. list_all bcs_fits calls \<longrightarrow> SerError B calls = None \<and> SerToBytes B calls = concat (map bcs_bytes calls))"

definition plain_bcs :: bcs_pkg where
  "plain_bcs = \<lparr>SerError = (\<lambda>_. None), SerToBytes = (\<lambda>calls. concat (map bcs_bytes calls))\<rparr>"

lemma plain_bcs_documented: "bcs_documented plain_bcs"
  by (simp add: bcs_documented_def plain_bcs_def)

lemma plain_bcs_sel [simp]:
  "SerError plain_bcs calls = None"
  "SerToBytes plain_bcs calls = concat (map bcs_bytes calls)"
  by (simp_all add: plain_bcs_def)

section \<open>Lengths are a code\<close>

lemma word8_of_nat_eq: "a < 256 \<Longrightarrow> b < 256 \<Longrightarrow> (word_of_nat a :: byte) = word_of_nat b \<longleftrightarrow> a = b"
  using word_of_nat_inject_bound [where 'a = 8, of a b] by auto

lemma uleb128_splits: "uleb128 m @ r = uleb128 n @ s \<Longrightarrow> m = n \<and> r = s"
proof (induction m arbitrary: n rule: uleb128.induct)
  case (1 m)
  have low: "x mod 128 + 128 < 256" for x :: nat
    by (simp add: less_diff_conv [symmetric])
  consider "m < 128" "n < 128" | "m < 128" "\<not> n < 128" | "\<not> m < 128" "n < 128" | "\<not> m < 128" "\<not> n < 128"
    by blast
  then show ?case
  proof cases
    case 4
    with "1.prems" have "m mod 128 = n mod 128" and "uleb128 (m div 128) @ r = uleb128 (n div 128) @ s"
      by (simp_all add: uleb128.simps [of m] uleb128.simps [of n] word8_of_nat_eq low del: of_nat_add)
    with "1.IH" [OF 4(1), of "n div 128"] have "m mod 128 = n mod 128" "m div 128 = n div 128" "r = s" by simp_all
    then show ?thesis by (metis div_mult_mod_eq)
  next
    case 2
    then have "m = n mod 128 + 128"
      using "1.prems" by (simp add: uleb128.simps [of m] uleb128.simps [of n] word8_of_nat_eq low del: of_nat_add)
    with 2 show ?thesis by simp
  next
    case 3
    then have "n = m mod 128 + 128"
      using "1.prems" by (simp add: uleb128.simps [of m] uleb128.simps [of n] word8_of_nat_eq low del: of_nat_add)
    with 3 show ?thesis by simp
  qed (use "1.prems" in \<open>simp add: uleb128.simps [of m] uleb128.simps [of n] word8_of_nat_eq del: of_nat_add\<close>)
qed

interpretation length_code: byte_code "\<lambda>_. True" uleb128
  by unfold_locales (rule uleb128_splits)

text \<open>Byte strings and texts with their length in front.\<close>

interpretation bytes_code: byte_code "\<lambda>_. True" "\<lambda>bs. uleb128 (length bs) @ bs"
proof
  fix x y r s :: "byte list"
  assume "(uleb128 (length x) @ x) @ r = (uleb128 (length y) @ y) @ s"
  with uleb128_splits [of "length x" "x @ r" "length y" "y @ s"]
  show "x = y \<and> r = s" by auto
qed

lemma string_bytes_inject: "string_bytes x = string_bytes y \<longleftrightarrow> x = y"
proof
  assume "string_bytes x = string_bytes y"
  then have "map (char_of :: nat \<Rightarrow> char) (map unat (string_bytes x)) = map char_of (map unat (string_bytes y))" by simp
  moreover have "map (char_of :: nat \<Rightarrow> char) (map unat (string_bytes t)) = t" for t
    by (induction t) (simp_all add: string_bytes_def unsigned_of_nat take_bit_nat_eq_self)
  ultimately show "x = y" by simp
qed simp

interpretation text_code: byte_code "\<lambda>_. True" "\<lambda>t. uleb128 (length t) @ string_bytes t"
proof
  fix x y :: string and r s
  assume eq: "(uleb128 (length x) @ string_bytes x) @ r = (uleb128 (length y) @ string_bytes y) @ s"
  have "string_bytes x = string_bytes y \<and> r = s"
    by (rule bytes_code.splits) (use eq in simp_all)
  then show "x = y \<and> r = s" by (simp add: string_bytes_inject)
qed

section \<open>Move calls\<close>

text \<open>
  What both Move families hash: an operation of the MCM contract behind a domain separator, and a
  batch of calls of the timelock with its predecessor and salt.
\<close>

definition move_op_bytes ::
  "hash \<Rightarrow> u8 \<Rightarrow> u64 \<Rightarrow> hash \<Rightarrow> u64 \<Rightarrow> hash \<Rightarrow> string \<Rightarrow> string \<Rightarrow> byte list \<Rightarrow> byte list" where
  "move_op_bytes sep role chainID mcms nonce to m f data =
     be_bytes 32 sep @ [role] @ le_bytes 32 (ucast chainID :: hash) @ be_bytes 32 mcms @ le_bytes 8 nonce @ be_bytes 32 to @
     (uleb128 (length m) @ string_bytes m) @ (uleb128 (length f) @ string_bytes f) @ (uleb128 (length data) @ data)"

definition move_metadata_bytes :: "hash \<Rightarrow> u8 \<Rightarrow> u64 \<Rightarrow> hash \<Rightarrow> u64 \<Rightarrow> u64 \<Rightarrow> bool \<Rightarrow> byte list" where
  "move_metadata_bytes sep role chainID mcms pre post override =
     be_bytes 32 sep @ [role] @ le_bytes 32 (ucast chainID :: hash) @ be_bytes 32 mcms @ le_bytes 8 pre @ le_bytes 8 post @
     [of_bool override]"

text \<open>The two kinds of leaves, under their two separators.\<close>

datatype move_leaf =
    OpLeaf u8 u64 hash u64 hash string string "byte list"
  | MetadataLeaf u8 u64 hash u64 u64 bool

fun move_leaf_bytes :: "hash \<times> hash \<Rightarrow> move_leaf \<Rightarrow> byte list" where
  "move_leaf_bytes seps (OpLeaf role cid mcms nonce to m f data) = move_op_bytes (fst seps) role cid mcms nonce to m f data"
| "move_leaf_bytes seps (MetadataLeaf role cid mcms pre post override) =
     move_metadata_bytes (snd seps) role cid mcms pre post override"

record move_call =
  mvc_Target :: hash
  mvc_Module :: string
  mvc_Function :: string
  mvc_Data :: "byte list"

definition move_call_bytes :: "move_call \<Rightarrow> byte list" where
  "move_call_bytes c =
     be_bytes 32 (mvc_Target c) @ (uleb128 (length (mvc_Module c)) @ string_bytes (mvc_Module c)) @
     (uleb128 (length (mvc_Function c)) @ string_bytes (mvc_Function c)) @ (uleb128 (length (mvc_Data c)) @ mvc_Data c)"

definition move_batch_bytes :: "move_call list \<Rightarrow> hash \<Rightarrow> hash \<Rightarrow> byte list" where
  "move_batch_bytes calls predecessor salt =
     uleb128 (length calls) @ concat (map move_call_bytes calls) @ be_bytes 32 predecessor @ be_bytes 32 salt"

text \<open>Fields of fixed width in front of a string determine themselves and the rest.\<close>

lemma le_bytes_append [simp]:
  "LENGTH('a) \<le> 8 * n \<Longrightarrow> le_bytes n (v :: 'a::len word) @ r = le_bytes n w @ s \<longleftrightarrow> v = w \<and> r = s"
  by (auto simp: le_bytes_inject)

lemma be_bytes_append [simp]:
  "LENGTH('a) \<le> 8 * n \<Longrightarrow> be_bytes n (v :: 'a::len word) @ r = be_bytes n w @ s \<longleftrightarrow> v = w \<and> r = s"
  by (auto simp: be_bytes_inject)

lemma counted_bytes_append [simp]:
  "uleb128 (length x) @ x @ r = uleb128 (length y) @ y @ s \<longleftrightarrow> x = y \<and> r = s"
  using bytes_code.splits [of x r y s] by auto

lemma counted_text_append [simp]:
  "uleb128 (length x) @ string_bytes x @ r = uleb128 (length y) @ string_bytes y @ s \<longleftrightarrow> x = y \<and> r = s"
  using text_code.splits [of x r y s] by auto

lemma ucast_u64_inject: "(ucast (v :: u64) :: hash) = ucast w \<longleftrightarrow> v = w"
proof
  assume "(ucast v :: hash) = ucast w"
  then have "ucast (ucast v :: hash) = (ucast (ucast w :: hash) :: u64)" by (rule arg_cong)
  then show "v = w" by (simp add: unsigned_ucast_eq take_bit_word_eq_self)
qed simp

lemma uint_u64_hash: "uint (w :: u64) < 2 ^ 256" "(word_of_int (uint w) :: hash) = ucast w"
proof -
  show "uint w < 2 ^ 256" by (rule order_less_le_trans [OF uint_lt2p]) simp
  show "(word_of_int (uint w) :: hash) = ucast w" by (rule bit_word_eqI) (simp add: bit_simps)
qed

lemma move_op_bytes_inject:
  "move_op_bytes sep role cid mcms n to m f data = move_op_bytes sep' role' cid' mcms' n' to' m' f' data' \<longleftrightarrow>
     sep = sep' \<and> role = role' \<and> cid = cid' \<and> mcms = mcms' \<and> n = n' \<and> to = to' \<and> m = m' \<and> f = f' \<and> data = data'"
  using bytes_code.inject [of data data']
  by (auto simp add: move_op_bytes_def ucast_u64_inject be_bytes_inject le_bytes_inject)

lemma move_metadata_bytes_inject:
  "move_metadata_bytes sep role cid mcms pre post ov = move_metadata_bytes sep' role' cid' mcms' pre' post' ov' \<longleftrightarrow>
     sep = sep' \<and> role = role' \<and> cid = cid' \<and> mcms = mcms' \<and> pre = pre' \<and> post = post' \<and> ov = ov'"
  by (auto simp: move_metadata_bytes_def ucast_u64_inject be_bytes_inject le_bytes_inject)

lemma move_leaf_bytes_inject:
  assumes "fst seps \<noteq> snd seps" and "move_leaf_bytes seps l = move_leaf_bytes seps l'"
  shows "l = l'"
proof -
  have "move_op_bytes (fst seps) r c m n t mo f d \<noteq> move_metadata_bytes (snd seps) r' c' m' p q ov"
    for r c m n t mo f d r' c' m' p q ov
    using assms(1) by (simp add: move_op_bytes_def move_metadata_bytes_def be_bytes_inject)
  then show ?thesis
    using assms(2) by (cases l; cases l') (auto simp: move_op_bytes_inject move_metadata_bytes_inject dest: sym)
qed

interpretation move_code: byte_code "\<lambda>_. True" move_call_bytes
  by unfold_locales (simp add: move_call_bytes_def be_bytes_inject)

lemma move_batch_bytes_inject:
  assumes "move_batch_bytes calls p salt = move_batch_bytes calls' p' salt'"
  shows "calls = calls' \<and> p = p' \<and> salt = salt'"
proof -
  from uleb128_splits [OF assms [unfolded move_batch_bytes_def]]
  have len: "length calls = length calls'"
    and eq: "concat (map move_call_bytes calls) @ be_bytes 32 p @ be_bytes 32 salt =
      concat (map move_call_bytes calls') @ be_bytes 32 p' @ be_bytes 32 salt'" by simp_all
  from move_code.concat_splits [OF len _ _ eq] show ?thesis
    by (simp add: list_all_iff be_bytes_inject)
qed

end
