(* ===== verification/Aptos.thy ===== *)
theory Aptos
  imports Bcs TimelockProposal EvmConfig
begin

text \<open>
  The Aptos side of a proposal: \<open>sdk/aptos/utils.go\<close>, \<open>chain_metadata.go\<close>, \<open>aptos_helpers.go\<close>,
  \<open>transaction.go\<close>, \<open>encoder.go\<close>, \<open>timelock_converter.go\<close> and \<open>config_transformer.go\<close>. The packages the
  code calls (\<open>aptos-go-sdk\<close>, the registry of chains, the JSON text of its structs, the encoders of the
  generated bindings) are the fields of \<open>aptos_pkg\<close>.
\<close>

section \<open>Data\<close>

text \<open>An \<open>aptos.AccountAddress\<close> is a \<open>[32]uint8\<close>, read big-endian.\<close>

type_synonym aptos_address = hash
type_synonym aptos_role = u8

definition Aptos_TimelockRoleBypasser :: aptos_role where "Aptos_TimelockRoleBypasser = 0"
definition Aptos_TimelockRoleCanceller :: aptos_role where "Aptos_TimelockRoleCanceller = 1"
definition Aptos_TimelockRoleProposer :: aptos_role where "Aptos_TimelockRoleProposer = 2"

definition aptosTimelockRoleStringUnknown :: string where
  "aptosTimelockRoleStringUnknown = ''unknown''"

definition apt_role_String :: "aptos_role \<Rightarrow> string" where
  "apt_role_String t =
     (if t = Aptos_TimelockRoleBypasser then ''bypasser''
      else if t = Aptos_TimelockRoleProposer then ''proposer''
      else if t = Aptos_TimelockRoleCanceller then ''canceller''
      else aptosTimelockRoleStringUnknown)"

definition MCMSTypeCurse :: string where "MCMSTypeCurse = ''curse''"
definition MCMSTypeRegular :: string where "MCMSTypeRegular = ''''"

definition IsCurseMCMS :: "string \<Rightarrow> bool" where
  "IsCurseMCMS m \<longleftrightarrow> m = MCMSTypeCurse"

record aptos_metadata =
  am_Role :: aptos_role
  am_MCMSType :: string

record aptos_fields =
  af_PackageName :: string
  af_ModuleName :: string
  af_Function :: string

text \<open>What an encoder of the bindings returns: the module, the function and the encoded arguments.\<close>

record aptos_encoded =
  aenc_PackageName :: string
  aenc_ModuleName :: string
  aenc_Function :: string
  aenc_Args :: "byte list list"

text \<open>The interface \<open>timelockEncoder\<close>.\<close>

record aptos_timelock_encoder =
  TimelockScheduleBatch :: "aptos_address list \<Rightarrow> string list \<Rightarrow> string list \<Rightarrow> byte list list \<Rightarrow> byte list \<Rightarrow> byte list \<Rightarrow>
    u64 \<Rightarrow> aptos_encoded res"
  TimelockBypasserExecuteBatch :: "aptos_address list \<Rightarrow> string list \<Rightarrow> string list \<Rightarrow> byte list list \<Rightarrow> aptos_encoded res"
  TimelockCancel :: "byte list \<Rightarrow> aptos_encoded res"

text \<open>The conversion of a negative float to \<open>uint64\<close> is left to the implementation by the Go language.\<close>

record aptos_pkg = bcs_pkg +
  AptosChainIdFromSelector :: "u64 \<Rightarrow> u64 res"
  ParseStringRelaxed :: "string \<Rightarrow> aptos_address res"
  StringLong :: "aptos_address \<Rightarrow> string"
  AptFieldsUnmarshal :: "raw \<Rightarrow> aptos_fields res"
  AptFieldsMarshal :: "aptos_fields \<Rightarrow> raw res"
  AptMetadataUnmarshal :: "raw \<Rightarrow> aptos_metadata res"
  McmsEncoder :: "aptos_address \<Rightarrow> aptos_timelock_encoder"
  CurseMcmsEncoder :: "aptos_address \<Rightarrow> aptos_timelock_encoder"
  AptNegativeSeconds :: "int \<Rightarrow> u64"

definition hexToAddress :: "'a aptos_pkg_scheme \<Rightarrow> string \<Rightarrow> aptos_address res" where
  "hexToAddress A address = ParseStringRelaxed A address"

definition mustHexToAddress :: "'a aptos_pkg_scheme \<Rightarrow> string \<Rightarrow> aptos_address res" where
  "mustHexToAddress A address =
     (case hexToAddress A address of Inl err \<Rightarrow> Inl (Panic ''mustHexToAddress'') | Inr addr \<Rightarrow> Inr addr)"

section \<open>Roles and actions\<close>

definition AptosRoleFromAction :: "timelock_action \<Rightarrow> aptos_role res" where
  "AptosRoleFromAction action =
     (case action of
        TimelockActionBypass \<Rightarrow> Inr Aptos_TimelockRoleBypasser
      | TimelockActionSchedule \<Rightarrow> Inr Aptos_TimelockRoleProposer
      | TimelockActionCancel \<Rightarrow> Inr Aptos_TimelockRoleCanceller
      | OtherAction _ \<Rightarrow> Inl (Errorf ''unknown timelock action''))"

definition ActionFromAptosRole :: "aptos_role \<Rightarrow> timelock_action res" where
  "ActionFromAptosRole role =
     (if role = Aptos_TimelockRoleBypasser then Inr TimelockActionBypass
      else if role = Aptos_TimelockRoleProposer then Inr TimelockActionSchedule
      else if role = Aptos_TimelockRoleCanceller then Inr TimelockActionCancel
      else Inl (Errorf ''unknown timelock role''))"

section \<open>Transactions\<close>

definition apt_fields_Validate :: "aptos_fields \<Rightarrow> unit res" where
  "apt_fields_Validate af =
     (if af_PackageName af = [] then Inl (Errorf ''package name is required'')
      else if length (af_ModuleName af) \<le> 0 \<or> length (af_ModuleName af) > 64
      then Inl (Errorf ''module name length must be between 1 and 64 characters'')
      else if length (af_Function af) \<le> 0 \<or> length (af_Function af) > 64
      then Inl (Errorf ''function length must be between 1 and 64 characters'')
      else Inr ())"

definition apt_ValidateAdditionalFields :: "'a aptos_pkg_scheme \<Rightarrow> raw \<Rightarrow> unit res" where
  "apt_ValidateAdditionalFields A additionalFields =
     bindE (wrapE (Wrapf ''failed to unmarshal Aptos additional fields: %w'') (AptFieldsUnmarshal A additionalFields))
       apt_fields_Validate"

definition ArgsToData :: "byte list list \<Rightarrow> byte list" where
  "ArgsToData args = concat args"

definition apt_NewTransaction ::
  "'a aptos_pkg_scheme \<Rightarrow> string \<Rightarrow> string \<Rightarrow> string \<Rightarrow> aptos_address \<Rightarrow> byte list \<Rightarrow> string \<Rightarrow> string list \<Rightarrow>
     transaction res" where
  "apt_NewTransaction A packageName moduleName fnName to data contractType tags =
     bindE (wrapE (Wrapf ''failed to marshal additional fields: %w'')
              (AptFieldsMarshal A
                 \<lparr>af_PackageName = packageName, af_ModuleName = moduleName, af_Function = fnName\<rparr>)) (\<lambda>marshalled.
       Inr \<lparr>tx_ContractType = contractType, tx_ContractVersion = None, tx_Tags = tags,
            tx_To = StringLong A to, tx_Data = data, tx_AdditionalFields = marshalled\<rparr>)"

section \<open>Encoder\<close>

record aptos_encoder =
  ae_ChainSelector :: chain_selector
  ae_TxCount :: u64
  ae_OverridePreviousRoot :: bool

definition apt_DomainSeparatorOp :: "'c crypto_pkg_scheme \<Rightarrow> byte list" where
  "apt_DomainSeparatorOp C =
     be_bytes 32 (Keccak256Hash C (string_bytes ''MANY_CHAIN_MULTI_SIG_DOMAIN_SEPARATOR_OP_APTOS''))"

definition apt_DomainSeparatorMetadata :: "'c crypto_pkg_scheme \<Rightarrow> byte list" where
  "apt_DomainSeparatorMetadata C =
     be_bytes 32 (Keccak256Hash C (string_bytes ''MANY_CHAIN_MULTI_SIG_DOMAIN_SEPARATOR_METADATA_APTOS''))"

text \<open>The metadata of a chain may be left out, which is the zero value.\<close>

definition apt_metadata :: "'a aptos_pkg_scheme \<Rightarrow> chain_metadata \<Rightarrow> aptos_metadata res" where
  "apt_metadata A metadata =
     (if raw_nonempty (cm_AdditionalFields metadata)
      then wrapE (Wrapf ''failed to unmarshal additional fields metadata: %w'')
             (AptMetadataUnmarshal A (cm_AdditionalFields metadata))
      else Inr \<lparr>am_Role = 0, am_MCMSType = []\<rparr>)"

definition apt_op_calls ::
  "'c crypto_pkg_scheme \<Rightarrow> aptos_role \<Rightarrow> int \<Rightarrow> aptos_address \<Rightarrow> u64 \<Rightarrow> aptos_address \<Rightarrow> string \<Rightarrow> string \<Rightarrow> byte list \<Rightarrow>
     bcs_call list" where
  "apt_op_calls C role chainID mcmsAddress nonce toAddress moduleName fnName data =
     [SerFixedBytes (apt_DomainSeparatorOp C), SerU8 role, SerU256 chainID, SerStruct mcmsAddress, SerU64 nonce,
      SerStruct toAddress, SerWriteString moduleName, SerWriteString fnName, SerWriteBytes data]"

definition apt_HashOperation ::
  "'c crypto_pkg_scheme \<Rightarrow> 'a aptos_pkg_scheme \<Rightarrow> aptos_encoder \<Rightarrow> u32 \<Rightarrow> chain_metadata \<Rightarrow> operation \<Rightarrow> hash res" where
  "apt_HashOperation C A e opCount metadata op =
     bindE (AptosChainIdFromSelector A (ae_ChainSelector e)) (\<lambda>chainID.
     bindE (wrapE (Wrapf ''failed to parse MCMS address %q: %w'') (hexToAddress A (cm_MCMAddress metadata))) (\<lambda>mcmsAddress.
     bindE (wrapE (Wrapf ''failed to parse To address %q: %w'')
              (hexToAddress A (tx_To (op_Transaction op)))) (\<lambda>toAddress.
     bindE (wrapE (Wrapf ''failed to unmarshal additional fields: %w'')
              (AptFieldsUnmarshal A (tx_AdditionalFields (op_Transaction op)))) (\<lambda>additionalFields.
     bindE (apt_metadata A metadata) (\<lambda>additionalFieldsMetadata.
       Inr (Keccak256Hash C (SerToBytes A
         (apt_op_calls C (am_Role additionalFieldsMetadata) (uint chainID) mcmsAddress (ucast opCount) toAddress
            (af_ModuleName additionalFields) (af_Function additionalFields) (tx_Data (op_Transaction op))))))))))"

definition apt_metadata_calls ::
  "'c crypto_pkg_scheme \<Rightarrow> aptos_role \<Rightarrow> int \<Rightarrow> aptos_address \<Rightarrow> u64 \<Rightarrow> u64 \<Rightarrow> bool \<Rightarrow> bcs_call list" where
  "apt_metadata_calls C role chainID mcmsAddress preOpCount postOpCount overridePreviousRoot =
     [SerFixedBytes (apt_DomainSeparatorMetadata C), SerU8 role, SerU256 chainID, SerStruct mcmsAddress,
      SerU64 preOpCount, SerU64 postOpCount, SerBool overridePreviousRoot]"

definition apt_HashMetadata ::
  "'c crypto_pkg_scheme \<Rightarrow> 'a aptos_pkg_scheme \<Rightarrow> aptos_encoder \<Rightarrow> chain_metadata \<Rightarrow> hash res" where
  "apt_HashMetadata C A e metadata =
     bindE (AptosChainIdFromSelector A (ae_ChainSelector e)) (\<lambda>chainID.
     bindE (wrapE (Wrapf ''failed to parse MCMS address %q: %w'') (hexToAddress A (cm_MCMAddress metadata))) (\<lambda>mcmsAddress.
     bindE (apt_metadata A metadata) (\<lambda>additionalFieldsMetadata.
       Inr (Keccak256Hash C (SerToBytes A
         (apt_metadata_calls C (am_Role additionalFieldsMetadata) (uint chainID) mcmsAddress
            (cm_StartingOpCount metadata) (cm_StartingOpCount metadata + ae_TxCount e)
            (ae_OverridePreviousRoot e)))))))"

definition apt_NewEncoder ::
  "'c crypto_pkg_scheme \<Rightarrow> 'a aptos_pkg_scheme \<Rightarrow> chain_selector \<Rightarrow> u64 \<Rightarrow> bool \<Rightarrow> encoder" where
  "apt_NewEncoder C A csel txCount overridePreviousRoot =
     (let e = \<lparr>ae_ChainSelector = csel, ae_TxCount = txCount, ae_OverridePreviousRoot = overridePreviousRoot\<rparr> in
      \<lparr>enc_HashOperation = apt_HashOperation C A e, enc_HashMetadata = apt_HashMetadata C A e\<rparr>)"

section \<open>Timelock converter\<close>

text \<open>The loop over the transactions fills the slices side by side; the text of an error is the caller's.\<close>

definition apt_target ::
  "string \<Rightarrow> 'a aptos_pkg_scheme \<Rightarrow> transaction \<Rightarrow> (aptos_address \<times> string \<times> string \<times> byte list) res" where
  "apt_target msg A tx =
     bindE (wrapE (Wrapf msg) (AptFieldsUnmarshal A (tx_AdditionalFields tx))) (\<lambda>additionalFields.
     bindE (wrapE (Wrapf ''failed to parse To address %q: %w'') (hexToAddress A (tx_To tx))) (\<lambda>toAddress.
       Inr (toAddress, af_ModuleName additionalFields, af_Function additionalFields, tx_Data tx)))"

definition apt_targets ::
  "string \<Rightarrow> 'a aptos_pkg_scheme \<Rightarrow> batch_operation \<Rightarrow>
     (aptos_address list \<times> string list \<times> string list \<times> byte list list) res" where
  "apt_targets msg A bop =
     bindE (mapE (apt_target msg A) (bop_Transactions bop)) (\<lambda>ts.
       Inr (map fst ts, map (fst \<circ> snd) ts, map (fst \<circ> snd \<circ> snd) ts, map (snd \<circ> snd \<circ> snd) ts))"

text \<open>The other slices are indexed by the positions of the targets.\<close>

definition apt_batch_calls ::
  "aptos_address list \<Rightarrow> string list \<Rightarrow> string list \<Rightarrow> byte list list \<Rightarrow> byte list \<Rightarrow> byte list \<Rightarrow> bcs_call list" where
  "apt_batch_calls targets moduleNames functionNames datas predecessor salt =
     SerUleb128 (word_of_nat (length targets)) #
     concat (map (\<lambda>i. [SerStruct (targets ! i), SerWriteString (moduleNames ! i), SerWriteString (functionNames ! i),
                       SerWriteBytes (datas ! i)]) [0..<length targets]) @
     [SerFixedBytes predecessor, SerFixedBytes salt]"

definition apt_HashOperationBatch ::
  "'c crypto_pkg_scheme \<Rightarrow> 'a aptos_pkg_scheme \<Rightarrow> aptos_address list \<Rightarrow> string list \<Rightarrow> string list \<Rightarrow> byte list list \<Rightarrow>
     byte list \<Rightarrow> byte list \<Rightarrow> hash res" where
  "apt_HashOperationBatch C A targets moduleNames functionNames datas predecessor salt =
     (if length moduleNames < length targets \<or> length functionNames < length targets \<or> length datas < length targets
      then Inl (Panic ''index out of range'')
      else let calls = apt_batch_calls targets moduleNames functionNames datas predecessor salt in
        case SerError A calls of
          Some err \<Rightarrow> Inl (Wrapf ''failed to serialize batch operation: %w'' err)
        | None \<Rightarrow> Inr (Keccak256Hash C (SerToBytes A calls)))"

definition apt_seconds :: "'a aptos_pkg_scheme \<Rightarrow> int \<Rightarrow> u64" where
  "apt_seconds A delay =
     (if delay_seconds delay < 0 then AptNegativeSeconds A delay else word_of_int (delay_seconds delay))"

text \<open>The \<open>switch\<close> on the action has no default: another action leaves the zero values.\<close>

definition apt_action_call ::
  "'a aptos_pkg_scheme \<Rightarrow> aptos_timelock_encoder \<Rightarrow> timelock_action \<Rightarrow> aptos_address list \<Rightarrow> string list \<Rightarrow> string list \<Rightarrow>
     byte list list \<Rightarrow> byte list \<Rightarrow> byte list \<Rightarrow> int \<Rightarrow> hash \<Rightarrow> aptos_encoded res" where
  "apt_action_call A enc action targets moduleNames functionNames datas predecessor salt delay operationID =
     (case action of
        TimelockActionSchedule \<Rightarrow>
          wrapE (Wrapf ''failed to encode timelock_schedule_batch: %w'')
            (TimelockScheduleBatch enc targets moduleNames functionNames datas predecessor salt (apt_seconds A delay))
      | TimelockActionBypass \<Rightarrow>
          wrapE (Wrapf ''failed to encode timelock_bypasser_execute_batch: %w'')
            (TimelockBypasserExecuteBatch enc targets moduleNames functionNames datas)
      | TimelockActionCancel \<Rightarrow>
          wrapE (Wrapf ''failed to encode timelock_cancel: %w'') (TimelockCancel enc (be_bytes 32 operationID))
      | OtherAction _ \<Rightarrow>
          Inr \<lparr>aenc_PackageName = [], aenc_ModuleName = [], aenc_Function = [], aenc_Args = []\<rparr>)"

definition apt_Convert_with ::
  "'c crypto_pkg_scheme \<Rightarrow> 'a aptos_pkg_scheme \<Rightarrow> (aptos_address \<Rightarrow> aptos_timelock_encoder) \<Rightarrow> converter" where
  "apt_Convert_with C A encoderFn metadata bop timelockAddress mcmAddress delay action predecessor salt =
     bindE (wrapE (Wrapf ''failed to parse MCMS address %q: %w'') (hexToAddress A mcmAddress)) (\<lambda>mcmsAddress.
     bindE (apt_targets ''failed to unmarshal additional fields: %w'' A bop)
       (\<lambda>(targets, moduleNames, functionNames, datas).
     bindE (wrapE (Wrapf ''failed to compute hash of batch operation: %w'')
              (apt_HashOperationBatch C A targets moduleNames functionNames datas
                 (be_bytes 32 predecessor) (be_bytes 32 salt))) (\<lambda>operationID.
     bindE (apt_action_call A (encoderFn mcmsAddress) action targets moduleNames functionNames datas
              (be_bytes 32 predecessor) (be_bytes 32 salt) delay operationID) (\<lambda>call.
     bindE (wrapE (Wrapf ''failed to create transaction: %w'')
              (apt_NewTransaction A (aenc_PackageName call) (aenc_ModuleName call) (aenc_Function call) mcmsAddress
                 (ArgsToData (aenc_Args call)) ''MCMSTimelock'' (concat (map tx_Tags (bop_Transactions bop))))) (\<lambda>tx.
       Inr ([\<lparr>op_ChainSelector = bop_ChainSelector bop, op_Transaction = tx\<rparr>], operationID))))))"

definition apt_NewTimelockConverter :: "'c crypto_pkg_scheme \<Rightarrow> 'a aptos_pkg_scheme \<Rightarrow> converter" where
  "apt_NewTimelockConverter C A = apt_Convert_with C A (McmsEncoder A)"

definition apt_NewCurseTimelockConverter :: "'c crypto_pkg_scheme \<Rightarrow> 'a aptos_pkg_scheme \<Rightarrow> converter" where
  "apt_NewCurseTimelockConverter C A = apt_Convert_with C A (CurseMcmsEncoder A)"

definition apt_OperationID :: "'c crypto_pkg_scheme \<Rightarrow> 'a aptos_pkg_scheme \<Rightarrow> operation_id" where
  "apt_OperationID C A batchOp action predecessor salt =
     bindE (apt_targets ''failed to unmarshal Aptos additional fields: %w'' A batchOp)
       (\<lambda>(targets, moduleNames, functionNames, datas).
     apt_HashOperationBatch C A targets moduleNames functionNames datas (be_bytes 32 predecessor) (be_bytes 32 salt))"

section \<open>Configurations\<close>

text \<open>The struct of the bindings: the addresses and the groups are slices of bytes.\<close>

record aptos_signer =
  as_Addr :: "byte list"
  as_Index :: u8
  as_Group :: u8

record aptos_config =
  acfg_Signers :: "aptos_signer list"
  acfg_GroupQuorums :: "u8 list"
  acfg_GroupParents :: "u8 list"

text \<open>The conversion of a slice to \<open>[32]uint8\<close> panics when the slice is shorter, and drops what is beyond.\<close>

definition to_array32 :: "u8 list \<Rightarrow> u8 list res" where
  "to_array32 xs = (if length xs < 32 then Inl (Panic ''cannot convert slice to array'') else Inr (take 32 xs))"

definition apt_ToConfig :: "aptos_config \<Rightarrow> config res" where
  "apt_ToConfig cfg =
     bindE (to_array32 (acfg_GroupQuorums cfg)) (\<lambda>quorums.
     bindE (to_array32 (acfg_GroupParents cfg)) (\<lambda>parents.
       evm_ToConfig
         \<lparr>mc_Signers = map (\<lambda>signer. \<lparr>sg_Addr = from_be (as_Addr signer), sg_Index = as_Index signer,
                                     sg_Group = as_Group signer\<rparr>) (acfg_Signers cfg),
          mc_GroupQuorums = quorums, mc_GroupParents = parents\<rparr>))"

section \<open>The bytes that are hashed\<close>

text \<open>Lengths of Go slices that the format has room for.\<close>

definition apt_op_fits :: "'a aptos_pkg_scheme \<Rightarrow> transaction \<Rightarrow> bool" where
  "apt_op_fits A tx \<longleftrightarrow> length (tx_Data tx) < 2 ^ 32 \<and>
     (\<forall>f. AptFieldsUnmarshal A (tx_AdditionalFields tx) = Inr f \<longrightarrow>
        length (af_ModuleName f) < 2 ^ 32 \<and> length (af_Function f) < 2 ^ 32)"

definition apt_batch_fits :: "'a aptos_pkg_scheme \<Rightarrow> batch_operation \<Rightarrow> bool" where
  "apt_batch_fits A b \<longleftrightarrow> length (bop_Transactions b) < 2 ^ 32 \<and> (\<forall>tx \<in> set (bop_Transactions b). apt_op_fits A tx)"

text \<open>What a leaf is made of, for an operation with its nonce or for the metadata of the chain.\<close>

fun apt_leaf ::
  "'a aptos_pkg_scheme \<Rightarrow> aptos_encoder \<Rightarrow> chain_metadata \<Rightarrow> (u32 \<times> operation) option \<Rightarrow> move_leaf res" where
  "apt_leaf A e md (Some (n, op)) =
     bindE (AptosChainIdFromSelector A (ae_ChainSelector e)) (\<lambda>cid.
     bindE (hexToAddress A (cm_MCMAddress md)) (\<lambda>mcms.
     bindE (hexToAddress A (tx_To (op_Transaction op))) (\<lambda>to.
     bindE (AptFieldsUnmarshal A (tx_AdditionalFields (op_Transaction op))) (\<lambda>f.
     bindE (apt_metadata A md) (\<lambda>m.
       Inr (OpLeaf (am_Role m) cid mcms (ucast n) to (af_ModuleName f) (af_Function f) (tx_Data (op_Transaction op))))))))"
| "apt_leaf A e md None =
     bindE (AptosChainIdFromSelector A (ae_ChainSelector e)) (\<lambda>cid.
     bindE (hexToAddress A (cm_MCMAddress md)) (\<lambda>mcms.
     bindE (apt_metadata A md) (\<lambda>m.
       Inr (MetadataLeaf (am_Role m) cid mcms (cm_StartingOpCount md) (cm_StartingOpCount md + ae_TxCount e)
              (ae_OverridePreviousRoot e)))))"

fun apt_leaf_hash ::
  "'c crypto_pkg_scheme \<Rightarrow> 'a aptos_pkg_scheme \<Rightarrow> aptos_encoder \<Rightarrow> chain_metadata \<Rightarrow> (u32 \<times> operation) option \<Rightarrow>
     hash res" where
  "apt_leaf_hash C A e md (Some (n, op)) = apt_HashOperation C A e n md op"
| "apt_leaf_hash C A e md None = apt_HashMetadata C A e md"

definition apt_separators :: "'c crypto_pkg_scheme \<Rightarrow> hash \<times> hash" where
  "apt_separators C =
     (Keccak256Hash C (string_bytes ''MANY_CHAIN_MULTI_SIG_DOMAIN_SEPARATOR_OP_APTOS''),
      Keccak256Hash C (string_bytes ''MANY_CHAIN_MULTI_SIG_DOMAIN_SEPARATOR_METADATA_APTOS''))"

lemma apt_leaf_hash_Inr:
  assumes "bcs_documented A" and "\<forall>n op. x = Some (n, op) \<longrightarrow> apt_op_fits A (op_Transaction op)"
  shows "apt_leaf_hash C A e md x = Inr h \<longleftrightarrow>
    (\<exists>l. apt_leaf A e md x = Inr l \<and> h = Keccak256Hash C (move_leaf_bytes (apt_separators C) l))"
proof (cases x)
  case None
  have "SerToBytes A (apt_metadata_calls C r (uint cid) m pre post ov) =
      move_leaf_bytes (apt_separators C) (MetadataLeaf r cid m pre post ov)" for r m pre post ov and cid :: u64
    using assms(1) uint_u64_hash [of cid]
    by (simp add: bcs_documented_def apt_metadata_calls_def move_metadata_bytes_def apt_DomainSeparatorMetadata_def
        apt_separators_def)
  with None show ?thesis by (auto simp: apt_HashMetadata_def bindE_Inr_iff)
next
  case (Some nop)
  then obtain n op where x: "x = Some (n, op)" by (cases nop) auto
  have bytes: "SerToBytes A (apt_op_calls C r (uint cid) m k to mo f data) =
      move_leaf_bytes (apt_separators C) (OpLeaf r cid m k to mo f data)"
    if "length mo < 2 ^ 32" "length f < 2 ^ 32" "length data < 2 ^ 32" for r m k to mo f data and cid :: u64
    using assms(1) uint_u64_hash [of cid] that
    by (simp add: bcs_documented_def apt_op_calls_def move_op_bytes_def apt_DomainSeparatorOp_def apt_separators_def)
  have fits: "apt_op_fits A (op_Transaction op)" using assms(2) x by simp
  show ?thesis
    unfolding x apt_leaf_hash.simps apt_leaf.simps apt_HashOperation_def bindE_Inr_iff wrapE_Inr_iff
    using fits by (fastforce simp: apt_op_fits_def bytes)
qed

text \<open>The calls of a batch, as the two functions that hash it read them.\<close>

definition apt_calls :: "'a aptos_pkg_scheme \<Rightarrow> batch_operation \<Rightarrow> move_call list res" where
  "apt_calls A b =
     bindE (mapE (apt_target [] A) (bop_Transactions b)) (\<lambda>ts.
       Inr (map (\<lambda>(to, m, f, d). \<lparr>mvc_Target = to, mvc_Module = m, mvc_Function = f, mvc_Data = d\<rparr>) ts))"

lemma apt_target_Inr:
  "apt_target msg A tx = Inr (to, m, f, d) \<longleftrightarrow>
     (\<exists>flds. AptFieldsUnmarshal A (tx_AdditionalFields tx) = Inr flds \<and> hexToAddress A (tx_To tx) = Inr to \<and>
        m = af_ModuleName flds \<and> f = af_Function flds \<and> d = tx_Data tx)"
  by (auto simp: apt_target_def bindE_Inr_iff)

lemma apt_target_text: "apt_target msg A tx = Inr t \<longleftrightarrow> apt_target msg' A tx = Inr t"
  by (cases t) (simp add: apt_target_Inr)

lemma apt_targets_text: "mapE (apt_target msg A) txs = Inr ts \<longleftrightarrow> mapE (apt_target msg' A) txs = Inr ts"
  unfolding mapE_Inr_iff by (intro list.rel_cong refl) (rule apt_target_text)

lemmas apt_targets_calls = apt_targets_text [where msg' = "[]", THEN iffD1]

lemma apt_batch_bytes:
  assumes "bcs_documented A" and "length ts < 2 ^ 32"
    and "\<forall>(to, m, f, d) \<in> set ts. length m < 2 ^ 32 \<and> length f < 2 ^ 32 \<and> length d < 2 ^ 32"
  shows "let calls = apt_batch_calls (map fst ts) (map (fst \<circ> snd) ts) (map (fst \<circ> snd \<circ> snd) ts)
        (map (snd \<circ> snd \<circ> snd) ts) (be_bytes 32 p) (be_bytes 32 salt) in
    SerError A calls = None \<and>
    SerToBytes A calls = move_batch_bytes
      (map (\<lambda>(to, m, f, d). \<lparr>mvc_Target = to, mvc_Module = m, mvc_Function = f, mvc_Data = d\<rparr>) ts) p salt"
proof -
  let ?one = "\<lambda>(to, m, f, d). [SerStruct to, SerWriteString m, SerWriteString f, SerWriteBytes d]"
  let ?rec = "\<lambda>(to, m, f, d). \<lparr>mvc_Target = to, mvc_Module = m, mvc_Function = f, mvc_Data = d\<rparr>"
  let ?calls = "apt_batch_calls (map fst ts) (map (fst \<circ> snd) ts) (map (fst \<circ> snd \<circ> snd) ts)
        (map (snd \<circ> snd \<circ> snd) ts) (be_bytes 32 p) (be_bytes 32 salt)"
  have "map (\<lambda>i. [SerStruct (map fst ts ! i), SerWriteString (map (fst \<circ> snd) ts ! i),
          SerWriteString (map (fst \<circ> snd \<circ> snd) ts ! i), SerWriteBytes (map (snd \<circ> snd \<circ> snd) ts ! i)]) [0..<length ts] =
      map ?one ts"
    by (rule nth_equalityI) (simp_all add: case_prod_beta)
  then have calls: "?calls = SerUleb128 (word_of_nat (length ts)) # concat (map ?one ts) @
      [SerFixedBytes (be_bytes 32 p), SerFixedBytes (be_bytes 32 salt)]"
    by (simp add: apt_batch_calls_def)
  have "list_all bcs_fits (concat (map ?one ts))"
    using assms(3) by (fastforce simp: list_all_iff)
  moreover have "concat (map bcs_bytes (concat (map ?one ts))) = concat (map move_call_bytes (map ?rec ts))"
    by (induction ts) (auto simp: move_call_bytes_def)
  moreover have "unat (word_of_nat (length ts) :: u32) = length ts"
    using assms(2) by (simp add: unsigned_of_nat take_bit_nat_eq_self)
  ultimately show ?thesis
    using assms(1) unfolding calls by (simp add: bcs_documented_def move_batch_bytes_def)
qed

lemma apt_targets_hash:
  assumes "bcs_documented A" and "apt_batch_fits A b" and "mapE (apt_target msg A) (bop_Transactions b) = Inr ts"
  shows "apt_HashOperationBatch C A (map fst ts) (map (fst \<circ> snd) ts) (map (fst \<circ> snd \<circ> snd) ts)
      (map (snd \<circ> snd \<circ> snd) ts) (be_bytes 32 p) (be_bytes 32 salt) =
    Inr (Keccak256Hash C (move_batch_bytes (projr (apt_calls A b)) p salt))"
proof -
  have len: "length ts < 2 ^ 32" using assms(2) mapE_length [OF assms(3)] by (simp add: apt_batch_fits_def)
  have "\<forall>(to, m, f, d) \<in> set ts. length m < 2 ^ 32 \<and> length f < 2 ^ 32 \<and> length d < 2 ^ 32"
  proof (clarify)
    fix to m f d
    assume "(to, m, f, d) \<in> set ts"
    from mapE_mem_result [OF assms(3) this] obtain tx
      where "tx \<in> set (bop_Transactions b)" "apt_target msg A tx = Inr (to, m, f, d)" by blast
    with assms(2) show "length m < 2 ^ 32 \<and> length f < 2 ^ 32 \<and> length d < 2 ^ 32"
      by (auto simp: apt_batch_fits_def apt_op_fits_def apt_target_Inr)
  qed
  from apt_batch_bytes [OF assms(1) len this, of p salt] show ?thesis
    by (simp add: apt_HashOperationBatch_def Let_def apt_calls_def apt_targets_calls [OF assms(3)])
qed

text \<open>The id is the hash of the calls, their predecessor and the salt, whatever the action.\<close>

lemma apt_OperationID_hash:
  assumes "bcs_documented A" and "apt_batch_fits A b" and "apt_OperationID C A b action p salt = Inr h"
  shows "\<exists>calls. apt_calls A b = Inr calls \<and> h = Keccak256Hash C (move_batch_bytes calls p salt)"
proof -
  from assms(3) obtain ts where
    ts: "mapE (apt_target ''failed to unmarshal Aptos additional fields: %w'' A) (bop_Transactions b) = Inr ts"
    and h: "apt_HashOperationBatch C A (map fst ts) (map (fst \<circ> snd) ts) (map (fst \<circ> snd \<circ> snd) ts)
      (map (snd \<circ> snd \<circ> snd) ts) (be_bytes 32 p) (be_bytes 32 salt) = Inr h"
    by (auto simp: apt_OperationID_def apt_targets_def bindE_Inr_iff)
  from apt_targets_hash [OF assms(1,2) ts, of C p salt] h
  have "h = Keccak256Hash C (move_batch_bytes (projr (apt_calls A b)) p salt)" by simp
  moreover have "\<exists>calls. apt_calls A b = Inr calls" by (simp add: apt_calls_def apt_targets_calls [OF ts])
  ultimately show ?thesis by auto
qed

section \<open>The converter agrees with the ids\<close>

lemma apt_targets_Inr_text: "apt_targets msg A b = Inr r \<Longrightarrow> apt_targets msg' A b = Inr r"
  unfolding apt_targets_def bindE_Inr_iff by (blast intro: apt_targets_text [where msg' = msg', THEN iffD1])

lemma apt_convert_InrE:
  assumes "apt_Convert_with C A encoderFn md b tlAddr mcm delay action pred salt = Inr (ops, h)"
  obtains op where "ops = [op]" "op_ChainSelector op = bop_ChainSelector b"
    "apt_OperationID C A b action pred salt = Inr h"
proof -
  from assms obtain ts ms fs ds op where
    ts: "apt_targets ''failed to unmarshal additional fields: %w'' A b = Inr (ts, ms, fs, ds)" and
    h: "apt_HashOperationBatch C A ts ms fs ds (be_bytes 32 pred) (be_bytes 32 salt) = Inr h" and
    op: "ops = [op]" "op_ChainSelector op = bop_ChainSelector b"
    by (auto simp: apt_Convert_with_def bindE_Inr_iff split: prod.splits)
  from ts have "apt_targets ''failed to unmarshal Aptos additional fields: %w'' A b = Inr (ts, ms, fs, ds)"
    by (rule apt_targets_Inr_text)
  with h op that show thesis by (simp add: apt_OperationID_def)
qed

interpretation apt_family: family_converter "apt_Convert_with C A encoderFn" "apt_OperationID C A" for C A encoderFn
  by unfold_locales (auto elim: apt_convert_InrE)

text \<open>The family wired into the dispatch.\<close>

definition with_aptos :: "'a aptos_pkg_scheme \<Rightarrow> 'e mcms_env_scheme \<Rightarrow> 'e mcms_env_scheme" where
  "with_aptos A E = E\<lparr>aptos_NewEncoder := apt_NewEncoder E A, aptos_OperationID := apt_OperationID E A,
     aptos_Convert := apt_NewTimelockConverter E A, aptos_CurseConvert := apt_NewCurseTimelockConverter E A,
     aptos_MCMSType := (\<lambda>r. bindE (AptMetadataUnmarshal A r) (\<lambda>m. Inr (am_MCMSType m))),
     aptos_ValidateAdditionalFields := apt_ValidateAdditionalFields A\<rparr>"

lemma with_aptos_sel [simp]:
  "aptos_NewEncoder (with_aptos A E) = apt_NewEncoder E A"
  "aptos_OperationID (with_aptos A E) = apt_OperationID E A"
  "aptos_Convert (with_aptos A E) = apt_NewTimelockConverter E A"
  "aptos_CurseConvert (with_aptos A E) = apt_NewCurseTimelockConverter E A"
  "ChainDetails (with_aptos A E) = ChainDetails E"
  by (simp_all add: with_aptos_def)

section \<open>A concrete environment\<close>

text \<open>Addresses are read as big-endian numbers, the JSON of a struct is the array of its fields.\<close>

fun sample_json_aptos :: "raw \<Rightarrow> aptos_fields res" where
  "sample_json_aptos (RawJson (JArr [JStr p, JStr m, JStr f])) =
     Inr \<lparr>af_PackageName = p, af_ModuleName = m, af_Function = f\<rparr>"
| "sample_json_aptos _ = Inl (External ''json'')"

definition sample_move_encoder :: "aptos_address \<Rightarrow> aptos_timelock_encoder" where
  "sample_move_encoder a =
     \<lparr>TimelockScheduleBatch = (\<lambda>ts ms fs ds p s d. Inr \<lparr>aenc_PackageName = ''mcms'', aenc_ModuleName = ''mcms'',
        aenc_Function = ''timelock_schedule_batch'', aenc_Args = ds @ [p, s]\<rparr>),
      TimelockBypasserExecuteBatch = (\<lambda>ts ms fs ds. Inr \<lparr>aenc_PackageName = ''mcms'', aenc_ModuleName = ''mcms'',
        aenc_Function = ''timelock_bypasser_execute_batch'', aenc_Args = ds\<rparr>),
      TimelockCancel = (\<lambda>i. Inr \<lparr>aenc_PackageName = ''mcms'', aenc_ModuleName = ''mcms'',
        aenc_Function = ''timelock_cancel'', aenc_Args = [i]\<rparr>)\<rparr>"

definition sample_aptos :: aptos_pkg where
  "sample_aptos = bcs_pkg.extend plain_bcs (aptos_pkg.fields
     (\<lambda>sel. Inr sel) (\<lambda>s. Inr (from_be (string_bytes s))) (\<lambda>a. bytes_text (be_bytes 32 a))
     sample_json_aptos
     (\<lambda>f. Inr (RawJson (JArr [JStr (af_PackageName f), JStr (af_ModuleName f), JStr (af_Function f)])))
     (\<lambda>r. Inr \<lparr>am_Role = 2, am_MCMSType = []\<rparr>) sample_move_encoder sample_move_encoder (\<lambda>_. 0))"

lemma sample_aptos_sel [simp]:
  "AptosChainIdFromSelector sample_aptos sel = Inr sel"
  "ParseStringRelaxed sample_aptos s = Inr (from_be (string_bytes s))"
  "StringLong sample_aptos a = bytes_text (be_bytes 32 a)"
  "AptFieldsUnmarshal sample_aptos r = sample_json_aptos r"
  "AptFieldsMarshal sample_aptos f =
     Inr (RawJson (JArr [JStr (af_PackageName f), JStr (af_ModuleName f), JStr (af_Function f)]))"
  "AptMetadataUnmarshal sample_aptos r = Inr \<lparr>am_Role = 2, am_MCMSType = []\<rparr>"
  "McmsEncoder sample_aptos = sample_move_encoder"
  "SerError sample_aptos calls = None"
  "SerToBytes sample_aptos calls = concat (map bcs_bytes calls)"
  by (simp_all add: sample_aptos_def bcs_pkg.defs aptos_pkg.defs plain_bcs_def)

lemma sample_aptos_documented: "bcs_documented sample_aptos"
  by (simp add: bcs_documented_def)

definition sample_apt_tx :: transaction where
  "sample_apt_tx = \<lparr>tx_ContractType = ''Token'', tx_ContractVersion = None, tx_Tags = [''tag''], tx_To = ''A'',
     tx_Data = [1, 2, 3], tx_AdditionalFields = RawJson (JArr [JStr ''pkg'', JStr ''mod'', JStr ''fn''])\<rparr>"

lemma sample_apt_fits: "apt_op_fits sample_aptos sample_apt_tx"
  by (simp add: apt_op_fits_def sample_apt_tx_def)

section \<open>Properties\<close>

text \<open>
  The leaves of an Aptos proposal commit to what they stand for. Two leaves with the same hash,
  each the hash of an operation with its nonce or of the metadata of a chain, are of the same kind
  and agree in every part: role, chain id, account of the contract, nonce or op counts, target
  account, module, function and data; or the two domain separators, or the two byte strings that
  were hashed, are a collision of keccak. The name of the package is the one field that is not
  covered.
\<close>

theorem apt_leaf_binding:
  assumes "bcs_documented A"
    and "apt_leaf_hash C A e md x = Inr h" and "apt_leaf_hash C A e' md' x' = Inr h"
    and "\<forall>n op. x = Some (n, op) \<longrightarrow> apt_op_fits A (op_Transaction op)"
    and "\<forall>n op. x' = Some (n, op) \<longrightarrow> apt_op_fits A (op_Transaction op)"
  shows "\<exists>l l'. apt_leaf A e md x = Inr l \<and> apt_leaf A e' md' x' = Inr l' \<and>
    (l = l' \<or> fst (apt_separators C) = snd (apt_separators C) \<or>
     (let p = move_leaf_bytes (apt_separators C) l; p' = move_leaf_bytes (apt_separators C) l' in
       p \<noteq> p' \<and> Keccak256Hash C p = h \<and> Keccak256Hash C p' = h))"
proof -
  from apt_leaf_hash_Inr [OF assms(1,4)] assms(2) obtain l
    where l: "apt_leaf A e md x = Inr l" "h = Keccak256Hash C (move_leaf_bytes (apt_separators C) l)" by blast
  from apt_leaf_hash_Inr [OF assms(1,5)] assms(3) obtain l'
    where l': "apt_leaf A e' md' x' = Inr l'" "h = Keccak256Hash C (move_leaf_bytes (apt_separators C) l')" by blast
  from l l' move_leaf_bytes_inject [of "apt_separators C" l l'] show ?thesis
    by (auto simp: Let_def)
qed

theorem apt_leaf_binding_witness:
  "let e = \<lparr>ae_ChainSelector = 4, ae_TxCount = 1, ae_OverridePreviousRoot = False\<rparr>;
       md = \<lparr>cm_StartingOpCount = 0, cm_MCMAddress = ''M'', cm_AdditionalFields = RawEmpty\<rparr>;
       op = \<lparr>op_ChainSelector = 4, op_Transaction = sample_apt_tx\<rparr> in
   \<exists>h. apt_leaf_hash sample_env sample_aptos e md (Some (0, op)) = Inr h \<and>
     apt_leaf sample_aptos e md (Some (0, op)) = Inr (OpLeaf 0 4 77 0 65 ''mod'' ''fn'' [1, 2, 3])"
proof -
  let ?e = "\<lparr>ae_ChainSelector = 4, ae_TxCount = 1, ae_OverridePreviousRoot = False\<rparr>"
  let ?md = "\<lparr>cm_StartingOpCount = 0, cm_MCMAddress = ''M'', cm_AdditionalFields = RawEmpty\<rparr>"
  let ?op = "\<lparr>op_ChainSelector = 4, op_Transaction = sample_apt_tx\<rparr>"
  have fits: "\<forall>n op. Some (0, ?op) = Some (n, op) \<longrightarrow> apt_op_fits sample_aptos (op_Transaction op)"
    using sample_apt_fits by simp
  have leaf: "apt_leaf sample_aptos ?e ?md (Some (0, ?op)) = Inr (OpLeaf 0 4 77 0 65 ''mod'' ''fn'' [1, 2, 3])"
    by (simp add: hexToAddress_def apt_metadata_def raw_nonempty_def sample_apt_tx_def string_bytes_def from_be_def)
  then obtain h where h: "apt_leaf_hash sample_env sample_aptos ?e ?md (Some (0, ?op)) = Inr h"
    using apt_leaf_hash_Inr [OF sample_aptos_documented fits, of sample_env ?e ?md] by blast
  from apt_leaf_binding [OF sample_aptos_documented h h fits fits] leaf h show ?thesis by (auto simp: Let_def)
qed

text \<open>
  The id of an Aptos timelock batch is independent of the action and commits to the batch: two
  batches with the same id make the same calls in the same order after the same predecessor and with
  the same salt, or the bytes that were hashed for them are a collision of keccak. The converter
  reports the same id, so a cancellation names the operation that was scheduled.
\<close>

theorem apt_OperationID_binding:
  assumes "bcs_documented A" and "apt_batch_fits A b" and "apt_batch_fits A b'"
    and "apt_OperationID C A b action p salt = Inr h"
    and "apt_Convert_with C A encoderFn md b' tlAddr mcm delay action' p' salt' = Inr (ops, h)"
  shows "\<exists>calls calls'. apt_calls A b = Inr calls \<and> apt_calls A b' = Inr calls' \<and>
    (calls = calls' \<and> p = p' \<and> salt = salt' \<or>
     move_batch_bytes calls p salt \<noteq> move_batch_bytes calls' p' salt' \<and>
       Keccak256Hash C (move_batch_bytes calls p salt) = h \<and> Keccak256Hash C (move_batch_bytes calls' p' salt') = h)"
proof -
  from apt_OperationID_hash [OF assms(1,2,4)] obtain calls
    where c: "apt_calls A b = Inr calls" "h = Keccak256Hash C (move_batch_bytes calls p salt)" by blast
  from apt_OperationID_hash [OF assms(1,3) apt_family.conv_id [OF assms(5)]] obtain calls'
    where c': "apt_calls A b' = Inr calls'" "h = Keccak256Hash C (move_batch_bytes calls' p' salt')" by blast
  from c c' move_batch_bytes_inject [of calls p salt calls' p' salt'] show ?thesis by auto
qed

theorem apt_OperationID_binding_witness:
  "let b = \<lparr>bop_ChainSelector = 4, bop_Transactions = [sample_apt_tx]\<rparr>;
       md = \<lparr>cm_StartingOpCount = 0, cm_MCMAddress = ''M'', cm_AdditionalFields = RawEmpty\<rparr> in
   \<exists>ops h. apt_Convert_with sample_env sample_aptos sample_move_encoder md b [] ''M'' 1 TimelockActionCancel 0 7 = Inr (ops, h) \<and>
     apt_OperationID sample_env sample_aptos b TimelockActionSchedule 0 7 = Inr h \<and>
     apt_calls sample_aptos b =
       Inr [\<lparr>mvc_Target = 65, mvc_Module = ''mod'', mvc_Function = ''fn'', mvc_Data = [1, 2, 3]\<rparr>]"
proof -
  let ?b = "\<lparr>bop_ChainSelector = 4, bop_Transactions = [sample_apt_tx]\<rparr>"
  let ?md = "\<lparr>cm_StartingOpCount = 0, cm_MCMAddress = ''M'', cm_AdditionalFields = RawEmpty\<rparr>"
  have fits: "apt_batch_fits sample_aptos ?b" using sample_apt_fits by (simp add: apt_batch_fits_def)
  have target: "apt_target msg sample_aptos sample_apt_tx = Inr (65, ''mod'', ''fn'', [1, 2, 3])" for msg
    by (simp add: apt_target_def hexToAddress_def sample_apt_tx_def string_bytes_def from_be_def)
  obtain ops h where conv:
    "apt_Convert_with sample_env sample_aptos sample_move_encoder ?md ?b [] ''M'' 1 TimelockActionCancel 0 7 = Inr (ops, h)"
    by (simp add: apt_Convert_with_def apt_targets_def target hexToAddress_def apt_HashOperationBatch_def Let_def
        apt_action_call_def sample_move_encoder_def apt_NewTransaction_def)
  moreover have id: "apt_OperationID sample_env sample_aptos ?b TimelockActionSchedule 0 7 = Inr h"
    using apt_family.conv_id [OF conv] by (simp add: apt_OperationID_def)
  ultimately show ?thesis
    using apt_OperationID_binding [OF sample_aptos_documented fits fits id conv]
    by (auto simp: Let_def apt_calls_def target)
qed

end
