(* ===== verification/AptosClient.thy ===== *)
theory AptosClient
  imports Aptos EvmClient
begin

text \<open>
  The Aptos implementations of the interfaces that talk to a chain: \<open>sdk/aptos/inspector.go\<close>,
  \<open>timelock_inspector.go\<close>, \<open>executor.go\<close>, \<open>timelock_executor.go\<close>, \<open>configurer.go\<close> and
  \<open>timelock_configurer.go\<close>. The generated bindings and the node are records of functions on the world:
  views look at it, transactions return the next one, errors are texts.
\<close>

section \<open>The bindings and the node\<close>

text \<open>
  A transaction signer is its account address, the one thing the code asks it for. The options of a
  transaction may carry a sequence number.
\<close>

record aptos_opts =
  ao_Signer :: aptos_address
  ao_SequenceNumber :: "u64 option"

record aptos_root_metadata =
  arm_Role :: u8
  arm_ChainId :: int
  arm_Multisig :: aptos_address
  arm_PreOpCount :: u64
  arm_PostOpCount :: u64
  arm_OverridePreviousRoot :: bool

text \<open>
  What is called of a bound contract; both \<open>mcms\<close> and \<open>curse_mcms\<close> have these, with structs of the
  same fields. \<open>'x\<close> is the type of pending transactions, \<open>'w\<close> that of worlds.
\<close>

record ('w, 'x) aptos_contract =
  apc_GetConfig :: "u8 \<Rightarrow> 'w \<Rightarrow> string + aptos_config"
  apc_GetOpCount :: "u8 \<Rightarrow> 'w \<Rightarrow> string + u64"
  apc_GetRoot :: "u8 \<Rightarrow> 'w \<Rightarrow> string + (byte list \<times> u64)"
  apc_GetRootMetadata :: "u8 \<Rightarrow> 'w \<Rightarrow> string + aptos_root_metadata"
  apc_Execute :: "aptos_opts \<Rightarrow> u8 \<Rightarrow> int \<Rightarrow> aptos_address \<Rightarrow> u64 \<Rightarrow> aptos_address \<Rightarrow> string \<Rightarrow> string \<Rightarrow> byte list \<Rightarrow>
    byte list list \<Rightarrow> 'w \<Rightarrow> (string + 'x) \<times> 'w"
  apc_SetRoot :: "aptos_opts \<Rightarrow> u8 \<Rightarrow> byte list \<Rightarrow> u64 \<Rightarrow> int \<Rightarrow> aptos_address \<Rightarrow> u64 \<Rightarrow> u64 \<Rightarrow> bool \<Rightarrow> byte list list \<Rightarrow>
    byte list list \<Rightarrow> 'w \<Rightarrow> (string + 'x) \<times> 'w"
  apc_StageData :: "aptos_opts \<Rightarrow> byte list \<Rightarrow> byte list list \<Rightarrow> 'w \<Rightarrow> (string + 'x) \<times> 'w"
  apc_StageDataAndExecute :: "aptos_opts \<Rightarrow> u8 \<Rightarrow> int \<Rightarrow> aptos_address \<Rightarrow> u64 \<Rightarrow> aptos_address \<Rightarrow> string \<Rightarrow> string \<Rightarrow>
    byte list \<Rightarrow> byte list list \<Rightarrow> 'w \<Rightarrow> (string + 'x) \<times> 'w"
  apc_SetConfig :: "aptos_opts \<Rightarrow> u8 \<Rightarrow> byte list list \<Rightarrow> u8 list \<Rightarrow> u8 list \<Rightarrow> u8 list \<Rightarrow> bool \<Rightarrow> 'w \<Rightarrow> (string + 'x) \<times> 'w"
  apc_EncodeSetConfig :: "u8 \<Rightarrow> byte list list \<Rightarrow> u8 list \<Rightarrow> u8 list \<Rightarrow> u8 list \<Rightarrow> bool \<Rightarrow> string + aptos_encoded"
  apc_EncodeTimelockUpdateMinDelay :: "u64 \<Rightarrow> string + aptos_encoded"
  apc_TimelockMinDelay :: "'w \<Rightarrow> string + u64"
  apc_TimelockIsOperation :: "byte list \<Rightarrow> 'w \<Rightarrow> string + bool"
  apc_TimelockIsOperationPending :: "byte list \<Rightarrow> 'w \<Rightarrow> string + bool"
  apc_TimelockIsOperationReady :: "byte list \<Rightarrow> 'w \<Rightarrow> string + bool"
  apc_TimelockIsOperationDone :: "byte list \<Rightarrow> 'w \<Rightarrow> string + bool"
  apc_TimelockExecuteBatch :: "aptos_opts \<Rightarrow> aptos_address list \<Rightarrow> string list \<Rightarrow> string list \<Rightarrow> byte list list \<Rightarrow>
    byte list \<Rightarrow> byte list \<Rightarrow> 'w \<Rightarrow> (string + 'x) \<times> 'w"

record ('w, 'x) aptos_client =
  acl_Bind :: "aptos_address \<Rightarrow> ('w, 'x) aptos_contract"
  acl_CurseBind :: "aptos_address \<Rightarrow> ('w, 'x) aptos_contract"
  acl_SequenceNumber :: "aptos_address \<Rightarrow> 'w \<Rightarrow> string + (string + u64)"
  acl_TxHash :: "'x \<Rightarrow> string"

text \<open>A result carries a pending transaction, or a prepared one that was not sent.\<close>

datatype 'x aptos_raw = PendingTransaction 'x | PreparedTransaction transaction

definition apt_sent :: "('w, 'x) aptos_client \<Rightarrow> 'x \<Rightarrow> 'x aptos_raw transaction_result" where
  "apt_sent C tx =
     \<lparr>tr_Hash = acl_TxHash C tx, tr_ChainFamily = Some FamilyAptos, tr_RawData = Some (PendingTransaction tx)\<rparr>"

definition apt_prepared :: "transaction \<Rightarrow> 'x aptos_raw transaction_result" where
  "apt_prepared tx = \<lparr>tr_Hash = [], tr_ChainFamily = Some FamilyAptos, tr_RawData = Some (PreparedTransaction tx)\<rparr>"

text \<open>A transaction on the chain, its error wrapped.\<close>

definition apt_call :: "string \<Rightarrow> ('w \<Rightarrow> (string + 'x) \<times> 'w) \<Rightarrow> 'w \<Rightarrow> 'x res \<times> 'w" where
  "apt_call msg m w = (case m w of (r, w') \<Rightarrow> (wrapE (Wrapf msg) (ext r), w'))"

section \<open>Inspector\<close>

record ('w, 'x) aptos_inspector =
  ai_client :: "('w, 'x) aptos_client"
  ai_role :: aptos_role
  ai_viewer :: "aptos_address \<Rightarrow> ('w, 'x) aptos_contract"

text \<open>\<open>curseMcmsViewer\<close> copies the structs of the one module into those of the other.\<close>

definition curseMcmsViewer :: "('w, 'x) aptos_contract \<Rightarrow> ('w, 'x) aptos_contract" where
  "curseMcmsViewer inner = inner
     \<lparr>apc_GetConfig := (\<lambda>role w. bindE (apc_GetConfig inner role w) (\<lambda>cfg.
        Inr \<lparr>acfg_Signers = map (\<lambda>s. \<lparr>as_Addr = as_Addr s, as_Index = as_Index s, as_Group = as_Group s\<rparr>) (acfg_Signers cfg),
             acfg_GroupQuorums = acfg_GroupQuorums cfg, acfg_GroupParents = acfg_GroupParents cfg\<rparr>)),
      apc_GetRootMetadata := (\<lambda>role w. bindE (apc_GetRootMetadata inner role w) (\<lambda>rm.
        Inr \<lparr>arm_Role = arm_Role rm, arm_ChainId = arm_ChainId rm, arm_Multisig = arm_Multisig rm,
             arm_PreOpCount = arm_PreOpCount rm, arm_PostOpCount = arm_PostOpCount rm,
             arm_OverridePreviousRoot = arm_OverridePreviousRoot rm\<rparr>))\<rparr>"

definition apt_NewInspectorWithMCMSType ::
  "('w, 'x) aptos_client \<Rightarrow> aptos_role \<Rightarrow> string \<Rightarrow> ('w, 'x) aptos_inspector" where
  "apt_NewInspectorWithMCMSType client role mcmsType =
     \<lparr>ai_client = client, ai_role = role,
      ai_viewer = (if mcmsType = MCMSTypeCurse then (\<lambda>addr. curseMcmsViewer (acl_CurseBind client addr))
                   else acl_Bind client)\<rparr>"

definition apt_NewInspector :: "('w, 'x) aptos_client \<Rightarrow> aptos_role \<Rightarrow> ('w, 'x) aptos_inspector" where
  "apt_NewInspector client role = apt_NewInspectorWithMCMSType client role MCMSTypeRegular"

definition apt_GetConfig ::
  "'a aptos_pkg_scheme \<Rightarrow> ('w, 'x) aptos_inspector \<Rightarrow> 'w \<Rightarrow> string \<Rightarrow> config res" where
  "apt_GetConfig A i w mcmsAddr =
     bindE (wrapE (Wrapf ''failed to parse MCMS address: %w'') (hexToAddress A mcmsAddr)) (\<lambda>mcmsAddress.
     bindE (wrapE (Wrapf ''get config: %w'') (ext (apc_GetConfig (ai_viewer i mcmsAddress) (ai_role i) w))) (\<lambda>config.
       apt_ToConfig config))"

definition apt_GetOpCount ::
  "'a aptos_pkg_scheme \<Rightarrow> ('w, 'x) aptos_inspector \<Rightarrow> 'w \<Rightarrow> string \<Rightarrow> u64 res" where
  "apt_GetOpCount A i w mcmsAddr =
     bindE (wrapE (Wrapf ''failed to parse MCMS address: %w'') (hexToAddress A mcmsAddr)) (\<lambda>mcmsAddress.
       wrapE (Wrapf ''get op count: %w'') (ext (apc_GetOpCount (ai_viewer i mcmsAddress) (ai_role i) w)))"

text \<open>\<open>common.BytesToHash\<close> keeps the last 32 bytes, the expiry its low 32 bits.\<close>

definition apt_GetRoot ::
  "'a aptos_pkg_scheme \<Rightarrow> ('w, 'x) aptos_inspector \<Rightarrow> 'w \<Rightarrow> string \<Rightarrow> (hash \<times> u32) res" where
  "apt_GetRoot A i w mcmsAddr =
     bindE (wrapE (Wrapf ''failed to parse MCMS address: %w'') (hexToAddress A mcmsAddr)) (\<lambda>mcmsAddress.
     bindE (wrapE (Wrapf ''get root: %w'') (ext (apc_GetRoot (ai_viewer i mcmsAddress) (ai_role i) w)))
       (\<lambda>(merkleRoot, validUntil). Inr (from_be merkleRoot, ucast validUntil)))"

definition apt_GetRootMetadata ::
  "'a aptos_pkg_scheme \<Rightarrow> ('w, 'x) aptos_inspector \<Rightarrow> 'w \<Rightarrow> string \<Rightarrow> chain_metadata res" where
  "apt_GetRootMetadata A i w mcmsAddr =
     bindE (wrapE (Wrapf ''failed to parse MCMS address: %w'') (hexToAddress A mcmsAddr)) (\<lambda>mcmsAddress.
     bindE (wrapE (Wrapf ''get root metadata: %w'')
              (ext (apc_GetRootMetadata (ai_viewer i mcmsAddress) (ai_role i) w))) (\<lambda>rm.
       Inr \<lparr>cm_StartingOpCount = arm_PreOpCount rm, cm_MCMAddress = StringLong A (arm_Multisig rm),
            cm_AdditionalFields = RawEmpty\<rparr>))"

definition apt_inspector ::
  "'a aptos_pkg_scheme \<Rightarrow> ('w, 'x) aptos_inspector \<Rightarrow> 'w \<Rightarrow> inspector" where
  "apt_inspector A i w = \<lparr>insp_GetConfig = apt_GetConfig A i w, insp_GetOpCount = apt_GetOpCount A i w\<rparr>"

section \<open>Timelock inspector\<close>

record ('w, 'x) aptos_timelock_inspector =
  ati_client :: "('w, 'x) aptos_client"
  ati_contract :: "aptos_address \<Rightarrow> ('w, 'x) aptos_contract"

definition apt_NewTimelockInspectorWithMCMSType ::
  "('w, 'x) aptos_client \<Rightarrow> string \<Rightarrow> ('w, 'x) aptos_timelock_inspector" where
  "apt_NewTimelockInspectorWithMCMSType client mcmsType =
     \<lparr>ati_client = client,
      ati_contract = (if mcmsType = MCMSTypeCurse then acl_CurseBind client else acl_Bind client)\<rparr>"

definition apt_NewTimelockInspector :: "('w, 'x) aptos_client \<Rightarrow> ('w, 'x) aptos_timelock_inspector" where
  "apt_NewTimelockInspector client = apt_NewTimelockInspectorWithMCMSType client MCMSTypeRegular"

definition apt_timelock_view ::
  "'a aptos_pkg_scheme \<Rightarrow> ('w, 'x) aptos_timelock_inspector \<Rightarrow> string \<Rightarrow> (('w, 'x) aptos_contract \<Rightarrow> string + 'v) \<Rightarrow> 'v res" where
  "apt_timelock_view A tm addr view =
     bindE (wrapE (Wrapf ''failed to parse MCMS address %q: %w'') (hexToAddress A addr)) (\<lambda>mcmsAddress.
       ext (view (ati_contract tm mcmsAddress)))"

definition apt_GetMinDelay where
  "apt_GetMinDelay A tm w addr = apt_timelock_view A tm addr (\<lambda>c. apc_TimelockMinDelay c w)"

definition apt_unsupported :: "string list res" where
  "apt_unsupported = Inl (Errorf ''unsupported on Aptos'')"

definition apt_GetProposers :: "string \<Rightarrow> string list res" where "apt_GetProposers addr = apt_unsupported"
definition apt_GetExecutors :: "string \<Rightarrow> string list res" where "apt_GetExecutors addr = apt_unsupported"
definition apt_GetBypassers :: "string \<Rightarrow> string list res" where "apt_GetBypassers addr = apt_unsupported"
definition apt_GetCancellers :: "string \<Rightarrow> string list res" where "apt_GetCancellers addr = apt_unsupported"

definition apt_IsOperation ::
  "'a aptos_pkg_scheme \<Rightarrow> ('w, 'x) aptos_timelock_inspector \<Rightarrow> 'w \<Rightarrow> string \<Rightarrow> hash \<Rightarrow> bool res" where
  "apt_IsOperation A tm w addr opID = apt_timelock_view A tm addr (\<lambda>c. apc_TimelockIsOperation c (be_bytes 32 opID) w)"

definition apt_IsOperationPending ::
  "'a aptos_pkg_scheme \<Rightarrow> ('w, 'x) aptos_timelock_inspector \<Rightarrow> 'w \<Rightarrow> string \<Rightarrow> hash \<Rightarrow> bool res" where
  "apt_IsOperationPending A tm w addr opID =
     apt_timelock_view A tm addr (\<lambda>c. apc_TimelockIsOperationPending c (be_bytes 32 opID) w)"

definition apt_IsOperationReady ::
  "'a aptos_pkg_scheme \<Rightarrow> ('w, 'x) aptos_timelock_inspector \<Rightarrow> 'w \<Rightarrow> string \<Rightarrow> hash \<Rightarrow> bool res" where
  "apt_IsOperationReady A tm w addr opID =
     apt_timelock_view A tm addr (\<lambda>c. apc_TimelockIsOperationReady c (be_bytes 32 opID) w)"

definition apt_IsOperationDone ::
  "'a aptos_pkg_scheme \<Rightarrow> ('w, 'x) aptos_timelock_inspector \<Rightarrow> 'w \<Rightarrow> string \<Rightarrow> hash \<Rightarrow> bool res" where
  "apt_IsOperationDone A tm w addr opID =
     apt_timelock_view A tm addr (\<lambda>c. apc_TimelockIsOperationDone c (be_bytes 32 opID) w)"

section \<open>Executor\<close>

definition apt_ChunkSizeBytes :: nat where "apt_ChunkSizeBytes = 50000"

record ('w, 'x) aptos_executor =
  aex_Encoder :: "aptos_encoder option"
  aex_Inspector :: "('w, 'x) aptos_inspector"
  aex_client :: "('w, 'x) aptos_client"
  aex_auth :: aptos_address
  aex_mcmsType :: string

definition apt_NewExecutorWithMCMSType ::
  "('w, 'x) aptos_client \<Rightarrow> aptos_address \<Rightarrow> aptos_encoder option \<Rightarrow> aptos_role \<Rightarrow> string \<Rightarrow> ('w, 'x) aptos_executor" where
  "apt_NewExecutorWithMCMSType client auth encoder role mcmsType =
     \<lparr>aex_Encoder = encoder, aex_Inspector = apt_NewInspectorWithMCMSType client role mcmsType, aex_client = client,
      aex_auth = auth, aex_mcmsType = mcmsType\<rparr>"

definition apt_NewExecutor ::
  "('w, 'x) aptos_client \<Rightarrow> aptos_address \<Rightarrow> aptos_encoder option \<Rightarrow> aptos_role \<Rightarrow> ('w, 'x) aptos_executor" where
  "apt_NewExecutor client auth encoder role = apt_NewExecutorWithMCMSType client auth encoder role MCMSTypeRegular"

text \<open>The arguments that the two \<open>execute\<close> functions share.\<close>

record aptos_execution =
  apx_Role :: u8
  apx_ChainID :: int
  apx_Mcms :: aptos_address
  apx_Nonce :: u32
  apx_To :: aptos_address
  apx_Module :: string
  apx_Function :: string
  apx_Data :: "byte list"
  apx_Proof :: "byte list list"

definition executeCurseMCMS ::
  "('w, 'x) aptos_executor \<Rightarrow> aptos_opts \<Rightarrow> aptos_execution \<Rightarrow> 'w \<Rightarrow> 'x aptos_raw transaction_result res \<times> 'w" where
  "executeCurseMCMS e opts a w =
     (if length (apx_Data a) > apt_ChunkSizeBytes
      then (Inl (Errorf ''CurseMCMS does not support chunked execution; data size %d exceeds limit %d''), w)
      else
        bindW (apt_call ''executing operation on Aptos curse_mcms contract: %w''
          (apc_Execute (acl_CurseBind (aex_client e) (apx_Mcms a)) opts (apx_Role a) (apx_ChainID a) (apx_Mcms a)
             (ucast (apx_Nonce a)) (apx_To a) (apx_Module a) (apx_Function a) (apx_Data a) (apx_Proof a)))
          (\<lambda>tx w'. (Inr (apt_sent (aex_client e) tx), w')) w)"

text \<open>\<open>slices.Chunk\<close>.\<close>

fun chunks_of :: "nat \<Rightarrow> 'a list \<Rightarrow> 'a list list" where
  "chunks_of n [] = []"
| "chunks_of n (x # xs) = take (max 1 n) (x # xs) # chunks_of n (drop (max 1 n) (x # xs))"

text \<open>
  The loop over the chunks from chunk \<open>i\<close> on: every transaction has its own sequence number, which
  wraps as a \<open>uint64\<close>; the last chunk executes.
\<close>

fun stage_loop ::
  "('w, 'x) aptos_contract \<Rightarrow> aptos_opts \<Rightarrow> aptos_execution \<Rightarrow> u64 \<Rightarrow> nat \<Rightarrow> byte list list \<Rightarrow> 'w \<Rightarrow> 'x res \<times> 'w" where
  "stage_loop c opts a startSeqNo i [] w = (Inl (Panic ''nil pointer dereference''), w)"
| "stage_loop c opts a startSeqNo i [chunk] w =
     apt_call ''executing data chunk %v of %v on Aptos mcms contract: %w''
       (apc_StageDataAndExecute c (opts\<lparr>ao_SequenceNumber := Some (startSeqNo + word_of_nat i)\<rparr>) (apx_Role a) (apx_ChainID a)
          (apx_Mcms a) (ucast (apx_Nonce a)) (apx_To a) (apx_Module a) (apx_Function a) chunk (apx_Proof a)) w"
| "stage_loop c opts a startSeqNo i (chunk # chunks) w =
     bindW (apt_call ''staging data chunk %v of %v on Aptos mcms contract: %w''
       (apc_StageData c (opts\<lparr>ao_SequenceNumber := Some (startSeqNo + word_of_nat i)\<rparr>) chunk []))
       (\<lambda>_. stage_loop c opts a startSeqNo (Suc i) chunks) w"

definition executeMCMS ::
  "('w, 'x) aptos_executor \<Rightarrow> aptos_opts \<Rightarrow> aptos_execution \<Rightarrow> 'w \<Rightarrow> 'x aptos_raw transaction_result res \<times> 'w" where
  "executeMCMS e opts a w =
     (let c = acl_Bind (aex_client e) (apx_Mcms a) in
      bindW (\<lambda>w.
        if length (apx_Data a) \<le> apt_ChunkSizeBytes
        then apt_call ''executing operation on Aptos mcms contract: %w''
               (apc_Execute c opts (apx_Role a) (apx_ChainID a) (apx_Mcms a) (ucast (apx_Nonce a)) (apx_To a) (apx_Module a)
                  (apx_Function a) (apx_Data a) (apx_Proof a)) w
        else
          let chunks = chunks_of apt_ChunkSizeBytes (apx_Data a);
              chunks = (if chunks = [] then [[]] else chunks) in
          run_after
            (bindE (wrapE (Wrapf ''getting account info for %v: %w'')
                      (ext (acl_SequenceNumber (aex_client e) (aex_auth e) w))) (\<lambda>accountInfo.
               wrapE (Wrapf ''getting nonce for %v: %w'') (ext accountInfo)))
            (\<lambda>startSeqNo. stage_loop c opts a startSeqNo 0 chunks) w)
        (\<lambda>tx w'. (Inr (apt_sent (aex_client e) tx), w')) w)"

definition apt_execution ::
  "'a aptos_pkg_scheme \<Rightarrow> ('w, 'x) aptos_executor \<Rightarrow> chain_metadata \<Rightarrow> u32 \<Rightarrow> hash list \<Rightarrow> operation \<Rightarrow> aptos_execution res" where
  "apt_execution A e metadata nonce proof op =
     bindE (wrapE (Wrapf ''failed to parse MCMS address %q: %w'') (hexToAddress A (cm_MCMAddress metadata))) (\<lambda>mcmsAddress.
     bindE (wrapE (Wrapf ''failed to parse To address %q: %w'')
              (hexToAddress A (tx_To (op_Transaction op)))) (\<lambda>toAddress.
     bindE (wrapE (Wrapf ''failed to unmarshal additional fields: %w'')
              (AptFieldsUnmarshal A (tx_AdditionalFields (op_Transaction op)))) (\<lambda>additionalFields.
     bindE (apt_metadata A metadata) (\<lambda>additionalFieldsMetadata.
     bindE (deref (aex_Encoder e)) (\<lambda>enc.
     bindE (AptosChainIdFromSelector A (ae_ChainSelector enc)) (\<lambda>chainID.
       Inr \<lparr>apx_Role = am_Role additionalFieldsMetadata, apx_ChainID = uint chainID, apx_Mcms = mcmsAddress,
            apx_Nonce = nonce, apx_To = toAddress, apx_Module = af_ModuleName additionalFields,
            apx_Function = af_Function additionalFields, apx_Data = tx_Data (op_Transaction op),
            apx_Proof = map (be_bytes 32) proof\<rparr>))))))"

definition apt_ExecuteOperation ::
  "'a aptos_pkg_scheme \<Rightarrow> ('w, 'x) aptos_executor \<Rightarrow> chain_metadata \<Rightarrow> u32 \<Rightarrow> hash list \<Rightarrow> operation \<Rightarrow> 'w \<Rightarrow>
     'x aptos_raw transaction_result res \<times> 'w" where
  "apt_ExecuteOperation A e metadata nonce proof op =
     run_after (apt_execution A e metadata nonce proof op) (\<lambda>a.
       let opts = \<lparr>ao_Signer = aex_auth e, ao_SequenceNumber = None\<rparr> in
       if IsCurseMCMS (aex_mcmsType e) then executeCurseMCMS e opts a else executeMCMS e opts a)"

definition apt_SignatureVOffset :: u8 where "apt_SignatureVOffset = 27"
definition apt_SignatureVThreshold :: u8 where "apt_SignatureVThreshold = 2"

definition apt_encodeSignatures :: "signature list \<Rightarrow> byte list list" where
  "apt_encodeSignatures signatures =
     map (\<lambda>s. be_bytes 32 (sig_R s) @ be_bytes 32 (sig_S s) @
            [if sig_V s \<le> apt_SignatureVThreshold then sig_V s + apt_SignatureVOffset else sig_V s]) signatures"

definition apt_SetRoot ::
  "'a aptos_pkg_scheme \<Rightarrow> ('w, 'x) aptos_executor \<Rightarrow> chain_metadata \<Rightarrow> hash list \<Rightarrow> hash \<Rightarrow> u32 \<Rightarrow> signature list \<Rightarrow> 'w \<Rightarrow>
     'x aptos_raw transaction_result res \<times> 'w" where
  "apt_SetRoot A e metadata proof merkleRoot validUntil sortedSignatures =
     run_after
       (bindE (wrapE (Wrapf ''failed to parse MCMS address %q: %w'') (hexToAddress A (cm_MCMAddress metadata))) (\<lambda>mcmsAddress.
        bindE (apt_metadata A metadata) (\<lambda>additionalFieldsMetadata.
        bindE (deref (aex_Encoder e)) (\<lambda>enc.
        bindE (AptosChainIdFromSelector A (ae_ChainSelector enc)) (\<lambda>chainID.
          Inr (mcmsAddress, am_Role additionalFieldsMetadata, enc, chainID))))))
       (\<lambda>(mcmsAddress, role, enc, chainID).
          let c = (if IsCurseMCMS (aex_mcmsType e) then acl_CurseBind (aex_client e) mcmsAddress
                   else acl_Bind (aex_client e) mcmsAddress) in
          bindW (apt_call ''setting root on Aptos mcms contract: %w''
            (apc_SetRoot c \<lparr>ao_Signer = aex_auth e, ao_SequenceNumber = None\<rparr> role (be_bytes 32 merkleRoot)
               (ucast validUntil) (uint chainID) mcmsAddress (cm_StartingOpCount metadata)
               (cm_StartingOpCount metadata + ae_TxCount enc) (ae_OverridePreviousRoot enc)
               (map (be_bytes 32) proof) (apt_encodeSignatures sortedSignatures)))
            (\<lambda>tx w'. (Inr (apt_sent (aex_client e) tx), w')))"

definition apt_executor_iface ::
  "'a aptos_pkg_scheme \<Rightarrow> ('w, 'x) aptos_executor \<Rightarrow> ('x aptos_raw transaction_result, 'w) executor" where
  "apt_executor_iface A e = \<lparr>ex_SetRoot = apt_SetRoot A e, ex_ExecuteOperation = apt_ExecuteOperation A e\<rparr>"

section \<open>Timelock executor\<close>

record ('w, 'x) aptos_timelock_executor =
  ate_Inspector :: "('w, 'x) aptos_timelock_inspector"
  ate_client :: "('w, 'x) aptos_client"
  ate_auth :: aptos_address

definition apt_NewTimelockExecutorWithMCMSType ::
  "('w, 'x) aptos_client \<Rightarrow> aptos_address \<Rightarrow> string \<Rightarrow> ('w, 'x) aptos_timelock_executor" where
  "apt_NewTimelockExecutorWithMCMSType client auth mcmsType =
     \<lparr>ate_Inspector = apt_NewTimelockInspectorWithMCMSType client mcmsType, ate_client = client, ate_auth = auth\<rparr>"

definition apt_NewTimelockExecutor :: "('w, 'x) aptos_client \<Rightarrow> aptos_address \<Rightarrow> ('w, 'x) aptos_timelock_executor" where
  "apt_NewTimelockExecutor client auth = apt_NewTimelockExecutorWithMCMSType client auth MCMSTypeRegular"

definition apt_timelock_Execute ::
  "'a aptos_pkg_scheme \<Rightarrow> ('w, 'x) aptos_timelock_executor \<Rightarrow> batch_operation \<Rightarrow> string \<Rightarrow> hash \<Rightarrow> hash \<Rightarrow> 'w \<Rightarrow>
     'x aptos_raw transaction_result res \<times> 'w" where
  "apt_timelock_Execute A t bop timelockAddress predecessor salt =
     run_after
       (bindE (wrapE (Wrapf ''failed to parse Timelock address %q: %w'') (hexToAddress A timelockAddress)) (\<lambda>mcmsAddress.
        bindE (apt_targets ''failed to unmarshal additional fields: %w'' A bop) (\<lambda>slices. Inr (mcmsAddress, slices))))
       (\<lambda>(mcmsAddress, targets, moduleNames, functionNames, datas).
          bindW (apt_call ''failed to execute batch: %w''
            (apc_TimelockExecuteBatch (ati_contract (ate_Inspector t) mcmsAddress)
               \<lparr>ao_Signer = ate_auth t, ao_SequenceNumber = None\<rparr> targets moduleNames functionNames datas
               (be_bytes 32 predecessor) (be_bytes 32 salt)))
            (\<lambda>tx w'. (Inr (apt_sent (ate_client t) tx), w')))"

definition apt_timelock_executor_iface ::
  "'a aptos_pkg_scheme \<Rightarrow> 'w \<Rightarrow> ('w, 'x) aptos_timelock_executor \<Rightarrow>
     ('x aptos_raw transaction_result, 'w) timelock_executor" where
  "apt_timelock_executor_iface A w0 t =
     \<lparr>te_IsOperationPending = apt_IsOperationPending A (ate_Inspector t) w0,
      te_IsOperationReady = apt_IsOperationReady A (ate_Inspector t) w0,
      te_IsOperationDone = apt_IsOperationDone A (ate_Inspector t) w0,
      te_Execute = apt_timelock_Execute A t\<rparr>"

section \<open>Configurers\<close>

record ('w, 'x) aptos_configurer =
  ac_client :: "('w, 'x) aptos_client"
  ac_auth :: aptos_address
  ac_role :: aptos_role
  ac_skipSend :: bool

definition apt_WithDoNotSendInstructionsOnChain :: "('w, 'x) aptos_configurer \<Rightarrow> ('w, 'x) aptos_configurer" where
  "apt_WithDoNotSendInstructionsOnChain c = c\<lparr>ac_skipSend := True\<rparr>"

definition apt_NewConfigurer ::
  "('w, 'x) aptos_client \<Rightarrow> aptos_address \<Rightarrow> aptos_role \<Rightarrow>
     (('w, 'x) aptos_configurer \<Rightarrow> ('w, 'x) aptos_configurer) list \<Rightarrow> ('w, 'x) aptos_configurer" where
  "apt_NewConfigurer client auth role options =
     foldl (\<lambda>c option. option c) \<lparr>ac_client = client, ac_auth = auth, ac_role = role, ac_skipSend = False\<rparr> options"

text \<open>A transaction made of an encoded call on the contract.\<close>

definition apt_prepare ::
  "'a aptos_pkg_scheme \<Rightarrow> aptos_address \<Rightarrow> aptos_encoded \<Rightarrow> 'x aptos_raw transaction_result res" where
  "apt_prepare A mcmsAddress call =
     bindE (wrapE (Wrapf ''creating mcms transaction: %w'')
              (apt_NewTransaction A (aenc_PackageName call) (aenc_ModuleName call) (aenc_Function call) mcmsAddress
                 (ArgsToData (aenc_Args call)) [] [])) (\<lambda>tx. Inr (apt_prepared tx))"

definition apt_SetConfig ::
  "'x cast_pkg_scheme \<Rightarrow> 'a aptos_pkg_scheme \<Rightarrow> ('w, 't) aptos_configurer \<Rightarrow> string \<Rightarrow> config \<Rightarrow> bool \<Rightarrow> 'w \<Rightarrow>
     't aptos_raw transaction_result res \<times> 'w" where
  "apt_SetConfig X A c mcmsAddr cfg clearRoot =
     run_after
       (bindE (wrapE (Wrapf ''failed to parse MCMS address %q: %w'') (hexToAddress A mcmsAddr)) (\<lambda>mcmsAddress.
        bindE (wrapE (Wrapf ''unable to extract set config inputs: %w'') (ExtractSetConfigInputs X cfg)) (\<lambda>inputs.
          Inr (mcmsAddress, inputs))))
       (\<lambda>(mcmsAddress, groupQuorum, groupParents, signerAddresses, signerGroups).
          let contract = acl_Bind (ac_client c) mcmsAddress; signers = map (be_bytes 20) signerAddresses in
          if ac_skipSend c
          then (\<lambda>w. (bindE (wrapE (Wrapf ''encoding SetConfig call on Aptos mcms contract: %w'')
                       (ext (apc_EncodeSetConfig contract (ac_role c) signers signerGroups groupQuorum groupParents clearRoot)))
                       (apt_prepare A mcmsAddress), w))
          else
            bindW (apt_call ''setting config on Aptos mcms contract: %w''
              (apc_SetConfig contract \<lparr>ao_Signer = ac_auth c, ao_SequenceNumber = None\<rparr> (ac_role c) signers signerGroups
                 groupQuorum groupParents clearRoot))
              (\<lambda>tx w'. (Inr (apt_sent (ac_client c) tx), w')))"

record ('w, 'x) aptos_timelock_configurer =
  atc_client :: "('w, 'x) aptos_client"
  atc_mcmsType :: string

definition apt_NewTimelockConfigurerWithMCMSType ::
  "('w, 'x) aptos_client \<Rightarrow> string \<Rightarrow> ('w, 'x) aptos_timelock_configurer" where
  "apt_NewTimelockConfigurerWithMCMSType client mcmsType = \<lparr>atc_client = client, atc_mcmsType = mcmsType\<rparr>"

definition apt_NewTimelockConfigurer :: "('w, 'x) aptos_client \<Rightarrow> ('w, 'x) aptos_timelock_configurer" where
  "apt_NewTimelockConfigurer client = apt_NewTimelockConfigurerWithMCMSType client MCMSTypeRegular"

definition apt_UpdateDelay ::
  "'a aptos_pkg_scheme \<Rightarrow> ('w, 'x) aptos_timelock_configurer \<Rightarrow> string \<Rightarrow> u64 \<Rightarrow> 'x aptos_raw transaction_result res" where
  "apt_UpdateDelay A c mcmsAddr newDelay =
     bindE (wrapE (Wrapf ''failed to parse MCMS address %q: %w'') (hexToAddress A mcmsAddr)) (\<lambda>mcmsAddress.
       let contract = (if atc_mcmsType c = MCMSTypeCurse then acl_CurseBind (atc_client c) mcmsAddress
                       else acl_Bind (atc_client c) mcmsAddress) in
       bindE (wrapE (Wrapf ''encoding TimelockUpdateMinDelay: %w'')
                (ext (apc_EncodeTimelockUpdateMinDelay contract newDelay))) (apt_prepare A mcmsAddress))"

definition apt_GrantRole :: "string \<Rightarrow> timelock_role \<Rightarrow> string \<Rightarrow> 'x aptos_raw transaction_result res" where
  "apt_GrantRole timelockAddress role targetAddress = Inl (Panic ''not implemented'')"

end
