(* ===== verification/AptosExecution.thy ===== *)
theory AptosExecution
  imports AptosClient
begin

text \<open>
  What the Aptos clients achieve on the chain: the operation that reaches the MCM contract, whole or in
  staged chunks, is the one whose hash is in the signed tree; the configuration that is written is
  the one that is read back; the timelock executor runs the batch whose id was scheduled.
\<close>

section \<open>The calls of an execution\<close>

datatype aptos_call =
    ExecuteCall aptos_opts u8 int aptos_address u64 aptos_address string string "byte list" "byte list list"
  | StageCall aptos_opts "byte list"
  | StageExecuteCall aptos_opts u8 int aptos_address u64 aptos_address string string "byte list" "byte list list"

fun call_opts :: "aptos_call \<Rightarrow> aptos_opts" where
  "call_opts (ExecuteCall opts _ _ _ _ _ _ _ _ _) = opts"
| "call_opts (StageCall opts _) = opts"
| "call_opts (StageExecuteCall opts _ _ _ _ _ _ _ _ _) = opts"

fun call_data :: "aptos_call \<Rightarrow> byte list" where
  "call_data (ExecuteCall _ _ _ _ _ _ _ _ data _) = data"
| "call_data (StageCall _ data) = data"
| "call_data (StageExecuteCall _ _ _ _ _ _ _ _ data _) = data"

fun apt_do :: "('w, 'x) aptos_contract \<Rightarrow> aptos_call \<Rightarrow> 'w \<Rightarrow> (string + 'x) \<times> 'w" where
  "apt_do c (ExecuteCall opts r cid mcms n to m f d pf) w = apc_Execute c opts r cid mcms n to m f d pf w"
| "apt_do c (StageCall opts d) w = apc_StageData c opts d [] w"
| "apt_do c (StageExecuteCall opts r cid mcms n to m f d pf) w = apc_StageDataAndExecute c opts r cid mcms n to m f d pf w"

text \<open>The calls one after the other, all of them accepted.\<close>

fun run_calls :: "('w, 'x) aptos_contract \<Rightarrow> aptos_call list \<Rightarrow> 'w \<Rightarrow> 'w option" where
  "run_calls c [] w = Some w"
| "run_calls c (call # calls) w = (case apt_do c call w of (Inl _, _) \<Rightarrow> None | (Inr _, w') \<Rightarrow> run_calls c calls w')"

text \<open>
  The contract: data that is staged is kept, and an execution checks the hash of the operation, with
  the staged data in front of its own, against the root.
\<close>

definition apt_check ::
  "'c crypto_pkg_scheme \<Rightarrow> hash \<Rightarrow> u8 \<Rightarrow> int \<Rightarrow> hash \<Rightarrow> u64 \<Rightarrow> hash \<Rightarrow> string \<Rightarrow> string \<Rightarrow> byte list \<Rightarrow> byte list list \<Rightarrow>
     bool" where
  "apt_check C rt role cid mcms nonce to m f data proof \<longleftrightarrow>
     cid = uint (word_of_int cid :: u64) \<and>
     foldl (hashPair (Keccak256Hash C))
       (Keccak256Hash C (move_leaf_bytes (apt_separators C) (OpLeaf role (word_of_int cid) mcms nonce to m f data)))
       (map from_be proof) = rt"

fun mcms_executes ::
  "'c crypto_pkg_scheme \<Rightarrow> hash \<Rightarrow> byte list \<Rightarrow> aptos_call list \<Rightarrow> (u64 \<times> hash \<times> string \<times> string \<times> byte list) option" where
  "mcms_executes C rt staged (StageCall _ chunk # calls) = mcms_executes C rt (staged @ chunk) calls"
| "mcms_executes C rt staged [ExecuteCall _ role cid mcms nonce to m f data proof] =
     (if apt_check C rt role cid mcms nonce to m f data proof then Some (nonce, to, m, f, data) else None)"
| "mcms_executes C rt staged [StageExecuteCall _ role cid mcms nonce to m f data proof] =
     (if apt_check C rt role cid mcms nonce to m f (staged @ data) proof then Some (nonce, to, m, f, staged @ data)
      else None)"
| "mcms_executes C rt staged _ = None"

section \<open>Chunks\<close>

lemma concat_chunks_of: "concat (chunks_of n xs) = xs"
proof (induction n xs rule: chunks_of.induct)
  case (2 n x xs)
  then show ?case using append_take_drop_id [of "max 1 n" "x # xs"] by (simp only: chunks_of.simps concat.simps)
qed simp

lemma chunks_of_sizes: "0 < n \<Longrightarrow> c \<in> set (chunks_of n xs) \<Longrightarrow> c \<noteq> [] \<and> length c \<le> n"
proof (induction n xs rule: chunks_of.induct)
  case (2 n x xs)
  from 2(3) consider "c = take (max 1 n) (x # xs)" | "c \<in> set (chunks_of n (drop (max 1 n) (x # xs)))"
    by (auto simp only: chunks_of.simps set_simps)
  then show ?case
  proof cases
    case 1
    with 2(2) show ?thesis by (cases n) auto
  next
    case 2
    with "2.IH" "2.prems"(1) show ?thesis by blast
  qed
qed simp

lemma chunks_of_nonempty: "xs \<noteq> [] \<Longrightarrow> chunks_of n xs \<noteq> []"
  by (cases xs) auto

text \<open>The calls that the loop over the chunks makes.\<close>

fun stage_calls :: "aptos_opts \<Rightarrow> aptos_execution \<Rightarrow> u64 \<Rightarrow> nat \<Rightarrow> byte list list \<Rightarrow> aptos_call list" where
  "stage_calls opts a s i [] = []"
| "stage_calls opts a s i [chunk] =
     [StageExecuteCall (opts\<lparr>ao_SequenceNumber := Some (s + word_of_nat i)\<rparr>) (apx_Role a) (apx_ChainID a) (apx_Mcms a)
        (ucast (apx_Nonce a)) (apx_To a) (apx_Module a) (apx_Function a) chunk (apx_Proof a)]"
| "stage_calls opts a s i (chunk # chunks) =
     StageCall (opts\<lparr>ao_SequenceNumber := Some (s + word_of_nat i)\<rparr>) chunk # stage_calls opts a s (Suc i) chunks"

lemma apt_call_Inr: "apt_call msg m w = (Inr x, w') \<longleftrightarrow> m w = (Inr x, w')"
  by (auto simp: apt_call_def split: prod.splits)

lemma stage_loop_runs:
  "stage_loop c opts a s i chunks w = (Inr tx, w') \<Longrightarrow> run_calls c (stage_calls opts a s i chunks) w = Some w'"
  by (induction opts a s i chunks arbitrary: w rule: stage_calls.induct) (auto simp: bindW_Inr_iff apt_call_Inr)

lemma stage_calls_execute:
  assumes "chunks \<noteq> []"
    and "apt_check C rt (apx_Role a) (apx_ChainID a) (apx_Mcms a) (ucast (apx_Nonce a)) (apx_To a) (apx_Module a)
      (apx_Function a) (staged @ concat chunks) (apx_Proof a)"
  shows "mcms_executes C rt staged (stage_calls opts a s i chunks) =
    Some (ucast (apx_Nonce a), apx_To a, apx_Module a, apx_Function a, staged @ concat chunks)"
  using assms by (induction opts a s i chunks arbitrary: staged rule: stage_calls.induct) auto

lemma stage_calls_data: "map call_data (stage_calls opts a s i chunks) = chunks"
  by (induction opts a s i chunks rule: stage_calls.induct) auto

lemma stage_calls_signer: "c \<in> set (stage_calls opts a s i chunks) \<Longrightarrow> ao_Signer (call_opts c) = ao_Signer opts"
  by (induction opts a s i chunks rule: stage_calls.induct) auto

lemma stage_calls_numbers:
  "map (ao_SequenceNumber \<circ> call_opts) (stage_calls opts a s i chunks) =
     map (\<lambda>k. Some (s + word_of_nat k)) [i..<i + length chunks]"
  by (induction opts a s i chunks rule: stage_calls.induct) (auto simp: upt_rec)

section \<open>What a successful execution did\<close>

lemma executeMCMS_calls:
  assumes "executeMCMS e \<lparr>ao_Signer = aex_auth e, ao_SequenceNumber = None\<rparr> a w = (Inr r, w')"
    and "apt_check C rt (apx_Role a) (apx_ChainID a) (apx_Mcms a) (ucast (apx_Nonce a)) (apx_To a) (apx_Module a)
      (apx_Function a) (apx_Data a) (apx_Proof a)"
  shows "\<exists>calls. run_calls (acl_Bind (aex_client e) (apx_Mcms a)) calls w = Some w' \<and>
    mcms_executes C rt [] calls = Some (ucast (apx_Nonce a), apx_To a, apx_Module a, apx_Function a, apx_Data a) \<and>
    (\<forall>c \<in> set calls. length (call_data c) \<le> apt_ChunkSizeBytes \<and> ao_Signer (call_opts c) = aex_auth e) \<and>
    (length (apx_Data a) > apt_ChunkSizeBytes \<longrightarrow>
      (\<exists>start. acl_SequenceNumber (aex_client e) (aex_auth e) w = Inr (Inr start) \<and>
         map (ao_SequenceNumber \<circ> call_opts) calls = map (\<lambda>k. Some (start + word_of_nat k)) [0..<length calls]))"
proof (cases "length (apx_Data a) \<le> apt_ChunkSizeBytes")
  case True
  let ?call = "ExecuteCall \<lparr>ao_Signer = aex_auth e, ao_SequenceNumber = None\<rparr> (apx_Role a) (apx_ChainID a) (apx_Mcms a)
    (ucast (apx_Nonce a)) (apx_To a) (apx_Module a) (apx_Function a) (apx_Data a) (apx_Proof a)"
  from assms(1) True have "run_calls (acl_Bind (aex_client e) (apx_Mcms a)) [?call] w = Some w'"
    by (auto simp: executeMCMS_def Let_def bindW_Inr_iff apt_call_Inr)
  with assms(2) True show ?thesis by (intro exI [of _ "[?call]"]) simp
next
  case False
  let ?opts = "\<lparr>ao_Signer = aex_auth e, ao_SequenceNumber = None\<rparr>"
  let ?chunks = "chunks_of apt_ChunkSizeBytes (apx_Data a)"
  from False have ne: "?chunks \<noteq> []" by (intro chunks_of_nonempty) auto
  from assms(1) False ne obtain start tx where
    s: "acl_SequenceNumber (aex_client e) (aex_auth e) w = Inr (Inr start)" and
    l: "stage_loop (acl_Bind (aex_client e) (apx_Mcms a)) ?opts a start 0 ?chunks w = (Inr tx, w')"
    by (auto simp: executeMCMS_def Let_def bindW_Inr_iff run_after_def bindE_Inr_iff split: sum.splits)
  let ?calls = "stage_calls ?opts a start 0 ?chunks"
  have len: "length ?calls = length ?chunks" by (metis length_map stage_calls_data)
  have "mcms_executes C rt [] ?calls = Some (ucast (apx_Nonce a), apx_To a, apx_Module a, apx_Function a, apx_Data a)"
    using stage_calls_execute [OF ne, of C rt a "[]"] assms(2) by (simp add: concat_chunks_of)
  moreover have "\<forall>c \<in> set ?calls. length (call_data c) \<le> apt_ChunkSizeBytes \<and> ao_Signer (call_opts c) = aex_auth e"
  proof
    fix c
    assume c: "c \<in> set ?calls"
    then have "call_data c \<in> set ?chunks" using stage_calls_data by (metis image_eqI list.set_map)
    then show "length (call_data c) \<le> apt_ChunkSizeBytes \<and> ao_Signer (call_opts c) = aex_auth e"
      using chunks_of_sizes [of apt_ChunkSizeBytes "call_data c" "apx_Data a"] stage_calls_signer [OF c]
      by (simp add: apt_ChunkSizeBytes_def)
  qed
  ultimately show ?thesis
    using stage_loop_runs [OF l] s stage_calls_numbers [of ?opts a start 0 ?chunks] len
    by (intro exI [of _ ?calls]) simp
qed

text \<open>The \<open>curse_mcms\<close> contract takes no staged data: one call, or none for data of more than a chunk.\<close>

lemma executeCurseMCMS_calls:
  assumes "executeCurseMCMS e \<lparr>ao_Signer = aex_auth e, ao_SequenceNumber = None\<rparr> a w = (Inr r, w')"
    and "apt_check C rt (apx_Role a) (apx_ChainID a) (apx_Mcms a) (ucast (apx_Nonce a)) (apx_To a) (apx_Module a)
      (apx_Function a) (apx_Data a) (apx_Proof a)"
  shows "\<exists>calls. run_calls (acl_CurseBind (aex_client e) (apx_Mcms a)) calls w = Some w' \<and>
    mcms_executes C rt [] calls = Some (ucast (apx_Nonce a), apx_To a, apx_Module a, apx_Function a, apx_Data a) \<and>
    length calls = 1 \<and> length (apx_Data a) \<le> apt_ChunkSizeBytes \<and>
    (\<forall>c \<in> set calls. length (call_data c) \<le> apt_ChunkSizeBytes \<and> ao_Signer (call_opts c) = aex_auth e)"
proof -
  let ?call = "ExecuteCall \<lparr>ao_Signer = aex_auth e, ao_SequenceNumber = None\<rparr> (apx_Role a) (apx_ChainID a) (apx_Mcms a)
    (ucast (apx_Nonce a)) (apx_To a) (apx_Module a) (apx_Function a) (apx_Data a) (apx_Proof a)"
  from assms(1) have small: "length (apx_Data a) \<le> apt_ChunkSizeBytes"
    by (auto simp: executeCurseMCMS_def split: if_splits)
  with assms(1) have "run_calls (acl_CurseBind (aex_client e) (apx_Mcms a)) [?call] w = Some w'"
    by (auto simp: executeCurseMCMS_def bindW_Inr_iff apt_call_Inr)
  with assms(2) small show ?thesis by (intro exI [of _ "[?call]"]) simp
qed

lemma apt_NewEncoder_methods:
  "enc_HashOperation (apt_NewEncoder C A sel n ov) =
     apt_HashOperation C A \<lparr>ae_ChainSelector = sel, ae_TxCount = n, ae_OverridePreviousRoot = ov\<rparr>"
  "enc_HashMetadata (apt_NewEncoder C A sel n ov) =
     apt_HashMetadata C A \<lparr>ae_ChainSelector = sel, ae_TxCount = n, ae_OverridePreviousRoot = ov\<rparr>"
  by (simp_all add: apt_NewEncoder_def Let_def)

lemma with_aptos_newEncoder:
  "ChainDetails E sel = Inr FamilyAptos \<Longrightarrow> newEncoder (with_aptos A E) sel n ov sim = Inr (Some (apt_NewEncoder E A sel n ov))"
  by (simp add: newEncoder_def GetChainSelectorFamily_def supportedFamilies_def)

lemma with_aptos_pkg [simp]:
  "Keccak256Hash (with_aptos A E) = Keccak256Hash E" "SigToPub (with_aptos A E) = SigToPub E"
  "PubkeyToAddress (with_aptos A E) = PubkeyToAddress E" "ToUint32E (with_aptos A E) = ToUint32E E"
  by (simp_all add: with_aptos_def)

text \<open>The executor reads the very fields that the encoder hashed.\<close>

lemma apt_execution_hashed:
  assumes "bcs_documented A" and "apt_op_fits A (op_Transaction op)"
    and "apt_HashOperation C A enc n md op = Inr h" and "aex_Encoder e = Some enc"
    and "foldl (hashPair (Keccak256Hash C)) h pf = rt"
  obtains a where "apt_execution A e md n pf op = Inr a" "apx_Nonce a = n" "apx_Data a = tx_Data (op_Transaction op)"
    "hexToAddress A (cm_MCMAddress md) = Inr (apx_Mcms a)" "hexToAddress A (tx_To (op_Transaction op)) = Inr (apx_To a)"
    "\<exists>f. AptFieldsUnmarshal A (tx_AdditionalFields (op_Transaction op)) = Inr f \<and>
      apx_Module a = af_ModuleName f \<and> apx_Function a = af_Function f"
    "apt_check C rt (apx_Role a) (apx_ChainID a) (apx_Mcms a) (ucast (apx_Nonce a)) (apx_To a) (apx_Module a)
      (apx_Function a) (apx_Data a) (apx_Proof a)"
proof -
  from apt_leaf_hash_Inr [OF assms(1), of "Some (n, op)" C enc md h] assms(2,3) obtain l where
    l: "apt_leaf A enc md (Some (n, op)) = Inr l" "h = Keccak256Hash C (move_leaf_bytes (apt_separators C) l)" by auto
  from l(1) obtain cid mcms to f m where
    parts: "AptosChainIdFromSelector A (ae_ChainSelector enc) = Inr cid" "hexToAddress A (cm_MCMAddress md) = Inr mcms"
      "hexToAddress A (tx_To (op_Transaction op)) = Inr to"
      "AptFieldsUnmarshal A (tx_AdditionalFields (op_Transaction op)) = Inr f" "apt_metadata A md = Inr m"
      "l = OpLeaf (am_Role m) cid mcms (ucast n) to (af_ModuleName f) (af_Function f) (tx_Data (op_Transaction op))"
    by (auto simp: bindE_Inr_iff)
  have pf: "map from_be (map (be_bytes 32) pf) = pf" by (simp add: comp_def from_be_bytes)
  show thesis
    by (rule that [of "\<lparr>apx_Role = am_Role m, apx_ChainID = uint cid, apx_Mcms = mcms, apx_Nonce = n, apx_To = to,
          apx_Module = af_ModuleName f, apx_Function = af_Function f, apx_Data = tx_Data (op_Transaction op),
          apx_Proof = map (be_bytes 32) pf\<rparr>"])
      (use parts l(2) assms(4,5) pf in \<open>simp_all add: apt_execution_def apt_check_def\<close>)
qed

section \<open>Configurations\<close>

text \<open>The contract keeps the configuration that it is given, numbering the signers.\<close>

fun apt_numbered :: "u8 \<Rightarrow> byte list list \<Rightarrow> u8 list \<Rightarrow> aptos_signer list" where
  "apt_numbered idx (a # as) (g # gs) = \<lparr>as_Addr = a, as_Index = idx, as_Group = g\<rparr> # apt_numbered (idx + 1) as gs"
| "apt_numbered idx _ _ = []"

definition apt_config_documented :: "('w, 'x) aptos_contract \<Rightarrow> bool" where
  "apt_config_documented c \<longleftrightarrow>
     (\<forall>opts role signers groups quorums parents clearRoot w tx w'.
        apc_SetConfig c opts role signers groups quorums parents clearRoot w = (Inr tx, w') \<longrightarrow>
        apc_GetConfig c role w' =
          Inr \<lparr>acfg_Signers = apt_numbered 0 signers groups, acfg_GroupQuorums = quorums, acfg_GroupParents = parents\<rparr>)"

lemma apt_numbered_bind:
  "map (\<lambda>s. \<lparr>sg_Addr = from_be (as_Addr s), sg_Index = as_Index s, sg_Group = as_Group s\<rparr>)
     (apt_numbered idx (map (be_bytes 20) as) gs) = bind_signers idx as gs"
  by (induction idx as gs rule: bind_signers.induct) (simp_all add: from_be_bytes)

lemma apt_SetConfig_stores:
  assumes "casts_documented X" and "config_Validate cfg = Inr ()" and "evm_fits cfg"
    and "\<And>a. apt_config_documented (acl_Bind (ac_client c) a)" and "\<not> ac_skipSend c"
    and "apt_SetConfig X A c addr cfg clearRoot w = (Inr r, w')"
  shows "\<exists>b. evm_ToChainConfig X cfg = Inr b \<and>
    apt_GetConfig A (apt_NewInspector (ac_client c) (ac_role c)) w' addr = evm_ToConfig b"
proof -
  obtain b where b: "evm_ToChainConfig X cfg = Inr b"
    using evm.stored [OF assms(1-3)] by blast
  then obtain q p as gs where ex: "ExtractSetConfigInputs X cfg = Inr (q, p, as, gs)"
    and bdef: "b = \<lparr>mc_Signers = bind_signers 0 as gs, mc_GroupQuorums = q, mc_GroupParents = p\<rparr>"
    by (auto simp: evm_ToChainConfig_def bindE_Inr_iff split: if_splits)
  have len: "length q = 32" "length p = 32"
    using evm_ToChainConfig_Inr [of X cfg] b assms(1,3) bdef by (auto simp: evm_fits_def Let_def length_preorder)
  from assms(5,6) ex obtain mcms tx where m: "hexToAddress A addr = Inr mcms"
    and set: "apc_SetConfig (acl_Bind (ac_client c) mcms) \<lparr>ao_Signer = ac_auth c, ao_SequenceNumber = None\<rparr> (ac_role c)
      (map (be_bytes 20) as) gs q p clearRoot w = (Inr tx, w')"
    by (cases "hexToAddress A addr") (auto simp: apt_SetConfig_def Let_def bindW_Inr_iff apt_call_Inr)
  from set assms(4) [of mcms] have "apc_GetConfig (acl_Bind (ac_client c) mcms) (ac_role c) w' =
      Inr \<lparr>acfg_Signers = apt_numbered 0 (map (be_bytes 20) as) gs, acfg_GroupQuorums = q, acfg_GroupParents = p\<rparr>"
    unfolding apt_config_documented_def by blast
  with m b len show ?thesis
    by (simp add: apt_GetConfig_def apt_NewInspector_def apt_NewInspectorWithMCMSType_def MCMSTypeRegular_def
        MCMSTypeCurse_def apt_ToConfig_def to_array32_def apt_numbered_bind bdef)
qed

section \<open>A sample node\<close>

text \<open>It keeps the calls of the MCM contract, the configuration set last and the batches executed.\<close>

type_synonym sample_aptos_world = "aptos_call list \<times> aptos_config \<times> (aptos_address list \<times> byte list list) list"

definition sample_aptos_contract :: "(sample_aptos_world, nat) aptos_contract" where
  "sample_aptos_contract =
     \<lparr>apc_GetConfig = (\<lambda>_ (l, cfg, b). Inr cfg), apc_GetOpCount = (\<lambda>_ _. Inr 0), apc_GetRoot = (\<lambda>_ _. Inr ([], 0)),
      apc_GetRootMetadata = (\<lambda>_ _. Inl ''none''),
      apc_Execute = (\<lambda>opts r cid mcms n to m f d pf (l, cfg, b).
        (Inr 0, (l @ [ExecuteCall opts r cid mcms n to m f d pf], cfg, b))),
      apc_SetRoot = (\<lambda>_ _ _ _ _ _ _ _ _ _ _ w. (Inr 0, w)),
      apc_StageData = (\<lambda>opts d pf (l, cfg, b). (Inr 0, (l @ [StageCall opts d], cfg, b))),
      apc_StageDataAndExecute = (\<lambda>opts r cid mcms n to m f d pf (l, cfg, b).
        (Inr 0, (l @ [StageExecuteCall opts r cid mcms n to m f d pf], cfg, b))),
      apc_SetConfig = (\<lambda>opts role signers groups quorums parents clearRoot (l, cfg, b).
        (Inr 0, (l, \<lparr>acfg_Signers = apt_numbered 0 signers groups, acfg_GroupQuorums = quorums,
                   acfg_GroupParents = parents\<rparr>, b))),
      apc_EncodeSetConfig = (\<lambda>_ _ _ _ _ _. Inl ''none''), apc_EncodeTimelockUpdateMinDelay = (\<lambda>_. Inl ''none''),
      apc_TimelockMinDelay = (\<lambda>_. Inr 0), apc_TimelockIsOperation = (\<lambda>_ _. Inr True),
      apc_TimelockIsOperationPending = (\<lambda>_ _. Inr True), apc_TimelockIsOperationReady = (\<lambda>_ _. Inr True),
      apc_TimelockIsOperationDone = (\<lambda>_ _. Inr False),
      apc_TimelockExecuteBatch = (\<lambda>_ ts ms fs ds p salt (l, cfg, b). (Inr 0, (l, cfg, b @ [(ts, ds)])))\<rparr>"

definition sample_aptos_client :: "(sample_aptos_world, nat) aptos_client" where
  "sample_aptos_client =
     \<lparr>acl_Bind = (\<lambda>_. sample_aptos_contract), acl_CurseBind = (\<lambda>_. sample_aptos_contract),
      acl_SequenceNumber = (\<lambda>_ _. Inr (Inr 100)), acl_TxHash = (\<lambda>_. ''0xab'')\<rparr>"

definition sample_aptos_executor :: "(sample_aptos_world, nat) aptos_executor" where
  "sample_aptos_executor = apt_NewExecutor sample_aptos_client 8
     (Some \<lparr>ae_ChainSelector = 4, ae_TxCount = 1, ae_OverridePreviousRoot = False\<rparr>) 2"

lemma sample_aptos_executor_sel [simp]:
  "aex_Encoder sample_aptos_executor = Some \<lparr>ae_ChainSelector = 4, ae_TxCount = 1, ae_OverridePreviousRoot = False\<rparr>"
  "aex_client sample_aptos_executor = sample_aptos_client" "aex_mcmsType sample_aptos_executor = MCMSTypeRegular"
  "aex_auth sample_aptos_executor = 8"
  by (simp_all add: sample_aptos_executor_def apt_NewExecutor_def apt_NewExecutorWithMCMSType_def)

definition no_config :: aptos_config where
  "no_config = \<lparr>acfg_Signers = [], acfg_GroupQuorums = [], acfg_GroupParents = []\<rparr>"

definition sample_apt_metadata :: chain_metadata where
  "sample_apt_metadata = \<lparr>cm_StartingOpCount = 0, cm_MCMAddress = ''M'', cm_AdditionalFields = RawEmpty\<rparr>"

definition sample_aptos_env :: mcms_env where
  "sample_aptos_env = sample_env\<lparr>ChainDetails := (\<lambda>_. Inr FamilyAptos)\<rparr>"

lemma sample_aptos_env_sel [simp]:
  "ChainDetails sample_aptos_env = (\<lambda>_. Inr FamilyAptos)" "Keccak256Hash sample_aptos_env = from_be"
  by (simp_all add: sample_aptos_env_def)

lemma sample_apt_target [simp]: "apt_target msg sample_aptos sample_apt_tx = Inr (65, ''mod'', ''fn'', [1, 2, 3])"
  by (simp add: apt_target_def hexToAddress_def sample_apt_tx_def string_bytes_def from_be_def)

lemma sample_apt_executable:
  "\<exists>e. NewExecutable (with_aptos sample_aptos sample_aptos_env) (single_proposal 4 sample_apt_metadata sample_apt_tx)
     executors = Inr e \<and> exe_txNonces e = [0]"
proof (rule single_executable)
  show "newEncoder (with_aptos sample_aptos sample_aptos_env) 4 1 False False =
      Inr (Some (apt_NewEncoder sample_aptos_env sample_aptos 4 1 False))"
    by (rule with_aptos_newEncoder) simp
  show "\<exists>h. enc_HashMetadata (apt_NewEncoder sample_aptos_env sample_aptos 4 1 False) sample_apt_metadata = Inr h"
    by (simp add: apt_NewEncoder_methods apt_HashMetadata_def hexToAddress_def sample_apt_metadata_def apt_metadata_def
        raw_nonempty_def)
  show "\<exists>h. enc_HashOperation (apt_NewEncoder sample_aptos_env sample_aptos 4 1 False) 0 sample_apt_metadata
      \<lparr>op_ChainSelector = 4, op_Transaction = sample_apt_tx\<rparr> = Inr h"
    by (simp add: apt_NewEncoder_methods apt_HashOperation_def hexToAddress_def sample_apt_metadata_def apt_metadata_def
        raw_nonempty_def sample_apt_tx_def)
  have "casts_documented (with_aptos sample_aptos sample_aptos_env)"
    using sample_env_casts by (simp add: casts_documented_def with_aptos_def sample_aptos_env_def)
  then show "Uint64ToUint32 (with_aptos sample_aptos sample_aptos_env) 0 = Inr 0" by (simp add: Uint64ToUint32_Inr)
qed (simp add: sample_apt_metadata_def)

section \<open>Properties\<close>

text \<open>
  C27: An operation reaches the Aptos contract whole. When an executable runs an operation through the
  Aptos executor of its chain, regular or curse, and the node accepts every transaction, the contract
  of the executor's kind at the chain's MCM address was given an execution that passes its check under
  the root of the signed tree, every call signed by the executor's account, and what it executes is
  the function and the data of the operation at its nonce. The regular contract gets it in one call,
  or staged in chunks of at most 50,000 bytes under consecutive sequence numbers; the curse contract
  always in one call, and an operation with more data than that is never run on it.
\<close>

theorem apt_operation_executes:
  assumes "gm_wf (bp_ChainMetadata p)" and "NewExecutable (with_aptos A E) p executors = Inr e"
    and "i < length (pr_Operations p)" and "op_ChainSelector (pr_Operations p ! i) = sel"
    and "ChainDetails E sel = Inr FamilyAptos" and "gm_get executors sel = Some (apt_executor_iface A x)"
    and "aex_Encoder x = Some \<lparr>ae_ChainSelector = sel, ae_TxCount = gm_get0 (TransactionCounts p) sel 0,
           ae_OverridePreviousRoot = bp_OverridePreviousRoot p\<rparr>"
    and "bcs_documented A"
    and "apt_op_fits A (op_Transaction (pr_Operations p ! i))"
    and "Execute (with_aptos A E) e (int i) w = (Inr r, w')"
  shows "\<exists>t n mcms to f calls. let tx = op_Transaction (pr_Operations p ! i) in
    MerkleTree (with_aptos A E) p = Inr t \<and> Uint64ToUint32 (with_aptos A E) (exe_txNonces e ! i) = Inr n \<and>
    hexToAddress A (cm_MCMAddress (metadata_of p sel)) = Inr mcms \<and> hexToAddress A (tx_To tx) = Inr to \<and>
    AptFieldsUnmarshal A (tx_AdditionalFields tx) = Inr f \<and>
    run_calls ((if aex_mcmsType x = MCMSTypeCurse then acl_CurseBind (aex_client x) else acl_Bind (aex_client x)) mcms)
      calls w = Some w' \<and>
    mcms_executes E (mt_Root t) [] calls = Some (ucast n, to, af_ModuleName f, af_Function f, tx_Data tx) \<and>
    (\<forall>c \<in> set calls. length (call_data c) \<le> 50000 \<and> ao_Signer (call_opts c) = aex_auth x) \<and>
    (aex_mcmsType x = MCMSTypeCurse \<longrightarrow> length calls = 1 \<and> length (tx_Data tx) \<le> 50000) \<and>
    (length (tx_Data tx) > 50000 \<longrightarrow>
      (\<exists>start. acl_SequenceNumber (aex_client x) (aex_auth x) w = Inr (Inr start) \<and>
         map (ao_SequenceNumber \<circ> call_opts) calls = map (\<lambda>k. Some (start + word_of_nat k)) [0..<length calls]))"
proof -
  from executed_leaf [OF assms(1-4) with_aptos_newEncoder [OF assms(5)] assms(6), of w] obtain n h pf where
    n: "Uint64ToUint32 (with_aptos A E) (exe_txNonces e ! i) = Inr n" and
    h: "apt_HashOperation E A \<lparr>ae_ChainSelector = sel, ae_TxCount = gm_get0 (TransactionCounts p) sel 0,
      ae_OverridePreviousRoot = bp_OverridePreviousRoot p\<rparr> n (metadata_of p sel) (pr_Operations p ! i) = Inr h"
      "foldl (hashPair (Keccak256Hash E)) h pf = mt_Root (exe_tree e)" and
    t: "MerkleTree (with_aptos A E) p = Inr (exe_tree e)" and
    x: "Execute (with_aptos A E) e (int i) w =
      ex_ExecuteOperation (apt_executor_iface A x) (metadata_of p sel) n pf (pr_Operations p ! i) w"
    by (auto simp: apt_NewEncoder_methods)
  from apt_execution_hashed [OF assms(8,9) h(1) assms(7) h(2)] obtain a where
    a: "apt_execution A x (metadata_of p sel) n pf (pr_Operations p ! i) = Inr a" "apx_Nonce a = n"
      "apx_Data a = tx_Data (op_Transaction (pr_Operations p ! i))"
      "hexToAddress A (cm_MCMAddress (metadata_of p sel)) = Inr (apx_Mcms a)"
      "hexToAddress A (tx_To (op_Transaction (pr_Operations p ! i))) = Inr (apx_To a)"
      "\<exists>f. AptFieldsUnmarshal A (tx_AdditionalFields (op_Transaction (pr_Operations p ! i))) = Inr f \<and>
        apx_Module a = af_ModuleName f \<and> apx_Function a = af_Function f" and
    c: "apt_check E (mt_Root (exe_tree e)) (apx_Role a) (apx_ChainID a) (apx_Mcms a) (ucast (apx_Nonce a)) (apx_To a)
        (apx_Module a) (apx_Function a) (apx_Data a) (apx_Proof a)" .
  let ?opts = "\<lparr>ao_Signer = aex_auth x, ao_SequenceNumber = None\<rparr>"
  show ?thesis
  proof (cases "aex_mcmsType x = MCMSTypeCurse")
    case True
    with x a(1) assms(10) have "executeCurseMCMS x ?opts a w = (Inr r, w')"
      by (simp add: apt_executor_iface_def apt_ExecuteOperation_def IsCurseMCMS_def)
    from executeCurseMCMS_calls [OF this c] obtain calls where
      "run_calls (acl_CurseBind (aex_client x) (apx_Mcms a)) calls w = Some w'"
      "mcms_executes E (mt_Root (exe_tree e)) [] calls =
        Some (ucast (apx_Nonce a), apx_To a, apx_Module a, apx_Function a, apx_Data a)"
      "length calls = 1" "length (apx_Data a) \<le> 50000"
      "\<forall>c \<in> set calls. length (call_data c) \<le> 50000 \<and> ao_Signer (call_opts c) = aex_auth x"
      unfolding apt_ChunkSizeBytes_def by blast
    with True a t n show ?thesis by (simp add: Let_def) (metis not_less)
  next
    case False
    with x a(1) assms(10) have "executeMCMS x ?opts a w = (Inr r, w')"
      by (simp add: apt_executor_iface_def apt_ExecuteOperation_def IsCurseMCMS_def)
    from executeMCMS_calls [OF this c] False a t n show ?thesis
      unfolding Let_def apt_ChunkSizeBytes_def by (simp only: if_False simp_thms) metis
  qed
qed

theorem apt_operation_executes_witness:
  "let T = with_aptos sample_aptos sample_aptos_env; p = single_proposal 4 sample_apt_metadata sample_apt_tx in
   \<exists>e t calls w'. NewExecutable T p [(4, apt_executor_iface sample_aptos sample_aptos_executor)] = Inr e \<and>
     MerkleTree T p = Inr t \<and>
     Execute T e 0 ([], no_config, []) = (Inr (apt_sent sample_aptos_client 0), w') \<and>
     mcms_executes sample_aptos_env (mt_Root t) [] calls = Some (0, 65, ''mod'', ''fn'', [1, 2, 3])"
proof -
  let ?T = "with_aptos sample_aptos sample_aptos_env" and ?p = "single_proposal 4 sample_apt_metadata sample_apt_tx"
  let ?ex = "[(4, apt_executor_iface sample_aptos sample_aptos_executor)]"
  obtain e where e: "NewExecutable ?T ?p ?ex = Inr e" and ns: "exe_txNonces e = [0]" using sample_apt_executable by blast
  have wf: "gm_wf (bp_ChainMetadata ?p)" by (simp add: gm_wf_def)
  have enc: "newEncoder ?T 4 (gm_get0 (TransactionCounts ?p) 4 0) (bp_OverridePreviousRoot ?p) (bp_useSimulatedBackend ?p) =
      Inr (Some (apt_NewEncoder sample_aptos_env sample_aptos 4 1 False))"
    by (simp add: with_aptos_newEncoder)
  from executed_leaf [OF wf e, of 0 4, OF _ _ enc, of _ "([], no_config, [])"] obtain n pf where
    "Execute ?T e 0 ([], no_config, []) = ex_ExecuteOperation (apt_executor_iface sample_aptos sample_aptos_executor)
      sample_apt_metadata n pf \<lparr>op_ChainSelector = 4, op_Transaction = sample_apt_tx\<rparr> ([], no_config, [])" by auto
  then obtain w' where x: "Execute ?T e 0 ([], no_config, []) = (Inr (apt_sent sample_aptos_client 0), w')"
    by (auto simp: apt_executor_iface_def apt_ExecuteOperation_def apt_execution_def hexToAddress_def apt_metadata_def
        raw_nonempty_def sample_apt_metadata_def sample_apt_tx_def IsCurseMCMS_def MCMSTypeRegular_def MCMSTypeCurse_def
        executeMCMS_def apt_ChunkSizeBytes_def Let_def apt_call_def sample_aptos_client_def sample_aptos_contract_def
        bindW_def)
  have "Uint64ToUint32 ?T 0 = Inr n \<Longrightarrow> n = 0" for n
    using Uint64ToUint32_Inr [of ?T 0 n] sample_env_casts by (simp add: casts_documented_def with_aptos_def sample_aptos_env_def)
  then have "\<exists>t calls. MerkleTree ?T ?p = Inr t \<and>
      mcms_executes sample_aptos_env (mt_Root t) [] calls = Some (0, 65, ''mod'', ''fn'', [1, 2, 3])"
    using apt_operation_executes [OF wf e, of 0 4 sample_aptos_executor "([], no_config, [])" "apt_sent sample_aptos_client 0" w']
      sample_aptos_documented sample_apt_fits x ns
    by (auto simp: Let_def hexToAddress_def sample_apt_tx_def string_bytes_def from_be_def)
  with e x show ?thesis unfolding Let_def by blast
qed

text \<open>
  A configuration survives the Aptos chain. After SetConfig has sent a valid configuration of at
  most 32 groups and 255 signers, the inspector of the same role answers in the new state of the chain
  with one that is Equal to it in both directions and decides every quorum as it does.
\<close>

theorem apt_SetConfig_GetConfig:
  assumes "casts_documented X" and "config_Validate cfg = Inr ()" and "evm_fits cfg"
    and "\<forall>a. apt_config_documented (acl_Bind (ac_client c) a)" and "\<not> ac_skipSend c"
    and "apt_SetConfig X A c addr cfg clearRoot w = (Inr r, w')"
  shows "\<exists>cfg'. apt_GetConfig A (apt_NewInspector (ac_client c) (ac_role c)) w' addr = Inr cfg' \<and>
    config_Equals cfg cfg' \<and> config_Equals cfg' cfg \<and> (\<forall>xs. QuorumMet cfg' xs = QuorumMet cfg xs)"
proof -
  from assms(4) have "apt_config_documented (acl_Bind (ac_client c) a)" for a by blast
  from apt_SetConfig_stores [OF assms(1-3) this assms(5,6)] obtain b where b: "evm_ToChainConfig X cfg = Inr b"
    and g: "apt_GetConfig A (apt_NewInspector (ac_client c) (ac_role c)) w' addr = evm_ToConfig b" by blast
  from evm.stored [OF assms(1-3)] b obtain cfg' where c': "evm_ToConfig b = Inr cfg'" by auto
  from evm.stored_quorum(2-4) [OF assms(1-3) b c'] c' g show ?thesis by auto
qed

theorem apt_SetConfig_GetConfig_witness:
  "\<exists>r w' cfg'. apt_SetConfig sample_env sample_aptos (apt_NewConfigurer sample_aptos_client 8 2 []) ''M''
       (Config 2 [9, 4] [Config 1 [7, 3] []]) False ([], no_config, []) = (Inr r, w') \<and>
     apt_GetConfig sample_aptos (apt_NewInspector sample_aptos_client 2) w' ''M'' = Inr cfg' \<and> QuorumMet cfg' [9, 7]"
proof -
  let ?cfg = "Config 2 [9, 4] [Config 1 [7, 3] []]" and ?c = "apt_NewConfigurer sample_aptos_client 8 2 []"
  have v: "config_Validate ?cfg = Inr ()" and f: "evm_fits ?cfg" by (simp_all add: evm_fits_def)
  obtain b where "evm_ToChainConfig sample_env ?cfg = Inr b"
    by (rule evm.stored [OF sample_env_casts v f])
  then obtain q p as gs where ex: "ExtractSetConfigInputs sample_env ?cfg = Inr (q, p, as, gs)"
    by (auto simp: evm_ToChainConfig_def bindE_Inr_iff)
  have c: "\<not> ac_skipSend ?c" "ac_client ?c = sample_aptos_client" "ac_role ?c = 2" by (simp_all add: apt_NewConfigurer_def)
  have "apt_config_documented (acl_Bind sample_aptos_client a)" for a
    by (auto simp: sample_aptos_client_def sample_aptos_contract_def apt_config_documented_def)
  then have d: "\<forall>a. apt_config_documented (acl_Bind (ac_client ?c) a)" unfolding c by blast
  obtain r w' where run: "apt_SetConfig sample_env sample_aptos ?c ''M'' ?cfg False ([], no_config, []) = (Inr r, w')"
    using c ex by (simp add: apt_SetConfig_def hexToAddress_def Let_def bindW_def apt_call_def sample_aptos_client_def
        sample_aptos_contract_def)
  from apt_SetConfig_GetConfig [OF sample_env_casts v f d c(1) run] obtain cfg' where
    "apt_GetConfig sample_aptos (apt_NewInspector sample_aptos_client 2) w' ''M'' = Inr cfg'"
    "QuorumMet cfg' [9, 7] = QuorumMet ?cfg [9, 7]" unfolding c by blast
  moreover have "QuorumMet ?cfg [9, 7]" by code_simp
  ultimately show ?thesis using run by blast
qed

text \<open>
  What was scheduled on Aptos is what is executed. When a batch is converted to be scheduled, the
  call that is encoded for the contract and the later call of the timelock executor for the batch
  have the same targets, modules, functions, data, predecessor and salt, and they hash to the id the
  converter reported.
\<close>

theorem apt_timelock_executes_scheduled:
  assumes "apt_Convert_with C A encoderFn md b tlAddr mcm delay TimelockActionSchedule pred salt = Inr (ops, opid)"
    and "hexToAddress A addr = Inr timelock"
  shows "\<exists>ts ms fs ds mcms call op. hexToAddress A mcm = Inr mcms \<and>
    TimelockScheduleBatch (encoderFn mcms) ts ms fs ds (be_bytes 32 pred) (be_bytes 32 salt) (apt_seconds A delay) = Inr call \<and>
    ops = [op] \<and> tx_Data (op_Transaction op) = concat (aenc_Args call) \<and>
    apt_HashOperationBatch C A ts ms fs ds (be_bytes 32 pred) (be_bytes 32 salt) = Inr opid \<and>
    length ts = length (bop_Transactions b) \<and>
    apt_timelock_Execute A t b addr pred salt w =
      bindW (apt_call ''failed to execute batch: %w''
        (apc_TimelockExecuteBatch (ati_contract (ate_Inspector t) timelock) \<lparr>ao_Signer = ate_auth t, ao_SequenceNumber = None\<rparr>
           ts ms fs ds (be_bytes 32 pred) (be_bytes 32 salt)))
        (\<lambda>tx w'. (Inr (apt_sent (ate_client t) tx), w')) w"
proof -
  from assms(1) obtain mcms ts ms fs ds call op where
    m: "hexToAddress A mcm = Inr mcms" and
    ts: "apt_targets ''failed to unmarshal additional fields: %w'' A b = Inr (ts, ms, fs, ds)" and
    h: "apt_HashOperationBatch C A ts ms fs ds (be_bytes 32 pred) (be_bytes 32 salt) = Inr opid" and
    c: "TimelockScheduleBatch (encoderFn mcms) ts ms fs ds (be_bytes 32 pred) (be_bytes 32 salt) (apt_seconds A delay) =
      Inr call" and
    op: "ops = [op]" "tx_Data (op_Transaction op) = concat (aenc_Args call)"
    by (auto simp: apt_Convert_with_def bindE_Inr_iff apt_action_call_def apt_NewTransaction_def ArgsToData_def)
  from ts have "length ts = length (bop_Transactions b)"
    by (auto simp: apt_targets_def bindE_Inr_iff dest: mapE_length)
  with m h c op ts assms(2) show ?thesis
    by (intro exI conjI) (assumption | simp add: apt_timelock_Execute_def)+
qed

theorem apt_timelock_executes_scheduled_witness:
  "let b = \<lparr>bop_ChainSelector = 4, bop_Transactions = [sample_apt_tx]\<rparr>;
       t = apt_NewTimelockExecutor sample_aptos_client 8 in
   \<exists>ops opid r. apt_Convert_with sample_env sample_aptos sample_move_encoder sample_apt_metadata b [] ''M'' 1
       TimelockActionSchedule 0 7 = Inr (ops, opid) \<and>
     apt_timelock_Execute sample_aptos t b ''M'' 0 7 ([], no_config, []) = (Inr r, ([], no_config, [([65], [[1, 2, 3]])])) \<and>
     apt_HashOperationBatch sample_env sample_aptos [65] [''mod''] [''fn''] [[1, 2, 3]] (be_bytes 32 (0 :: hash)) (be_bytes 32 (7 :: hash)) = Inr opid"
proof -
  let ?b = "\<lparr>bop_ChainSelector = 4, bop_Transactions = [sample_apt_tx]\<rparr>"
  let ?t = "apt_NewTimelockExecutor sample_aptos_client 8"
  obtain ops opid where conv: "apt_Convert_with sample_env sample_aptos sample_move_encoder sample_apt_metadata ?b [] ''M'' 1
       TimelockActionSchedule 0 7 = Inr (ops, opid)"
    by (simp add: apt_Convert_with_def apt_targets_def hexToAddress_def apt_HashOperationBatch_def Let_def
        apt_action_call_def sample_move_encoder_def apt_NewTransaction_def)
  have h: "apt_HashOperationBatch sample_env sample_aptos [65] [''mod''] [''fn''] [[1, 2, 3]] (be_bytes 32 (0 :: hash))
      (be_bytes 32 (7 :: hash)) = Inr opid"
    using apt_family.conv_id [OF conv] by (simp add: apt_OperationID_def apt_targets_def)
  have "hexToAddress sample_aptos ''M'' = Inr 77" by (simp add: hexToAddress_def string_bytes_def from_be_def)
  from apt_timelock_executes_scheduled [OF conv this, of ?t "([], no_config, [])"] conv h show ?thesis
    by (auto simp: Let_def apt_timelock_Execute_def apt_targets_def hexToAddress_def bindW_def apt_call_def
        apt_NewTimelockExecutor_def apt_NewTimelockExecutorWithMCMSType_def apt_NewTimelockInspectorWithMCMSType_def
        MCMSTypeRegular_def MCMSTypeCurse_def sample_aptos_client_def sample_aptos_contract_def)
qed

end
