(* ===== verification/HexText.thy ===== *)
theory HexText
  imports Signature GoText
begin

text \<open>
  Text that stands for bytes, as the standard library of Go reads it: \<open>encoding/hex\<close> and the standard
  encoding of \<open>encoding/base64\<close>. The writer of hexadecimal text is \<open>hex_encode\<close> of Signature.
\<close>

section \<open>encoding/hex\<close>

definition fromHexChar :: "char \<Rightarrow> nat option" where
  "fromHexChar c =
     (let n = of_char c :: nat in
      if 48 \<le> n \<and> n \<le> 57 then Some (n - 48)
      else if 97 \<le> n \<and> n \<le> 102 then Some (n - 87)
      else if 65 \<le> n \<and> n \<le> 70 then Some (n - 55)
      else None)"

text \<open>An invalid character is reported before an odd length is.\<close>

fun hex_DecodeString :: "string \<Rightarrow> byte list res" where
  "hex_DecodeString [] = Inr []"
| "hex_DecodeString [c] =
     (case fromHexChar c of
        None \<Rightarrow> Inl (External ''encoding/hex: invalid byte: %#U'')
      | Some _ \<Rightarrow> Inl (External ''encoding/hex: odd length hex string''))"
| "hex_DecodeString (a # b # s) =
     (case (fromHexChar a, fromHexChar b) of
        (Some x, Some y) \<Rightarrow> bindE (hex_DecodeString s) (\<lambda>bs. Inr (word_of_nat (16 * x + y) # bs))
      | _ \<Rightarrow> Inl (External ''encoding/hex: invalid byte: %#U''))"

lemma fromHexChar_digit: "n < 16 \<Longrightarrow> fromHexChar (hex_digit n) = Some n"
proof -
  have "list_all (\<lambda>n. fromHexChar (hex_digit n) = Some n) [0..<16]"
    by (simp add: fromHexChar_def hex_digit_def Let_def upt_rec)
  then show "n < 16 \<Longrightarrow> ?thesis" by (simp add: list_all_iff)
qed

lemma hex_DecodeString_encode [simp]: "hex_DecodeString (hex_encode bs) = Inr bs"
proof (induction bs)
  case (Cons b bs)
  have "unat b div 16 < 16" using unsigned_less [of b, where 'a = nat] by simp
  with Cons show ?case by (simp add: hex_encode_def hex_byte_def fromHexChar_digit)
qed (simp add: hex_encode_def)

lemma hex_DecodeString_length: "hex_DecodeString s = Inr bs \<Longrightarrow> length s = 2 * length bs"
  by (induction s arbitrary: bs rule: hex_DecodeString.induct)
    (auto simp: bindE_Inr_iff split: option.splits)

lemma length_hex_text [simp]: "length (hex_encode bs) = 2 * length bs"
  by (induction bs) (simp_all add: hex_encode_def hex_byte_def)

section \<open>encoding/base64\<close>

definition base64_value :: "char \<Rightarrow> nat option" where
  "base64_value c =
     (let n = of_char c :: nat in
      if 65 \<le> n \<and> n \<le> 90 then Some (n - 65)
      else if 97 \<le> n \<and> n \<le> 122 then Some (n - 71)
      else if 48 \<le> n \<and> n \<le> 57 then Some (n + 4)
      else if n = 43 then Some 62
      else if n = 47 then Some 63
      else None)"

text \<open>
  Four characters stand for three bytes; line breaks are skipped wherever they are, and only the last
  group may be padded. Bits of the last group beyond its bytes are ignored.
\<close>

fun base64_quanta :: "string \<Rightarrow> byte list res" where
  "base64_quanta [] = Inr []"
| "base64_quanta (a # b # c # d # s) =
     (case (base64_value a, base64_value b) of
        (Some w, Some x) \<Rightarrow>
          (case base64_value c of
             None \<Rightarrow>
               if c = CHR ''='' \<and> d = CHR ''='' \<and> s = [] then Inr [word_of_nat (4 * w + x div 16)]
               else Inl (External ''illegal base64 data at input byte'')
           | Some y \<Rightarrow>
               (case base64_value d of
                  None \<Rightarrow>
                    if d = CHR ''='' \<and> s = [] then Inr [word_of_nat (4 * w + x div 16), word_of_nat (16 * x + y div 4)]
                    else Inl (External ''illegal base64 data at input byte'')
                | Some z \<Rightarrow>
                    bindE (base64_quanta s) (\<lambda>bs.
                      Inr (word_of_nat (4 * w + x div 16) # word_of_nat (16 * x + y div 4) #
                           word_of_nat (64 * y + z) # bs))))
      | _ \<Rightarrow> Inl (External ''illegal base64 data at input byte''))"
| "base64_quanta _ = Inl (External ''illegal base64 data at input byte'')"

definition base64_DecodeString :: "string \<Rightarrow> byte list res" where
  "base64_DecodeString s = base64_quanta (filter (\<lambda>c. c \<noteq> CHR 0x0A \<and> c \<noteq> CHR 0x0D) s)"

end
