(* ===== verification/Sui.thy ===== *)
theory Sui
  imports Bcs HexText TimelockProposal EvmConfig
begin

text \<open>
  The Sui side of a proposal: \<open>sdk/sui/utils.go\<close>, \<open>chain_metadata.go\<close>, \<open>sui_helpers.go\<close>, \<open>function_names.go\<close>,
  \<open>encoder.go\<close>, \<open>transaction.go\<close>, \<open>timelock_converter.go\<close>, the transformer of \<open>inspector.go\<close>, and the calls of
  a batch that \<open>decoder.go\<close> reads back. The packages the code calls (the registry of chains, the JSON text
  of its structs, the serialiser) are the fields of \<open>sui_pkg\<close>.
\<close>

section \<open>Data\<close>

text \<open>\<open>Address\<close> is a \<open>[32]uint8\<close>, read big-endian: the bytes that are given are its last ones.\<close>

type_synonym sui_address = hash
type_synonym sui_role = u8

definition AddressLen :: nat where "AddressLen = 32"

definition trim_hex_prefix :: "string \<Rightarrow> string" where
  "trim_hex_prefix str = (if prefix ''0x'' str \<or> prefix ''0X'' str then drop 2 str else str)"

definition AddressFromHex :: "string \<Rightarrow> sui_address res" where
  "AddressFromHex str =
     (let str = trim_hex_prefix str;
          str = (if length str mod 2 \<noteq> 0 then CHR ''0'' # str else str) in
      bindE (hex_DecodeString str) (\<lambda>data.
        if length data > AddressLen then Inl (Errorf ''address length exceeds 32 bytes'') else Inr (from_be data)))"

definition sui_address_Bytes :: "sui_address \<Rightarrow> byte list" where
  "sui_address_Bytes a = be_bytes AddressLen a"

definition sui_address_Hex :: "sui_address \<Rightarrow> string" where
  "sui_address_Hex a = hex_encode (be_bytes AddressLen a)"

definition Sui_TimelockRoleBypasser :: sui_role where "Sui_TimelockRoleBypasser = 0"
definition Sui_TimelockRoleCanceller :: sui_role where "Sui_TimelockRoleCanceller = 1"
definition Sui_TimelockRoleProposer :: sui_role where "Sui_TimelockRoleProposer = 2"

definition sui_role_String :: "sui_role \<Rightarrow> string" where
  "sui_role_String t =
     (if t = Sui_TimelockRoleBypasser then ''bypasser''
      else if t = Sui_TimelockRoleProposer then ''proposer''
      else if t = Sui_TimelockRoleCanceller then ''canceller''
      else ''unknown'')"

record sui_metadata =
  sm_Role :: sui_role
  sm_McmsPackageID :: string
  sm_AccountObj :: string
  sm_RegistryObj :: string
  sm_TimelockObj :: string
  sm_DeployerStateObj :: string

record sui_fields =
  sf_ModuleName :: string
  sf_Function :: string
  sf_StateObj :: string
  sf_InternalStateObjects :: "string list"
  sf_TypeArgs :: "string list"
  sf_InternalTypeArgs :: "string list list"
  sf_CompiledModules :: "byte list list"
  sf_Dependencies :: "string list"
  sf_PackageToUpgrade :: string
  sf_LatestPackageID :: string
  sf_InternalLatestPackageIDs :: "string list"

definition no_sui_metadata :: sui_metadata where
  "no_sui_metadata = \<lparr>sm_Role = 0, sm_McmsPackageID = [], sm_AccountObj = [], sm_RegistryObj = [], sm_TimelockObj = [],
     sm_DeployerStateObj = []\<rparr>"

definition no_sui_fields :: sui_fields where
  "no_sui_fields = \<lparr>sf_ModuleName = [], sf_Function = [], sf_StateObj = [], sf_InternalStateObjects = [], sf_TypeArgs = [],
     sf_InternalTypeArgs = [], sf_CompiledModules = [], sf_Dependencies = [], sf_PackageToUpgrade = [],
     sf_LatestPackageID = [], sf_InternalLatestPackageIDs = []\<rparr>"

record sui_pkg = bcs_pkg +
  SuiChainIdFromSelector :: "u64 \<Rightarrow> u64 res"
  SuiFieldsUnmarshal :: "raw \<Rightarrow> sui_fields res"
  SuiFieldsMarshal :: "sui_fields \<Rightarrow> raw res"
  SuiMetadataUnmarshal :: "raw \<Rightarrow> sui_metadata res"
  SuiMetadataMarshal :: "sui_metadata \<Rightarrow> raw res"
  FloatToUint64E :: "rat \<Rightarrow> u64 res"

text \<open>The JSON text of a struct is read back as the struct.\<close>

definition sui_json_documented :: "'s sui_pkg_scheme \<Rightarrow> bool" where
  "sui_json_documented S \<longleftrightarrow> (\<forall>f r. SuiFieldsMarshal S f = Inr r \<longrightarrow> SuiFieldsUnmarshal S r = Inr f)"

section \<open>Chain metadata\<close>

definition sui_metadata_Validate :: "sui_metadata \<Rightarrow> unit res" where
  "sui_metadata_Validate f =
     (if sm_Role f > Sui_TimelockRoleProposer then Inl (Errorf ''invalid timelock role'')
      else if sm_McmsPackageID f = [] then Inl (Errorf ''mcms package ID is required'')
      else if sm_AccountObj f = [] then Inl (Errorf ''account object ID is required'')
      else if sm_RegistryObj f = [] then Inl (Errorf ''registry object ID is required'')
      else if sm_TimelockObj f = [] then Inl (Errorf ''timelock object ID is required'')
      else if sm_DeployerStateObj f = [] then Inl (Errorf ''deployer state object ID is required'')
      else Inr ())"

definition suiValidateChainMetadata :: "'s sui_pkg_scheme \<Rightarrow> chain_metadata \<Rightarrow> unit res" where
  "suiValidateChainMetadata S metadata =
     bindE (wrapE (Wrapf ''unable to unmarshal additional fields: %w'')
              (SuiMetadataUnmarshal S (cm_AdditionalFields metadata))) (\<lambda>additionalFields.
       wrapE (Wrapf ''additional fields are invalid: %w'') (sui_metadata_Validate additionalFields))"

definition sui_NewChainMetadata ::
  "'s sui_pkg_scheme \<Rightarrow> u64 \<Rightarrow> sui_role \<Rightarrow> string \<Rightarrow> string \<Rightarrow> string \<Rightarrow> string \<Rightarrow> string \<Rightarrow> string \<Rightarrow> chain_metadata res" where
  "sui_NewChainMetadata S startingOpCount role mcmsPackageID mcmsObj accountObj registryObj timelockObj deployerStateObj =
     (if mcmsObj = [] then Inl (Errorf ''mcms object ID is required'')
      else
        let additionalFields =
          \<lparr>sm_Role = role, sm_McmsPackageID = mcmsPackageID, sm_AccountObj = accountObj, sm_RegistryObj = registryObj,
           sm_TimelockObj = timelockObj, sm_DeployerStateObj = deployerStateObj\<rparr> in
        bindE (wrapE (Wrapf ''additional fields are invalid: %w'') (sui_metadata_Validate additionalFields)) (\<lambda>_.
        bindE (wrapE (Wrapf ''unable to marshal additional fields: %w'')
                 (SuiMetadataMarshal S additionalFields)) (\<lambda>additionalFieldsBytes.
          Inr \<lparr>cm_StartingOpCount = startingOpCount, cm_MCMAddress = mcmsObj,
               cm_AdditionalFields = additionalFieldsBytes\<rparr>)))"

definition SuiMetadata :: "'s sui_pkg_scheme \<Rightarrow> chain_metadata \<Rightarrow> sui_metadata res" where
  "SuiMetadata S chainMetadata =
     bindE (wrapE (Wrapf ''error unmarshaling sui chain metadata: %w'')
              (SuiMetadataUnmarshal S (cm_AdditionalFields chainMetadata))) (\<lambda>metadata.
     bindE (wrapE (Wrapf ''error validating sui chain metadata: %w'') (sui_metadata_Validate metadata)) (\<lambda>_.
       Inr metadata))"

text \<open>The metadata of a chain may be left out, which is the zero value.\<close>

definition sui_metadata_of :: "'s sui_pkg_scheme \<Rightarrow> chain_metadata \<Rightarrow> sui_metadata res" where
  "sui_metadata_of S metadata =
     (if raw_nonempty (cm_AdditionalFields metadata)
      then wrapE (Wrapf ''failed to unmarshal additional fields metadata: %w'')
             (SuiMetadataUnmarshal S (cm_AdditionalFields metadata))
      else Inr no_sui_metadata)"

section \<open>Encoder\<close>

record sui_encoder =
  se_ChainSelector :: chain_selector
  se_TxCount :: u64
  se_OverridePreviousRoot :: bool

definition sui_DomainSeparatorOp :: "'c crypto_pkg_scheme \<Rightarrow> byte list" where
  "sui_DomainSeparatorOp C =
     be_bytes 32 (Keccak256Hash C (string_bytes ''MANY_CHAIN_MULTI_SIG_DOMAIN_SEPARATOR_OP_SUI''))"

definition sui_DomainSeparatorMetadata :: "'c crypto_pkg_scheme \<Rightarrow> byte list" where
  "sui_DomainSeparatorMetadata C =
     be_bytes 32 (Keccak256Hash C (string_bytes ''MANY_CHAIN_MULTI_SIG_DOMAIN_SEPARATOR_METADATA_SUI''))"

definition sui_op_calls ::
  "'c crypto_pkg_scheme \<Rightarrow> sui_role \<Rightarrow> int \<Rightarrow> sui_address \<Rightarrow> u64 \<Rightarrow> sui_address \<Rightarrow> string \<Rightarrow> string \<Rightarrow> byte list \<Rightarrow>
     bcs_call list" where
  "sui_op_calls C role chainID mcmsAddress nonce toAddress moduleName fnName data =
     [SerFixedBytes (sui_DomainSeparatorOp C), SerU8 role, SerU256 chainID, SerFixedBytes (sui_address_Bytes mcmsAddress),
      SerU64 nonce, SerFixedBytes (sui_address_Bytes toAddress), SerWriteString moduleName, SerWriteString fnName,
      SerWriteBytes data]"

definition sui_HashOperation ::
  "'c crypto_pkg_scheme \<Rightarrow> 's sui_pkg_scheme \<Rightarrow> sui_encoder \<Rightarrow> u32 \<Rightarrow> chain_metadata \<Rightarrow> operation \<Rightarrow> hash res" where
  "sui_HashOperation C S e opCount metadata op =
     bindE (SuiChainIdFromSelector S (se_ChainSelector e)) (\<lambda>chainID.
     bindE (wrapE (Wrapf ''failed to parse To address %q: %w'')
              (AddressFromHex (tx_To (op_Transaction op)))) (\<lambda>toAddress.
     bindE (wrapE (Wrapf ''failed to unmarshal additional fields: %w'')
              (SuiFieldsUnmarshal S (tx_AdditionalFields (op_Transaction op)))) (\<lambda>additionalFields.
     bindE (sui_metadata_of S metadata) (\<lambda>additionalFieldsMetadata.
     bindE (wrapE (Wrapf ''failed to decode mcms package ID: %w'')
              (AddressFromHex (sm_McmsPackageID additionalFieldsMetadata))) (\<lambda>mcmsAddress.
       Inr (Keccak256Hash C (SerToBytes S
         (sui_op_calls C (sm_Role additionalFieldsMetadata) (uint chainID) mcmsAddress (ucast opCount) toAddress
            (sf_ModuleName additionalFields) (sf_Function additionalFields) (tx_Data (op_Transaction op))))))))))"

definition sui_metadata_calls ::
  "'c crypto_pkg_scheme \<Rightarrow> sui_role \<Rightarrow> int \<Rightarrow> sui_address \<Rightarrow> u64 \<Rightarrow> u64 \<Rightarrow> bool \<Rightarrow> bcs_call list" where
  "sui_metadata_calls C role chainID mcmsAddress preOpCount postOpCount overridePreviousRoot =
     [SerFixedBytes (sui_DomainSeparatorMetadata C), SerU8 role, SerU256 chainID,
      SerFixedBytes (sui_address_Bytes mcmsAddress), SerU64 preOpCount, SerU64 postOpCount, SerBool overridePreviousRoot]"

definition sui_HashMetadata ::
  "'c crypto_pkg_scheme \<Rightarrow> 's sui_pkg_scheme \<Rightarrow> sui_encoder \<Rightarrow> chain_metadata \<Rightarrow> hash res" where
  "sui_HashMetadata C S e metadata =
     bindE (wrapE (Wrapf ''failed to get chain ID from selector %d: %w'')
              (SuiChainIdFromSelector S (se_ChainSelector e))) (\<lambda>chainID.
     if \<not> raw_nonempty (cm_AdditionalFields metadata) then Inl (Errorf ''additional fields metadata is empty'')
     else
       bindE (sui_metadata_of S metadata) (\<lambda>additionalFieldsMetadata.
       bindE (wrapE (Wrapf ''failed to decode mcms package ID: %w'')
                (AddressFromHex (sm_McmsPackageID additionalFieldsMetadata))) (\<lambda>mcmsAddress.
         Inr (Keccak256Hash C (SerToBytes S
           (sui_metadata_calls C (sm_Role additionalFieldsMetadata) (uint chainID) mcmsAddress
              (cm_StartingOpCount metadata) (cm_StartingOpCount metadata + se_TxCount e)
              (se_OverridePreviousRoot e)))))))"

definition suiNewEncoder ::
  "'c crypto_pkg_scheme \<Rightarrow> 's sui_pkg_scheme \<Rightarrow> chain_selector \<Rightarrow> u64 \<Rightarrow> bool \<Rightarrow> encoder" where
  "suiNewEncoder C S csel txCount overridePreviousRoot =
     (let e = \<lparr>se_ChainSelector = csel, se_TxCount = txCount, se_OverridePreviousRoot = overridePreviousRoot\<rparr> in
      \<lparr>enc_HashOperation = sui_HashOperation C S e, enc_HashMetadata = sui_HashMetadata C S e\<rparr>)"

text \<open>The arguments of the dispatch functions; the lengths of the slices are cast to \<open>uint32\<close> as they are.\<close>

definition sui_slice_calls :: "('a \<Rightarrow> bcs_call) \<Rightarrow> 'a list \<Rightarrow> bcs_call list" where
  "sui_slice_calls f xs = SerUleb128 (word_of_nat (length xs)) # map f xs"

definition sui_batch_slices :: "byte list list \<Rightarrow> string list \<Rightarrow> string list \<Rightarrow> byte list list \<Rightarrow> bcs_call list" where
  "sui_batch_slices targets moduleNames functionNames datas =
     sui_slice_calls SerFixedBytes targets @ sui_slice_calls SerWriteString moduleNames @
     sui_slice_calls SerWriteString functionNames @ sui_slice_calls SerWriteBytes datas"

definition serializeTimelockScheduleBatch ::
  "'b bcs_pkg_scheme \<Rightarrow> byte list list \<Rightarrow> string list \<Rightarrow> string list \<Rightarrow> byte list list \<Rightarrow> byte list \<Rightarrow> byte list \<Rightarrow> u64 \<Rightarrow>
     byte list res" where
  "serializeTimelockScheduleBatch B targets moduleNames functionNames datas predecessor salt delay =
     SerializeSingle B (sui_batch_slices targets moduleNames functionNames datas @
       [SerWriteBytes predecessor, SerWriteBytes salt, SerU64 delay])"

definition serializeTimelockBypasserExecuteBatch ::
  "'b bcs_pkg_scheme \<Rightarrow> byte list list \<Rightarrow> string list \<Rightarrow> string list \<Rightarrow> byte list list \<Rightarrow> byte list res" where
  "serializeTimelockBypasserExecuteBatch B targets moduleNames functionNames datas =
     SerializeSingle B (sui_batch_slices targets moduleNames functionNames datas)"

definition serializeTimelockCancel :: "'b bcs_pkg_scheme \<Rightarrow> byte list \<Rightarrow> byte list res" where
  "serializeTimelockCancel B ident = SerializeSingle B [SerWriteBytes ident]"

definition serializeAuthorizeUpgradeParams ::
  "'b bcs_pkg_scheme \<Rightarrow> string \<Rightarrow> string \<Rightarrow> u8 \<Rightarrow> byte list \<Rightarrow> string \<Rightarrow> byte list res" where
  "serializeAuthorizeUpgradeParams B ownerCapID deployerStateID policy digest packageAddress =
     bindE (wrapE (Wrapf ''failed to decode owner cap address: %w'') (AddressFromHex ownerCapID)) (\<lambda>ownerCapAddr.
     bindE (wrapE (Wrapf ''failed to decode deployer state address: %w'')
              (AddressFromHex deployerStateID)) (\<lambda>deployerStateAddr.
     bindE (wrapE (Wrapf ''failed to decode package address: %w'')
              (hex_DecodeString (if prefix ''0x'' packageAddress then drop 2 packageAddress else packageAddress)))
       (\<lambda>packageAddrBytes.
     SerializeSingle B
       [SerFixedBytes (sui_address_Bytes ownerCapAddr), SerFixedBytes (sui_address_Bytes deployerStateAddr), SerU8 policy,
        SerWriteBytes digest, SerFixedBytes packageAddrBytes])))"

section \<open>Transactions\<close>

definition suiMCMSSetConfigFunctionName :: string where "suiMCMSSetConfigFunctionName = ''set_config''"
definition suiTimelockScheduleFunctionName :: string where "suiTimelockScheduleFunctionName = ''timelock_schedule_batch''"
definition suiTimelockCancelFunctionName :: string where "suiTimelockCancelFunctionName = ''timelock_cancel''"
definition suiTimelockBypassFunctionName :: string where
  "suiTimelockBypassFunctionName = ''timelock_bypasser_execute_batch''"
definition suiTimelockUpdateMinDelayFunctionName :: string where
  "suiTimelockUpdateMinDelayFunctionName = ''timelock_update_min_delay''"
definition suiModuleNameMCMSDeployer :: string where "suiModuleNameMCMSDeployer = ''mcms_deployer''"
definition suiModuleNameMCMSAccount :: string where "suiModuleNameMCMSAccount = ''mcms_account''"
definition suiMcmsDeployerAuthorizeUpgradeFuncName :: string where
  "suiMcmsDeployerAuthorizeUpgradeFuncName = ''authorize_upgrade''"
definition suiUpgradeTransactionTagUpgrade :: string where "suiUpgradeTransactionTagUpgrade = ''upgrade''"
definition suiTimelockUpdateMinDelayModuleName :: string where "suiTimelockUpdateMinDelayModuleName = ''mcms''"

definition sui_fields_Validate :: "sui_fields \<Rightarrow> unit res" where
  "sui_fields_Validate af =
     (if length (sf_ModuleName af) \<le> 0 \<or> length (sf_ModuleName af) > 64
      then Inl (Errorf ''module name length must be between 1 and 64 characters'')
      else if length (sf_Function af) \<le> 0 \<or> length (sf_Function af) > 64
      then Inl (Errorf ''function length must be between 1 and 64 characters'')
      else Inr ())"

definition suiValidateAdditionalFields :: "'s sui_pkg_scheme \<Rightarrow> raw \<Rightarrow> unit res" where
  "suiValidateAdditionalFields S additionalFields =
     bindE (wrapE (Wrapf ''failed to unmarshal Sui additional fields: %w'') (SuiFieldsUnmarshal S additionalFields))
       sui_fields_Validate"

text \<open>The constructors of a transaction differ in the fields they fill; the others are left empty.\<close>

definition sui_transaction ::
  "'s sui_pkg_scheme \<Rightarrow> sui_fields \<Rightarrow> string \<Rightarrow> byte list \<Rightarrow> string \<Rightarrow> string list \<Rightarrow> transaction res" where
  "sui_transaction S additionalFields to data contractType tags =
     bindE (wrapE (Wrapf ''failed to marshal additional fields: %w'')
              (SuiFieldsMarshal S additionalFields)) (\<lambda>marshalled.
       Inr \<lparr>tx_ContractType = contractType, tx_ContractVersion = None, tx_Tags = tags, tx_To = to, tx_Data = data,
            tx_AdditionalFields = marshalled\<rparr>)"

definition newTransactionWithManyStateObj ::
  "'s sui_pkg_scheme \<Rightarrow> string \<Rightarrow> string \<Rightarrow> string \<Rightarrow> byte list \<Rightarrow> string \<Rightarrow> string list \<Rightarrow> string \<Rightarrow> string list \<Rightarrow>
     string list \<Rightarrow> string list list \<Rightarrow> string list \<Rightarrow> transaction res" where
  "newTransactionWithManyStateObj S moduleName fnName to data contractType tags stateObj typeArgs internalStateObjects
       internalTypeArgs internalLatestPackageIDs =
     sui_transaction S
       (no_sui_fields\<lparr>sf_ModuleName := moduleName, sf_Function := fnName, sf_StateObj := stateObj,
          sf_InternalStateObjects := internalStateObjects, sf_TypeArgs := typeArgs, sf_InternalTypeArgs := internalTypeArgs,
          sf_InternalLatestPackageIDs := internalLatestPackageIDs\<rparr>) to data contractType tags"

definition NewTransactionWithStateObj ::
  "'s sui_pkg_scheme \<Rightarrow> string \<Rightarrow> string \<Rightarrow> string \<Rightarrow> byte list \<Rightarrow> string \<Rightarrow> string list \<Rightarrow> string \<Rightarrow> string list \<Rightarrow>
     transaction res" where
  "NewTransactionWithStateObj S moduleName fnName to data contractType tags stateObj typeArgs =
     newTransactionWithManyStateObj S moduleName fnName to data contractType tags stateObj typeArgs [] [] []"

definition sui_NewTransaction ::
  "'s sui_pkg_scheme \<Rightarrow> string \<Rightarrow> string \<Rightarrow> string \<Rightarrow> byte list \<Rightarrow> string \<Rightarrow> string list \<Rightarrow> transaction res" where
  "sui_NewTransaction S moduleName fnName to data contractType tags =
     NewTransactionWithStateObj S moduleName fnName to data contractType tags [] []"

definition NewTransactionWithUpgradeData ::
  "'s sui_pkg_scheme \<Rightarrow> string \<Rightarrow> string \<Rightarrow> string \<Rightarrow> byte list \<Rightarrow> string \<Rightarrow> string list \<Rightarrow> string \<Rightarrow> string list \<Rightarrow>
     byte list list \<Rightarrow> string list \<Rightarrow> string \<Rightarrow> transaction res" where
  "NewTransactionWithUpgradeData S moduleName fnName to data contractType tags stateObj internalStateObjects
       compiledModules dependencies packageToUpgrade =
     sui_transaction S
       (no_sui_fields\<lparr>sf_ModuleName := moduleName, sf_Function := fnName, sf_StateObj := stateObj,
          sf_InternalStateObjects := internalStateObjects, sf_CompiledModules := compiledModules,
          sf_Dependencies := dependencies, sf_PackageToUpgrade := packageToUpgrade\<rparr>) to data contractType tags"

text \<open>The transaction is changed through a pointer; on an error it is left as it was.\<close>

definition SetLatestPackageID :: "'s sui_pkg_scheme \<Rightarrow> transaction \<Rightarrow> string \<Rightarrow> transaction res" where
  "SetLatestPackageID S tx latestPackageID =
     bindE (wrapE (Wrapf ''failed to unmarshal additional fields: %w'')
              (SuiFieldsUnmarshal S (tx_AdditionalFields tx))) (\<lambda>fields.
     bindE (wrapE (Wrapf ''failed to marshal additional fields: %w'')
              (SuiFieldsMarshal S (fields\<lparr>sf_LatestPackageID := latestPackageID\<rparr>))) (\<lambda>marshalled.
       Inr (tx\<lparr>tx_AdditionalFields := marshalled\<rparr>)))"

text \<open>\<open>bind.PackageArtifact\<close>, the output of the compiler.\<close>

record sui_artifact =
  pa_Modules :: "string list"
  pa_Dependencies :: "string list"
  pa_Digest :: "byte list"

definition CreateUpgradeTransaction ::
  "'s sui_pkg_scheme \<Rightarrow> sui_artifact \<Rightarrow> string \<Rightarrow> string \<Rightarrow> string \<Rightarrow> string \<Rightarrow> string \<Rightarrow> transaction res" where
  "CreateUpgradeTransaction S compiledPackage mcmsPackageID depStateObj registryObj ownerCapObj mcmsUserPackageID =
     bindE (wrapE (Wrapf ''serializing authorize upgrade params: %w'')
              (serializeAuthorizeUpgradeParams S ownerCapObj depStateObj 0 (pa_Digest compiledPackage) mcmsUserPackageID)) (\<lambda>data.
     bindE (mapE (\<lambda>m. wrapE (Wrapf ''decoding module %d: %w'') (base64_DecodeString m)) (pa_Modules compiledPackage))
       (\<lambda>moduleBytes.
     NewTransactionWithUpgradeData S suiModuleNameMCMSDeployer suiMcmsDeployerAuthorizeUpgradeFuncName mcmsPackageID data
       ''MCMS'' [suiUpgradeTransactionTagUpgrade, suiTimelockUpdateMinDelayModuleName] depStateObj [registryObj] moduleBytes
       (pa_Dependencies compiledPackage) mcmsUserPackageID))"

section \<open>Whole seconds\<close>

text \<open>
  \<open>internal/utils/safecast\<close>: a \<open>float64\<close> is the rational number it stands for; \<open>cast.ToUint64E\<close> of a float is the argument.
  \<open>math.MaxUint64\<close> is compared as a \<open>float64\<close>, which is \<open>2^64\<close>.
\<close>

definition Float64ToUint64 :: "(rat \<Rightarrow> u64 res) \<Rightarrow> rat \<Rightarrow> u64 res" where
  "Float64ToUint64 floatToUint64E value =
     (if value < 0 then Inl (Errorf ''value %g is negative, cannot convert to uint64'')
      else if value > 18446744073709551616 then Inl (Errorf ''value %g exceeds uint64 range'')
      else if value \<noteq> of_int \<lfloor>value\<rfloor> then Inl (Errorf ''value %g has fractional part, cannot convert to uint64'')
      else floatToUint64E value)"

section \<open>Timelock converter\<close>

text \<open>What the loop over the transactions reads of one of them; the text of an error is the caller's.\<close>

definition sui_target :: "string \<Rightarrow> 's sui_pkg_scheme \<Rightarrow> transaction \<Rightarrow> (sui_address \<times> sui_fields \<times> byte list) res" where
  "sui_target msg S tx =
     bindE (wrapE (Wrapf msg) (SuiFieldsUnmarshal S (tx_AdditionalFields tx))) (\<lambda>additionalFields.
     bindE (wrapE (Wrapf ''failed to parse target address %q: %w'') (AddressFromHex (tx_To tx))) (\<lambda>targetAddr.
       Inr (targetAddr, additionalFields, tx_Data tx)))"

definition sui_target_bytes :: "(sui_address \<times> sui_fields \<times> byte list) list \<Rightarrow> byte list list" where
  "sui_target_bytes = map (sui_address_Bytes \<circ> fst)"

definition sui_target_modules :: "(sui_address \<times> sui_fields \<times> byte list) list \<Rightarrow> string list" where
  "sui_target_modules = map (sf_ModuleName \<circ> fst \<circ> snd)"

definition sui_target_functions :: "(sui_address \<times> sui_fields \<times> byte list) list \<Rightarrow> string list" where
  "sui_target_functions = map (sf_Function \<circ> fst \<circ> snd)"

definition sui_target_datas :: "(sui_address \<times> sui_fields \<times> byte list) list \<Rightarrow> byte list list" where
  "sui_target_datas = map (snd \<circ> snd)"

text \<open>The other slices are indexed by the positions of the targets.\<close>

definition sui_batch_calls ::
  "u32 \<Rightarrow> byte list list \<Rightarrow> string list \<Rightarrow> string list \<Rightarrow> byte list list \<Rightarrow> bcs_call list" where
  "sui_batch_calls targetsLen targets moduleNames functionNames datas =
     SerUleb128 targetsLen #
     concat (map (\<lambda>i. [SerFixedBytes (targets ! i), SerWriteString (moduleNames ! i), SerWriteString (functionNames ! i),
                       SerWriteBytes (datas ! i)]) [0..<length targets])"

definition sui_HashOperationBatch ::
  "'c crypto_pkg_scheme \<Rightarrow> 's sui_pkg_scheme \<Rightarrow> byte list list \<Rightarrow> string list \<Rightarrow> string list \<Rightarrow> byte list list \<Rightarrow>
     byte list \<Rightarrow> byte list \<Rightarrow> hash res" where
  "sui_HashOperationBatch C S targets moduleNames functionNames datas predecessor salt =
     bindE (wrapE (Wrapf ''failed to convert targets length to uint32: %w'')
              (IntToUint32 C (int (length targets)))) (\<lambda>targetsLen.
     if length moduleNames < length targets \<or> length functionNames < length targets \<or> length datas < length targets
     then Inl (Panic ''index out of range'')
     else
       bindE (wrapE (Wrapf ''failed to BCS serialize calls: %w'')
                (SerializeSingle S (sui_batch_calls targetsLen targets moduleNames functionNames datas))) (\<lambda>callsBytes.
         Inr (Keccak256Hash C (callsBytes @ predecessor @ salt))))"

definition sui_action_data ::
  "'c crypto_pkg_scheme \<Rightarrow> 's sui_pkg_scheme \<Rightarrow> timelock_action \<Rightarrow> byte list list \<Rightarrow> string list \<Rightarrow> string list \<Rightarrow>
     byte list list \<Rightarrow> byte list \<Rightarrow> byte list \<Rightarrow> int \<Rightarrow> (string \<times> byte list) res" where
  "sui_action_data C S action targets moduleNames functionNames datas predecessor salt delay =
     (case action of
        TimelockActionSchedule \<Rightarrow>
          bindE (wrapE (Wrapf ''failed to convert delay to uint64: %w'')
                   (Float64ToUint64 (FloatToUint64E S) (duration_Seconds delay))) (\<lambda>delaySecs.
          bindE (wrapE (Wrapf ''failed to serialize timelock schedule batch: %w'')
                   (serializeTimelockScheduleBatch S targets moduleNames functionNames datas predecessor salt delaySecs)) (\<lambda>data.
            Inr (suiTimelockScheduleFunctionName, data)))
      | TimelockActionCancel \<Rightarrow>
          bindE (wrapE (Wrapf ''failed to hash operation batch for cancellation: %w'')
                   (sui_HashOperationBatch C S targets moduleNames functionNames datas predecessor salt)) (\<lambda>operationID.
          bindE (wrapE (Wrapf ''failed to serialize timelock cancel: %w'')
                   (serializeTimelockCancel S (be_bytes 32 operationID))) (\<lambda>data.
            Inr (suiTimelockCancelFunctionName, data)))
      | TimelockActionBypass \<Rightarrow>
          bindE (wrapE (Wrapf ''failed to serialize timelock bypasser execute batch: %w'')
                   (serializeTimelockBypasserExecuteBatch S targets moduleNames functionNames datas)) (\<lambda>data.
            Inr (suiTimelockBypassFunctionName, data))
      | OtherAction _ \<Rightarrow> Inl (Errorf ''unsupported timelock action: %v''))"

definition suiConvert :: "'c crypto_pkg_scheme \<Rightarrow> 's sui_pkg_scheme \<Rightarrow> converter" where
  "suiConvert C S metadata bop timelockAddress mcmAddress delay action predecessor salt =
     bindE (sui_metadata_of S metadata) (\<lambda>additionalFieldsMetadata.
     bindE (mapE (sui_target ''failed to unmarshal additional fields: %w'' S) (bop_Transactions bop)) (\<lambda>ts.
     let targets = sui_target_bytes ts; moduleNames = sui_target_modules ts; functionNames = sui_target_functions ts;
         datas = sui_target_datas ts in
     bindE (sui_action_data C S action targets moduleNames functionNames datas (be_bytes 32 predecessor) (be_bytes 32 salt) delay)
       (\<lambda>(fnName, data).
     bindE (wrapE (Wrapf ''failed to create transaction: %w'')
              (newTransactionWithManyStateObj S ''mcms'' fnName (sm_McmsPackageID additionalFieldsMetadata) data ''MCMS''
                 (concat (map tx_Tags (bop_Transactions bop))) timelockAddress []
                 (map (sf_StateObj \<circ> fst \<circ> snd) ts) (map (sf_TypeArgs \<circ> fst \<circ> snd) ts)
                 (map (sf_LatestPackageID \<circ> fst \<circ> snd) ts))) (\<lambda>tx.
     bindE (wrapE (Wrapf ''failed to hash operation batch: %w'')
              (sui_HashOperationBatch C S targets moduleNames functionNames datas (be_bytes 32 predecessor)
                 (be_bytes 32 salt))) (\<lambda>operationID.
       Inr ([\<lparr>op_ChainSelector = bop_ChainSelector bop, op_Transaction = tx\<rparr>], operationID))))))"

definition suiOperationID :: "'c crypto_pkg_scheme \<Rightarrow> 's sui_pkg_scheme \<Rightarrow> operation_id" where
  "suiOperationID C S batchOp action predecessor salt =
     bindE (mapE (sui_target ''failed to unmarshal Sui additional fields: %w'' S) (bop_Transactions batchOp)) (\<lambda>ts.
       sui_HashOperationBatch C S (sui_target_bytes ts) (sui_target_modules ts) (sui_target_functions ts)
         (sui_target_datas ts) (be_bytes 32 predecessor) (be_bytes 32 salt))"

section \<open>Configurations\<close>

record sui_signer =
  ss_Addr :: "byte list"
  ss_Index :: u8
  ss_Group :: u8

record sui_config =
  scfg_Signers :: "sui_signer list"
  scfg_GroupQuorums :: "u8 list"
  scfg_GroupParents :: "u8 list"

definition MaxQuorumArraySize :: nat where "MaxQuorumArraySize = 32"

text \<open>The loops copy what fits into the arrays, the rest of the arrays stays zero.\<close>

definition sui_copy_array :: "u8 list \<Rightarrow> u8 list" where
  "sui_copy_array xs =
     foldl (\<lambda>arr (i, x). if i < MaxQuorumArraySize then arr[i := x] else arr) (replicate 32 0)
       (enumerate 0 xs)"

definition sui_ToConfig :: "sui_config \<Rightarrow> config res" where
  "sui_ToConfig cfg =
     evm_ToConfig
       \<lparr>mc_Signers = map (\<lambda>signer. \<lparr>sg_Addr = from_be (ss_Addr signer), sg_Index = ss_Index signer,
                                     sg_Group = ss_Group signer\<rparr>) (scfg_Signers cfg),
        mc_GroupQuorums = sui_copy_array (scfg_GroupQuorums cfg), mc_GroupParents = sui_copy_array (scfg_GroupParents cfg)\<rparr>"

section \<open>The bytes that are hashed\<close>

text \<open>Lengths of Go slices that the format has room for.\<close>

definition sui_op_fits :: "'s sui_pkg_scheme \<Rightarrow> transaction \<Rightarrow> bool" where
  "sui_op_fits S tx \<longleftrightarrow> length (tx_Data tx) < 2 ^ 32 \<and>
     (\<forall>f. SuiFieldsUnmarshal S (tx_AdditionalFields tx) = Inr f \<longrightarrow>
        length (sf_ModuleName f) < 2 ^ 32 \<and> length (sf_Function f) < 2 ^ 32)"

definition sui_batch_fits :: "'s sui_pkg_scheme \<Rightarrow> batch_operation \<Rightarrow> bool" where
  "sui_batch_fits S b \<longleftrightarrow> length (bop_Transactions b) < 2 ^ 32 \<and> (\<forall>tx \<in> set (bop_Transactions b). sui_op_fits S tx)"

text \<open>What a leaf is made of, for an operation with its nonce or for the metadata of the chain.\<close>

fun sui_leaf ::
  "'s sui_pkg_scheme \<Rightarrow> sui_encoder \<Rightarrow> chain_metadata \<Rightarrow> (u32 \<times> operation) option \<Rightarrow> move_leaf res" where
  "sui_leaf S e md (Some (n, op)) =
     bindE (SuiChainIdFromSelector S (se_ChainSelector e)) (\<lambda>cid.
     bindE (AddressFromHex (tx_To (op_Transaction op))) (\<lambda>to.
     bindE (SuiFieldsUnmarshal S (tx_AdditionalFields (op_Transaction op))) (\<lambda>f.
     bindE (sui_metadata_of S md) (\<lambda>m.
     bindE (AddressFromHex (sm_McmsPackageID m)) (\<lambda>mcms.
       Inr (OpLeaf (sm_Role m) cid mcms (ucast n) to (sf_ModuleName f) (sf_Function f) (tx_Data (op_Transaction op))))))))"
| "sui_leaf S e md None =
     (if \<not> raw_nonempty (cm_AdditionalFields md) then Inl (Errorf ''additional fields metadata is empty'')
      else
        bindE (SuiChainIdFromSelector S (se_ChainSelector e)) (\<lambda>cid.
        bindE (sui_metadata_of S md) (\<lambda>m.
        bindE (AddressFromHex (sm_McmsPackageID m)) (\<lambda>mcms.
          Inr (MetadataLeaf (sm_Role m) cid mcms (cm_StartingOpCount md) (cm_StartingOpCount md + se_TxCount e)
                 (se_OverridePreviousRoot e))))))"

fun sui_leaf_hash ::
  "'c crypto_pkg_scheme \<Rightarrow> 's sui_pkg_scheme \<Rightarrow> sui_encoder \<Rightarrow> chain_metadata \<Rightarrow> (u32 \<times> operation) option \<Rightarrow>
     hash res" where
  "sui_leaf_hash C S e md (Some (n, op)) = sui_HashOperation C S e n md op"
| "sui_leaf_hash C S e md None = sui_HashMetadata C S e md"

definition sui_separators :: "'c crypto_pkg_scheme \<Rightarrow> hash \<times> hash" where
  "sui_separators C =
     (Keccak256Hash C (string_bytes ''MANY_CHAIN_MULTI_SIG_DOMAIN_SEPARATOR_OP_SUI''),
      Keccak256Hash C (string_bytes ''MANY_CHAIN_MULTI_SIG_DOMAIN_SEPARATOR_METADATA_SUI''))"

lemma sui_address_Bytes_simps [simp]:
  "length (sui_address_Bytes a) = 32" "from_be (sui_address_Bytes a) = a"
  by (simp_all add: sui_address_Bytes_def AddressLen_def from_be_bytes)

lemma sui_leaf_hash_Inr:
  assumes "bcs_documented S" and "\<forall>n op. x = Some (n, op) \<longrightarrow> sui_op_fits S (op_Transaction op)"
  shows "sui_leaf_hash C S e md x = Inr h \<longleftrightarrow>
    (\<exists>l. sui_leaf S e md x = Inr l \<and> h = Keccak256Hash C (move_leaf_bytes (sui_separators C) l))"
proof (cases x)
  case None
  have "SerToBytes S (sui_metadata_calls C r (uint cid) m pre post ov) =
      move_leaf_bytes (sui_separators C) (MetadataLeaf r cid m pre post ov)" for r m pre post ov and cid :: u64
    using assms(1) uint_u64_hash [of cid]
    by (simp add: bcs_documented_def sui_metadata_calls_def move_metadata_bytes_def sui_DomainSeparatorMetadata_def
        sui_separators_def sui_address_Bytes_def AddressLen_def)
  with None show ?thesis by (auto simp: sui_HashMetadata_def bindE_Inr_iff)
next
  case (Some nop)
  then obtain n op where x: "x = Some (n, op)" by (cases nop) auto
  have bytes: "SerToBytes S (sui_op_calls C r (uint cid) m k to mo f data) =
      move_leaf_bytes (sui_separators C) (OpLeaf r cid m k to mo f data)"
    if "length mo < 2 ^ 32" "length f < 2 ^ 32" "length data < 2 ^ 32" for r m k to mo f data and cid :: u64
    using assms(1) uint_u64_hash [of cid] that
    by (simp add: bcs_documented_def sui_op_calls_def move_op_bytes_def sui_DomainSeparatorOp_def sui_separators_def
        sui_address_Bytes_def AddressLen_def)
  have fits: "sui_op_fits S (op_Transaction op)" using assms(2) x by simp
  show ?thesis
    unfolding x sui_leaf_hash.simps sui_leaf.simps sui_HashOperation_def bindE_Inr_iff wrapE_Inr_iff
    using fits by (fastforce simp: sui_op_fits_def bytes)
qed

text \<open>The calls of a batch, as the two functions that hash it read them.\<close>

definition sui_move_call :: "sui_address \<times> sui_fields \<times> byte list \<Rightarrow> move_call" where
  "sui_move_call t = (case t of (to, f, d) \<Rightarrow>
     \<lparr>mvc_Target = to, mvc_Module = sf_ModuleName f, mvc_Function = sf_Function f, mvc_Data = d\<rparr>)"

definition sui_calls :: "'s sui_pkg_scheme \<Rightarrow> batch_operation \<Rightarrow> move_call list res" where
  "sui_calls S b = bindE (mapE (sui_target [] S) (bop_Transactions b)) (\<lambda>ts. Inr (map sui_move_call ts))"

lemma sui_target_Inr:
  "sui_target msg S tx = Inr (to, f, d) \<longleftrightarrow>
     SuiFieldsUnmarshal S (tx_AdditionalFields tx) = Inr f \<and> AddressFromHex (tx_To tx) = Inr to \<and> d = tx_Data tx"
  by (auto simp: sui_target_def bindE_Inr_iff)

lemma sui_target_text: "sui_target msg S tx = Inr t \<longleftrightarrow> sui_target msg' S tx = Inr t"
  by (cases t) (simp add: sui_target_Inr)

lemma sui_targets_text: "mapE (sui_target msg S) txs = Inr ts \<longleftrightarrow> mapE (sui_target msg' S) txs = Inr ts"
  unfolding mapE_Inr_iff by (intro list.rel_cong refl) (rule sui_target_text)

lemmas sui_targets_calls = sui_targets_text [where msg' = "[]", THEN iffD1]

definition sui_targets_fit :: "(sui_address \<times> sui_fields \<times> byte list) list \<Rightarrow> bool" where
  "sui_targets_fit ts \<longleftrightarrow> length ts < 2 ^ 32 \<and>
     (\<forall>(to, f, d) \<in> set ts. length (sf_ModuleName f) < 2 ^ 32 \<and> length (sf_Function f) < 2 ^ 32 \<and> length d < 2 ^ 32)"

lemma sui_batch_fits_targets:
  assumes "sui_batch_fits S b" and "mapE (sui_target msg S) (bop_Transactions b) = Inr ts"
  shows "sui_targets_fit ts"
  unfolding sui_targets_fit_def
proof (intro conjI ballI)
  show "length ts < 2 ^ 32" using assms mapE_length [OF assms(2)] by (simp add: sui_batch_fits_def)
  fix t
  assume "t \<in> set ts"
  from mapE_mem_result [OF assms(2) this] obtain tx
    where "tx \<in> set (bop_Transactions b)" "sui_target msg S tx = Inr t" by blast
  with assms(1) show "case t of (to, f, d) \<Rightarrow> length (sf_ModuleName f) < 2 ^ 32 \<and> length (sf_Function f) < 2 ^ 32 \<and> length d < 2 ^ 32"
    by (cases t) (auto simp: sui_batch_fits_def sui_op_fits_def sui_target_Inr)
qed

lemma unat_u32_of_nat: "n < 2 ^ 32 \<Longrightarrow> unat (word_of_nat n :: u32) = n"
  by (simp add: unsigned_of_nat take_bit_nat_eq_self)

lemma sui_batch_hash:
  assumes "bcs_documented S" and "casts_documented C" and "sui_targets_fit ts"
  shows "sui_HashOperationBatch C S (sui_target_bytes ts) (sui_target_modules ts) (sui_target_functions ts) (sui_target_datas ts)
      (be_bytes 32 p) (be_bytes 32 salt) = Inr (Keccak256Hash C (move_batch_bytes (map sui_move_call ts) p salt))"
proof -
  let ?one = "\<lambda>(to, f, d). [SerFixedBytes (sui_address_Bytes to), SerWriteString (sf_ModuleName f),
    SerWriteString (sf_Function f), SerWriteBytes d]"
  have len: "length ts < 2 ^ 32" using assms(3) by (simp add: sui_targets_fit_def)
  have cast: "IntToUint32 C (int (length ts)) = Inr (word_of_nat (length ts))"
    using IntToUint32_Inr [OF assms(2), of "int (length ts)"] len by auto
  have "map (\<lambda>i. [SerFixedBytes (sui_target_bytes ts ! i), SerWriteString (sui_target_modules ts ! i),
        SerWriteString (sui_target_functions ts ! i), SerWriteBytes (sui_target_datas ts ! i)]) [0..<length ts] = map ?one ts"
    by (rule nth_equalityI)
      (simp_all add: case_prod_beta sui_target_bytes_def sui_target_modules_def sui_target_functions_def sui_target_datas_def)
  then have calls: "sui_batch_calls n (sui_target_bytes ts) (sui_target_modules ts) (sui_target_functions ts) (sui_target_datas ts) =
      SerUleb128 n # concat (map ?one ts)" for n
    by (simp add: sui_batch_calls_def sui_target_bytes_def)
  have "list_all bcs_fits (concat (map ?one ts))"
    using assms(3) by (fastforce simp: sui_targets_fit_def list_all_iff)
  moreover have "concat (map bcs_bytes (concat (map ?one ts))) = concat (map move_call_bytes (map sui_move_call ts))"
    by (induction ts) (auto simp: move_call_bytes_def sui_move_call_def sui_address_Bytes_def AddressLen_def)
  ultimately have "SerializeSingle S (SerUleb128 (word_of_nat (length ts)) # concat (map ?one ts)) =
      Inr (uleb128 (length ts) @ concat (map move_call_bytes (map sui_move_call ts)))"
    using assms(1) unat_u32_of_nat [OF len] by (simp add: SerializeSingle_def bcs_documented_def)
  with cast calls [of "word_of_nat (length ts)"] show ?thesis
    by (simp add: sui_HashOperationBatch_def move_batch_bytes_def sui_target_bytes_def sui_target_modules_def
        sui_target_functions_def sui_target_datas_def)
qed

text \<open>The id is the hash of the calls, their predecessor and the salt, whatever the action.\<close>

lemma sui_OperationID_hash:
  assumes "bcs_documented S" and "casts_documented C" and "sui_batch_fits S b" and "suiOperationID C S b action p salt = Inr h"
  shows "\<exists>calls. sui_calls S b = Inr calls \<and> h = Keccak256Hash C (move_batch_bytes calls p salt)"
proof -
  from assms(4) obtain ts where
    ts: "mapE (sui_target ''failed to unmarshal Sui additional fields: %w'' S) (bop_Transactions b) = Inr ts"
    and h: "sui_HashOperationBatch C S (sui_target_bytes ts) (sui_target_modules ts) (sui_target_functions ts)
      (sui_target_datas ts) (be_bytes 32 p) (be_bytes 32 salt) = Inr h"
    by (auto simp: suiOperationID_def bindE_Inr_iff)
  from sui_batch_hash [OF assms(1,2) sui_batch_fits_targets [OF assms(3) ts], of p salt] h
  have "h = Keccak256Hash C (move_batch_bytes (map sui_move_call ts) p salt)" by simp
  then show ?thesis by (simp add: sui_calls_def sui_targets_calls [OF ts])
qed

section \<open>The converter agrees with the ids\<close>

lemma sui_convert_InrE:
  assumes "suiConvert C S md b tlAddr mcm delay action pred salt = Inr (ops, h)"
  obtains op ts where "ops = [op]" "op_ChainSelector op = bop_ChainSelector b"
    "mapE (sui_target ''failed to unmarshal additional fields: %w'' S) (bop_Transactions b) = Inr ts"
    "suiOperationID C S b action pred salt = Inr h"
proof -
  from assms obtain ts op where
    ts: "mapE (sui_target ''failed to unmarshal additional fields: %w'' S) (bop_Transactions b) = Inr ts" and
    h: "sui_HashOperationBatch C S (sui_target_bytes ts) (sui_target_modules ts) (sui_target_functions ts)
      (sui_target_datas ts) (be_bytes 32 pred) (be_bytes 32 salt) = Inr h" and
    op: "ops = [op]" "op_ChainSelector op = bop_ChainSelector b"
    by (auto simp: suiConvert_def Let_def bindE_Inr_iff split: prod.splits)
  from ts have "mapE (sui_target ''failed to unmarshal Sui additional fields: %w'' S) (bop_Transactions b) = Inr ts"
    by (rule sui_targets_text [THEN iffD1])
  with h op ts that show thesis by (simp add: suiOperationID_def)
qed

interpretation sui_family: family_converter "suiConvert C S" "suiOperationID C S" for C S
  by unfold_locales (auto elim: sui_convert_InrE)

text \<open>The family wired into the dispatch.\<close>

definition with_sui :: "'s sui_pkg_scheme \<Rightarrow> 'e mcms_env_scheme \<Rightarrow> 'e mcms_env_scheme" where
  "with_sui S E = E\<lparr>sui_NewEncoder := suiNewEncoder E S, sui_OperationID := suiOperationID E S,
     sui_Convert := suiConvert E S, sui_ValidateAdditionalFields := suiValidateAdditionalFields S,
     sui_ValidateChainMetadata := suiValidateChainMetadata S\<rparr>"

lemma with_sui_sel [simp]:
  "sui_NewEncoder (with_sui S E) = suiNewEncoder E S"
  "sui_OperationID (with_sui S E) = suiOperationID E S"
  "sui_Convert (with_sui S E) = suiConvert E S"
  "sui_ValidateAdditionalFields (with_sui S E) = suiValidateAdditionalFields S"
  "ChainDetails (with_sui S E) = ChainDetails E"
  "Keccak256Hash (with_sui S E) = Keccak256Hash E"
  by (simp_all add: with_sui_def)

lemma with_sui_newEncoder:
  "ChainDetails E sel = Inr FamilySui \<Longrightarrow> newEncoder (with_sui S E) sel n ov sim = Inr (Some (suiNewEncoder E S sel n ov))"
  by (simp add: newEncoder_def GetChainSelectorFamily_def supportedFamilies_def)

lemma suiNewEncoder_methods:
  "enc_HashOperation (suiNewEncoder C S sel n ov) =
     sui_HashOperation C S \<lparr>se_ChainSelector = sel, se_TxCount = n, se_OverridePreviousRoot = ov\<rparr>"
  "enc_HashMetadata (suiNewEncoder C S sel n ov) =
     sui_HashMetadata C S \<lparr>se_ChainSelector = sel, se_TxCount = n, se_OverridePreviousRoot = ov\<rparr>"
  by (simp_all add: suiNewEncoder_def Let_def)

section \<open>A concrete environment\<close>

text \<open>The JSON of a struct is the array of its fields; every chain has the same metadata.\<close>

fun json_text :: "json \<Rightarrow> string" where
  "json_text (JStr s) = s"
| "json_text _ = []"

fun json_texts :: "json \<Rightarrow> string list" where
  "json_texts (JArr js) = map json_text js"
| "json_texts _ = []"

fun json_lists :: "json \<Rightarrow> string list list" where
  "json_lists (JArr js) = map json_texts js"
| "json_lists _ = []"

definition json_of_texts :: "string list \<Rightarrow> json" where
  "json_of_texts ts = JArr (map JStr ts)"

fun sample_json_sui :: "raw \<Rightarrow> sui_fields res" where
  "sample_json_sui (RawJson (JArr [m, f, st, so, ta, ita, cm, de, pkg, latest, latests])) =
     Inr \<lparr>sf_ModuleName = json_text m, sf_Function = json_text f, sf_StateObj = json_text st,
          sf_InternalStateObjects = json_texts so, sf_TypeArgs = json_texts ta, sf_InternalTypeArgs = json_lists ita,
          sf_CompiledModules = map string_bytes (json_texts cm), sf_Dependencies = json_texts de,
          sf_PackageToUpgrade = json_text pkg, sf_LatestPackageID = json_text latest,
          sf_InternalLatestPackageIDs = json_texts latests\<rparr>"
| "sample_json_sui _ = Inl (External ''json'')"

definition sample_sui_marshal :: "sui_fields \<Rightarrow> raw" where
  "sample_sui_marshal f =
     RawJson (JArr [JStr (sf_ModuleName f), JStr (sf_Function f), JStr (sf_StateObj f),
       json_of_texts (sf_InternalStateObjects f), json_of_texts (sf_TypeArgs f),
       JArr (map json_of_texts (sf_InternalTypeArgs f)), json_of_texts (map bytes_text (sf_CompiledModules f)),
       json_of_texts (sf_Dependencies f), JStr (sf_PackageToUpgrade f), JStr (sf_LatestPackageID f),
       json_of_texts (sf_InternalLatestPackageIDs f)])"

lemma sample_sui_marshal_inverse: "sample_json_sui (sample_sui_marshal f) = Inr f"
  by (simp add: sample_sui_marshal_def json_of_texts_def comp_def)

definition sample_sui_package :: string where
  "sample_sui_package = ''0x'' @ hex_encode (be_bytes 32 (5 :: hash))"

definition sample_sui :: sui_pkg where
  "sample_sui = bcs_pkg.extend plain_bcs (sui_pkg.fields
     (\<lambda>sel. Inr sel) sample_json_sui (\<lambda>f. Inr (sample_sui_marshal f))
     (\<lambda>r. Inr \<lparr>sm_Role = 2, sm_McmsPackageID = sample_sui_package, sm_AccountObj = ''a'', sm_RegistryObj = ''r'',
               sm_TimelockObj = ''t'', sm_DeployerStateObj = ''d''\<rparr>)
     (\<lambda>m. Inr RawEmpty) (\<lambda>x. Inr (word_of_int \<lfloor>x\<rfloor>)))"

lemma sample_sui_sel [simp]:
  "SuiChainIdFromSelector sample_sui sel = Inr sel"
  "SuiFieldsUnmarshal sample_sui r = sample_json_sui r"
  "SuiFieldsMarshal sample_sui f = Inr (sample_sui_marshal f)"
  "SuiMetadataUnmarshal sample_sui r = Inr \<lparr>sm_Role = 2, sm_McmsPackageID = sample_sui_package, sm_AccountObj = ''a'',
     sm_RegistryObj = ''r'', sm_TimelockObj = ''t'', sm_DeployerStateObj = ''d''\<rparr>"
  "FloatToUint64E sample_sui x = Inr (word_of_int \<lfloor>x\<rfloor>)"
  "SerError sample_sui calls = None"
  "SerToBytes sample_sui calls = concat (map bcs_bytes calls)"
  by (simp_all add: sample_sui_def bcs_pkg.defs sui_pkg.defs plain_bcs_def)

lemma sample_sui_documented: "bcs_documented sample_sui" "sui_json_documented sample_sui"
  by (auto simp: bcs_documented_def sui_json_documented_def sample_sui_marshal_inverse)

text \<open>A call of another package and one of the MCM itself.\<close>

definition sample_sui_tx :: transaction where
  "sample_sui_tx = \<lparr>tx_ContractType = ''Token'', tx_ContractVersion = None, tx_Tags = [''tag''], tx_To = ''0x41'',
     tx_Data = [1, 2, 3], tx_AdditionalFields = sample_sui_marshal
       (no_sui_fields\<lparr>sf_ModuleName := ''mod'', sf_Function := ''fn'', sf_StateObj := ''s'', sf_TypeArgs := [''T''],
          sf_LatestPackageID := ''0x42''\<rparr>)\<rparr>"

definition sample_sui_config_tx :: transaction where
  "sample_sui_config_tx = \<lparr>tx_ContractType = ''MCMS'', tx_ContractVersion = None, tx_Tags = [], tx_To = sample_sui_package,
     tx_Data = [4], tx_AdditionalFields = sample_sui_marshal
       (no_sui_fields\<lparr>sf_ModuleName := ''mcms'', sf_Function := ''mcms_set_config'', sf_StateObj := ''m''\<rparr>)\<rparr>"

definition sample_sui_batch :: batch_operation where
  "sample_sui_batch = \<lparr>bop_ChainSelector = 4, bop_Transactions = [sample_sui_tx, sample_sui_config_tx]\<rparr>"

lemma sample_sui_package_address: "AddressFromHex sample_sui_package = Inr 5"
  by (simp add: AddressFromHex_def sample_sui_package_def trim_hex_prefix_def Let_def AddressLen_def from_be_bytes)

lemma sample_sui_addresses: "AddressFromHex ''0x41'' = Inr 65" "AddressFromHex ''0x42'' = Inr 66"
  by (simp_all add: AddressFromHex_def trim_hex_prefix_def fromHexChar_def Let_def AddressLen_def from_be_def)

lemma sample_sui_targets [simp]:
  "sui_target msg sample_sui sample_sui_tx = Inr (65, no_sui_fields\<lparr>sf_ModuleName := ''mod'', sf_Function := ''fn'',
     sf_StateObj := ''s'', sf_TypeArgs := [''T''], sf_LatestPackageID := ''0x42''\<rparr>, [1, 2, 3])"
  "sui_target msg sample_sui sample_sui_config_tx = Inr (5, no_sui_fields\<lparr>sf_ModuleName := ''mcms'',
     sf_Function := ''mcms_set_config'', sf_StateObj := ''m''\<rparr>, [4])"
  by (simp_all add: sui_target_def sample_sui_tx_def sample_sui_config_tx_def sample_sui_addresses sample_sui_package_address
      sample_sui_marshal_inverse del: sample_json_sui.simps)

lemma sample_sui_fits: "sui_batch_fits sample_sui sample_sui_batch"
  by (simp add: sui_batch_fits_def sui_op_fits_def sample_sui_batch_def sample_sui_tx_def sample_sui_config_tx_def
      sample_sui_marshal_inverse no_sui_fields_def del: sample_json_sui.simps)

definition sample_sui_metadata :: chain_metadata where
  "sample_sui_metadata = \<lparr>cm_StartingOpCount = 0, cm_MCMAddress = ''m'', cm_AdditionalFields = RawJson JNull\<rparr>"

lemma sample_sui_metadata_of [simp]:
  "sui_metadata_of sample_sui sample_sui_metadata = Inr \<lparr>sm_Role = 2, sm_McmsPackageID = sample_sui_package,
     sm_AccountObj = ''a'', sm_RegistryObj = ''r'', sm_TimelockObj = ''t'', sm_DeployerStateObj = ''d''\<rparr>"
  by (simp add: sui_metadata_of_def raw_nonempty_def sample_sui_metadata_def)

lemma sample_sui_converts:
  assumes "action = TimelockActionSchedule \<or> action = TimelockActionBypass"
  shows "\<exists>ops h. suiConvert sample_env sample_sui sample_sui_metadata sample_sui_batch tlAddr mcm 0 action p salt = Inr (ops, h)"
proof -
  have "IntToUint32 sample_env 2 = Inr 2" by (simp add: IntToUint32_Inr [OF sample_env_casts])
  moreover have "duration_Seconds 0 = 0" by (simp add: duration_Seconds_def to_float64_def Let_def)
  ultimately show ?thesis
    using assms
    by (auto simp: suiConvert_def sample_sui_batch_def sui_action_data_def Let_def serializeTimelockScheduleBatch_def
        serializeTimelockBypasserExecuteBatch_def SerializeSingle_def newTransactionWithManyStateObj_def sui_transaction_def
        sui_HashOperationBatch_def sui_target_bytes_def sui_target_modules_def sui_target_functions_def sui_target_datas_def
        Float64ToUint64_def)
qed

end
