(* ===== verification/SuiClient.thy ===== *)
theory SuiClient
  imports Sui EvmClient
begin

text \<open>
  The Sui implementations of the interfaces that talk to a chain: \<open>sdk/sui/decoder.go\<close> (the calls of a
  bypassed batch), \<open>executing_callback.go\<close>, \<open>executor.go\<close>, \<open>timelock_executor.go\<close>, \<open>inspector.go\<close>,
  \<open>timelock_inspector.go\<close>, \<open>configurer.go\<close> and \<open>timelock_configurer.go\<close>. The builder of programmable
  transactions, the generated bindings and the node are records of functions.
\<close>

section \<open>Reading a batch back\<close>

text \<open>
  The deserialiser of \<open>aptos-go-sdk/bcs\<close> is a state \<open>'d\<close> that its methods advance; a method that fails
  keeps the error in that state, which the code does not look at, and returns some value.
\<close>

record 'd bcs_reader =
  NewDeserializer :: "byte list \<Rightarrow> 'd"
  ReadUleb128 :: "'d \<Rightarrow> u32 \<times> 'd"
  ReadFixedBytes :: "nat \<Rightarrow> 'd \<Rightarrow> byte list \<times> 'd"
  ReadString :: "'d \<Rightarrow> string \<times> 'd"
  ReadBytes :: "'d \<Rightarrow> byte list \<times> 'd"

record sui_call =
  cl_Target :: "byte list"
  cl_ModuleName :: string
  cl_FunctionName :: string
  cl_Data :: "byte list"
  cl_StateObj :: string
  cl_TypeArgs :: "string list"
  cl_CompiledModules :: "byte list list"
  cl_Dependencies :: "string list"
  cl_PackageToUpgrade :: string

definition SuiAddressLength :: nat where "SuiAddressLength = 32"

fun read_items :: "('d \<Rightarrow> 'a \<times> 'd) \<Rightarrow> nat \<Rightarrow> 'd \<Rightarrow> 'a list \<times> 'd" where
  "read_items rd 0 d = ([], d)"
| "read_items rd (Suc n) d = (case rd d of (x, d') \<Rightarrow> case read_items rd n d' of (xs, d'') \<Rightarrow> (x # xs, d''))"

definition read_vector :: "'d bcs_reader \<Rightarrow> ('d \<Rightarrow> 'a \<times> 'd) \<Rightarrow> 'd \<Rightarrow> 'a list \<times> 'd" where
  "read_vector R rd d = (case ReadUleb128 R d of (n, d') \<Rightarrow> read_items rd (unat n) d')"

definition deserializeTimelockBypasserExecuteBatch :: "'d bcs_reader \<Rightarrow> byte list \<Rightarrow> sui_call list res" where
  "deserializeTimelockBypasserExecuteBatch R data =
     (case read_vector R (ReadFixedBytes R SuiAddressLength) (NewDeserializer R data) of (targets, d1) \<Rightarrow>
      case read_vector R (ReadString R) d1 of (moduleNames, d2) \<Rightarrow>
      case read_vector R (ReadString R) d2 of (functionNames, d3) \<Rightarrow>
      case read_vector R (ReadBytes R) d3 of (datas, _) \<Rightarrow>
        if length targets \<noteq> length moduleNames \<or> length moduleNames \<noteq> length functionNames \<or>
           length functionNames \<noteq> length datas
        then Inl (Errorf ''vector lengths mismatch: targets=%d, moduleNames=%d, functionNames=%d, datas=%d'')
        else Inr (map (\<lambda>i. \<lparr>cl_Target = targets ! i, cl_ModuleName = moduleNames ! i, cl_FunctionName = functionNames ! i,
                           cl_Data = datas ! i, cl_StateObj = [], cl_TypeArgs = [], cl_CompiledModules = [],
                           cl_Dependencies = [], cl_PackageToUpgrade = []\<rparr>) [0..<length targets]))"

section \<open>Programmable transactions\<close>

text \<open>
  A signer is the address it signs for. An argument \<open>'g\<close> of a transaction block is an input or the
  result of an earlier command. The calls that are asked of the encoders of the bindings:
\<close>

record sui_opts =
  so_Signer :: "string option"
  so_WaitForExecution :: bool
  so_GasBudget :: "u64 option"

datatype 'g mcms_call =
    CallExecute string string u8 int string u64 string string string "byte list" "byte list list"
  | CallDispatchTimelockScheduleBatch string string 'g
  | CallDispatchTimelockCancel string 'g
  | CallDispatchTimelockBypasserExecuteBatch 'g
  | CallTimelockExecuteBatch string string string "string list" "string list" "string list" "byte list list" "byte list"
      "byte list"
  | CallMcmsDispatchToDeployer string string 'g
  | CallMcmsDispatchToAccount string string 'g
  | CallMcmsSetConfig string string 'g
  | CallMcmsTimelockCancel string string 'g
  | CallMcmsTimelockUpdateMinDelay string string 'g
  | CallCommitUpgrade string 'g

text \<open>
  The block \<open>'p\<close> is changed by what is appended to it. \<open>'c\<close> is the type of encoded calls, \<open>'y\<close> that of type
  tags; a bound contract is its package id.
\<close>

record ('p, 'g, 'c, 'y) ptb_pkg =
  pb_New :: 'p
  pb_Encode :: "string \<Rightarrow> 'g mcms_call \<Rightarrow> string + 'c"
  pb_AppendPTB :: "string \<Rightarrow> sui_opts \<Rightarrow> 'c \<Rightarrow> 'p \<Rightarrow> (string + 'g) \<times> 'p"
  pb_TypeTag :: "string \<Rightarrow> string + 'y"
  pb_Pure :: "u64 \<Rightarrow> 'p \<Rightarrow> 'g \<times> 'p"
  pb_MoveCall :: "string \<Rightarrow> string \<Rightarrow> string \<Rightarrow> 'y list \<Rightarrow> 'g list \<Rightarrow> 'p \<Rightarrow> 'g \<times> 'p"
  pb_Upgrade :: "byte list list \<Rightarrow> string list \<Rightarrow> string \<Rightarrow> 'g \<Rightarrow> 'p \<Rightarrow> 'g \<times> 'p"
  pb_NewMcmsDeployer :: "string \<Rightarrow> string + unit"

text \<open>A step of the builder whose error is wrapped, and the two steps that append a call.\<close>

definition ptb_step :: "string \<Rightarrow> ('p \<Rightarrow> (string + 'a) \<times> 'p) \<Rightarrow> 'p \<Rightarrow> 'a res \<times> 'p" where
  "ptb_step msg m p = (case m p of (r, p') \<Rightarrow> (wrapE (Wrapf msg) (ext r), p'))"

definition append_call ::
  "('p, 'g, 'c, 'y) ptb_pkg \<Rightarrow> string \<Rightarrow> sui_opts \<Rightarrow> string \<Rightarrow> string \<Rightarrow> 'g mcms_call \<Rightarrow> 'p \<Rightarrow> 'g res \<times> 'p" where
  "append_call B pkg opts encodeMsg appendMsg call =
     run_after (wrapE (Wrapf encodeMsg) (ext (pb_Encode B pkg call))) (\<lambda>encoded.
       ptb_step appendMsg (pb_AppendPTB B pkg opts encoded))"

section \<open>Executing callbacks\<close>

text \<open>
  The functions that \<open>NewExecutingCallbackParams\<close> stores are those of the file, the encoder of entry points
  is the caller's.
\<close>

record ('g, 'c) executing_callback_params =
  ecp_mcms :: string
  ecp_mcmsPackageID :: string
  ecp_EncodeEntryPointArg :: "'g \<Rightarrow> string \<Rightarrow> string \<Rightarrow> string \<Rightarrow> string \<Rightarrow> byte list \<Rightarrow> string list \<Rightarrow> string + 'c"
  ecp_registryObj :: string
  ecp_accountObj :: string

definition callback_opts :: sui_opts where
  "callback_opts = \<lparr>so_Signer = None, so_WaitForExecution = False, so_GasBudget = None\<rparr>"

definition callback_type :: "string \<Rightarrow> string" where
  "callback_type mcmsPackageID = mcmsPackageID @ ''::mcms_registry::ExecutingCallbackParams''"

definition extractExecutingCallbackParams ::
  "('p, 'g, 'c, 'y) ptb_pkg \<Rightarrow> string \<Rightarrow> 'g \<Rightarrow> 'p \<Rightarrow> 'g res \<times> 'p" where
  "extractExecutingCallbackParams B mcmsPackageID vectorExecutingCallback =
     run_after (wrapE (Wrapf ''failed to convert type string to TypeTag: %w'')
                  (ext (pb_TypeTag B (callback_type mcmsPackageID)))) (\<lambda>typeTag p.
       case pb_Pure B 0 p of (position, p1) \<Rightarrow>
       case pb_MoveCall B ''0x1'' ''vector'' ''remove'' [typeTag] [vectorExecutingCallback, position] p1 of (arg, p2) \<Rightarrow>
         (Inr arg, p2))"

definition closeExecutingCallbackParams ::
  "('p, 'g, 'c, 'y) ptb_pkg \<Rightarrow> string \<Rightarrow> 'g \<Rightarrow> 'p \<Rightarrow> unit res \<times> 'p" where
  "closeExecutingCallbackParams B mcmsPackageID vectorExecutingCallback =
     run_after (wrapE (Wrapf ''failed to convert type string to TypeTag: %w'')
                  (ext (pb_TypeTag B (callback_type mcmsPackageID)))) (\<lambda>typeTag p.
       case pb_MoveCall B ''0x1'' ''vector'' ''destroy_empty'' [typeTag] [vectorExecutingCallback] p of (_, p') \<Rightarrow>
         (Inr (), p'))"

text \<open>\<open>hex_encode\<close> writes lower case, which \<open>strings.ToLower\<close> leaves as it is.\<close>

definition formatTargetAddress :: "byte list \<Rightarrow> string" where
  "formatTargetAddress target = ''0x'' @ hex_encode target"

definition isTargetMCMSPackage :: "('g, 'c) executing_callback_params \<Rightarrow> string \<Rightarrow> bool" where
  "isTargetMCMSPackage e targetString \<longleftrightarrow> targetString = ecp_mcmsPackageID e"

definition executeDispatchToDeployer ::
  "('p, 'g, 'c, 'y) ptb_pkg \<Rightarrow> ('g, 'c) executing_callback_params \<Rightarrow> 'g \<Rightarrow> sui_call \<Rightarrow> 'p \<Rightarrow> 'g res \<times> 'p" where
  "executeDispatchToDeployer B e params call =
     append_call B (ecp_mcms e) callback_opts ''creating ExecuteDispatchToDeployer call %d: %w''
       ''adding ExecuteDispatchToDeployer call %d to PTB: %w''
       (CallMcmsDispatchToDeployer (ecp_registryObj e) (cl_StateObj call) params)"

definition performPackageUpgrade ::
  "('p, 'g, 'c, 'y) ptb_pkg \<Rightarrow> sui_call \<Rightarrow> 'g \<Rightarrow> 'p \<Rightarrow> 'g res \<times> 'p" where
  "performPackageUpgrade B call upgradeTicketArg p =
     (case pb_Upgrade B (cl_CompiledModules call) (cl_Dependencies call) (cl_PackageToUpgrade call) upgradeTicketArg p of
        (receipt, p') \<Rightarrow> (Inr receipt, p'))"

definition commitUpgrade ::
  "('p, 'g, 'c, 'y) ptb_pkg \<Rightarrow> ('g, 'c) executing_callback_params \<Rightarrow> sui_call \<Rightarrow> 'g \<Rightarrow> 'p \<Rightarrow> unit res \<times> 'p" where
  "commitUpgrade B e call upgradeReceiptArg =
     run_after (wrapE (Wrapf ''failed to create deployer contract: %w'')
                  (ext (pb_NewMcmsDeployer B (ecp_mcmsPackageID e)))) (\<lambda>_.
       bindW (append_call B (ecp_mcmsPackageID e) callback_opts ''failed to encode commit upgrade: %w''
                ''failed to append commit upgrade to PTB: %w'' (CallCommitUpgrade (cl_StateObj call) upgradeReceiptArg))
         (\<lambda>_ p. (Inr (), p)))"

definition processMCMSDeployerCall ::
  "('p, 'g, 'c, 'y) ptb_pkg \<Rightarrow> ('g, 'c) executing_callback_params \<Rightarrow> 'g \<Rightarrow> sui_call \<Rightarrow> 'p \<Rightarrow> unit res \<times> 'p" where
  "processMCMSDeployerCall B e params call =
     (if cl_FunctionName call \<noteq> suiMcmsDeployerAuthorizeUpgradeFuncName
      then (\<lambda>p. (Inl (Errorf ''%s calls must have FunctionName %s, got: %s''), p))
      else
        bindW (executeDispatchToDeployer B e params call) (\<lambda>ticket.
        bindW (performPackageUpgrade B call ticket) (\<lambda>receipt.
        commitUpgrade B e call receipt)))"

definition processMCMSAccountCall ::
  "('p, 'g, 'c, 'y) ptb_pkg \<Rightarrow> ('g, 'c) executing_callback_params \<Rightarrow> 'g \<Rightarrow> 'p \<Rightarrow> unit res \<times> 'p" where
  "processMCMSAccountCall B e params =
     bindW (append_call B (ecp_mcms e) callback_opts ''creating ExecuteDispatchToAccount call %d: %w''
              ''adding ExecuteDispatchToAccount call %d to PTB: %w''
              (CallMcmsDispatchToAccount (ecp_registryObj e) (ecp_accountObj e) params))
       (\<lambda>_ p. (Inr (), p))"

definition trim_mcms_prefix :: "string \<Rightarrow> string" where
  "trim_mcms_prefix s = (if prefix ''mcms_'' s then drop 5 s else s)"

definition main_module_call ::
  "('g, 'c) executing_callback_params \<Rightarrow> 'g \<Rightarrow> sui_call \<Rightarrow> 'g mcms_call res" where
  "main_module_call e params call =
     (let normalizedFunctionName = trim_mcms_prefix (cl_FunctionName call) in
      if normalizedFunctionName = suiMCMSSetConfigFunctionName
      then Inr (CallMcmsSetConfig (ecp_registryObj e) (cl_StateObj call) params)
      else if normalizedFunctionName = suiTimelockCancelFunctionName
      then Inr (CallMcmsTimelockCancel (cl_StateObj call) (ecp_registryObj e) params)
      else if normalizedFunctionName = suiTimelockUpdateMinDelayFunctionName
      then Inr (CallMcmsTimelockUpdateMinDelay (cl_StateObj call) (ecp_registryObj e) params)
      else Inl (Errorf ''unsupported MCMS main module function %q''))"

definition processMCMSMainModuleCall ::
  "('p, 'g, 'c, 'y) ptb_pkg \<Rightarrow> ('g, 'c) executing_callback_params \<Rightarrow> 'g \<Rightarrow> sui_call \<Rightarrow> 'p \<Rightarrow> unit res \<times> 'p" where
  "processMCMSMainModuleCall B e params call =
     run_after (main_module_call e params call) (\<lambda>mc.
       bindW (append_call B (ecp_mcms e) callback_opts ''creating MCMS main module call %d: %w''
                ''adding MCMS main module call %d to PTB: %w'' mc)
         (\<lambda>_ p. (Inr (), p)))"

definition processMCMSPackageCall ::
  "('p, 'g, 'c, 'y) ptb_pkg \<Rightarrow> ('g, 'c) executing_callback_params \<Rightarrow> 'g \<Rightarrow> sui_call \<Rightarrow> 'p \<Rightarrow> unit res \<times> 'p" where
  "processMCMSPackageCall B e params call =
     (if cl_ModuleName call = suiModuleNameMCMSDeployer then processMCMSDeployerCall B e params call
      else if cl_ModuleName call = suiModuleNameMCMSAccount then processMCMSAccountCall B e params
      else processMCMSMainModuleCall B e params call)"

definition processDestinationContractCall ::
  "('p, 'g, 'c, 'y) ptb_pkg \<Rightarrow> ('g, 'c) executing_callback_params \<Rightarrow> 'g \<Rightarrow> sui_call \<Rightarrow> string \<Rightarrow> 'p \<Rightarrow> unit res \<times> 'p" where
  "processDestinationContractCall B e params call targetString =
     run_after (wrapE (Wrapf ''failed to create mcms_entrypoint call: %w'')
                  (ext (ecp_EncodeEntryPointArg e params targetString (cl_ModuleName call) (cl_FunctionName call)
                     (cl_StateObj call) (cl_Data call) (cl_TypeArgs call)))) (\<lambda>encoded.
       bindW (ptb_step ''failed to append mcms_entrypoint call to PTB: %w''
                (pb_AppendPTB B (ecp_mcms e) callback_opts encoded))
         (\<lambda>_ p. (Inr (), p)))"

definition processCall ::
  "('p, 'g, 'c, 'y) ptb_pkg \<Rightarrow> ('g, 'c) executing_callback_params \<Rightarrow> 'g \<Rightarrow> sui_call \<Rightarrow> 'p \<Rightarrow> unit res \<times> 'p" where
  "processCall B e executeCallback call =
     (let targetString = formatTargetAddress (cl_Target call) in
      bindW (wrapW (Wrapf ''extracting ExecutingCallbackParams %d: %w'')
               (extractExecutingCallbackParams B (ecp_mcmsPackageID e) executeCallback)) (\<lambda>params.
        if isTargetMCMSPackage e targetString then processMCMSPackageCall B e params call
        else processDestinationContractCall B e params call targetString))"

definition callbacks_AppendPTB ::
  "('p, 'g, 'c, 'y) ptb_pkg \<Rightarrow> ('g, 'c) executing_callback_params \<Rightarrow> 'g \<Rightarrow> sui_call list \<Rightarrow> 'p \<Rightarrow> unit res \<times> 'p" where
  "callbacks_AppendPTB B e executeCallback calls =
     bindW (forW (processCall B e executeCallback) calls) (\<lambda>_.
       closeExecutingCallbackParams B (ecp_mcmsPackageID e) executeCallback)"

section \<open>The bindings and the node\<close>

text \<open>\<open>'x\<close> is the type of transaction responses, \<open>'w\<close> that of worlds. A view returns Go values of any type.\<close>

datatype sui_any = AnyBytes "byte list" | AnyU64 u64 | AnyOther

record sui_root_metadata =
  srm_PreOpCount :: u64
  srm_Multisig :: string

record ('w, 'x) sui_contract =
  suc_GetConfig :: "sui_opts \<Rightarrow> string \<Rightarrow> u8 \<Rightarrow> 'w \<Rightarrow> string + sui_config"
  suc_GetOpCount :: "sui_opts \<Rightarrow> string \<Rightarrow> u8 \<Rightarrow> 'w \<Rightarrow> string + u64"
  suc_GetRoot :: "sui_opts \<Rightarrow> string \<Rightarrow> u8 \<Rightarrow> 'w \<Rightarrow> string + sui_any list"
  suc_GetRootMetadata :: "sui_opts \<Rightarrow> string \<Rightarrow> u8 \<Rightarrow> 'w \<Rightarrow> string + sui_root_metadata"
  suc_SetRoot :: "sui_opts \<Rightarrow> string \<Rightarrow> string \<Rightarrow> u8 \<Rightarrow> byte list \<Rightarrow> u64 \<Rightarrow> int \<Rightarrow> string \<Rightarrow> u64 \<Rightarrow> u64 \<Rightarrow> bool \<Rightarrow>
    byte list list \<Rightarrow> byte list list \<Rightarrow> 'w \<Rightarrow> (string + 'x) \<times> 'w"
  suc_SetConfig :: "sui_opts \<Rightarrow> string \<Rightarrow> string \<Rightarrow> u8 \<Rightarrow> int \<Rightarrow> byte list list \<Rightarrow> u8 list \<Rightarrow> u8 list \<Rightarrow> u8 list \<Rightarrow> bool \<Rightarrow>
    'w \<Rightarrow> (string + 'x) \<times> 'w"
  suc_TimelockMinDelay :: "sui_opts \<Rightarrow> string \<Rightarrow> 'w \<Rightarrow> string + u64"
  suc_TimelockIsOperation :: "sui_opts \<Rightarrow> string \<Rightarrow> byte list \<Rightarrow> 'w \<Rightarrow> string + bool"
  suc_TimelockIsOperationPending :: "sui_opts \<Rightarrow> string \<Rightarrow> byte list \<Rightarrow> 'w \<Rightarrow> string + bool"
  suc_TimelockIsOperationReady :: "sui_opts \<Rightarrow> string \<Rightarrow> string \<Rightarrow> byte list \<Rightarrow> 'w \<Rightarrow> string + bool"
  suc_TimelockIsOperationDone :: "sui_opts \<Rightarrow> string \<Rightarrow> byte list \<Rightarrow> 'w \<Rightarrow> string + bool"

record ('p, 'w, 'x) sui_client =
  scl_NewMcms :: "string \<Rightarrow> string + ('w, 'x) sui_contract"
  scl_ExecutePTB :: "sui_opts \<Rightarrow> 'p \<Rightarrow> 'w \<Rightarrow> (string + 'x) \<times> 'w"
  scl_Digest :: "'x \<Rightarrow> string"

datatype 'x sui_raw = SuiResponse 'x | SuiPrepared transaction

definition sui_sent :: "('p, 'w, 'x) sui_client \<Rightarrow> 'x \<Rightarrow> 'x sui_raw transaction_result" where
  "sui_sent C tx = \<lparr>tr_Hash = scl_Digest C tx, tr_ChainFamily = Some FamilySui, tr_RawData = Some (SuiResponse tx)\<rparr>"

definition signer_opts :: "string \<Rightarrow> sui_opts" where
  "signer_opts s = \<lparr>so_Signer = Some s, so_WaitForExecution = False, so_GasBudget = None\<rparr>"

definition DefaultExecuteGasBudget :: u64 where "DefaultExecuteGasBudget = 10000000000"

definition execute_opts :: "string \<Rightarrow> sui_opts" where
  "execute_opts s = \<lparr>so_Signer = Some s, so_WaitForExecution = True, so_GasBudget = Some DefaultExecuteGasBudget\<rparr>"

definition sui_clock :: string where "sui_clock = ''0x6''"

section \<open>Inspector\<close>

record ('p, 'w, 'x) sui_inspector =
  si_client :: "('p, 'w, 'x) sui_client"
  si_signer :: string
  si_mcmsPackageID :: string
  si_mcms :: "('w, 'x) sui_contract"
  si_role :: sui_role

definition sui_NewInspector ::
  "('p, 'w, 'x) sui_client \<Rightarrow> string \<Rightarrow> string \<Rightarrow> sui_role \<Rightarrow> ('p, 'w, 'x) sui_inspector res" where
  "sui_NewInspector client signer mcmsPackageID role =
     bindE (ext (scl_NewMcms client mcmsPackageID)) (\<lambda>mcms.
       Inr \<lparr>si_client = client, si_signer = signer, si_mcmsPackageID = mcmsPackageID, si_mcms = mcms, si_role = role\<rparr>)"

definition sui_GetConfig :: "('p, 'w, 'x) sui_inspector \<Rightarrow> 'w \<Rightarrow> string \<Rightarrow> config res" where
  "sui_GetConfig i w mcmsAddr =
     bindE (wrapE (Wrapf ''failed to GetConfig: %w'')
              (ext (suc_GetConfig (si_mcms i) (signer_opts (si_signer i)) mcmsAddr (si_role i) w))) sui_ToConfig"

definition sui_GetOpCount :: "('p, 'w, 'x) sui_inspector \<Rightarrow> 'w \<Rightarrow> string \<Rightarrow> u64 res" where
  "sui_GetOpCount i w mcmsAddr =
     wrapE (Wrapf ''failed to GetOpCount: %w'')
       (ext (suc_GetOpCount (si_mcms i) (signer_opts (si_signer i)) mcmsAddr (si_role i) w))"

definition MinRootResultLength :: nat where "MinRootResultLength = 2"

definition sui_GetRoot :: "('p, 'w, 'x) sui_inspector \<Rightarrow> 'w \<Rightarrow> string \<Rightarrow> (hash \<times> u32) res" where
  "sui_GetRoot i w mcmsAddr =
     bindE (wrapE (Wrapf ''failed to GetRoot: %w'')
              (ext (suc_GetRoot (si_mcms i) (signer_opts (si_signer i)) mcmsAddr (si_role i) w))) (\<lambda>result.
     if length result < MinRootResultLength
     then Inl (Errorf ''invalid root result: expected %d elements, got %d'')
     else case result ! 0 of
       AnyBytes merkleRoot \<Rightarrow>
         (case result ! 1 of
            AnyU64 validUntil \<Rightarrow> Inr (from_be merkleRoot, ucast validUntil)
          | _ \<Rightarrow> Inl (Errorf ''invalid validUntil type: expected uint64''))
     | _ \<Rightarrow> Inl (Errorf ''invalid root type: expected []byte''))"

definition sui_GetRootMetadata :: "('p, 'w, 'x) sui_inspector \<Rightarrow> 'w \<Rightarrow> string \<Rightarrow> chain_metadata res" where
  "sui_GetRootMetadata i w mcmsAddr =
     bindE (wrapE (Wrapf ''failed to GetRootMetadata: %w'')
              (ext (suc_GetRootMetadata (si_mcms i) (signer_opts (si_signer i)) mcmsAddr (si_role i) w))) (\<lambda>rm.
       Inr \<lparr>cm_StartingOpCount = srm_PreOpCount rm, cm_MCMAddress = srm_Multisig rm, cm_AdditionalFields = RawEmpty\<rparr>)"

definition sui_inspector :: "('p, 'w, 'x) sui_inspector \<Rightarrow> 'w \<Rightarrow> inspector" where
  "sui_inspector i w = \<lparr>insp_GetConfig = sui_GetConfig i w, insp_GetOpCount = sui_GetOpCount i w\<rparr>"

section \<open>Timelock inspector\<close>

record ('p, 'w, 'x) sui_timelock_inspector =
  sti_client :: "('p, 'w, 'x) sui_client"
  sti_signer :: string
  sti_mcmsPackageID :: string
  sti_mcms :: "('w, 'x) sui_contract"

definition sui_NewTimelockInspector ::
  "('p, 'w, 'x) sui_client \<Rightarrow> string \<Rightarrow> string \<Rightarrow> ('p, 'w, 'x) sui_timelock_inspector res" where
  "sui_NewTimelockInspector client signer mcmsPackageID =
     bindE (ext (scl_NewMcms client mcmsPackageID)) (\<lambda>mcms.
       Inr \<lparr>sti_client = client, sti_signer = signer, sti_mcmsPackageID = mcmsPackageID, sti_mcms = mcms\<rparr>)"

definition sui_GetMinDelay :: "('p, 'w, 'x) sui_timelock_inspector \<Rightarrow> 'w \<Rightarrow> string \<Rightarrow> u64 res" where
  "sui_GetMinDelay tm w addr =
     wrapE (Wrapf ''failed to get min delay: %w'')
       (ext (suc_TimelockMinDelay (sti_mcms tm) (signer_opts (sti_signer tm)) addr w))"

definition sui_unsupported :: "string list res" where
  "sui_unsupported = Inl (Errorf ''unsupported on Sui'')"

definition sui_GetProposers :: "string \<Rightarrow> string list res" where "sui_GetProposers addr = sui_unsupported"
definition sui_GetExecutors :: "string \<Rightarrow> string list res" where "sui_GetExecutors addr = sui_unsupported"
definition sui_GetBypassers :: "string \<Rightarrow> string list res" where "sui_GetBypassers addr = sui_unsupported"
definition sui_GetCancellers :: "string \<Rightarrow> string list res" where "sui_GetCancellers addr = sui_unsupported"

definition sui_IsOperation :: "('p, 'w, 'x) sui_timelock_inspector \<Rightarrow> 'w \<Rightarrow> string \<Rightarrow> hash \<Rightarrow> bool res" where
  "sui_IsOperation tm w addr opID =
     wrapE (Wrapf ''failed to check if operation exists: %w'')
       (ext (suc_TimelockIsOperation (sti_mcms tm) (signer_opts (sti_signer tm)) addr (be_bytes 32 opID) w))"

definition sui_IsOperationPending :: "('p, 'w, 'x) sui_timelock_inspector \<Rightarrow> 'w \<Rightarrow> string \<Rightarrow> hash \<Rightarrow> bool res" where
  "sui_IsOperationPending tm w addr opID =
     wrapE (Wrapf ''failed to check if operation is pending: %w'')
       (ext (suc_TimelockIsOperationPending (sti_mcms tm) (signer_opts (sti_signer tm)) addr (be_bytes 32 opID) w))"

definition sui_IsOperationReady :: "('p, 'w, 'x) sui_timelock_inspector \<Rightarrow> 'w \<Rightarrow> string \<Rightarrow> hash \<Rightarrow> bool res" where
  "sui_IsOperationReady tm w addr opID =
     wrapE (Wrapf ''failed to check if operation is ready: %w'')
       (ext (suc_TimelockIsOperationReady (sti_mcms tm) (signer_opts (sti_signer tm)) addr sui_clock (be_bytes 32 opID) w))"

definition sui_IsOperationDone :: "('p, 'w, 'x) sui_timelock_inspector \<Rightarrow> 'w \<Rightarrow> string \<Rightarrow> hash \<Rightarrow> bool res" where
  "sui_IsOperationDone tm w addr opID =
     wrapE (Wrapf ''failed to check if operation is done: %w'')
       (ext (suc_TimelockIsOperationDone (sti_mcms tm) (signer_opts (sti_signer tm)) addr (be_bytes 32 opID) w))"

section \<open>Executor\<close>

definition sui_SignatureVOffset :: u8 where "sui_SignatureVOffset = 27"
definition sui_SignatureVThreshold :: u8 where "sui_SignatureVThreshold = 2"

record ('p, 'g, 'c, 'w, 'x) sui_executor =
  sex_Encoder :: "sui_encoder option"
  sex_Inspector :: "('p, 'w, 'x) sui_inspector"
  sex_client :: "('p, 'w, 'x) sui_client"
  sex_signer :: string
  sex_mcmsPackageID :: string
  sex_mcms :: "('w, 'x) sui_contract"
  sex_mcmsObj :: string
  sex_accountObj :: string
  sex_registryObj :: string
  sex_timelockObj :: string
  sex_callbacks :: "('g, 'c) executing_callback_params"

definition NewExecutingCallbackParams ::
  "string \<Rightarrow> ('g \<Rightarrow> string \<Rightarrow> string \<Rightarrow> string \<Rightarrow> string \<Rightarrow> byte list \<Rightarrow> string list \<Rightarrow> string + 'c) \<Rightarrow> string \<Rightarrow> string \<Rightarrow>
     ('g, 'c) executing_callback_params" where
  "NewExecutingCallbackParams mcmsPackageID entryPointEncoder registryObj accountObj =
     \<lparr>ecp_mcms = mcmsPackageID, ecp_mcmsPackageID = mcmsPackageID, ecp_EncodeEntryPointArg = entryPointEncoder,
      ecp_registryObj = registryObj, ecp_accountObj = accountObj\<rparr>"

definition sui_NewExecutor ::
  "('p, 'w, 'x) sui_client \<Rightarrow> string \<Rightarrow> sui_encoder option \<Rightarrow>
     ('g \<Rightarrow> string \<Rightarrow> string \<Rightarrow> string \<Rightarrow> string \<Rightarrow> byte list \<Rightarrow> string list \<Rightarrow> string + 'c) \<Rightarrow> string \<Rightarrow> sui_role \<Rightarrow>
     string \<Rightarrow> string \<Rightarrow> string \<Rightarrow> string \<Rightarrow> ('p, 'g, 'c, 'w, 'x) sui_executor res" where
  "sui_NewExecutor client signer encoder entrypointEncoder mcmsPackageID role mcmsObj accountObj registryObj timelockObj =
     bindE (ext (scl_NewMcms client mcmsPackageID)) (\<lambda>mcms.
     bindE (sui_NewInspector client signer mcmsPackageID role) (\<lambda>inspector.
       Inr \<lparr>sex_Encoder = encoder, sex_Inspector = inspector, sex_client = client, sex_signer = signer,
            sex_mcmsPackageID = mcmsPackageID, sex_mcms = mcms, sex_mcmsObj = mcmsObj, sex_accountObj = accountObj,
            sex_registryObj = registryObj, sex_timelockObj = timelockObj,
            sex_callbacks = NewExecutingCallbackParams mcmsPackageID entrypointEncoder registryObj accountObj\<rparr>))"

text \<open>
  The package that a call goes to: the override of the call, else that of the batch, else the target. The
  data of an upgrade are not among the fields that are copied.
\<close>

definition bypass_target :: "sui_fields \<Rightarrow> nat \<Rightarrow> sui_call \<Rightarrow> byte list res" where
  "bypass_target additionalFields i call =
     (if i < length (sf_InternalLatestPackageIDs additionalFields) \<and> sf_InternalLatestPackageIDs additionalFields ! i \<noteq> []
      then bindE (wrapE (Wrapf ''failed to parse internal_latest_package_ids[%d] %q: %w'')
                    (AddressFromHex (sf_InternalLatestPackageIDs additionalFields ! i))) (\<lambda>latestAddr.
             Inr (sui_address_Bytes latestAddr))
      else if sf_LatestPackageID additionalFields \<noteq> []
      then bindE (wrapE (Wrapf ''failed to parse latest_package_id %q: %w'')
                    (AddressFromHex (sf_LatestPackageID additionalFields))) (\<lambda>latestAddr.
             Inr (sui_address_Bytes latestAddr))
      else Inr (cl_Target call))"

definition bypass_call :: "sui_fields \<Rightarrow> nat \<times> sui_call \<Rightarrow> sui_call res" where
  "bypass_call additionalFields icall = (case icall of (i, call) \<Rightarrow>
     bindE (bypass_target additionalFields i call) (\<lambda>callTarget.
     if i \<ge> length (sf_InternalStateObjects additionalFields) \<or> i \<ge> length (sf_InternalTypeArgs additionalFields)
     then Inl (Panic ''index out of range'')
     else Inr \<lparr>cl_Target = callTarget, cl_ModuleName = cl_ModuleName call, cl_FunctionName = cl_FunctionName call,
               cl_Data = cl_Data call, cl_StateObj = sf_InternalStateObjects additionalFields ! i,
               cl_TypeArgs = sf_InternalTypeArgs additionalFields ! i, cl_CompiledModules = [], cl_Dependencies = [],
               cl_PackageToUpgrade = []\<rparr>))"

text \<open>The error of the deserialiser is not the one that is wrapped.\<close>

definition bypass_calls :: "'d bcs_reader \<Rightarrow> sui_fields \<Rightarrow> byte list \<Rightarrow> sui_call list res" where
  "bypass_calls R additionalFields data =
     (case deserializeTimelockBypasserExecuteBatch R data of
        Inl desErr \<Rightarrow> Inl (Errorf ''failed to deserialize timelock bypasser execute batch: %w'')
      | Inr calls \<Rightarrow>
          if length calls \<noteq> length (sf_InternalStateObjects additionalFields)
          then Inl (Errorf ''mismatched call and state object count'')
          else mapE (bypass_call additionalFields) (enumerate 0 calls))"

definition append_timelock_call ::
  "('p, 'g, 'c, 'y) ptb_pkg \<Rightarrow> 'd bcs_reader \<Rightarrow> ('p, 'g, 'c, 'w, 'x) sui_executor \<Rightarrow> sui_fields \<Rightarrow> byte list \<Rightarrow> 'g \<Rightarrow>
     'p \<Rightarrow> unit res \<times> 'p" where
  "append_timelock_call B R e additionalFields data timelockCallback =
     (let opts = execute_opts (sex_signer e) in
      if sf_Function additionalFields \<noteq> suiTimelockBypassFunctionName \<and>
         sf_Function additionalFields \<noteq> suiTimelockScheduleFunctionName \<and>
         sf_Function additionalFields \<noteq> suiTimelockCancelFunctionName
      then (\<lambda>p. (Inl (Errorf ''unsupported timelock action: %s''), p))
      else if sf_Function additionalFields = suiTimelockScheduleFunctionName
      then bindW (append_call B (sex_mcmsPackageID e) opts ''creating timelock call: %w'' ''adding timelock call to PTB: %w''
                    (CallDispatchTimelockScheduleBatch (sex_timelockObj e) sui_clock timelockCallback))
             (\<lambda>_ p. (Inr (), p))
      else if sf_Function additionalFields = suiTimelockCancelFunctionName
      then bindW (append_call B (sex_mcmsPackageID e) opts ''creating timelock call: %w'' ''adding timelock call to PTB: %w''
                    (CallDispatchTimelockCancel (sex_timelockObj e) timelockCallback))
             (\<lambda>_ p. (Inr (), p))
      else
        bindW (append_call B (sex_mcmsPackageID e) opts ''creating timelock call: %w'' ''building PTB for timelock call: %w''
                 (CallDispatchTimelockBypasserExecuteBatch timelockCallback)) (\<lambda>executeCallback.
        run_after (bypass_calls R additionalFields data) (\<lambda>calls.
        wrapW (Wrapf ''extending PTB from executing callback params: %w'')
          (callbacks_AppendPTB B (sex_callbacks e) executeCallback calls))))"

text \<open>The block that an execution builds, before the node sees it.\<close>

definition execute_ptb ::
  "'s sui_pkg_scheme \<Rightarrow> ('p, 'g, 'c, 'y) ptb_pkg \<Rightarrow> 'd bcs_reader \<Rightarrow> ('p, 'g, 'c, 'w, 'x) sui_executor \<Rightarrow> chain_metadata \<Rightarrow>
     u32 \<Rightarrow> hash list \<Rightarrow> operation \<Rightarrow> 'p \<Rightarrow> unit res \<times> 'p" where
  "execute_ptb S B R e metadata nonce proof op =
     run_after
       (bindE (wrapE (Wrapf ''failed to unmarshal additional fields: %w'')
                 (SuiFieldsUnmarshal S (tx_AdditionalFields (op_Transaction op)))) (\<lambda>additionalFields.
        bindE (sui_metadata_of S metadata) (\<lambda>additionalFieldsMetadata.
        bindE (deref (sex_Encoder e)) (\<lambda>enc.
        bindE (SuiChainIdFromSelector S (se_ChainSelector enc)) (\<lambda>chainID.
        bindE (wrapE (Wrapf ''failed to parse To address %q: %w'')
                 (AddressFromHex (tx_To (op_Transaction op)))) (\<lambda>toAddress.
          Inr (additionalFields, sm_Role additionalFieldsMetadata, uint chainID, toAddress)))))))
       (\<lambda>(additionalFields, role, chainID, toAddress).
          bindW (append_call B (sex_mcmsPackageID e) (execute_opts (sex_signer e))
                   ''executing operation on Sui mcms contract: %w'' ''building PTB for execute call: %w''
                   (CallExecute (sex_mcmsObj e) sui_clock role chainID (sex_mcmsPackageID e) (ucast nonce)
                      (sui_address_Hex toAddress) (sf_ModuleName additionalFields) (sf_Function additionalFields)
                      (tx_Data (op_Transaction op)) (map (be_bytes 32) proof)))
            (append_timelock_call B R e additionalFields (tx_Data (op_Transaction op))))"

text \<open>A block that was built is sent; nothing is sent otherwise.\<close>

definition send_ptb ::
  "('p, 'w, 'x) sui_client \<Rightarrow> string \<Rightarrow> 'p \<Rightarrow> ('p \<Rightarrow> unit res \<times> 'p) \<Rightarrow> 'w \<Rightarrow> 'x sui_raw transaction_result res \<times> 'w" where
  "send_ptb client signer new build w =
     (case build new of
        (Inl err, _) \<Rightarrow> (Inl err, w)
      | (Inr _, ptb) \<Rightarrow>
          bindW (ptb_step ''op execution with PTB failed: %w'' (scl_ExecutePTB client (execute_opts signer) ptb))
            (\<lambda>tx w'. (Inr (sui_sent client tx), w')) w)"

text \<open>The objects of a block are resolved against the world in which it is built.\<close>

definition sui_ExecuteOperation ::
  "'s sui_pkg_scheme \<Rightarrow> ('w \<Rightarrow> ('p, 'g, 'c, 'y) ptb_pkg) \<Rightarrow> 'd bcs_reader \<Rightarrow> ('p, 'g, 'c, 'w, 'x) sui_executor \<Rightarrow>
     chain_metadata \<Rightarrow> u32 \<Rightarrow> hash list \<Rightarrow> operation \<Rightarrow> 'w \<Rightarrow> 'x sui_raw transaction_result res \<times> 'w" where
  "sui_ExecuteOperation S B R e metadata nonce proof op w =
     send_ptb (sex_client e) (sex_signer e) (pb_New (B w)) (execute_ptb S (B w) R e metadata nonce proof op) w"

text \<open>\<open>R\<close> and \<open>S\<close> of a signature are hashes, 32 bytes each: the padding adds nothing.\<close>

definition pad_left :: "nat \<Rightarrow> byte list \<Rightarrow> byte list" where
  "pad_left n bs = (if length bs < n then replicate (n - length bs) 0 @ bs else bs)"

definition sui_encodeSignatures :: "signature list \<Rightarrow> byte list list" where
  "sui_encodeSignatures signatures =
     map (\<lambda>s. pad_left 32 (be_bytes 32 (sig_R s)) @ pad_left 32 (be_bytes 32 (sig_S s)) @
            [if sig_V s \<le> sui_SignatureVThreshold then sig_V s + sui_SignatureVOffset else sig_V s]) signatures"

definition sui_SetRoot ::
  "'s sui_pkg_scheme \<Rightarrow> ('p, 'g, 'c, 'w, 'x) sui_executor \<Rightarrow> chain_metadata \<Rightarrow> hash list \<Rightarrow> hash \<Rightarrow> u32 \<Rightarrow> signature list \<Rightarrow>
     'w \<Rightarrow> 'x sui_raw transaction_result res \<times> 'w" where
  "sui_SetRoot S e metadata proof merkleRoot validUntil sortedSignatures =
     run_after
       (bindE (sui_metadata_of S metadata) (\<lambda>additionalFieldsMetadata.
        bindE (deref (sex_Encoder e)) (\<lambda>enc.
        bindE (SuiChainIdFromSelector S (se_ChainSelector enc)) (\<lambda>chainID.
          Inr (sm_Role additionalFieldsMetadata, enc, uint chainID)))))
       (\<lambda>(role, enc, chainID).
          bindW (ptb_step ''setting root on Sui mcms contract: %w''
                   (suc_SetRoot (sex_mcms e) (execute_opts (sex_signer e)) (sex_mcmsObj e) sui_clock role
                      (be_bytes 32 merkleRoot) (ucast validUntil) chainID (sex_mcmsPackageID e)
                      (cm_StartingOpCount metadata) (cm_StartingOpCount metadata + se_TxCount enc)
                      (se_OverridePreviousRoot enc) (map (be_bytes 32) proof) (sui_encodeSignatures sortedSignatures)))
            (\<lambda>tx w'. (Inr (sui_sent (sex_client e) tx), w')))"

definition sui_executor_iface ::
  "'s sui_pkg_scheme \<Rightarrow> ('w \<Rightarrow> ('p, 'g, 'c, 'y) ptb_pkg) \<Rightarrow> 'd bcs_reader \<Rightarrow> ('p, 'g, 'c, 'w, 'x) sui_executor \<Rightarrow>
     ('x sui_raw transaction_result, 'w) executor" where
  "sui_executor_iface S B R e = \<lparr>ex_SetRoot = sui_SetRoot S e, ex_ExecuteOperation = sui_ExecuteOperation S B R e\<rparr>"

section \<open>Timelock executor\<close>

record ('p, 'g, 'c, 'w, 'x) sui_timelock_executor =
  ste_Inspector :: "('p, 'w, 'x) sui_timelock_inspector"
  ste_client :: "('p, 'w, 'x) sui_client"
  ste_signer :: string
  ste_mcmsPackageID :: string
  ste_registryObj :: string
  ste_accountObj :: string
  ste_callbacks :: "('g, 'c) executing_callback_params"

definition sui_NewTimelockExecutor ::
  "('p, 'w, 'x) sui_client \<Rightarrow> string \<Rightarrow>
     ('g \<Rightarrow> string \<Rightarrow> string \<Rightarrow> string \<Rightarrow> string \<Rightarrow> byte list \<Rightarrow> string list \<Rightarrow> string + 'c) \<Rightarrow> string \<Rightarrow> string \<Rightarrow>
     string \<Rightarrow> ('p, 'g, 'c, 'w, 'x) sui_timelock_executor res" where
  "sui_NewTimelockExecutor client signer entrypointEncoder mcmsPackageID registryObj accountObj =
     bindE (sui_NewTimelockInspector client signer mcmsPackageID) (\<lambda>timelockInspector.
       Inr \<lparr>ste_Inspector = timelockInspector, ste_client = client, ste_signer = signer, ste_mcmsPackageID = mcmsPackageID,
            ste_registryObj = registryObj, ste_accountObj = accountObj,
            ste_callbacks = NewExecutingCallbackParams mcmsPackageID entrypointEncoder registryObj accountObj\<rparr>)"

definition timelock_call :: "'s sui_pkg_scheme \<Rightarrow> transaction \<Rightarrow> sui_call res" where
  "timelock_call S tx =
     bindE (wrapE (Wrapf ''failed to unmarshal additional fields: %w'')
              (SuiFieldsUnmarshal S (tx_AdditionalFields tx))) (\<lambda>additionalFields.
     bindE (wrapE (Wrapf ''failed to parse target address %q: %w'') (AddressFromHex (tx_To tx))) (\<lambda>targetAddress.
     bindE (if sf_LatestPackageID additionalFields \<noteq> []
            then bindE (wrapE (Wrapf ''failed to parse latest_package_id %q: %w'')
                          (AddressFromHex (sf_LatestPackageID additionalFields))) (\<lambda>latestAddr.
                   Inr (sui_address_Bytes latestAddr))
            else Inr (sui_address_Bytes targetAddress)) (\<lambda>callTarget.
       Inr \<lparr>cl_Target = callTarget, cl_ModuleName = sf_ModuleName additionalFields,
            cl_FunctionName = sf_Function additionalFields, cl_Data = tx_Data tx, cl_StateObj = sf_StateObj additionalFields,
            cl_TypeArgs = sf_TypeArgs additionalFields, cl_CompiledModules = sf_CompiledModules additionalFields,
            cl_Dependencies = sf_Dependencies additionalFields,
            cl_PackageToUpgrade = sf_PackageToUpgrade additionalFields\<rparr>)))"

definition timelock_ptb ::
  "'s sui_pkg_scheme \<Rightarrow> ('p, 'g, 'c, 'y) ptb_pkg \<Rightarrow> ('p, 'g, 'c, 'w, 'x) sui_timelock_executor \<Rightarrow> batch_operation \<Rightarrow>
     string \<Rightarrow> hash \<Rightarrow> hash \<Rightarrow> 'p \<Rightarrow> unit res \<times> 'p" where
  "timelock_ptb S B t bop timelockAddress predecessor salt =
     run_after (mapE (timelock_call S) (bop_Transactions bop)) (\<lambda>calls.
       bindW (append_call B (ste_mcmsPackageID t) (execute_opts (ste_signer t)) ''failed to execute batch: %w''
                ''building PTB for execute call: %w''
                (CallTimelockExecuteBatch timelockAddress sui_clock (ste_registryObj t) (map tx_To (bop_Transactions bop))
                   (map cl_ModuleName calls) (map cl_FunctionName calls) (map tx_Data (bop_Transactions bop))
                   (be_bytes 32 predecessor) (be_bytes 32 salt))) (\<lambda>executeCallback.
         wrapW (Wrapf ''extending PTB from executing callback params: %w'')
           (callbacks_AppendPTB B (ste_callbacks t) executeCallback calls)))"

definition sui_timelock_Execute ::
  "'s sui_pkg_scheme \<Rightarrow> ('w \<Rightarrow> ('p, 'g, 'c, 'y) ptb_pkg) \<Rightarrow> ('p, 'g, 'c, 'w, 'x) sui_timelock_executor \<Rightarrow>
     batch_operation \<Rightarrow> string \<Rightarrow> hash \<Rightarrow> hash \<Rightarrow> 'w \<Rightarrow> 'x sui_raw transaction_result res \<times> 'w" where
  "sui_timelock_Execute S B t bop timelockAddress predecessor salt w =
     send_ptb (ste_client t) (ste_signer t) (pb_New (B w)) (timelock_ptb S (B w) t bop timelockAddress predecessor salt) w"

definition sui_timelock_executor_Equal ::
  "('p, 'g, 'c, 'w, 'x) sui_timelock_executor \<Rightarrow> ('p, 'g, 'c, 'w, 'x) sui_timelock_executor \<Rightarrow> bool" where
  "sui_timelock_executor_Equal t other \<longleftrightarrow> ste_mcmsPackageID t = ste_mcmsPackageID other \<and>
     ste_registryObj t = ste_registryObj other \<and> ste_accountObj t = ste_accountObj other"

definition sui_timelock_executor_iface ::
  "'s sui_pkg_scheme \<Rightarrow> ('w \<Rightarrow> ('p, 'g, 'c, 'y) ptb_pkg) \<Rightarrow> 'w \<Rightarrow> ('p, 'g, 'c, 'w, 'x) sui_timelock_executor \<Rightarrow>
     ('x sui_raw transaction_result, 'w) timelock_executor" where
  "sui_timelock_executor_iface S B w0 t =
     \<lparr>te_IsOperationPending = sui_IsOperationPending (ste_Inspector t) w0,
      te_IsOperationReady = sui_IsOperationReady (ste_Inspector t) w0,
      te_IsOperationDone = sui_IsOperationDone (ste_Inspector t) w0,
      te_Execute = sui_timelock_Execute S B t\<rparr>"

section \<open>Configurers\<close>

record ('p, 'w, 'x) sui_configurer =
  sco_client :: "('p, 'w, 'x) sui_client"
  sco_signer :: string
  sco_role :: sui_role
  sco_mcms :: "('w, 'x) sui_contract"
  sco_ownerCap :: string
  sco_chainSelector :: u64

definition sui_NewConfigurer ::
  "('p, 'w, 'x) sui_client \<Rightarrow> string \<Rightarrow> sui_role \<Rightarrow> string \<Rightarrow> string \<Rightarrow> u64 \<Rightarrow> ('p, 'w, 'x) sui_configurer res" where
  "sui_NewConfigurer client signer role mcmsPackageID ownerCap chainSelector =
     bindE (ext (scl_NewMcms client mcmsPackageID)) (\<lambda>mcms.
       Inr \<lparr>sco_client = client, sco_signer = signer, sco_role = role, sco_mcms = mcms, sco_ownerCap = ownerCap,
            sco_chainSelector = chainSelector\<rparr>)"

definition sui_SetConfig ::
  "'x cast_pkg_scheme \<Rightarrow> 's sui_pkg_scheme \<Rightarrow> ('p, 'w, 't) sui_configurer \<Rightarrow> string \<Rightarrow> config \<Rightarrow> bool \<Rightarrow> 'w \<Rightarrow>
     't sui_raw transaction_result res \<times> 'w" where
  "sui_SetConfig X S c mcmsAddr cfg clearRoot =
     run_after
       (bindE (SuiChainIdFromSelector S (sco_chainSelector c)) (\<lambda>chainID.
        bindE (wrapE (Wrapf ''unable to extract set config inputs: %w'') (ExtractSetConfigInputs X cfg)) (\<lambda>inputs.
          Inr (uint chainID, inputs))))
       (\<lambda>(chainID, groupQuorum, groupParents, signerAddresses, signerGroups).
          bindW (ptb_step ''failed to set config: %w''
                   (suc_SetConfig (sco_mcms c)
                      \<lparr>so_Signer = Some (sco_signer c), so_WaitForExecution = True, so_GasBudget = None\<rparr> (sco_ownerCap c)
                      mcmsAddr (sco_role c) chainID (map (be_bytes 20) signerAddresses) signerGroups groupQuorum groupParents
                      clearRoot))
            (\<lambda>tx w'. (Inr (sui_sent (sco_client c) tx), w')))"

definition serializeTimelockUpdateMinDelay :: "'b bcs_pkg_scheme \<Rightarrow> string \<Rightarrow> u64 \<Rightarrow> byte list res" where
  "serializeTimelockUpdateMinDelay B timelockAddress newMinDelay =
     bindE (wrapE (Wrapf ''decoding timelock address: %w'') (AddressFromHex timelockAddress)) (\<lambda>timelockAddr.
       SerializeSingle B [SerFixedBytes (sui_address_Bytes timelockAddr), SerU64 newMinDelay])"

text \<open>A timelock configurer is the id of its package; its update is prepared, not sent.\<close>

definition sui_UpdateDelay ::
  "'s sui_pkg_scheme \<Rightarrow> string \<Rightarrow> string \<Rightarrow> u64 \<Rightarrow> 'x sui_raw transaction_result res" where
  "sui_UpdateDelay S mcmsPackageID timelockAddress newDelay =
     (if timelockAddress = [] then Inl (Errorf ''timelock address is required'')
      else
        bindE (wrapE (Wrapf ''encoding timelock_update_min_delay: %w'')
                 (serializeTimelockUpdateMinDelay S timelockAddress newDelay)) (\<lambda>data.
        bindE (wrapE (Wrapf ''creating mcms transaction: %w'')
                 (NewTransactionWithStateObj S suiTimelockUpdateMinDelayModuleName suiTimelockUpdateMinDelayFunctionName
                    mcmsPackageID data [] [] timelockAddress [])) (\<lambda>tx.
          Inr \<lparr>tr_Hash = [], tr_ChainFamily = Some FamilySui, tr_RawData = Some (SuiPrepared tx)\<rparr>)))"

definition sui_GrantRole :: "string \<Rightarrow> string \<Rightarrow> 'x sui_raw transaction_result res" where
  "sui_GrantRole timelockAddress targetAddress = Inl (Panic ''not implemented'')"

end
