(* ===== verification/SuiExecution.thy ===== *)
theory SuiExecution
  imports SuiClient
begin

text \<open>
  What the Sui clients achieve on the chain. The calls of a bypassed batch are read back as they were
  written. The block of commands that an execution submits is run on a machine with the results of
  its commands as linear resources: it passes the check of the MCM, every callback is handed to the
  call it stands for, in order, and no resource is left over.
\<close>

section \<open>Reading back what was written\<close>

text \<open>The documented deserialiser: \<open>rem\<close> is the input that a state has still to read.\<close>

definition reader_documented :: "'d bcs_reader \<Rightarrow> ('d \<Rightarrow> byte list) \<Rightarrow> bool" where
  "reader_documented R rem \<longleftrightarrow>
     (\<forall>bs. rem (NewDeserializer R bs) = bs) \<and>
     (\<forall>d n r. n < 2 ^ 32 \<and> rem d = uleb128 n @ r \<longrightarrow> (\<exists>d'. ReadUleb128 R d = (word_of_nat n, d') \<and> rem d' = r)) \<and>
     (\<forall>d bs r. rem d = bs @ r \<longrightarrow> (\<exists>d'. ReadFixedBytes R (length bs) d = (bs, d') \<and> rem d' = r)) \<and>
     (\<forall>d s r. length s < 2 ^ 32 \<and> rem d = uleb128 (length s) @ string_bytes s @ r \<longrightarrow>
        (\<exists>d'. ReadString R d = (s, d') \<and> rem d' = r)) \<and>
     (\<forall>d bs r. length bs < 2 ^ 32 \<and> rem d = uleb128 (length bs) @ bs @ r \<longrightarrow>
        (\<exists>d'. ReadBytes R d = (bs, d') \<and> rem d' = r))"

definition reads :: "('d \<Rightarrow> byte list) \<Rightarrow> ('d \<Rightarrow> 'a \<times> 'd) \<Rightarrow> ('a \<Rightarrow> byte list) \<Rightarrow> 'a \<Rightarrow> bool" where
  "reads rem rd enc x \<longleftrightarrow> (\<forall>d r. rem d = enc x @ r \<longrightarrow> (\<exists>d'. rd d = (x, d') \<and> rem d' = r))"

lemma read_items_reads:
  assumes "\<forall>x \<in> set xs. reads rem rd enc x"
  shows "reads rem (read_items rd (length xs)) (\<lambda>xs. concat (map enc xs)) xs"
  using assms
proof (induction xs)
  case (Cons x xs)
  show ?case
    unfolding reads_def
  proof (intro allI impI)
    fix d r
    assume "rem d = concat (map enc (x # xs)) @ r"
    then have "rem d = enc x @ (concat (map enc xs) @ r)" by simp
    with Cons.prems obtain d1 where d1: "rd d = (x, d1)" "rem d1 = concat (map enc xs) @ r"
      unfolding reads_def by (metis list.set_intros(1))
    with Cons obtain d2 where "read_items rd (length xs) d1 = (xs, d2)" "rem d2 = r" by (auto simp: reads_def)
    with d1 show "\<exists>d'. read_items rd (length (x # xs)) d = (x # xs, d') \<and> rem d' = r" by auto
  qed
qed (simp add: reads_def)

lemma read_vector_reads:
  assumes "reader_documented R rem" and "length xs < 2 ^ 32" and "\<forall>x \<in> set xs. reads rem rd enc x"
    and "rem d = uleb128 (length xs) @ concat (map enc xs) @ r"
  obtains d' where "read_vector R rd d = (xs, d')" "rem d' = r"
proof -
  from assms(1,2,4) obtain d1 where "ReadUleb128 R d = (word_of_nat (length xs), d1)" "rem d1 = concat (map enc xs) @ r"
    unfolding reader_documented_def by blast
  moreover obtain d2 where "read_items rd (length xs) d1 = (xs, d2)" "rem d2 = r"
    using read_items_reads [OF assms(3)] calculation(2) by (auto simp: reads_def)
  ultimately show thesis using that unat_u32_of_nat [OF assms(2)] by (auto simp: read_vector_def)
qed

text \<open>The four vectors of a bypassed batch, and what is read of them.\<close>

definition sui_bypass_bytes :: "move_call list \<Rightarrow> byte list" where
  "sui_bypass_bytes calls =
     uleb128 (length calls) @ concat (map (sui_address_Bytes \<circ> mvc_Target) calls) @
     uleb128 (length calls) @ concat (map (\<lambda>c. uleb128 (length (mvc_Module c)) @ string_bytes (mvc_Module c)) calls) @
     uleb128 (length calls) @ concat (map (\<lambda>c. uleb128 (length (mvc_Function c)) @ string_bytes (mvc_Function c)) calls) @
     uleb128 (length calls) @ concat (map (\<lambda>c. uleb128 (length (mvc_Data c)) @ mvc_Data c) calls)"

definition plain_call :: "move_call \<Rightarrow> sui_call" where
  "plain_call c = \<lparr>cl_Target = sui_address_Bytes (mvc_Target c), cl_ModuleName = mvc_Module c, cl_FunctionName = mvc_Function c,
     cl_Data = mvc_Data c, cl_StateObj = [], cl_TypeArgs = [], cl_CompiledModules = [], cl_Dependencies = [],
     cl_PackageToUpgrade = []\<rparr>"

definition move_calls_fit :: "move_call list \<Rightarrow> bool" where
  "move_calls_fit calls \<longleftrightarrow> length calls < 2 ^ 32 \<and>
     (\<forall>c \<in> set calls. length (mvc_Module c) < 2 ^ 32 \<and> length (mvc_Function c) < 2 ^ 32 \<and> length (mvc_Data c) < 2 ^ 32)"

lemma deserialize_bypass:
  assumes "reader_documented R rem" and "move_calls_fit calls"
  shows "deserializeTimelockBypasserExecuteBatch R (sui_bypass_bytes calls) = Inr (map plain_call calls)"
proof -
  have len: "length calls < 2 ^ 32" using assms(2) by (simp add: move_calls_fit_def)
  let ?text = "\<lambda>s. uleb128 (length s) @ string_bytes s" and ?bytes = "\<lambda>bs. uleb128 (length bs) @ bs"
  have fixed: "\<forall>x \<in> set (map (sui_address_Bytes \<circ> mvc_Target) calls). reads rem (ReadFixedBytes R SuiAddressLength) (\<lambda>bs. bs) x"
    using assms(1) by (fastforce simp: reads_def reader_documented_def SuiAddressLength_def)
  have texts: "\<forall>x \<in> set (map mvc_Module calls). reads rem (ReadString R) ?text x"
    "\<forall>x \<in> set (map mvc_Function calls). reads rem (ReadString R) ?text x"
    using assms by (auto simp: reads_def reader_documented_def move_calls_fit_def)
  have datas: "\<forall>x \<in> set (map mvc_Data calls). reads rem (ReadBytes R) ?bytes x"
    using assms by (auto simp: reads_def reader_documented_def move_calls_fit_def)
  let ?d = "NewDeserializer R (sui_bypass_bytes calls)"
  have at0: "rem ?d = sui_bypass_bytes calls" using assms(1) by (simp add: reader_documented_def)
  obtain d1 where d1: "read_vector R (ReadFixedBytes R SuiAddressLength) ?d = (map (sui_address_Bytes \<circ> mvc_Target) calls, d1)"
    "rem d1 = uleb128 (length calls) @ concat (map (?text \<circ> mvc_Module) calls) @
       uleb128 (length calls) @ concat (map (?text \<circ> mvc_Function) calls) @
       uleb128 (length calls) @ concat (map (?bytes \<circ> mvc_Data) calls)"
    by (rule read_vector_reads [OF assms(1) _ fixed, where d = ?d])
      (use len at0 in \<open>simp_all add: sui_bypass_bytes_def comp_def\<close>)
  obtain d2 where d2: "read_vector R (ReadString R) d1 = (map mvc_Module calls, d2)"
    "rem d2 = uleb128 (length calls) @ concat (map (?text \<circ> mvc_Function) calls) @
       uleb128 (length calls) @ concat (map (?bytes \<circ> mvc_Data) calls)"
    by (rule read_vector_reads [OF assms(1) _ texts(1), where d = d1]) (use len d1(2) in \<open>simp_all add: comp_def\<close>)
  obtain d3 where d3: "read_vector R (ReadString R) d2 = (map mvc_Function calls, d3)"
    "rem d3 = uleb128 (length calls) @ concat (map (?bytes \<circ> mvc_Data) calls)"
    by (rule read_vector_reads [OF assms(1) _ texts(2), where d = d2]) (use len d2(2) in \<open>simp_all add: comp_def\<close>)
  obtain d4 where d4: "read_vector R (ReadBytes R) d3 = (map mvc_Data calls, d4)"
    by (rule read_vector_reads [OF assms(1) _ datas, where d = d3 and r = "[]"]) (use len d3(2) in \<open>simp_all add: comp_def\<close>)
  have "map (\<lambda>i. \<lparr>cl_Target = map (sui_address_Bytes \<circ> mvc_Target) calls ! i, cl_ModuleName = map mvc_Module calls ! i,
      cl_FunctionName = map mvc_Function calls ! i, cl_Data = map mvc_Data calls ! i, cl_StateObj = [], cl_TypeArgs = [],
      cl_CompiledModules = [], cl_Dependencies = [], cl_PackageToUpgrade = []\<rparr>) [0..<length calls] = map plain_call calls"
    by (rule nth_equalityI) (simp_all add: plain_call_def)
  with d1(1) d2(1) d3(1) d4 show ?thesis
    by (simp add: deserializeTimelockBypasserExecuteBatch_def)
qed

lemma serialize_bypass:
  assumes "bcs_documented S" and "sui_targets_fit ts"
  shows "serializeTimelockBypasserExecuteBatch S (sui_target_bytes ts) (sui_target_modules ts) (sui_target_functions ts)
    (sui_target_datas ts) = Inr (sui_bypass_bytes (map sui_move_call ts))"
proof -
  let ?calls = "sui_batch_slices (sui_target_bytes ts) (sui_target_modules ts) (sui_target_functions ts) (sui_target_datas ts)"
  have "list_all bcs_fits ?calls"
    using assms(2)
    by (fastforce simp: sui_batch_slices_def sui_slice_calls_def list_all_iff sui_targets_fit_def sui_target_bytes_def
        sui_target_modules_def sui_target_functions_def sui_target_datas_def)
  moreover have "concat (map bcs_bytes ?calls) = sui_bypass_bytes (map sui_move_call ts)"
    using assms(2) unat_u32_of_nat [of "length ts"]
    by (simp add: sui_batch_slices_def sui_slice_calls_def sui_bypass_bytes_def sui_targets_fit_def sui_target_bytes_def
        sui_target_modules_def sui_target_functions_def sui_target_datas_def sui_move_call_def comp_def case_prod_beta)
  ultimately show ?thesis
    using assms(1) by (simp add: serializeTimelockBypasserExecuteBatch_def SerializeSingle_def bcs_documented_def)
qed

lemma sui_move_calls_fit: "sui_targets_fit ts \<Longrightarrow> move_calls_fit (map sui_move_call ts)"
  by (fastforce simp: sui_targets_fit_def move_calls_fit_def sui_move_call_def)

section \<open>A machine for blocks\<close>

text \<open>
  What a command is, with its arguments as the results of earlier commands, and the observations that
  relate a builder to the commands of its block. \<open>ptb_documented\<close> is what the builder of the SDK and the
  encoders of the bindings promise: a call that was appended is the last command, and the argument
  that is returned is its result.
\<close>

datatype ptb_arg = Result nat | PureU64 u64 | OtherArg

datatype 'g ptb_call =
    McmsCall string "'g mcms_call"
  | EntryCall 'g string string string string "byte list" "string list"

datatype 'g ptb_command =
    Called "'g ptb_call"
  | Moved string string string "'g list"
  | Upgraded "byte list list" "string list" string 'g

record ('p, 'g, 'c) ptb_view =
  pv_commands :: "'p \<Rightarrow> ptb_arg ptb_command list"
  pv_arg :: "'g \<Rightarrow> ptb_arg"
  pv_call :: "'c \<Rightarrow> 'g ptb_call"

definition appends :: "('p, 'g, 'c) ptb_view \<Rightarrow> 'p \<Rightarrow> ptb_arg ptb_command \<Rightarrow> 'g \<Rightarrow> 'p \<Rightarrow> bool" where
  "appends V p cmd g p' \<longleftrightarrow>
     pv_commands V p' = pv_commands V p @ [cmd] \<and> pv_arg V g = Result (length (pv_commands V p))"

definition ptb_documented ::
  "('p, 'g, 'c) ptb_view \<Rightarrow> ('p, 'g, 'c, 'y) ptb_pkg \<Rightarrow> ('g, 'c) executing_callback_params \<Rightarrow> bool" where
  "ptb_documented V B e \<longleftrightarrow>
     pv_commands V (pb_New B) = [] \<and>
     (\<forall>pkg call c. pb_Encode B pkg call = Inr c \<longrightarrow> pv_call V c = McmsCall pkg call) \<and>
     (\<forall>g t m f s d ts c. ecp_EncodeEntryPointArg e g t m f s d ts = Inr c \<longrightarrow> pv_call V c = EntryCall g t m f s d ts) \<and>
     (\<forall>pkg opts c p g p'. pb_AppendPTB B pkg opts c p = (Inr g, p') \<longrightarrow>
        appends V p (Called (map_ptb_call (pv_arg V) (pv_call V c))) g p') \<and>
     (\<forall>v p g p'. pb_Pure B v p = (g, p') \<longrightarrow> pv_commands V p' = pv_commands V p \<and> pv_arg V g = PureU64 v) \<and>
     (\<forall>pkg m f tags args p g p'. pb_MoveCall B pkg m f tags args p = (g, p') \<longrightarrow>
        appends V p (Moved pkg m f (map (pv_arg V) args)) g p') \<and>
     (\<forall>ms ds pkg a p g p'. pb_Upgrade B ms ds pkg a p = (g, p') \<longrightarrow> appends V p (Upgraded ms ds pkg (pv_arg V a)) g p')"

text \<open>
  The results of the commands so far are the memory of the machine. A callback, a vector of them, an
  upgrade ticket or receipt is a resource that one later command consumes; what is left is \<open>Spent\<close>. The
  events are what happened on the chain.
\<close>

datatype sui_value =
    TimelockCallback string "byte list"
  | CallbackVector "move_call list"
  | CallbackParams move_call
  | UpgradeTicket move_call
  | UpgradeReceipt
  | Spent

datatype sui_event =
    ScheduledEv "byte list"
  | CancelledEv "byte list"
  | EntryEv move_call string string "string list"
  | UpgradeEv move_call "byte list list" "string list" string
  | AccountEv move_call
  | MainEv move_call

record sui_chain =
  sch_Root :: hash
  sch_Ready :: "hash \<Rightarrow> bool"

text \<open>The MCM hashes the operation it is called with and checks the proof against its root.\<close>

definition sui_check ::
  "'k crypto_pkg_scheme \<Rightarrow> hash \<Rightarrow> u8 \<Rightarrow> int \<Rightarrow> string \<Rightarrow> u64 \<Rightarrow> string \<Rightarrow> string \<Rightarrow> string \<Rightarrow> byte list \<Rightarrow> byte list list \<Rightarrow>
     bool" where
  "sui_check C rt role cid mcms nonce to m f data proof \<longleftrightarrow>
     cid = uint (word_of_int cid :: u64) \<and>
     (case (AddressFromHex mcms, AddressFromHex to) of
        (Inr a, Inr t) \<Rightarrow>
          foldl (hashPair (Keccak256Hash C))
            (Keccak256Hash C (move_leaf_bytes (sui_separators C) (OpLeaf role (word_of_int cid) a nonce t m f data)))
            (map from_be proof) = rt
      | _ \<Rightarrow> False)"

text \<open>The timelock runs the batch whose id is ready.\<close>

definition timelock_batch :: "string list \<Rightarrow> string list \<Rightarrow> string list \<Rightarrow> byte list list \<Rightarrow> move_call list res" where
  "timelock_batch targets ms fs ds =
     bindE (mapE AddressFromHex targets) (\<lambda>addrs.
       Inr (map (\<lambda>(a, m, f, d). \<lparr>mvc_Target = a, mvc_Module = m, mvc_Function = f, mvc_Data = d\<rparr>)
              (zip addrs (zip ms (zip fs ds)))))"

inductive ptb_step ::
  "'k crypto_pkg_scheme \<Rightarrow> sui_chain \<Rightarrow> ptb_arg ptb_command \<Rightarrow> sui_value list \<times> sui_event list \<Rightarrow>
     sui_value list \<times> sui_event list \<Rightarrow> bool" for C ch where
  step_execute:
    "sui_check C (sch_Root ch) role cid mcms nonce to m f data proof \<Longrightarrow>
     ptb_step C ch (Called (McmsCall mcms (CallExecute ob clk role cid mcms nonce to m f data proof))) (vs, es)
       (vs @ [TimelockCallback f data], es)"
| step_schedule:
    "i < length vs \<Longrightarrow> vs ! i = TimelockCallback suiTimelockScheduleFunctionName data \<Longrightarrow>
     ptb_step C ch (Called (McmsCall pkg (CallDispatchTimelockScheduleBatch tlk clk (Result i)))) (vs, es)
       (vs[i := Spent] @ [Spent], es @ [ScheduledEv data])"
| step_cancel:
    "i < length vs \<Longrightarrow> vs ! i = TimelockCallback suiTimelockCancelFunctionName data \<Longrightarrow>
     ptb_step C ch (Called (McmsCall pkg (CallDispatchTimelockCancel tlk (Result i)))) (vs, es)
       (vs[i := Spent] @ [Spent], es @ [CancelledEv data])"
| step_bypass:
    "i < length vs \<Longrightarrow> vs ! i = TimelockCallback suiTimelockBypassFunctionName (sui_bypass_bytes cs) \<Longrightarrow> move_calls_fit cs \<Longrightarrow>
     ptb_step C ch (Called (McmsCall pkg (CallDispatchTimelockBypasserExecuteBatch (Result i)))) (vs, es)
       (vs[i := Spent] @ [CallbackVector cs], es)"
| step_batch:
    "timelock_batch targets ms fs ds = Inr cs \<Longrightarrow>
     sch_Ready ch (Keccak256Hash C (move_batch_bytes cs (from_be predecessor) (from_be salt))) \<Longrightarrow>
     ptb_step C ch (Called (McmsCall pkg (CallTimelockExecuteBatch tlk clk reg targets ms fs ds predecessor salt))) (vs, es)
       (vs @ [CallbackVector cs], es)"
| step_remove:
    "i < length vs \<Longrightarrow> vs ! i = CallbackVector (c # cs) \<Longrightarrow>
     ptb_step C ch (Moved ''0x1'' ''vector'' ''remove'' [Result i, PureU64 0]) (vs, es)
       (vs[i := CallbackVector cs] @ [CallbackParams c], es)"
| step_destroy:
    "i < length vs \<Longrightarrow> vs ! i = CallbackVector [] \<Longrightarrow>
     ptb_step C ch (Moved ''0x1'' ''vector'' ''destroy_empty'' [Result i]) (vs, es) (vs[i := Spent] @ [Spent], es)"
| step_entry:
    "i < length vs \<Longrightarrow> vs ! i = CallbackParams c \<Longrightarrow>
     ptb_step C ch (Called (EntryCall (Result i) target (mvc_Module c) (mvc_Function c) st (mvc_Data c) ts)) (vs, es)
       (vs[i := Spent] @ [Spent], es @ [EntryEv c target st ts])"
| step_deployer:
    "i < length vs \<Longrightarrow> vs ! i = CallbackParams c \<Longrightarrow> mvc_Module c = suiModuleNameMCMSDeployer \<Longrightarrow>
     mvc_Function c = suiMcmsDeployerAuthorizeUpgradeFuncName \<Longrightarrow>
     ptb_step C ch (Called (McmsCall pkg (CallMcmsDispatchToDeployer reg st (Result i)))) (vs, es)
       (vs[i := Spent] @ [UpgradeTicket c], es)"
| step_upgrade:
    "i < length vs \<Longrightarrow> vs ! i = UpgradeTicket c \<Longrightarrow>
     ptb_step C ch (Upgraded mods deps pkg (Result i)) (vs, es) (vs[i := Spent] @ [UpgradeReceipt], es @ [UpgradeEv c mods deps pkg])"
| step_commit:
    "i < length vs \<Longrightarrow> vs ! i = UpgradeReceipt \<Longrightarrow>
     ptb_step C ch (Called (McmsCall pkg (CallCommitUpgrade st (Result i)))) (vs, es) (vs[i := Spent] @ [Spent], es)"
| step_account:
    "i < length vs \<Longrightarrow> vs ! i = CallbackParams c \<Longrightarrow> mvc_Module c = suiModuleNameMCMSAccount \<Longrightarrow>
     ptb_step C ch (Called (McmsCall pkg (CallMcmsDispatchToAccount reg acc (Result i)))) (vs, es)
       (vs[i := Spent] @ [Spent], es @ [AccountEv c])"
| step_set_config:
    "i < length vs \<Longrightarrow> vs ! i = CallbackParams c \<Longrightarrow> trim_mcms_prefix (mvc_Function c) = suiMCMSSetConfigFunctionName \<Longrightarrow>
     ptb_step C ch (Called (McmsCall pkg (CallMcmsSetConfig reg st (Result i)))) (vs, es)
       (vs[i := Spent] @ [Spent], es @ [MainEv c])"
| step_main_cancel:
    "i < length vs \<Longrightarrow> vs ! i = CallbackParams c \<Longrightarrow> trim_mcms_prefix (mvc_Function c) = suiTimelockCancelFunctionName \<Longrightarrow>
     ptb_step C ch (Called (McmsCall pkg (CallMcmsTimelockCancel st reg (Result i)))) (vs, es)
       (vs[i := Spent] @ [Spent], es @ [MainEv c])"
| step_main_delay:
    "i < length vs \<Longrightarrow> vs ! i = CallbackParams c \<Longrightarrow>
     trim_mcms_prefix (mvc_Function c) = suiTimelockUpdateMinDelayFunctionName \<Longrightarrow>
     ptb_step C ch (Called (McmsCall pkg (CallMcmsTimelockUpdateMinDelay st reg (Result i)))) (vs, es)
       (vs[i := Spent] @ [Spent], es @ [MainEv c])"

inductive ptb_runs ::
  "'k crypto_pkg_scheme \<Rightarrow> sui_chain \<Rightarrow> ptb_arg ptb_command list \<Rightarrow> sui_value list \<times> sui_event list \<Rightarrow>
     sui_value list \<times> sui_event list \<Rightarrow> bool" for C ch where
  runs_Nil: "ptb_runs C ch [] s s"
| runs_Cons: "ptb_step C ch cmd s t \<Longrightarrow> ptb_runs C ch cmds t u \<Longrightarrow> ptb_runs C ch (cmd # cmds) s u"

inductive_simps ptb_runs_simps [simp]: "ptb_runs C ch [] s u" "ptb_runs C ch (cmd # cmds) s u"

lemma ptb_runs_append: "ptb_runs C ch (xs @ ys) s u \<longleftrightarrow> (\<exists>t. ptb_runs C ch xs s t \<and> ptb_runs C ch ys t u)"
  by (induction xs arbitrary: s) auto

section \<open>Every callback goes to its call\<close>

lemma ptb_documentedD:
  assumes "ptb_documented V B e"
  shows "pv_commands V (pb_New B) = []"
    and "pb_Encode B pkg call = Inr c \<Longrightarrow> pv_call V c = McmsCall pkg call"
    and "ecp_EncodeEntryPointArg e g t m f s d ts = Inr c \<Longrightarrow> pv_call V c = EntryCall g t m f s d ts"
    and "pb_AppendPTB B pkg opts c p = (Inr g, p') \<Longrightarrow> appends V p (Called (map_ptb_call (pv_arg V) (pv_call V c))) g p'"
    and "pb_Pure B v p = (g, p') \<Longrightarrow> pv_commands V p' = pv_commands V p \<and> pv_arg V g = PureU64 v"
    and "pb_MoveCall B pkg m f tags args p = (g, p') \<Longrightarrow> appends V p (Moved pkg m f (map (pv_arg V) args)) g p'"
    and "pb_Upgrade B ms ds pkg a p = (g, p') \<Longrightarrow> appends V p (Upgraded ms ds pkg (pv_arg V a)) g p'"
  using assms by (simp_all add: ptb_documented_def)

lemma performPackageUpgrade_Inr:
  "performPackageUpgrade B call t p = (Inr r, p') \<longleftrightarrow>
     pb_Upgrade B (cl_CompiledModules call) (cl_Dependencies call) (cl_PackageToUpgrade call) t p = (r, p')"
  by (simp add: performPackageUpgrade_def split: prod.splits)

lemma append_call_appends:
  assumes "ptb_documented V B e" and "append_call B pkg opts m1 m2 call p = (Inr g, p')"
  shows "appends V p (Called (McmsCall pkg (map_mcms_call (pv_arg V) call))) g p'"
proof -
  from assms(2) obtain c where c: "pb_Encode B pkg call = Inr c" "pb_AppendPTB B pkg opts c p = (Inr g, p')"
    by (auto simp: append_call_def run_after_def ptb_step_def split: sum.splits prod.splits)
  from ptb_documentedD(2) [OF assms(1) c(1)] ptb_documentedD(4) [OF assms(1) c(2)] show ?thesis by simp
qed

lemma extract_appends:
  assumes "ptb_documented V B e" and "extractExecutingCallbackParams B pkg v p = (Inr g, p')"
  shows "appends V p (Moved ''0x1'' ''vector'' ''remove'' [pv_arg V v, PureU64 0]) g p'"
proof -
  from assms(2) obtain tag pos p1 where c: "pb_Pure B 0 p = (pos, p1)"
    "pb_MoveCall B ''0x1'' ''vector'' ''remove'' [tag] [v, pos] p1 = (g, p')"
    by (auto simp: extractExecutingCallbackParams_def run_after_def split: sum.splits prod.splits)
  from ptb_documentedD(5) [OF assms(1) c(1)] ptb_documentedD(6) [OF assms(1) c(2)] show ?thesis by (simp add: appends_def)
qed

lemma close_appends:
  assumes "ptb_documented V B e" and "closeExecutingCallbackParams B pkg v p = (Inr (), p')"
  shows "\<exists>g. appends V p (Moved ''0x1'' ''vector'' ''destroy_empty'' [pv_arg V v]) g p'"
proof -
  from assms(2) obtain tag g where c: "pb_MoveCall B ''0x1'' ''vector'' ''destroy_empty'' [tag] [v] p = (g, p')"
    by (auto simp: closeExecutingCallbackParams_def run_after_def split: sum.splits prod.splits)
  from ptb_documentedD(6) [OF assms(1) c] show ?thesis by auto
qed

text \<open>A call of the client for a callback of the chain, and what it makes happen.\<close>

definition call_matches :: "sui_call \<Rightarrow> move_call \<Rightarrow> bool" where
  "call_matches call c \<longleftrightarrow> cl_ModuleName call = mvc_Module c \<and> cl_FunctionName call = mvc_Function c \<and> cl_Data call = mvc_Data c"

definition call_event :: "string \<Rightarrow> sui_call \<Rightarrow> move_call \<Rightarrow> sui_event" where
  "call_event pkg call c =
     (let target = formatTargetAddress (cl_Target call) in
      if target = pkg then
        if mvc_Module c = suiModuleNameMCMSDeployer
        then UpgradeEv c (cl_CompiledModules call) (cl_Dependencies call) (cl_PackageToUpgrade call)
        else if mvc_Module c = suiModuleNameMCMSAccount then AccountEv c
        else MainEv c
      else EntryEv c target (cl_StateObj call) (cl_TypeArgs call))"

text \<open>
  \<open>extends_run\<close>: the commands that were added take the machine from one memory to the next, all other
  results of theirs are spent.
\<close>

definition extends_run ::
  "('p, 'g, 'c) ptb_view \<Rightarrow> 'k crypto_pkg_scheme \<Rightarrow> sui_chain \<Rightarrow> 'p \<Rightarrow> 'p \<Rightarrow> sui_value list \<times> sui_event list \<Rightarrow>
     sui_value list \<Rightarrow> sui_event list \<Rightarrow> bool" where
  "extends_run V C ch p p' s vs es \<longleftrightarrow>
     (\<exists>new n. pv_commands V p' = pv_commands V p @ new \<and> length new = n \<and> length (fst s) = length vs \<and>
        ptb_runs C ch new s (vs @ replicate n Spent, snd s @ es))"

lemma extends_run_trans:
  assumes "extends_run V C ch p p1 (vs, es) ws fs" and "length vs = length (pv_commands V p)"
    and "\<And>n. length (ws @ replicate n Spent) = length (pv_commands V p1) \<Longrightarrow>
      extends_run V C ch p1 p2 (ws @ replicate n Spent, es @ fs) (us @ replicate n Spent) gs"
  shows "extends_run V C ch p p2 (vs, es) us (fs @ gs)"
proof -
  from assms(1) obtain new n where 1: "pv_commands V p1 = pv_commands V p @ new" "length new = n" "length vs = length ws"
    "ptb_runs C ch new (vs, es) (ws @ replicate n Spent, es @ fs)" by (auto simp: extends_run_def)
  have "length (ws @ replicate n Spent) = length (pv_commands V p1)" using 1 assms(2) by simp
  from assms(3) [OF this] obtain new2 m where 2: "pv_commands V p2 = pv_commands V p1 @ new2" "length new2 = m"
    "length ws = length us"
    "ptb_runs C ch new2 (ws @ replicate n Spent, es @ fs) ((us @ replicate n Spent) @ replicate m Spent, (es @ fs) @ gs)"
    by (auto simp: extends_run_def)
  from 1 2 show ?thesis
    unfolding extends_run_def
    by (intro exI [of _ "new @ new2"] exI [of _ "n + m"]) (auto simp: ptb_runs_append replicate_add)
qed

text \<open>One step of the machine for one command that was appended.\<close>

lemma extends_run_step:
  assumes "appends V p cmd g p'" and "ptb_step C ch cmd (vs, es) (ws @ [Spent], es @ fs)" and "length vs = length ws"
  shows "extends_run V C ch p p' (vs, es) ws fs"
  using assms unfolding extends_run_def appends_def
  by (intro exI [of _ "[cmd]"] exI [of _ 1]) simp

lemma processCall_runs:
  assumes doc: "ptb_documented V B e" and run: "processCall B e v call p = (Inr (), p')"
    and v: "pv_arg V v = Result i" and i: "i < length vs" "vs ! i = CallbackVector (c # cs)"
    and len: "length vs = length (pv_commands V p)" and m: "call_matches call c"
  shows "extends_run V C ch p p' (vs, es) (vs[i := CallbackVector cs]) [call_event (ecp_mcmsPackageID e) call c]"
proof -
  let ?n = "length vs" and ?us = "vs[i := CallbackVector cs]"
  from run obtain params p1 where
    ex: "extractExecutingCallbackParams B (ecp_mcmsPackageID e) v p = (Inr params, p1)" and
    rest: "(if isTargetMCMSPackage e (formatTargetAddress (cl_Target call)) then processMCMSPackageCall B e params call
       else processDestinationContractCall B e params call (formatTargetAddress (cl_Target call))) p1 = (Inr (), p')"
    by (auto simp: processCall_def Let_def bindW_Inr_iff)
  from extract_appends [OF doc ex] v len have p1: "pv_commands V p1 = pv_commands V p @ [Moved ''0x1'' ''vector'' ''remove'' [Result i, PureU64 0]]"
    and params: "pv_arg V params = Result ?n" by (auto simp: appends_def)
  have s1: "ptb_step C ch (Moved ''0x1'' ''vector'' ''remove'' [Result i, PureU64 0]) (vs, es) (?us @ [CallbackParams c], es)"
    by (rule step_remove) (use i in auto)
  have at: "?n < length (?us @ [CallbackParams c])" "(?us @ [CallbackParams c]) ! ?n = CallbackParams c"
    "(?us @ [CallbackParams c])[?n := Spent] = ?us @ [Spent]"
    by (simp_all add: nth_append list_update_append)
  have fin: ?thesis
    if "pv_commands V p' = pv_commands V p1 @ cmds" "length cmds = k"
      "ptb_runs C ch cmds (?us @ [CallbackParams c], es) ((?us @ [Spent]) @ replicate k Spent, es @ [call_event (ecp_mcmsPackageID e) call c])"
    for cmds k
    unfolding extends_run_def
    by (intro exI [of _ "Moved ''0x1'' ''vector'' ''remove'' [Result i, PureU64 0] # cmds"] exI [of _ "Suc k"])
      (use p1 s1 that in auto)
  have one: ?thesis
    if a: "appends V p1 cmd g p'"
      and "ptb_step C ch cmd (?us @ [CallbackParams c], es)
        ((?us @ [CallbackParams c])[?n := Spent] @ [Spent], es @ [call_event (ecp_mcmsPackageID e) call c])" for cmd g
    by (rule fin [of "[cmd]" 1]) (use that at(3) in \<open>simp_all add: appends_def\<close>)
  show ?thesis
  proof (cases "isTargetMCMSPackage e (formatTargetAddress (cl_Target call))")
    case False
    with rest obtain enc g where enc: "ecp_EncodeEntryPointArg e params (formatTargetAddress (cl_Target call)) (cl_ModuleName call)
          (cl_FunctionName call) (cl_StateObj call) (cl_Data call) (cl_TypeArgs call) = Inr enc"
      and app: "pb_AppendPTB B (ecp_mcms e) callback_opts enc p1 = (Inr g, p')"
      by (auto simp: processDestinationContractCall_def run_after_def bindW_Inr_iff ptb_step_def split: sum.splits prod.splits)
    have ev: "call_event (ecp_mcmsPackageID e) call c =
        EntryEv c (formatTargetAddress (cl_Target call)) (cl_StateObj call) (cl_TypeArgs call)"
      using False by (simp add: call_event_def isTargetMCMSPackage_def)
    show ?thesis
      by (rule one [OF ptb_documentedD(4) [OF doc app]])
        (use ptb_documentedD(3) [OF doc enc] params m ev step_entry [OF at(1,2)] in \<open>simp add: call_matches_def\<close>)
  next
    case True
    then have pkg: "formatTargetAddress (cl_Target call) = ecp_mcmsPackageID e" by (simp add: isTargetMCMSPackage_def)
    consider "cl_ModuleName call = suiModuleNameMCMSDeployer"
      | "cl_ModuleName call \<noteq> suiModuleNameMCMSDeployer" "cl_ModuleName call = suiModuleNameMCMSAccount"
      | "cl_ModuleName call \<noteq> suiModuleNameMCMSDeployer" "cl_ModuleName call \<noteq> suiModuleNameMCMSAccount" by blast
    then show ?thesis
    proof cases
      case 1
      with rest True obtain ticket p2 receipt p3 g where
        name: "cl_FunctionName call = suiMcmsDeployerAuthorizeUpgradeFuncName" and
        d: "executeDispatchToDeployer B e params call p1 = (Inr ticket, p2)" and
        u: "pb_Upgrade B (cl_CompiledModules call) (cl_Dependencies call) (cl_PackageToUpgrade call) ticket p2 = (receipt, p3)" and
        c: "append_call B (ecp_mcmsPackageID e) callback_opts ''failed to encode commit upgrade: %w''
          ''failed to append commit upgrade to PTB: %w'' (CallCommitUpgrade (cl_StateObj call) receipt) p3 = (Inr g, p')"
        by (auto simp: processMCMSPackageCall_def processMCMSDeployerCall_def performPackageUpgrade_Inr commitUpgrade_def
            run_after_Inr_iff bindW_Inr_iff split: if_splits)
      let ?cmds = "[Called (McmsCall (ecp_mcms e) (CallMcmsDispatchToDeployer (ecp_registryObj e) (cl_StateObj call) (Result ?n))),
        Upgraded (cl_CompiledModules call) (cl_Dependencies call) (cl_PackageToUpgrade call) (Result (Suc ?n)),
        Called (McmsCall (ecp_mcmsPackageID e) (CallCommitUpgrade (cl_StateObj call) (Result (Suc (Suc ?n)))))]"
      have "pv_commands V p' = pv_commands V p1 @ ?cmds"
        using append_call_appends [OF doc d [unfolded executeDispatchToDeployer_def]] ptb_documentedD(7) [OF doc u]
          append_call_appends [OF doc c] params len p1 by (auto simp: appends_def)
      moreover have "ptb_runs C ch ?cmds (?us @ [CallbackParams c], es) ((?us @ [Spent]) @ replicate 3 Spent, es @
          [UpgradeEv c (cl_CompiledModules call) (cl_Dependencies call) (cl_PackageToUpgrade call)])"
        using step_deployer [OF at(1,2), of C ch] step_upgrade [of "Suc ?n" "?us @ [Spent, UpgradeTicket c]" c C ch]
          step_commit [of "Suc (Suc ?n)" "?us @ [Spent, Spent, UpgradeReceipt]" C ch] m 1 name
        by (simp add: call_matches_def nth_append list_update_append numeral_3_eq_3) blast
      moreover have "call_event (ecp_mcmsPackageID e) call c =
          UpgradeEv c (cl_CompiledModules call) (cl_Dependencies call) (cl_PackageToUpgrade call)"
        using pkg 1 m by (simp add: call_event_def call_matches_def)
      ultimately show ?thesis by (intro fin [of ?cmds 3]) simp_all
    next
      case 2
      with rest True obtain g where
        "append_call B (ecp_mcms e) callback_opts ''creating ExecuteDispatchToAccount call %d: %w''
          ''adding ExecuteDispatchToAccount call %d to PTB: %w''
          (CallMcmsDispatchToAccount (ecp_registryObj e) (ecp_accountObj e) params) p1 = (Inr g, p')"
        by (auto simp: processMCMSPackageCall_def processMCMSAccountCall_def bindW_Inr_iff)
      from append_call_appends [OF doc this] params
      have "appends V p1 (Called (McmsCall (ecp_mcms e) (CallMcmsDispatchToAccount (ecp_registryObj e) (ecp_accountObj e)
        (Result ?n)))) g p'" by simp
      then show ?thesis
        by (rule one) (use 2 pkg m step_account [OF at(1,2)] in \<open>simp add: call_event_def call_matches_def\<close>)
    next
      case 3
      with rest True obtain mc g where mc: "main_module_call e params call = Inr mc" and
        "append_call B (ecp_mcms e) callback_opts ''creating MCMS main module call %d: %w''
          ''adding MCMS main module call %d to PTB: %w'' mc p1 = (Inr g, p')"
        by (auto simp: processMCMSPackageCall_def processMCMSMainModuleCall_def bindW_Inr_iff run_after_def split: sum.splits)
      from append_call_appends [OF doc this(2)]
      have app: "appends V p1 (Called (McmsCall (ecp_mcms e) (map_mcms_call (pv_arg V) mc))) g p'" .
      have ev: "call_event (ecp_mcmsPackageID e) call c = MainEv c"
        using 3 pkg m by (simp add: call_event_def call_matches_def)
      show ?thesis
        by (rule one [OF app])
          (use mc m params step_set_config [OF at(1,2)] step_main_cancel [OF at(1,2)] step_main_delay [OF at(1,2)] ev
            in \<open>auto simp: main_module_call_def Let_def call_matches_def split: if_splits\<close>)
    qed
  qed
qed

lemma callbacks_loop_runs:
  assumes "ptb_documented V B e" and "forW (processCall B e v) calls p = (Inr (), p')" and "pv_arg V v = Result i"
    and "i < length vs" and "vs ! i = CallbackVector (cs @ ds)" and "length vs = length (pv_commands V p)"
    and "list_all2 call_matches calls cs"
  shows "extends_run V C ch p p' (vs, es) (vs[i := CallbackVector ds]) (map2 (call_event (ecp_mcmsPackageID e)) calls cs)"
  using assms(2-)
proof (induction calls arbitrary: cs p vs es)
  case Nil
  then have "vs[i := CallbackVector ds] = vs" by (metis append.left_neutral list.rel_distinct(1) list_update_id neq_Nil_conv)
  with Nil show ?case by (auto simp: extends_run_def)
next
  case (Cons call calls)
  then obtain c cs' where cs: "cs = c # cs'" "call_matches call c" "list_all2 call_matches calls cs'"
    by (auto simp: list_all2_Cons1)
  from Cons.prems(1) obtain p1 where p1: "processCall B e v call p = (Inr (), p1)" "forW (processCall B e v) calls p1 = (Inr (), p')"
    by (auto simp: bindW_Inr_iff)
  have "extends_run V C ch p p1 (vs, es) (vs[i := CallbackVector (cs' @ ds)]) [call_event (ecp_mcmsPackageID e) call c]"
    by (rule processCall_runs [OF assms(1) p1(1) Cons.prems(2,3) _ Cons.prems(5) cs(2)]) (use Cons.prems(4) cs in simp)
  then have "extends_run V C ch p p' (vs, es) (vs[i := CallbackVector ds])
      ([call_event (ecp_mcmsPackageID e) call c] @ map2 (call_event (ecp_mcmsPackageID e)) calls cs')"
  proof (rule extends_run_trans [OF _ Cons.prems(5)])
    fix n
    let ?ws = "vs[i := CallbackVector (cs' @ ds)] @ replicate n Spent"
    assume "length ?ws = length (pv_commands V p1)"
    from Cons.IH [OF p1(2) Cons.prems(2), of ?ws cs'] this cs(3) Cons.prems(3)
    show "extends_run V C ch p1 p' (?ws, es @ [call_event (ecp_mcmsPackageID e) call c]) (vs[i := CallbackVector ds] @ replicate n Spent)
        (map2 (call_event (ecp_mcmsPackageID e)) calls cs')"
      by (simp add: nth_append list_update_append)
  qed
  then show ?case by (simp add: cs(1))
qed

lemma callbacks_runs:
  assumes "ptb_documented V B e" and "callbacks_AppendPTB B e v calls p = (Inr (), p')" and "pv_arg V v = Result i"
    and "i < length vs" and "vs ! i = CallbackVector cs" and "length vs = length (pv_commands V p)"
    and "list_all2 call_matches calls cs"
  shows "extends_run V C ch p p' (vs, es) (vs[i := Spent]) (map2 (call_event (ecp_mcmsPackageID e)) calls cs)"
proof -
  from assms(2) obtain p1 where p1: "forW (processCall B e v) calls p = (Inr (), p1)"
    "closeExecutingCallbackParams B (ecp_mcmsPackageID e) v p1 = (Inr (), p')"
    by (auto simp: callbacks_AppendPTB_def bindW_Inr_iff)
  from close_appends [OF assms(1) p1(2)] assms(3) obtain g
    where g: "appends V p1 (Moved ''0x1'' ''vector'' ''destroy_empty'' [Result i]) g p'" by auto
  have "extends_run V C ch p p' (vs, es) (vs[i := Spent]) (map2 (call_event (ecp_mcmsPackageID e)) calls cs @ [])"
  proof (rule extends_run_trans [OF callbacks_loop_runs [OF assms(1) p1(1) assms(3,4) _ assms(6,7)] assms(6)])
    show "vs ! i = CallbackVector (cs @ [])" using assms(5) by simp
    fix n and fs :: "sui_event list"
    let ?ws = "vs[i := CallbackVector []] @ replicate n Spent"
    show "extends_run V C ch p1 p' (?ws, es @ map2 (call_event (ecp_mcmsPackageID e)) calls cs)
        (vs[i := Spent] @ replicate n Spent) []"
      by (rule extends_run_step [OF g])
        (use step_destroy [of i ?ws C ch] assms(4) in \<open>simp_all add: nth_append list_update_append\<close>)
  qed
  then show ?thesis by simp
qed

section \<open>What an execution submits\<close>

lemma hex_text_no_prefix: "trim_hex_prefix (hex_encode bs) = hex_encode bs"
proof -
  have "CHR ''x'' \<notin> set (hex_encode bs)" "CHR ''X'' \<notin> set (hex_encode bs)"
    by (rule hex_encode_absent; simp)+
  then have "\<not> prefix ''0x'' (hex_encode bs)" "\<not> prefix ''0X'' (hex_encode bs)"
    by (auto dest!: set_mono_prefix)
  then show ?thesis by (simp add: trim_hex_prefix_def)
qed

lemma AddressFromHex_Hex: "AddressFromHex (sui_address_Hex a) = Inr a"
  by (simp add: AddressFromHex_def sui_address_Hex_def hex_text_no_prefix Let_def AddressLen_def from_be_bytes)

lemma bypass_call_matches:
  "bypass_call f (i, plain_call c) = Inr call \<Longrightarrow> call_matches call c"
  by (auto simp: bypass_call_def bindE_Inr_iff call_matches_def plain_call_def split: if_splits)

lemma bypass_calls_match:
  assumes "reader_documented R rem" and "move_calls_fit cs" and "bypass_calls R f (sui_bypass_bytes cs) = Inr calls"
  shows "list_all2 call_matches calls cs"
proof -
  from assms(3) have m: "mapE (bypass_call f) (enumerate 0 (map plain_call cs)) = Inr calls"
    by (simp add: bypass_calls_def deserialize_bypass [OF assms(1,2)] split: if_splits)
  have "call_matches (calls ! i) (cs ! i)" if "i < length cs" for i
  proof (rule bypass_call_matches)
    from mapE_nth [OF m, of i] that show "bypass_call f (i, plain_call (cs ! i)) = Inr (calls ! i)"
      by (simp add: nth_enumerate_eq)
  qed
  then show ?thesis using mapE_length [OF m] by (simp add: list_all2_conv_all_nth)
qed

text \<open>What happens on the chain for an operation of the MCM, by its function.\<close>

definition execution_events ::
  "'d bcs_reader \<Rightarrow> string \<Rightarrow> sui_fields \<Rightarrow> byte list \<Rightarrow> move_call list \<Rightarrow> sui_event list \<Rightarrow> bool" where
  "execution_events R pkg f data cs es \<longleftrightarrow>
     sf_Function f = suiTimelockScheduleFunctionName \<and> es = [ScheduledEv data] \<or>
     sf_Function f = suiTimelockCancelFunctionName \<and> es = [CancelledEv data] \<or>
     sf_Function f = suiTimelockBypassFunctionName \<and>
       (\<exists>calls. bypass_calls R f data = Inr calls \<and> list_all2 call_matches calls cs \<and> es = map2 (call_event pkg) calls cs)"

lemma sui_function_names [simp]:
  "suiTimelockScheduleFunctionName \<noteq> suiTimelockCancelFunctionName"
  "suiTimelockScheduleFunctionName \<noteq> suiTimelockBypassFunctionName"
  "suiTimelockCancelFunctionName \<noteq> suiTimelockScheduleFunctionName"
  "suiTimelockCancelFunctionName \<noteq> suiTimelockBypassFunctionName"
  "suiTimelockBypassFunctionName \<noteq> suiTimelockScheduleFunctionName"
  "suiTimelockBypassFunctionName \<noteq> suiTimelockCancelFunctionName"
  by (simp_all add: suiTimelockScheduleFunctionName_def suiTimelockCancelFunctionName_def suiTimelockBypassFunctionName_def)

lemma append_timelock_call_runs:
  assumes doc: "ptb_documented V B (sex_callbacks e)" and rd: "reader_documented R rem"
    and run: "append_timelock_call B R e f data v p = (Inr (), p')" and v: "pv_arg V v = Result 0"
    and len: "length (pv_commands V p) = 1"
    and cs: "sf_Function f = suiTimelockBypassFunctionName \<longrightarrow> move_calls_fit cs \<and> data = sui_bypass_bytes cs"
  shows "\<exists>fs. extends_run V C ch p p' ([TimelockCallback (sf_Function f) data], []) [Spent] fs \<and>
    execution_events R (ecp_mcmsPackageID (sex_callbacks e)) f data cs fs"
proof -
  let ?v = "[TimelockCallback (sf_Function f) data]" and ?pkg = "ecp_mcmsPackageID (sex_callbacks e)"
  from run consider "sf_Function f = suiTimelockScheduleFunctionName" | "sf_Function f = suiTimelockCancelFunctionName"
    | "sf_Function f = suiTimelockBypassFunctionName" by (auto simp: append_timelock_call_def Let_def split: if_splits)
  then show ?thesis
  proof cases
    case 1
    with run obtain g where "append_call B (sex_mcmsPackageID e) (execute_opts (sex_signer e)) ''creating timelock call: %w''
        ''adding timelock call to PTB: %w'' (CallDispatchTimelockScheduleBatch (sex_timelockObj e) sui_clock v) p = (Inr g, p')"
      by (auto simp: append_timelock_call_def Let_def bindW_Inr_iff)
    from append_call_appends [OF doc this] v
    have "extends_run V C ch p p' (?v, []) [Spent] [ScheduledEv data]"
      by (intro extends_run_step) (use step_schedule [of 0 ?v data C ch _ _ _ "[]"] 1 in auto)
    with 1 show ?thesis by (auto simp: execution_events_def)
  next
    case 2
    with run obtain g where "append_call B (sex_mcmsPackageID e) (execute_opts (sex_signer e)) ''creating timelock call: %w''
        ''adding timelock call to PTB: %w'' (CallDispatchTimelockCancel (sex_timelockObj e) v) p = (Inr g, p')"
      by (auto simp: append_timelock_call_def Let_def bindW_Inr_iff)
    from append_call_appends [OF doc this] v
    have "extends_run V C ch p p' (?v, []) [Spent] [CancelledEv data]"
      by (intro extends_run_step) (use step_cancel [of 0 ?v data C ch _ _ "[]"] 2 in auto)
    with 2 show ?thesis by (auto simp: execution_events_def)
  next
    case 3
    with run obtain g p1 calls where
      d: "append_call B (sex_mcmsPackageID e) (execute_opts (sex_signer e)) ''creating timelock call: %w''
        ''building PTB for timelock call: %w'' (CallDispatchTimelockBypasserExecuteBatch v) p = (Inr g, p1)" and
      b: "bypass_calls R f data = Inr calls" and
      a: "callbacks_AppendPTB B (sex_callbacks e) g calls p1 = (Inr (), p')"
      by (auto simp: append_timelock_call_def Let_def bindW_Inr_iff run_after_Inr_iff)
    from cs 3 have fit: "move_calls_fit cs" and data: "data = sui_bypass_bytes cs" by auto
    from append_call_appends [OF doc d] v len
    have c1: "pv_commands V p1 = pv_commands V p @ [Called (McmsCall (sex_mcmsPackageID e)
        (CallDispatchTimelockBypasserExecuteBatch (Result 0)))]" and g: "pv_arg V g = Result 1"
      by (simp_all add: appends_def)
    have m: "list_all2 call_matches calls cs" using bypass_calls_match [OF rd fit] b data by blast
    have "extends_run V C ch p1 p' ([Spent, CallbackVector cs], []) ([Spent, CallbackVector cs][1 := Spent])
        (map2 (call_event ?pkg) calls cs)"
      by (rule callbacks_runs [OF doc a g _ _ _ m]) (simp_all add: c1 len)
    then obtain new n where n: "pv_commands V p' = pv_commands V p1 @ new" "length new = n"
      "ptb_runs C ch new ([Spent, CallbackVector cs], []) (Spent # Spent # replicate n Spent, map2 (call_event ?pkg) calls cs)"
      by (auto simp: extends_run_def)
    have "ptb_step C ch (Called (McmsCall (sex_mcmsPackageID e) (CallDispatchTimelockBypasserExecuteBatch (Result 0)))) (?v, [])
        ([Spent, CallbackVector cs], [])"
      using step_bypass [of 0 ?v cs C ch _ "[]"] 3 data fit by simp
    with n c1 have "extends_run V C ch p p' (?v, []) [Spent] (map2 (call_event ?pkg) calls cs)"
      unfolding extends_run_def
      by (intro exI [of _ "Called (McmsCall (sex_mcmsPackageID e) (CallDispatchTimelockBypasserExecuteBatch (Result 0))) # new"]
          exI [of _ "Suc n"]) auto
    with 3 b m show ?thesis unfolding execution_events_def by blast
  qed
qed

lemma execute_ptb_runs:
  assumes doc: "ptb_documented V B (sex_callbacks e)" and rd: "reader_documented R rem" and bcs: "bcs_documented S"
    and fits: "sui_op_fits S (op_Transaction op)" and h: "sui_HashOperation C S enc n md op = Inr h"
    and enc: "sex_Encoder e = Some enc" and rt: "foldl (hashPair (Keccak256Hash C)) h pf = sch_Root ch"
    and pkg: "\<And>m. sui_metadata_of S md = Inr m \<Longrightarrow> AddressFromHex (sm_McmsPackageID m) = AddressFromHex (sex_mcmsPackageID e)"
    and f: "SuiFieldsUnmarshal S (tx_AdditionalFields (op_Transaction op)) = Inr f"
    and cs: "sf_Function f = suiTimelockBypassFunctionName \<longrightarrow>
      move_calls_fit cs \<and> tx_Data (op_Transaction op) = sui_bypass_bytes cs"
    and run: "execute_ptb S B R e md n pf op (pb_New B) = (Inr (), ptb)"
  shows "\<exists>k es. ptb_runs C ch (pv_commands V ptb) ([], []) (replicate k Spent, es) \<and>
    execution_events R (ecp_mcmsPackageID (sex_callbacks e)) f (tx_Data (op_Transaction op)) cs es"
proof -
  from sui_leaf_hash_Inr [OF bcs, of "Some (n, op)" C enc md h] fits h obtain l where
    l: "sui_leaf S enc md (Some (n, op)) = Inr l" "h = Keccak256Hash C (move_leaf_bytes (sui_separators C) l)" by auto
  from l(1) f obtain cid mcms to m where
    parts: "SuiChainIdFromSelector S (se_ChainSelector enc) = Inr cid" "AddressFromHex (tx_To (op_Transaction op)) = Inr to"
      "sui_metadata_of S md = Inr m" "AddressFromHex (sm_McmsPackageID m) = Inr mcms"
      "l = OpLeaf (sm_Role m) cid mcms (ucast n) to (sf_ModuleName f) (sf_Function f) (tx_Data (op_Transaction op))"
    by (auto simp: bindE_Inr_iff)
  let ?call = "CallExecute (sex_mcmsObj e) sui_clock (sm_Role m) (uint cid) (sex_mcmsPackageID e) (ucast n) (sui_address_Hex to)
    (sf_ModuleName f) (sf_Function f) (tx_Data (op_Transaction op)) (map (be_bytes 32) pf)"
  from run f parts(1-3) enc obtain g p1 where
    a: "append_call B (sex_mcmsPackageID e) (execute_opts (sex_signer e)) ''executing operation on Sui mcms contract: %w''
      ''building PTB for execute call: %w'' ?call (pb_New B) = (Inr g, p1)" and
    t: "append_timelock_call B R e f (tx_Data (op_Transaction op)) g p1 = (Inr (), ptb)"
    by (auto simp: execute_ptb_def bindW_Inr_iff)
  have "pv_commands V p1 = [Called (McmsCall (sex_mcmsPackageID e) (map_mcms_call (pv_arg V) ?call))]" "pv_arg V g = Result 0"
    using append_call_appends [OF doc a] ptb_documentedD(1) [OF doc] by (simp_all add: appends_def)
  then have 1: "pv_commands V p1 = [Called (McmsCall (sex_mcmsPackageID e) (map_mcms_call (pv_arg V) ?call))]"
    and g: "pv_arg V g = Result 0" and len: "length (pv_commands V p1) = 1" by simp_all
  from append_timelock_call_runs [OF doc rd t g len cs, of C ch] obtain fs where
    r: "extends_run V C ch p1 ptb ([TimelockCallback (sf_Function f) (tx_Data (op_Transaction op))], []) [Spent] fs" and
    ev: "execution_events R (ecp_mcmsPackageID (sex_callbacks e)) f (tx_Data (op_Transaction op)) cs fs" by blast
  have pf: "map from_be (map (be_bytes 32) pf) = pf" by (simp add: comp_def from_be_bytes)
  have "sui_check C (sch_Root ch) (sm_Role m) (uint cid) (sex_mcmsPackageID e) (ucast n) (sui_address_Hex to) (sf_ModuleName f)
      (sf_Function f) (tx_Data (op_Transaction op)) (map (be_bytes 32) pf)"
    using pkg [OF parts(3), symmetric] parts(4,5) l(2) rt pf by (simp add: sui_check_def AddressFromHex_Hex)
  from step_execute [OF this, of "sex_mcmsObj e" sui_clock "[]" "[]"]
  have s: "ptb_step C ch (Called (McmsCall (sex_mcmsPackageID e) (map_mcms_call (pv_arg V) ?call))) ([], [])
      ([TimelockCallback (sf_Function f) (tx_Data (op_Transaction op))], [])" by simp
  from r obtain new k where new: "pv_commands V ptb = pv_commands V p1 @ new"
    "ptb_runs C ch new ([TimelockCallback (sf_Function f) (tx_Data (op_Transaction op))], []) (Spent # replicate k Spent, fs)"
    by (auto simp: extends_run_def)
  have "ptb_runs C ch (pv_commands V ptb) ([], []) (Spent # replicate k Spent, fs)"
    unfolding new(1) 1 append.simps by (rule runs_Cons [OF s new(2)])
  then have "ptb_runs C ch (pv_commands V ptb) ([], []) (replicate (Suc k) Spent, fs)" by simp
  with ev show ?thesis by blast
qed

lemma send_ptb_Inr:
  "send_ptb client signer new build w = (Inr r, w') \<longleftrightarrow>
     (\<exists>ptb tx. build new = (Inr (), ptb) \<and> scl_ExecutePTB client (execute_opts signer) ptb w = (Inr tx, w') \<and>
        r = sui_sent client tx)"
  by (auto simp: send_ptb_def bindW_Inr_iff ptb_step_def split: prod.splits sum.splits)

section \<open>Batches of the timelock\<close>

lemma AddressFromHex_format: "AddressFromHex (formatTargetAddress (sui_address_Bytes a)) = Inr a"
  by (simp add: AddressFromHex_def formatTargetAddress_def trim_hex_prefix_def Let_def AddressLen_def sui_address_Bytes_def
      from_be_bytes)

text \<open>A call without its upgrade data.\<close>

definition without_upgrade :: "sui_call \<Rightarrow> sui_call" where
  "without_upgrade c = c\<lparr>cl_CompiledModules := [], cl_Dependencies := [], cl_PackageToUpgrade := []\<rparr>"

lemma sui_address_Bytes_inject [simp]: "sui_address_Bytes a = sui_address_Bytes b \<longleftrightarrow> a = b"
  by (simp add: sui_address_Bytes_def AddressLen_def be_bytes_inject)

lemma timelock_call_Inr:
  "timelock_call S tx = Inr call \<longleftrightarrow>
     (\<exists>f to pkg. SuiFieldsUnmarshal S (tx_AdditionalFields tx) = Inr f \<and> AddressFromHex (tx_To tx) = Inr to \<and>
        (if sf_LatestPackageID f \<noteq> [] then AddressFromHex (sf_LatestPackageID f) = Inr pkg else pkg = to) \<and>
        call = \<lparr>cl_Target = sui_address_Bytes pkg, cl_ModuleName = sf_ModuleName f, cl_FunctionName = sf_Function f,
          cl_Data = tx_Data tx, cl_StateObj = sf_StateObj f, cl_TypeArgs = sf_TypeArgs f,
          cl_CompiledModules = sf_CompiledModules f, cl_Dependencies = sf_Dependencies f,
          cl_PackageToUpgrade = sf_PackageToUpgrade f\<rparr>)"
  by (auto simp: timelock_call_def bindE_Inr_iff)

lemma timelock_call_target:
  assumes "timelock_call S tx = Inr call"
  obtains t where "sui_target [] S tx = Inr t" "call_matches call (sui_move_call t)" "AddressFromHex (tx_To tx) = Inr (fst t)"
    "mvc_Target (sui_move_call t) = fst t" "mvc_Data (sui_move_call t) = tx_Data tx"
proof -
  from assms obtain f to where "SuiFieldsUnmarshal S (tx_AdditionalFields tx) = Inr f" "AddressFromHex (tx_To tx) = Inr to"
    "cl_ModuleName call = sf_ModuleName f" "cl_FunctionName call = sf_Function f" "cl_Data call = tx_Data tx"
    by (auto simp: timelock_call_Inr)
  then show thesis
    by (intro that [of "(to, f, tx_Data tx)"]) (simp_all add: sui_target_Inr call_matches_def sui_move_call_def)
qed

lemma timelock_calls_batch:
  assumes "mapE (timelock_call S) txs = Inr calls"
  shows "\<exists>ts. mapE (sui_target [] S) txs = Inr ts \<and> list_all2 call_matches calls (map sui_move_call ts) \<and>
    timelock_batch (map tx_To txs) (map cl_ModuleName calls) (map cl_FunctionName calls) (map tx_Data txs) =
      Inr (map sui_move_call ts)"
  using assms
proof (induction txs arbitrary: calls)
  case (Cons tx txs)
  then obtain call calls' where c: "timelock_call S tx = Inr call" "mapE (timelock_call S) txs = Inr calls'"
    "calls = call # calls'" by (auto simp: bindE_Inr_iff)
  from Cons.IH [OF c(2)] obtain ts where ts: "mapE (sui_target [] S) txs = Inr ts"
    "list_all2 call_matches calls' (map sui_move_call ts)"
    "timelock_batch (map tx_To txs) (map cl_ModuleName calls') (map cl_FunctionName calls') (map tx_Data txs) =
      Inr (map sui_move_call ts)" by blast
  from timelock_call_target [OF c(1)] obtain t where t: "sui_target [] S tx = Inr t" "call_matches call (sui_move_call t)"
    "AddressFromHex (tx_To tx) = Inr (fst t)" "mvc_Target (sui_move_call t) = fst t"
    "mvc_Data (sui_move_call t) = tx_Data tx" by blast
  then have "\<lparr>mvc_Target = fst t, mvc_Module = cl_ModuleName call, mvc_Function = cl_FunctionName call, mvc_Data = tx_Data tx\<rparr> =
      sui_move_call t" by (simp add: call_matches_def)
  with ts t c show ?case
    by (intro exI [of _ "t # ts"]) (auto simp: timelock_batch_def bindE_Inr_iff)
qed (simp add: timelock_batch_def)

text \<open>The calls that a bypass makes are those the timelock would make, short of what an upgrade needs.\<close>

lemma bypass_call_timelock:
  assumes "sui_target [] S tx = Inr t" and "i < length (sf_InternalStateObjects f)" and "i < length (sf_InternalTypeArgs f)"
    and "i < length (sf_InternalLatestPackageIDs f)" and "sf_LatestPackageID f = []"
    and "sf_InternalStateObjects f ! i = sf_StateObj (fst (snd t))" and "sf_InternalTypeArgs f ! i = sf_TypeArgs (fst (snd t))"
    and "sf_InternalLatestPackageIDs f ! i = sf_LatestPackageID (fst (snd t))"
  shows "bypass_call f (i, plain_call (sui_move_call t)) = Inr call \<longleftrightarrow>
    (\<exists>c. timelock_call S tx = Inr c \<and> call = without_upgrade c)"
proof -
  obtain to g d where t: "t = (to, g, d)" by (cases t)
  from assms(1) have "SuiFieldsUnmarshal S (tx_AdditionalFields tx) = Inr g" "AddressFromHex (tx_To tx) = Inr to" "d = tx_Data tx"
    by (auto simp: t sui_target_Inr)
  with assms(2-) show ?thesis
    by (auto simp: t bypass_call_def bypass_target_def bindE_Inr_iff timelock_call_Inr without_upgrade_def sui_move_call_def
        plain_call_def)
qed

lemma bypass_fields_timelock:
  assumes rd: "reader_documented R rem" and ts: "mapE (sui_target [] S) txs = Inr ts" and fit: "move_calls_fit (map sui_move_call ts)"
    and f: "sf_InternalStateObjects f = map (sf_StateObj \<circ> fst \<circ> snd) ts" "sf_InternalTypeArgs f = map (sf_TypeArgs \<circ> fst \<circ> snd) ts"
      "sf_InternalLatestPackageIDs f = map (sf_LatestPackageID \<circ> fst \<circ> snd) ts" "sf_LatestPackageID f = []"
  shows "bypass_calls R f (sui_bypass_bytes (map sui_move_call ts)) = Inr calls \<longleftrightarrow>
    (\<exists>cs. mapE (timelock_call S) txs = Inr cs \<and> calls = map without_upgrade cs)"
proof -
  have len: "length txs = length ts" using mapE_length [OF ts] by simp
  have one: "bypass_call f (i, plain_call (sui_move_call (ts ! i))) = Inr call \<longleftrightarrow>
      (\<exists>c. timelock_call S (txs ! i) = Inr c \<and> call = without_upgrade c)" if "i < length ts" for i call
    by (rule bypass_call_timelock) (use that f len mapE_nth [OF ts, of i] in simp_all)
  have "bypass_calls R f (sui_bypass_bytes (map sui_move_call ts)) =
      mapE (bypass_call f) (enumerate 0 (map plain_call (map sui_move_call ts)))"
    using f(1) by (simp add: bypass_calls_def deserialize_bypass [OF rd fit])
  also have "\<dots> = Inr calls \<longleftrightarrow> length calls = length ts \<and>
      (\<forall>i < length ts. \<exists>c. timelock_call S (txs ! i) = Inr c \<and> calls ! i = without_upgrade c)"
    by (auto simp: mapE_Inr_iff list_all2_conv_all_nth nth_enumerate_eq one)
  also have "\<dots> \<longleftrightarrow> (\<exists>cs. mapE (timelock_call S) txs = Inr cs \<and> calls = map without_upgrade cs)"
  proof
    assume a: "length calls = length ts \<and>
      (\<forall>i < length ts. \<exists>c. timelock_call S (txs ! i) = Inr c \<and> calls ! i = without_upgrade c)"
    then have "mapE (timelock_call S) txs = Inr (map (\<lambda>tx. projr (timelock_call S tx)) txs)"
      by (auto simp: mapE_Inr_iff list_all2_conv_all_nth len)
    moreover have "calls = map without_upgrade (map (\<lambda>tx. projr (timelock_call S tx)) txs)"
      using a by (intro nth_equalityI) (auto simp: len)
    ultimately show "\<exists>cs. mapE (timelock_call S) txs = Inr cs \<and> calls = map without_upgrade cs" by blast
  qed (auto simp: mapE_Inr_iff list_all2_conv_all_nth len)
  finally show ?thesis .
qed

section \<open>A sample builder and node\<close>

text \<open>A block is the list of its commands, an argument is what it stands for; the world is the blocks sent.\<close>

type_synonym sample_block = "ptb_arg ptb_command list"

definition sample_append :: "ptb_arg ptb_command \<Rightarrow> sample_block \<Rightarrow> ptb_arg \<times> sample_block" where
  "sample_append cmd p = (Result (length p), p @ [cmd])"

definition sample_builder :: "(sample_block, ptb_arg, ptb_arg ptb_call, unit) ptb_pkg" where
  "sample_builder =
     \<lparr>pb_New = [], pb_Encode = (\<lambda>pkg call. Inr (McmsCall pkg call)),
      pb_AppendPTB = (\<lambda>pkg opts c p. case sample_append (Called c) p of (g, p') \<Rightarrow> (Inr g, p')),
      pb_TypeTag = (\<lambda>_. Inr ()), pb_Pure = (\<lambda>v p. (PureU64 v, p)),
      pb_MoveCall = (\<lambda>pkg m f tags args. sample_append (Moved pkg m f args)),
      pb_Upgrade = (\<lambda>ms ds pkg a. sample_append (Upgraded ms ds pkg a)), pb_NewMcmsDeployer = (\<lambda>_. Inr ())\<rparr>"

definition sample_view :: "(sample_block, ptb_arg, ptb_arg ptb_call) ptb_view" where
  "sample_view = \<lparr>pv_commands = (\<lambda>p. p), pv_arg = (\<lambda>g. g), pv_call = (\<lambda>c. c)\<rparr>"

definition sample_callbacks :: "(ptb_arg, ptb_arg ptb_call) executing_callback_params" where
  "sample_callbacks =
     NewExecutingCallbackParams sample_sui_package (\<lambda>g t m f s d ts. Inr (EntryCall g t m f s d ts)) ''r'' ''a''"

lemma sample_ptb_documented: "ptb_documented sample_view sample_builder sample_callbacks"
  by (simp add: ptb_documented_def sample_view_def sample_builder_def sample_callbacks_def NewExecutingCallbackParams_def
      sample_append_def appends_def mcms_call.map_ident ptb_call.map_ident)

text \<open>A deserialiser whose state is the rest of the input.\<close>

fun sample_uleb :: "byte list \<Rightarrow> nat \<times> byte list" where
  "sample_uleb [] = (0, [])"
| "sample_uleb (b # bs) =
     (if unat b < 128 then (unat b, bs) else case sample_uleb bs of (n, r) \<Rightarrow> (unat b - 128 + 128 * n, r))"

definition sample_reader :: "byte list bcs_reader" where
  "sample_reader =
     \<lparr>NewDeserializer = (\<lambda>bs. bs), ReadUleb128 = (\<lambda>d. case sample_uleb d of (n, r) \<Rightarrow> (word_of_nat n, r)),
      ReadFixedBytes = (\<lambda>n d. (take n d, drop n d)),
      ReadString = (\<lambda>d. case sample_uleb d of (n, r) \<Rightarrow> (bytes_text (take n r), drop n r)),
      ReadBytes = (\<lambda>d. case sample_uleb d of (n, r) \<Rightarrow> (take n r, drop n r))\<rparr>"

lemma sample_uleb_reads: "sample_uleb (uleb128 n @ r) = (n, r)"
proof (induction n arbitrary: r rule: uleb128.induct)
  case (1 n)
  have b: "unat (word_of_nat k :: byte) = k" if "k < 256" for k
    using that by (simp add: unsigned_of_nat take_bit_nat_eq_self)
  have "n mod 128 + 128 < 256" by (simp add: less_diff_conv [symmetric])
  with 1 b [of n] b [of "n mod 128 + 128"] show ?case
    by (simp add: uleb128.simps [of n] del: of_nat_add)
qed

lemma bytes_text_string: "bytes_text (string_bytes s) = s"
  using string_bytes_text [of "string_bytes s"] string_bytes_inject by (metis string_bytes_text)

lemma sample_reader_documented: "reader_documented sample_reader (\<lambda>d. d)"
  by (simp add: reader_documented_def sample_reader_def sample_uleb_reads bytes_text_string)

definition sample_sui_contract :: "(sample_block list, unit) sui_contract" where
  "sample_sui_contract =
     \<lparr>suc_GetConfig = (\<lambda>_ _ _ _. Inl ''none''), suc_GetOpCount = (\<lambda>_ _ _ _. Inr 0), suc_GetRoot = (\<lambda>_ _ _ _. Inr []),
      suc_GetRootMetadata = (\<lambda>_ _ _ _. Inl ''none''), suc_SetRoot = (\<lambda>_ _ _ _ _ _ _ _ _ _ _ _ _ w. (Inr (), w)),
      suc_SetConfig = (\<lambda>_ _ _ _ _ _ _ _ _ _ w. (Inr (), w)), suc_TimelockMinDelay = (\<lambda>_ _ _. Inr 0),
      suc_TimelockIsOperation = (\<lambda>_ _ _ _. Inr True), suc_TimelockIsOperationPending = (\<lambda>_ _ _ _. Inr True),
      suc_TimelockIsOperationReady = (\<lambda>_ _ _ _ _. Inr True), suc_TimelockIsOperationDone = (\<lambda>_ _ _ _. Inr False)\<rparr>"

definition sample_sui_client :: "(sample_block, sample_block list, unit) sui_client" where
  "sample_sui_client =
     \<lparr>scl_NewMcms = (\<lambda>_. Inr sample_sui_contract), scl_ExecutePTB = (\<lambda>opts p w. (Inr (), w @ [p])), scl_Digest = (\<lambda>_. ''d'')\<rparr>"

definition sample_sui_executor ::
  "(sample_block, ptb_arg, ptb_arg ptb_call, sample_block list, unit) sui_executor" where
  "sample_sui_executor =
     \<lparr>sex_Encoder = Some \<lparr>se_ChainSelector = 4, se_TxCount = 1, se_OverridePreviousRoot = False\<rparr>,
      sex_Inspector = \<lparr>si_client = sample_sui_client, si_signer = ''k'', si_mcmsPackageID = sample_sui_package,
        si_mcms = sample_sui_contract, si_role = 2\<rparr>,
      sex_client = sample_sui_client, sex_signer = ''k'', sex_mcmsPackageID = sample_sui_package,
      sex_mcms = sample_sui_contract, sex_mcmsObj = ''m'', sex_accountObj = ''a'', sex_registryObj = ''r'',
      sex_timelockObj = ''t'', sex_callbacks = sample_callbacks\<rparr>"

definition sample_sui_timelock_executor ::
  "(sample_block, ptb_arg, ptb_arg ptb_call, sample_block list, unit) sui_timelock_executor" where
  "sample_sui_timelock_executor =
     \<lparr>ste_Inspector = \<lparr>sti_client = sample_sui_client, sti_signer = ''k'', sti_mcmsPackageID = sample_sui_package,
        sti_mcms = sample_sui_contract\<rparr>,
      ste_client = sample_sui_client, ste_signer = ''k'', ste_mcmsPackageID = sample_sui_package, ste_registryObj = ''r'',
      ste_accountObj = ''a'', ste_callbacks = sample_callbacks\<rparr>"

lemma sample_sui_executor_sel [simp]:
  "sex_Encoder sample_sui_executor = Some \<lparr>se_ChainSelector = 4, se_TxCount = 1, se_OverridePreviousRoot = False\<rparr>"
  "sex_client sample_sui_executor = sample_sui_client" "sex_signer sample_sui_executor = ''k''"
  "sex_mcmsPackageID sample_sui_executor = sample_sui_package" "sex_callbacks sample_sui_executor = sample_callbacks"
  "ste_client sample_sui_timelock_executor = sample_sui_client" "ste_signer sample_sui_timelock_executor = ''k''"
  "ste_mcmsPackageID sample_sui_timelock_executor = sample_sui_package"
  "ste_callbacks sample_sui_timelock_executor = sample_callbacks"
  by (simp_all add: sample_sui_executor_def sample_sui_timelock_executor_def)

text \<open>The steps of the builder on the sample.\<close>

lemma sample_append_call [simp]:
  "append_call sample_builder pkg opts m1 m2 call p = (Inr (Result (length p)), p @ [Called (McmsCall pkg call)])"
  by (simp add: append_call_def sample_builder_def ptb_step_def sample_append_def)

lemma sample_extract [simp]:
  "extractExecutingCallbackParams sample_builder pkg v p =
     (Inr (Result (length p)), p @ [Moved ''0x1'' ''vector'' ''remove'' [v, PureU64 0]])"
  by (simp add: extractExecutingCallbackParams_def sample_builder_def sample_append_def)

lemma sample_close [simp]:
  "closeExecutingCallbackParams sample_builder pkg v p = (Inr (), p @ [Moved ''0x1'' ''vector'' ''destroy_empty'' [v]])"
  by (simp add: closeExecutingCallbackParams_def sample_builder_def sample_append_def)

lemma sample_destination [simp]:
  "processDestinationContractCall sample_builder sample_callbacks params call target p =
     (Inr (), p @ [Called (EntryCall params target (cl_ModuleName call) (cl_FunctionName call) (cl_StateObj call) (cl_Data call)
                     (cl_TypeArgs call))])"
  by (simp add: processDestinationContractCall_def sample_builder_def sample_callbacks_def NewExecutingCallbackParams_def
      ptb_step_def sample_append_def bindW_def)

lemma sample_main_call:
  "cl_ModuleName call = ''mcms'' \<Longrightarrow> cl_FunctionName call = ''mcms_set_config'' \<Longrightarrow>
   processMCMSPackageCall sample_builder sample_callbacks params call p =
     (Inr (), p @ [Called (McmsCall sample_sui_package (CallMcmsSetConfig ''r'' (cl_StateObj call) params))])"
  by (simp add: processMCMSPackageCall_def processMCMSMainModuleCall_def main_module_call_def suiModuleNameMCMSDeployer_def
      suiModuleNameMCMSAccount_def trim_mcms_prefix_def suiMCMSSetConfigFunctionName_def bindW_def sample_callbacks_def
      NewExecutingCallbackParams_def Let_def)

lemma sample_targets:
  "formatTargetAddress (sui_address_Bytes 66) \<noteq> sample_sui_package" "formatTargetAddress (sui_address_Bytes 5) = sample_sui_package"
  using AddressFromHex_format [of 66] sample_sui_package_address
  by (auto simp: formatTargetAddress_def sample_sui_package_def sui_address_Bytes_def AddressLen_def)

lemma sample_sui_calls:
  "sui_calls sample_sui sample_sui_batch = Inr
     [\<lparr>mvc_Target = 65, mvc_Module = ''mod'', mvc_Function = ''fn'', mvc_Data = [1, 2, 3]\<rparr>,
      \<lparr>mvc_Target = 5, mvc_Module = ''mcms'', mvc_Function = ''mcms_set_config'', mvc_Data = [4]\<rparr>]"
  by (simp add: sui_calls_def sample_sui_batch_def sui_move_call_def no_sui_fields_def)

definition sample_calls :: "sui_call list" where
  "sample_calls =
     [\<lparr>cl_Target = sui_address_Bytes 66, cl_ModuleName = ''mod'', cl_FunctionName = ''fn'', cl_Data = [1, 2, 3],
       cl_StateObj = ''s'', cl_TypeArgs = [''T''], cl_CompiledModules = [], cl_Dependencies = [], cl_PackageToUpgrade = []\<rparr>,
      \<lparr>cl_Target = sui_address_Bytes 5, cl_ModuleName = ''mcms'', cl_FunctionName = ''mcms_set_config'', cl_Data = [4],
       cl_StateObj = ''m'', cl_TypeArgs = [], cl_CompiledModules = [], cl_Dependencies = [], cl_PackageToUpgrade = []\<rparr>]"

lemma sample_timelock_calls: "mapE (timelock_call sample_sui) (bop_Transactions sample_sui_batch) = Inr sample_calls"
  by (simp add: sample_sui_batch_def timelock_call_def sample_sui_tx_def sample_sui_config_tx_def sample_sui_marshal_inverse
      sample_sui_addresses sample_sui_package_address no_sui_fields_def sample_calls_def del: sample_json_sui.simps)

lemma sample_callbacks_append:
  "\<exists>p'. callbacks_AppendPTB sample_builder sample_callbacks v sample_calls p = (Inr (), p')"
proof -
  have pkg: "isTargetMCMSPackage sample_callbacks t \<longleftrightarrow> t = sample_sui_package" for t
    by (simp add: isTargetMCMSPackage_def sample_callbacks_def NewExecutingCallbackParams_def)
  show ?thesis
    by (simp add: callbacks_AppendPTB_def sample_calls_def processCall_def Let_def bindW_def wrapW_def pkg sample_targets
        sample_main_call)
qed

text \<open>A proposal with one operation, which bypasses the sample batch.\<close>

definition sample_cs :: "move_call list" where
  "sample_cs =
     [\<lparr>mvc_Target = 65, mvc_Module = ''mod'', mvc_Function = ''fn'', mvc_Data = [1, 2, 3]\<rparr>,
      \<lparr>mvc_Target = 5, mvc_Module = ''mcms'', mvc_Function = ''mcms_set_config'', mvc_Data = [4]\<rparr>]"

definition sample_bypass_fields :: sui_fields where
  "sample_bypass_fields = no_sui_fields\<lparr>sf_ModuleName := ''mcms'', sf_Function := suiTimelockBypassFunctionName,
     sf_StateObj := ''t'', sf_InternalStateObjects := [''s'', ''m''], sf_InternalTypeArgs := [[''T''], []],
     sf_InternalLatestPackageIDs := [''0x42'', []]\<rparr>"

definition sample_bypass_tx :: transaction where
  "sample_bypass_tx = \<lparr>tx_ContractType = ''MCMS'', tx_ContractVersion = None, tx_Tags = [], tx_To = sample_sui_package,
     tx_Data = sui_bypass_bytes sample_cs, tx_AdditionalFields = sample_sui_marshal sample_bypass_fields\<rparr>"

definition sample_sui_env :: mcms_env where
  "sample_sui_env = sample_env\<lparr>ChainDetails := (\<lambda>_. Inr FamilySui)\<rparr>"

lemma sample_sui_env_sel [simp]:
  "ChainDetails sample_sui_env = (\<lambda>_. Inr FamilySui)" "Keccak256Hash sample_sui_env = from_be"
  by (simp_all add: sample_sui_env_def)

lemma sample_cs_fit: "move_calls_fit sample_cs"
  by (simp add: move_calls_fit_def sample_cs_def)

lemma sample_bypass_calls: "bypass_calls sample_reader sample_bypass_fields (sui_bypass_bytes sample_cs) = Inr sample_calls"
proof -
  let ?ts = "projr (mapE (sui_target [] sample_sui) (bop_Transactions sample_sui_batch))"
  have ts: "mapE (sui_target [] sample_sui) (bop_Transactions sample_sui_batch) = Inr ?ts" "map sui_move_call ?ts = sample_cs"
    by (simp_all add: sample_sui_batch_def sample_cs_def sui_move_call_def no_sui_fields_def)
  have "map without_upgrade sample_calls = sample_calls" by (simp add: without_upgrade_def sample_calls_def)
  then show ?thesis
    using bypass_fields_timelock [OF sample_reader_documented ts(1), of sample_bypass_fields sample_calls] ts(2) sample_cs_fit
      sample_timelock_calls
    by (auto simp: sample_bypass_fields_def sample_sui_batch_def no_sui_fields_def)
qed

lemma sample_bypass_unmarshal: "sample_json_sui (tx_AdditionalFields sample_bypass_tx) = Inr sample_bypass_fields"
  by (simp add: sample_bypass_tx_def sample_sui_marshal_inverse del: sample_json_sui.simps)

lemma sample_bypass_executable:
  "\<exists>e. NewExecutable (with_sui sample_sui sample_sui_env) (single_proposal 4 sample_sui_metadata sample_bypass_tx) executors = Inr e"
proof -
  have "\<exists>e. NewExecutable (with_sui sample_sui sample_sui_env) (single_proposal 4 sample_sui_metadata sample_bypass_tx) executors = Inr e \<and>
      exe_txNonces e = [0]"
  proof (rule single_executable)
    show "newEncoder (with_sui sample_sui sample_sui_env) 4 1 False False =
        Inr (Some (suiNewEncoder sample_sui_env sample_sui 4 1 False))"
      by (rule with_sui_newEncoder) simp
    show "\<exists>h. enc_HashMetadata (suiNewEncoder sample_sui_env sample_sui 4 1 False) sample_sui_metadata = Inr h"
      by (simp add: suiNewEncoder_methods sui_HashMetadata_def raw_nonempty_def sample_sui_metadata_def [THEN arg_cong, of cm_AdditionalFields]
          sample_sui_package_address)
    show "\<exists>h. enc_HashOperation (suiNewEncoder sample_sui_env sample_sui 4 1 False) 0 sample_sui_metadata
        \<lparr>op_ChainSelector = 4, op_Transaction = sample_bypass_tx\<rparr> = Inr h"
      by (simp add: suiNewEncoder_methods sui_HashOperation_def sample_bypass_unmarshal sample_sui_package_address
          sample_bypass_tx_def [THEN arg_cong, of tx_To])
    have "casts_documented (with_sui sample_sui sample_sui_env)"
      using sample_env_casts by (simp add: casts_documented_def with_sui_def sample_sui_env_def)
    then show "Uint64ToUint32 (with_sui sample_sui sample_sui_env) 0 = Inr 0" by (simp add: Uint64ToUint32_Inr)
  qed (simp add: sample_sui_metadata_def)
  then show ?thesis by blast
qed

lemma sample_bypass_timelock_call:
  "\<exists>p'. append_timelock_call sample_builder sample_reader sample_sui_executor sample_bypass_fields
     (tx_Data sample_bypass_tx) v p = (Inr (), p')"
proof -
  have fn: "sf_Function sample_bypass_fields = suiTimelockBypassFunctionName" "tx_Data sample_bypass_tx = sui_bypass_bytes sample_cs"
    by (simp_all add: sample_bypass_fields_def sample_bypass_tx_def)
  obtain p' where "callbacks_AppendPTB sample_builder sample_callbacks (Result (length p)) sample_calls
      (p @ [Called (McmsCall sample_sui_package (CallDispatchTimelockBypasserExecuteBatch v))]) = (Inr (), p')"
    using sample_callbacks_append by blast
  then show ?thesis by (simp add: append_timelock_call_def fn sample_bypass_calls bindW_def wrapW_def)
qed

lemma sample_bypass_block:
  "\<exists>ptb. execute_ptb sample_sui sample_builder sample_reader sample_sui_executor sample_sui_metadata n pf
     \<lparr>op_ChainSelector = 4, op_Transaction = sample_bypass_tx\<rparr> (pb_New sample_builder) = (Inr (), ptb)"
proof -
  have to: "AddressFromHex (tx_To sample_bypass_tx) = Inr 5" by (simp add: sample_bypass_tx_def sample_sui_package_address)
  show ?thesis
    using sample_bypass_timelock_call
    by (simp add: execute_ptb_def sample_bypass_unmarshal to bindW_def)
qed

section \<open>Properties\<close>

text \<open>
  C28: an operation on Sui is one block in which nothing is forged and nothing is left over. When an
  executable runs an operation through the Sui executor of its chain and the node accepts the block, the
  commands of that block, run one by one, pass the check of the MCM under the root of the signed tree,
  give every timelock callback to the command that stands for its function, module and data, in the
  order of the batch, and end with every result of a command consumed: an operation that schedules or
  cancels does just that with its data, one that bypasses makes exactly the calls of its batch.
\<close>

theorem sui_operation_executes:
  assumes "gm_wf (bp_ChainMetadata p)" and "NewExecutable (with_sui S E) p executors = Inr e"
    and "i < length (pr_Operations p)" and "op_ChainSelector (pr_Operations p ! i) = sel"
    and "ChainDetails E sel = Inr FamilySui" and "gm_get executors sel = Some (sui_executor_iface S B R x)"
    and "sex_Encoder x = Some \<lparr>se_ChainSelector = sel, se_TxCount = gm_get0 (TransactionCounts p) sel 0,
           se_OverridePreviousRoot = bp_OverridePreviousRoot p\<rparr>"
    and "bcs_documented S" and "reader_documented R rem" and "ptb_documented V (B w) (sex_callbacks x)"
    and "\<And>m. sui_metadata_of S (metadata_of p sel) = Inr m \<Longrightarrow>
      AddressFromHex (sm_McmsPackageID m) = AddressFromHex (sex_mcmsPackageID x)"
    and "sui_op_fits S (op_Transaction (pr_Operations p ! i))"
    and "SuiFieldsUnmarshal S (tx_AdditionalFields (op_Transaction (pr_Operations p ! i))) = Inr f"
    and "sf_Function f = suiTimelockBypassFunctionName \<longrightarrow>
      move_calls_fit cs \<and> tx_Data (op_Transaction (pr_Operations p ! i)) = sui_bypass_bytes cs"
    and "Execute (with_sui S E) e (int i) w = (Inr r, w')"
  shows "\<exists>t ptb tx k es. MerkleTree (with_sui S E) p = Inr t \<and>
    scl_ExecutePTB (sex_client x) (execute_opts (sex_signer x)) ptb w = (Inr tx, w') \<and> r = sui_sent (sex_client x) tx \<and>
    ptb_runs E \<lparr>sch_Root = mt_Root t, sch_Ready = ready\<rparr> (pv_commands V ptb) ([], []) (replicate k Spent, es) \<and>
    execution_events R (ecp_mcmsPackageID (sex_callbacks x)) f (tx_Data (op_Transaction (pr_Operations p ! i))) cs es"
proof -
  from executed_leaf [OF assms(1-4) with_sui_newEncoder [OF assms(5)] assms(6), of w] obtain n h pf where
    h: "sui_HashOperation E S \<lparr>se_ChainSelector = sel, se_TxCount = gm_get0 (TransactionCounts p) sel 0,
      se_OverridePreviousRoot = bp_OverridePreviousRoot p\<rparr> n (metadata_of p sel) (pr_Operations p ! i) = Inr h"
      "foldl (hashPair (Keccak256Hash E)) h pf = mt_Root (exe_tree e)" and
    t: "MerkleTree (with_sui S E) p = Inr (exe_tree e)" and
    x: "Execute (with_sui S E) e (int i) w =
      ex_ExecuteOperation (sui_executor_iface S B R x) (metadata_of p sel) n pf (pr_Operations p ! i) w"
    by (auto simp: suiNewEncoder_methods)
  from x assms(15) have "sui_ExecuteOperation S B R x (metadata_of p sel) n pf (pr_Operations p ! i) w = (Inr r, w')"
    by (simp add: sui_executor_iface_def)
  then obtain ptb tx where
    b: "execute_ptb S (B w) R x (metadata_of p sel) n pf (pr_Operations p ! i) (pb_New (B w)) = (Inr (), ptb)" and
    s: "scl_ExecutePTB (sex_client x) (execute_opts (sex_signer x)) ptb w = (Inr tx, w')" "r = sui_sent (sex_client x) tx"
    by (auto simp: sui_ExecuteOperation_def send_ptb_Inr)
  have "foldl (hashPair (Keccak256Hash E)) h pf = sch_Root \<lparr>sch_Root = mt_Root (exe_tree e), sch_Ready = ready\<rparr>"
    using h(2) by simp
  from execute_ptb_runs [OF assms(10,9,8,12) h(1) assms(7) this assms(11,13,14) b] t s show ?thesis by blast
qed

theorem sui_operation_executes_witness:
  "let T = with_sui sample_sui sample_sui_env; p = single_proposal 4 sample_sui_metadata sample_bypass_tx in
   \<exists>e t r ptb k. NewExecutable T p [(4, sui_executor_iface sample_sui (\<lambda>_. sample_builder) sample_reader sample_sui_executor)] = Inr e \<and>
     MerkleTree T p = Inr t \<and> Execute T e 0 [] = (Inr r, [ptb]) \<and>
     ptb_runs sample_sui_env \<lparr>sch_Root = mt_Root t, sch_Ready = (\<lambda>_. False)\<rparr> ptb ([], []) (replicate k Spent,
       [EntryEv \<lparr>mvc_Target = 65, mvc_Module = ''mod'', mvc_Function = ''fn'', mvc_Data = [1, 2, 3]\<rparr>
          (formatTargetAddress (sui_address_Bytes 66)) ''s'' [''T''],
        MainEv \<lparr>mvc_Target = 5, mvc_Module = ''mcms'', mvc_Function = ''mcms_set_config'', mvc_Data = [4]\<rparr>])"
proof -
  let ?T = "with_sui sample_sui sample_sui_env" and ?p = "single_proposal 4 sample_sui_metadata sample_bypass_tx"
  let ?ex = "[(4, sui_executor_iface sample_sui (\<lambda>_. sample_builder) sample_reader sample_sui_executor)]"
  let ?op = "\<lparr>op_ChainSelector = 4, op_Transaction = sample_bypass_tx\<rparr>"
  obtain e where e: "NewExecutable ?T ?p ?ex = Inr e" using sample_bypass_executable by blast
  have wf: "gm_wf (bp_ChainMetadata ?p)" by (simp add: gm_wf_def)
  have enc: "newEncoder ?T 4 (gm_get0 (TransactionCounts ?p) 4 0) (bp_OverridePreviousRoot ?p) (bp_useSimulatedBackend ?p) =
      Inr (Some (suiNewEncoder sample_sui_env sample_sui 4 1 False))"
    by (simp add: with_sui_newEncoder)
  from executed_leaf [OF wf e, of 0 4, OF _ _ enc, of _ "[]"] obtain n pf where
    "Execute ?T e 0 [] = ex_ExecuteOperation (sui_executor_iface sample_sui (\<lambda>_. sample_builder) sample_reader sample_sui_executor)
      sample_sui_metadata n pf ?op []" by auto
  moreover obtain ptb where ptb: "execute_ptb sample_sui sample_builder sample_reader sample_sui_executor sample_sui_metadata n pf ?op
      (pb_New sample_builder) = (Inr (), ptb)" using sample_bypass_block by blast
  ultimately have run: "Execute ?T e (int 0) [] = (Inr (sui_sent sample_sui_client ()), [ptb])"
    by (simp add: sui_executor_iface_def sui_ExecuteOperation_def send_ptb_def bindW_def ptb_step_def sample_sui_client_def)
  have fields: "SuiFieldsUnmarshal sample_sui (tx_AdditionalFields (op_Transaction (pr_Operations ?p ! 0))) = Inr sample_bypass_fields"
    by (simp add: sample_bypass_unmarshal)
  have fits: "sui_op_fits sample_sui (op_Transaction (pr_Operations ?p ! 0))"
    by (simp add: sui_op_fits_def sample_bypass_unmarshal sample_bypass_fields_def suiTimelockBypassFunctionName_def no_sui_fields_def)
      (simp add: sample_bypass_tx_def sui_bypass_bytes_def sample_cs_def uleb128.simps)
  have cs: "sf_Function sample_bypass_fields = suiTimelockBypassFunctionName \<longrightarrow>
      move_calls_fit sample_cs \<and> tx_Data (op_Transaction (pr_Operations ?p ! 0)) = sui_bypass_bytes sample_cs"
    using sample_cs_fit by (simp add: sample_bypass_tx_def)
  have doc: "ptb_documented sample_view ((\<lambda>_. sample_builder) []) (sex_callbacks sample_sui_executor)"
    using sample_ptb_documented by simp
  have sel: "op_ChainSelector (pr_Operations ?p ! 0) = 4" by simp
  have encoder: "sex_Encoder sample_sui_executor = Some \<lparr>se_ChainSelector = 4, se_TxCount = gm_get0 (TransactionCounts ?p) 4 0,
      se_OverridePreviousRoot = bp_OverridePreviousRoot ?p\<rparr>" by simp
  have pkg: "sui_metadata_of sample_sui (metadata_of ?p 4) = Inr m \<Longrightarrow>
      AddressFromHex (sm_McmsPackageID m) = AddressFromHex (sex_mcmsPackageID sample_sui_executor)" for m by auto
  have "\<exists>t ptb' tx k es. MerkleTree ?T ?p = Inr t \<and>
      scl_ExecutePTB (sex_client sample_sui_executor) (execute_opts (sex_signer sample_sui_executor)) ptb' [] = (Inr tx, [ptb]) \<and>
      sui_sent sample_sui_client () = sui_sent (sex_client sample_sui_executor) tx \<and>
      ptb_runs sample_sui_env \<lparr>sch_Root = mt_Root t, sch_Ready = (\<lambda>_. False)\<rparr> (pv_commands sample_view ptb') ([], []) (replicate k Spent, es) \<and>
      execution_events sample_reader (ecp_mcmsPackageID (sex_callbacks sample_sui_executor)) sample_bypass_fields
        (tx_Data (op_Transaction (pr_Operations ?p ! 0))) sample_cs es"
    by (rule sui_operation_executes [OF wf e _ sel _ _ encoder sample_sui_documented(1) sample_reader_documented doc pkg fits
          fields cs run]) simp_all
  then obtain t k es where t: "MerkleTree ?T ?p = Inr t"
    "ptb_runs sample_sui_env \<lparr>sch_Root = mt_Root t, sch_Ready = (\<lambda>_. False)\<rparr> ptb ([], []) (replicate k Spent, es)" and
    es: "execution_events sample_reader sample_sui_package sample_bypass_fields (sui_bypass_bytes sample_cs) sample_cs es"
    by (auto simp: sample_sui_client_def sample_view_def sample_callbacks_def NewExecutingCallbackParams_def sample_bypass_tx_def)
  have "sf_Function sample_bypass_fields = suiTimelockBypassFunctionName" by (simp add: sample_bypass_fields_def)
  with es have "es = map2 (call_event sample_sui_package) sample_calls sample_cs"
    by (simp add: execution_events_def sample_bypass_calls)
  then have "es = [EntryEv \<lparr>mvc_Target = 65, mvc_Module = ''mod'', mvc_Function = ''fn'', mvc_Data = [1, 2, 3]\<rparr>
      (formatTargetAddress (sui_address_Bytes 66)) ''s'' [''T''],
      MainEv \<lparr>mvc_Target = 5, mvc_Module = ''mcms'', mvc_Function = ''mcms_set_config'', mvc_Data = [4]\<rparr>]"
    by (simp add: sample_calls_def sample_cs_def call_event_def suiModuleNameMCMSDeployer_def suiModuleNameMCMSAccount_def
        sample_targets)
  with e t run show ?thesis by (auto simp: Let_def)
qed

text \<open>
  C29: to bypass a batch on Sui is to do what the timelock would do. The operation that the converter
  makes of a batch to be bypassed carries its calls, and the executor reads back, for every
  transaction in order, the very call that the timelock executor makes for it: target or its override,
  module, function, data, state object and type arguments. It fails where the timelock executor fails.
  What is lost are the modules, dependencies and package of an upgrade.
\<close>

theorem sui_bypass_is_timelock_run:
  assumes "bcs_documented S" and "sui_json_documented S" and "reader_documented R rem" and "sui_batch_fits S b"
    and "suiConvert C S md b tlAddr mcm delay TimelockActionBypass pred salt = Inr (ops, h)"
  shows "\<exists>op f cs. ops = [op] \<and> SuiFieldsUnmarshal S (tx_AdditionalFields (op_Transaction op)) = Inr f \<and>
    sf_Function f = suiTimelockBypassFunctionName \<and> sui_calls S b = Inr cs \<and> move_calls_fit cs \<and>
    tx_Data (op_Transaction op) = sui_bypass_bytes cs \<and>
    (\<forall>calls. bypass_calls R f (tx_Data (op_Transaction op)) = Inr calls \<longleftrightarrow>
       (\<exists>tcs. mapE (timelock_call S) (bop_Transactions b) = Inr tcs \<and> calls = map without_upgrade tcs))"
proof -
  from assms(5) obtain m ts data op raw where
    ts: "mapE (sui_target ''failed to unmarshal additional fields: %w'' S) (bop_Transactions b) = Inr ts" and
    d: "serializeTimelockBypasserExecuteBatch S (sui_target_bytes ts) (sui_target_modules ts) (sui_target_functions ts)
      (sui_target_datas ts) = Inr data" and
    f: "SuiFieldsMarshal S (no_sui_fields\<lparr>sf_ModuleName := ''mcms'', sf_Function := suiTimelockBypassFunctionName,
      sf_StateObj := tlAddr, sf_InternalStateObjects := map (sf_StateObj \<circ> fst \<circ> snd) ts, sf_TypeArgs := [],
      sf_InternalTypeArgs := map (sf_TypeArgs \<circ> fst \<circ> snd) ts,
      sf_InternalLatestPackageIDs := map (sf_LatestPackageID \<circ> fst \<circ> snd) ts\<rparr>) = Inr raw" and
    op: "ops = [op]" "tx_Data (op_Transaction op) = data" "tx_AdditionalFields (op_Transaction op) = raw"
    by (auto simp: suiConvert_def sui_action_data_def Let_def bindE_Inr_iff newTransactionWithManyStateObj_def
        sui_transaction_def split: prod.splits)
  note fit = sui_batch_fits_targets [OF assms(4) ts]
  have data: "data = sui_bypass_bytes (map sui_move_call ts)" using serialize_bypass [OF assms(1) fit] d by simp
  have "SuiFieldsUnmarshal S raw = Inr (no_sui_fields\<lparr>sf_ModuleName := ''mcms'', sf_Function := suiTimelockBypassFunctionName,
      sf_StateObj := tlAddr, sf_InternalStateObjects := map (sf_StateObj \<circ> fst \<circ> snd) ts, sf_TypeArgs := [],
      sf_InternalTypeArgs := map (sf_TypeArgs \<circ> fst \<circ> snd) ts,
      sf_InternalLatestPackageIDs := map (sf_LatestPackageID \<circ> fst \<circ> snd) ts\<rparr>)" (is "_ = Inr ?f")
    using assms(2) f unfolding sui_json_documented_def by blast
  moreover have "bypass_calls R ?f (sui_bypass_bytes (map sui_move_call ts)) = Inr calls \<longleftrightarrow>
      (\<exists>tcs. mapE (timelock_call S) (bop_Transactions b) = Inr tcs \<and> calls = map without_upgrade tcs)" for calls
    by (rule bypass_fields_timelock [OF assms(3) sui_targets_calls [OF ts] sui_move_calls_fit [OF fit]])
      (simp_all add: no_sui_fields_def)
  moreover have "sui_calls S b = Inr (map sui_move_call ts)" by (simp add: sui_calls_def sui_targets_calls [OF ts])
  ultimately show ?thesis using op data sui_move_calls_fit [OF fit] by (auto simp: no_sui_fields_def)
qed

theorem sui_bypass_is_timelock_run_witness:
  "\<exists>op f h calls. suiConvert sample_env sample_sui sample_sui_metadata
       sample_sui_batch ''t'' ''m'' 0 TimelockActionBypass 0 7 = Inr ([op], h) \<and>
     SuiFieldsUnmarshal sample_sui (tx_AdditionalFields (op_Transaction op)) = Inr f \<and>
     bypass_calls sample_reader f (tx_Data (op_Transaction op)) = Inr calls \<and>
     map cl_Target calls = [sui_address_Bytes 66, sui_address_Bytes 5] \<and> map cl_StateObj calls = [''s'', ''m'']"
proof -
  obtain ops h where
    conv: "suiConvert sample_env sample_sui sample_sui_metadata sample_sui_batch ''t'' ''m'' 0 TimelockActionBypass 0 7 = Inr (ops, h)"
    using sample_sui_converts by blast
  from sui_bypass_is_timelock_run [OF sample_sui_documented sample_reader_documented sample_sui_fits conv] obtain op f where
    "ops = [op]" "SuiFieldsUnmarshal sample_sui (tx_AdditionalFields (op_Transaction op)) = Inr f" and
    eq: "\<And>calls. bypass_calls sample_reader f (tx_Data (op_Transaction op)) = Inr calls \<longleftrightarrow>
       (\<exists>tcs. mapE (timelock_call sample_sui) (bop_Transactions sample_sui_batch) = Inr tcs \<and> calls = map without_upgrade tcs)"
    by blast
  moreover have "map cl_Target (map without_upgrade sample_calls) = [sui_address_Bytes 66, sui_address_Bytes 5]"
    "map cl_StateObj (map without_upgrade sample_calls) = [''s'', ''m'']"
    by (simp_all add: without_upgrade_def sample_calls_def)
  ultimately show ?thesis using conv sample_timelock_calls by metis
qed

text \<open>
  C30: what was scheduled on Sui is what is executed. When the id that the converter reported for a
  scheduled batch is ready and the node accepts the block of the timelock executor, the commands of the
  block run: the timelock finds the batch by its id, every callback goes to the call it stands for, in
  order, upgrades with their modules included, and every result is consumed.
\<close>

theorem sui_timelock_executes_scheduled:
  assumes "bcs_documented S" and "casts_documented C" and "sui_batch_fits S b"
    and "suiConvert C S md b tlAddr mcm delay TimelockActionSchedule pred salt = Inr (ops, opid)"
    and "sch_Ready ch opid" and "ptb_documented V (B w) (ste_callbacks t)"
    and "sui_timelock_Execute S B t b addr pred salt w = (Inr r, w')"
  shows "\<exists>cs calls ptb tx k. sui_calls S b = Inr cs \<and> mapE (timelock_call S) (bop_Transactions b) = Inr calls \<and>
    list_all2 call_matches calls cs \<and>
    scl_ExecutePTB (ste_client t) (execute_opts (ste_signer t)) ptb w = (Inr tx, w') \<and> r = sui_sent (ste_client t) tx \<and>
    ptb_runs C ch (pv_commands V ptb) ([], [])
      (replicate k Spent, map2 (call_event (ecp_mcmsPackageID (ste_callbacks t))) calls cs)"
proof -
  note doc = assms(6)
  from assms(7) obtain ptb tx calls g p1 where
    s: "scl_ExecutePTB (ste_client t) (execute_opts (ste_signer t)) ptb w = (Inr tx, w')" "r = sui_sent (ste_client t) tx" and
    calls: "mapE (timelock_call S) (bop_Transactions b) = Inr calls" and
    a: "append_call (B w) (ste_mcmsPackageID t) (execute_opts (ste_signer t)) ''failed to execute batch: %w''
      ''building PTB for execute call: %w''
      (CallTimelockExecuteBatch addr sui_clock (ste_registryObj t) (map tx_To (bop_Transactions b)) (map cl_ModuleName calls)
         (map cl_FunctionName calls) (map tx_Data (bop_Transactions b)) (be_bytes 32 pred) (be_bytes 32 salt))
      (pb_New (B w)) = (Inr g, p1)" and
    c: "callbacks_AppendPTB (B w) (ste_callbacks t) g calls p1 = (Inr (), ptb)"
    by (auto simp: sui_timelock_Execute_def send_ptb_Inr timelock_ptb_def run_after_Inr_iff bindW_Inr_iff)
  from timelock_calls_batch [OF calls] obtain ts where ts: "mapE (sui_target [] S) (bop_Transactions b) = Inr ts"
    and m: "list_all2 call_matches calls (map sui_move_call ts)"
    and batch: "timelock_batch (map tx_To (bop_Transactions b)) (map cl_ModuleName calls) (map cl_FunctionName calls)
      (map tx_Data (bop_Transactions b)) = Inr (map sui_move_call ts)" by blast
  from sui_OperationID_hash [OF assms(1,2,3) sui_family.conv_id [OF assms(4)]] ts
  have "opid = Keccak256Hash C (move_batch_bytes (map sui_move_call ts) pred salt)" by (simp add: sui_calls_def)
  with assms(5) have ready: "sch_Ready ch (Keccak256Hash C (move_batch_bytes (map sui_move_call ts)
      (from_be (be_bytes 32 pred)) (from_be (be_bytes 32 salt))))" by (simp add: from_be_bytes)
  have p1: "pv_commands V p1 = [Called (McmsCall (ste_mcmsPackageID t)
      (CallTimelockExecuteBatch addr sui_clock (ste_registryObj t) (map tx_To (bop_Transactions b)) (map cl_ModuleName calls)
         (map cl_FunctionName calls) (map tx_Data (bop_Transactions b)) (be_bytes 32 pred) (be_bytes 32 salt)))]"
    and g: "pv_arg V g = Result 0"
    using append_call_appends [OF doc a] ptb_documentedD(1) [OF doc] by (simp_all add: appends_def)
  have "extends_run V C ch p1 ptb ([CallbackVector (map sui_move_call ts)], []) ([CallbackVector (map sui_move_call ts)][0 := Spent])
      (map2 (call_event (ecp_mcmsPackageID (ste_callbacks t))) calls (map sui_move_call ts))"
    by (rule callbacks_runs [OF doc c g _ _ _ m]) (simp_all add: p1)
  then obtain new k where new: "pv_commands V ptb = pv_commands V p1 @ new"
    "ptb_runs C ch new ([CallbackVector (map sui_move_call ts)], []) (Spent # replicate k Spent,
       map2 (call_event (ecp_mcmsPackageID (ste_callbacks t))) calls (map sui_move_call ts))"
    by (auto simp: extends_run_def)
  have "ptb_runs C ch (pv_commands V ptb) ([], []) (replicate (Suc k) Spent,
      map2 (call_event (ecp_mcmsPackageID (ste_callbacks t))) calls (map sui_move_call ts))"
    using new step_batch [OF batch ready, of "ste_mcmsPackageID t" addr sui_clock "ste_registryObj t" "[]" "[]"]
    by (auto simp: p1)
  moreover have "sui_calls S b = Inr (map sui_move_call ts)" using ts by (simp add: sui_calls_def)
  ultimately show ?thesis using s calls m by blast
qed

theorem sui_timelock_executes_scheduled_witness:
  "\<exists>ops opid r w' ptb k. suiConvert sample_env sample_sui
       sample_sui_metadata sample_sui_batch ''t'' ''m'' 0
       TimelockActionSchedule 0 7 = Inr (ops, opid) \<and>
     sui_timelock_Execute sample_sui (\<lambda>_. sample_builder) sample_sui_timelock_executor sample_sui_batch ''t'' 0 7 [] = (Inr r, [ptb]) \<and>
     ptb_runs sample_env \<lparr>sch_Root = 0, sch_Ready = (\<lambda>h. h = opid)\<rparr> ptb ([], []) (replicate k Spent,
       [EntryEv \<lparr>mvc_Target = 65, mvc_Module = ''mod'', mvc_Function = ''fn'', mvc_Data = [1, 2, 3]\<rparr>
          (formatTargetAddress (sui_address_Bytes 66)) ''s'' [''T''],
        MainEv \<lparr>mvc_Target = 5, mvc_Module = ''mcms'', mvc_Function = ''mcms_set_config'', mvc_Data = [4]\<rparr>])"
proof -
  have doc: "ptb_documented sample_view ((\<lambda>_. sample_builder) []) (ste_callbacks sample_sui_timelock_executor)"
    using sample_ptb_documented by simp
  obtain ops opid where
    conv: "suiConvert sample_env sample_sui sample_sui_metadata sample_sui_batch ''t'' ''m'' 0 TimelockActionSchedule 0 7 = Inr (ops, opid)"
    using sample_sui_converts by blast
  obtain ptb where run: "sui_timelock_Execute sample_sui (\<lambda>_. sample_builder) sample_sui_timelock_executor sample_sui_batch ''t'' 0 7 []
      = (Inr (sui_sent sample_sui_client ()), [ptb])"
  proof -
    obtain p' where "callbacks_AppendPTB sample_builder sample_callbacks (Result (length (pb_New sample_builder))) sample_calls
        (pb_New sample_builder @ [Called (McmsCall sample_sui_package (CallTimelockExecuteBatch ''t'' sui_clock
           (ste_registryObj sample_sui_timelock_executor) (map tx_To (bop_Transactions sample_sui_batch))
           (map cl_ModuleName sample_calls) (map cl_FunctionName sample_calls) (map tx_Data (bop_Transactions sample_sui_batch))
           (be_bytes 32 (0 :: hash)) (be_bytes 32 (7 :: hash))))]) = (Inr (), p')"
      using sample_callbacks_append by blast
    then have "timelock_ptb sample_sui sample_builder sample_sui_timelock_executor sample_sui_batch ''t'' 0 7
        (pb_New sample_builder) = (Inr (), p')"
      by (simp add: timelock_ptb_def sample_timelock_calls bindW_def wrapW_def)
    then show thesis
      by (intro that [of p']) (simp add: sui_timelock_Execute_def send_ptb_def bindW_def ptb_step_def sample_sui_client_def)
  qed
  have ready: "sch_Ready \<lparr>sch_Root = 0, sch_Ready = (\<lambda>h. h = opid)\<rparr> opid" by simp
  from sui_timelock_executes_scheduled [OF sample_sui_documented(1) sample_env_casts sample_sui_fits conv ready doc run]
  obtain k where "ptb_runs sample_env \<lparr>sch_Root = 0, sch_Ready = (\<lambda>h. h = opid)\<rparr> ptb ([], [])
      (replicate k Spent, map2 (call_event sample_sui_package) sample_calls (projr (sui_calls sample_sui sample_sui_batch)))"
    unfolding sample_timelock_calls
    by (auto simp: sample_sui_client_def sample_view_def sample_callbacks_def NewExecutingCallbackParams_def)
  then show ?thesis
    using conv run
    by (auto simp: sample_sui_calls sample_calls_def call_event_def suiModuleNameMCMSDeployer_def suiModuleNameMCMSAccount_def
        sample_targets)
qed


text \<open>
  An upgrade does not survive a bypass: the calls that the executor makes of a bypassed batch carry no
  module, no dependency and no package to upgrade, whatever the transactions held.
\<close>

theorem sui_bypass_loses_upgrade:
  assumes "bypass_calls R f data = Inr calls" and "c \<in> set calls"
  shows "cl_CompiledModules c = [] \<and> cl_Dependencies c = [] \<and> cl_PackageToUpgrade c = []"
proof -
  from assms(1) obtain cs where "mapE (bypass_call f) (enumerate 0 cs) = Inr calls"
    by (auto simp: bypass_calls_def split: sum.splits if_splits)
  from mapE_mem_result [OF this assms(2)] obtain i call where "bypass_call f (i, call) = Inr c" by auto
  then show ?thesis by (auto simp: bypass_call_def bindE_Inr_iff split: if_splits)
qed

theorem sui_bypass_loses_upgrade_witness:
  "\<exists>c. bypass_calls sample_reader sample_bypass_fields (sui_bypass_bytes sample_cs) = Inr sample_calls \<and>
     c \<in> set sample_calls \<and> cl_CompiledModules c = []"
  using sui_bypass_loses_upgrade [OF sample_bypass_calls, of "hd sample_calls"] sample_bypass_calls
  by (intro exI [of _ "hd sample_calls"]) (simp add: sample_calls_def)

text \<open>A delay with a fraction of a second cannot be scheduled on Sui; the other families drop the fraction.\<close>

theorem sui_fractional_delay_refused:
  "duration_Seconds 1500000000 = 3 / 2 \<and> delay_seconds 1500000000 = 1 \<and>
   isl (sui_action_data sample_env sample_sui TimelockActionSchedule [] [] [] [] [] [] 1500000000)"
proof -
  have s: "duration_Seconds 1500000000 = 3 / 2" by code_simp
  have "\<lfloor>3 / 2 :: rat\<rfloor> = 1" by (simp add: floor_eq_iff)
  then show ?thesis
    unfolding delay_seconds_def sui_action_data_def Float64ToUint64_def s timelock_action.case Let_def by simp
qed

end
