(* ===== verification/Canton.thy ===== *)
theory Canton
  imports Bcs HexText TimelockProposal EvmConfig
begin

text \<open>
  The Canton side of a proposal: \<open>sdk/canton/chain_metadata.go\<close>, \<open>chain_metadata_infer.go\<close>, \<open>encoder.go\<close>,
  \<open>transaction.go\<close>, \<open>timelock_crypto.go\<close>, \<open>timelock_converter.go\<close>, \<open>helpers.go\<close> and \<open>ledger_query_parties.go\<close>.
  What the code hashes it first writes as hexadecimal text, with the functions of the contract's
  \<open>Crypto.daml\<close>. The JSON text of its structs and the generated bindings are the fields of \<open>canton_pkg\<close>.
\<close>

section \<open>Data\<close>

type_synonym i64 = "64 word"
type_synonym canton_role = u8

definition Canton_TimelockRoleBypasser :: canton_role where "Canton_TimelockRoleBypasser = 0"
definition Canton_TimelockRoleCanceller :: canton_role where "Canton_TimelockRoleCanceller = 1"
definition Canton_TimelockRoleProposer :: canton_role where "Canton_TimelockRoleProposer = 2"

lemmas canton_role_defs =
  Canton_TimelockRoleBypasser_def Canton_TimelockRoleCanceller_def Canton_TimelockRoleProposer_def

definition canton_role_String :: "canton_role \<Rightarrow> string" where
  "canton_role_String t =
     (if t = Canton_TimelockRoleBypasser then ''Bypasser''
      else if t = Canton_TimelockRoleProposer then ''Proposer''
      else if t = Canton_TimelockRoleCanceller then ''Canceller''
      else ''unknown'')"

definition CantonRoleFromAction :: "timelock_action \<Rightarrow> canton_role res" where
  "CantonRoleFromAction action =
     (case action of
        TimelockActionBypass \<Rightarrow> Inr Canton_TimelockRoleBypasser
      | TimelockActionSchedule \<Rightarrow> Inr Canton_TimelockRoleProposer
      | TimelockActionCancel \<Rightarrow> Inr Canton_TimelockRoleCanceller
      | OtherAction _ \<Rightarrow> Inl (Errorf ''unknown timelock action''))"

record canton_metadata =
  cnm_ChainId :: i64
  cnm_MultisigId :: string
  cnm_InstanceId :: string

record canton_fields =
  cnf_TargetInstanceAddress :: string
  cnf_FunctionName :: string
  cnf_TargetCid :: string
  cnf_ContractIds :: "string list"
  cnf_TargetTemplateID :: string

definition no_canton_fields :: canton_fields where
  "no_canton_fields = \<lparr>cnf_TargetInstanceAddress = [], cnf_FunctionName = [], cnf_TargetCid = [], cnf_ContractIds = [],
     cnf_TargetTemplateID = []\<rparr>"

text \<open>\<open>mcmsapi.TimelockCall\<close> and \<open>timelockCallForHash\<close>, two structs with the same three texts.\<close>

record canton_call =
  cc_TargetInstanceAddress :: string
  cc_FunctionName :: string
  cc_OperationData :: string

text \<open>The structs of the bindings whose \<open>MarshalHex\<close> is called.\<close>

datatype canton_params =
    ScheduleBatchParams "canton_call list" string string int
  | BypasserExecuteBatchParams "canton_call list"
  | CancelBatchParams string

record canton_pkg =
  CantonFieldsUnmarshal :: "raw \<Rightarrow> canton_fields res"
  CantonFieldsMarshal :: "canton_fields \<Rightarrow> raw res"
  CantonMetadataUnmarshal :: "raw \<Rightarrow> canton_metadata res"
  CantonMetadataMarshal :: "canton_metadata \<Rightarrow> raw res"
  CantonMarshalHex :: "canton_params \<Rightarrow> string res"

definition canton_json_documented :: "'s canton_pkg_scheme \<Rightarrow> bool" where
  "canton_json_documented S \<longleftrightarrow> (\<forall>f r. CantonFieldsMarshal S f = Inr r \<longrightarrow> CantonFieldsUnmarshal S r = Inr f)"

section \<open>Chain metadata\<close>

definition canton_metadata_Validate :: "canton_metadata \<Rightarrow> unit res" where
  "canton_metadata_Validate f =
     (if sint (cnm_ChainId f) \<le> 0 then Inl (Errorf ''chainId must be positive'')
      else if cnm_MultisigId f = [] then Inl (Errorf ''multisigId is required'')
      else Inr ())"

definition cantonValidateChainMetadata :: "'s canton_pkg_scheme \<Rightarrow> chain_metadata \<Rightarrow> unit res" where
  "cantonValidateChainMetadata S metadata =
     bindE (wrapE (Wrapf ''unable to unmarshal additional fields: %w'')
              (CantonMetadataUnmarshal S (cm_AdditionalFields metadata))) (\<lambda>additionalFields.
       wrapE (Wrapf ''additional fields are invalid: %w'') (canton_metadata_Validate additionalFields))"

definition TrimPrefix0x :: "string \<Rightarrow> string" where
  "TrimPrefix0x s = (if prefix ''0x'' s then drop 2 s else s)"

definition canton_NewChainMetadata ::
  "'s canton_pkg_scheme \<Rightarrow> u64 \<Rightarrow> i64 \<Rightarrow> string \<Rightarrow> string \<Rightarrow> string \<Rightarrow> chain_metadata res" where
  "canton_NewChainMetadata S startingOpCount chainId multisigId mcmsInstanceAddress baseInstanceId =
     (if mcmsInstanceAddress = [] then Inl (Errorf ''MCMS InstanceAddress is required'')
      else if length (TrimPrefix0x mcmsInstanceAddress) \<noteq> 64
      then Inl (Errorf ''MCMS InstanceAddress hex must be 64 characters (with or without 0x prefix), got %d'')
      else
        let additionalFields = \<lparr>cnm_ChainId = chainId, cnm_MultisigId = multisigId, cnm_InstanceId = baseInstanceId\<rparr> in
        bindE (wrapE (Wrapf ''additional fields are invalid: %w'') (canton_metadata_Validate additionalFields)) (\<lambda>_.
        bindE (wrapE (Wrapf ''unable to marshal additional fields: %w'')
                 (CantonMetadataMarshal S additionalFields)) (\<lambda>additionalFieldsBytes.
          Inr \<lparr>cm_StartingOpCount = startingOpCount, cm_MCMAddress = mcmsInstanceAddress,
               cm_AdditionalFields = additionalFieldsBytes\<rparr>)))"

section \<open>Texts of numbers and bytes\<close>

text \<open>\<open>%x\<close> of a number that is not negative, and \<open>strconv.FormatUint\<close> to the base 16.\<close>

fun nat_hex :: "nat \<Rightarrow> string" where
  "nat_hex n = (if n < 16 then [hex_digit n] else nat_hex (n div 16) @ [hex_digit (n mod 16)])"

declare nat_hex.simps [simp del]

definition padLeft32 :: "string \<Rightarrow> string res" where
  "padLeft32 hexStr =
     (if length hexStr > 64 then Inl (Panic ''padLeft32: input exceeds 32 bytes: %d hex chars'')
      else Inr (replicate (64 - length hexStr) (CHR ''0'') @ hexStr))"

definition intToHex :: "int \<Rightarrow> string res" where
  "intToHex n = (if n < 0 then Inl (Panic ''intToHex: negative numbers not supported'') else Inr (nat_hex (nat n)))"

definition uint64ToHex :: "u64 \<Rightarrow> string" where
  "uint64ToHex n = nat_hex (unat n)"

definition asciiToHex :: "string \<Rightarrow> string" where
  "asciiToHex s = hex_encode (string_bytes s)"

definition operationDataHex :: "byte list \<Rightarrow> string" where
  "operationDataHex data = hex_encode data"

text \<open>\<open>padLeft32(intToHex(n))\<close>, which every number but the op counts of the metadata goes through.\<close>

definition pad_int :: "int \<Rightarrow> string res" where
  "pad_int n = bindE (intToHex n) padLeft32"

definition pad_len :: "'a list \<Rightarrow> string res" where
  "pad_len xs = pad_int (int (length xs))"

section \<open>Encoder\<close>

record canton_encoder =
  cne_ChainSelector :: chain_selector
  cne_TxCount :: u64
  cne_OverridePreviousRoot :: bool

definition opLeafDomainSeparator :: "'c crypto_pkg_scheme \<Rightarrow> string" where
  "opLeafDomainSeparator C =
     hex_encode (be_bytes 32 (Keccak256Hash C (string_bytes ''MANY_CHAIN_MULTI_SIG_DOMAIN_SEPARATOR_OP_CANTON'')))"

definition metadataLeafDomainSeparator :: "'c crypto_pkg_scheme \<Rightarrow> string" where
  "metadataLeafDomainSeparator C =
     hex_encode (be_bytes 32 (Keccak256Hash C (string_bytes ''MANY_CHAIN_MULTI_SIG_DOMAIN_SEPARATOR_METADATA_CANTON'')))"

definition parseAdditionalFieldsMetadata :: "'s canton_pkg_scheme \<Rightarrow> raw \<Rightarrow> canton_metadata res" where
  "parseAdditionalFieldsMetadata S r =
     (if \<not> raw_nonempty r then Inl (Errorf ''canton chain metadata additionalFields are required'')
      else wrapE (Wrapf ''unmarshal metadata additional fields: %w'') (CantonMetadataUnmarshal S r))"

definition canton_ToRootMetadata :: "'s canton_pkg_scheme \<Rightarrow> chain_metadata \<Rightarrow> canton_metadata res" where
  "canton_ToRootMetadata S metadata =
     bindE (parseAdditionalFieldsMetadata S (cm_AdditionalFields metadata)) (\<lambda>fields.
     bindE (wrapE (Wrapf ''canton chain metadata additionalFields required or incomplete: %w'')
              (canton_metadata_Validate fields)) (\<lambda>_. Inr fields))"

definition canton_fields_Validate :: "canton_fields \<Rightarrow> unit res" where
  "canton_fields_Validate f =
     (if cnf_TargetInstanceAddress f \<noteq> [] \<and> \<not> contains (cnf_TargetInstanceAddress f) ''@''
      then Inl (Errorf ''targetInstanceAddress must be in instanceId@partyId format'')
      else if cnf_TargetInstanceAddress f \<noteq> [] \<and> cnf_FunctionName f = []
      then Inl (Errorf ''functionName is required when targetInstanceAddress is set'')
      else if cnf_FunctionName f \<noteq> [] \<and> cnf_TargetInstanceAddress f = []
      then Inl (Errorf ''targetInstanceAddress is required when functionName is set'')
      else Inr ())"

definition cantonValidateAdditionalFields :: "'s canton_pkg_scheme \<Rightarrow> raw \<Rightarrow> unit res" where
  "cantonValidateAdditionalFields S additionalFields =
     (if \<not> raw_nonempty additionalFields then Inl (Errorf ''canton additional fields are required'')
      else bindE (wrapE (Wrapf ''failed to unmarshal Canton additional fields: %w'')
                    (CantonFieldsUnmarshal S additionalFields)) canton_fields_Validate)"

text \<open>The text that is hashed for an operation; \<open>len(operationData)/2\<close> is the number of its bytes.\<close>

definition canton_op_text ::
  "'c crypto_pkg_scheme \<Rightarrow> i64 \<Rightarrow> string \<Rightarrow> u32 \<Rightarrow> string \<Rightarrow> string \<Rightarrow> string \<Rightarrow> string res" where
  "canton_op_text C chainId multisigId opCount target functionName operationData =
     bindE (pad_int (sint chainId)) (\<lambda>chain.
     bindE (pad_len multisigId) (\<lambda>multisigLen.
     bindE (pad_int (uint opCount)) (\<lambda>cnt.
     bindE (pad_len target) (\<lambda>targetLen.
     bindE (pad_len functionName) (\<lambda>functionLen.
     bindE (pad_int (int (length operationData div 2))) (\<lambda>dataLen.
       Inr (opLeafDomainSeparator C @ chain @ multisigLen @ asciiToHex multisigId @ cnt @ targetLen @ asciiToHex target @
            functionLen @ asciiToHex functionName @ dataLen @ operationData)))))))"

definition canton_HashOperation ::
  "'c crypto_pkg_scheme \<Rightarrow> 's canton_pkg_scheme \<Rightarrow> canton_encoder \<Rightarrow> u32 \<Rightarrow> chain_metadata \<Rightarrow> operation \<Rightarrow> hash res" where
  "canton_HashOperation C S e opCount metadata op =
     bindE (wrapE (Wrapf ''failed to resolve metadata additional fields: %w'')
              (canton_ToRootMetadata S metadata)) (\<lambda>metadataFields.
     bindE (wrapE (Wrapf ''failed to unmarshal operation additional fields: %w'')
              (CantonFieldsUnmarshal S (tx_AdditionalFields (op_Transaction op)))) (\<lambda>opFields.
     bindE (wrapE (Wrapf ''invalid operation additional fields: %w'') (canton_fields_Validate opFields)) (\<lambda>_.
     bindE (canton_op_text C (cnm_ChainId metadataFields) (cnm_MultisigId metadataFields) opCount
              (cnf_TargetInstanceAddress opFields) (cnf_FunctionName opFields)
              (operationDataHex (tx_Data (op_Transaction op)))) (\<lambda>encoded.
     bindE (wrapE (Wrapf ''failed to decode hex string: %w'') (hex_DecodeString encoded)) (\<lambda>data.
       Inr (Keccak256Hash C data))))))"

definition canton_metadata_text ::
  "'c crypto_pkg_scheme \<Rightarrow> i64 \<Rightarrow> string \<Rightarrow> u64 \<Rightarrow> u64 \<Rightarrow> bool \<Rightarrow> string res" where
  "canton_metadata_text C chainId multisigId preOpCount postOpCount overridePreviousRoot =
     bindE (pad_int (sint chainId)) (\<lambda>chain.
     bindE (pad_len multisigId) (\<lambda>multisigLen.
     bindE (padLeft32 (uint64ToHex preOpCount)) (\<lambda>pre.
     bindE (padLeft32 (uint64ToHex postOpCount)) (\<lambda>post.
       Inr (metadataLeafDomainSeparator C @ chain @ multisigLen @ asciiToHex multisigId @ pre @ post @
            (if overridePreviousRoot then ''01'' else ''00''))))))"

definition canton_HashMetadata ::
  "'c crypto_pkg_scheme \<Rightarrow> 's canton_pkg_scheme \<Rightarrow> canton_encoder \<Rightarrow> chain_metadata \<Rightarrow> hash res" where
  "canton_HashMetadata C S e metadata =
     bindE (wrapE (Wrapf ''failed to resolve metadata additional fields: %w'')
              (canton_ToRootMetadata S metadata)) (\<lambda>metadataFields.
     bindE (canton_metadata_text C (cnm_ChainId metadataFields) (cnm_MultisigId metadataFields)
              (cm_StartingOpCount metadata) (cm_StartingOpCount metadata + cne_TxCount e)
              (cne_OverridePreviousRoot e)) (\<lambda>encoded.
     bindE (wrapE (Wrapf ''failed to decode hex string: %w'') (hex_DecodeString encoded)) (\<lambda>data.
       Inr (Keccak256Hash C data))))"

definition cantonNewEncoder ::
  "'c crypto_pkg_scheme \<Rightarrow> 's canton_pkg_scheme \<Rightarrow> chain_selector \<Rightarrow> u64 \<Rightarrow> bool \<Rightarrow> encoder" where
  "cantonNewEncoder C S csel txCount overridePreviousRoot =
     (let e = \<lparr>cne_ChainSelector = csel, cne_TxCount = txCount, cne_OverridePreviousRoot = overridePreviousRoot\<rparr> in
      \<lparr>enc_HashOperation = canton_HashOperation C S e, enc_HashMetadata = canton_HashMetadata C S e\<rparr>)"

section \<open>Inferring the metadata\<close>

text \<open>\<open>strings.ToLower\<close> on ASCII; two texts of which one is hexadecimal are equal under case folding when they are so on ASCII.\<close>

definition to_lower_char :: "char \<Rightarrow> char" where
  "to_lower_char c = (let n = of_char c :: nat in if 65 \<le> n \<and> n \<le> 90 then char_of (n + 32) else c)"

definition to_lower :: "string \<Rightarrow> string" where
  "to_lower = map to_lower_char"

definition EqualFold :: "string \<Rightarrow> string \<Rightarrow> bool" where
  "EqualFold s t \<longleftrightarrow> to_lower s = to_lower t"

definition mcmsInstanceIDCandidates :: "string list" where
  "mcmsInstanceIDCandidates = [''mcms-ccip'', ''mcms-ccv'', ''mcms'']"

definition partyFromRawInstanceAddress :: "string \<Rightarrow> string" where
  "partyFromRawInstanceAddress r =
     (case index_of ''@'' r of
        None \<Rightarrow> []
      | Some a \<Rightarrow> if a = 0 \<or> Suc a \<ge> length r then [] else drop (Suc a) r)"

text \<open>The loop over the transactions: \<open>None\<close> when it ends without a party.\<close>

fun party_loop :: "'s canton_pkg_scheme \<Rightarrow> transaction list \<Rightarrow> string option" where
  "party_loop S [] = None"
| "party_loop S (tx # txs) =
     (if \<not> raw_nonempty (tx_AdditionalFields tx) then party_loop S txs
      else case CantonFieldsUnmarshal S (tx_AdditionalFields tx) of
             Inl _ \<Rightarrow> party_loop S txs
           | Inr af \<Rightarrow>
               let party = partyFromRawInstanceAddress (cnf_TargetInstanceAddress af) in
               if party \<noteq> [] then Some party else party_loop S txs)"

definition partyFromBatchOperation :: "'s canton_pkg_scheme \<Rightarrow> batch_operation \<Rightarrow> string res" where
  "partyFromBatchOperation S bop =
     (case party_loop S (bop_Transactions bop) of
        Some party \<Rightarrow> Inr party
      | None \<Rightarrow>
          let party = (case bop_Transactions bop of [] \<Rightarrow> [] | tx # _ \<Rightarrow> partyFromRawInstanceAddress (tx_To tx)) in
          if party \<noteq> [] then Inr party
          else Inl (Errorf ''unable to infer Canton party from batch operation transactions''))"

definition instance_hash :: "'c crypto_pkg_scheme \<Rightarrow> string \<Rightarrow> string \<Rightarrow> hash" where
  "instance_hash C candidate party = Keccak256Hash C (string_bytes (candidate @ ''@'' @ party))"

fun resolveInstanceID :: "'c crypto_pkg_scheme \<Rightarrow> string \<Rightarrow> string \<Rightarrow> string list \<Rightarrow> string res" where
  "resolveInstanceID C mcmAddressHex party [] = Inl (Errorf ''unable to infer MCMS instanceId for address %s and party %s (tried %v)'')"
| "resolveInstanceID C mcmAddressHex party (candidate # candidates) =
     (if EqualFold (hex_encode (be_bytes 32 (instance_hash C candidate party))) (to_lower (TrimPrefix0x mcmAddressHex))
      then Inr candidate
      else resolveInstanceID C mcmAddressHex party candidates)"

definition defaultCantonChainID :: i64 where "defaultCantonChainID = 1"

definition infer_metadata ::
  "'c crypto_pkg_scheme \<Rightarrow> 's canton_pkg_scheme \<Rightarrow> chain_metadata \<Rightarrow> batch_operation \<Rightarrow> timelock_action \<Rightarrow>
     canton_metadata res" where
  "infer_metadata C S metadata bop action =
     bindE (partyFromBatchOperation S bop) (\<lambda>party.
     bindE (resolveInstanceID C (cm_MCMAddress metadata) party mcmsInstanceIDCandidates) (\<lambda>instanceID.
     bindE (wrapE (Wrapf ''canton role from action: %w'') (CantonRoleFromAction action)) (\<lambda>role.
     let fields = \<lparr>cnm_ChainId = defaultCantonChainID,
                   cnm_MultisigId = instanceID @ ''@'' @ party @ ''-'' @ to_lower (canton_role_String role),
                   cnm_InstanceId = instanceID\<rparr> in
     bindE (wrapE (Wrapf ''inferred canton additional fields invalid: %w'') (canton_metadata_Validate fields)) (\<lambda>_.
       Inr fields))))"

text \<open>Additional fields that do not validate are passed over like none at all; text that does not parse is an error.\<close>

definition resolveAdditionalFieldsMetadata ::
  "'c crypto_pkg_scheme \<Rightarrow> 's canton_pkg_scheme \<Rightarrow> chain_metadata \<Rightarrow> batch_operation \<Rightarrow> timelock_action \<Rightarrow>
     canton_metadata res" where
  "resolveAdditionalFieldsMetadata C S metadata bop action =
     (if raw_nonempty (cm_AdditionalFields metadata) then
        bindE (wrapE (Wrapf ''unmarshal metadata additional fields: %w'')
                 (CantonMetadataUnmarshal S (cm_AdditionalFields metadata))) (\<lambda>fields.
          case canton_metadata_Validate fields of
            Inr _ \<Rightarrow> Inr fields
          | Inl _ \<Rightarrow> infer_metadata C S metadata bop action)
      else infer_metadata C S metadata bop action)"

section \<open>Operation ids\<close>

definition isValidHex :: "string \<Rightarrow> bool" where
  "isValidHex s \<longleftrightarrow> length s mod 2 = 0 \<and> list_all (\<lambda>c. fromHexChar c \<noteq> None) s"

definition encodeOperationDataForHash :: "string \<Rightarrow> string" where
  "encodeOperationDataForHash operationData =
     (if isValidHex operationData then operationData else asciiToHex operationData)"

definition canton_call_text :: "canton_call \<Rightarrow> string res" where
  "canton_call_text call =
     bindE (pad_len (cc_TargetInstanceAddress call)) (\<lambda>targetLen.
     bindE (pad_len (cc_FunctionName call)) (\<lambda>functionLen.
     let opData = encodeOperationDataForHash (cc_OperationData call) in
     bindE (pad_int (int (length opData div 2))) (\<lambda>dataLen.
       Inr (targetLen @ asciiToHex (cc_TargetInstanceAddress call) @ functionLen @ asciiToHex (cc_FunctionName call) @
            dataLen @ opData))))"

definition hashTimelockOpID ::
  "'c crypto_pkg_scheme \<Rightarrow> canton_call list \<Rightarrow> string \<Rightarrow> string \<Rightarrow> string res" where
  "hashTimelockOpID C calls predecessor salt =
     bindE (pad_len calls) (\<lambda>callsLen.
     bindE (mapE canton_call_text calls) (\<lambda>texts.
     bindE (pad_int (int (length predecessor div 2))) (\<lambda>predecessorLen.
     bindE (pad_int (int (length salt div 2))) (\<lambda>saltLen.
     bindE (wrapE (Wrapf ''hash timelock op id: invalid hex encoding: %w'')
              (hex_DecodeString (callsLen @ concat texts @ predecessorLen @ predecessor @ saltLen @ salt))) (\<lambda>data.
       Inr (hex_encode (be_bytes 32 (Keccak256Hash C data))))))))"

text \<open>The text of an id is decoded and copied into a \<open>common.Hash\<close>.\<close>

definition decode_op_id :: "string \<Rightarrow> hash res" where
  "decode_op_id operationIDStr =
     (case hex_DecodeString operationIDStr of
        Inl err \<Rightarrow> Inl (Wrapf ''invalid operation ID hash: %w'' err)
      | Inr bs \<Rightarrow> if length bs \<noteq> 32 then Inl (Errorf ''invalid operation ID hash: %w'') else Inr (from_be bs))"

section \<open>Timelock converter\<close>

text \<open>One transaction of a batch: its call and its contract ids.\<close>

definition canton_batch_call :: "'s canton_pkg_scheme \<Rightarrow> transaction \<Rightarrow> (canton_call \<times> string list) res" where
  "canton_batch_call S tx =
     bindE (if raw_nonempty (tx_AdditionalFields tx)
            then wrapE (Wrapf ''unmarshal transaction additional fields: %w'')
                   (CantonFieldsUnmarshal S (tx_AdditionalFields tx))
            else Inr no_canton_fields) (\<lambda>af.
     let targetInstanceAddress =
       (if cnf_TargetInstanceAddress af = [] then tx_To tx else cnf_TargetInstanceAddress af) in
     Inr (\<lparr>cc_TargetInstanceAddress = targetInstanceAddress, cc_FunctionName = cnf_FunctionName af,
            cc_OperationData = operationDataHex (tx_Data tx)\<rparr>, cnf_ContractIds af))"

definition buildCallsFromBatch :: "'s canton_pkg_scheme \<Rightarrow> batch_operation \<Rightarrow> (canton_call list \<times> string list) res" where
  "buildCallsFromBatch S bop =
     bindE (mapE (canton_batch_call S) (bop_Transactions bop)) (\<lambda>cs. Inr (map fst cs, concat (map snd cs)))"

text \<open>\<open>hex.EncodeToString([]byte(wire))\<close>\<close>

definition wireToHex :: "string \<Rightarrow> string" where
  "wireToHex wire = hex_encode (string_bytes wire)"

definition scheduleActionData ::
  "'s canton_pkg_scheme \<Rightarrow> canton_call list \<Rightarrow> string \<Rightarrow> string \<Rightarrow> int \<Rightarrow> (string \<times> string) res" where
  "scheduleActionData S calls predecessorHex saltHex delay =
     bindE (wrapE (Wrapf ''marshal ScheduleBatchParams: %w'')
              (CantonMarshalHex S (ScheduleBatchParams calls predecessorHex saltHex (max 0 (delay_seconds delay))))) (\<lambda>wire.
       Inr (''ScheduleBatch'', wireToHex wire))"

definition bypassActionData :: "'s canton_pkg_scheme \<Rightarrow> canton_call list \<Rightarrow> (string \<times> string) res" where
  "bypassActionData S calls =
     bindE (wrapE (Wrapf ''marshal BypasserExecuteBatchParams: %w'')
              (CantonMarshalHex S (BypasserExecuteBatchParams calls))) (\<lambda>wire.
       Inr (''BypasserExecuteBatch'', wireToHex wire))"

definition cancelActionData :: "'s canton_pkg_scheme \<Rightarrow> string \<Rightarrow> (string \<times> string) res" where
  "cancelActionData S operationIDStr =
     bindE (wrapE (Wrapf ''marshal CancelBatchParams: %w'')
              (CantonMarshalHex S (CancelBatchParams operationIDStr))) (\<lambda>wire.
       Inr (''CancelBatch'', wireToHex wire))"

definition extractInstanceAddressFromMultisigId :: "string \<Rightarrow> string" where
  "extractInstanceAddressFromMultisigId multisigId =
     (case last_index_of ''-'' multisigId of None \<Rightarrow> multisigId | Some lastDash \<Rightarrow> take lastDash multisigId)"

definition buildTimelockOperation ::
  "'s canton_pkg_scheme \<Rightarrow> batch_operation \<Rightarrow> string \<Rightarrow> string \<Rightarrow> string \<Rightarrow> string \<Rightarrow> string list \<Rightarrow> operation res" where
  "buildTimelockOperation S bop mcmAddress targetInstanceAddress functionName opDataHex allContractIds =
     bindE (wrapE (Wrapf ''decode timelock operation data: %w'') (hex_DecodeString opDataHex)) (\<lambda>opData.
     bindE (wrapE (Wrapf ''marshal operation additional fields: %w'')
              (CantonFieldsMarshal S
                 \<lparr>cnf_TargetInstanceAddress = targetInstanceAddress, cnf_FunctionName = functionName,
                  cnf_TargetCid = mcmAddress, cnf_ContractIds = allContractIds, cnf_TargetTemplateID = []\<rparr>))
       (\<lambda>opAdditionalFieldsBytes.
       Inr \<lparr>op_ChainSelector = bop_ChainSelector bop,
            op_Transaction = \<lparr>tx_ContractType = [], tx_ContractVersion = None, tx_Tags = [], tx_To = mcmAddress,
                              tx_Data = opData, tx_AdditionalFields = opAdditionalFieldsBytes\<rparr>\<rparr>))"

definition cantonConvert :: "'c crypto_pkg_scheme \<Rightarrow> 's canton_pkg_scheme \<Rightarrow> converter" where
  "cantonConvert C S metadata bop timelockAddress mcmAddress delay action predecessor salt =
     bindE (resolveAdditionalFieldsMetadata C S metadata bop action) (\<lambda>metadataFields.
     bindE (buildCallsFromBatch S bop) (\<lambda>(calls, allContractIds).
     let predecessorHex = hex_encode (be_bytes 32 predecessor); saltHex = hex_encode (be_bytes 32 salt) in
     bindE (hashTimelockOpID C calls predecessorHex saltHex) (\<lambda>operationIDStr.
     bindE (decode_op_id operationIDStr) (\<lambda>operationID.
     bindE (case action of
              TimelockActionSchedule \<Rightarrow> scheduleActionData S calls predecessorHex saltHex delay
            | TimelockActionBypass \<Rightarrow> bypassActionData S calls
            | TimelockActionCancel \<Rightarrow> cancelActionData S operationIDStr
            | OtherAction _ \<Rightarrow> Inl (Errorf ''unsupported timelock action: %v'')) (\<lambda>(functionName, opDataHex).
     bindE (buildTimelockOperation S bop mcmAddress (extractInstanceAddressFromMultisigId (cnm_MultisigId metadataFields))
              functionName opDataHex allContractIds) (\<lambda>op.
       Inr ([op], operationID)))))))"

definition cantonOperationID :: "'c crypto_pkg_scheme \<Rightarrow> 's canton_pkg_scheme \<Rightarrow> operation_id" where
  "cantonOperationID C S batchOp action predecessor salt =
     bindE (buildCallsFromBatch S batchOp) (\<lambda>(calls, allContractIds).
     bindE (hashTimelockOpID C calls (hex_encode (be_bytes 32 predecessor)) (hex_encode (be_bytes 32 salt)))
       decode_op_id)"

section \<open>Template ids, transactions and parties\<close>

definition NormalizeTemplateKey :: "string \<Rightarrow> string" where
  "NormalizeTemplateKey tid =
     (let tid = (if prefix ''#'' tid then drop 1 tid else tid); parts = split_on (CHR '':'') tid in
      if length parts < 3 then tid
      else parts ! (length parts - 2) @ '':'' @ parts ! (length parts - 1))"

definition ParseTemplateIDFromString :: "string \<Rightarrow> (string \<times> string \<times> string) res" where
  "ParseTemplateIDFromString templateID =
     (if \<not> prefix ''#'' templateID then Inl (Errorf ''template ID must start with #'')
      else
        let parts = split_on (CHR '':'') templateID in
        if length parts \<noteq> 3 then Inl (Errorf ''template ID must have format #package:module:entity, got: %s'')
        else Inr (parts ! 0, parts ! 1, parts ! 2))"

definition instanceAddressHexEqual :: "string \<Rightarrow> string \<Rightarrow> bool" where
  "instanceAddressHexEqual a b \<longleftrightarrow> EqualFold (TrimPrefix0x (trim_space a)) (TrimPrefix0x (trim_space b))"

text \<open>An identifier may be nil.\<close>

definition FormatTemplateID :: "(string \<times> string \<times> string) option \<Rightarrow> string" where
  "FormatTemplateID ident =
     (case ident of None \<Rightarrow> [] | Some (p, m, e) \<Rightarrow> p @ '':'' @ m @ '':'' @ e)"

record canton_participant =
  cpt_PartyID :: string
  cpt_ReadAsPartyIDs :: "string list"

text \<open>The loops keep the first occurrence of every party.\<close>

definition LedgerQueryParties :: "canton_participant \<Rightarrow> string list" where
  "LedgerQueryParties participant =
     dedup_seen {} (filter (\<lambda>party. party \<noteq> []) (cpt_PartyID participant # cpt_ReadAsPartyIDs participant))"

definition MCMSPartiesForChain :: "canton_participant list \<Rightarrow> string list" where
  "MCMSPartiesForChain participants = dedup_seen {} (concat (map LedgerQueryParties participants))"

section \<open>Numbers as text\<close>

text \<open>Exactly \<open>k\<close> hexadecimal digits of a number.\<close>

fun hex_digits :: "nat \<Rightarrow> nat \<Rightarrow> string" where
  "hex_digits 0 n = []"
| "hex_digits (Suc k) n = hex_digits k (n div 16) @ [hex_digit (n mod 16)]"

lemma length_hex_digits [simp]: "length (hex_digits k n) = k"
  by (induction k arbitrary: n) simp_all

lemma hex_digits_zero: "hex_digits k 0 = replicate k (CHR ''0'')"
  by (induction k) (simp_all add: hex_digit_def replicate_append_same)

lemma nat_hex_digits: "n < 16 ^ k \<Longrightarrow> 0 < k \<Longrightarrow>
    length (nat_hex n) \<le> k \<and> replicate (k - length (nat_hex n)) (CHR ''0'') @ nat_hex n = hex_digits k n"
proof (induction k arbitrary: n)
  case (Suc k)
  show ?case
  proof (cases "n < 16")
    case True
    then show ?thesis by (simp add: nat_hex.simps [of n] hex_digits_zero)
  next
    case False
    then have "0 < k" using Suc.prems by (cases k) auto
    moreover have "n div 16 < 16 ^ k" using Suc.prems(1) by (simp add: div_less_iff_less_mult mult.commute)
    ultimately show ?thesis using Suc.IH [of "n div 16"] False by (simp add: nat_hex.simps [of n])
  qed
qed simp

lemma hex_encode_append: "hex_encode (as @ bs) = hex_encode as @ hex_encode bs"
  by (simp add: hex_encode_def)

lemma hex_byte_mod: "hex_byte b = [hex_digit (m div 16 mod 16), hex_digit (m mod 16)]" if "unat b = m mod 256"
proof -
  have "m mod 256 = 16 * (m div 16 mod 16) + m mod 16" using mod_mult2_eq [of m 16 16] by simp
  then show ?thesis by (simp add: hex_byte_def that)
qed

lemma hex_encode_be: "hex_encode (be_bytes k (w :: hash)) = hex_digits (2 * k) (unat w)"
proof (induction k arbitrary: w)
  case (Suc k)
  have "unat (ucast w :: byte) = unat w mod 256" by (simp add: unsigned_ucast_eq take_bit_eq_mod)
  from hex_byte_mod [OF this] have "hex_encode [ucast w] = [hex_digit (unat w div 16 mod 16), hex_digit (unat w mod 16)]"
    by (simp add: hex_encode_def)
  moreover have "unat (drop_bit 8 w) = unat w div 16 div 16"
    unfolding unat_drop_bit_eq by (simp add: drop_bit_eq_div div_mult2_eq [symmetric])
  ultimately show ?case using Suc.IH [of "drop_bit 8 w"] by (simp add: be_bytes_snoc hex_encode_append)
qed (simp add: be_bytes_def hex_encode_def)

lemma padLeft32_nat: "n < 2 ^ 256 \<Longrightarrow> padLeft32 (nat_hex n) = Inr (hex_encode (be_bytes 32 (word_of_nat n :: hash)))"
proof -
  assume "n < 2 ^ 256"
  then have "n < 16 ^ 64" and "unat (word_of_nat n :: hash) = n"
    by (simp_all add: unsigned_of_nat take_bit_nat_eq_self)
  with nat_hex_digits [of n 64] show ?thesis by (simp add: padLeft32_def hex_encode_be)
qed

definition word32_bytes :: "nat \<Rightarrow> byte list" where
  "word32_bytes n = be_bytes 32 (word_of_nat n :: hash)"

lemma length_word32_bytes [simp]: "length (word32_bytes n) = 32"
  by (simp add: word32_bytes_def)

lemma pad_int_nat: "n < 2 ^ 256 \<Longrightarrow> pad_int (int n) = Inr (hex_encode (word32_bytes n))"
  by (simp add: pad_int_def intToHex_def padLeft32_nat word32_bytes_def)

lemma word32_bytes_inject: "m < 2 ^ 256 \<Longrightarrow> n < 2 ^ 256 \<Longrightarrow> word32_bytes m = word32_bytes n \<longleftrightarrow> m = n"
  using word_of_nat_inject_bound [where 'a = 256, of m n] by (auto simp: word32_bytes_def be_bytes_inject)

interpretation number_code: byte_code "\<lambda>n. n < 2 ^ 256" word32_bytes
  by unfold_locales (auto simp: append_eq_append_conv word32_bytes_inject)

text \<open>Texts and byte strings behind their length: the lengths of Go slices are below \<open>2^63\<close>.\<close>

definition counted_text :: "string \<Rightarrow> byte list" where
  "counted_text s = word32_bytes (length s) @ string_bytes s"

definition counted_data :: "byte list \<Rightarrow> byte list" where
  "counted_data bs = word32_bytes (length bs) @ bs"

abbreviation go_length :: "'a list \<Rightarrow> bool" where
  "go_length xs \<equiv> length xs < 2 ^ 63"

lemma go_length_256: "go_length xs \<Longrightarrow> length xs < 2 ^ 256"
  by (erule order.strict_trans) simp

interpretation data_code: byte_code go_length counted_data
proof
  fix x y r s :: "byte list"
  assume x: "go_length x" and y: "go_length y" and eq: "counted_data x @ r = counted_data y @ s"
  have "length x = length y \<and> x @ r = y @ s"
    by (rule number_code.splits) (use go_length_256 [OF x] go_length_256 [OF y] eq in \<open>simp_all add: counted_data_def\<close>)
  then have "length x = length y" "x @ r = y @ s" by simp_all
  then show "x = y \<and> r = s" by (simp add: append_eq_append_conv)
qed

lemma counted_text_data: "counted_text s = counted_data (string_bytes s)"
  by (simp add: counted_text_def counted_data_def)

interpretation counted_code: byte_code go_length counted_text
proof
  fix x y :: string and r s
  assume "go_length x" "go_length y" "counted_text x @ r = counted_text y @ s"
  then have "string_bytes x = string_bytes y \<and> r = s"
    by (intro data_code.splits) (simp_all add: counted_text_data)
  then show "x = y \<and> r = s" by (simp add: string_bytes_inject)
qed

lemma pad_len_text:
  "go_length s \<Longrightarrow> \<exists>l. pad_len s = Inr l \<and> (\<forall>t. l @ asciiToHex s @ t = hex_encode (counted_text s) @ t)"
  by (simp add: pad_len_def pad_int_nat go_length_256 counted_text_def asciiToHex_def hex_encode_append)

section \<open>The bytes that are hashed\<close>

text \<open>What a leaf is made of.\<close>

datatype canton_leaf =
    CantonOpLeaf i64 string u32 string string "byte list"
  | CantonMetadataLeaf i64 string u64 u64 bool

definition canton_separators :: "'c crypto_pkg_scheme \<Rightarrow> hash \<times> hash" where
  "canton_separators C =
     (Keccak256Hash C (string_bytes ''MANY_CHAIN_MULTI_SIG_DOMAIN_SEPARATOR_OP_CANTON''),
      Keccak256Hash C (string_bytes ''MANY_CHAIN_MULTI_SIG_DOMAIN_SEPARATOR_METADATA_CANTON''))"

fun canton_leaf_bytes :: "hash \<times> hash \<Rightarrow> canton_leaf \<Rightarrow> byte list" where
  "canton_leaf_bytes D (CantonOpLeaf cid ms n target f data) =
     be_bytes 32 (fst D) @ word32_bytes (unat cid) @ counted_text ms @ word32_bytes (unat n) @ counted_text target @
     counted_text f @ counted_data data"
| "canton_leaf_bytes D (CantonMetadataLeaf cid ms pre post ov) =
     be_bytes 32 (snd D) @ word32_bytes (unat cid) @ counted_text ms @ word32_bytes (unat pre) @ word32_bytes (unat post) @
     [of_bool ov]"

fun canton_leaf_fits :: "canton_leaf \<Rightarrow> bool" where
  "canton_leaf_fits (CantonOpLeaf cid ms n target f data) \<longleftrightarrow>
     0 < sint cid \<and> go_length ms \<and> go_length target \<and> go_length f \<and> go_length data"
| "canton_leaf_fits (CantonMetadataLeaf cid ms pre post ov) \<longleftrightarrow> 0 < sint cid \<and> go_length ms"

lemma unat_64_256: "unat (w :: 64 word) < 2 ^ 256" and unat_32_256: "unat (v :: 32 word) < 2 ^ 256"
  using unsigned_less [of w, where 'a = nat] unsigned_less [of v, where 'a = nat] by simp_all

lemma canton_leaf_bytes_inject:
  assumes "canton_leaf_fits l" and "canton_leaf_fits l'" and "canton_leaf_bytes D l = canton_leaf_bytes D l'"
  shows "l = l' \<or> fst D = snd D"
proof (cases l; cases l')
  fix cid ms n target f data cid' ms' n' target' f' data'
  assume l: "l = CantonOpLeaf cid ms n target f data" "l' = CantonOpLeaf cid' ms' n' target' f' data'"
  have eq: "word32_bytes (unat cid) @ counted_text ms @ word32_bytes (unat n) @ counted_text target @ counted_text f @
      counted_data data = word32_bytes (unat cid') @ counted_text ms' @ word32_bytes (unat n') @ counted_text target' @
      counted_text f' @ counted_data data'"
    using assms(3) by (simp add: l)
  note s1 = number_code.splits [OF unat_64_256 unat_64_256 eq]
  have fits: "go_length ms" "go_length target" "go_length f" "go_length data"
    "go_length ms'" "go_length target'" "go_length f'" "go_length data'"
    using assms(1,2) by (simp_all add: l)
  note s2 = counted_code.splits [OF fits(1,5) s1 [THEN conjunct2]]
  note s3 = number_code.splits [OF unat_32_256 unat_32_256 s2 [THEN conjunct2]]
  note s4 = counted_code.splits [OF fits(2,6) s3 [THEN conjunct2]]
  note s5 = counted_code.splits [OF fits(3,7) s4 [THEN conjunct2]]
  note s6 = data_code.inject [OF fits(4,8) s5 [THEN conjunct2]]
  show ?thesis using s1 s2 s3 s4 s5 s6 by (simp add: l word_unat_eq_iff)
next
  fix cid ms pre post ov cid' ms' pre' post' ov'
  assume l: "l = CantonMetadataLeaf cid ms pre post ov" "l' = CantonMetadataLeaf cid' ms' pre' post' ov'"
  have eq: "word32_bytes (unat cid) @ counted_text ms @ word32_bytes (unat pre) @ word32_bytes (unat post) @ [of_bool ov] =
      word32_bytes (unat cid') @ counted_text ms' @ word32_bytes (unat pre') @ word32_bytes (unat post') @ [of_bool ov']"
    using assms(3) by (simp add: l)
  note s1 = number_code.splits [OF unat_64_256 unat_64_256 eq]
  have fits: "go_length ms" "go_length ms'" using assms(1,2) by (simp_all add: l)
  note s2 = counted_code.splits [OF fits s1 [THEN conjunct2]]
  note s3 = number_code.splits [OF unat_64_256 unat_64_256 s2 [THEN conjunct2]]
  note s4 = number_code.splits [OF unat_64_256 unat_64_256 s3 [THEN conjunct2]]
  have "ov = ov'" using s4 by (cases ov; cases ov') simp_all
  then show ?thesis using s1 s2 s3 s4 by (simp add: l word_unat_eq_iff)
qed (use assms(3) in \<open>auto simp: append_eq_append_conv be_bytes_inject\<close>)

text \<open>The text decodes to those bytes.\<close>

lemma operation_data_length: "length (operationDataHex data) div 2 = length data"
  by (simp add: operationDataHex_def)

lemma sint_pos_uint: "0 \<le> sint (w :: 64 word) \<Longrightarrow> sint w = uint w"
proof -
  assume "0 \<le> sint w"
  then have no: "\<not> bit (uint w) 63" using signed_take_bit_negative_iff [of 63 "uint w"] by (simp add: sint_uint)
  have "uint w = take_bit (Suc 63) (uint w)" using uint_bounded [of w] by (simp add: take_bit_int_eq_self)
  also have "\<dots> = take_bit 63 (uint w)" using no by (subst take_bit_Suc_from_most) simp
  also have "\<dots> = sint w" using no by (simp add: sint_uint signed_take_bit_eq_if_positive)
  finally show ?thesis by simp
qed

lemma pad_int_words:
  "0 < sint (w :: 64 word) \<Longrightarrow> pad_int (sint w) = Inr (hex_encode (word32_bytes (unat w)))"
  "pad_int (uint (v :: 32 word)) = Inr (hex_encode (word32_bytes (unat v)))"
  using pad_int_nat [OF unat_64_256 [of w]] pad_int_nat [OF unat_32_256 [of v]] by (simp_all add: sint_pos_uint)

lemma pad_uint64: "padLeft32 (uint64ToHex w) = Inr (hex_encode (word32_bytes (unat w)))"
  unfolding uint64ToHex_def word32_bytes_def by (rule padLeft32_nat) (rule unat_64_256)

lemma canton_op_text_bytes:
  assumes "canton_leaf_fits (CantonOpLeaf cid ms n target f data)"
  shows "\<exists>t. canton_op_text C cid ms n target f (operationDataHex data) = Inr t \<and>
    hex_DecodeString t = Inr (canton_leaf_bytes (canton_separators C) (CantonOpLeaf cid ms n target f data))"
proof -
  have "pad_int (sint cid) = Inr (hex_encode (word32_bytes (unat cid)))" using assms by (simp add: pad_int_words)
  moreover have "pad_int (int (length data)) = Inr (hex_encode (word32_bytes (length data)))"
    using assms go_length_256 by (simp add: pad_int_nat)
  moreover obtain lm lt lf where
    "pad_len ms = Inr lm" "\<And>t. lm @ asciiToHex ms @ t = hex_encode (counted_text ms) @ t"
    "pad_len target = Inr lt" "\<And>t. lt @ asciiToHex target @ t = hex_encode (counted_text target) @ t"
    "pad_len f = Inr lf" "\<And>t. lf @ asciiToHex f @ t = hex_encode (counted_text f) @ t"
    using assms pad_len_text [of ms] pad_len_text [of target] pad_len_text [of f] by auto
  ultimately have "canton_op_text C cid ms n target f (operationDataHex data) =
      Inr (hex_encode (canton_leaf_bytes (canton_separators C) (CantonOpLeaf cid ms n target f data)))"
    by (simp add: canton_op_text_def pad_int_words(2) operation_data_length opLeafDomainSeparator_def
        canton_separators_def hex_encode_append counted_data_def operationDataHex_def)
  then show ?thesis by simp
qed

lemma canton_metadata_text_bytes:
  assumes "canton_leaf_fits (CantonMetadataLeaf cid ms pre post ov)"
  shows "\<exists>t. canton_metadata_text C cid ms pre post ov = Inr t \<and>
    hex_DecodeString t = Inr (canton_leaf_bytes (canton_separators C) (CantonMetadataLeaf cid ms pre post ov))"
proof -
  have "pad_int (sint cid) = Inr (hex_encode (word32_bytes (unat cid)))" using assms by (simp add: pad_int_words)
  moreover obtain lm where "pad_len ms = Inr lm" "\<And>t. lm @ asciiToHex ms @ t = hex_encode (counted_text ms) @ t"
    using assms pad_len_text [of ms] by auto
  moreover have "(if ov then ''01'' else ''00'') = hex_encode [of_bool ov]"
    by (cases ov) (simp_all add: hex_encode_def hex_byte_def hex_digit_def)
  ultimately have "canton_metadata_text C cid ms pre post ov =
      Inr (hex_encode (canton_leaf_bytes (canton_separators C) (CantonMetadataLeaf cid ms pre post ov)))"
    by (simp add: canton_metadata_text_def pad_uint64 metadataLeafDomainSeparator_def canton_separators_def hex_encode_append
        del: if_split)
  then show ?thesis by simp
qed

text \<open>The leaf of an operation with its nonce or of the metadata of a chain.\<close>

fun canton_leaf_of ::
  "'s canton_pkg_scheme \<Rightarrow> canton_encoder \<Rightarrow> chain_metadata \<Rightarrow> (u32 \<times> operation) option \<Rightarrow> canton_leaf res" where
  "canton_leaf_of S e md (Some (n, op)) =
     bindE (canton_ToRootMetadata S md) (\<lambda>m.
     bindE (CantonFieldsUnmarshal S (tx_AdditionalFields (op_Transaction op))) (\<lambda>f.
     bindE (canton_fields_Validate f) (\<lambda>_.
       Inr (CantonOpLeaf (cnm_ChainId m) (cnm_MultisigId m) n (cnf_TargetInstanceAddress f) (cnf_FunctionName f)
              (tx_Data (op_Transaction op))))))"
| "canton_leaf_of S e md None =
     bindE (canton_ToRootMetadata S md) (\<lambda>m.
       Inr (CantonMetadataLeaf (cnm_ChainId m) (cnm_MultisigId m) (cm_StartingOpCount md)
              (cm_StartingOpCount md + cne_TxCount e) (cne_OverridePreviousRoot e)))"

fun canton_leaf_hash ::
  "'c crypto_pkg_scheme \<Rightarrow> 's canton_pkg_scheme \<Rightarrow> canton_encoder \<Rightarrow> chain_metadata \<Rightarrow> (u32 \<times> operation) option \<Rightarrow>
     hash res" where
  "canton_leaf_hash C S e md (Some (n, op)) = canton_HashOperation C S e n md op"
| "canton_leaf_hash C S e md None = canton_HashMetadata C S e md"

text \<open>Texts and data of a length that Go can hold.\<close>

definition canton_lengths :: "'s canton_pkg_scheme \<Rightarrow> bool" where
  "canton_lengths S \<longleftrightarrow>
     (\<forall>r f. CantonFieldsUnmarshal S r = Inr f \<longrightarrow> go_length (cnf_TargetInstanceAddress f) \<and> go_length (cnf_FunctionName f)) \<and>
     (\<forall>r m. CantonMetadataUnmarshal S r = Inr m \<longrightarrow> go_length (cnm_MultisigId m))"

lemma canton_ToRootMetadata_Inr:
  "canton_ToRootMetadata S md = Inr m \<longleftrightarrow>
     raw_nonempty (cm_AdditionalFields md) \<and> CantonMetadataUnmarshal S (cm_AdditionalFields md) = Inr m \<and>
     0 < sint (cnm_ChainId m) \<and> cnm_MultisigId m \<noteq> []"
  by (auto simp: canton_ToRootMetadata_def parseAdditionalFieldsMetadata_def canton_metadata_Validate_def bindE_Inr_iff
      split: if_splits)

lemma canton_leaf_of_fits:
  assumes "canton_lengths S" and "canton_leaf_of S e md x = Inr l"
    and "\<forall>n op. x = Some (n, op) \<longrightarrow> go_length (tx_Data (op_Transaction op))"
  shows "canton_leaf_fits l"
proof (cases x)
  case None
  with assms show ?thesis by (auto simp: bindE_Inr_iff canton_ToRootMetadata_Inr canton_lengths_def)
next
  case (Some nop)
  then obtain n op where "x = Some (n, op)" by (cases nop) auto
  with assms show ?thesis by (auto simp: bindE_Inr_iff canton_ToRootMetadata_Inr canton_lengths_def)
qed

lemma canton_leaf_hash_Inr:
  assumes "canton_lengths S" and "\<forall>n op. x = Some (n, op) \<longrightarrow> go_length (tx_Data (op_Transaction op))"
  shows "canton_leaf_hash C S e md x = Inr h \<longleftrightarrow>
    (\<exists>l. canton_leaf_of S e md x = Inr l \<and> h = Keccak256Hash C (canton_leaf_bytes (canton_separators C) l))"
proof (cases x)
  case None
  have "canton_HashMetadata C S e md = Inr h \<longleftrightarrow> h = Keccak256Hash C (canton_leaf_bytes (canton_separators C)
      (CantonMetadataLeaf (cnm_ChainId m) (cnm_MultisigId m) (cm_StartingOpCount md)
         (cm_StartingOpCount md + cne_TxCount e) (cne_OverridePreviousRoot e)))"
    if m: "canton_ToRootMetadata S md = Inr m" for m
  proof -
    have "canton_leaf_of S e md None = Inr (CantonMetadataLeaf (cnm_ChainId m) (cnm_MultisigId m) (cm_StartingOpCount md)
        (cm_StartingOpCount md + cne_TxCount e) (cne_OverridePreviousRoot e))" by (simp add: m)
    from canton_metadata_text_bytes [OF canton_leaf_of_fits [OF assms(1) this], of C] show ?thesis
      by (auto simp: canton_HashMetadata_def m)
  qed
  then show ?thesis unfolding None canton_leaf_hash.simps canton_leaf_of.simps
    by (cases "canton_ToRootMetadata S md") (simp_all add: canton_HashMetadata_def)
next
  case (Some nop)
  then obtain n op where x: "x = Some (n, op)" by (cases nop) auto
  have "canton_HashOperation C S e n md op = Inr h \<longleftrightarrow> h = Keccak256Hash C (canton_leaf_bytes (canton_separators C)
      (CantonOpLeaf (cnm_ChainId m) (cnm_MultisigId m) n (cnf_TargetInstanceAddress f) (cnf_FunctionName f)
         (tx_Data (op_Transaction op))))"
    if m: "canton_ToRootMetadata S md = Inr m" "CantonFieldsUnmarshal S (tx_AdditionalFields (op_Transaction op)) = Inr f"
      "canton_fields_Validate f = Inr ()" for m f
  proof -
    have "canton_leaf_of S e md x = Inr (CantonOpLeaf (cnm_ChainId m) (cnm_MultisigId m) n (cnf_TargetInstanceAddress f)
        (cnf_FunctionName f) (tx_Data (op_Transaction op)))" by (simp add: x m)
    from canton_op_text_bytes [OF canton_leaf_of_fits [OF assms(1) this assms(2)], of C] show ?thesis
      by (auto simp: canton_HashOperation_def m)
  qed
  note key = this
  show ?thesis unfolding x canton_leaf_hash.simps canton_leaf_of.simps bindE_Inr_iff
  proof
    assume h: "canton_HashOperation C S e n md op = Inr h"
    then obtain m f where m: "canton_ToRootMetadata S md = Inr m"
      "CantonFieldsUnmarshal S (tx_AdditionalFields (op_Transaction op)) = Inr f" "canton_fields_Validate f = Inr ()"
      by (auto simp: canton_HashOperation_def bindE_Inr_iff)
    with key [OF m] h show "\<exists>l. (\<exists>m. canton_ToRootMetadata S md = Inr m \<and>
        (\<exists>f. CantonFieldsUnmarshal S (tx_AdditionalFields (op_Transaction op)) = Inr f \<and>
           (\<exists>u. canton_fields_Validate f = Inr u \<and> Inr (CantonOpLeaf (cnm_ChainId m) (cnm_MultisigId m) n
              (cnf_TargetInstanceAddress f) (cnf_FunctionName f) (tx_Data (op_Transaction op))) = Inr l))) \<and>
        h = Keccak256Hash C (canton_leaf_bytes (canton_separators C) l)" by auto
  qed (use key in auto)
qed

section \<open>The ids of batches\<close>

lemma isValidHex_encode [simp]: "isValidHex (hex_encode bs)"
proof -
  have "list_all (\<lambda>c. fromHexChar c \<noteq> None) (hex_encode bs)"
  proof (induction bs)
    case (Cons b bs)
    have "unat b div 16 < 16" using unsigned_less [of b, where 'a = nat] by simp
    with Cons show ?case by (simp add: hex_encode_def hex_byte_def fromHexChar_digit)
  qed (simp add: hex_encode_def)
  then show ?thesis by (simp add: isValidHex_def)
qed

text \<open>A call as target, function and data.\<close>

type_synonym canton_action = "string \<times> string \<times> byte list"

definition canton_action_call :: "canton_action \<Rightarrow> canton_call" where
  "canton_action_call a = (case a of (target, f, d) \<Rightarrow>
     \<lparr>cc_TargetInstanceAddress = target, cc_FunctionName = f, cc_OperationData = operationDataHex d\<rparr>)"

definition canton_action_fits :: "canton_action \<Rightarrow> bool" where
  "canton_action_fits a \<longleftrightarrow> (case a of (target, f, d) \<Rightarrow> go_length target \<and> go_length f \<and> go_length d)"

definition canton_action_bytes :: "canton_action \<Rightarrow> byte list" where
  "canton_action_bytes a = (case a of (target, f, d) \<Rightarrow> counted_text target @ counted_text f @ counted_data d)"

definition canton_batch_bytes :: "canton_action list \<Rightarrow> hash \<Rightarrow> hash \<Rightarrow> byte list" where
  "canton_batch_bytes cs p salt =
     word32_bytes (length cs) @ concat (map canton_action_bytes cs) @ counted_data (be_bytes 32 p) @
     counted_data (be_bytes 32 salt)"

interpretation action_code: byte_code canton_action_fits canton_action_bytes
proof
  fix x y :: canton_action and r s
  obtain t f d t' f' d' where xy: "x = (t, f, d)" "y = (t', f', d')" by (cases x; cases y) auto
  assume "canton_action_fits x" "canton_action_fits y" "canton_action_bytes x @ r = canton_action_bytes y @ s"
  then have fits: "go_length t" "go_length f" "go_length d" "go_length t'" "go_length f'" "go_length d'"
    and eq: "counted_text t @ counted_text f @ counted_data d @ r = counted_text t' @ counted_text f' @ counted_data d' @ s"
    by (simp_all add: xy canton_action_fits_def canton_action_bytes_def)
  note s1 = counted_code.splits [OF fits(1,4) eq]
  note s2 = counted_code.splits [OF fits(2,5) s1 [THEN conjunct2]]
  note s3 = data_code.splits [OF fits(3,6) s2 [THEN conjunct2]]
  show "x = y \<and> r = s" using s1 s2 s3 by (simp add: xy)
qed

lemma canton_batch_bytes_inject:
  assumes "go_length cs" "list_all canton_action_fits cs" "go_length cs'" "list_all canton_action_fits cs'"
    and eq: "canton_batch_bytes cs p salt = canton_batch_bytes cs' p' salt'"
  shows "cs = cs' \<and> p = p' \<and> salt = salt'"
proof -
  note e1 = eq [unfolded canton_batch_bytes_def]
  note s1 = number_code.splits [OF go_length_256 [OF assms(1)] go_length_256 [OF assms(3)] e1]
  note s2 = action_code.concat_splits [OF s1 [THEN conjunct1] assms(2,4) s1 [THEN conjunct2]]
  have keys: "go_length (be_bytes 32 k)" for k :: hash by simp
  note s3 = data_code.splits [OF keys keys s2 [THEN conjunct2]]
  note s4 = data_code.inject [OF keys keys s3 [THEN conjunct2]]
  show ?thesis using s2 s3 s4 by (simp add: be_bytes_inject)
qed

lemma canton_call_text_bytes:
  assumes "canton_action_fits a"
  shows "canton_call_text (canton_action_call a) = Inr (hex_encode (canton_action_bytes a))"
proof -
  obtain target f d where a: "a = (target, f, d)" by (cases a) auto
  with assms have "go_length target" "go_length f" "go_length d" by (simp_all add: canton_action_fits_def)
  then obtain lt lf where
    "pad_len target = Inr lt" "\<And>t. lt @ asciiToHex target @ t = hex_encode (counted_text target) @ t"
    "pad_len f = Inr lf" "\<And>t. lf @ asciiToHex f @ t = hex_encode (counted_text f) @ t"
    "pad_int (int (length d)) = Inr (hex_encode (word32_bytes (length d)))"
    using pad_len_text [of target] pad_len_text [of f] by (auto simp: pad_int_nat go_length_256)
  then show ?thesis
    by (simp add: a canton_call_text_def canton_action_call_def canton_action_bytes_def encodeOperationDataForHash_def
        operationDataHex_def hex_encode_append counted_data_def)
qed

lemma hashTimelockOpID_bytes:
  assumes "go_length cs" and "list_all canton_action_fits cs"
  shows "hashTimelockOpID C (map canton_action_call cs) (hex_encode (be_bytes 32 p)) (hex_encode (be_bytes 32 salt)) =
    Inr (hex_encode (be_bytes 32 (Keccak256Hash C (canton_batch_bytes cs p salt))))"
proof -
  have "mapE canton_call_text (map canton_action_call cs) = Inr (map (\<lambda>a. hex_encode (canton_action_bytes a)) cs)"
    using assms(2) by (induction cs) (simp_all add: canton_call_text_bytes)
  moreover have "concat (map (\<lambda>a. hex_encode (canton_action_bytes a)) cs) = hex_encode (concat (map canton_action_bytes cs))"
    by (induction cs) (simp_all add: hex_encode_append hex_encode_def [of "[]"])
  moreover have "pad_int 32 = Inr (hex_encode (word32_bytes 32))" using pad_int_nat [of 32] by simp
  moreover have "pad_len (map canton_action_call cs) = Inr (hex_encode (word32_bytes (length cs)))"
    using assms(1) by (simp add: pad_len_def pad_int_nat go_length_256)
  ultimately have "hashTimelockOpID C (map canton_action_call cs) (hex_encode (be_bytes 32 p)) (hex_encode (be_bytes 32 salt)) =
      bindE (wrapE (Wrapf ''hash timelock op id: invalid hex encoding: %w'')
        (hex_DecodeString (hex_encode (canton_batch_bytes cs p salt))))
        (\<lambda>data. Inr (hex_encode (be_bytes 32 (Keccak256Hash C data))))"
    by (simp add: hashTimelockOpID_def canton_batch_bytes_def counted_data_def hex_encode_append del: hex_DecodeString_encode)
  then show ?thesis by simp
qed

lemma decode_op_id_encode [simp]: "decode_op_id (hex_encode (be_bytes 32 h)) = Inr h"
  by (simp add: decode_op_id_def from_be_bytes)

definition canton_tx_action :: "'s canton_pkg_scheme \<Rightarrow> transaction \<Rightarrow> canton_action res" where
  "canton_tx_action S tx =
     bindE (if raw_nonempty (tx_AdditionalFields tx) then CantonFieldsUnmarshal S (tx_AdditionalFields tx)
            else Inr no_canton_fields) (\<lambda>af.
       Inr (if cnf_TargetInstanceAddress af = [] then tx_To tx else cnf_TargetInstanceAddress af,
            cnf_FunctionName af, tx_Data tx))"

definition canton_actions :: "'s canton_pkg_scheme \<Rightarrow> batch_operation \<Rightarrow> canton_action list res" where
  "canton_actions S b = mapE (canton_tx_action S) (bop_Transactions b)"

lemma canton_batch_call_action:
  "canton_batch_call S tx = Inr (call, ids) \<Longrightarrow> \<exists>a. canton_tx_action S tx = Inr a \<and> call = canton_action_call a"
  by (auto simp: canton_batch_call_def canton_tx_action_def canton_action_call_def bindE_Inr_iff Let_def split: if_splits)

lemma buildCallsFromBatch_actions:
  assumes "buildCallsFromBatch S b = Inr (calls, ids)"
  shows "\<exists>cs. canton_actions S b = Inr cs \<and> calls = map canton_action_call cs"
proof -
  from assms obtain xs where xs: "mapE (canton_batch_call S) (bop_Transactions b) = Inr xs" "calls = map fst xs"
    by (auto simp: buildCallsFromBatch_def bindE_Inr_iff)
  have "\<exists>cs. mapE (canton_tx_action S) txs = Inr cs \<and> map fst xs = map canton_action_call cs"
    if "mapE (canton_batch_call S) txs = Inr xs" for txs xs
    using that
  proof (induction txs arbitrary: xs)
    case (Cons tx txs)
    then obtain c ids ys where "canton_batch_call S tx = Inr (c, ids)" "mapE (canton_batch_call S) txs = Inr ys"
      "xs = (c, ids) # ys" by (auto simp: bindE_Inr_iff)
    with Cons.IH [of ys] canton_batch_call_action [of S tx c ids] show ?case by fastforce
  qed simp
  from this [OF xs(1)] xs(2) show ?thesis by (auto simp: canton_actions_def)
qed

definition canton_batch_fits :: "'s canton_pkg_scheme \<Rightarrow> batch_operation \<Rightarrow> bool" where
  "canton_batch_fits S b \<longleftrightarrow> go_length (bop_Transactions b) \<and>
     (\<forall>cs. canton_actions S b = Inr cs \<longrightarrow> list_all canton_action_fits cs)"

lemma canton_OperationID_hash:
  assumes "canton_batch_fits S b" and "cantonOperationID C S b action p salt = Inr h"
  shows "\<exists>cs. canton_actions S b = Inr cs \<and> h = Keccak256Hash C (canton_batch_bytes cs p salt)"
proof -
  from assms(2) obtain calls ids where c: "buildCallsFromBatch S b = Inr (calls, ids)" and
    h: "bindE (hashTimelockOpID C calls (hex_encode (be_bytes 32 p)) (hex_encode (be_bytes 32 salt))) decode_op_id = Inr h"
    by (auto simp: cantonOperationID_def bindE_Inr_iff [of "buildCallsFromBatch S b"])
  from buildCallsFromBatch_actions [OF c] obtain cs
    where cs: "canton_actions S b = Inr cs" "calls = map canton_action_call cs" by blast
  then have "go_length cs" "list_all canton_action_fits cs"
    using assms(1) mapE_length [of "canton_tx_action S" "bop_Transactions b" cs]
    by (auto simp: canton_batch_fits_def canton_actions_def)
  with h cs show ?thesis by (simp add: hashTimelockOpID_bytes)
qed

section \<open>The converter agrees with the ids\<close>

lemma canton_convert_InrE:
  assumes "cantonConvert C S md b tlAddr mcm delay action pred salt = Inr (ops, h)"
  obtains op m calls ids f d where "ops = [op]" "op_ChainSelector op = bop_ChainSelector b"
    "cantonOperationID C S b action pred salt = Inr h"
    "resolveAdditionalFieldsMetadata C S md b action = Inr m" "buildCallsFromBatch S b = Inr (calls, ids)"
    "buildTimelockOperation S b mcm (extractInstanceAddressFromMultisigId (cnm_MultisigId m)) f d ids = Inr op"
    "(case action of
        TimelockActionSchedule \<Rightarrow> scheduleActionData S calls (hex_encode (be_bytes 32 pred)) (hex_encode (be_bytes 32 salt)) delay
      | TimelockActionBypass \<Rightarrow> bypassActionData S calls
      | TimelockActionCancel \<Rightarrow> bindE (hashTimelockOpID C calls (hex_encode (be_bytes 32 pred)) (hex_encode (be_bytes 32 salt)))
          (cancelActionData S)
      | OtherAction _ \<Rightarrow> Inl (Errorf ''unsupported timelock action: %v'')) = Inr (f, d)"
proof -
  from assms obtain m calls ids ident f d op where
    m: "resolveAdditionalFieldsMetadata C S md b action = Inr m" and
    c: "buildCallsFromBatch S b = Inr (calls, ids)" and
    i: "hashTimelockOpID C calls (hex_encode (be_bytes 32 pred)) (hex_encode (be_bytes 32 salt)) = Inr ident" and
    h: "decode_op_id ident = Inr h" and
    d: "(case action of
              TimelockActionSchedule \<Rightarrow> scheduleActionData S calls (hex_encode (be_bytes 32 pred)) (hex_encode (be_bytes 32 salt)) delay
            | TimelockActionBypass \<Rightarrow> bypassActionData S calls
            | TimelockActionCancel \<Rightarrow> cancelActionData S ident
            | OtherAction _ \<Rightarrow> Inl (Errorf ''unsupported timelock action: %v'')) = Inr (f, d)" and
    op: "buildTimelockOperation S b mcm (extractInstanceAddressFromMultisigId (cnm_MultisigId m)) f d ids = Inr op" "ops = [op]"
    by (auto simp: cantonConvert_def Let_def bindE_Inr_iff split: prod.splits)
  have "cantonOperationID C S b action pred salt = Inr h" using c i h by (simp add: cantonOperationID_def)
  moreover have "op_ChainSelector op = bop_ChainSelector b" using op(1) by (auto simp: buildTimelockOperation_def bindE_Inr_iff)
  moreover have "(case action of
        TimelockActionSchedule \<Rightarrow> scheduleActionData S calls (hex_encode (be_bytes 32 pred)) (hex_encode (be_bytes 32 salt)) delay
      | TimelockActionBypass \<Rightarrow> bypassActionData S calls
      | TimelockActionCancel \<Rightarrow> bindE (hashTimelockOpID C calls (hex_encode (be_bytes 32 pred)) (hex_encode (be_bytes 32 salt)))
          (cancelActionData S)
      | OtherAction _ \<Rightarrow> Inl (Errorf ''unsupported timelock action: %v'')) = Inr (f, d)" using d i by (cases action) simp_all
  ultimately show thesis using that op m c by blast
qed

interpretation canton_family: family_converter "cantonConvert C S" "cantonOperationID C S" for C S
  by unfold_locales (auto elim: canton_convert_InrE)

text \<open>The family wired into the dispatch.\<close>

definition with_canton :: "'s canton_pkg_scheme \<Rightarrow> 'e mcms_env_scheme \<Rightarrow> 'e mcms_env_scheme" where
  "with_canton S E = E\<lparr>canton_NewEncoder := cantonNewEncoder E S, canton_OperationID := cantonOperationID E S,
     canton_Convert := cantonConvert E S, canton_ValidateAdditionalFields := cantonValidateAdditionalFields S,
     canton_ValidateChainMetadata := cantonValidateChainMetadata S\<rparr>"

lemma with_canton_sel [simp]:
  "canton_NewEncoder (with_canton S E) = cantonNewEncoder E S"
  "canton_OperationID (with_canton S E) = cantonOperationID E S"
  "canton_Convert (with_canton S E) = cantonConvert E S"
  "canton_ValidateAdditionalFields (with_canton S E) = cantonValidateAdditionalFields S"
  "ChainDetails (with_canton S E) = ChainDetails E"
  "Keccak256Hash (with_canton S E) = Keccak256Hash E"
  by (simp_all add: with_canton_def)

lemma with_canton_newEncoder:
  "ChainDetails E sel = Inr FamilyCanton \<Longrightarrow>
     newEncoder (with_canton S E) sel n ov sim = Inr (Some (cantonNewEncoder E S sel n ov))"
  by (simp add: newEncoder_def GetChainSelectorFamily_def supportedFamilies_def)

lemma cantonNewEncoder_methods:
  "enc_HashOperation (cantonNewEncoder C S sel n ov) =
     canton_HashOperation C S \<lparr>cne_ChainSelector = sel, cne_TxCount = n, cne_OverridePreviousRoot = ov\<rparr>"
  "enc_HashMetadata (cantonNewEncoder C S sel n ov) =
     canton_HashMetadata C S \<lparr>cne_ChainSelector = sel, cne_TxCount = n, cne_OverridePreviousRoot = ov\<rparr>"
  by (simp_all add: cantonNewEncoder_def Let_def)

section \<open>Inferred metadata\<close>

lemma to_lower_hex: "to_lower (hex_encode bs) = hex_encode bs"
proof -
  have digit: "to_lower_char (hex_digit n) = hex_digit n" if "n < 16" for n
  proof -
    have "list_all (\<lambda>n. to_lower_char (hex_digit n) = hex_digit n) [0..<16]"
      by (simp add: to_lower_char_def hex_digit_def Let_def upt_rec)
    with that show ?thesis by (simp add: list_all_iff)
  qed
  show ?thesis
  proof (induction bs)
    case (Cons b bs)
    have "unat b div 16 < 16" using unsigned_less [of b, where 'a = nat] by simp
    with Cons show ?case by (simp add: to_lower_def hex_encode_def hex_byte_def digit)
  qed (simp add: to_lower_def hex_encode_def)
qed

lemma to_lower_idem: "to_lower (to_lower s) = to_lower s"
proof -
  have "to_lower_char (to_lower_char c) = to_lower_char c" for c
  proof (cases "65 \<le> (of_char c :: nat) \<and> (of_char c :: nat) \<le> 90")
    case True
    then have "(of_char (to_lower_char c) :: nat) = of_char c + 32" by (simp add: to_lower_char_def Let_def)
    then show ?thesis using True by (simp add: to_lower_char_def [of "to_lower_char c"] Let_def)
  next
    case False
    then have "to_lower_char c = c" by (auto simp: to_lower_char_def Let_def)
    then show ?thesis by simp
  qed
  then show ?thesis by (simp add: to_lower_def)
qed

lemma resolveInstanceID_Inr:
  "resolveInstanceID C addr party cs = Inr c \<Longrightarrow>
     c \<in> set cs \<and> hex_encode (be_bytes 32 (instance_hash C c party)) = to_lower (TrimPrefix0x addr)"
  by (induction cs) (auto simp: EqualFold_def to_lower_hex to_lower_idem split: if_splits)

lemma role_suffix: "CHR ''-'' \<notin> set r \<Longrightarrow> extractInstanceAddressFromMultisigId (a @ ''-'' @ r) = a"
proof -
  assume "CHR ''-'' \<notin> set r"
  then have "\<not> sublist ''-'' (drop 1 ''-'' @ r)"
    by (auto dest!: set_mono_sublist)
  from last_index_of_append [OF this, of a] show ?thesis
    by (simp add: extractInstanceAddressFromMultisigId_def)
qed

end
