(* ===== verification/CantonClient.thy ===== *)
theory CantonClient
  imports Canton EvmClient
begin

text \<open>
  The Canton implementations of the interfaces that talk to a chain: \<open>sdk/canton/resolver.go\<close>,
  \<open>inspector.go\<close>, \<open>configurer.go\<close>, \<open>executor.go\<close>, \<open>timelock_inspector.go\<close> and \<open>timelock_executor.go\<close>. The ledger
  services and the generated bindings are a record of functions on the world: the state service looks at
  it, the command service returns the next one, errors are texts.
\<close>

section \<open>The ledger\<close>

type_synonym template_id = "string \<times> string \<times> string"

record canton_signer =
  csi_SignerAddress :: string
  csi_SignerIndex :: int
  csi_SignerGroup :: int

record canton_config =
  ccf_Signers :: "canton_signer list"
  ccf_GroupQuorums :: "int list"
  ccf_GroupParents :: "int list"

record canton_root_metadata =
  crm_ChainId :: i64
  crm_MultisigId :: string
  crm_PreOpCount :: int
  crm_PostOpCount :: int
  crm_OverridePreviousRoot :: bool

record canton_expiring_root =
  cer_Root :: string
  cer_ValidUntil :: int
  cer_OpCount :: int

record canton_role_state =
  crs_Config :: canton_config
  crs_ExpiringRoot :: canton_expiring_root
  crs_RootMetadata :: canton_root_metadata

record canton_mcms =
  cmc_InstanceId :: string
  cmc_Owner :: string
  cmc_ChainId :: i64
  cmc_Proposer :: canton_role_state
  cmc_Bypasser :: canton_role_state
  cmc_Canceller :: canton_role_state

record canton_op =
  cop_ChainId :: i64
  cop_MultisigId :: string
  cop_Nonce :: i64
  cop_TargetInstanceAddress :: string
  cop_FunctionName :: string
  cop_OperationData :: string

record canton_signature =
  csg_PublicKey :: string
  csg_R :: string
  csg_S :: string

text \<open>The structs of the choices that are exercised; \<open>ledger.MapToValue\<close> writes them as values of the ledger.\<close>

datatype canton_choice =
    ChoiceSetConfig string "canton_signer list" "int list" "int list" bool
  | ChoiceExecuteOp string string canton_op "string list" "(string, string) gomap"
  | ChoiceSetRoot string string string int canton_root_metadata "string list" "canton_signature list"
  | ChoiceExecuteScheduledBatch string string "canton_call list" string string "(string, string) gomap"
  | ChoiceGetMinDelay string
  | ChoiceIsOperation string string
  | ChoiceIsOperationPending string string
  | ChoiceIsOperationReady string string
  | ChoiceIsOperationDone string string

text \<open>\<open>TransactionFormat\<close> asks for the effects that a party sees.\<close>

record canton_request =
  crq_WorkflowId :: string
  crq_CommandId :: string
  crq_ActAs :: "string list"
  crq_ReadAs :: "string list"
  crq_TemplateId :: template_id
  crq_ContractId :: string
  crq_Choice :: string
  crq_Argument :: canton_choice
  crq_EffectsFor :: "string option"

text \<open>Values of the ledger as far as they are looked at; a variant or the value of a field may be nil.\<close>

datatype canton_value =
    VBool bool
  | VVariant "string option"
  | VRecord "canton_value option list"
  | VInt64 int
  | VOther

datatype canton_event =
    Created "template_id option" string
  | Exercised "canton_value option"
  | OtherEvent

record canton_tx =
  ctx_ExternalHash :: "byte list"
  ctx_Events :: "canton_event list"

text \<open>
  An active contract: the labels of its create arguments with their texts, empty for a value that is no
  text; the arguments may be nil. The stream of active contracts ends, or breaks off with an error.
\<close>

record canton_contract =
  cac_ContractId :: string
  cac_CreateArguments :: "(string \<times> string) list option"
  cac_Signatories :: "string list"
  cac_Offset :: int

datatype canton_entry = ActiveContract canton_contract | OtherEntry

record 'w canton_client =
  kc_GetLedgerEnd :: "'w \<Rightarrow> string + int"
  kc_GetActiveContracts :: "int \<Rightarrow> string set \<Rightarrow> template_id \<Rightarrow> 'w \<Rightarrow> string + (canton_entry list \<times> string option)"
  kc_SubmitAndWait :: "canton_request \<Rightarrow> 'w \<Rightarrow> (string + canton_tx option) \<times> 'w"
  kc_NewUUID :: "'w \<Rightarrow> string \<times> 'w"
  kc_HexToInstanceAddress :: "string \<Rightarrow> hash"
  kc_InstanceAddress :: "string \<Rightarrow> string \<Rightarrow> hash"
  kc_InstanceAddressHex :: "hash \<Rightarrow> string"
  kc_RawInstanceAddressFromString :: "string \<Rightarrow> string + hash"
  kc_MCMSTemplateID :: string
  kc_UnmarshalMCMS :: "canton_contract \<Rightarrow> string + canton_mcms"
  kc_ExerciseCommand :: "string \<Rightarrow> canton_choice \<Rightarrow> string \<times> string"
  kc_HexToHash :: "string \<Rightarrow> hash"
  kc_FromECDSAPub :: "byte list \<Rightarrow> byte list"

section \<open>Resolving addresses\<close>

definition contract_instance_id :: "(string \<times> string) list \<Rightarrow> string" where
  "contract_instance_id args = (case find (\<lambda>(label, _). label = ''instanceId'') args of None \<Rightarrow> [] | Some (_, t) \<Rightarrow> t)"

definition contract_matches :: "'w canton_client \<Rightarrow> hash \<Rightarrow> canton_contract \<Rightarrow> bool" where
  "contract_matches K instanceAddress c =
     (case cac_CreateArguments c of
        None \<Rightarrow> False
      | Some args \<Rightarrow>
          let contractInstanceID = contract_instance_id args in
          if contractInstanceID = [] then False
          else case cac_Signatories c of
                 [sig] \<Rightarrow> kc_InstanceAddress K contractInstanceID sig = instanceAddress
               | _ \<Rightarrow> False)"

fun recv_loop :: "'w canton_client \<Rightarrow> hash \<Rightarrow> canton_contract option \<Rightarrow> canton_entry list \<Rightarrow> canton_contract option" where
  "recv_loop K a activeContract [] = activeContract"
| "recv_loop K a activeContract (OtherEntry # es) = recv_loop K a activeContract es"
| "recv_loop K a activeContract (ActiveContract c # es) =
     (if \<not> contract_matches K a c then recv_loop K a activeContract es
      else case activeContract of
             None \<Rightarrow> recv_loop K a (Some c) es
           | Some existing \<Rightarrow>
               if cac_Offset c \<le> cac_Offset existing then recv_loop K a activeContract es
               else recv_loop K a (Some c) es)"

definition findActiveContractByInstanceAddress ::
  "'w canton_client \<Rightarrow> 'w \<Rightarrow> string list \<Rightarrow> string \<Rightarrow> hash \<Rightarrow> canton_contract res" where
  "findActiveContractByInstanceAddress K w parties templateID instanceAddress =
     bindE (wrapE (Wrapf ''failed to get ledger end: %w'') (ext (kc_GetLedgerEnd K w))) (\<lambda>offset.
     bindE (wrapE (Wrapf ''failed to parse template ID: %w'') (ParseTemplateIDFromString templateID)) (\<lambda>tid.
     bindE (wrapE (Wrapf ''failed to get active contracts: %w'')
              (ext (kc_GetActiveContracts K offset (set parties) tid w))) (\<lambda>(entries, broken).
     bindE (case broken of None \<Rightarrow> Inr () | Some e \<Rightarrow> Inl (Wrapf ''failed to receive active contracts: %w'' (External e))) (\<lambda>_.
       case recv_loop K instanceAddress None entries of
         None \<Rightarrow> Inl (Errorf ''no active contract found for InstanceAddress %s'')
       | Some c \<Rightarrow> Inr c))))"

definition findActiveContractIDByInstanceAddress ::
  "'w canton_client \<Rightarrow> 'w \<Rightarrow> string list \<Rightarrow> string \<Rightarrow> hash \<Rightarrow> string res" where
  "findActiveContractIDByInstanceAddress K w parties templateID instanceAddress =
     bindE (findActiveContractByInstanceAddress K w parties templateID instanceAddress) (\<lambda>c. Inr (cac_ContractId c))"

definition ResolveMCMSContractID :: "'w canton_client \<Rightarrow> 'w \<Rightarrow> string list \<Rightarrow> string \<Rightarrow> string res" where
  "ResolveMCMSContractID K w mcmsParties instanceAddressHex =
     (if instanceAddressHex = [] then Inl (Errorf ''instance address hex is required'')
      else findActiveContractIDByInstanceAddress K w mcmsParties (kc_MCMSTemplateID K)
             (kc_HexToInstanceAddress K instanceAddressHex))"

definition GetMCMSContract :: "'w canton_client \<Rightarrow> 'w \<Rightarrow> string list \<Rightarrow> string \<Rightarrow> canton_mcms res" where
  "GetMCMSContract K w mcmsParties mcmsAddr =
     (let mcmsAddr = TrimPrefix0x mcmsAddr in
      if mcmsAddr = [] then Inl (Errorf ''MCMS instance address is required'')
      else
        bindE (wrapE (Wrapf ''MCMS contract for InstanceAddress %s: %w'')
                 (findActiveContractByInstanceAddress K w mcmsParties (kc_MCMSTemplateID K)
                    (kc_HexToInstanceAddress K mcmsAddr))) (\<lambda>activeContract.
          wrapE (Wrapf ''failed to unmarshal MCMS contract: %w'') (ext (kc_UnmarshalMCMS K activeContract))))"

definition ResolveTargetContractID ::
  "'w canton_client \<Rightarrow> 'w \<Rightarrow> string list \<Rightarrow> string \<Rightarrow> string \<Rightarrow> string res" where
  "ResolveTargetContractID K w parties rawInstanceAddress templateID =
     (if rawInstanceAddress = [] then Inl (Errorf ''raw instance address is required'')
      else if templateID = [] then Inl (Errorf ''template ID is required'')
      else
        bindE (wrapE (Wrapf ''parse raw instance address %q: %w'')
                 (ext (kc_RawInstanceAddressFromString K rawInstanceAddress))) (\<lambda>addr.
          findActiveContractIDByInstanceAddress K w parties templateID addr))"

definition IsInstanceAddressHex :: "string \<Rightarrow> bool" where
  "IsInstanceAddressHex s \<longleftrightarrow> length (TrimPrefix0x s) = 64 \<and> isValidHex (TrimPrefix0x s)"

definition ResolveContractIDIfInstanceAddress ::
  "'w canton_client \<Rightarrow> 'w \<Rightarrow> string list \<Rightarrow> string \<Rightarrow> string res" where
  "ResolveContractIDIfInstanceAddress K w parties cid =
     (if \<not> IsInstanceAddressHex cid then Inr cid else ResolveMCMSContractID K w parties cid)"

section \<open>Inspector\<close>

record canton_inspector =
  ci_mcmsParties :: "string list"
  ci_role :: canton_role

definition maxMCMSGroups :: nat where "maxMCMSGroups = 32"

definition canton_add_signer :: "'g geth_pkg_scheme \<Rightarrow> address list list \<Rightarrow> canton_signer \<Rightarrow> address list list res" where
  "canton_add_signer G signersByGroup signer =
     (let groupIdx = csi_SignerGroup signer in
      if groupIdx < 0 \<or> groupIdx \<ge> int maxMCMSGroups
      then Inl (Errorf ''signer group index %d out of range [0, %d)'')
      else Inr (signersByGroup[nat groupIdx := signersByGroup ! nat groupIdx @ [HexToAddress G (csi_SignerAddress signer)]]))"

definition canton_link_group :: "'x cast_pkg_scheme \<Rightarrow> int list \<Rightarrow> config list \<Rightarrow> nat \<Rightarrow> config list res" where
  "canton_link_group X parents groups i =
     bindE (wrapE (Wrapf ''group parent for group %d: %w'') (IntToUint8 X (parents ! i))) (\<lambda>parent.
       if i > 0 \<and> Quorum (groups ! i) > 0 then
         if unat parent \<ge> length groups then Inl (Errorf ''group parent index %d out of range'')
         else Inr (groups[unat parent := Config (Quorum (groups ! unat parent)) (Signers (groups ! unat parent))
                                           (groups ! i # GroupSigners (groups ! unat parent))])
       else Inr groups)"

definition canton_toConfig :: "'g geth_pkg_scheme \<Rightarrow> canton_config \<Rightarrow> config res" where
  "canton_toConfig G bindConfig =
     bindE (foldE (canton_add_signer G) (replicate maxMCMSGroups []) (ccf_Signers bindConfig)) (\<lambda>signersByGroup.
     if length (ccf_GroupQuorums bindConfig) > maxMCMSGroups then Inl (Errorf ''group quorums length %d exceeds maximum %d'')
     else if length (ccf_GroupParents bindConfig) > maxMCMSGroups
     then Inl (Errorf ''group parents length %d exceeds maximum %d'')
     else
       let quorums = ccf_GroupQuorums bindConfig @ replicate (maxMCMSGroups - length (ccf_GroupQuorums bindConfig)) 0;
           parents = ccf_GroupParents bindConfig @ replicate (maxMCMSGroups - length (ccf_GroupParents bindConfig)) 0 in
       bindE (mapE (\<lambda>i. bindE (wrapE (Wrapf ''group quorum for group %d: %w'') (IntToUint8 G (quorums ! i)))
                          (\<lambda>q. Inr (Config q (signersByGroup ! i) []))) [0..<maxMCMSGroups]) (\<lambda>groups.
       bindE (foldE (canton_link_group G parents) groups (rev [0..<maxMCMSGroups])) (\<lambda>groups.
       bindE (wrapE (Wrapf ''invalid MCMS config: %w'') (config_Validate (groups ! 0))) (\<lambda>_.
         Inr (groups ! 0)))))"

text \<open>The \<open>switch\<close> on the role that four functions have.\<close>

definition role_state :: "canton_mcms \<Rightarrow> canton_role \<Rightarrow> canton_role_state res" where
  "role_state mcmsContract role =
     (if role = Canton_TimelockRoleProposer then Inr (cmc_Proposer mcmsContract)
      else if role = Canton_TimelockRoleBypasser then Inr (cmc_Bypasser mcmsContract)
      else if role = Canton_TimelockRoleCanceller then Inr (cmc_Canceller mcmsContract)
      else Inl (Errorf ''unknown timelock role: %s''))"

definition canton_GetConfig ::
  "'g geth_pkg_scheme \<Rightarrow> 'w canton_client \<Rightarrow> canton_inspector \<Rightarrow> 'w \<Rightarrow> string \<Rightarrow> config res" where
  "canton_GetConfig G K i w mcmsAddr =
     bindE (wrapE (Wrapf ''failed to get MCMS contract: %w'') (GetMCMSContract K w (ci_mcmsParties i) mcmsAddr)) (\<lambda>mcmsContract.
     bindE (role_state mcmsContract (ci_role i)) (\<lambda>st. canton_toConfig G (crs_Config st)))"

definition expiringRootOpCount :: "'x cast_pkg_scheme \<Rightarrow> canton_mcms \<Rightarrow> canton_role \<Rightarrow> u64 res" where
  "expiringRootOpCount X mcmsContract role =
     bindE (role_state mcmsContract role) (\<lambda>st. Int64ToUint64 X (cer_OpCount (crs_ExpiringRoot st)))"

definition canton_GetOpCount ::
  "'x cast_pkg_scheme \<Rightarrow> 'w canton_client \<Rightarrow> canton_inspector \<Rightarrow> 'w \<Rightarrow> string \<Rightarrow> u64 res" where
  "canton_GetOpCount X K i w mcmsAddr =
     bindE (wrapE (Wrapf ''failed to get MCMS contract: %w'') (GetMCMSContract K w (ci_mcmsParties i) mcmsAddr)) (\<lambda>mcmsContract.
       expiringRootOpCount X mcmsContract (ci_role i))"

definition rootFromExpiringRoot :: "'x cast_pkg_scheme \<Rightarrow> 'w canton_client \<Rightarrow> canton_expiring_root \<Rightarrow> (hash \<times> u32) res" where
  "rootFromExpiringRoot X K expiringRoot =
     bindE (wrapE (Wrapf ''valid until out of range: %w'') (Int64ToUint32 X (cer_ValidUntil expiringRoot))) (\<lambda>validUntil.
       Inr (kc_HexToHash K (cer_Root expiringRoot), validUntil))"

definition canton_GetRoot ::
  "'x cast_pkg_scheme \<Rightarrow> 'w canton_client \<Rightarrow> canton_inspector \<Rightarrow> 'w \<Rightarrow> string \<Rightarrow> (hash \<times> u32) res" where
  "canton_GetRoot X K i w mcmsAddr =
     bindE (wrapE (Wrapf ''failed to get MCMS contract: %w'') (GetMCMSContract K w (ci_mcmsParties i) mcmsAddr)) (\<lambda>mcmsContract.
     bindE (role_state mcmsContract (ci_role i)) (\<lambda>st. rootFromExpiringRoot X K (crs_ExpiringRoot st)))"

definition chainMetadataFromMCMSContract ::
  "'x cast_pkg_scheme \<Rightarrow> 's canton_pkg_scheme \<Rightarrow> 'w canton_client \<Rightarrow> canton_mcms \<Rightarrow> canton_role \<Rightarrow> string \<Rightarrow>
     chain_metadata res" where
  "chainMetadataFromMCMSContract X S K mcmsContract role lookupAddr =
     bindE (role_state mcmsContract role) (\<lambda>st.
     let rootMetadata = crs_RootMetadata st;
         canonicalAddress = kc_InstanceAddressHex K (kc_InstanceAddress K (cmc_InstanceId mcmsContract) (cmc_Owner mcmsContract)) in
     bindE (if lookupAddr = [] then Inr canonicalAddress
            else if \<not> instanceAddressHexEqual lookupAddr canonicalAddress
            then Inl (Errorf ''MCMS instance address mismatch: lookup %q vs ledger %q'')
            else Inr lookupAddr) (\<lambda>mcmAddress.
     bindE (expiringRootOpCount X mcmsContract role) (\<lambda>startingOpCount.
     let chainID = (if sint (crm_ChainId rootMetadata) \<le> 0 then cmc_ChainId mcmsContract else crm_ChainId rootMetadata);
         multisigID = (if crm_MultisigId rootMetadata = []
                       then cmc_InstanceId mcmsContract @ ''@'' @ cmc_Owner mcmsContract @ ''-'' @ to_lower (canton_role_String role)
                       else crm_MultisigId rootMetadata);
         additionalFields = \<lparr>cnm_ChainId = chainID, cnm_MultisigId = multisigID, cnm_InstanceId = cmc_InstanceId mcmsContract\<rparr> in
     bindE (wrapE (Wrapf ''invalid root metadata from ledger: %w'') (canton_metadata_Validate additionalFields)) (\<lambda>_.
     bindE (wrapE (Wrapf ''marshal canton additional fields: %w'')
              (CantonMetadataMarshal S additionalFields)) (\<lambda>additionalFieldsBytes.
       Inr \<lparr>cm_StartingOpCount = startingOpCount, cm_MCMAddress = mcmAddress,
            cm_AdditionalFields = additionalFieldsBytes\<rparr>)))))"

definition canton_GetRootMetadata ::
  "'x cast_pkg_scheme \<Rightarrow> 's canton_pkg_scheme \<Rightarrow> 'w canton_client \<Rightarrow> canton_inspector \<Rightarrow> 'w \<Rightarrow> string \<Rightarrow>
     chain_metadata res" where
  "canton_GetRootMetadata X S K i w mcmsAddr =
     bindE (wrapE (Wrapf ''failed to get MCMS contract: %w'') (GetMCMSContract K w (ci_mcmsParties i) mcmsAddr)) (\<lambda>mcmsContract.
       chainMetadataFromMCMSContract X S K mcmsContract (ci_role i) mcmsAddr)"

section \<open>Submitting commands\<close>

record canton_raw =
  craw_NewMCMSContractID :: string
  craw_NewMCMSTemplateID :: string
  craw_RawTx :: "canton_tx option"

definition tx_events :: "canton_tx option \<Rightarrow> canton_event list" where
  "tx_events transaction = (case transaction of None \<Rightarrow> [] | Some tx \<Rightarrow> ctx_Events tx)"

definition transactionResultHash :: "canton_tx option \<Rightarrow> string \<Rightarrow> string" where
  "transactionResultHash transaction commandID =
     (case transaction of
        None \<Rightarrow> commandID
      | Some tx \<Rightarrow> if ctx_ExternalHash tx \<noteq> [] then ''0x'' @ hex_encode (ctx_ExternalHash tx) else commandID)"

text \<open>The loop over the events, which four functions have: the first contract created from the MCMS template.\<close>

fun created_mcms :: "canton_event list \<Rightarrow> string \<times> string" where
  "created_mcms [] = ([], [])"
| "created_mcms (Created tid cid # evs) =
     (if NormalizeTemplateKey (FormatTemplateID tid) = ''MCMS.Main:MCMS'' then (cid, FormatTemplateID tid)
      else created_mcms evs)"
| "created_mcms (_ # evs) = created_mcms evs"

definition submit_mcms ::
  "'w canton_client \<Rightarrow> string \<Rightarrow> string \<Rightarrow> canton_request \<Rightarrow> 'w \<Rightarrow> canton_raw transaction_result res \<times> 'w" where
  "submit_mcms K failed none req w =
     (case kc_SubmitAndWait K req w of (r, w') \<Rightarrow>
       (bindE (wrapE (Wrapf failed) (ext r)) (\<lambda>transaction.
          case created_mcms (tx_events transaction) of (cid, tid) \<Rightarrow>
          if cid = [] then Inl (Errorf none)
          else Inr \<lparr>tr_Hash = transactionResultHash transaction (crq_CommandId req), tr_ChainFamily = Some FamilyCanton,
                    tr_RawData = Some \<lparr>craw_NewMCMSContractID = cid, craw_NewMCMSTemplateID = tid,
                                       craw_RawTx = transaction\<rparr>\<rparr>), w'))"

definition mcms_template :: "'w canton_client \<Rightarrow> template_id res" where
  "mcms_template K = wrapE (Wrapf ''failed to parse template ID: %w'') (ParseTemplateIDFromString (kc_MCMSTemplateID K))"

section \<open>Configurer\<close>

record canton_configurer =
  cco_mcmsParties :: "string list"
  cco_role :: canton_role

definition canton_set_config_choice ::
  "'g geth_pkg_scheme \<Rightarrow> canton_role \<Rightarrow> config \<Rightarrow> bool \<Rightarrow> canton_choice res" where
  "canton_set_config_choice G role cfg clearRoot =
     bindE (wrapE (Wrapf ''unable to extract set config inputs: %w'') (ExtractSetConfigInputs G cfg))
       (\<lambda>(quorums, parents, signerAddresses, groups).
       Inr (ChoiceSetConfig (canton_role_String role)
              (map (\<lambda>(i, addr, g). \<lparr>csi_SignerAddress = TrimPrefix0x (to_lower (AddressHex G addr)), csi_SignerIndex = int i,
                                     csi_SignerGroup = uint g\<rparr>)
                 (enumerate 0 (zip signerAddresses groups)))
              (map uint quorums) (map uint parents) clearRoot))"

text \<open>The first party acts; \<open>c.mcmsParties[0]\<close> panics when there is none.\<close>

definition canton_SetConfig ::
  "'g geth_pkg_scheme \<Rightarrow> 'w canton_client \<Rightarrow> canton_configurer \<Rightarrow> string \<Rightarrow> config \<Rightarrow> bool \<Rightarrow> 'w \<Rightarrow>
     canton_raw transaction_result res \<times> 'w" where
  "canton_SetConfig G K c mcmsAddr cfg clearRoot w =
     run_after (wrapE (Wrapf ''failed to resolve MCMS contract ID: %w'')
                  (ResolveMCMSContractID K w (cco_mcmsParties c) mcmsAddr)) (\<lambda>mcmsContractID.
     run_after (canton_set_config_choice G (cco_role c) cfg clearRoot) (\<lambda>input.
     run_after (mcms_template K) (\<lambda>tid w.
       case kc_NewUUID K w of (commandID, w) \<Rightarrow>
       case kc_ExerciseCommand K mcmsContractID input of (contractID, choice) \<Rightarrow>
       case cco_mcmsParties c of
         [] \<Rightarrow> (Inl (Panic ''index out of range''), w)
       | party # _ \<Rightarrow>
           submit_mcms K ''failed to set config: %w''
             ''set-config tx had no Created MCMS event; refusing to continue with old CID=%s''
             \<lparr>crq_WorkflowId = ''mcms-set-config'', crq_CommandId = commandID, crq_ActAs = [party],
              crq_ReadAs = cco_mcmsParties c, crq_TemplateId = tid, crq_ContractId = contractID, crq_Choice = choice,
              crq_Argument = input, crq_EffectsFor = None\<rparr> w))) w"

section \<open>Executor\<close>

record canton_executor =
  cex_Encoder :: canton_encoder
  cex_Inspector :: canton_inspector
  cex_submittingParty :: string
  cex_mcmsParties :: "string list"
  cex_role :: canton_role

definition canton_NewExecutor ::
  "canton_encoder \<Rightarrow> canton_inspector \<Rightarrow> string \<Rightarrow> string list \<Rightarrow> canton_role \<Rightarrow> canton_executor" where
  "canton_NewExecutor encoder inspector submittingParty mcmsParties role =
     \<lparr>cex_Encoder = encoder, cex_Inspector = inspector, cex_submittingParty = submittingParty,
      cex_mcmsParties = mcmsParties, cex_role = role\<rparr>"

text \<open>The fields of the operation with the contract of the target looked up when it is not given.\<close>

definition resolve_target ::
  "'w canton_client \<Rightarrow> 'w \<Rightarrow> string list \<Rightarrow> canton_fields \<Rightarrow> canton_fields res" where
  "resolve_target K w parties f =
     (if cnf_TargetInstanceAddress f = []
      then Inl (Errorf ''targetInstanceAddress is required in operation additional fields'')
      else if cnf_FunctionName f = [] then Inl (Errorf ''functionName is required in operation additional fields'')
      else if cnf_TargetCid f \<noteq> [] then Inr f
      else if cnf_TargetTemplateID f = []
      then Inl (Errorf ''targetCid or targetTemplateId+targetInstanceAddress is required in operation additional fields'')
      else
        bindE (wrapE (Wrapf ''resolve target contract ID: %w'')
                 (ResolveTargetContractID K w parties (cnf_TargetInstanceAddress f) (cnf_TargetTemplateID f))) (\<lambda>resolved.
          Inr (f\<lparr>cnf_TargetCid := resolved,
                 cnf_ContractIds := (if cnf_ContractIds f = [] then [resolved] else cnf_ContractIds f)\<rparr>)))"

definition resolve_contract_ids ::
  "'w canton_client \<Rightarrow> 'w \<Rightarrow> string list \<Rightarrow> string list \<Rightarrow> (string, string) gomap res" where
  "resolve_contract_ids K w parties ids =
     foldE (\<lambda>targetCids cid.
         bindE (wrapE (Wrapf ''resolve contract ID %q: %w'') (ResolveContractIDIfInstanceAddress K w parties cid)) (\<lambda>resolved.
           Inr (gm_put cid resolved targetCids)))
       [] ids"

definition hex_proof :: "hash list \<Rightarrow> string list" where
  "hex_proof pf = map (\<lambda>p. hex_encode (be_bytes 32 p)) pf"

definition canton_execute_choice ::
  "'s canton_pkg_scheme \<Rightarrow> 'w canton_client \<Rightarrow> canton_executor \<Rightarrow> chain_metadata \<Rightarrow> u32 \<Rightarrow> hash list \<Rightarrow> operation \<Rightarrow>
     canton_fields \<Rightarrow> 'w \<Rightarrow> canton_choice res" where
  "canton_execute_choice S K e metadata nonce pf op fields0 w =
     bindE (resolve_target K w (cex_mcmsParties e) fields0) (\<lambda>cantonOpFields.
     bindE (wrapE (Wrapf ''resolve canton root metadata: %w'') (canton_ToRootMetadata S metadata)) (\<lambda>fields.
     bindE (resolve_contract_ids K w (cex_mcmsParties e) (cnf_ContractIds cantonOpFields)) (\<lambda>targetCids.
       Inr (ChoiceExecuteOp (canton_role_String (cex_role e)) (cex_submittingParty e)
              \<lparr>cop_ChainId = cnm_ChainId fields, cop_MultisigId = cnm_MultisigId fields, cop_Nonce = ucast nonce,
               cop_TargetInstanceAddress = cnf_TargetInstanceAddress cantonOpFields,
               cop_FunctionName = cnf_FunctionName cantonOpFields,
               cop_OperationData = operationDataHex (tx_Data (op_Transaction op))\<rparr>
              (hex_proof pf) targetCids))))"

definition canton_request_of ::
  "canton_executor \<Rightarrow> string \<Rightarrow> string \<Rightarrow> template_id \<Rightarrow> string \<Rightarrow> string \<Rightarrow> canton_choice \<Rightarrow> canton_request" where
  "canton_request_of e workflow commandID tid contractID choice input =
     \<lparr>crq_WorkflowId = workflow, crq_CommandId = commandID, crq_ActAs = [cex_submittingParty e],
      crq_ReadAs = cex_mcmsParties e, crq_TemplateId = tid, crq_ContractId = contractID, crq_Choice = choice,
      crq_Argument = input, crq_EffectsFor = None\<rparr>"

definition canton_ExecuteOperation ::
  "'s canton_pkg_scheme \<Rightarrow> 'w canton_client \<Rightarrow> canton_executor \<Rightarrow> chain_metadata \<Rightarrow> u32 \<Rightarrow> hash list \<Rightarrow> operation \<Rightarrow> 'w \<Rightarrow>
     canton_raw transaction_result res \<times> 'w" where
  "canton_ExecuteOperation S K e metadata nonce pf op w =
     run_after (if raw_nonempty (tx_AdditionalFields (op_Transaction op))
                then wrapE (Wrapf ''failed to unmarshal operation additional fields: %w'')
                       (CantonFieldsUnmarshal S (tx_AdditionalFields (op_Transaction op)))
                else Inr no_canton_fields) (\<lambda>fields0.
     run_after (wrapE (Wrapf ''failed to resolve MCMS contract ID: %w'')
                  (ResolveMCMSContractID K w (cex_mcmsParties e) (cm_MCMAddress metadata))) (\<lambda>mcmsContractID.
     run_after (canton_execute_choice S K e metadata nonce pf op fields0 w) (\<lambda>input.
     run_after (mcms_template K) (\<lambda>tid w.
       case kc_NewUUID K w of (commandID, w) \<Rightarrow>
       submit_mcms K ''failed to execute operation: %w''
         ''execute-op tx had no Created MCMS event; refusing to continue with old CID=%s''
         (canton_request_of e ''mcms-execute-op'' commandID tid mcmsContractID
            (snd (kc_ExerciseCommand K mcmsContractID input)) input) w)))) w"

definition canton_signature_of ::
  "'g geth_pkg_scheme \<Rightarrow> 'w canton_client \<Rightarrow> hash \<Rightarrow> signature \<Rightarrow> canton_signature res" where
  "canton_signature_of G K h s =
     bindE (wrapE (Wrapf ''failed to recover public key for signature %d: %w'') (RecoverPublicKey G s h)) (\<lambda>pubKey.
       Inr \<lparr>csg_PublicKey = hex_encode (kc_FromECDSAPub K pubKey), csg_R = hex_encode (be_bytes 32 (sig_R s)),
            csg_S = hex_encode (be_bytes 32 (sig_S s))\<rparr>)"

definition canton_signed_hash :: "'g geth_pkg_scheme \<Rightarrow> hash \<Rightarrow> u32 \<Rightarrow> hash res" where
  "canton_signed_hash G newRoot validUntil =
     bindE (wrapE (Wrapf ''failed to ABI-encode signing payload: %w'')
              (Encode G SignMsgABI [AbiBytes32 newRoot, AbiUint (Some (uint validUntil))])) (\<lambda>inner.
       Inr (Keccak256Hash G ((0x19 # string_bytes ''Ethereum Signed Message:'' @ [10] @ string_bytes ''32'') @
                             be_bytes 32 (Keccak256Hash G inner))))"

definition canton_set_root_choice ::
  "'g geth_pkg_scheme \<Rightarrow> 's canton_pkg_scheme \<Rightarrow> 'w canton_client \<Rightarrow> canton_executor \<Rightarrow> chain_metadata \<Rightarrow> hash list \<Rightarrow>
     hash \<Rightarrow> u32 \<Rightarrow> signature list \<Rightarrow> canton_choice res" where
  "canton_set_root_choice G S K e metadata pf newRoot validUntil sortedSignatures =
     bindE (canton_signed_hash G newRoot validUntil) (\<lambda>cantonSignedHash.
     bindE (mapE (canton_signature_of G K cantonSignedHash) sortedSignatures) (\<lambda>signatures.
     bindE (wrapE (Wrapf ''resolve canton root metadata: %w'') (canton_ToRootMetadata S metadata)) (\<lambda>fields.
     bindE (wrapE (Wrapf ''preOpCount out of range: %w'') (Uint64ToInt64 G (cm_StartingOpCount metadata))) (\<lambda>preOpCount.
     bindE (wrapE (Wrapf ''postOpCount out of range: %w'')
              (Uint64ToInt64 G (cm_StartingOpCount metadata + cne_TxCount (cex_Encoder e)))) (\<lambda>postOpCount.
       Inr (ChoiceSetRoot (canton_role_String (cex_role e)) (cex_submittingParty e) (hex_encode (be_bytes 32 newRoot))
              (uint validUntil)
              \<lparr>crm_ChainId = cnm_ChainId fields, crm_MultisigId = cnm_MultisigId fields, crm_PreOpCount = preOpCount,
               crm_PostOpCount = postOpCount, crm_OverridePreviousRoot = cne_OverridePreviousRoot (cex_Encoder e)\<rparr>
              (hex_proof pf) signatures))))))"

definition canton_SetRoot ::
  "'g geth_pkg_scheme \<Rightarrow> 's canton_pkg_scheme \<Rightarrow> 'w canton_client \<Rightarrow> canton_executor \<Rightarrow> chain_metadata \<Rightarrow> hash list \<Rightarrow>
     hash \<Rightarrow> u32 \<Rightarrow> signature list \<Rightarrow> 'w \<Rightarrow> canton_raw transaction_result res \<times> 'w" where
  "canton_SetRoot G S K e metadata pf newRoot validUntil sortedSignatures w =
     run_after (wrapE (Wrapf ''failed to resolve MCMS contract ID: %w'')
                  (ResolveMCMSContractID K w (cex_mcmsParties e) (cm_MCMAddress metadata))) (\<lambda>mcmsContractID.
     run_after (canton_set_root_choice G S K e metadata pf newRoot validUntil sortedSignatures) (\<lambda>input.
     run_after (mcms_template K) (\<lambda>tid w.
       case kc_NewUUID K w of (commandID, w) \<Rightarrow>
       submit_mcms K ''failed to set root: %w''
         ''set-root tx had no Created MCMS event; refusing to continue with old CID=%s''
         (canton_request_of e ''mcms-set-root'' commandID tid mcmsContractID
            (snd (kc_ExerciseCommand K mcmsContractID input)) input) w))) w"

definition canton_executor_iface ::
  "'g geth_pkg_scheme \<Rightarrow> 's canton_pkg_scheme \<Rightarrow> 'w canton_client \<Rightarrow> canton_executor \<Rightarrow>
     (canton_raw transaction_result, 'w) executor" where
  "canton_executor_iface G S K e =
     \<lparr>ex_SetRoot = canton_SetRoot G S K e, ex_ExecuteOperation = canton_ExecuteOperation S K e\<rparr>"

section \<open>Timelock inspector\<close>

record canton_timelock_inspector =
  cti_submittingParty :: string
  cti_mcmsParties :: "string list"

definition extractSignerAddresses :: "canton_signer list \<Rightarrow> string list" where
  "extractSignerAddresses signers = map csi_SignerAddress signers"

definition role_signers ::
  "(canton_mcms \<Rightarrow> canton_role_state) \<Rightarrow> 'w canton_client \<Rightarrow> canton_timelock_inspector \<Rightarrow> 'w \<Rightarrow> string \<Rightarrow> string list res" where
  "role_signers role K t w addr =
     bindE (wrapE (Wrapf ''failed to get MCMS contract: %w'') (GetMCMSContract K w (cti_mcmsParties t) addr)) (\<lambda>mcmsContract.
       Inr (extractSignerAddresses (ccf_Signers (crs_Config (role mcmsContract)))))"

definition canton_GetProposers ::
  "'w canton_client \<Rightarrow> canton_timelock_inspector \<Rightarrow> 'w \<Rightarrow> string \<Rightarrow> string list res" where
  "canton_GetProposers = role_signers cmc_Proposer"

definition canton_GetBypassers ::
  "'w canton_client \<Rightarrow> canton_timelock_inspector \<Rightarrow> 'w \<Rightarrow> string \<Rightarrow> string list res" where
  "canton_GetBypassers = role_signers cmc_Bypasser"

definition canton_GetCancellers ::
  "'w canton_client \<Rightarrow> canton_timelock_inspector \<Rightarrow> 'w \<Rightarrow> string \<Rightarrow> string list res" where
  "canton_GetCancellers = role_signers cmc_Canceller"

definition canton_GetExecutors :: "string list res" where
  "canton_GetExecutors = Inl (Errorf ''unsupported on Canton: no separate executor role'')"

definition exerciseRequest ::
  "'w canton_client \<Rightarrow> canton_timelock_inspector \<Rightarrow> string \<Rightarrow> string \<Rightarrow> canton_choice \<Rightarrow> 'w \<Rightarrow> canton_request res \<times> 'w" where
  "exerciseRequest K t contractID choice choiceArg w =
     run_after (mcms_template K) (\<lambda>tid w.
       case kc_NewUUID K w of (commandID, w) \<Rightarrow>
         (Inr \<lparr>crq_WorkflowId = [], crq_CommandId = commandID, crq_ActAs = [cti_submittingParty t],
               crq_ReadAs = cti_mcmsParties t, crq_TemplateId = tid, crq_ContractId = contractID, crq_Choice = choice,
               crq_Argument = choiceArg, crq_EffectsFor = Some (cti_submittingParty t)\<rparr>, w)) w"

text \<open>Submit a request and look at the result of its first event.\<close>

definition exercise_result ::
  "'w canton_client \<Rightarrow> string \<Rightarrow> string \<Rightarrow> string \<Rightarrow> canton_request \<Rightarrow> 'w \<Rightarrow> canton_value option res \<times> 'w" where
  "exercise_result K failed noEvents notExercise req w =
     (case kc_SubmitAndWait K req w of (r, w') \<Rightarrow>
       (bindE (wrapE (Wrapf failed) (ext r)) (\<lambda>transaction.
          case tx_events transaction of
            [] \<Rightarrow> Inl (Errorf noEvents)
          | Exercised v # _ \<Rightarrow> Inr v
          | _ # _ \<Rightarrow> Inl (Errorf notExercise)), w'))"

definition valueToBool :: "canton_value option \<Rightarrow> bool res" where
  "valueToBool v =
     (case v of
        None \<Rightarrow> Inl (Errorf ''nil value'')
      | Some (VBool b) \<Rightarrow> Inr b
      | Some (VVariant (Some c)) \<Rightarrow>
          if c = ''True'' then Inr True
          else if c = ''False'' then Inr False
          else Inl (Errorf ''value is not Bool or Bool variant: %T'')
      | Some _ \<Rightarrow> Inl (Errorf ''value is not Bool or Bool variant: %T''))"

definition bool_choice :: "string \<Rightarrow> string \<Rightarrow> string \<Rightarrow> canton_choice res" where
  "bool_choice choice party opIDStr =
     (if choice = ''IsOperation'' then Inr (ChoiceIsOperation party opIDStr)
      else if choice = ''IsOperationPending'' then Inr (ChoiceIsOperationPending party opIDStr)
      else if choice = ''IsOperationReady'' then Inr (ChoiceIsOperationReady party opIDStr)
      else if choice = ''IsOperationDone'' then Inr (ChoiceIsOperationDone party opIDStr)
      else Inl (Errorf ''unknown choice %s''))"

definition exerciseBoolChoice ::
  "'w canton_client \<Rightarrow> canton_timelock_inspector \<Rightarrow> string \<Rightarrow> string \<Rightarrow> hash \<Rightarrow> 'w \<Rightarrow> bool res \<times> 'w" where
  "exerciseBoolChoice K t addr choice opID w =
     run_after (wrapE (Wrapf ''resolve MCMS contract ID: %w'') (ResolveMCMSContractID K w (cti_mcmsParties t) addr)) (\<lambda>contractID.
     run_after (bool_choice choice (cti_submittingParty t) (hex_encode (be_bytes 32 opID))) (\<lambda>choiceArg.
     bindW (wrapW (Wrapf ''failed to create exercise request: %w'') (exerciseRequest K t contractID choice choiceArg)) (\<lambda>req.
     bindW (exercise_result K ''%s: %w'' ''%s: no events'' ''%s: first event is not exercise'' req) (\<lambda>v w.
       (valueToBool v, w))))) w"

definition canton_IsOperation ::
  "'w canton_client \<Rightarrow> canton_timelock_inspector \<Rightarrow> string \<Rightarrow> hash \<Rightarrow> 'w \<Rightarrow> bool res \<times> 'w" where
  "canton_IsOperation K t addr opID = exerciseBoolChoice K t addr ''IsOperation'' opID"

definition canton_IsOperationPending ::
  "'w canton_client \<Rightarrow> canton_timelock_inspector \<Rightarrow> string \<Rightarrow> hash \<Rightarrow> 'w \<Rightarrow> bool res \<times> 'w" where
  "canton_IsOperationPending K t addr opID = exerciseBoolChoice K t addr ''IsOperationPending'' opID"

definition canton_IsOperationReady ::
  "'w canton_client \<Rightarrow> canton_timelock_inspector \<Rightarrow> string \<Rightarrow> hash \<Rightarrow> 'w \<Rightarrow> bool res \<times> 'w" where
  "canton_IsOperationReady K t addr opID = exerciseBoolChoice K t addr ''IsOperationReady'' opID"

definition canton_IsOperationDone ::
  "'w canton_client \<Rightarrow> canton_timelock_inspector \<Rightarrow> string \<Rightarrow> hash \<Rightarrow> 'w \<Rightarrow> bool res \<times> 'w" where
  "canton_IsOperationDone K t addr opID = exerciseBoolChoice K t addr ''IsOperationDone'' opID"

text \<open>\<open>RelTime\<close> is a record whose first field is a number of microseconds; \<open>GetInt64\<close> of another value is zero.\<close>

definition rel_time_seconds :: "canton_value option \<Rightarrow> u64 res" where
  "rel_time_seconds v =
     (case v of
        Some (VRecord (val # _)) \<Rightarrow>
          (case val of
             None \<Rightarrow> Inl (Errorf ''GetMinDelay: missing microseconds value'')
           | Some x \<Rightarrow>
               let us = (case x of VInt64 i \<Rightarrow> i | _ \<Rightarrow> 0) in
               if us < 0 then Inl (Errorf ''GetMinDelay: invalid microseconds %d'')
               else Inr (word_of_int (us div 1000000)))
      | _ \<Rightarrow> Inl (Errorf ''GetMinDelay: result is not a record with fields''))"

definition canton_GetMinDelay ::
  "'w canton_client \<Rightarrow> canton_timelock_inspector \<Rightarrow> string \<Rightarrow> 'w \<Rightarrow> u64 res \<times> 'w" where
  "canton_GetMinDelay K t addr w =
     run_after (wrapE (Wrapf ''resolve MCMS contract ID: %w'') (ResolveMCMSContractID K w (cti_mcmsParties t) addr)) (\<lambda>contractID.
     bindW (wrapW (Wrapf ''failed to create exercise request: %w'')
              (exerciseRequest K t contractID ''GetMinDelay'' (ChoiceGetMinDelay (cti_submittingParty t)))) (\<lambda>req.
     bindW (exercise_result K ''GetMinDelay: %w'' ''GetMinDelay: no events in transaction''
              ''GetMinDelay: first event is not exercise'' req) (\<lambda>v w.
       (rel_time_seconds v, w)))) w"

section \<open>Timelock executor\<close>

text \<open>The executor embeds an inspector with the same parties.\<close>

record canton_timelock_executor =
  cte_Inspector :: canton_timelock_inspector
  cte_submittingParty :: string
  cte_mcmsParties :: "string list"

definition canton_NewTimelockExecutor :: "string \<Rightarrow> string list \<Rightarrow> canton_timelock_executor" where
  "canton_NewTimelockExecutor submittingParty mcmsParties =
     \<lparr>cte_Inspector = \<lparr>cti_submittingParty = submittingParty, cti_mcmsParties = mcmsParties\<rparr>,
      cte_submittingParty = submittingParty, cte_mcmsParties = mcmsParties\<rparr>"

text \<open>The loop over the transactions: the calls and the contract of every target that names one.\<close>

fun execute_batch_loop ::
  "'s canton_pkg_scheme \<Rightarrow> 'w canton_client \<Rightarrow> string list \<Rightarrow> 'w \<Rightarrow> transaction list \<Rightarrow> (string, string) gomap \<Rightarrow>
     (canton_call list \<times> (string, string) gomap) res" where
  "execute_batch_loop S K parties w [] m = Inr ([], m)"
| "execute_batch_loop S K parties w (tx # txs) m =
     bindE (wrapE (Wrapf ''unmarshal transaction additional fields: %w'')
              (CantonFieldsUnmarshal S (tx_AdditionalFields tx))) (\<lambda>af.
     bindE (if cnf_TargetInstanceAddress af = [] then Inr m
            else if cnf_TargetCid af \<noteq> [] then Inr (gm_put (cnf_TargetInstanceAddress af) (cnf_TargetCid af) m)
            else if cnf_TargetTemplateID af \<noteq> [] then
              bindE (wrapE (Wrapf ''resolve target contract ID for %s: %w'')
                       (ResolveTargetContractID K w parties (cnf_TargetInstanceAddress af) (cnf_TargetTemplateID af)))
                (\<lambda>resolved. Inr (gm_put (cnf_TargetInstanceAddress af) resolved m))
            else Inr m) (\<lambda>m.
     bindE (execute_batch_loop S K parties w txs m) (\<lambda>(calls, m).
       Inr (\<lparr>cc_TargetInstanceAddress = cnf_TargetInstanceAddress af, cc_FunctionName = cnf_FunctionName af,
             cc_OperationData = operationDataHex (tx_Data tx)\<rparr> # calls, m))))"

definition canton_execute_batch_choice ::
  "'c crypto_pkg_scheme \<Rightarrow> 's canton_pkg_scheme \<Rightarrow> 'w canton_client \<Rightarrow> canton_timelock_executor \<Rightarrow> batch_operation \<Rightarrow>
     hash \<Rightarrow> hash \<Rightarrow> 'w \<Rightarrow> canton_choice res" where
  "canton_execute_batch_choice C S K t bop predecessor salt w =
     (if bop_Transactions bop = [] then Inl (Errorf ''batch operation has no transactions'')
      else
        bindE (execute_batch_loop S K (cte_mcmsParties t) w (bop_Transactions bop) []) (\<lambda>(calls, instanceToContractID).
        let predecessorHex = hex_encode (be_bytes 32 predecessor); saltHex = hex_encode (be_bytes 32 salt) in
        bindE (hashTimelockOpID C calls predecessorHex saltHex) (\<lambda>opIDStr.
        bindE (foldE (\<lambda>m (instanceAddr, cid).
                  bindE (wrapE (Wrapf ''resolve contract ID %q: %w'')
                           (ResolveContractIDIfInstanceAddress K w (cte_mcmsParties t) cid)) (\<lambda>resolved.
                    Inr (gm_put instanceAddr resolved m)))
                 [] instanceToContractID) (\<lambda>targetCidsMap.
          Inr (ChoiceExecuteScheduledBatch (cte_submittingParty t) opIDStr calls predecessorHex saltHex targetCidsMap)))))"

definition canton_timelock_Execute ::
  "'c crypto_pkg_scheme \<Rightarrow> 's canton_pkg_scheme \<Rightarrow> 'w canton_client \<Rightarrow> canton_timelock_executor \<Rightarrow> batch_operation \<Rightarrow>
     string \<Rightarrow> hash \<Rightarrow> hash \<Rightarrow> 'w \<Rightarrow> canton_raw transaction_result res \<times> 'w" where
  "canton_timelock_Execute C S K t bop timelockAddress predecessor salt w =
     run_after (wrapE (Wrapf ''resolve MCMS contract ID: %w'')
                  (ResolveMCMSContractID K w (cte_mcmsParties t) timelockAddress)) (\<lambda>contractID.
     run_after (canton_execute_batch_choice C S K t bop predecessor salt w) (\<lambda>input.
     run_after (mcms_template K) (\<lambda>tid w.
       case kc_NewUUID K w of (commandID, w) \<Rightarrow>
       submit_mcms K ''submit ExecuteScheduledBatch: %w''
         ''ExecuteScheduledBatch tx had no Created MCMS event; refusing to continue with old CID=%s''
         \<lparr>crq_WorkflowId = [], crq_CommandId = commandID, crq_ActAs = [cte_submittingParty t],
          crq_ReadAs = cte_mcmsParties t, crq_TemplateId = tid, crq_ContractId = contractID,
          crq_Choice = ''ExecuteScheduledBatch'', crq_Argument = input, crq_EffectsFor = None\<rparr> w))) w"

end
