(* ===== verification/CantonExecution.thy ===== *)
theory CantonExecution
  imports CantonClient SuiExecution
begin

text \<open>
  What the Canton clients achieve on the ledger: the choices they exercise, on which contract, and
  what a contract that hashes as \<open>Crypto.daml\<close> does makes of their arguments.
\<close>

section \<open>Finding a contract\<close>

definition active_contracts :: "canton_entry list \<Rightarrow> canton_contract list" where
  "active_contracts entries = concat (map (\<lambda>x. case x of ActiveContract c \<Rightarrow> [c] | OtherEntry \<Rightarrow> []) entries)"

text \<open>The candidates for an address, and the contract that is kept of them.\<close>

definition latest_of :: "canton_contract list \<Rightarrow> canton_contract option \<Rightarrow> bool" where
  "latest_of cs r \<longleftrightarrow>
     (case r of None \<Rightarrow> cs = [] | Some c \<Rightarrow> c \<in> set cs \<and> (\<forall>c' \<in> set cs. cac_Offset c' \<le> cac_Offset c))"

lemma recv_loop_latest:
  "latest_of (case_option [] (\<lambda>c. [c]) o0 @ filter (contract_matches K a) (active_contracts es)) (recv_loop K a o0 es)"
proof (induction K a o0 es rule: recv_loop.induct)
  case (1 K a o0)
  then show ?case by (cases o0) (simp_all add: latest_of_def active_contracts_def)
next
  case (2 K a o0 es)
  then show ?case by (simp add: active_contracts_def)
next
  case (3 K a o0 c es)
  have drop: "latest_of (x # y # cs) r" if "latest_of (y # cs) r" "cac_Offset x \<le> cac_Offset y" for x y cs r
    using that by (fastforce simp: latest_of_def split: option.splits)
  have swap: "latest_of (x # y # cs) r" if "latest_of (y # x # cs) r" for x y cs r
    using that by (auto simp: latest_of_def split: option.splits)
  have split: "active_contracts (ActiveContract c # es) = c # active_contracts es" by (simp add: active_contracts_def)
  show ?case
  proof (cases "contract_matches K a c")
    case False
    with 3 split show ?thesis by simp
  next
    case True
    show ?thesis
    proof (cases o0)
      case None
      with True 3 split show ?thesis by simp
    next
      case (Some x)
      show ?thesis
      proof (cases "cac_Offset c \<le> cac_Offset x")
        case le: True
        with Some True 3 have "latest_of (x # filter (contract_matches K a) (active_contracts es)) (recv_loop K a o0 es)"
          by simp
        with drop [OF _ le] Some True le split swap show ?thesis by simp
      next
        case gt: False
        with Some True 3 have "latest_of (c # filter (contract_matches K a) (active_contracts es)) (recv_loop K a (Some c) es)"
          by simp
        with drop [of c _ _ x] Some True gt split show ?thesis by simp
      qed
    qed
  qed
qed

text \<open>
  The contract that stands for an address at the end of the ledger: of the active contracts of its
  template whose instance id and only signatory give the address, one with the highest offset.
\<close>

definition stands_for :: "'w canton_client \<Rightarrow> 'w \<Rightarrow> string list \<Rightarrow> string \<Rightarrow> hash \<Rightarrow> canton_contract \<Rightarrow> bool" where
  "stands_for K w parties template a c \<longleftrightarrow>
     (case kc_GetLedgerEnd K w of
        Inl _ \<Rightarrow> False
      | Inr offset \<Rightarrow>
          (case ParseTemplateIDFromString template of
             Inl _ \<Rightarrow> False
           | Inr tid \<Rightarrow>
               (case kc_GetActiveContracts K offset (set parties) tid w of
                  Inr (entries, None) \<Rightarrow> latest_of (filter (contract_matches K a) (active_contracts entries)) (Some c)
                | _ \<Rightarrow> False)))"

lemma findActiveContract_stands_for:
  assumes "findActiveContractByInstanceAddress K w parties template a = Inr c"
  shows "stands_for K w parties template a c"
proof -
  from assms obtain offset tid entries where "kc_GetLedgerEnd K w = Inr offset" "ParseTemplateIDFromString template = Inr tid"
    "kc_GetActiveContracts K offset (set parties) tid w = Inr (entries, None)" "recv_loop K a None entries = Some c"
    by (auto simp: findActiveContractByInstanceAddress_def bindE_Inr_iff ext_def split: option.splits sum.splits)
  then show ?thesis using recv_loop_latest [of None K a entries] by (simp add: stands_for_def)
qed

lemma ResolveMCMSContractID_Inr:
  assumes "ResolveMCMSContractID K w parties addr = Inr cid"
  obtains c where "stands_for K w parties (kc_MCMSTemplateID K) (kc_HexToInstanceAddress K addr) c" "cac_ContractId c = cid"
    "addr \<noteq> []"
  using assms findActiveContract_stands_for [of K w parties "kc_MCMSTemplateID K" "kc_HexToInstanceAddress K addr"]
  by (auto simp: ResolveMCMSContractID_def findActiveContractIDByInstanceAddress_def bindE_Inr_iff split: if_splits)

text \<open>
  The same, said of the ledger alone. A contract has an address when its instance id and its only
  signatory give that address; the holders of an address are the contracts of a template that the
  stream of active contracts yields and that have it.
\<close>

definition has_address :: "'w canton_client \<Rightarrow> hash \<Rightarrow> canton_contract \<Rightarrow> bool" where
  "has_address K a c \<longleftrightarrow>
     (\<exists>args ident party. cac_CreateArguments c = Some args \<and> map_of args ''instanceId'' = Some ident \<and> ident \<noteq> [] \<and>
        cac_Signatories c = [party] \<and> kc_InstanceAddress K ident party = a)"

definition names_template :: "string \<Rightarrow> template_id \<Rightarrow> bool" where
  "names_template s tid \<longleftrightarrow>
     (case tid of (pkg, modul, entity) \<Rightarrow>
        prefix ''#'' s \<and> s = pkg @ '':'' @ modul @ '':'' @ entity \<and>
        CHR '':'' \<notin> set pkg \<union> set modul \<union> set entity)"

definition holders :: "'w canton_client \<Rightarrow> 'w \<Rightarrow> string list \<Rightarrow> string \<Rightarrow> hash \<Rightarrow> canton_contract set \<Rightarrow> bool" where
  "holders K w parties template a cs \<longleftrightarrow>
     (\<exists>tid offset entries. names_template template tid \<and> kc_GetLedgerEnd K w = Inr offset \<and>
        kc_GetActiveContracts K offset (set parties) tid w = Inr (entries, None) \<and>
        cs = {c. ActiveContract c \<in> set entries \<and> has_address K a c})"

lemma contract_instance_id_map_of: "contract_instance_id args = (case map_of args ''instanceId'' of None \<Rightarrow> [] | Some t \<Rightarrow> t)"
  by (induction args) (auto simp: contract_instance_id_def)

lemma contract_matches_iff: "contract_matches K a c \<longleftrightarrow> has_address K a c"
  by (auto simp: contract_matches_def has_address_def contract_instance_id_map_of Let_def
      split: option.splits list.splits)

lemma split_on_Cons:
  "split_on d s = p # ps \<Longrightarrow> d \<notin> set p \<and> (case ps of [] \<Rightarrow> s = p | _ \<Rightarrow> \<exists>t. s = p @ d # t \<and> split_on d t = ps)"
proof (induction s arbitrary: p ps)
  case (Cons c s)
  then show ?case
  proof (cases "split_on d s")
    case (Cons q qs)
    with Cons.IH [OF this] Cons.prems show ?thesis by (cases qs) (auto split: if_splits list.splits)
  qed (use length_split_on [of d s] in simp)
qed auto

lemma three_parts: "length (split_on d s) = 3 \<Longrightarrow> \<exists>p m e. split_on d s = [p, m, e]"
  by (auto simp: numeral_3_eq_3 length_Suc_conv)

lemma split_on_three:
  assumes "split_on d s = [p, m, e]"
  shows "s = p @ d # m @ d # e" and "d \<notin> set p" and "d \<notin> set m" and "d \<notin> set e"
proof -
  from split_on_Cons [OF assms] obtain t where t: "d \<notin> set p" "s = p @ d # t" "split_on d t = [m, e]" by auto
  from split_on_Cons [OF t(3)] obtain u where u: "d \<notin> set m" "t = m @ d # u" "split_on d u = [e]" by auto
  from split_on_Cons [OF u(3)] have "d \<notin> set e" "u = e" by simp_all
  with t u show "s = p @ d # m @ d # e" "d \<notin> set p" "d \<notin> set m" "d \<notin> set e" by simp_all
qed

lemma ParseTemplateID_names: "ParseTemplateIDFromString s = Inr tid \<longleftrightarrow> names_template s tid"
proof
  assume a: "ParseTemplateIDFromString s = Inr tid"
  then have pre: "prefix ''#'' s" unfolding ParseTemplateIDFromString_def by (metis Inl_Inr_False)
  with a have len: "length (split_on (CHR '':'') s) = 3" unfolding ParseTemplateIDFromString_def Let_def by (metis Inl_Inr_False)
  then obtain p m e where parts: "split_on (CHR '':'') s = [p, m, e]" using three_parts by blast
  with a pre have "tid = (p, m, e)" by (simp add: ParseTemplateIDFromString_def del: prefix_code)
  with pre split_on_three [OF parts] show "names_template s tid" by (simp add: names_template_def)
next
  assume "names_template s tid"
  then obtain p m e where tid: "tid = (p, m, e)" and pre: "prefix ''#'' s" and s: "s = p @ CHR '':'' # m @ CHR '':'' # e"
    "CHR '':'' \<notin> set p" "CHR '':'' \<notin> set m" "CHR '':'' \<notin> set e"
    by (cases tid) (auto simp: names_template_def)
  have "split_on (CHR '':'') s = [p, m, e]" using s by (simp add: split_on_append split_on_absent)
  with pre tid show "ParseTemplateIDFromString s = Inr tid" by (simp add: ParseTemplateIDFromString_def)
qed

lemma active_contracts_set: "c \<in> set (active_contracts es) \<longleftrightarrow> ActiveContract c \<in> set es"
  by (induction es) (auto simp: active_contracts_def split: canton_entry.splits)

lemma stands_for_holders:
  assumes "stands_for K w parties template a c"
  obtains cs where "holders K w parties template a cs" "c \<in> cs"
  using assms that
  by (fastforce simp: stands_for_def holders_def latest_of_def contract_matches_iff active_contracts_set ParseTemplateID_names [symmetric]
      split: sum.splits option.splits prod.splits)

text \<open>The ledger has at most one contract under the address; several are what the resolver's comment calls an error.\<close>

definition at_most_one_holder :: "'w canton_client \<Rightarrow> 'w \<Rightarrow> string list \<Rightarrow> string \<Rightarrow> hash \<Rightarrow> bool" where
  "at_most_one_holder K w parties template a \<longleftrightarrow>
     (\<forall>cs c c'. holders K w parties template a cs \<longrightarrow> c \<in> cs \<longrightarrow> c' \<in> cs \<longrightarrow> c = c')"

lemma stands_for_sole:
  assumes "stands_for K w parties template a c" and "at_most_one_holder K w parties template a"
  shows "holders K w parties template a {c}"
proof -
  from assms(1) obtain cs where cs: "holders K w parties template a cs" "c \<in> cs" by (rule stands_for_holders)
  with assms(2) have "cs = {c}" unfolding at_most_one_holder_def by blast
  with cs show ?thesis by simp
qed

lemma findActiveContract_sole:
  assumes "holders K w parties template a {c}"
  shows "findActiveContractByInstanceAddress K w parties template a = Inr c"
proof -
  from assms obtain tid offset entries where e: "ParseTemplateIDFromString template = Inr tid" "kc_GetLedgerEnd K w = Inr offset"
    "kc_GetActiveContracts K offset (set parties) tid w = Inr (entries, None)"
    "{c} = {c. ActiveContract c \<in> set entries \<and> has_address K a c}"
    by (auto simp: holders_def ParseTemplateID_names)
  then have "set (filter (contract_matches K a) (active_contracts entries)) = {c}"
    by (auto simp: contract_matches_iff active_contracts_set)
  with recv_loop_latest [of None K a entries] have "recv_loop K a None entries = Some c"
    by (cases "recv_loop K a None entries") (auto simp: latest_of_def)
  with e show ?thesis by (simp add: findActiveContractByInstanceAddress_def ext_def)
qed

section \<open>Submitting\<close>

definition mcms_created :: "canton_event list \<Rightarrow> string \<Rightarrow> bool" where
  "mcms_created evs cid \<longleftrightarrow> (\<exists>tid. Created tid cid \<in> set evs \<and> NormalizeTemplateKey (FormatTemplateID tid) = ''MCMS.Main:MCMS'')"

lemma created_mcms_Some: "created_mcms evs = (cid, t) \<Longrightarrow> cid \<noteq> [] \<Longrightarrow> mcms_created evs cid"
  by (induction evs rule: created_mcms.induct) (auto simp: mcms_created_def split: if_splits)

lemma submit_mcms_Inr:
  assumes "submit_mcms K failed none req w = (Inr r, w')"
  obtains tx new where "kc_SubmitAndWait K req w = (Inr tx, w')" "tr_Hash r = transactionResultHash tx (crq_CommandId req)"
    "mcms_created (tx_events tx) (craw_NewMCMSContractID new)" "tr_RawData r = Some new" "craw_RawTx new = tx"
proof -
  obtain x w1 where x: "kc_SubmitAndWait K req w = (x, w1)" by fastforce
  obtain cid t where c: "created_mcms (tx_events (projr x)) = (cid, t)" by fastforce
  from assms x c have "x = Inr (projr x)" "w1 = w'" "cid \<noteq> []" and
    r: "r = \<lparr>tr_Hash = transactionResultHash (projr x) (crq_CommandId req), tr_ChainFamily = Some FamilyCanton,
      tr_RawData = Some \<lparr>craw_NewMCMSContractID = cid, craw_NewMCMSTemplateID = t, craw_RawTx = projr x\<rparr>\<rparr>"
    by (cases x; auto simp: submit_mcms_def ext_def split: if_splits)+
  with x created_mcms_Some [OF c] show thesis by (intro that [of "projr x"]) (auto simp: r)
qed

section \<open>The checks of the contract\<close>

lemma decoded_proof [simp]: "mapE decode_op_id (hex_proof pf) = Inr pf"
  by (induction pf) (simp_all add: hex_proof_def)

definition canton_op_check :: "'c crypto_pkg_scheme \<Rightarrow> hash \<Rightarrow> canton_op \<Rightarrow> string list \<Rightarrow> bool" where
  "canton_op_check C newRoot op pf \<longleftrightarrow>
     (case (hex_DecodeString (cop_OperationData op), mapE decode_op_id pf) of
        (Inr data, Inr siblings) \<Rightarrow>
          foldl (hashPair (Keccak256Hash C))
            (Keccak256Hash C (canton_leaf_bytes (canton_separators C)
               (CantonOpLeaf (cop_ChainId op) (cop_MultisigId op) (ucast (cop_Nonce op)) (cop_TargetInstanceAddress op)
                  (cop_FunctionName op) data))) siblings = newRoot
      | _ \<Rightarrow> False)"

definition canton_metadata_check :: "'c crypto_pkg_scheme \<Rightarrow> hash \<Rightarrow> canton_root_metadata \<Rightarrow> string list \<Rightarrow> bool" where
  "canton_metadata_check C newRoot m pf \<longleftrightarrow>
     (case mapE decode_op_id pf of
        Inr siblings \<Rightarrow>
          foldl (hashPair (Keccak256Hash C))
            (Keccak256Hash C (canton_leaf_bytes (canton_separators C)
               (CantonMetadataLeaf (crm_ChainId m) (crm_MultisigId m) (word_of_int (crm_PreOpCount m))
                  (word_of_int (crm_PostOpCount m)) (crm_OverridePreviousRoot m)))) siblings = newRoot
      | _ \<Rightarrow> False)"

section \<open>Executing an operation\<close>

lemma canton_ExecuteOperation_Inr:
  assumes "canton_ExecuteOperation S K e md n pf op w = (Inr r, w')"
  obtains f0 c input req w1 where
    "CantonFieldsUnmarshal S (tx_AdditionalFields (op_Transaction op)) = Inr f0 \<or> \<not> raw_nonempty (tx_AdditionalFields (op_Transaction op)) \<and> f0 = no_canton_fields"
    "stands_for K w (cex_mcmsParties e) (kc_MCMSTemplateID K) (kc_HexToInstanceAddress K (cm_MCMAddress md)) c"
    "canton_execute_choice S K e md n pf op f0 w = Inr input"
    "crq_ContractId req = cac_ContractId c" "crq_Argument req = input" "crq_ActAs req = [cex_submittingParty e]"
    "crq_ReadAs req = cex_mcmsParties e" "crq_Choice req = snd (kc_ExerciseCommand K (cac_ContractId c) input)"
    "submit_mcms K ''failed to execute operation: %w''
       ''execute-op tx had no Created MCMS event; refusing to continue with old CID=%s'' req w1 = (Inr r, w')"
proof -
  obtain commandID w1 where u: "kc_NewUUID K w = (commandID, w1)" by fastforce
  from assms u obtain f0 cid input tid where
    f0: "(if raw_nonempty (tx_AdditionalFields (op_Transaction op))
          then wrapE (Wrapf ''failed to unmarshal operation additional fields: %w'')
                 (CantonFieldsUnmarshal S (tx_AdditionalFields (op_Transaction op)))
          else Inr no_canton_fields) = Inr f0" and
    cid: "ResolveMCMSContractID K w (cex_mcmsParties e) (cm_MCMAddress md) = Inr cid" and
    i: "canton_execute_choice S K e md n pf op f0 w = Inr input" and
    s: "submit_mcms K ''failed to execute operation: %w''
       ''execute-op tx had no Created MCMS event; refusing to continue with old CID=%s''
       (canton_request_of e ''mcms-execute-op'' commandID tid cid (snd (kc_ExerciseCommand K cid input)) input) w1 = (Inr r, w')"
    unfolding canton_ExecuteOperation_def run_after_Inr_iff by auto
  from cid obtain c where c: "stands_for K w (cex_mcmsParties e) (kc_MCMSTemplateID K) (kc_HexToInstanceAddress K (cm_MCMAddress md)) c"
    "cac_ContractId c = cid" by (rule ResolveMCMSContractID_Inr)
  from f0 have "CantonFieldsUnmarshal S (tx_AdditionalFields (op_Transaction op)) = Inr f0 \<or>
      \<not> raw_nonempty (tx_AdditionalFields (op_Transaction op)) \<and> f0 = no_canton_fields" by (auto split: if_splits)
  from that [OF this c(1) i _ _ _ _ _ s] c(2) show thesis by (simp add: canton_request_of_def)
qed

lemma resolve_target_fields:
  "resolve_target K w parties f = Inr g \<Longrightarrow>
     cnf_TargetInstanceAddress g = cnf_TargetInstanceAddress f \<and> cnf_FunctionName g = cnf_FunctionName f"
  by (auto simp: resolve_target_def bindE_Inr_iff split: if_splits)

lemma canton_execute_choice_check:
  assumes "canton_lengths S" and "go_length (tx_Data (op_Transaction op))"
    and h: "canton_HashOperation C S enc n md op = Inr h" and root: "foldl (hashPair (Keccak256Hash C)) h pf = newRoot"
    and f0: "CantonFieldsUnmarshal S (tx_AdditionalFields (op_Transaction op)) = Inr f0 \<or> f0 = no_canton_fields"
    and input: "canton_execute_choice S K e md n pf op f0 w = Inr input"
  obtains bindOp targets m where
    "input = ChoiceExecuteOp (canton_role_String (cex_role e)) (cex_submittingParty e) bindOp (hex_proof pf) targets"
    "uint (cop_Nonce bindOp) = uint n" "canton_op_check C newRoot bindOp (hex_proof pf)"
    "canton_ToRootMetadata S md = Inr m" "cop_ChainId bindOp = cnm_ChainId m" "cop_MultisigId bindOp = cnm_MultisigId m"
    "CantonFieldsUnmarshal S (tx_AdditionalFields (op_Transaction op)) = Inr f0"
    "cop_TargetInstanceAddress bindOp = cnf_TargetInstanceAddress f0" "cop_FunctionName bindOp = cnf_FunctionName f0"
    "cop_OperationData bindOp = hex_encode (tx_Data (op_Transaction op))"
proof -
  from canton_leaf_hash_Inr [OF assms(1), of "Some (n, op)" C enc md h] h assms(2) obtain m f where
    m: "canton_ToRootMetadata S md = Inr m" and
    f: "CantonFieldsUnmarshal S (tx_AdditionalFields (op_Transaction op)) = Inr f" "canton_fields_Validate f = Inr ()" and
    h': "h = Keccak256Hash C (canton_leaf_bytes (canton_separators C) (CantonOpLeaf (cnm_ChainId m) (cnm_MultisigId m) n
      (cnf_TargetInstanceAddress f) (cnf_FunctionName f) (tx_Data (op_Transaction op))))"
    by (auto simp: bindE_Inr_iff)
  from input obtain g targets where g: "resolve_target K w (cex_mcmsParties e) f0 = Inr g" and
    i: "input = ChoiceExecuteOp (canton_role_String (cex_role e)) (cex_submittingParty e)
      \<lparr>cop_ChainId = cnm_ChainId m, cop_MultisigId = cnm_MultisigId m, cop_Nonce = ucast n,
       cop_TargetInstanceAddress = cnf_TargetInstanceAddress g, cop_FunctionName = cnf_FunctionName g,
       cop_OperationData = operationDataHex (tx_Data (op_Transaction op))\<rparr> (hex_proof pf) targets"
    by (auto simp: canton_execute_choice_def m bindE_Inr_iff)
  from g have "cnf_TargetInstanceAddress f0 \<noteq> []" by (auto simp: resolve_target_def split: if_splits)
  with f0 f have f0: "f0 = f" by (auto simp: no_canton_fields_def)
  note gf = resolve_target_fields [OF g]
  have n: "uint (ucast n :: i64) = uint n" "ucast (ucast n :: i64) = n"
    by (simp_all add: uint_up_ucast is_up ucast_up_ucast_id)
  show thesis
    by (rule that [OF i]) (use n gf f0 f m root h' in \<open>simp_all add: canton_op_check_def operationDataHex_def\<close>)
qed

section \<open>Setting a root\<close>

text \<open>The signatures that are sent: public keys that recover from the hash, and the two numbers.\<close>

definition canton_keys_of :: "'g geth_pkg_scheme \<Rightarrow> 'w canton_client \<Rightarrow> hash \<Rightarrow> signature list \<Rightarrow> byte list list \<Rightarrow> canton_signature list \<Rightarrow> bool" where
  "canton_keys_of G K h sigs pks sent \<longleftrightarrow>
     mapE (\<lambda>s. RecoverPublicKey G s h) sigs = Inr pks \<and>
     sent = map2 (\<lambda>s pk. \<lparr>csg_PublicKey = hex_encode (kc_FromECDSAPub K pk), csg_R = hex_encode (be_bytes 32 (sig_R s)),
                           csg_S = hex_encode (be_bytes 32 (sig_S s))\<rparr>) sigs pks"

lemma canton_signatures_keys:
  "mapE (canton_signature_of G K h) sigs = Inr sent \<Longrightarrow> \<exists>pks. canton_keys_of G K h sigs pks sent"
proof (induction sigs arbitrary: sent)
  case (Cons s sigs)
  then obtain c rest where "canton_signature_of G K h s = Inr c" "mapE (canton_signature_of G K h) sigs = Inr rest" "sent = c # rest"
    by (auto simp: bindE_Inr_iff)
  moreover from this(2) Cons.IH obtain pks where "canton_keys_of G K h sigs pks rest" by blast
  moreover from calculation(1) obtain pk where "RecoverPublicKey G s h = Inr pk"
    "c = \<lparr>csg_PublicKey = hex_encode (kc_FromECDSAPub K pk), csg_R = hex_encode (be_bytes 32 (sig_R s)),
          csg_S = hex_encode (be_bytes 32 (sig_S s))\<rparr>"
    by (auto simp: canton_signature_of_def bindE_Inr_iff)
  ultimately show ?case by (intro exI [of _ "pk # pks"]) (simp add: canton_keys_of_def)
qed (simp add: canton_keys_of_def)

text \<open>The address that a signature is sorted by is the address of its public key.\<close>

lemma canton_keys_signers:
  "canton_keys_of G K h sigs pks sent \<Longrightarrow> map (PubkeyToAddress G) pks = map (sort_signer G h) sigs"
  unfolding canton_keys_of_def
proof (induction sigs arbitrary: pks sent)
  case (Cons s sigs)
  then show ?case by (auto simp: bindE_Inr_iff sort_signer_def Recover_def)
qed simp

text \<open>What is recovered against is the very hash that was signed.\<close>

lemma canton_signed_hash_SigningHash:
  assumes "MerkleTree E p = Inr t"
  shows "canton_signed_hash E (mt_Root t) (bp_ValidUntil p) = Inr h \<longleftrightarrow> SigningHash E p = Inr h"
  using assms by (auto simp: canton_signed_hash_def SigningHash_def SigningMessage_def toEthSignedMessageHash_def bindE_Inr_iff)

lemma canton_SetRoot_Inr:
  assumes "canton_SetRoot G S K e md pf newRoot v sigs w = (Inr r, w')"
  obtains c input req w1 where
    "stands_for K w (cex_mcmsParties e) (kc_MCMSTemplateID K) (kc_HexToInstanceAddress K (cm_MCMAddress md)) c"
    "canton_set_root_choice G S K e md pf newRoot v sigs = Inr input"
    "crq_ContractId req = cac_ContractId c" "crq_Argument req = input" "crq_ActAs req = [cex_submittingParty e]"
    "submit_mcms K ''failed to set root: %w''
       ''set-root tx had no Created MCMS event; refusing to continue with old CID=%s'' req w1 = (Inr r, w')"
proof -
  obtain commandID w1 where u: "kc_NewUUID K w = (commandID, w1)" by fastforce
  from assms u obtain cid input tid where
    cid: "ResolveMCMSContractID K w (cex_mcmsParties e) (cm_MCMAddress md) = Inr cid" and
    i: "canton_set_root_choice G S K e md pf newRoot v sigs = Inr input" and
    s: "submit_mcms K ''failed to set root: %w''
       ''set-root tx had no Created MCMS event; refusing to continue with old CID=%s''
       (canton_request_of e ''mcms-set-root'' commandID tid cid (snd (kc_ExerciseCommand K cid input)) input) w1 = (Inr r, w')"
    unfolding canton_SetRoot_def run_after_Inr_iff by auto
  from cid obtain c where c: "stands_for K w (cex_mcmsParties e) (kc_MCMSTemplateID K) (kc_HexToInstanceAddress K (cm_MCMAddress md)) c"
    "cac_ContractId c = cid" by (rule ResolveMCMSContractID_Inr)
  from that [OF c(1) i _ _ _ s] c(2) show thesis by (simp add: canton_request_of_def)
qed

text \<open>
  The range of op counts: the sum of the start and of the number of operations wraps around at
  \<open>2^64\<close>, but not when both fit the signed integers of the ledger.
\<close>

lemma op_count_range:
  assumes "casts_documented X" and "Uint64ToInt64 X pre = Inr i" and "Uint64ToInt64 X (pre + word_of_nat k) = Inr j"
    and "k < 2 ^ 63"
  shows "i = uint pre" and "j = uint pre + int k"
proof -
  from assms(2) have i: "uint pre < 2 ^ 63" "i = uint pre" by (simp_all add: Uint64ToInt64_Inr [OF assms(1)])
  then show "i = uint pre" by simp
  have "unat (word_of_nat k :: u64) = k" using assms(4) by (simp add: unsigned_of_nat take_bit_nat_eq_self)
  then have "uint (word_of_nat k :: u64) = int k" by (metis uint_nat)
  then have "uint (pre + word_of_nat k) = uint pre + int k"
    using i(1) assms(4) by (subst uint_add_lem [THEN iffD1]) simp_all
  then show "j = uint pre + int k" using assms(3) by (simp add: Uint64ToInt64_Inr [OF assms(1)])
qed

lemma canton_set_root_choice_check:
  assumes "canton_lengths S" and "casts_documented G" and "cne_TxCount (cex_Encoder e) = word_of_nat k" and "k < 2 ^ 63"
    and h: "canton_HashMetadata C S (cex_Encoder e) md = Inr h" and root: "foldl (hashPair (Keccak256Hash C)) h pf = newRoot"
    and hash: "canton_signed_hash G newRoot v = Inr hash"
    and input: "canton_set_root_choice G S K e md pf newRoot v sigs = Inr input"
  obtains meta sent pks where
    "input = ChoiceSetRoot (canton_role_String (cex_role e)) (cex_submittingParty e) (hex_encode (be_bytes 32 newRoot)) (uint v)
       meta (hex_proof pf) sent"
    "canton_metadata_check C newRoot meta (hex_proof pf)" "crm_PreOpCount meta = uint (cm_StartingOpCount md)"
    "crm_PostOpCount meta = uint (cm_StartingOpCount md) + int k" "canton_keys_of G K hash sigs pks sent"
proof -
  from canton_leaf_hash_Inr [OF assms(1), of None C "cex_Encoder e" md h] h obtain m where
    m: "canton_ToRootMetadata S md = Inr m" and
    h': "h = Keccak256Hash C (canton_leaf_bytes (canton_separators C) (CantonMetadataLeaf (cnm_ChainId m) (cnm_MultisigId m)
      (cm_StartingOpCount md) (cm_StartingOpCount md + cne_TxCount (cex_Encoder e)) (cne_OverridePreviousRoot (cex_Encoder e))))"
    by (auto simp: bindE_Inr_iff)
  from input hash obtain sent i j where sent: "mapE (canton_signature_of G K hash) sigs = Inr sent" and
    i: "Uint64ToInt64 G (cm_StartingOpCount md) = Inr i" and
    j: "Uint64ToInt64 G (cm_StartingOpCount md + cne_TxCount (cex_Encoder e)) = Inr j" and
    input: "input = ChoiceSetRoot (canton_role_String (cex_role e)) (cex_submittingParty e) (hex_encode (be_bytes 32 newRoot))
      (uint v) \<lparr>crm_ChainId = cnm_ChainId m, crm_MultisigId = cnm_MultisigId m, crm_PreOpCount = i, crm_PostOpCount = j,
        crm_OverridePreviousRoot = cne_OverridePreviousRoot (cex_Encoder e)\<rparr> (hex_proof pf) sent"
    by (auto simp: canton_set_root_choice_def m bindE_Inr_iff)
  from canton_signatures_keys [OF sent] obtain pks where pks: "canton_keys_of G K hash sigs pks sent" by blast
  note range = op_count_range [OF assms(2) i j [unfolded assms(3)] assms(4)]
  from j have j': "j = uint (cm_StartingOpCount md + cne_TxCount (cex_Encoder e))" by (simp add: Uint64ToInt64_Inr [OF assms(2)])
  have "canton_metadata_check C newRoot \<lparr>crm_ChainId = cnm_ChainId m, crm_MultisigId = cnm_MultisigId m, crm_PreOpCount = i,
      crm_PostOpCount = j, crm_OverridePreviousRoot = cne_OverridePreviousRoot (cex_Encoder e)\<rparr> (hex_proof pf)"
    using root h' by (simp add: canton_metadata_check_def range(1) j')
  from that [OF input this _ _ pks] range show thesis by simp
qed

section \<open>Executing a scheduled batch\<close>

text \<open>Every transaction names its target in its fields, or at least gives no other one in \<open>To\<close>.\<close>

definition targets_named :: "'s canton_pkg_scheme \<Rightarrow> batch_operation \<Rightarrow> bool" where
  "targets_named S b \<longleftrightarrow>
     list_all (\<lambda>tx. raw_nonempty (tx_AdditionalFields tx) \<and>
       (case CantonFieldsUnmarshal S (tx_AdditionalFields tx) of
          Inl _ \<Rightarrow> True
        | Inr af \<Rightarrow> cnf_TargetInstanceAddress af \<noteq> [] \<or> tx_To tx = [])) (bop_Transactions b)"

lemma execute_batch_loop_calls:
  assumes "execute_batch_loop S K parties w txs m = Inr (calls, m')"
    and "list_all (\<lambda>tx. raw_nonempty (tx_AdditionalFields tx) \<and>
       (case CantonFieldsUnmarshal S (tx_AdditionalFields tx) of
          Inl _ \<Rightarrow> True
        | Inr af \<Rightarrow> cnf_TargetInstanceAddress af \<noteq> [] \<or> tx_To tx = [])) txs"
  shows "\<exists>xs. mapE (canton_batch_call S) txs = Inr xs \<and> calls = map fst xs"
  using assms
proof (induction txs arbitrary: m calls)
  case (Cons tx txs)
  from Cons.prems(1) obtain af m1 rest where af: "CantonFieldsUnmarshal S (tx_AdditionalFields tx) = Inr af" and
    l: "execute_batch_loop S K parties w txs m1 = Inr (rest, m')" and
    calls: "calls = \<lparr>cc_TargetInstanceAddress = cnf_TargetInstanceAddress af, cc_FunctionName = cnf_FunctionName af,
      cc_OperationData = operationDataHex (tx_Data tx)\<rparr> # rest"
    by (auto simp: bindE_Inr_iff)
  from Cons.IH [OF l] Cons.prems(2) obtain xs where xs: "mapE (canton_batch_call S) txs = Inr xs" "rest = map fst xs" by auto
  have "canton_batch_call S tx = Inr (hd calls, cnf_ContractIds af)"
    using Cons.prems(2) by (auto simp: canton_batch_call_def af calls Let_def)
  with xs show ?case by (simp add: calls)
qed simp

lemma canton_execute_batch_choice_Inr:
  assumes "canton_execute_batch_choice C S K t b p salt w = Inr input" and "targets_named S b"
  obtains calls ids ident targets where "buildCallsFromBatch S b = Inr (calls, ids)"
    "hashTimelockOpID C calls (hex_encode (be_bytes 32 p)) (hex_encode (be_bytes 32 salt)) = Inr ident"
    "input = ChoiceExecuteScheduledBatch (cte_submittingParty t) ident calls (hex_encode (be_bytes 32 p))
       (hex_encode (be_bytes 32 salt)) targets" "bop_Transactions b \<noteq> []"
proof -
  from assms(1) obtain calls m ident targets where
    l: "execute_batch_loop S K (cte_mcmsParties t) w (bop_Transactions b) [] = Inr (calls, m)" and
    i: "hashTimelockOpID C calls (hex_encode (be_bytes 32 p)) (hex_encode (be_bytes 32 salt)) = Inr ident"
    "input = ChoiceExecuteScheduledBatch (cte_submittingParty t) ident calls (hex_encode (be_bytes 32 p))
       (hex_encode (be_bytes 32 salt)) targets" "bop_Transactions b \<noteq> []"
    by (auto simp: canton_execute_batch_choice_def Let_def bindE_Inr_iff split: if_splits)
  from execute_batch_loop_calls [OF l] assms(2) obtain xs where "mapE (canton_batch_call S) (bop_Transactions b) = Inr xs"
    "calls = map fst xs" by (auto simp: targets_named_def)
  then have "buildCallsFromBatch S b = Inr (calls, concat (map snd xs))" by (simp add: buildCallsFromBatch_def)
  from that [OF this i] show thesis .
qed

lemma canton_timelock_Execute_Inr:
  assumes "canton_timelock_Execute C S K t b addr p salt w = (Inr r, w')"
  obtains c input req w1 where
    "stands_for K w (cte_mcmsParties t) (kc_MCMSTemplateID K) (kc_HexToInstanceAddress K addr) c"
    "canton_execute_batch_choice C S K t b p salt w = Inr input"
    "crq_ContractId req = cac_ContractId c" "crq_Argument req = input" "crq_Choice req = ''ExecuteScheduledBatch''"
    "submit_mcms K ''submit ExecuteScheduledBatch: %w''
         ''ExecuteScheduledBatch tx had no Created MCMS event; refusing to continue with old CID=%s'' req w1 = (Inr r, w')"
proof -
  obtain commandID w1 where u: "kc_NewUUID K w = (commandID, w1)" by fastforce
  from assms u obtain cid input tid where
    cid: "ResolveMCMSContractID K w (cte_mcmsParties t) addr = Inr cid" and
    i: "canton_execute_batch_choice C S K t b p salt w = Inr input" and
    s: "submit_mcms K ''submit ExecuteScheduledBatch: %w''
         ''ExecuteScheduledBatch tx had no Created MCMS event; refusing to continue with old CID=%s''
         \<lparr>crq_WorkflowId = [], crq_CommandId = commandID, crq_ActAs = [cte_submittingParty t],
          crq_ReadAs = cte_mcmsParties t, crq_TemplateId = tid, crq_ContractId = cid,
          crq_Choice = ''ExecuteScheduledBatch'', crq_Argument = input, crq_EffectsFor = None\<rparr> w1 = (Inr r, w')"
    unfolding canton_timelock_Execute_def run_after_Inr_iff by auto
  from cid obtain c where c: "stands_for K w (cte_mcmsParties t) (kc_MCMSTemplateID K) (kc_HexToInstanceAddress K addr) c"
    "cac_ContractId c = cid" by (rule ResolveMCMSContractID_Inr)
  from that [OF c(1) i _ _ _ s] c(2) show thesis by simp
qed

lemma canton_schedule_InrE:
  assumes "cantonConvert C S md b tlAddr mcm delay TimelockActionSchedule pred salt = Inr (ops, opid)"
  obtains op ma calls ids f d where "ops = [op]" "cantonOperationID C S b TimelockActionSchedule pred salt = Inr opid"
    "buildCallsFromBatch S b = Inr (calls, ids)" "buildTimelockOperation S b mcm ma f d ids = Inr op"
    "scheduleActionData S calls (hex_encode (be_bytes 32 pred)) (hex_encode (be_bytes 32 salt)) delay = Inr (f, d)"
  using assms
proof (cases rule: canton_convert_InrE)
  case (1 op m calls ids f d)
  show thesis by (rule that [OF 1(1,3,5,6)]) (use 1(7) in simp)
qed

section \<open>Configurations\<close>

text \<open>The configuration as the EVM contract has it, written with texts and numbers.\<close>

definition canton_written :: "'g geth_pkg_scheme \<Rightarrow> mcms_config \<Rightarrow> canton_config \<Rightarrow> bool" where
  "canton_written G b c \<longleftrightarrow>
     list_all2 (\<lambda>s s'. csi_SignerGroup s' = uint (sg_Group s) \<and> HexToAddress G (csi_SignerAddress s') = sg_Addr s)
       (mc_Signers b) (ccf_Signers c) \<and>
     ccf_GroupQuorums c = map uint (mc_GroupQuorums b) \<and> ccf_GroupParents c = map uint (mc_GroupParents b)"

lemma canton_add_signers:
  assumes "list_all2 (\<lambda>s s'. csi_SignerGroup s' = uint (sg_Group s) \<and> HexToAddress G (csi_SignerAddress s') = sg_Addr s) ss ss'"
    and "foldE add_to_group acc ss = Inr r" and "length acc = 32"
  shows "foldE (canton_add_signer G) acc ss' = Inr r \<and> length r = 32"
  using assms
proof (induction ss ss' arbitrary: acc rule: list_all2_induct)
  case (Cons s ss s' ss')
  from Cons.prems(1) obtain acc' where a: "add_to_group acc s = Inr acc'" and f: "foldE add_to_group acc' ss = Inr r"
    by (auto simp: bindE_Inr_iff)
  from a Cons.prems(2) have g: "unat (sg_Group s) < 32" "length acc' = 32"
    and acc': "acc' = acc[unat (sg_Group s) := acc ! unat (sg_Group s) @ [sg_Addr s]]"
    by (auto simp: add_to_group_def Let_def split: if_splits)
  from g(1) have "uint (sg_Group s) < 32" by (simp add: uint_nat del: of_nat_unat)
  then have "canton_add_signer G acc s' = Inr acc'"
    using Cons.hyps(1) acc' by (simp add: canton_add_signer_def Let_def maxMCMSGroups_def)
  with Cons.IH [OF f g(2)] show ?case by simp
qed simp

lemma canton_link_group_eq:
  assumes "casts_documented G" and "i < length ps" and "link_group ps groups i = Inr gs"
  shows "canton_link_group G (map uint ps) groups i = Inr gs"
proof -
  have "IntToUint8 G (uint (ps ! i)) = Inr (ps ! i)"
    using uint_bounded [of "ps ! i"] by (simp add: IntToUint8_Inr [OF assms(1)])
  with assms show ?thesis by (auto simp: canton_link_group_def link_group_def Let_def split: if_splits)
qed

lemma canton_link_groups:
  assumes "casts_documented G" and "list_all (\<lambda>i. i < length ps) is" and "foldE (link_group ps) groups is = Inr gs"
  shows "foldE (canton_link_group G (map uint ps)) groups is = Inr gs"
  using assms(2,3)
proof (induction "is" arbitrary: groups)
  case (Cons i "is")
  then show ?case by (auto simp: bindE_Inr_iff dest!: canton_link_group_eq [OF assms(1), rotated])
qed simp

lemma canton_toConfig_written:
  assumes "casts_documented G" and "canton_written G b c" and "mcms_config_wf b" and "evm_ToConfig b = Inr cfg"
  shows "canton_toConfig G c = Inr cfg"
proof -
  from assms(3) have len: "length (mc_GroupQuorums b) = 32" "length (mc_GroupParents b) = 32" by (simp_all add: mcms_config_wf_def)
  from assms(4) obtain by_group gs where g: "foldE add_to_group (replicate 32 []) (mc_Signers b) = Inr by_group" and
    l: "foldE (link_group (mc_GroupParents b)) (map2 (\<lambda>quorum signers. Config quorum signers []) (mc_GroupQuorums b) by_group)
      (rev [0..<32]) = Inr gs" and v: "config_Validate (gs ! 0) = Inr ()" "cfg = gs ! 0"
    by (auto simp: evm_ToConfig_def bindE_Inr_iff len)
  from canton_add_signers [OF _ g] assms(2) have
    g': "foldE (canton_add_signer G) (replicate maxMCMSGroups []) (ccf_Signers c) = Inr by_group" "length by_group = 32"
    by (auto simp: canton_written_def maxMCMSGroups_def)
  have q: "IntToUint8 G (map uint (mc_GroupQuorums b) ! i) = Inr (mc_GroupQuorums b ! i)" if "i \<in> set [0..<32]" for i
    using that len uint_bounded [of "mc_GroupQuorums b ! i"] by (simp add: IntToUint8_Inr [OF assms(1)])
  have "mapE (\<lambda>i. bindE (wrapE (Wrapf ''group quorum for group %d: %w'') (IntToUint8 G (map uint (mc_GroupQuorums b) ! i)))
      (\<lambda>q. Inr (Config q (by_group ! i) []))) [0..<32] =
    Inr (map (\<lambda>i. Config (mc_GroupQuorums b ! i) (by_group ! i) []) [0..<32])"
    by (rule mapE_map_Inr) (simp add: q)
  moreover have "map (\<lambda>i. Config (mc_GroupQuorums b ! i) (by_group ! i) []) [0..<32] =
      map2 (\<lambda>quorum signers. Config quorum signers []) (mc_GroupQuorums b) by_group"
    by (rule nth_equalityI) (simp_all add: len g'(2))
  moreover have "foldE (canton_link_group G (map uint (mc_GroupParents b)))
      (map2 (\<lambda>quorum signers. Config quorum signers []) (mc_GroupQuorums b) by_group) (rev [0..<32]) = Inr gs"
    by (rule canton_link_groups [OF assms(1) _ l]) (simp add: len list_all_iff)
  ultimately show ?thesis
    using assms(2) g' v by (simp add: canton_toConfig_def canton_written_def len maxMCMSGroups_def Let_def)
qed

text \<open>The choice that sets a configuration writes it.\<close>

definition canton_address_text :: "'g geth_pkg_scheme \<Rightarrow> address \<Rightarrow> string" where
  "canton_address_text G a = TrimPrefix0x (to_lower (AddressHex G a))"

lemma canton_bind_signers:
  assumes "\<And>a. HexToAddress G (canton_address_text G a) = a"
  shows "list_all2 (\<lambda>s s'. csi_SignerGroup s' = uint (sg_Group s) \<and> HexToAddress G (csi_SignerAddress s') = sg_Addr s)
    (bind_signers idx as gs)
    (map (\<lambda>(i, addr, g). \<lparr>csi_SignerAddress = TrimPrefix0x (to_lower (AddressHex G addr)), csi_SignerIndex = int i,
                           csi_SignerGroup = uint g\<rparr>) (enumerate k (zip as gs)))"
proof (induction idx as gs arbitrary: k rule: bind_signers.induct)
  case (1 idx a as g gs)
  from 1 [of "Suc k"] assms [of a] show ?case by (simp add: canton_address_text_def)
qed simp_all

lemma canton_set_config_choice_written:
  assumes "\<And>a. HexToAddress G (canton_address_text G a) = a" and "evm_ToChainConfig G cfg = Inr b"
    and "canton_set_config_choice G role cfg clearRoot = Inr input"
  obtains ss qs ps where "input = ChoiceSetConfig (canton_role_String role) ss qs ps clearRoot"
    "canton_written G b \<lparr>ccf_Signers = ss, ccf_GroupQuorums = qs, ccf_GroupParents = ps\<rparr>"
proof -
  from assms(2) obtain qs ps as gs where e: "ExtractSetConfigInputs G cfg = Inr (qs, ps, as, gs)"
    and b: "b = \<lparr>mc_Signers = bind_signers 0 as gs, mc_GroupQuorums = qs, mc_GroupParents = ps\<rparr>"
    by (auto simp: evm_ToChainConfig_def bindE_Inr_iff split: if_splits)
  from assms(3) e have "input = ChoiceSetConfig (canton_role_String role)
      (map (\<lambda>(i, addr, g). \<lparr>csi_SignerAddress = TrimPrefix0x (to_lower (AddressHex G addr)), csi_SignerIndex = int i,
                             csi_SignerGroup = uint g\<rparr>) (enumerate 0 (zip as gs))) (map uint qs) (map uint ps) clearRoot"
    by (simp add: canton_set_config_choice_def)
  from that [OF this] canton_bind_signers [OF assms(1), of 0 as gs 0] show thesis by (simp add: canton_written_def b)
qed

text \<open>
  The ledger keeps what the choice writes: it consumes the contract and creates its successor, so that
  after the transaction the stream of active contracts yields one contract under the address, whose
  arguments read as an MCM with the configuration in the state that the choice's role names.
\<close>

definition canton_slot :: "string \<Rightarrow> canton_mcms \<Rightarrow> canton_role_state option" where
  "canton_slot role m =
     (if role = ''Proposer'' then Some (cmc_Proposer m) else if role = ''Bypasser'' then Some (cmc_Bypasser m)
      else if role = ''Canceller'' then Some (cmc_Canceller m) else None)"

definition canton_ledger_keeps :: "'w canton_client \<Rightarrow> string list \<Rightarrow> hash \<Rightarrow> bool" where
  "canton_ledger_keeps K parties a \<longleftrightarrow>
     (\<forall>w u w1 req tx w' role ss qs ps clear c.
        holders K w parties (kc_MCMSTemplateID K) a {c} \<and> kc_NewUUID K w = (u, w1) \<and>
        crq_ContractId req = cac_ContractId c \<and> crq_Argument req = ChoiceSetConfig role ss qs ps clear \<and>
        kc_SubmitAndWait K req w1 = (Inr tx, w') \<longrightarrow>
        (\<exists>c' m st. holders K w' parties (kc_MCMSTemplateID K) a {c'} \<and> kc_UnmarshalMCMS K c' = Inr m \<and>
           canton_slot role m = Some st \<and>
           crs_Config st = \<lparr>ccf_Signers = ss, ccf_GroupQuorums = qs, ccf_GroupParents = ps\<rparr>))"

lemma canton_slot_role: "canton_slot (canton_role_String role) m = Some st \<Longrightarrow> role_state m role = Inr st"
  by (auto simp: canton_slot_def role_state_def canton_role_String_def canton_role_defs split: if_splits)

lemma canton_SetConfig_Inr:
  assumes "canton_SetConfig G K c addr cfg clearRoot w = (Inr r, w')"
    and "\<And>cid input. fst (kc_ExerciseCommand K cid input) = cid"
  obtains k input req u w1 tx where
    "stands_for K w (cco_mcmsParties c) (kc_MCMSTemplateID K) (kc_HexToInstanceAddress K addr) k"
    "canton_set_config_choice G (cco_role c) cfg clearRoot = Inr input" "kc_NewUUID K w = (u, w1)"
    "crq_ContractId req = cac_ContractId k" "crq_Argument req = input" "kc_SubmitAndWait K req w1 = (Inr tx, w')" "addr \<noteq> []"
proof -
  obtain u w1 where u: "kc_NewUUID K w = (u, w1)" by fastforce
  from assms(1) u obtain cid input tid where
    cid: "ResolveMCMSContractID K w (cco_mcmsParties c) addr = Inr cid" and
    i: "canton_set_config_choice G (cco_role c) cfg clearRoot = Inr input" and
    s: "(case kc_ExerciseCommand K cid input of (contractID, choice) \<Rightarrow>
       case cco_mcmsParties c of
         [] \<Rightarrow> (Inl (Panic ''index out of range''), w1)
       | party # _ \<Rightarrow>
           submit_mcms K ''failed to set config: %w''
             ''set-config tx had no Created MCMS event; refusing to continue with old CID=%s''
             \<lparr>crq_WorkflowId = ''mcms-set-config'', crq_CommandId = u, crq_ActAs = [party],
              crq_ReadAs = cco_mcmsParties c, crq_TemplateId = tid, crq_ContractId = contractID, crq_Choice = choice,
              crq_Argument = input, crq_EffectsFor = None\<rparr> w1) = (Inr r, w')"
    unfolding canton_SetConfig_def run_after_Inr_iff by auto
  obtain contractID choice where ch: "kc_ExerciseCommand K cid input = (contractID, choice)" by fastforce
  with assms(2) [of cid input] have "contractID = cid" by simp
  with s ch obtain party where
    "submit_mcms K ''failed to set config: %w''
       ''set-config tx had no Created MCMS event; refusing to continue with old CID=%s''
       \<lparr>crq_WorkflowId = ''mcms-set-config'', crq_CommandId = u, crq_ActAs = [party],
        crq_ReadAs = cco_mcmsParties c, crq_TemplateId = tid, crq_ContractId = cid, crq_Choice = choice,
        crq_Argument = input, crq_EffectsFor = None\<rparr> w1 = (Inr r, w')"
    by (cases "cco_mcmsParties c") auto
  then obtain tx where tx: "kc_SubmitAndWait K \<lparr>crq_WorkflowId = ''mcms-set-config'', crq_CommandId = u, crq_ActAs = [party],
        crq_ReadAs = cco_mcmsParties c, crq_TemplateId = tid, crq_ContractId = cid, crq_Choice = choice,
        crq_Argument = input, crq_EffectsFor = None\<rparr> w1 = (Inr tx, w')" by (rule submit_mcms_Inr)
  from cid obtain k where k: "stands_for K w (cco_mcmsParties c) (kc_MCMSTemplateID K) (kc_HexToInstanceAddress K addr) k"
    "cac_ContractId k = cid" "addr \<noteq> []" by (rule ResolveMCMSContractID_Inr)
  from that [OF k(1) i u _ _ tx k(3)] k(2) show thesis by simp
qed

section \<open>A sample ledger\<close>

fun sample_json_canton :: "raw \<Rightarrow> canton_fields res" where
  "sample_json_canton (RawJson (JArr [t, f, c, ids, tmpl])) =
     (if go_length (json_text t) \<and> go_length (json_text f)
      then Inr \<lparr>cnf_TargetInstanceAddress = json_text t, cnf_FunctionName = json_text f, cnf_TargetCid = json_text c,
                cnf_ContractIds = json_texts ids, cnf_TargetTemplateID = json_text tmpl\<rparr>
      else Inl (External ''json''))"
| "sample_json_canton _ = Inl (External ''json'')"

definition sample_canton_marshal :: "canton_fields \<Rightarrow> raw" where
  "sample_canton_marshal f =
     RawJson (JArr [JStr (cnf_TargetInstanceAddress f), JStr (cnf_FunctionName f), JStr (cnf_TargetCid f),
       json_of_texts (cnf_ContractIds f), JStr (cnf_TargetTemplateID f)])"

lemma sample_canton_marshal_inverse:
  "go_length (cnf_TargetInstanceAddress f) \<Longrightarrow> go_length (cnf_FunctionName f) \<Longrightarrow>
     sample_json_canton (sample_canton_marshal f) = Inr f"
  by (simp add: sample_canton_marshal_def json_of_texts_def comp_def)

definition sample_canton_root :: canton_metadata where
  "sample_canton_root = \<lparr>cnm_ChainId = 1, cnm_MultisigId = ''mcms@p-proposer'', cnm_InstanceId = ''mcms''\<rparr>"

definition sample_canton :: canton_pkg where
  "sample_canton =
     \<lparr>CantonFieldsUnmarshal = sample_json_canton, CantonFieldsMarshal = (\<lambda>f. Inr (sample_canton_marshal f)),
      CantonMetadataUnmarshal = (\<lambda>r. Inr sample_canton_root), CantonMetadataMarshal = (\<lambda>m. Inr RawEmpty),
      CantonMarshalHex = (\<lambda>p. Inr ''wire'')\<rparr>"

lemma sample_canton_sel [simp]:
  "CantonFieldsUnmarshal sample_canton r = sample_json_canton r"
  "CantonFieldsMarshal sample_canton f = Inr (sample_canton_marshal f)"
  "CantonMetadataUnmarshal sample_canton r = Inr sample_canton_root"
  "CantonMarshalHex sample_canton p = Inr ''wire''"
  by (simp_all add: sample_canton_def)

lemma sample_canton_lengths: "canton_lengths sample_canton"
proof -
  have "go_length (cnf_TargetInstanceAddress f) \<and> go_length (cnf_FunctionName f)" if "sample_json_canton r = Inr f" for r f
    using that by (cases r rule: sample_json_canton.cases) (auto split: if_splits)
  then show ?thesis by (auto simp: canton_lengths_def sample_canton_root_def)
qed

definition sample_canton_fields :: canton_fields where
  "sample_canton_fields = \<lparr>cnf_TargetInstanceAddress = ''token@p'', cnf_FunctionName = ''Mint'', cnf_TargetCid = [],
     cnf_ContractIds = [], cnf_TargetTemplateID = ''#token:Token:Token''\<rparr>"

definition sample_canton_tx :: transaction where
  "sample_canton_tx = \<lparr>tx_ContractType = ''Token'', tx_ContractVersion = None, tx_Tags = [], tx_To = ''token'',
     tx_Data = [1, 2], tx_AdditionalFields = sample_canton_marshal sample_canton_fields\<rparr>"

definition sample_canton_metadata :: chain_metadata where
  "sample_canton_metadata = \<lparr>cm_StartingOpCount = 0, cm_MCMAddress = ''0x05'', cm_AdditionalFields = RawJson JNull\<rparr>"

lemma sample_canton_fields_of [simp]: "sample_json_canton (tx_AdditionalFields sample_canton_tx) = Inr sample_canton_fields"
  by (simp add: sample_canton_tx_def sample_canton_marshal_inverse sample_canton_fields_def)

lemma sample_canton_root_of [simp]: "canton_ToRootMetadata sample_canton sample_canton_metadata = Inr sample_canton_root"
  by (simp add: canton_ToRootMetadata_Inr sample_canton_metadata_def raw_nonempty_def sample_canton_root_def)

definition sample_canton_env :: mcms_env where
  "sample_canton_env = sample_env\<lparr>ChainDetails := (\<lambda>_. Inr FamilyCanton),
     HexToAddress := (\<lambda>s. case hex_DecodeString s of Inl _ \<Rightarrow> 0 | Inr bs \<Rightarrow> from_be bs)\<rparr>"

lemma sample_canton_env_sel [simp]:
  "ChainDetails sample_canton_env = (\<lambda>_. Inr FamilyCanton)" "Keccak256Hash sample_canton_env = from_be"
  "HexToAddress sample_canton_env s = (case hex_DecodeString s of Inl _ \<Rightarrow> 0 | Inr bs \<Rightarrow> from_be bs)"
  "AddressHex sample_canton_env a = hex_encode (be_bytes 20 a)"
  by (simp_all add: sample_canton_env_def sample_env_def)

lemma sample_canton_env_documented: "casts_documented sample_canton_env" "casts_documented (with_canton S sample_canton_env)"
  "sign_msg_documented (with_canton S sample_canton_env)"
  using sample_env_casts sample_env_sign_msg
  by (simp_all add: casts_documented_def sign_msg_documented_def with_canton_def sample_canton_env_def)

text \<open>
  Its world are the requests submitted so far. It has one MCM, beside a contract of two signatories that
  has no address, and every transaction creates a new one.
\<close>

definition sample_contract :: "string \<Rightarrow> int \<Rightarrow> canton_contract" where
  "sample_contract cid offset = \<lparr>cac_ContractId = cid, cac_CreateArguments = Some [(''instanceId'', ''mcms'')],
     cac_Signatories = [''p''], cac_Offset = offset\<rparr>"

definition sample_canton_config :: canton_config where
  "sample_canton_config =
     (case canton_set_config_choice sample_canton_env 2 (Config 2 [9, 4] [Config 1 [7, 3] []]) False of
        Inr (ChoiceSetConfig r ss qs ps clear) \<Rightarrow> \<lparr>ccf_Signers = ss, ccf_GroupQuorums = qs, ccf_GroupParents = ps\<rparr>
      | _ \<Rightarrow> \<lparr>ccf_Signers = [], ccf_GroupQuorums = [], ccf_GroupParents = []\<rparr>)"

definition sample_role_state :: canton_role_state where
  "sample_role_state = \<lparr>crs_Config = sample_canton_config,
     crs_ExpiringRoot = \<lparr>cer_Root = [], cer_ValidUntil = 0, cer_OpCount = 0\<rparr>,
     crs_RootMetadata = \<lparr>crm_ChainId = 1, crm_MultisigId = [], crm_PreOpCount = 0, crm_PostOpCount = 0,
       crm_OverridePreviousRoot = False\<rparr>\<rparr>"

definition sample_mcms :: canton_mcms where
  "sample_mcms = \<lparr>cmc_InstanceId = ''mcms'', cmc_Owner = ''p'', cmc_ChainId = 1, cmc_Proposer = sample_role_state,
     cmc_Bypasser = sample_role_state, cmc_Canceller = sample_role_state\<rparr>"

definition sample_created :: canton_tx where
  "sample_created = \<lparr>ctx_ExternalHash = [1],
     ctx_Events = [OtherEvent, Created (Some (''#mcms'', ''MCMS.Main'', ''MCMS'')) ''new'']\<rparr>"

definition sample_canton_client :: "canton_request list canton_client" where
  "sample_canton_client =
     \<lparr>kc_GetLedgerEnd = (\<lambda>w. Inr 7),
      kc_GetActiveContracts = (\<lambda>offset parties tid w.
        Inr ([ActiveContract ((sample_contract ''old'' 3)\<lparr>cac_Signatories := [''p'', ''q'']\<rparr>), OtherEntry, ActiveContract (sample_contract ''now'' 2)], None)),
      kc_SubmitAndWait = (\<lambda>req w.
        (case crq_Argument req of
           ChoiceSetConfig r ss qs ps clear \<Rightarrow>
             if \<lparr>ccf_Signers = ss, ccf_GroupQuorums = qs, ccf_GroupParents = ps\<rparr> = sample_canton_config \<and>
               canton_slot r sample_mcms = Some sample_role_state
             then Inr (Some sample_created) else Inl ''refused''
         | _ \<Rightarrow> Inr (Some sample_created), w @ [req])),
      kc_NewUUID = (\<lambda>w. (''u'', w)),
      kc_HexToInstanceAddress = (\<lambda>s. 5),
      kc_InstanceAddress = (\<lambda>i p. 5),
      kc_InstanceAddressHex = (\<lambda>a. hex_encode (be_bytes 32 a)),
      kc_RawInstanceAddressFromString = (\<lambda>s. Inr 5),
      kc_MCMSTemplateID = ''#mcms:MCMS.Main:MCMS'',
      kc_UnmarshalMCMS = (\<lambda>c. Inr sample_mcms),
      kc_ExerciseCommand = (\<lambda>cid ch. (cid, ''Choice'')),
      kc_HexToHash = (\<lambda>s. 0),
      kc_FromECDSAPub = (\<lambda>k. 4 # k)\<rparr>"

definition sample_canton_executor :: canton_executor where
  "sample_canton_executor =
     canton_NewExecutor \<lparr>cne_ChainSelector = 4, cne_TxCount = 1, cne_OverridePreviousRoot = False\<rparr>
       \<lparr>ci_mcmsParties = [''p''], ci_role = 2\<rparr> ''p'' [''p''] 2"

lemma sample_canton_executor_sel [simp]:
  "cex_Encoder sample_canton_executor = \<lparr>cne_ChainSelector = 4, cne_TxCount = 1, cne_OverridePreviousRoot = False\<rparr>"
  "cex_mcmsParties sample_canton_executor = [''p'']" "cex_submittingParty sample_canton_executor = ''p''"
  "cex_role sample_canton_executor = 2"
  by (simp_all add: sample_canton_executor_def canton_NewExecutor_def)

lemma sample_template: "ParseTemplateIDFromString ''#mcms:MCMS.Main:MCMS'' = Inr (''#mcms'', ''MCMS.Main'', ''MCMS'')"
  by code_simp

lemma sample_created_mcms: "created_mcms (ctx_Events sample_created) = (''new'', ''#mcms:MCMS.Main:MCMS'')"
  by code_simp

lemma sample_finds:
  assumes "ParseTemplateIDFromString template = Inr tid"
  shows "findActiveContractByInstanceAddress sample_canton_client w parties template 5 = Inr (sample_contract ''now'' 2)"
  using assms
  by (simp add: findActiveContractByInstanceAddress_def sample_canton_client_def ext_def contract_matches_def
      sample_contract_def contract_instance_id_def)

lemma sample_canton_client_sel [simp]:
  "kc_MCMSTemplateID sample_canton_client = ''#mcms:MCMS.Main:MCMS''" "kc_HexToInstanceAddress sample_canton_client s = 5"
  "kc_RawInstanceAddressFromString sample_canton_client s = Inr 5" "kc_NewUUID sample_canton_client w = (''u'', w)"
  by (simp_all add: sample_canton_client_def)

lemma sample_resolves [simp]:
  assumes "addr \<noteq> []"
  shows "ResolveMCMSContractID sample_canton_client w parties addr = Inr ''now''"
  using assms by (simp add: ResolveMCMSContractID_def findActiveContractIDByInstanceAddress_def sample_finds [OF sample_template])
    (simp add: sample_contract_def)

lemma sample_canton_executable:
  "\<exists>e. NewExecutable (with_canton sample_canton sample_canton_env) (single_proposal 4 sample_canton_metadata sample_canton_tx)
     executors = Inr e \<and> exe_txNonces e = [0]"
proof (rule single_executable)
  let ?e = "\<lparr>cne_ChainSelector = 4, cne_TxCount = 1, cne_OverridePreviousRoot = False\<rparr>"
  show "newEncoder (with_canton sample_canton sample_canton_env) 4 1 False False =
      Inr (Some (cantonNewEncoder sample_canton_env sample_canton 4 1 False))"
    by (rule with_canton_newEncoder) simp
  have "canton_leaf_hash sample_canton_env sample_canton ?e sample_canton_metadata None =
      Inr (Keccak256Hash sample_canton_env (canton_leaf_bytes (canton_separators sample_canton_env)
        (projr (canton_leaf_of sample_canton ?e sample_canton_metadata None))))"
    by (subst canton_leaf_hash_Inr [OF sample_canton_lengths]) simp_all
  then show "\<exists>h. enc_HashMetadata (cantonNewEncoder sample_canton_env sample_canton 4 1 False) sample_canton_metadata = Inr h"
    by (auto simp: cantonNewEncoder_methods)
  let ?op = "\<lparr>op_ChainSelector = 4, op_Transaction = sample_canton_tx\<rparr>"
  have "canton_fields_Validate sample_canton_fields = Inr ()" by code_simp
  then have "canton_leaf_hash sample_canton_env sample_canton ?e sample_canton_metadata (Some (0, ?op)) =
      Inr (Keccak256Hash sample_canton_env (canton_leaf_bytes (canton_separators sample_canton_env)
        (projr (canton_leaf_of sample_canton ?e sample_canton_metadata (Some (0, ?op))))))"
    by (subst canton_leaf_hash_Inr [OF sample_canton_lengths]) (simp_all add: sample_canton_tx_def [THEN arg_cong, of tx_Data])
  then show "\<exists>h. enc_HashOperation (cantonNewEncoder sample_canton_env sample_canton 4 1 False) 0 sample_canton_metadata ?op = Inr h"
    by (auto simp: cantonNewEncoder_methods)
  show "Uint64ToUint32 (with_canton sample_canton sample_canton_env) 0 = Inr 0"
    by (simp add: Uint64ToUint32_Inr sample_canton_env_documented)
qed (simp add: sample_canton_metadata_def)

lemma sample_target:
  "ResolveTargetContractID sample_canton_client w parties ''token@p'' ''#token:Token:Token'' = Inr ''now''"
proof -
  have "ParseTemplateIDFromString ''#token:Token:Token'' = Inr (''#token'', ''Token'', ''Token'')" by code_simp
  from sample_finds [OF this] show ?thesis
    by (simp add: ResolveTargetContractID_def findActiveContractIDByInstanceAddress_def ext_def) (simp add: sample_contract_def)
qed

lemma sample_submit:
  assumes "\<forall>r ss qs ps clear. crq_Argument req \<noteq> ChoiceSetConfig r ss qs ps clear"
  shows "\<exists>r req'. submit_mcms sample_canton_client failed none req [] = (Inr r, [req'])"
proof -
  have "kc_SubmitAndWait sample_canton_client req [] = (Inr (Some sample_created), [req])"
    using assms by (cases "crq_Argument req") (auto simp: sample_canton_client_def)
  with sample_created_mcms show ?thesis by (simp add: submit_mcms_def ext_def tx_events_def)
qed

lemma sample_holders:
  "holders sample_canton_client w parties ''#mcms:MCMS.Main:MCMS'' 5 cs \<longleftrightarrow> cs = {sample_contract ''now'' 2}"
proof -
  have "names_template ''#mcms:MCMS.Main:MCMS'' tid \<longleftrightarrow> tid = (''#mcms'', ''MCMS.Main'', ''MCMS'')" for tid
    using sample_template by (auto simp: ParseTemplateID_names [symmetric])
  moreover have "{c. ActiveContract c \<in> set [ActiveContract ((sample_contract ''old'' 3)\<lparr>cac_Signatories := [''p'', ''q'']\<rparr>),
      OtherEntry, ActiveContract (sample_contract ''now'' 2)] \<and> has_address sample_canton_client 5 c} = {sample_contract ''now'' 2}"
    by (auto simp: has_address_def sample_contract_def sample_canton_client_def)
  ultimately show ?thesis by (auto simp: holders_def sample_canton_client_def)
qed

lemma sample_one_holder: "at_most_one_holder sample_canton_client w parties ''#mcms:MCMS.Main:MCMS'' 5"
  by (simp add: at_most_one_holder_def sample_holders)

lemma sample_canton_template [simp]: "mcms_template sample_canton_client = Inr (''#mcms'', ''MCMS.Main'', ''MCMS'')"
  using sample_template by (simp add: mcms_template_def)

lemma sample_canton_runs:
  "\<exists>r req. canton_ExecuteOperation sample_canton sample_canton_client sample_canton_executor sample_canton_metadata n pf
     \<lparr>op_ChainSelector = 4, op_Transaction = sample_canton_tx\<rparr> [] = (Inr r, [req])"
proof -
  have nonempty: "cm_MCMAddress sample_canton_metadata \<noteq> []" "raw_nonempty (tx_AdditionalFields sample_canton_tx)"
    by (simp_all add: sample_canton_metadata_def sample_canton_tx_def sample_canton_marshal_def raw_nonempty_def)
  have "\<not> IsInstanceAddressHex ''now''" by code_simp
  then have ids: "resolve_contract_ids sample_canton_client [] [''p''] [''now''] = Inr (gm_put ''now'' ''now'' [])"
    by (simp add: resolve_contract_ids_def ResolveContractIDIfInstanceAddress_def)
  have "resolve_target sample_canton_client [] [''p''] sample_canton_fields =
      Inr (sample_canton_fields\<lparr>cnf_TargetCid := ''now'', cnf_ContractIds := [''now'']\<rparr>)"
    using sample_target by (simp add: resolve_target_def sample_canton_fields_def)
  then show ?thesis
    using nonempty sample_submit ids
    by (simp add: canton_ExecuteOperation_def run_after_def canton_execute_choice_def canton_request_of_def)
qed

lemma hex_text_no_prefix': "TrimPrefix0x (hex_encode bs) = hex_encode bs"
proof -
  have "CHR ''x'' \<notin> set (hex_encode bs)" by (rule hex_encode_absent) simp_all
  then have "\<not> prefix ''0x'' (hex_encode bs)" by (auto dest!: set_mono_prefix)
  then show ?thesis by (simp add: TrimPrefix0x_def)
qed

lemma sample_exercise: "kc_ExerciseCommand sample_canton_client cid ch = (cid, ''Choice'')"
  and sample_unmarshal: "kc_UnmarshalMCMS sample_canton_client c = Inr sample_mcms"
  by (simp_all add: sample_canton_client_def)

lemma sample_stored:
  "kc_SubmitAndWait sample_canton_client req w = (Inr tx, w') \<Longrightarrow> crq_Argument req = ChoiceSetConfig r ss qs ps clear \<Longrightarrow>
     sample_canton_config = \<lparr>ccf_Signers = ss, ccf_GroupQuorums = qs, ccf_GroupParents = ps\<rparr> \<and>
     canton_slot r sample_mcms = Some sample_role_state"
  by (auto simp: sample_canton_client_def split: if_splits)

text \<open>Two transactions with their own targets, one with its contract and one with its template.\<close>

definition sample_canton_batch :: batch_operation where
  "sample_canton_batch = \<lparr>bop_ChainSelector = 4, bop_Transactions = [sample_canton_tx,
     sample_canton_tx\<lparr>tx_AdditionalFields := sample_canton_marshal (sample_canton_fields\<lparr>cnf_TargetCid := ''c''\<rparr>)\<rparr>]\<rparr>"

lemma sample_canton_marshalled:
  "tx_AdditionalFields sample_canton_tx = sample_canton_marshal sample_canton_fields"
  "sample_json_canton (sample_canton_marshal sample_canton_fields) = Inr sample_canton_fields"
  "sample_json_canton (sample_canton_marshal (sample_canton_fields\<lparr>cnf_TargetCid := ''c''\<rparr>)) =
     Inr (sample_canton_fields\<lparr>cnf_TargetCid := ''c''\<rparr>)" "raw_nonempty (sample_canton_marshal f)"
  by (simp_all add: sample_canton_tx_def sample_canton_marshal_inverse sample_canton_fields_def)
    (simp add: sample_canton_marshal_def raw_nonempty_def)

definition sample_canton_actions :: "canton_action list" where
  "sample_canton_actions = [(''token@p'', ''Mint'', [1, 2]), (''token@p'', ''Mint'', [1, 2])]"

lemma sample_canton_batch_actions:
  "canton_actions sample_canton sample_canton_batch = Inr sample_canton_actions"
  "buildCallsFromBatch sample_canton sample_canton_batch = Inr (map canton_action_call sample_canton_actions, [])"
  by (simp_all add: canton_actions_def canton_tx_action_def sample_canton_batch_def sample_canton_marshalled
      sample_canton_actions_def buildCallsFromBatch_def canton_batch_call_def canton_action_call_def Let_def)
    (simp_all add: sample_canton_fields_def sample_canton_tx_def)

lemma sample_canton_batch_fits: "canton_batch_fits sample_canton sample_canton_batch"
  using sample_canton_batch_actions(1)
  by (simp add: canton_batch_fits_def sample_canton_actions_def canton_action_fits_def) (simp add: sample_canton_batch_def)

lemma sample_canton_named: "targets_named sample_canton sample_canton_batch"
  by (simp add: targets_named_def sample_canton_batch_def sample_canton_marshalled) (simp add: sample_canton_fields_def)

lemma sample_canton_id:
  "\<exists>h :: hash. hashTimelockOpID sample_canton_env (map canton_action_call sample_canton_actions) (hex_encode (be_bytes 32 (p :: hash)))
     (hex_encode (be_bytes 32 (salt :: hash))) = Inr (hex_encode (be_bytes 32 h))"
  by (intro exI, rule hashTimelockOpID_bytes) (simp_all add: sample_canton_actions_def canton_action_fits_def)

lemma sample_canton_converts:
  "\<exists>ops h. cantonConvert sample_canton_env sample_canton sample_canton_metadata sample_canton_batch tlAddr mcm 0
     TimelockActionSchedule p salt = Inr (ops, h)"
proof -
  obtain h :: hash where h: "hashTimelockOpID sample_canton_env (map canton_action_call sample_canton_actions) (hex_encode (be_bytes 32 p))
     (hex_encode (be_bytes 32 salt)) = Inr (hex_encode (be_bytes 32 h))" using sample_canton_id by blast
  have "resolveAdditionalFieldsMetadata sample_canton_env sample_canton sample_canton_metadata sample_canton_batch
      TimelockActionSchedule = Inr sample_canton_root"
    by (simp add: resolveAdditionalFieldsMetadata_def sample_canton_metadata_def raw_nonempty_def canton_metadata_Validate_def
        sample_canton_root_def)
  with h show ?thesis
    by (simp add: cantonConvert_def sample_canton_batch_actions Let_def scheduleActionData_def buildTimelockOperation_def wireToHex_def)
qed

lemma sample_canton_timelock_runs:
  "\<exists>r req. canton_timelock_Execute sample_canton_env sample_canton sample_canton_client (canton_NewTimelockExecutor ''p'' [''p''])
     sample_canton_batch ''0x05'' p salt [] = (Inr r, [req])"
proof -
  let ?t = "canton_NewTimelockExecutor ''p'' [''p'']"
  have t: "cte_mcmsParties ?t = [''p'']" "cte_submittingParty ?t = ''p''" by (simp_all add: canton_NewTimelockExecutor_def)
  obtain h :: hash where h: "hashTimelockOpID sample_canton_env (map canton_action_call sample_canton_actions) (hex_encode (be_bytes 32 p))
     (hex_encode (be_bytes 32 salt)) = Inr (hex_encode (be_bytes 32 h))" using sample_canton_id by blast
  have "execute_batch_loop sample_canton sample_canton_client [''p''] [] (bop_Transactions sample_canton_batch) [] =
      Inr (map canton_action_call sample_canton_actions, [(''token@p'', ''c'')])"
    using sample_target
    by (simp add: sample_canton_batch_def sample_canton_marshalled sample_canton_actions_def canton_action_call_def)
      (simp add: sample_canton_fields_def sample_canton_tx_def)
  moreover have "\<not> IsInstanceAddressHex ''c''" by code_simp
  moreover have "bop_Transactions sample_canton_batch \<noteq> []" by (simp add: sample_canton_batch_def)
  ultimately have "canton_execute_batch_choice sample_canton_env sample_canton sample_canton_client ?t sample_canton_batch p salt [] =
      Inr (ChoiceExecuteScheduledBatch ''p'' (hex_encode (be_bytes 32 h)) (map canton_action_call sample_canton_actions)
        (hex_encode (be_bytes 32 p)) (hex_encode (be_bytes 32 salt)) [(''token@p'', ''c'')])"
    using h by (simp add: canton_execute_batch_choice_def t Let_def ResolveContractIDIfInstanceAddress_def)
  then show ?thesis using sample_submit by (simp add: canton_timelock_Execute_def run_after_def t)
qed

section \<open>Properties\<close>

text \<open>
  C31: an operation of a signed proposal reaches the MCM contract of the Canton ledger. When the ledger
  has at most one contract under the address of the metadata, and an executable runs the operation
  through the Canton executor of its chain and gets a result, then the request went to the one contract
  that has the address; its choice carries nonce, target, function and data of the operation as they
  are, no number wrapped, and the contract's Merkle check of them with the proof yields the root of
  the signed tree. The result names a contract of the MCM template that the transaction created.
\<close>

theorem canton_operation_executes:
  assumes "gm_wf (bp_ChainMetadata p)" and "NewExecutable (with_canton S E) p executors = Inr e"
    and "i < length (pr_Operations p)" and "op_ChainSelector (pr_Operations p ! i) = sel"
    and "ChainDetails E sel = Inr FamilyCanton" and "gm_get executors sel = Some (canton_executor_iface G S K x)"
    and "at_most_one_holder K w (cex_mcmsParties x) (kc_MCMSTemplateID K)
           (kc_HexToInstanceAddress K (cm_MCMAddress (metadata_of p sel)))"
    and "canton_lengths S" and "go_length (tx_Data (op_Transaction (pr_Operations p ! i)))"
    and "Execute (with_canton S E) e (int i) w = (Inr r, w')"
  shows "\<exists>t c req w1 tx bindOp n pf targets f new. MerkleTree (with_canton S E) p = Inr t \<and>
    holders K w (cex_mcmsParties x) (kc_MCMSTemplateID K) (kc_HexToInstanceAddress K (cm_MCMAddress (metadata_of p sel))) {c} \<and>
    kc_SubmitAndWait K req w1 = (Inr tx, w') \<and> crq_ContractId req = cac_ContractId c \<and>
    crq_Argument req = ChoiceExecuteOp (canton_role_String (cex_role x)) (cex_submittingParty x) bindOp pf targets \<and>
    Uint64ToUint32 (with_canton S E) (exe_txNonces e ! i) = Inr n \<and> uint (cop_Nonce bindOp) = uint n \<and>
    CantonFieldsUnmarshal S (tx_AdditionalFields (op_Transaction (pr_Operations p ! i))) = Inr f \<and>
    cop_TargetInstanceAddress bindOp = cnf_TargetInstanceAddress f \<and> cop_FunctionName bindOp = cnf_FunctionName f \<and>
    cop_OperationData bindOp = hex_encode (tx_Data (op_Transaction (pr_Operations p ! i))) \<and>
    canton_op_check E (mt_Root t) bindOp pf \<and>
    tr_RawData r = Some new \<and> mcms_created (tx_events tx) (craw_NewMCMSContractID new)"
proof -
  let ?op = "pr_Operations p ! i" and ?md = "metadata_of p sel"
  let ?enc = "\<lparr>cne_ChainSelector = sel, cne_TxCount = gm_get0 (TransactionCounts p) sel 0,
      cne_OverridePreviousRoot = bp_OverridePreviousRoot p\<rparr>"
  from executed_leaf [OF assms(1-4) with_canton_newEncoder [OF assms(5)] assms(6), of w] obtain n h pf where
    n: "Uint64ToUint32 (with_canton S E) (exe_txNonces e ! i) = Inr n" and
    h: "canton_HashOperation E S ?enc n ?md ?op = Inr h" "foldl (hashPair (Keccak256Hash E)) h pf = mt_Root (exe_tree e)" and
    t: "MerkleTree (with_canton S E) p = Inr (exe_tree e)" and
    x: "Execute (with_canton S E) e (int i) w = ex_ExecuteOperation (canton_executor_iface G S K x) ?md n pf ?op w"
    by (auto simp: cantonNewEncoder_methods)
  from x assms(10) have "canton_ExecuteOperation S K x ?md n pf ?op w = (Inr r, w')" by (simp add: canton_executor_iface_def)
  then obtain f0 c input req w1 where
    f0: "CantonFieldsUnmarshal S (tx_AdditionalFields (op_Transaction ?op)) = Inr f0 \<or> f0 = no_canton_fields" and
    c: "stands_for K w (cex_mcmsParties x) (kc_MCMSTemplateID K) (kc_HexToInstanceAddress K (cm_MCMAddress ?md)) c"
      "canton_execute_choice S K x ?md n pf ?op f0 w = Inr input" and
    req: "crq_ContractId req = cac_ContractId c" "crq_Argument req = input" and
    s: "submit_mcms K ''failed to execute operation: %w''
       ''execute-op tx had no Created MCMS event; refusing to continue with old CID=%s'' req w1 = (Inr r, w')"
    by (rule canton_ExecuteOperation_Inr) blast
  from canton_execute_choice_check [OF assms(8,9) h f0 c(2)] obtain bindOp targets where
    i: "input = ChoiceExecuteOp (canton_role_String (cex_role x)) (cex_submittingParty x) bindOp (hex_proof pf) targets"
    "uint (cop_Nonce bindOp) = uint n" "canton_op_check E (mt_Root (exe_tree e)) bindOp (hex_proof pf)"
    "CantonFieldsUnmarshal S (tx_AdditionalFields (op_Transaction ?op)) = Inr f0"
    "cop_TargetInstanceAddress bindOp = cnf_TargetInstanceAddress f0" "cop_FunctionName bindOp = cnf_FunctionName f0"
    "cop_OperationData bindOp = hex_encode (tx_Data (op_Transaction ?op))" .
  from s obtain tx new where "kc_SubmitAndWait K req w1 = (Inr tx, w')" "tr_RawData r = Some new"
    "mcms_created (tx_events tx) (craw_NewMCMSContractID new)" by (rule submit_mcms_Inr)
  moreover note stands_for_sole [OF c(1) assms(7)]
  ultimately show ?thesis using t n req i by metis
qed

theorem canton_operation_executes_witness:
  "let T = with_canton sample_canton sample_canton_env; p = single_proposal 4 sample_canton_metadata sample_canton_tx in
   \<exists>e t r req bindOp pf targets. NewExecutable T p
       [(4, canton_executor_iface sample_env sample_canton sample_canton_client sample_canton_executor)] = Inr e \<and>
     MerkleTree T p = Inr t \<and> Execute T e 0 [] = (Inr r, [req]) \<and> crq_ContractId req = ''now'' \<and>
     crq_Argument req = ChoiceExecuteOp ''Proposer'' ''p'' bindOp pf targets \<and>
     cop_TargetInstanceAddress bindOp = ''token@p'' \<and> canton_op_check sample_canton_env (mt_Root t) bindOp pf"
proof -
  let ?T = "with_canton sample_canton sample_canton_env" and ?p = "single_proposal 4 sample_canton_metadata sample_canton_tx"
  let ?x = "canton_executor_iface sample_env sample_canton sample_canton_client sample_canton_executor"
  let ?op = "\<lparr>op_ChainSelector = 4, op_Transaction = sample_canton_tx\<rparr>"
  obtain e where e: "NewExecutable ?T ?p [(4, ?x)] = Inr e" using sample_canton_executable by blast
  have wf: "gm_wf (bp_ChainMetadata ?p)" by (simp add: gm_wf_def)
  have enc: "newEncoder ?T 4 (gm_get0 (TransactionCounts ?p) 4 0) (bp_OverridePreviousRoot ?p) (bp_useSimulatedBackend ?p) =
      Inr (Some (cantonNewEncoder sample_canton_env sample_canton 4 1 False))"
    by (simp add: with_canton_newEncoder)
  from executed_leaf [OF wf e, of 0 4, OF _ _ enc, of _ "[]"] obtain n pf where
    x: "Execute ?T e (int 0) [] = ex_ExecuteOperation ?x sample_canton_metadata n pf ?op []" by auto
  from sample_canton_runs [of n pf] x obtain r req where run: "Execute ?T e (int 0) [] = (Inr r, [req])"
    by (auto simp: canton_executor_iface_def)
  have go: "go_length (tx_Data (op_Transaction (pr_Operations ?p ! 0)))" by (simp add: sample_canton_tx_def)
  have one: "at_most_one_holder sample_canton_client [] (cex_mcmsParties sample_canton_executor) (kc_MCMSTemplateID sample_canton_client)
      (kc_HexToInstanceAddress sample_canton_client (cm_MCMAddress (metadata_of ?p 4)))"
    by (simp add: sample_one_holder)
  have "\<exists>t c req' w1 tx bindOp n pf targets f new. MerkleTree ?T ?p = Inr t \<and>
    holders sample_canton_client [] (cex_mcmsParties sample_canton_executor) (kc_MCMSTemplateID sample_canton_client)
      (kc_HexToInstanceAddress sample_canton_client (cm_MCMAddress (metadata_of ?p 4))) {c} \<and>
    kc_SubmitAndWait sample_canton_client req' w1 = (Inr tx, [req]) \<and> crq_ContractId req' = cac_ContractId c \<and>
    crq_Argument req' = ChoiceExecuteOp (canton_role_String (cex_role sample_canton_executor))
      (cex_submittingParty sample_canton_executor) bindOp pf targets \<and>
    Uint64ToUint32 ?T (exe_txNonces e ! 0) = Inr n \<and> uint (cop_Nonce bindOp) = uint n \<and>
    CantonFieldsUnmarshal sample_canton (tx_AdditionalFields (op_Transaction (pr_Operations ?p ! 0))) = Inr f \<and>
    cop_TargetInstanceAddress bindOp = cnf_TargetInstanceAddress f \<and> cop_FunctionName bindOp = cnf_FunctionName f \<and>
    cop_OperationData bindOp = hex_encode (tx_Data (op_Transaction (pr_Operations ?p ! 0))) \<and>
    canton_op_check sample_canton_env (mt_Root t) bindOp pf \<and>
    tr_RawData r = Some new \<and> mcms_created (tx_events tx) (craw_NewMCMSContractID new)"
    by (rule canton_operation_executes [OF wf e _ _ _ _ one sample_canton_lengths go run]) simp_all
  then obtain t req' w1 bindOp pf targets where "MerkleTree ?T ?p = Inr t" "canton_op_check sample_canton_env (mt_Root t) bindOp pf"
    "cop_TargetInstanceAddress bindOp = ''token@p''" "crq_Argument req' = ChoiceExecuteOp ''Proposer'' ''p'' bindOp pf targets"
    "crq_ContractId req' = ''now''" "req' = req"
    by (auto simp: sample_canton_client_def [THEN arg_cong, of kc_SubmitAndWait] canton_role_String_def canton_role_defs
        sample_canton_fields_def sample_holders sample_contract_def)
  then show ?thesis using e run by (auto simp: Let_def)
qed

text \<open>
  Setting a root on Canton submits the root that was signed. When SetRoot on an executable gets a
  result through the Canton executor, the request went to the contract that stands for the
  address, with the root of the tree and its expiry; the metadata claim exactly the chain's share of the
  operations, as whole numbers that did not wrap around, and pass the contract's Merkle check; the
  signatures are those of the proposal, each with the public key that recovers from the
  very hash that was signed, in ascending order of the addresses of those keys.
\<close>

theorem canton_set_root_executes:
  assumes "gm_wf (bp_ChainMetadata p)" and "NewExecutable (with_canton S E) p executors = Inr e"
    and "sign_msg_documented (with_canton S E)" and "casts_documented (with_canton S E)"
    and "gm_get (bp_ChainMetadata p) sel = Some md" and "ChainDetails E sel = Inr FamilyCanton"
    and "gm_get executors sel = Some (canton_executor_iface (with_canton S E) S K x)"
    and "cex_Encoder x = \<lparr>cne_ChainSelector = sel, cne_TxCount = gm_get0 (TransactionCounts p) sel 0,
           cne_OverridePreviousRoot = bp_OverridePreviousRoot p\<rparr>"
    and "canton_lengths S" and "go_length (pr_Operations p)"
    and "SetRoot (with_canton S E) e sel w = (Inr r, w')"
  shows "\<exists>t hash c req w1 tx meta pf sigs pks sent. MerkleTree (with_canton S E) p = Inr t \<and>
    SigningHash (with_canton S E) p = Inr hash \<and>
    stands_for K w (cex_mcmsParties x) (kc_MCMSTemplateID K) (kc_HexToInstanceAddress K (cm_MCMAddress md)) c \<and>
    kc_SubmitAndWait K req w1 = (Inr tx, w') \<and> crq_ContractId req = cac_ContractId c \<and>
    crq_Argument req = ChoiceSetRoot (canton_role_String (cex_role x)) (cex_submittingParty x)
      (hex_encode (be_bytes 32 (mt_Root t))) (uint (bp_ValidUntil p)) meta pf sent \<and>
    canton_metadata_check E (mt_Root t) meta pf \<and> crm_PreOpCount meta = uint (cm_StartingOpCount md) \<and>
    crm_PostOpCount meta = uint (cm_StartingOpCount md) + int (ops_on sel (pr_Operations p)) \<and>
    mset sigs = mset (bp_Signatures p) \<and> canton_keys_of (with_canton S E) K hash sigs pks sent \<and>
    sorted (map (PubkeyToAddress (with_canton S E)) pks)"
proof -
  let ?T = "with_canton S E"
  from set_root_leaf [OF assms(1,2,3,5) with_canton_newEncoder [OF assms(6)] assms(7), of w] obtain h pf hash where
    h: "canton_HashMetadata E S (cex_Encoder x) md = Inr h" "foldl (hashPair (Keccak256Hash E)) h pf = mt_Root (exe_tree e)" and
    t: "MerkleTree ?T p = Inr (exe_tree e)" and hash: "SigningHash ?T p = Inr hash" and
    x: "SetRoot ?T e sel w = ex_SetRoot (canton_executor_iface ?T S K x) md pf (mt_Root (exe_tree e)) (bp_ValidUntil p)
      (sort_signatures ?T hash (bp_Signatures p)) w"
    by (auto simp: cantonNewEncoder_methods assms(8))
  let ?sigs = "sort_signatures ?T hash (bp_Signatures p)"
  from x assms(11) have "canton_SetRoot ?T S K x md pf (mt_Root (exe_tree e)) (bp_ValidUntil p) ?sigs w = (Inr r, w')"
    by (simp add: canton_executor_iface_def)
  then obtain c input req w1 where
    c: "stands_for K w (cex_mcmsParties x) (kc_MCMSTemplateID K) (kc_HexToInstanceAddress K (cm_MCMAddress md)) c"
      "canton_set_root_choice ?T S K x md pf (mt_Root (exe_tree e)) (bp_ValidUntil p) ?sigs = Inr input" and
    req: "crq_ContractId req = cac_ContractId c" "crq_Argument req = input" and
    s: "submit_mcms K ''failed to set root: %w''
       ''set-root tx had no Created MCMS event; refusing to continue with old CID=%s'' req w1 = (Inr r, w')"
    by (rule canton_SetRoot_Inr)
  have count: "cne_TxCount (cex_Encoder x) = word_of_nat (ops_on sel (pr_Operations p))"
    by (auto simp: assms(8) gm_get0_def TransactionCounts_get ops_on_def)
  have "ops_on sel (pr_Operations p) \<le> length (pr_Operations p)" by (simp add: ops_on_def)
  then have small: "ops_on sel (pr_Operations p) < 2 ^ 63" using assms(10) by linarith
  have signed: "canton_signed_hash ?T (mt_Root (exe_tree e)) (bp_ValidUntil p) = Inr hash"
    using canton_signed_hash_SigningHash [OF t] hash by simp
  from canton_set_root_choice_check [OF assms(9,4) count small h signed c(2)] obtain meta sent pks where
    i: "input = ChoiceSetRoot (canton_role_String (cex_role x)) (cex_submittingParty x)
      (hex_encode (be_bytes 32 (mt_Root (exe_tree e)))) (uint (bp_ValidUntil p)) meta (hex_proof pf) sent"
    "canton_metadata_check E (mt_Root (exe_tree e)) meta (hex_proof pf)" "crm_PreOpCount meta = uint (cm_StartingOpCount md)"
    "crm_PostOpCount meta = uint (cm_StartingOpCount md) + int (ops_on sel (pr_Operations p))"
    and k: "canton_keys_of ?T K hash ?sigs pks sent" .
  from s obtain tx where "kc_SubmitAndWait K req w1 = (Inr tx, w')" by (rule submit_mcms_Inr)
  moreover have "sorted (map (PubkeyToAddress ?T) pks)" using canton_keys_signers [OF k] sort_signatures_sorted(2) by metis
  moreover have "mset ?sigs = mset (bp_Signatures p)" by (rule sort_signatures_sorted)
  ultimately show ?thesis using t hash c(1) req i k by metis
qed

definition sample_signature :: signature where
  "sample_signature = \<lparr>sig_R = 1, sig_S = 2, sig_V = 27\<rparr>"

theorem canton_set_root_executes_witness:
  "let T = with_canton sample_canton sample_canton_env;
       p = (single_proposal 4 sample_canton_metadata sample_canton_tx)\<lparr>bp_Signatures := [sample_signature]\<rparr> in
   \<exists>e t hash r req meta pf pk sent. NewExecutable T p [(4, canton_executor_iface T sample_canton sample_canton_client sample_canton_executor)] = Inr e \<and>
     MerkleTree T p = Inr t \<and> SigningHash T p = Inr hash \<and> SetRoot T e 4 [] = (Inr r, [req]) \<and>
     crq_Argument req = ChoiceSetRoot ''Proposer'' ''p'' (hex_encode (be_bytes 32 (mt_Root t))) 99 meta pf [sent] \<and>
     crm_PreOpCount meta = 0 \<and> crm_PostOpCount meta = 1 \<and> canton_metadata_check sample_canton_env (mt_Root t) meta pf \<and>
     RecoverPublicKey T sample_signature hash = Inr pk \<and> csg_PublicKey sent = hex_encode (4 # pk)"
proof -
  let ?T = "with_canton sample_canton sample_canton_env"
  let ?p = "(single_proposal 4 sample_canton_metadata sample_canton_tx)\<lparr>bp_Signatures := [sample_signature]\<rparr>"
  let ?x = "canton_executor_iface ?T sample_canton sample_canton_client sample_canton_executor"
  obtain e0 where "NewExecutable ?T (single_proposal 4 sample_canton_metadata sample_canton_tx) [(4, ?x)] = Inr e0"
    using sample_canton_executable by blast
  from signed_executable [OF this] obtain e where e: "NewExecutable ?T ?p [(4, ?x)] = Inr e" by blast
  have counts: "TransactionCounts ?p = TransactionCounts (single_proposal 4 sample_canton_metadata sample_canton_tx)"
    by (simp add: TransactionCounts_def)
  have wf: "gm_wf (bp_ChainMetadata ?p)" by (simp add: gm_wf_def)
  have md: "gm_get (bp_ChainMetadata ?p) 4 = Some sample_canton_metadata" by simp
  have enc: "newEncoder ?T 4 (gm_get0 (TransactionCounts ?p) 4 0) (bp_OverridePreviousRoot ?p) (bp_useSimulatedBackend ?p) =
      Inr (Some (cantonNewEncoder sample_canton_env sample_canton 4 1 False))"
    by (simp add: with_canton_newEncoder counts)
  have get: "gm_get [(4, ?x)] 4 = Some ?x" by simp
  obtain pf hash where hash: "SigningHash ?T ?p = Inr hash" and t: "MerkleTree ?T ?p = Inr (exe_tree e)" and
    x: "SetRoot ?T e 4 [] = ex_SetRoot ?x sample_canton_metadata pf (mt_Root (exe_tree e)) (bp_ValidUntil ?p)
      (sort_signatures ?T hash (bp_Signatures ?p)) []"
    using set_root_leaf [OF wf e sample_canton_env_documented(3) md enc get, of "[]"] by blast
  have signed: "canton_signed_hash ?T (mt_Root (exe_tree e)) 99 = Inr hash"
    using canton_signed_hash_SigningHash [OF t, of hash] hash by simp
  have "RecoverPublicKey ?T sample_signature h = Inr (be_bytes 32 (1 :: hash) @ be_bytes 32 (2 :: hash) @ [0])" for h
    by (simp add: RecoverPublicKey_def ToBytes_def sample_signature_def Let_def nth_append list_update_append with_canton_def
        sample_canton_env_def sample_env_def)
  then obtain sent0 where sent: "canton_signature_of ?T sample_canton_client hash sample_signature = Inr sent0"
    by (simp add: canton_signature_of_def)
  have casts: "Uint64ToInt64 ?T 0 = Inr 0" "Uint64ToInt64 ?T 1 = Inr 1"
    by (simp_all add: Uint64ToInt64_Inr sample_canton_env_documented)
  have "cm_MCMAddress sample_canton_metadata \<noteq> []" "cm_StartingOpCount sample_canton_metadata = 0"
    by (simp_all add: sample_canton_metadata_def)
  then have "\<exists>r req. canton_SetRoot ?T sample_canton sample_canton_client sample_canton_executor sample_canton_metadata pf
      (mt_Root (exe_tree e)) 99 [sample_signature] [] = (Inr r, [req])"
    using sent casts signed sample_submit
    by (simp add: canton_SetRoot_def run_after_def canton_set_root_choice_def canton_request_of_def)
  with x obtain r req where run: "SetRoot ?T e 4 [] = (Inr r, [req])"
    by (auto simp: canton_executor_iface_def sort_signatures_def)
  have encoder: "cex_Encoder sample_canton_executor = \<lparr>cne_ChainSelector = 4, cne_TxCount = gm_get0 (TransactionCounts ?p) 4 0,
           cne_OverridePreviousRoot = bp_OverridePreviousRoot ?p\<rparr>" by (simp add: counts)
  have go: "go_length (pr_Operations ?p)" by simp
  have fam: "ChainDetails sample_canton_env 4 = Inr FamilyCanton" by simp
  from canton_set_root_executes [OF wf e sample_canton_env_documented(3,2) md fam get encoder sample_canton_lengths go run]
  obtain hash' c req' w1 tx meta pf' sigs pks sent where h: "SigningHash ?T ?p = Inr hash'" and
    s: "kc_SubmitAndWait sample_canton_client req' w1 = (Inr tx, [req])" and
    a: "crq_Argument req' = ChoiceSetRoot ''Proposer'' ''p'' (hex_encode (be_bytes 32 (mt_Root (exe_tree e)))) 99 meta pf' sent" and
    m: "canton_metadata_check sample_canton_env (mt_Root (exe_tree e)) meta pf'" "crm_PreOpCount meta = 0" "crm_PostOpCount meta = 1"
    and k: "mset sigs = {#sample_signature#}" "canton_keys_of ?T sample_canton_client hash' sigs pks sent"
    using t by (auto simp: canton_role_String_def canton_role_defs sample_canton_metadata_def ops_on_def)
  from s have "req' = req" by (simp add: sample_canton_client_def)
  moreover from k(1) have "sigs = [sample_signature]" by simp
  with k(2) obtain pk c where "RecoverPublicKey ?T sample_signature hash' = Inr pk" "sent = [c]" "csg_PublicKey c = hex_encode (4 # pk)"
    by (auto simp: canton_keys_of_def bindE_Inr_iff sample_canton_client_def)
  ultimately show ?thesis using e t h run a m by (auto simp: Let_def)
qed

text \<open>
  What was scheduled on Canton is what is executed. For a batch whose transactions name their
  targets, the timelock executor exercises the choice that executes a scheduled batch with exactly the
  calls, predecessor and salt that the converter wrote into the operation that schedules it, on the
  contract that stands for the timelock's address, and under an id whose text is the text of
  the id that the converter reported.
\<close>

theorem canton_timelock_executes_scheduled:
  assumes "canton_batch_fits S b" and "targets_named S b"
    and "cantonConvert C S md b tlAddr mcm delay TimelockActionSchedule pred salt = Inr (ops, opid)"
    and "canton_timelock_Execute C S K t b addr pred salt w = (Inr r, w')"
  shows "\<exists>op calls wire c req w1 tx targets. ops = [op] \<and>
    CantonMarshalHex S (ScheduleBatchParams calls (hex_encode (be_bytes 32 pred)) (hex_encode (be_bytes 32 salt))
      (max 0 (delay_seconds delay))) = Inr wire \<and> tx_Data (op_Transaction op) = string_bytes wire \<and>
    stands_for K w (cte_mcmsParties t) (kc_MCMSTemplateID K) (kc_HexToInstanceAddress K addr) c \<and>
    kc_SubmitAndWait K req w1 = (Inr tx, w') \<and> crq_ContractId req = cac_ContractId c \<and>
    crq_Choice req = ''ExecuteScheduledBatch'' \<and>
    crq_Argument req = ChoiceExecuteScheduledBatch (cte_submittingParty t) (hex_encode (be_bytes 32 opid)) calls
      (hex_encode (be_bytes 32 pred)) (hex_encode (be_bytes 32 salt)) targets \<and>
    length calls = length (bop_Transactions b) \<and> calls \<noteq> []"
proof -
  from assms(3) obtain op ma calls ids f d where
    op: "ops = [op]" and ident: "cantonOperationID C S b TimelockActionSchedule pred salt = Inr opid" and
    b: "buildCallsFromBatch S b = Inr (calls, ids)" and
    build: "buildTimelockOperation S b mcm ma f d ids = Inr op" and
    d: "scheduleActionData S calls (hex_encode (be_bytes 32 pred)) (hex_encode (be_bytes 32 salt)) delay = Inr (f, d)"
    by (rule canton_schedule_InrE)
  from d obtain wire where wire: "CantonMarshalHex S (ScheduleBatchParams calls (hex_encode (be_bytes 32 pred))
      (hex_encode (be_bytes 32 salt)) (max 0 (delay_seconds delay))) = Inr wire" and "d = wireToHex wire"
    by (auto simp: scheduleActionData_def bindE_Inr_iff)
  with build have data: "tx_Data (op_Transaction op) = string_bytes wire"
    by (auto simp: buildTimelockOperation_def bindE_Inr_iff wireToHex_def)
  from assms(4) obtain c input req w1 where
    c: "stands_for K w (cte_mcmsParties t) (kc_MCMSTemplateID K) (kc_HexToInstanceAddress K addr) c" and
    i: "canton_execute_batch_choice C S K t b pred salt w = Inr input" and
    req: "crq_ContractId req = cac_ContractId c" "crq_Argument req = input" "crq_Choice req = ''ExecuteScheduledBatch''" and
    s: "submit_mcms K ''submit ExecuteScheduledBatch: %w''
         ''ExecuteScheduledBatch tx had no Created MCMS event; refusing to continue with old CID=%s'' req w1 = (Inr r, w')"
    by (rule canton_timelock_Execute_Inr)
  obtain calls' ids' idt targets where b': "buildCallsFromBatch S b = Inr (calls', ids')" and
    h': "hashTimelockOpID C calls' (hex_encode (be_bytes 32 pred)) (hex_encode (be_bytes 32 salt)) = Inr idt" and
    input': "input = ChoiceExecuteScheduledBatch (cte_submittingParty t) idt calls' (hex_encode (be_bytes 32 pred))
      (hex_encode (be_bytes 32 salt)) targets" and ne: "bop_Transactions b \<noteq> []"
    by (rule canton_execute_batch_choice_Inr [OF i assms(2)])
  from b b' have "calls' = calls" by simp
  note h = h' [unfolded this] and input = input' [unfolded this]
  from buildCallsFromBatch_actions [OF b] obtain cs where cs: "canton_actions S b = Inr cs" "calls = map canton_action_call cs" by blast
  then have len: "length calls = length (bop_Transactions b)" by (auto simp: canton_actions_def dest: mapE_length)
  have fit: "go_length cs" "list_all canton_action_fits cs" using assms(1) cs len by (auto simp: canton_batch_fits_def)
  from canton_OperationID_hash [OF assms(1) ident] cs have "opid = Keccak256Hash C (canton_batch_bytes cs pred salt)" by simp
  with hashTimelockOpID_bytes [OF fit, of C pred salt] h cs(2) have "idt = hex_encode (be_bytes 32 opid)" by simp
  moreover from s obtain tx where "kc_SubmitAndWait K req w1 = (Inr tx, w')" by (rule submit_mcms_Inr)
  moreover have "calls \<noteq> []" using len ne by auto
  ultimately show ?thesis using op wire data c req input len by blast
qed

theorem canton_timelock_executes_scheduled_witness:
  "\<exists>ops opid r req calls targets. cantonConvert sample_canton_env sample_canton sample_canton_metadata sample_canton_batch ''t'' ''m'' 0
       TimelockActionSchedule 0 7 = Inr (ops, opid) \<and>
     canton_timelock_Execute sample_canton_env sample_canton sample_canton_client (canton_NewTimelockExecutor ''p'' [''p''])
       sample_canton_batch ''0x05'' 0 7 [] = (Inr r, [req]) \<and>
     crq_Argument req = ChoiceExecuteScheduledBatch ''p'' (hex_encode (be_bytes 32 opid)) calls
       (hex_encode (be_bytes 32 (0 :: hash))) (hex_encode (be_bytes 32 (7 :: hash))) targets \<and> length calls = 2"
proof -
  obtain ops opid where conv: "cantonConvert sample_canton_env sample_canton sample_canton_metadata sample_canton_batch ''t'' ''m'' 0
       TimelockActionSchedule 0 7 = Inr (ops, opid)" using sample_canton_converts by blast
  obtain r req where run: "canton_timelock_Execute sample_canton_env sample_canton sample_canton_client
       (canton_NewTimelockExecutor ''p'' [''p'']) sample_canton_batch ''0x05'' 0 7 [] = (Inr r, [req])"
    using sample_canton_timelock_runs by blast
  from canton_timelock_executes_scheduled [OF sample_canton_batch_fits sample_canton_named conv run] obtain calls req' w1 tx targets where
    "kc_SubmitAndWait sample_canton_client req' w1 = (Inr tx, [req])" "length calls = length (bop_Transactions sample_canton_batch)"
    "crq_Argument req' = ChoiceExecuteScheduledBatch ''p'' (hex_encode (be_bytes 32 opid)) calls
       (hex_encode (be_bytes 32 (0 :: hash))) (hex_encode (be_bytes 32 (7 :: hash))) targets"
    unfolding canton_NewTimelockExecutor_def canton_timelock_executor.simps by blast
  moreover from this(1) have "req' = req" by (simp add: sample_canton_client_def)
  moreover have "length (bop_Transactions sample_canton_batch) = 2" by (simp add: sample_canton_batch_def)
  ultimately show ?thesis using conv run by (intro exI conjI) auto
qed

text \<open>
  The converter falls back to the receiver of a transaction that names no target; the executor does
  not. A batch with such a transaction is executed with other calls than were scheduled.
\<close>

theorem canton_fallback_target_lost:
  assumes "execute_batch_loop S K parties w txs m = Inr (calls, m')" and "mapE (canton_batch_call S) txs = Inr xs"
    and "tx \<in> set txs" and "raw_nonempty (tx_AdditionalFields tx)"
    and "CantonFieldsUnmarshal S (tx_AdditionalFields tx) = Inr af" and "cnf_TargetInstanceAddress af = []" and "tx_To tx \<noteq> []"
  shows "calls \<noteq> map fst xs"
  using assms(1-3)
proof (induction txs arbitrary: m calls xs)
  case (Cons tx' txs)
  from Cons.prems(1) obtain af' m1 rest where af: "CantonFieldsUnmarshal S (tx_AdditionalFields tx') = Inr af'" and
    l: "execute_batch_loop S K parties w txs m1 = Inr (rest, m')" and
    calls: "calls = \<lparr>cc_TargetInstanceAddress = cnf_TargetInstanceAddress af', cc_FunctionName = cnf_FunctionName af',
      cc_OperationData = operationDataHex (tx_Data tx')\<rparr> # rest"
    by (auto simp: bindE_Inr_iff)
  from Cons.prems(2) obtain x ys where xs: "canton_batch_call S tx' = Inr x" "mapE (canton_batch_call S) txs = Inr ys" "xs = x # ys"
    by (auto simp: bindE_Inr_iff)
  show ?case
  proof (cases "tx = tx'")
    case True
    with af assms(5) have "af' = af" by simp
    with True xs(1) assms(4-7) have "cc_TargetInstanceAddress (fst x) = tx_To tx"
      by (auto simp: canton_batch_call_def Let_def)
    with \<open>af' = af\<close> assms(6,7) have "cc_TargetInstanceAddress (hd calls) \<noteq> cc_TargetInstanceAddress (hd (map fst xs))"
      by (simp add: calls xs(3))
    then show ?thesis by metis
  next
    case False
    with Cons.IH [OF l xs(2)] Cons.prems(3) show ?thesis by (simp add: calls xs(3))
  qed
qed simp

text \<open>
  C32: a configuration survives the Canton ledger. After SetConfig has returned a result for a valid
  configuration of at most 32 groups and 255 signers, on a ledger with at most one contract under the
  address, the inspector of the same role and parties finds the new contract and reads from it a
  configuration that is Equal to the one set, in both directions, and decides every quorum as it does,
  though signers travel as lower-case texts without prefix and every number as a whole number.
\<close>

theorem canton_SetConfig_GetConfig:
  assumes "casts_documented G" and "config_Validate cfg = Inr ()" and "evm_fits cfg"
    and "\<forall>a. HexToAddress G (canton_address_text G a) = a" and "\<forall>cid input. fst (kc_ExerciseCommand K cid input) = cid"
    and "\<forall>s. kc_HexToInstanceAddress K (''0x'' @ s) = kc_HexToInstanceAddress K s" and "addr \<noteq> ''0x''"
    and "at_most_one_holder K w (cco_mcmsParties c) (kc_MCMSTemplateID K) (kc_HexToInstanceAddress K addr)"
    and "canton_ledger_keeps K (cco_mcmsParties c) (kc_HexToInstanceAddress K addr)"
    and "canton_SetConfig G K c addr cfg clearRoot w = (Inr r, w')"
  shows "\<exists>cfg'. canton_GetConfig G K \<lparr>ci_mcmsParties = cco_mcmsParties c, ci_role = cco_role c\<rparr> w' addr = Inr cfg' \<and>
    config_Equals cfg cfg' \<and> config_Equals cfg' cfg \<and> (\<forall>xs. QuorumMet cfg' xs = QuorumMet cfg xs)"
proof -
  obtain b cfg' where b: "evm_ToChainConfig G cfg = Inr b" and c': "evm_ToConfig b = Inr cfg'"
    by (rule evm.stored [OF assms(1-3)])
  from b assms(1,3) have wf: "mcms_config_wf b"
    by (auto simp: evm_ToChainConfig_Inr mcms_config_wf_def Let_def length_preorder evm_fits_def)
  from assms(5) have ex: "\<And>cid input. fst (kc_ExerciseCommand K cid input) = cid" by blast
  from canton_SetConfig_Inr [OF assms(10) ex] obtain k input req u w1 tx where
    k: "stands_for K w (cco_mcmsParties c) (kc_MCMSTemplateID K) (kc_HexToInstanceAddress K addr) k" and addr: "addr \<noteq> []" and
    i: "canton_set_config_choice G (cco_role c) cfg clearRoot = Inr input" and
    s: "kc_NewUUID K w = (u, w1)" "crq_ContractId req = cac_ContractId k" "crq_Argument req = input"
      "kc_SubmitAndWait K req w1 = (Inr tx, w')" .
  from assms(4) have hex: "\<And>a. HexToAddress G (canton_address_text G a) = a" by blast
  from canton_set_config_choice_written [OF hex b i] obtain ss qs ps where
    input: "input = ChoiceSetConfig (canton_role_String (cco_role c)) ss qs ps clearRoot" and
    written: "canton_written G b \<lparr>ccf_Signers = ss, ccf_GroupQuorums = qs, ccf_GroupParents = ps\<rparr>" .
  from assms(9) stands_for_sole [OF k assms(8)] s input obtain k' m st where
    k': "holders K w' (cco_mcmsParties c) (kc_MCMSTemplateID K) (kc_HexToInstanceAddress K addr) {k'}" "kc_UnmarshalMCMS K k' = Inr m"
    "canton_slot (canton_role_String (cco_role c)) m = Some st"
    "crs_Config st = \<lparr>ccf_Signers = ss, ccf_GroupQuorums = qs, ccf_GroupParents = ps\<rparr>"
    unfolding canton_ledger_keeps_def by metis
  have "kc_HexToInstanceAddress K (TrimPrefix0x addr) = kc_HexToInstanceAddress K addr"
    using assms(6) by (auto simp: TrimPrefix0x_def prefix_def)
  moreover have "TrimPrefix0x addr \<noteq> []" using addr assms(7) by (auto simp: TrimPrefix0x_def prefix_def)
  ultimately have "GetMCMSContract K w' (cco_mcmsParties c) addr = Inr m"
    using findActiveContract_sole [OF k'(1)] k'(2) by (simp add: GetMCMSContract_def ext_def)
  moreover note canton_slot_role [OF k'(3)] k'(4)
  ultimately have
    "canton_GetConfig G K \<lparr>ci_mcmsParties = cco_mcmsParties c, ci_role = cco_role c\<rparr> w' addr = Inr cfg'"
    using canton_toConfig_written [OF assms(1) written wf c'] by (simp add: canton_GetConfig_def)
  with evm.stored_quorum(2-4) [OF assms(1-3) b c'] show ?thesis by auto
qed

theorem canton_SetConfig_GetConfig_witness:
  "let c = \<lparr>cco_mcmsParties = [''p''], cco_role = 2\<rparr> in
   \<exists>r req cfg'. canton_SetConfig sample_canton_env sample_canton_client c ''0x05'' (Config 2 [9, 4] [Config 1 [7, 3] []]) False [] =
       (Inr r, [req]) \<and>
     canton_GetConfig sample_canton_env sample_canton_client \<lparr>ci_mcmsParties = [''p''], ci_role = 2\<rparr> [req] ''0x05'' = Inr cfg' \<and>
     QuorumMet cfg' [9, 7]"
proof -
  let ?cfg = "Config 2 [9, 4] [Config 1 [7, 3] []]" and ?c = "\<lparr>cco_mcmsParties = [''p''], cco_role = 2\<rparr>"
  have v: "config_Validate ?cfg = Inr ()" and f: "evm_fits ?cfg" by (simp_all add: evm_fits_def)
  obtain b where "evm_ToChainConfig sample_canton_env ?cfg = Inr b"
    by (rule evm.stored [OF sample_canton_env_documented(1) v f])
  then obtain input where i: "canton_set_config_choice sample_canton_env 2 ?cfg False = Inr input"
    by (auto simp: evm_ToChainConfig_def canton_set_config_choice_def bindE_Inr_iff)
  have accepts: "kc_SubmitAndWait sample_canton_client req w = (Inr (Some sample_created), w @ [req])"
    if "crq_Argument req = input" for req w
  proof -
    from i obtain ss qs ps where input: "input = ChoiceSetConfig ''Proposer'' ss qs ps False"
      by (auto simp: canton_set_config_choice_def bindE_Inr_iff canton_role_String_def canton_role_defs)
    moreover have "canton_slot ''Proposer'' sample_mcms = Some sample_role_state" by (simp add: canton_slot_def sample_mcms_def)
    moreover from input have "sample_canton_config = \<lparr>ccf_Signers = ss, ccf_GroupQuorums = qs, ccf_GroupParents = ps\<rparr>"
      using i by (simp add: sample_canton_config_def)
    ultimately show ?thesis using that by (simp add: sample_canton_client_def)
  qed
  obtain r req where run: "canton_SetConfig sample_canton_env sample_canton_client ?c ''0x05'' ?cfg False [] = (Inr r, [req])"
    using i accepts sample_created_mcms
    by (auto simp: canton_SetConfig_def run_after_def submit_mcms_def ext_def tx_events_def sample_exercise)
  have keeps: "canton_ledger_keeps sample_canton_client (cco_mcmsParties ?c) (kc_HexToInstanceAddress sample_canton_client ''0x05'')"
    using sample_stored by (fastforce simp: canton_ledger_keeps_def sample_holders sample_unmarshal sample_role_state_def)
  have one: "at_most_one_holder sample_canton_client [] (cco_mcmsParties ?c) (kc_MCMSTemplateID sample_canton_client)
      (kc_HexToInstanceAddress sample_canton_client ''0x05'')" by (simp add: sample_one_holder)
  have hex: "\<forall>a. HexToAddress sample_canton_env (canton_address_text sample_canton_env a) = a"
    using hex_text_no_prefix' by (simp add: canton_address_text_def to_lower_hex from_be_bytes)
  have ex: "\<forall>cid input. fst (kc_ExerciseCommand sample_canton_client cid input) = cid" by (simp add: sample_exercise)
  have trim: "\<forall>s. kc_HexToInstanceAddress sample_canton_client (''0x'' @ s) = kc_HexToInstanceAddress sample_canton_client s" by simp
  from canton_SetConfig_GetConfig [OF sample_canton_env_documented(1) v f hex ex trim _ one keeps run] obtain cfg' where
    "canton_GetConfig sample_canton_env sample_canton_client \<lparr>ci_mcmsParties = [''p''], ci_role = 2\<rparr> [req] ''0x05'' = Inr cfg'"
    "QuorumMet cfg' [9, 7] = QuorumMet ?cfg [9, 7]" by auto
  moreover have "QuorumMet ?cfg [9, 7]" by code_simp
  ultimately show ?thesis using run by (auto simp: Let_def)
qed

end
