(* ===== verification/Leaves.thy ===== *)
theory Leaves
  imports AptosExecution CantonExecution
begin

text \<open>
  The leaves of one tree come from chains of several families. Aptos, Sui and Canton hash theirs with
  the same function; the domain separators of the six kinds of leaf keep them apart.
\<close>

section \<open>Leaves of three families\<close>

datatype leaf_source =
    AptosSource aptos_encoder chain_metadata "(u32 \<times> operation) option"
  | SuiSource sui_encoder chain_metadata "(u32 \<times> operation) option"
  | CantonSource canton_encoder chain_metadata "(u32 \<times> operation) option"

datatype family_leaf = AptosLeaf move_leaf | SuiLeaf move_leaf | CantonLeaf canton_leaf

fun source_leaf ::
  "'a aptos_pkg_scheme \<Rightarrow> 's sui_pkg_scheme \<Rightarrow> 'k canton_pkg_scheme \<Rightarrow> leaf_source \<Rightarrow> family_leaf res" where
  "source_leaf A S K (AptosSource e md x) = bindE (apt_leaf A e md x) (\<lambda>l. Inr (AptosLeaf l))"
| "source_leaf A S K (SuiSource e md x) = bindE (sui_leaf S e md x) (\<lambda>l. Inr (SuiLeaf l))"
| "source_leaf A S K (CantonSource e md x) = bindE (canton_leaf_of K e md x) (\<lambda>l. Inr (CantonLeaf l))"

fun source_hash ::
  "'c crypto_pkg_scheme \<Rightarrow> 'a aptos_pkg_scheme \<Rightarrow> 's sui_pkg_scheme \<Rightarrow> 'k canton_pkg_scheme \<Rightarrow> leaf_source \<Rightarrow> hash res" where
  "source_hash C A S K (AptosSource e md x) = apt_leaf_hash C A e md x"
| "source_hash C A S K (SuiSource e md x) = sui_leaf_hash C S e md x"
| "source_hash C A S K (CantonSource e md x) = canton_leaf_hash C K e md x"

text \<open>Lengths that Go and the formats have room for.\<close>

fun source_fits :: "'a aptos_pkg_scheme \<Rightarrow> 's sui_pkg_scheme \<Rightarrow> leaf_source \<Rightarrow> bool" where
  "source_fits A S (AptosSource e md x) \<longleftrightarrow> (case x of None \<Rightarrow> True | Some (n, op) \<Rightarrow> apt_op_fits A (op_Transaction op))"
| "source_fits A S (SuiSource e md x) \<longleftrightarrow> (case x of None \<Rightarrow> True | Some (n, op) \<Rightarrow> sui_op_fits S (op_Transaction op))"
| "source_fits A S (CantonSource e md x) \<longleftrightarrow>
     (case x of None \<Rightarrow> True | Some (n, op) \<Rightarrow> go_length (tx_Data (op_Transaction op)))"

fun leaf_bytes :: "'c crypto_pkg_scheme \<Rightarrow> family_leaf \<Rightarrow> byte list" where
  "leaf_bytes C (AptosLeaf l) = move_leaf_bytes (apt_separators C) l"
| "leaf_bytes C (SuiLeaf l) = move_leaf_bytes (sui_separators C) l"
| "leaf_bytes C (CantonLeaf l) = canton_leaf_bytes (canton_separators C) l"

section \<open>Domain separators\<close>

fun separator_text :: "family_leaf \<Rightarrow> string" where
  "separator_text (AptosLeaf (OpLeaf _ _ _ _ _ _ _ _)) = ''MANY_CHAIN_MULTI_SIG_DOMAIN_SEPARATOR_OP_APTOS''"
| "separator_text (AptosLeaf (MetadataLeaf _ _ _ _ _ _)) = ''MANY_CHAIN_MULTI_SIG_DOMAIN_SEPARATOR_METADATA_APTOS''"
| "separator_text (SuiLeaf (OpLeaf _ _ _ _ _ _ _ _)) = ''MANY_CHAIN_MULTI_SIG_DOMAIN_SEPARATOR_OP_SUI''"
| "separator_text (SuiLeaf (MetadataLeaf _ _ _ _ _ _)) = ''MANY_CHAIN_MULTI_SIG_DOMAIN_SEPARATOR_METADATA_SUI''"
| "separator_text (CantonLeaf (CantonOpLeaf _ _ _ _ _ _)) = ''MANY_CHAIN_MULTI_SIG_DOMAIN_SEPARATOR_OP_CANTON''"
| "separator_text (CantonLeaf (CantonMetadataLeaf _ _ _ _ _)) = ''MANY_CHAIN_MULTI_SIG_DOMAIN_SEPARATOR_METADATA_CANTON''"

definition separator_texts :: "string list" where
  "separator_texts =
     [''MANY_CHAIN_MULTI_SIG_DOMAIN_SEPARATOR_OP_APTOS'', ''MANY_CHAIN_MULTI_SIG_DOMAIN_SEPARATOR_METADATA_APTOS'',
      ''MANY_CHAIN_MULTI_SIG_DOMAIN_SEPARATOR_OP_SUI'', ''MANY_CHAIN_MULTI_SIG_DOMAIN_SEPARATOR_METADATA_SUI'',
      ''MANY_CHAIN_MULTI_SIG_DOMAIN_SEPARATOR_OP_CANTON'', ''MANY_CHAIN_MULTI_SIG_DOMAIN_SEPARATOR_METADATA_CANTON'']"

text \<open>Two of the six texts with the same hash.\<close>

definition separators_collide :: "'c crypto_pkg_scheme \<Rightarrow> bool" where
  "separators_collide C \<longleftrightarrow>
     list_ex (\<lambda>s. list_ex (\<lambda>s'. s \<noteq> s' \<and> Keccak256Hash C (string_bytes s) = Keccak256Hash C (string_bytes s')) separator_texts)
       separator_texts"

lemma separators_collideI:
  "s \<in> set separator_texts \<Longrightarrow> s' \<in> set separator_texts \<Longrightarrow> s \<noteq> s' \<Longrightarrow>
     Keccak256Hash C (string_bytes s) = Keccak256Hash C (string_bytes s') \<Longrightarrow> separators_collide C"
  by (auto simp: separators_collide_def list_ex_iff)

lemma separator_text_listed: "separator_text l \<in> set separator_texts"
  by (cases l rule: separator_text.cases) (simp_all add: separator_texts_def)

lemma leaf_bytes_separator:
  "\<exists>r. leaf_bytes C l = be_bytes 32 (Keccak256Hash C (string_bytes (separator_text l))) @ r"
  by (cases l rule: separator_text.cases)
    (simp_all add: move_op_bytes_def move_metadata_bytes_def apt_separators_def sui_separators_def canton_separators_def)

lemma pair_collision:
  shows "fst (apt_separators C) = snd (apt_separators C) \<Longrightarrow> separators_collide C"
    and "fst (sui_separators C) = snd (sui_separators C) \<Longrightarrow> separators_collide C"
    and "fst (canton_separators C) = snd (canton_separators C) \<Longrightarrow> separators_collide C"
  unfolding apt_separators_def sui_separators_def canton_separators_def fst_conv snd_conv
  by (erule separators_collideI [rotated 3]; simp add: separator_texts_def)+

lemma separator_families:
  "separator_text (AptosLeaf m) \<noteq> separator_text (SuiLeaf m')"
  "separator_text (AptosLeaf m) \<noteq> separator_text (CantonLeaf k)"
  "separator_text (SuiLeaf m) \<noteq> separator_text (CantonLeaf k)"
  by (cases m; cases m'; cases k; simp)+

fun leaf_fits :: "family_leaf \<Rightarrow> bool" where
  "leaf_fits (CantonLeaf l) = canton_leaf_fits l"
| "leaf_fits _ = True"

lemma leaf_bytes_inject:
  assumes "leaf_bytes C l = leaf_bytes C l'" and "leaf_fits l" and "leaf_fits l'"
  shows "l = l' \<or> separators_collide C"
proof (cases "separator_text l = separator_text l'")
  case False
  from leaf_bytes_separator [of C l] leaf_bytes_separator [of C l'] assms(1)
  have "Keccak256Hash C (string_bytes (separator_text l)) = Keccak256Hash C (string_bytes (separator_text l'))"
    by (auto simp: append_eq_append_conv be_bytes_inject)
  from separators_collideI [OF separator_text_listed separator_text_listed False this] show ?thesis ..
next
  case True
  show ?thesis
  proof (cases l; cases l')
    fix m m' assume "l = AptosLeaf m" "l' = AptosLeaf m'"
    with assms(1) show ?thesis using move_leaf_bytes_inject [of "apt_separators C" m m'] pair_collision(1) by auto
  next
    fix m m' assume "l = SuiLeaf m" "l' = SuiLeaf m'"
    with assms(1) show ?thesis using move_leaf_bytes_inject [of "sui_separators C" m m'] pair_collision(2) by auto
  next
    fix m m' assume "l = CantonLeaf m" "l' = CantonLeaf m'"
    with assms show ?thesis using canton_leaf_bytes_inject [of m m' "canton_separators C"] pair_collision(3) by auto
  qed (use True separator_families in \<open>auto dest: sym\<close>)
qed

lemma source_hash_leaf:
  assumes "bcs_documented A" and "bcs_documented S" and "canton_lengths K" and "source_fits A S x"
    and "source_hash C A S K x = Inr h"
  shows "\<exists>l. source_leaf A S K x = Inr l \<and> leaf_fits l \<and> h = Keccak256Hash C (leaf_bytes C l)"
proof (cases x)
  case (AptosSource e md y)
  with assms(4) have "\<forall>n op. y = Some (n, op) \<longrightarrow> apt_op_fits A (op_Transaction op)" by auto
  from apt_leaf_hash_Inr [OF assms(1) this, of C e md h] assms(5) show ?thesis by (auto simp: AptosSource)
next
  case (SuiSource e md y)
  with assms(4) have "\<forall>n op. y = Some (n, op) \<longrightarrow> sui_op_fits S (op_Transaction op)" by auto
  from sui_leaf_hash_Inr [OF assms(2) this, of C e md h] assms(5) show ?thesis by (auto simp: SuiSource)
next
  case (CantonSource e md y)
  with assms(4) have fits: "\<forall>n op. y = Some (n, op) \<longrightarrow> go_length (tx_Data (op_Transaction op))" by auto
  from canton_leaf_hash_Inr [OF assms(3) fits, of C e md h] assms(5) obtain l where
    "canton_leaf_of K e md y = Inr l" "h = Keccak256Hash C (canton_leaf_bytes (canton_separators C) l)"
    by (auto simp: CantonSource)
  with canton_leaf_of_fits [OF assms(3) this(1) fits] show ?thesis by (simp add: CantonSource)
qed

section \<open>Properties\<close>

text \<open>
  C26: no leaf of a tree can be passed off as another, across chains of Aptos, Sui and Canton. Two
  leaves with the same hash, each the hash of an operation with its nonce or of the metadata of
  a chain, belong to the same family, are of the same kind and agree in every part that is
  hashed (role, chain, contract, nonce or op counts, target, function, data); or two of the six domain
  separators, or the two byte strings that were hashed, are a collision of keccak.
\<close>

theorem family_leaves_binding:
  assumes "bcs_documented A" and "bcs_documented S" and "canton_lengths K"
    and "source_fits A S x" and "source_fits A S x'"
    and "source_hash C A S K x = Inr h" and "source_hash C A S K x' = Inr h"
  shows "\<exists>l l'. source_leaf A S K x = Inr l \<and> source_leaf A S K x' = Inr l' \<and>
    (l = l' \<or> separators_collide C \<or>
     leaf_bytes C l \<noteq> leaf_bytes C l' \<and> Keccak256Hash C (leaf_bytes C l) = h \<and> Keccak256Hash C (leaf_bytes C l') = h)"
proof -
  from source_hash_leaf [OF assms(1-4,6)] obtain l where l: "source_leaf A S K x = Inr l" "leaf_fits l"
    "h = Keccak256Hash C (leaf_bytes C l)" by blast
  from source_hash_leaf [OF assms(1-3,5,7)] obtain l' where l': "source_leaf A S K x' = Inr l'" "leaf_fits l'"
    "h = Keccak256Hash C (leaf_bytes C l')" by blast
  from leaf_bytes_inject [of C l l'] l l' show ?thesis by auto
qed

theorem family_leaves_binding_witness:
  "let op = \<lparr>op_ChainSelector = 4, op_Transaction = sample_canton_tx\<rparr>;
       x = CantonSource \<lparr>cne_ChainSelector = 4, cne_TxCount = 1, cne_OverridePreviousRoot = False\<rparr> sample_canton_metadata
             (Some (0, op)) in
   \<exists>h l. source_hash sample_canton_env sample_aptos sample_sui sample_canton x = Inr h \<and>
     source_leaf sample_aptos sample_sui sample_canton x = Inr l \<and>
     l = CantonLeaf (CantonOpLeaf 1 ''mcms@p-proposer'' 0 ''token@p'' ''Mint'' [1, 2])"
proof -
  let ?e = "\<lparr>cne_ChainSelector = 4, cne_TxCount = 1, cne_OverridePreviousRoot = False\<rparr>"
  let ?op = "\<lparr>op_ChainSelector = 4, op_Transaction = sample_canton_tx\<rparr>"
  let ?x = "CantonSource ?e sample_canton_metadata (Some (0, ?op))"
  have "canton_fields_Validate sample_canton_fields = Inr ()" by code_simp
  then have leaf: "source_leaf sample_aptos sample_sui sample_canton ?x =
      Inr (CantonLeaf (CantonOpLeaf 1 ''mcms@p-proposer'' 0 ''token@p'' ''Mint'' [1, 2]))"
    by (simp add: sample_canton_root_def) (simp add: sample_canton_fields_def sample_canton_tx_def)
  have fits: "source_fits sample_aptos sample_sui ?x" by (simp add: sample_canton_tx_def)
  have "canton_leaf_of sample_canton ?e sample_canton_metadata (Some (0, ?op)) =
      Inr (CantonOpLeaf 1 ''mcms@p-proposer'' 0 ''token@p'' ''Mint'' [1, 2])"
    using leaf by (auto simp: bindE_Inr_iff simp del: canton_leaf_of.simps)
  then have "\<exists>h. canton_leaf_hash sample_canton_env sample_canton ?e sample_canton_metadata (Some (0, ?op)) = Inr h"
    using fits by (subst canton_leaf_hash_Inr [OF sample_canton_lengths]) (auto simp del: canton_leaf_of.simps)
  then obtain h where h: "source_hash sample_canton_env sample_aptos sample_sui sample_canton ?x = Inr h" by auto
  from family_leaves_binding [OF sample_aptos_documented sample_sui_documented(1) sample_canton_lengths fits fits h h] leaf h
  show ?thesis by (auto simp: Let_def)
qed

end
