(* ===== verification/Ton.thy ===== *)
theory Ton
  imports HexText TimelockProposal EvmConfig
begin

text \<open>
  The TON side of a proposal: \<open>sdk/ton/encoder.go\<close>, \<open>transaction.go\<close>, \<open>timelock_converter.go\<close> and
  \<open>config_transformer.go\<close>. Contracts on TON hash and exchange cells. The types of cells, builders,
  dictionaries and addresses are type variables; what is done with them, the TL-B encoding of the
  bindings' structs included, are the functions of the record \<open>ton_pkg\<close>.
\<close>

section \<open>Data\<close>

record ('a, 'c) ton_op =
  top_ChainID :: int
  top_MultiSig :: 'a
  top_Nonce :: u64
  top_To :: 'a
  top_Data :: 'c
  top_Value :: int

record 'a ton_root_metadata =
  trm_ChainID :: int
  trm_MultiSig :: 'a
  trm_PreOpCount :: u64
  trm_PostOpCount :: u64
  trm_OverridePreviousRoot :: bool

record ('a, 'c) ton_call =
  tcl_Target :: 'a
  tcl_Data :: 'c
  tcl_Value :: int

record ton_signature =
  tsg_V :: u8
  tsg_R :: int
  tsg_S :: int

text \<open>The structs whose cells are made with \<open>tlb.ToCell\<close>; the first argument of a message is its query id.\<close>

datatype ('a, 'c, 'd) ton_struct =
    TonOp "('a, 'c) ton_op"
  | TonRootMetadata "'a ton_root_metadata"
  | TonSigner mcms_signer
  | TonOperationBatch "('a, 'c) ton_call list" hash hash
  | TonScheduleBatch u64 "('a, 'c) ton_call list" hash hash u32
  | TonCancel u64 hash
  | TonBypasserExecuteBatch u64 "('a, 'c) ton_call list"
  | TonExecuteBatch u64 "('a, 'c) ton_call list" hash hash
  | TonExecute u64 "('a, 'c) ton_op" "hash list"
  | TonSetRoot u64 hash u64 "'a ton_root_metadata" "hash list" "ton_signature list"
  | TonSetConfig u64 "address list" "u8 list" 'd 'd bool
  | TonUpdateDelay u64 u32

record ton_fields =
  tf_ContractTypeFull :: string
  tf_Value :: "int option"

text \<open>
  \<open>TonFieldsUnmarshal\<close> has the value that the struct holds before the text is read; \<open>FromNanoTON\<close>
  is given a pointer that may be nil. \<open>LoadSigner\<close> reads a signer with its 160-bit address.
\<close>

record ('a, 'c, 'b, 'd) ton_pkg =
  TonChainIdFromSelector :: "chain_selector \<Rightarrow> int res"
  ParseAddr :: "string \<Rightarrow> 'a res"
  AddrString :: "'a \<Rightarrow> string"
  FromBOC :: "byte list \<Rightarrow> 'c res"
  ToBOC :: "'c \<Rightarrow> byte list"
  SliceToCell :: "'c \<Rightarrow> 'c res"
  ToCell :: "('a, 'c, 'd) ton_struct \<Rightarrow> 'c res"
  LoadSigner :: "'c \<Rightarrow> mcms_signer res"
  LoadUInt :: "nat \<Rightarrow> 'c \<Rightarrow> u64 res"
  CellHash :: "'c \<Rightarrow> byte list"
  BeginCell :: 'b
  StoreBigUInt :: "int \<Rightarrow> nat \<Rightarrow> 'b \<Rightarrow> 'b res"
  StoreUInt :: "u64 \<Rightarrow> nat \<Rightarrow> 'b \<Rightarrow> 'b"
  StoreRef :: "'c \<Rightarrow> 'b \<Rightarrow> 'b res"
  StoreBuilder :: "'b \<Rightarrow> 'b \<Rightarrow> 'b res"
  ToBuilder :: "'c \<Rightarrow> 'b"
  EndCell :: "'b \<Rightarrow> 'c"
  NewDict :: "nat \<Rightarrow> 'd"
  SetIntKey :: "int \<Rightarrow> 'c \<Rightarrow> 'd \<Rightarrow> 'd res"
  LoadAll :: "'d \<Rightarrow> (int \<times> 'c) list res"
  NewDictFromDictionary :: "'d \<Rightarrow> 'd res"
  AsDictionary :: "'d \<Rightarrow> 'd res"
  NewDictFromSlice :: "u8 list \<Rightarrow> 'd res"
  TonFieldsUnmarshal :: "raw \<Rightarrow> int option \<Rightarrow> ton_fields res"
  FromNanoTON :: "int option \<Rightarrow> int res"
  TonFieldsMarshal :: "ton_fields \<Rightarrow> raw res"
  TonSeparatorOp :: hash
  TonSeparatorMetadata :: hash
  FloatToUint32 :: "int \<Rightarrow> u32"
  TonSha256 :: "byte list \<Rightarrow> byte list"
  TonShortMCMS :: string
  TonTypeMCMS :: string
  TonShortTimelock :: string
  TonTypeTimelock :: string

section \<open>Transactions\<close>

definition ton_fields_Validate :: "ton_fields \<Rightarrow> unit res" where
  "ton_fields_Validate f =
     (case tf_Value f of
        None \<Rightarrow> Inl (Errorf ''invalid TON value: %v'')
      | Some v \<Rightarrow> if v < 0 then Inl (Errorf ''invalid TON value: %v'') else Inr ())"

definition tonValidateAdditionalFields :: "('a, 'c, 'b, 'd) ton_pkg \<Rightarrow> raw \<Rightarrow> unit res" where
  "tonValidateAdditionalFields T additionalFields =
     bindE (if raw_nonempty additionalFields
            then wrapE (Wrapf ''failed to unmarshal TON additional fields: %w'')
                   (TonFieldsUnmarshal T additionalFields (Some 0))
            else Inr \<lparr>tf_ContractTypeFull = [], tf_Value = Some 0\<rparr>) ton_fields_Validate"

definition ton_NewTransaction ::
  "('a, 'c, 'b, 'd) ton_pkg \<Rightarrow> 'a \<Rightarrow> 'c \<Rightarrow> int \<Rightarrow> string \<Rightarrow> string \<Rightarrow> string list \<Rightarrow> transaction res" where
  "ton_NewTransaction T to body amount contractType contractFQN tags =
     bindE (wrapE (Wrapf ''failed to marshal additional fields: %w'')
              (TonFieldsMarshal T \<lparr>tf_ContractTypeFull = contractFQN, tf_Value = Some amount\<rparr>)) (\<lambda>additionalFields.
     bindE (wrapE (Wrapf ''failed to convert body to cell: %w'') (SliceToCell T body)) (\<lambda>bodyCell.
       Inr \<lparr>tx_ContractType = contractType, tx_ContractVersion = None, tx_Tags = tags, tx_To = AddrString T to,
            tx_Data = ToBOC T bodyCell, tx_AdditionalFields = additionalFields\<rparr>))"

section \<open>Encoder\<close>

record ton_encoder =
  tne_ChainSelector :: chain_selector
  tne_TxCount :: u64
  tne_OverridePreviousRoot :: bool

definition ton_chain_id :: "('a, 'c, 'b, 'd) ton_pkg \<Rightarrow> ton_encoder \<Rightarrow> int res" where
  "ton_chain_id T e =
     (case TonChainIdFromSelector T (tne_ChainSelector e) of
        Inl err \<Rightarrow> Inl (Errorf ''invalid chain ID: %v'')
      | Inr chainID \<Rightarrow> Inr chainID)"

definition ton_ToOperation ::
  "('a, 'c, 'b, 'd) ton_pkg \<Rightarrow> ton_encoder \<Rightarrow> u32 \<Rightarrow> chain_metadata \<Rightarrow> operation \<Rightarrow> ('a, 'c) ton_op res" where
  "ton_ToOperation T e opCount metadata op =
     bindE (ton_chain_id T e) (\<lambda>chainID.
     bindE (TonFieldsUnmarshal T (tx_AdditionalFields (op_Transaction op)) None) (\<lambda>additionalFields.
     bindE (wrapE (Wrapf ''invalid mcms address: %w'') (ParseAddr T (cm_MCMAddress metadata))) (\<lambda>mcmsAddr.
     bindE (wrapE (Wrapf ''invalid to address: %w'') (ParseAddr T (tx_To (op_Transaction op)))) (\<lambda>toAddr.
     bindE (wrapE (Wrapf ''invalid cell BOC data: %w'') (FromBOC T (tx_Data (op_Transaction op)))) (\<lambda>datac.
     bindE (FromNanoTON T (tf_Value additionalFields)) (\<lambda>amount.
       Inr \<lparr>top_ChainID = chainID, top_MultiSig = mcmsAddr, top_Nonce = ucast opCount, top_To = toAddr, top_Data = datac,
            top_Value = amount\<rparr>))))))"

definition ton_ToRootMetadata ::
  "('a, 'c, 'b, 'd) ton_pkg \<Rightarrow> ton_encoder \<Rightarrow> chain_metadata \<Rightarrow> 'a ton_root_metadata res" where
  "ton_ToRootMetadata T e metadata =
     bindE (ton_chain_id T e) (\<lambda>chainID.
     bindE (wrapE (Wrapf ''invalid mcms address: %w'') (ParseAddr T (cm_MCMAddress metadata))) (\<lambda>mcmsAddr.
       Inr \<lparr>trm_ChainID = chainID, trm_MultiSig = mcmsAddr, trm_PreOpCount = cm_StartingOpCount metadata,
            trm_PostOpCount = cm_StartingOpCount metadata + tne_TxCount e,
            trm_OverridePreviousRoot = tne_OverridePreviousRoot e\<rparr>))"

text \<open>\<open>copy(hash[:], c.Hash()[:32])\<close>, which panics on a shorter hash.\<close>

definition ton_cell_hash :: "('a, 'c, 'b, 'd) ton_pkg \<Rightarrow> 'c \<Rightarrow> hash res" where
  "ton_cell_hash T c =
     (if length (CellHash T c) < 32 then Inl (Panic ''slice bounds out of range'')
      else Inr (from_be (take 32 (CellHash T c))))"

text \<open>The leaf of an operation refers to its cell, the leaf of metadata contains the bits of theirs.\<close>

definition ton_op_hash :: "('a, 'c, 'b, 'd) ton_pkg \<Rightarrow> ('a, 'c) ton_op \<Rightarrow> hash res" where
  "ton_op_hash T opBind =
     bindE (wrapE (Wrapf ''failed to encode op: %w'') (ToCell T (TonOp opBind))) (\<lambda>opCell.
     bindE (wrapE (Wrapf ''failed to store domain separator: %w'')
              (StoreBigUInt T (uint (TonSeparatorOp T)) 256 (BeginCell T))) (\<lambda>b.
     bindE (wrapE (Wrapf ''failed to store op cell ref: %w'') (StoreRef T opCell b)) (\<lambda>b.
       ton_cell_hash T (EndCell T b))))"

definition ton_HashOperation ::
  "('a, 'c, 'b, 'd) ton_pkg \<Rightarrow> ton_encoder \<Rightarrow> u32 \<Rightarrow> chain_metadata \<Rightarrow> operation \<Rightarrow> hash res" where
  "ton_HashOperation T e opCount metadata op =
     bindE (wrapE (Wrapf ''failed to convert operation: %w'') (ton_ToOperation T e opCount metadata op)) (ton_op_hash T)"

definition ton_metadata_hash :: "('a, 'c, 'b, 'd) ton_pkg \<Rightarrow> 'a ton_root_metadata \<Rightarrow> hash res" where
  "ton_metadata_hash T rm =
     bindE (wrapE (Wrapf ''failed to encode op: %w'') (ToCell T (TonRootMetadata rm))) (\<lambda>metaCell.
     bindE (wrapE (Wrapf ''failed to store domain separator: %w'')
              (StoreBigUInt T (uint (TonSeparatorMetadata T)) 256 (BeginCell T))) (\<lambda>b.
     bindE (wrapE (Wrapf ''failed to store metadata bytes: %w'') (StoreBuilder T (ToBuilder T metaCell) b)) (\<lambda>b.
       ton_cell_hash T (EndCell T b))))"

definition ton_HashMetadata ::
  "('a, 'c, 'b, 'd) ton_pkg \<Rightarrow> ton_encoder \<Rightarrow> chain_metadata \<Rightarrow> hash res" where
  "ton_HashMetadata T e metadata =
     bindE (wrapE (Wrapf ''failed to convert to root metadata: %w'') (ton_ToRootMetadata T e metadata)) (ton_metadata_hash T)"

definition ton_NewEncoder_of :: "('a, 'c, 'b, 'd) ton_pkg \<Rightarrow> chain_selector \<Rightarrow> u64 \<Rightarrow> bool \<Rightarrow> encoder" where
  "ton_NewEncoder_of T csel txCount overridePreviousRoot =
     (let e = \<lparr>tne_ChainSelector = csel, tne_TxCount = txCount, tne_OverridePreviousRoot = overridePreviousRoot\<rparr> in
      \<lparr>enc_HashOperation = ton_HashOperation T e, enc_HashMetadata = ton_HashMetadata T e\<rparr>)"

definition ton_ToSignature :: "signature \<Rightarrow> ton_signature" where
  "ton_ToSignature s =
     \<lparr>tsg_V = (if sig_V s < 2 then sig_V s + 27 else sig_V s), tsg_R = uint (sig_R s), tsg_S = uint (sig_S s)\<rparr>"

definition ton_ToSignatures :: "signature list \<Rightarrow> ton_signature list" where
  "ton_ToSignatures ss = map ton_ToSignature ss"

section \<open>Timelock converter\<close>

definition ton_batch_call :: "('a, 'c, 'b, 'd) ton_pkg \<Rightarrow> transaction \<Rightarrow> ('a, 'c) ton_call res" where
  "ton_batch_call T tx =
     bindE (wrapE (Wrapf ''failed to unmarshal TON additional fields: %w'')
              (TonFieldsUnmarshal T (tx_AdditionalFields tx) None)) (\<lambda>additionalFields.
     bindE (wrapE (Wrapf ''invalid target address: %w'') (ParseAddr T (tx_To tx))) (\<lambda>to.
     bindE (wrapE (Wrapf ''invalid cell BOC data: %w'') (FromBOC T (tx_Data tx))) (\<lambda>datac.
     bindE (FromNanoTON T (tf_Value additionalFields)) (\<lambda>amount.
       Inr \<lparr>tcl_Target = to, tcl_Data = datac, tcl_Value = amount\<rparr>))))"

definition ton_ConvertBatchToCalls :: "('a, 'c, 'b, 'd) ton_pkg \<Rightarrow> batch_operation \<Rightarrow> ('a, 'c) ton_call list res" where
  "ton_ConvertBatchToCalls T bop = mapE (ton_batch_call T) (bop_Transactions bop)"

text \<open>\<open>common.BytesToHash\<close> keeps the last 32 bytes.\<close>

definition ton_HashOperationBatch ::
  "('a, 'c, 'b, 'd) ton_pkg \<Rightarrow> ('a, 'c) ton_call list \<Rightarrow> hash \<Rightarrow> hash \<Rightarrow> hash res" where
  "ton_HashOperationBatch T calls predecessor salt =
     bindE (wrapE (Wrapf ''failed to encode OperationBatch: %w'') (ToCell T (TonOperationBatch calls predecessor salt))) (\<lambda>ob.
       Inr (from_be (CellHash T ob)))"

definition tonOperationID :: "('a, 'c, 'b, 'd) ton_pkg \<Rightarrow> operation_id" where
  "tonOperationID T batchOp action predecessor salt =
     bindE (wrapE (Wrapf ''failed to convert batch to calls: %w'') (ton_ConvertBatchToCalls T batchOp)) (\<lambda>calls.
       ton_HashOperationBatch T calls predecessor salt)"

text \<open>
  \<open>uint32(delay.Seconds())\<close>: the fraction is cut off; what the conversion does with a value out of range
  depends on the processor.
\<close>

definition ton_seconds :: "('a, 'c, 'b, 'd) ton_pkg \<Rightarrow> int \<Rightarrow> u32" where
  "ton_seconds T delay =
     (let s = delay_seconds delay in if 0 \<le> s \<and> s < 2 ^ 32 then word_of_int s else FloatToUint32 T s)"

definition ton_action_data ::
  "('a, 'c, 'b, 'd) ton_pkg \<Rightarrow> timelock_action \<Rightarrow> ('a, 'c) ton_call list \<Rightarrow> hash \<Rightarrow> hash \<Rightarrow> int \<Rightarrow> hash \<Rightarrow> 'c res" where
  "ton_action_data T action calls predecessor salt delay operationID =
     (case action of
        TimelockActionSchedule \<Rightarrow>
          wrapE (Wrapf ''failed to encode timelock action data: %w'')
            (ToCell T (TonScheduleBatch 0 calls predecessor salt (ton_seconds T delay)))
      | TimelockActionCancel \<Rightarrow>
          wrapE (Wrapf ''failed to encode timelock action data: %w'') (ToCell T (TonCancel 0 operationID))
      | TimelockActionBypass \<Rightarrow>
          wrapE (Wrapf ''failed to encode timelock action data: %w'') (ToCell T (TonBypasserExecuteBatch 0 calls))
      | OtherAction a \<Rightarrow> Inl (InvalidTimelockOperationError a))"

definition tonConvert :: "('a, 'c, 'b, 'd) ton_pkg \<Rightarrow> int \<Rightarrow> converter" where
  "tonConvert T amount metadata bop timelockAddress mcmAddress delay action predecessor salt =
     bindE (wrapE (Wrapf ''failed to convert batch to calls: %w'') (ton_ConvertBatchToCalls T bop)) (\<lambda>calls.
     let tags = concat (map tx_Tags (bop_Transactions bop)) in
     bindE (ton_HashOperationBatch T calls predecessor salt) (\<lambda>operationID.
     bindE (ton_action_data T action calls predecessor salt delay operationID) (\<lambda>data.
     bindE (wrapE (Wrapf ''invalid timelock address: %w'') (ParseAddr T timelockAddress)) (\<lambda>dstAddr.
     bindE (wrapE (Wrapf ''failed to create transaction: %w'')
              (ton_NewTransaction T dstAddr data amount (TonShortTimelock T) (TonTypeTimelock T) tags)) (\<lambda>tx.
       Inr ([\<lparr>op_ChainSelector = bop_ChainSelector bop, op_Transaction = tx\<rparr>], operationID))))))"

section \<open>Config transformer\<close>

record 'd ton_config =
  tcf_Signers :: 'd
  tcf_GroupQuorums :: 'd
  tcf_GroupParents :: 'd

definition dict_of :: "('a, 'c, 'b, 'd) ton_pkg \<Rightarrow> string \<Rightarrow> (nat \<times> 'c) list \<Rightarrow> 'd res" where
  "dict_of T err entries =
     foldE (\<lambda>d (i, c). wrapE (Wrapf err) (SetIntKey T (int i) c d)) (NewDict T 8) entries"

text \<open>The entries of the groups up to the highest that has a signer; \<open>uint8(i)\<close> does not wrap below 32.\<close>

definition group_entries :: "('a, 'c, 'b, 'd) ton_pkg \<Rightarrow> u8 \<Rightarrow> u8 list \<Rightarrow> (nat \<times> 'c) list" where
  "group_entries T groupMax gs =
     map (\<lambda>(i, g). (i, EndCell T (StoreUInt T (ucast g) 8 (BeginCell T))))
       (filter (\<lambda>(i, g). word_of_nat i \<le> groupMax) (enumerate 0 gs))"

definition ton_group_max :: "u8 list \<Rightarrow> u8" where
  "ton_group_max gs = foldl (\<lambda>m v. if v > m then v else m) 0 gs"

definition ton_ToChainConfig :: "('a, 'c, 'b, 'd) ton_pkg \<Rightarrow> 'x cast_pkg_scheme \<Rightarrow> config \<Rightarrow> 'd ton_config res" where
  "ton_ToChainConfig T X cfg =
     bindE (wrapE (Wrapf ''unable to extract set config inputs: %w'') (ExtractSetConfigInputs X cfg))
       (\<lambda>(quorums, parents, addrs, groups).
     if length addrs > 255 then Inl (TooManySignersError (word_of_nat (length addrs)))
     else
       let groupMax = ton_group_max groups; signers = bind_signers 0 addrs groups in
       bindE (foldE (\<lambda>d (i, s).
                 bindE (wrapE (Wrapf ''unable to encode signer %d: %w'') (ToCell T (TonSigner s))) (\<lambda>sc.
                   wrapE (Wrapf ''unable to dict.set signer %d: %w'') (SetIntKey T (int i) sc d)))
                (NewDict T 8) (enumerate 0 signers)) (\<lambda>signersDict.
       bindE (dict_of T ''unable to dict.set group quorum %d: %w'' (group_entries T groupMax quorums)) (\<lambda>gqDict.
       bindE (dict_of T ''unable to dict.set group parent %d: %w'' (group_entries T groupMax parents)) (\<lambda>gpDict.
       bindE (wrapE (Wrapf ''unable to create signers dict: %w'') (NewDictFromDictionary T signersDict)) (\<lambda>s.
       bindE (wrapE (Wrapf ''unable to create group quorums dict: %w'') (NewDictFromDictionary T gqDict)) (\<lambda>q.
       bindE (wrapE (Wrapf ''unable to create group parents dict: %w'') (NewDictFromDictionary T gpDict)) (\<lambda>p.
         Inr \<lparr>tcf_Signers = s, tcf_GroupQuorums = q, tcf_GroupParents = p\<rparr>)))))))"

text \<open>The loop that fills an array of 32 from the values of a dictionary, by their position, not their key.\<close>

fun fill_groups :: "('a, 'c, 'b, 'd) ton_pkg \<Rightarrow> string \<Rightarrow> nat \<Rightarrow> (int \<times> 'c) list \<Rightarrow> u8 list \<Rightarrow> u8 list res" where
  "fill_groups T err i [] arr = Inr arr"
| "fill_groups T err i ((k, c) # kvs) arr =
     bindE (wrapE (Wrapf err) (LoadUInt T 8 c)) (\<lambda>val.
       if i < length arr then fill_groups T err (Suc i) kvs (arr[i := ucast val])
       else Inl (Panic ''index out of range''))"

definition ton_ToConfig :: "('a, 'c, 'b, 'd) ton_pkg \<Rightarrow> 'd ton_config \<Rightarrow> config res" where
  "ton_ToConfig T cfg =
     bindE (wrapE (Wrapf ''unable to get signers as Dictionary: %w'') (AsDictionary T (tcf_Signers cfg))) (\<lambda>signersDict.
     bindE (wrapE (Wrapf ''unable to load signers: %w'') (LoadAll T signersDict)) (\<lambda>kvSigners.
     bindE (mapE (\<lambda>(k, c). wrapE (Wrapf ''unable to decode signer: %w'') (LoadSigner T c)) kvSigners) (\<lambda>signers.
     bindE (wrapE (Wrapf ''unable to get group quorums as Dictionary: %w'') (AsDictionary T (tcf_GroupQuorums cfg))) (\<lambda>qDict.
     bindE (wrapE (Wrapf ''unable to load all group quorums: %w'') (LoadAll T qDict)) (\<lambda>kvGroupQuorums.
     bindE (fill_groups T ''unable to load group quorum value: %w'' 0 kvGroupQuorums (replicate 32 0)) (\<lambda>groupQuorums.
     bindE (wrapE (Wrapf ''unable to get group parents as Dictionary: %w'') (AsDictionary T (tcf_GroupParents cfg))) (\<lambda>pDict.
     bindE (wrapE (Wrapf ''unable to load group parents: %w'') (LoadAll T pDict)) (\<lambda>kvGroupParents.
     bindE (fill_groups T ''unable to load group parent value: %w'' 0 kvGroupParents (replicate 32 0)) (\<lambda>groupParents.
       evm_ToConfig \<lparr>mc_Signers = signers, mc_GroupQuorums = groupQuorums, mc_GroupParents = groupParents\<rparr>)))))))))"

section \<open>The family wired into the dispatch\<close>

lemma ton_convert_InrE:
  assumes "tonConvert T amount md b tlAddr mcm delay action pred salt = Inr (ops, h)"
  obtains calls body dst tx where "ton_ConvertBatchToCalls T b = Inr calls" "ton_HashOperationBatch T calls pred salt = Inr h"
    "tonOperationID T b action pred salt = Inr h" "ton_action_data T action calls pred salt delay h = Inr body"
    "ParseAddr T tlAddr = Inr dst"
    "ton_NewTransaction T dst body amount (TonShortTimelock T) (TonTypeTimelock T) (concat (map tx_Tags (bop_Transactions b))) = Inr tx"
    "ops = [\<lparr>op_ChainSelector = bop_ChainSelector b, op_Transaction = tx\<rparr>]"
  using assms by (auto simp: tonConvert_def tonOperationID_def Let_def bindE_Inr_iff)

interpretation ton_family: family_converter "tonConvert T amount" "tonOperationID T" for T amount
  by unfold_locales (auto elim: ton_convert_InrE)

text \<open>\<open>chainwrappers/converters.go\<close> makes the converter with \<open>ton.DefaultSendAmount\<close>, 0.15 TON.\<close>

definition ton_DefaultSendAmount :: int where "ton_DefaultSendAmount = 150000000"

definition with_ton :: "('a, 'c, 'b, 'd) ton_pkg \<Rightarrow> 'e mcms_env_scheme \<Rightarrow> 'e mcms_env_scheme" where
  "with_ton T E = E\<lparr>ton_NewEncoder := ton_NewEncoder_of T, ton_OperationID := tonOperationID T,
     ton_Convert := tonConvert T ton_DefaultSendAmount, ton_ValidateAdditionalFields := tonValidateAdditionalFields T\<rparr>"

lemma with_ton_sel [simp]:
  "ton_NewEncoder (with_ton T E) = ton_NewEncoder_of T"
  "ton_OperationID (with_ton T E) = tonOperationID T"
  "ton_Convert (with_ton T E) = tonConvert T ton_DefaultSendAmount"
  "ton_ValidateAdditionalFields (with_ton T E) = tonValidateAdditionalFields T"
  "ChainDetails (with_ton T E) = ChainDetails E"
  "Keccak256Hash (with_ton T E) = Keccak256Hash E"
  by (simp_all add: with_ton_def)

lemma with_ton_newEncoder:
  "ChainDetails E sel = Inr FamilyTon \<Longrightarrow>
     newEncoder (with_ton T E) sel n ov sim = Inr (Some (ton_NewEncoder_of T sel n ov))"
  by (simp add: newEncoder_def GetChainSelectorFamily_def supportedFamilies_def)

lemma ton_NewEncoder_methods:
  "enc_HashOperation (ton_NewEncoder_of T sel n ov) =
     ton_HashOperation T \<lparr>tne_ChainSelector = sel, tne_TxCount = n, tne_OverridePreviousRoot = ov\<rparr>"
  "enc_HashMetadata (ton_NewEncoder_of T sel n ov) =
     ton_HashMetadata T \<lparr>tne_ChainSelector = sel, tne_TxCount = n, tne_OverridePreviousRoot = ov\<rparr>"
  by (simp_all add: ton_NewEncoder_of_def Let_def)

end
