(* ===== verification/TonClient.thy ===== *)
theory TonClient
  imports Ton EvmClient
begin

text \<open>
  The TON implementations of the interfaces that talk to a chain: \<open>sdk/ton/common.go\<close>, \<open>executor.go\<close>,
  \<open>configurer.go\<close>, \<open>timelock_configurer.go\<close>, \<open>timelock_executor.go\<close>, \<open>inspector.go\<close> and
  \<open>timelock_inspector.go\<close>. The lite client, the wallet and the clock are a record of functions on the
  world; getters look at it, sending and waiting return the next one, errors are texts.
\<close>

section \<open>The chain\<close>

record ('a, 'c) ton_message =
  tmg_PayGasSeparately :: bool
  tmg_IgnoreErrors :: bool
  tmg_IHRDisabled :: bool
  tmg_Bounce :: bool
  tmg_DstAddr :: 'a
  tmg_Amount :: int
  tmg_Body :: 'c

record ton_tx =
  ttx_Hash :: "byte list"

datatype ton_raw = TonSent ton_tx | TonPrepared transaction

text \<open>
  Wallets are pointers. \<open>tk_AwaitTick\<close> waits for a ticker of a number of nanoseconds or the end of
  the context, whichever comes first: the error of the context or none.
\<close>

record ('a, 'c, 'd, 'k, 'w) ton_client =
  tk_RandomQueryID :: "'w \<Rightarrow> (string + u64) \<times> 'w"
  tk_SendWaitTransaction :: "nat \<Rightarrow> ('a, 'c) ton_message \<Rightarrow> 'w \<Rightarrow> (string + ton_tx) \<times> 'w"
  tk_AwaitTick :: "int \<Rightarrow> 'w \<Rightarrow> string option \<times> 'w"
  tk_CurrentMasterchainInfo :: "'w \<Rightarrow> string + 'k"
  tk_GetBlockData :: "'k \<Rightarrow> 'w \<Rightarrow> string + u32"
  tk_MCMSOpPendingInfo :: "'k \<Rightarrow> 'a \<Rightarrow> 'w \<Rightarrow> string + u64"
  tk_TimelockOpPendingInfo :: "'k \<Rightarrow> 'a \<Rightarrow> 'w \<Rightarrow> string + u64"
  tk_GetConfig :: "'a \<Rightarrow> 'w \<Rightarrow> string + 'd ton_config"
  tk_GetOpCount :: "'a \<Rightarrow> 'w \<Rightarrow> string + u64"
  tk_GetRoot :: "'a \<Rightarrow> 'w \<Rightarrow> string + (int \<times> u32)"
  tk_GetRootMetadata :: "'a \<Rightarrow> 'w \<Rightarrow> string + 'a ton_root_metadata"
  tk_GetMinDelay :: "'a \<Rightarrow> 'w \<Rightarrow> string + u64"
  tk_GetRoleMembers :: "'a \<Rightarrow> int \<Rightarrow> 'w \<Rightarrow> string + 'a list"
  tk_IsOperation :: "'a \<Rightarrow> int \<Rightarrow> 'w \<Rightarrow> string + bool"
  tk_IsOperationPending :: "'a \<Rightarrow> int \<Rightarrow> 'w \<Rightarrow> string + bool"
  tk_IsOperationReady :: "'a \<Rightarrow> int \<Rightarrow> 'w \<Rightarrow> string + bool"
  tk_IsOperationDone :: "'a \<Rightarrow> int \<Rightarrow> 'w \<Rightarrow> string + bool"
  tk_IsOperationError :: "'a \<Rightarrow> int \<Rightarrow> 'w \<Rightarrow> string + bool"
  tk_RoleAdmin :: hash
  tk_RoleProposer :: hash
  tk_RoleExecutor :: hash
  tk_RoleBypasser :: hash
  tk_RoleCanceller :: hash
  tk_RoleOracle :: hash

section \<open>Sending\<close>

record ('a, 'c) ton_tx_opts =
  tto_Wallet :: nat
  tto_DstAddr :: 'a
  tto_Amount :: int
  tto_Body :: 'c

definition ton_message_of :: "('a, 'c) ton_tx_opts \<Rightarrow> ('a, 'c) ton_message" where
  "ton_message_of opts =
     \<lparr>tmg_PayGasSeparately = True, tmg_IgnoreErrors = True, tmg_IHRDisabled = True, tmg_Bounce = True,
      tmg_DstAddr = tto_DstAddr opts, tmg_Amount = tto_Amount opts, tmg_Body = tto_Body opts\<rparr>"

definition ton_SendTx ::
  "('a, 'c, 'd, 'k, 'w) ton_client \<Rightarrow> ('a, 'c) ton_tx_opts \<Rightarrow> 'w \<Rightarrow> ton_raw transaction_result res \<times> 'w" where
  "ton_SendTx K opts w =
     (case tk_SendWaitTransaction K (tto_Wallet opts) (ton_message_of opts) w of (r, w') \<Rightarrow>
       (bindE (wrapE (Wrapf ''failed to send transaction: %w'') (ext r)) (\<lambda>tx.
          Inr \<lparr>tr_Hash = hex_encode (ttx_Hash tx), tr_ChainFamily = Some FamilyTon, tr_RawData = Some (TonSent tx)\<rparr>), w'))"

definition ton_DefaultWaitBuffer :: "64 word" where "ton_DefaultWaitBuffer = 250000000"

text \<open>\<open>time.Duration(validAfter-now)*time.Second + buffer\<close>, on wrapping 64-bit integers.\<close>

definition wait_duration :: "u64 \<Rightarrow> u64 \<Rightarrow> 64 word \<Rightarrow> 64 word" where
  "wait_duration now validAfter buffer = (validAfter - now) * 1000000000 + buffer"

text \<open>A ticker panics unless its interval is positive.\<close>

definition ton_SendTxAfter ::
  "('a, 'c, 'd, 'k, 'w) ton_client \<Rightarrow> ('a, 'c) ton_tx_opts \<Rightarrow> u64 \<Rightarrow> u64 \<Rightarrow> 64 word \<Rightarrow> bool \<Rightarrow> 'w \<Rightarrow>
     ton_raw transaction_result res \<times> 'w" where
  "ton_SendTxAfter K opts now validAfter buffer wait w =
     (if now \<ge> validAfter then ton_SendTx K opts w
      else if \<not> wait
      then (Inl (Errorf ''pending operation not final: operation is not yet valid to be executed (valid after %d, now %d)''), w)
      else
        let waitDuration = sint (wait_duration now validAfter buffer) in
        if waitDuration \<le> 0 then (Inl (Panic ''non-positive interval for NewTicker''), w)
        else case tk_AwaitTick K waitDuration w of
               (None, w') \<Rightarrow> ton_SendTx K opts w'
             | (Some e, w') \<Rightarrow> (Inl (Wrapf ''context done while waiting to send transaction: %w'' (External e)), w'))"

definition deterministicPreparedQueryID :: "('a, 'c, 'b, 'd) ton_pkg \<Rightarrow> 'a \<Rightarrow> string \<Rightarrow> 'c \<Rightarrow> u64" where
  "deterministicPreparedQueryID T dst operation body =
     (let sum = TonSha256 T (string_bytes (AddrString T dst) @ [0] @ string_bytes operation @ [0] @ CellHash T body);
          qID = from_be (take 8 sum) in
      if qID = 0 then 1 else qID)"

section \<open>Executor\<close>

text \<open>An executor holds any encoder; only the one of this package has the methods that are asserted.\<close>

datatype ton_any_encoder = TonEncoder ton_encoder | ForeignEncoder

record ('a, 'c, 'd, 'k, 'w) ton_executor =
  txe_Encoder :: ton_any_encoder
  txe_client :: "('a, 'c, 'd, 'k, 'w) ton_client"
  txe_wallet :: nat
  txe_amount :: int
  txe_wait :: bool

record ('a, 'c, 'd, 'k, 'w) ton_executor_opts =
  txo_Encoder :: "ton_any_encoder option"
  txo_Client :: "('a, 'c, 'd, 'k, 'w) ton_client option"
  txo_Wallet :: "nat option"
  txo_Amount :: int
  txo_WaitPending :: "bool option"

definition ton_NewExecutor :: "('a, 'c, 'd, 'k, 'w) ton_executor_opts \<Rightarrow> ('a, 'c, 'd, 'k, 'w) ton_executor res" where
  "ton_NewExecutor opts =
     (case txo_Encoder opts of
        None \<Rightarrow> Inl (Errorf ''failed to create sdk.Executor - encoder (sdk.Encoder) is nil'')
      | Some encoder \<Rightarrow>
     (case txo_Client opts of
        None \<Rightarrow> Inl (Errorf ''failed to create sdk.Executor - client (ton.APIClientWrapped) is nil'')
      | Some client \<Rightarrow>
     (case txo_Wallet opts of
        None \<Rightarrow> Inl (Errorf ''failed to create sdk.Executor - wallet (*wallet.Wallet) is nil'')
      | Some wallet \<Rightarrow>
          Inr \<lparr>txe_Encoder = encoder, txe_client = client, txe_wallet = wallet, txe_amount = txo_Amount opts,
               txe_wait = case_option True id (txo_WaitPending opts)\<rparr>)))"

text \<open>Both executors look at the pending operation of their contract before they send.\<close>

definition ton_pending_send ::
  "('a, 'c, 'd, 'k, 'w) ton_client \<Rightarrow> ('k \<Rightarrow> 'a \<Rightarrow> 'w \<Rightarrow> string + u64) \<Rightarrow> string \<Rightarrow> ('a, 'c) ton_tx_opts \<Rightarrow> bool \<Rightarrow> 'w \<Rightarrow>
     ton_raw transaction_result res \<times> 'w" where
  "ton_pending_send K getter failed opts wait w =
     run_after (wrapE (Wrapf ''failed to get current block: %w'') (ext (tk_CurrentMasterchainInfo K w))) (\<lambda>blockID.
     run_after (wrapE (Wrapf ''failed to get block data: %w'') (ext (tk_GetBlockData K blockID w))) (\<lambda>now.
     run_after (wrapE (Wrapf failed) (ext (getter blockID (tto_DstAddr opts) w))) (\<lambda>validAfter.
       ton_SendTxAfter K opts (ucast now) validAfter ton_DefaultWaitBuffer wait))) w"

definition ton_CheckPendingSend ::
  "('a, 'c, 'd, 'k, 'w) ton_executor \<Rightarrow> 'a \<Rightarrow> 'c \<Rightarrow> 'w \<Rightarrow> ton_raw transaction_result res \<times> 'w" where
  "ton_CheckPendingSend e dstAddr body =
     ton_pending_send (txe_client e) (tk_MCMSOpPendingInfo (txe_client e)) ''failed to call mcms.GetOpPendingInfo getter: %w''
       \<lparr>tto_Wallet = txe_wallet e, tto_DstAddr = dstAddr, tto_Amount = txe_amount e, tto_Body = body\<rparr> (txe_wait e)"

definition ton_asserted :: "string \<Rightarrow> ton_any_encoder \<Rightarrow> ton_encoder res" where
  "ton_asserted failed e = (case e of TonEncoder enc \<Rightarrow> Inr enc | ForeignEncoder \<Rightarrow> Inl (Errorf failed))"

definition ton_ExecuteOperation ::
  "('a, 'c, 'b, 'd) ton_pkg \<Rightarrow> ('a, 'c, 'd, 'k, 'w) ton_executor \<Rightarrow> chain_metadata \<Rightarrow> u32 \<Rightarrow> hash list \<Rightarrow> operation \<Rightarrow>
     'w \<Rightarrow> ton_raw transaction_result res \<times> 'w" where
  "ton_ExecuteOperation T e metadata nonce pf op w =
     run_after (wrapE (Wrapf ''invalid mcms address: %w'') (ParseAddr T (cm_MCMAddress metadata))) (\<lambda>dstAddr.
     run_after (ton_asserted ''failed to assert OperationEncoder'' (txe_Encoder e)) (\<lambda>enc.
     run_after (wrapE (Wrapf ''failed to convert to operation: %w'') (ton_ToOperation T enc nonce metadata op)) (\<lambda>bindOp.
     bindW (wrapW (Wrapf ''failed to generate random query ID: %w'')
              (\<lambda>w. case tk_RandomQueryID (txe_client e) w of (r, w') \<Rightarrow> (ext r, w'))) (\<lambda>qID.
     run_after (wrapE (Wrapf ''failed to encode ExecuteBatch body: %w'') (ToCell T (TonExecute qID bindOp pf))) (\<lambda>body.
       ton_CheckPendingSend e dstAddr body))))) w"

definition ton_SetRoot ::
  "('a, 'c, 'b, 'd) ton_pkg \<Rightarrow> ('a, 'c, 'd, 'k, 'w) ton_executor \<Rightarrow> chain_metadata \<Rightarrow> hash list \<Rightarrow> hash \<Rightarrow> u32 \<Rightarrow>
     signature list \<Rightarrow> 'w \<Rightarrow> ton_raw transaction_result res \<times> 'w" where
  "ton_SetRoot T e metadata pf newRoot validUntil sortedSignatures w =
     run_after (wrapE (Wrapf ''invalid mcms address: %w'') (ParseAddr T (cm_MCMAddress metadata))) (\<lambda>dstAddr.
     run_after (ton_asserted ''failed to assert RootMetadataEncoder'' (txe_Encoder e)) (\<lambda>enc.
     run_after (wrapE (Wrapf ''failed to convert to root metadata: %w'') (ton_ToRootMetadata T enc metadata)) (\<lambda>rm.
     bindW (wrapW (Wrapf ''failed to generate random query ID: %w'')
              (\<lambda>w. case tk_RandomQueryID (txe_client e) w of (r, w') \<Rightarrow> (ext r, w'))) (\<lambda>qID.
     run_after (wrapE (Wrapf ''failed to encode ExecuteBatch body: %w'')
                  (ToCell T (TonSetRoot qID newRoot (ucast validUntil) rm pf (ton_ToSignatures sortedSignatures)))) (\<lambda>body.
       ton_CheckPendingSend e dstAddr body))))) w"

definition ton_executor_iface ::
  "('a, 'c, 'b, 'd) ton_pkg \<Rightarrow> ('a, 'c, 'd, 'k, 'w) ton_executor \<Rightarrow> (ton_raw transaction_result, 'w) executor" where
  "ton_executor_iface T e = \<lparr>ex_SetRoot = ton_SetRoot T e, ex_ExecuteOperation = ton_ExecuteOperation T e\<rparr>"

section \<open>Timelock executor\<close>

record ('a, 'c, 'd, 'k, 'w) ton_timelock_executor =
  tte_client :: "('a, 'c, 'd, 'k, 'w) ton_client"
  tte_wallet :: nat
  tte_amount :: int
  tte_wait :: bool

record ('a, 'c, 'd, 'k, 'w) ton_timelock_executor_opts =
  tteo_Client :: "('a, 'c, 'd, 'k, 'w) ton_client option"
  tteo_Wallet :: "nat option"
  tteo_Amount :: int
  tteo_WaitPending :: "bool option"

definition ton_NewTimelockExecutor ::
  "('a, 'c, 'd, 'k, 'w) ton_timelock_executor_opts \<Rightarrow> ('a, 'c, 'd, 'k, 'w) ton_timelock_executor res" where
  "ton_NewTimelockExecutor opts =
     (case tteo_Client opts of
        None \<Rightarrow> Inl (Errorf ''failed to create sdk.Executor - client (ton.APIClientWrapped) is nil'')
      | Some client \<Rightarrow>
     (case tteo_Wallet opts of
        None \<Rightarrow> Inl (Errorf ''failed to create sdk.Executor - wallet (*wallet.Wallet) is nil'')
      | Some wallet \<Rightarrow>
          Inr \<lparr>tte_client = client, tte_wallet = wallet, tte_amount = tteo_Amount opts,
               tte_wait = case_option True id (tteo_WaitPending opts)\<rparr>))"

definition ton_timelock_CheckPendingSend ::
  "('a, 'c, 'd, 'k, 'w) ton_timelock_executor \<Rightarrow> 'a \<Rightarrow> 'c \<Rightarrow> 'w \<Rightarrow> ton_raw transaction_result res \<times> 'w" where
  "ton_timelock_CheckPendingSend e dstAddr body =
     ton_pending_send (tte_client e) (tk_TimelockOpPendingInfo (tte_client e))
       ''failed to call timelock.GetOpPendingInfo getter: %w''
       \<lparr>tto_Wallet = tte_wallet e, tto_DstAddr = dstAddr, tto_Amount = tte_amount e, tto_Body = body\<rparr> (tte_wait e)"

definition ton_timelock_Execute ::
  "('a, 'c, 'b, 'd) ton_pkg \<Rightarrow> ('a, 'c, 'd, 'k, 'w) ton_timelock_executor \<Rightarrow> batch_operation \<Rightarrow> string \<Rightarrow> hash \<Rightarrow> hash \<Rightarrow>
     'w \<Rightarrow> ton_raw transaction_result res \<times> 'w" where
  "ton_timelock_Execute T e bop timelockAddress predecessor salt w =
     run_after (wrapE (Wrapf ''invalid timelock address: %w'') (ParseAddr T timelockAddress)) (\<lambda>dstAddr.
     run_after (wrapE (Wrapf ''failed to convert batch to calls: %w'') (ton_ConvertBatchToCalls T bop)) (\<lambda>calls.
     bindW (wrapW (Wrapf ''failed to generate random query ID: %w'')
              (\<lambda>w. case tk_RandomQueryID (tte_client e) w of (r, w') \<Rightarrow> (ext r, w'))) (\<lambda>qID.
     run_after (wrapE (Wrapf ''failed to encode ExecuteBatch body: %w'')
                  (ToCell T (TonExecuteBatch qID calls predecessor salt))) (\<lambda>body.
       ton_timelock_CheckPendingSend e dstAddr body)))) w"

section \<open>Configurers\<close>

record ton_configurer =
  tcg_wallet :: nat
  tcg_amount :: int
  tcg_skipSend :: bool

text \<open>
  A message that is only prepared gets a query id that is computed from the message with query id
  zero; one that is sent gets a random one.
\<close>

definition ton_query_id ::
  "('a, 'c, 'b, 'd) ton_pkg \<Rightarrow> ('a, 'c, 'd, 'k, 'w) ton_client \<Rightarrow> bool \<Rightarrow> string \<Rightarrow> 'a \<Rightarrow> string \<Rightarrow>
     (u64 \<Rightarrow> ('a, 'c, 'd) ton_struct) \<Rightarrow> 'w \<Rightarrow> u64 res \<times> 'w" where
  "ton_query_id T K skipSend failed dstAddr operation msg w =
     (if skipSend
      then (bindE (wrapE (Wrapf failed) (ToCell T (msg 0))) (\<lambda>body.
              Inr (deterministicPreparedQueryID T dstAddr operation body)), w)
      else wrapW (Wrapf ''failed to generate random query ID: %w'')
             (\<lambda>w. case tk_RandomQueryID K w of (r, w') \<Rightarrow> (ext r, w')) w)"

definition ton_prepare_or_send ::
  "('a, 'c, 'b, 'd) ton_pkg \<Rightarrow> ('a, 'c, 'd, 'k, 'w) ton_client \<Rightarrow> ton_configurer \<Rightarrow> string \<Rightarrow> 'a \<Rightarrow> string \<Rightarrow>
     (u64 \<Rightarrow> ('a, 'c, 'd) ton_struct) \<Rightarrow> string \<Rightarrow> string \<Rightarrow> string \<Rightarrow> 'w \<Rightarrow> ton_raw transaction_result res \<times> 'w" where
  "ton_prepare_or_send T K c failed dstAddr operation msg contractType contractFQN tag =
     bindW (ton_query_id T K (tcg_skipSend c) failed dstAddr operation msg) (\<lambda>qID.
     run_after (wrapE (Wrapf failed) (ToCell T (msg qID))) (\<lambda>body.
       if tcg_skipSend c then
         run_after (wrapE (Wrapf ''error encoding transaction: %w'')
                      (ton_NewTransaction T dstAddr body (tcg_amount c) contractType contractFQN [tag])) (\<lambda>tx w.
           (Inr \<lparr>tr_Hash = [], tr_ChainFamily = Some FamilyTon, tr_RawData = Some (TonPrepared tx)\<rparr>, w))
       else ton_SendTx K \<lparr>tto_Wallet = tcg_wallet c, tto_DstAddr = dstAddr, tto_Amount = tcg_amount c, tto_Body = body\<rparr>))"

definition ton_SetConfig ::
  "('a, 'c, 'b, 'd) ton_pkg \<Rightarrow> 'x cast_pkg_scheme \<Rightarrow> ('a, 'c, 'd, 'k, 'w) ton_client \<Rightarrow> ton_configurer \<Rightarrow> string \<Rightarrow> config \<Rightarrow>
     bool \<Rightarrow> 'w \<Rightarrow> ton_raw transaction_result res \<times> 'w" where
  "ton_SetConfig T X K c mcmsAddr cfg clearRoot w =
     run_after (wrapE (Wrapf ''invalid mcms address: %w'') (ParseAddr T mcmsAddr)) (\<lambda>dstAddr.
     run_after (wrapE (Wrapf ''unable to extract set config inputs: %w'') (ExtractSetConfigInputs X cfg))
       (\<lambda>(quorums, parents, addrs, groups).
     run_after (wrapE (Wrapf ''unable to create group quorum dict: %w'') (NewDictFromSlice T quorums)) (\<lambda>gqDict.
     run_after (wrapE (Wrapf ''unable to create group parents dict: %w'') (NewDictFromSlice T parents)) (\<lambda>gpDict.
       ton_prepare_or_send T K c ''failed to encode SetConfig body: %w'' dstAddr ''MCMS:SetConfig''
         (\<lambda>qID. TonSetConfig qID addrs groups gqDict gpDict clearRoot)
         (TonShortMCMS T) (TonTypeMCMS T) ''SetConfig'')))) w"

definition ton_UpdateDelay ::
  "('a, 'c, 'b, 'd) ton_pkg \<Rightarrow> ('a, 'c, 'd, 'k, 'w) ton_client \<Rightarrow> ton_configurer \<Rightarrow> string \<Rightarrow> u64 \<Rightarrow> 'w \<Rightarrow>
     ton_raw transaction_result res \<times> 'w" where
  "ton_UpdateDelay T K c timelockAddress newDelay w =
     (if newDelay > 4294967295
      then (Inl (Errorf ''newDelay %d exceeds uint32 range supported by TON timelock''), w)
      else run_after (wrapE (Wrapf ''invalid timelock address: %w'') (ParseAddr T timelockAddress)) (\<lambda>dstAddr.
        ton_prepare_or_send T K c ''failed to encode UpdateDelay body: %w'' dstAddr ''RBACTimelock:UpdateDelay''
          (\<lambda>qID. TonUpdateDelay qID (ucast newDelay)) (TonShortTimelock T) (TonTypeTimelock T) ''UpdateDelay'') w)"

definition ton_GrantRole :: "ton_raw transaction_result res" where
  "ton_GrantRole = Inl (Panic ''not implemented'')"

section \<open>Inspectors\<close>

definition ton_at :: "('a, 'c, 'b, 'd) ton_pkg \<Rightarrow> string \<Rightarrow> string \<Rightarrow> ('a \<Rightarrow> 'r res) \<Rightarrow> 'r res" where
  "ton_at T failed addr look = bindE (wrapE (Wrapf failed) (ParseAddr T addr)) look"

definition ton_GetConfig ::
  "('a, 'c, 'b, 'd) ton_pkg \<Rightarrow> ('a, 'c, 'd, 'k, 'w) ton_client \<Rightarrow> 'w \<Rightarrow> string \<Rightarrow> config res" where
  "ton_GetConfig T K w addr =
     ton_at T ''invalid address: %w'' addr (\<lambda>a. bindE (ext (tk_GetConfig K a w)) (ton_ToConfig T))"

definition ton_GetOpCount ::
  "('a, 'c, 'b, 'd) ton_pkg \<Rightarrow> ('a, 'c, 'd, 'k, 'w) ton_client \<Rightarrow> 'w \<Rightarrow> string \<Rightarrow> u64 res" where
  "ton_GetOpCount T K w addr = ton_at T ''invalid address: %w'' addr (\<lambda>a. ext (tk_GetOpCount K a w))"

definition ton_GetRoot ::
  "('a, 'c, 'b, 'd) ton_pkg \<Rightarrow> ('a, 'c, 'd, 'k, 'w) ton_client \<Rightarrow> 'w \<Rightarrow> string \<Rightarrow> (hash \<times> u32) res" where
  "ton_GetRoot T K w addr =
     ton_at T ''invalid address: %w'' addr (\<lambda>a.
       bindE (ext (tk_GetRoot K a w)) (\<lambda>(r, validUntil). Inr (word_of_int r, validUntil)))"

text \<open>An address that does not parse is reported as it is.\<close>

definition ton_GetRootMetadata ::
  "('a, 'c, 'b, 'd) ton_pkg \<Rightarrow> ('a, 'c, 'd, 'k, 'w) ton_client \<Rightarrow> 'w \<Rightarrow> string \<Rightarrow> chain_metadata res" where
  "ton_GetRootMetadata T K w addr =
     bindE (ParseAddr T addr) (\<lambda>a.
     bindE (ext (tk_GetRootMetadata K a w)) (\<lambda>rm.
       Inr \<lparr>cm_StartingOpCount = trm_PreOpCount rm, cm_MCMAddress = addr, cm_AdditionalFields = RawEmpty\<rparr>))"

definition ton_timelock_GetMinDelay ::
  "('a, 'c, 'b, 'd) ton_pkg \<Rightarrow> ('a, 'c, 'd, 'k, 'w) ton_client \<Rightarrow> 'w \<Rightarrow> string \<Rightarrow> u64 res" where
  "ton_timelock_GetMinDelay T K w addr = ton_at T ''invalid address: %w'' addr (\<lambda>a. ext (tk_GetMinDelay K a w))"

definition ton_getRoleMembers ::
  "('a, 'c, 'b, 'd) ton_pkg \<Rightarrow> ('a, 'c, 'd, 'k, 'w) ton_client \<Rightarrow> 'w \<Rightarrow> string \<Rightarrow> hash \<Rightarrow> string list res" where
  "ton_getRoleMembers T K w addr role =
     ton_at T ''invalid timelock address: %w'' addr (\<lambda>a.
       bindE (wrapE (Wrapf ''error calling GetRoleMembersView: %w'') (ext (tk_GetRoleMembers K a (uint role) w))) (\<lambda>addresses.
         Inr (map (AddrString T) addresses)))"

definition ton_GetAdmins where "ton_GetAdmins T K w addr = ton_getRoleMembers T K w addr (tk_RoleAdmin K)"
definition ton_GetProposers where "ton_GetProposers T K w addr = ton_getRoleMembers T K w addr (tk_RoleProposer K)"
definition ton_GetExecutors where "ton_GetExecutors T K w addr = ton_getRoleMembers T K w addr (tk_RoleExecutor K)"
definition ton_GetBypassers where "ton_GetBypassers T K w addr = ton_getRoleMembers T K w addr (tk_RoleBypasser K)"
definition ton_GetCancellers where "ton_GetCancellers T K w addr = ton_getRoleMembers T K w addr (tk_RoleCanceller K)"
definition ton_GetOracles where "ton_GetOracles T K w addr = ton_getRoleMembers T K w addr (tk_RoleOracle K)"

definition ton_isOperationFor ::
  "('a, 'c, 'b, 'd) ton_pkg \<Rightarrow> ('a \<Rightarrow> int \<Rightarrow> 'w \<Rightarrow> string + bool) \<Rightarrow> 'w \<Rightarrow> string \<Rightarrow> hash \<Rightarrow> bool res" where
  "ton_isOperationFor T getter w addr opID =
     ton_at T ''invalid address: %w'' addr (\<lambda>a. ext (getter a (uint opID) w))"

definition ton_IsOperation where "ton_IsOperation T K = ton_isOperationFor T (tk_IsOperation K)"
definition ton_IsOperationPending where "ton_IsOperationPending T K = ton_isOperationFor T (tk_IsOperationPending K)"
definition ton_IsOperationReady where "ton_IsOperationReady T K = ton_isOperationFor T (tk_IsOperationReady K)"
definition ton_IsOperationDone where "ton_IsOperationDone T K = ton_isOperationFor T (tk_IsOperationDone K)"
definition ton_IsOperationError where "ton_IsOperationError T K = ton_isOperationFor T (tk_IsOperationError K)"

end
