(* ===== verification/TonExecution.thy ===== *)
theory TonExecution
  imports TonClient Executable
begin

text \<open>
  Properties of the TON side: what the configuration dictionaries hold, what the leaves bind, which
  message an executable sends and when. The hypotheses on cells and dictionaries are named first.
\<close>

section \<open>Dictionaries\<close>

text \<open>
  The cells that go into a dictionary here are a signer and a number of 8 bits. \<open>entries\<close> reads a dictionary
  with keys of 8 bits: \<open>SetIntKey\<close> adds such a cell, which is small enough for a leaf of the dictionary,
  after all those with smaller keys, \<open>LoadAll\<close> lists the entries in the order of their keys, and what was
  stored in a cell is read back.
\<close>

definition group_cell :: "('a, 'c, 'b, 'd) ton_pkg \<Rightarrow> u8 \<Rightarrow> 'c" where
  "group_cell T g = EndCell T (StoreUInt T (ucast g) 8 (BeginCell T))"

definition dict_value :: "('a, 'c, 'b, 'd) ton_pkg \<Rightarrow> 'c \<Rightarrow> bool" where
  "dict_value T c \<longleftrightarrow> (\<exists>s. ToCell T (TonSigner s) = Inr c) \<or> (\<exists>g. c = group_cell T g)"

definition ton_dicts_documented :: "('a, 'c, 'b, 'd) ton_pkg \<Rightarrow> ('d \<Rightarrow> (int \<times> 'c) list option) \<Rightarrow> bool" where
  "ton_dicts_documented T entries \<longleftrightarrow>
     entries (NewDict T 8) = Some [] \<and>
     (\<forall>d kcs k c. dict_value T c \<and> entries d = Some kcs \<and> 0 \<le> k \<and> k < 256 \<and> list_all (\<lambda>e. fst e < k) kcs \<longrightarrow>
        (\<exists>d'. SetIntKey T k c d = Inr d' \<and> entries d' = Some (kcs @ [(k, c)]))) \<and>
     (\<forall>d kcs. entries d = Some kcs \<and> list_all (\<lambda>e. dict_value T (snd e)) kcs \<longrightarrow> LoadAll T d = Inr kcs \<and>
        (\<exists>d' d''. NewDictFromDictionary T d = Inr d' \<and> AsDictionary T d' = Inr d'' \<and> entries d'' = Some kcs)) \<and>
     (\<forall>s. \<exists>c. ToCell T (TonSigner s) = Inr c \<and> LoadSigner T c = Inr s) \<and>
     (\<forall>g :: u8. LoadUInt T 8 (group_cell T g) = Inr (ucast g))"

lemma dict_set:
  assumes "ton_dicts_documented T entries" and "entries d = Some kcs" and "list_all (\<lambda>e. fst e < k) kcs" 
    and "dict_value T c" and "0 \<le> k" and "k < 256"
  obtains d' where "SetIntKey T k c d = Inr d'" and "entries d' = Some (kcs @ [(k, c)])"
  using assms unfolding ton_dicts_documented_def by blast

lemma dict_filled:
  assumes "ton_dicts_documented T entries" and "entries d = Some kcs" and "list_all (\<lambda>e. fst e < int n) kcs"
    and "n + length cs \<le> 256" and "list_all (dict_value T) cs"
  shows "\<exists>d'. foldE (\<lambda>d (i, c). wrapE (Wrapf err) (SetIntKey T (int i) c d)) d (enumerate n cs) = Inr d' \<and>
    entries d' = Some (kcs @ map (\<lambda>(i, c). (int i, c)) (enumerate n cs))"
  using assms(2-)
proof (induction cs arbitrary: d kcs n)
  case (Cons c cs)
  have "(0 :: int) \<le> int n" "int n < 256" using Cons.prems(3) by simp_all
  with assms(1) Cons.prems(1,2) Cons.prems(4) [unfolded list.pred_inject, THEN conjunct1] obtain d' where d': "SetIntKey T (int n) c d = Inr d'" "entries d' = Some (kcs @ [(int n, c)])"
    by (rule dict_set)
  have "list_all (\<lambda>e. fst e < int (Suc n)) kcs" using Cons.prems(2) by (rule list.pred_mono_strong) simp
  then have "list_all (\<lambda>e. fst e < int (Suc n)) (kcs @ [(int n, c)])" by simp
  from Cons.IH [OF d'(2) this] Cons.prems(3,4) d'(1) show ?case by simp
qed simp

lemma ton_group_max_bounds:
  "g \<in> set gs \<Longrightarrow> g \<le> ton_group_max gs"
  "\<forall>g \<in> set gs. g \<le> b \<Longrightarrow> ton_group_max gs \<le> b"
proof -
  have fold: "ton_group_max gs = foldl max 0 gs" for gs
    unfolding ton_group_max_def by (rule foldl_cong) (auto simp: max_def)
  have "g \<le> foldl max m gs" if "g \<in> set gs \<or> g \<le> m" for m using that
  proof (induction gs arbitrary: m)
    case (Cons h gs)
    then have "g \<in> set gs \<or> g \<le> max m h" by (auto intro: le_max_iff_disj [THEN iffD2])
    with Cons.IH show ?case by simp
  qed simp
  then show "g \<in> set gs \<Longrightarrow> g \<le> ton_group_max gs" by (simp add: fold)
  have "foldl max m gs \<le> b" if "\<forall>g \<in> set gs. g \<le> b" and "m \<le> b" for m using that
    by (induction gs arbitrary: m) auto
  then show "\<forall>g \<in> set gs. g \<le> b \<Longrightarrow> ton_group_max gs \<le> b" by (simp add: fold)
qed

text \<open>The highest group that has a signer is the last one of a valid tree.\<close>

lemma ton_group_max_last:
  assumes "config_Validate c = Inr ()" and "group_count c \<le> 256"
  shows "unat (ton_group_max (map snd (sort_key f (listed_signers 0 (preorder c 0 0))))) = group_count c - 1"
proof -
  let ?gs = "map snd (sort_key f (listed_signers 0 (preorder c 0 0)))" and ?n = "group_count c"
  have n: "unat (word_of_nat (?n - 1) :: u8) = ?n - 1" using assms(2) group_count_pos [of c] by (subst unat_of_nat) simp
  from last_group_signer [OF assms] obtain a where "(a, word_of_nat (?n - 1)) \<in> set (listed_signers 0 (preorder c 0 0))" ..
  then have "word_of_nat (?n - 1) \<in> set ?gs" by force
  then have "word_of_nat (?n - 1) \<le> ton_group_max ?gs" by (rule ton_group_max_bounds)
  moreover have "ton_group_max ?gs \<le> word_of_nat (?n - 1)"
  proof (rule ton_group_max_bounds, rule ballI)
    fix g assume "g \<in> set ?gs"
    then obtain s where s: "s \<in> set (listed_signers 0 (preorder c 0 0))" "g = snd s" by auto
    then have "s \<in> set (filter (\<lambda>t. unat (snd t) = unat g) (listed_signers 0 (preorder c 0 0)))" by simp
    also have "\<dots> = set (if unat g < ?n then map (\<lambda>a. (a, word_of_nat (unat g))) (snd (snd (preorder c 0 0 ! unat g))) else [])"
      using assms(2) by (subst listed_signers_group) (simp_all add: length_preorder)
    finally have "unat g < ?n" by (auto split: if_splits)
    with n show "g \<le> word_of_nat (?n - 1)" by (simp add: word_le_nat_alt del: of_nat_diff)
  qed
  ultimately have "ton_group_max ?gs = word_of_nat (?n - 1)" by (rule antisym [rotated])
  with n show ?thesis by (simp del: of_nat_diff)
qed

lemma group_entries_eq:
  assumes "unat groupMax = n - 1" and "0 < n" and "n \<le> length gs" and "length gs \<le> 256"
  shows "group_entries T groupMax gs = enumerate 0 (map (\<lambda>g. EndCell T (StoreUInt T (ucast g) 8 (BeginCell T))) (take n gs))"
proof -
  have "filter (\<lambda>(i, g). word_of_nat i \<le> groupMax) (enumerate 0 gs) = filter (\<lambda>(i, g). i < n) (enumerate 0 gs)"
  proof (rule filter_cong [OF refl], clarsimp simp: in_set_enumerate_eq)
    fix i assume "i < length gs"
    then have "unat (word_of_nat i :: u8) = i" using assms(4) by (simp add: unat_of_nat)
    with assms(1,2) show "(word_of_nat i \<le> groupMax) = (i < n)" by (auto simp: word_le_nat_alt)
  qed
  also have "\<dots> = enumerate 0 (take n gs)"
  proof -
    have "enumerate 0 gs = enumerate 0 (take n gs) @ enumerate n (drop n gs)"
      using assms(3) by (metis append_take_drop_id enumerate_append_eq length_take min.absorb2 add_0)
    moreover have "filter (\<lambda>(i, g). i < n) (enumerate 0 (take n gs)) = enumerate 0 (take n gs)"
      by (rule filter_True) (auto simp: in_set_enumerate_eq)
    moreover have "filter (\<lambda>(i, g). i < n) (enumerate n (drop n gs)) = []"
      by (rule filter_False) (auto simp: in_set_enumerate_eq)
    ultimately show ?thesis by simp
  qed
  finally show ?thesis by (simp add: group_entries_def enumerate_map_upt enumerate_eq_zip zip_map2)
qed

definition signer_cell :: "('a, 'c, 'b, 'd) ton_pkg \<Rightarrow> mcms_signer \<Rightarrow> 'c" where
  "signer_cell T s = projr (ToCell T (TonSigner s))"

lemma signer_cell:
  assumes "ton_dicts_documented T entries"
  shows "ToCell T (TonSigner s) = Inr (signer_cell T s)" and "LoadSigner T (signer_cell T s) = Inr s"
proof -
  from assms obtain c where "ToCell T (TonSigner s) = Inr c" "LoadSigner T c = Inr s"
    unfolding ton_dicts_documented_def by blast
  then show "ToCell T (TonSigner s) = Inr (signer_cell T s)" and "LoadSigner T (signer_cell T s) = Inr s"
    by (simp_all add: signer_cell_def)
qed

lemma group_cell: "ton_dicts_documented T entries \<Longrightarrow> LoadUInt T 8 (group_cell T g) = Inr (ucast g)"
  unfolding ton_dicts_documented_def by blast

lemma dict_values:
  "list_all (dict_value T) (map (group_cell T) gs)"
  "ton_dicts_documented T entries \<Longrightarrow> list_all (dict_value T) (map (signer_cell T) ss)"
  using signer_cell(1) by (auto simp: dict_value_def list_all_iff)

definition keyed :: "'c list \<Rightarrow> (int \<times> 'c) list" where
  "keyed cs = map (\<lambda>(i, c). (int i, c)) (enumerate 0 cs)"

lemma keyed_values: "list_all (\<lambda>e. dict_value T (snd e)) (keyed cs) = list_all (dict_value T) cs"
proof -
  have "list_all (\<lambda>e. dict_value T (snd e)) (map (\<lambda>(i, c). (int i, c)) (enumerate n cs)) = list_all (dict_value T) cs" for n
    by (induction cs arbitrary: n) simp_all
  then show ?thesis by (simp add: keyed_def)
qed

lemma dict_of_keyed:
  assumes "ton_dicts_documented T entries" and "length cs \<le> 256" and "list_all (dict_value T) cs"
  shows "\<exists>d. dict_of T err (enumerate 0 cs) = Inr d \<and> entries d = Some (keyed cs)"
proof -
  have "entries (NewDict T 8) = Some []" using assms(1) by (simp add: ton_dicts_documented_def)
  from dict_filled [OF assms(1) this, of 0 cs err] assms(2,3) show ?thesis by (simp add: dict_of_def keyed_def)
qed

lemma signer_dict:
  assumes "ton_dicts_documented T entries" and "length ss \<le> 256"
  shows "\<exists>d. foldE (\<lambda>d (i, s). bindE (wrapE (Wrapf e1) (ToCell T (TonSigner s))) (\<lambda>sc.
      wrapE (Wrapf e2) (SetIntKey T (int i) sc d))) (NewDict T 8) (enumerate 0 ss) = Inr d \<and>
    entries d = Some (keyed (map (signer_cell T) ss))"
proof -
  have "foldE (\<lambda>d (i, s). bindE (wrapE (Wrapf e1) (ToCell T (TonSigner s))) (\<lambda>sc.
      wrapE (Wrapf e2) (SetIntKey T (int i) sc d))) d (enumerate n ss) =
    foldE (\<lambda>d (i, c). wrapE (Wrapf e2) (SetIntKey T (int i) c d)) d (enumerate n (map (signer_cell T) ss))" for d n
    by (induction ss arbitrary: d n) (simp_all add: signer_cell(1) [OF assms(1)] bindE_def split: sum.splits)
  with dict_of_keyed [OF assms(1), of "map (signer_cell T) ss" e2] assms(2) dict_values(2) [OF assms(1)] show ?thesis by (simp add: dict_of_def)
qed

lemma signers_loaded:
  assumes "ton_dicts_documented T entries"
  shows "mapE (\<lambda>(k, c). wrapE (Wrapf e) (LoadSigner T c)) (keyed (map (signer_cell T) ss)) = Inr ss"
proof -
  have "mapE (\<lambda>(k, c). wrapE (Wrapf e) (LoadSigner T c))
      (map (\<lambda>(i, c). (int i, c)) (enumerate n (map (signer_cell T) ss))) = Inr ss" for n
    by (induction ss arbitrary: n) (simp_all add: signer_cell(2) [OF assms])
  then show ?thesis by (simp add: keyed_def)
qed

lemma groups_loaded:
  assumes "ton_dicts_documented T entries" and "length gs \<le> length arr"
  shows "fill_groups T e 0 (keyed (map (group_cell T) gs)) arr = Inr (gs @ drop (length gs) arr)"
proof -
  have "fill_groups T e k (map (\<lambda>(i, c). (int i, c)) (enumerate n (map (group_cell T) gs))) arr =
      Inr (take k arr @ gs @ drop (k + length gs) arr)" if "k + length gs \<le> length arr" for k n
    using that
  proof (induction gs arbitrary: k n arr)
    case (Cons g gs)
    then have "k < length arr" by simp
    then have "take (Suc k) (arr[k := g]) = take k arr @ [g]" "drop (Suc k + length gs) (arr[k := g]) = drop (Suc k + length gs) arr"
      by (simp_all add: take_Suc_conv_app_nth)
    with Cons.IH [of "Suc k" "arr[k := g]" "Suc n"] Cons.prems show ?case by (simp add: group_cell [OF assms(1)] ucast_up_ucast_id is_up)
  qed simp
  from this [of 0 0] assms(2) show ?thesis by (simp add: keyed_def)
qed

text \<open>
  What the chain holds is what the ManyChainMultiSig contract would: only the zeros after the last group are
  left out. \<open>ton_holds\<close> says which entries a dictionary of the configuration has.
\<close>

definition ton_holds :: "('a, 'c, 'b, 'd) ton_pkg \<Rightarrow> ('d \<Rightarrow> (int \<times> 'c) list option) \<Rightarrow> 'd \<Rightarrow> 'c list \<Rightarrow> bool" where
  "ton_holds T entries d cs \<longleftrightarrow> (\<exists>d'. AsDictionary T d = Inr d' \<and> entries d' = Some (keyed cs))"

lemma ton_ToChainConfig_evm:
  assumes T: "ton_dicts_documented T entries" and X: "casts_documented X" and valid: "config_Validate c = Inr ()"
    and fits: "evm_fits c" and b: "evm_ToChainConfig X c = Inr b"
  shows "\<exists>r. ton_ToChainConfig T X c = Inr r \<and> ton_ToConfig T r = evm_ToConfig b \<and>
    ton_holds T entries (tcf_Signers r) (map (signer_cell T) (mc_Signers b)) \<and>
    ton_holds T entries (tcf_GroupQuorums r) (map (group_cell T) (take (group_count c) (mc_GroupQuorums b))) \<and>
    ton_holds T entries (tcf_GroupParents r) (map (group_cell T) (take (group_count c) (mc_GroupParents b))) \<and>
    drop (group_count c) (mc_GroupQuorums b) = replicate (32 - group_count c) 0 \<and>
    drop (group_count c) (mc_GroupParents b) = replicate (32 - group_count c) 0"
proof -
  let ?l = "preorder c 0 0" and ?n = "group_count c"
  let ?S = "sort_key (\<lambda>s. uint (fst s)) (listed_signers 0 ?l)"
  let ?ss = "bind_signers 0 (map fst ?S) (map snd ?S)" and ?q = "map fst ?l" and ?p = "map (\<lambda>(q, p, ss). word_of_nat p) ?l :: u8 list"
  let ?fill = "replicate (32 - ?n) 0 :: u8 list" and ?max = "ton_group_max (map snd ?S)"
  from fits have n: "?n \<le> 32" and m: "length (GetAllSigners c) \<le> 255" by (simp_all add: evm_fits_def)
  have ex: "ExtractSetConfigInputs X c = Inr (?q @ ?fill, ?p @ ?fill, map fst ?S, map snd ?S)"
    using n by (simp add: ExtractSetConfigInputs_Inr [OF X] Let_def length_preorder)
  have b': "b = \<lparr>mc_Signers = ?ss, mc_GroupQuorums = ?q @ ?fill, mc_GroupParents = ?p @ ?fill\<rparr>"
    using b n m by (simp add: evm_ToChainConfig_Inr [OF X] Let_def length_preorder)
  have max: "unat ?max = ?n - 1" using n by (intro ton_group_max_last [OF valid]) simp
  have cells: "group_entries T ?max (gs @ ?fill) = enumerate 0 (map (group_cell T) gs)" if "length gs = ?n" for gs
    using that n group_count_pos [of c] group_entries_eq [OF max, of "gs @ ?fill" T] by (simp add: group_cell_def [abs_def])
  have len: "length ?ss \<le> 255" "length ?q = ?n" "length ?p = ?n" "length (listed_signers 0 ?l) \<le> 255"
    using m by (simp_all add: length_bind_signers length_listed_signers length_preorder)
  from T have dict: "entries d = Some kcs \<Longrightarrow> list_all (\<lambda>e. dict_value T (snd e)) kcs \<Longrightarrow> LoadAll T d = Inr kcs"
    "entries d = Some kcs \<Longrightarrow> list_all (\<lambda>e. dict_value T (snd e)) kcs \<Longrightarrow> \<exists>d' d''. NewDictFromDictionary T d = Inr d' \<and> AsDictionary T d' = Inr d'' \<and> entries d'' = Some kcs"
    for d kcs unfolding ton_dicts_documented_def by blast+
  note storable = keyed_values [THEN iffD2, OF dict_values(2), OF T] keyed_values [THEN iffD2, OF dict_values(1)]
  have "length ?ss \<le> 256" "length (map (group_cell T) ?q) \<le> 256" "length (map (group_cell T) ?p) \<le> 256"
    using len n by simp_all
  then obtain ds dq dp where
    ds: "foldE (\<lambda>d (i, s). bindE (wrapE (Wrapf ''unable to encode signer %d: %w'') (ToCell T (TonSigner s))) (\<lambda>sc.
      wrapE (Wrapf ''unable to dict.set signer %d: %w'') (SetIntKey T (int i) sc d))) (NewDict T 8) (enumerate 0 ?ss) = Inr ds"
      "entries ds = Some (keyed (map (signer_cell T) ?ss))" and
    dq: "dict_of T ''unable to dict.set group quorum %d: %w'' (enumerate 0 (map (group_cell T) ?q)) = Inr dq" "entries dq = Some (keyed (map (group_cell T) ?q))" and
    dp: "dict_of T ''unable to dict.set group parent %d: %w'' (enumerate 0 (map (group_cell T) ?p)) = Inr dp" "entries dp = Some (keyed (map (group_cell T) ?p))"
    using signer_dict [OF T, of ?ss] dict_of_keyed [OF T _ dict_values(1)] by meson
  obtain ds' ds'' where s: "NewDictFromDictionary T ds = Inr ds'" "AsDictionary T ds' = Inr ds''" "entries ds'' = Some (keyed (map (signer_cell T) ?ss))"
    using dict(2) [OF ds(2) storable(1)] by blast
  obtain dq' dq'' where q: "NewDictFromDictionary T dq = Inr dq'" "AsDictionary T dq' = Inr dq''" "entries dq'' = Some (keyed (map (group_cell T) ?q))"
    using dict(2) [OF dq(2) storable(2)] by blast
  obtain dp' dp'' where p: "NewDictFromDictionary T dp = Inr dp'" "AsDictionary T dp' = Inr dp''" "entries dp'' = Some (keyed (map (group_cell T) ?p))"
    using dict(2) [OF dp(2) storable(2)] by blast
  let ?r = "\<lparr>tcf_Signers = ds', tcf_GroupQuorums = dq', tcf_GroupParents = dp'\<rparr>"
  have "ton_ToChainConfig T X c = Inr ?r"
    using ds(1) dq(1) dp(1) s(1) q(1) p(1) len cells by (simp add: ton_ToChainConfig_def ex Let_def)
  moreover have "ton_ToConfig T ?r = evm_ToConfig b"
    using n len(2,3) groups_loaded [OF T, of ?q "replicate 32 0"] groups_loaded [OF T, of ?p "replicate 32 0"]
    by (simp add: ton_ToConfig_def s(2) q(2) p(2) dict(1) [OF s(3) storable(1)] dict(1) [OF q(3) storable(2)] dict(1) [OF p(3) storable(2)] signers_loaded [OF T] b')
  moreover have "ton_holds T entries ds' (map (signer_cell T) (mc_Signers b))"
    "ton_holds T entries dq' (map (group_cell T) (take ?n (mc_GroupQuorums b)))"
    "ton_holds T entries dp' (map (group_cell T) (take ?n (mc_GroupParents b)))"
    using s q p len(2,3) by (simp_all add: ton_holds_def b')
  moreover have "drop ?n (mc_GroupQuorums b) = ?fill" "drop ?n (mc_GroupParents b) = ?fill" using len(2,3) by (simp_all add: b')
  ultimately show ?thesis by (intro exI [of _ ?r]) simp
qed

interpretation ton_transformer: config_transformer "\<lambda>X. casts_documented X \<and> ton_dicts_documented T entries"
  "ton_ToChainConfig T" "ton_ToConfig T" evm_fits for T entries
proof
  fix X :: "'x cast_pkg_scheme" and c r c'
  assume X: "casts_documented X \<and> ton_dicts_documented T entries" and c: "config_Validate c = Inr ()" "evm_fits c"
  with evm.writes obtain b where "evm_ToChainConfig X c = Inr b" by blast
  with ton_ToChainConfig_evm X c show "\<exists>r. ton_ToChainConfig T X c = Inr r" by blast
next
  fix X :: "'x cast_pkg_scheme" and c r
  assume X: "casts_documented X \<and> ton_dicts_documented T entries" and c: "config_Validate c = Inr ()" "evm_fits c"
    and r: "ton_ToChainConfig T X c = Inr r"
  with evm.writes obtain b where b: "evm_ToChainConfig X c = Inr b" by blast
  from evm.reads_back [of X c b] X c b obtain c' where "evm_ToConfig b = Inr c'" "config_abs c' = config_abs c" by blast
  with ton_ToChainConfig_evm [of T entries X c b] X c b r show "\<exists>c'. ton_ToConfig T r = Inr c' \<and> config_abs c' = config_abs c"
    by auto
next
  fix r c' assume "ton_ToConfig T r = Inr c'"
  then show "config_Validate c' = Inr ()" by (auto simp: ton_ToConfig_def bindE_Inr_iff dest: evm_ToConfig_valid)
qed

section \<open>Leaves\<close>

text \<open>
  \<open>view\<close> gives the bits and references that a builder holds; the cell it ends in keeps them. The cell of a
  struct determines its fields, of an address its workchain and account, which \<open>place\<close> gives.
\<close>

definition ton_bits :: "nat \<Rightarrow> int \<Rightarrow> bool list" where
  "ton_bits n v = map (bit v) (rev [0..<n])"

datatype ('c, 'p) ton_leaf =
    TonOpLeaf int 'p u64 'p 'c int
  | TonMetadataLeaf int 'p u64 u64 bool

definition op_leaf :: "('a \<Rightarrow> 'p) \<Rightarrow> ('a, 'c) ton_op \<Rightarrow> ('c, 'p) ton_leaf" where
  "op_leaf place x =
     TonOpLeaf (top_ChainID x) (place (top_MultiSig x)) (top_Nonce x) (place (top_To x)) (top_Data x) (top_Value x)"

definition metadata_leaf_of :: "('a \<Rightarrow> 'p) \<Rightarrow> 'a ton_root_metadata \<Rightarrow> ('c, 'p) ton_leaf" where
  "metadata_leaf_of place x =
     TonMetadataLeaf (trm_ChainID x) (place (trm_MultiSig x)) (trm_PreOpCount x) (trm_PostOpCount x) (trm_OverridePreviousRoot x)"

definition ton_cells_documented ::
  "('a, 'c, 'b, 'd) ton_pkg \<Rightarrow> ('b \<Rightarrow> bool list \<times> 'c list) \<Rightarrow> ('a \<Rightarrow> 'p) \<Rightarrow> bool" where
  "ton_cells_documented T view place \<longleftrightarrow>
     view (BeginCell T) = ([], []) \<and>
     (\<forall>v n b b'. StoreBigUInt T v n b = Inr b' \<longrightarrow> view b' = (fst (view b) @ ton_bits n v, snd (view b))) \<and>
     (\<forall>c b b'. StoreRef T c b = Inr b' \<longrightarrow> view b' = (fst (view b), snd (view b) @ [c])) \<and>
     (\<forall>a b b'. StoreBuilder T a b = Inr b' \<longrightarrow> view b' = (fst (view b) @ fst (view a), snd (view b) @ snd (view a))) \<and>
     (\<forall>c c'. view (ToBuilder T c) = view (ToBuilder T c') \<longrightarrow> c = c') \<and>
     (\<forall>b b'. EndCell T b = EndCell T b' \<longrightarrow> view b = view b') \<and>
     (\<forall>x x' c. ToCell T (TonOp x) = Inr c \<and> ToCell T (TonOp x') = Inr c \<longrightarrow>
        (op_leaf place x :: ('c, 'p) ton_leaf) = op_leaf place x') \<and>
     (\<forall>x x' c. ToCell T (TonRootMetadata x) = Inr c \<and> ToCell T (TonRootMetadata x') = Inr c \<longrightarrow>
        (metadata_leaf_of place x :: ('c, 'p) ton_leaf) = metadata_leaf_of place x')"

fun ton_leaf_of ::
  "('a, 'c, 'b, 'd) ton_pkg \<Rightarrow> ('a \<Rightarrow> 'p) \<Rightarrow> ton_encoder \<Rightarrow> chain_metadata \<Rightarrow> (u32 \<times> operation) option \<Rightarrow> ('c, 'p) ton_leaf res" where
  "ton_leaf_of T place e md (Some (n, op)) = bindE (ton_ToOperation T e n md op) (\<lambda>x. Inr (op_leaf place x))"
| "ton_leaf_of T place e md None = bindE (ton_ToRootMetadata T e md) (\<lambda>x. Inr (metadata_leaf_of place x))"

fun ton_leaf_hash :: "('a, 'c, 'b, 'd) ton_pkg \<Rightarrow> ton_encoder \<Rightarrow> chain_metadata \<Rightarrow> (u32 \<times> operation) option \<Rightarrow> hash res" where
  "ton_leaf_hash T e md (Some (n, op)) = ton_HashOperation T e n md op"
| "ton_leaf_hash T e md None = ton_HashMetadata T e md"

text \<open>The bits and references of a leaf, given the cell of its struct.\<close>

fun leaf_view ::
  "('a, 'c, 'b, 'd) ton_pkg \<Rightarrow> ('b \<Rightarrow> bool list \<times> 'c list) \<Rightarrow> ('c, 'p) ton_leaf \<Rightarrow> 'c \<Rightarrow> bool list \<times> 'c list" where
  "leaf_view T view (TonOpLeaf _ _ _ _ _ _) c = (ton_bits 256 (uint (TonSeparatorOp T)), [c])"
| "leaf_view T view (TonMetadataLeaf _ _ _ _ _) c =
     (ton_bits 256 (uint (TonSeparatorMetadata T)) @ fst (view (ToBuilder T c)), snd (view (ToBuilder T c)))"

definition cell_key :: "('a, 'c, 'b, 'd) ton_pkg \<Rightarrow> 'c \<Rightarrow> hash" where
  "cell_key T c = from_be (take 32 (CellHash T c))"

lemma ton_cell_laws:
  fixes T :: "('a, 'c, 'b, 'd) ton_pkg" and place :: "'a \<Rightarrow> 'p"
  assumes "ton_cells_documented T view place"
  shows "view (BeginCell T) = ([], [])"
    and "StoreBigUInt T v n b = Inr b' \<Longrightarrow> view b' = (fst (view b) @ ton_bits n v, snd (view b))"
    and "StoreRef T c b = Inr b' \<Longrightarrow> view b' = (fst (view b), snd (view b) @ [c])"
    and "StoreBuilder T a b = Inr b' \<Longrightarrow> view b' = (fst (view b) @ fst (view a), snd (view b) @ snd (view a))"
    and "view (ToBuilder T c) = view (ToBuilder T c') \<Longrightarrow> c = c'"
    and "EndCell T b = EndCell T b' \<Longrightarrow> view b = view b'"
    and "ToCell T (TonOp x) = Inr c \<Longrightarrow> ToCell T (TonOp x') = Inr c \<Longrightarrow> (op_leaf place x :: ('c, 'p) ton_leaf) = op_leaf place x'"
    and "ToCell T (TonRootMetadata m) = Inr c \<Longrightarrow> ToCell T (TonRootMetadata m') = Inr c \<Longrightarrow>
      (metadata_leaf_of place m :: ('c, 'p) ton_leaf) = metadata_leaf_of place m'"
  using assms unfolding ton_cells_documented_def by blast+

lemma ton_cell_hash_Inr: "ton_cell_hash T c = Inr h \<Longrightarrow> h = cell_key T c"
  by (simp add: ton_cell_hash_def cell_key_def split: if_splits)

lemma ton_bits_inject: "ton_bits 256 (uint (a :: hash)) @ r = ton_bits 256 (uint b) @ r' \<longleftrightarrow> a = b \<and> r = r'"
proof -
  have "a = b" if "map (bit (uint a)) (rev [0..<256]) = map (bit (uint b)) (rev [0..<256])"
  proof (rule bit_word_eqI)
    fix n assume "n < LENGTH(256)"
    with that show "bit a n = bit b n" by (auto simp: bit_uint_iff)
  qed
  then show ?thesis by (auto simp: ton_bits_def append_eq_append_conv)
qed

text \<open>What a leaf is the hash of.\<close>

lemma ton_op_hash_cell:
  assumes "ton_cells_documented T view place" and "ton_op_hash T x = Inr h"
  shows "\<exists>c b. ToCell T (TonOp x) = Inr c \<and> h = cell_key T (EndCell T b) \<and> view b = leaf_view T view (op_leaf place x) c"
proof -
  from assms(2) obtain c b b' where c: "ToCell T (TonOp x) = Inr c"
    and b: "StoreBigUInt T (uint (TonSeparatorOp T)) 256 (BeginCell T) = Inr b" "StoreRef T c b = Inr b'"
    and h: "ton_cell_hash T (EndCell T b') = Inr h" by (auto simp: ton_op_hash_def bindE_Inr_iff)
  have "view b' = (ton_bits 256 (uint (TonSeparatorOp T)), [c])"
    by (simp add: ton_cell_laws(3) [OF assms(1) b(2)] ton_cell_laws(2) [OF assms(1) b(1)] ton_cell_laws(1) [OF assms(1)])
  then have "view b' = leaf_view T view (op_leaf place x) c" by (simp add: op_leaf_def)
  with c ton_cell_hash_Inr [OF h] show ?thesis by blast
qed

lemma ton_metadata_hash_cell:
  assumes "ton_cells_documented T view place" and "ton_metadata_hash T x = Inr h"
  shows "\<exists>c b. ToCell T (TonRootMetadata x) = Inr c \<and> h = cell_key T (EndCell T b) \<and>
    view b = leaf_view T view (metadata_leaf_of place x) c"
proof -
  from assms(2) obtain c b b' where c: "ToCell T (TonRootMetadata x) = Inr c"
    and b: "StoreBigUInt T (uint (TonSeparatorMetadata T)) 256 (BeginCell T) = Inr b" "StoreBuilder T (ToBuilder T c) b = Inr b'"
    and h: "ton_cell_hash T (EndCell T b') = Inr h" by (auto simp: ton_metadata_hash_def bindE_Inr_iff)
  have "view b' = (ton_bits 256 (uint (TonSeparatorMetadata T)) @ fst (view (ToBuilder T c)), snd (view (ToBuilder T c)))"
    by (simp add: ton_cell_laws(4) [OF assms(1) b(2)] ton_cell_laws(2) [OF assms(1) b(1)] ton_cell_laws(1) [OF assms(1)])
  then have "view b' = leaf_view T view (metadata_leaf_of place x) c" by (simp add: metadata_leaf_of_def)
  with c ton_cell_hash_Inr [OF h] show ?thesis by blast
qed

text \<open>The cell of the struct of a leaf.\<close>

definition leaf_cell :: "('a, 'c, 'b, 'd) ton_pkg \<Rightarrow> ('a \<Rightarrow> 'p) \<Rightarrow> ('c, 'p) ton_leaf \<Rightarrow> 'c \<Rightarrow> bool" where
  "leaf_cell T place l c \<longleftrightarrow>
     (\<exists>x. l = op_leaf place x \<and> ToCell T (TonOp x) = Inr c) \<or>
     (\<exists>x. l = metadata_leaf_of place x \<and> ToCell T (TonRootMetadata x) = Inr c)"

lemma ton_leaf_hash_Inr:
  assumes "ton_cells_documented T view place" and "ton_leaf_hash T e md x = Inr h"
  shows "\<exists>l c b. ton_leaf_of T place e md x = Inr l \<and> leaf_cell T place l c \<and> h = cell_key T (EndCell T b) \<and> view b = leaf_view T view l c"
proof (cases x)
  case None
  with assms(2) obtain y where "ton_ToRootMetadata T e md = Inr y" "ton_metadata_hash T y = Inr h"
    by (auto simp: ton_HashMetadata_def bindE_Inr_iff)
  with ton_metadata_hash_cell [OF assms(1), of y h] show ?thesis by (fastforce simp: None leaf_cell_def)
next
  case (Some a)
  obtain n op where a: "a = (n, op)" by fastforce
  with Some assms(2) obtain y where "ton_ToOperation T e n md op = Inr y" "ton_op_hash T y = Inr h"
    by (auto simp: ton_HashOperation_def bindE_Inr_iff)
  with ton_op_hash_cell [OF assms(1), of y h] show ?thesis by (fastforce simp: Some a leaf_cell_def)
qed

lemma leaf_view_inject:
  assumes T: "ton_cells_documented T view place" and sep: "TonSeparatorOp T \<noteq> TonSeparatorMetadata T"
    and "leaf_cell T place l c" and "leaf_cell T place l' c'" and eq: "leaf_view T view l c = leaf_view T view l' c'"
  shows "l = l'"
proof -
  have views: "leaf_view T view (op_leaf place x) c = (ton_bits 256 (uint (TonSeparatorOp T)), [c])"
    "leaf_view T view (metadata_leaf_of place y) c =
       (ton_bits 256 (uint (TonSeparatorMetadata T)) @ fst (view (ToBuilder T c)), snd (view (ToBuilder T c)))" for x y c
    by (simp_all add: op_leaf_def metadata_leaf_of_def)
  have apart: "ton_bits 256 (uint (TonSeparatorOp T)) \<noteq> ton_bits 256 (uint (TonSeparatorMetadata T)) @ r"
    "ton_bits 256 (uint (TonSeparatorMetadata T)) @ r \<noteq> ton_bits 256 (uint (TonSeparatorOp T))" for r
    using ton_bits_inject [of "TonSeparatorOp T" "[]" "TonSeparatorMetadata T" r] sep by auto
  consider (ops) x x' where "l = op_leaf place x" "ToCell T (TonOp x) = Inr c" "l' = op_leaf place x'" "ToCell T (TonOp x') = Inr c'"
    | (metadata) m m' where "l = metadata_leaf_of place m" "ToCell T (TonRootMetadata m) = Inr c"
        "l' = metadata_leaf_of place m'" "ToCell T (TonRootMetadata m') = Inr c'"
    | (mixed) x m where "l = op_leaf place x \<and> l' = metadata_leaf_of place m \<or> l = metadata_leaf_of place m \<and> l' = op_leaf place x"
    using assms(3,4) unfolding leaf_cell_def by blast
  then show ?thesis
  proof cases
    case ops
    with eq have "c = c'" by (simp add: views)
    with ops show ?thesis using ton_cell_laws(7) [OF T ops(2)] by simp
  next
    case metadata
    with eq have "view (ToBuilder T c) = view (ToBuilder T c')" by (simp add: views ton_bits_inject prod_eq_iff)
    then have "c = c'" by (rule ton_cell_laws(5) [OF T])
    with metadata show ?thesis using ton_cell_laws(8) [OF T metadata(2)] by simp
  next
    case mixed
    with eq apart show ?thesis by (auto simp: views)
  qed
qed

section \<open>Sending\<close>

text \<open>When a message goes out: at once, or after the wait for the pending operation of its contract.\<close>

definition ton_sent_when ::
  "('a, 'c, 'd, 'k, 'w) ton_client \<Rightarrow> ('k \<Rightarrow> 'a \<Rightarrow> 'w \<Rightarrow> string + u64) \<Rightarrow> 'a \<Rightarrow> bool \<Rightarrow> 'w \<Rightarrow> 'w \<Rightarrow> bool" where
  "ton_sent_when K getter dst wait w w1 \<longleftrightarrow>
     (\<exists>block now validAfter. tk_CurrentMasterchainInfo K w = Inr block \<and> tk_GetBlockData K block w = Inr now \<and>
        getter block dst w = Inr validAfter \<and>
        (validAfter \<le> ucast now \<and> w1 = w \<or>
         wait \<and> ucast now < validAfter \<and> tk_AwaitTick K (sint (wait_duration (ucast now) validAfter ton_DefaultWaitBuffer)) w = (None, w1)))"

lemma ton_SendTx_Inr:
  assumes "ton_SendTx K opts w = (Inr r, w')"
  obtains tx where "tk_SendWaitTransaction K (tto_Wallet opts) (ton_message_of opts) w = (Inr tx, w')"
    "tr_Hash r = hex_encode (ttx_Hash tx)" "tr_RawData r = Some (TonSent tx)"
proof -
  obtain x w1 where x: "tk_SendWaitTransaction K (tto_Wallet opts) (ton_message_of opts) w = (x, w1)" by fastforce
  with assms that show thesis by (cases x) (auto simp: ton_SendTx_def ext_def)
qed

lemma ton_SendTxAfter_Inr:
  assumes "ton_SendTxAfter K opts now validAfter buffer wait w = (Inr r, w')"
  obtains w1 where "ton_SendTx K opts w1 = (Inr r, w')"
    "validAfter \<le> now \<and> w1 = w \<or>
     wait \<and> now < validAfter \<and> tk_AwaitTick K (sint (wait_duration now validAfter buffer)) w = (None, w1)"
proof (cases "validAfter \<le> now")
  case True
  with assms that show thesis by (simp add: ton_SendTxAfter_def)
next
  case False
  obtain x w1 where x: "tk_AwaitTick K (sint (wait_duration now validAfter buffer)) w = (x, w1)" by fastforce
  from assms False have "wait" by (cases wait) (simp_all add: ton_SendTxAfter_def)
  with assms False x that show thesis by (cases x) (auto simp: ton_SendTxAfter_def Let_def split: if_splits)
qed

lemma ton_pending_send_Inr:
  assumes "ton_pending_send K getter failed opts wait w = (Inr r, w')"
  obtains w1 tx where "ton_sent_when K getter (tto_DstAddr opts) wait w w1"
    "tk_SendWaitTransaction K (tto_Wallet opts) (ton_message_of opts) w1 = (Inr tx, w')"
    "tr_Hash r = hex_encode (ttx_Hash tx)" "tr_RawData r = Some (TonSent tx)"
proof -
  from assms obtain block now validAfter where b: "tk_CurrentMasterchainInfo K w = Inr block" "tk_GetBlockData K block w = Inr now"
    "getter block (tto_DstAddr opts) w = Inr validAfter" and
    s: "ton_SendTxAfter K opts (ucast now) validAfter ton_DefaultWaitBuffer wait w = (Inr r, w')"
    by (auto simp: ton_pending_send_def run_after_Inr_iff ext_def split: sum.splits)
  from s obtain w1 where w1: "ton_SendTx K opts w1 = (Inr r, w')"
    "validAfter \<le> ucast now \<and> w1 = w \<or>
     wait \<and> ucast now < validAfter \<and> tk_AwaitTick K (sint (wait_duration (ucast now) validAfter ton_DefaultWaitBuffer)) w = (None, w1)"
    by (rule ton_SendTxAfter_Inr)
  from w1(1) obtain tx where tx: "tk_SendWaitTransaction K (tto_Wallet opts) (ton_message_of opts) w1 = (Inr tx, w')"
    "tr_Hash r = hex_encode (ttx_Hash tx)" "tr_RawData r = Some (TonSent tx)" by (rule ton_SendTx_Inr)
  from w1(2) b have "ton_sent_when K getter (tto_DstAddr opts) wait w w1" unfolding ton_sent_when_def by blast
  then show thesis using tx by (rule that)
qed

text \<open>The duration is exact up to about 292 years.\<close>

lemma wait_duration_exact:
  assumes "now < validAfter" and "uint validAfter - uint now \<le> 9223372036"
  shows "sint (wait_duration now validAfter ton_DefaultWaitBuffer) = (uint validAfter - uint now) * 1000000000 + 250000000"
proof -
  let ?d = "uint validAfter - uint now"
  have d: "0 \<le> ?d" "?d \<le> 9223372036" using assms by (simp_all add: word_less_def)
  have "wait_duration now validAfter ton_DefaultWaitBuffer = word_of_int (?d * 1000000000 + 250000000)"
    by (simp add: wait_duration_def ton_DefaultWaitBuffer_def)
  moreover have "sint (word_of_int (?d * 1000000000 + 250000000) :: 64 word) = ?d * 1000000000 + 250000000"
    unfolding sint_sbintrunc' by (rule signed_take_bit_int_eq_self) (use d in simp_all)
  ultimately show ?thesis by simp
qed

section \<open>What the contracts are sent\<close>

text \<open>
  The contract's check of an operation: the hash of the cell with the separator of operations and a
  reference to the operation's cell, folded with the proof, is the root.
\<close>

definition ton_op_check :: "('a, 'c, 'b, 'd) ton_pkg \<Rightarrow> 'e crypto_pkg_scheme \<Rightarrow> hash \<Rightarrow> ('a, 'c) ton_op \<Rightarrow> hash list \<Rightarrow> bool" where
  "ton_op_check T C newRoot x pf \<longleftrightarrow>
     (\<exists>c b b'. ToCell T (TonOp x) = Inr c \<and> StoreBigUInt T (uint (TonSeparatorOp T)) 256 (BeginCell T) = Inr b \<and>
        StoreRef T c b = Inr b' \<and> foldl (hashPair (Keccak256Hash C)) (cell_key T (EndCell T b')) pf = newRoot)"

lemma ton_op_hash_check:
  "ton_op_hash T x = Inr h \<Longrightarrow> foldl (hashPair (Keccak256Hash C)) h pf = newRoot \<Longrightarrow> ton_op_check T C newRoot x pf"
  by (fastforce simp: ton_op_hash_def ton_op_check_def bindE_Inr_iff dest: ton_cell_hash_Inr)

lemma ton_ToOperation_Inr:
  assumes "ton_ToOperation T e n md op = Inr x"
  shows "top_Nonce x = ucast n" and "ParseAddr T (cm_MCMAddress md) = Inr (top_MultiSig x)"
    and "ParseAddr T (tx_To (op_Transaction op)) = Inr (top_To x)" and "FromBOC T (tx_Data (op_Transaction op)) = Inr (top_Data x)"
    and "\<exists>f. TonFieldsUnmarshal T (tx_AdditionalFields (op_Transaction op)) None = Inr f \<and> FromNanoTON T (tf_Value f) = Inr (top_Value x)"
    and "TonChainIdFromSelector T (tne_ChainSelector e) = Inr (top_ChainID x)"
  using assms by (auto simp: ton_ToOperation_def ton_chain_id_def bindE_Inr_iff split: sum.splits)

lemma ton_CheckPendingSend_Inr:
  assumes "ton_CheckPendingSend e dst body w = (Inr r, w')"
  obtains w1 tx where "ton_sent_when (txe_client e) (tk_MCMSOpPendingInfo (txe_client e)) dst (txe_wait e) w w1"
    "tk_SendWaitTransaction (txe_client e) (txe_wallet e)
       (ton_message_of \<lparr>tto_Wallet = txe_wallet e, tto_DstAddr = dst, tto_Amount = txe_amount e, tto_Body = body\<rparr>) w1 = (Inr tx, w')"
    "tr_Hash r = hex_encode (ttx_Hash tx)" "tr_RawData r = Some (TonSent tx)"
  using assms unfolding ton_CheckPendingSend_def by (rule ton_pending_send_Inr) (auto intro: that)

lemma ton_ExecuteOperation_Inr:
  assumes "ton_ExecuteOperation T e md n pf op w = (Inr r, w')"
  obtains dst enc x q w1 body where "ParseAddr T (cm_MCMAddress md) = Inr dst" "txe_Encoder e = TonEncoder enc"
    "ton_ToOperation T enc n md op = Inr x" "tk_RandomQueryID (txe_client e) w = (Inr q, w1)"
    "ToCell T (TonExecute q x pf) = Inr body" "ton_CheckPendingSend e dst body w1 = (Inr r, w')"
proof -
  obtain q0 w1 where q0: "tk_RandomQueryID (txe_client e) w = (q0, w1)" by fastforce
  from assms obtain dst enc x where h: "ParseAddr T (cm_MCMAddress md) = Inr dst" "txe_Encoder e = TonEncoder enc"
    "ton_ToOperation T enc n md op = Inr x" and
    rest: "bindW (wrapW (Wrapf ''failed to generate random query ID: %w'')
              (\<lambda>w. case tk_RandomQueryID (txe_client e) w of (r, w') \<Rightarrow> (ext r, w'))) (\<lambda>qID.
       run_after (wrapE (Wrapf ''failed to encode ExecuteBatch body: %w'') (ToCell T (TonExecute qID x pf))) (\<lambda>body.
       ton_CheckPendingSend e dst body)) w = (Inr r, w')"
    unfolding ton_ExecuteOperation_def run_after_Inr_iff
    by (auto simp: ton_asserted_def split: ton_any_encoder.splits)
  from rest q0 obtain q body where "q0 = Inr q" "ToCell T (TonExecute q x pf) = Inr body"
    "ton_CheckPendingSend e dst body w1 = (Inr r, w')"
    unfolding bindW_Inr_iff run_after_Inr_iff by (cases q0) (auto simp: wrapW_def ext_def)
  with h q0 that show thesis by blast
qed

lemma ton_timelock_Execute_Inr:
  assumes "ton_timelock_Execute T e b addr pred salt w = (Inr r, w')"
  obtains dst calls q w1 body where "ParseAddr T addr = Inr dst" "ton_ConvertBatchToCalls T b = Inr calls"
    "tk_RandomQueryID (tte_client e) w = (Inr q, w1)" "ToCell T (TonExecuteBatch q calls pred salt) = Inr body"
    "ton_timelock_CheckPendingSend e dst body w1 = (Inr r, w')"
proof -
  obtain q0 w1 where q0: "tk_RandomQueryID (tte_client e) w = (q0, w1)" by fastforce
  from assms obtain dst calls where h: "ParseAddr T addr = Inr dst" "ton_ConvertBatchToCalls T b = Inr calls" and
    rest: "bindW (wrapW (Wrapf ''failed to generate random query ID: %w'')
              (\<lambda>w. case tk_RandomQueryID (tte_client e) w of (r, w') \<Rightarrow> (ext r, w'))) (\<lambda>qID.
       run_after (wrapE (Wrapf ''failed to encode ExecuteBatch body: %w'') (ToCell T (TonExecuteBatch qID calls pred salt))) (\<lambda>body.
       ton_timelock_CheckPendingSend e dst body)) w = (Inr r, w')"
    unfolding ton_timelock_Execute_def run_after_Inr_iff by auto
  from rest q0 obtain q body where "q0 = Inr q" "ToCell T (TonExecuteBatch q calls pred salt) = Inr body"
    "ton_timelock_CheckPendingSend e dst body w1 = (Inr r, w')"
    unfolding bindW_Inr_iff run_after_Inr_iff by (cases q0) (auto simp: wrapW_def ext_def)
  with h q0 that show thesis by blast
qed

text \<open>A transaction that is only prepared depends on nothing but its inputs, as a comment of the code asks.\<close>

theorem ton_prepared_reproducible:
  assumes "tcg_skipSend c"
  shows "ton_SetConfig T X K c addr cfg clear w = (fst (ton_SetConfig T X K' c addr cfg clear w0), w)"
    and "ton_UpdateDelay T K c addr delay w = (fst (ton_UpdateDelay T K' c addr delay w0), w)"
proof -
  have "ton_prepare_or_send T K c failed dst operation msg ty fqn tag w =
      (fst (ton_prepare_or_send T K' c failed dst operation msg ty fqn tag w0), w)" for failed dst operation msg ty fqn tag
    using assms by (simp add: ton_prepare_or_send_def ton_query_id_def bindW_def run_after_def split: sum.splits)
  then show "ton_SetConfig T X K c addr cfg clear w = (fst (ton_SetConfig T X K' c addr cfg clear w0), w)"
    and "ton_UpdateDelay T K c addr delay w = (fst (ton_UpdateDelay T K' c addr delay w0), w)"
    by (auto simp: ton_SetConfig_def ton_UpdateDelay_def run_after_def split: sum.splits prod.splits)
qed

text \<open>
  Beyond 292 years the product wraps around: one second more and the ticker panics; with a delay of
  18446744074 seconds the message is sent after half a second.
\<close>

theorem ton_wait_wraps:
  "ton_SendTxAfter K opts 0 9223372037 ton_DefaultWaitBuffer True w = (Inl (Panic ''non-positive interval for NewTicker''), w)"
  "tk_AwaitTick K 540448384 w = (None, w1) \<Longrightarrow>
     ton_SendTxAfter K opts 0 18446744074 ton_DefaultWaitBuffer True w = ton_SendTx K opts w1"
  by (simp_all add: ton_SendTxAfter_def wait_duration_def ton_DefaultWaitBuffer_def Let_def)

section \<open>A sample chain\<close>

datatype sample_cell =
    CellOp int string u64 string sample_cell int
  | CellMetadata int string u64 u64 bool
  | CellSigner address u8 u8
  | CellBits "bool list" "sample_cell list"
  | CellData nat

type_synonym sample_dict = "(int \<times> sample_cell) list"

fun sample_ToCell :: "(string, sample_cell, sample_dict) ton_struct \<Rightarrow> sample_cell res" where
  "sample_ToCell (TonOp x) =
     Inr (CellOp (top_ChainID x) (top_MultiSig x) (top_Nonce x) (top_To x) (top_Data x) (top_Value x))"
| "sample_ToCell (TonRootMetadata x) =
     Inr (CellMetadata (trm_ChainID x) (trm_MultiSig x) (trm_PreOpCount x) (trm_PostOpCount x) (trm_OverridePreviousRoot x))"
| "sample_ToCell (TonSigner s) = Inr (CellSigner (sg_Addr s) (sg_Index s) (sg_Group s))"
| "sample_ToCell (TonOperationBatch calls pred salt) = Inr (CellBits [] (map tcl_Data calls))"
| "sample_ToCell _ = Inr (CellData 0)"

fun sample_LoadSigner :: "sample_cell \<Rightarrow> mcms_signer res" where
  "sample_LoadSigner (CellSigner a i g) = Inr \<lparr>sg_Addr = a, sg_Index = i, sg_Group = g\<rparr>"
| "sample_LoadSigner _ = Inl (External ''cell'')"

fun sample_LoadUInt :: "sample_cell \<Rightarrow> u64 res" where
  "sample_LoadUInt (CellBits bs [CellData n]) = Inr (word_of_nat n)"
| "sample_LoadUInt _ = Inl (External ''cell'')"

definition sample_ton :: "(string, sample_cell, bool list \<times> sample_cell list, sample_dict) ton_pkg" where
  "sample_ton =
     \<lparr>TonChainIdFromSelector = (\<lambda>_. Inr (-239)), ParseAddr = (\<lambda>s. if s = [] then Inl (External ''address'') else Inr (tl s)),
      AddrString = (\<lambda>a. CHR ''E'' # a), FromBOC = (\<lambda>bs. Inr (CellData (length bs))),
      ToBOC = (\<lambda>c. case c of CellData n \<Rightarrow> replicate n 0 | _ \<Rightarrow> []), SliceToCell = Inr, ToCell = sample_ToCell,
      LoadSigner = sample_LoadSigner, LoadUInt = (\<lambda>_. sample_LoadUInt), CellHash = (\<lambda>_. replicate 32 7),
      BeginCell = ([], []), StoreBigUInt = (\<lambda>v n (bs, cs). Inr (bs @ ton_bits n v, cs)),
      StoreUInt = (\<lambda>v n (bs, cs). (bs, cs @ [CellData (unat v)])), StoreRef = (\<lambda>c (bs, cs). Inr (bs, cs @ [c])),
      StoreBuilder = (\<lambda>(as, ds) (bs, cs). Inr (bs @ as, cs @ ds)), ToBuilder = (\<lambda>c. ([], [c])),
      EndCell = (\<lambda>(bs, cs). CellBits bs cs), NewDict = (\<lambda>_. []), SetIntKey = (\<lambda>k c d. Inr (d @ [(k, c)])), LoadAll = Inr,
      NewDictFromDictionary = Inr, AsDictionary = Inr, NewDictFromSlice = (\<lambda>_. Inr []),
      TonFieldsUnmarshal = (\<lambda>_ _. Inr \<lparr>tf_ContractTypeFull = [], tf_Value = Some 5\<rparr>),
      FromNanoTON = (\<lambda>v. case v of Some n \<Rightarrow> Inr n | None \<Rightarrow> Inl (Panic ''nil'')), TonFieldsMarshal = (\<lambda>_. Inr (RawJson JNull)),
      TonSeparatorOp = 1, TonSeparatorMetadata = 2, FloatToUint32 = (\<lambda>_. 0), TonSha256 = (\<lambda>_. replicate 32 1),
      TonShortMCMS = ''MCMS'', TonTypeMCMS = ''link.chain.ton.mcms.MCMS'', TonShortTimelock = ''RBACTimelock'',
      TonTypeTimelock = ''link.chain.ton.mcms.Timelock''\<rparr>"

lemma sample_ton_dicts: "ton_dicts_documented sample_ton Some"
  by (simp add: ton_dicts_documented_def group_cell_def sample_ton_def)

lemma sample_ton_cells: "ton_cells_documented sample_ton id id"
  by (auto simp: ton_cells_documented_def sample_ton_def op_leaf_def metadata_leaf_of_def)

type_synonym sample_message = "(string, sample_cell) ton_message"

text \<open>Its world are the messages sent so far; an operation of the MCM is pending for another ten seconds.\<close>

definition sample_ton_client :: "(string, sample_cell, sample_dict, unit, sample_message list) ton_client" where
  "sample_ton_client =
     \<lparr>tk_RandomQueryID = (\<lambda>w. (Inr 9, w)), tk_SendWaitTransaction = (\<lambda>wallet m w. (Inr \<lparr>ttx_Hash = [1]\<rparr>, w @ [m])),
      tk_AwaitTick = (\<lambda>d w. (None, w)), tk_CurrentMasterchainInfo = (\<lambda>w. Inr ()), tk_GetBlockData = (\<lambda>b w. Inr 100),
      tk_MCMSOpPendingInfo = (\<lambda>b a w. Inr 110), tk_TimelockOpPendingInfo = (\<lambda>b a w. Inr 0),
      tk_GetConfig = (\<lambda>a w. Inl ''none''), tk_GetOpCount = (\<lambda>a w. Inr 0), tk_GetRoot = (\<lambda>a w. Inr (0, 0)),
      tk_GetRootMetadata = (\<lambda>a w. Inl ''none''), tk_GetMinDelay = (\<lambda>a w. Inr 0), tk_GetRoleMembers = (\<lambda>a r w. Inr []),
      tk_IsOperation = (\<lambda>a i w. Inr False), tk_IsOperationPending = (\<lambda>a i w. Inr False),
      tk_IsOperationReady = (\<lambda>a i w. Inr False), tk_IsOperationDone = (\<lambda>a i w. Inr False),
      tk_IsOperationError = (\<lambda>a i w. Inr False), tk_RoleAdmin = 1, tk_RoleProposer = 2, tk_RoleExecutor = 3,
      tk_RoleBypasser = 4, tk_RoleCanceller = 5, tk_RoleOracle = 6\<rparr>"

definition sample_ton_env :: mcms_env where
  "sample_ton_env = sample_env\<lparr>ChainDetails := (\<lambda>_. Inr FamilyTon)\<rparr>"

definition sample_ton_metadata :: chain_metadata where
  "sample_ton_metadata = \<lparr>cm_StartingOpCount = 0, cm_MCMAddress = ''Emcms'', cm_AdditionalFields = RawEmpty\<rparr>"

definition sample_ton_tx :: transaction where
  "sample_ton_tx = \<lparr>tx_ContractType = ''Token'', tx_ContractVersion = None, tx_Tags = [], tx_To = ''Etoken'',
     tx_Data = [1, 2], tx_AdditionalFields = RawJson JNull\<rparr>"

definition sample_ton_executor :: "(string, sample_cell, sample_dict, unit, sample_message list) ton_executor" where
  "sample_ton_executor =
     \<lparr>txe_Encoder = TonEncoder \<lparr>tne_ChainSelector = 4, tne_TxCount = 1, tne_OverridePreviousRoot = False\<rparr>,
      txe_client = sample_ton_client, txe_wallet = 0, txe_amount = 3, txe_wait = True\<rparr>"

definition sample_ton_op :: "(string, sample_cell) ton_op" where
  "sample_ton_op = \<lparr>top_ChainID = -239, top_MultiSig = ''mcms'', top_Nonce = 0, top_To = ''token'', top_Data = CellData 2, top_Value = 5\<rparr>"

lemma sample_ton_ToOperation:
  "ton_ToOperation sample_ton e n sample_ton_metadata \<lparr>op_ChainSelector = 4, op_Transaction = sample_ton_tx\<rparr> =
     Inr (sample_ton_op\<lparr>top_Nonce := ucast n\<rparr>)"
  by (simp add: ton_ToOperation_def ton_chain_id_def sample_ton_def sample_ton_metadata_def sample_ton_tx_def sample_ton_op_def)

lemma sample_ton_op_hash: "\<exists>h. ton_op_hash sample_ton x = Inr h"
  by (simp add: ton_op_hash_def sample_ton_def ton_cell_hash_def)

lemma sample_ton_metadata_hash: "\<exists>h. ton_HashMetadata sample_ton e sample_ton_metadata = Inr h"
  by (simp add: ton_HashMetadata_def ton_metadata_hash_def ton_ToRootMetadata_def ton_chain_id_def sample_ton_def
      ton_cell_hash_def sample_ton_metadata_def)

lemma sample_ton_env_casts: "casts_documented sample_ton_env" "casts_documented (with_ton T sample_ton_env)"
  using sample_env_casts by (simp_all add: casts_documented_def with_ton_def sample_ton_env_def)

lemma sample_ton_executable:
  "\<exists>e. NewExecutable (with_ton sample_ton sample_ton_env) (single_proposal 4 sample_ton_metadata sample_ton_tx) executors =
     Inr e \<and> exe_txNonces e = [0]"
proof (rule single_executable)
  let ?e = "\<lparr>tne_ChainSelector = 4, tne_TxCount = 1, tne_OverridePreviousRoot = False\<rparr>"
  show "newEncoder (with_ton sample_ton sample_ton_env) 4 1 False False = Inr (Some (ton_NewEncoder_of sample_ton 4 1 False))"
    by (rule with_ton_newEncoder) (simp add: sample_ton_env_def)
  show "\<exists>h. enc_HashMetadata (ton_NewEncoder_of sample_ton 4 1 False) sample_ton_metadata = Inr h"
    using sample_ton_metadata_hash by (simp add: ton_NewEncoder_methods)
  show "\<exists>h. enc_HashOperation (ton_NewEncoder_of sample_ton 4 1 False) 0 sample_ton_metadata
      \<lparr>op_ChainSelector = 4, op_Transaction = sample_ton_tx\<rparr> = Inr h"
    using sample_ton_op_hash by (simp add: ton_NewEncoder_methods ton_HashOperation_def sample_ton_ToOperation)
  show "Uint64ToUint32 (with_ton sample_ton sample_ton_env) 0 = Inr 0"
    by (simp add: Uint64ToUint32_Inr sample_ton_env_casts)
qed (simp add: sample_ton_metadata_def)

lemma sample_ton_sends: "\<exists>r msg. ton_CheckPendingSend sample_ton_executor dst body w = (Inr r, w @ [msg])"
proof -
  have "\<not> (110 :: u64) \<le> ucast (100 :: u32)" by simp
  then show ?thesis
    by (simp add: ton_CheckPendingSend_def ton_pending_send_def sample_ton_executor_def sample_ton_client_def ext_def
        ton_SendTxAfter_def wait_duration_def ton_DefaultWaitBuffer_def ton_SendTx_def Let_def)
qed

section \<open>Properties\<close>

text \<open>
  C34: a configuration survives the dictionaries of TON. A valid tree of at most 32 groups and 255
  signers is written without error. Of the arrays of 32 that an EVM chain would hold, the dictionaries hold all
  signers and exactly the entries of the tree's groups, each under its index; what is left out
  are zeros only. So what is read back is what the ManyChainMultiSig contract of an EVM chain
  would give: the same tree with the signers of each group in address order.
\<close>

theorem ton_config_roundtrip:
  assumes "casts_documented X" and "ton_dicts_documented T entries" and "config_Validate c = Inr ()"
    and "group_count c \<le> 32" and "length (GetAllSigners c) \<le> 255"
  shows "\<exists>r b. ton_ToChainConfig T X c = Inr r \<and> evm_ToChainConfig X c = Inr b \<and>
    ton_holds T entries (tcf_Signers r) (map (signer_cell T) (mc_Signers b)) \<and>
    ton_holds T entries (tcf_GroupQuorums r) (map (group_cell T) (take (group_count c) (mc_GroupQuorums b))) \<and>
    ton_holds T entries (tcf_GroupParents r) (map (group_cell T) (take (group_count c) (mc_GroupParents b))) \<and>
    drop (group_count c) (mc_GroupQuorums b) = replicate (32 - group_count c) 0 \<and>
    drop (group_count c) (mc_GroupParents b) = replicate (32 - group_count c) 0 \<and>
    ton_ToConfig T r = evm_ToConfig b \<and> ton_ToConfig T r = Inr (sort_config c)"
proof -
  from assms(4,5) have fits: "evm_fits c" by (simp add: evm_fits_def)
  from evm.writes [OF assms(1,3) fits] obtain b where b: "evm_ToChainConfig X c = Inr b" ..
  moreover have "evm_ToConfig b = Inr (sort_config c)" by (rule evm_roundtrip_sorted [OF assms(1,3,4,5) b])
  ultimately show ?thesis using ton_ToChainConfig_evm [OF assms(2,1,3) fits b] by auto
qed

theorem ton_config_roundtrip_witness:
  "\<exists>r. ton_ToChainConfig sample_ton plain_casts (Config 2 [9, 4] [Config 1 [7, 3] []]) = Inr r \<and>
     ton_ToConfig sample_ton r = Inr (Config 2 [4, 9] [Config 1 [3, 7] []])"
  using ton_config_roundtrip [OF plain_casts_documented sample_ton_dicts, of "Config 2 [9, 4] [Config 1 [7, 3] []]"]
  by (auto simp: evm_fits_def)

text \<open>
  A leaf of a TON chain cannot be passed off as another. Two leaves with the same hash, each of
  an operation with its nonce or of the metadata of a chain, are of the same kind and agree in every
  part (chain id, contract, nonce or op counts, target, message body, value); or two different
  cells have the same hash.
\<close>

theorem ton_leaves_binding:
  fixes T :: "('a, 'c, 'b, 'd) ton_pkg" and place :: "'a \<Rightarrow> 'p"
  assumes "ton_cells_documented T view place" and "TonSeparatorOp T \<noteq> TonSeparatorMetadata T"
    and "ton_leaf_hash T e md x = Inr h" and "ton_leaf_hash T e' md' x' = Inr h"
  shows "\<exists>l l' :: ('c, 'p) ton_leaf. ton_leaf_of T place e md x = Inr l \<and> ton_leaf_of T place e' md' x' = Inr l' \<and>
    (l = l' \<or> (\<exists>c c'. c \<noteq> c' \<and> cell_key T c = h \<and> cell_key T c' = h))"
proof -
  from ton_leaf_hash_Inr [OF assms(1,3)] obtain l :: "('c, 'p) ton_leaf" and c b where
    l: "ton_leaf_of T place e md x = Inr l" "leaf_cell T place l c" "h = cell_key T (EndCell T b)" "view b = leaf_view T view l c"
    by blast
  from ton_leaf_hash_Inr [OF assms(1,4)] obtain l' :: "('c, 'p) ton_leaf" and c' b' where
    l': "ton_leaf_of T place e' md' x' = Inr l'" "leaf_cell T place l' c'" "h = cell_key T (EndCell T b')"
      "view b' = leaf_view T view l' c'" by blast
  have "l = l'" if "EndCell T b = EndCell T b'"
    using ton_cell_laws(6) [OF assms(1) that] l(4) l'(4) by (intro leaf_view_inject [OF assms(1,2) l(2) l'(2)]) simp
  with l l' show ?thesis by metis
qed

theorem ton_leaves_binding_witness:
  "\<exists>h l. ton_leaf_hash sample_ton \<lparr>tne_ChainSelector = 4, tne_TxCount = 1, tne_OverridePreviousRoot = False\<rparr> sample_ton_metadata
       (Some (0, \<lparr>op_ChainSelector = 4, op_Transaction = sample_ton_tx\<rparr>)) = Inr h \<and>
     ton_leaf_of sample_ton id \<lparr>tne_ChainSelector = 4, tne_TxCount = 1, tne_OverridePreviousRoot = False\<rparr> sample_ton_metadata
       (Some (0, \<lparr>op_ChainSelector = 4, op_Transaction = sample_ton_tx\<rparr>)) = Inr l \<and>
     l = TonOpLeaf (-239) ''mcms'' 0 ''token'' (CellData 2) 5"
proof -
  let ?e = "\<lparr>tne_ChainSelector = 4, tne_TxCount = 1, tne_OverridePreviousRoot = False\<rparr>"
  let ?x = "Some (0, \<lparr>op_ChainSelector = 4, op_Transaction = sample_ton_tx\<rparr>)"
  obtain h where h: "ton_leaf_hash sample_ton ?e sample_ton_metadata ?x = Inr h"
    using sample_ton_op_hash by (auto simp: ton_HashOperation_def sample_ton_ToOperation)
  have "TonSeparatorOp sample_ton \<noteq> TonSeparatorMetadata sample_ton" by (simp add: sample_ton_def)
  from ton_leaves_binding [OF sample_ton_cells this h h] obtain l :: "(sample_cell, string) ton_leaf" where
    "ton_leaf_of sample_ton id ?e sample_ton_metadata ?x = Inr l" by blast
  with h show ?thesis by (auto simp: sample_ton_ToOperation op_leaf_def sample_ton_op_def)
qed

text \<open>
  C33: an operation of a signed proposal reaches the MCM contract on TON. When an executable runs it
  through the TON executor of its chain and gets a result, the wallet sent one message: to the contract that
  the metadata name, with the executor's amount, its body the Execute message for an operation with the nonce,
  target, body and value of the proposal's operation, on the chain of its selector, whose leaf folds
  with the proof to the root of the signed tree; and it was sent no sooner than the pending operation of the contract allowed, or after the
  wait for it.
\<close>

theorem ton_operation_executes:
  assumes "gm_wf (bp_ChainMetadata p)" and "NewExecutable (with_ton T E) p executors = Inr e"
    and "i < length (pr_Operations p)" and "op_ChainSelector (pr_Operations p ! i) = sel"
    and "ChainDetails E sel = Inr FamilyTon" and "gm_get executors sel = Some (ton_executor_iface T x)"
    and "txe_Encoder x = TonEncoder \<lparr>tne_ChainSelector = sel, tne_TxCount = gm_get0 (TransactionCounts p) sel 0,
           tne_OverridePreviousRoot = bp_OverridePreviousRoot p\<rparr>"
    and "Execute (with_ton T E) e (int i) w = (Inr r, w')"
  shows "\<exists>t bindOp n f pf q body msg w1 w2 tx. MerkleTree (with_ton T E) p = Inr t \<and>
    Uint64ToUint32 (with_ton T E) (exe_txNonces e ! i) = Inr n \<and> uint (top_Nonce bindOp) = uint n \<and>
    ParseAddr T (cm_MCMAddress (metadata_of p sel)) = Inr (top_MultiSig bindOp) \<and>
    ParseAddr T (tx_To (op_Transaction (pr_Operations p ! i))) = Inr (top_To bindOp) \<and>
    FromBOC T (tx_Data (op_Transaction (pr_Operations p ! i))) = Inr (top_Data bindOp) \<and>
    TonFieldsUnmarshal T (tx_AdditionalFields (op_Transaction (pr_Operations p ! i))) None = Inr f \<and>
    FromNanoTON T (tf_Value f) = Inr (top_Value bindOp) \<and> TonChainIdFromSelector T sel = Inr (top_ChainID bindOp) \<and>
    ton_op_check T E (mt_Root t) bindOp pf \<and> ToCell T (TonExecute q bindOp pf) = Inr body \<and>
    tmg_DstAddr msg = top_MultiSig bindOp \<and> tmg_Amount msg = txe_amount x \<and> tmg_Body msg = body \<and> tmg_Bounce msg \<and>
    tk_RandomQueryID (txe_client x) w = (Inr q, w1) \<and>
    ton_sent_when (txe_client x) (tk_MCMSOpPendingInfo (txe_client x)) (top_MultiSig bindOp) (txe_wait x) w1 w2 \<and>
    tk_SendWaitTransaction (txe_client x) (txe_wallet x) msg w2 = (Inr tx, w') \<and> tr_Hash r = hex_encode (ttx_Hash tx)"
proof -
  let ?op = "pr_Operations p ! i" and ?md = "metadata_of p sel"
  let ?enc = "\<lparr>tne_ChainSelector = sel, tne_TxCount = gm_get0 (TransactionCounts p) sel 0,
      tne_OverridePreviousRoot = bp_OverridePreviousRoot p\<rparr>"
  from executed_leaf [OF assms(1-4) with_ton_newEncoder [OF assms(5)] assms(6), of w] obtain n h pf where
    n: "Uint64ToUint32 (with_ton T E) (exe_txNonces e ! i) = Inr n" and
    h: "ton_HashOperation T ?enc n ?md ?op = Inr h" "foldl (hashPair (Keccak256Hash E)) h pf = mt_Root (exe_tree e)" and
    t: "MerkleTree (with_ton T E) p = Inr (exe_tree e)" and
    x: "Execute (with_ton T E) e (int i) w = ton_ExecuteOperation T x ?md n pf ?op w"
    by (auto simp: ton_NewEncoder_methods ton_executor_iface_def)
  from x assms(8) have "ton_ExecuteOperation T x ?md n pf ?op w = (Inr r, w')" by simp
  then obtain dst enc b q w1 body where d: "ParseAddr T (cm_MCMAddress ?md) = Inr dst" "txe_Encoder x = TonEncoder enc" and
    b: "ton_ToOperation T enc n ?md ?op = Inr b" and q: "tk_RandomQueryID (txe_client x) w = (Inr q, w1)"
    "ToCell T (TonExecute q b pf) = Inr body" and s: "ton_CheckPendingSend x dst body w1 = (Inr r, w')"
    by (rule ton_ExecuteOperation_Inr)
  from d(2) assms(7) have "enc = ?enc" by simp
  with b h have "ton_op_check T E (mt_Root (exe_tree e)) b pf"
    by (intro ton_op_hash_check) (simp_all add: ton_HashOperation_def)
  moreover note ton_ToOperation_Inr(1-4) [OF b]
  moreover obtain f where "TonFieldsUnmarshal T (tx_AdditionalFields (op_Transaction ?op)) None = Inr f"
    "FromNanoTON T (tf_Value f) = Inr (top_Value b)" using ton_ToOperation_Inr(5) [OF b] by blast
  moreover have "TonChainIdFromSelector T sel = Inr (top_ChainID b)" using ton_ToOperation_Inr(6) [OF b] \<open>enc = ?enc\<close> by simp
  moreover from s obtain w2 tx where
    "ton_sent_when (txe_client x) (tk_MCMSOpPendingInfo (txe_client x)) dst (txe_wait x) w1 w2"
    "tk_SendWaitTransaction (txe_client x) (txe_wallet x)
       (ton_message_of \<lparr>tto_Wallet = txe_wallet x, tto_DstAddr = dst, tto_Amount = txe_amount x, tto_Body = body\<rparr>) w2 = (Inr tx, w')"
    "tr_Hash r = hex_encode (ttx_Hash tx)" by (rule ton_CheckPendingSend_Inr)
  moreover have "uint (ucast n :: u64) = uint n" by (simp add: uint_up_ucast is_up)
  ultimately show ?thesis using t n d q
    by (intro exI [of _ "exe_tree e"] exI [of _ b] exI [of _ n] exI [of _ f] exI [of _ pf] exI [of _ q] exI [of _ body] exI [of _ "ton_message_of
       \<lparr>tto_Wallet = txe_wallet x, tto_DstAddr = dst, tto_Amount = txe_amount x, tto_Body = body\<rparr>"] exI [of _ w1] exI [of _ w2]
       exI [of _ tx]) (auto simp: ton_message_of_def)
qed

theorem ton_operation_executes_witness:
  "let T = with_ton sample_ton sample_ton_env; p = single_proposal 4 sample_ton_metadata sample_ton_tx in
   \<exists>e t r b pf msg. NewExecutable T p [(4, ton_executor_iface sample_ton sample_ton_executor)] = Inr e \<and>
     MerkleTree T p = Inr t \<and> Execute T e 0 [] = (Inr r, [msg]) \<and> tmg_DstAddr msg = ''mcms'' \<and> tmg_Amount msg = 3 \<and>
     top_ChainID b = -239 \<and> top_To b = ''token'' \<and> ton_op_check sample_ton sample_ton_env (mt_Root t) b pf"
proof -
  let ?T = "with_ton sample_ton sample_ton_env" and ?p = "single_proposal 4 sample_ton_metadata sample_ton_tx"
  let ?x = "ton_executor_iface sample_ton sample_ton_executor"
  let ?op = "\<lparr>op_ChainSelector = 4, op_Transaction = sample_ton_tx\<rparr>"
  obtain e where e: "NewExecutable ?T ?p [(4, ?x)] = Inr e" and nonces: "exe_txNonces e = [0]" using sample_ton_executable by blast
  have wf: "gm_wf (bp_ChainMetadata ?p)" by (simp add: gm_wf_def)
  have fam: "ChainDetails sample_ton_env 4 = Inr FamilyTon" by (simp add: sample_ton_env_def)
  have zero: "Uint64ToUint32 ?T 0 = Inr 0" by (simp add: Uint64ToUint32_Inr sample_ton_env_casts)
  from executed_leaf [OF wf e, of 0 4, OF _ _ with_ton_newEncoder [OF fam], of _ "[]"] nonces zero obtain pf where
    x: "Execute ?T e (int 0) [] = ton_ExecuteOperation sample_ton sample_ton_executor sample_ton_metadata 0 pf ?op []"
    by (auto simp: ton_executor_iface_def)
  have "\<exists>r msg. ton_ExecuteOperation sample_ton sample_ton_executor sample_ton_metadata 0 pf ?op [] = (Inr r, [msg])"
    using sample_ton_sends [of "''mcms''" "CellData 0" "[]"]
    by (simp add: ton_ExecuteOperation_def ton_asserted_def sample_ton_ToOperation bindW_def wrapW_def ext_def)
      (simp add: sample_ton_def sample_ton_metadata_def sample_ton_executor_def sample_ton_client_def [THEN arg_cong, of tk_RandomQueryID])
  with x obtain r msg where run: "Execute ?T e (int 0) [] = (Inr r, [msg])" by auto
  have enc: "txe_Encoder sample_ton_executor = TonEncoder \<lparr>tne_ChainSelector = 4, tne_TxCount = gm_get0 (TransactionCounts ?p) 4 0,
           tne_OverridePreviousRoot = bp_OverridePreviousRoot ?p\<rparr>" by (simp add: sample_ton_executor_def)
  have get: "gm_get [(4, ?x)] 4 = Some ?x" by simp
  have "\<exists>t bindOp n f pf q body msg' w1 w2 tx. MerkleTree ?T ?p = Inr t \<and>
    Uint64ToUint32 ?T (exe_txNonces e ! 0) = Inr n \<and> uint (top_Nonce bindOp) = uint n \<and>
    ParseAddr sample_ton (cm_MCMAddress (metadata_of ?p 4)) = Inr (top_MultiSig bindOp) \<and>
    ParseAddr sample_ton (tx_To (op_Transaction (pr_Operations ?p ! 0))) = Inr (top_To bindOp) \<and>
    FromBOC sample_ton (tx_Data (op_Transaction (pr_Operations ?p ! 0))) = Inr (top_Data bindOp) \<and>
    TonFieldsUnmarshal sample_ton (tx_AdditionalFields (op_Transaction (pr_Operations ?p ! 0))) None = Inr f \<and>
    FromNanoTON sample_ton (tf_Value f) = Inr (top_Value bindOp) \<and>
    TonChainIdFromSelector sample_ton 4 = Inr (top_ChainID bindOp) \<and>
    ton_op_check sample_ton sample_ton_env (mt_Root t) bindOp pf \<and> ToCell sample_ton (TonExecute q bindOp pf) = Inr body \<and>
    tmg_DstAddr msg' = top_MultiSig bindOp \<and> tmg_Amount msg' = txe_amount sample_ton_executor \<and> tmg_Body msg' = body \<and> tmg_Bounce msg' \<and>
    tk_RandomQueryID (txe_client sample_ton_executor) [] = (Inr q, w1) \<and>
    ton_sent_when (txe_client sample_ton_executor) (tk_MCMSOpPendingInfo (txe_client sample_ton_executor)) (top_MultiSig bindOp)
      (txe_wait sample_ton_executor) w1 w2 \<and>
    tk_SendWaitTransaction (txe_client sample_ton_executor) (txe_wallet sample_ton_executor) msg' w2 = (Inr tx, [msg]) \<and>
    tr_Hash r = hex_encode (ttx_Hash tx)"
    by (rule ton_operation_executes [OF wf e _ _ fam get enc run]) simp_all
  then obtain t b pf msg' w2 tx where
    t: "MerkleTree ?T ?p = Inr t" "ton_op_check sample_ton sample_ton_env (mt_Root t) b pf" and
    b: "ParseAddr sample_ton ''Emcms'' = Inr (top_MultiSig b)" "ParseAddr sample_ton ''Etoken'' = Inr (top_To b)"
      "TonChainIdFromSelector sample_ton 4 = Inr (top_ChainID b)" and
    m: "tmg_DstAddr msg' = top_MultiSig b" "tmg_Amount msg' = 3" "tk_SendWaitTransaction sample_ton_client 0 msg' w2 = (Inr tx, [msg])"
    by (auto simp: sample_ton_metadata_def sample_ton_executor_def sample_ton_tx_def)
  from m(3) have "msg' = msg" by (simp add: sample_ton_client_def)
  then show ?thesis using e run t b m by (auto simp: Let_def sample_ton_def)
qed

text \<open>
  What was scheduled on TON is what is executed. The body of the operation that schedules a batch is
  the ScheduleBatch message with the batch's calls, predecessor and salt; the executor sends, to the same
  timelock, the ExecuteBatch message with the same calls, predecessor and salt, whose hash is the id that the
  converter reported.
\<close>

theorem ton_timelock_executes_scheduled:
  assumes "\<forall>s c. ToCell T s = Inr c \<longrightarrow> SliceToCell T c = Inr c \<and> FromBOC T (ToBOC T c) = Inr c"
    and "\<forall>a. ParseAddr T (AddrString T a) = Inr a"
    and "tonConvert T amount md b tlAddr mcm delay TimelockActionSchedule pred salt = Inr (ops, opid)"
    and "ton_timelock_Execute T e b tlAddr pred salt w = (Inr r, w')"
  shows "\<exists>op calls scheduled dst q body w1 w2 tx. ops = [op] \<and> ParseAddr T (tx_To (op_Transaction op)) = Inr dst \<and>
    FromBOC T (tx_Data (op_Transaction op)) = Inr scheduled \<and>
    ToCell T (TonScheduleBatch 0 calls pred salt (ton_seconds T delay)) = Inr scheduled \<and>
    length calls = length (bop_Transactions b) \<and> ton_HashOperationBatch T calls pred salt = Inr opid \<and>
    ToCell T (TonExecuteBatch q calls pred salt) = Inr body \<and>
    tk_RandomQueryID (tte_client e) w = (Inr q, w1) \<and>
    ton_sent_when (tte_client e) (tk_TimelockOpPendingInfo (tte_client e)) dst (tte_wait e) w1 w2 \<and>
    tk_SendWaitTransaction (tte_client e) (tte_wallet e)
      (ton_message_of \<lparr>tto_Wallet = tte_wallet e, tto_DstAddr = dst, tto_Amount = tte_amount e, tto_Body = body\<rparr>) w2 = (Inr tx, w')"
proof -
  from assms(3) obtain calls scheduled dst t where c: "ton_ConvertBatchToCalls T b = Inr calls"
    "ton_HashOperationBatch T calls pred salt = Inr opid" "ParseAddr T tlAddr = Inr dst" and
    a: "ton_action_data T TimelockActionSchedule calls pred salt delay opid = Inr scheduled" and
    t: "ton_NewTransaction T dst scheduled amount (TonShortTimelock T) (TonTypeTimelock T)
      (concat (map tx_Tags (bop_Transactions b))) = Inr t" "ops = [\<lparr>op_ChainSelector = bop_ChainSelector b, op_Transaction = t\<rparr>]"
    by (rule ton_convert_InrE)
  from a have m: "ToCell T (TonScheduleBatch 0 calls pred salt (ton_seconds T delay)) = Inr scheduled"
    by (simp add: ton_action_data_def)
  with assms(1) have "SliceToCell T scheduled = Inr scheduled" "FromBOC T (ToBOC T scheduled) = Inr scheduled" by blast+
  with t(1) assms(2) have "ParseAddr T (tx_To t) = Inr dst" "FromBOC T (tx_Data t) = Inr scheduled"
    by (auto simp: ton_NewTransaction_def bindE_Inr_iff)
  moreover note m
  moreover from c(1) have "length calls = length (bop_Transactions b)" by (auto simp: ton_ConvertBatchToCalls_def dest: mapE_length)
  moreover from assms(4) obtain dst' calls' q w1 body where x: "ParseAddr T tlAddr = Inr dst'" "ton_ConvertBatchToCalls T b = Inr calls'"
    "tk_RandomQueryID (tte_client e) w = (Inr q, w1)" "ToCell T (TonExecuteBatch q calls' pred salt) = Inr body"
    "ton_timelock_CheckPendingSend e dst' body w1 = (Inr r, w')" by (rule ton_timelock_Execute_Inr)
  moreover from x(5) obtain w2 tx where "ton_sent_when (tte_client e) (tk_TimelockOpPendingInfo (tte_client e)) dst' (tte_wait e) w1 w2"
    "tk_SendWaitTransaction (tte_client e) (tte_wallet e)
       (ton_message_of \<lparr>tto_Wallet = tte_wallet e, tto_DstAddr = dst', tto_Amount = tte_amount e, tto_Body = body\<rparr>) w2 = (Inr tx, w')"
    unfolding ton_timelock_CheckPendingSend_def by (rule ton_pending_send_Inr) auto
  ultimately show ?thesis using c t(2) by auto
qed

definition sample_ton_messages :: "(string, sample_cell, bool list \<times> sample_cell list, sample_dict) ton_pkg" where
  "sample_ton_messages =
     sample_ton\<lparr>ToCell := (\<lambda>s. Inr (CellData (case s of TonOperationBatch _ _ _ \<Rightarrow> 1 | TonExecuteBatch _ _ _ _ \<Rightarrow> 2 | _ \<Rightarrow> 0)))\<rparr>"

theorem ton_timelock_executes_scheduled_witness:
  "let b = \<lparr>bop_ChainSelector = 4, bop_Transactions = [sample_ton_tx]\<rparr>;
       e = \<lparr>tte_client = sample_ton_client, tte_wallet = 0, tte_amount = 3, tte_wait = True\<rparr> in
   \<exists>ops opid r msg calls. tonConvert sample_ton_messages 1 sample_ton_metadata b ''Etl'' ''Emcms'' 0 TimelockActionSchedule 0 7 =
       Inr (ops, opid) \<and>
     ton_timelock_Execute sample_ton_messages e b ''Etl'' 0 7 [] = (Inr r, [msg]) \<and> tmg_Body msg = CellData 2 \<and>
     ton_HashOperationBatch sample_ton_messages calls 0 7 = Inr opid \<and> length calls = 1"
proof -
  let ?T = sample_ton_messages and ?b = "\<lparr>bop_ChainSelector = 4, bop_Transactions = [sample_ton_tx]\<rparr>"
  let ?e = "\<lparr>tte_client = sample_ton_client, tte_wallet = 0, tte_amount = 3, tte_wait = True\<rparr>"
  have laws: "\<forall>s c. ToCell ?T s = Inr c \<longrightarrow> SliceToCell ?T c = Inr c \<and> FromBOC ?T (ToBOC ?T c) = Inr c"
    "\<forall>a. ParseAddr ?T (AddrString ?T a) = Inr a"
    by (auto simp: sample_ton_messages_def sample_ton_def)
  have calls: "\<exists>calls. ton_ConvertBatchToCalls ?T ?b = Inr calls"
    by (simp add: ton_ConvertBatchToCalls_def ton_batch_call_def sample_ton_tx_def) (simp add: sample_ton_messages_def sample_ton_def)
  then obtain ops opid where conv:
    "tonConvert ?T 1 sample_ton_metadata ?b ''Etl'' ''Emcms'' 0 TimelockActionSchedule 0 7 = Inr (ops, opid)"
    by (auto simp: tonConvert_def Let_def ton_HashOperationBatch_def ton_action_data_def ton_NewTransaction_def sample_ton_messages_def
        sample_ton_def)
  obtain r msg where run: "ton_timelock_Execute ?T ?e ?b ''Etl'' 0 7 [] = (Inr r, [msg])"
    using calls
    by (auto simp: ton_timelock_Execute_def run_after_def bindW_def wrapW_def ext_def ton_timelock_CheckPendingSend_def
        ton_pending_send_def ton_SendTxAfter_def ton_SendTx_def sample_ton_messages_def sample_ton_def sample_ton_client_def)
  from ton_timelock_executes_scheduled [OF laws conv run] obtain calls q body w1 w2 tx dst where
    "length calls = length (bop_Transactions ?b)" "ton_HashOperationBatch ?T calls 0 7 = Inr opid"
    "ToCell ?T (TonExecuteBatch q calls 0 7) = Inr body"
    "tk_SendWaitTransaction sample_ton_client 0
      (ton_message_of \<lparr>tto_Wallet = 0, tto_DstAddr = dst, tto_Amount = 3, tto_Body = body\<rparr>) w2 = (Inr tx, [msg])"
    by auto
  then show ?thesis using conv run
    by (auto simp: Let_def sample_ton_messages_def ton_message_of_def sample_ton_client_def intro!: exI)
qed

text \<open>
  C35: the wait for a pending operation is long enough. While the operation of a contract becomes final in
  the future, by at most 9223372036 seconds, nothing is sent before a tick of all that time plus the
  quarter of a second of the buffer; the send is refused when the executor does not wait, and an
  operation that is final is sent at once.
\<close>

theorem ton_waits_long_enough:
  assumes "tk_CurrentMasterchainInfo K w = Inr block" and "tk_GetBlockData K block w = Inr now"
    and "getter block (tto_DstAddr opts) w = Inr validAfter" and "uint validAfter - uint now \<le> 9223372036"
  shows "ton_pending_send K getter failed opts wait w =
    (if uint validAfter \<le> uint now then ton_SendTx K opts w
     else if \<not> wait
     then (Inl (Errorf ''pending operation not final: operation is not yet valid to be executed (valid after %d, now %d)''), w)
     else case tk_AwaitTick K ((uint validAfter - uint now) * 1000000000 + 250000000) w of
        (None, w') \<Rightarrow> ton_SendTx K opts w'
      | (Some e, w') \<Rightarrow> (Inl (Wrapf ''context done while waiting to send transaction: %w'' (External e)), w'))"
proof -
  have now: "uint (ucast now :: u64) = uint now" by (simp add: uint_up_ucast is_up)
  have le: "validAfter \<le> ucast now \<longleftrightarrow> uint validAfter \<le> uint now" by (simp add: word_le_def now)
  have "ton_pending_send K getter failed opts wait w =
      ton_SendTxAfter K opts (ucast now) validAfter ton_DefaultWaitBuffer wait w"
    using assms(1-3) by (simp add: ton_pending_send_def ext_def)
  also have "\<dots> = (if uint validAfter \<le> uint now then ton_SendTx K opts w
     else if \<not> wait
     then (Inl (Errorf ''pending operation not final: operation is not yet valid to be executed (valid after %d, now %d)''), w)
     else case tk_AwaitTick K ((uint validAfter - uint now) * 1000000000 + 250000000) w of
        (None, w') \<Rightarrow> ton_SendTx K opts w'
      | (Some e, w') \<Rightarrow> (Inl (Wrapf ''context done while waiting to send transaction: %w'' (External e)), w'))"
  proof (cases "uint validAfter \<le> uint now")
    case True
    then show ?thesis by (simp add: ton_SendTxAfter_def le)
  next
    case False
    then have "ucast now < validAfter" by (simp add: le not_le [symmetric])
    from wait_duration_exact [OF this] assms(4) have
      "sint (wait_duration (ucast now) validAfter ton_DefaultWaitBuffer) = (uint validAfter - uint now) * 1000000000 + 250000000"
      by (simp add: now)
    with False show ?thesis by (simp add: ton_SendTxAfter_def le Let_def)
  qed
  finally show ?thesis .
qed

theorem ton_waits_long_enough_witness:
  "let K = sample_ton_client\<lparr>tk_AwaitTick := (\<lambda>d w. if d = 10250000000 then (None, w) else (Some ''context'', w))\<rparr>;
       opts = \<lparr>tto_Wallet = 0, tto_DstAddr = ''mcms'', tto_Amount = 3, tto_Body = CellData 0\<rparr> in
   ton_pending_send K (tk_MCMSOpPendingInfo K) ''failed'' opts True [] = ton_SendTx K opts [] \<and>
   fst (ton_pending_send K (tk_MCMSOpPendingInfo K) ''failed'' opts False []) =
     Inl (Errorf ''pending operation not final: operation is not yet valid to be executed (valid after %d, now %d)'')"
proof -
  let ?K = "sample_ton_client\<lparr>tk_AwaitTick := (\<lambda>d w. if d = 10250000000 then (None, w) else (Some ''context'', w))\<rparr>"
  have "tk_CurrentMasterchainInfo ?K [] = Inr ()" "tk_GetBlockData ?K () [] = Inr 100" "tk_MCMSOpPendingInfo ?K () a [] = Inr 110" for a
    by (simp_all add: sample_ton_client_def)
  from ton_waits_long_enough [where getter = "tk_MCMSOpPendingInfo ?K", OF this] show ?thesis by (simp add: Let_def)
qed

end
