(* ===== verification/Families.thy ===== *)
theory Families
  imports SolanaConverter Aptos Sui CantonExecution TonExecution TimelockExecutable
begin

text \<open>
  All chain families together. The dispatch of \<open>factory.go\<close> and \<open>chainwrappers/converters.go\<close> takes the
  code of the families from the environment; here every family's field is filled with the model of
  that family's package, so that what the timelock proposal does with batches on any mixture of chains
  rests on the converters and the operation ids as they are written, and on no contract assumed of
  them.
\<close>

section \<open>The environment\<close>

definition all_families ::
  "'t solana_tl_env_scheme \<Rightarrow> 'a aptos_pkg_scheme \<Rightarrow> 's sui_pkg_scheme \<Rightarrow> 'c canton_pkg_scheme \<Rightarrow>
     ('n, 'm, 'b, 'd) ton_pkg \<Rightarrow> 't solana_tl_env_scheme" where
  "all_families T A S C N = with_ton N (with_canton C (with_sui S (with_aptos A (with_solana T))))"

lemma all_families_sel [simp]:
  "ChainDetails (all_families T A S C N) = ChainDetails T"
  "solana_OperationID (all_families T A S C N) = sol_OperationID T"
  "solana_Convert (all_families T A S C N) = sol_ConvertBatchToChainOperations T"
  "aptos_OperationID (all_families T A S C N) = apt_OperationID (with_solana T) A"
  "aptos_Convert (all_families T A S C N) = apt_NewTimelockConverter (with_solana T) A"
  "aptos_CurseConvert (all_families T A S C N) = apt_NewCurseTimelockConverter (with_solana T) A"
  "sui_OperationID (all_families T A S C N) = suiOperationID (with_aptos A (with_solana T)) S"
  "sui_Convert (all_families T A S C N) = suiConvert (with_aptos A (with_solana T)) S"
  "canton_OperationID (all_families T A S C N) = cantonOperationID (with_sui S (with_aptos A (with_solana T))) C"
  "canton_Convert (all_families T A S C N) = cantonConvert (with_sui S (with_aptos A (with_solana T))) C"
  "ton_OperationID (all_families T A S C N) = tonOperationID N"
  "ton_Convert (all_families T A S C N) = tonConvert N ton_DefaultSendAmount"
  by (simp_all add: all_families_def with_ton_def with_canton_def with_sui_def with_aptos_def with_solana_def)

section \<open>Every family keeps the contract\<close>

lemma buildAptosTimelockConverter_cases:
  "buildAptosTimelockConverter E md = Inr c \<Longrightarrow> c = aptos_Convert E \<or> c = aptos_CurseConvert E"
  by (auto simp: buildAptosTimelockConverter_def bindE_Inr_iff split: if_splits)

lemma all_families_converter:
  assumes "BuildConverter (all_families T A S C N) sel md = Inr c"
    and "operationIDFn (all_families T A S C N) sel = Inr f"
  shows "family_converter c f"
proof -
  let ?F = "all_families T A S C N"
  from assms(1) obtain fam where fam: "GetChainSelectorFamily (ChainDetails ?F) sel = Inr fam"
    by (auto simp: BuildConverter_def bindE_Inr_iff)
  show ?thesis
  proof (cases fam)
    case FamilyEVM
    with assms fam show ?thesis
      by (simp add: BuildConverter_def operationIDFn_def) (metis evm_family.family_converter_axioms)
  next
    case FamilySolana
    with assms fam show ?thesis
      by (simp add: BuildConverter_def operationIDFn_def) (metis sol_family.family_converter_axioms)
  next
    case FamilyAptos
    with assms fam have "f = apt_OperationID (with_solana T) A"
      and "c = aptos_Convert ?F \<or> c = aptos_CurseConvert ?F"
      by (auto simp: BuildConverter_def operationIDFn_def dest: buildAptosTimelockConverter_cases)
    then show ?thesis
      by (auto simp: apt_NewTimelockConverter_def apt_NewCurseTimelockConverter_def
          apt_family.family_converter_axioms)
  next
    case FamilySui
    with assms fam show ?thesis
      by (simp add: BuildConverter_def operationIDFn_def) (metis sui_family.family_converter_axioms)
  next
    case FamilyTon
    with assms fam show ?thesis
      by (simp add: BuildConverter_def operationIDFn_def) (metis ton_family.family_converter_axioms)
  next
    case FamilyCanton
    with assms fam show ?thesis
      by (simp add: BuildConverter_def operationIDFn_def) (metis canton_family.family_converter_axioms)
  qed (use assms fam in \<open>simp_all add: BuildConverter_def\<close>)
qed

text \<open>
  The id is the same for a batch to be scheduled and to be cancelled. On Solana it is another one for a
  batch to be bypassed, where the predecessor is left out.
\<close>

lemma all_families_same_id:
  assumes "operationIDFn (all_families T A S C N) sel = Inr f"
  shows "f b TimelockActionCancel pred salt = f b TimelockActionSchedule pred salt"
proof -
  let ?F = "all_families T A S C N"
  from assms obtain fam where fam: "GetChainSelectorFamily (ChainDetails ?F) sel = Inr fam"
    by (auto simp: operationIDFn_def bindE_Inr_iff)
  from assms fam show ?thesis
    by (cases fam)
      (auto simp: operationIDFn_def evm_OperationID_def sol_OperationID_def apt_OperationID_def suiOperationID_def
        cantonOperationID_def tonOperationID_def)
qed

text \<open>
  The operation ids of a derived proposal are those of the proposal it is derived from, for families
  whose ids are the same under both actions.
\<close>

lemma derived_same_ids:
  assumes "deriveNewProposal E m action metadata = (Inr d, m')"
    and "\<And>b f pred salt. b \<in> set (tp_Operations m) \<Longrightarrow> operationIDFn E (bop_ChainSelector b) = Inr f \<Longrightarrow>
      f b action pred salt = f b (tp_Action m) pred salt"
  shows "OperationIDs E d = OperationIDs E m"
proof -
  from assms(1) obtain ts32 md where
    d: "d = m\<lparr>bp_Signatures := [], bp_ValidUntil := ts32, tp_SaltOverride := Some (Salt m),
             tp_Action := action, bp_ChainMetadata := md\<rparr>" by (rule deriveNewProposal_Inr)
  have ops: "tp_Operations d = tp_Operations m" and salt: "Salt d = Salt m" and act: "tp_Action d = action"
    by (simp_all add: d Salt_def)
  have "calc_loop E d [] (tp_Operations m) = calc_loop E m [] (tp_Operations m)"
    by (rule calc_loop_cong [OF salt]) (simp add: act assms(2))
  then show ?thesis by (simp add: OperationIDs_def calcOperationIDs_def calc_loop_init ops)
qed

section \<open>What Convert does with every batch\<close>

definition batch_converted ::
  "timelock_proposal \<Rightarrow> (chain_selector, converter) gomap \<Rightarrow> batch_operation \<Rightarrow> hash \<Rightarrow> operation list \<Rightarrow> hash \<Rightarrow> bool"
where
  "batch_converted m cs b pred ops h \<longleftrightarrow>
     (case (gm_get cs (bop_ChainSelector b), gm_get (bp_ChainMetadata m) (bop_ChainSelector b)) of
        (Some conv, Some md) \<Rightarrow>
          conv md b (gm_get0 (tp_TimelockAddresses m) (bop_ChainSelector b) []) (cm_MCMAddress md) (tp_Delay m)
            (tp_Action m) pred (Salt m) = Inr (ops, h)
      | _ \<Rightarrow> False)"

lemma convert_loop_batches:
  "convert_loop m cs l bops = Inr (ops, preds) \<Longrightarrow>
     \<exists>hs opss. length hs = length bops \<and> length opss = length bops \<and> length preds = length bops \<and>
       ops = concat opss \<and>
       (\<forall>i < length bops. batch_converted m cs (bops ! i) (preds ! i) (opss ! i) (hs ! i))"
proof (induction bops arbitrary: l ops preds)
  case (Cons b bops)
  from Cons.prems obtain conv md where
    c: "gm_get cs (bop_ChainSelector b) = Some conv" "gm_get (bp_ChainMetadata m) (bop_ChainSelector b) = Some md"
    by (auto simp: Let_def split: option.splits)
  with Cons.prems obtain ops1 h ops2 preds2 where
    one: "conv md b (gm_get0 (tp_TimelockAddresses m) (bop_ChainSelector b) []) (cm_MCMAddress md) (tp_Delay m)
      (tp_Action m) (gm_get0 l (bop_ChainSelector b) 0) (Salt m) = Inr (ops1, h)" and
    rest: "convert_loop m cs (gm_put (bop_ChainSelector b) h l) bops = Inr (ops2, preds2)" and
    eq: "ops = ops1 @ ops2" "preds = gm_get0 l (bop_ChainSelector b) 0 # preds2"
    by (auto simp: Let_def bindE_Inr_iff)
  from Cons.IH [OF rest] obtain hs opss where
    IH: "length hs = length bops" "length opss = length bops" "length preds2 = length bops" "ops2 = concat opss"
      "\<forall>i < length bops. batch_converted m cs (bops ! i) (preds2 ! i) (opss ! i) (hs ! i)" by blast
  have "batch_converted m cs b (gm_get0 l (bop_ChainSelector b) 0) ops1 h"
    using one c by (simp add: batch_converted_def)
  with IH(5) have "\<forall>i < length (b # bops).
      batch_converted m cs ((b # bops) ! i) (preds ! i) ((ops1 # opss) ! i) ((h # hs) ! i)"
    by (auto simp: eq less_Suc_eq_0_disj)
  with IH eq show ?case
    by (intro exI [of _ "h # hs"] exI [of _ "ops1 # opss"]) simp
qed simp

text \<open>With the converters built for the metadata, the converter of a batch is the one of its chain.\<close>

lemma built_converter:
  assumes "BuildConverters E (bp_ChainMetadata m) = Inr cs" and "gm_wf (bp_ChainMetadata m)"
    and "batch_converted m cs b pred ops h"
  obtains conv md f where "gm_get (bp_ChainMetadata m) (bop_ChainSelector b) = Some md"
    "BuildConverter E (bop_ChainSelector b) md = Inr conv" "operationIDFn E (bop_ChainSelector b) = Inr f"
    "conv md b (gm_get0 (tp_TimelockAddresses m) (bop_ChainSelector b) []) (cm_MCMAddress md) (tp_Delay m)
      (tp_Action m) pred (Salt m) = Inr (ops, h)"
proof -
  from assms(3) obtain conv md where
    cs: "gm_get cs (bop_ChainSelector b) = Some conv" and
    md: "gm_get (bp_ChainMetadata m) (bop_ChainSelector b) = Some md" and
    conv: "conv md b (gm_get0 (tp_TimelockAddresses m) (bop_ChainSelector b) []) (cm_MCMAddress md) (tp_Delay m)
      (tp_Action m) pred (Salt m) = Inr (ops, h)"
    by (auto simp: batch_converted_def split: option.splits)
  from BuildConverters_get(2) [OF assms(1,2) md] obtain c where
    c: "BuildConverter E (bop_ChainSelector b) md = Inr c" by blast
  moreover have "c = conv" using BuildConverters_get(1) [OF assms(1,2)] md c cs by simp
  ultimately show thesis using that md conv BuildConverter_operationIDFn [OF c] by blast
qed

section \<open>A sample with two families\<close>

text \<open>The chain 7 is an Aptos chain, every other one an EVM chain.\<close>

definition sample_mixed_env :: solana_tl_env where
  "sample_mixed_env = all_families
     (sample_tl\<lparr>ChainDetails := (\<lambda>sel. Inr (if sel = 7 then FamilyAptos else FamilyEVM))\<rparr>)
     sample_aptos sample_sui sample_canton sample_ton"

definition sample_mixed :: timelock_proposal where
  "sample_mixed = sample_timelock\<lparr>tp_Operations :=
     [TimelockProposal.sample_batch 5 2, \<lparr>bop_ChainSelector = 7, bop_Transactions = [sample_apt_tx]\<rparr>,
      TimelockProposal.sample_batch 5 1]\<rparr>"

lemma sample_mixed_fields [simp]:
  "bp_ChainMetadata sample_mixed = [(5, sample_metadata 10), (7, sample_metadata 3)]"
  "tp_Operations sample_mixed = [TimelockProposal.sample_batch 5 2,
     \<lparr>bop_ChainSelector = 7, bop_Transactions = [sample_apt_tx]\<rparr>, TimelockProposal.sample_batch 5 1]"
  "tp_Action sample_mixed = TimelockActionSchedule"
  by (simp_all add: sample_mixed_def)

lemma sample_mixed_geth:
  "EvmFieldsUnmarshal sample_mixed_env = EvmFieldsUnmarshal sample_env"
  "HexToAddress sample_mixed_env = HexToAddress sample_env"
  "AddressHex sample_mixed_env = AddressHex sample_env"
  "EvmFieldsMarshal sample_mixed_env = EvmFieldsMarshal sample_env"
  "RBACTimelockPack sample_mixed_env = RBACTimelockPack sample_env"
  "AbiPackMethod sample_mixed_env = AbiPackMethod sample_env"
  "Keccak256Hash sample_mixed_env = Keccak256Hash sample_env"
  "Now sample_mixed_env = Now sample_env"
  "ToUint32E sample_mixed_env = ToUint32E sample_env"
  by (simp_all add: sample_mixed_env_def all_families_def with_ton_def with_canton_def with_sui_def with_aptos_def
      with_solana_def sample_tl_def sample_solana_def solana_env.defs mcms_env.defs)

lemma sample_mixed_details: "ChainDetails sample_mixed_env = (\<lambda>sel. Inr (if sel = 7 then FamilyAptos else FamilyEVM))"
  by (simp add: sample_mixed_env_def)

lemma sample_mixed_evm:
  "evm_ConvertBatchToChainOperations sample_mixed_env = evm_ConvertBatchToChainOperations sample_env"
proof -
  have "Encode sample_mixed_env = Encode sample_env"
    by (intro ext) (simp only: Encode_def sample_mixed_geth)
  moreover from this have "evm_call sample_mixed_env = evm_call sample_env"
    and "HashOperationBatch sample_mixed_env = HashOperationBatch sample_env"
    and "evm_action_data sample_mixed_env = evm_action_data sample_env"
    and "evm_NewTransaction sample_mixed_env = evm_NewTransaction sample_env"
    by (intro ext, simp only: evm_call_def evm_fields_def HashOperationBatch_def evm_action_data_def
        evm_NewTransaction_def sample_mixed_geth)+
  ultimately show ?thesis
    by (intro ext) (simp only: evm_ConvertBatchToChainOperations_def evm_calls_and_tags_eq sample_mixed_geth)
qed

lemma sample_mixed_built:
  "\<exists>cs. BuildConverters sample_mixed_env (bp_ChainMetadata sample_mixed) = Inr cs \<and>
     gm_get cs 5 = Some (evm_ConvertBatchToChainOperations sample_env) \<and>
     gm_get cs 7 = Some (aptos_Convert sample_mixed_env)"
proof -
  have "BuildConverter sample_mixed_env 5 md = Inr (evm_ConvertBatchToChainOperations sample_env)" for md
    by (simp add: BuildConverter_def sample_mixed_details GetChainSelectorFamily_def supportedFamilies_def
        sample_mixed_evm)
  moreover have "BuildConverter sample_mixed_env 7 (sample_metadata n) = Inr (aptos_Convert sample_mixed_env)" for n
    by (simp add: BuildConverter_def sample_mixed_details GetChainSelectorFamily_def supportedFamilies_def
        buildAptosTimelockConverter_def sample_metadata_def raw_nonempty_def)
  ultimately show ?thesis by (simp add: BuildConverters_def)
qed

lemma sample_mixed_apt:
  "\<exists>r. aptos_Convert sample_mixed_env (sample_metadata n) \<lparr>bop_ChainSelector = 7, bop_Transactions = [sample_apt_tx]\<rparr>
     tlAddr mcm delay TimelockActionSchedule pred salt = Inr r"
proof -
  have "apt_target msg sample_aptos sample_apt_tx = Inr (65, ''mod'', ''fn'', [1, 2, 3])" for msg
    by (simp add: apt_target_def hexToAddress_def sample_apt_tx_def string_bytes_def from_be_def)
  then show ?thesis
    by (simp add: sample_mixed_env_def apt_NewTimelockConverter_def apt_Convert_with_def apt_targets_def
        hexToAddress_def apt_HashOperationBatch_def Let_def apt_action_call_def sample_move_encoder_def
        apt_NewTransaction_def sample_metadata_def)
qed

lemma sample_mixed_Convert:
  "\<exists>cs p preds. BuildConverters sample_mixed_env (bp_ChainMetadata sample_mixed) = Inr cs \<and>
     Convert sample_mixed cs = Inr (p, preds)"
proof -
  obtain cs where cs: "BuildConverters sample_mixed_env (bp_ChainMetadata sample_mixed) = Inr cs"
    and c5: "gm_get cs 5 = Some (evm_ConvertBatchToChainOperations sample_env)"
    and c7: "gm_get cs 7 = Some (aptos_Convert sample_mixed_env)" using sample_mixed_built by blast
  have md: "gm_get (bp_ChainMetadata sample_mixed) 5 = Some (sample_metadata 10)"
    "gm_get (bp_ChainMetadata sample_mixed) 7 = Some (sample_metadata 3)" by simp_all
  have act: "tp_Action sample_mixed = TimelockActionSchedule" by simp
  have step: "\<exists>r. convert_loop sample_mixed cs l (b # bops) = Inr r"
    if "\<And>l. \<exists>r. convert_loop sample_mixed cs l bops = Inr r"
      and "gm_get cs (bop_ChainSelector b) = Some c" "gm_get (bp_ChainMetadata sample_mixed) (bop_ChainSelector b) = Some meta"
      and "\<And>pred. \<exists>r. c meta b (gm_get0 (tp_TimelockAddresses sample_mixed) (bop_ChainSelector b) [])
        (cm_MCMAddress meta) (tp_Delay sample_mixed) TimelockActionSchedule pred (Salt sample_mixed) = Inr r"
    for l b bops c meta
  proof -
    from that(4) obtain ops h where "c meta b (gm_get0 (tp_TimelockAddresses sample_mixed) (bop_ChainSelector b) [])
        (cm_MCMAddress meta) (tp_Delay sample_mixed) TimelockActionSchedule (gm_get0 l (bop_ChainSelector b) 0)
        (Salt sample_mixed) = Inr (ops, h)" by (metis surj_pair)
    moreover from that(1) obtain ops' preds' where
      "convert_loop sample_mixed cs (gm_put (bop_ChainSelector b) h l) bops = Inr (ops', preds')" by (metis surj_pair)
    ultimately show ?thesis using that(2,3) act by (simp add: Let_def del: sample_mixed_fields)
  qed
  have step5: "\<exists>r. convert_loop sample_mixed cs l (TimelockProposal.sample_batch 5 n # bops) = Inr r"
    if "\<And>l. \<exists>r. convert_loop sample_mixed cs l bops = Inr r" for l n bops
    using step [OF that, of "TimelockProposal.sample_batch 5 n" "evm_ConvertBatchToChainOperations sample_env"
        "sample_metadata 10" l] c5 sample_convert by simp
  have step7: "\<exists>r. convert_loop sample_mixed cs l (\<lparr>bop_ChainSelector = 7, bop_Transactions = [sample_apt_tx]\<rparr> # bops) = Inr r"
    if "\<And>l. \<exists>r. convert_loop sample_mixed cs l bops = Inr r" for l bops
    using step [OF that, of "\<lparr>bop_ChainSelector = 7, bop_Transactions = [sample_apt_tx]\<rparr>" "aptos_Convert sample_mixed_env"
        "sample_metadata 3" l] c7 sample_mixed_apt by simp
  have "\<exists>r. convert_loop sample_mixed cs l (tp_Operations sample_mixed) = Inr r" for l
    unfolding sample_mixed_fields(2) by (intro step5 step7) simp
  then obtain ops preds where
    "convert_loop sample_mixed cs (init_lastOpID sample_mixed) (tp_Operations sample_mixed) = Inr (ops, preds)"
    by (metis surj_pair)
  then have "\<exists>p. Convert sample_mixed cs = Inr (p, preds)" unfolding Convert_def by simp
  with cs show ?thesis by blast
qed

lemma sample_mixed_derive:
  "\<exists>d m'. DeriveCancellationProposal sample_mixed_env sample_mixed
     [(7, sample_metadata 1), (5, sample_metadata 2)] = (Inr d, m')"
proof -
  have casts: "casts_documented sample_mixed_env"
    using sample_env_casts by (simp add: casts_documented_def sample_mixed_env_def all_families_def with_ton_def
        with_canton_def with_sui_def with_aptos_def with_solana_def sample_tl_def sample_solana_def solana_env.defs
        mcms_env.defs)
  have "unix (Now sample_mixed_env + DefaultValidUntil) = 259200"
    by (simp add: sample_mixed_geth unix_def DefaultValidUntil_def)
  then have "Int64ToUint32 sample_mixed_env (unix (Now sample_mixed_env + DefaultValidUntil)) = Inr 259200"
    by (simp add: Int64ToUint32_Inr [OF casts])
  then show ?thesis
    by (simp add: DeriveCancellationProposal_def deriveNewProposal_def replaceChainMetadataWithAddresses_def Let_def)
qed

section \<open>Properties\<close>

text \<open>
  C9: Convert and OperationIDs agree, on any mixture of chains of the six families. With the
  converters built for the metadata, a successful Convert gives the predecessors of OperationIDs; and
  for every batch the converter of its chain has been called with the metadata and the timelock's
  address of the chain, the proposal's delay, action and salt and the batch's predecessor, and has
  reported as id exactly the id that OperationIDs gives for the batch. The operations of the
  converted proposal are what these calls returned, batch after batch, and each stays on the chain of
  its batch.
\<close>

theorem Convert_predecessors:
  assumes "BuildConverters (all_families T A S C N) (bp_ChainMetadata m) = Inr cs"
    and "gm_wf (bp_ChainMetadata m)" and "Convert m cs = Inr (p, preds)"
  shows "\<exists>ids opss. OperationIDs (all_families T A S C N) m = Inr (ids, preds) \<and>
    length ids = length (tp_Operations m) \<and> length opss = length (tp_Operations m) \<and>
    pr_Operations p = concat opss \<and>
    (\<forall>i < length (tp_Operations m).
       let b = tp_Operations m ! i; sel = bop_ChainSelector b in
       \<exists>md conv. gm_get (bp_ChainMetadata m) sel = Some md \<and>
         BuildConverter (all_families T A S C N) sel md = Inr conv \<and>
         conv md b (gm_get0 (tp_TimelockAddresses m) sel []) (cm_MCMAddress md) (tp_Delay m) (tp_Action m)
           (preds ! i) (Salt m) = Inr (opss ! i, ids ! i) \<and>
         (\<forall>op \<in> set (opss ! i). op_ChainSelector op = sel))"
proof -
  let ?F = "all_families T A S C N"
  from assms(3) have loop: "convert_loop m cs (init_lastOpID m) (tp_Operations m) = Inr (pr_Operations p, preds)"
    by (rule Convert_InrE)
  from convert_loop_batches [OF loop] obtain hs opss where
    len: "length hs = length (tp_Operations m)" "length opss = length (tp_Operations m)" and
    ops: "pr_Operations p = concat opss" and
    each: "\<And>i. i < length (tp_Operations m) \<Longrightarrow> batch_converted m cs (tp_Operations m ! i) (preds ! i) (opss ! i) (hs ! i)"
    by blast
  have "\<exists>ids. calc_loop ?F m (init_lastOpID m) (tp_Operations m) = Inr (ids, preds)"
    using Convert_calc [OF assms] all_families_converter by blast
  then obtain ids where ids: "calc_loop ?F m (init_lastOpID m) (tp_Operations m) = Inr (ids, preds)" ..
  note spec = calc_loop_spec [OF ids]
  have batch: "\<exists>md conv. gm_get (bp_ChainMetadata m) (bop_ChainSelector (tp_Operations m ! i)) = Some md \<and>
      BuildConverter ?F (bop_ChainSelector (tp_Operations m ! i)) md = Inr conv \<and>
      conv md (tp_Operations m ! i) (gm_get0 (tp_TimelockAddresses m) (bop_ChainSelector (tp_Operations m ! i)) [])
        (cm_MCMAddress md) (tp_Delay m) (tp_Action m) (preds ! i) (Salt m) = Inr (opss ! i, ids ! i) \<and>
      (\<forall>op \<in> set (opss ! i). op_ChainSelector op = bop_ChainSelector (tp_Operations m ! i))"
    if i: "i < length (tp_Operations m)" for i
  proof (rule built_converter [OF assms(1,2) each [OF i]])
    fix conv md f
    assume md: "gm_get (bp_ChainMetadata m) (bop_ChainSelector (tp_Operations m ! i)) = Some md"
      and c: "BuildConverter ?F (bop_ChainSelector (tp_Operations m ! i)) md = Inr conv"
      and f: "operationIDFn ?F (bop_ChainSelector (tp_Operations m ! i)) = Inr f"
      and call: "conv md (tp_Operations m ! i)
        (gm_get0 (tp_TimelockAddresses m) (bop_ChainSelector (tp_Operations m ! i)) []) (cm_MCMAddress md)
        (tp_Delay m) (tp_Action m) (preds ! i) (Salt m) = Inr (opss ! i, hs ! i)"
    from all_families_converter [OF c f] have fam: "family_converter conv f" .
    from spec i f have "f (tp_Operations m ! i) (tp_Action m) (preds ! i) (Salt m) = Inr (ids ! i)" by auto
    with family_converter.conv_id [OF fam call] have "hs ! i = ids ! i" by simp
    with md c call family_converter.conv_chain [OF fam call] show ?thesis by auto
  qed
  have "OperationIDs ?F m = Inr (ids, preds)" using ids by (simp add: OperationIDs_def calcOperationIDs_def)
  then show ?thesis using len ops batch spec
    by (intro exI [of _ ids] exI [of _ opss]) (simp add: Let_def)
qed

theorem Convert_predecessors_witness:
  "\<exists>cs p preds ids. BuildConverters sample_mixed_env (bp_ChainMetadata sample_mixed) = Inr cs \<and>
     Convert sample_mixed cs = Inr (p, preds) \<and> OperationIDs sample_mixed_env sample_mixed = Inr (ids, preds) \<and>
     length ids = 3"
proof -
  obtain cs p preds where c: "BuildConverters sample_mixed_env (bp_ChainMetadata sample_mixed) = Inr cs"
    "Convert sample_mixed cs = Inr (p, preds)" using sample_mixed_Convert by blast
  have wf: "gm_wf (bp_ChainMetadata sample_mixed)" by (simp add: gm_wf_def)
  from Convert_predecessors [OF c(1) [unfolded sample_mixed_env_def] wf c(2)] c show ?thesis
    unfolding sample_mixed_env_def by fastforce
qed

text \<open>
  C11: What a cancellation proposal cancels is what was scheduled: on any mixture of chains of the six
  families, the proposal derived to cancel has the operation ids and the predecessors of the
  proposal it is derived from, and OperationIDs fails on the one if it fails on the other.
\<close>

theorem cancellation_same_ids:
  assumes "DeriveCancellationProposal (all_families T A S C N) m metadata = (Inr d, m')"
  shows "OperationIDs (all_families T A S C N) d = OperationIDs (all_families T A S C N) m"
proof -
  from assms have act: "tp_Action m = TimelockActionSchedule"
    and der: "deriveNewProposal (all_families T A S C N) m TimelockActionCancel metadata = (Inr d, m')"
    by (auto simp: DeriveCancellationProposal_def split: if_splits)
  from derived_same_ids [OF der] all_families_same_id act show ?thesis by metis
qed

theorem cancellation_same_ids_witness:
  "\<exists>d m'. DeriveCancellationProposal sample_mixed_env sample_mixed
       [(7, sample_metadata 1), (5, sample_metadata 2)] = (Inr d, m') \<and>
     OperationIDs sample_mixed_env d = OperationIDs sample_mixed_env sample_mixed"
  using sample_mixed_derive cancellation_same_ids unfolding sample_mixed_env_def by metis

end
