(* ===== verification/Stellar.thy ===== *)
theory Stellar
  imports HexText ByteCode Factory
begin

text \<open>
  The Stellar encoder: \<open>sdk/stellar/constants.go\<close>, \<open>encode.go\<close>, \<open>address.go\<close>, \<open>chain.go\<close> and \<open>encoder.go\<close>. Leaves
  are hashes of words of 32 bytes, as the ABI of Solidity lays them out. The dispatch has no case
  for the family yet. Base32 addresses, hexadecimal hashes of go-ethereum, chain ids and JSON text are
  parameters.
\<close>

section \<open>constants.go\<close>

text \<open>The domain separators, which are given as literals.\<close>

definition domainOpStellar :: hash where
  "domainOpStellar = 0x12cdc88e33b59a3a5a9fe3072e0bab63ee3db888af2cdb10bc93345688058d16"

definition domainMetaStellar :: hash where
  "domainMetaStellar = 0xde51f2d67bb4895d0dd1f36adb044227aa7b764d4e524d6b0d7004722728fda0"

definition uint40MaxExclusive :: u64 where
  "uint40MaxExclusive = push_bit 40 1"

section \<open>encode.go\<close>

definition appendWord32 :: "byte list \<Rightarrow> hash \<Rightarrow> byte list" where
  "appendWord32 buf word = buf @ be_bytes 32 word"

definition appendUint40 :: "byte list \<Rightarrow> u64 \<Rightarrow> byte list res" where
  "appendUint40 buf v =
     (if v \<ge> uint40MaxExclusive then Inl (Errorf ''value exceeds uint40 (2^40-1): %d'')
      else Inr (buf @ replicate 27 0 @ drop 3 (be_bytes 8 v)))"

definition appendBool :: "byte list \<Rightarrow> bool \<Rightarrow> byte list" where
  "appendBool buf v = buf @ replicate 31 0 @ [if v then 1 else 0]"

definition appendABIBytes :: "byte list \<Rightarrow> byte list \<Rightarrow> byte list" where
  "appendABIBytes buf data =
     (let n = word_of_nat (length data) :: u64;
          pad = (32 - length data mod 32) mod 32 in
      buf @ replicate 24 0 @ be_bytes 8 n @ data @ replicate pad 0)"

definition HashRootMetadata ::
  "'c crypto_pkg_scheme \<Rightarrow> hash \<Rightarrow> hash \<Rightarrow> hash \<Rightarrow> u64 \<Rightarrow> u64 \<Rightarrow> bool \<Rightarrow> hash res" where
  "HashRootMetadata C domain chainID multisig preOpCount postOpCount overridePreviousRoot =
     bindE (appendUint40 (appendWord32 (appendWord32 (appendWord32 [] domain) chainID) multisig) preOpCount) (\<lambda>buf.
     bindE (appendUint40 buf postOpCount) (\<lambda>buf.
       Inr (Keccak256Hash C (appendBool buf overridePreviousRoot))))"

text \<open>The offset of the data is that of the six words before them.\<close>

definition HashStellarOp ::
  "'c crypto_pkg_scheme \<Rightarrow> hash \<Rightarrow> hash \<Rightarrow> hash \<Rightarrow> u64 \<Rightarrow> hash \<Rightarrow> hash \<Rightarrow> byte list \<Rightarrow> hash res" where
  "HashStellarOp C domain chainID multisig nonce to value data =
     bindE (appendUint40 (appendWord32 (appendWord32 (appendWord32 [] domain) chainID) multisig) nonce) (\<lambda>buf.
       Inr (Keccak256Hash C (appendABIBytes (appendWord32 (appendWord32 (appendWord32 buf to) value) (6 * 32)) data)))"

section \<open>address.go and chain.go\<close>

record stellar_pkg =
  StellarChainIdFromSelector :: "chain_selector \<Rightarrow> string res"
  IsHexHash :: "string \<Rightarrow> bool"
  HexToHash :: "string \<Rightarrow> hash"
  StrkeyDecodeContract :: "string \<Rightarrow> byte list res"
  StellarFieldsUnmarshal :: "raw \<Rightarrow> string option res"

definition parseContractID :: "'s stellar_pkg_scheme \<Rightarrow> string \<Rightarrow> hash res" where
  "parseContractID L s0 =
     (let s = trim_space s0 in
      if s = [] then Inl (Errorf ''empty contract id'')
      else if IsHexHash L s then Inr (HexToHash L s)
      else
        bindE (wrapE (Wrapf ''decode contract strkey: %w'') (StrkeyDecodeContract L s)) (\<lambda>raw.
          if length raw \<noteq> 32 then Inl (Errorf ''contract id must be 32 bytes, got %d'')
          else Inr (from_be raw)))"

definition chainNetworkID :: "'s stellar_pkg_scheme \<Rightarrow> chain_selector \<Rightarrow> hash res" where
  "chainNetworkID L sel =
     bindE (wrapE (Wrapf ''stellar chain id for selector %d: %w'') (StellarChainIdFromSelector L sel)) (\<lambda>chainIDHex.
       if \<not> IsHexHash L chainIDHex
       then Inl (Errorf ''unexpected stellar chain id %q (want 64 hex chars, optional 0x prefix)'')
       else Inr (HexToHash L chainIDHex))"

section \<open>encoder.go\<close>

text \<open>\<open>SetString\<close> of \<open>math/big\<close> in base 16: an optional sign and at least one digit.\<close>

definition hex_value :: "string \<Rightarrow> int option" where
  "hex_value s =
     foldl (\<lambda>acc c. case (acc, fromHexChar c) of (Some n, Some d) \<Rightarrow> Some (16 * n + int d) | _ \<Rightarrow> None) (Some 0) s"

definition big_hex :: "string \<Rightarrow> int option" where
  "big_hex s =
     (let ds = (if prefix ''-'' s \<or> prefix ''+'' s then drop 1 s else s) in
      if ds = [] then None
      else map_option (\<lambda>n. if prefix ''-'' s then - n else n) (hex_value ds))"

definition parseValueWord :: "'s stellar_pkg_scheme \<Rightarrow> raw \<Rightarrow> hash res" where
  "parseValueWord L raw =
     (if \<not> raw_nonempty raw then Inr 0
      else
        bindE (wrapE (Wrapf ''unmarshal stellar additionalFields: %w'') (StellarFieldsUnmarshal L raw)) (\<lambda>value.
          case value of
            None \<Rightarrow> Inr 0
          | Some v \<Rightarrow>
              if v = [] then Inr 0
              else
                let s = (if length v \<ge> 2 \<and> (take 2 v = ''0x'' \<or> take 2 v = ''0X'') then drop 2 v else v) in
                if length s \<noteq> 64 then Inl (Errorf ''value must be 32-byte hex (64 chars), got length %d'')
                else
                  case big_hex s of
                    None \<Rightarrow> Inl (Errorf ''invalid value hex'')
                  | Some n \<Rightarrow>
                      if n < 0 \<or> n \<ge> 2 ^ 256 then Inl (Errorf ''value out of uint256 range'') else Inr (word_of_int n)))"

record stellar_encoder =
  ste_ChainSelector :: chain_selector
  ste_TxCount :: u64
  ste_OverridePreviousRoot :: bool

definition stellar_HashOperation ::
  "'c crypto_pkg_scheme \<Rightarrow> 's stellar_pkg_scheme \<Rightarrow> stellar_encoder \<Rightarrow> u32 \<Rightarrow> chain_metadata \<Rightarrow> operation \<Rightarrow> hash res" where
  "stellar_HashOperation C L e opCount metadata op =
     (if (ucast opCount :: u64) \<ge> uint40MaxExclusive then Inl (Errorf ''value exceeds uint40 (2^40-1): opCount %d'')
      else
        bindE (wrapE (Wrapf ''HashOperation: chain id: %w'') (chainNetworkID L (ste_ChainSelector e))) (\<lambda>chainID.
        bindE (wrapE (Wrapf ''mcmAddress: %w'') (parseContractID L (cm_MCMAddress metadata))) (\<lambda>multisig.
        bindE (wrapE (Wrapf ''transaction.to: %w'') (parseContractID L (tx_To (op_Transaction op)))) (\<lambda>to.
        bindE (wrapE (Wrapf ''HashOperation: additionalFields.value: %w'')
                 (parseValueWord L (tx_AdditionalFields (op_Transaction op)))) (\<lambda>valueWord.
          wrapE (Wrapf ''HashOperation: stellar op preimage: %w'')
            (HashStellarOp C domainOpStellar chainID multisig (ucast opCount) to valueWord (tx_Data (op_Transaction op))))))))"

definition stellar_HashMetadata ::
  "'c crypto_pkg_scheme \<Rightarrow> 's stellar_pkg_scheme \<Rightarrow> stellar_encoder \<Rightarrow> chain_metadata \<Rightarrow> hash res" where
  "stellar_HashMetadata C L e metadata =
     (if cm_StartingOpCount metadata \<ge> uint40MaxExclusive
      then Inl (Errorf ''value exceeds uint40 (2^40-1): startingOpCount %d'')
      else
        let post = cm_StartingOpCount metadata + ste_TxCount e in
        if post \<ge> uint40MaxExclusive
        then Inl (Errorf ''value exceeds uint40 (2^40-1): postOpCount (starting+txCount) %d'')
        else
          bindE (wrapE (Wrapf ''HashMetadata: chain id: %w'') (chainNetworkID L (ste_ChainSelector e))) (\<lambda>chainID.
          bindE (wrapE (Wrapf ''mcmAddress: %w'') (parseContractID L (cm_MCMAddress metadata))) (\<lambda>multisig.
            wrapE (Wrapf ''HashMetadata: root metadata preimage: %w'')
              (HashRootMetadata C domainMetaStellar chainID multisig (cm_StartingOpCount metadata) post
                 (ste_OverridePreviousRoot e)))))"

definition stellar_NewEncoder ::
  "'c crypto_pkg_scheme \<Rightarrow> 's stellar_pkg_scheme \<Rightarrow> chain_selector \<Rightarrow> u64 \<Rightarrow> bool \<Rightarrow> encoder" where
  "stellar_NewEncoder C L csel txCount overridePreviousRoot =
     (let e = \<lparr>ste_ChainSelector = csel, ste_TxCount = txCount, ste_OverridePreviousRoot = overridePreviousRoot\<rparr> in
      \<lparr>enc_HashOperation = stellar_HashOperation C L e, enc_HashMetadata = stellar_HashMetadata C L e\<rparr>)"

section \<open>Leaves\<close>

datatype stellar_leaf =
    StellarOpLeaf hash hash u64 hash hash "byte list"
  | StellarMetadataLeaf hash hash u64 u64 bool

definition count_word :: "u64 \<Rightarrow> byte list" where
  "count_word n = be_bytes 32 (ucast n :: hash)"

fun stellar_leaf_bytes :: "stellar_leaf \<Rightarrow> byte list" where
  "stellar_leaf_bytes (StellarOpLeaf chain m n to v data) =
     be_bytes 32 domainOpStellar @ be_bytes 32 chain @ be_bytes 32 m @ count_word n @ be_bytes 32 to @ be_bytes 32 v @
     be_bytes 32 (192 :: hash) @ count_word (word_of_nat (length data)) @ data @
     replicate ((32 - length data mod 32) mod 32) 0"
| "stellar_leaf_bytes (StellarMetadataLeaf chain m pre post ov) =
     be_bytes 32 domainMetaStellar @ be_bytes 32 chain @ be_bytes 32 m @ count_word pre @ count_word post @
     be_bytes 32 (of_bool ov :: hash)"

fun stellar_leaf_of ::
  "'s stellar_pkg_scheme \<Rightarrow> stellar_encoder \<Rightarrow> chain_metadata \<Rightarrow> (u32 \<times> operation) option \<Rightarrow> stellar_leaf res" where
  "stellar_leaf_of L e md (Some (n, op)) =
     bindE (chainNetworkID L (ste_ChainSelector e)) (\<lambda>chain.
     bindE (parseContractID L (cm_MCMAddress md)) (\<lambda>m.
     bindE (parseContractID L (tx_To (op_Transaction op))) (\<lambda>to.
     bindE (parseValueWord L (tx_AdditionalFields (op_Transaction op))) (\<lambda>v.
       Inr (StellarOpLeaf chain m (ucast n) to v (tx_Data (op_Transaction op)))))))"
| "stellar_leaf_of L e md None =
     bindE (chainNetworkID L (ste_ChainSelector e)) (\<lambda>chain.
     bindE (parseContractID L (cm_MCMAddress md)) (\<lambda>m.
       Inr (StellarMetadataLeaf chain m (cm_StartingOpCount md) (cm_StartingOpCount md + ste_TxCount e)
         (ste_OverridePreviousRoot e))))"

fun stellar_leaf_hash ::
  "'c crypto_pkg_scheme \<Rightarrow> 's stellar_pkg_scheme \<Rightarrow> stellar_encoder \<Rightarrow> chain_metadata \<Rightarrow> (u32 \<times> operation) option \<Rightarrow>
     hash res" where
  "stellar_leaf_hash C L e md (Some (n, op)) = stellar_HashOperation C L e n md op"
| "stellar_leaf_hash C L e md None = stellar_HashMetadata C L e md"

lemma be_bytes_zeros:
  fixes n :: u64
  assumes "unat n < 2 ^ (8 * k)" and "k \<le> 32"
  shows "be_bytes 32 (ucast n :: hash) = replicate (32 - k) 0 @ be_bytes k n"
proof (rule nth_equalityI)
  show "length (be_bytes 32 (ucast n :: hash)) = length (replicate (32 - k) (0 :: byte) @ be_bytes k n)" using assms(2) by simp
next
  fix i assume "i < length (be_bytes 32 (ucast n :: hash))"
  then have i: "i < 32" by simp
  show "be_bytes 32 (ucast n :: hash) ! i = (replicate (32 - k) 0 @ be_bytes k n) ! i"
  proof (cases "i < 32 - k")
    case True
    have "bit (ucast (drop_bit (8 * (32 - Suc i)) (ucast n :: hash)) :: byte) j = False" for j
    proof -
      have "\<not> bit n (8 * (32 - Suc i) + j)"
      proof -
        have "8 * k \<le> 8 * (32 - Suc i) + j" using True assms(2) by simp
        then have "(2 :: nat) ^ (8 * k) \<le> 2 ^ (8 * (32 - Suc i) + j)" by (intro power_increasing) simp_all
        with assms(1) have "unat n < 2 ^ (8 * (32 - Suc i) + j)" by (rule less_le_trans)
        then have "\<not> bit (unat n) (8 * (32 - Suc i) + j)" by (simp add: bit_iff_odd div_less)
        then show ?thesis by (simp add: bit_unsigned_iff)
      qed
      then show ?thesis by (auto simp: bit_unsigned_iff bit_drop_bit_eq)
    qed
    then have "ucast (drop_bit (8 * (32 - Suc i)) (ucast n :: hash)) = (0 :: byte)" by (intro bit_word_eqI) simp
    with True i show ?thesis by (simp add: be_bytes_def nth_append)
  next
    case False
    then have "32 - Suc i = k - Suc (i - (32 - k))" using i assms(2) by simp
    moreover have "ucast (drop_bit m (ucast n :: hash)) = (ucast (drop_bit m n) :: byte)" for m
      by (intro bit_word_eqI) (auto simp: bit_unsigned_iff bit_drop_bit_eq dest: bit_imp_le_length)
    ultimately show ?thesis using False i assms(2) by (simp add: be_bytes_def nth_append)
  qed
qed

lemma count_word_bytes: "unat n < 2 ^ (8 * k) \<Longrightarrow> k \<le> 32 \<Longrightarrow> replicate (32 - k) 0 @ be_bytes k n = count_word n"
  by (simp add: count_word_def be_bytes_zeros)

lemma count_word_inject: "count_word n = count_word m \<longleftrightarrow> n = m"
proof -
  have "ucast (ucast k :: hash) = k" for k :: u64 by (rule ucast_up_ucast_id) (simp add: is_up)
  then have "ucast n = (ucast m :: hash) \<longleftrightarrow> n = m" by metis
  then show ?thesis by (simp add: count_word_def be_bytes_inject)
qed

lemma length_count_word [simp]: "length (count_word n) = 32"
  by (simp add: count_word_def)

lemma appendUint40_Inr: "appendUint40 buf v = Inr b \<longleftrightarrow> unat v < 2 ^ 40 \<and> b = buf @ count_word v"
proof -
  have "v \<ge> uint40MaxExclusive \<longleftrightarrow> \<not> unat v < 2 ^ 40" by (auto simp: uint40MaxExclusive_def word_le_nat_alt)
  moreover have "drop 3 (be_bytes 8 v) = be_bytes 5 v"
    by (simp add: be_bytes_def drop_map upt_rec)
  moreover have "unat v < 2 ^ 40 \<Longrightarrow> replicate 27 0 @ be_bytes 5 v = count_word v"
    using count_word_bytes [of v 5] by simp
  ultimately show ?thesis by (auto simp: appendUint40_def)
qed

lemma appendBool_word: "appendBool buf v = buf @ be_bytes 32 (of_bool v :: hash)"
proof -
  have "be_bytes 32 (1 :: hash) = replicate 31 0 @ [1]" "be_bytes 32 (0 :: hash) = replicate 31 0 @ [0]" by code_simp+
  then show ?thesis by (cases v) (simp_all add: appendBool_def)
qed

lemma appendABIBytes_word:
  "appendABIBytes buf data =
     buf @ count_word (word_of_nat (length data)) @ data @ replicate ((32 - length data mod 32) mod 32) 0"
  using count_word_bytes [of "word_of_nat (length data)" 8] unsigned_less [of "word_of_nat (length data) :: u64", where 'a = nat]
  by (simp add: appendABIBytes_def Let_def)

lemma stellar_leaf_hash_Inr:
  assumes "stellar_leaf_hash C L e md x = Inr h"
  shows "\<exists>l. stellar_leaf_of L e md x = Inr l \<and> h = Keccak256Hash C (stellar_leaf_bytes l)"
proof (cases x)
  case None
  with assms show ?thesis
    by (auto simp: stellar_HashMetadata_def HashRootMetadata_def Let_def bindE_Inr_iff appendUint40_Inr appendBool_word
        appendWord32_def split: if_splits)
next
  case (Some a)
  then show ?thesis using assms
    by (cases a) (auto simp: stellar_HashOperation_def HashStellarOp_def bindE_Inr_iff appendUint40_Inr appendABIBytes_word
        appendWord32_def split: if_splits)
qed

fun stellar_leaf_fits :: "stellar_leaf \<Rightarrow> bool" where
  "stellar_leaf_fits (StellarOpLeaf _ _ _ _ _ data) \<longleftrightarrow> length data < 2 ^ 63"
| "stellar_leaf_fits _ \<longleftrightarrow> True"

lemma word_bytes_splits:
  "be_bytes 32 (v :: hash) @ r = be_bytes 32 w @ s \<longleftrightarrow> v = w \<and> r = s"
  "count_word m @ r = count_word n @ s \<longleftrightarrow> m = n \<and> r = s"
  by (auto simp: append_eq_append_conv be_bytes_inject count_word_inject)

lemma stellar_leaf_bytes_inject:
  assumes "stellar_leaf_bytes l = stellar_leaf_bytes l'" and "stellar_leaf_fits l" and "stellar_leaf_fits l'"
  shows "l = l'"
proof -
  have apart: "domainOpStellar \<noteq> domainMetaStellar" by (simp add: domainOpStellar_def domainMetaStellar_def)
  have len: "m = n" if "m < 2 ^ 63" "n < 2 ^ 63" "(word_of_nat m :: u64) = word_of_nat n" for m n
  proof -
    from that(3) have "unat (word_of_nat m :: u64) = unat (word_of_nat n :: u64)" by simp
    with that(1,2) show ?thesis by (simp add: unsigned_of_nat take_bit_nat_eq_self)
  qed
  have bool: "(of_bool a :: hash) = of_bool b \<longleftrightarrow> a = b" for a b by (cases a; cases b) simp_all
  show ?thesis
    using assms apart len
    by (cases l; cases l') (auto simp: word_bytes_splits be_bytes_inject bool append_eq_append_conv)
qed

lemma stellar_leaf_of_fits:
  assumes "stellar_leaf_of L e md x = Inr l" and "\<forall>n op. x = Some (n, op) \<longrightarrow> length (tx_Data (op_Transaction op)) < 2 ^ 63"
  shows "stellar_leaf_fits l"
proof (cases x)
  case None
  with assms(1) show ?thesis by (auto simp: bindE_Inr_iff)
next
  case (Some a)
  with assms show ?thesis by (cases a) (auto simp: bindE_Inr_iff)
qed

section \<open>A sample network\<close>

definition sample_stellar :: stellar_pkg where
  "sample_stellar =
     \<lparr>StellarChainIdFromSelector = (\<lambda>_. Inr ''07''), IsHexHash = (\<lambda>s. length s = 2),
      HexToHash = (\<lambda>s. case hex_DecodeString s of Inl _ \<Rightarrow> 0 | Inr bs \<Rightarrow> from_be bs),
      StrkeyDecodeContract = (\<lambda>s. if prefix ''C'' s then Inr (be_bytes 32 (9 :: hash)) else Inl (External ''strkey'')),
      StellarFieldsUnmarshal = (\<lambda>_. Inr None)\<rparr>"

definition sample_stellar_op :: operation where
  "sample_stellar_op = \<lparr>op_ChainSelector = 4, op_Transaction = \<lparr>tx_ContractType = [], tx_ContractVersion = None, tx_Tags = [],
     tx_To = '' CABC '', tx_Data = [1, 2, 3], tx_AdditionalFields = RawEmpty\<rparr>\<rparr>"

lemma sample_stellar_leaf:
  "stellar_leaf_of sample_stellar \<lparr>ste_ChainSelector = 4, ste_TxCount = 1, ste_OverridePreviousRoot = False\<rparr>
     \<lparr>cm_StartingOpCount = 0, cm_MCMAddress = ''05'', cm_AdditionalFields = RawEmpty\<rparr> (Some (3, sample_stellar_op)) =
   Inr (StellarOpLeaf 7 5 3 9 0 [1, 2, 3])"
  by code_simp

section \<open>Properties\<close>

text \<open>
  Both counts of hashed metadata fit 40 bits, and the last is the exact sum, as far as the operations of
  a chain can be counted by an \<open>int\<close>.
\<close>

theorem stellar_counts_exact:
  assumes "stellar_HashMetadata C L e md = Inr h" and "unat (ste_TxCount e) < 2 ^ 63"
  shows "\<exists>chain m post. stellar_leaf_of L e md None =
      Inr (StellarMetadataLeaf chain m (cm_StartingOpCount md) post (ste_OverridePreviousRoot e)) \<and>
    unat post = unat (cm_StartingOpCount md) + unat (ste_TxCount e) \<and> unat post < 2 ^ 40"
proof -
  from assms(1) have le: "unat (cm_StartingOpCount md) < 2 ^ 40" "unat (cm_StartingOpCount md + ste_TxCount e) < 2 ^ 40"
    by (auto simp: stellar_HashMetadata_def HashRootMetadata_def Let_def bindE_Inr_iff appendUint40_Inr split: if_splits)
  then have "unat (cm_StartingOpCount md + ste_TxCount e) = unat (cm_StartingOpCount md) + unat (ste_TxCount e)"
    using assms(2) by (subst unat_add_lem [symmetric]) simp
  moreover have "stellar_leaf_hash C L e md None = Inr h" using assms(1) by simp
  from stellar_leaf_hash_Inr [OF this] obtain l where "stellar_leaf_of L e md None = Inr l" by blast
  ultimately show ?thesis using le by (auto simp: bindE_Inr_iff)
qed

text \<open>
  C36: a leaf of a Stellar chain cannot be passed off as another. Two leaves with the same hash, each of an
  operation with its nonce or of the metadata of a chain, agree in the network, the contract, the nonce
  or op counts, the target, the value and the data; or the two byte strings that were hashed are a collision
  of keccak. The two domain separators are literals of the code, so nothing is asked of them.
\<close>

theorem stellar_leaves_binding:
  assumes "\<forall>n op. x = Some (n, op) \<longrightarrow> length (tx_Data (op_Transaction op)) < 2 ^ 63"
    and "\<forall>n op. x' = Some (n, op) \<longrightarrow> length (tx_Data (op_Transaction op)) < 2 ^ 63"
    and "stellar_leaf_hash C L e md x = Inr h" and "stellar_leaf_hash C L e' md' x' = Inr h"
  shows "\<exists>l l'. stellar_leaf_of L e md x = Inr l \<and> stellar_leaf_of L e' md' x' = Inr l' \<and>
    (l = l' \<or> stellar_leaf_bytes l \<noteq> stellar_leaf_bytes l' \<and> Keccak256Hash C (stellar_leaf_bytes l) = h \<and>
       Keccak256Hash C (stellar_leaf_bytes l') = h)"
proof -
  from stellar_leaf_hash_Inr [OF assms(3)] obtain l where l: "stellar_leaf_of L e md x = Inr l" "h = Keccak256Hash C (stellar_leaf_bytes l)"
    by blast
  from stellar_leaf_hash_Inr [OF assms(4)] obtain l' where l': "stellar_leaf_of L e' md' x' = Inr l'" "h = Keccak256Hash C (stellar_leaf_bytes l')"
    by blast
  from stellar_leaf_bytes_inject [of l l'] stellar_leaf_of_fits [OF l(1) assms(1)] stellar_leaf_of_fits [OF l'(1) assms(2)] l l'
  show ?thesis by auto
qed

theorem stellar_leaves_binding_witness:
  "let e = \<lparr>ste_ChainSelector = 4, ste_TxCount = 1, ste_OverridePreviousRoot = False\<rparr>;
       md = \<lparr>cm_StartingOpCount = 0, cm_MCMAddress = ''05'', cm_AdditionalFields = RawEmpty\<rparr> in
   \<exists>h l. stellar_leaf_hash sample_env sample_stellar e md (Some (3, sample_stellar_op)) = Inr h \<and>
     stellar_leaf_of sample_stellar e md (Some (3, sample_stellar_op)) = Inr l \<and> l = StellarOpLeaf 7 5 3 9 0 [1, 2, 3]"
proof -
  let ?e = "\<lparr>ste_ChainSelector = 4, ste_TxCount = 1, ste_OverridePreviousRoot = False\<rparr>"
  let ?md = "\<lparr>cm_StartingOpCount = 0, cm_MCMAddress = ''05'', cm_AdditionalFields = RawEmpty\<rparr>"
  let ?x = "Some (3, sample_stellar_op)"
  have parts: "chainNetworkID sample_stellar 4 = Inr 7" "parseContractID sample_stellar ''05'' = Inr 5"
    "parseContractID sample_stellar (tx_To (op_Transaction sample_stellar_op)) = Inr 9"
    "parseValueWord sample_stellar (tx_AdditionalFields (op_Transaction sample_stellar_op)) = Inr 0" by code_simp+
  have "\<exists>h. stellar_leaf_hash sample_env sample_stellar ?e ?md ?x = Inr h"
    by (simp add: stellar_HashOperation_def parts HashStellarOp_def appendUint40_def uint40MaxExclusive_def)
  then obtain h where h: "stellar_leaf_hash sample_env sample_stellar ?e ?md ?x = Inr h" ..
  have small: "\<forall>n op. ?x = Some (n, op) \<longrightarrow> length (tx_Data (op_Transaction op)) < 2 ^ 63" by (simp add: sample_stellar_op_def)
  from stellar_leaves_binding [OF small small h h] h sample_stellar_leaf show ?thesis by (auto simp: Let_def)
qed

end
