(* ===== verification/Wrappers.thy ===== *)
theory Wrappers
  imports EvmClient Solana Aptos Sui Canton Ton
begin

text \<open>
  \<open>chainwrappers/executors.go\<close>, \<open>timelock_executors.go\<close>, \<open>inspectors.go\<close>, \<open>timelock_inspectors.go\<close> and
  \<open>timelock_configurers.go\<close>: the clients of a proposal's chains made from what a \<open>ChainAccessor\<close> holds. Clients
  and signers are pointers, numbers here; a client that was made is a value that names the arguments
  of its constructor. The options of an EVM signer are written to, so they live in a store.
\<close>

section \<open>What the wrappers are given\<close>

text \<open>The accessor is an interface that the caller implements. What it finds is not nil.\<close>

record chain_accessor =
  acc_EVMClient :: "chain_selector \<Rightarrow> nat option"
  acc_EVMSigner :: "chain_selector \<Rightarrow> nat option"
  acc_SolanaClient :: "chain_selector \<Rightarrow> nat option"
  acc_SolanaSigner :: "chain_selector \<Rightarrow> nat option"
  acc_AptosClient :: "chain_selector \<Rightarrow> nat option"
  acc_AptosSigner :: "chain_selector \<Rightarrow> nat option"
  acc_SuiClient :: "chain_selector \<Rightarrow> nat option"
  acc_SuiSigner :: "chain_selector \<Rightarrow> nat option"
  acc_TonClient :: "chain_selector \<Rightarrow> nat option"
  acc_TonSigner :: "chain_selector \<Rightarrow> nat option"
  acc_CantonChain :: "chain_selector \<Rightarrow> (canton_participant \<times> nat) list option"

text \<open>
  \<open>wp_NewMcms\<close> is the check of the generated Sui binding on the id of a package and a client; the JSON readers of
  the EVM and Sui metadata are those of their theories, the records \<open>B\<close> and \<open>S\<close>.
\<close>

record wrapper_pkg = mcms_env +
  wp_NewMcms :: "string \<Rightarrow> nat \<Rightarrow> unit res"

text \<open>Encoders come as interface values.\<close>

datatype any_encoder =
    EvmEncoderOf evm_encoder
  | SolanaEncoderOf solana_encoder
  | AptosEncoderOf aptos_encoder
  | SuiEncoderOf sui_encoder
  | TonEncoderOf ton_encoder
  | CantonEncoderOf canton_encoder
  | NilEncoder

type_synonym gas = "int option \<times> u64"

type_synonym auth_store = "nat \<Rightarrow> gas"

definition accessed :: "chain_accessor option \<Rightarrow> (chain_accessor \<Rightarrow> 'a option) \<Rightarrow> string \<Rightarrow> 'a res" where
  "accessed access f missing =
     (case access of
        None \<Rightarrow> Inl (Panic ''invalid memory address or nil pointer dereference'')
      | Some c \<Rightarrow> (case f c of None \<Rightarrow> Inl (Errorf missing) | Some x \<Rightarrow> Inr x))"

text \<open>The first participant of a Canton chain and the parties of all of them.\<close>

definition canton_access ::
  "chain_accessor option \<Rightarrow> chain_selector \<Rightarrow> (canton_participant \<times> nat \<times> string list) res" where
  "canton_access access sel =
     bindE (accessed access (\<lambda>c. acc_CantonChain c sel) ''missing Canton chain participant for selector %d'') (\<lambda>ch.
       case ch of
         [] \<Rightarrow> Inl (Errorf ''missing Canton chain participant for selector %d'')
       | (p, ledger) # _ \<Rightarrow> Inr (p, ledger, MCMSPartiesForChain (map fst ch)))"

definition aptos_type_of :: "'e mcms_env_scheme \<Rightarrow> string \<Rightarrow> chain_metadata \<Rightarrow> string res" where
  "aptos_type_of E failed metadata =
     (if raw_nonempty (cm_AdditionalFields metadata)
      then wrapE (Wrapf failed) (aptos_MCMSType E (cm_AdditionalFields metadata))
      else Inr MCMSTypeRegular)"

section \<open>Executors\<close>

datatype built_executor =
    EvmExecutor evm_encoder nat nat
  | SolanaExecutor solana_encoder nat nat
  | AptosExecutor nat nat aptos_encoder aptos_role string
  | SuiExecutor nat nat sui_encoder sui_metadata string
  | TonExecutor ton_encoder nat nat int
  | CantonExecutor canton_encoder nat string "string list" canton_role

definition evm_auth ::
  "'e wrapper_pkg_scheme \<Rightarrow> ('w, 'x, 'm) evm_backend_scheme \<Rightarrow> chain_accessor option \<Rightarrow> chain_selector \<Rightarrow> chain_metadata \<Rightarrow> (nat \<times> nat \<times> gas) res" where
  "evm_auth E B access sel metadata =
     bindE (accessed access (\<lambda>c. acc_EVMClient c sel) ''missing evm chain client for selector %d'') (\<lambda>client.
     bindE (accessed access (\<lambda>c. acc_EVMSigner c sel) ''missing evm signer for selector %d'') (\<lambda>auth.
     bindE (wrapE (Wrapf ''failed to parse EVM chain metadata for selector %d: %w'') (ParseChainMetadata B metadata)) (\<lambda>gas.
       Inr (client, auth, gas))))"

definition build_other_executor ::
  "'e wrapper_pkg_scheme \<Rightarrow> 's sui_pkg_scheme \<Rightarrow> chain_accessor option \<Rightarrow> family \<Rightarrow> chain_selector \<Rightarrow> any_encoder \<Rightarrow> timelock_action \<Rightarrow>
     chain_metadata \<Rightarrow> built_executor res" where
  "build_other_executor E S access fam sel encoder action metadata =
     (case fam of
        FamilySolana \<Rightarrow>
          (case encoder of
             SolanaEncoderOf enc \<Rightarrow>
               bindE (accessed access (\<lambda>c. acc_SolanaClient c sel) ''missing solana chain client for selector %d'') (\<lambda>client.
               bindE (accessed access (\<lambda>c. acc_SolanaSigner c sel) ''missing solana chain signer for selector %d'') (\<lambda>signer.
                 Inr (SolanaExecutor enc client signer)))
           | _ \<Rightarrow> Inl (Errorf ''invalid encoder type for selector %d: %T''))
      | FamilyAptos \<Rightarrow>
          (case encoder of
             AptosEncoderOf enc \<Rightarrow>
               bindE (wrapE (Wrapf ''error getting aptos role from proposal: %w'') (AptosRoleFromAction action)) (\<lambda>role.
               bindE (accessed access (\<lambda>c. acc_AptosClient c sel) ''missing aptos chain client for selector %d'') (\<lambda>client.
               bindE (accessed access (\<lambda>c. acc_AptosSigner c sel) ''missing aptos chain signer for selector %d'') (\<lambda>signer.
               bindE (aptos_type_of E ''failed to unmarshal aptos additional fields metadata for selector %d: %w'' metadata) (\<lambda>ty.
                 Inr (AptosExecutor client signer enc role ty)))))
           | _ \<Rightarrow> Inl (Errorf ''invalid encoder type for selector %d: %T''))
      | FamilySui \<Rightarrow>
          (case encoder of
             SuiEncoderOf enc \<Rightarrow>
               bindE (accessed access (\<lambda>c. acc_SuiClient c sel) ''missing sui chain client for selector %d'') (\<lambda>client.
               bindE (accessed access (\<lambda>c. acc_SuiSigner c sel) ''missing sui chain signer for selector %d'') (\<lambda>signer.
               bindE (wrapE (Wrapf ''error getting sui metadata from proposal: %w'') (SuiMetadata S metadata)) (\<lambda>m.
               bindE (wp_NewMcms E (sm_McmsPackageID m) client) (\<lambda>_.
                 Inr (SuiExecutor client signer enc m (cm_MCMAddress metadata))))))
           | _ \<Rightarrow> Inl (Errorf ''invalid encoder type for selector %d: %T''))
      | FamilyTon \<Rightarrow>
          (case encoder of
             TonEncoderOf enc \<Rightarrow>
               bindE (accessed access (\<lambda>c. acc_TonClient c sel) ''missing ton chain client for selector %d'') (\<lambda>client.
               bindE (accessed access (\<lambda>c. acc_TonSigner c sel) ''missing ton client signer for selector %d'') (\<lambda>signer.
                 Inr (TonExecutor enc client signer ton_DefaultSendAmount)))
           | _ \<Rightarrow> Inl (Errorf ''invalid encoder type for selector %d: %T''))
      | FamilyCanton \<Rightarrow>
          bindE (canton_access access sel) (\<lambda>(participant, ledger, parties).
            case encoder of
              CantonEncoderOf enc \<Rightarrow>
                bindE (wrapE (Wrapf ''error getting canton role from proposal: %w'') (CantonRoleFromAction action)) (\<lambda>role.
                  Inr (CantonExecutor enc ledger (cpt_PartyID participant) parties role))
            | _ \<Rightarrow> Inl (Errorf ''invalid encoder type for selector %d: %T''))
      | _ \<Rightarrow> Inl (Errorf ''unsupported chain family %s''))"

text \<open>The gas price and limit of the metadata are written into the options of the signer.\<close>

definition BuildExecutor ::
  "'e wrapper_pkg_scheme \<Rightarrow> ('w, 'x, 'm) evm_backend_scheme \<Rightarrow> 's sui_pkg_scheme \<Rightarrow> chain_accessor option \<Rightarrow> chain_selector \<Rightarrow> any_encoder \<Rightarrow> timelock_action \<Rightarrow> chain_metadata \<Rightarrow>
     auth_store \<Rightarrow> built_executor res \<times> auth_store" where
  "BuildExecutor E B S access sel encoder action metadata st =
     run_after (wrapE (Wrapf ''error getting chain family: %w'') (GetChainSelectorFamily (ChainDetails E) sel)) (\<lambda>fam st.
       if fam = FamilyEVM then
         (case encoder of
            EvmEncoderOf enc \<Rightarrow>
              run_after (evm_auth E B access sel metadata) (\<lambda>(client, auth, gas) st.
                (Inr (EvmExecutor enc client auth), st(auth := gas))) st
          | _ \<Rightarrow> (Inl (Errorf ''invalid encoder type for selector %d: %T''), st))
       else (build_other_executor E S access fam sel encoder action metadata, st)) st"

text \<open>The loop over a map that makes one value per key; the order is the one the map is walked in.\<close>

fun build_loop ::
  "(chain_selector \<Rightarrow> chain_metadata \<Rightarrow> auth_store \<Rightarrow> 'x res \<times> auth_store) \<Rightarrow> (chain_selector, chain_metadata) gomap \<Rightarrow>
     (chain_selector, 'x) gomap \<Rightarrow> auth_store \<Rightarrow> (chain_selector, 'x) gomap res \<times> auth_store" where
  "build_loop build [] acc st = (Inr acc, st)"
| "build_loop build ((sel, md) # rest) acc st =
     (case build sel md st of
        (Inl err, st') \<Rightarrow> (Inl err, st')
      | (Inr x, st') \<Rightarrow> build_loop build rest (gm_put sel x acc) st')"

definition BuildExecutors ::
  "'e wrapper_pkg_scheme \<Rightarrow> ('w, 'x, 'm) evm_backend_scheme \<Rightarrow> 's sui_pkg_scheme \<Rightarrow> chain_accessor option \<Rightarrow> (chain_selector, chain_metadata) gomap \<Rightarrow>
     (chain_selector, any_encoder) gomap \<Rightarrow> timelock_action \<Rightarrow> auth_store \<Rightarrow>
     (chain_selector, built_executor) gomap res \<times> auth_store" where
  "BuildExecutors E B S access chainMetadata encoders action =
     build_loop (\<lambda>sel metadata st.
         case gm_get encoders sel of
           None \<Rightarrow> (Inl (Errorf ''missing encoder for chain selector %d''), st)
         | Some encoder \<Rightarrow> BuildExecutor E B S access sel encoder action metadata st) chainMetadata []"

section \<open>Timelock executors\<close>

datatype built_timelock_executor =
    EvmTimelockExecutor nat nat
  | SolanaTimelockExecutor nat nat
  | AptosTimelockExecutor nat nat string
  | SuiTimelockExecutor nat nat sui_metadata
  | TonTimelockExecutor nat nat int
  | CantonTimelockExecutor nat string "string list"

definition build_other_timelock_executor ::
  "'e wrapper_pkg_scheme \<Rightarrow> 's sui_pkg_scheme \<Rightarrow> chain_accessor option \<Rightarrow> family \<Rightarrow> chain_selector \<Rightarrow> chain_metadata \<Rightarrow>
     built_timelock_executor res" where
  "build_other_timelock_executor E S access fam sel metadata =
     (case fam of
        FamilySolana \<Rightarrow>
          bindE (accessed access (\<lambda>c. acc_SolanaClient c sel) ''missing solana chain client for selector %d'') (\<lambda>client.
          bindE (accessed access (\<lambda>c. acc_SolanaSigner c sel) ''missing solana chain signer for selector %d'') (\<lambda>signer.
            Inr (SolanaTimelockExecutor client signer)))
      | FamilyAptos \<Rightarrow>
          bindE (accessed access (\<lambda>c. acc_AptosClient c sel) ''missing aptos chain client for selector %d'') (\<lambda>client.
          bindE (accessed access (\<lambda>c. acc_AptosSigner c sel) ''missing aptos chain signer for selector %d'') (\<lambda>signer.
          bindE (aptos_type_of E ''failed to parse Aptos metadata for selector %d: %w'' metadata) (\<lambda>ty.
            Inr (AptosTimelockExecutor client signer ty))))
      | FamilySui \<Rightarrow>
          bindE (accessed access (\<lambda>c. acc_SuiClient c sel) ''missing sui chain client for selector %d'') (\<lambda>client.
          bindE (accessed access (\<lambda>c. acc_SuiSigner c sel) ''missing sui chain signer for selector %d'') (\<lambda>signer.
          bindE (wrapE (Wrapf ''error getting sui metadata from proposal: %w'') (SuiMetadata S metadata)) (\<lambda>m.
          bindE (wp_NewMcms E (sm_McmsPackageID m) client) (\<lambda>_.
            Inr (SuiTimelockExecutor client signer m)))))
      | FamilyTon \<Rightarrow>
          bindE (accessed access (\<lambda>c. acc_TonClient c sel) ''missing ton chain client for selector %d'') (\<lambda>client.
          bindE (accessed access (\<lambda>c. acc_TonSigner c sel) ''missing ton client signer for selector %d'') (\<lambda>signer.
            Inr (TonTimelockExecutor client signer ton_DefaultSendAmount)))
      | FamilyCanton \<Rightarrow>
          bindE (canton_access access sel) (\<lambda>(participant, ledger, parties).
            Inr (CantonTimelockExecutor ledger (cpt_PartyID participant) parties))
      | _ \<Rightarrow> Inl (Errorf ''unsupported chain family %s''))"

definition BuildTimelockExecutor ::
  "'e wrapper_pkg_scheme \<Rightarrow> ('w, 'x, 'm) evm_backend_scheme \<Rightarrow> 's sui_pkg_scheme \<Rightarrow> chain_accessor option \<Rightarrow> chain_selector \<Rightarrow> chain_metadata \<Rightarrow> auth_store \<Rightarrow>
     built_timelock_executor res \<times> auth_store" where
  "BuildTimelockExecutor E B S access sel metadata st =
     run_after (wrapE (Wrapf ''error getting chain family: %w'') (GetChainSelectorFamily (ChainDetails E) sel)) (\<lambda>fam st.
       if fam = FamilyEVM then
         run_after (evm_auth E B access sel metadata) (\<lambda>(client, auth, gas) st.
           (Inr (EvmTimelockExecutor client auth), st(auth := gas))) st
       else (build_other_timelock_executor E S access fam sel metadata, st)) st"

definition BuildTimelockExecutors ::
  "'e wrapper_pkg_scheme \<Rightarrow> ('w, 'x, 'm) evm_backend_scheme \<Rightarrow> 's sui_pkg_scheme \<Rightarrow> chain_accessor option \<Rightarrow> (chain_selector, chain_metadata) gomap \<Rightarrow> auth_store \<Rightarrow>
     (chain_selector, built_timelock_executor) gomap res \<times> auth_store" where
  "BuildTimelockExecutors E B S access chainMetadata = build_loop (BuildTimelockExecutor E B S access) chainMetadata []"

section \<open>Inspectors and configurers\<close>

definition build_all ::
  "(chain_selector \<Rightarrow> chain_metadata \<Rightarrow> 'x res) \<Rightarrow> (chain_selector, chain_metadata) gomap \<Rightarrow> (chain_selector, 'x) gomap res" where
  "build_all build = foldE (\<lambda>acc (sel, md). bindE (build sel md) (\<lambda>x. Inr (gm_put sel x acc))) []"

datatype built_inspector =
    EvmInspector nat
  | SolanaInspector nat
  | AptosInspector nat aptos_role string
  | SuiInspector nat nat string sui_role
  | TonInspector nat
  | CantonInspector nat "string list" canton_role

definition BuildInspector ::
  "'e wrapper_pkg_scheme \<Rightarrow> 's sui_pkg_scheme \<Rightarrow> chain_accessor option \<Rightarrow> timelock_action \<Rightarrow> chain_selector \<Rightarrow> chain_metadata \<Rightarrow>
     built_inspector res" where
  "BuildInspector E S access action sel metadata =
     (if access = None then Inl (Errorf ''chain access is required'')
      else
        bindE (wrapE (Wrapf ''error getting chain family: %w'') (GetChainSelectorFamily (ChainDetails E) sel)) (\<lambda>fam.
        case fam of
          FamilyCanton \<Rightarrow>
            bindE (canton_access access sel) (\<lambda>(participant, ledger, parties).
            bindE (wrapE (Wrapf ''error getting canton role from proposal: %w'') (CantonRoleFromAction action)) (\<lambda>role.
              Inr (CantonInspector ledger parties role)))
        | FamilyEVM \<Rightarrow>
            bindE (accessed access (\<lambda>c. acc_EVMClient c sel) ''missing EVM chain client for selector %d'') (\<lambda>client. Inr (EvmInspector client))
        | FamilySolana \<Rightarrow>
            bindE (accessed access (\<lambda>c. acc_SolanaClient c sel) ''missing Solana chain client for selector %d'') (\<lambda>client.
              Inr (SolanaInspector client))
        | FamilyAptos \<Rightarrow>
            bindE (accessed access (\<lambda>c. acc_AptosClient c sel) ''missing Aptos chain client for selector %d'') (\<lambda>client.
            bindE (wrapE (Wrapf ''error determining aptos role: %w'') (AptosRoleFromAction action)) (\<lambda>role.
            bindE (aptos_type_of E ''error parsing aptos metadata: %w'' metadata) (\<lambda>ty.
              Inr (AptosInspector client role ty))))
        | FamilySui \<Rightarrow>
            bindE (accessed access (\<lambda>c. acc_SuiClient c sel) ''missing Sui chain client for selector %d'') (\<lambda>client.
            bindE (accessed access (\<lambda>c. acc_SuiSigner c sel) ''missing Sui chain client for selector %d'') (\<lambda>signer.
            bindE (wrapE (Wrapf ''error parsing sui metadata: %w'') (SuiMetadata S metadata)) (\<lambda>m.
            bindE (wp_NewMcms E (sm_McmsPackageID m) client) (\<lambda>_.
              Inr (SuiInspector client signer (sm_McmsPackageID m) (sm_Role m))))))
        | FamilyTon \<Rightarrow>
            bindE (accessed access (\<lambda>c. acc_TonClient c sel) ''missing Ton chain client for selector %d'') (\<lambda>client. Inr (TonInspector client))
        | _ \<Rightarrow> Inl (Errorf ''unsupported chain family %s'')))"

definition BuildInspectors ::
  "'e wrapper_pkg_scheme \<Rightarrow> 's sui_pkg_scheme \<Rightarrow> chain_accessor option \<Rightarrow> (chain_selector, chain_metadata) gomap \<Rightarrow> timelock_action \<Rightarrow>
     (chain_selector, built_inspector) gomap res" where
  "BuildInspectors E S access chainMetadata action = build_all (BuildInspector E S access action) chainMetadata"

datatype built_timelock_inspector =
    EvmTimelockInspector nat
  | SolanaTimelockInspector nat
  | AptosTimelockInspector nat string
  | SuiTimelockInspector nat nat string
  | TonTimelockInspector nat
  | CantonTimelockInspector nat string "string list"

definition BuildTimelockInspector ::
  "'e wrapper_pkg_scheme \<Rightarrow> 's sui_pkg_scheme \<Rightarrow> chain_accessor option \<Rightarrow> chain_selector \<Rightarrow> chain_metadata \<Rightarrow> built_timelock_inspector res" where
  "BuildTimelockInspector E S access sel metadata =
     bindE (wrapE (Wrapf ''chain family: %w'') (GetChainSelectorFamily (ChainDetails E) sel)) (\<lambda>fam.
     case fam of
       FamilyEVM \<Rightarrow>
         bindE (accessed access (\<lambda>c. acc_EVMClient c sel) ''missing EVM chain client for selector %d'') (\<lambda>client.
           Inr (EvmTimelockInspector client))
     | FamilySolana \<Rightarrow>
         bindE (accessed access (\<lambda>c. acc_SolanaClient c sel) ''missing Solana chain client for selector %d'') (\<lambda>client.
           Inr (SolanaTimelockInspector client))
     | FamilyAptos \<Rightarrow>
         bindE (accessed access (\<lambda>c. acc_AptosClient c sel) ''missing Aptos chain client for selector %d'') (\<lambda>client.
         bindE (aptos_type_of E ''parse aptos metadata for selector %d: %w'' metadata) (\<lambda>ty.
           Inr (AptosTimelockInspector client ty)))
     | FamilySui \<Rightarrow>
         bindE (accessed access (\<lambda>c. acc_SuiClient c sel) ''missing Sui chain client for selector %d'') (\<lambda>client.
         bindE (accessed access (\<lambda>c. acc_SuiSigner c sel) ''missing Sui signer for selector %d'') (\<lambda>signer.
         bindE (wrapE (Wrapf ''parse sui metadata for selector %d: %w'') (SuiMetadata S metadata)) (\<lambda>m.
         bindE (wp_NewMcms E (sm_McmsPackageID m) client) (\<lambda>_.
           Inr (SuiTimelockInspector client signer (sm_McmsPackageID m))))))
     | FamilyTon \<Rightarrow>
         bindE (accessed access (\<lambda>c. acc_TonClient c sel) ''missing TON chain client for selector %d'') (\<lambda>client.
           Inr (TonTimelockInspector client))
     | FamilyCanton \<Rightarrow>
         bindE (canton_access access sel) (\<lambda>(participant, ledger, parties).
           Inr (CantonTimelockInspector ledger (cpt_PartyID participant) parties))
     | _ \<Rightarrow> Inl (Errorf ''unsupported chain family %q''))"

definition BuildTimelockInspectors ::
  "'e wrapper_pkg_scheme \<Rightarrow> 's sui_pkg_scheme \<Rightarrow> chain_accessor option \<Rightarrow> (chain_selector, chain_metadata) gomap \<Rightarrow>
     (chain_selector, built_timelock_inspector) gomap res" where
  "BuildTimelockInspectors E S access chainMetadata = build_all (BuildTimelockInspector E S access) chainMetadata"

datatype built_timelock_configurer =
    EvmTimelockConfigurer nat nat
  | SolanaTimelockConfigurer nat nat
  | AptosTimelockConfigurer nat string
  | SuiTimelockConfigurer string
  | TonTimelockConfigurer nat int

definition BuildTimelockConfigurer ::
  "'e wrapper_pkg_scheme \<Rightarrow> 's sui_pkg_scheme \<Rightarrow> chain_accessor option \<Rightarrow> timelock_action \<Rightarrow> chain_selector \<Rightarrow> chain_metadata \<Rightarrow>
     built_timelock_configurer res" where
  "BuildTimelockConfigurer E S access action sel metadata =
     (if access = None then Inl (Errorf ''chain access is required'')
      else
        bindE (wrapE (Wrapf ''error getting chain family: %w'') (GetChainSelectorFamily (ChainDetails E) sel)) (\<lambda>fam.
        case fam of
          FamilyEVM \<Rightarrow>
            bindE (accessed access (\<lambda>c. acc_EVMClient c sel) ''missing EVM chain client for selector %d'') (\<lambda>client.
            bindE (accessed access (\<lambda>c. acc_EVMSigner c sel) ''missing EVM chain signer for selector %d'') (\<lambda>signer.
              Inr (EvmTimelockConfigurer client signer)))
        | FamilySolana \<Rightarrow>
            bindE (accessed access (\<lambda>c. acc_SolanaClient c sel) ''missing Solana chain client for selector %d'') (\<lambda>client.
            bindE (accessed access (\<lambda>c. acc_SolanaSigner c sel) ''missing Solana chain signer for selector %d'') (\<lambda>signer.
              Inr (SolanaTimelockConfigurer client signer)))
        | FamilyAptos \<Rightarrow>
            bindE (accessed access (\<lambda>c. acc_AptosClient c sel) ''missing Aptos chain client for selector %d'') (\<lambda>client.
            bindE (aptos_type_of E ''error parsing aptos metadata: %w'' metadata) (\<lambda>ty.
              Inr (AptosTimelockConfigurer client ty)))
        | FamilySui \<Rightarrow>
            bindE (wrapE (Wrapf ''error parsing sui metadata: %w'') (SuiMetadata S metadata)) (\<lambda>m.
              Inr (SuiTimelockConfigurer (sm_McmsPackageID m)))
        | FamilyTon \<Rightarrow>
            bindE (accessed access (\<lambda>c. acc_TonSigner c sel) ''missing TON chain wallet for selector %d'') (\<lambda>signer.
              Inr (TonTimelockConfigurer signer ton_DefaultSendAmount))
        | _ \<Rightarrow> Inl (Errorf ''unsupported chain family %s'')))"

definition BuildTimelockConfigurers ::
  "'e wrapper_pkg_scheme \<Rightarrow> 's sui_pkg_scheme \<Rightarrow> chain_accessor option \<Rightarrow> (chain_selector, chain_metadata) gomap \<Rightarrow> timelock_action \<Rightarrow>
     (chain_selector, built_timelock_configurer) gomap res" where
  "BuildTimelockConfigurers E S access chainMetadata action = build_all (BuildTimelockConfigurer E S access action) chainMetadata"

section \<open>Lemmas\<close>

fun executor_family :: "built_executor \<Rightarrow> family" where
  "executor_family (EvmExecutor _ _ _) = FamilyEVM"
| "executor_family (SolanaExecutor _ _ _) = FamilySolana"
| "executor_family (AptosExecutor _ _ _ _ _) = FamilyAptos"
| "executor_family (SuiExecutor _ _ _ _ _) = FamilySui"
| "executor_family (TonExecutor _ _ _ _) = FamilyTon"
| "executor_family (CantonExecutor _ _ _ _ _) = FamilyCanton"

fun executor_encoder :: "built_executor \<Rightarrow> any_encoder" where
  "executor_encoder (EvmExecutor e _ _) = EvmEncoderOf e"
| "executor_encoder (SolanaExecutor e _ _) = SolanaEncoderOf e"
| "executor_encoder (AptosExecutor _ _ e _ _) = AptosEncoderOf e"
| "executor_encoder (SuiExecutor _ _ e _ _) = SuiEncoderOf e"
| "executor_encoder (TonExecutor e _ _ _) = TonEncoderOf e"
| "executor_encoder (CantonExecutor e _ _ _ _) = CantonEncoderOf e"

lemma accessed_Inr [simp]: "accessed access f e = Inr x \<longleftrightarrow> (\<exists>c. access = Some c \<and> f c = Some x)"
  by (auto simp: accessed_def split: option.splits)

lemma evm_auth_Inr:
  "evm_auth E B access sel md = Inr (client, auth, gas) \<longleftrightarrow>
     (\<exists>c. access = Some c \<and> acc_EVMClient c sel = Some client \<and> acc_EVMSigner c sel = Some auth) \<and> ParseChainMetadata B md = Inr gas"
  by (cases gas) (auto simp: evm_auth_def bindE_Inr_iff)

lemma build_other_executor_typed:
  "build_other_executor E S access fam sel enc action md = Inr x \<Longrightarrow> executor_family x = fam \<and> executor_encoder x = enc"
  by (cases fam; cases enc) (auto simp: build_other_executor_def bindE_Inr_iff)

text \<open>What one call does to the store: the options of an EVM signer, and nothing else.\<close>

definition gas_written ::
  "('w, 'x, 'm) evm_backend_scheme \<Rightarrow> chain_accessor option \<Rightarrow> family \<Rightarrow> chain_selector \<Rightarrow> chain_metadata \<Rightarrow>
     auth_store \<Rightarrow> auth_store \<Rightarrow> bool" where
  "gas_written B access fam sel md st st' \<longleftrightarrow>
     (if fam = FamilyEVM
      then \<exists>c auth gas. access = Some c \<and> acc_EVMSigner c sel = Some auth \<and> ParseChainMetadata B md = Inr gas \<and> st' = st(auth := gas)
      else st' = st)"

lemma BuildExecutor_Inr:
  assumes "BuildExecutor E B S access sel enc action md st = (Inr x, st')"
  shows "\<exists>fam. ChainDetails E sel = Inr fam \<and> executor_family x = fam \<and> executor_encoder x = enc \<and>
    gas_written B access fam sel md st st'"
proof -
  from assms obtain fam where fam: "GetChainSelectorFamily (ChainDetails E) sel = Inr fam"
    by (auto simp: BuildExecutor_def run_after_def split: sum.splits)
  show ?thesis
  proof (cases "fam = FamilyEVM")
    case True
    with assms fam obtain e client auth gas where "enc = EvmEncoderOf e" "evm_auth E B access sel md = Inr (client, auth, gas)"
      "x = EvmExecutor e client auth" "st' = st(auth := gas)"
      by (cases enc) (auto simp: BuildExecutor_def run_after_def split: sum.splits)
    with fam True show ?thesis by (auto simp: GetChainSelectorFamily_Inr evm_auth_Inr gas_written_def)
  next
    case False
    with assms fam have "build_other_executor E S access fam sel enc action md = Inr x" "st' = st"
      by (simp_all add: BuildExecutor_def)
    with build_other_executor_typed [OF this(1)] fam False show ?thesis by (auto simp: GetChainSelectorFamily_Inr gas_written_def)
  qed
qed

lemma BuildTimelockExecutor_gas:
  assumes "BuildTimelockExecutor E B S access sel md st = (Inr x, st')"
  shows "\<exists>fam. ChainDetails E sel = Inr fam \<and> gas_written B access fam sel md st st'"
proof -
  from assms obtain fam where fam: "GetChainSelectorFamily (ChainDetails E) sel = Inr fam"
    by (auto simp: BuildTimelockExecutor_def run_after_def split: sum.splits)
  with assms show ?thesis
    by (cases "fam = FamilyEVM")
      (auto simp: BuildTimelockExecutor_def run_after_Inr_iff evm_auth_Inr gas_written_def GetChainSelectorFamily_Inr)
qed

text \<open>The loop calls the builder once per key, and keeps what it made.\<close>

lemma build_loop_get:
  assumes "build_loop build kvs acc st = (Inr xs, st')" and "gm_wf kvs"
  shows "gm_get kvs sel = None \<Longrightarrow> gm_get xs sel = gm_get acc sel"
    and "gm_get kvs sel = Some md \<Longrightarrow> \<exists>x st1 st2. build sel md st1 = (Inr x, st2) \<and> gm_get xs sel = Some x"
proof -
  have "(gm_get kvs sel = None \<longrightarrow> gm_get xs sel = gm_get acc sel) \<and>
      (\<forall>md. gm_get kvs sel = Some md \<longrightarrow> (\<exists>x st1 st2. build sel md st1 = (Inr x, st2) \<and> gm_get xs sel = Some x))"
    using assms
  proof (induction kvs arbitrary: acc st)
    case (Cons kv kvs)
    obtain s m where kv: "kv = (s, m)" by fastforce
    from Cons.prems(1) kv obtain x st1 where x: "build s m st = (Inr x, st1)"
      and rest: "build_loop build kvs (gm_put s x acc) st1 = (Inr xs, st')"
      by (auto split: prod.splits sum.splits)
    from Cons.prems(2) kv have wf: "gm_wf kvs" and s: "gm_get kvs s = None" by (auto simp: gm_wf_def map_of_eq_None_iff)
    from Cons.IH [OF rest wf] x s kv show ?case by (cases "s = sel") (auto simp: gm_get_put)
  qed simp
  then show "gm_get kvs sel = None \<Longrightarrow> gm_get xs sel = gm_get acc sel"
    and "gm_get kvs sel = Some md \<Longrightarrow> \<exists>x st1 st2. build sel md st1 = (Inr x, st2) \<and> gm_get xs sel = Some x" by blast+
qed

text \<open>What a signer holds in the end, when every EVM chain has its own.\<close>

definition own_signers :: "'e mcms_env_scheme \<Rightarrow> chain_accessor option \<Rightarrow> (chain_selector, chain_metadata) gomap \<Rightarrow> bool" where
  "own_signers E access md \<longleftrightarrow>
     (\<forall>c s s'. access = Some c \<and> s \<in> fst ` set md \<and> s' \<in> fst ` set md \<and> ChainDetails E s = Inr FamilyEVM \<and>
        ChainDetails E s' = Inr FamilyEVM \<and> acc_EVMSigner c s = acc_EVMSigner c s' \<longrightarrow> s = s')"

definition signers_of :: "'e mcms_env_scheme \<Rightarrow> chain_accessor option \<Rightarrow> (chain_selector, chain_metadata) gomap \<Rightarrow> nat set" where
  "signers_of E access md =
     {auth. \<exists>c s. access = Some c \<and> s \<in> fst ` set md \<and> ChainDetails E s = Inr FamilyEVM \<and> acc_EVMSigner c s = Some auth}"

lemma build_loop_gas:
  assumes "\<And>sel md st x st'. build sel md st = (Inr x, st') \<Longrightarrow>
      \<exists>fam. ChainDetails E sel = Inr fam \<and> gas_written B access fam sel md st st'"
    and "build_loop build kvs acc st = (Inr xs, st')" and "gm_wf kvs" and "own_signers E access kvs"
  shows "(\<forall>p. p \<notin> signers_of E access kvs \<longrightarrow> st' p = st p) \<and>
    (\<forall>s md. (s, md) \<in> set kvs \<and> ChainDetails E s = Inr FamilyEVM \<longrightarrow>
      (\<exists>c auth gas. access = Some c \<and> acc_EVMSigner c s = Some auth \<and> ParseChainMetadata B md = Inr gas \<and> st' auth = gas))"
  using assms(2-)
proof (induction kvs arbitrary: acc st)
  case (Cons kv kvs)
  obtain s m where kv: "kv = (s, m)" by fastforce
  from Cons.prems(1) kv obtain x st1 where x: "build s m st = (Inr x, st1)"
    and rest: "build_loop build kvs (gm_put s x acc) st1 = (Inr xs, st')"
    by (auto split: prod.splits sum.splits)
  from Cons.prems(2,3) kv have wf: "gm_wf kvs" and s: "s \<notin> fst ` set kvs" 
    by (auto simp: gm_wf_def)
  have own: "own_signers E access kvs"
    using Cons.prems(3) unfolding own_signers_def list.set(2) image_insert by blast
  note IH = Cons.IH [OF rest wf own]
  from assms(1) [OF x] obtain fam where fam: "ChainDetails E s = Inr fam" "gas_written B access fam s m st st1" by blast
  have signers: "signers_of E access kvs \<subseteq> signers_of E access (kv # kvs)" by (auto simp: signers_of_def)
  show ?case
  proof (cases "fam = FamilyEVM")
    case False
    with fam have "st1 = st" by (simp add: gas_written_def)
    with IH fam False signers kv show ?thesis by auto
  next
    case True
    with fam obtain c auth gas where g: "access = Some c" "acc_EVMSigner c s = Some auth" "ParseChainMetadata B m = Inr gas"
      "st1 = st(auth := gas)" by (auto simp: gas_written_def)
    have other: "s' \<noteq> s" if "s' \<in> fst ` set kvs" for s' using that s by auto
    have "auth \<notin> signers_of E access kvs"
    proof
      assume "auth \<in> signers_of E access kvs"
      then obtain s' where s': "s' \<in> fst ` set kvs" "ChainDetails E s' = Inr FamilyEVM" "acc_EVMSigner c s' = Some auth"
        using g(1) by (auto simp: signers_of_def)
      have "access = Some c \<and> s' \<in> fst ` set (kv # kvs) \<and> s \<in> fst ` set (kv # kvs) \<and> ChainDetails E s' = Inr FamilyEVM \<and>
          ChainDetails E s = Inr FamilyEVM \<and> acc_EVMSigner c s' = acc_EVMSigner c s"
        using s' g(1,2) fam(1) True by (simp add: kv)
      then have "s' = s" using Cons.prems(3) unfolding own_signers_def by blast
      with other s'(1) show False by blast
    qed
    with IH have "st' auth = gas" using g(4) by simp
    moreover have "auth \<in> signers_of E access (kv # kvs)" using g fam True kv by (auto simp: signers_of_def)
    then have "st' p = st p" if "p \<notin> signers_of E access (kv # kvs)" for p using that IH signers g(4) by auto
    ultimately show ?thesis using IH g(1-3) unfolding kv by auto
  qed
qed simp

section \<open>A sample set of chains\<close>

definition sample_wrapper :: wrapper_pkg where
  "sample_wrapper =
     mcms_env.extend
       (sample_env\<lparr>ChainDetails := (\<lambda>sel. if sel = 3 then Inr FamilyTon else if sel < 3 then Inr FamilyEVM else Inl (External ''selector''))\<rparr>)
       (wrapper_pkg.fields (\<lambda>_ _. Inr ()))"

definition sample_access :: chain_accessor where
  "sample_access =
     \<lparr>acc_EVMClient = (\<lambda>_. Some 10), acc_EVMSigner = (\<lambda>sel. Some (unat sel)), acc_SolanaClient = (\<lambda>_. None),
      acc_SolanaSigner = (\<lambda>_. None), acc_AptosClient = (\<lambda>_. None), acc_AptosSigner = (\<lambda>_. None), acc_SuiClient = (\<lambda>_. None),
      acc_SuiSigner = (\<lambda>_. None), acc_TonClient = (\<lambda>_. Some 11), acc_TonSigner = (\<lambda>_. Some 12), acc_CantonChain = (\<lambda>_. None)\<rparr>"

definition sample_chains :: "(chain_selector, chain_metadata) gomap" where
  "sample_chains =
     [(1, \<lparr>cm_StartingOpCount = 0, cm_MCMAddress = ''a'', cm_AdditionalFields = RawEmpty\<rparr>),
      (3, \<lparr>cm_StartingOpCount = 0, cm_MCMAddress = ''b'', cm_AdditionalFields = RawEmpty\<rparr>)]"

definition sample_encoders :: "(chain_selector, any_encoder) gomap" where
  "sample_encoders =
     [(1, EvmEncoderOf \<lparr>ee_ChainSelector = 1, ee_TxCount = 1, ee_OverridePreviousRoot = False, ee_IsSim = False\<rparr>),
      (3, TonEncoderOf \<lparr>tne_ChainSelector = 3, tne_TxCount = 1, tne_OverridePreviousRoot = False\<rparr>)]"

lemma sample_chain_details [simp]:
  "ChainDetails sample_wrapper =
     (\<lambda>sel. if sel = 3 then Inr FamilyTon else if sel < 3 then Inr FamilyEVM else Inl (External ''selector''))"
  by (simp add: sample_wrapper_def mcms_env.extend_def wrapper_pkg.fields_def)

lemma sample_built:
  "BuildExecutors sample_wrapper sample_backend sample_sui (Some sample_access) sample_chains sample_encoders
     TimelockActionSchedule (\<lambda>_. (Some 7, 7)) =
   (Inr [(1, EvmExecutor \<lparr>ee_ChainSelector = 1, ee_TxCount = 1, ee_OverridePreviousRoot = False, ee_IsSim = False\<rparr> 10 1),
         (3, TonExecutor \<lparr>tne_ChainSelector = 3, tne_TxCount = 1, tne_OverridePreviousRoot = False\<rparr> 11 12 150000000)],
    (\<lambda>_. (Some 7, 7))(1 := (None, 0)))"
  by (simp add: BuildExecutors_def sample_chains_def sample_encoders_def BuildExecutor_def GetChainSelectorFamily_def
      supportedFamilies_def evm_auth_def sample_access_def accessed_def ParseChainMetadata_def raw_nonempty_def
      build_other_executor_def ton_DefaultSendAmount_def)

section \<open>Properties\<close>

text \<open>
  C37: executors have the type of their chain. BuildExecutors makes one executor for every chain of the
  metadata and none for another; each is of the family that its selector belongs to and holds the very encoder
  that the caller gave for the selector, whatever the order in which the map is walked.
\<close>

theorem BuildExecutors_typed:
  assumes "gm_wf md" and "BuildExecutors E B S access md encoders action st = (Inr xs, st')"
  shows "(gm_get md sel = None \<longrightarrow> gm_get xs sel = None) \<and>
    (\<forall>m. gm_get md sel = Some m \<longrightarrow> (\<exists>x. gm_get xs sel = Some x \<and> ChainDetails E sel = Inr (executor_family x) \<and>
       gm_get encoders sel = Some (executor_encoder x)))"
proof (intro conjI allI impI)
  assume "gm_get md sel = None"
  from build_loop_get(1) [OF assms(2) [unfolded BuildExecutors_def] assms(1) this] show "gm_get xs sel = None" by simp
next
  fix m assume "gm_get md sel = Some m"
  from build_loop_get(2) [OF assms(2) [unfolded BuildExecutors_def] assms(1) this] obtain x st1 st2 where
    x: "gm_get xs sel = Some x" and b: "(case gm_get encoders sel of
           None \<Rightarrow> (Inl (Errorf ''missing encoder for chain selector %d''), st1)
         | Some encoder \<Rightarrow> BuildExecutor E B S access sel encoder action m st1) = (Inr x, st2)" by blast
  from b obtain enc where enc: "gm_get encoders sel = Some enc" "BuildExecutor E B S access sel enc action m st1 = (Inr x, st2)"
    by (cases "gm_get encoders sel") auto
  from BuildExecutor_Inr [OF enc(2)] enc(1) x show "\<exists>x. gm_get xs sel = Some x \<and>
      ChainDetails E sel = Inr (executor_family x) \<and> gm_get encoders sel = Some (executor_encoder x)" by auto
qed

theorem BuildExecutors_typed_witness:
  "\<exists>xs st' x. BuildExecutors sample_wrapper sample_backend sample_sui (Some sample_access) sample_chains sample_encoders
     TimelockActionSchedule (\<lambda>_. (Some 7, 7)) = (Inr xs, st') \<and> gm_get xs 3 = Some x \<and> executor_family x = FamilyTon \<and>
     gm_get xs 2 = None"
proof -
  have wf: "gm_wf sample_chains" by (simp add: gm_wf_def sample_chains_def)
  have some: "gm_get sample_chains 3 = Some \<lparr>cm_StartingOpCount = 0, cm_MCMAddress = ''b'', cm_AdditionalFields = RawEmpty\<rparr>"
    and none: "gm_get sample_chains 2 = None" by (simp_all add: sample_chains_def)
  from BuildExecutors_typed [OF wf sample_built, of 3] some obtain x where
    "gm_get (projr (fst (BuildExecutors sample_wrapper sample_backend sample_sui (Some sample_access) sample_chains sample_encoders
       TimelockActionSchedule (\<lambda>_. (Some 7, 7))))) 3 = Some x" "ChainDetails sample_wrapper 3 = Inr (executor_family x)"
    by (auto simp: sample_built)
  with BuildExecutors_typed [OF wf sample_built, of 2] none show ?thesis by (simp add: sample_built)
qed

text \<open>
  C38: an EVM chain pays the gas its metadata ask for. When every EVM chain has a signer of its own, then after
  BuildExecutors the signer of each chain holds exactly the gas price and limit that its metadata give (none and
  zero where they give none), and the options of every other signer are what they were.
\<close>

theorem BuildExecutors_gas:
  assumes "gm_wf md" and "own_signers E access md"
    and "BuildExecutors E B S access md encoders action st = (Inr xs, st')"
  shows "(\<forall>p. p \<notin> signers_of E access md \<longrightarrow> st' p = st p) \<and>
    (\<forall>s m. (s, m) \<in> set md \<and> ChainDetails E s = Inr FamilyEVM \<longrightarrow>
      (\<exists>c auth gas. access = Some c \<and> acc_EVMSigner c s = Some auth \<and> ParseChainMetadata B m = Inr gas \<and> st' auth = gas))"
proof (rule build_loop_gas [OF _ assms(3) [unfolded BuildExecutors_def] assms(1,2)])
  fix sel md st x st'
  assume "(case gm_get encoders sel of
      None \<Rightarrow> (Inl (Errorf ''missing encoder for chain selector %d''), st)
    | Some encoder \<Rightarrow> BuildExecutor E B S access sel encoder action md st) = (Inr x, st')"
  then obtain enc where "BuildExecutor E B S access sel enc action md st = (Inr x, st')" by (cases "gm_get encoders sel") auto
  from BuildExecutor_Inr [OF this] show "\<exists>fam. ChainDetails E sel = Inr fam \<and> gas_written B access fam sel md st st'" by blast
qed

theorem BuildExecutors_gas_witness:
  "\<exists>xs st'. BuildExecutors sample_wrapper sample_backend sample_sui (Some sample_access) sample_chains sample_encoders
     TimelockActionSchedule (\<lambda>_. (Some 7, 7)) = (Inr xs, st') \<and> st' 1 = (None, 0) \<and> st' 2 = (Some 7, 7)"
proof -
  let ?st = "(\<lambda>_. (Some 7, 7))(1 := (None, 0)) :: auth_store"
  have wf: "gm_wf sample_chains" by (simp add: gm_wf_def sample_chains_def)
  have own: "own_signers sample_wrapper (Some sample_access) sample_chains"
    by (auto simp: own_signers_def sample_chains_def sample_access_def split: if_splits)
  have "2 \<notin> signers_of sample_wrapper (Some sample_access) sample_chains"
    by (auto simp: signers_of_def sample_chains_def sample_access_def split: if_splits)
  with BuildExecutors_gas [OF wf own sample_built] have two: "?st 2 = (Some 7, 7)" by simp
  have "(1, \<lparr>cm_StartingOpCount = 0, cm_MCMAddress = ''a'', cm_AdditionalFields = RawEmpty\<rparr>) \<in> set sample_chains"
    "ChainDetails sample_wrapper 1 = Inr FamilyEVM" by (simp_all add: sample_chains_def)
  with BuildExecutors_gas [OF wf own sample_built] have "?st 1 = (None, 0)"
    by (fastforce simp: sample_access_def ParseChainMetadata_def raw_nonempty_def)
  with two sample_built show ?thesis by blast
qed

text \<open>
  The signers are shared: what one call wrote, the next overwrites. Two EVM chains with the same signer are both
  left with the gas of the chain that is walked last, and an executor that was made keeps no copy of its own.
\<close>

theorem shared_signer_last_gas:
  assumes "ChainDetails E s1 = Inr FamilyEVM" and "ChainDetails E s2 = Inr FamilyEVM" and "s1 \<noteq> s2"
    and "acc_EVMSigner c s1 = Some auth" and "acc_EVMSigner c s2 = Some auth"
    and "ParseChainMetadata B m2 = Inr gas"
    and "BuildExecutors E B S (Some c) [(s1, m1), (s2, m2)] encoders action st = (Inr xs, st')"
  shows "st' auth = gas"
  using assms
  by (auto simp: BuildExecutors_def BuildExecutor_def run_after_Inr_iff evm_auth_def bindE_Inr_iff GetChainSelectorFamily_def
      supportedFamilies_def split: prod.splits sum.splits option.splits any_encoder.splits)

text \<open>A Canton chain has no timelock configurer, though it has every other client.\<close>

theorem canton_has_no_configurer:
  "ChainDetails E sel = Inr FamilyCanton \<Longrightarrow> BuildTimelockConfigurer E S (Some c) action sel md = Inl (Errorf ''unsupported chain family %s'')"
  by (simp add: BuildTimelockConfigurer_def GetChainSelectorFamily_def supportedFamilies_def)

end
