(* ===== verification/Ledger.thy ===== *)
theory Ledger
  imports HexText
begin

text \<open>
  \<open>sdk/usbwallet/ledger.go\<close> and the driver of \<open>sdk/usbwallet/eip191.go\<close>: the transport protocol of a Ledger
  hardware wallet and the requests of its Ethereum application that the driver makes. A request (APDU) is cut
  into frames of at most 64 bytes, each with a header that carries its number; the reply is put together from
  frames again.

  The device is a record of functions on a state of any type. The loop that reads a reply has no bound in
  the code, so what may call it is partial: \<open>None\<close> stands for a call that never returns.
\<close>

record 't usb_device =
  dev_Write :: "byte list \<Rightarrow> 't \<Rightarrow> unit res \<times> 't"
  dev_ReadFull :: "nat \<Rightarrow> 't \<Rightarrow> byte list res \<times> 't"

type_synonym ('a, 't) device_call = "'t \<Rightarrow> ('a res \<times> 't) option"

definition bindD :: "('a, 't) device_call \<Rightarrow> ('a \<Rightarrow> ('b, 't) device_call) \<Rightarrow> ('b, 't) device_call" where
  "bindD m f t =
     (case m t of
        None \<Rightarrow> None
      | Some (Inl e, t') \<Rightarrow> Some (Inl e, t')
      | Some (Inr x, t') \<Rightarrow> f x t')"

definition returnD :: "'a res \<Rightarrow> ('a, 't) device_call" where
  "returnD r t = Some (r, t)"

lemma bindD_simps [simp]:
  "m t = None \<Longrightarrow> bindD m f t = None"
  "m t = Some (Inl e, t') \<Longrightarrow> bindD m f t = Some (Inl e, t')"
  "m t = Some (Inr x, t') \<Longrightarrow> bindD m f t = f x t'"
  by (simp_all add: bindD_def)

lemma returnD_apply [simp]: "returnD r t = Some (r, t)"
  by (simp add: returnD_def)

lemma bindD_returnD [simp]:
  "bindD (returnD (Inr x)) f = f x"
  "bindD (returnD (Inl e)) f = returnD (Inl e)"
  by (rule ext, simp)+

section \<open>The transport\<close>

text \<open>The header of a frame: the channel, the command tag and the number of the frame.\<close>

definition frame_header :: "nat \<Rightarrow> byte list" where
  "frame_header i = [1, 1, 5] @ be_bytes 2 (word_of_nat i :: 16 word)"

definition chunk_space :: nat where
  "chunk_space = 64 - 5"

function write_chunks :: "'t usb_device \<Rightarrow> nat \<Rightarrow> byte list \<Rightarrow> 't \<Rightarrow> unit res \<times> 't" where
  "write_chunks D i apdu t =
     (if apdu = [] then (Inr (), t)
      else let (chunk, remaining) = (if chunk_space < length apdu then (frame_header i @ take chunk_space apdu, drop chunk_space apdu)
                                     else (frame_header i @ apdu, [])) in
           case dev_Write D chunk t of
             (Inl err, t') \<Rightarrow> (Inl err, t')
           | (Inr _, t') \<Rightarrow> write_chunks D (Suc i) remaining t')"
  by auto
termination
  by (relation "measure (\<lambda>(D, i, apdu, t). length apdu)") (auto simp: chunk_space_def split: if_splits)

declare write_chunks.simps [simp del]

definition errLedgerReplyInvalidHeader :: mcms_error where
  "errLedgerReplyInvalidHeader = Errorf ''ledger: invalid reply header''"

definition errLedgerInvalidVersionReply :: mcms_error where
  "errLedgerInvalidVersionReply = Errorf ''ledger: invalid version reply''"

text \<open>
  The loop that reads the reply. The capacity and the content of the slice \<open>reply\<close> are its state; both are
  empty at first. A frame with number 0 starts the reply anew. The last two bytes, the status of the request,
  are cut off unseen, and cutting them off a shorter reply panics.
\<close>

partial_function (option) read_reply :: "'t usb_device \<Rightarrow> nat \<Rightarrow> byte list \<Rightarrow> 't \<Rightarrow> (byte list res \<times> 't) option" where
  "read_reply D capacity reply t =
     (case dev_ReadFull D 64 t of
        (Inl err, t') \<Rightarrow> Some (Inl err, t')
      | (Inr chunk, t') \<Rightarrow>
          if take 3 chunk \<noteq> [1, 1, 5] then Some (Inl errLedgerReplyInvalidHeader, t')
          else if take 2 (drop 3 chunk) = [0, 0] then
            (let announced = unat (from_be (take 2 (drop 5 chunk)) :: 16 word); payload = drop 7 chunk in
             if announced \<le> length payload then
               Some (if announced < 2 then Inl (Panic ''slice bounds out of range'') else Inr (take (announced - 2) payload), t')
             else read_reply D announced payload t')
          else
            (let payload = drop 5 chunk; left = capacity - length reply in
             if left \<le> length payload then
               (let reply' = reply @ take left payload in
                Some (if length reply' < 2 then Inl (Panic ''slice bounds out of range'') else Inr (take (length reply' - 2) reply'), t'))
             else read_reply D capacity (reply @ payload) t'))"

definition ledgerExchange :: "'t usb_device \<Rightarrow> byte \<Rightarrow> byte \<Rightarrow> byte \<Rightarrow> byte list \<Rightarrow> (byte list, 't) device_call" where
  "ledgerExchange D opcode p1 p2 data t =
     (let apduLen = 5 + length data in
      if apduLen > 65535 then Some (Inl (Errorf ''APDU length %d exceeds uint16 max''), t)
      else let apdu = be_bytes 2 (word_of_nat apduLen :: 16 word) @ [0xe0, opcode, p1, p2, word_of_nat (length data)] @ data in
           case write_chunks D 0 apdu t of
             (Inl err, t') \<Rightarrow> Some (Inl err, t')
           | (Inr _, t') \<Rightarrow> read_reply D 0 [] t')"

section \<open>The requests\<close>

definition ledgerOpRetrieveAddress :: byte where "ledgerOpRetrieveAddress = 0x02"
definition ledgerOpSignTransaction :: byte where "ledgerOpSignTransaction = 0x04"
definition ledgerOpGetConfiguration :: byte where "ledgerOpGetConfiguration = 0x06"
definition ledgerOpSignPersonalMessage :: byte where "ledgerOpSignPersonalMessage = 0x08"
definition ledgerOpSignTypedMessage :: byte where "ledgerOpSignTypedMessage = 0x0c"

text \<open>\<open>path[0] = byte(len(derivationPath))\<close> and the components of the path.\<close>

definition flatten_path :: "u32 list \<Rightarrow> byte list" where
  "flatten_path path = word_of_nat (length path) # concat (map (be_bytes 4) path)"

type_synonym version = "byte \<times> byte \<times> byte"

definition ledgerVersion :: "'t usb_device \<Rightarrow> (version, 't) device_call" where
  "ledgerVersion D =
     bindD (ledgerExchange D ledgerOpGetConfiguration 0 0 []) (\<lambda>reply.
       returnD (if length reply \<noteq> 4 then Inl errLedgerInvalidVersionReply
                else Inr (reply ! 1, reply ! 2, reply ! 3)))"

text \<open>\<open>hex.Decode(address[:], src)\<close> writes into 20 bytes: a 21st pair of digits is a panic.\<close>

definition hex_Decode_address :: "string \<Rightarrow> address res" where
  "hex_Decode_address src =
     (if 42 \<le> length src then bindE (hex_DecodeString (take 42 src)) (\<lambda>_. Inl (Panic ''index out of range''))
      else bindE (hex_DecodeString src) (\<lambda>bs. Inr (from_be (bs @ replicate (20 - length bs) 0))))"

definition parse_address_reply :: "byte list \<Rightarrow> address res" where
  "parse_address_reply reply =
     (if length reply < 1 \<or> length reply < 1 + unat (hd reply) then Inl (Errorf ''reply lacks public key entry'')
      else let reply' = drop (1 + unat (hd reply)) reply in
           if length reply' < 1 \<or> length reply' < 1 + unat (hd reply') then Inl (Errorf ''reply lacks address entry'')
           else hex_Decode_address (bytes_text (take (unat (hd reply')) (tl reply'))))"

definition ledgerDerive :: "'t usb_device \<Rightarrow> u32 list \<Rightarrow> (address, 't) device_call" where
  "ledgerDerive D derivationPath =
     bindD (ledgerExchange D ledgerOpRetrieveAddress 0 0 (flatten_path derivationPath)) (\<lambda>reply.
       returnD (parse_address_reply reply))"

text \<open>
  The size of the pieces in which a long payload is sent: at most 255, smaller if the last piece would be
  shorter than four bytes. The remainder by zero, if the search gets there, is a panic.
\<close>

fun pick_chunk :: "nat \<Rightarrow> nat \<Rightarrow> nat res" where
  "pick_chunk n 0 = Inl (Panic ''integer divide by zero'')"
| "pick_chunk n (Suc c) = (if n mod Suc c \<le> 3 then pick_chunk n c else Inr (Suc c))"

partial_function (option) exchange_chunks ::
  "'t usb_device \<Rightarrow> byte \<Rightarrow> byte \<Rightarrow> nat \<Rightarrow> byte list \<Rightarrow> byte list \<Rightarrow> 't \<Rightarrow> (byte list res \<times> 't) option" where
  "exchange_chunks D opcode p1 chunk payload reply t =
     (if payload = [] then Some (Inr reply, t)
      else let chunk' = (if length payload < chunk then length payload else chunk) in
           case ledgerExchange D opcode p1 0 (take chunk' payload) t of
             None \<Rightarrow> None
           | Some (r, t') \<Rightarrow>
               (case r of
                  Inl err \<Rightarrow> Some (Inl err, t')
                | Inr reply' \<Rightarrow> exchange_chunks D opcode 0x80 chunk' (drop chunk' payload) reply' t'))"

text \<open>\<open>append(reply[1:], reply[0])\<close>: the recovery byte comes first in the reply and last in the signature.\<close>

definition signature_of_reply :: "string \<Rightarrow> byte list \<Rightarrow> byte list res" where
  "signature_of_reply lacking reply =
     (if length reply \<noteq> 65 then Inl (Errorf lacking) else Inr (tl reply @ [hd reply]))"

definition send_payload :: "'t usb_device \<Rightarrow> byte \<Rightarrow> byte list \<Rightarrow> (byte list, 't) device_call" where
  "send_payload D opcode payload =
     bindD (returnD (pick_chunk (length payload) 255)) (\<lambda>chunk.
       exchange_chunks D opcode 0x00 chunk payload [])"

definition ledgerSignPersonalMessage :: "'t usb_device \<Rightarrow> u32 list \<Rightarrow> byte list \<Rightarrow> (byte list, 't) device_call" where
  "ledgerSignPersonalMessage D derivationPath message =
     (if length message > 4294967295 then returnD (Inl (Errorf ''message length %d exceeds uint32 max''))
      else bindD (send_payload D ledgerOpSignPersonalMessage
                   (flatten_path derivationPath @ be_bytes 4 (word_of_nat (length message) :: 32 word) @ message)) (\<lambda>reply.
             returnD (signature_of_reply ''reply lacks signature: reploy %v'' reply)))"

definition ledgerSignTypedMessage ::
  "'t usb_device \<Rightarrow> u32 list \<Rightarrow> byte list \<Rightarrow> byte list \<Rightarrow> (byte list, 't) device_call" where
  "ledgerSignTypedMessage D derivationPath domainHash messageHash =
     bindD (ledgerExchange D ledgerOpSignTypedMessage 0 0 (flatten_path derivationPath @ domainHash @ messageHash)) (\<lambda>reply.
       returnD (signature_of_reply ''reply lacks signature'' reply))"

text \<open>What the driver uses of \<open>go-ethereum\<close>'s transactions, for a chain id or none.\<close>

record 'x tx_pkg =
  UnsignedRLP :: "'x \<Rightarrow> int option \<Rightarrow> byte list res"
  WithSignature :: "'x \<Rightarrow> int option \<Rightarrow> byte list \<Rightarrow> 'x res"
  TxSender :: "int option \<Rightarrow> 'x \<Rightarrow> address res"

definition ledgerSign ::
  "'t usb_device \<Rightarrow> 'x tx_pkg \<Rightarrow> u32 list \<Rightarrow> 'x \<Rightarrow> int option \<Rightarrow> (address \<times> 'x, 't) device_call" where
  "ledgerSign D X derivationPath tx chainID =
     bindD (returnD (UnsignedRLP X tx chainID)) (\<lambda>txrlp.
     bindD (send_payload D ledgerOpSignTransaction (flatten_path derivationPath @ txrlp)) (\<lambda>reply.
     returnD
       (bindE (signature_of_reply ''reply lacks signature'' reply) (\<lambda>sig.
        let sig' = (case chainID of
                      None \<Rightarrow> sig
                    | Some n \<Rightarrow> sig[64 := sig ! 64 - ucast (word_of_int n * 2 + 35 :: 64 word)]) in
        bindE (WithSignature X tx chainID sig') (\<lambda>signed.
        bindE (TxSender X chainID signed) (\<lambda>sender. Inr (sender, signed)))))))"

section \<open>The driver\<close>

record ledger_driver =
  ld_version :: version
  ld_browser :: bool
  ld_failure :: "mcms_error option"

definition newLedgerDriver :: ledger_driver where
  "newLedgerDriver = \<lparr>ld_version = (0, 0, 0), ld_browser = False, ld_failure = None\<rparr>"

definition offline :: "ledger_driver \<Rightarrow> bool" where
  "offline d \<longleftrightarrow> ld_version d = (0, 0, 0)"

datatype driver_status = Failed mcms_error | BrowserMode | AppOffline | Online version

definition driver_Status :: "ledger_driver \<Rightarrow> driver_status \<times> mcms_error option" where
  "driver_Status d =
     (case ld_failure d of
        Some err \<Rightarrow> (Failed err, Some err)
      | None \<Rightarrow> if ld_browser d then (BrowserMode, None)
                else if offline d then (AppOffline, None)
                else (Online (ld_version d), None))"

text \<open>
  Open fails in no case: an application that does not answer leaves the driver offline. The path \<open>base\<close> is
  \<open>accounts.DefaultBaseDerivationPath\<close>.
\<close>

definition driver_Open :: "'t usb_device \<Rightarrow> u32 list \<Rightarrow> ledger_driver \<Rightarrow> 't \<Rightarrow> (ledger_driver \<times> 't) option" where
  "driver_Open D base d t =
     (let d = d\<lparr>ld_failure := None\<rparr> in
      case ledgerDerive D base t of
        None \<Rightarrow> None
      | Some (Inl err, t') \<Rightarrow>
          Some (if errors_Is err errLedgerReplyInvalidHeader then d\<lparr>ld_browser := True\<rparr> else d, t')
      | Some (Inr _, t') \<Rightarrow>
          (case ledgerVersion D t' of
             None \<Rightarrow> None
           | Some (Inl _, t'') \<Rightarrow> Some (d\<lparr>ld_version := (1, 0, 0)\<rparr>, t'')
           | Some (Inr v, t'') \<Rightarrow> Some (d\<lparr>ld_version := v\<rparr>, t'')))"

definition driver_Close :: "ledger_driver \<Rightarrow> ledger_driver" where
  "driver_Close d = d\<lparr>ld_browser := False, ld_version := (0, 0, 0)\<rparr>"

definition driver_Heartbeat :: "'t usb_device \<Rightarrow> ledger_driver \<Rightarrow> 't \<Rightarrow> (mcms_error option \<times> ledger_driver \<times> 't) option" where
  "driver_Heartbeat D d t =
     (case ledgerVersion D t of
        None \<Rightarrow> None
      | Some (Inl err, t') \<Rightarrow>
          if errors_Is err errLedgerInvalidVersionReply then Some (None, d, t')
          else Some (Some err, d\<lparr>ld_failure := Some err\<rparr>, t')
      | Some (Inr _, t') \<Rightarrow> Some (None, d, t'))"

definition ErrWalletClosed :: mcms_error where
  "ErrWalletClosed = External ''wallet closed''"

definition SignPersonalMessage :: "'t usb_device \<Rightarrow> ledger_driver \<Rightarrow> u32 list \<Rightarrow> byte list \<Rightarrow> (byte list, 't) device_call" where
  "SignPersonalMessage D d path message =
     (case ld_version d of (major, minor, patch) \<Rightarrow>
        if offline d then returnD (Inl ErrWalletClosed)
        else if major < 1 \<and> minor < 2 then
          returnD (Inl (Errorf ''version error: Ledger version >= 1.2.0 required for personal signing (found version v%d.%d.%d)''))
        else ledgerSignPersonalMessage D path message)"

definition SignTypedMessage ::
  "'t usb_device \<Rightarrow> ledger_driver \<Rightarrow> u32 list \<Rightarrow> byte list \<Rightarrow> byte list \<Rightarrow> (byte list, 't) device_call" where
  "SignTypedMessage D d path domainHash messageHash =
     (case ld_version d of (major, minor, patch) \<Rightarrow>
        if offline d then returnD (Inl ErrWalletClosed)
        else if major < 1 \<and> minor < 5 then
          returnD (Inl (Errorf ''version error: Ledger version >= 1.5.0 required for EIP-712 signing (found version v%d.%d.%d)''))
        else ledgerSignTypedMessage D path domainHash messageHash)"

definition driver_SignTx ::
  "'t usb_device \<Rightarrow> 'x tx_pkg \<Rightarrow> ledger_driver \<Rightarrow> u32 list \<Rightarrow> 'x \<Rightarrow> int option \<Rightarrow> (address \<times> 'x, 't) device_call" where
  "driver_SignTx D X d path tx chainID =
     (case ld_version d of (major, minor, patch) \<Rightarrow>
        if offline d then returnD (Inl ErrWalletClosed)
        else if chainID \<noteq> None \<and> major \<le> 1 \<and> minor \<le> 0 \<and> patch \<le> 2 then
          returnD (Inl (Errorf ''version error: Ledger v%d.%d.%d doesn't support signing this transaction, please update to v1.0.3 at least''))
        else ledgerSign D X path tx chainID)"

end
