(* ===== verification/LedgerTransport.thy ===== *)
theory LedgerTransport
  imports Ledger
begin

text \<open>
  The driver of Ledger against a specification of the other side. The transport is specified by a device that
  puts a request together from numbered frames, runs an application on it and cuts the reply into frames:
  an exchange with such a device is a call of the application. On top of it, the requests in which a message
  to sign is sent, and an application that signs what it receives.
\<close>

section \<open>Frames\<close>

function frames :: "nat \<Rightarrow> byte list \<Rightarrow> byte list list" where
  "frames i bs =
     (if bs = [] then [] else (frame_header i @ take chunk_space bs) # frames (Suc i) (drop chunk_space bs))"
  by auto
termination
  by (relation "measure (\<lambda>(i, bs). length bs)") (auto simp: chunk_space_def)

declare frames.simps [simp del]

lemma frames_Nil [simp]: "frames i [] = []"
  by (simp add: frames.simps)

lemma frames_step:
  "bs \<noteq> [] \<Longrightarrow> frames i bs = (frame_header i @ take chunk_space bs) # frames (Suc i) (drop chunk_space bs)"
  by (simp add: frames.simps)

lemma frame_header_fields [simp]:
  "length (frame_header i) = 5"
  "take 3 (frame_header i @ x) = [1, 1, 5]"
  "take 3 (frame_header i) = [1, 1, 5]"
  "drop 3 (frame_header i) = be_bytes 2 (word_of_nat i :: 16 word)"
  "take 2 (drop 3 (frame_header i @ x)) = be_bytes 2 (word_of_nat i :: 16 word)"
  "drop 5 (frame_header i @ x) = x"
  by (simp_all add: frame_header_def)

lemma number_zero: "be_bytes 2 (word_of_nat i :: 16 word) = [0, 0] \<longleftrightarrow> 65536 dvd i"
proof -
  have "be_bytes 2 (0 :: 16 word) = [0, 0]" by (simp add: be_bytes_def upt_rec)
  then have "be_bytes 2 (word_of_nat i :: 16 word) = [0, 0] \<longleftrightarrow> word_of_nat i = (0 :: 16 word)"
    using be_bytes_inject [of 2 "word_of_nat i :: 16 word" 0] by simp
  then show ?thesis by (simp add: word_of_nat_eq_0_iff)
qed

section \<open>A device that follows the protocol\<close>

text \<open>
  The device is in the middle of a request of which \<open>ds_buffer\<close> has arrived in \<open>ds_next\<close> frames, or has
  frames of a reply to hand out. The application is any function from a request to a reply and its state.
\<close>

record 's device_state =
  ds_next :: nat
  ds_buffer :: "byte list"
  ds_out :: "byte list list"
  ds_app :: 's

definition idle :: "'s \<Rightarrow> 's device_state" where
  "idle s = \<lparr>ds_next = 0, ds_buffer = [], ds_out = [], ds_app = s\<rparr>"

definition pad_frame :: "byte list \<Rightarrow> byte list" where
  "pad_frame f = f @ replicate (64 - length f) 0"

definition reply_frames :: "byte list \<Rightarrow> byte list list" where
  "reply_frames r = map pad_frame (frames 0 (be_bytes 2 (word_of_nat (length r) :: 16 word) @ r))"

definition request_complete :: "byte list \<Rightarrow> bool" where
  "request_complete buf \<longleftrightarrow> 2 \<le> length buf \<and> 2 + unat (from_be (take 2 buf) :: 16 word) \<le> length buf"

definition app_device :: "('s \<Rightarrow> byte list \<Rightarrow> byte list \<times> 's) \<Rightarrow> 's device_state usb_device" where
  "app_device app =
     \<lparr>dev_Write = (\<lambda>f st.
        if take 3 f \<noteq> [1, 1, 5] \<or> take 2 (drop 3 f) \<noteq> be_bytes 2 (word_of_nat (ds_next st) :: 16 word)
        then (Inl (External ''unexpected frame''), st)
        else let buf = ds_buffer st @ drop 5 f in
             if request_complete buf
             then (case app (ds_app st) (drop 2 buf) of
                     (r, s') \<Rightarrow> (Inr (), \<lparr>ds_next = 0, ds_buffer = [], ds_out = reply_frames r, ds_app = s'\<rparr>))
             else (Inr (), st\<lparr>ds_next := Suc (ds_next st), ds_buffer := buf\<rparr>)),
      dev_ReadFull = (\<lambda>n st.
        case ds_out st of
          [] \<Rightarrow> (Inl (External ''EOF''), st)
        | f # fs \<Rightarrow> (Inr (take n f), st\<lparr>ds_out := fs\<rparr>))\<rparr>"

lemma app_device_Write:
  "dev_Write (app_device app) (frame_header (ds_next st) @ x) st =
     (let buf = ds_buffer st @ x in
      if request_complete buf
      then (case app (ds_app st) (drop 2 buf) of
              (r, s') \<Rightarrow> (Inr (), \<lparr>ds_next = 0, ds_buffer = [], ds_out = reply_frames r, ds_app = s'\<rparr>))
      else (Inr (), st\<lparr>ds_next := Suc (ds_next st), ds_buffer := buf\<rparr>))"
  by (simp add: app_device_def)

lemma app_device_ReadFull:
  "ds_out st = f # fs \<Longrightarrow> length f = n \<Longrightarrow> dev_ReadFull (app_device app) n st = (Inr f, st\<lparr>ds_out := fs\<rparr>)"
  by (auto simp: app_device_def)

lemma request_arrives:
  assumes "length T = 2 + n" and "take 2 T = be_bytes 2 (word_of_nat n :: 16 word)" and "n < 65536"
    and "b @ todo = T" and "todo \<noteq> []" and "app s (drop 2 T) = (r, s')"
  shows "write_chunks (app_device app) i todo \<lparr>ds_next = i, ds_buffer = b, ds_out = [], ds_app = s\<rparr> =
           (Inr (), \<lparr>ds_next = 0, ds_buffer = [], ds_out = reply_frames r, ds_app = s'\<rparr>)"
  using assms(4,5)
proof (induction "length todo" arbitrary: i b todo rule: less_induct)
  case less
  have announced: "unat (from_be (take 2 T) :: 16 word) = n"
    using assms(2,3) by (simp add: from_be_bytes unat_of_nat)
  have complete: "request_complete T"
    using assms(1) announced by (simp add: request_complete_def)
  have incomplete: "\<not> request_complete u" if "prefix u T" and "length u < length T" for u
  proof
    assume c: "request_complete u"
    with that(1) have "take 2 u = take 2 T" by (auto simp: prefix_def request_complete_def)
    with c have "2 + n \<le> length u" using announced by (simp add: request_complete_def)
    with that(2) assms(1) show False by simp
  qed
  show ?case
  proof (cases "chunk_space < length todo")
    case True
    let ?b = "b @ take chunk_space todo"
    have "?b @ drop chunk_space todo = T" using less.prems by simp
    moreover from this have "prefix ?b T" by (metis prefixI)
    moreover have "length ?b < length T"
      using True less.prems by (auto simp: \<open>b @ todo = T\<close> [symmetric])
    ultimately show ?thesis
      using less.hyps [of "drop chunk_space todo" ?b "Suc i"] True incomplete [of ?b] less.prems(2)
        app_device_Write [of app "\<lparr>ds_next = i, ds_buffer = b, ds_out = [], ds_app = s\<rparr>" "take chunk_space todo"]
      by (subst write_chunks.simps) (simp add: chunk_space_def Let_def)
  next
    case False
    then show ?thesis
      using less.prems complete assms(6)
        app_device_Write [of app "\<lparr>ds_next = i, ds_buffer = b, ds_out = [], ds_app = s\<rparr>" todo]
      by (subst write_chunks.simps) (simp add: Let_def write_chunks.simps)
  qed
qed

lemma pad_frame_payload:
  "drop 5 (pad_frame (frame_header i @ x)) = x @ replicate (59 - length x) 0"
  "take 3 (pad_frame (frame_header i @ x)) = [1, 1, 5]"
  "take 2 (drop 3 (pad_frame (frame_header i @ x))) = be_bytes 2 (word_of_nat i :: 16 word)"
  "length x \<le> 59 \<Longrightarrow> length (pad_frame (frame_header i @ x)) = 64"
  by (simp_all add: pad_frame_def frame_header_def)

lemma reply_continues:
  assumes "ds_out st = map pad_frame (frames i d)" and "d \<noteq> []" and "0 < i" and "i + length d \<le> 65536"
    and "length reply + length d = capacity" and "2 \<le> capacity"
  shows "read_reply (app_device app) capacity reply st =
           Some (Inr (take (capacity - 2) (reply @ d)), st\<lparr>ds_out := []\<rparr>)"
  using assms(1-5)
proof (induction "length d" arbitrary: i d reply st rule: less_induct)
  case less
  let ?f = "pad_frame (frame_header i @ take chunk_space d)"
  let ?rest = "map pad_frame (frames (Suc i) (drop chunk_space d))"
  have out: "ds_out st = ?f # ?rest" using less.prems(1,2) by (simp add: frames_step)
  have len: "length ?f = 64" by (simp add: pad_frame_payload chunk_space_def)
  have read: "dev_ReadFull (app_device app) 64 st = (Inr ?f, st\<lparr>ds_out := ?rest\<rparr>)"
    using out len by (rule app_device_ReadFull)
  have "\<not> 65536 dvd i" using less.prems(2,3,4) by (cases d) (auto dest!: dvd_imp_le)
  then have number: "be_bytes 2 (word_of_nat i :: 16 word) \<noteq> [0, 0]" by (simp add: number_zero)
  show ?case
  proof (cases "length d \<le> chunk_space")
    case True
    moreover have "capacity - length reply = length d" using less.prems(5) by simp
    ultimately show ?thesis
      using less.prems assms(6) read number
      by (subst read_reply.simps) (simp add: pad_frame_payload chunk_space_def Let_def)
  next
    case False
    then have "read_reply (app_device app) capacity (reply @ take chunk_space d) (st\<lparr>ds_out := ?rest\<rparr>) =
      Some (Inr (take (capacity - 2) ((reply @ take chunk_space d) @ drop chunk_space d)), st\<lparr>ds_out := ?rest\<rparr>\<lparr>ds_out := []\<rparr>)"
      by (intro less.hyps [of "drop chunk_space d" _ "Suc i"])
        (use less.prems in \<open>auto simp: chunk_space_def\<close>)
    moreover have "capacity - length reply = length d" using less.prems(5) by simp
    ultimately show ?thesis
      using False less.prems read number
      by (subst read_reply.simps) (simp add: pad_frame_payload chunk_space_def Let_def)
  qed
qed

lemma reply_read:
  assumes "ds_out st = reply_frames r" and "2 \<le> length r" and "length r < 65536"
  shows "read_reply (app_device app) 0 [] st = Some (Inr (take (length r - 2) r), st\<lparr>ds_out := []\<rparr>)"
proof -
  let ?n = "be_bytes 2 (word_of_nat (length r) :: 16 word)"
  let ?f = "pad_frame (frame_header 0 @ ?n @ take 57 r)"
  let ?rest = "map pad_frame (frames (Suc 0) (drop 57 r))"
  have nonempty: "?n @ r \<noteq> []" using assms(2) by auto
  have out: "ds_out st = ?f # ?rest"
    using assms(1) frames_step [of "?n @ r" 0] nonempty by (simp add: reply_frames_def chunk_space_def)
  have len: "length ?f = 64" by (simp add: pad_frame_payload)
  have read: "dev_ReadFull (app_device app) 64 st = (Inr ?f, st\<lparr>ds_out := ?rest\<rparr>)"
    using out len by (rule app_device_ReadFull)
  have number: "be_bytes 2 (word_of_nat 0 :: 16 word) = [0, 0]" by (simp only: number_zero dvd_0_right)
  have body: "drop 5 ?f = ?n @ take 57 r @ replicate (57 - length r) 0" by (simp add: pad_frame_payload)
  then have "drop 7 ?f = take 57 r @ replicate (57 - length r) 0"
    using drop_drop [of 2 5 ?f] by simp
  moreover have "unat (from_be (take 2 (drop 5 ?f)) :: 16 word) = length r"
    using assms(3) body by (simp add: from_be_bytes unat_of_nat)
  ultimately show ?thesis
    using read number assms(2,3) reply_continues [of "st\<lparr>ds_out := ?rest\<rparr>" 1 "drop 57 r" "take 57 r" "length r" app]
    by (subst read_reply.simps) (auto simp: pad_frame_payload Let_def)
qed

text \<open>An exchange is one call of the application; the status, two bytes at the end of its reply, is cut off.\<close>

theorem exchange_calls_app:
  assumes "length data < 65531"
    and "app s ([0xe0, opcode, p1, p2, word_of_nat (length data)] @ data) = (r, s')"
    and "2 \<le> length r" and "length r < 65536"
  shows "ledgerExchange (app_device app) opcode p1 p2 data (idle s) = Some (Inr (take (length r - 2) r), idle s')"
proof -
  let ?apdu = "[0xe0, opcode, p1, p2, word_of_nat (length data)] @ data"
  let ?T = "be_bytes 2 (word_of_nat (5 + length data) :: 16 word) @ ?apdu"
  have "write_chunks (app_device app) 0 ?T (idle s) =
      (Inr (), \<lparr>ds_next = 0, ds_buffer = [], ds_out = reply_frames r, ds_app = s'\<rparr>)"
    using request_arrives [of ?T "5 + length data" "[]" ?T app s r s' 0] assms(1,2) by (simp add: idle_def)
  then show ?thesis
    using assms reply_read [of "\<lparr>ds_next = 0, ds_buffer = [], ds_out = reply_frames r, ds_app = s'\<rparr>" r app]
    by (simp add: ledgerExchange_def Let_def idle_def)
qed

text \<open>A device that announces a reply too short for a status makes the driver panic, and so does one that does
  not begin its reply with frame 0.\<close>

theorem short_reply_panics:
  assumes "dev_ReadFull D 64 t = (Inr f, t')" and "take 3 f = [1, 1, 5]"
    and "take 2 (drop 3 f) \<noteq> [0, 0] \<or> unat (from_be (take 2 (drop 5 f)) :: 16 word) < 2" and "length f = 64"
  shows "read_reply D 0 [] t = Some (Inl (Panic ''slice bounds out of range''), t')"
  using assms by (subst read_reply.simps) (auto simp: Let_def)

section \<open>Payloads in pieces\<close>

lemma pick_chunk_Inr: "pick_chunk n k = Inr c \<Longrightarrow> 0 < c \<and> c \<le> k \<and> 3 < n mod c"
  by (induction n k rule: pick_chunk.induct) (auto split: if_splits)

lemma pick_chunk_found: "0 < c \<Longrightarrow> c \<le> k \<Longrightarrow> 3 < n mod c \<Longrightarrow> \<exists>c'. pick_chunk n k = Inr c'"
proof (induction n k rule: pick_chunk.induct)
  case (2 n k)
  then show ?case by (cases "c = Suc k") auto
qed simp

text \<open>Up to 60000 bytes, the search finds a size before it divides by zero: 255, 254 or 251 to 253.\<close>

lemma pick_chunk_total:
  assumes "4 \<le> n" and "n \<le> 60000"
  shows "\<exists>c. pick_chunk n 255 = Inr c"
proof -
  let ?q = "n div 255" and ?r = "n mod 255"
  have n: "n = 254 * ?q + (?q + ?r)" using mult_div_mod_eq [of 255 n] by linarith
  have q: "?q \<le> 235" using assms(2) by (simp add: div_le_mono [of n 60000 255, simplified])
  consider "3 < ?r" | "?r \<le> 3" "4 \<le> ?q + ?r" | "?q + ?r \<le> 3" by linarith
  then show ?thesis
  proof cases
    case 1
    then show ?thesis using pick_chunk_found [of 255 255 n] by simp
  next
    case 2
    have "?q + ?r < 254" using q 2 by linarith
    then have "n mod 254 = ?q + ?r" by (subst n) (simp only: mod_mult_self4 mod_less)
    then show ?thesis using 2 pick_chunk_found [of 254 255 n] by simp
  next
    case 3
    moreover have "255 * q + r \<in> {255, 256, 257, 510, 511, 765}" if "q + r \<le> 3" and "4 \<le> 255 * q + r" for q r :: nat
    proof -
      have "q = 0 \<and> 4 \<le> r \<or> (q, r) \<in> {(1, 0), (1, 1), (1, 2), (2, 0), (2, 1), (3, 0)}" using that by simp linarith
      then show ?thesis using that(1) by auto
    qed
    ultimately have "n \<in> {255, 256, 257, 510, 511, 765}" using assms(1) mult_div_mod_eq [of 255 n] by metis
    then show ?thesis
      using pick_chunk_found [of 251 255 n] pick_chunk_found [of 253 255 n] by auto
  qed
qed

function pieces :: "nat \<Rightarrow> byte list \<Rightarrow> byte list list" where
  "pieces c bs = (if bs = [] \<or> c = 0 then [] else take c bs # pieces c (drop c bs))"
  by auto
termination
  by (relation "measure (\<lambda>(c, bs). length bs)") auto

declare pieces.simps [simp del]

lemma concat_pieces: "0 < c \<Longrightarrow> concat (pieces c bs) = bs"
  by (induction c bs rule: pieces.induct) (subst pieces.simps, auto)

lemma pieces_sizes: "p \<in> set (pieces c bs) \<Longrightarrow> p \<noteq> [] \<and> length p \<le> c"
  by (induction c bs rule: pieces.induct) (erule rev_mp, subst pieces.simps, auto)

text \<open>The application is called with the pieces one after the other; the reply to the last one counts.\<close>

primrec feed :: "('s \<Rightarrow> byte list \<Rightarrow> byte list \<times> 's) \<Rightarrow> byte \<Rightarrow> byte list list \<Rightarrow> byte \<Rightarrow> byte list \<Rightarrow> 's \<Rightarrow> byte list \<times> 's" where
  "feed app opcode [] p1 reply s = (reply, s)"
| "feed app opcode (p # ps) p1 reply s =
     (case app s ([0xe0, opcode, p1, 0, word_of_nat (length p)] @ p) of
        (r, s') \<Rightarrow> feed app opcode ps 0x80 (take (length r - 2) r) s')"

definition replies_fit :: "('s \<Rightarrow> byte list \<Rightarrow> byte list \<times> 's) \<Rightarrow> bool" where
  "replies_fit app \<longleftrightarrow> (\<forall>s a. 2 \<le> length (fst (app s a)) \<and> length (fst (app s a)) < 65536)"

lemma exchange_chunks_feed:
  assumes "replies_fit app" and "0 < c" and "c \<le> 255"
  shows "exchange_chunks (app_device app) opcode p1 c payload reply (idle s) =
           (case feed app opcode (pieces c payload) p1 reply s of (r, s') \<Rightarrow> Some (Inr r, idle s'))"
proof (induction "length payload" arbitrary: payload p1 reply s rule: less_induct)
  case less
  show ?case
  proof (cases "payload = []")
    case True
    then show ?thesis by (simp add: exchange_chunks.simps pieces.simps)
  next
    case False
    let ?p = "take c payload"
    obtain r s' where app: "app s ([0xe0, opcode, p1, 0, word_of_nat (length ?p)] @ ?p) = (r, s')" by fastforce
    have fit: "2 \<le> length r" "length r < 65536"
      using assms(1) app by (auto simp: replies_fit_def) (metis fst_conv)+
    have call: "ledgerExchange (app_device app) opcode p1 0 ?p (idle s) = Some (Inr (take (length r - 2) r), idle s')"
      by (rule exchange_calls_app [where data = ?p]) (use assms(3) app fit in auto)
    have rest: "exchange_chunks (app_device app) opcode 0x80 c' (drop c payload) (take (length r - 2) r) (idle s') =
        (case feed app opcode (pieces c (drop c payload)) 0x80 (take (length r - 2) r) s' of (r, s') \<Rightarrow> Some (Inr r, idle s'))"
      if "c' = c \<or> length payload \<le> c" for c'
    proof (cases "length payload \<le> c")
      case True
      then show ?thesis by (simp add: exchange_chunks.simps pieces.simps)
    next
      case False
      with that \<open>0 < c\<close> show ?thesis using less.hyps [of "drop c payload"] by auto
    qed
    show ?thesis
    proof (cases "length payload < c")
      case True
      then show ?thesis
        using False call rest [of "length payload"] app assms(2)
        by (subst exchange_chunks.simps, subst pieces.simps) (simp add: Let_def)
    next
      case long: False
      then show ?thesis
        using False call rest [of c] app assms(2)
        by (subst exchange_chunks.simps, subst pieces.simps) (simp add: Let_def)
    qed
  qed
qed

lemma send_payload_feed:
  assumes "replies_fit app" and "4 \<le> length payload" and "length payload \<le> 60000"
  obtains c where "0 < c" and "c \<le> 255" and "3 < length payload mod c"
    and "send_payload (app_device app) opcode payload (idle s) =
           (case feed app opcode (pieces c payload) 0 [] s of (r, s') \<Rightarrow> Some (Inr r, idle s'))"
proof -
  obtain c where c: "pick_chunk (length payload) 255 = Inr c" using pick_chunk_total assms(2,3) by blast
  with pick_chunk_Inr [OF c] assms(1) show ?thesis
    by (intro that [of c]) (simp_all add: send_payload_def exchange_chunks_feed)
qed

end
