(* ===== verification/LedgerApp.thy ===== *)
theory LedgerApp
  imports LedgerTransport
begin

text \<open>
  A specification of the Ethereum application on the device, as the comments of \<open>sdk/usbwallet/ledger.go\<close>
  and of \<open>eip191.go\<close> describe its requests: from version 1.0.2 on it tells its version; it tells the address
  of a path of at most ten components; from 1.2.0 on it signs a message once it has arrived
  completely, and from 1.5.0 on typed data. Every other request it refuses with a bad status. Against it,
  the driver gets the signature of exactly the message it was given.
\<close>

section \<open>The application\<close>

record eth_keys =
  ek_version :: version
  ek_public :: "u32 list \<Rightarrow> byte list"
  ek_address_text :: "u32 list \<Rightarrow> string"
  ek_address :: "u32 list \<Rightarrow> address"
  ek_sign :: "u32 list \<Rightarrow> byte list \<Rightarrow> byte list"
  ek_sign_typed :: "u32 list \<Rightarrow> byte list \<Rightarrow> byte list"

text \<open>Signatures have 65 bytes, the recovery byte first; an address is printed as hexadecimal text.\<close>

definition keys_documented :: "eth_keys \<Rightarrow> bool" where
  "keys_documented K \<longleftrightarrow>
     (\<forall>path. length (ek_public K path) < 256 \<and>
        hex_DecodeString (ek_address_text K path) = Inr (be_bytes 20 (ek_address K path))) \<and>
     (\<forall>path message. length (ek_sign K path message) = 65 \<and> length (ek_sign_typed K path message) = 65)"

primrec take_words :: "nat \<Rightarrow> byte list \<Rightarrow> u32 list" where
  "take_words 0 bs = []"
| "take_words (Suc n) bs = from_be (take 4 bs) # take_words n (drop 4 bs)"

definition parse_path :: "byte list \<Rightarrow> (u32 list \<times> byte list) option" where
  "parse_path bs =
     (if bs = [] \<or> length bs < 1 + 4 * unat (hd bs) then None
      else Some (take_words (unat (hd bs)) (tl bs), drop (4 * unat (hd bs)) (tl bs)))"

definition parse_message :: "byte list \<Rightarrow> (u32 list \<times> byte list) option" where
  "parse_message bs =
     (case parse_path bs of
        None \<Rightarrow> None
      | Some (path, bs') \<Rightarrow>
          if length bs' < 4 \<or> length bs' < 4 + unat (from_be (take 4 bs') :: 32 word) then None
          else Some (path, drop 4 bs'))"

definition status_ok :: "byte list" where "status_ok = [0x90, 0x00]"
definition status_bad :: "byte list" where "status_bad = [0x6a, 0x80]"

text \<open>Versions are ordered by major, minor and patch number; a path has at most ten components.\<close>

definition at_least :: "version \<Rightarrow> version \<Rightarrow> bool" where
  "at_least v required \<longleftrightarrow>
     (case (v, required) of ((a, b, c), (x, y, z)) \<Rightarrow> x < a \<or> x = a \<and> (y < b \<or> y = b \<and> z \<le> c))"

definition max_path :: nat where "max_path = 10"

definition eth_app :: "eth_keys \<Rightarrow> byte list \<Rightarrow> byte list \<Rightarrow> byte list \<times> byte list" where
  "eth_app K pending request =
     (let opcode = request ! 1; p1 = request ! 2; data = drop 5 request in
      if opcode = 0x02 then
        (case parse_path data of
           None \<Rightarrow> (status_bad, pending)
         | Some (path, _) \<Rightarrow>
             if max_path < length path then (status_bad, pending)
             else (word_of_nat (length (ek_public K path)) # ek_public K path @
                   40 # string_bytes (ek_address_text K path) @ status_ok, pending))
      else if opcode = 0x06 \<and> at_least (ek_version K) (1, 0, 2) then
        (case ek_version K of (major, minor, patch) \<Rightarrow> ([1, major, minor, patch] @ status_ok, pending))
      else if opcode = 0x08 \<and> at_least (ek_version K) (1, 2, 0) then
        (let message = (if p1 = 0 then data else pending @ data) in
         case parse_message message of
           None \<Rightarrow> (status_ok, message)
         | Some (path, m) \<Rightarrow>
             if max_path < length path then (status_bad, []) else (ek_sign K path m @ status_ok, []))
      else if opcode = 0x0c \<and> at_least (ek_version K) (1, 5, 0) then
        (case parse_path data of
           None \<Rightarrow> (status_bad, pending)
         | Some (path, m) \<Rightarrow>
             if max_path < length path then (status_bad, pending) else (ek_sign_typed K path m @ status_ok, pending))
      else (status_bad, pending))"

lemma address_text_length:
  assumes "keys_documented K"
  shows "length (ek_address_text K path) = 40"
proof -
  have "hex_DecodeString (ek_address_text K path) = Inr (be_bytes 20 (ek_address K path))"
    using assms by (simp add: keys_documented_def)
  from hex_DecodeString_length [OF this] show ?thesis by simp
qed

lemma keys_lengths:
  assumes "keys_documented K"
  shows "length (ek_public K path) < 256" "length (ek_sign K path message) = 65"
    "length (ek_sign_typed K path message) = 65" "length (ek_address_text K path) = 40"
  using assms address_text_length [OF assms] by (simp_all add: keys_documented_def)

lemma eth_app_fits: "keys_documented K \<Longrightarrow> replies_fit (eth_app K)"
proof -
  assume K: "keys_documented K"
  have "length (ek_public K path) < 65492" for path using keys_lengths(1) [OF K, of path] by simp
  then show ?thesis
    using keys_lengths(2-4) [OF K]
    by (auto simp: replies_fit_def eth_app_def Let_def status_ok_def status_bad_def
        split: option.splits prod.splits)
qed

section \<open>What is sent is what arrives\<close>

lemma take_words_path: "take_words (length path) (concat (map (be_bytes 4) path) @ x) = path"
  by (induction path) (simp_all add: from_be_bytes)

lemma length_components [simp]: "length (concat (map (be_bytes 4) (path :: u32 list))) = 4 * length path"
  by (induction path) simp_all

lemma length_flatten_path [simp]: "length (flatten_path path) = 1 + 4 * length path"
  by (simp add: flatten_path_def)

lemma parse_path_flatten:
  "length path < 256 \<Longrightarrow> parse_path (flatten_path path @ x) = Some (path, x)"
  by (simp add: parse_path_def flatten_path_def unat_of_nat take_words_path)

definition message_payload :: "u32 list \<Rightarrow> byte list \<Rightarrow> byte list" where
  "message_payload path message =
     flatten_path path @ be_bytes 4 (word_of_nat (length message) :: 32 word) @ message"

lemma parse_message_payload:
  assumes "length path < 256" and "length message < 4294967296"
  shows "parse_message (message_payload path message) = Some (path, message)"
  using assms
  by (simp add: parse_message_def message_payload_def parse_path_flatten from_be_bytes unat_of_nat)

lemma parse_path_part:
  assumes "parse_path u = Some (p, x)"
  shows "parse_path (u @ y) = Some (p, x @ y)"
proof -
  have "take_words n (v @ y) = take_words n v" if "4 * n \<le> length v" for n v
    using that by (induction n arbitrary: v) simp_all
  then show ?thesis using assms by (cases u) (auto simp: parse_path_def split: if_splits)
qed

lemma parse_message_incomplete:
  assumes "length path < 256" and "length message < 4294967296"
    and "u @ y = message_payload path message" and "y \<noteq> []"
  shows "parse_message u = None"
proof (rule ccontr)
  assume "parse_message u \<noteq> None"
  then obtain p x where u: "parse_path u = Some (p, x)" "4 \<le> length x"
    "4 + unat (from_be (take 4 x) :: 32 word) \<le> length x"
    by (auto simp: parse_message_def split: option.splits if_splits)
  from parse_path_part [OF u(1), of y] have "x @ y = be_bytes 4 (word_of_nat (length message) :: 32 word) @ message"
    using assms(1,3) by (simp add: message_payload_def parse_path_flatten)
  moreover from this have "take 4 (x @ y) = take 4 (be_bytes 4 (word_of_nat (length message) :: 32 word) @ message)"
    by simp
  then have "take 4 x = be_bytes 4 (word_of_nat (length message) :: 32 word)" using u(2) by simp
  ultimately have "length x + length y = 4 + length message" and "4 + length message \<le> length x"
    using u(3) assms(2) by (auto simp: from_be_bytes unat_of_nat dest!: arg_cong [of _ _ length])
  with \<open>y \<noteq> []\<close> show False by (cases y) simp_all
qed

text \<open>The application has got the pieces so far, and signs with the last one.\<close>

lemma feed_message:
  assumes "at_least (ek_version K) (1, 2, 0)" and "length path \<le> max_path" and "length message < 4294967296"
    and "ps \<noteq> []" and "[] \<notin> set ps"
    and "(if p1 = 0 then [] else pending) @ concat ps = message_payload path message"
  shows "feed (eth_app K) 0x08 ps p1 reply pending = (ek_sign K path message, [])"
  using assms(4-6)
proof (induction ps arbitrary: p1 reply pending)
  case (Cons p ps)
  let ?so_far = "if p1 = 0 then p else pending @ p"
  have step: "eth_app K pending ([0xe0, 0x08, p1, 0, word_of_nat (length p)] @ p) =
      (case parse_message ?so_far of
         None \<Rightarrow> (status_ok, ?so_far)
       | Some (path, m) \<Rightarrow> if max_path < length path then (status_bad, []) else (ek_sign K path m @ status_ok, []))"
    using assms(1) by (cases "p1 = 0") (simp_all add: eth_app_def Let_def)
  have short: "length path < 256" using assms(2) by (simp add: max_path_def)
  show ?case
  proof (cases "ps = []")
    case True
    with Cons.prems have "?so_far = message_payload path message" by (simp split: if_splits)
    then show ?thesis
      using True step parse_message_payload [OF short assms(3)] assms(2) by (simp add: status_ok_def)
  next
    case False
    with Cons.prems(2) have "concat ps \<noteq> []" by (cases ps) auto
    with Cons.prems(3) have "parse_message ?so_far = None"
      by (intro parse_message_incomplete [OF short assms(3), of _ "concat ps"]) (simp_all split: if_splits)
    with step Cons.IH [of "0x80" ?so_far] Cons.prems False show ?thesis by (simp split: if_splits)
  qed
qed simp

section \<open>The driver on the device\<close>

theorem personal_message_signed:
  assumes "keys_documented K" and "at_least (ek_version K) (1, 2, 0)" and "length path \<le> max_path" and "length (message_payload path message) \<le> 60000"
  shows "ledgerSignPersonalMessage (app_device (eth_app K)) path message (idle pending) =
           Some (Inr (tl (ek_sign K path message) @ [hd (ek_sign K path message)]), idle [])"
proof -
  let ?T = "message_payload path message"
  have len: "4 \<le> length ?T" "length message < 4294967296"
    using assms(4) by (simp_all add: message_payload_def)
  obtain c where c: "0 < c"
    and sent: "send_payload (app_device (eth_app K)) 0x08 ?T (idle pending) =
      (case feed (eth_app K) 0x08 (pieces c ?T) 0 [] pending of (r, s') \<Rightarrow> Some (Inr r, idle s'))"
    using send_payload_feed [OF eth_app_fits [OF assms(1)] len(1) assms(4)] by metis
  have "pieces c ?T \<noteq> []" using c len(1) by (subst pieces.simps) auto
  moreover have "[] \<notin> set (pieces c ?T)" using pieces_sizes by blast
  ultimately have "feed (eth_app K) 0x08 (pieces c ?T) 0 [] pending = (ek_sign K path message, [])"
    using assms(2,3) len(2) concat_pieces [OF c] by (intro feed_message) simp_all
  moreover have "length (ek_sign K path message) = 65" using assms(1) by (simp add: keys_documented_def)
  ultimately show ?thesis
    using sent len(2)
    by (simp add: ledgerSignPersonalMessage_def ledgerOpSignPersonalMessage_def message_payload_def signature_of_reply_def)
qed

theorem typed_message_signed:
  assumes "keys_documented K" and "at_least (ek_version K) (1, 5, 0)" and "length path \<le> max_path" and "length domainHash = 32" and "length messageHash = 32"
  shows "ledgerSignTypedMessage (app_device (eth_app K)) path domainHash messageHash (idle pending) =
           Some (Inr (tl (ek_sign_typed K path (domainHash @ messageHash)) @ [hd (ek_sign_typed K path (domainHash @ messageHash))]),
                 idle pending)"
proof -
  let ?data = "flatten_path path @ domainHash @ messageHash"
  have call: "ledgerExchange (app_device (eth_app K)) 0x0c 0 0 ?data (idle pending) =
      Some (Inr (take (67 - 2) (ek_sign_typed K path (domainHash @ messageHash) @ status_ok)), idle pending)"
    using exchange_calls_app [of ?data "eth_app K" pending "0x0c" 0 0 "ek_sign_typed K path (domainHash @ messageHash) @ status_ok" pending]
      assms keys_lengths(3) [OF assms(1)]
    by (simp add: eth_app_def parse_path_flatten status_ok_def Let_def max_path_def)
  then show ?thesis
    using keys_lengths(3) [OF assms(1)]
    by (simp add: ledgerSignTypedMessage_def ledgerOpSignTypedMessage_def signature_of_reply_def)
qed

theorem address_derived:
  assumes "keys_documented K" and "length path \<le> max_path"
  shows "ledgerDerive (app_device (eth_app K)) path (idle pending) = Some (Inr (ek_address K path), idle pending)"
proof -
  let ?r = "word_of_nat (length (ek_public K path)) # ek_public K path @ 40 # string_bytes (ek_address_text K path)"
  have text_length: "length (ek_address_text K path) = 40" by (rule address_text_length [OF assms(1)])
  have "bytes_text (string_bytes t) = t" for t
    by (induction t) (simp_all add: bytes_text_def string_bytes_def unat_of_nat)
  then have parsed: "parse_address_reply ?r = Inr (ek_address K path)"
    using assms(1) text_length
    by (simp add: parse_address_reply_def keys_documented_def unat_of_nat hex_Decode_address_def from_be_bytes)
  have call: "ledgerExchange (app_device (eth_app K)) 0x02 0 0 (flatten_path path) (idle pending) =
      Some (Inr (take (length (?r @ status_ok) - 2) (?r @ status_ok)), idle pending)"
    using exchange_calls_app [of "flatten_path path" "eth_app K" pending "0x02" 0 0 "?r @ status_ok" pending]
      assms(2) text_length parse_path_flatten [of path "[]"] keys_lengths(1) [OF assms(1), of path]
    by (simp add: eth_app_def status_ok_def Let_def max_path_def)
  then show ?thesis
    using parsed by (simp add: ledgerDerive_def ledgerOpRetrieveAddress_def status_ok_def)
qed

theorem version_read:
  assumes "at_least (ek_version K) (1, 0, 2)"
  shows "ledgerVersion (app_device (eth_app K)) (idle pending) = Some (Inr (ek_version K), idle pending)"
proof (cases "ek_version K")
  case (fields major minor patch)
  with assms show ?thesis
    using exchange_calls_app [of "[]" "eth_app K" pending "0x06" 0 0 "[1, major, minor, patch] @ status_ok" pending]
    by (simp add: ledgerVersion_def ledgerOpGetConfiguration_def eth_app_def status_ok_def)
qed

text \<open>Before 1.0.2 the query fails, as the comment in Open says, in the way that the heartbeat tolerates.\<close>

theorem version_refused:
  assumes "\<not> at_least (ek_version K) (1, 0, 2)"
  shows "ledgerVersion (app_device (eth_app K)) (idle pending) = Some (Inl errLedgerInvalidVersionReply, idle pending)"
  using assms exchange_calls_app [of "[]" "eth_app K" pending "0x06" 0 0 "status_bad" pending]
  by (simp add: ledgerVersion_def ledgerOpGetConfiguration_def eth_app_def status_bad_def)

text \<open>
  The two version checks of the driver do not demand what their errors say. Both comparisons must hold for an
  error, so the minor version counts for major version 0 only: an application of version 1.0 or 1.1 is sent
  a personal message, although 1.2.0 is required, and one of version 1.2 typed data, although 1.5.0 is.
\<close>

theorem personal_message_version:
  assumes "ld_version d = (major, minor, patch)" and "1 \<le> major"
  shows "SignPersonalMessage D d path message = ledgerSignPersonalMessage D path message"
  using assms by (auto simp: SignPersonalMessage_def offline_def)

theorem typed_message_version:
  assumes "ld_version d = (major, minor, patch)" and "1 \<le> major"
  shows "SignTypedMessage D d path domainHash messageHash = ledgerSignTypedMessage D path domainHash messageHash"
  using assms by (auto simp: SignTypedMessage_def offline_def)

end
