(* ===== verification/UsbWallet.thy ===== *)
theory UsbWallet
  imports LedgerApp Signable
begin

text \<open>
  \<open>sdk/usbwallet/wallet.go\<close>, \<open>eip191.go\<close>, \<open>hub.go\<close> and the Ledger signer of \<open>signer.go\<close>: the wallets found on USB,
  their life cycle, and signing a payload with the first of them. What a method does while it holds the state lock
  is one step. A method that gives the lock up in between is several: Derive asks the device under the
  read lock and pins the account under the write lock, the health check closes the wallet under a lock of
  its own, and so does the goroutine that derives accounts by itself insert what it found. Other steps
  may come between.
\<close>

section \<open>Wallets\<close>

type_synonym url = "string \<times> string"
type_synonym account = "address \<times> url"

record hid_info =
  di_Path :: string
  di_ProductID :: "16 word"
  di_UsagePage :: "16 word"
  di_Interface :: int

text \<open>
  The USB library, the clock and what is used of \<open>go-ethereum/accounts\<close>: the comparison of URLs, the base path,
  the text of a path, the hash of a text and the MIME type of typed data. A reader of a chain's state is known
  by a number.
\<close>

record 't usb_env =
  hid_Supported :: bool
  on_linux :: bool
  usb_Now :: "'t \<Rightarrow> int"
  hid_Enumerate :: "'t \<Rightarrow> hid_info list res \<times> 't"
  hid_Open :: "hid_info \<Rightarrow> 't \<Rightarrow> unit res \<times> 't"
  hid_Close :: "hid_info \<Rightarrow> 't \<Rightarrow> 't"
  hid_Device :: "hid_info \<Rightarrow> 't usb_device"
  UrlCmp :: "url \<Rightarrow> url \<Rightarrow> int"
  BasePath :: "u32 list"
  PathText :: "u32 list \<Rightarrow> string"
  TextHash :: "byte list \<Rightarrow> byte list"
  MimetypeTypedData :: string
  chain_BalanceAt :: "nat \<Rightarrow> address \<Rightarrow> 't \<Rightarrow> int res \<times> 't"
  chain_NonceAt :: "nat \<Rightarrow> address \<Rightarrow> 't \<Rightarrow> u64 res \<times> 't"

record usb_wallet =
  uw_url :: url
  uw_info :: hid_info
  uw_driver :: ledger_driver
  uw_device :: bool
  uw_accounts :: "account list"
  uw_paths :: "(address, u32 list) gomap option"
  uw_deriveNextPaths :: "u32 list list"
  uw_deriveNextAddrs :: "address list"
  uw_deriveChain :: "nat option"

definition new_wallet :: "url \<Rightarrow> hid_info \<Rightarrow> usb_wallet" where
  "new_wallet url info =
     \<lparr>uw_url = url, uw_info = info, uw_driver = newLedgerDriver, uw_device = False, uw_accounts = [], uw_paths = None,
      uw_deriveNextPaths = [], uw_deriveNextAddrs = [], uw_deriveChain = None\<rparr>"

definition wallet_Status :: "usb_wallet \<Rightarrow> driver_status option \<times> mcms_error option" where
  "wallet_Status w =
     (case driver_Status (uw_driver w) of (status, failure) \<Rightarrow>
        (if \<not> uw_device w then None else Some status, failure))"

definition ErrWalletAlreadyOpen :: mcms_error where "ErrWalletAlreadyOpen = External ''wallet already open''"
definition ErrUnknownAccount :: mcms_error where "ErrUnknownAccount = External ''unknown account''"
definition ErrNotSupported :: mcms_error where "ErrNotSupported = External ''not supported''"

definition wallet_Open :: "'t usb_env \<Rightarrow> usb_wallet \<Rightarrow> 't \<Rightarrow> (unit res \<times> usb_wallet \<times> 't) option" where
  "wallet_Open E w t =
     (if uw_paths w \<noteq> None then Some (Inl ErrWalletAlreadyOpen, w, t)
      else case (if uw_device w then (Inr (), t) else hid_Open E (uw_info w) t) of
             (Inl err, t') \<Rightarrow> Some (Inl err, w, t')
           | (Inr _, t') \<Rightarrow>
               (case driver_Open (hid_Device E (uw_info w)) (BasePath E) (uw_driver w) t' of
                  None \<Rightarrow> None
                | Some (d, t'') \<Rightarrow>
                    Some (Inr (), w\<lparr>uw_device := True, uw_driver := d, uw_paths := Some []\<rparr>, t'')))"

text \<open>\<open>close\<close> may come twice. The failure of the driver stays.\<close>

definition wallet_close :: "'t usb_env \<Rightarrow> usb_wallet \<Rightarrow> 't \<Rightarrow> usb_wallet \<times> 't" where
  "wallet_close E w t =
     (if \<not> uw_device w then (w, t)
      else (w\<lparr>uw_device := False, uw_accounts := [], uw_paths := None, uw_driver := driver_Close (uw_driver w)\<rparr>,
            hid_Close E (uw_info w) t))"

text \<open>One round of the loop \<open>heartbeat\<close>: the exchange, and after a failure the close, under another lock.\<close>

definition heartbeat_probe :: "'t usb_env \<Rightarrow> usb_wallet \<Rightarrow> 't \<Rightarrow> (bool \<times> usb_wallet \<times> 't) option" where
  "heartbeat_probe E w t =
     (if \<not> uw_device w then Some (False, w, t)
      else case driver_Heartbeat (hid_Device E (uw_info w)) (uw_driver w) t of
             None \<Rightarrow> None
           | Some (err, d, t') \<Rightarrow> Some (err \<noteq> None, w\<lparr>uw_driver := d\<rparr>, t'))"

definition heartbeat_step :: "'t usb_env \<Rightarrow> usb_wallet \<Rightarrow> 't \<Rightarrow> (usb_wallet \<times> 't) option" where
  "heartbeat_step E w t =
     (case heartbeat_probe E w t of
        None \<Rightarrow> None
      | Some (failed, w', t') \<Rightarrow> Some (if failed then wallet_close E w' t' else (w', t')))"

definition wallet_Contains :: "usb_wallet \<Rightarrow> address \<Rightarrow> bool" where
  "wallet_Contains w a \<longleftrightarrow> (case uw_paths w of None \<Rightarrow> False | Some paths \<Rightarrow> gm_get paths a \<noteq> None)"

text \<open>Writing to \<open>w.paths\<close> panics when the map is nil; the account is in the list by then.\<close>

definition pin_account :: "account \<Rightarrow> u32 list \<Rightarrow> usb_wallet \<Rightarrow> unit res \<times> usb_wallet" where
  "pin_account account path w =
     (if wallet_Contains w (fst account) then (Inr (), w)
      else let w' = w\<lparr>uw_accounts := uw_accounts w @ [account]\<rparr> in
           case uw_paths w of
             None \<Rightarrow> (Inl (Panic ''assignment to entry in nil map''), w')
           | Some paths \<Rightarrow> (Inr (), w'\<lparr>uw_paths := Some (gm_put (fst account) path paths)\<rparr>))"

definition account_at :: "'t usb_env \<Rightarrow> usb_wallet \<Rightarrow> u32 list \<Rightarrow> address \<Rightarrow> account" where
  "account_at E w path a = (a, (fst (uw_url w), snd (uw_url w) @ ''/'' @ PathText E path))"

text \<open>Derive: the derivation under the read lock, and what follows when it has given an address.\<close>

definition derive_ask :: "'t usb_env \<Rightarrow> usb_wallet \<Rightarrow> u32 list \<Rightarrow> (address, 't) device_call" where
  "derive_ask E w path =
     (if \<not> uw_device w then returnD (Inl ErrWalletClosed) else ledgerDerive (hid_Device E (uw_info w)) path)"

definition derive_pin :: "'t usb_env \<Rightarrow> usb_wallet \<Rightarrow> u32 list \<Rightarrow> bool \<Rightarrow> address \<Rightarrow> account res \<times> usb_wallet" where
  "derive_pin E w path pin a =
     (let account = account_at E w path a in
      if \<not> pin then (Inr account, w)
      else if \<not> uw_device w then (Inl ErrWalletClosed, w)
      else case pin_account account path w of
             (Inl err, w') \<Rightarrow> (Inl err, w')
           | (Inr _, w') \<Rightarrow> (Inr account, w'))"

text \<open>The method when nothing comes between.\<close>

definition wallet_Derive ::
  "'t usb_env \<Rightarrow> usb_wallet \<Rightarrow> u32 list \<Rightarrow> bool \<Rightarrow> 't \<Rightarrow> (account res \<times> usb_wallet \<times> 't) option" where
  "wallet_Derive E w path pin t =
     (case derive_ask E w path t of
        None \<Rightarrow> None
      | Some (Inl err, t') \<Rightarrow> Some (Inl err, w, t')
      | Some (Inr a, t') \<Rightarrow> (case derive_pin E w path pin a of (r, w') \<Rightarrow> Some (r, w', t')))"

section \<open>Accounts found by themselves\<close>

definition wallet_SelfDerive :: "usb_wallet \<Rightarrow> u32 list list \<Rightarrow> nat option \<Rightarrow> usb_wallet" where
  "wallet_SelfDerive w bases chain =
     w\<lparr>uw_deriveNextPaths := bases, uw_deriveNextAddrs := replicate (length bases) 0, uw_deriveChain := chain\<rparr>"

text \<open>
  The loop over the accounts of one base path. It goes on until an account is empty, and only that of the
  last base is kept then; an address that is known from the round before is not derived again. It gives
  the accounts found, the next address, the next path and the error that ended it; the path of no
  components has no last one to increment.
\<close>

partial_function (option) discover_base ::
  "'t usb_env \<Rightarrow> usb_wallet \<Rightarrow> nat \<Rightarrow> bool \<Rightarrow> address \<Rightarrow> u32 list \<Rightarrow> (account \<times> u32 list) list \<Rightarrow> 't \<Rightarrow>
     (((account \<times> u32 list) list \<times> address \<times> u32 list \<times> mcms_error option) res \<times> 't) option" where
  "discover_base E w chain is_last addr path found t =
     (case (if addr = 0 then ledgerDerive (hid_Device E (uw_info w)) path t else Some (Inr addr, t)) of
        None \<Rightarrow> None
      | Some (derived, t1) \<Rightarrow>
          (case derived of
             Inl err \<Rightarrow> Some (Inr (found, 0, path, Some err), t1)
           | Inr a \<Rightarrow>
               (case chain_BalanceAt E chain a t1 of
                  (Inl err, t2) \<Rightarrow> Some (Inr (found, a, path, Some err), t2)
                | (Inr balance, t2) \<Rightarrow>
                    (case chain_NonceAt E chain a t2 of
                       (Inl err, t3) \<Rightarrow> Some (Inr (found, a, path, Some err), t3)
                     | (Inr nonce, t3) \<Rightarrow>
                         if balance = 0 \<and> nonce = 0 then
                           Some (Inr (if is_last then found @ [(account_at E w path a, path)] else found, a, path, None), t3)
                         else if path = [] then Some (Inl (Panic ''index out of range''), t3)
                         else discover_base E w chain is_last 0 (butlast path @ [last path + 1])
                                (found @ [(account_at E w path a, path)]) t3))))"

fun discover_bases ::
  "'t usb_env \<Rightarrow> usb_wallet \<Rightarrow> nat \<Rightarrow> (address \<times> u32 list) list \<Rightarrow> (account \<times> u32 list) list \<Rightarrow> mcms_error option \<Rightarrow>
     ((account \<times> u32 list) list \<times> address list \<times> u32 list list \<times> mcms_error option, 't) device_call" where
  "discover_bases E w chain [] found err = returnD (Inr (found, [], [], err))"
| "discover_bases E w chain ((addr, path) # bases) found err =
     bindD (discover_base E w chain (bases = []) addr path found) (\<lambda>(found, a, p, err).
     bindD (discover_bases E w chain bases found err) (\<lambda>(found, as, ps, err).
       returnD (Inr (found, a # as, p # ps, err))))"

record discovery =
  dc_found :: "(account \<times> u32 list) list"
  dc_nextAddrs :: "address list"
  dc_nextPaths :: "u32 list list"
  dc_err :: "mcms_error option"

text \<open>
  A round of \<open>selfDerive\<close>, first under the read lock: nothing is done without a device and a chain. The copy of the
  next paths is shallow, so the increments show in the wallet at once. Then, under the write lock, the accounts
  are inserted; the device is not looked at again.
\<close>

definition discover_ask ::
  "'t usb_env \<Rightarrow> usb_wallet \<Rightarrow> 't \<Rightarrow> (discovery option res \<times> usb_wallet \<times> 't) option" where
  "discover_ask E w t =
     (if \<not> uw_device w then Some (Inr None, w, t)
      else case uw_deriveChain w of
             None \<Rightarrow> Some (Inr None, w, t)
           | Some chain \<Rightarrow>
               (case discover_bases E w chain (zip (uw_deriveNextAddrs w) (uw_deriveNextPaths w)) [] None t of
                  None \<Rightarrow> None
                | Some (Inl err, t') \<Rightarrow> Some (Inl err, w, t')
                | Some (Inr (found, addrs, paths, err), t') \<Rightarrow>
                    Some (Inr (Some \<lparr>dc_found = found, dc_nextAddrs = addrs, dc_nextPaths = paths, dc_err = err\<rparr>),
                          w\<lparr>uw_deriveNextPaths := paths\<rparr>, t')))"

primrec insert_found :: "(account \<times> u32 list) list \<Rightarrow> usb_wallet \<Rightarrow> unit res \<times> usb_wallet" where
  "insert_found [] w = (Inr (), w)"
| "insert_found (x # xs) w =
     (case pin_account (fst x) (snd x) w of
        (Inl err, w') \<Rightarrow> (Inl err, w')
      | (Inr _, w') \<Rightarrow> insert_found xs w')"

definition discover_insert :: "usb_wallet \<Rightarrow> discovery \<Rightarrow> unit res \<times> usb_wallet" where
  "discover_insert w d =
     (case insert_found (dc_found d) w of
        (Inl err, w') \<Rightarrow> (Inl err, w')
      | (Inr _, w') \<Rightarrow> (Inr (), w'\<lparr>uw_deriveNextAddrs := dc_nextAddrs d, uw_deriveNextPaths := dc_nextPaths d\<rparr>))"

section \<open>Signing\<close>

text \<open>The checks that every kind of signing begins with.\<close>

definition known_path :: "usb_wallet \<Rightarrow> account \<Rightarrow> u32 list res" where
  "known_path w account =
     (if \<not> uw_device w then Inl ErrWalletClosed
      else case uw_paths w of
             None \<Rightarrow> Inl ErrUnknownAccount
           | Some paths \<Rightarrow> (case gm_get paths (fst account) of None \<Rightarrow> Inl ErrUnknownAccount | Some path \<Rightarrow> Inr path))"

definition signMessage :: "'t usb_env \<Rightarrow> usb_wallet \<Rightarrow> account \<Rightarrow> byte list \<Rightarrow> (byte list, 't) device_call" where
  "signMessage E w account message =
     bindD (returnD (known_path w account)) (\<lambda>path.
       SignPersonalMessage (hid_Device E (uw_info w)) (uw_driver w) path message)"

definition SignText :: "'t usb_env \<Rightarrow> usb_wallet \<Rightarrow> account \<Rightarrow> byte list \<Rightarrow> (byte list, 't) device_call" where
  "SignText E w account message = signMessage E w account message"

definition SignTextWithPassphrase :: "'t usb_env \<Rightarrow> usb_wallet \<Rightarrow> account \<Rightarrow> string \<Rightarrow> byte list \<Rightarrow> (byte list, 't) device_call" where
  "SignTextWithPassphrase E w account passphrase message = SignText E w account (TextHash E message)"

definition SignData :: "'t usb_env \<Rightarrow> usb_wallet \<Rightarrow> account \<Rightarrow> string \<Rightarrow> byte list \<Rightarrow> (byte list, 't) device_call" where
  "SignData E w account mimeType data =
     (if \<not> (mimeType = MimetypeTypedData E \<and> length data = 66 \<and> data ! 0 = 0x19 \<and> data ! 1 = 0x01)
      then returnD (Inl ErrNotSupported)
      else bindD (returnD (known_path w account)) (\<lambda>path.
             SignTypedMessage (hid_Device E (uw_info w)) (uw_driver w) path (drop 2 (take 34 data)) (drop 34 (take 66 data))))"

definition wallet_SignDataWithPassphrase ::
  "'t usb_env \<Rightarrow> usb_wallet \<Rightarrow> account \<Rightarrow> string \<Rightarrow> string \<Rightarrow> byte list \<Rightarrow> (byte list, 't) device_call" where
  "wallet_SignDataWithPassphrase E w account passphrase mimeType data = SignData E w account mimeType data"

definition wallet_SignTx ::
  "'t usb_env \<Rightarrow> 'x tx_pkg \<Rightarrow> usb_wallet \<Rightarrow> account \<Rightarrow> 'x \<Rightarrow> int option \<Rightarrow> ('x, 't) device_call" where
  "wallet_SignTx E X w account tx chainID =
     bindD (returnD (known_path w account)) (\<lambda>path.
     bindD (driver_SignTx (hid_Device E (uw_info w)) X (uw_driver w) path tx chainID) (\<lambda>(sender, signed).
       returnD (if sender \<noteq> fst account then Inl (Errorf ''signer mismatch: expected %s, got %s'') else Inr signed)))"

definition wallet_SignTxWithPassphrase ::
  "'t usb_env \<Rightarrow> 'x tx_pkg \<Rightarrow> usb_wallet \<Rightarrow> account \<Rightarrow> string \<Rightarrow> 'x \<Rightarrow> int option \<Rightarrow> ('x, 't) device_call" where
  "wallet_SignTxWithPassphrase E X w account passphrase tx chainID = wallet_SignTx E X w account tx chainID"

section \<open>The life of a wallet\<close>

text \<open>
  A wallet, the derivations that have got an address and are to pin it, the rounds of self-derivation that are to
  insert what they found, the number of failed health checks that are to close it, and the state of the
  world. Any of them may go on next, in any order, and the world may change by itself. The handshake by which
  Close waits for the two goroutines is left out, so a close may come at any time here.
\<close>

inductive wallet_reached ::
  "'t usb_env \<Rightarrow> usb_wallet \<Rightarrow> (u32 list \<times> bool \<times> address) list \<Rightarrow> discovery list \<Rightarrow> nat \<Rightarrow> 't \<Rightarrow> bool" for E where
  new: "wallet_reached E (new_wallet url info) [] [] 0 t"
| passed: "wallet_reached E w ds cs n t \<Longrightarrow> wallet_reached E w ds cs n t'"
| opened: "wallet_reached E w ds cs n t \<Longrightarrow> wallet_Open E w t = Some (r, w', t') \<Longrightarrow> wallet_reached E w' ds cs n t'"
| closed: "wallet_reached E w ds cs n t \<Longrightarrow> wallet_close E w t = (w', t') \<Longrightarrow> wallet_reached E w' ds cs n t'"
| probed: "wallet_reached E w ds cs n t \<Longrightarrow> heartbeat_probe E w t = Some (failed, w', t') \<Longrightarrow>
    wallet_reached E w' ds cs (if failed then Suc n else n) t'"
| torn: "wallet_reached E w ds cs (Suc n) t \<Longrightarrow> wallet_close E w t = (w', t') \<Longrightarrow> wallet_reached E w' ds cs n t'"
| asked: "wallet_reached E w ds cs n t \<Longrightarrow> derive_ask E w path t = Some (Inr a, t') \<Longrightarrow>
    wallet_reached E w (ds @ [(path, pin, a)]) cs n t'"
| refused: "wallet_reached E w ds cs n t \<Longrightarrow> derive_ask E w path t = Some (Inl err, t') \<Longrightarrow> wallet_reached E w ds cs n t'"
| pinned: "wallet_reached E w ds cs n t \<Longrightarrow> (path, pin, a) \<in> set ds \<Longrightarrow> derive_pin E w path pin a = (r, w') \<Longrightarrow>
    wallet_reached E w' (remove1 (path, pin, a) ds) cs n t"
| told: "wallet_reached E w ds cs n t \<Longrightarrow> wallet_reached E (wallet_SelfDerive w bases chain) ds cs n t"
| discovering: "wallet_reached E w ds cs n t \<Longrightarrow> discover_ask E w t = Some (Inr r, w', t') \<Longrightarrow>
    wallet_reached E w' ds (case r of None \<Rightarrow> cs | Some d \<Rightarrow> cs @ [d]) n t'"
| discovered: "wallet_reached E w ds cs n t \<Longrightarrow> d \<in> set cs \<Longrightarrow> discover_insert w d = (Inr (), w') \<Longrightarrow>
    wallet_reached E w' ds (remove1 d cs) n t"
| signed: "wallet_reached E w ds cs n t \<Longrightarrow> SignText E w account message t = Some (s, t') \<Longrightarrow> wallet_reached E w ds cs n t'"

text \<open>
  A wallet is open exactly if it has a map of paths; each of its accounts stands once in the list, with the
  URL of the path under which the map has it, and the map has nothing else.
\<close>

definition wallet_ok :: "'t usb_env \<Rightarrow> usb_wallet \<Rightarrow> bool" where
  "wallet_ok E w \<longleftrightarrow>
     (case uw_paths w of
        None \<Rightarrow> \<not> uw_device w \<and> uw_accounts w = []
      | Some paths \<Rightarrow> uw_device w \<and> gm_wf paths \<and> uw_accounts w = map (\<lambda>(a, path). account_at E w path a) paths)"

definition found_ok :: "'t usb_env \<Rightarrow> url \<Rightarrow> discovery \<Rightarrow> bool" where
  "found_ok E url d \<longleftrightarrow> (\<forall>(account, path) \<in> set (dc_found d). snd account = (fst url, snd url @ ''/'' @ PathText E path))"

lemma put_new: "k \<notin> set (gm_keys m) \<Longrightarrow> gm_put k v m = m @ [(k, v)]"
  by (induction m) auto

lemma wallet_ok_close: "wallet_ok E w \<Longrightarrow> wallet_ok E (fst (wallet_close E w t))"
  by (auto simp: wallet_close_def wallet_ok_def split: option.splits)

lemma wallet_close_url: "wallet_close E w t = (w', t') \<Longrightarrow> uw_url w' = uw_url w"
  by (auto simp: wallet_close_def split: if_splits)

lemma pin_account_url: "uw_url (snd (pin_account account path w)) = uw_url w"
  and pin_account_device: "uw_device (snd (pin_account account path w)) = uw_device w"
  by (simp_all add: pin_account_def Let_def split: option.splits)

lemma pin_account_kept: "wallet_Contains w a \<Longrightarrow> wallet_Contains (snd (pin_account account path w)) a"
  by (auto simp: pin_account_def wallet_Contains_def Let_def gm_get_put split: option.splits)

text \<open>Pinning into an open wallet succeeds, and into a closed one it panics.\<close>

lemma pin_account_open:
  assumes "wallet_ok E w" and "uw_device w" and "snd account = (fst (uw_url w), snd (uw_url w) @ ''/'' @ PathText E path)"
  shows "fst (pin_account account path w) = Inr ()" and "wallet_ok E (snd (pin_account account path w))"
    and "wallet_Contains (snd (pin_account account path w)) (fst account)"
proof -
  from assms(1,2) obtain paths where paths: "uw_paths w = Some paths" "gm_wf paths"
    "uw_accounts w = map (\<lambda>(a, path). account_at E w path a) paths"
    by (auto simp: wallet_ok_def split: option.splits)
  show "fst (pin_account account path w) = Inr ()" using paths(1) by (simp add: pin_account_def Let_def)
  show "wallet_Contains (snd (pin_account account path w)) (fst account)"
    using paths(1) by (auto simp: pin_account_def wallet_Contains_def Let_def gm_get_put)
  show "wallet_ok E (snd (pin_account account path w))"
  proof (cases "wallet_Contains w (fst account)")
    case False
    with paths(1) have new: "fst account \<notin> set (gm_keys paths)"
      by (simp add: wallet_Contains_def dom_map_of_conv_image_fst [symmetric] domIff)
    have "gm_wf (gm_put (fst account) path paths)" using paths(2) by simp
    moreover have "account = account_at E w path (fst account)" using assms(3) by (cases account) (simp add: account_at_def)
    ultimately show ?thesis
      using False paths assms(2) put_new [OF new] by (simp add: pin_account_def wallet_ok_def Let_def) (simp add: account_at_def)
  qed (use assms(1) in \<open>simp add: pin_account_def\<close>)
qed

lemma pin_account_closed:
  "wallet_ok E w \<Longrightarrow> \<not> uw_device w \<Longrightarrow> fst (pin_account account path w) = Inl (Panic ''assignment to entry in nil map'')"
  by (auto simp: pin_account_def wallet_ok_def wallet_Contains_def Let_def split: option.splits)

lemma derive_pin_open:
  assumes "wallet_ok E w" and "uw_device w"
  obtains w' where "derive_pin E w path pin a = (Inr (account_at E w path a), w')" "wallet_ok E w'" "pin \<Longrightarrow> wallet_Contains w' a"
    "\<not> pin \<Longrightarrow> w' = w"
proof (cases pin)
  case True
  have "snd (account_at E w path a) = (fst (uw_url w), snd (uw_url w) @ ''/'' @ PathText E path)" by (simp add: account_at_def)
  note p = pin_account_open [OF assms this]
  obtain r w' where pin: "pin_account (account_at E w path a) path w = (r, w')" by fastforce
  with p have "r = Inr ()" "wallet_ok E w'" "wallet_Contains w' a" by (simp_all add: account_at_def)
  with True pin assms(2) show ?thesis by (intro that) (simp_all add: derive_pin_def Let_def)
qed (use that assms(1) in \<open>simp add: derive_pin_def Let_def\<close>)

lemma derive_pin_closed:
  "\<not> uw_device w \<Longrightarrow> derive_pin E w path pin a = (if pin then Inl ErrWalletClosed else Inr (account_at E w path a), w)"
  by (simp add: derive_pin_def Let_def)

lemma derive_pin_ok:
  assumes "wallet_ok E w" and "derive_pin E w path pin a = (r, w')"
  shows "wallet_ok E w' \<and> uw_url w' = uw_url w"
proof -
  have "uw_url w' = uw_url w" using assms(2) pin_account_url [of "account_at E w path a" path w]
    by (auto simp: derive_pin_def Let_def split: if_splits prod.splits sum.splits)
  moreover have "wallet_ok E w'"
  proof (cases "uw_device w")
    case True
    with assms show ?thesis using derive_pin_open [OF assms(1) True, of path pin a] by (metis prod.inject)
  qed (use assms derive_pin_closed [of w E path pin a] in simp)
  ultimately show ?thesis by blast
qed

lemma insert_found_open:
  assumes "wallet_ok E w" and "uw_device w"
    and "\<forall>(account, path) \<in> set xs. snd account = (fst (uw_url w), snd (uw_url w) @ ''/'' @ PathText E path)"
  shows "\<exists>w'. insert_found xs w = (Inr (), w') \<and> wallet_ok E w' \<and> uw_url w' = uw_url w \<and>
    (\<forall>a. wallet_Contains w a \<or> a \<in> (fst \<circ> fst) ` set xs \<longrightarrow> wallet_Contains w' a)"
  using assms
proof (induction xs arbitrary: w)
  case (Cons x xs)
  obtain r w1 where p: "pin_account (fst x) (snd x) w = (r, w1)" by fastforce
  from Cons.prems(3) have "snd (fst x) = (fst (uw_url w), snd (uw_url w) @ ''/'' @ PathText E (snd x))" by auto
  from pin_account_open [OF Cons.prems(1,2) this] p
  have w1: "r = Inr ()" "wallet_ok E w1" "wallet_Contains w1 (fst (fst x))" by simp_all
  have same: "uw_url w1 = uw_url w" "uw_device w1" "\<And>a. wallet_Contains w a \<Longrightarrow> wallet_Contains w1 a"
    using pin_account_url [of "fst x" "snd x" w] pin_account_device [of "fst x" "snd x" w] pin_account_kept [of w _ "fst x" "snd x"]
      Cons.prems(2) p by simp_all
  have "\<forall>(account, path) \<in> set xs. snd account = (fst (uw_url w1), snd (uw_url w1) @ ''/'' @ PathText E path)"
    using Cons.prems(3) same(1) by auto
  from Cons.IH [OF w1(2) same(2) this] obtain w' where "insert_found xs w1 = (Inr (), w')" "wallet_ok E w'" "uw_url w' = uw_url w1"
    "\<forall>a. wallet_Contains w1 a \<or> a \<in> (fst \<circ> fst) ` set xs \<longrightarrow> wallet_Contains w' a" by blast
  with p w1 same show ?case by auto
qed simp

lemma insert_found_closed:
  assumes "wallet_ok E w" and "\<not> uw_device w"
  shows "fst (insert_found xs w) = (if xs = [] then Inr () else Inl (Panic ''assignment to entry in nil map''))"
proof (cases xs)
  case (Cons x ys)
  obtain r w' where "pin_account (fst x) (snd x) w = (r, w')" by fastforce
  with Cons pin_account_closed [OF assms, of "fst x" "snd x"] show ?thesis by simp
qed simp

lemma wallet_ok_next [simp]:
  "wallet_ok E (w\<lparr>uw_deriveNextAddrs := as\<rparr>) = wallet_ok E w"
  "wallet_ok E (w\<lparr>uw_deriveNextPaths := ps\<rparr>) = wallet_ok E w"
  "wallet_ok E (w\<lparr>uw_deriveChain := chain\<rparr>) = wallet_ok E w"
  "wallet_ok E (w\<lparr>uw_driver := d\<rparr>) = wallet_ok E w"
  by (simp_all add: wallet_ok_def account_at_def cong: option.case_cong)

text \<open>Inserting what was found, into an open wallet and into one that was closed meanwhile.\<close>

lemma discover_insert_result:
  assumes "wallet_ok E w" and "found_ok E (uw_url w) d"
  shows "if dc_found d \<noteq> [] \<and> \<not> uw_device w then fst (discover_insert w d) = Inl (Panic ''assignment to entry in nil map'')
    else \<exists>w'. discover_insert w d = (Inr (), w') \<and> wallet_ok E w' \<and> uw_url w' = uw_url w \<and>
      (\<forall>(account, path) \<in> set (dc_found d). wallet_Contains w' (fst account))"
proof (cases "uw_device w")
  case True
  have "\<forall>(account, path) \<in> set (dc_found d). snd account = (fst (uw_url w), snd (uw_url w) @ ''/'' @ PathText E path)"
    using assms(2) by (simp add: found_ok_def)
  from insert_found_open [OF assms(1) True this] obtain w' where
    w': "insert_found (dc_found d) w = (Inr (), w')" "wallet_ok E w'" "uw_url w' = uw_url w"
      "\<forall>a. a \<in> (fst \<circ> fst) ` set (dc_found d) \<longrightarrow> wallet_Contains w' a" by blast
  let ?w = "w'\<lparr>uw_deriveNextAddrs := dc_nextAddrs d, uw_deriveNextPaths := dc_nextPaths d\<rparr>"
  have "wallet_Contains ?w a = wallet_Contains w' a" for a by (simp add: wallet_Contains_def)
  then have "\<forall>(account, path) \<in> set (dc_found d). wallet_Contains ?w (fst account)" using w'(4) by fastforce
  then have "\<exists>w'. discover_insert w d = (Inr (), w') \<and> wallet_ok E w' \<and> uw_url w' = uw_url w \<and>
      (\<forall>(account, path) \<in> set (dc_found d). wallet_Contains w' (fst account))"
    using w'(1-3) by (intro exI [of _ ?w]) (simp add: discover_insert_def)
  then show ?thesis using True by simp
next
  case False
  show ?thesis
  proof (cases "dc_found d")
    case Nil
    with False assms(1) show ?thesis by (simp add: discover_insert_def)
  next
    case (Cons x xs)
    obtain r w' where "insert_found (dc_found d) w = (r, w')" by fastforce
    with Cons insert_found_closed [OF assms(1) False, of "dc_found d"] False show ?thesis
      by (simp add: discover_insert_def)
  qed
qed

text \<open>What is found carries the URL of its path.\<close>

abbreviation urls_ok :: "'t usb_env \<Rightarrow> usb_wallet \<Rightarrow> (account \<times> u32 list) list \<Rightarrow> bool" where
  "urls_ok E w found \<equiv> (\<forall>(account, path) \<in> set found. snd account = snd (account_at E w path 0))"

definition keeps_urls ::
  "'t usb_env \<Rightarrow> usb_wallet \<Rightarrow> (account \<times> u32 list) list \<Rightarrow>
     ((account \<times> u32 list) list \<times> address \<times> u32 list \<times> mcms_error option) res \<times> 't \<Rightarrow> bool" where
  "keeps_urls E w found y \<longleftrightarrow>
     (case fst y of Inr (found', _) \<Rightarrow> urls_ok E w found \<longrightarrow> urls_ok E w found' | Inl _ \<Rightarrow> True)"

lemma urls_ok_snoc: "urls_ok E w (found @ [(account_at E w path a, path)]) = urls_ok E w found"
  by (simp add: account_at_def)

lemma keeps_urls_simps:
  "keeps_urls E w found (Inr (found, x), t)" "keeps_urls E w found (Inl e, t)"
  "keeps_urls E w found (Inr (found @ [(account_at E w path a, path)], x), t)"
  "keeps_urls E w (found @ [(account_at E w path a, path)]) y = keeps_urls E w found y"
  by (simp_all only: keeps_urls_def urls_ok_snoc fst_conv sum.case prod.case simp_thms)

lemma discover_base_found:
  assumes "discover_base E w chain is_last addr path found t = Some y"
  shows "keeps_urls E w found y"
proof (rule discover_base.raw_induct [where P = "\<lambda>E w chain is_last addr path found t y. keeps_urls E w found y", OF _ assms])
  fix discover E w chain is_last addr path found t y
  assume IH: "\<And>E w chain is_last addr path found t y. discover E w chain is_last addr path found t = Some y \<Longrightarrow> keeps_urls E w found y"
    and step: "(case if addr = 0 then ledgerDerive (hid_Device E (uw_info w)) path t else Some (Inr addr, t) of
      None \<Rightarrow> None
    | Some (Inl err, t1) \<Rightarrow> Some (Inr (found, 0, path, Some err), t1)
    | Some (Inr a, t1) \<Rightarrow>
        (case chain_BalanceAt E chain a t1 of
           (Inl err, t2) \<Rightarrow> Some (Inr (found, a, path, Some err), t2)
         | (Inr balance, t2) \<Rightarrow>
             (case chain_NonceAt E chain a t2 of
                (Inl err, t3) \<Rightarrow> Some (Inr (found, a, path, Some err), t3)
              | (Inr nonce, t3) \<Rightarrow>
                  if balance = 0 \<and> nonce = 0 then
                    Some (Inr (if is_last then found @ [(account_at E w path a, path)] else found, a, path, None), t3)
                  else if path = [] then Some (Inl (Panic ''index out of range''), t3)
                  else discover E w chain is_last 0 (butlast path @ [last path + 1]) (found @ [(account_at E w path a, path)]) t3))) = Some y"
  have IH': "discover E w chain is_last addr' path' (found @ [(account_at E w path a, path)]) t' = Some y \<Longrightarrow> keeps_urls E w found y"
    for addr' path' a t' using IH [of E w chain is_last addr' path' "found @ [(account_at E w path a, path)]" t' y] by (simp only: keeps_urls_simps)
  show "keeps_urls E w found y"
    using step IH' by (auto simp: keeps_urls_simps split: option.splits prod.splits sum.splits if_splits)
qed

lemma discover_bases_found:
  "discover_bases E w chain bases found err t = Some (Inr (found', as, ps, err'), t') \<Longrightarrow> urls_ok E w found \<Longrightarrow> urls_ok E w found'"
proof (induction bases arbitrary: found err t as ps)
  case (Cons base bases)
  obtain addr path where base: "base = (addr, path)" by fastforce
  from Cons.prems(1) obtain f1 a p e1 t1 as' ps' where
    b: "discover_base E w chain (bases = []) addr path found t = Some (Inr (f1, a, p, e1), t1)" and
    r: "discover_bases E w chain bases f1 e1 t1 = Some (Inr (found', as', ps', err'), t')"
    by (auto simp: base bindD_def split: option.splits sum.splits prod.splits)
  from discover_base_found [OF b] Cons.prems(2) have "urls_ok E w f1" by (simp add: keeps_urls_def)
  with Cons.IH [OF r] show ?case by blast
qed simp

lemma discover_ask_ok:
  assumes "wallet_ok E w" and "discover_ask E w t = Some (Inr r, w', t')"
  shows "wallet_ok E w' \<and> uw_url w' = uw_url w \<and> (\<forall>d. r = Some d \<longrightarrow> found_ok E (uw_url w) d)"
proof (cases r)
  case None
  with assms show ?thesis by (auto simp: discover_ask_def split: if_splits option.splits sum.splits prod.splits)
next
  case (Some d)
  with assms(2) obtain chain found as ps err where
    f: "discover_bases E w chain (zip (uw_deriveNextAddrs w) (uw_deriveNextPaths w)) [] None t = Some (Inr (found, as, ps, err), t')"
    and d: "dc_found d = found" and w': "w' = w\<lparr>uw_deriveNextPaths := ps\<rparr>"
    by (auto simp: discover_ask_def split: if_splits option.splits sum.splits prod.splits)
  from discover_bases_found [OF f] have "urls_ok E w found" by simp
  then have "found_ok E (uw_url w) d" by (auto simp: found_ok_def d account_at_def)
  with Some w' assms(1) show ?thesis by simp
qed

lemma reached_ok: "wallet_reached E w ds cs n t \<Longrightarrow> wallet_ok E w \<and> (\<forall>d \<in> set cs. found_ok E (uw_url w) d)"
proof (induction rule: wallet_reached.induct)
  case (opened w ds cs n t r w' t')
  then have "wallet_ok E w' \<and> uw_url w' = uw_url w"
    by (auto simp: wallet_Open_def wallet_ok_def account_at_def split: if_splits prod.splits sum.splits option.splits)
  with opened show ?case by simp
next
  case (closed w ds cs n t w' t')
  then show ?case using wallet_ok_close [of E w t] wallet_close_url [of E w t w' t'] by simp
next
  case (torn w ds cs n t w' t')
  then show ?case using wallet_ok_close [of E w t] wallet_close_url [of E w t w' t'] by simp
next
  case (probed w ds cs n t failed w' t')
  then show ?case by (auto simp: heartbeat_probe_def split: if_splits prod.splits option.splits)
next
  case (pinned w ds cs n t path pin a r w')
  then show ?case using derive_pin_ok [of E w path pin a r w'] by simp
next
  case (discovering w ds cs n t r w' t')
  then show ?case using discover_ask_ok [of E w t r w' t'] by (auto split: option.splits)
next
  case (discovered w ds cs n t d w')
  with discover_insert_result [of E w d] have "wallet_ok E w'" "uw_url w' = uw_url w" by (auto split: if_splits)
  with discovered show ?case by (auto dest: notin_set_remove1)
next
  case (told w ds cs n t bases chain)
  then show ?case by (simp add: wallet_SelfDerive_def [of w])
qed (simp_all add: wallet_ok_def new_wallet_def)

section \<open>The hub\<close>

record hub =
  hb_refreshed :: "int option"
  hb_wallets :: "usb_wallet list"
  hb_commsPend :: int
  hb_enumFails :: nat

datatype wallet_event = WalletArrived usb_wallet | WalletDropped usb_wallet

definition LedgerScheme :: string where "LedgerScheme = ''ledger''"

definition ledger_product_ids :: "16 word list" where
  "ledger_product_ids =
     [0x0000, 0x0001, 0x0004, 0x0005, 0x0006, 0x0007, 0x0000, 0x1000, 0x4000, 0x5000, 0x6000, 0x7000]"

definition is_ledger :: "hid_info \<Rightarrow> bool" where
  "is_ledger info \<longleftrightarrow>
     list_ex (\<lambda>pid. (di_ProductID info = pid \<or> di_ProductID info AND 0xff00 = pid) \<and>
                    (di_UsagePage info = 0xffa0 \<or> di_Interface info = 0)) ledger_product_ids"

definition info_url :: "hid_info \<Rightarrow> url" where
  "info_url info = (LedgerScheme, di_Path info)"

text \<open>The loop that drops wallets in front of a device; a wallet without a failure ends it.\<close>

fun drop_stale :: "(url \<Rightarrow> url \<Rightarrow> int) \<Rightarrow> url \<Rightarrow> usb_wallet list \<Rightarrow> wallet_event list \<times> usb_wallet list" where
  "drop_stale cmp url [] = ([], [])"
| "drop_stale cmp url (w # ws) =
     (if 0 \<le> cmp (uw_url w) url \<or> snd (wallet_Status w) = None then ([], w # ws)
      else case drop_stale cmp url ws of (events, ws') \<Rightarrow> (WalletDropped w # events, ws'))"

fun merge_wallets :: "(url \<Rightarrow> url \<Rightarrow> int) \<Rightarrow> hid_info list \<Rightarrow> usb_wallet list \<Rightarrow> usb_wallet list \<times> wallet_event list" where
  "merge_wallets cmp [] ws = ([], map WalletDropped ws)"
| "merge_wallets cmp (info # infos) ws =
     (let url = info_url info; (dropped, ws') = drop_stale cmp url ws;
          (here, arrived, remaining) =
            (case ws' of
               [] \<Rightarrow> ([new_wallet url info], [WalletArrived (new_wallet url info)], [])
             | w # ws'' \<Rightarrow>
                 if 0 < cmp (uw_url w) url then ([new_wallet url info], [WalletArrived (new_wallet url info)], ws')
                 else if cmp (uw_url w) url = 0 then ([w], [], ws'')
                 else ([], [], ws'));
          (wallets, events) = merge_wallets cmp infos remaining
      in (here @ wallets, dropped @ arrived @ events))"

text \<open>The hub never sends more often than every 500 ms, gives up after three failures and waits for confirmations on Linux.\<close>

definition refreshWallets :: "'t usb_env \<Rightarrow> hub \<Rightarrow> 't \<Rightarrow> wallet_event list \<times> hub \<times> 't" where
  "refreshWallets E hub t =
     (if (case hb_refreshed hub of None \<Rightarrow> False | Some before \<Rightarrow> usb_Now E t - before < 500000000)
         \<or> 2 < hb_enumFails hub \<or> on_linux E \<and> 0 < hb_commsPend hub
      then ([], hub, t)
      else case hid_Enumerate E t of
             (Inl _, t') \<Rightarrow> ([], hub\<lparr>hb_enumFails := Suc (hb_enumFails hub)\<rparr>, t')
           | (Inr infos, t') \<Rightarrow>
               (case merge_wallets (UrlCmp E) (filter is_ledger infos) (hb_wallets hub) of
                  (wallets, events) \<Rightarrow>
                    (events, hub\<lparr>hb_enumFails := 0, hb_refreshed := Some (usb_Now E t'), hb_wallets := wallets\<rparr>, t')))"

definition NewLedgerHub :: "'t usb_env \<Rightarrow> 't \<Rightarrow> hub res \<times> 't" where
  "NewLedgerHub E t =
     (if \<not> hid_Supported E then (Inl (Errorf ''unsupported platform''), t)
      else case refreshWallets E \<lparr>hb_refreshed = None, hb_wallets = [], hb_commsPend = 0, hb_enumFails = 0\<rparr> t of
             (_, hub, t') \<Rightarrow> (Inr hub, t'))"

definition Wallets :: "'t usb_env \<Rightarrow> hub \<Rightarrow> 't \<Rightarrow> usb_wallet list \<times> hub \<times> 't" where
  "Wallets E hub t = (case refreshWallets E hub t of (_, hub', t') \<Rightarrow> (hb_wallets hub', hub', t'))"

lemma merge_new: "fst (merge_wallets cmp infos []) = map (\<lambda>i. new_wallet (info_url i) i) infos"
  by (induction infos) (auto simp: Let_def split: prod.splits)

text \<open>
  A wallet whose device is gone but which reports no failure, and which comes before a new device in the order
  of the URLs, hides the new device: it is neither dropped in time nor passed over.
\<close>

theorem stale_wallet_hides_device:
  assumes "cmp (uw_url w) (info_url info) < 0" and "ld_failure (uw_driver w) = None"
  shows "merge_wallets cmp [info] [w] = ([], [WalletDropped w])"
  using assms by (auto simp: wallet_Status_def driver_Status_def Let_def split: prod.splits)

section \<open>The Ledger signer\<close>

definition setupLedgerAccount :: "'t usb_env \<Rightarrow> u32 list \<Rightarrow> 't \<Rightarrow> ((usb_wallet \<times> account) res \<times> 't) option" where
  "setupLedgerAccount E derivationPath t =
     (case NewLedgerHub E t of
        (Inl err, t1) \<Rightarrow> Some (Inl (Wrapf ''failed to open ledger hub: %w'' err), t1)
      | (Inr hub, t1) \<Rightarrow>
          (case Wallets E hub t1 of
             ([], _, t2) \<Rightarrow> Some (Inl (Errorf ''no wallets found''), t2)
           | (w # _, _, t2) \<Rightarrow>
               (case wallet_Open E w t2 of
                  None \<Rightarrow> None
                | Some (Inl err, _, t3) \<Rightarrow> Some (Inl (Wrapf ''failed to open wallet: %w'' err), t3)
                | Some (Inr _, w', t3) \<Rightarrow>
                    (case wallet_Derive E w' derivationPath True t3 of
                       None \<Rightarrow> None
                     | Some (Inl err, w'', t4) \<Rightarrow>
                         Some (Inl (Wrapf ''is your ledger ethereum app open? Failed to derive account: %w derivation path %v'' err),
                               snd (wallet_close E w'' t4))
                     | Some (Inr account, w'', t4) \<Rightarrow> Some (Inr (w'', account), t4)))))"

text \<open>The wallet is closed when the method returns, with a signature or an error.\<close>

definition LedgerSigner_Sign :: "'t usb_env \<Rightarrow> u32 list \<Rightarrow> byte list \<Rightarrow> (byte list, 't) device_call" where
  "LedgerSigner_Sign E derivationPath payload t =
     (case setupLedgerAccount E derivationPath t of
        None \<Rightarrow> None
      | Some (Inl err, t') \<Rightarrow> Some (Inl err, t')
      | Some (Inr (w, account), t') \<Rightarrow>
          (case SignText E w account payload t' of
             None \<Rightarrow> None
           | Some (r, t'') \<Rightarrow> Some (r, snd (wallet_close E w t''))))"

definition LedgerSigner_GetAddress :: "'t usb_env \<Rightarrow> u32 list \<Rightarrow> (address, 't) device_call" where
  "LedgerSigner_GetAddress E derivationPath t =
     (case setupLedgerAccount E derivationPath t of
        None \<Rightarrow> None
      | Some (Inl err, t') \<Rightarrow> Some (Inl err, t')
      | Some (Inr (w, account), t') \<Rightarrow> Some (Inr (fst account), snd (wallet_close E w t')))"

text \<open>
  A Ledger with the application of \<open>LedgerApp\<close> is attached: it is listed, opens, and is the device under its
  information. What it has been sent of a message before does not matter.
\<close>

definition ledger_attached :: "eth_keys \<Rightarrow> hid_info \<Rightarrow> byte list device_state usb_env \<Rightarrow> bool" where
  "ledger_attached K info E \<longleftrightarrow>
     keys_documented K \<and> is_ledger info \<and> hid_Supported E \<and> length (BasePath E) \<le> max_path \<and>
     UrlCmp E (info_url info) (info_url info) = 0 \<and> hid_Device E info = app_device (eth_app K) \<and>
     (\<forall>t. hid_Enumerate E t = (Inr [info], t) \<and> hid_Open E info t = (Inr (), t) \<and> hid_Close E info t = t)"

lemma hub_finds:
  assumes "ledger_attached K info E"
  shows "\<exists>hub hub'. NewLedgerHub E t = (Inr hub, t) \<and> Wallets E hub t = ([new_wallet (info_url info) info], hub', t)"
proof -
  let ?w = "new_wallet (info_url info) info"
  let ?hub = "\<lparr>hb_refreshed = Some (usb_Now E t), hb_wallets = [?w], hb_commsPend = 0, hb_enumFails = 0\<rparr>"
  have "NewLedgerHub E t = (Inr ?hub, t)"
    using assms by (simp add: NewLedgerHub_def refreshWallets_def ledger_attached_def Let_def)
  moreover have "Wallets E ?hub t = ([?w], ?hub, t)"
    using assms by (simp add: Wallets_def refreshWallets_def)
  ultimately show ?thesis by blast
qed

definition opened_wallet :: "eth_keys \<Rightarrow> hid_info \<Rightarrow> usb_wallet" where
  "opened_wallet K info =
     (new_wallet (info_url info) info)
       \<lparr>uw_device := True, uw_driver := newLedgerDriver\<lparr>ld_version := ek_version K\<rparr>, uw_paths := Some []\<rparr>"

definition pinned_account :: "'t usb_env \<Rightarrow> eth_keys \<Rightarrow> hid_info \<Rightarrow> u32 list \<Rightarrow> account" where
  "pinned_account E K info path = (ek_address K path, (LedgerScheme, di_Path info @ ''/'' @ PathText E path))"

definition pinned_wallet :: "'t usb_env \<Rightarrow> eth_keys \<Rightarrow> hid_info \<Rightarrow> u32 list \<Rightarrow> usb_wallet" where
  "pinned_wallet E K info path =
     (opened_wallet K info)\<lparr>uw_accounts := [pinned_account E K info path], uw_paths := Some [(ek_address K path, path)]\<rparr>"

lemma attached_opens:
  assumes "ledger_attached K info E" and "at_least (ek_version K) (1, 0, 2)"
  shows "wallet_Open E (new_wallet (info_url info) info) (idle p) = Some (Inr (), opened_wallet K info, idle p)"
  using assms address_derived [of K "BasePath E" p] version_read [of K p]
  by (simp add: wallet_Open_def ledger_attached_def opened_wallet_def new_wallet_def driver_Open_def newLedgerDriver_def Let_def)

lemma attached_derives:
  assumes "ledger_attached K info E" and "length path \<le> max_path"
  shows "wallet_Derive E (opened_wallet K info) path True (idle p) =
           Some (Inr (pinned_account E K info path), pinned_wallet E K info path, idle p)"
  using assms address_derived [of K path p]
  by (simp add: wallet_Derive_def derive_ask_def derive_pin_def pin_account_def account_at_def ledger_attached_def opened_wallet_def
      pinned_wallet_def pinned_account_def new_wallet_def wallet_Contains_def Let_def info_url_def)

lemma attached_setup:
  assumes "ledger_attached K info E" and "length path \<le> max_path" and "at_least (ek_version K) (1, 0, 2)"
  obtains w account where "setupLedgerAccount E path (idle p) = Some (Inr (w, account), idle p)"
    and "uw_device w" and "uw_info w = info" and "uw_driver w = newLedgerDriver\<lparr>ld_version := ek_version K\<rparr>"
    and "known_path w account = Inr path" and "fst account = ek_address K path"
proof -
  let ?w = "new_wallet (info_url info) info"
  obtain hub hub' where hub: "NewLedgerHub E (idle p) = (Inr hub, idle p)" "Wallets E hub (idle p) = ([?w], hub', idle p)"
    using hub_finds [OF assms(1)] by blast
  have "setupLedgerAccount E path (idle p) = Some (Inr (pinned_wallet E K info path, pinned_account E K info path), idle p)"
    by (simp add: setupLedgerAccount_def hub attached_opens [OF assms(1,3)] attached_derives [OF assms(1,2)])
  then show ?thesis
    by (rule that)
      (simp_all add: known_path_def pinned_wallet_def opened_wallet_def new_wallet_def pinned_account_def)
qed

section \<open>Samples\<close>

definition sample_keys :: eth_keys where
  "sample_keys =
     \<lparr>ek_version = (1, 9, 0), ek_public = (\<lambda>path. [4]),
      ek_address_text = (\<lambda>path. hex_encode (be_bytes 20 (word_of_nat (length path) :: address))),
      ek_address = (\<lambda>path. word_of_nat (length path)),
      ek_sign = (\<lambda>path message. 27 # replicate 32 (word_of_nat (length path)) @ replicate 32 (word_of_nat (length message))),
      ek_sign_typed = (\<lambda>path message. 28 # replicate 64 (word_of_nat (length message)))\<rparr>"

definition sample_ledger :: hid_info where
  "sample_ledger = \<lparr>di_Path = ''/dev/hidraw0'', di_ProductID = 0x5011, di_UsagePage = 0xffa0, di_Interface = 0\<rparr>"

definition sample_usb_env :: "byte list device_state usb_env" where
  "sample_usb_env =
     \<lparr>hid_Supported = True, on_linux = True, usb_Now = (\<lambda>t. 0), hid_Enumerate = (\<lambda>t. (Inr [sample_ledger], t)),
      hid_Open = (\<lambda>info t. (Inr (), t)), hid_Close = (\<lambda>info t. t), hid_Device = (\<lambda>info. app_device (eth_app sample_keys)),
      UrlCmp = (\<lambda>u v. if u = v then 0 else 1), BasePath = [0x8000002c, 0x8000003c, 0x80000000, 0, 0],
      PathText = (\<lambda>path. concat (map (\<lambda>n. ''/'' @ nat_text (unat n)) path)), TextHash = (\<lambda>t. t),
      MimetypeTypedData = ''data/typed'', chain_BalanceAt = (\<lambda>chain a t. (Inr 0, t)), chain_NonceAt = (\<lambda>chain a t. (Inr 0, t))\<rparr>"

lemma sample_keys_documented: "keys_documented sample_keys"
  by (simp add: keys_documented_def sample_keys_def)

lemma sample_ledger_attached: "ledger_attached sample_keys sample_ledger sample_usb_env"
  by (simp add: max_path_def ledger_attached_def sample_keys_documented sample_usb_env_def is_ledger_def ledger_product_ids_def sample_ledger_def)

section \<open>The life of a wallet, and a signature\<close>

text \<open>
  The rounds of self-derivation do not look at the device again. If the health check fails and closes the wallet
  between the two halves of a round that has found an account, the second half writes into a nil map.
\<close>

theorem self_derive_panics:
  assumes "wallet_ok E w" and "discover_ask E w t = Some (Inr (Some d), w1, t1)" and "dc_found d \<noteq> []"
    and "heartbeat_probe E w1 t2 = Some (True, w2, t3)" and "wallet_close E w2 t4 = (w3, t5)"
  shows "fst (discover_insert w3 d) = Inl (Panic ''assignment to entry in nil map'')"
proof -
  from discover_ask_ok [OF assms(1,2)] have w1: "wallet_ok E w1" "uw_url w1 = uw_url w" "found_ok E (uw_url w) d" by simp_all
  from assms(4) w1 have w2: "wallet_ok E w2" "uw_url w2 = uw_url w" by (auto simp: heartbeat_probe_def split: if_splits prod.splits option.splits)
  have "wallet_ok E w3" "uw_url w3 = uw_url w" "\<not> uw_device w3"
    using wallet_ok_close [OF w2(1), of t4] wallet_close_url [OF assms(5)] assms(5) w2(2) by (auto simp: wallet_close_def split: if_splits)
  with discover_insert_result [of E w3 d] w1(3) assms(3) show ?thesis by simp
qed

text \<open>C40: In every state that a USB wallet reaches, however its operations, the halves of its derivations, its health
  checks and the rounds of its self-derivation follow one another, the wallet is open exactly if it has a map of
  paths, and its accounts are the entries of that map, each once and with the URL of its path. So
  pinning a derived address, whenever it comes, succeeds on an open wallet and is refused on one that was closed
  meanwhile, and never writes into a nil map; what a round of self-derivation found is inserted into an
  open wallet, but panics if the wallet was closed meanwhile; and what the wallet signs it signs with the path
  under which it derived the account.\<close>

theorem wallet_life:
  assumes "wallet_reached E w ds cs n t"
  shows "wallet_ok E w \<and>
    (\<forall>path pin a. case derive_pin E w path pin a of (r, w') \<Rightarrow>
       if pin \<and> \<not> uw_device w then r = Inl ErrWalletClosed \<and> w' = w
       else r = Inr (account_at E w path a) \<and> wallet_ok E w' \<and> (if pin then wallet_Contains w' a else w' = w)) \<and>
    (\<forall>d \<in> set cs. case discover_insert w d of (r, w') \<Rightarrow>
       if dc_found d \<noteq> [] \<and> \<not> uw_device w then r = Inl (Panic ''assignment to entry in nil map'')
       else r = Inr () \<and> wallet_ok E w' \<and> (\<forall>(account, path) \<in> set (dc_found d). wallet_Contains w' (fst account))) \<and>
    (\<forall>account path. known_path w account = Inr path \<longrightarrow> account_at E w path (fst account) \<in> set (uw_accounts w))"
proof (intro conjI allI ballI impI)
  show ok: "wallet_ok E w" using reached_ok [OF assms] by blast
  show "case derive_pin E w path pin a of (r, w') \<Rightarrow>
       if pin \<and> \<not> uw_device w then r = Inl ErrWalletClosed \<and> w' = w
       else r = Inr (account_at E w path a) \<and> wallet_ok E w' \<and> (if pin then wallet_Contains w' a else w' = w)" for path pin a
  proof (cases "uw_device w")
    case True
    from derive_pin_open [OF ok this, of path pin a] obtain w' where "derive_pin E w path pin a = (Inr (account_at E w path a), w')"
      "wallet_ok E w'" "pin \<Longrightarrow> wallet_Contains w' a" "\<not> pin \<Longrightarrow> w' = w" by blast
    with True show ?thesis by simp
  qed (use ok in \<open>simp add: derive_pin_closed\<close>)
  show "case discover_insert w d of (r, w') \<Rightarrow>
       if dc_found d \<noteq> [] \<and> \<not> uw_device w then r = Inl (Panic ''assignment to entry in nil map'')
       else r = Inr () \<and> wallet_ok E w' \<and> (\<forall>(account, path) \<in> set (dc_found d). wallet_Contains w' (fst account))"
    if "d \<in> set cs" for d
  proof -
    from that reached_ok [OF assms] have "found_ok E (uw_url w) d" by blast
    from discover_insert_result [OF ok this] show ?thesis by (auto split: if_splits prod.splits)
  qed
  fix account path
  assume "known_path w account = Inr path"
  then obtain paths where "uw_paths w = Some paths" "gm_get paths (fst account) = Some path"
    by (auto simp: known_path_def split: if_splits option.splits)
  with ok show "account_at E w path (fst account) \<in> set (uw_accounts w)"
    by (auto simp: wallet_ok_def dest!: map_of_SomeD intro!: image_eqI)
qed

theorem wallet_life_witness:
  "let w = pinned_wallet sample_usb_env sample_keys sample_ledger [44, 60]; gone = fst (wallet_close sample_usb_env w (idle [])) in
   known_path w (2, (''ledger'', [])) = Inr [44, 60] \<and>
   account_at sample_usb_env w [44, 60] 2 \<in> set (uw_accounts w) \<and>
   (\<exists>ds t. wallet_reached sample_usb_env gone ds [] 0 t \<and> ([44], True, 1) \<in> set ds) \<and>
   derive_pin sample_usb_env gone [44] True 1 = (Inl ErrWalletClosed, gone)"
proof -
  let ?w = "pinned_wallet sample_usb_env sample_keys sample_ledger [44, 60]"
  let ?o = "opened_wallet sample_keys sample_ledger" and ?gone = "fst (wallet_close sample_usb_env ?w (idle []))"
  have old: "at_least (ek_version sample_keys) (1, 0, 2)" by (simp add: sample_keys_def at_least_def)
  have dev: "hid_Device sample_usb_env (uw_info w) = app_device (eth_app sample_keys)" for w by (simp add: sample_usb_env_def)
  have asks: "derive_ask sample_usb_env ?o p (idle []) = Some (Inr (word_of_nat (length p)), idle [])" if "length p \<le> 10" for p
    using that address_derived [OF sample_keys_documented, of p "[]"]
    by (simp add: derive_ask_def dev max_path_def) (simp add: opened_wallet_def sample_keys_def)
  have pins: "derive_pin sample_usb_env ?o [44, 60] True 2 = (Inr (pinned_account sample_usb_env sample_keys sample_ledger [44, 60]), ?w)"
    using attached_derives [OF sample_ledger_attached, of "[44, 60]" "[]"] asks [of "[44, 60]"]
    by (simp add: wallet_Derive_def max_path_def split: prod.splits)
  note o = wallet_reached.opened [OF wallet_reached.new attached_opens [OF sample_ledger_attached old]]
  from wallet_reached.asked [OF wallet_reached.asked [OF o asks [of "[44]"], of True] asks [of "[44, 60]"], of True]
  have "wallet_reached sample_usb_env ?o [([44], True, 1), ([44, 60], True, 2)] [] 0 (idle [])" by simp
  from wallet_reached.pinned [OF this _ pins] have w: "wallet_reached sample_usb_env ?w [([44], True, 1)] [] 0 (idle [])" by simp
  from wallet_reached.closed [OF this, of ?gone "snd (wallet_close sample_usb_env ?w (idle []))"] have
    gone: "wallet_reached sample_usb_env ?gone [([44], True, 1)] [] 0 (snd (wallet_close sample_usb_env ?w (idle [])))" by simp
  have known: "known_path ?w (2, (''ledger'', [])) = Inr [44, 60]"
    by (simp add: known_path_def pinned_wallet_def opened_wallet_def new_wallet_def sample_keys_def)
  have "\<not> uw_device ?gone" by (simp add: wallet_close_def)
  moreover note wallet_life [OF gone, THEN conjunct2, THEN conjunct1, THEN spec [of _ "[44]"], THEN spec [of _ True], THEN spec [of _ 1]]
  ultimately have "derive_pin sample_usb_env ?gone [44] True 1 = (Inl ErrWalletClosed, ?gone)"
    by (cases "derive_pin sample_usb_env ?gone [44] True 1") simp
  moreover from wallet_life [OF w] known have "account_at sample_usb_env ?w [44, 60] 2 \<in> set (uw_accounts ?w)" by fastforce
  ultimately show ?thesis using known gone by (auto simp: Let_def)
qed

text \<open>C39: With a Ledger attached whose application has version 1.2.0 or later, the Ledger signer returns the application's
  signature of exactly the payload, under exactly the derivation path of at most ten components, with the recovery byte
  at the end, and its address is the one of that path; the message arrives whole although it is cut into requests
  and frames.\<close>

theorem LedgerSigner_signs:
  assumes "ledger_attached K info E" and "at_least (ek_version K) (1, 2, 0)" and "length path \<le> max_path"
    and "length (message_payload path payload) \<le> 60000"
  shows "LedgerSigner_Sign E path payload (idle p) =
           Some (Inr (tl (ek_sign K path payload) @ [hd (ek_sign K path payload)]), idle []) \<and>
         LedgerSigner_GetAddress E path (idle p) = Some (Inr (ek_address K path), idle p)"
proof -
  have told: "at_least (ek_version K) (1, 0, 2)" using assms(2) by (cases "ek_version K") (auto simp: at_least_def word_less_nat_alt word_le_nat_alt)
  obtain w account where ready: "setupLedgerAccount E path (idle p) = Some (Inr (w, account), idle p)"
    and w: "uw_device w" "uw_info w = info" "uw_driver w = newLedgerDriver\<lparr>ld_version := ek_version K\<rparr>"
      "known_path w account = Inr path" "fst account = ek_address K path"
    using attached_setup [OF assms(1,3) told] by metis
  have closes: "snd (wallet_close E w t) = t" for t
    using assms(1) w by (simp add: wallet_close_def ledger_attached_def)
  obtain major minor patch where v: "ek_version K = (major, minor, patch)" by (cases "ek_version K")
  with assms(2) have "1 \<le> major" by (auto simp: at_least_def)
  with personal_message_version [of "uw_driver w" major minor patch] w(3) v have
    "SignPersonalMessage D (uw_driver w) path payload = ledgerSignPersonalMessage D path payload" for D :: "byte list device_state usb_device"
    by simp
  then have "SignText E w account payload (idle p) =
      Some (Inr (tl (ek_sign K path payload) @ [hd (ek_sign K path payload)]), idle [])"
    using personal_message_signed [OF _ assms(2,3,4), of p] assms(1) w
    by (simp add: SignText_def signMessage_def ledger_attached_def)
  with ready closes w show ?thesis
    by (simp add: LedgerSigner_Sign_def LedgerSigner_GetAddress_def)
qed

theorem LedgerSigner_signs_witness:
  "LedgerSigner_Sign sample_usb_env [0x8000002c, 0x8000003c] (replicate 300 7) (idle []) =
     Some (Inr (replicate 32 2 @ replicate 32 44 @ [27]), idle [])"
proof -
  have "at_least (ek_version sample_keys) (1, 2, 0)" by (simp add: at_least_def sample_keys_def)
  moreover have "length (message_payload [0x8000002c, 0x8000003c] (replicate 300 7)) \<le> 60000"
    by (simp add: message_payload_def)
  moreover have "tl (ek_sign sample_keys [0x8000002c, 0x8000003c] (replicate 300 7)) @
      [hd (ek_sign sample_keys [0x8000002c, 0x8000003c] (replicate 300 7))] = replicate 32 2 @ replicate 32 44 @ [27]"
    by (simp add: sample_keys_def)
  ultimately show ?thesis
    using LedgerSigner_signs [OF sample_ledger_attached, of "[0x8000002c, 0x8000003c]" "replicate 300 7" "[]"]
    by (simp add: max_path_def)
qed

text \<open>A health check between two operations changes nothing, whatever the version.\<close>

theorem heartbeat_harmless:
  assumes "ledger_attached K info E" and "uw_info w = info"
  shows "heartbeat_step E w (idle p) = Some (w, idle p)"
  using assms version_read [of K p] version_refused [of K p]
  by (cases "at_least (ek_version K) (1, 0, 2)") (simp_all add: heartbeat_step_def heartbeat_probe_def driver_Heartbeat_def ledger_attached_def
      errLedgerInvalidVersionReply_def)

end
