(* ===== verification/Decoders.thy ===== *)
theory Decoders
  imports Aptos Sui Canton Ton
begin

text \<open>
  The decoders of the families: \<open>decoder.go\<close> and \<open>decoded_operation.go\<close> of \<open>sdk/evm\<close>, \<open>sdk/aptos\<close>, \<open>sdk/sui\<close>,
  \<open>sdk/ton\<close> and \<open>sdk/canton\<close>, and \<open>sdk/canton/registry.go\<close>. A decoder finds the function that a transaction
  calls and reads its arguments; what it finds is shown by name and value. The packages that read arguments
  are parameters, over values of any type \<open>'v\<close>.
\<close>

section \<open>Arguments by name\<close>

text \<open>
  \<open>for i, key := range keys \{ inputMap[key] = args[i] \}\<close>, before the map is printed as JSON: a key that occurs
  again replaces the earlier value, and a missing argument is a panic.
\<close>

fun input_map :: "(string, 'v) gomap \<Rightarrow> string list \<Rightarrow> 'v list \<Rightarrow> (string, 'v) gomap res" where
  "input_map m [] args = Inr m"
| "input_map m (key # keys) [] = Inl (Panic ''index out of range'')"
| "input_map m (key # keys) (arg # args) = input_map (gm_put key arg m) keys args"

definition decoded_String :: "((string, 'v) gomap \<Rightarrow> string res) \<Rightarrow> string \<Rightarrow> string list \<Rightarrow> 'v list \<Rightarrow> (string \<times> string) res" where
  "decoded_String MarshalIndent functionName inputKeys inputArgs =
     bindE (input_map [] inputKeys inputArgs) (\<lambda>inputMap.
     bindE (MarshalIndent inputMap) (\<lambda>text. Inr (functionName, text)))"

definition keys_match :: "'k list \<Rightarrow> 'v list \<Rightarrow> unit res" where
  "keys_match inputKeys inputArgs =
     (if length inputKeys \<noteq> length inputArgs then Inl (Errorf ''input keys and input args must have the same length'')
      else Inr ())"

lemma input_map_get:
  "input_map m keys args = Inr m' \<Longrightarrow>
     gm_get m' k = (case map_of (rev (zip keys args)) k of Some v \<Rightarrow> Some v | None \<Rightarrow> gm_get m k)"
proof (induction m keys args rule: input_map.induct)
  case (3 m key keys arg args)
  then show ?case by (auto simp: gm_get_put map_add_def split: option.splits)
qed auto

lemma input_map_total: "length keys \<le> length args \<Longrightarrow> \<exists>m'. input_map m keys args = Inr m'"
  by (induction m keys args rule: input_map.induct) auto

section \<open>EVM\<close>

record 'v abi_function =
  abf_Name :: string
  abf_InputNames :: "string list"
  abf_UnpackValues :: "byte list \<Rightarrow> 'v list res"

record ('p, 'v) abi_reader =
  abr_JSON :: "string \<Rightarrow> 'p res"
  abr_MethodById :: "'p \<Rightarrow> byte list \<Rightarrow> 'v abi_function res"

record 'v evm_decoded =
  ed_FunctionName :: string
  ed_InputArgs :: "'v list"
  ed_InputKeys :: "string list"

definition evm_NewDecodedOperation :: "string \<Rightarrow> string list \<Rightarrow> 'v list \<Rightarrow> 'v evm_decoded res" where
  "evm_NewDecodedOperation functionName inputKeys inputArgs =
     bindE (keys_match inputKeys inputArgs) (\<lambda>_.
       Inr \<lparr>ed_FunctionName = functionName, ed_InputArgs = inputArgs, ed_InputKeys = inputKeys\<rparr>)"

text \<open>The four bytes of the selector are cut off without a look at the length (of data without spare capacity).\<close>

definition ParseFunctionCall :: "('p, 'v) abi_reader \<Rightarrow> string \<Rightarrow> byte list \<Rightarrow> 'v evm_decoded res" where
  "ParseFunctionCall R fullAbi data =
     bindE (abr_JSON R fullAbi) (\<lambda>parsedAbi.
     if length data < 4 then Inl (Panic ''slice bounds out of range'')
     else bindE (abr_MethodById R parsedAbi (take 4 data)) (\<lambda>meth.
          bindE (abf_UnpackValues meth (drop 4 data)) (\<lambda>inputs.
            Inr \<lparr>ed_FunctionName = abf_Name meth, ed_InputArgs = inputs, ed_InputKeys = abf_InputNames meth\<rparr>)))"

definition evm_Decode :: "('p, 'v) abi_reader \<Rightarrow> transaction \<Rightarrow> string \<Rightarrow> 'v evm_decoded res" where
  "evm_Decode R tx contractInterfaces = ParseFunctionCall R contractInterfaces (tx_Data tx)"

definition evm_MethodName :: "'v evm_decoded \<Rightarrow> string" where
  "evm_MethodName d = ed_FunctionName d"

definition evm_decoded_String :: "((string, 'v) gomap \<Rightarrow> string res) \<Rightarrow> 'v evm_decoded \<Rightarrow> (string \<times> string) res" where
  "evm_decoded_String J d = decoded_String J (ed_FunctionName d) (ed_InputKeys d) (ed_InputArgs d)"

section \<open>Aptos\<close>

record apt_function_info =
  afi_Package :: string
  afi_Module :: string
  afi_Name :: string
  afi_Parameters :: "(string \<times> string) list"

record ('g, 'v) apt_reader =
  apr_ParseFunctionInfo :: "string \<Rightarrow> apt_function_info list res"
  apr_CreateTypeTag :: "string \<Rightarrow> 'g res"
  apr_GetBcsValues :: "byte list \<Rightarrow> 'g list \<Rightarrow> 'v list res"

record 'v apt_decoded =
  ad_PackageName :: string
  ad_ModuleName :: string
  ad_FunctionName :: string
  ad_InputKeys :: "string list"
  ad_InputArgs :: "'v list"

definition apt_NewDecodedOperation :: "string \<Rightarrow> string \<Rightarrow> string \<Rightarrow> string list \<Rightarrow> 'v list \<Rightarrow> 'v apt_decoded res" where
  "apt_NewDecodedOperation packageName moduleName functionName inputKeys inputArgs =
     bindE (keys_match inputKeys inputArgs) (\<lambda>_.
       Inr \<lparr>ad_PackageName = packageName, ad_ModuleName = moduleName, ad_FunctionName = functionName,
            ad_InputKeys = inputKeys, ad_InputArgs = inputArgs\<rparr>)"

definition apt_Decode ::
  "'a aptos_pkg_scheme \<Rightarrow> ('g, 'v) apt_reader \<Rightarrow> transaction \<Rightarrow> string \<Rightarrow> 'v apt_decoded res" where
  "apt_Decode A R tx contractInterfaces =
     bindE (wrapE (Wrapf ''failed to parse function info: %w'') (apr_ParseFunctionInfo R contractInterfaces)) (\<lambda>functionInfo.
     bindE (wrapE (Wrapf ''failed to unmarshal additional fields: %w'') (AptFieldsUnmarshal A (tx_AdditionalFields tx))) (\<lambda>af.
     bindE (wrapE (Wrapf ''failed to validate additional fields: %w'') (apt_fields_Validate af)) (\<lambda>_.
     case find (\<lambda>info. afi_Package info = af_PackageName af \<and> afi_Module info = af_ModuleName af \<and>
                       afi_Name info = af_Function af) functionInfo of
       None \<Rightarrow> Inl (Errorf ''could not find function info for %s::%s::%s'')
     | Some info \<Rightarrow>
         bindE (wrapE (Wrapf ''failed to create type tag: %w'') (mapE (apr_CreateTypeTag R) (map snd (afi_Parameters info)))) (\<lambda>typeTags.
         bindE (wrapE (Wrapf ''failed to get bcs values: %w'') (apr_GetBcsValues R (tx_Data tx) typeTags)) (\<lambda>data.
           apt_NewDecodedOperation (af_PackageName af) (af_ModuleName af) (af_Function af)
             (map fst (afi_Parameters info)) data)))))"

definition apt_MethodName :: "'v apt_decoded \<Rightarrow> string" where
  "apt_MethodName d = ad_PackageName d @ ''::'' @ ad_ModuleName d @ ''::'' @ ad_FunctionName d"

definition apt_decoded_String :: "((string, 'v) gomap \<Rightarrow> string res) \<Rightarrow> 'v apt_decoded \<Rightarrow> (string \<times> string) res" where
  "apt_decoded_String J d = decoded_String J (ad_FunctionName d) (ad_InputKeys d) (ad_InputArgs d)"

section \<open>Sui\<close>

record sui_function_info =
  sfi_Module :: string
  sfi_Name :: string
  sfi_Parameters :: "string list \<times> string list"

record 'v sui_reader =
  sur_UnmarshalInfos :: "string \<Rightarrow> sui_function_info list res"
  sur_DeserializeBCS :: "byte list \<Rightarrow> string list \<Rightarrow> 'v list res"

record 'v sui_decoded =
  sd_ModuleName :: string
  sd_FunctionName :: string
  sd_InputKeys :: "string list"
  sd_InputArgs :: "'v list"

definition sui_NewDecodedOperation :: "string \<Rightarrow> string \<Rightarrow> string list \<Rightarrow> 'v list \<Rightarrow> 'v sui_decoded res" where
  "sui_NewDecodedOperation moduleName functionName inputKeys inputArgs =
     bindE (keys_match inputKeys inputArgs) (\<lambda>_.
       Inr \<lparr>sd_ModuleName = moduleName, sd_FunctionName = functionName, sd_InputKeys = inputKeys, sd_InputArgs = inputArgs\<rparr>)"

definition sui_Decode :: "'s sui_pkg_scheme \<Rightarrow> 'v sui_reader \<Rightarrow> transaction \<Rightarrow> string \<Rightarrow> 'v sui_decoded res" where
  "sui_Decode S R tx contractInterfaces =
     bindE (sur_UnmarshalInfos R contractInterfaces) (\<lambda>fInfos.
     bindE (wrapE (Wrapf ''failed to unmarshal additional fields: %w'') (SuiFieldsUnmarshal S (tx_AdditionalFields tx))) (\<lambda>af.
     bindE (wrapE (Wrapf ''failed to validate additional fields: %w'') (sui_fields_Validate af)) (\<lambda>_.
     case find (\<lambda>info. sfi_Module info = sf_ModuleName af \<and> sfi_Name info = sf_Function af) fInfos of
       None \<Rightarrow> Inl (Errorf ''could not find function in contractInterfaces for %s::%s'')
     | Some info \<Rightarrow>
         (case sfi_Parameters info of (parNames, parTypes) \<Rightarrow>
            bindE (wrapE (Wrapf ''failed to deserialize BCS data: %w'') (sur_DeserializeBCS R (tx_Data tx) parTypes)) (\<lambda>parValues.
              sui_NewDecodedOperation (sf_ModuleName af) (sf_Function af) parNames parValues)))))"

definition sui_MethodName :: "'v sui_decoded \<Rightarrow> string" where
  "sui_MethodName d = sd_ModuleName d @ ''::'' @ sd_FunctionName d"

definition sui_decoded_String :: "((string, 'v) gomap \<Rightarrow> string res) \<Rightarrow> 'v sui_decoded \<Rightarrow> (string \<times> string) res" where
  "sui_decoded_String J d = decoded_String J (sd_FunctionName d) (sd_InputKeys d) (sd_InputArgs d)"

section \<open>TON\<close>

text \<open>What a message decodes to: a map of its fields, or something else. A field that is not in the map is nil.\<close>

datatype 'v ton_any = TonMap "(string, 'v) gomap" | TonOther 'v

record ('c, 'l, 'v) ton_reader =
  tnr_Empty :: "'c \<Rightarrow> bool"
  tnr_DecodeTLBValToJSON :: "'c \<Rightarrow> 'l \<Rightarrow> (string \<times> 'v ton_any) res"
  tnr_DecodeTLBStructKeys :: "'c \<Rightarrow> 'l \<Rightarrow> string list res"
  tnr_ExtractOpcode :: "'c \<Rightarrow> u32 res"

record 'v ton_decoded =
  td_ContractType :: string
  td_MsgType :: string
  td_MsgOpcode :: u32
  td_MsgDecoded :: "'v ton_any"
  td_InputKeys :: "string list"
  td_InputArgs :: "'v option list"

definition ton_NewDecodedOperation ::
  "string \<Rightarrow> string \<Rightarrow> u32 \<Rightarrow> 'v ton_any \<Rightarrow> string list \<Rightarrow> 'v option list \<Rightarrow> 'v ton_decoded res" where
  "ton_NewDecodedOperation contractType msgType msgOpcode msgDecoded inputKeys inputArgs =
     bindE (keys_match inputKeys inputArgs) (\<lambda>_.
       Inr \<lparr>td_ContractType = contractType, td_MsgType = msgType, td_MsgOpcode = msgOpcode, td_MsgDecoded = msgDecoded,
            td_InputKeys = inputKeys, td_InputArgs = inputArgs\<rparr>)"

definition ton_Decode ::
  "('a, 'c, 'b, 'd) ton_pkg \<Rightarrow> ('c, 'l, 'v) ton_reader \<Rightarrow> (string, 'l) gomap \<Rightarrow> transaction \<Rightarrow> string \<Rightarrow> 'v ton_decoded res" where
  "ton_Decode T R typeToTLBMap tx contractInterfaces =
     bindE (wrapE (Wrapf ''invalid cell BOC data: %w'') (FromBOC T (tx_Data tx))) (\<lambda>datac.
     if tnr_Empty R datac then ton_NewDecodedOperation contractInterfaces [] 0 (TonMap []) [] []
     else case gm_get typeToTLBMap contractInterfaces of
       None \<Rightarrow> Inl (Errorf ''decoding failed - unknown contract interface: %s'')
     | Some tlbs \<Rightarrow>
         bindE (wrapE (Wrapf ''error while JSON decoding message (cell) for contract %s: %w'')
                  (tnr_DecodeTLBValToJSON R datac tlbs)) (\<lambda>(msgType, msgDecoded).
         if msgType = ''Cell'' \<or> msgType = ''<nil>'' then Inl (Errorf ''failed to decode message for contract %s: %w'')
         else
           bindE (wrapE (Wrapf ''error while (struct) decoding message (cell) for contract %s: %w'')
                    (tnr_DecodeTLBStructKeys R datac tlbs)) (\<lambda>keys.
           case msgDecoded of
             TonOther _ \<Rightarrow> Inl (Errorf ''failed to cast as map %s: %w'')
           | TonMap m \<Rightarrow>
               bindE (wrapE (Wrapf ''failed to extract opcode: %w'') (tnr_ExtractOpcode R datac)) (\<lambda>msgOpcode.
                 ton_NewDecodedOperation contractInterfaces msgType msgOpcode msgDecoded keys (map (gm_get m) keys)))))"

text \<open>\<open>%x\<close> of a number.\<close>

fun nat_hex :: "nat \<Rightarrow> string" where
  "nat_hex n = (if n < 16 then [hex_digit n] else nat_hex (n div 16) @ [hex_digit (n mod 16)])"

declare nat_hex.simps [simp del]

definition ton_MethodName :: "'v ton_decoded \<Rightarrow> string" where
  "ton_MethodName d = td_ContractType d @ ''::'' @ td_MsgType d @ ''(0x'' @ nat_hex (unat (td_MsgOpcode d)) @ '')''"

definition ton_decoded_String :: "('v ton_any \<Rightarrow> string res) \<Rightarrow> 'v ton_decoded \<Rightarrow> (string \<times> string) res" where
  "ton_decoded_String MarshalIndent d =
     bindE (wrapE (Wrapf ''failed to JSON marshal the decoded op: %w'') (MarshalIndent (td_MsgDecoded d))) (\<lambda>text.
       Inr (ton_MethodName d, text))"

section \<open>The registry of Canton's choices\<close>

text \<open>The packages of generated bindings, of which each declares an encoder; its methods are looked up by name.\<close>

datatype canton_package =
    CorePkg | CcipRuntimePkg | CommitteeVerifierPkg | SenderPkg | ReceiverPkg | BurnMintTokenPoolPkg
  | LockReleaseTokenPoolPkg | ExecutorPkg | FactoryPkg | CoinPkg | LinkPkg | McmsCorePkg | McmsApiPkg

definition mcmsEncoders :: "canton_package list" where
  "mcmsEncoders =
     [CorePkg, CcipRuntimePkg, CommitteeVerifierPkg, SenderPkg, ReceiverPkg, BurnMintTokenPoolPkg,
      LockReleaseTokenPoolPkg, ExecutorPkg, FactoryPkg, CoinPkg, LinkPkg, McmsCorePkg, McmsApiPkg]"

definition encoderByContract :: "(string, canton_package) gomap" where
  "encoderByContract =
     [(''BurnMintTokenPool'', BurnMintTokenPoolPkg), (''LockReleaseTokenPool'', LockReleaseTokenPoolPkg),
      (''CommitteeVerifier'', CommitteeVerifierPkg), (''Executor'', ExecutorPkg), (''CCIPFactory'', FactoryPkg),
      (''CCIPSender'', SenderPkg), (''CCIPReceiver'', ReceiverPkg), (''PerPartyRouterFactory'', CcipRuntimePkg),
      (''OnRamp'', CcipRuntimePkg), (''OffRamp'', CcipRuntimePkg), (''GlobalConfig'', CorePkg), (''FeeQuoter'', CorePkg),
      (''RMNRemote'', CorePkg), (''TokenAdminRegistry'', CorePkg), (''CoinRegistry'', CoinPkg), (''LinkRegistry'', LinkPkg),
      (''MCMS'', McmsApiPkg)]"

text \<open>
  \<open>cab_MethodArg\<close> is the type of the first argument of a method, if the encoder has it. A type may lack the methods
  that read and write it.
\<close>

record ('t, 'v) canton_bindings =
  cab_MethodArg :: "canton_package \<Rightarrow> string \<Rightarrow> 't option"
  cab_UnmarshalHex :: "'t \<Rightarrow> (string \<Rightarrow> 'v res) option"
  cab_MarshalHex :: "'t \<Rightarrow> ('v \<Rightarrow> string res) option"

definition candidateArgTypes :: "('t, 'v) canton_bindings \<Rightarrow> string \<Rightarrow> string \<Rightarrow> 't list" where
  "candidateArgTypes B contractType choice =
     (let encoders = (case gm_get encoderByContract contractType of None \<Rightarrow> [] | Some enc \<Rightarrow> [enc]) @ mcmsEncoders;
          found = concat (map (\<lambda>enc. List.map_filter (cab_MethodArg B enc) [choice @ ''MCMSParams'', choice @ ''Params'', choice]) encoders)
      in dedup_seen {} found)"

definition roundTrips :: "('t, 'v) canton_bindings \<Rightarrow> 't \<Rightarrow> 'v \<Rightarrow> byte list \<Rightarrow> bool" where
  "roundTrips B t v raw \<longleftrightarrow>
     (case cab_MarshalHex B t of
        None \<Rightarrow> False
      | Some marshal \<Rightarrow> (case marshal v of Inl _ \<Rightarrow> False | Inr out \<Rightarrow> out = bytes_text raw))"

text \<open>What reading the bytes as a candidate gives.\<close>

definition read_candidate :: "('t, 'v) canton_bindings \<Rightarrow> byte list \<Rightarrow> 't \<Rightarrow> 'v option" where
  "read_candidate B raw t =
     (case cab_UnmarshalHex B t of
        None \<Rightarrow> None
      | Some unmarshal \<Rightarrow> (case unmarshal (hex_encode raw) of Inl _ \<Rightarrow> None | Inr v \<Rightarrow> Some v))"

fun try_candidates :: "('t, 'v) canton_bindings \<Rightarrow> byte list \<Rightarrow> ('t \<times> 'v) option \<Rightarrow> nat \<Rightarrow> 't list \<Rightarrow> ('t \<times> 'v) res" where
  "try_candidates B raw decodedOnce decodedCount [] =
     (if decodedCount = 1 then deref decodedOnce
      else if decodedCount > 1
      then Inl (Errorf ''ambiguous operationData for %s::%s: %d candidate types decoded but none round-tripped'')
      else Inl (Errorf ''could not decode operationData for %s::%s with any candidate type''))"
| "try_candidates B raw decodedOnce decodedCount (t # ts) =
     (case read_candidate B raw t of
        None \<Rightarrow> try_candidates B raw decodedOnce decodedCount ts
      | Some v \<Rightarrow>
          if roundTrips B t v raw then Inr (t, v)
          else try_candidates B raw (case decodedOnce of None \<Rightarrow> Some (t, v) | Some p \<Rightarrow> Some p) (Suc decodedCount) ts)"

definition decodeOperationData :: "('t, 'v) canton_bindings \<Rightarrow> string \<Rightarrow> string \<Rightarrow> byte list \<Rightarrow> ('t \<times> 'v) res" where
  "decodeOperationData B contractType choice raw =
     (let candidates = candidateArgTypes B contractType choice in
      if candidates = [] then Inl (Errorf ''no registered choice %q for contract %q'')
      else try_candidates B raw None 0 candidates)"

text \<open>All candidates that read the bytes, and those of them that write the same bytes again.\<close>

definition readings :: "('t, 'v) canton_bindings \<Rightarrow> byte list \<Rightarrow> 't list \<Rightarrow> ('t \<times> 'v) list" where
  "readings B raw ts = List.map_filter (\<lambda>t. map_option (\<lambda>v. (t, v)) (read_candidate B raw t)) ts"

lemma readings_simps [simp]:
  "readings B raw [] = []"
  "readings B raw (t # ts) =
     (case read_candidate B raw t of None \<Rightarrow> readings B raw ts | Some v \<Rightarrow> (t, v) # readings B raw ts)"
  by (simp_all add: readings_def List.map_filter_def split: option.splits)

text \<open>What the loop makes of the readings if none of them writes the same bytes.\<close>

fun only_reading :: "('t \<times> 'v) list \<Rightarrow> ('t \<times> 'v) res" where
  "only_reading [] = Inl (Errorf ''could not decode operationData for %s::%s with any candidate type'')"
| "only_reading [p] = Inr p"
| "only_reading (p # q # ps) =
     Inl (Errorf ''ambiguous operationData for %s::%s: %d candidate types decoded but none round-tripped'')"

definition first_of :: "'p list \<Rightarrow> 'p option" where
  "first_of ps = (case ps of [] \<Rightarrow> None | p # _ \<Rightarrow> Some p)"

lemma first_of_snoc: "(case first_of ps of None \<Rightarrow> Some p | Some q \<Rightarrow> Some q) = first_of (ps @ [p])"
  by (cases ps) (simp_all add: first_of_def)

lemma try_candidates_spec:
  "try_candidates B raw (first_of ps) (length ps) ts =
     (case find (\<lambda>(t, v). roundTrips B t v raw) (readings B raw ts) of
        Some p \<Rightarrow> Inr p
      | None \<Rightarrow> only_reading (ps @ readings B raw ts))"
proof (induction ts arbitrary: ps)
  case Nil
  show ?case by (cases ps rule: only_reading.cases) (simp_all add: first_of_def)
next
  case (Cons t ts)
  show ?case
  proof (cases "read_candidate B raw t")
    case None
    with Cons show ?thesis by (simp cong: option.case_cong)
  next
    case (Some v)
    have "try_candidates B raw (first_of (ps @ [(t, v)])) (Suc (length ps)) ts =
        (case find (\<lambda>(t, v). roundTrips B t v raw) (readings B raw ts) of
           Some p \<Rightarrow> Inr p
         | None \<Rightarrow> only_reading ((ps @ [(t, v)]) @ readings B raw ts))"
      using Cons.IH [of "ps @ [(t, v)]"] by simp
    with Some show ?thesis by (simp add: first_of_snoc cong: option.case_cong)
  qed
qed

text \<open>
  The arguments of a Canton operation are those of the first candidate type that reads the bytes and writes
  exactly them again, whatever other types read them too; without such a type they are decoded only if a single
  candidate reads them.
\<close>

theorem decodeOperationData_exact:
  assumes "candidateArgTypes B contractType choice = ts" and "ts \<noteq> []"
  shows "decodeOperationData B contractType choice raw =
    (case find (\<lambda>(t, v). roundTrips B t v raw) (readings B raw ts) of
       Some p \<Rightarrow> Inr p
     | None \<Rightarrow> only_reading (readings B raw ts))"
  using assms try_candidates_spec [of B raw "[]" ts] by (simp add: decodeOperationData_def first_of_def cong: option.case_cong)

section \<open>Canton\<close>

text \<open>
  UTF-8 as Go's \<open>unicode/utf8\<close> reads it: no overlong forms, no surrogates, nothing beyond U+10FFFF. \<open>None\<close> is
  a text that is not valid.
\<close>

definition continuation :: "byte \<Rightarrow> bool" where
  "continuation b \<longleftrightarrow> 0x80 \<le> b \<and> b \<le> 0xbf"

definition low6 :: "byte \<Rightarrow> nat" where
  "low6 b = unat b mod 64"

fun utf8_runes :: "byte list \<Rightarrow> nat list option" where
  "utf8_runes [] = Some []"
| "utf8_runes (a # bs) =
     (if a < 0x80 then map_option (Cons (unat a)) (utf8_runes bs)
      else if 0xc2 \<le> a \<and> a \<le> 0xdf then
        (case bs of
           b # bs' \<Rightarrow> if continuation b then map_option (Cons ((unat a mod 32) * 64 + low6 b)) (utf8_runes bs') else None
         | _ \<Rightarrow> None)
      else if 0xe0 \<le> a \<and> a \<le> 0xef then
        (case bs of
           b # c # bs' \<Rightarrow>
             if continuation b \<and> continuation c \<and> (a = 0xe0 \<longrightarrow> 0xa0 \<le> b) \<and> (a = 0xed \<longrightarrow> b \<le> 0x9f)
             then map_option (Cons (((unat a mod 16) * 64 + low6 b) * 64 + low6 c)) (utf8_runes bs') else None
         | _ \<Rightarrow> None)
      else if 0xf0 \<le> a \<and> a \<le> 0xf4 then
        (case bs of
           b # c # d # bs' \<Rightarrow>
             if continuation b \<and> continuation c \<and> continuation d \<and> (a = 0xf0 \<longrightarrow> 0x90 \<le> b) \<and> (a = 0xf4 \<longrightarrow> b \<le> 0x8f)
             then map_option (Cons ((((unat a mod 8) * 64 + low6 b) * 64 + low6 c) * 64 + low6 d)) (utf8_runes bs') else None
         | _ \<Rightarrow> None)
      else None)"

text \<open>The table of printable characters of \<open>unicode.IsPrint\<close> is a parameter.\<close>

definition containsControlBytes :: "(nat \<Rightarrow> bool) \<Rightarrow> nat list \<Rightarrow> bool" where
  "containsControlBytes IsPrint runes \<longleftrightarrow>
     list_ex (\<lambda>r. r < 0x20 \<and> r \<noteq> 9 \<and> r \<noteq> 10 \<and> r \<noteq> 13 \<or> \<not> IsPrint r \<and> r \<noteq> 9 \<and> r \<noteq> 10 \<and> r \<noteq> 13) runes"

text \<open>
  A value as package \<open>reflect\<close> presents it, as far as the code tells kinds apart. A field has its name, whether it
  is exported, its JSON tag and its value; a map has the text of each key; any other value has its text.
\<close>

datatype reflected =
    RPointer "reflected option"
  | RString "byte list"
  | RBool bool
  | RInt int
  | RUint nat
  | RFloat rat
  | RSlice "reflected list option"
  | RMap "(string \<times> reflected) list"
  | RStruct "(string \<times> bool \<times> string \<times> reflected) list"
  | ROther string

datatype display =
    DNil
  | DText string
  | DBool bool
  | DInt int
  | DUint nat
  | DFloat rat
  | DList "display list"
  | DMap "(string, display) gomap"

definition field_name :: "string \<Rightarrow> string \<Rightarrow> string" where
  "field_name name tag = (if tag \<noteq> [] \<and> tag \<noteq> ''-'' then hd (split_on (CHR '','') tag) else name)"

fun toDisplayArg :: "(nat \<Rightarrow> bool) \<Rightarrow> reflected \<Rightarrow> display" where
  "toDisplayArg P (RPointer None) = DNil"
| "toDisplayArg P (RPointer (Some v)) = toDisplayArg P v"
| "toDisplayArg P (RString s) =
     (case utf8_runes s of
        None \<Rightarrow> DText (''0x'' @ hex_encode s)
      | Some runes \<Rightarrow> if containsControlBytes P runes then DText (''0x'' @ hex_encode s) else DText (bytes_text s))"
| "toDisplayArg P (RBool b) = DBool b"
| "toDisplayArg P (RInt i) = DInt i"
| "toDisplayArg P (RUint n) = DUint n"
| "toDisplayArg P (RFloat q) = DFloat q"
| "toDisplayArg P (RSlice None) = DList []"
| "toDisplayArg P (RSlice (Some vs)) = DList (map (toDisplayArg P) vs)"
| "toDisplayArg P (RMap kvs) = DMap (foldl (\<lambda>m (k, v). gm_put k v m) [] (map (\<lambda>(k, v). (k, toDisplayArg P v)) kvs))"
| "toDisplayArg P (RStruct fs) =
     DMap (foldl (\<lambda>m (name, exported, tag, v). if exported then gm_put (field_name name tag) v m else m) []
             (map (\<lambda>(name, exported, tag, v). (name, exported, tag, toDisplayArg P v)) fs))"
| "toDisplayArg P (ROther s) = DText s"

fun pointee :: "reflected \<Rightarrow> reflected option" where
  "pointee (RPointer None) = None"
| "pointee (RPointer (Some v)) = pointee v"
| "pointee v = Some v"

definition fieldsOf :: "(nat \<Rightarrow> bool) \<Rightarrow> reflected \<Rightarrow> string list \<times> display list" where
  "fieldsOf P v =
     (case pointee v of
        Some (RStruct fs) \<Rightarrow>
          (let exported = filter (\<lambda>(name, exported, tag, v). exported) fs in
           (map (\<lambda>(name, exported, tag, v). field_name name tag) exported,
            map (\<lambda>(name, exported, tag, v). toDisplayArg P v) exported))
      | _ \<Rightarrow> ([], []))"

definition contractTypeFromFields :: "canton_fields \<Rightarrow> string \<Rightarrow> string \<Rightarrow> string" where
  "contractTypeFromFields af contractInterfaces txContractType =
     (let other = (if contractInterfaces \<noteq> [] then contractInterfaces else txContractType) in
      if cnf_TargetTemplateID af \<noteq> [] then
        (case ParseTemplateIDFromString (cnf_TargetTemplateID af) of
           Inr (_, _, entity) \<Rightarrow> if entity \<noteq> [] then entity else other
         | Inl _ \<Rightarrow> other)
      else other)"

record canton_decoded =
  cd_ContractType :: string
  cd_FunctionName :: string
  cd_InputKeys :: "string list"
  cd_InputArgs :: "display list"

definition canton_NewDecodedOperation :: "string \<Rightarrow> string \<Rightarrow> string list \<Rightarrow> display list \<Rightarrow> canton_decoded res" where
  "canton_NewDecodedOperation contractType functionName inputKeys inputArgs =
     bindE (keys_match inputKeys inputArgs) (\<lambda>_.
       Inr \<lparr>cd_ContractType = contractType, cd_FunctionName = functionName, cd_InputKeys = inputKeys, cd_InputArgs = inputArgs\<rparr>)"

text \<open>\<open>fields_Validate\<close> is the validation of \<open>Canton\<close>; \<open>reflect\<close> presents a value of the bindings.\<close>

definition canton_Decode ::
  "'s canton_pkg_scheme \<Rightarrow> ('t, 'v) canton_bindings \<Rightarrow> ('t \<times> 'v \<Rightarrow> reflected) \<Rightarrow> (nat \<Rightarrow> bool) \<Rightarrow> transaction \<Rightarrow> string \<Rightarrow>
     canton_decoded res" where
  "canton_Decode S B reflect P tx contractInterfaces =
     bindE (wrapE (Wrapf ''failed to unmarshal Canton additional fields: %w'') (CantonFieldsUnmarshal S (tx_AdditionalFields tx))) (\<lambda>af.
     bindE (wrapE (Wrapf ''invalid Canton additional fields: %w'') (canton_fields_Validate af)) (\<lambda>_.
     if cnf_FunctionName af = [] then Inl (Errorf ''canton operation has no functionName to decode'')
     else let contractType = contractTypeFromFields af contractInterfaces (tx_ContractType tx) in
       bindE (decodeOperationData B contractType (cnf_FunctionName af) (tx_Data tx)) (\<lambda>decoded.
       case fieldsOf P (reflect decoded) of
         (keys, args) \<Rightarrow> canton_NewDecodedOperation contractType (cnf_FunctionName af) keys args)))"

definition canton_MethodName :: "canton_decoded \<Rightarrow> string" where
  "canton_MethodName d =
     (if cd_ContractType d = [] then cd_FunctionName d else cd_ContractType d @ ''::'' @ cd_FunctionName d)"

definition canton_decoded_String :: "((string, display) gomap \<Rightarrow> string res) \<Rightarrow> canton_decoded \<Rightarrow> (string \<times> string) res" where
  "canton_decoded_String J d = decoded_String J (cd_FunctionName d) (cd_InputKeys d) (cd_InputArgs d)"

lemma fieldsOf_lengths: "fieldsOf P v = (keys, args) \<Longrightarrow> length keys = length args"
  by (auto simp: fieldsOf_def Let_def split: option.splits reflected.splits)

text \<open>
  A decoded Canton operation never fails for want of an argument, and its text is always the text of a map.
\<close>

theorem canton_decoded_shown:
  assumes "canton_Decode S B reflect P tx contractInterfaces = Inr d"
  shows "length (cd_InputKeys d) = length (cd_InputArgs d) \<and>
    (\<exists>m. canton_decoded_String J d = bindE (J m) (\<lambda>text. Inr (cd_FunctionName d, text)))"
proof -
  from assms obtain contractType functionName decoded where
    "(case fieldsOf P (reflect decoded) of
        (keys, args) \<Rightarrow> canton_NewDecodedOperation contractType functionName keys args) = Inr d"
    by (auto simp: canton_Decode_def bindE_Inr_iff Let_def split: if_splits)
  then have "length (cd_InputKeys d) = length (cd_InputArgs d)"
    by (cases "fieldsOf P (reflect decoded)")
      (auto simp: canton_NewDecodedOperation_def keys_match_def bindE_Inr_iff split: if_splits)
  moreover from this obtain m where "input_map [] (cd_InputKeys d) (cd_InputArgs d) = Inr m"
    using input_map_total [of "cd_InputKeys d" "cd_InputArgs d" "[]"] by auto
  ultimately show ?thesis by (auto simp: canton_decoded_String_def decoded_String_def)
qed

text \<open>
  The arguments of an EVM call are shown by the names of the ABI, which may be empty: of several without a name
  only the last is left.
\<close>

theorem unnamed_arguments_lost:
  assumes "length args = Suc n"
  shows "input_map [] (replicate (Suc n) []) args = Inr [([], args ! n)]"
proof -
  have "input_map [([], x)] (replicate n []) args = Inr [([], (x # args) ! n)]" if "length args = n" for x and args :: "'a list"
    using that by (induction args arbitrary: x n) auto
  with assms show ?thesis by (cases args) auto
qed

end
