(* ===== verification/Spec2Isabelle.thy ===== *)
theory Spec2Isabelle
  imports Prelude Errors Config SafeCast ConfigHelpers EvmConfig Merkle Signature ChainTypes Abi Evm
    Factory Proposal Executable Signable TimelockProposal Merge TimelockExecutable Builder
    GoText ExecutionError EvmClient ByteCode Solana SolanaConverter SolanaRpc SolanaClient
    SolanaConfigurer SolanaExecution SolanaAdmin Bcs Aptos AptosClient AptosExecution HexText Sui
    SuiClient SuiExecution Canton CantonClient CantonExecution Leaves Ton
    TonClient TonExecution Families Stellar Wrappers Ledger LedgerTransport LedgerApp UsbWallet
    Decoders
begin

text \<open>
  \<^bold>\<open>A model of the Go library \<open>mcms\<close>.\<close>

  The library prepares, signs and executes proposals for ManyChainMultiSig (MCM) contracts on several
  chains at once. A proposal lists operations per chain; its signers sign one Merkle root that
  covers the metadata of every chain and every operation; anyone may then set the root on each chain
  and execute the operations with their proofs. A timelock proposal lists batches which are first
  converted to MCM operations that schedule, cancel or bypass them in an RBACTimelock contract. Seven
  families of chains are supported, each with its own encoding of leaves and batches and its own clients.

  \<^bold>\<open>Parts and theories\<close>, in the order of their dependence:

  \<^item> \<open>Prelude\<close>: results as sums, loops with early return (\<open>mapE\<close>, \<open>foldE\<close>, \<open>allE\<close>), calls that act on a
    world (\<open>bindW\<close>), Go maps as association lists without an order that matters (\<open>gomap\<close>), big-endian bytes.
  \<^item> \<open>Errors\<close>: \<open>errors.go\<close>, \<open>sdk/errors/errors.go\<close>. A run-time panic is the error value \<open>Panic\<close>.
  \<^item> \<open>Config\<close>: \<open>types/config.go\<close>, the tree of signers with quorums. \<open>SafeCast\<close>:
    \<open>internal/utils/safecast\<close>. \<open>ConfigHelpers\<close>: \<open>sdk/confighelpers.go\<close>, the tree as flat arrays.
    \<open>EvmConfig\<close>: \<open>sdk/evm/config_transformer.go\<close>, the arrays on chain and back.
  \<^item> \<open>Merkle\<close>: \<open>internal/core/merkle/tree.go\<close>.
  \<^item> \<open>Signature\<close>: \<open>types/signature.go\<close> and the list operations on signatures of \<open>proposal.go\<close>,
    \<open>sdk/evm/utils.go\<close> and \<open>sdk/solana/executor.go\<close>.
  \<^item> \<open>ChainTypes\<close>: \<open>types/chain.go\<close>, \<open>chain_selector.go\<close>, \<open>operation.go\<close>, \<open>timelock.go\<close>. \<open>Abi\<close>:
    \<open>internal/utils/abi/encoding.go\<close>. \<open>Evm\<close>: \<open>sdk/evm/encoder.go\<close>, \<open>transaction.go\<close>,
    \<open>timelock_converter.go\<close> and \<open>getEVMChainID\<close>. \<open>Factory\<close>: \<open>factory.go\<close>, \<open>validation.go\<close>,
    \<open>chainwrappers/converters.go\<close>, the choice of a family's code.
  \<^item> \<open>Proposal\<close>: \<open>proposal.go\<close>, \<open>utils.go\<close>. \<open>Executable\<close>: \<open>executable.go\<close>. \<open>Signable\<close>: \<open>signable.go\<close> and the
    private key signer of \<open>signer.go\<close>. \<open>TimelockProposal\<close>: \<open>timelock_proposal.go\<close>. \<open>Merge\<close>: \<open>merge.go\<close>.
    \<open>TimelockExecutable\<close>: \<open>timelock_executable.go\<close>. \<open>Builder\<close>: \<open>builder.go\<close>, \<open>builder_timelock.go\<close>.
  \<^item> EVM: \<open>GoText\<close> has the text functions and regular expressions that \<open>ExecutionError\<close> uses for
    \<open>sdk/evm/execution_error.go\<close>. \<open>EvmClient\<close>: inspectors, executors, configurers and simulator of
    \<open>sdk/evm\<close> and their composition with \<open>Executable\<close> down to the contract's proof check.
  \<^item> Solana, \<open>sdk/solana\<close>: \<open>ByteCode\<close> (codes that can be told apart after concatenation), \<open>Solana\<close> (addresses,
    leaves, configurations), \<open>SolanaConverter\<close> (batches as instructions of the timelock program),
    \<open>SolanaRpc\<close> (sending with retries), \<open>SolanaClient\<close>, \<open>SolanaConfigurer\<close>; \<open>SolanaExecution\<close> and
    \<open>SolanaAdmin\<close> hold what they achieve on a program that checks as the on-chain one does.
  \<^item> Aptos and Sui, \<open>sdk/aptos\<close>, \<open>sdk/sui\<close>: \<open>Bcs\<close> (the serialised forms), \<open>Aptos\<close>, \<open>AptosClient\<close>,
    \<open>AptosExecution\<close>; \<open>HexText\<close>, \<open>Sui\<close>, \<open>SuiClient\<close> (blocks of commands built step by step),
    \<open>SuiExecution\<close>. \<open>Leaves\<close>: leaves of both families on one tree.
  \<^item> Canton, \<open>sdk/canton\<close>: \<open>Canton\<close>, \<open>CantonClient\<close>, \<open>CantonExecution\<close>. TON, \<open>sdk/ton\<close>: \<open>Ton\<close>, \<open>TonClient\<close>,
    \<open>TonExecution\<close>. Stellar, \<open>sdk/stellar\<close>: \<open>Stellar\<close>.
  \<^item> \<open>Families\<close>: one dispatch that has the models of all families at once, and what the conversion, the ids and
    the cancellation of a timelock proposal are on any mixture of them.
  \<^item> \<open>Wrappers\<close>: \<open>chainwrappers\<close>, which clients are built for which chain.
  \<^item> \<open>Ledger\<close>: the driver of \<open>sdk/usbwallet\<close>; \<open>LedgerTransport\<close> and \<open>LedgerApp\<close>: the device it talks to, as its
    protocol specifies it; \<open>UsbWallet\<close>: the wallets, the hub, and the Ledger signer of \<open>signer.go\<close>.
  \<^item> \<open>Decoders\<close>: \<open>decoder.go\<close> and \<open>decoded_operation.go\<close> of the families, \<open>sdk/canton/registry.go\<close>; what
    \<open>Decode\<close> of \<open>Proposal\<close> and \<open>TimelockProposal\<close> is given.

  \<^bold>\<open>State.\<close> Structs are records, a method with a pointer receiver that writes returns the new record.
  Where two structs share a map (\<open>deriveNewProposal\<close>) the function returns both. Clients act on a
  world of any type, passed through. Integers keep their width as words; sums of counts and nonces
  wrap as they do in Go. A Go \<open>int\<close> index is an \<open>int\<close>, with the panic of a bad index written out.

  \<^bold>\<open>Parameters.\<close> What is not under \<open>src/\<close> is a field of a record that each layer extends or adds:
  \<open>cast_pkg\<close> (\<open>spf13/cast\<close>), \<open>crypto_pkg\<close> (keccak and secp256k1), \<open>geth_pkg\<close> (ABI packing, hex
  addresses, the registry of chains), \<open>mcms_env\<close> (the clock, and the families in the dispatch);
  \<open>solana_env\<close>, \<open>solana_tl_env\<close>, \<open>solana_mcm_env\<close> and \<open>sol_rpc\<close>; \<open>bcs_pkg\<close>, \<open>aptos_pkg\<close> and \<open>aptos_client\<close>;
  \<open>sui_pkg\<close>, \<open>ptb_pkg\<close>, \<open>bcs_reader\<close> and \<open>sui_client\<close>; \<open>canton_pkg\<close> and \<open>canton_client\<close>; \<open>ton_pkg\<close> and
  \<open>ton_client\<close>; \<open>stellar_pkg\<close>; \<open>evm_backend\<close>; \<open>chain_accessor\<close>; \<open>usb_env\<close> and \<open>tx_pkg\<close>. The functions \<open>with_solana\<close>,
  \<open>with_aptos\<close>, \<open>with_sui\<close>, \<open>with_canton\<close> and \<open>with_ton\<close> put the models of the families into the dispatch of
  \<open>Factory\<close>. Struct-tag validation and the text of JSON are parameters too. Hypotheses about them are
  definitions with \<open>documented\<close> in their name, or the laws of the locales \<open>family_converter\<close>,
  \<open>config_transformer\<close>, \<open>queueable\<close>, \<open>go_map\<close>, \<open>pair_hash\<close> and \<open>byte_code\<close>, each of which is interpreted on the
  model. Collision freedom of keccak is never assumed: where it matters the alternative of a theorem
  exhibits the collision. The \<open>sample_\<close> definitions instantiate all parameters with concrete functions,
  on which every property with a hypothesis has a witness.

  \<^bold>\<open>Termination.\<close> No fuel is used. Every function is total by structural recursion or a measure, with four
  exceptions, where the loop of the code may run forever and \<open>None\<close> says that it does: \<open>chunk_loop\<close> of
  \<open>Solana\<close>, \<open>read_reply\<close> and \<open>exchange_chunks\<close> of \<open>Ledger\<close>, and \<open>discover_base\<close> of \<open>UsbWallet\<close>. That the
  first three return is part of what is proved; the last goes on while the chain knows the accounts it asks for.

  \<^bold>\<open>What the lemmas show.\<close>

  \<^item> Configurations: what equality and quorums decide, and that they survive the arrays of the contracts.
  \<^item> Trees and leaves: proofs are complete and sound; leaves with the same hash agree in every part.
  \<^item> Proposals: nonces, trees that do not depend on the order of a map, execution that succeeds on a contract
    which checks proofs; conversion of timelock proposals, ids of operations and their chain, derivation of
    cancellations, merges.
  \<^item> Signing: the quorum check decides what the contract will; a Ledger signs exactly the payload.
  \<^item> Each family: an operation or a root that the code sends passes the check of the contract, what a
    timelock executes is what was scheduled, a configuration that was set is read back, retries are bounded.
  \<^item> Building of clients: each chain gets clients of its family with its own settings.

  \<^bold>\<open>Not modelled.\<close> Error texts: an error is its kind and, where the code uses \<open>fmt.Errorf\<close>, its format. The
  text of JSON and of durations, files, logging and contexts. The packages by which decoders read arguments. Methods \<open>Equal\<close> that compare pointers.
  Zksync, which is generated bindings only, as \<open>sdk/evm/bindings\<close> is. The event subscriptions of USB
  wallets and the handshake by which closing one waits for its goroutines. Tests, mocks and their helpers.
\<close>

end
